(* ===== verification/Prelude.thy ===== *)
theory Prelude
  imports Main "HOL-Library.Word" "HOL-Library.Monad_Syntax"
begin

text \<open>
  What every component shares: machine integers with Rust's checked operations, the string
  predicates of the standard library on UTF-8 byte lists, results as sums, the list idioms
  of the code (\<open>windows(2)\<close>, uniqueness of an iterator), and the generic lemmas about them.

  A Rust \<open>String\<close> is a \<open>string\<close> here, one \<open>char\<close> per byte of its UTF-8 encoding.
\<close>

named_theorems checked_arith \<open>what a successful checked operation returns\<close>
named_theorems single_facts \<open>the element a unique iterator yields\<close>

section \<open>Machine integers\<close>

type_synonym u8 = "8 word"
type_synonym u32 = "32 word"
type_synonym u64 = "64 word"
type_synonym i32 = int

definition checked_add :: "'a::len word \<Rightarrow> 'a word \<Rightarrow> 'a word option" where
  "checked_add a b = (if unat a + unat b < 2 ^ LENGTH('a) then Some (a + b) else None)"

definition checked_sub :: "'a::len word \<Rightarrow> 'a word \<Rightarrow> 'a word option" where
  "checked_sub a b = (if b \<le> a then Some (a - b) else None)"

definition checked_mul :: "'a::len word \<Rightarrow> 'a word \<Rightarrow> 'a word option" where
  "checked_mul a b = (if unat a * unat b < 2 ^ LENGTH('a) then Some (a * b) else None)"

lemma checked_add_Some [checked_arith]:
  "checked_add a b = Some c \<Longrightarrow> unat c = unat a + unat b"
  by (auto simp: checked_add_def unat_word_ariths split: if_splits)

lemma checked_sub_Some [checked_arith]:
  "checked_sub a b = Some c \<Longrightarrow> unat c = unat a - unat b \<and> unat b \<le> unat a"
  by (auto simp: checked_sub_def unat_sub word_le_nat_alt split: if_splits)

lemma checked_mul_Some [checked_arith]:
  "checked_mul a b = Some c \<Longrightarrow> unat c = unat a * unat b"
  by (auto simp: checked_mul_def unat_word_ariths split: if_splits)

lemma checked_add_iff:
  "checked_add (a::'a::len word) b = Some c
     \<longleftrightarrow> unat a + unat b < 2 ^ LENGTH('a) \<and> c = a + b"
  by (auto simp: checked_add_def)

lemma checked_mul_iff:
  "checked_mul (a::'a::len word) b = Some c
     \<longleftrightarrow> unat a * unat b < 2 ^ LENGTH('a) \<and> c = a * b"
  by (auto simp: checked_mul_def)

section \<open>Results\<close>

type_synonym ('e, 'a) result = "'e + 'a"

definition is_ok :: "('e, 'a) result \<Rightarrow> bool" where
  "is_ok r = (case r of Inl _ \<Rightarrow> False | Inr _ \<Rightarrow> True)"

lemma is_ok_simps [simp]: "is_ok (Inl e) = False" "is_ok (Inr x) = True"
  by (simp_all add: is_ok_def)

lemma is_ok_iff: "is_ok r \<longleftrightarrow> (\<exists>x. r = Inr x)"
  by (cases r) auto

text \<open>
  A body of guards with early returns, \<open>if bad { return Err(e) }\<close> and \<open>check()?\<close> in sequence, is a
  list of checks; its value is the first error.
\<close>

definition require :: "bool \<Rightarrow> 'e \<Rightarrow> ('e, unit) result" where
  "require b e = (if b then Inr () else Inl e)"

fun first_error :: "('e, unit) result list \<Rightarrow> ('e, unit) result" where
  "first_error [] = Inr ()"
| "first_error (Inl e # cs) = Inl e"
| "first_error (Inr u # cs) = first_error cs"

text \<open>\<open>r.unwrap_or(false)\<close>.\<close>

definition ok_true :: "('e, bool) result \<Rightarrow> bool" where
  "ok_true r = (case r of Inl _ \<Rightarrow> False | Inr b \<Rightarrow> b)"

lemma ok_true_iff: "ok_true r \<longleftrightarrow> r = Inr True"
  by (cases r) (auto simp: ok_true_def)

text \<open>\<open>r.map_err(f)\<close> and \<open>r?\<close> followed by the rest of the body.\<close>

definition map_err :: "('e \<Rightarrow> 'f) \<Rightarrow> ('e, 'a) result \<Rightarrow> ('f, 'a) result" where
  "map_err f r = (case r of Inl e \<Rightarrow> Inl (f e) | Inr x \<Rightarrow> Inr x)"

definition and_then :: "('e, 'a) result \<Rightarrow> ('a \<Rightarrow> ('e, 'b) result) \<Rightarrow> ('e, 'b) result" where
  "and_then r f = (case r of Inl e \<Rightarrow> Inl e | Inr x \<Rightarrow> f x)"

lemma require_ok [simp]: "require b e = Inr u \<longleftrightarrow> b"
  by (simp add: require_def)

lemma require_Inl [simp]: "require b e = Inl e' \<longleftrightarrow> \<not> b \<and> e' = e"
  by (auto simp: require_def)

lemma first_error_ok: "first_error cs = Inr u \<longleftrightarrow> (\<forall>c\<in>set cs. c = Inr ())"
  by (induction cs rule: first_error.induct) auto

lemma first_error_Cons: "first_error (c # cs) = Inr u \<longleftrightarrow> c = Inr () \<and> first_error cs = Inr u"
  by (cases c) auto

lemma first_error_member: "first_error cs = Inl e \<Longrightarrow> Inl e \<in> set cs"
  by (induction cs rule: first_error.induct) auto

lemma and_then_simps [simp]:
  "and_then (Inl e) f = Inl e" "and_then (Inr x) f = f x"
  by (simp_all add: and_then_def)

lemma and_then_Inr: "and_then r f = Inr y \<longleftrightarrow> (\<exists>x. r = Inr x \<and> f x = Inr y)"
  by (cases r) auto

lemma map_err_simps [simp]:
  "map_err f (Inl e) = Inl (f e)" "map_err f (Inr x) = Inr x"
  by (simp_all add: map_err_def)

lemma map_err_Inr [simp]: "map_err f r = Inr x \<longleftrightarrow> r = Inr x"
  by (cases r) auto

section \<open>Lists\<close>

text \<open>\<open>slice.windows(2)\<close>.\<close>

definition windows2 :: "'a list \<Rightarrow> ('a \<times> 'a) list" where
  "windows2 xs = zip xs (tl xs)"

lemma windows2_simps [simp]:
  "windows2 [] = []"
  "windows2 [x] = []"
  "windows2 (x # y # zs) = (x, y) # windows2 (y # zs)"
  by (simp_all add: windows2_def)

lemma windows2_set: "(a, b) \<in> set (windows2 xs) \<Longrightarrow> a \<in> set xs \<and> b \<in> set xs"
  by (induction xs rule: induct_list012) auto

lemma windows2_conv_nth:
  "(a, b) \<in> set (windows2 xs) \<longleftrightarrow> (\<exists>i. Suc i < length xs \<and> xs ! i = a \<and> xs ! Suc i = b)"
proof
  assume "(a, b) \<in> set (windows2 xs)"
  then obtain i where "i < length xs - 1" "xs ! i = a" "xs ! Suc i = b"
    by (auto simp: windows2_def set_zip nth_tl)
  then have "Suc i < length xs \<and> xs ! i = a \<and> xs ! Suc i = b" by simp
  then show "\<exists>i. Suc i < length xs \<and> xs ! i = a \<and> xs ! Suc i = b" ..
next
  assume "\<exists>i. Suc i < length xs \<and> xs ! i = a \<and> xs ! Suc i = b"
  then obtain i where "Suc i < length xs" "xs ! i = a" "xs ! Suc i = b" by blast
  then have "windows2 xs ! i = (a, b)" "i < length (windows2 xs)"
    by (simp_all add: windows2_def nth_tl)
  then show "(a, b) \<in> set (windows2 xs)" using nth_mem by force
qed

text \<open>
  The idiom \<open>one(iterator)\<close> / \<open>unique(iterator)\<close>: the first item, if there is no second.
\<close>

fun single :: "'a list \<Rightarrow> 'a option" where
  "single [] = None"
| "single [x] = Some x"
| "single (_ # _ # _) = None"

lemma single_Some_iff: "single xs = Some x \<longleftrightarrow> xs = [x]"
  by (cases xs rule: single.cases) auto

lemma single_filter_Some [single_facts]:
  "single (filter P xs) = Some x \<Longrightarrow> x \<in> set xs \<and> P x \<and> (\<forall>y\<in>set xs. P y \<longrightarrow> y = x)"
  by (auto simp: single_Some_iff filter_eq_Cons_iff)
     (metis (mono_tags) filter_empty_conv)+

text \<open>\<open>iter().position(p)\<close>.\<close>

fun position :: "('a \<Rightarrow> bool) \<Rightarrow> 'a list \<Rightarrow> nat option" where
  "position p [] = None"
| "position p (x # xs) = (if p x then Some 0 else map_option Suc (position p xs))"

lemma position_Some:
  "position p xs = Some i \<Longrightarrow> i < length xs \<and> p (xs ! i) \<and> (\<forall>k < i. \<not> p (xs ! k))"
proof (induction xs arbitrary: i)
  case (Cons x xs)
  show ?case
  proof (cases "p x")
    case False
    with Cons.prems obtain j where "position p xs = Some j" "i = Suc j" by auto
    with Cons.IH False show ?thesis by (auto simp: nth_Cons split: nat.splits)
  qed (use Cons.prems in auto)
qed simp

lemma position_None: "position p xs = None \<longleftrightarrow> (\<forall>x\<in>set xs. \<not> p x)"
  by (induction xs) auto

lemma position_append_Some: "position p xs = Some i \<Longrightarrow> position p (xs @ ys) = Some i"
  by (induction xs arbitrary: i) (auto split: if_splits)

lemma position_append_None:
  "position p xs = None \<Longrightarrow> position p (xs @ ys) = map_option ((+) (length xs)) (position p ys)"
proof (induction xs)
  case Nil
  show ?case by (cases "position p ys") simp_all
next
  case (Cons x xs)
  then show ?case by (cases "position p ys") auto
qed

section \<open>Strings\<close>

definition starts_with :: "string \<Rightarrow> string \<Rightarrow> bool" where
  "starts_with p s = (take (length p) s = p)"

definition byte :: "char \<Rightarrow> nat" where
  "byte c = of_char c"

text \<open>
  \<open>s.chars().any(char::is_control)\<close>: the code points below 32, 127, and 128 to 159, whose
  UTF-8 form is the byte 194 followed by a byte from 128 to 159 (194 is never a
  continuation byte).
\<close>

fun has_control :: "string \<Rightarrow> bool" where
  "has_control [] = False"
| "has_control (c # cs) =
     (byte c < 32 \<or> byte c = 127
      \<or> (byte c = 194 \<and> (case cs of d # _ \<Rightarrow> 128 \<le> byte d \<and> byte d \<le> 159 | [] \<Rightarrow> False))
      \<or> has_control cs)"

definition is_ascii_digit :: "char \<Rightarrow> bool" where
  "is_ascii_digit c = (48 \<le> byte c \<and> byte c \<le> 57)"

definition to_ascii_lowercase :: "string \<Rightarrow> string" where
  "to_ascii_lowercase s =
     map (\<lambda>c. if 65 \<le> byte c \<and> byte c \<le> 90 then char_of (byte c + 32) else c) s"

definition eq_ignore_ascii_case :: "string \<Rightarrow> string \<Rightarrow> bool" where
  "eq_ignore_ascii_case a b = (to_ascii_lowercase a = to_ascii_lowercase b)"

text \<open>\<open>value.len() == 64 && value.bytes().all(|b| b.is_ascii_digit() || matches!(b, b'a'..=b'f'))\<close>\<close>

definition is_lower_hex_digest :: "string \<Rightarrow> bool" where
  "is_lower_hex_digest s =
     (length s = 64 \<and> list_all (\<lambda>c. is_ascii_digit c \<or> (97 \<le> byte c \<and> byte c \<le> 102)) s)"

text \<open>\<open>format!("{}", n)\<close> of an unsigned integer.\<close>

definition digit_char :: "nat \<Rightarrow> char" where
  "digit_char d = char_of (48 + d)"

fun show_nat :: "nat \<Rightarrow> string" where
  "show_nat n = (if n < 10 then [digit_char n] else show_nat (n div 10) @ [digit_char (n mod 10)])"

declare show_nat.simps [simp del]

definition show_word :: "'a::len word \<Rightarrow> string" where
  "show_word w = show_nat (unat w)"

definition replace_char :: "char \<Rightarrow> string \<Rightarrow> string \<Rightarrow> string" where
  "replace_char c r s = concat (map (\<lambda>x. if x = c then r else [x]) s)"

text \<open>
  \<open>str::trim\<close>: removes the code points with the Unicode property White_Space at both ends, of
  one, two or three UTF-8 bytes. At the end of the string the bytes are met in reverse.
\<close>

definition white1 :: "char \<Rightarrow> bool" where
  "white1 c = ((9 \<le> byte c \<and> byte c \<le> 13) \<or> byte c = 32)"

definition white2 :: "char \<Rightarrow> char \<Rightarrow> bool" where
  "white2 c d = (byte c = 194 \<and> (byte d = 133 \<or> byte d = 160))"

definition white3 :: "char \<Rightarrow> char \<Rightarrow> char \<Rightarrow> bool" where
  "white3 c d e =
     ((byte c = 225 \<and> byte d = 154 \<and> byte e = 128)
      \<or> (byte c = 226 \<and> byte d = 128
          \<and> ((128 \<le> byte e \<and> byte e \<le> 138) \<or> byte e = 168 \<or> byte e = 169 \<or> byte e = 175))
      \<or> (byte c = 226 \<and> byte d = 129 \<and> byte e = 159)
      \<or> (byte c = 227 \<and> byte d = 128 \<and> byte e = 128))"

fun trim_gen ::
  "(char \<Rightarrow> bool) \<Rightarrow> (char \<Rightarrow> char \<Rightarrow> bool) \<Rightarrow> (char \<Rightarrow> char \<Rightarrow> char \<Rightarrow> bool) \<Rightarrow> string \<Rightarrow> string" where
  "trim_gen w1 w2 w3 [] = []"
| "trim_gen w1 w2 w3 (c # cs) =
     (if w1 c then trim_gen w1 w2 w3 cs
      else case cs of
        [] \<Rightarrow> c # cs
      | d # ds \<Rightarrow>
          (if w2 c d then trim_gen w1 w2 w3 ds
           else case ds of
             [] \<Rightarrow> c # cs
           | e # es \<Rightarrow> (if w3 c d e then trim_gen w1 w2 w3 es else c # cs)))"

definition trim_str :: "string \<Rightarrow> string" where
  "trim_str s =
     rev (trim_gen white1 (\<lambda>d c. white2 c d) (\<lambda>e d c. white3 c d e)
           (rev (trim_gen white1 white2 white3 s)))"

text \<open>
  \<open>format!("{:?}", s)\<close> of a \<open>str\<close>: quoted, with the ASCII escapes of Rust's \<open>Debug\<close>. Bytes of
  code points beyond ASCII pass through (Rust also escapes the unprintable ones among them).
\<close>

definition hex_char :: "nat \<Rightarrow> char" where
  "hex_char d = (if d < 10 then char_of (48 + d) else char_of (87 + d))"

definition show_hex_byte :: "nat \<Rightarrow> string" where
  "show_hex_byte n = (if n < 16 then [hex_char n] else [hex_char (n div 16), hex_char (n mod 16)])"

definition debug_char :: "char \<Rightarrow> string" where
  "debug_char c =
     (if byte c = 0 then [char_of (92::nat), CHR ''0'']
      else if byte c = 9 then [char_of (92::nat), CHR ''t'']
      else if byte c = 10 then [char_of (92::nat), CHR ''n'']
      else if byte c = 13 then [char_of (92::nat), CHR ''r'']
      else if byte c = 34 then [char_of (92::nat), char_of (34::nat)]
      else if byte c = 92 then [char_of (92::nat), char_of (92::nat)]
      else if byte c < 32 \<or> byte c = 127
        then [char_of (92::nat)] @ ''u{'' @ show_hex_byte (byte c) @ ''}''
      else [c])"

definition debug_str :: "string \<Rightarrow> string" where
  "debug_str s = [char_of (34::nat)] @ concat (map debug_char s) @ [char_of (34::nat)]"

definition debug_opt_str :: "string option \<Rightarrow> string" where
  "debug_opt_str o' = (case o' of None \<Rightarrow> ''None'' | Some s \<Rightarrow> ''Some('' @ debug_str s @ '')'')"

lemma starts_with_append [simp]: "starts_with p (p @ s)"
  by (simp add: starts_with_def)

end
