(* ===== verification/Core.thy ===== *)
theory Core
  imports Prelude
begin

text \<open>
  The normalised storage model of \<open>crates/core/src/lib.rs\<close>: every struct is a record (the
  recursive \<open>BlockDevice\<close> a datatype), every enum a datatype with the source's
  constructors. Fields carry a prefix for their struct, because the structs share names.
  A Rust \<open>i32\<close> that is only compared is an \<open>int\<close>.
\<close>

section \<open>Block devices\<close>

datatype node_kind =
  NkDisk | NkPartition | NkLvm | NkCrypt | NkRaid | NkMultipath | NkLoop | NkRom | NkZram | NkUnknown

record filesystem =
  fs_type :: string
  fs_version :: "string option"

datatype block_device = BlockDevice
  (bd_name: string)
  (bd_kernel_name: "string option")
  (bd_path: "string option")
  (bd_kind: node_kind)
  (bd_size_bytes: u64)
  (bd_start_512_sector: "u64 option")
  (bd_logical_sector_bytes: "u64 option")
  (bd_filesystem: "filesystem option")
  (bd_mountpoints: "string list")
  (bd_parent_kernel_name: "string option")
  (bd_model: "string option")
  (bd_serial: "string option")
  (bd_uuid: "string option")
  (bd_partition_uuid: "string option")
  (bd_partition_table: "string option")
  (bd_children: "block_device list")

record storage_graph =
  sg_block_devices :: "block_device list"

section \<open>Filesystem and host evidence\<close>

datatype filesystem_probe_state = FpsVerified | FpsPartial | FpsUnavailable | FpsFailed

record filesystem_preflight_evidence =
  fpe_device :: string
  fpe_mountpoint :: "string option"
  fpe_fs_type :: string
  fpe_fs_version :: "string option"
  fpe_state :: filesystem_probe_state
  fpe_filesystem_state :: "string option"
  fpe_revision :: "string option"
  fpe_features :: "string list"
  fpe_block_size_bytes :: "u64 option"
  fpe_block_count :: "u64 option"
  fpe_size_bytes :: "u64 option"
  fpe_grow_check_passed :: "bool option"
  fpe_detail :: "string option"

record tool_capability =
  tc_name :: string
  tc_available :: bool

record host_capabilities =
  hc_tools :: "tool_capability list"

record mount_entry =
  me_source :: "string option"
  me_target :: string
  me_fs_type :: "string option"
  me_options :: "string list"

record fstab_entry =
  fe_source :: string
  fe_target :: string
  fe_fs_type :: string
  fe_options :: "string list"
  fe_dump :: u32
  fe_pass :: u32

record swap_entry =
  se_name :: string
  se_kind :: string
  se_size_bytes :: u64
  se_used_bytes :: u64
  se_priority :: i32

record hibernation_resume_evidence =
  hre_kernel_resume_targets :: "string list"
  hre_kernel_resume_offsets :: "u64 list"
  hre_sysfs_resume :: "string option"
  hre_sysfs_resume_offset :: "u64 option"

definition hre_configured :: "hibernation_resume_evidence \<Rightarrow> bool" where
  "hre_configured e =
     (hre_kernel_resume_targets e \<noteq> []
      \<or> hre_kernel_resume_offsets e \<noteq> []
      \<or> hre_sysfs_resume e \<noteq> None
      \<or> hre_sysfs_resume_offset e \<noteq> None)"

record filesystem_space_evidence =
  fse_path :: string
  fse_block_size_bytes :: u64
  fse_total_bytes :: u64
  fse_available_bytes :: u64

datatype path_object_kind = PokRegularFile | PokDirectory | PokSymlink | PokOther

record path_occupancy_evidence =
  poe_path :: string
  poe_exists :: bool
  poe_kind :: "path_object_kind option"
  poe_uid :: "u32 option"
  poe_mode :: "u32 option"
  poe_size_bytes :: "u64 option"

section \<open>LVM\<close>

record lvm_physical_volume =
  pv_name :: string
  pv_uuid :: "string option"
  pv_vg_name :: "string option"
  pv_size_bytes :: u64
  pv_free_bytes :: u64
  pv_pe_start_bytes :: "u64 option"

record lvm_volume_group =
  vg_name :: string
  vg_uuid :: "string option"
  vg_size_bytes :: u64
  vg_free_bytes :: u64
  vg_pv_count :: u64
  vg_lv_count :: u64
  vg_extent_size_bytes :: "u64 option"
  vg_free_extent_count :: "u64 option"
  vg_missing_pv_count :: "u64 option"
  vg_attributes :: "string option"

record lvm_logical_volume =
  lv_name :: string
  lv_path :: "string option"
  lv_uuid :: "string option"
  lv_vg_name :: string
  lv_size_bytes :: u64
  lv_attributes :: "string option"
  lv_layout :: "string option"
  lv_role :: "string option"

record lvm_inventory =
  li_physical_volumes :: "lvm_physical_volume list"
  li_volume_groups :: "lvm_volume_group list"
  li_logical_volumes :: "lvm_logical_volume list"

section \<open>Partition tables\<close>

record partition_record =
  pr_node :: string
  pr_start_sector :: u64
  pr_size_sectors :: u64
  pr_partition_type :: "string option"
  pr_uuid :: "string option"
  pr_name :: "string option"
  pr_attrs :: "string option"
  pr_bootable :: "bool option"

record partition_table =
  pt_device :: string
  pt_label :: "string option"
  pt_id :: "string option"
  pt_unit :: "string option"
  pt_first_lba :: "u64 option"
  pt_last_lba :: "u64 option"
  pt_sector_size_bytes :: "u64 option"
  pt_partitions :: "partition_record list"

section \<open>Diagnostics, collectors and the host snapshot\<close>

datatype diagnostic_severity = DsInfo | DsWarning | DsError

record storage_diagnostic =
  sd_code :: string
  sd_severity :: diagnostic_severity
  sd_message :: string
  sd_device :: "string option"

datatype collector_state = CsComplete | CsUnavailable | CsFailed

record collector_status =
  cs_component :: string
  cs_state :: collector_state
  cs_detail :: "string option"

record host_snapshot =
  hs_storage :: storage_graph
  hs_partition_tables :: "partition_table list"
  hs_mounts :: "mount_entry list"
  hs_fstab :: "fstab_entry list"
  hs_swaps :: "swap_entry list"
  hs_lvm :: "lvm_inventory option"
  hs_filesystem_preflight :: "filesystem_preflight_evidence list"
  hs_diagnostics :: "storage_diagnostic list"
  hs_collectors :: "collector_status list"

section \<open>The advisory growth analysis\<close>

datatype extendability_status =
  EsReady | EsNeedsUnderlyingResize | EsNeedsUnderlyingCapacity | EsNeedsGeometry
| EsRequiresMount | EsUnsupportedFilesystem | EsUnknown

record extend_analysis =
  ea_target :: string
  ea_device :: "string option"
  ea_filesystem :: "string option"
  ea_current_size_bytes :: "u64 option"
  ea_immediate_growth_bytes :: "u64 option"
  ea_potential_underlying_growth_bytes :: "u64 option"
  ea_status :: extendability_status
  ea_reasons :: "string list"
  ea_steps :: "string list"

end
