(* ===== verification/NodeGraph.thy ===== *)
theory NodeGraph
  imports Core
begin

text \<open>
  The block-device tree as the planner walks it: \<open>flatten\<close>, \<open>find_path\<close>, \<open>device_path\<close> and the
  alias predicates, as \<open>crates/planner/src/route_graph.rs\<close> has them (its siblings
  \<open>identity_guard.rs\<close> and \<open>filesystem_policy.rs\<close> repeat them word for word).

  The code compares nodes with \<open>std::ptr::eq\<close>, so two equal nodes at different places of the
  tree differ. A reference \<open>&BlockDevice\<close> is therefore a pair of an address, the child indices
  that lead to the node from the list of roots, and the node found there.
\<close>

type_synonym address = "nat list"
type_synonym node_ref = "address \<times> block_device"

abbreviation ref_node :: "node_ref \<Rightarrow> block_device" where
  "ref_node r \<equiv> snd r"

text \<open>\<open>std::ptr::eq\<close>.\<close>

definition ptr_eq :: "node_ref \<Rightarrow> node_ref \<Rightarrow> bool" where
  "ptr_eq a b = (fst a = fst b)"

lemma children_smaller: "size_list size (bd_children d) < size d"
  by (cases d) simp

lemma children_size_le [simp]: "size_list size (bd_children d) \<le> size d + n"
  using children_smaller[of d] by simp

function flatten_from :: "address \<Rightarrow> nat \<Rightarrow> block_device list \<Rightarrow> node_ref list" where
  "flatten_from pre i [] = []"
| "flatten_from pre i (d # ds) =
     (pre @ [i], d)
       # flatten_from (pre @ [i]) 0 (bd_children d)
       @ flatten_from pre (Suc i) ds"
  by pat_completeness auto
termination
  by (relation "measure (\<lambda>(_, _, ds). size_list size ds)")
     (auto simp: less_Suc_eq_le)

definition flatten :: "block_device list \<Rightarrow> node_ref list" where
  "flatten devices = flatten_from [] 0 devices"

function find_path_from ::
  "address \<Rightarrow> nat \<Rightarrow> block_device list \<Rightarrow> node_ref \<Rightarrow> node_ref list option" where
  "find_path_from pre i [] target = None"
| "find_path_from pre i (d # ds) target =
     (if ptr_eq (pre @ [i], d) target then Some [(pre @ [i], d)]
      else case find_path_from (pre @ [i]) 0 (bd_children d) target of
        Some child_path \<Rightarrow> Some ((pre @ [i], d) # child_path)
      | None \<Rightarrow> find_path_from pre (Suc i) ds target)"
  by pat_completeness auto
termination
  by (relation "measure (\<lambda>(_, _, ds, _). size_list size ds)")
     (auto simp: less_Suc_eq_le)

definition find_path :: "block_device list \<Rightarrow> node_ref \<Rightarrow> node_ref list option" where
  "find_path devices target = find_path_from [] 0 devices target"

definition device_path :: "block_device \<Rightarrow> string" where
  "device_path d = (case bd_path d of Some p \<Rightarrow> p | None \<Rightarrow> bd_name d)"

definition node_alias :: "block_device \<Rightarrow> string \<Rightarrow> bool" where
  "node_alias d alias =
     (bd_path d = Some alias
      \<or> (case bd_kernel_name d of None \<Rightarrow> False | Some name \<Rightarrow> ''/dev/'' @ name = alias))"

definition lv_alias :: "lvm_logical_volume \<Rightarrow> string \<Rightarrow> bool" where
  "lv_alias lv alias =
     (lv_path lv = Some alias
      \<or> ''/dev/'' @ lv_vg_name lv @ ''/'' @ lv_name lv = alias
      \<or> ''/dev/mapper/'' @ replace_char (CHR ''-'') ''--'' (lv_vg_name lv)
           @ ''-'' @ replace_char (CHR ''-'') ''--'' (lv_name lv) = alias)"

definition lv_device :: "lvm_logical_volume \<Rightarrow> block_device \<Rightarrow> bool" where
  "lv_device lv d = (case bd_path d of None \<Rightarrow> False | Some path \<Rightarrow> lv_alias lv path)"

section \<open>Addresses name nodes uniquely\<close>

lemma flatten_from_prefix:
  "(a, d) \<in> set (flatten_from pre i ds) \<Longrightarrow> \<exists>k rest. i \<le> k \<and> a = pre @ k # rest"
proof (induction pre i ds rule: flatten_from.induct)
  case (2 pre i e es)
  from "2.prems" consider "a = pre @ [i]"
    | "(a, d) \<in> set (flatten_from (pre @ [i]) 0 (bd_children e))"
    | "(a, d) \<in> set (flatten_from pre (Suc i) es)"
    by auto
  then show ?case
  proof cases
    case 2
    from "2.IH"(1)[OF this] show ?thesis by auto
  next
    case 3
    from "2.IH"(2)[OF this] show ?thesis using Suc_leD by blast
  qed auto
qed simp

lemma flatten_from_distinct: "distinct (map fst (flatten_from pre i ds))"
proof (induction pre i ds rule: flatten_from.induct)
  case (2 pre i d ds)
  have down: "\<exists>k rest. a = pre @ i # k # rest"
    if "a \<in> fst ` set (flatten_from (pre @ [i]) 0 (bd_children d))" for a
    using that flatten_from_prefix by fastforce
  have right: "\<exists>k rest. Suc i \<le> k \<and> a = pre @ k # rest"
    if "a \<in> fst ` set (flatten_from pre (Suc i) ds)" for a
    using that flatten_from_prefix by fastforce
  have "fst ` set (flatten_from (pre @ [i]) 0 (bd_children d))
      \<inter> fst ` set (flatten_from pre (Suc i) ds) = {}"
    using down right by fastforce
  moreover have "pre @ [i] \<notin> fst ` set (flatten_from (pre @ [i]) 0 (bd_children d))"
    using down by fastforce
  moreover have "pre @ [i] \<notin> fst ` set (flatten_from pre (Suc i) ds)"
    using right by fastforce
  ultimately show ?case using "2.IH" by simp
qed simp

lemma flatten_distinct: "distinct (map fst (flatten ds))"
  unfolding flatten_def by (rule flatten_from_distinct)

lemma flatten_ptr_eq:
  "r \<in> set (flatten ds) \<Longrightarrow> s \<in> set (flatten ds) \<Longrightarrow> ptr_eq r s \<longleftrightarrow> r = s"
  using flatten_distinct[of ds] unfolding ptr_eq_def distinct_map inj_on_def by auto

section \<open>Paths lead from a root to the node\<close>

text \<open>Each node of a path is a child of the node before it.\<close>

fun parent_chain :: "node_ref list \<Rightarrow> bool" where
  "parent_chain [] = True"
| "parent_chain [_] = True"
| "parent_chain (p # c # rest) =
     (ref_node c \<in> set (bd_children (ref_node p)) \<and> parent_chain (c # rest))"

lemma find_path_from_hd:
  "find_path_from pre i ds t = Some p \<Longrightarrow> p \<noteq> [] \<and> ref_node (hd p) \<in> set ds"
  by (induction pre i ds t arbitrary: p rule: find_path_from.induct)
     (fastforce split: if_splits option.splits)+

lemma find_path_from_chain:
  "find_path_from pre i ds t = Some p \<Longrightarrow> parent_chain p"
proof (induction pre i ds t arbitrary: p rule: find_path_from.induct)
  case (2 pre i d ds t)
  show ?case
  proof (cases "ptr_eq (pre @ [i], d) t")
    case True
    with "2.prems" show ?thesis by auto
  next
    case False
    show ?thesis
    proof (cases "find_path_from (pre @ [i]) 0 (bd_children d) t")
      case None
      with False "2.prems" "2.IH"(2) show ?thesis by simp
    next
      case (Some q)
      from find_path_from_hd[OF Some] obtain x q' where "q = x # q'"
        "ref_node x \<in> set (bd_children d)" by (cases q) auto
      with Some False "2.prems" "2.IH"(1)[OF False Some] show ?thesis by auto
    qed
  qed
qed simp

lemma find_path_from_target:
  "find_path_from pre i ds t = Some q \<Longrightarrow> fst t \<in> fst ` set (flatten_from pre i ds)"
  by (induction pre i ds t arbitrary: q rule: find_path_from.induct)
     (fastforce simp: ptr_eq_def image_Un split: if_splits option.splits)+

lemma find_path_from_complete:
  "t \<in> set (flatten_from pre i ds) \<Longrightarrow>
     \<exists>p. find_path_from pre i ds t = Some p \<and> p \<noteq> [] \<and> last p = t
        \<and> set p \<subseteq> set (flatten_from pre i ds)"
proof (induction pre i ds rule: flatten_from.induct)
  case (2 pre i d ds)
  let ?here = "(pre @ [i], d)"
  have dist: "distinct (map fst (flatten_from pre i (d # ds)))"
    by (rule flatten_from_distinct)
  show ?case
  proof (cases "ptr_eq ?here t")
    case True
    with "2.prems" dist have "t = ?here"
      unfolding ptr_eq_def by (auto simp: rev_image_eqI)
    with True show ?thesis by simp
  next
    case False
    then have ne: "t \<noteq> ?here" by (auto simp: ptr_eq_def)
    show ?thesis
    proof (cases "find_path_from (pre @ [i]) 0 (bd_children d) t")
      case None
      with "2.IH"(1) have "t \<notin> set (flatten_from (pre @ [i]) 0 (bd_children d))" by auto
      with "2.prems" ne have "t \<in> set (flatten_from pre (Suc i) ds)" by auto
      with "2.IH"(2) None False show ?thesis by auto
    next
      case (Some q)
      show ?thesis
      proof (cases "t \<in> set (flatten_from (pre @ [i]) 0 (bd_children d))")
        case True
        with "2.IH"(1) Some False show ?thesis by auto
      next
        case notin: False
        with "2.prems" ne have "t \<in> set (flatten_from pre (Suc i) ds)" by auto
        then have "fst t \<in> fst ` set (flatten_from pre (Suc i) ds)" by (rule imageI)
        with find_path_from_target[OF Some] dist show ?thesis by auto
      qed
    qed
  qed
qed simp

lemma find_path_complete:
  assumes "t \<in> set (flatten ds)"
  obtains p where "find_path ds t = Some p" "p \<noteq> []" "last p = t"
    "set p \<subseteq> set (flatten ds)" "parent_chain p" "ref_node (hd p) \<in> set ds"
  using find_path_from_complete[of t "[]" 0 ds] find_path_from_chain[of "[]" 0 ds t]
    find_path_from_hd[of "[]" 0 ds t] assms
  unfolding flatten_def find_path_def by blast

end
