(* ===== verification/RouteGraph.thy ===== *)
theory RouteGraph
  imports NodeGraph
begin

text \<open>
  The semantic layer route of a growth target (\<open>crates/planner/src/route_graph.rs\<close>): which
  block layers lie between a root device and the target, and which of them block or need an
  adapter. The mutable \<open>LayerRoute\<close> of the code is passed along and returned.
\<close>

section \<open>Data\<close>

datatype route_layer_kind =
  RlDisk | RlPartition | RlLoopDevice | RlEncryption | RlRaid | RlMultipath
| RlLvmPhysicalVolume | RlLvmVolumeGroup | RlLvmLogicalVolume
| RlFilesystem | RlMount | RlZram | RlRom | RlUnknown

datatype route_issue_kind = RiAdapterRequired | RiBlocker

datatype layer_route_status = LrsSupportedProfile | LrsAdapterRequired | LrsBlocked

record route_layer =
  rl_kind :: route_layer_kind
  rl_identity :: string
  rl_device :: "string option"
  rl_size_bytes :: "u64 option"
  rl_detail :: "string option"

record route_issue =
  ri_kind :: route_issue_kind
  ri_code :: string
  ri_message :: string
  ri_device :: "string option"

record layer_route =
  lr_target :: string
  lr_resolved_device :: "string option"
  lr_mountpoint :: "string option"
  lr_status :: layer_route_status
  lr_layers :: "route_layer list"
  lr_issues :: "route_issue list"

definition adapter :: "string \<Rightarrow> string \<Rightarrow> string option \<Rightarrow> route_issue" where
  "adapter code message device =
     \<lparr> ri_kind = RiAdapterRequired, ri_code = code, ri_message = message, ri_device = device \<rparr>"

definition blocker :: "string \<Rightarrow> string \<Rightarrow> string option \<Rightarrow> route_issue" where
  "blocker code message device =
     \<lparr> ri_kind = RiBlocker, ri_code = code, ri_message = message, ri_device = device \<rparr>"

text \<open>\<open>route.layers.push(...)\<close> and \<open>route.issues.push(...)\<close>.\<close>

definition push_layer :: "route_layer \<Rightarrow> layer_route \<Rightarrow> layer_route" where
  "push_layer l r = r\<lparr>lr_layers := lr_layers r @ [l]\<rparr>"

definition push_issue :: "route_issue \<Rightarrow> layer_route \<Rightarrow> layer_route" where
  "push_issue i r = r\<lparr>lr_issues := lr_issues r @ [i]\<rparr>"

definition block_layer :: "route_layer_kind \<Rightarrow> block_device \<Rightarrow> route_layer" where
  "block_layer kind d =
     \<lparr> rl_kind = kind,
       rl_identity =
         (case bd_uuid d of Some u \<Rightarrow> u
          | None \<Rightarrow> (case bd_partition_uuid d of Some p \<Rightarrow> p | None \<Rightarrow> device_path d)),
       rl_device = Some (device_path d),
       rl_size_bytes = Some (bd_size_bytes d),
       rl_detail = bd_model d \<rparr>"

definition has_fs_type :: "string \<Rightarrow> block_device \<Rightarrow> bool" where
  "has_fs_type t d = (case bd_filesystem d of None \<Rightarrow> False | Some f \<Rightarrow> fs_type f = t)"

section \<open>LVM layers\<close>

definition append_lvm_vg :: "lvm_inventory \<Rightarrow> string \<Rightarrow> layer_route \<Rightarrow> layer_route" where
  "append_lvm_vg lvm vgn route =
     (case filter (\<lambda>vg. vg_name vg = vgn) (li_volume_groups lvm) of
        [vg] \<Rightarrow>
          (let route = push_layer
                 \<lparr> rl_kind = RlLvmVolumeGroup,
                   rl_identity = (case vg_uuid vg of Some u \<Rightarrow> u | None \<Rightarrow> vg_name vg),
                   rl_device = None,
                   rl_size_bytes = Some (vg_size_bytes vg),
                   rl_detail = Some (''name='' @ vg_name vg @ '' pv_count='' @ show_word (vg_pv_count vg)
                                @ '' lv_count='' @ show_word (vg_lv_count vg)) \<rparr> route;
               route =
                 (if (case vg_missing_pv_count vg of Some n \<Rightarrow> n | None \<Rightarrow> 0) > 0
                  then push_issue (blocker ''lvm-vg-partial''
                    ''volume group reports one or more missing physical volumes''
                    (Some (vg_name vg))) route
                  else route);
               route =
                 (if vg_pv_count vg > 1
                  then push_issue (adapter ''lvm-multi-pv-adapter-required''
                    ''multi-PV allocation impact requires a dedicated route adapter''
                    (Some (vg_name vg))) route
                  else route)
           in if vg_attributes vg \<noteq> Some ''wz--n-''
              then push_issue (adapter ''lvm-vg-profile-adapter-required''
                ''volume group is outside the proven writable/resizable local profile''
                (Some (vg_name vg))) route
              else route)
      | [] \<Rightarrow> push_issue (blocker ''lvm-vg-not-resolved''
          ''physical volume names a volume group that is absent from inventory'' (Some vgn)) route
      | _ \<Rightarrow> push_issue (blocker ''lvm-vg-ambiguous''
          ''volume-group identity is ambiguous'' (Some vgn)) route)"

definition append_lvm_pv_and_vg :: "host_snapshot \<Rightarrow> block_device \<Rightarrow> layer_route \<Rightarrow> layer_route" where
  "append_lvm_pv_and_vg snapshot d route =
     (case hs_lvm snapshot of
        None \<Rightarrow> push_issue (blocker ''lvm-inventory-missing''
          ''LVM2 member is present but LVM inventory is unavailable'' (Some (device_path d))) route
      | Some lvm \<Rightarrow>
          (case filter (\<lambda>pv. node_alias d (pv_name pv)) (li_physical_volumes lvm) of
             [pv] \<Rightarrow>
               (let route = push_layer
                      \<lparr> rl_kind = RlLvmPhysicalVolume,
                        rl_identity = (case pv_uuid pv of Some u \<Rightarrow> u | None \<Rightarrow> pv_name pv),
                        rl_device = Some (pv_name pv),
                        rl_size_bytes = Some (pv_size_bytes pv),
                        rl_detail = map_option (\<lambda>n. ''vg='' @ n) (pv_vg_name pv) \<rparr> route
                in case pv_vg_name pv of
                     None \<Rightarrow> route
                   | Some vgn \<Rightarrow> append_lvm_vg lvm vgn route)
           | [] \<Rightarrow> push_issue (blocker ''lvm-pv-not-resolved''
               ''LVM2 member does not resolve to one discovered physical volume''
               (Some (device_path d))) route
           | _ \<Rightarrow> push_issue (blocker ''lvm-pv-ambiguous''
               ''LVM2 member resolves to multiple physical-volume records''
               (Some (device_path d))) route))"

definition expected_lv_attributes :: "layer_route \<Rightarrow> string" where
  "expected_lv_attributes route =
     (if lr_mountpoint route \<noteq> None then ''-wi-ao----'' else ''-wi-a-----'')"

definition append_lvm_lv :: "host_snapshot \<Rightarrow> block_device \<Rightarrow> layer_route \<Rightarrow> layer_route" where
  "append_lvm_lv snapshot d route =
     (case hs_lvm snapshot of
        None \<Rightarrow> push_issue (blocker ''lvm-inventory-missing''
            ''LVM logical-volume node is present but LVM inventory is unavailable''
            (Some (device_path d)))
          (push_layer (block_layer RlLvmLogicalVolume d) route)
      | Some lvm \<Rightarrow>
          (case filter (\<lambda>lv. lv_device lv d) (li_logical_volumes lvm) of
             [lv] \<Rightarrow>
               (let route = push_layer
                      \<lparr> rl_kind = RlLvmLogicalVolume,
                        rl_identity = (case lv_uuid lv of Some u \<Rightarrow> u | None \<Rightarrow> lv_name lv),
                        rl_device = Some (case lv_path lv of Some p \<Rightarrow> p
                                          | None \<Rightarrow> ''/dev/'' @ lv_vg_name lv @ ''/'' @ lv_name lv),
                        rl_size_bytes = Some (lv_size_bytes lv),
                        rl_detail = Some (''vg='' @ lv_vg_name lv
                          @ '' layout='' @ (case lv_layout lv of Some x \<Rightarrow> x | None \<Rightarrow> ''unknown'')
                          @ '' role='' @ (case lv_role lv of Some x \<Rightarrow> x | None \<Rightarrow> ''unknown'')) \<rparr> route
                in if lv_layout lv \<noteq> Some ''linear''
                      \<or> lv_role lv \<noteq> Some ''public''
                      \<or> lv_attributes lv \<noteq> Some (expected_lv_attributes route)
                   then push_issue (adapter ''lvm-layout-adapter-required''
                     (if lr_mountpoint route \<noteq> None
                      then ''mounted LVM growth requires a public, linear, active and open logical volume''
                      else ''offline LVM growth requires a public, linear, active and not-open logical volume'')
                     (Some (device_path d))) route
                   else route)
           | [] \<Rightarrow> push_issue (blocker ''lvm-lv-not-resolved''
                 ''LVM device does not resolve to one logical-volume record'' (Some (device_path d)))
               (push_layer (block_layer RlLvmLogicalVolume d) route)
           | _ \<Rightarrow> push_issue (blocker ''lvm-lv-ambiguous''
                 ''LVM device resolves to multiple logical-volume records'' (Some (device_path d)))
               (push_layer (block_layer RlLvmLogicalVolume d) route)))"

section \<open>Block layers\<close>

definition append_kind_layer :: "host_snapshot \<Rightarrow> block_device \<Rightarrow> layer_route \<Rightarrow> layer_route" where
  "append_kind_layer snapshot d route =
     (let path = Some (device_path d) in
      case bd_kind d of
        NkDisk \<Rightarrow> push_layer (block_layer RlDisk d) route
      | NkPartition \<Rightarrow> push_layer (block_layer RlPartition d) route
      | NkLoop \<Rightarrow> push_layer (block_layer RlLoopDevice d) route
      | NkCrypt \<Rightarrow> push_issue (adapter ''luks-adapter-required''
          ''encrypted/device-mapper storage requires an explicit crypt-layer adapter'' path)
          (push_layer (block_layer RlEncryption d) route)
      | NkRaid \<Rightarrow> push_issue (adapter ''raid-adapter-required''
          ''RAID capacity propagation requires an explicit array/member adapter'' path)
          (push_layer (block_layer RlRaid d) route)
      | NkMultipath \<Rightarrow> push_issue (adapter ''multipath-adapter-required''
          ''multipath identity, path health and capacity propagation require a dedicated adapter'' path)
          (push_layer (block_layer RlMultipath d) route)
      | NkLvm \<Rightarrow> append_lvm_lv snapshot d route
      | NkZram \<Rightarrow> push_issue (blocker ''zram-not-grow-target''
          ''zram is runtime compressed memory storage, not a persistent grow target'' path)
          (push_layer (block_layer RlZram d) route)
      | NkRom \<Rightarrow> push_issue (blocker ''rom-not-grow-target''
          ''read-only media is not a grow target'' path)
          (push_layer (block_layer RlRom d) route)
      | NkUnknown \<Rightarrow> push_issue (blocker ''unknown-layer''
          ''unknown block-device layer prevents a proven mutation order'' path)
          (push_layer (block_layer RlUnknown d) route))"

definition append_block_layer :: "host_snapshot \<Rightarrow> block_device \<Rightarrow> layer_route \<Rightarrow> layer_route" where
  "append_block_layer snapshot d route =
     (let route = append_kind_layer snapshot d route
      in if has_fs_type ''LVM2_member'' d then append_lvm_pv_and_vg snapshot d route else route)"

section \<open>The route\<close>

text \<open>The source a target names: the target itself, or the source of its only mount.\<close>

definition resolve_route_source ::
  "host_snapshot \<Rightarrow> string \<Rightarrow> layer_route \<Rightarrow> (layer_route, string \<times> layer_route) result" where
  "resolve_route_source snapshot target route =
     (if starts_with ''/dev/'' target then Inr (target, route)
      else case filter (\<lambda>m. me_target m = target) (hs_mounts snapshot) of
        [mount] \<Rightarrow>
          (let route = route\<lparr>lr_mountpoint := Some (me_target mount)\<rparr>
           in case me_source mount of
                None \<Rightarrow> Inl (push_issue (blocker ''route-mount-source-missing''
                  ''the selected mount has no block-device source'' None) route)
              | Some source \<Rightarrow> Inr (source, route))
      | [] \<Rightarrow> Inl (push_issue (blocker ''route-target-not-found''
          ''no exact mountpoint or device target could be resolved'' None) route)
      | _ \<Rightarrow> Inl (push_issue (blocker ''route-target-ambiguous''
          ''more than one mount entry matches the selected target'' None) route))"

text \<open>The nodes the source names, directly or as a logical volume, each once.\<close>

definition push_new :: "node_ref \<Rightarrow> node_ref list \<Rightarrow> node_ref list" where
  "push_new r cs = (if list_ex (\<lambda>c. ptr_eq c r) cs then cs else cs @ [r])"

definition route_candidates :: "host_snapshot \<Rightarrow> string \<Rightarrow> node_ref list" where
  "route_candidates snapshot source =
     (let nodes = flatten (sg_block_devices (hs_storage snapshot));
          direct = filter (\<lambda>r. node_alias (ref_node r) source) nodes
      in case hs_lvm snapshot of
           None \<Rightarrow> direct
         | Some lvm \<Rightarrow>
             fold (\<lambda>lv. fold push_new (filter (\<lambda>r. lv_device lv (ref_node r)) nodes))
               (filter (\<lambda>lv. lv_alias lv source) (li_logical_volumes lvm)) direct)"

definition source_names_device :: "host_snapshot \<Rightarrow> block_device \<Rightarrow> string \<Rightarrow> bool" where
  "source_names_device snapshot d source =
     (node_alias d source
      \<or> (case hs_lvm snapshot of None \<Rightarrow> False
         | Some lvm \<Rightarrow> list_ex (\<lambda>lv. lv_device lv d \<and> lv_alias lv source) (li_logical_volumes lvm)))"

definition infer_mountpoint :: "host_snapshot \<Rightarrow> block_device \<Rightarrow> layer_route \<Rightarrow> layer_route" where
  "infer_mountpoint snapshot d route =
     (if lr_mountpoint route = None then
        (case filter (\<lambda>m. case me_source m of None \<Rightarrow> False
                         | Some s \<Rightarrow> source_names_device snapshot d s) (hs_mounts snapshot) of
           [mount] \<Rightarrow> route\<lparr>lr_mountpoint := Some (me_target mount)\<rparr>
         | [] \<Rightarrow> route
         | _ \<Rightarrow> push_issue (blocker ''route-mount-ambiguous''
             ''the resolved device is mounted at multiple active targets''
             (Some (device_path d))) route)
      else route)"

definition append_filesystem_layer :: "block_device \<Rightarrow> layer_route \<Rightarrow> layer_route" where
  "append_filesystem_layer d route =
     (case bd_filesystem d of
        None \<Rightarrow> route
      | Some f \<Rightarrow>
          (if fs_type f = ''LVM2_member'' \<or> fs_type f = ''swap'' then route
           else
             (let route = push_layer
                    \<lparr> rl_kind = RlFilesystem, rl_identity = fs_type f,
                      rl_device = Some (device_path d), rl_size_bytes = Some (bd_size_bytes d),
                      rl_detail = map_option (\<lambda>v. ''version='' @ v) (fs_version f) \<rparr> route
              in if fs_type f = ''ext4'' \<or> fs_type f = ''xfs'' then route
                 else if fs_type f = ''btrfs'' then push_issue (adapter ''btrfs-adapter-required''
                   ''Btrfs requires a filesystem-aware growth/provisioning adapter''
                   (Some (device_path d))) route
                 else if fs_type f = ''zfs'' \<or> fs_type f = ''zfs_member''
                 then push_issue (adapter ''zfs-adapter-required''
                   ''ZFS must be handled through pool/dataset semantics, not generic block resize''
                   (Some (device_path d))) route
                 else push_issue (adapter ''filesystem-adapter-required''
                   (''filesystem '' @ fs_type f @ '' has no proven mutation adapter'')
                   (Some (device_path d))) route)))"

definition append_mount_layer :: "block_device \<Rightarrow> layer_route \<Rightarrow> layer_route" where
  "append_mount_layer d route =
     (case lr_mountpoint route of
        None \<Rightarrow> route
      | Some m \<Rightarrow> push_layer
          \<lparr> rl_kind = RlMount, rl_identity = m, rl_device = Some (device_path d),
            rl_size_bytes = None, rl_detail = None \<rparr> route)"

definition status_of_issues :: "route_issue list \<Rightarrow> layer_route_status" where
  "status_of_issues issues =
     (if list_ex (\<lambda>i. ri_kind i = RiBlocker) issues then LrsBlocked
      else if list_ex (\<lambda>i. ri_kind i = RiAdapterRequired) issues then LrsAdapterRequired
      else LrsSupportedProfile)"

definition analyze_resolved_device ::
  "host_snapshot \<Rightarrow> node_ref \<Rightarrow> layer_route \<Rightarrow> layer_route" where
  "analyze_resolved_device snapshot r route =
     (let d = ref_node r;
          route = route\<lparr>lr_resolved_device := Some (device_path d)\<rparr>;
          route = infer_mountpoint snapshot d route
      in case find_path (sg_block_devices (hs_storage snapshot)) r of
           None \<Rightarrow> push_issue (blocker ''route-parent-chain-missing''
             ''the resolved device is not reachable from a storage-graph root''
             (Some (device_path d))) route
         | Some path \<Rightarrow>
             (let route = fold (\<lambda>n. append_block_layer snapshot (ref_node n)) path route;
                  route = append_filesystem_layer d route;
                  route = append_mount_layer d route
              in route\<lparr>lr_status := status_of_issues (lr_issues route)\<rparr>))"

definition analyze_layer_route :: "host_snapshot \<Rightarrow> string \<Rightarrow> layer_route" where
  "analyze_layer_route snapshot target =
     (let route = \<lparr> lr_target = target, lr_resolved_device = None, lr_mountpoint = None,
                    lr_status = LrsBlocked, lr_layers = [], lr_issues = [] \<rparr>
      in if target = [] \<or> has_control target
         then push_issue (blocker ''invalid-target''
           ''target must be a nonempty device path or exact mountpoint'' None) route
         else case resolve_route_source snapshot target route of
           Inl route \<Rightarrow> route
         | Inr (source, route) \<Rightarrow>
             (case route_candidates snapshot source of
                [r] \<Rightarrow> analyze_resolved_device snapshot r route
              | [] \<Rightarrow> push_issue (blocker ''route-device-not-found''
                  ''the selected target source does not resolve to one block-device node''
                  (Some source)) route
              | _ \<Rightarrow> push_issue (blocker ''route-device-ambiguous''
                  ''the selected target source resolves to multiple block-device nodes''
                  (Some source)) route))"


section \<open>Frame and issue facts of the steps\<close>

named_theorems route_frame \<open>fields a step of the route leaves alone\<close>
named_theorems route_clean \<open>when a step raises no issue\<close>

lemma push_simps [simp]:
  "lr_issues (push_layer l r) = lr_issues r"
  "lr_issues (push_issue i r) = lr_issues r @ [i]"
  "lr_layers (push_layer l r) = lr_layers r @ [l]"
  "lr_layers (push_issue i r) = lr_layers r"
  "lr_mountpoint (push_layer l r) = lr_mountpoint r"
  "lr_mountpoint (push_issue i r) = lr_mountpoint r"
  "lr_resolved_device (push_layer l r) = lr_resolved_device r"
  "lr_resolved_device (push_issue i r) = lr_resolved_device r"
  "lr_status (push_layer l r) = lr_status r"
  "lr_status (push_issue i r) = lr_status r"
  "lr_target (push_layer l r) = lr_target r"
  "lr_target (push_issue i r) = lr_target r"
  by (simp_all add: push_layer_def push_issue_def)

lemma issue_kind_simps [simp]:
  "ri_kind (blocker c m d) = RiBlocker" "ri_kind (adapter c m d) = RiAdapterRequired"
  by (simp_all add: blocker_def adapter_def)

text \<open>Everything but layers and issues.\<close>

definition same_scope :: "layer_route \<Rightarrow> layer_route \<Rightarrow> bool" where
  "same_scope r r' = (lr_target r' = lr_target r \<and> lr_resolved_device r' = lr_resolved_device r
     \<and> lr_mountpoint r' = lr_mountpoint r \<and> lr_status r' = lr_status r)"

lemma same_scope_refl [simp]: "same_scope r r"
  by (simp add: same_scope_def)

lemma same_scope_trans: "same_scope a b \<Longrightarrow> same_scope b c \<Longrightarrow> same_scope a c"
  by (simp add: same_scope_def)

lemma append_lvm_vg_frame [route_frame]: "same_scope r (append_lvm_vg lvm n r)"
  by (simp add: append_lvm_vg_def same_scope_def Let_def split: list.split)

lemma append_lvm_pv_and_vg_frame [route_frame]: "same_scope r (append_lvm_pv_and_vg s d r)"
  using append_lvm_vg_frame
  by (simp add: append_lvm_pv_and_vg_def same_scope_def Let_def split: list.split option.split)

lemma append_lvm_lv_frame [route_frame]: "same_scope r (append_lvm_lv s d r)"
  by (simp add: append_lvm_lv_def same_scope_def Let_def split: list.split option.split)

lemma append_kind_layer_frame [route_frame]: "same_scope r (append_kind_layer s d r)"
  using append_lvm_lv_frame[of r s d]
  by (simp add: append_kind_layer_def same_scope_def Let_def split: node_kind.split)

lemma append_block_layer_frame [route_frame]: "same_scope r (append_block_layer s d r)"
  using append_kind_layer_frame[of r s d]
    append_lvm_pv_and_vg_frame[of "append_kind_layer s d r" s d]
  by (simp add: append_block_layer_def same_scope_def Let_def)

lemma append_block_layers_frame [route_frame]:
  "same_scope r (fold (\<lambda>n. append_block_layer s (ref_node n)) path r)"
proof (induction path arbitrary: r)
  case (Cons n path)
  show ?case
    using same_scope_trans[OF append_block_layer_frame[of r s "ref_node n"] Cons] by simp
qed simp

lemma append_filesystem_layer_frame [route_frame]: "same_scope r (append_filesystem_layer d r)"
  by (simp add: append_filesystem_layer_def same_scope_def Let_def split: option.split)

lemma append_mount_layer_frame [route_frame]: "same_scope r (append_mount_layer d r)"
  by (simp add: append_mount_layer_def same_scope_def split: option.split)

section \<open>Supported layers\<close>

text \<open>What the proven profile asks of a volume group, a physical volume, a logical volume and a
  block node, stated over the inventory alone.\<close>

definition supported_vg :: "lvm_inventory \<Rightarrow> string \<Rightarrow> bool" where
  "supported_vg lvm n \<longleftrightarrow>
     (\<exists>vg. filter (\<lambda>vg. vg_name vg = n) (li_volume_groups lvm) = [vg]
        \<and> vg_missing_pv_count vg \<in> {None, Some 0} \<and> vg_pv_count vg \<le> 1
        \<and> vg_attributes vg = Some ''wz--n-'')"

definition supported_pv :: "host_snapshot \<Rightarrow> block_device \<Rightarrow> bool" where
  "supported_pv s d \<longleftrightarrow>
     (\<exists>lvm pv. hs_lvm s = Some lvm
        \<and> filter (\<lambda>pv. node_alias d (pv_name pv)) (li_physical_volumes lvm) = [pv]
        \<and> (\<forall>n. pv_vg_name pv = Some n \<longrightarrow> supported_vg lvm n))"

definition supported_lv :: "host_snapshot \<Rightarrow> string option \<Rightarrow> block_device \<Rightarrow> bool" where
  "supported_lv s mountpoint d \<longleftrightarrow>
     (\<exists>lvm lv. hs_lvm s = Some lvm
        \<and> filter (\<lambda>lv. lv_device lv d) (li_logical_volumes lvm) = [lv]
        \<and> lv_layout lv = Some ''linear'' \<and> lv_role lv = Some ''public''
        \<and> lv_attributes lv
            = Some (if mountpoint = None then ''-wi-a-----'' else ''-wi-ao----''))"

definition supported_node :: "host_snapshot \<Rightarrow> string option \<Rightarrow> block_device \<Rightarrow> bool" where
  "supported_node s mountpoint d \<longleftrightarrow>
     bd_kind d \<in> {NkDisk, NkPartition, NkLoop, NkLvm}
     \<and> (bd_kind d = NkLvm \<longrightarrow> supported_lv s mountpoint d)
     \<and> (has_fs_type ''LVM2_member'' d \<longrightarrow> supported_pv s d)"

definition supported_filesystem :: "block_device \<Rightarrow> bool" where
  "supported_filesystem d \<longleftrightarrow>
     (\<forall>f. bd_filesystem d = Some f \<longrightarrow> fs_type f \<in> {''LVM2_member'', ''swap'', ''ext4'', ''xfs''})"

lemma append_lvm_vg_clean [route_clean]:
  "lr_issues (append_lvm_vg lvm n r) = [] \<longleftrightarrow> lr_issues r = [] \<and> supported_vg lvm n"
proof (cases "filter (\<lambda>vg. vg_name vg = n) (li_volume_groups lvm)")
  case Nil
  then show ?thesis by (simp add: append_lvm_vg_def supported_vg_def)
next
  case (Cons vg rest)
  then show ?thesis
    by (cases rest; cases "vg_missing_pv_count vg")
       (auto simp: append_lvm_vg_def supported_vg_def Let_def not_less word_gt_0)
qed

lemma append_lvm_pv_and_vg_clean [route_clean]:
  "lr_issues (append_lvm_pv_and_vg s d r) = [] \<longleftrightarrow> lr_issues r = [] \<and> supported_pv s d"
  by (cases "hs_lvm s")
     (auto simp: append_lvm_pv_and_vg_def supported_pv_def Let_def append_lvm_vg_clean
        split: list.split option.split)

lemma append_lvm_lv_clean [route_clean]:
  "lr_issues (append_lvm_lv s d r) = []
     \<longleftrightarrow> lr_issues r = [] \<and> supported_lv s (lr_mountpoint r) d"
  by (cases "hs_lvm s"; cases "lr_mountpoint r")
     (auto simp: append_lvm_lv_def supported_lv_def Let_def expected_lv_attributes_def
        split: list.split)

lemma append_block_layer_clean [route_clean]:
  "lr_issues (append_block_layer s d r) = []
     \<longleftrightarrow> lr_issues r = [] \<and> supported_node s (lr_mountpoint r) d"
  by (cases "bd_kind d")
     (auto simp: append_block_layer_def append_kind_layer_def supported_node_def Let_def
        append_lvm_pv_and_vg_clean append_lvm_lv_clean)

lemma append_block_layers_clean [route_clean]:
  "lr_issues (fold (\<lambda>n. append_block_layer s (ref_node n)) path r) = []
     \<longleftrightarrow> lr_issues r = [] \<and> (\<forall>n\<in>set path. supported_node s (lr_mountpoint r) (ref_node n))"
proof (induction path arbitrary: r)
  case (Cons n path)
  have "lr_mountpoint (append_block_layer s (ref_node n) r) = lr_mountpoint r"
    using append_block_layer_frame by (simp add: same_scope_def)
  then show ?case by (auto simp: Cons append_block_layer_clean)
qed simp

lemma append_filesystem_layer_clean [route_clean]:
  "lr_issues (append_filesystem_layer d r) = [] \<longleftrightarrow> lr_issues r = [] \<and> supported_filesystem d"
  by (auto simp: append_filesystem_layer_def supported_filesystem_def Let_def split: option.split)

lemma append_mount_layer_issues [simp]: "lr_issues (append_mount_layer d r) = lr_issues r"
  by (simp add: append_mount_layer_def split: option.split)

lemma status_supported: "status_of_issues is = LrsSupportedProfile \<longleftrightarrow> is = []"
proof (cases "is")
  case (Cons i rest)
  then show ?thesis by (cases "ri_kind i") (auto simp: status_of_issues_def)
qed (simp add: status_of_issues_def)


section \<open>Candidates\<close>

lemma flatten_items_distinct: "distinct (flatten ds)"
  using flatten_distinct[of ds] by (rule distinct_map[THEN iffD1, THEN conjunct1])

lemma push_new_conv:
  assumes "r \<in> set (flatten ds)" "set cs \<subseteq> set (flatten ds)"
  shows "push_new r cs = (if r \<in> set cs then cs else cs @ [r])"
proof -
  have "list_ex (\<lambda>c. ptr_eq c r) cs \<longleftrightarrow> (\<exists>c\<in>set cs. c = r)"
    unfolding list_ex_iff using assms flatten_ptr_eq by blast
  then show ?thesis by (auto simp: push_new_def)
qed

lemma push_new_fold:
  assumes "set rs \<subseteq> set (flatten ds)" "set cs \<subseteq> set (flatten ds)" "distinct cs"
  shows "set (fold push_new rs cs) = set cs \<union> set rs \<and> distinct (fold push_new rs cs)"
  using assms
proof (induction rs arbitrary: cs)
  case (Cons r rs)
  then have "push_new r cs = (if r \<in> set cs then cs else cs @ [r])"
    by (intro push_new_conv[where ds = ds]) auto
  with Cons show ?case by auto
qed simp

lemma candidates_fold:
  assumes "set cs \<subseteq> set (flatten ds)" "distinct cs"
  shows "set (fold (\<lambda>lv. fold push_new (filter (\<lambda>r. lv_device lv (ref_node r)) (flatten ds))) lvs cs)
    = set cs \<union> {r \<in> set (flatten ds). \<exists>lv\<in>set lvs. lv_device lv (ref_node r)}
    \<and> distinct (fold (\<lambda>lv. fold push_new (filter (\<lambda>r. lv_device lv (ref_node r)) (flatten ds))) lvs cs)"
  using assms
proof (induction lvs arbitrary: cs)
  case (Cons lv lvs)
  let ?rs = "filter (\<lambda>r. lv_device lv (ref_node r)) (flatten ds)"
  have step: "set (fold push_new ?rs cs) = set cs \<union> set ?rs" "distinct (fold push_new ?rs cs)"
    using push_new_fold[of ?rs ds cs] Cons.prems by auto
  with Cons.prems have "set (fold push_new ?rs cs) \<subseteq> set (flatten ds)" by auto
  from Cons.IH[OF this step(2)] step(1) show ?case by auto
qed simp

lemma route_candidates_set:
  "set (route_candidates s source)
     = {r \<in> set (flatten (sg_block_devices (hs_storage s))). source_names_device s (ref_node r) source}
   \<and> distinct (route_candidates s source)"
proof (cases "hs_lvm s")
  case None
  then show ?thesis
    by (auto simp: route_candidates_def source_names_device_def Let_def flatten_items_distinct)
next
  case (Some lvm)
  let ?ds = "sg_block_devices (hs_storage s)"
  let ?direct = "filter (\<lambda>r. node_alias (ref_node r) source) (flatten ?ds)"
  let ?lvs = "filter (\<lambda>lv. lv_alias lv source) (li_logical_volumes lvm)"
  have "set ?direct \<subseteq> set (flatten ?ds)" "distinct ?direct"
    by (auto simp: flatten_items_distinct)
  from candidates_fold[OF this, of ?lvs] Some show ?thesis
    by (auto simp: route_candidates_def source_names_device_def Let_def list_ex_iff)
qed

section \<open>The status of a route\<close>

lemma infer_mountpoint_frame [simp]:
  "lr_status (infer_mountpoint s d r) = lr_status r"
  "lr_resolved_device (infer_mountpoint s d r) = lr_resolved_device r"
  by (simp_all add: infer_mountpoint_def split: list.split)

lemma infer_mountpoint_issues:
  "lr_issues (infer_mountpoint s d r) = [] \<Longrightarrow> lr_issues r = []"
  by (auto simp: infer_mountpoint_def split: list.splits if_splits)

definition status_faithful :: "layer_route \<Rightarrow> bool" where
  "status_faithful r \<longleftrightarrow> lr_status r = status_of_issues (lr_issues r)"

lemma status_faithful_push [intro]:
  "lr_status r = LrsBlocked \<Longrightarrow> status_faithful (push_issue (blocker c m d) r)"
  by (simp add: status_faithful_def status_of_issues_def)

lemma resolve_route_source_Inl:
  "resolve_route_source s t r = Inl r' \<Longrightarrow> lr_status r = LrsBlocked \<Longrightarrow>
     status_faithful r' \<and> lr_status r' = LrsBlocked \<and> lr_resolved_device r' = lr_resolved_device r"
  by (auto simp: resolve_route_source_def Let_def split: if_splits list.splits option.splits)

lemma resolve_route_source_Inr:
  assumes "resolve_route_source s t r = Inr (source, r')"
  shows "lr_status r' = lr_status r \<and> lr_issues r' = lr_issues r \<and> lr_layers r' = lr_layers r
    \<and> lr_resolved_device r' = lr_resolved_device r
    \<and> (starts_with ''/dev/'' t \<and> source = t \<and> r' = r
       \<or> \<not> starts_with ''/dev/'' t \<and> lr_mountpoint r' = Some t
         \<and> (\<exists>m. filter (\<lambda>m. me_target m = t) (hs_mounts s) = [m] \<and> me_source m = Some source))"
proof (cases "starts_with ''/dev/'' t")
  case True
  with assms show ?thesis by (simp add: resolve_route_source_def)
next
  case False
  with assms obtain m where m: "filter (\<lambda>m. me_target m = t) (hs_mounts s) = [m]"
    by (auto simp: resolve_route_source_def Let_def split: list.splits)
  then have "me_target m = t" by (auto simp: filter_eq_Cons_iff)
  with False m assms show ?thesis
    by (auto simp: resolve_route_source_def Let_def split: option.splits)
qed

lemma analyze_resolved_device_path:
  assumes r: "r \<in> set (flatten (sg_block_devices (hs_storage s)))"
  shows "\<exists>path. find_path (sg_block_devices (hs_storage s)) r = Some path
    \<and> last path = r \<and> path \<noteq> [] \<and> parent_chain path
    \<and> ref_node (hd path) \<in> set (sg_block_devices (hs_storage s))
    \<and> analyze_resolved_device s r route =
       (let q = append_mount_layer (ref_node r) (append_filesystem_layer (ref_node r)
           (fold (\<lambda>n. append_block_layer s (ref_node n)) path
             (infer_mountpoint s (ref_node r)
               (route\<lparr>lr_resolved_device := Some (device_path (ref_node r))\<rparr>))))
        in q\<lparr>lr_status := status_of_issues (lr_issues q)\<rparr>)"
proof (rule find_path_complete[OF r])
  fix path
  assume p: "find_path (sg_block_devices (hs_storage s)) r = Some path" "last path = r" "path \<noteq> []"
    "parent_chain path" "ref_node (hd path) \<in> set (sg_block_devices (hs_storage s))"
  show ?thesis
    by (rule exI[of _ path]) (simp only: p analyze_resolved_device_def Let_def option.case simp_thms)
qed

lemma analyze_resolved_device_faithful:
  "r \<in> set (flatten (sg_block_devices (hs_storage s))) \<Longrightarrow>
     status_faithful (analyze_resolved_device s r route)"
  using analyze_resolved_device_path[of r s route] by (auto simp: status_faithful_def Let_def)

text \<open>The route whose target is being looked up, and the three outcomes of the analysis.\<close>

definition fresh_route :: "string \<Rightarrow> layer_route" where
  "fresh_route t = \<lparr> lr_target = t, lr_resolved_device = None, lr_mountpoint = None,
     lr_status = LrsBlocked, lr_layers = [], lr_issues = [] \<rparr>"

lemma fresh_route_simps [simp]:
  "lr_status (fresh_route t) = LrsBlocked" "lr_mountpoint (fresh_route t) = None"
  "lr_issues (fresh_route t) = []" "lr_layers (fresh_route t) = []"
  "lr_resolved_device (fresh_route t) = None"
  by (simp_all add: fresh_route_def)

lemma analyze_layer_route_cases:
  obtains (blocked) q c m d where "lr_status q = LrsBlocked" "lr_resolved_device q = None"
      "analyze_layer_route s t = push_issue (blocker c m d) q"
    | (unresolved) q where "resolve_route_source s t (fresh_route t) = Inl q"
      "analyze_layer_route s t = q"
    | (resolved) source q r where "resolve_route_source s t (fresh_route t) = Inr (source, q)"
      "route_candidates s source = [r]"
      "analyze_layer_route s t = analyze_resolved_device s r q"
proof -
  have eq: "analyze_layer_route s t = (if t = [] \<or> has_control t
     then push_issue (blocker ''invalid-target''
       ''target must be a nonempty device path or exact mountpoint'' None) (fresh_route t)
     else case resolve_route_source s t (fresh_route t) of Inl q \<Rightarrow> q
     | Inr (source, q) \<Rightarrow>
         (case route_candidates s source of
            [r] \<Rightarrow> analyze_resolved_device s r q
          | [] \<Rightarrow> push_issue (blocker ''route-device-not-found''
              ''the selected target source does not resolve to one block-device node''
              (Some source)) q
          | _ \<Rightarrow> push_issue (blocker ''route-device-ambiguous''
              ''the selected target source resolves to multiple block-device nodes''
              (Some source)) q))"
    by (simp only: analyze_layer_route_def fresh_route_def Let_def)
  show thesis
  proof (cases "t = [] \<or> has_control t")
    case True
    with eq blocked[of "fresh_route t"] show thesis by simp
  next
    case False
    show thesis
    proof (cases "resolve_route_source s t (fresh_route t)")
      case (Inl q)
      with False eq unresolved show thesis by simp
    next
      case (Inr p)
      obtain source q where p: "p = (source, q)" by force
      from resolve_route_source_Inr[OF Inr[unfolded p]] have q: "lr_status q = LrsBlocked"
        "lr_resolved_device q = None" by simp_all
      show thesis
      proof (cases "route_candidates s source" rule: single.cases)
        case 1
        with False eq Inr p blocked[OF q] show thesis by simp
      next
        case (2 r)
        with False eq Inr p resolved show thesis by simp
      next
        case (3 a b c)
        with False eq Inr p blocked[OF q] show thesis by simp
      qed
    qed
  qed
qed

lemma candidates_flat:
  "route_candidates s source = [r] \<Longrightarrow> r \<in> set (flatten (sg_block_devices (hs_storage s)))"
  using route_candidates_set[of s source] by auto

lemma analyze_layer_route_faithful: "status_faithful (analyze_layer_route s t)"
proof (cases rule: analyze_layer_route_cases[of s t])
  case (unresolved q)
  then show ?thesis using resolve_route_source_Inl[OF unresolved(1)] by simp
next
  case (resolved source q r)
  then show ?thesis by (simp add: analyze_resolved_device_faithful candidates_flat)
qed auto

text \<open>The nodes a mount source or device path resolves to are exactly the block nodes it names
  (by one of their own aliases or as a logical volume), and none is listed twice, so a route that
  goes on with a single candidate goes on with the only node there is.\<close>

theorem route_candidates_exact:
  "set (route_candidates s source)
     = {r \<in> set (flatten (sg_block_devices (hs_storage s))). source_names_device s (ref_node r) source}
   \<and> distinct (route_candidates s source)"
  by (rule route_candidates_set)

text \<open>On every path, early returns included, the status of a route is the one its issues
  call for: blocked as soon as one blocker was raised, adapter required when only adapters are
  missing, the supported profile when there is no issue at all.\<close>

theorem route_status_of_issues:
  "lr_status (analyze_layer_route s t) = status_of_issues (lr_issues (analyze_layer_route s t))"
  using analyze_layer_route_faithful by (simp add: status_faithful_def)

lemma analyze_resolved_device_resolved:
  "r \<in> set (flatten (sg_block_devices (hs_storage s))) \<Longrightarrow>
     lr_resolved_device (analyze_resolved_device s r q) = Some (device_path (ref_node r))"
proof -
  assume mem: "r \<in> set (flatten (sg_block_devices (hs_storage s)))"
  let ?m = "infer_mountpoint s (ref_node r) (q\<lparr>lr_resolved_device := Some (device_path (ref_node r))\<rparr>)"
  obtain path where eq: "analyze_resolved_device s r q =
     (let q = append_mount_layer (ref_node r) (append_filesystem_layer (ref_node r)
         (fold (\<lambda>n. append_block_layer s (ref_node n)) path ?m))
      in q\<lparr>lr_status := status_of_issues (lr_issues q)\<rparr>)"
    using analyze_resolved_device_path[OF mem, of q] by blast
  have "same_scope ?m (append_mount_layer (ref_node r) (append_filesystem_layer (ref_node r)
      (fold (\<lambda>n. append_block_layer s (ref_node n)) path ?m)))"
    by (rule same_scope_trans[OF same_scope_trans[OF append_block_layers_frame
          append_filesystem_layer_frame] append_mount_layer_frame])
  then show ?thesis by (simp add: eq Let_def same_scope_def)
qed

lemma resolved_device_in_graph:
  assumes "lr_resolved_device (analyze_layer_route s t) = Some p"
  shows "\<exists>r \<in> set (flatten (sg_block_devices (hs_storage s))). device_path (ref_node r) = p"
proof (cases rule: analyze_layer_route_cases[of s t])
  case (unresolved q)
  with assms resolve_route_source_Inl[OF unresolved(1)] show ?thesis by simp
next
  case (resolved source q r)
  note mem = candidates_flat[OF resolved(2)]
  with analyze_resolved_device_resolved[OF mem, of q] resolved(3) assms show ?thesis by auto
qed (use assms in simp)

text \<open>C13: a route is in the supported profile only when the target resolves to exactly one block
  node (by its device path, or through the only mount with that target), that node hangs below a
  root of the storage graph by a chain of parents, every node of the chain is supported (an LVM
  volume by its attributes, a physical volume by its complete volume group, never RAID,
  encryption or multipath) and its filesystem has a proven adapter.\<close>

theorem supported_route_sound:
  assumes "lr_status (analyze_layer_route s t) = LrsSupportedProfile"
  shows "\<exists>r path. r \<in> set (flatten (sg_block_devices (hs_storage s)))
    \<and> find_path (sg_block_devices (hs_storage s)) r = Some path \<and> last path = r \<and> parent_chain path
    \<and> ref_node (hd path) \<in> set (sg_block_devices (hs_storage s))
    \<and> lr_resolved_device (analyze_layer_route s t) = Some (device_path (ref_node r))
    \<and> (\<forall>n\<in>set path. supported_node s (lr_mountpoint (analyze_layer_route s t)) (ref_node n))
    \<and> supported_filesystem (ref_node r)
    \<and> (starts_with ''/dev/'' t \<and> route_candidates s t = [r]
       \<or> \<not> starts_with ''/dev/'' t \<and> lr_mountpoint (analyze_layer_route s t) = Some t
         \<and> (\<exists>m source. filter (\<lambda>m. me_target m = t) (hs_mounts s) = [m]
              \<and> me_source m = Some source \<and> route_candidates s source = [r]))"
proof (cases rule: analyze_layer_route_cases[of s t])
  case (blocked q c m d)
  with assms show ?thesis by simp
next
  case (unresolved q)
  with assms resolve_route_source_Inl[OF unresolved(1)] show ?thesis by simp
next
  case (resolved source q r)
  from assms have "status_of_issues (lr_issues (analyze_layer_route s t)) = LrsSupportedProfile"
    using analyze_layer_route_faithful by (simp add: status_faithful_def)
  then have clean: "lr_issues (analyze_layer_route s t) = []" by (simp add: status_supported)
  note mem = candidates_flat[OF resolved(2)] and res = resolve_route_source_Inr[OF resolved(1)]
  let ?m = "infer_mountpoint s (ref_node r) (q\<lparr>lr_resolved_device := Some (device_path (ref_node r))\<rparr>)"
  obtain path where path: "find_path (sg_block_devices (hs_storage s)) r = Some path"
    "last path = r" "parent_chain path"
    "ref_node (hd path) \<in> set (sg_block_devices (hs_storage s))"
    and eq: "analyze_layer_route s t =
       (let q = append_mount_layer (ref_node r) (append_filesystem_layer (ref_node r)
           (fold (\<lambda>n. append_block_layer s (ref_node n)) path ?m))
        in q\<lparr>lr_status := status_of_issues (lr_issues q)\<rparr>)"
    using analyze_resolved_device_path[OF mem, of q] unfolding resolved(3) by blast
  let ?b = "fold (\<lambda>n. append_block_layer s (ref_node n)) path ?m"
  have "same_scope ?m (append_mount_layer (ref_node r) (append_filesystem_layer (ref_node r) ?b))"
    by (rule same_scope_trans[OF same_scope_trans[OF append_block_layers_frame
          append_filesystem_layer_frame] append_mount_layer_frame])
  then have scope: "lr_mountpoint (analyze_layer_route s t) = lr_mountpoint ?m"
    "lr_resolved_device (analyze_layer_route s t) = Some (device_path (ref_node r))"
    by (simp_all add: eq Let_def same_scope_def)
  from clean have nodes: "\<forall>n\<in>set path. supported_node s (lr_mountpoint ?m) (ref_node n)"
    and fs: "supported_filesystem (ref_node r)"
    by (simp_all add: eq Let_def route_clean)
  have "lr_mountpoint ?m = Some t" if "lr_mountpoint q = Some t"
    using that by (simp add: infer_mountpoint_def)
  with res resolved(2) have src: "starts_with ''/dev/'' t \<and> route_candidates s t = [r]
      \<or> \<not> starts_with ''/dev/'' t \<and> lr_mountpoint ?m = Some t
        \<and> (\<exists>m source. filter (\<lambda>m. me_target m = t) (hs_mounts s) = [m]
              \<and> me_source m = Some source \<and> route_candidates s source = [r])"
    by metis
  show ?thesis
    by (rule exI[of _ r], rule exI[of _ path]) (use nodes in \<open>simp only: scope mem path fs src simp_thms\<close>)
qed

section \<open>A concrete host\<close>

text \<open>A disk with one partition that holds an ext4 filesystem mounted at \<open>/\<close>.\<close>

definition ex_partition :: block_device where
  "ex_partition = BlockDevice ''sda1'' (Some ''sda1'') (Some ''/dev/sda1'') NkPartition 1048576
     (Some 2048) (Some 512) (Some \<lparr> fs_type = ''ext4'', fs_version = None \<rparr>) [''/''] (Some ''sda'')
     None None (Some ''u1'') (Some ''p1'') (Some ''gpt'') []"

definition ex_disk :: block_device where
  "ex_disk = BlockDevice ''sda'' (Some ''sda'') (Some ''/dev/sda'') NkDisk 1073741824
     None (Some 512) None [] None
     (Some ''model'') (Some ''serial'') None None (Some ''gpt'') [ex_partition]"

definition ex_host :: host_snapshot where
  "ex_host = \<lparr> hs_storage = \<lparr> sg_block_devices = [ex_disk] \<rparr>, hs_partition_tables = [],
     hs_mounts = [\<lparr> me_source = Some ''/dev/sda1'', me_target = ''/'', me_fs_type = Some ''ext4'',
       me_options = [''rw''] \<rparr>],
     hs_fstab = [], hs_swaps = [], hs_lvm = None, hs_filesystem_preflight = [],
     hs_diagnostics = [], hs_collectors = [] \<rparr>"

lemma supported_route_sound_witness:
  "lr_status (analyze_layer_route ex_host ''/'') = LrsSupportedProfile
   \<and> lr_resolved_device (analyze_layer_route ex_host ''/'') = Some ''/dev/sda1''
   \<and> (\<exists>r path. find_path (sg_block_devices (hs_storage ex_host)) r = Some path \<and> last path = r)"
proof -
  have s: "lr_status (analyze_layer_route ex_host ''/'') = LrsSupportedProfile"
    and d: "lr_resolved_device (analyze_layer_route ex_host ''/'') = Some ''/dev/sda1''"
    by code_simp+
  from supported_route_sound[OF s] s d show ?thesis by blast
qed

end
