(* ===== verification/IdentityGuard.thy ===== *)
theory IdentityGuard
  imports RouteGraph "HOL-Library.Char_ord" "HOL-Library.List_Lexorder"
    "HOL-Library.Option_ord" "HOL-Library.Product_Lexorder"
begin

text \<open>
  The identity manifest of a growth target (\<open>crates/planner/src/identity_guard.rs\<close>): what is
  frozen about the target when a plan is made, and the comparison with a fresh snapshot before
  anything is mutated. Strings are ordered byte by byte, \<open>None\<close> before \<open>Some\<close>, as \<open>Ord\<close> does.

  The digest of a manifest is SHA-256 of its JSON form (crates \<open>sha2\<close> and \<open>serde_json\<close>, not part
  of this repository): the parameter \<open>fp\<close> of the definitions, which returns the serializer's error
  or the digest.
\<close>

section \<open>Data\<close>

record device_identity =
  di_kind :: node_kind
  di_path :: string
  di_kernel_name :: "string option"
  di_parent_kernel_name :: "string option"
  di_size_bytes :: u64
  di_start_512_sector :: "u64 option"
  di_logical_sector_bytes :: "u64 option"
  di_uuid :: "string option"
  di_partition_uuid :: "string option"
  di_model :: "string option"
  di_serial :: "string option"
  di_filesystem_type :: "string option"

record partition_geometry_identity =
  pgi_partition :: string
  pgi_disk :: "string option"
  pgi_table_label :: "string option"
  pgi_table_id :: "string option"
  pgi_sector_size_bytes :: "u64 option"
  pgi_start_sector :: "u64 option"
  pgi_size_sectors :: "u64 option"
  pgi_record_uuid :: "string option"

datatype lvm_identity_kind = LikPhysicalVolume | LikVolumeGroup | LikLogicalVolume

record lvm_identity =
  lid_kind :: lvm_identity_kind
  lid_name :: string
  lid_uuid :: "string option"
  lid_size_bytes :: u64
  lid_free_bytes :: "u64 option"
  lid_pe_start_bytes :: "u64 option"
  lid_extent_size_bytes :: "u64 option"
  lid_free_extent_count :: "u64 option"
  lid_pv_count :: "u64 option"
  lid_lv_count :: "u64 option"
  lid_attributes :: "string option"
  lid_layout :: "string option"
  lid_role :: "string option"

record filesystem_identity =
  fid_device :: string
  fid_fs_type :: string
  fid_fs_version :: "string option"
  fid_uuid :: "string option"
  fid_backing_device_size_bytes :: u64
  fid_observed_filesystem_size_bytes :: "u64 option"

record mount_identity =
  mid_target :: string
  mid_source :: "string option"
  mid_fs_type :: "string option"
  mid_options :: "string list"

record target_identity_manifest =
  tim_schema_version :: u32
  tim_target :: string
  tim_manifest_digest :: string
  tim_resolved_device :: string
  tim_route_status :: layer_route_status
  tim_route_issue_codes :: "string list"
  tim_devices :: "device_identity list"
  tim_partitions :: "partition_geometry_identity list"
  tim_lvm :: "lvm_identity list"
  tim_filesystem :: "filesystem_identity option"
  tim_mounts :: "mount_identity list"

record identity_change =
  ic_code :: string
  ic_message :: string

record identity_revalidation =
  irv_matches :: bool
  irv_baseline_digest :: string
  irv_fresh_digest :: "string option"
  irv_changes :: "identity_change list"

datatype identity_guard_error =
  IgeUnresolvedTarget | IgeResolvedDeviceMissing | IgeSerialization string

definition identity_guard_error_text :: "identity_guard_error \<Rightarrow> string" where
  "identity_guard_error_text e =
     (case e of
        IgeUnresolvedTarget \<Rightarrow> ''target route could not resolve one device''
      | IgeResolvedDeviceMissing \<Rightarrow> ''resolved target device is absent from the storage graph''
      | IgeSerialization m \<Rightarrow> ''could not serialize target identity manifest: '' @ m)"

type_synonym manifest_digest_fun = "target_identity_manifest \<Rightarrow> (string, string) result"

section \<open>Capturing a manifest\<close>

definition device_identity_of :: "block_device \<Rightarrow> device_identity" where
  "device_identity_of d =
     \<lparr> di_kind = bd_kind d, di_path = device_path d, di_kernel_name = bd_kernel_name d,
       di_parent_kernel_name = bd_parent_kernel_name d, di_size_bytes = bd_size_bytes d,
       di_start_512_sector = bd_start_512_sector d,
       di_logical_sector_bytes = bd_logical_sector_bytes d,
       di_uuid = bd_uuid d, di_partition_uuid = bd_partition_uuid d, di_model = bd_model d,
       di_serial = bd_serial d, di_filesystem_type = map_option fs_type (bd_filesystem d) \<rparr>"

definition partition_identity :: "host_snapshot \<Rightarrow> block_device \<Rightarrow> partition_geometry_identity" where
  "partition_identity snapshot d =
     (let partition = device_path d;
          matches = List.map_filter
            (\<lambda>table. map_option (\<lambda>record. (table, record))
               (find (\<lambda>record. pr_node record = partition) (pt_partitions table)))
            (hs_partition_tables snapshot)
      in case matches of
           _ # _ # _ \<Rightarrow>
             \<lparr> pgi_partition = partition, pgi_disk = None, pgi_table_label = None,
               pgi_table_id = None, pgi_sector_size_bytes = None, pgi_start_sector = None,
               pgi_size_sectors = None, pgi_record_uuid = bd_partition_uuid d \<rparr>
         | [] \<Rightarrow>
             \<lparr> pgi_partition = partition,
               pgi_disk = map_option (\<lambda>parent. ''/dev/'' @ parent) (bd_parent_kernel_name d),
               pgi_table_label = bd_partition_table d, pgi_table_id = None,
               pgi_sector_size_bytes = bd_logical_sector_bytes d,
               pgi_start_sector = bd_start_512_sector d,
               pgi_size_sectors = None, pgi_record_uuid = bd_partition_uuid d \<rparr>
         | [(table, record)] \<Rightarrow>
             \<lparr> pgi_partition = partition, pgi_disk = Some (pt_device table),
               pgi_table_label = pt_label table, pgi_table_id = pt_id table,
               pgi_sector_size_bytes = pt_sector_size_bytes table,
               pgi_start_sector = Some (pr_start_sector record),
               pgi_size_sectors = Some (pr_size_sectors record),
               pgi_record_uuid =
                 (case pr_uuid record of Some u \<Rightarrow> Some u | None \<Rightarrow> bd_partition_uuid d) \<rparr>)"

definition pv_identity :: "lvm_physical_volume \<Rightarrow> lvm_identity" where
  "pv_identity pv =
     \<lparr> lid_kind = LikPhysicalVolume, lid_name = pv_name pv, lid_uuid = pv_uuid pv,
       lid_size_bytes = pv_size_bytes pv, lid_free_bytes = Some (pv_free_bytes pv),
       lid_pe_start_bytes = pv_pe_start_bytes pv, lid_extent_size_bytes = None,
       lid_free_extent_count = None, lid_pv_count = None, lid_lv_count = None,
       lid_attributes = None, lid_layout = None, lid_role = None \<rparr>"

definition lv_identity :: "lvm_logical_volume \<Rightarrow> lvm_identity" where
  "lv_identity lv =
     \<lparr> lid_kind = LikLogicalVolume,
       lid_name = (case lv_path lv of Some p \<Rightarrow> p
                   | None \<Rightarrow> ''/dev/'' @ lv_vg_name lv @ ''/'' @ lv_name lv),
       lid_uuid = lv_uuid lv, lid_size_bytes = lv_size_bytes lv, lid_free_bytes = None,
       lid_pe_start_bytes = None, lid_extent_size_bytes = None, lid_free_extent_count = None,
       lid_pv_count = None, lid_lv_count = None, lid_attributes = lv_attributes lv,
       lid_layout = lv_layout lv, lid_role = lv_role lv \<rparr>"

definition vg_identity :: "lvm_volume_group \<Rightarrow> lvm_identity" where
  "vg_identity vg =
     \<lparr> lid_kind = LikVolumeGroup, lid_name = vg_name vg, lid_uuid = vg_uuid vg,
       lid_size_bytes = vg_size_bytes vg, lid_free_bytes = Some (vg_free_bytes vg),
       lid_pe_start_bytes = None, lid_extent_size_bytes = vg_extent_size_bytes vg,
       lid_free_extent_count = vg_free_extent_count vg, lid_pv_count = Some (vg_pv_count vg),
       lid_lv_count = Some (vg_lv_count vg), lid_attributes = vg_attributes vg,
       lid_layout = None, lid_role = None \<rparr>"

text \<open>One turn of the loop over the path: the identities so far, and the volume groups met.\<close>

definition remember :: "'a \<Rightarrow> 'a list \<Rightarrow> 'a list" where
  "remember x xs = (if x \<in> set xs then xs else xs @ [x])"

definition collect_pv :: "lvm_physical_volume \<Rightarrow> lvm_identity list \<times> string list
    \<Rightarrow> lvm_identity list \<times> string list" where
  "collect_pv pv acc =
     (case acc of (identities, groups) \<Rightarrow>
        (identities @ [pv_identity pv],
         (case pv_vg_name pv of None \<Rightarrow> groups | Some vgn \<Rightarrow> remember vgn groups)))"

definition collect_lv :: "lvm_logical_volume \<Rightarrow> lvm_identity list \<times> string list
    \<Rightarrow> lvm_identity list \<times> string list" where
  "collect_lv lv acc =
     (case acc of (identities, groups) \<Rightarrow>
        (identities @ [lv_identity lv], remember (lv_vg_name lv) groups))"

definition collect_device :: "lvm_inventory \<Rightarrow> block_device \<Rightarrow> lvm_identity list \<times> string list
    \<Rightarrow> lvm_identity list \<times> string list" where
  "collect_device inventory d acc =
     (let acc = (if has_fs_type ''LVM2_member'' d
                 then fold collect_pv
                        (filter (\<lambda>pv. node_alias d (pv_name pv)) (li_physical_volumes inventory)) acc
                 else acc)
      in if bd_kind d = NkLvm
         then fold collect_lv (filter (\<lambda>lv. lv_device lv d) (li_logical_volumes inventory)) acc
         else acc)"

definition collect_lvm_identity :: "host_snapshot \<Rightarrow> node_ref list \<Rightarrow> lvm_identity list" where
  "collect_lvm_identity snapshot path =
     (case hs_lvm snapshot of
        None \<Rightarrow> []
      | Some inventory \<Rightarrow>
          (case fold (\<lambda>r. collect_device inventory (ref_node r)) path ([], []) of
             (identities, groups) \<Rightarrow>
               identities
               @ concat (map (\<lambda>vgn. map vg_identity
                   (filter (\<lambda>vg. vg_name vg = vgn) (li_volume_groups inventory))) groups)))"

definition lvm_kind_debug :: "lvm_identity_kind \<Rightarrow> string" where
  "lvm_kind_debug k =
     (case k of LikPhysicalVolume \<Rightarrow> ''PhysicalVolume'' | LikVolumeGroup \<Rightarrow> ''VolumeGroup''
      | LikLogicalVolume \<Rightarrow> ''LogicalVolume'')"

definition filesystem_identity_of ::
  "host_snapshot \<Rightarrow> string option \<Rightarrow> block_device \<Rightarrow> filesystem_identity option" where
  "filesystem_identity_of snapshot mountpoint d =
     (case bd_filesystem d of
        None \<Rightarrow> None
      | Some f \<Rightarrow>
          (if fs_type f = ''LVM2_member'' \<or> fs_type f = ''swap'' then None
           else
             (let path = device_path d;
                  matching = filter
                    (\<lambda>e. fpe_device e = path \<and> fpe_fs_type e = fs_type f
                         \<and> (case mountpoint of None \<Rightarrow> True
                            | Some m \<Rightarrow> fpe_mountpoint e = Some m))
                    (hs_filesystem_preflight snapshot)
              in Some \<lparr> fid_device = path, fid_fs_type = fs_type f, fid_fs_version = fs_version f,
                        fid_uuid = bd_uuid d, fid_backing_device_size_bytes = bd_size_bytes d,
                        fid_observed_filesystem_size_bytes =
                          (case matching of [e] \<Rightarrow> fpe_size_bytes e | _ \<Rightarrow> None) \<rparr>)))"

definition mount_identity_of :: "mount_entry \<Rightarrow> mount_identity" where
  "mount_identity_of m =
     \<lparr> mid_target = me_target m, mid_source = me_source m, mid_fs_type = me_fs_type m,
       mid_options = sort (me_options m) \<rparr>"

definition target_mount :: "host_snapshot \<Rightarrow> string option \<Rightarrow> block_device \<Rightarrow> mount_entry \<Rightarrow> bool" where
  "target_mount snapshot mountpoint d m =
     ((case mountpoint of None \<Rightarrow> False | Some p \<Rightarrow> me_target m = p)
      \<or> (case me_source m of None \<Rightarrow> False | Some source \<Rightarrow> source_names_device snapshot d source))"

definition manifest_body ::
  "host_snapshot \<Rightarrow> string \<Rightarrow> layer_route \<Rightarrow> string \<Rightarrow> node_ref \<Rightarrow> node_ref list
     \<Rightarrow> target_identity_manifest" where
  "manifest_body snapshot target route resolved r path =
     \<lparr> tim_schema_version = 1, tim_target = target, tim_manifest_digest = '''',
       tim_resolved_device = resolved, tim_route_status = lr_status route,
       tim_route_issue_codes = sort (map ri_code (lr_issues route)),
       tim_devices = map (\<lambda>n. device_identity_of (ref_node n)) path,
       tim_partitions = sort_key pgi_partition
         (map (\<lambda>n. partition_identity snapshot (ref_node n))
            (filter (\<lambda>n. bd_kind (ref_node n) = NkPartition) path)),
       tim_lvm = sort_key (\<lambda>i. (lvm_kind_debug (lid_kind i), lid_name i))
         (collect_lvm_identity snapshot path),
       tim_filesystem = filesystem_identity_of snapshot (lr_mountpoint route) (ref_node r),
       tim_mounts = sort_key (\<lambda>m. (mid_target m, mid_source m))
         (map mount_identity_of
            (filter (target_mount snapshot (lr_mountpoint route) (ref_node r)) (hs_mounts snapshot))) \<rparr>"

definition capture_target_identity ::
  "manifest_digest_fun \<Rightarrow> host_snapshot \<Rightarrow> string
     \<Rightarrow> (identity_guard_error, target_identity_manifest) result" where
  "capture_target_identity fp snapshot target =
     (let route = analyze_layer_route snapshot target;
          roots = sg_block_devices (hs_storage snapshot)
      in case lr_resolved_device route of
           None \<Rightarrow> Inl IgeUnresolvedTarget
         | Some resolved \<Rightarrow>
             (case find (\<lambda>r. device_path (ref_node r) = resolved) (flatten roots) of
                None \<Rightarrow> Inl IgeResolvedDeviceMissing
              | Some r \<Rightarrow>
                  (case find_path roots r of
                     None \<Rightarrow> Inl IgeResolvedDeviceMissing
                   | Some path \<Rightarrow>
                       (let manifest = manifest_body snapshot target route resolved r path
                        in case fp manifest of
                             Inl e \<Rightarrow> Inl (IgeSerialization e)
                           | Inr digest \<Rightarrow> Inr (manifest\<lparr>tim_manifest_digest := digest\<rparr>)))))"

section \<open>Comparing with a fresh snapshot\<close>

definition compare_field ::
  "string \<Rightarrow> string \<Rightarrow> 'a \<Rightarrow> 'a \<Rightarrow> identity_change list \<Rightarrow> identity_change list" where
  "compare_field code message baseline fresh changes =
     (if baseline \<noteq> fresh then changes @ [\<lparr> ic_code = code, ic_message = message \<rparr>] else changes)"

definition manifest_changes ::
  "target_identity_manifest \<Rightarrow> target_identity_manifest \<Rightarrow> identity_change list" where
  "manifest_changes baseline fresh =
     (let c = compare_field ''resolved-device-changed'' ''resolved target device changed''
                (tim_resolved_device baseline) (tim_resolved_device fresh) [];
          c = compare_field ''route-status-changed'' ''storage route support state changed''
                (tim_route_status baseline) (tim_route_status fresh) c;
          c = compare_field ''route-issues-changed'' ''storage route diagnostics changed''
                (tim_route_issue_codes baseline) (tim_route_issue_codes fresh) c;
          c = compare_field ''device-chain-changed''
                ''one or more target block-device identities/capacities changed''
                (tim_devices baseline) (tim_devices fresh) c;
          c = compare_field ''partition-geometry-changed''
                ''target partition-table geometry or identity changed''
                (tim_partitions baseline) (tim_partitions fresh) c;
          c = compare_field ''lvm-identity-changed''
                ''target PV/VG/LV identity or allocation facts changed''
                (tim_lvm baseline) (tim_lvm fresh) c;
          c = compare_field ''filesystem-identity-changed''
                ''target filesystem identity/type/version/capacity changed''
                (tim_filesystem baseline) (tim_filesystem fresh) c;
          c = compare_field ''mount-identity-changed'' ''target mount source/options changed''
                (tim_mounts baseline) (tim_mounts fresh) c
      in if c = [] then
           [\<lparr> ic_code = ''manifest-digest-changed'',
              ic_message = ''target identity manifest changed in an unclassified field'' \<rparr>]
         else c)"

definition revalidate_target_identity ::
  "manifest_digest_fun \<Rightarrow> target_identity_manifest \<Rightarrow> host_snapshot \<Rightarrow> identity_revalidation" where
  "revalidate_target_identity fp baseline fresh_snapshot =
     (case capture_target_identity fp fresh_snapshot (tim_target baseline) of
        Inl e \<Rightarrow>
          \<lparr> irv_matches = False, irv_baseline_digest = tim_manifest_digest baseline,
            irv_fresh_digest = None,
            irv_changes = [\<lparr> ic_code = ''fresh-target-unresolved'',
                             ic_message = identity_guard_error_text e \<rparr>] \<rparr>
      | Inr fresh \<Rightarrow>
          (if tim_manifest_digest baseline = tim_manifest_digest fresh then
             \<lparr> irv_matches = True, irv_baseline_digest = tim_manifest_digest baseline,
               irv_fresh_digest = Some (tim_manifest_digest fresh), irv_changes = [] \<rparr>
           else
             \<lparr> irv_matches = False, irv_baseline_digest = tim_manifest_digest baseline,
               irv_fresh_digest = Some (tim_manifest_digest fresh),
               irv_changes = manifest_changes baseline fresh \<rparr>))"

section \<open>What a capture returns\<close>

lemma capture_resolved:
  assumes "lr_resolved_device (analyze_layer_route s t) = Some p"
  obtains r path where "find (\<lambda>r. device_path (ref_node r) = p) (flatten (sg_block_devices (hs_storage s))) = Some r"
    "device_path (ref_node r) = p" "find_path (sg_block_devices (hs_storage s)) r = Some path"
    "last path = r" "path \<noteq> []" "parent_chain path" "ref_node (hd path) \<in> set (sg_block_devices (hs_storage s))"
    "capture_target_identity fp s t =
       (let m = manifest_body s t (analyze_layer_route s t) p r path
        in case fp m of Inl e \<Rightarrow> Inl (IgeSerialization e)
           | Inr digest \<Rightarrow> Inr (m\<lparr>tim_manifest_digest := digest\<rparr>))"
proof -
  let ?nodes = "flatten (sg_block_devices (hs_storage s))"
  from resolved_device_in_graph[OF assms]
  obtain r where r: "find (\<lambda>r. device_path (ref_node r) = p) ?nodes = Some r"
    by (metis (mono_tags, lifting) find_None_iff not_None_eq)
  then have mem: "r \<in> set ?nodes" and dev: "device_path (ref_node r) = p"
    by (auto simp: find_Some_iff)
  from mem show thesis
  proof (rule find_path_complete)
    fix path
    assume path: "find_path (sg_block_devices (hs_storage s)) r = Some path" "path \<noteq> []"
      "last path = r" "set path \<subseteq> set ?nodes" "parent_chain path"
      "ref_node (hd path) \<in> set (sg_block_devices (hs_storage s))"
    show thesis
      by (rule that[OF r dev path(1) path(3) path(2) path(5) path(6)])
         (simp add: capture_target_identity_def assms r path(1) Let_def)
  qed
qed

lemma capture_unresolved:
  "lr_resolved_device (analyze_layer_route s t) = None \<Longrightarrow>
     capture_target_identity fp s t = Inl IgeUnresolvedTarget"
  by (simp add: capture_target_identity_def Let_def)

lemma capture_Inr:
  assumes "capture_target_identity fp s t = Inr m"
  obtains p r path where "lr_resolved_device (analyze_layer_route s t) = Some p"
    "device_path (ref_node r) = p" "find_path (sg_block_devices (hs_storage s)) r = Some path"
    "last path = r" "path \<noteq> []" "parent_chain path"
    "ref_node (hd path) \<in> set (sg_block_devices (hs_storage s))"
    "fp (manifest_body s t (analyze_layer_route s t) p r path) = Inr (tim_manifest_digest m)"
    "m\<lparr>tim_manifest_digest := ''''\<rparr> = manifest_body s t (analyze_layer_route s t) p r path"
proof (cases "lr_resolved_device (analyze_layer_route s t)")
  case None
  with assms capture_unresolved[OF None, of fp] show thesis by simp
next
  case (Some p)
  show thesis
    by (rule capture_resolved[OF Some, of fp], rule that[OF Some])
       (use assms in \<open>auto simp: Let_def manifest_body_def split: sum.splits\<close>)
qed

lemma capture_target: "capture_target_identity fp s t = Inr m \<Longrightarrow> tim_target m = t"
proof (erule capture_Inr)
  fix p r path
  assume "m\<lparr>tim_manifest_digest := ''''\<rparr> = manifest_body s t (analyze_layer_route s t) p r path"
  from arg_cong[OF this, of tim_target] show "tim_target m = t" by (simp add: manifest_body_def)
qed

lemma capture_digest:
  "capture_target_identity fp s t = Inr m \<Longrightarrow>
     fp (m\<lparr>tim_manifest_digest := ''''\<rparr>) = Inr (tim_manifest_digest m)"
  by (erule capture_Inr) simp

text \<open>Capturing never fails because the resolved device is missing from the graph: whenever the
  route names a device, capture returns a manifest whose device chain runs from a root of the
  storage graph down to that device, unless the serializer fails; with no device named it reports
  the unresolved target.\<close>

theorem capture_total:
  "capture_target_identity fp s t \<noteq> Inl IgeResolvedDeviceMissing
   \<and> (capture_target_identity fp s t = Inl IgeUnresolvedTarget
        \<longleftrightarrow> lr_resolved_device (analyze_layer_route s t) = None)"
proof (cases "lr_resolved_device (analyze_layer_route s t)")
  case None
  then show ?thesis by (simp add: capture_unresolved)
next
  case (Some p)
  show ?thesis
    by (rule capture_resolved[OF Some, of fp]) (simp add: Some Let_def split: sum.split)
qed

section \<open>Comparing manifests\<close>

lemma manifest_changes_nonempty: "manifest_changes a b \<noteq> []"
  by (simp add: manifest_changes_def Let_def)

definition undigested :: "target_identity_manifest \<Rightarrow> target_identity_manifest" where
  "undigested m = m\<lparr>tim_manifest_digest := ''''\<rparr>"

lemma undigested_manifest_body [simp]: "undigested (manifest_body s t route p r path) = manifest_body s t route p r path"
  by (simp add: undigested_def manifest_body_def)

lemma eq_from_undigested:
  "undigested a = undigested b \<Longrightarrow> tim_manifest_digest a = tim_manifest_digest b \<Longrightarrow> a = b"
  by (cases a; cases b) (simp add: undigested_def)

text \<open>The device a target resolves to, and the chain of nodes from a root of the storage graph to it.\<close>

definition target_chain :: "host_snapshot \<Rightarrow> string \<Rightarrow> string \<Rightarrow> node_ref list \<Rightarrow> bool" where
  "target_chain s t p path \<longleftrightarrow> lr_resolved_device (analyze_layer_route s t) = Some p
     \<and> find (\<lambda>r. device_path (ref_node r) = p) (flatten (sg_block_devices (hs_storage s))) = Some (last path)
     \<and> find_path (sg_block_devices (hs_storage s)) (last path) = Some path"

lemma capture_chain:
  "capture_target_identity fp s t = Inr m \<longleftrightarrow> (\<exists>p path. target_chain s t p path
     \<and> undigested m = manifest_body s t (analyze_layer_route s t) p (last path) path
     \<and> fp (undigested m) = Inr (tim_manifest_digest m))"
proof (cases "lr_resolved_device (analyze_layer_route s t)")
  case None
  then show ?thesis by (simp add: capture_unresolved target_chain_def)
next
  case (Some p)
  show ?thesis
  proof (rule capture_resolved[OF Some, of fp])
    fix r path
    let ?body = "manifest_body s t (analyze_layer_route s t) p r path"
    assume r: "find (\<lambda>r. device_path (ref_node r) = p) (flatten (sg_block_devices (hs_storage s))) = Some r"
      and path: "find_path (sg_block_devices (hs_storage s)) r = Some path" "last path = r"
      and capture: "capture_target_identity fp s t =
        (let m = ?body in case fp m of Inl e \<Rightarrow> Inl (IgeSerialization e)
           | Inr digest \<Rightarrow> Inr (m\<lparr>tim_manifest_digest := digest\<rparr>))"
    have chain: "target_chain s t p' path' \<longleftrightarrow> p' = p \<and> path' = path" for p' path'
      unfolding target_chain_def using Some r path by (metis option.inject)
    have body: "?body\<lparr>tim_manifest_digest := d\<rparr> = m \<longleftrightarrow> undigested m = ?body \<and> d = tim_manifest_digest m" for d
      by (cases m) (auto simp: undigested_def manifest_body_def)
    have "capture_target_identity fp s t = Inr m \<longleftrightarrow> (\<exists>d. fp ?body = Inr d \<and> ?body\<lparr>tim_manifest_digest := d\<rparr> = m)"
      by (simp add: capture Let_def split: sum.split)
    also have "\<dots> \<longleftrightarrow> undigested m = ?body \<and> fp (undigested m) = Inr (tim_manifest_digest m)"
      unfolding body by auto
    finally show ?thesis by (simp add: chain path(2))
  qed
qed

text \<open>The facts of a host on which a target depends, for two snapshots: the resolved device, the status and the issues
  of the route, the identity of every device of the chain, the geometry of its partitions, the LVM objects on the way,
  the file system of the target with its observed size, and the mounts that use it.\<close>

definition same_target_facts :: "host_snapshot \<Rightarrow> host_snapshot \<Rightarrow> string \<Rightarrow> bool" where
  "same_target_facts s s' t \<longleftrightarrow> (\<exists>p path path'. target_chain s t p path \<and> target_chain s' t p path'
     \<and> (let route = analyze_layer_route s t; route' = analyze_layer_route s' t in
          lr_status route = lr_status route'
        \<and> sort (map ri_code (lr_issues route)) = sort (map ri_code (lr_issues route'))
        \<and> map (\<lambda>n. device_identity_of (ref_node n)) path = map (\<lambda>n. device_identity_of (ref_node n)) path'
        \<and> sort_key pgi_partition (map (\<lambda>n. partition_identity s (ref_node n))
              (filter (\<lambda>n. bd_kind (ref_node n) = NkPartition) path))
          = sort_key pgi_partition (map (\<lambda>n. partition_identity s' (ref_node n))
              (filter (\<lambda>n. bd_kind (ref_node n) = NkPartition) path'))
        \<and> sort_key (\<lambda>i. (lvm_kind_debug (lid_kind i), lid_name i)) (collect_lvm_identity s path)
          = sort_key (\<lambda>i. (lvm_kind_debug (lid_kind i), lid_name i)) (collect_lvm_identity s' path')
        \<and> filesystem_identity_of s (lr_mountpoint route) (ref_node (last path))
          = filesystem_identity_of s' (lr_mountpoint route') (ref_node (last path'))
        \<and> sort_key (\<lambda>m. (mid_target m, mid_source m)) (map mount_identity_of
              (filter (target_mount s (lr_mountpoint route) (ref_node (last path))) (hs_mounts s)))
          = sort_key (\<lambda>m. (mid_target m, mid_source m)) (map mount_identity_of
              (filter (target_mount s' (lr_mountpoint route') (ref_node (last path'))) (hs_mounts s')))))"

lemma same_facts_chain: "same_target_facts s s' t \<Longrightarrow> \<exists>p path. target_chain s' t p path"
  unfolding same_target_facts_def by blast

lemma same_bodies_same_facts:
  assumes "target_chain s t p path" "target_chain s' t p' path'"
  shows "manifest_body s t (analyze_layer_route s t) p (last path) path
      = manifest_body s' t (analyze_layer_route s' t) p' (last path') path' \<longleftrightarrow> same_target_facts s s' t"
proof -
  have "target_chain s t q r \<longleftrightarrow> q = p \<and> r = path" "target_chain s' t q r \<longleftrightarrow> q = p' \<and> r = path'" for q r
    using assms by (auto simp: target_chain_def)
  then show ?thesis by (auto simp: same_target_facts_def manifest_body_def Let_def)
qed

lemma same_facts_capture:
  assumes "capture_target_identity fp s t = Inr b"
  shows "capture_target_identity fp s' t = Inr b \<longleftrightarrow> same_target_facts s s' t"
proof -
  from assms obtain p path where b: "target_chain s t p path"
    "undigested b = manifest_body s t (analyze_layer_route s t) p (last path) path"
    "fp (undigested b) = Inr (tim_manifest_digest b)" unfolding capture_chain by blast
  have "capture_target_identity fp s' t = Inr b \<longleftrightarrow> (\<exists>p' path'. target_chain s' t p' path'
      \<and> manifest_body s t (analyze_layer_route s t) p (last path) path
        = manifest_body s' t (analyze_layer_route s' t) p' (last path') path')"
    unfolding capture_chain using b(2,3) by auto
  also have "\<dots> \<longleftrightarrow> same_target_facts s s' t"
    using same_bodies_same_facts[OF b(1)] same_facts_chain[of s s' t] by blast
  finally show ?thesis .
qed

text \<open>C19: revalidation is exact. Let the digest function not confuse the frozen manifest with the one
  captured from the fresh snapshot, each with its digest field empty as it is digested. Then
  revalidation matches exactly when the fresh capture gives the very same
  manifest, and this is so exactly when both snapshots agree on every fact the target depends on:
  device, route, chain, partition geometry, LVM objects, file system and mounts. Whatever does not match is reported as a
  change.\<close>

theorem revalidate_exact:
  assumes base: "capture_target_identity fp s t = Inr b"
    and no_collision: "\<And>m. capture_target_identity fp s' t = Inr m \<Longrightarrow>
      fp (undigested m) = fp (undigested b) \<Longrightarrow> undigested m = undigested b"
  shows "(irv_matches (revalidate_target_identity fp b s') \<longleftrightarrow> capture_target_identity fp s' t = Inr b)
    \<and> (irv_matches (revalidate_target_identity fp b s') \<longleftrightarrow> same_target_facts s s' t)
    \<and> (irv_matches (revalidate_target_identity fp b s') \<longleftrightarrow> irv_changes (revalidate_target_identity fp b s') = [])"
proof -
  have t: "tim_target b = t" by (rule capture_target[OF base])
  have eq: "m = b" if m: "capture_target_identity fp s' t = Inr m" "tim_manifest_digest m = tim_manifest_digest b" for m
    using capture_digest[OF m(1)] capture_digest[OF base] no_collision[OF m(1)] eq_from_undigested[of m b] m(2)
    by (simp add: undigested_def)
  have "irv_matches (revalidate_target_identity fp b s') \<longleftrightarrow> capture_target_identity fp s' t = Inr b"
    using eq by (cases "capture_target_identity fp s' t") (auto simp: revalidate_target_identity_def t)
  moreover have "irv_matches (revalidate_target_identity fp b s') \<longleftrightarrow> irv_changes (revalidate_target_identity fp b s') = []"
    by (simp add: revalidate_target_identity_def manifest_changes_nonempty split: sum.split)
  ultimately show ?thesis using same_facts_capture[OF base, of s'] by blast
qed

lemma compare_field_codes:
  "map ic_code (compare_field c m a b cs) = map ic_code cs @ (if a \<noteq> b then [c] else [])"
  by (simp add: compare_field_def)

lemma in_if_single: "x \<in> set (if P then [y] else []) \<longleftrightarrow> P \<and> x = y"
  by auto

lemma in_default: "x \<noteq> d \<Longrightarrow> x \<in> set (if cs = [] then [d] else cs) \<longleftrightarrow> x \<in> set cs"
  by auto

lemma manifest_changes_codes:
  "map ic_code (manifest_changes b f) =
    (let c = (if tim_resolved_device b \<noteq> tim_resolved_device f then [''resolved-device-changed''] else [])
        @ (if tim_route_status b \<noteq> tim_route_status f then [''route-status-changed''] else [])
        @ (if tim_route_issue_codes b \<noteq> tim_route_issue_codes f then [''route-issues-changed''] else [])
        @ (if tim_devices b \<noteq> tim_devices f then [''device-chain-changed''] else [])
        @ (if tim_partitions b \<noteq> tim_partitions f then [''partition-geometry-changed''] else [])
        @ (if tim_lvm b \<noteq> tim_lvm f then [''lvm-identity-changed''] else [])
        @ (if tim_filesystem b \<noteq> tim_filesystem f then [''filesystem-identity-changed''] else [])
        @ (if tim_mounts b \<noteq> tim_mounts f then [''mount-identity-changed''] else [])
     in if c = [] then [''manifest-digest-changed''] else c)"
proof -
  have d: "map ic_code (if c = [] then [\<lparr>ic_code = d, ic_message = m\<rparr>] else c)
      = (if map ic_code c = [] then [d] else map ic_code c)" for c d m
    by simp
  show ?thesis
    unfolding manifest_changes_def Let_def d
    by (simp only: compare_field_codes list.map append_assoc append_Nil)
qed

definition reported :: "string \<Rightarrow> identity_change list \<Rightarrow> bool" where
  "reported code cs = (code \<in> set (map ic_code cs))"

lemmas reported_simps =
  reported_def manifest_changes_codes Let_def in_default set_append Un_iff in_if_single

text \<open>A mismatch is never silent: revalidation reports a change exactly when it does not match,
  and it reports each kind of change exactly when the frozen and the fresh field differ.\<close>

theorem revalidate_reports:
  "(irv_changes (revalidate_target_identity fp b s') = [] \<longleftrightarrow> irv_matches (revalidate_target_identity fp b s'))
   \<and> (case capture_target_identity fp s' (tim_target b) of
        Inl e \<Rightarrow> map ic_code (irv_changes (revalidate_target_identity fp b s')) = [''fresh-target-unresolved'']
      | Inr f \<Rightarrow> tim_manifest_digest b = tim_manifest_digest f
          \<or> (let cs = irv_changes (revalidate_target_identity fp b s') in
               (reported ''resolved-device-changed'' cs \<longleftrightarrow> tim_resolved_device b \<noteq> tim_resolved_device f)
             \<and> (reported ''route-status-changed'' cs \<longleftrightarrow> tim_route_status b \<noteq> tim_route_status f)
             \<and> (reported ''route-issues-changed'' cs \<longleftrightarrow> tim_route_issue_codes b \<noteq> tim_route_issue_codes f)
             \<and> (reported ''device-chain-changed'' cs \<longleftrightarrow> tim_devices b \<noteq> tim_devices f)
             \<and> (reported ''partition-geometry-changed'' cs \<longleftrightarrow> tim_partitions b \<noteq> tim_partitions f)
             \<and> (reported ''lvm-identity-changed'' cs \<longleftrightarrow> tim_lvm b \<noteq> tim_lvm f)
             \<and> (reported ''filesystem-identity-changed'' cs \<longleftrightarrow> tim_filesystem b \<noteq> tim_filesystem f)
             \<and> (reported ''mount-identity-changed'' cs \<longleftrightarrow> tim_mounts b \<noteq> tim_mounts f)))"
proof (cases "capture_target_identity fp s' (tim_target b)")
  case (Inl e)
  then show ?thesis by (simp add: revalidate_target_identity_def)
next
  case (Inr f)
  show ?thesis
  proof (cases "tim_manifest_digest b = tim_manifest_digest f")
    case True
    then show ?thesis by (simp add: revalidate_target_identity_def Inr)
  next
    case False
    have "irv_changes (revalidate_target_identity fp b s') = manifest_changes b f"
      "\<not> irv_matches (revalidate_target_identity fp b s')"
      using False by (simp_all add: revalidate_target_identity_def Inr)
    moreover have "(reported ''resolved-device-changed'' cs \<longleftrightarrow> tim_resolved_device b \<noteq> tim_resolved_device f)
        \<and> (reported ''route-status-changed'' cs \<longleftrightarrow> tim_route_status b \<noteq> tim_route_status f)
        \<and> (reported ''route-issues-changed'' cs \<longleftrightarrow> tim_route_issue_codes b \<noteq> tim_route_issue_codes f)
        \<and> (reported ''device-chain-changed'' cs \<longleftrightarrow> tim_devices b \<noteq> tim_devices f)
        \<and> (reported ''partition-geometry-changed'' cs \<longleftrightarrow> tim_partitions b \<noteq> tim_partitions f)
        \<and> (reported ''lvm-identity-changed'' cs \<longleftrightarrow> tim_lvm b \<noteq> tim_lvm f)
        \<and> (reported ''filesystem-identity-changed'' cs \<longleftrightarrow> tim_filesystem b \<noteq> tim_filesystem f)
        \<and> (reported ''mount-identity-changed'' cs \<longleftrightarrow> tim_mounts b \<noteq> tim_mounts f)"
      if "cs = manifest_changes b f" for cs
      by (intro conjI) (simp add: that reported_simps del: if_split)+
    ultimately show ?thesis
      by (simp only: Inr False manifest_changes_nonempty sum.case Let_def simp_thms)
  qed
qed

text \<open>A manifest records the whole chain: its devices are the nodes from a root of the storage
  graph down to the resolved device, one geometry record for each partition among them in order
  of path name, mount options in a canonical order, the status and the sorted issue codes of the
  analysed route, and its digest is the digest of the manifest with the digest field empty.\<close>

theorem capture_records_chain:
  assumes "capture_target_identity fp s t = Inr m"
  shows "\<exists>path. find_path (sg_block_devices (hs_storage s)) (last path) = Some path
    \<and> parent_chain path \<and> path \<noteq> [] \<and> ref_node (hd path) \<in> set (sg_block_devices (hs_storage s))
    \<and> device_path (ref_node (last path)) = tim_resolved_device m
    \<and> tim_devices m = map (\<lambda>n. device_identity_of (ref_node n)) path
    \<and> sorted (map pgi_partition (tim_partitions m))
    \<and> set (tim_partitions m) = (\<lambda>n. partition_identity s (ref_node n))
         ` {n \<in> set path. bd_kind (ref_node n) = NkPartition}
    \<and> (\<forall>mt\<in>set (tim_mounts m). sorted (mid_options mt))
    \<and> tim_route_status m = lr_status (analyze_layer_route s t)
    \<and> tim_route_issue_codes m = sort (map ri_code (lr_issues (analyze_layer_route s t)))
    \<and> fp (m\<lparr>tim_manifest_digest := ''''\<rparr>) = Inr (tim_manifest_digest m)"
proof (rule capture_Inr[OF assms])
  fix p r path
  assume a: "lr_resolved_device (analyze_layer_route s t) = Some p" "device_path (ref_node r) = p"
    "find_path (sg_block_devices (hs_storage s)) r = Some path" "last path = r" "path \<noteq> []"
    "parent_chain path" "ref_node (hd path) \<in> set (sg_block_devices (hs_storage s))"
    and m: "m\<lparr>tim_manifest_digest := ''''\<rparr> = manifest_body s t (analyze_layer_route s t) p r path"
  let ?b = "manifest_body s t (analyze_layer_route s t) p r path"
  have f: "tim_resolved_device m = p" "tim_devices m = tim_devices ?b"
    "tim_partitions m = tim_partitions ?b" "tim_mounts m = tim_mounts ?b"
    "tim_route_status m = tim_route_status ?b" "tim_route_issue_codes m = tim_route_issue_codes ?b"
    using arg_cong[OF m, of tim_resolved_device] arg_cong[OF m, of tim_devices]
      arg_cong[OF m, of tim_partitions] arg_cong[OF m, of tim_mounts]
      arg_cong[OF m, of tim_route_status] arg_cong[OF m, of tim_route_issue_codes]
    by (simp_all add: manifest_body_def)
  show ?thesis
    by (rule exI[of _ path])
       (use a capture_digest[OF assms] in \<open>auto simp: f manifest_body_def mount_identity_of_def\<close>)
qed

text \<open>A digest function for examples: the concatenation of two fields.\<close>

definition ex_digest :: manifest_digest_fun where
  "ex_digest m = Inr (tim_target m @ tim_resolved_device m)"

definition ex_manifest :: target_identity_manifest where
  "ex_manifest = projr (capture_target_identity ex_digest ex_host ''/'')"

lemma ex_capture: "capture_target_identity ex_digest ex_host ''/'' = Inr ex_manifest"
  by code_simp

lemma capture_records_chain_witness:
  "tim_resolved_device ex_manifest = ''/dev/sda1'' \<and> length (tim_devices ex_manifest) = 2
   \<and> (\<exists>path. find_path (sg_block_devices (hs_storage ex_host)) (last path) = Some path
       \<and> tim_devices ex_manifest = map (\<lambda>n. device_identity_of (ref_node n)) path)"
proof -
  have "tim_resolved_device ex_manifest = ''/dev/sda1''" "length (tim_devices ex_manifest) = 2"
    by code_simp+
  with capture_records_chain[OF ex_capture] show ?thesis by blast
qed

text \<open>A digest that shows the mounts of a manifest with their options, and the host after its file system was
  mounted read-only.\<close>

definition ex_mount_digest :: manifest_digest_fun where
  "ex_mount_digest m = Inr (tim_target m @ tim_resolved_device m
     @ concat (map (\<lambda>i. mid_target i @ concat (mid_options i)) (tim_mounts m)))"

definition ex_mount_manifest :: target_identity_manifest where
  "ex_mount_manifest = projr (capture_target_identity ex_mount_digest ex_host ''/'')"

definition ex_readonly_host :: host_snapshot where
  "ex_readonly_host = ex_host\<lparr>hs_mounts := map (\<lambda>m. m\<lparr>me_options := [''ro'']\<rparr>) (hs_mounts ex_host)\<rparr>"

lemma ex_mount_captures:
  "capture_target_identity ex_mount_digest ex_host ''/'' = Inr ex_mount_manifest"
  "capture_target_identity ex_mount_digest ex_readonly_host ''/'' = Inr m \<Longrightarrow>
     ex_mount_digest (undigested m) \<noteq> ex_mount_digest (undigested ex_mount_manifest)"
proof -
  show "capture_target_identity ex_mount_digest ex_host ''/'' = Inr ex_mount_manifest" by code_simp
  have "case capture_target_identity ex_mount_digest ex_readonly_host ''/'' of Inl _ \<Rightarrow> True
     | Inr m \<Rightarrow> ex_mount_digest (undigested m) \<noteq> ex_mount_digest (undigested ex_mount_manifest)" by code_simp
  then show "ex_mount_digest (undigested m) \<noteq> ex_mount_digest (undigested ex_mount_manifest)"
    if "capture_target_identity ex_mount_digest ex_readonly_host ''/'' = Inr m" using that by simp
qed

lemma revalidate_exact_witness:
  "irv_matches (revalidate_target_identity ex_mount_digest ex_mount_manifest ex_host)
   \<and> \<not> same_target_facts ex_host ex_readonly_host ''/''
   \<and> irv_changes (revalidate_target_identity ex_mount_digest ex_mount_manifest ex_readonly_host) \<noteq> []"
proof -
  note exact = revalidate_exact[OF ex_mount_captures(1)]
  have "irv_matches (revalidate_target_identity ex_mount_digest ex_mount_manifest ex_host)"
    using exact[of ex_host] by (simp add: ex_mount_captures(1))
  moreover have "\<not> irv_matches (revalidate_target_identity ex_mount_digest ex_mount_manifest ex_readonly_host)" by code_simp
  ultimately show ?thesis using exact[of ex_readonly_host] ex_mount_captures(2) by blast
qed

end
