(* ===== verification/FilesystemPolicy.thy ===== *)
theory FilesystemPolicy
  imports RouteGraph
begin

text \<open>
  The growth decision for the filesystem of a target
  (\<open>crates/planner/src/filesystem_policy.rs\<close>). The decision under construction, a
  \<open>&mut FilesystemGrowthDecision\<close> of the code, is passed along and returned.
\<close>

section \<open>Data\<close>

datatype filesystem_decision_state =
  FdReadyOnlineGrow | FdReadyOfflineGrow | FdReadOnlyHealthCheckRequired
| FdOfflineHealthCheckRequired | FdMountRequired | FdBlocked | FdAdapterRequired

datatype filesystem_check_kind = FckExt4OfflineE2fsckNoModify | FckXfsMountedScrubNoModify

record read_only_filesystem_check =
  rfc_kind :: filesystem_check_kind
  rfc_tool :: string
  rfc_args :: "string list"
  rfc_requires_mounted :: bool
  rfc_requires_unmounted :: bool
  rfc_run_automatically_on_refresh :: bool
  rfc_rationale :: string

record filesystem_growth_decision =
  fgd_target :: string
  fgd_device :: "string option"
  fgd_mountpoint :: "string option"
  fgd_fs_type :: "string option"
  fgd_state :: filesystem_decision_state
  fgd_metadata_state :: "filesystem_probe_state option"
  fgd_read_only_check :: "read_only_filesystem_check option"
  fgd_reasons :: "string list"
  fgd_required_actions :: "string list"

definition execution_ready :: "filesystem_growth_decision \<Rightarrow> bool" where
  "execution_ready d = (fgd_state d = FdReadyOnlineGrow \<or> fgd_state d = FdReadyOfflineGrow)"

definition push_reason :: "string \<Rightarrow> filesystem_growth_decision \<Rightarrow> filesystem_growth_decision" where
  "push_reason m d = d\<lparr>fgd_reasons := fgd_reasons d @ [m]\<rparr>"

definition push_action :: "string \<Rightarrow> filesystem_growth_decision \<Rightarrow> filesystem_growth_decision" where
  "push_action m d = d\<lparr>fgd_required_actions := fgd_required_actions d @ [m]\<rparr>"

section \<open>Evidence\<close>

definition tool_available :: "host_capabilities \<Rightarrow> string \<Rightarrow> bool" where
  "tool_available c name =
     (case filter (\<lambda>t. tc_name t = name) (hc_tools c) of [t] \<Rightarrow> tc_available t | _ \<Rightarrow> False)"

definition mount_is_normal_read_write :: "mount_entry \<Rightarrow> bool" where
  "mount_is_normal_read_write m =
     (list_ex (\<lambda>opt. opt = ''rw'') (me_options m)
      \<and> \<not> list_ex (\<lambda>opt. opt = ''ro'' \<or> opt = ''bind'' \<or> opt = ''rbind'') (me_options m))"

definition exact_evidence ::
  "host_snapshot \<Rightarrow> block_device \<Rightarrow> string option \<Rightarrow> string
     \<Rightarrow> filesystem_preflight_evidence option" where
  "exact_evidence snapshot d mountpoint t =
     single (filter
       (\<lambda>e. fpe_fs_type e = t
            \<and> (fpe_device e = device_path d
               \<or> (case mountpoint of None \<Rightarrow> False | Some m \<Rightarrow> fpe_mountpoint e = Some m)))
       (hs_filesystem_preflight snapshot))"

definition has_target_error_diagnostic :: "host_snapshot \<Rightarrow> layer_route \<Rightarrow> bool" where
  "has_target_error_diagnostic snapshot route =
     (let devices = List.map_filter rl_device (lr_layers route)
      in list_ex (\<lambda>g. sd_severity g = DsError
           \<and> (case sd_device g of None \<Rightarrow> True | Some d \<Rightarrow> d \<in> set devices))
           (hs_diagnostics snapshot))"

definition ext4_offline_check :: "block_device \<Rightarrow> read_only_filesystem_check option" where
  "ext4_offline_check d =
     map_option (\<lambda>path.
       \<lparr> rfc_kind = FckExt4OfflineE2fsckNoModify, rfc_tool = ''e2fsck'',
         rfc_args = [''-f'', ''-n'', path], rfc_requires_mounted = False,
         rfc_requires_unmounted = True, rfc_run_automatically_on_refresh = False,
         rfc_rationale = ''e2fsck results on a mounted filesystem are not accepted; run the no-modify check only while unmounted'' \<rparr>)
       (bd_path d)"

section \<open>The decision\<close>

definition text_observed :: "string option \<Rightarrow> bool" where
  "text_observed v = (case v of None \<Rightarrow> False | Some s \<Rightarrow> trim_str s \<noteq> '''')"

definition decide_ext4 ::
  "host_snapshot \<Rightarrow> host_capabilities \<Rightarrow> block_device \<Rightarrow> mount_entry option
     \<Rightarrow> filesystem_growth_decision \<Rightarrow> filesystem_growth_decision" where
  "decide_ext4 snapshot capabilities d mount decision =
     (if \<not> tool_available capabilities ''resize2fs''
      then push_reason ''resize2fs is unavailable or capability discovery is ambiguous'' decision
      else case mount of
        Some m \<Rightarrow>
          (if \<not> mount_is_normal_read_write m
           then push_reason ''ext4 target is not mounted in a normal read-write mode'' decision
           else case exact_evidence snapshot d (Some (me_target m)) ''ext4'' of
             None \<Rightarrow>
               push_reason ''ext4 metadata evidence is missing or ambiguous; mounted e2fsck output is not accepted as a health decision''
                 (push_action ''collect one exact read-only tune2fs metadata record for the mounted ext4 target'' decision)
           | Some e \<Rightarrow>
               (let decision = decision\<lparr>fgd_metadata_state := Some (fpe_state e)\<rparr>
                in if fpe_state e \<noteq> FpsVerified
                   then push_reason ''tune2fs metadata evidence is unavailable, partial or failed''
                          (push_action ''resolve the ext4 metadata probe failure before planning execution'' decision)
                   else
                     (let state = (case fpe_filesystem_state e of None \<Rightarrow> '''' | Some s \<Rightarrow> trim_str s);
                          version_observed = (text_observed (fpe_fs_version e) \<or> text_observed (fpe_revision e));
                          features_observed = (fpe_features e \<noteq> [])
                      in if \<not> version_observed \<or> \<not> features_observed
                         then push_reason ''ext4 metadata evidence is incomplete''
                                (push_action ''collect complete ext4 version/revision and filesystem feature evidence'' decision)
                         else if eq_ignore_ascii_case state ''clean''
                         then push_action ''do not run e2fsck on the mounted filesystem as an execution gate; revalidate target identity immediately before resize''
                                (push_reason ''mounted ext4 is read-write, superblock metadata reports clean state, and online resize tooling is available''
                                  (decision\<lparr>fgd_state := FdReadyOnlineGrow\<rparr>))
                         else push_action ''unmount the target in an explicit maintenance step before the read-only e2fsck check''
                                (push_reason (''ext4 superblock state is '' @ debug_opt_str (fpe_filesystem_state e)
                                    @ ''; require an unmounted read-only e2fsck decision before mutation'')
                                  (decision\<lparr>fgd_state := FdOfflineHealthCheckRequired,
                                            fgd_read_only_check := ext4_offline_check d\<rparr>)))))
      | None \<Rightarrow>
          (if \<not> tool_available capabilities ''e2fsck''
           then push_reason ''unmounted ext4 requires an offline read-only health check, but e2fsck is unavailable'' decision
           else push_reason ''unmounted ext4 requires a read-only e2fsck decision before resize''
                  (decision\<lparr>fgd_state := FdOfflineHealthCheckRequired,
                            fgd_read_only_check := ext4_offline_check d\<rparr>)))"

definition decide_xfs ::
  "host_snapshot \<Rightarrow> host_capabilities \<Rightarrow> block_device \<Rightarrow> mount_entry option
     \<Rightarrow> filesystem_growth_decision \<Rightarrow> filesystem_growth_decision" where
  "decide_xfs snapshot capabilities d mount decision =
     (if \<not> tool_available capabilities ''xfs_growfs''
      then push_reason ''xfs_growfs is unavailable or capability discovery is ambiguous'' decision
      else case mount of
        None \<Rightarrow>
          push_action ''mount the exact XFS target in a validated read-write state before growth''
            (push_reason ''XFS must be mounted before it can be grown''
              (decision\<lparr>fgd_state := FdMountRequired\<rparr>))
      | Some m \<Rightarrow>
          (if \<not> mount_is_normal_read_write m
           then push_reason ''XFS target is not mounted in a normal read-write mode'' decision
           else case exact_evidence snapshot d (Some (me_target m)) ''xfs'' of
             None \<Rightarrow>
               push_reason ''XFS dry-run growth evidence is missing or ambiguous''
                 (push_action ''collect one exact xfs_info/xfs_growfs -n evidence record for the target'' decision)
           | Some e \<Rightarrow>
               (let decision = decision\<lparr>fgd_metadata_state := Some (fpe_state e)\<rparr>
                in if fpe_grow_check_passed e \<noteq> Some True
                   then push_reason ''xfs_growfs -n did not positively validate the target growth path'' decision
                   else
                     (let decision = push_reason ''exact mounted read-write XFS growth path passed xfs_growfs -n; online growth is ready''
                            (decision\<lparr>fgd_state := FdReadyOnlineGrow, fgd_read_only_check := None\<rparr>)
                      in if \<not> tool_available capabilities ''xfs_scrub''
                         then push_reason ''xfs_scrub is unavailable; online metadata scrub is optional diagnostic evidence and is not required for XFS growth admission'' decision
                         else decision))))"

definition decide_filesystem_growth ::
  "host_snapshot \<Rightarrow> host_capabilities \<Rightarrow> string \<Rightarrow> filesystem_growth_decision" where
  "decide_filesystem_growth snapshot capabilities target =
     (let route = analyze_layer_route snapshot target;
          decision = \<lparr> fgd_target = target, fgd_device = lr_resolved_device route,
            fgd_mountpoint = lr_mountpoint route, fgd_fs_type = None, fgd_state = FdBlocked,
            fgd_metadata_state = None, fgd_read_only_check = None, fgd_reasons = [],
            fgd_required_actions = [] \<rparr>
      in if lr_status route = LrsBlocked
         then push_reason (case lr_issues route of
                [] \<Rightarrow> ''target storage route is unresolved''
              | i # _ \<Rightarrow> ''['' @ ri_code i @ ''] '' @ ri_message i) decision
         else case lr_resolved_device route of
           None \<Rightarrow> push_reason ''target did not resolve to one filesystem device'' decision
         | Some resolved \<Rightarrow>
             (case find (\<lambda>r. device_path (ref_node r) = resolved)
                     (flatten (sg_block_devices (hs_storage snapshot))) of
                None \<Rightarrow> push_reason ''resolved filesystem device is absent from the storage graph'' decision
              | Some r \<Rightarrow>
                  (case bd_filesystem (ref_node r) of
                     None \<Rightarrow> push_reason ''resolved target has no filesystem type'' decision
                   | Some f \<Rightarrow>
                       (let decision = decision\<lparr>fgd_fs_type := Some (fs_type f)\<rparr>
                        in if has_target_error_diagnostic snapshot route
                           then push_reason ''an error-level diagnostic affects the selected storage route; filesystem growth is blocked'' decision
                           else
                             (let active_mount =
                                (case lr_mountpoint route of
                                   None \<Rightarrow> None
                                 | Some p \<Rightarrow> single (filter (\<lambda>m. me_target m = p) (hs_mounts snapshot)))
                              in if fs_type f = ''ext4''
                                 then decide_ext4 snapshot capabilities (ref_node r) active_mount decision
                                 else if fs_type f = ''xfs''
                                 then decide_xfs snapshot capabilities (ref_node r) active_mount decision
                                 else push_reason (''filesystem '' @ fs_type f
                                        @ '' has no executor-grade growth decision policy'')
                                      (decision\<lparr>fgd_state := FdAdapterRequired\<rparr>))))))"

section \<open>When growth may run\<close>

text \<open>What a go decision rests on, stated over the snapshot and the capabilities.\<close>

definition ext4_go :: "host_snapshot \<Rightarrow> host_capabilities \<Rightarrow> block_device \<Rightarrow> mount_entry option \<Rightarrow> bool" where
  "ext4_go s c d mount \<longleftrightarrow>
     tool_available c ''resize2fs''
     \<and> (\<exists>m e state. mount = Some m \<and> mount_is_normal_read_write m
          \<and> exact_evidence s d (Some (me_target m)) ''ext4'' = Some e
          \<and> fpe_state e = FpsVerified \<and> (text_observed (fpe_fs_version e) \<or> text_observed (fpe_revision e))
          \<and> fpe_features e \<noteq> [] \<and> fpe_filesystem_state e = Some state
          \<and> eq_ignore_ascii_case (trim_str state) ''clean'')"

definition xfs_go :: "host_snapshot \<Rightarrow> host_capabilities \<Rightarrow> block_device \<Rightarrow> mount_entry option \<Rightarrow> bool" where
  "xfs_go s c d mount \<longleftrightarrow>
     tool_available c ''xfs_growfs''
     \<and> (\<exists>m e. mount = Some m \<and> mount_is_normal_read_write m
          \<and> exact_evidence s d (Some (me_target m)) ''xfs'' = Some e
          \<and> fpe_grow_check_passed e = Some True)"

lemma push_decision_simps [simp]:
  "fgd_state (push_reason m d) = fgd_state d" "fgd_state (push_action m d) = fgd_state d"
  "fgd_fs_type (push_reason m d) = fgd_fs_type d" "fgd_fs_type (push_action m d) = fgd_fs_type d"
  "fgd_device (push_reason m d) = fgd_device d" "fgd_device (push_action m d) = fgd_device d"
  "fgd_read_only_check (push_reason m d) = fgd_read_only_check d"
  "fgd_read_only_check (push_action m d) = fgd_read_only_check d"
  "fgd_reasons (push_action m d) = fgd_reasons d"
  "fgd_reasons (push_reason m d) = fgd_reasons d @ [m]"
  by (simp_all add: push_reason_def push_action_def)

lemma empty_not_clean [simp]: "\<not> eq_ignore_ascii_case '''' ''clean''"
  by (simp add: eq_ignore_ascii_case_def to_ascii_lowercase_def)

lemma decide_ext4_go:
  "fgd_state q = FdBlocked \<Longrightarrow>
     fgd_state (decide_ext4 s c d mount q) = FdReadyOnlineGrow \<longleftrightarrow> ext4_go s c d mount"
  by (auto simp: decide_ext4_def ext4_go_def Let_def split: option.splits if_splits)

lemma decide_ext4_states:
  "fgd_state q = FdBlocked \<Longrightarrow> fgd_state (decide_ext4 s c d mount q)
     \<in> {FdBlocked, FdReadyOnlineGrow, FdOfflineHealthCheckRequired}"
  by (simp add: decide_ext4_def Let_def split: option.split)

lemma decide_xfs_go:
  "fgd_state q = FdBlocked \<Longrightarrow>
     fgd_state (decide_xfs s c d mount q) = FdReadyOnlineGrow \<longleftrightarrow> xfs_go s c d mount"
  by (auto simp: decide_xfs_def xfs_go_def Let_def split: option.splits if_splits)

lemma decide_xfs_states:
  "fgd_state q = FdBlocked \<Longrightarrow> fgd_state (decide_xfs s c d mount q)
     \<in> {FdBlocked, FdReadyOnlineGrow, FdMountRequired}"
  by (simp add: decide_xfs_def Let_def split: option.split)

definition active_mount :: "host_snapshot \<Rightarrow> layer_route \<Rightarrow> mount_entry option" where
  "active_mount s route =
     (case lr_mountpoint route of None \<Rightarrow> None
      | Some p \<Rightarrow> single (filter (\<lambda>m. me_target m = p) (hs_mounts s)))"

text \<open>The device and filesystem a decision is about, when nothing ends it earlier.\<close>

definition decided_filesystem :: "host_snapshot \<Rightarrow> string \<Rightarrow> (block_device \<times> filesystem) option" where
  "decided_filesystem s t =
     (let route = analyze_layer_route s t
      in if lr_status route = LrsBlocked then None
         else do {
           resolved \<leftarrow> lr_resolved_device route;
           r \<leftarrow> find (\<lambda>r. device_path (ref_node r) = resolved) (flatten (sg_block_devices (hs_storage s)));
           f \<leftarrow> bd_filesystem (ref_node r);
           if has_target_error_diagnostic s route then None else Some (ref_node r, f)
         })"

lemma decision_cases:
  obtains (stopped) q m where "fgd_state q = FdBlocked" "fgd_read_only_check q = None"
      "decided_filesystem s t = None" "decide_filesystem_growth s c t = push_reason m q"
    | (decided) q d f where "fgd_state q = FdBlocked" "fgd_read_only_check q = None"
      "decided_filesystem s t = Some (d, f)"
      "decide_filesystem_growth s c t =
         (if fs_type f = ''ext4'' then decide_ext4 s c d (active_mount s (analyze_layer_route s t)) q
          else if fs_type f = ''xfs'' then decide_xfs s c d (active_mount s (analyze_layer_route s t)) q
          else push_reason (''filesystem '' @ fs_type f @ '' has no executor-grade growth decision policy'')
                 (q\<lparr>fgd_state := FdAdapterRequired\<rparr>))"
proof -
  let ?route = "analyze_layer_route s t"
  let ?q = "\<lparr> fgd_target = t, fgd_device = lr_resolved_device ?route,
            fgd_mountpoint = lr_mountpoint ?route, fgd_fs_type = None, fgd_state = FdBlocked,
            fgd_metadata_state = None, fgd_read_only_check = None, fgd_reasons = [],
            fgd_required_actions = [] \<rparr>"
  note defs = decide_filesystem_growth_def decided_filesystem_def Let_def
  show thesis
  proof (cases "lr_status ?route = LrsBlocked")
    case True
    show thesis by (rule stopped[of ?q]) (simp_all add: defs True)
  next
    case unblocked: False
    show thesis
    proof (cases "lr_resolved_device ?route")
      case None
      show thesis by (rule stopped[of ?q]) (simp_all add: defs unblocked None)
    next
      case (Some p)
      let ?find = "find (\<lambda>r. device_path (ref_node r) = p) (flatten (sg_block_devices (hs_storage s)))"
      show thesis
      proof (cases ?find)
        case None
        show thesis by (rule stopped[of ?q]) (simp_all add: defs unblocked Some None)
      next
        case r: (Some r)
        show thesis
        proof (cases "bd_filesystem (ref_node r)")
          case None
          show thesis by (rule stopped[of ?q]) (simp_all add: defs unblocked Some r None)
        next
          case f: (Some f)
          let ?p = "?q\<lparr>fgd_fs_type := Some (fs_type f)\<rparr>"
          show thesis
          proof (cases "has_target_error_diagnostic s ?route")
            case True
            show thesis by (rule stopped[of ?p]) (simp_all add: defs unblocked Some r f True)
          next
            case False
            show thesis
              by (rule decided[of ?p "ref_node r" f])
                 (simp_all add: defs unblocked Some r f False active_mount_def)
          qed
        qed
      qed
    qed
  qed
qed

text \<open>C18: growth is declared ready exactly when the target route is not blocked, resolves to a
  device with a filesystem, no error diagnostic touches the route, and either the filesystem is an
  ext4 mounted read-write with resize2fs at hand and one verified, complete and clean metadata
  record, or an XFS mounted read-write with xfs_growfs at hand and a passed dry run. No input is
  ever declared ready for offline growth.\<close>

theorem growth_ready_iff:
  "execution_ready (decide_filesystem_growth s c t)
     = (case decided_filesystem s t of
          None \<Rightarrow> False
        | Some (d, f) \<Rightarrow>
            (fs_type f = ''ext4'' \<and> ext4_go s c d (active_mount s (analyze_layer_route s t))
             \<or> fs_type f = ''xfs'' \<and> xfs_go s c d (active_mount s (analyze_layer_route s t))))
   \<and> fgd_state (decide_filesystem_growth s c t) \<noteq> FdReadyOfflineGrow"
proof (cases rule: decision_cases[of s t c])
  case (stopped q m)
  then show ?thesis by (simp add: execution_ready_def)
next
  case (decided q d f)
  let ?m = "active_mount s (analyze_layer_route s t)"
  from decide_ext4_go[OF decided(1), of s c d ?m] decide_ext4_states[OF decided(1), of s c d ?m]
    decide_xfs_go[OF decided(1), of s c d ?m] decide_xfs_states[OF decided(1), of s c d ?m]
  show ?thesis by (auto simp: decided(3,4) execution_ready_def)
qed

lemma decide_ext4_check:
  "fgd_read_only_check q = None \<Longrightarrow>
     fgd_read_only_check (decide_ext4 s c d mount q) \<in> {None, ext4_offline_check d}"
  by (simp add: decide_ext4_def Let_def split: option.split)

lemma decide_ext4_check_state:
  "fgd_read_only_check q = None \<Longrightarrow> fgd_read_only_check (decide_ext4 s c d mount q) \<noteq> None \<longrightarrow>
     fgd_state (decide_ext4 s c d mount q) = FdOfflineHealthCheckRequired"
  by (simp add: decide_ext4_def Let_def split: option.split)

lemma decide_xfs_check:
  "fgd_read_only_check q = None \<Longrightarrow> fgd_read_only_check (decide_xfs s c d mount q) = None"
  by (simp add: decide_xfs_def Let_def split: option.split)

text \<open>The only filesystem check a decision ever proposes is \<open>e2fsck -f -n\<close> on the decided
  device, for an ext4 filesystem, only while it is unmounted and never run by itself; a decision
  that proposes one is never an approval to grow.\<close>

theorem proposed_check_is_read_only:
  assumes "fgd_read_only_check (decide_filesystem_growth s c t) = Some check"
  shows "\<exists>d f p. decided_filesystem s t = Some (d, f) \<and> fs_type f = ''ext4'' \<and> bd_path d = Some p
    \<and> rfc_tool check = ''e2fsck'' \<and> rfc_args check = [''-f'', ''-n'', p]
    \<and> rfc_requires_unmounted check \<and> \<not> rfc_requires_mounted check
    \<and> \<not> rfc_run_automatically_on_refresh check
    \<and> fgd_state (decide_filesystem_growth s c t) = FdOfflineHealthCheckRequired"
proof (cases rule: decision_cases[of s t c])
  case (stopped q m)
  with assms show ?thesis by simp
next
  case (decided q d f)
  let ?m = "active_mount s (analyze_layer_route s t)"
  from assms decided have e: "fs_type f = ''ext4''"
    by (auto simp: decide_xfs_check split: if_splits)
  with assms decided have chk: "fgd_read_only_check (decide_ext4 s c d ?m q) = Some check" by simp
  with decide_ext4_check[OF decided(2), of s c d ?m] have "ext4_offline_check d = Some check" by auto
  moreover have "fgd_state (decide_ext4 s c d ?m q) = FdOfflineHealthCheckRequired"
    using chk decide_ext4_check_state[OF decided(2), of s c d ?m] by simp
  ultimately show ?thesis using decided e by (auto simp: ext4_offline_check_def)
qed

definition ex_capabilities :: host_capabilities where
  "ex_capabilities = \<lparr> hc_tools = [\<lparr> tc_name = ''resize2fs'', tc_available = True \<rparr>,
     \<lparr> tc_name = ''e2fsck'', tc_available = True \<rparr>] \<rparr>"

definition ex_unclean :: filesystem_preflight_evidence where
  "ex_unclean = \<lparr> fpe_device = ''/dev/sda1'', fpe_mountpoint = Some ''/'', fpe_fs_type = ''ext4'',
     fpe_fs_version = Some ''1.0'', fpe_state = FpsVerified,
     fpe_filesystem_state = Some ''clean with errors'', fpe_revision = None, fpe_features = [''extent''],
     fpe_block_size_bytes = None, fpe_block_count = None, fpe_size_bytes = None,
     fpe_grow_check_passed = None, fpe_detail = None \<rparr>"

lemma proposed_check_is_read_only_witness:
  "rfc_args (the (fgd_read_only_check (decide_filesystem_growth
      (ex_host\<lparr>hs_filesystem_preflight := [ex_unclean]\<rparr>) ex_capabilities ''/'')))
    = [''-f'', ''-n'', ''/dev/sda1'']
   \<and> \<not> execution_ready (decide_filesystem_growth
      (ex_host\<lparr>hs_filesystem_preflight := [ex_unclean]\<rparr>) ex_capabilities ''/'')"
proof -
  let ?s = "ex_host\<lparr>hs_filesystem_preflight := [ex_unclean]\<rparr>"
  have c: "fgd_read_only_check (decide_filesystem_growth ?s ex_capabilities ''/'')
      = ext4_offline_check ex_partition" by code_simp
  then have "fgd_read_only_check (decide_filesystem_growth ?s ex_capabilities ''/'')
      = Some (the (ext4_offline_check ex_partition))"
    by (simp add: ext4_offline_check_def ex_partition_def)
  from proposed_check_is_read_only[OF this] show ?thesis
    by (auto simp: c execution_ready_def) (auto simp: ext4_offline_check_def ex_partition_def)
qed

end
