(* ===== verification/ExecutionGuard.thy ===== *)
theory ExecutionGuard
  imports IdentityGuard "HOL-Library.Sublist"
begin

text \<open>
  The guard plan of an execution and the operation journal, the state machine every mutation of
  a growth plan runs under (\<open>crates/planner/src/execution_guard.rs\<close>).

  \<open>fingerprint\<close> is SHA-256 of the JSON form of a value (crates \<open>sha2\<close> and \<open>serde_json\<close>): the
  parameter \<open>fp\<close> of the definitions. Its argument \<open>guard_input\<close> has one constructor for each type
  of value the code digests; its result is the serializer's error or the digest.
\<close>

section \<open>The guard plan\<close>

definition HOST_STORAGE_LOCK_PATH :: string where
  "HOST_STORAGE_LOCK_PATH = ''/run/lock/linux-storage-manager/storage.lock''"

definition JOURNAL_DIRECTORY :: string where
  "JOURNAL_DIRECTORY = ''/var/lib/linux-storage-manager/journal''"

datatype lock_scope = LsHostExclusive

record operation_lock_plan =
  olp_scope :: lock_scope
  olp_lock_path :: string
  olp_resource_keys :: "string list"
  olp_blocking :: bool
  olp_stale_lock_recovery :: string

datatype guard_plan_status = GpsFutureExecutorGatesRequired | GpsBlocked

datatype guard_gate_kind =
  GgAcquireHostLock | GgCaptureFreshSnapshot | GgRevalidateTargetIdentity
| GgVerifyFilesystemDecision | GgVerifyMetadataBackups | GgRecordExactPlanApproval
| GgCreateDurableJournal | GgVerifyAfterEveryMutationBoundary

record guard_gate =
  gg_kind :: guard_gate_kind
  gg_message :: string

record execution_guard_plan =
  egp_schema_version :: u32
  egp_guard_id :: string
  egp_plan_id :: string
  egp_target :: string
  egp_baseline_manifest_digest :: string
  egp_route_status :: layer_route_status
  egp_status :: guard_plan_status
  egp_lock :: operation_lock_plan
  egp_journal_path :: string
  egp_gates :: "guard_gate list"
  egp_blockers :: "string list"

datatype execution_guard_error =
  EgeInvalidPlanId | EgeMissingManifestDigest | EgeSerialization string

section \<open>The journal and its bindings\<close>

datatype journal_phase =
  JpPlanned | JpHostLockHeld | JpIdentityRevalidated | JpPreconditionsVerified | JpApproved
| JpExecuting | JpVerifying | JpCompleted | JpAborted | JpRecoveryRequired

datatype resume_disposition = RdRestartFromFreshPlan | RdRecoveryRequired | RdComplete

record journal_event =
  jev_sequence :: u64
  jev_from :: journal_phase
  jev_to :: journal_phase
  jev_code :: string
  jev_detail :: string

record exact_approval_binding =
  eab_schema_version :: u32
  eab_approval_id :: string
  eab_plan_id :: string
  eab_evidence_bundle_id :: string
  eab_target_manifest_digest :: string
  eab_locked_session_id :: string
  eab_preconditions_journal_digest :: string

record execution_start_binding =
  esb_schema_version :: u32
  esb_execution_id :: string
  esb_journal_id :: string
  esb_plan_id :: string
  esb_approval_id :: string
  esb_source_manifest_id :: string
  esb_native_manifest_digest :: string
  esb_fresh_identity_digest :: string
  esb_mutation_step_ids :: "u32 list"
  esb_approved_journal_digest :: string

record verified_mutation_boundary_binding =
  vmb_schema_version :: u32
  vmb_boundary_id :: string
  vmb_execution_id :: string
  vmb_completed_step_id :: u32
  vmb_next_step_id :: u32
  vmb_fresh_identity_digest :: string
  vmb_final_step_id :: "u32 option"
  vmb_final_identity_digest :: "string option"

record operation_journal =
  oj_schema_version :: u32
  oj_journal_id :: string
  oj_plan_id :: string
  oj_target :: string
  oj_baseline_manifest_digest :: string
  oj_phase :: journal_phase
  oj_mutation_may_have_started :: bool
  oj_approval :: "exact_approval_binding option"
  oj_execution :: "execution_start_binding option"
  oj_verified_boundary :: "verified_mutation_boundary_binding option"
  oj_events :: "journal_event list"

text \<open>The values the code digests, the tuples of \<open>fingerprint(&(...))\<close> in their order.\<close>

datatype guard_input =
  GiGuard u32 string string string "string list"
| GiApproval u32 string string string string string
| GiExecution u32 string string string string string string "u32 list" string
| GiBoundary u32 string u32 u32 string
| GiFinalBoundary u32 string u32 u32 string "u32 option" "string option"
| GiJournal operation_journal

type_synonym guard_digest_fun = "guard_input \<Rightarrow> (string, string) result"

definition expected_approval_id ::
  "guard_digest_fun \<Rightarrow> exact_approval_binding \<Rightarrow> (string, string) result" where
  "expected_approval_id fp b =
     fp (GiApproval (eab_schema_version b) (eab_plan_id b) (eab_evidence_bundle_id b)
          (eab_target_manifest_digest b) (eab_locked_session_id b)
          (eab_preconditions_journal_digest b))"

definition approval_integrity_matches ::
  "guard_digest_fun \<Rightarrow> exact_approval_binding \<Rightarrow> (string, bool) result" where
  "approval_integrity_matches fp b =
     (case expected_approval_id fp b of Inl e \<Rightarrow> Inl e | Inr d \<Rightarrow> Inr (eab_approval_id b = d))"

definition expected_execution_id ::
  "guard_digest_fun \<Rightarrow> execution_start_binding \<Rightarrow> (string, string) result" where
  "expected_execution_id fp b =
     fp (GiExecution (esb_schema_version b) (esb_journal_id b) (esb_plan_id b) (esb_approval_id b)
          (esb_source_manifest_id b) (esb_native_manifest_digest b) (esb_fresh_identity_digest b)
          (esb_mutation_step_ids b) (esb_approved_journal_digest b))"

definition execution_integrity_matches ::
  "guard_digest_fun \<Rightarrow> execution_start_binding \<Rightarrow> (string, bool) result" where
  "execution_integrity_matches fp b =
     (case expected_execution_id fp b of Inl e \<Rightarrow> Inl e | Inr d \<Rightarrow> Inr (esb_execution_id b = d))"

definition expected_boundary_id ::
  "guard_digest_fun \<Rightarrow> verified_mutation_boundary_binding \<Rightarrow> (string, string) result" where
  "expected_boundary_id fp b =
     (if vmb_schema_version b = 1 then
        fp (GiBoundary (vmb_schema_version b) (vmb_execution_id b) (vmb_completed_step_id b)
             (vmb_next_step_id b) (vmb_fresh_identity_digest b))
      else
        fp (GiFinalBoundary (vmb_schema_version b) (vmb_execution_id b) (vmb_completed_step_id b)
             (vmb_next_step_id b) (vmb_fresh_identity_digest b) (vmb_final_step_id b)
             (vmb_final_identity_digest b)))"

definition boundary_integrity_matches ::
  "guard_digest_fun \<Rightarrow> verified_mutation_boundary_binding \<Rightarrow> (string, bool) result" where
  "boundary_integrity_matches fp b =
     (case expected_boundary_id fp b of Inl e \<Rightarrow> Inl e | Inr d \<Rightarrow> Inr (vmb_boundary_id b = d))"

section \<open>Building a guard plan\<close>

text \<open>\<open>keys.sort(); keys.dedup()\<close>.\<close>

definition resource_keys :: "target_identity_manifest \<Rightarrow> string list" where
  "resource_keys m =
     remdups_adj (sort
       (map (\<lambda>d. ''device:'' @ di_path d) (tim_devices m)
        @ map (\<lambda>p. ''partition:'' @ pgi_partition p) (tim_partitions m)
        @ map (\<lambda>i. ''lvm:'' @ lvm_kind_debug (lid_kind i) @ '':'' @ lid_name i) (tim_lvm m)
        @ (case tim_filesystem m of None \<Rightarrow> [] | Some f \<Rightarrow> [''filesystem:'' @ fid_device f])
        @ map (\<lambda>mt. ''mount:'' @ mid_target mt) (tim_mounts m)))"

definition gate :: "guard_gate_kind \<Rightarrow> string \<Rightarrow> guard_gate" where
  "gate kind message = \<lparr> gg_kind = kind, gg_message = message \<rparr>"

definition guard_gates :: "guard_gate list" where
  "guard_gates =
     [gate GgAcquireHostLock
        ''acquire the host-exclusive storage-operation lock before the final rediscovery'',
      gate GgCaptureFreshSnapshot
        ''rediscover the host while the exclusive lock is held'',
      gate GgRevalidateTargetIdentity
        ''compare the selected target identity manifest against the fresh snapshot and reject any relevant change'',
      gate GgVerifyFilesystemDecision
        ''resolve executor-grade filesystem health/features and online/offline requirements before mutation'',
      gate GgVerifyMetadataBackups
        ''create and verify required partition/LVM metadata backups before the first irreversible command'',
      gate GgRecordExactPlanApproval
        ''record approval for the exact fresh plan ID; approval for an older plan must not carry forward'',
      gate GgCreateDurableJournal
        ''durably create the operation journal before launching the first mutating command'',
      gate GgVerifyAfterEveryMutationBoundary
        ''rediscover and verify each completed storage layer before advancing to the dependent layer'']"

definition route_status_debug :: "layer_route_status \<Rightarrow> string" where
  "route_status_debug s =
     (case s of LrsSupportedProfile \<Rightarrow> ''SupportedProfile'' | LrsAdapterRequired \<Rightarrow> ''AdapterRequired''
      | LrsBlocked \<Rightarrow> ''Blocked'')"

definition build_execution_guard_plan ::
  "guard_digest_fun \<Rightarrow> string \<Rightarrow> target_identity_manifest
     \<Rightarrow> (execution_guard_error, execution_guard_plan) result" where
  "build_execution_guard_plan fp plan_id m =
     (if plan_id = [] \<or> has_control plan_id then Inl EgeInvalidPlanId
      else if tim_manifest_digest m = [] then Inl EgeMissingManifestDigest
      else
        (let keys = resource_keys m
         in case fp (GiGuard 1 plan_id (tim_target m) (tim_manifest_digest m) keys) of
              Inl e \<Rightarrow> Inl (EgeSerialization e)
            | Inr guard_id \<Rightarrow>
                (let blockers =
                   (if tim_route_status m \<noteq> LrsSupportedProfile
                    then [''semantic route status is '' @ route_status_debug (tim_route_status m)
                          @ ''; a dedicated supported adapter is required before execution'']
                    else [])
                 in Inr
                   \<lparr> egp_schema_version = 1, egp_guard_id = guard_id, egp_plan_id = plan_id,
                     egp_target = tim_target m,
                     egp_baseline_manifest_digest = tim_manifest_digest m,
                     egp_route_status = tim_route_status m,
                     egp_status = (if blockers = [] then GpsFutureExecutorGatesRequired else GpsBlocked),
                     egp_lock =
                       \<lparr> olp_scope = LsHostExclusive, olp_lock_path = HOST_STORAGE_LOCK_PATH,
                         olp_resource_keys = keys, olp_blocking = False,
                         olp_stale_lock_recovery =
                           ''use an OS-released advisory lock; never infer safety from deleting a pathname'' \<rparr>,
                     egp_journal_path = JOURNAL_DIRECTORY @ ''/'' @ guard_id @ ''.json'',
                     egp_gates = guard_gates,
                     egp_blockers = blockers \<rparr>)))"

section \<open>The execution start binding\<close>

datatype execution_start_binding_error =
  EsbJournalNotApproved | EsbMutationAlreadyStarted | EsbApprovalMissing
| EsbInvalidSourceManifestId | EsbInvalidNativeManifestDigest | EsbFreshIdentityMismatch
| EsbInvalidMutationStepSequence | EsbSerialization string

definition is_sha256_hex :: "string \<Rightarrow> bool" where
  "is_sha256_hex s =
     (length s = 64
      \<and> list_all (\<lambda>c. (is_ascii_digit c \<or> (65 \<le> byte c \<and> byte c \<le> 70) \<or> (97 \<le> byte c \<and> byte c \<le> 102))
                      \<and> \<not> (65 \<le> byte c \<and> byte c \<le> 90)) s)"

definition steps_valid :: "u32 list \<Rightarrow> bool" where
  "steps_valid ids = (ids \<noteq> [] \<and> 0 \<notin> set ids \<and> distinct ids)"

definition build_execution_start_binding ::
  "guard_digest_fun \<Rightarrow> operation_journal \<Rightarrow> string \<Rightarrow> string \<Rightarrow> string \<Rightarrow> u32 list
     \<Rightarrow> (execution_start_binding_error, execution_start_binding) result" where
  "build_execution_start_binding fp j source_manifest_id native_manifest_digest
     fresh_identity_digest mutation_step_ids =
     (if oj_phase j \<noteq> JpApproved then Inl EsbJournalNotApproved
      else if oj_mutation_may_have_started j \<or> oj_execution j \<noteq> None \<or> oj_verified_boundary j \<noteq> None
      then Inl EsbMutationAlreadyStarted
      else case oj_approval j of
        None \<Rightarrow> Inl EsbApprovalMissing
      | Some approval \<Rightarrow>
          (if \<not> is_sha256_hex source_manifest_id then Inl EsbInvalidSourceManifestId
           else if \<not> is_sha256_hex native_manifest_digest then Inl EsbInvalidNativeManifestDigest
           else if fresh_identity_digest \<noteq> oj_baseline_manifest_digest j
           then Inl EsbFreshIdentityMismatch
           else if \<not> steps_valid mutation_step_ids then Inl EsbInvalidMutationStepSequence
           else case fp (GiJournal j) of
             Inl e \<Rightarrow> Inl (EsbSerialization e)
           | Inr approved_journal_digest \<Rightarrow>
               (let binding =
                  \<lparr> esb_schema_version = 1, esb_execution_id = '''',
                    esb_journal_id = oj_journal_id j, esb_plan_id = oj_plan_id j,
                    esb_approval_id = eab_approval_id approval,
                    esb_source_manifest_id = source_manifest_id,
                    esb_native_manifest_digest = native_manifest_digest,
                    esb_fresh_identity_digest = fresh_identity_digest,
                    esb_mutation_step_ids = mutation_step_ids,
                    esb_approved_journal_digest = approved_journal_digest \<rparr>
                in case expected_execution_id fp binding of
                     Inl e \<Rightarrow> Inl (EsbSerialization e)
                   | Inr d \<Rightarrow> Inr (binding\<lparr>esb_execution_id := d\<rparr>))))"

section \<open>The transitions of the journal\<close>

datatype journal_transition =
  JtHostLockAcquired
| JtIdentityRevalidated string
| JtPreconditionsVerified
| JtExactPlanApproved string exact_approval_binding
| JtExecutionStarted execution_start_binding
| JtVerificationStarted
| JtVerificationPassedContinue u32 u32 string
| JtVerificationPassedComplete u32 string
| JtCompleted
| JtInterrupted string
| JtAbort string

datatype journal_error =
  JeInvalidTransition journal_phase string
| JeIdentityMismatch
| JeApprovalMismatch
| JeApprovalBindingSchemaMismatch
| JeApprovalBindingPlanMismatch
| JeApprovalBindingTargetMismatch
| JeApprovalBindingIntegrityMismatch
| JeApprovalBindingJournalMismatch
| JeExecutionBindingSchemaMismatch
| JeExecutionBindingJournalIdMismatch
| JeExecutionBindingPlanMismatch
| JeExecutionBindingApprovalMismatch
| JeExecutionBindingIdentityMismatch
| JeExecutionBindingIntegrityMismatch
| JeExecutionBindingApprovedJournalMismatch
| JeExecutionBindingApprovalMissing
| JeVerificationExecutionBindingMissing
| JeVerificationSequenceMismatch
| JeVerificationIdentityDigestInvalid
| JeVerificationBoundarySerialization string
| JeCompletionVerifiedBoundaryMismatch
| JeTerminal

definition new_journal :: "execution_guard_plan \<Rightarrow> operation_journal" where
  "new_journal guard =
     \<lparr> oj_schema_version = 1, oj_journal_id = egp_guard_id guard, oj_plan_id = egp_plan_id guard,
       oj_target = egp_target guard,
       oj_baseline_manifest_digest = egp_baseline_manifest_digest guard,
       oj_phase = JpPlanned, oj_mutation_may_have_started = False, oj_approval = None,
       oj_execution = None, oj_verified_boundary = None, oj_events = [] \<rparr>"

definition push_event ::
  "journal_phase \<Rightarrow> journal_phase \<Rightarrow> string \<Rightarrow> string \<Rightarrow> operation_journal \<Rightarrow> operation_journal" where
  "push_event from to code detail j =
     j\<lparr>oj_events := oj_events j
         @ [\<lparr> jev_sequence = of_nat (length (oj_events j)) + 1, jev_from = from, jev_to = to,
              jev_code = code, jev_detail = detail \<rparr>]\<rparr>"

definition invalid :: "operation_journal \<Rightarrow> string \<Rightarrow> journal_error" where
  "invalid j action = JeInvalidTransition (oj_phase j) action"

definition advance ::
  "journal_phase \<Rightarrow> journal_phase \<Rightarrow> string \<Rightarrow> string \<Rightarrow> operation_journal
     \<Rightarrow> (journal_error, operation_journal) result" where
  "advance expected nxt code detail j =
     (if oj_phase j \<noteq> expected then Inl (invalid j code)
      else Inr (push_event (oj_phase j) nxt code detail (j\<lparr>oj_phase := nxt\<rparr>)))"

definition is_terminal :: "journal_phase \<Rightarrow> bool" where
  "is_terminal p = (p = JpCompleted \<or> p = JpAborted \<or> p = JpRecoveryRequired)"

text \<open>
  \<open>apply(&mut self, transition)\<close> returns the journal it leaves behind and its result. A failed
  call leaves the journal alone, except that completing a multi-step execution rewrites the
  boundary in place before it is digested again.
\<close>

definition settle ::
  "operation_journal \<Rightarrow> (journal_error, operation_journal) result
     \<Rightarrow> operation_journal \<times> (journal_error, unit) result" where
  "settle j r = (case r of Inl e \<Rightarrow> (j, Inl e) | Inr j' \<Rightarrow> (j', Inr ()))"

definition apply_identity_revalidated ::
  "string \<Rightarrow> operation_journal \<Rightarrow> (journal_error, operation_journal) result" where
  "apply_identity_revalidated fresh_manifest_digest j =
     (if oj_phase j \<noteq> JpHostLockHeld then Inl (invalid j ''identity_revalidated'')
      else if fresh_manifest_digest \<noteq> oj_baseline_manifest_digest j then Inl JeIdentityMismatch
      else advance JpHostLockHeld JpIdentityRevalidated ''identity-revalidated''
             ''fresh target identity exactly matches the frozen baseline'' j)"

definition apply_exact_plan_approved ::
  "guard_digest_fun \<Rightarrow> string \<Rightarrow> exact_approval_binding \<Rightarrow> operation_journal
     \<Rightarrow> (journal_error, operation_journal) result" where
  "apply_exact_plan_approved fp approved_plan_id approval j =
     (if oj_phase j \<noteq> JpPreconditionsVerified then Inl (invalid j ''exact_plan_approved'')
      else if approved_plan_id \<noteq> oj_plan_id j then Inl JeApprovalMismatch
      else if eab_schema_version approval \<noteq> 1 then Inl JeApprovalBindingSchemaMismatch
      else if eab_plan_id approval \<noteq> oj_plan_id j then Inl JeApprovalBindingPlanMismatch
      else if eab_target_manifest_digest approval \<noteq> oj_baseline_manifest_digest j
      then Inl JeApprovalBindingTargetMismatch
      else if \<not> ok_true (approval_integrity_matches fp approval)
      then Inl JeApprovalBindingIntegrityMismatch
      else if fp (GiJournal j) \<noteq> Inr (eab_preconditions_journal_digest approval)
      then Inl JeApprovalBindingJournalMismatch
      else case advance JpPreconditionsVerified JpApproved ''exact-plan-approved''
                  ''approval recorded for the exact frozen plan and precondition evidence'' j of
        Inl e \<Rightarrow> Inl e
      | Inr j' \<Rightarrow> Inr (j'\<lparr>oj_approval := Some approval\<rparr>))"

definition apply_execution_started ::
  "guard_digest_fun \<Rightarrow> execution_start_binding \<Rightarrow> operation_journal
     \<Rightarrow> (journal_error, operation_journal) result" where
  "apply_execution_started fp binding j =
     (if oj_phase j \<noteq> JpApproved then Inl (invalid j ''execution_started'')
      else case oj_approval j of
        None \<Rightarrow> Inl JeExecutionBindingApprovalMissing
      | Some approval \<Rightarrow>
          (if esb_schema_version binding \<noteq> 1 then Inl JeExecutionBindingSchemaMismatch
           else if esb_journal_id binding \<noteq> oj_journal_id j then Inl JeExecutionBindingJournalIdMismatch
           else if esb_plan_id binding \<noteq> oj_plan_id j then Inl JeExecutionBindingPlanMismatch
           else if esb_approval_id binding \<noteq> eab_approval_id approval
           then Inl JeExecutionBindingApprovalMismatch
           else if esb_fresh_identity_digest binding \<noteq> oj_baseline_manifest_digest j
           then Inl JeExecutionBindingIdentityMismatch
           else if \<not> ok_true (execution_integrity_matches fp binding)
           then Inl JeExecutionBindingIntegrityMismatch
           else if fp (GiJournal j) \<noteq> Inr (esb_approved_journal_digest binding)
           then Inl JeExecutionBindingApprovedJournalMismatch
           else case advance JpApproved JpExecuting ''execution-started''
                  ''exact native manifest entered mutating execution; blind replay is no longer allowed'' j of
             Inl e \<Rightarrow> Inl e
           | Inr j' \<Rightarrow> Inr (j'\<lparr>oj_mutation_may_have_started := True, oj_execution := Some binding\<rparr>)))"

definition ordered_pair :: "u32 list \<Rightarrow> u32 \<Rightarrow> u32 \<Rightarrow> bool" where
  "ordered_pair ids a b = list_ex (\<lambda>(x, y). x = a \<and> y = b) (windows2 ids)"

definition apply_verification_passed_continue ::
  "guard_digest_fun \<Rightarrow> u32 \<Rightarrow> u32 \<Rightarrow> string \<Rightarrow> operation_journal
     \<Rightarrow> (journal_error, operation_journal) result" where
  "apply_verification_passed_continue fp completed_step_id next_step_id fresh_identity_digest j =
     (if oj_phase j \<noteq> JpVerifying then Inl (invalid j ''verification_passed_continue'')
      else case oj_execution j of
        None \<Rightarrow> Inl JeVerificationExecutionBindingMissing
      | Some execution \<Rightarrow>
          (if completed_step_id = 0 \<or> next_step_id = 0 \<or> completed_step_id = next_step_id
              \<or> \<not> ordered_pair (esb_mutation_step_ids execution) completed_step_id next_step_id
           then Inl JeVerificationSequenceMismatch
           else if \<not> is_sha256_hex fresh_identity_digest then Inl JeVerificationIdentityDigestInvalid
           else
             (let boundary =
                \<lparr> vmb_schema_version = 1, vmb_boundary_id = '''',
                  vmb_execution_id = esb_execution_id execution,
                  vmb_completed_step_id = completed_step_id, vmb_next_step_id = next_step_id,
                  vmb_fresh_identity_digest = fresh_identity_digest,
                  vmb_final_step_id = None, vmb_final_identity_digest = None \<rparr>
              in case expected_boundary_id fp boundary of
                   Inl e \<Rightarrow> Inl (JeVerificationBoundarySerialization e)
                 | Inr d \<Rightarrow>
                     Inr (push_event (oj_phase j) JpExecuting ''verification-passed-continue''
                       (''mutation step '' @ show_word completed_step_id
                        @ '' verified; next mutation step '' @ show_word next_step_id @ '' may proceed'')
                       (j\<lparr>oj_phase := JpExecuting,
                          oj_verified_boundary := Some (boundary\<lparr>vmb_boundary_id := d\<rparr>)\<rparr>)))))"

definition apply_verification_passed_complete ::
  "guard_digest_fun \<Rightarrow> u32 \<Rightarrow> string \<Rightarrow> operation_journal
     \<Rightarrow> operation_journal \<times> (journal_error, unit) result" where
  "apply_verification_passed_complete fp completed_step_id fresh_identity_digest j =
     (if oj_phase j \<noteq> JpVerifying then (j, Inl (invalid j ''verification_passed_complete''))
      else case oj_execution j of
        None \<Rightarrow> (j, Inl JeVerificationExecutionBindingMissing)
      | Some execution \<Rightarrow>
          (if length (esb_mutation_step_ids execution) < 2
              \<or> last (esb_mutation_step_ids execution) \<noteq> completed_step_id
           then (j, Inl JeVerificationSequenceMismatch)
           else if \<not> is_sha256_hex fresh_identity_digest
           then (j, Inl JeVerificationIdentityDigestInvalid)
           else case oj_verified_boundary j of
             None \<Rightarrow> (j, Inl JeCompletionVerifiedBoundaryMismatch)
           | Some boundary \<Rightarrow>
               (if vmb_execution_id boundary \<noteq> esb_execution_id execution
                   \<or> vmb_next_step_id boundary \<noteq> completed_step_id
                   \<or> \<not> ok_true (boundary_integrity_matches fp boundary)
                then (j, Inl JeCompletionVerifiedBoundaryMismatch)
                else
                  (let boundary = boundary\<lparr>vmb_schema_version := 2,
                         vmb_final_step_id := Some completed_step_id,
                         vmb_final_identity_digest := Some fresh_identity_digest\<rparr>;
                       j = j\<lparr>oj_verified_boundary := Some boundary\<rparr>
                   in case expected_boundary_id fp boundary of
                        Inl e \<Rightarrow> (j, Inl (JeVerificationBoundarySerialization e))
                      | Inr d \<Rightarrow>
                          (let j = j\<lparr>oj_verified_boundary := Some (boundary\<lparr>vmb_boundary_id := d\<rparr>)\<rparr>
                           in settle j (advance JpVerifying JpCompleted ''verification-passed-complete''
                                ''final mutation step verified against fresh topology and expected invariants''
                                j))))))"

definition apply_completed ::
  "operation_journal \<Rightarrow> (journal_error, operation_journal) result" where
  "apply_completed j =
     (if oj_phase j \<noteq> JpVerifying then Inl (invalid j ''completed'')
      else case oj_execution j of
        None \<Rightarrow> Inl JeVerificationExecutionBindingMissing
      | Some execution \<Rightarrow>
          (if 1 < length (esb_mutation_step_ids execution)
           then Inl JeCompletionVerifiedBoundaryMismatch
           else advance JpVerifying JpCompleted ''completed''
                  ''final topology and expected invariants verified'' j))"

definition apply_interrupted :: "string \<Rightarrow> operation_journal \<Rightarrow> operation_journal" where
  "apply_interrupted reason j =
     (if oj_mutation_may_have_started j \<or> oj_phase j = JpExecuting \<or> oj_phase j = JpVerifying
      then push_event (oj_phase j) JpRecoveryRequired ''interrupted-after-mutation-boundary'' reason
             (j\<lparr>oj_phase := JpRecoveryRequired\<rparr>)
      else push_event (oj_phase j) JpAborted ''interrupted-before-mutation'' reason
             (j\<lparr>oj_phase := JpAborted\<rparr>))"

definition apply_abort :: "string \<Rightarrow> operation_journal \<Rightarrow> operation_journal" where
  "apply_abort reason j =
     (if oj_mutation_may_have_started j
      then push_event (oj_phase j) JpRecoveryRequired ''abort-after-mutation-boundary'' reason
             (j\<lparr>oj_phase := JpRecoveryRequired\<rparr>)
      else push_event (oj_phase j) JpAborted ''aborted'' reason (j\<lparr>oj_phase := JpAborted\<rparr>))"

fun apply_transition ::
  "guard_digest_fun \<Rightarrow> journal_transition \<Rightarrow> operation_journal
     \<Rightarrow> operation_journal \<times> (journal_error, unit) result" where
  "apply_transition fp t j =
     (if is_terminal (oj_phase j) then (j, Inl JeTerminal)
      else case t of
        JtHostLockAcquired \<Rightarrow>
          settle j (advance JpPlanned JpHostLockHeld ''host-lock-acquired''
            ''host-exclusive storage-operation lock acquired'' j)
      | JtIdentityRevalidated d \<Rightarrow> settle j (apply_identity_revalidated d j)
      | JtPreconditionsVerified \<Rightarrow>
          settle j (advance JpIdentityRevalidated JpPreconditionsVerified ''preconditions-verified''
            ''filesystem decision, backups and other future executor prerequisites verified'' j)
      | JtExactPlanApproved p a \<Rightarrow> settle j (apply_exact_plan_approved fp p a j)
      | JtExecutionStarted b \<Rightarrow> settle j (apply_execution_started fp b j)
      | JtVerificationStarted \<Rightarrow>
          settle j (advance JpExecuting JpVerifying ''verification-started''
            ''post-mutation rediscovery and verification started'' j)
      | JtVerificationPassedContinue c n d \<Rightarrow>
          settle j (apply_verification_passed_continue fp c n d j)
      | JtVerificationPassedComplete c d \<Rightarrow> apply_verification_passed_complete fp c d j
      | JtCompleted \<Rightarrow> settle j (apply_completed j)
      | JtInterrupted reason \<Rightarrow> (apply_interrupted reason j, Inr ())
      | JtAbort reason \<Rightarrow> (apply_abort reason j, Inr ()))"

declare apply_transition.simps [simp del]

definition resume_disposition_of :: "operation_journal \<Rightarrow> resume_disposition" where
  "resume_disposition_of j =
     (case oj_phase j of
        JpCompleted \<Rightarrow> RdComplete
      | JpExecuting \<Rightarrow> RdRecoveryRequired
      | JpVerifying \<Rightarrow> RdRecoveryRequired
      | JpRecoveryRequired \<Rightarrow> RdRecoveryRequired
      | _ \<Rightarrow> RdRestartFromFreshPlan)"

section \<open>The journal as a step relation\<close>

text \<open>A phase change with its event, the shape every successful transition has.\<close>

definition moved :: "journal_phase \<Rightarrow> string \<Rightarrow> string \<Rightarrow> operation_journal \<Rightarrow> operation_journal" where
  "moved p code detail j = push_event (oj_phase j) p code detail (j\<lparr>oj_phase := p\<rparr>)"

lemma moved_simps [simp]:
  "oj_schema_version (moved p c d j) = oj_schema_version j"
  "oj_journal_id (moved p c d j) = oj_journal_id j"
  "oj_plan_id (moved p c d j) = oj_plan_id j"
  "oj_target (moved p c d j) = oj_target j"
  "oj_baseline_manifest_digest (moved p c d j) = oj_baseline_manifest_digest j"
  "oj_phase (moved p c d j) = p"
  "oj_mutation_may_have_started (moved p c d j) = oj_mutation_may_have_started j"
  "oj_approval (moved p c d j) = oj_approval j"
  "oj_execution (moved p c d j) = oj_execution j"
  "oj_verified_boundary (moved p c d j) = oj_verified_boundary j"
  "oj_events (moved p c d j) = oj_events j
     @ [\<lparr> jev_sequence = of_nat (length (oj_events j)) + 1, jev_from = oj_phase j, jev_to = p,
          jev_code = c, jev_detail = d \<rparr>]"
  by (simp_all add: moved_def push_event_def)

lemma advance_iff:
  "advance a b c d j = Inr j' \<longleftrightarrow> oj_phase j = a \<and> j' = moved b c d j"
  by (auto simp: advance_def moved_def)

lemma advance_Inl_iff: "advance a b c d j = Inl e \<longleftrightarrow> oj_phase j \<noteq> a \<and> e = invalid j c"
  by (auto simp: advance_def)

text \<open>What the three bindings of the journal have to satisfy.\<close>

definition approval_fits :: "guard_digest_fun \<Rightarrow> operation_journal \<Rightarrow> exact_approval_binding \<Rightarrow> bool" where
  "approval_fits fp j a \<longleftrightarrow>
     eab_schema_version a = 1 \<and> eab_plan_id a = oj_plan_id j
     \<and> eab_target_manifest_digest a = oj_baseline_manifest_digest j
     \<and> expected_approval_id fp a = Inr (eab_approval_id a)
     \<and> fp (GiJournal j) = Inr (eab_preconditions_journal_digest a)"

definition execution_fits :: "guard_digest_fun \<Rightarrow> operation_journal \<Rightarrow> execution_start_binding \<Rightarrow> bool" where
  "execution_fits fp j b \<longleftrightarrow>
     esb_schema_version b = 1 \<and> esb_journal_id b = oj_journal_id j \<and> esb_plan_id b = oj_plan_id j
     \<and> (\<exists>a. oj_approval j = Some a \<and> esb_approval_id b = eab_approval_id a)
     \<and> esb_fresh_identity_digest b = oj_baseline_manifest_digest j
     \<and> expected_execution_id fp b = Inr (esb_execution_id b)
     \<and> fp (GiJournal j) = Inr (esb_approved_journal_digest b)"

definition boundary_fits ::
  "guard_digest_fun \<Rightarrow> execution_start_binding \<Rightarrow> verified_mutation_boundary_binding \<Rightarrow> bool" where
  "boundary_fits fp x v \<longleftrightarrow>
     vmb_execution_id v = esb_execution_id x
     \<and> vmb_completed_step_id v \<noteq> 0 \<and> vmb_next_step_id v \<noteq> 0
     \<and> vmb_completed_step_id v \<noteq> vmb_next_step_id v
     \<and> ordered_pair (esb_mutation_step_ids x) (vmb_completed_step_id v) (vmb_next_step_id v)
     \<and> is_sha256_hex (vmb_fresh_identity_digest v)
     \<and> expected_boundary_id fp v = Inr (vmb_boundary_id v)"

inductive journal_step ::
  "guard_digest_fun \<Rightarrow> operation_journal \<Rightarrow> journal_transition \<Rightarrow> operation_journal \<Rightarrow> bool"
  for fp :: guard_digest_fun where
  lock: "oj_phase j = JpPlanned \<Longrightarrow>
    journal_step fp j JtHostLockAcquired
      (moved JpHostLockHeld ''host-lock-acquired''
        ''host-exclusive storage-operation lock acquired'' j)"
| identity: "oj_phase j = JpHostLockHeld \<Longrightarrow>
    journal_step fp j (JtIdentityRevalidated (oj_baseline_manifest_digest j))
      (moved JpIdentityRevalidated ''identity-revalidated''
        ''fresh target identity exactly matches the frozen baseline'' j)"
| preconditions: "oj_phase j = JpIdentityRevalidated \<Longrightarrow>
    journal_step fp j JtPreconditionsVerified
      (moved JpPreconditionsVerified ''preconditions-verified''
        ''filesystem decision, backups and other future executor prerequisites verified'' j)"
| approved: "oj_phase j = JpPreconditionsVerified \<Longrightarrow> approval_fits fp j a \<Longrightarrow>
    journal_step fp j (JtExactPlanApproved (oj_plan_id j) a)
      ((moved JpApproved ''exact-plan-approved''
        ''approval recorded for the exact frozen plan and precondition evidence'' j)
        \<lparr>oj_approval := Some a\<rparr>)"
| started: "oj_phase j = JpApproved \<Longrightarrow> execution_fits fp j b \<Longrightarrow>
    journal_step fp j (JtExecutionStarted b)
      ((moved JpExecuting ''execution-started''
        ''exact native manifest entered mutating execution; blind replay is no longer allowed'' j)
        \<lparr>oj_mutation_may_have_started := True, oj_execution := Some b\<rparr>)"
| verifying: "oj_phase j = JpExecuting \<Longrightarrow>
    journal_step fp j JtVerificationStarted
      (moved JpVerifying ''verification-started''
        ''post-mutation rediscovery and verification started'' j)"
| continued: "oj_phase j = JpVerifying \<Longrightarrow> oj_execution j = Some x \<Longrightarrow> boundary_fits fp x v \<Longrightarrow>
    vmb_schema_version v = 1 \<Longrightarrow> vmb_final_step_id v = None \<Longrightarrow> vmb_final_identity_digest v = None \<Longrightarrow>
    journal_step fp j
      (JtVerificationPassedContinue (vmb_completed_step_id v) (vmb_next_step_id v)
         (vmb_fresh_identity_digest v))
      ((moved JpExecuting ''verification-passed-continue''
        (''mutation step '' @ show_word (vmb_completed_step_id v)
         @ '' verified; next mutation step '' @ show_word (vmb_next_step_id v) @ '' may proceed'') j)
        \<lparr>oj_verified_boundary := Some v\<rparr>)"
| finished: "oj_phase j = JpVerifying \<Longrightarrow> oj_execution j = Some x \<Longrightarrow>
    2 \<le> length (esb_mutation_step_ids x) \<Longrightarrow>
    oj_verified_boundary j = Some v \<Longrightarrow> vmb_execution_id v = esb_execution_id x \<Longrightarrow>
    vmb_next_step_id v = last (esb_mutation_step_ids x) \<Longrightarrow>
    expected_boundary_id fp v = Inr (vmb_boundary_id v) \<Longrightarrow>
    is_sha256_hex d \<Longrightarrow>
    v' = v\<lparr>vmb_schema_version := 2, vmb_final_step_id := Some (last (esb_mutation_step_ids x)),
           vmb_final_identity_digest := Some d, vmb_boundary_id := i\<rparr> \<Longrightarrow>
    expected_boundary_id fp v' = Inr i \<Longrightarrow>
    journal_step fp j (JtVerificationPassedComplete (last (esb_mutation_step_ids x)) d)
      ((moved JpCompleted ''verification-passed-complete''
        ''final mutation step verified against fresh topology and expected invariants'' j)
        \<lparr>oj_verified_boundary := Some v'\<rparr>)"
| completed: "oj_phase j = JpVerifying \<Longrightarrow> oj_execution j = Some x \<Longrightarrow>
    length (esb_mutation_step_ids x) \<le> 1 \<Longrightarrow>
    journal_step fp j JtCompleted
      (moved JpCompleted ''completed'' ''final topology and expected invariants verified'' j)"
| interrupted_late: "\<not> is_terminal (oj_phase j) \<Longrightarrow>
    oj_mutation_may_have_started j \<or> oj_phase j = JpExecuting \<or> oj_phase j = JpVerifying \<Longrightarrow>
    journal_step fp j (JtInterrupted r)
      (moved JpRecoveryRequired ''interrupted-after-mutation-boundary'' r j)"
| interrupted_early: "\<not> is_terminal (oj_phase j) \<Longrightarrow>
    \<not> (oj_mutation_may_have_started j \<or> oj_phase j = JpExecuting \<or> oj_phase j = JpVerifying) \<Longrightarrow>
    journal_step fp j (JtInterrupted r) (moved JpAborted ''interrupted-before-mutation'' r j)"
| aborted_late: "\<not> is_terminal (oj_phase j) \<Longrightarrow> oj_mutation_may_have_started j \<Longrightarrow>
    journal_step fp j (JtAbort r) (moved JpRecoveryRequired ''abort-after-mutation-boundary'' r j)"
| aborted_early: "\<not> is_terminal (oj_phase j) \<Longrightarrow> \<not> oj_mutation_may_have_started j \<Longrightarrow>
    journal_step fp j (JtAbort r) (moved JpAborted ''aborted'' r j)"

lemma settle_ok: "settle j r = (j', Inr ()) \<longleftrightarrow> r = Inr j'"
  by (cases r) (auto simp: settle_def)

lemma settle_Inl: "settle j r = (j', Inl e) \<longleftrightarrow> r = Inl e \<and> j' = j"
  by (cases r) (auto simp: settle_def)

lemma terminal_simps [simp]:
  "is_terminal JpCompleted" "is_terminal JpAborted" "is_terminal JpRecoveryRequired"
  "\<not> is_terminal JpPlanned" "\<not> is_terminal JpHostLockHeld" "\<not> is_terminal JpIdentityRevalidated"
  "\<not> is_terminal JpPreconditionsVerified" "\<not> is_terminal JpApproved"
  "\<not> is_terminal JpExecuting" "\<not> is_terminal JpVerifying"
  by (simp_all add: is_terminal_def)

lemma approval_integrity_iff:
  "approval_integrity_matches fp a = Inr True \<longleftrightarrow> expected_approval_id fp a = Inr (eab_approval_id a)"
  by (auto simp: approval_integrity_matches_def split: sum.split)

lemma execution_integrity_iff:
  "execution_integrity_matches fp b = Inr True \<longleftrightarrow> expected_execution_id fp b = Inr (esb_execution_id b)"
  by (auto simp: execution_integrity_matches_def split: sum.split)

lemma boundary_integrity_iff:
  "boundary_integrity_matches fp v = Inr True \<longleftrightarrow> expected_boundary_id fp v = Inr (vmb_boundary_id v)"
  by (auto simp: boundary_integrity_matches_def split: sum.split)

lemma expected_boundary_id_own [simp]:
  "expected_boundary_id fp (v\<lparr>vmb_boundary_id := d\<rparr>) = expected_boundary_id fp v"
  by (simp add: expected_boundary_id_def)

section \<open>The code takes exactly these steps\<close>

lemma identity_ok:
  "apply_identity_revalidated d j = Inr j' \<longleftrightarrow>
     oj_phase j = JpHostLockHeld \<and> d = oj_baseline_manifest_digest j
     \<and> j' = moved JpIdentityRevalidated ''identity-revalidated''
          ''fresh target identity exactly matches the frozen baseline'' j"
  by (auto simp: apply_identity_revalidated_def advance_iff)

lemma approved_ok:
  "apply_exact_plan_approved fp p a j = Inr j' \<longleftrightarrow>
     oj_phase j = JpPreconditionsVerified \<and> p = oj_plan_id j \<and> approval_fits fp j a
     \<and> j' = (moved JpApproved ''exact-plan-approved''
        ''approval recorded for the exact frozen plan and precondition evidence'' j)
        \<lparr>oj_approval := Some a\<rparr>"
  by (auto simp: apply_exact_plan_approved_def approval_fits_def ok_true_iff
      approval_integrity_iff advance_iff advance_Inl_iff split: sum.split)

lemma started_ok:
  "apply_execution_started fp b j = Inr j' \<longleftrightarrow>
     oj_phase j = JpApproved \<and> execution_fits fp j b
     \<and> j' = (moved JpExecuting ''execution-started''
        ''exact native manifest entered mutating execution; blind replay is no longer allowed'' j)
        \<lparr>oj_mutation_may_have_started := True, oj_execution := Some b\<rparr>"
  by (auto simp: apply_execution_started_def execution_fits_def ok_true_iff
      execution_integrity_iff advance_iff advance_Inl_iff split: sum.split option.split)

lemma continued_ok:
  "apply_verification_passed_continue fp c n d j = Inr j' \<longleftrightarrow>
     oj_phase j = JpVerifying \<and> (\<exists>x v. oj_execution j = Some x \<and> boundary_fits fp x v
       \<and> vmb_schema_version v = 1 \<and> vmb_final_step_id v = None \<and> vmb_final_identity_digest v = None
       \<and> c = vmb_completed_step_id v \<and> n = vmb_next_step_id v \<and> d = vmb_fresh_identity_digest v
       \<and> j' = (moved JpExecuting ''verification-passed-continue''
          (''mutation step '' @ show_word (vmb_completed_step_id v)
           @ '' verified; next mutation step '' @ show_word (vmb_next_step_id v) @ '' may proceed'') j)
          \<lparr>oj_verified_boundary := Some v\<rparr>)" (is "?l = ?r")
proof
  assume l: ?l
  then obtain x where p: "oj_phase j = JpVerifying" and x: "oj_execution j = Some x"
    by (auto simp: apply_verification_passed_continue_def split: if_splits option.splits)
  let ?b = "\<lparr> vmb_schema_version = 1, vmb_boundary_id = '''', vmb_execution_id = esb_execution_id x,
     vmb_completed_step_id = c, vmb_next_step_id = n, vmb_fresh_identity_digest = d,
     vmb_final_step_id = None, vmb_final_identity_digest = None \<rparr>"
  from l p x obtain i where i: "expected_boundary_id fp ?b = Inr i"
    by (auto simp: apply_verification_passed_continue_def Let_def split: if_splits sum.splits)
  from l p x i show ?r
    by (intro conjI exI[of _ x] exI[of _ "?b\<lparr>vmb_boundary_id := i\<rparr>"])
       (auto simp: apply_verification_passed_continue_def Let_def boundary_fits_def moved_def
          push_event_def expected_boundary_id_def split: if_splits)
next
  assume ?r
  then obtain x v where r: "oj_phase j = JpVerifying" "oj_execution j = Some x" "boundary_fits fp x v"
       "vmb_schema_version v = 1" "vmb_final_step_id v = None" "vmb_final_identity_digest v = None"
       "c = vmb_completed_step_id v" "n = vmb_next_step_id v" "d = vmb_fresh_identity_digest v"
       and j': "j' = (moved JpExecuting ''verification-passed-continue''
          (''mutation step '' @ show_word (vmb_completed_step_id v)
           @ '' verified; next mutation step '' @ show_word (vmb_next_step_id v) @ '' may proceed'') j)
          \<lparr>oj_verified_boundary := Some v\<rparr>"
    by blast
  from r(4-6) obtain i e c' n' d' where v: "v = \<lparr> vmb_schema_version = 1, vmb_boundary_id = i,
     vmb_execution_id = e, vmb_completed_step_id = c', vmb_next_step_id = n',
     vmb_fresh_identity_digest = d', vmb_final_step_id = None, vmb_final_identity_digest = None \<rparr>"
    by (cases v) simp
  from r show ?l
    unfolding j' v
    by (auto simp: apply_verification_passed_continue_def Let_def boundary_fits_def moved_def
        push_event_def expected_boundary_id_def)
qed

lemma finished_ok:
  "apply_verification_passed_complete fp c d j = (j', Inr ()) \<longleftrightarrow>
     oj_phase j = JpVerifying \<and> (\<exists>x v v' i. oj_execution j = Some x
       \<and> 2 \<le> length (esb_mutation_step_ids x) \<and> c = last (esb_mutation_step_ids x)
       \<and> oj_verified_boundary j = Some v \<and> vmb_execution_id v = esb_execution_id x
       \<and> vmb_next_step_id v = c \<and> expected_boundary_id fp v = Inr (vmb_boundary_id v)
       \<and> is_sha256_hex d
       \<and> v' = v\<lparr>vmb_schema_version := 2, vmb_final_step_id := Some c,
                vmb_final_identity_digest := Some d, vmb_boundary_id := i\<rparr>
       \<and> expected_boundary_id fp v' = Inr i
       \<and> j' = (moved JpCompleted ''verification-passed-complete''
          ''final mutation step verified against fresh topology and expected invariants'' j)
          \<lparr>oj_verified_boundary := Some v'\<rparr>)"
  by (cases "oj_execution j"; cases "oj_verified_boundary j")
     (auto simp: apply_verification_passed_complete_def Let_def ok_true_iff boundary_integrity_iff
       settle_ok advance_iff moved_def push_event_def expected_boundary_id_def
       split: sum.splits if_splits)

lemma completed_ok:
  "apply_completed j = Inr j' \<longleftrightarrow>
     oj_phase j = JpVerifying \<and> (\<exists>x. oj_execution j = Some x
       \<and> length (esb_mutation_step_ids x) \<le> 1
       \<and> j' = moved JpCompleted ''completed'' ''final topology and expected invariants verified'' j)"
  by (auto simp: apply_completed_def advance_iff split: option.split)

lemma finished_step:
  "apply_verification_passed_complete fp c d j = (j', Inr ())
     \<longleftrightarrow> journal_step fp j (JtVerificationPassedComplete c d) j'"
proof
  assume "apply_verification_passed_complete fp c d j = (j', Inr ())"
  then show "journal_step fp j (JtVerificationPassedComplete c d) j'"
    unfolding finished_ok by (auto simp only: intro: journal_step.finished)
next
  assume "journal_step fp j (JtVerificationPassedComplete c d) j'"
  then show "apply_verification_passed_complete fp c d j = (j', Inr ())"
    unfolding finished_ok by cases blast
qed

lemma apply_ok_iff: "apply_transition fp t j = (j', Inr ()) \<longleftrightarrow> journal_step fp j t j'"
proof (cases "is_terminal (oj_phase j)")
  case True
  then show ?thesis by (auto simp: apply_transition.simps journal_step.simps)
next
  case False
  show ?thesis
  proof (cases t)
    case (JtVerificationPassedComplete c d)
    with False show ?thesis by (simp add: apply_transition.simps finished_step)
  qed (auto simp: apply_transition.simps False settle_ok advance_iff identity_ok approved_ok
         started_ok continued_ok completed_ok journal_step.simps
         apply_interrupted_def apply_abort_def moved_def)
qed

text \<open>The journal after a failed call: unchanged, or with only its boundary rewritten.\<close>

lemma finished_failed:
  assumes "apply_verification_passed_complete fp c d j = (j', Inl e)"
  shows "j' = j \<or> (\<exists>x v m. oj_phase j = JpVerifying \<and> oj_execution j = Some x \<and> oj_verified_boundary j = Some v
    \<and> e = JeVerificationBoundarySerialization m
    \<and> j' = j\<lparr>oj_verified_boundary := Some (v\<lparr>vmb_schema_version := 2,
        vmb_final_step_id := Some c, vmb_final_identity_digest := Some d\<rparr>)\<rparr>)"
  using assms
  by (auto simp: apply_verification_passed_complete_def Let_def settle_def advance_def
      split: if_splits option.splits sum.splits)

lemma apply_failed:
  assumes "apply_transition fp t j = (j', Inl e)"
  shows "j' = j \<or> (\<exists>x v m c d. t = JtVerificationPassedComplete c d \<and> oj_phase j = JpVerifying
    \<and> oj_execution j = Some x \<and> oj_verified_boundary j = Some v
    \<and> e = JeVerificationBoundarySerialization m
    \<and> j' = j\<lparr>oj_verified_boundary := Some (v\<lparr>vmb_schema_version := 2,
        vmb_final_step_id := Some c, vmb_final_identity_digest := Some d\<rparr>)\<rparr>)"
proof (cases t)
  case (JtVerificationPassedComplete c d)
  with assms finished_failed[of fp c d j j' e] show ?thesis
    by (auto simp: apply_transition.simps split: if_splits)
qed (use assms in \<open>auto simp: apply_transition.simps settle_Inl split: if_splits\<close>)

text \<open>A rejected transition leaves the journal exactly as it was, in every phase and for every
  transition and error, with one exception that the code has: when the digest of a final boundary
  cannot be computed, the boundary fields have already been rewritten. Phase, flags, bindings and
  event log are untouched even then.\<close>

theorem rejected_transition_keeps_journal:
  "case apply_transition fp t j of
     (j', Inl e) \<Rightarrow>
       j'\<lparr>oj_verified_boundary := oj_verified_boundary j\<rparr> = j
       \<and> (j' = j \<or> (\<exists>m c d. e = JeVerificationBoundarySerialization m
                        \<and> t = JtVerificationPassedComplete c d \<and> oj_phase j = JpVerifying))
   | (j', Inr u) \<Rightarrow>
       oj_phase j' \<noteq> oj_phase j
       \<and> (\<exists>ev. oj_events j' = oj_events j @ [ev] \<and> jev_from ev = oj_phase j \<and> jev_to ev = oj_phase j'
            \<and> jev_sequence ev = of_nat (length (oj_events j)) + 1)"
proof (cases "apply_transition fp t j")
  case (Pair j' r)
  show ?thesis
  proof (cases r)
    case (Inl e)
    have "operation_journal.oj_verified_boundary_update (\<lambda>_. oj_verified_boundary j) j = j"
      by simp
    with Pair Inl apply_failed[of fp t j j' e] show ?thesis by auto
  next
    case (Inr u)
    with Pair have "journal_step fp j t j'" by (simp add: apply_ok_iff)
    then show ?thesis unfolding Pair Inr by cases (auto simp: is_terminal_def)
  qed
qed

section \<open>Reachable journals\<close>

inductive reachable :: "guard_digest_fun \<Rightarrow> execution_guard_plan \<Rightarrow> operation_journal \<Rightarrow> bool"
  for fp g where
  start: "reachable fp g (new_journal g)"
| step: "reachable fp g j \<Longrightarrow> apply_transition fp t j = (j', r) \<Longrightarrow> reachable fp g j'"

lemma reachable_induct [consumes 1, case_names start ok failed]:
  assumes "reachable fp g j"
    and "P (new_journal g)"
    and "\<And>j t j'. reachable fp g j \<Longrightarrow> P j \<Longrightarrow> journal_step fp j t j' \<Longrightarrow> P j'"
    and "\<And>j x v c d. reachable fp g j \<Longrightarrow> P j \<Longrightarrow> oj_phase j = JpVerifying \<Longrightarrow> oj_execution j = Some x \<Longrightarrow>
       oj_verified_boundary j = Some v \<Longrightarrow>
       P (j\<lparr>oj_verified_boundary := Some (v\<lparr>vmb_schema_version := 2,
        vmb_final_step_id := Some c, vmb_final_identity_digest := Some d\<rparr>)\<rparr>)"
  shows "P j"
  using assms(1)
proof induction
  case start
  then show ?case by (rule assms(2))
next
  case (step j t j' r)
  show ?case
  proof (cases r)
    case (Inl e)
    from apply_failed[OF step.hyps(2)[unfolded Inl]] show ?thesis
      using step assms(4) by blast
  next
    case (Inr u)
    with step assms(3) show ?thesis by (metis apply_ok_iff old.unit.exhaust)
  qed
qed

definition mutating :: "journal_phase \<Rightarrow> bool" where
  "mutating p = (p = JpExecuting \<or> p = JpVerifying \<or> p = JpCompleted \<or> p = JpRecoveryRequired)"

lemma mutating_simps [simp]:
  "mutating JpExecuting" "mutating JpVerifying" "mutating JpCompleted" "mutating JpRecoveryRequired"
  "\<not> mutating JpPlanned" "\<not> mutating JpHostLockHeld" "\<not> mutating JpIdentityRevalidated"
  "\<not> mutating JpPreconditionsVerified" "\<not> mutating JpApproved" "\<not> mutating JpAborted"
  by (simp_all add: mutating_def)

text \<open>The invariant of the flags and of the presence of the bindings.\<close>

definition flags_ok :: "operation_journal \<Rightarrow> bool" where
  "flags_ok j \<longleftrightarrow>
     oj_mutation_may_have_started j = mutating (oj_phase j)
     \<and> (oj_execution j \<noteq> None) = mutating (oj_phase j)
     \<and> (mutating (oj_phase j) \<or> oj_phase j = JpApproved \<longrightarrow> oj_approval j \<noteq> None)
     \<and> (oj_phase j \<in> {JpPlanned, JpHostLockHeld, JpIdentityRevalidated, JpPreconditionsVerified}
          \<longrightarrow> oj_approval j = None)
     \<and> (\<forall>v. oj_verified_boundary j = Some v \<longrightarrow> (\<exists>x. oj_execution j = Some x
           \<and> ordered_pair (esb_mutation_step_ids x) (vmb_completed_step_id v) (vmb_next_step_id v)
           \<and> vmb_execution_id v = esb_execution_id x))"

lemma flags_ok_step: "journal_step fp j t j' \<Longrightarrow> flags_ok j \<Longrightarrow> flags_ok j'"
  by (cases rule: journal_step.cases, assumption)
     (auto simp: flags_ok_def boundary_fits_def is_terminal_def mutating_def)

lemma reachable_flags_ok: "reachable fp g j \<Longrightarrow> flags_ok j"
  by (induction rule: reachable_induct)
     (auto simp: flags_ok_step, auto simp: flags_ok_def new_journal_def)

text \<open>Where the bindings of a journal come from: states it went through before.\<close>

definition bound_history :: "guard_digest_fun \<Rightarrow> execution_guard_plan \<Rightarrow> operation_journal \<Rightarrow> bool" where
  "bound_history fp g j \<longleftrightarrow>
     (\<forall>a. oj_approval j = Some a \<longrightarrow>
        (\<exists>j0. reachable fp g j0 \<and> oj_phase j0 = JpPreconditionsVerified \<and> approval_fits fp j0 a
              \<and> strict_prefix (oj_events j0) (oj_events j)))
     \<and> (\<forall>b. oj_execution j = Some b \<longrightarrow>
        (\<exists>j1 a. reachable fp g j1 \<and> oj_phase j1 = JpApproved \<and> oj_approval j1 = Some a
              \<and> oj_approval j = Some a \<and> execution_fits fp j1 b
              \<and> strict_prefix (oj_events j1) (oj_events j)))"

lemma strict_prefix_snoc [intro]: "strict_prefix xs ys \<Longrightarrow> strict_prefix xs (ys @ zs)"
  by (meson prefix_order.less_le_trans prefixI)

lemma strict_prefix_self_snoc [simp]: "strict_prefix xs (xs @ [y])"
  by (simp add: strict_prefix_def)

lemma bound_history_approvalI:
  "oj_approval j = Some a \<Longrightarrow> bound_history fp g j \<Longrightarrow>
    \<exists>j0. reachable fp g j0 \<and> oj_phase j0 = JpPreconditionsVerified \<and> approval_fits fp j0 a
      \<and> strict_prefix (oj_events j0) (oj_events j)"
  by (simp add: bound_history_def)

lemma bound_history_keep:
  assumes h: "bound_history fp g j" and a: "oj_approval j' = oj_approval j"
    and e: "oj_execution j' = oj_execution j" and p: "prefix (oj_events j) (oj_events j')"
  shows "bound_history fp g j'"
proof -
  have "strict_prefix xs (oj_events j) \<Longrightarrow> strict_prefix xs (oj_events j')" for xs
    using p by (rule prefix_order.less_le_trans[rotated])
  with h show ?thesis unfolding bound_history_def a e by blast
qed

lemma reachable_bound_history: "reachable fp g j \<Longrightarrow> bound_history fp g j"
proof (induction rule: reachable_induct)
  case start
  then show ?case by (simp add: bound_history_def new_journal_def)
next
  case (ok j t j')
  from \<open>journal_step fp j t j'\<close> show ?case
  proof cases
    case (approved a)
    with ok.hyps(1) reachable_flags_ok[OF ok.hyps(1)] show ?thesis
      by (auto simp: bound_history_def flags_ok_def intro!: exI[of _ j])
  next
    case (started b)
    then obtain a where a: "oj_approval j = Some a" by (auto simp: execution_fits_def)
    from bound_history_approvalI[OF a ok.IH] obtain j0 where "reachable fp g j0"
      "oj_phase j0 = JpPreconditionsVerified" "approval_fits fp j0 a"
      "strict_prefix (oj_events j0) (oj_events j)" by blast
    then have "\<exists>j0. reachable fp g j0 \<and> oj_phase j0 = JpPreconditionsVerified \<and> approval_fits fp j0 a
      \<and> strict_prefix (oj_events j0) (oj_events j')"
      using started by (intro exI[of _ j0]) auto
    moreover have "\<exists>j1 a. reachable fp g j1 \<and> oj_phase j1 = JpApproved \<and> oj_approval j1 = Some a
        \<and> oj_approval j' = Some a \<and> execution_fits fp j1 b \<and> strict_prefix (oj_events j1) (oj_events j')"
      using started a ok.hyps(1) by (intro exI[of _ j] exI[of _ a]) simp
    ultimately show ?thesis using started a by (simp add: bound_history_def)
  qed (rule bound_history_keep[OF ok.IH]; simp)+
next
  case (failed j x v c d)
  then show ?case by (simp add: bound_history_def)
qed

lemma reachable_static:
  "reachable fp g j \<Longrightarrow> oj_schema_version j = 1 \<and> oj_journal_id j = egp_guard_id g
     \<and> oj_plan_id j = egp_plan_id g \<and> oj_target j = egp_target g
     \<and> oj_baseline_manifest_digest j = egp_baseline_manifest_digest g"
proof (induction rule: reachable_induct)
  case (ok j t j')
  from \<open>journal_step fp j t j'\<close> ok.IH show ?case by cases auto
qed (simp_all add: new_journal_def)

text \<open>C1: nothing is ever executed without an exact approval. Whatever calls are made on a journal,
  rejected ones included, once its mutation flag is set it holds an approval and an execution
  binding; the approval was given to a state this journal was in with its preconditions verified
  and carries that state's digest, the execution binding was given to a later state that held this
  approval and carries the digest of that state, and both name the plan and the frozen target
  identity of the guard plan.\<close>

theorem mutation_needs_exact_approval:
  assumes "reachable fp g j" "oj_mutation_may_have_started j"
  shows "\<exists>a b j0 j1. oj_approval j = Some a \<and> oj_execution j = Some b
    \<and> reachable fp g j0 \<and> oj_phase j0 = JpPreconditionsVerified \<and> approval_fits fp j0 a
    \<and> reachable fp g j1 \<and> oj_phase j1 = JpApproved \<and> oj_approval j1 = Some a \<and> execution_fits fp j1 b
    \<and> strict_prefix (oj_events j0) (oj_events j1) \<and> strict_prefix (oj_events j1) (oj_events j)
    \<and> eab_plan_id a = egp_plan_id g \<and> esb_plan_id b = egp_plan_id g
    \<and> esb_journal_id b = egp_guard_id g \<and> esb_approval_id b = eab_approval_id a
    \<and> eab_target_manifest_digest a = egp_baseline_manifest_digest g
    \<and> esb_fresh_identity_digest b = egp_baseline_manifest_digest g"
proof -
  from assms obtain b where b: "oj_execution j = Some b"
    using reachable_flags_ok[OF assms(1)] by (auto simp: flags_ok_def)
  with reachable_bound_history[OF assms(1)] obtain j1 a where
    j1: "reachable fp g j1" "oj_phase j1 = JpApproved" "oj_approval j1 = Some a" "oj_approval j = Some a"
      "execution_fits fp j1 b" "strict_prefix (oj_events j1) (oj_events j)"
    by (auto simp: bound_history_def)
  with reachable_bound_history[OF j1(1)] obtain j0 where
    j0: "reachable fp g j0" "oj_phase j0 = JpPreconditionsVerified" "approval_fits fp j0 a"
      "strict_prefix (oj_events j0) (oj_events j1)"
    by (auto simp: bound_history_def)
  from reachable_static[OF j1(1)] reachable_static[OF j0(1)] j0(3) j1(3,5)
  have ids: "eab_plan_id a = egp_plan_id g" "esb_plan_id b = egp_plan_id g"
    "esb_journal_id b = egp_guard_id g" "esb_approval_id b = eab_approval_id a"
    "eab_target_manifest_digest a = egp_baseline_manifest_digest g"
    "esb_fresh_identity_digest b = egp_baseline_manifest_digest g"
    by (auto simp: approval_fits_def execution_fits_def)
  show ?thesis using b j1 j0 ids by blast
qed

text \<open>A crash is classified soundly: interrupting or aborting any live journal ends it, as
  recovery required exactly when execution had been started (then the disposition forbids a
  restart from a fresh plan), and as aborted exactly when it had not.\<close>

theorem interruption_classified:
  assumes "reachable fp g j" "\<not> is_terminal (oj_phase j)" "t \<in> {JtInterrupted r, JtAbort r}"
  shows "snd (apply_transition fp t j) = Inr ()
    \<and> (let j' = fst (apply_transition fp t j) in
         is_terminal (oj_phase j')
         \<and> (if oj_execution j = None
            then oj_phase j' = JpAborted \<and> resume_disposition_of j' = RdRestartFromFreshPlan
            else oj_phase j' = JpRecoveryRequired \<and> resume_disposition_of j' = RdRecoveryRequired)
         \<and> (resume_disposition_of j' = RdRestartFromFreshPlan
              \<longleftrightarrow> resume_disposition_of j = RdRestartFromFreshPlan))"
  using assms reachable_flags_ok[OF assms(1)]
  by (cases "oj_phase j")
     (auto simp: apply_transition.simps apply_interrupted_def apply_abort_def push_event_def
       flags_ok_def resume_disposition_of_def Let_def)

lemma completed_has_boundary:
  assumes "reachable fp g j" "oj_phase j = JpCompleted"
  shows "\<exists>x. oj_execution j = Some x
    \<and> (length (esb_mutation_step_ids x) \<le> 1
       \<or> (\<exists>v d. oj_verified_boundary j = Some v \<and> vmb_schema_version v = 2
            \<and> vmb_execution_id v = esb_execution_id x
            \<and> ordered_pair (esb_mutation_step_ids x) (vmb_completed_step_id v) (vmb_next_step_id v)
            \<and> vmb_next_step_id v = last (esb_mutation_step_ids x)
            \<and> vmb_final_step_id v = Some (last (esb_mutation_step_ids x))
            \<and> vmb_final_identity_digest v = Some d \<and> is_sha256_hex d
            \<and> expected_boundary_id fp v = Inr (vmb_boundary_id v)))"
  using assms
proof (induction rule: reachable_induct)
  case (ok j t j')
  from \<open>journal_step fp j t j'\<close> show ?case
  proof cases
    case (finished x v d v' i)
    with reachable_flags_ok[OF \<open>reachable fp g j\<close>] show ?thesis
      by (auto simp: flags_ok_def)
  qed (use ok.prems in auto)
qed (simp_all add: new_journal_def)

text \<open>C15: a journal completes only with its work verified. If the execution binding lists at most
  one step the plain completion is allowed; with two or more steps the journal holds a final
  boundary of that execution, between two steps that are neighbours in the bound sequence, the
  second of which is the last step, with a well-formed final identity digest and the digest of its
  own contents as its identifier.\<close>

theorem completion_is_verified:
  assumes "reachable fp g j" "oj_phase j = JpCompleted"
  shows "\<exists>x. oj_execution j = Some x
    \<and> (length (esb_mutation_step_ids x) \<le> 1
       \<or> (\<exists>v d. oj_verified_boundary j = Some v \<and> vmb_schema_version v = 2
            \<and> vmb_execution_id v = esb_execution_id x
            \<and> ordered_pair (esb_mutation_step_ids x) (vmb_completed_step_id v) (vmb_next_step_id v)
            \<and> vmb_next_step_id v = last (esb_mutation_step_ids x)
            \<and> vmb_final_step_id v = Some (last (esb_mutation_step_ids x))
            \<and> vmb_final_identity_digest v = Some d \<and> is_sha256_hex d
            \<and> expected_boundary_id fp v = Inr (vmb_boundary_id v)))"
  by (rule completed_has_boundary[OF assms])

text \<open>C16: a start binding that was built for a journal is accepted by that journal, and by no other
  state of it: starting execution succeeds, sets the mutation flag, stores the binding, and the
  same binding is refused afterwards.\<close>

theorem built_binding_starts_execution:
  assumes "build_execution_start_binding fp j source native fresh ids = Inr b"
  shows "\<exists>j'. apply_transition fp (JtExecutionStarted b) j = (j', Inr ())
    \<and> oj_phase j' = JpExecuting \<and> oj_mutation_may_have_started j' \<and> oj_execution j' = Some b
    \<and> steps_valid (esb_mutation_step_ids b) \<and> esb_mutation_step_ids b = ids
    \<and> is_sha256_hex (esb_source_manifest_id b) \<and> is_sha256_hex (esb_native_manifest_digest b)
    \<and> snd (apply_transition fp (JtExecutionStarted b) j') = Inl (JeInvalidTransition JpExecuting ''execution_started'')"
proof -
  from assms have "oj_phase j = JpApproved \<and> execution_fits fp j b \<and> esb_mutation_step_ids b = ids
      \<and> steps_valid ids \<and> is_sha256_hex (esb_source_manifest_id b) \<and> is_sha256_hex (esb_native_manifest_digest b)"
    by (auto simp: build_execution_start_binding_def execution_fits_def Let_def expected_execution_id_def
        split: if_splits option.splits sum.splits)
  moreover from this have "apply_transition fp (JtExecutionStarted b) j =
     ((moved JpExecuting ''execution-started''
        ''exact native manifest entered mutating execution; blind replay is no longer allowed'' j)
        \<lparr>oj_mutation_may_have_started := True, oj_execution := Some b\<rparr>, Inr ())"
    by (simp add: apply_ok_iff journal_step.started)
  ultimately show ?thesis
    by (simp add: apply_transition.simps apply_execution_started_def invalid_def settle_def)
qed

section \<open>A run of the journal\<close>

definition run :: "guard_digest_fun \<Rightarrow> journal_transition list \<Rightarrow> operation_journal \<Rightarrow> operation_journal" where
  "run fp ts j = fold (\<lambda>t j. fst (apply_transition fp t j)) ts j"

lemma reachable_run: "reachable fp g j \<Longrightarrow> reachable fp g (run fp ts j)"
proof (induction ts arbitrary: j)
  case (Cons t ts)
  have "reachable fp g (fst (apply_transition fp t j))"
    by (rule reachable.step[OF Cons.prems, of t _ "snd (apply_transition fp t j)"]) simp
  from Cons.IH[OF this] show ?case by (simp add: run_def)
qed (simp add: run_def)

lemmas reachable_new_run = reachable_run[OF reachable.start]

text \<open>A terminal journal is final: no sequence of transitions changes anything in it, and each
  of them is answered with the terminal error.\<close>

theorem terminal_is_final:
  assumes "is_terminal (oj_phase j)"
  shows "run fp ts j = j \<and> (\<forall>t. snd (apply_transition fp t j) = Inl JeTerminal)"
  using assms by (induction ts) (auto simp: run_def apply_transition.simps)

definition ex_hex :: string where
  "ex_hex = replicate 64 (CHR ''a'')"

lemma ex_hex_sha: "is_sha256_hex ex_hex"
  by code_simp

definition ex_fp :: guard_digest_fun where
  "ex_fp v = Inr ex_hex"

definition ex_guard :: execution_guard_plan where
  "ex_guard = projr (build_execution_guard_plan ex_fp ex_hex (ex_manifest\<lparr>tim_manifest_digest := ex_hex\<rparr>))"

definition ex_approval :: exact_approval_binding where
  "ex_approval = \<lparr> eab_schema_version = 1, eab_approval_id = ex_hex, eab_plan_id = ex_hex,
     eab_evidence_bundle_id = ex_hex, eab_target_manifest_digest = ex_hex,
     eab_locked_session_id = ex_hex, eab_preconditions_journal_digest = ex_hex \<rparr>"

definition ex_binding :: execution_start_binding where
  "ex_binding = \<lparr> esb_schema_version = 1, esb_execution_id = ex_hex, esb_journal_id = ex_hex,
     esb_plan_id = ex_hex, esb_approval_id = ex_hex, esb_source_manifest_id = ex_hex,
     esb_native_manifest_digest = ex_hex, esb_fresh_identity_digest = ex_hex,
     esb_mutation_step_ids = [1, 2], esb_approved_journal_digest = ex_hex \<rparr>"

definition ex_prepare :: "journal_transition list" where
  "ex_prepare = [JtHostLockAcquired, JtIdentityRevalidated ex_hex, JtPreconditionsVerified,
     JtExactPlanApproved ex_hex ex_approval]"

definition ex_execute :: "journal_transition list" where
  "ex_execute = [JtExecutionStarted ex_binding, JtVerificationStarted,
     JtVerificationPassedContinue 1 2 ex_hex, JtVerificationStarted,
     JtVerificationPassedComplete 2 ex_hex]"

definition ex_approved :: operation_journal where
  "ex_approved = run ex_fp ex_prepare (new_journal ex_guard)"

definition ex_running :: operation_journal where
  "ex_running = fst (apply_transition ex_fp (JtExecutionStarted ex_binding) ex_approved)"

definition ex_done :: operation_journal where
  "ex_done = run ex_fp ex_execute ex_approved"

text \<open>The three states written out, so that they are computed once.\<close>

definition ex_events_approved :: "journal_event list" where
  "ex_events_approved =
    [\<lparr> jev_sequence = 1, jev_from = JpPlanned, jev_to = JpHostLockHeld,
       jev_code = ''host-lock-acquired'',
       jev_detail = ''host-exclusive storage-operation lock acquired'' \<rparr>,
     \<lparr> jev_sequence = 2, jev_from = JpHostLockHeld, jev_to = JpIdentityRevalidated,
       jev_code = ''identity-revalidated'',
       jev_detail = ''fresh target identity exactly matches the frozen baseline'' \<rparr>,
     \<lparr> jev_sequence = 3, jev_from = JpIdentityRevalidated, jev_to = JpPreconditionsVerified,
       jev_code = ''preconditions-verified'',
       jev_detail = ''filesystem decision, backups and other future executor prerequisites verified'' \<rparr>,
     \<lparr> jev_sequence = 4, jev_from = JpPreconditionsVerified, jev_to = JpApproved,
       jev_code = ''exact-plan-approved'',
       jev_detail = ''approval recorded for the exact frozen plan and precondition evidence'' \<rparr>]"

definition ex_events_running :: "journal_event list" where
  "ex_events_running = ex_events_approved @
    [\<lparr> jev_sequence = 5, jev_from = JpApproved, jev_to = JpExecuting,
       jev_code = ''execution-started'',
       jev_detail = ''exact native manifest entered mutating execution; blind replay is no longer allowed'' \<rparr>]"

definition ex_events_done :: "journal_event list" where
  "ex_events_done = ex_events_running @
    [\<lparr> jev_sequence = 6, jev_from = JpExecuting, jev_to = JpVerifying,
       jev_code = ''verification-started'',
       jev_detail = ''post-mutation rediscovery and verification started'' \<rparr>,
     \<lparr> jev_sequence = 7, jev_from = JpVerifying, jev_to = JpExecuting,
       jev_code = ''verification-passed-continue'',
       jev_detail = ''mutation step 1 verified; next mutation step 2 may proceed'' \<rparr>,
     \<lparr> jev_sequence = 8, jev_from = JpExecuting, jev_to = JpVerifying,
       jev_code = ''verification-started'',
       jev_detail = ''post-mutation rediscovery and verification started'' \<rparr>,
     \<lparr> jev_sequence = 9, jev_from = JpVerifying, jev_to = JpCompleted,
       jev_code = ''verification-passed-complete'',
       jev_detail = ''final mutation step verified against fresh topology and expected invariants'' \<rparr>]"

lemma ex_approved_code [code]:
  "ex_approved = \<lparr> oj_schema_version = 1, oj_journal_id = ex_hex, oj_plan_id = ex_hex,
     oj_target = ''/'', oj_baseline_manifest_digest = ex_hex, oj_phase = JpApproved,
     oj_mutation_may_have_started = False, oj_approval = Some ex_approval, oj_execution = None,
     oj_verified_boundary = None, oj_events = ex_events_approved \<rparr>"
  by code_simp

lemma ex_running_code [code]:
  "ex_running = \<lparr> oj_schema_version = 1, oj_journal_id = ex_hex, oj_plan_id = ex_hex,
     oj_target = ''/'', oj_baseline_manifest_digest = ex_hex, oj_phase = JpExecuting,
     oj_mutation_may_have_started = True, oj_approval = Some ex_approval, oj_execution = Some ex_binding,
     oj_verified_boundary = None, oj_events = ex_events_running \<rparr>"
  by code_simp

lemma ex_done_run: "ex_done = run ex_fp (tl ex_execute) ex_running"
  by (simp add: ex_done_def ex_running_def ex_execute_def run_def)

declare ex_done_run [code]

lemma ex_done_code [code]:
  "ex_done = \<lparr> oj_schema_version = 1, oj_journal_id = ex_hex, oj_plan_id = ex_hex,
     oj_target = ''/'', oj_baseline_manifest_digest = ex_hex, oj_phase = JpCompleted,
     oj_mutation_may_have_started = True, oj_approval = Some ex_approval, oj_execution = Some ex_binding,
     oj_verified_boundary = Some \<lparr> vmb_schema_version = 2, vmb_boundary_id = ex_hex, vmb_execution_id = ex_hex,
       vmb_completed_step_id = 1, vmb_next_step_id = 2, vmb_fresh_identity_digest = ex_hex,
       vmb_final_step_id = Some 2, vmb_final_identity_digest = Some ex_hex \<rparr>, oj_events = ex_events_done \<rparr>"
  by code_simp

lemma ex_reachable: "reachable ex_fp ex_guard ex_approved" "reachable ex_fp ex_guard ex_running"
  "reachable ex_fp ex_guard ex_done"
proof -
  show a: "reachable ex_fp ex_guard ex_approved"
    unfolding ex_approved_def by (rule reachable_new_run)
  show "reachable ex_fp ex_guard ex_running"
    unfolding ex_running_def
    by (rule reachable.step[OF a, of "JtExecutionStarted ex_binding" _ "snd (apply_transition ex_fp (JtExecutionStarted ex_binding) ex_approved)"]) simp
  show "reachable ex_fp ex_guard ex_done"
    unfolding ex_done_def by (rule reachable_run[OF a])
qed

lemma ex_phases: "oj_phase ex_approved = JpApproved" "oj_phase ex_running = JpExecuting"
  "oj_phase ex_done = JpCompleted"
  by (simp_all add: ex_approved_code ex_running_code ex_done_code)

lemma mutation_needs_exact_approval_witness:
  "oj_mutation_may_have_started ex_running
   \<and> (\<exists>a b. oj_approval ex_running = Some a \<and> oj_execution ex_running = Some b
        \<and> eab_plan_id a = egp_plan_id ex_guard \<and> esb_journal_id b = egp_guard_id ex_guard)"
proof -
  have m: "oj_mutation_may_have_started ex_running" by (simp add: ex_running_code)
  from mutation_needs_exact_approval[OF ex_reachable(2) m] m show ?thesis by blast
qed

lemma interruption_classified_witness:
  "oj_phase (fst (apply_transition ex_fp (JtInterrupted ''power loss'') ex_running)) = JpRecoveryRequired"
proof -
  have t: "\<not> is_terminal (oj_phase ex_running)" by (simp add: ex_phases)
  have x: "oj_execution ex_running \<noteq> None" by (simp add: ex_running_code)
  from interruption_classified[OF ex_reachable(2) t, of "JtInterrupted ''power loss''" "''power loss''"] x
  show ?thesis by (simp add: Let_def)
qed

lemma completion_is_verified_witness:
  "\<exists>v. oj_verified_boundary ex_done = Some v \<and> vmb_final_step_id v = Some 2"
proof -
  have "oj_execution ex_done = Some ex_binding" by (simp add: ex_done_code)
  with completion_is_verified[OF ex_reachable(3) ex_phases(3)] show ?thesis
    by (auto simp: ex_binding_def)
qed

lemma built_binding_starts_execution_witness:
  "oj_phase (fst (apply_transition ex_fp (JtExecutionStarted ex_binding) ex_approved)) = JpExecuting"
proof -
  have "build_execution_start_binding ex_fp ex_approved ex_hex ex_hex ex_hex [1, 2] = Inr ex_binding"
    using ex_hex_sha
    by (simp add: build_execution_start_binding_def ex_approved_code ex_approval_def ex_binding_def
        ex_fp_def Let_def steps_valid_def expected_execution_id_def)
  from built_binding_starts_execution[OF this] show ?thesis by auto
qed

lemma terminal_is_final_witness:
  "run ex_fp [JtHostLockAcquired, JtAbort ''late''] ex_done = ex_done"
proof -
  have "is_terminal (oj_phase ex_done)" by (simp add: ex_phases)
  from terminal_is_final[OF this] show ?thesis by blast
qed

section \<open>The guard plan\<close>

lemma sorted_distinct_remdups_adj: "sorted xs \<Longrightarrow> distinct (remdups_adj xs)"
  by (induction xs rule: remdups_adj.induct) (auto simp: order_le_less)

lemma resource_keys_normal: "sorted (resource_keys m)" "distinct (resource_keys m)"
  by (simp_all add: resource_keys_def sorted_distinct_remdups_adj)

lemma resource_keys_set:
  "set (resource_keys m) =
     (\<lambda>d. ''device:'' @ di_path d) ` set (tim_devices m)
     \<union> (\<lambda>q. ''partition:'' @ pgi_partition q) ` set (tim_partitions m)
     \<union> (\<lambda>i. ''lvm:'' @ lvm_kind_debug (lid_kind i) @ '':'' @ lid_name i) ` set (tim_lvm m)
     \<union> (\<lambda>f. ''filesystem:'' @ fid_device f) ` set_option (tim_filesystem m)
     \<union> (\<lambda>mt. ''mount:'' @ mid_target mt) ` set (tim_mounts m)"
  by (cases "tim_filesystem m") (simp_all add: resource_keys_def image_Un Un_assoc)

lemma build_guard_Inr:
  assumes "build_execution_guard_plan fp p m = Inr g"
  shows "p \<noteq> []" "\<not> has_control p" "tim_manifest_digest m \<noteq> []"
    "fp (GiGuard 1 p (tim_target m) (tim_manifest_digest m) (resource_keys m)) = Inr (egp_guard_id g)"
    "egp_baseline_manifest_digest g = tim_manifest_digest m" "egp_target g = tim_target m"
    "egp_plan_id g = p"
    "egp_journal_path g = JOURNAL_DIRECTORY @ ''/'' @ egp_guard_id g @ ''.json''"
    "olp_scope (egp_lock g) = LsHostExclusive" "\<not> olp_blocking (egp_lock g)"
    "olp_resource_keys (egp_lock g) = resource_keys m" "egp_gates g = guard_gates"
    "egp_status g = GpsFutureExecutorGatesRequired \<longleftrightarrow> tim_route_status m = LrsSupportedProfile"
    "egp_blockers g = [] \<longleftrightarrow> tim_route_status m = LrsSupportedProfile"
proof -
  from assms have ok: "p \<noteq> []" "\<not> has_control p" "tim_manifest_digest m \<noteq> []"
    by (auto simp: build_execution_guard_plan_def split: if_splits)
  obtain i where i: "fp (GiGuard 1 p (tim_target m) (tim_manifest_digest m) (resource_keys m)) = Inr i"
    using assms ok by (cases "fp (GiGuard 1 p (tim_target m) (tim_manifest_digest m) (resource_keys m))")
      (simp_all add: build_execution_guard_plan_def Let_def)
  note g = assms[unfolded build_execution_guard_plan_def Let_def]
  show "p \<noteq> []" "\<not> has_control p" "tim_manifest_digest m \<noteq> []" by (fact ok)+
  show "fp (GiGuard 1 p (tim_target m) (tim_manifest_digest m) (resource_keys m)) = Inr (egp_guard_id g)"
    "egp_baseline_manifest_digest g = tim_manifest_digest m" "egp_target g = tim_target m"
    "egp_plan_id g = p"
    "egp_journal_path g = JOURNAL_DIRECTORY @ ''/'' @ egp_guard_id g @ ''.json''"
    "olp_scope (egp_lock g) = LsHostExclusive" "\<not> olp_blocking (egp_lock g)"
    "olp_resource_keys (egp_lock g) = resource_keys m" "egp_gates g = guard_gates"
    "egp_status g = GpsFutureExecutorGatesRequired \<longleftrightarrow> tim_route_status m = LrsSupportedProfile"
    "egp_blockers g = [] \<longleftrightarrow> tim_route_status m = LrsSupportedProfile"
    using g ok i by (auto split: if_splits)
qed

text \<open>A guard plan is built exactly for a printable plan identifier and a digested manifest. Its
  lock covers each resource of the manifest once, in byte order, it never blocks and is exclusive
  for the host; its journal path is the journal directory with the guard identifier; it is open to
  execution exactly when the route is in the supported profile, and then it lists the eight gates
  in order, the lock first and the verification after every mutation last.\<close>

theorem guard_plan_spec:
  "case build_execution_guard_plan fp p m of
     Inl EgeInvalidPlanId \<Rightarrow> p = [] \<or> has_control p
   | Inl EgeMissingManifestDigest \<Rightarrow> tim_manifest_digest m = []
   | Inl (EgeSerialization e) \<Rightarrow>
       fp (GiGuard 1 p (tim_target m) (tim_manifest_digest m) (resource_keys m)) = Inl e
   | Inr g \<Rightarrow>
       p \<noteq> [] \<and> \<not> has_control p \<and> tim_manifest_digest m \<noteq> []
       \<and> fp (GiGuard 1 p (tim_target m) (tim_manifest_digest m) (resource_keys m)) = Inr (egp_guard_id g)
       \<and> egp_baseline_manifest_digest g = tim_manifest_digest m
       \<and> egp_journal_path g = JOURNAL_DIRECTORY @ ''/'' @ egp_guard_id g @ ''.json''
       \<and> olp_scope (egp_lock g) = LsHostExclusive \<and> \<not> olp_blocking (egp_lock g)
       \<and> sorted (olp_resource_keys (egp_lock g)) \<and> distinct (olp_resource_keys (egp_lock g))
       \<and> set (olp_resource_keys (egp_lock g)) =
            (\<lambda>d. ''device:'' @ di_path d) ` set (tim_devices m)
            \<union> (\<lambda>q. ''partition:'' @ pgi_partition q) ` set (tim_partitions m)
            \<union> (\<lambda>i. ''lvm:'' @ lvm_kind_debug (lid_kind i) @ '':'' @ lid_name i) ` set (tim_lvm m)
            \<union> (\<lambda>f. ''filesystem:'' @ fid_device f) ` set_option (tim_filesystem m)
            \<union> (\<lambda>mt. ''mount:'' @ mid_target mt) ` set (tim_mounts m)
       \<and> (egp_status g = GpsFutureExecutorGatesRequired \<longleftrightarrow> tim_route_status m = LrsSupportedProfile)
       \<and> (egp_blockers g = [] \<longleftrightarrow> tim_route_status m = LrsSupportedProfile)
       \<and> map gg_kind (egp_gates g) =
           [GgAcquireHostLock, GgCaptureFreshSnapshot, GgRevalidateTargetIdentity,
            GgVerifyFilesystemDecision, GgVerifyMetadataBackups, GgRecordExactPlanApproval,
            GgCreateDurableJournal, GgVerifyAfterEveryMutationBoundary]"
proof (cases "build_execution_guard_plan fp p m")
  case (Inl e)
  then show ?thesis
    by (auto simp: build_execution_guard_plan_def Let_def split: if_splits sum.splits)
next
  case (Inr g)
  have "map gg_kind guard_gates =
           [GgAcquireHostLock, GgCaptureFreshSnapshot, GgRevalidateTargetIdentity,
            GgVerifyFilesystemDecision, GgVerifyMetadataBackups, GgRecordExactPlanApproval,
            GgCreateDurableJournal, GgVerifyAfterEveryMutationBoundary]"
    by (simp add: guard_gates_def gate_def)
  then show ?thesis
    unfolding Inr sum.case
    by (simp only: build_guard_Inr[OF Inr] resource_keys_normal resource_keys_set simp_thms)
qed

end
