(* ===== verification/HostFiles.thy ===== *)
theory HostFiles
  imports Prelude
begin

text \<open>
  The file system calls of \<open>std::fs\<close> and \<open>std::os::unix::fs\<close> that the journal stores make, on an
  explicit host: names, inodes, and, for every name, the values its directory entry may have
  on the disk after a power loss. A new value is possible from the call that makes it on, an
  old one until the directory is synced; the bytes of a file are certain only once the file
  is synced. Every call may fail (\<open>e_fault\<close>, indexed by the number of the call), a failing
  write after any number of bytes. \<open>w_history\<close> is the list of the hosts passed through: a crash
  leaves one of them, so that a property of all of them is a property of every crash.
\<close>

named_theorems triple_rules \<open>Hoare rules of the calls and of their composition\<close>
named_theorems act_Inr \<open>when a composed action succeeds\<close>

section \<open>The host\<close>

datatype path_component = RootDir | CurDir | ParentDir | Normal string

type_synonym path = "path_component list"

datatype file_kind = FkRegular | FkDirectory | FkSymlink | FkOther

datatype io_kind = EkNotFound | EkAlreadyExists | EkOther

record inode =
  in_kind :: file_kind
  in_uid :: u32
  in_mode :: u32
  in_nlink :: nat
  in_data :: string
  in_synced :: bool

record host =
  h_names :: "path \<Rightarrow> nat option"
  h_disk :: "path \<Rightarrow> nat option list"
  h_inodes :: "nat \<Rightarrow> inode"
  h_next :: nat

record io_env =
  e_euid :: u32
  e_umask :: u32
  e_pid :: u32
  e_fault :: "nat \<Rightarrow> (io_kind \<times> nat) option"

record world =
  w_host :: host
  w_calls :: nat
  w_history :: "host list"
  w_temp_sequence :: u64

text \<open>What a crash may leave of the file at a path.\<close>

datatype crash_file = Absent | Torn | Intact string

definition entries :: "host \<Rightarrow> path \<Rightarrow> nat option list" where
  "entries h p = h_names h p # h_disk h p"

definition survivor :: "host \<Rightarrow> nat option \<Rightarrow> crash_file" where
  "survivor h e = (case e of None \<Rightarrow> Absent
     | Some i \<Rightarrow> if in_synced (h_inodes h i) then Intact (in_data (h_inodes h i)) else Torn)"

definition survivors :: "host \<Rightarrow> path \<Rightarrow> crash_file list" where
  "survivors h p = map (survivor h) (entries h p)"

text \<open>The entry of a directory is certain: it is on the disk as it is in memory.\<close>

definition settled :: "host \<Rightarrow> path \<Rightarrow> bool" where
  "settled h d = (h_names h d \<noteq> None \<and> (\<forall>e \<in> set (h_disk h d). e = h_names h d))"

section \<open>Actions\<close>

text \<open>A state transformer that may fail, and the one on the host of the journals.\<close>

type_synonym ('s, 'e, 'a) state_action = "'s \<Rightarrow> ('e, 'a) result \<times> 's"

type_synonym ('e, 'a) action = "(world, 'e, 'a) state_action"

definition act_lift :: "('e, 'a) result \<Rightarrow> ('s, 'e, 'a) state_action" where
  "act_lift r w = (r, w)"

definition act_bind :: "('s, 'e, 'a) state_action \<Rightarrow> ('a \<Rightarrow> ('s, 'e, 'b) state_action) \<Rightarrow> ('s, 'e, 'b) state_action" where
  "act_bind m f w = (case m w of (Inl e, w') \<Rightarrow> (Inl e, w') | (Inr x, w') \<Rightarrow> f x w')"

definition act_then :: "('s, 'e, 'a) state_action \<Rightarrow> ('s, 'e, 'b) state_action \<Rightarrow> ('s, 'e, 'b) state_action" where
  "act_then m k = act_bind m (\<lambda>_. k)"

definition act_map_err :: "('e \<Rightarrow> 'f) \<Rightarrow> ('s, 'e, 'a) state_action \<Rightarrow> ('s, 'f, 'a) state_action" where
  "act_map_err g m w = (case m w of (r, w') \<Rightarrow> (map_err g r, w'))"

text \<open>\<open>match call { Ok(x) => f(x), Err(e) => k(e) }\<close>\<close>

definition act_match ::
  "('s, 'e, 'a) state_action \<Rightarrow> ('a \<Rightarrow> ('s, 'f, 'b) state_action) \<Rightarrow> ('e \<Rightarrow> ('s, 'f, 'b) state_action) \<Rightarrow> ('s, 'f, 'b) state_action" where
  "act_match m f k w = (case m w of (Inl e, w') \<Rightarrow> k e w' | (Inr x, w') \<Rightarrow> f x w')"

text \<open>\<open>if result.is_err() { let _ = cleanup; } result\<close>\<close>

definition act_cleanup :: "('s, 'e, 'a) state_action \<Rightarrow> ('s, 'f, 'b) state_action \<Rightarrow> ('s, 'e, 'a) state_action" where
  "act_cleanup m c w = (case m w of (Inl e, w') \<Rightarrow> (Inl e, snd (c w')) | (Inr x, w') \<Rightarrow> (Inr x, w'))"

lemma act_lift_Inr [act_Inr]: "act_lift r s = (Inr x, s') \<longleftrightarrow> r = Inr x \<and> s' = s"
  by (auto simp: act_lift_def)

lemma act_bind_Inr [act_Inr]:
  "act_bind m f s = (Inr x, s') \<longleftrightarrow> (\<exists>y s1. m s = (Inr y, s1) \<and> f y s1 = (Inr x, s'))"
  by (auto simp: act_bind_def split: prod.splits sum.splits)

lemma act_then_Inr [act_Inr]:
  "act_then m k s = (Inr x, s') \<longleftrightarrow> (\<exists>y s1. m s = (Inr y, s1) \<and> k s1 = (Inr x, s'))"
  by (simp add: act_then_def act_bind_Inr)

lemma act_map_err_Inr [act_Inr]: "act_map_err g m s = (Inr x, s') \<longleftrightarrow> m s = (Inr x, s')"
  by (cases "m s"; cases "fst (m s)") (auto simp: act_map_err_def map_err_def)

text \<open>One system call: \<open>f\<close> gets the fault chosen for it and the host.\<close>

definition syscall ::
  "io_env \<Rightarrow> ((io_kind \<times> nat) option \<Rightarrow> host \<Rightarrow> (io_kind, 'a) result \<times> host)
   \<Rightarrow> (io_kind, 'a) action" where
  "syscall env f w =
     (case f (e_fault env (w_calls w)) (w_host w) of
        (r, h) \<Rightarrow> (r, w\<lparr>w_host := h, w_calls := Suc (w_calls w),
                        w_history := w_history w @ [h]\<rparr>))"

section \<open>The calls\<close>

definition symlink_metadata :: "io_env \<Rightarrow> path \<Rightarrow> (io_kind, inode) action" where
  "symlink_metadata env p = syscall env (\<lambda>fault h.
     case fault of Some (k, _) \<Rightarrow> (Inl k, h)
     | None \<Rightarrow> (case h_names h p of None \<Rightarrow> (Inl EkNotFound, h)
                | Some i \<Rightarrow> (Inr (h_inodes h i), h)))"

text \<open>\<open>path.exists()\<close> follows symbolic links; \<open>resolves\<close> tells whether the one at a path leads anywhere.\<close>

definition path_exists :: "(path \<Rightarrow> bool) \<Rightarrow> io_env \<Rightarrow> path \<Rightarrow> ('e, bool) action" where
  "path_exists resolves env p =
     act_match (symlink_metadata env p)
       (\<lambda>m. act_lift (Inr (in_kind m \<noteq> FkSymlink \<or> resolves p))) (\<lambda>_. act_lift (Inr False))"

definition set_entry :: "path \<Rightarrow> nat option \<Rightarrow> host \<Rightarrow> host" where
  "set_entry p e h = h\<lparr>h_names := (h_names h)(p := e), h_disk := (h_disk h)(p := h_disk h p @ [e])\<rparr>"

definition set_inode :: "nat \<Rightarrow> inode \<Rightarrow> host \<Rightarrow> host" where
  "set_inode i n h = h\<lparr>h_inodes := (h_inodes h)(i := n)\<rparr>"

definition add_links :: "nat \<Rightarrow> int \<Rightarrow> host \<Rightarrow> host" where
  "add_links i k h =
     set_inode i ((h_inodes h i)\<lparr>in_nlink := nat (int (in_nlink (h_inodes h i)) + k)\<rparr>) h"

definition new_inode :: "io_env \<Rightarrow> file_kind \<Rightarrow> u32 \<Rightarrow> inode" where
  "new_inode env kind mode =
     \<lparr>in_kind = kind, in_uid = e_euid env, in_mode = and mode (not (e_umask env)),
      in_nlink = 1, in_data = [], in_synced = (kind \<noteq> FkRegular)\<rparr>"

definition create_entry :: "io_env \<Rightarrow> file_kind \<Rightarrow> u32 \<Rightarrow> path \<Rightarrow> (io_kind, nat) action" where
  "create_entry env kind mode p = syscall env (\<lambda>fault h.
     case fault of Some (k, _) \<Rightarrow> (Inl k, h)
     | None \<Rightarrow> (if h_names h p \<noteq> None then (Inl EkAlreadyExists, h)
                else if h_names h (butlast p) = None then (Inl EkNotFound, h)
                else (Inr (h_next h),
                      set_entry p (Some (h_next h)) (set_inode (h_next h) (new_inode env kind mode)
                        (h\<lparr>h_next := Suc (h_next h)\<rparr>)))))"

text \<open>\<open>OpenOptions::new().write(true).create_new(true).mode(0o600)\<close>; \<open>DirBuilder\<close> with mode \<open>0o700\<close>.\<close>

definition open_new :: "io_env \<Rightarrow> path \<Rightarrow> (io_kind, nat) action" where
  "open_new env = create_entry env FkRegular 0x180"

definition make_dir :: "io_env \<Rightarrow> path \<Rightarrow> (io_kind, nat) action" where
  "make_dir env = create_entry env FkDirectory 0x1C0"

definition write_all :: "io_env \<Rightarrow> nat \<Rightarrow> string \<Rightarrow> (io_kind, unit) action" where
  "write_all env i bytes = syscall env (\<lambda>fault h.
     let n = h_inodes h i;
         put = (\<lambda>bs. set_inode i (n\<lparr>in_data := in_data n @ bs, in_synced := False\<rparr>) h)
     in case fault of Some (k, m) \<Rightarrow> (Inl k, put (take m bytes)) | None \<Rightarrow> (Inr (), put bytes))"

definition sync_file :: "io_env \<Rightarrow> nat \<Rightarrow> (io_kind, unit) action" where
  "sync_file env i = syscall env (\<lambda>fault h.
     case fault of Some (k, _) \<Rightarrow> (Inl k, h)
     | None \<Rightarrow> (Inr (), set_inode i ((h_inodes h i)\<lparr>in_synced := True\<rparr>) h))"

definition hard_link :: "io_env \<Rightarrow> path \<Rightarrow> path \<Rightarrow> (io_kind, unit) action" where
  "hard_link env a b = syscall env (\<lambda>fault h.
     case fault of Some (k, _) \<Rightarrow> (Inl k, h)
     | None \<Rightarrow> (case h_names h a of None \<Rightarrow> (Inl EkNotFound, h)
                | Some i \<Rightarrow> (if h_names h b \<noteq> None then (Inl EkAlreadyExists, h)
                             else (Inr (), set_entry b (Some i) (add_links i 1 h)))))"

definition remove_file :: "io_env \<Rightarrow> path \<Rightarrow> (io_kind, unit) action" where
  "remove_file env p = syscall env (\<lambda>fault h.
     case fault of Some (k, _) \<Rightarrow> (Inl k, h)
     | None \<Rightarrow> (case h_names h p of None \<Rightarrow> (Inl EkNotFound, h)
                | Some i \<Rightarrow> (if in_kind (h_inodes h i) = FkDirectory then (Inl EkOther, h)
                             else (Inr (), set_entry p None (add_links i (-1) h)))))"

text \<open>\<open>fs::rename\<close> replaces the target in one step; between two links of one inode it does nothing.\<close>

definition rename_file :: "io_env \<Rightarrow> path \<Rightarrow> path \<Rightarrow> (io_kind, unit) action" where
  "rename_file env a b = syscall env (\<lambda>fault h.
     case fault of Some (k, _) \<Rightarrow> (Inl k, h)
     | None \<Rightarrow> (case h_names h a of None \<Rightarrow> (Inl EkNotFound, h)
                | Some i \<Rightarrow> (if h_names h b = Some i then (Inr (), h)
                             else (Inr (), set_entry a None (set_entry b (Some i)
                               (case h_names h b of None \<Rightarrow> h | Some j \<Rightarrow> add_links j (-1) h))))))"

text \<open>\<open>File::open(directory)\<close> and \<open>sync_all\<close> on it: the entries of the directory reach the disk.\<close>

definition open_dir :: "io_env \<Rightarrow> path \<Rightarrow> (io_kind, unit) action" where
  "open_dir env d = syscall env (\<lambda>fault h.
     case fault of Some (k, _) \<Rightarrow> (Inl k, h)
     | None \<Rightarrow> (if h_names h d = None then (Inl EkNotFound, h) else (Inr (), h)))"

definition in_directory :: "path \<Rightarrow> path \<Rightarrow> bool" where
  "in_directory d p = (p \<noteq> [] \<and> butlast p = d)"

definition sync_entries :: "path \<Rightarrow> host \<Rightarrow> host" where
  "sync_entries d h = h\<lparr>h_disk := (\<lambda>p. if in_directory d p then [h_names h p] else h_disk h p)\<rparr>"

definition fsync_dir :: "io_env \<Rightarrow> path \<Rightarrow> (io_kind, unit) action" where
  "fsync_dir env d = syscall env (\<lambda>fault h.
     case fault of Some (k, _) \<Rightarrow> (Inl k, h) | None \<Rightarrow> (Inr (), sync_entries d h))"

text \<open>Opening without following a symbolic link, and reading at most \<open>limit\<close> bytes.\<close>

definition open_read :: "io_env \<Rightarrow> path \<Rightarrow> (io_kind, nat) action" where
  "open_read env p = syscall env (\<lambda>fault h.
     case fault of Some (k, _) \<Rightarrow> (Inl k, h)
     | None \<Rightarrow> (case h_names h p of None \<Rightarrow> (Inl EkNotFound, h)
                | Some i \<Rightarrow> (if in_kind (h_inodes h i) = FkSymlink then (Inl EkOther, h)
                             else (Inr i, h))))"

definition read_limited :: "io_env \<Rightarrow> nat \<Rightarrow> nat \<Rightarrow> (io_kind, string) action" where
  "read_limited env i limit = syscall env (\<lambda>fault h.
     case fault of Some (k, _) \<Rightarrow> (Inl k, h) | None \<Rightarrow> (Inr (take limit (in_data (h_inodes h i))), h))"

section \<open>A Hoare logic with a crash invariant\<close>

text \<open>
  \<open>triple C P m Q E\<close>: from a host with \<open>P\<close>, every host that \<open>m\<close> passes through satisfies \<open>C\<close>, and
  it ends with \<open>Q\<close> and its value or with \<open>E\<close> and its error. Whatever the faults.
\<close>

definition passed :: "(host \<Rightarrow> bool) \<Rightarrow> world \<Rightarrow> world \<Rightarrow> bool" where
  "passed C w w' \<longleftrightarrow> (\<exists>hs. w_history w' = w_history w @ hs \<and> list_all C hs)"

definition triple ::
  "(host \<Rightarrow> bool) \<Rightarrow> (host \<Rightarrow> bool) \<Rightarrow> ('e, 'a) action \<Rightarrow> ('a \<Rightarrow> host \<Rightarrow> bool)
   \<Rightarrow> ('e \<Rightarrow> host \<Rightarrow> bool) \<Rightarrow> bool" where
  "triple C P m Q E \<longleftrightarrow>
     (\<forall>w::world. P (w_host w) \<longrightarrow>
        passed C w (snd (m w))
        \<and> (case fst (m w) of Inl e \<Rightarrow> E e (w_host (snd (m w)))
           | Inr x \<Rightarrow> Q x (w_host (snd (m w)))))"

lemma passed_refl [simp]: "passed C w w"
  by (simp add: passed_def)

lemma passed_trans: "passed C w w1 \<Longrightarrow> passed C w1 w2 \<Longrightarrow> passed C w w2"
  by (fastforce simp: passed_def)

lemma passed_mono: "passed C w w' \<Longrightarrow> (\<And>h. C h \<Longrightarrow> D h) \<Longrightarrow> passed D w w'"
  by (fastforce simp: passed_def list_all_iff)

lemma passed_conj: "passed C w w' \<Longrightarrow> passed D w w' \<Longrightarrow> passed (\<lambda>h. C h \<and> D h) w w'"
  by (auto simp: passed_def list_all_iff)

lemma passed_all: "passed C w w' \<Longrightarrow> list_all C (w_history w) \<Longrightarrow> list_all C (w_history w')"
  by (auto simp: passed_def)

lemma triple_lift [triple_rules]:
  assumes "\<And>h. P h \<Longrightarrow> case r of Inl e \<Rightarrow> E e h | Inr x \<Rightarrow> Q x h"
  shows "triple C P (act_lift r) Q E"
  using assms by (auto simp: triple_def act_lift_def)

lemma triple_match [triple_rules]:
  assumes "triple C P m R S" and "\<And>x. triple C (R x) (f x) Q E" and "\<And>e. triple C (S e) (k e) Q E"
  shows "triple C P (act_match m f k) Q E"
  unfolding triple_def
proof (intro allI impI)
  fix w :: world assume "P (w_host w)"
  with assms(1) have m: "passed C w (snd (m w))"
    "case fst (m w) of Inl e \<Rightarrow> S e (w_host (snd (m w))) | Inr x \<Rightarrow> R x (w_host (snd (m w)))"
    by (auto simp: triple_def)
  obtain r w' where mw: "m w = (r, w')" by (cases "m w")
  show "passed C w (snd (act_match m f k w))
    \<and> (case fst (act_match m f k w) of Inl e \<Rightarrow> E e (w_host (snd (act_match m f k w)))
       | Inr x \<Rightarrow> Q x (w_host (snd (act_match m f k w))))"
  proof (cases r)
    case (Inl e)
    then have v: "act_match m f k w = k e w'" by (simp add: act_match_def mw)
    from Inl m mw assms(3)[of e] show ?thesis unfolding v by (auto simp: triple_def intro: passed_trans)
  next
    case (Inr x)
    then have v: "act_match m f k w = f x w'" by (simp add: act_match_def mw)
    from Inr m mw assms(2)[of x] show ?thesis unfolding v by (auto simp: triple_def intro: passed_trans)
  qed
qed

lemma act_bind_match: "act_bind m f = act_match m f (\<lambda>e. act_lift (Inl e))"
  by (simp add: fun_eq_iff act_bind_def act_match_def act_lift_def split: prod.split sum.split)

lemma triple_bind [triple_rules]:
  assumes "triple C P m R E" and "\<And>x. triple C (R x) (f x) Q E"
  shows "triple C P (act_bind m f) Q E"
  unfolding act_bind_match
  by (rule triple_match[where S = E and R = R]) (simp_all add: assms triple_lift)

lemma triple_then [triple_rules]:
  "triple C P m (\<lambda>_. R) E \<Longrightarrow> triple C R k Q E \<Longrightarrow> triple C P (act_then m k) Q E"
  unfolding act_then_def by (rule triple_bind)

lemma act_map_err_match: "act_map_err g m = act_match m (\<lambda>x. act_lift (Inr x)) (\<lambda>e. act_lift (Inl (g e)))"
  by (simp add: fun_eq_iff act_map_err_def act_match_def act_lift_def split: prod.split sum.split)

lemma triple_map_err [triple_rules]:
  "triple C P m Q (\<lambda>e. E (g e)) \<Longrightarrow> triple C P (act_map_err g m) Q E"
  unfolding act_map_err_match
  by (rule triple_match[where S = "\<lambda>e. E (g e)" and R = Q]) (simp_all add: triple_lift)

lemma triple_cleanup [triple_rules]:
  assumes "triple C P m Q R" and "\<And>e. triple C (R e) c (\<lambda>_. E e) (\<lambda>_. E e)"
  shows "triple C P (act_cleanup m c) Q E"
  unfolding triple_def
proof (intro allI impI)
  fix w :: world assume "P (w_host w)"
  with assms(1) have m: "passed C w (snd (m w))"
    "case fst (m w) of Inl e \<Rightarrow> R e (w_host (snd (m w))) | Inr x \<Rightarrow> Q x (w_host (snd (m w)))"
    by (auto simp: triple_def)
  obtain r w' where mw: "m w = (r, w')" by (cases "m w")
  show "passed C w (snd (act_cleanup m c w))
    \<and> (case fst (act_cleanup m c w) of Inl e \<Rightarrow> E e (w_host (snd (act_cleanup m c w)))
       | Inr x \<Rightarrow> Q x (w_host (snd (act_cleanup m c w))))"
  proof (cases r)
    case (Inl e)
    then have v: "act_cleanup m c w = (Inl e, snd (c w'))" by (simp add: act_cleanup_def mw)
    from Inl m mw assms(2)[of e] show ?thesis unfolding v
      by (cases "fst (c w')") (auto simp: triple_def intro: passed_trans)
  next
    case (Inr x)
    then have v: "act_cleanup m c w = (Inr x, w')" by (simp add: act_cleanup_def mw)
    from Inr m mw show ?thesis unfolding v by simp
  qed
qed

lemma triple_syscall:
  assumes "\<And>fault h r h'. P h \<Longrightarrow> f fault h = (r, h') \<Longrightarrow>
             C h' \<and> (case r of Inl e \<Rightarrow> E e h' | Inr x \<Rightarrow> Q x h')"
  shows "triple C P (syscall env f) Q E"
  using assms by (auto simp: triple_def syscall_def passed_def split: prod.split)

lemma triple_weaken:
  assumes "triple C P m Q E" and "\<And>h. P' h \<Longrightarrow> P h" and "\<And>x h. Q x h \<Longrightarrow> Q' x h"
    and "\<And>e h. E e h \<Longrightarrow> E' e h"
  shows "triple C P' m Q' E'"
  using assms by (fastforce simp: triple_def split: sum.splits)

lemma triple_passed: "triple C P m Q E \<Longrightarrow> (\<And>h. C h \<Longrightarrow> D h) \<Longrightarrow> triple D P m Q E"
  by (auto simp: triple_def intro: passed_mono)

lemma triple_conj:
  assumes "triple C P m Q E" and "triple D P' m Q' E'"
  shows "triple (\<lambda>h. C h \<and> D h) (\<lambda>h. P h \<and> P' h) m (\<lambda>x h. Q x h \<and> Q' x h) (\<lambda>e h. E e h \<and> E' e h)"
  using assms by (auto simp: triple_def passed_conj split: sum.splits)

lemma triple_run:
  assumes "triple C P m Q E" and "P (w_host w)" and "m w = (r, w')"
  shows "passed C w w'" and "case r of Inl e \<Rightarrow> E e (w_host w') | Inr x \<Rightarrow> Q x (w_host w')"
proof -
  from assms(1,2) have "passed C w (snd (m w))
    \<and> (case fst (m w) of Inl e \<Rightarrow> E e (w_host (snd (m w))) | Inr x \<Rightarrow> Q x (w_host (snd (m w))))"
    by (simp add: triple_def)
  then show "passed C w w'" and "case r of Inl e \<Rightarrow> E e (w_host w') | Inr x \<Rightarrow> Q x (w_host w')"
    by (cases r; simp add: assms(3))+
qed

lemma triple_use:
  assumes "triple C P m Q E" and "P (w_host w)" and "list_all C (w_history w)" and "m w = (r, w')"
  shows "list_all C (w_history w')" and "case r of Inl e \<Rightarrow> E e (w_host w') | Inr x \<Rightarrow> Q x (w_host w')"
  by (rule passed_all[OF triple_run(1)[OF assms(1,2,4)] assms(3)], rule triple_run(2)[OF assms(1,2,4)])

text \<open>An action that only reads.\<close>

definition reads :: "('e, 'a) action \<Rightarrow> bool" where
  "reads m \<longleftrightarrow> (\<forall>h. triple ((=) h) ((=) h) m (\<lambda>_. (=) h) (\<lambda>_. (=) h))"

lemma reads_any:
  assumes "reads m" and "\<And>h. P h \<Longrightarrow> C h"
  shows "triple C P m (\<lambda>_. P) (\<lambda>_. P)"
  unfolding triple_def
proof (intro allI impI)
  fix w :: world assume "P (w_host w)"
  moreover have t: "triple ((=) (w_host w)) ((=) (w_host w)) m (\<lambda>_. (=) (w_host w)) (\<lambda>_. (=) (w_host w))"
    using assms(1) by (simp add: reads_def)
  note triple_run[OF t refl prod.collapse[symmetric]]
  ultimately show "passed C w (snd (m w))
      \<and> (case fst (m w) of Inl e \<Rightarrow> P (w_host (snd (m w))) | Inr x \<Rightarrow> P (w_host (snd (m w))))"
    using assms(2)[of "w_host w"] by (auto elim: passed_mono split: sum.splits)
qed

lemma reads_bind: "reads m \<Longrightarrow> (\<And>x. reads (f x)) \<Longrightarrow> reads (act_bind m f)"
  by (auto simp: reads_def intro: triple_bind)

lemma reads_then: "reads m \<Longrightarrow> reads k \<Longrightarrow> reads (act_then m k)"
  by (simp add: act_then_def reads_bind)

lemma reads_lift: "reads (act_lift r)"
  by (auto simp: reads_def intro!: triple_lift split: sum.split)

lemma reads_map_err: "reads m \<Longrightarrow> reads (act_map_err g m)"
  by (simp add: reads_def triple_map_err)

lemma reads_match: "reads m \<Longrightarrow> (\<And>x. reads (f x)) \<Longrightarrow> (\<And>e. reads (k e)) \<Longrightarrow> reads (act_match m f k)"
  by (auto simp: reads_def intro: triple_match)

lemma open_reads: "reads (open_read env p)" "reads (read_limited env n limit)"
  unfolding reads_def open_read_def read_limited_def
  by (intro allI triple_syscall; auto split: option.splits if_splits)+

end
