(* ===== verification/JournalValidation.thy ===== *)
theory JournalValidation
  imports ExecutionGuard HostFiles
begin

text \<open>
  What a journal record read back from disk must satisfy
  (\<open>crates/executor/src/journal_store.rs\<close>, from \<open>validate_journal\<close> to \<open>is_lower_hex_digest\<close>).
  A body of guards with early returns is the list of its checks, in order (\<open>first_error\<close>).
\<close>

datatype journal_store_error =
  JseInvalidJournalId
| JseUnsafeDirectory path
| JseNotRegularFile path
| JseAlreadyExists string
| JseNotFound string
| JseTooLarge
| JseInvalidRecord string
| JseChangedDuringInspection
| JseDecode string
| JseIo path io_kind

definition allowed_transition :: "journal_phase \<Rightarrow> journal_phase \<Rightarrow> bool" where
  "allowed_transition a b =
     ((a, b) \<in> set [(JpPlanned, JpHostLockHeld), (JpHostLockHeld, JpIdentityRevalidated),
        (JpIdentityRevalidated, JpPreconditionsVerified), (JpPreconditionsVerified, JpApproved),
        (JpApproved, JpExecuting), (JpExecuting, JpVerifying), (JpVerifying, JpExecuting),
        (JpVerifying, JpCompleted), (JpPlanned, JpAborted), (JpHostLockHeld, JpAborted),
        (JpIdentityRevalidated, JpAborted), (JpPreconditionsVerified, JpAborted),
        (JpApproved, JpAborted), (JpExecuting, JpRecoveryRequired),
        (JpVerifying, JpRecoveryRequired)])"

definition validate_journal_id :: "string \<Rightarrow> (journal_store_error, unit) result" where
  "validate_journal_id v = (if is_lower_hex_digest v then Inr () else Inl JseInvalidJournalId)"

definition validate_hex_digest :: "string \<Rightarrow> string \<Rightarrow> (journal_store_error, unit) result" where
  "validate_hex_digest v label =
     (if is_lower_hex_digest v then Inr ()
      else Inl (JseInvalidRecord (label @ '' is not a SHA-256 lowercase hexadecimal digest'')))"

text \<open>The loop over the events, with the index and the phase reached so far.\<close>

fun validate_events ::
  "nat \<Rightarrow> journal_phase \<Rightarrow> journal_event list \<Rightarrow> (journal_store_error, journal_phase) result" where
  "validate_events index phase [] = Inr phase"
| "validate_events index phase (ev # evs) =
     (let expected_sequence = of_nat index + 1
      in if jev_sequence ev \<noteq> expected_sequence
         then Inl (JseInvalidRecord (''journal event sequence is not contiguous at ''
                @ show_word expected_sequence))
         else if jev_from ev \<noteq> phase
         then Inl (JseInvalidRecord (''journal event '' @ show_word (jev_sequence ev)
                @ '' does not continue from the previous phase''))
         else if \<not> allowed_transition (jev_from ev) (jev_to ev)
         then Inl (JseInvalidRecord (''journal event '' @ show_word (jev_sequence ev)
                @ '' contains an impossible phase transition''))
         else if jev_code ev = [] \<or> has_control (jev_code ev)
         then Inl (JseInvalidRecord (''journal event '' @ show_word (jev_sequence ev)
                @ '' has an invalid code''))
         else validate_events (Suc index) (jev_to ev) evs)"

definition bool_check ::
  "(string, bool) result \<Rightarrow> string \<Rightarrow> (journal_store_error, unit) result" where
  "bool_check r message =
     (case r of Inl e \<Rightarrow> Inl (JseDecode e) | Inr b \<Rightarrow> require b (JseInvalidRecord message))"

definition preconditions_state :: "nat \<Rightarrow> operation_journal \<Rightarrow> operation_journal" where
  "preconditions_state n j =
     j\<lparr>oj_phase := JpPreconditionsVerified, oj_mutation_may_have_started := False,
       oj_approval := None, oj_execution := None, oj_verified_boundary := None,
       oj_events := take n (oj_events j)\<rparr>"

definition approved_state :: "nat \<Rightarrow> operation_journal \<Rightarrow> operation_journal" where
  "approved_state n j =
     j\<lparr>oj_phase := JpApproved, oj_mutation_may_have_started := False, oj_execution := None,
       oj_verified_boundary := None, oj_events := take n (oj_events j)\<rparr>"

definition approval_event :: "journal_event \<Rightarrow> bool" where
  "approval_event ev = (jev_from ev = JpPreconditionsVerified \<and> jev_to ev = JpApproved)"

definition execution_event :: "journal_event \<Rightarrow> bool" where
  "execution_event ev = (jev_from ev = JpApproved \<and> jev_to ev = JpExecuting)"

definition validate_approval_binding ::
  "guard_digest_fun \<Rightarrow> operation_journal \<Rightarrow> (journal_store_error, unit) result" where
  "validate_approval_binding fp j =
     (case (oj_approval j, position approval_event (oj_events j)) of
        (None, None) \<Rightarrow> Inr ()
      | (None, Some _) \<Rightarrow>
          Inl (JseInvalidRecord ''approved journal is missing the exact approval binding'')
      | (Some _, None) \<Rightarrow>
          Inl (JseInvalidRecord ''journal contains an approval binding without an approval transition'')
      | (Some b, Some approval_index) \<Rightarrow>
          first_error
            [require (eab_schema_version b = 1)
               (JseInvalidRecord (''unsupported exact approval binding schema version ''
                  @ show_word (eab_schema_version b))),
             validate_hex_digest (eab_approval_id b) ''approval ID'',
             validate_hex_digest (eab_plan_id b) ''approval plan ID'',
             validate_hex_digest (eab_evidence_bundle_id b) ''approval evidence bundle ID'',
             validate_hex_digest (eab_target_manifest_digest b) ''approval target manifest digest'',
             validate_hex_digest (eab_locked_session_id b) ''approval locked session ID'',
             validate_hex_digest (eab_preconditions_journal_digest b)
               ''approval preconditions journal digest'',
             require (eab_plan_id b = oj_plan_id j)
               (JseInvalidRecord ''approval binding plan ID does not match the journal''),
             require (eab_target_manifest_digest b = oj_baseline_manifest_digest j)
               (JseInvalidRecord ''approval binding target manifest does not match the journal''),
             bool_check (approval_integrity_matches fp b)
               ''approval binding fingerprint does not match its contents'',
             and_then (map_err JseDecode (fp (GiJournal (preconditions_state approval_index j))))
               (\<lambda>expected_digest. require (eab_preconditions_journal_digest b = expected_digest)
                  (JseInvalidRecord
                    ''approval binding does not match the exact preconditions journal state''))])"

definition validate_execution_binding ::
  "guard_digest_fun \<Rightarrow> operation_journal \<Rightarrow> (journal_store_error, unit) result" where
  "validate_execution_binding fp j =
     (case (oj_execution j, position execution_event (oj_events j)) of
        (None, None) \<Rightarrow> Inr ()
      | (None, Some _) \<Rightarrow>
          Inl (JseInvalidRecord ''executing journal is missing the exact execution binding'')
      | (Some _, None) \<Rightarrow>
          Inl (JseInvalidRecord ''journal contains an execution binding without an execution transition'')
      | (Some b, Some execution_index) \<Rightarrow>
          first_error
            [require (esb_schema_version b = 1)
               (JseInvalidRecord (''unsupported execution binding schema version ''
                  @ show_word (esb_schema_version b))),
             validate_hex_digest (esb_execution_id b) ''execution ID'',
             validate_hex_digest (esb_journal_id b) ''execution journal ID'',
             validate_hex_digest (esb_plan_id b) ''execution plan ID'',
             validate_hex_digest (esb_approval_id b) ''execution approval ID'',
             validate_hex_digest (esb_source_manifest_id b) ''execution source manifest ID'',
             validate_hex_digest (esb_native_manifest_digest b) ''execution native manifest digest'',
             validate_hex_digest (esb_fresh_identity_digest b) ''execution fresh identity digest'',
             validate_hex_digest (esb_approved_journal_digest b) ''execution approved journal digest'',
             require (steps_valid (esb_mutation_step_ids b))
               (JseInvalidRecord ''execution binding mutation step sequence is invalid''),
             require (esb_journal_id b = oj_journal_id j)
               (JseInvalidRecord ''execution binding journal ID does not match the journal''),
             require (esb_plan_id b = oj_plan_id j)
               (JseInvalidRecord ''execution binding plan ID does not match the journal''),
             (case oj_approval j of
                None \<Rightarrow> Inl (JseInvalidRecord ''execution binding exists without an approval binding'')
              | Some a \<Rightarrow> require (esb_approval_id b = eab_approval_id a)
                  (JseInvalidRecord ''execution binding approval ID does not match the journal'')),
             require (esb_fresh_identity_digest b = oj_baseline_manifest_digest j)
               (JseInvalidRecord
                 ''execution binding fresh identity does not match the journal baseline''),
             bool_check (execution_integrity_matches fp b)
               ''execution binding fingerprint does not match its contents'',
             and_then (map_err JseDecode (fp (GiJournal (approved_state execution_index j))))
               (\<lambda>expected_digest. require (esb_approved_journal_digest b = expected_digest)
                  (JseInvalidRecord
                    ''execution binding does not match the exact approved journal state''))])"

definition validate_boundary_final ::
  "operation_journal \<Rightarrow> execution_start_binding \<Rightarrow> verified_mutation_boundary_binding \<Rightarrow> bool
     \<Rightarrow> (journal_store_error, unit) result" where
  "validate_boundary_final j execution b has_terminal_completion =
     (case (vmb_final_step_id b, vmb_final_identity_digest b) of
        (None, None) \<Rightarrow>
          require (\<not> (vmb_schema_version b \<noteq> 1 \<or> has_terminal_completion
               \<or> (oj_phase j = JpCompleted \<and> 1 < length (esb_mutation_step_ids execution))))
            (JseInvalidRecord
              ''completed multi-step execution is missing durable terminal verification'')
      | (Some final_step_id, Some final_identity_digest) \<Rightarrow>
          first_error
            [require (\<not> (vmb_schema_version b \<noteq> 2 \<or> \<not> has_terminal_completion
                 \<or> oj_phase j \<noteq> JpCompleted))
               (JseInvalidRecord ''terminal verification binding exists without terminal completion''),
             validate_hex_digest final_identity_digest ''terminal verification fresh identity digest'',
             require (\<not> (esb_mutation_step_ids execution = []
                 \<or> last (esb_mutation_step_ids execution) \<noteq> final_step_id
                 \<or> vmb_next_step_id b \<noteq> final_step_id))
               (JseInvalidRecord
                 ''terminal verification step does not match the final durable mutation step'')]
      | _ \<Rightarrow> Inl (JseInvalidRecord ''terminal verification binding is incomplete''))"

definition validate_verified_boundary_binding ::
  "guard_digest_fun \<Rightarrow> operation_journal \<Rightarrow> (journal_store_error, unit) result" where
  "validate_verified_boundary_binding fp j =
     (let has_continuation =
            list_ex (\<lambda>ev. jev_code ev = ''verification-passed-continue'') (oj_events j);
          has_terminal_completion =
            list_ex (\<lambda>ev. jev_code ev = ''verification-passed-complete'') (oj_events j)
      in case (oj_verified_boundary j, has_continuation) of
        (None, False) \<Rightarrow> Inr ()
      | (None, True) \<Rightarrow>
          Inl (JseInvalidRecord
            ''verification continuation is missing the durable verified boundary binding'')
      | (Some _, False) \<Rightarrow>
          Inl (JseInvalidRecord
            ''verified boundary binding exists without a verification continuation'')
      | (Some b, True) \<Rightarrow>
          first_error
            [require (vmb_schema_version b = 1 \<or> vmb_schema_version b = 2)
               (JseInvalidRecord (''unsupported verified boundary binding schema version ''
                  @ show_word (vmb_schema_version b))),
             validate_hex_digest (vmb_boundary_id b) ''verified boundary ID'',
             validate_hex_digest (vmb_execution_id b) ''verified boundary execution ID'',
             validate_hex_digest (vmb_fresh_identity_digest b)
               ''verified boundary fresh identity digest'',
             require (\<not> (vmb_completed_step_id b = 0 \<or> vmb_next_step_id b = 0
                 \<or> vmb_completed_step_id b = vmb_next_step_id b))
               (JseInvalidRecord ''verified boundary step sequence is invalid''),
             (case oj_execution j of
                None \<Rightarrow> Inl (JseInvalidRecord
                  ''verified boundary exists without the durable execution binding'')
              | Some execution \<Rightarrow>
                  first_error
                    [require (vmb_execution_id b = esb_execution_id execution)
                       (JseInvalidRecord
                         ''verified boundary execution ID does not match the journal''),
                     require (ordered_pair (esb_mutation_step_ids execution)
                         (vmb_completed_step_id b) (vmb_next_step_id b))
                       (JseInvalidRecord
                         ''verified boundary steps do not match the durable execution sequence''),
                     bool_check (boundary_integrity_matches fp b)
                       ''verified boundary fingerprint does not match its contents'',
                     validate_boundary_final j execution b has_terminal_completion]),
             require (mutating (oj_phase j))
               (JseInvalidRecord
                 ''verified boundary exists before the mutation verification boundary'')])"

definition validate_journal ::
  "guard_digest_fun \<Rightarrow> operation_journal \<Rightarrow> (journal_store_error, unit) result" where
  "validate_journal fp j =
     first_error
       [require (oj_schema_version j = 1)
          (JseInvalidRecord ''unsupported journal schema version''),
        validate_journal_id (oj_journal_id j),
        validate_hex_digest (oj_plan_id j) ''plan ID'',
        validate_hex_digest (oj_baseline_manifest_digest j) ''baseline manifest digest'',
        require (\<not> (oj_target j = [] \<or> has_control (oj_target j)))
          (JseInvalidRecord ''journal target is empty or contains control characters''),
        and_then (validate_events 0 JpPlanned (oj_events j))
          (\<lambda>phase. require (phase = oj_phase j)
             (JseInvalidRecord ''journal phase does not match the event chain'')),
        require (oj_mutation_may_have_started j = mutating (oj_phase j))
          (JseInvalidRecord ''mutation boundary flag is inconsistent with the journal phase''),
        validate_approval_binding fp j,
        validate_execution_binding fp j,
        validate_verified_boundary_binding fp j]"

section \<open>When validation accepts\<close>

lemma validate_hex_ok [simp]: "validate_hex_digest v l = Inr u \<longleftrightarrow> is_lower_hex_digest v"
  by (simp add: validate_hex_digest_def)

lemma validate_journal_id_ok [simp]: "validate_journal_id v = Inr u \<longleftrightarrow> is_lower_hex_digest v"
  by (simp add: validate_journal_id_def)

lemma bool_check_ok [simp]: "bool_check r m = Inr u \<longleftrightarrow> r = Inr True"
  by (cases r) (auto simp: bool_check_def)

lemma is_sha256_hex_eq: "is_sha256_hex = is_lower_hex_digest"
proof
  fix s
  have "((is_ascii_digit c \<or> 65 \<le> byte c \<and> byte c \<le> 70 \<or> 97 \<le> byte c \<and> byte c \<le> 102)
      \<and> \<not> (65 \<le> byte c \<and> byte c \<le> 90)) = (is_ascii_digit c \<or> 97 \<le> byte c \<and> byte c \<le> 102)" for c
    by (auto simp: is_ascii_digit_def)
  then show "is_sha256_hex s = is_lower_hex_digest s"
    by (simp add: is_sha256_hex_def is_lower_hex_digest_def)
qed

definition approval_valid :: "guard_digest_fun \<Rightarrow> nat \<Rightarrow> operation_journal \<Rightarrow> exact_approval_binding \<Rightarrow> bool" where
  "approval_valid fp i j b \<longleftrightarrow>
     eab_schema_version b = 1
     \<and> is_lower_hex_digest (eab_approval_id b) \<and> is_lower_hex_digest (eab_plan_id b)
     \<and> is_lower_hex_digest (eab_evidence_bundle_id b)
     \<and> is_lower_hex_digest (eab_target_manifest_digest b)
     \<and> is_lower_hex_digest (eab_locked_session_id b)
     \<and> is_lower_hex_digest (eab_preconditions_journal_digest b)
     \<and> approval_fits fp (preconditions_state i j) b"

definition execution_valid :: "guard_digest_fun \<Rightarrow> nat \<Rightarrow> operation_journal \<Rightarrow> execution_start_binding \<Rightarrow> bool" where
  "execution_valid fp i j b \<longleftrightarrow>
     is_lower_hex_digest (esb_execution_id b) \<and> is_lower_hex_digest (esb_journal_id b)
     \<and> is_lower_hex_digest (esb_plan_id b) \<and> is_lower_hex_digest (esb_approval_id b)
     \<and> is_lower_hex_digest (esb_source_manifest_id b)
     \<and> is_lower_hex_digest (esb_native_manifest_digest b)
     \<and> is_lower_hex_digest (esb_fresh_identity_digest b)
     \<and> is_lower_hex_digest (esb_approved_journal_digest b)
     \<and> steps_valid (esb_mutation_step_ids b)
     \<and> execution_fits fp (approved_state i j) b"

definition boundary_valid :: "guard_digest_fun \<Rightarrow> bool \<Rightarrow> operation_journal
    \<Rightarrow> verified_mutation_boundary_binding \<Rightarrow> bool" where
  "boundary_valid fp complete j v \<longleftrightarrow>
     mutating (oj_phase j)
     \<and> is_lower_hex_digest (vmb_boundary_id v) \<and> is_lower_hex_digest (vmb_execution_id v)
     \<and> (\<exists>x. oj_execution j = Some x \<and> boundary_fits fp x v
         \<and> (if complete
            then vmb_schema_version v = 2 \<and> oj_phase j = JpCompleted
              \<and> (\<exists>d. vmb_final_identity_digest v = Some d \<and> is_lower_hex_digest d)
              \<and> vmb_final_step_id v = Some (last (esb_mutation_step_ids x))
              \<and> vmb_next_step_id v = last (esb_mutation_step_ids x)
              \<and> esb_mutation_step_ids x \<noteq> []
            else vmb_schema_version v = 1 \<and> vmb_final_step_id v = None
              \<and> vmb_final_identity_digest v = None
              \<and> (oj_phase j = JpCompleted \<longrightarrow> length (esb_mutation_step_ids x) \<le> 1)))"

definition has_code :: "string \<Rightarrow> operation_journal \<Rightarrow> bool" where
  "has_code c j = list_ex (\<lambda>ev. jev_code ev = c) (oj_events j)"

lemma state_simps [simp]:
  "oj_plan_id (preconditions_state i j) = oj_plan_id j"
  "oj_baseline_manifest_digest (preconditions_state i j) = oj_baseline_manifest_digest j"
  "oj_plan_id (approved_state i j) = oj_plan_id j"
  "oj_journal_id (approved_state i j) = oj_journal_id j"
  "oj_approval (approved_state i j) = oj_approval j"
  "oj_baseline_manifest_digest (approved_state i j) = oj_baseline_manifest_digest j"
  by (simp_all add: preconditions_state_def approved_state_def)

lemma validate_approval_iff:
  "validate_approval_binding fp j = Inr () \<longleftrightarrow>
     (case oj_approval j of
        None \<Rightarrow> position approval_event (oj_events j) = None
      | Some b \<Rightarrow> (\<exists>i. position approval_event (oj_events j) = Some i \<and> approval_valid fp i j b))"
  by (simp add: validate_approval_binding_def first_error_Cons and_then_Inr approval_valid_def
      approval_fits_def approval_integrity_iff split: option.split) blast

lemma validate_execution_iff:
  "validate_execution_binding fp j = Inr () \<longleftrightarrow>
     (case oj_execution j of
        None \<Rightarrow> position execution_event (oj_events j) = None
      | Some b \<Rightarrow> (\<exists>i. position execution_event (oj_events j) = Some i \<and> execution_valid fp i j b))"
proof (cases "oj_approval j")
  case None
  then show ?thesis
    by (simp add: validate_execution_binding_def first_error_Cons execution_valid_def
      execution_fits_def split: option.split)
next
  case (Some a)
  then show ?thesis
    by (simp add: validate_execution_binding_def first_error_Cons and_then_Inr execution_valid_def
      execution_fits_def execution_integrity_iff split: option.split) blast
qed

lemma validate_boundary_iff:
  "validate_verified_boundary_binding fp j = Inr () \<longleftrightarrow>
     (case oj_verified_boundary j of
        None \<Rightarrow> \<not> has_code ''verification-passed-continue'' j
      | Some v \<Rightarrow> has_code ''verification-passed-continue'' j
          \<and> boundary_valid fp (has_code ''verification-passed-complete'' j) j v)"
proof (cases "oj_verified_boundary j")
  case None
  then show ?thesis
    by (cases "has_code ''verification-passed-continue'' j")
       (simp_all add: validate_verified_boundary_binding_def has_code_def Let_def)
next
  case b: (Some v)
  show ?thesis
  proof (cases "oj_execution j")
    case None
    with b show ?thesis
      by (cases "has_code ''verification-passed-continue'' j")
         (simp_all add: validate_verified_boundary_binding_def has_code_def Let_def first_error_Cons
           boundary_valid_def)
  next
    case (Some x)
    have final: "validate_boundary_final j x v c = Inr () \<longleftrightarrow>
       (if c then vmb_schema_version v = 2 \<and> oj_phase j = JpCompleted
              \<and> (\<exists>d. vmb_final_identity_digest v = Some d \<and> is_lower_hex_digest d)
              \<and> vmb_final_step_id v = Some (last (esb_mutation_step_ids x))
              \<and> vmb_next_step_id v = last (esb_mutation_step_ids x)
              \<and> esb_mutation_step_ids x \<noteq> []
            else vmb_schema_version v = 1 \<and> vmb_final_step_id v = None
              \<and> vmb_final_identity_digest v = None
              \<and> (oj_phase j = JpCompleted \<longrightarrow> length (esb_mutation_step_ids x) \<le> 1))" for c
      by (cases "vmb_final_step_id v"; cases "vmb_final_identity_digest v")
         (auto simp: validate_boundary_final_def first_error_Cons)
    have sv: "(vmb_schema_version v = 1 \<or> vmb_schema_version v = 2)"
      if "validate_boundary_final j x v c = Inr ()" for c
      using that unfolding final by (simp split: if_splits)
    show ?thesis
      using b Some sv
      by (cases "has_code ''verification-passed-continue'' j")
         (auto simp: validate_verified_boundary_binding_def has_code_def Let_def first_error_Cons
           boundary_valid_def boundary_fits_def boundary_integrity_iff final is_sha256_hex_eq)
  qed
qed

lemma validate_journal_iff:
  "validate_journal fp j = Inr () \<longleftrightarrow>
     oj_schema_version j = 1 \<and> is_lower_hex_digest (oj_journal_id j) \<and> is_lower_hex_digest (oj_plan_id j)
     \<and> is_lower_hex_digest (oj_baseline_manifest_digest j)
     \<and> oj_target j \<noteq> [] \<and> \<not> has_control (oj_target j)
     \<and> validate_events 0 JpPlanned (oj_events j) = Inr (oj_phase j)
     \<and> oj_mutation_may_have_started j = mutating (oj_phase j)
     \<and> validate_approval_binding fp j = Inr () \<and> validate_execution_binding fp j = Inr ()
     \<and> validate_verified_boundary_binding fp j = Inr ()"
  by (auto simp: validate_journal_def first_error_Cons and_then_Inr)

lemma validate_events_append:
  "validate_events n p (xs @ ys)
     = and_then (validate_events n p xs) (\<lambda>q. validate_events (n + length xs) q ys)"
  by (induction xs arbitrary: n p) (simp_all add: Let_def)

section \<open>Every journal of the state machine is valid on disk\<close>

text \<open>What \<open>Sha256::digest\<close> in lowercase hexadecimal and \<open>serde_json::to_vec\<close> on these plain
  structures promise: a digest is always returned, of 64 lowercase hexadecimal characters.\<close>

definition hex_digests :: "guard_digest_fun \<Rightarrow> bool" where
  "hex_digests fp \<longleftrightarrow> (\<forall>v. \<exists>d. fp v = Inr d \<and> is_lower_hex_digest d)"

lemma hex_digestsD: "hex_digests fp \<Longrightarrow> fp v = Inr d \<Longrightarrow> is_lower_hex_digest d"
  by (metis hex_digests_def sum.inject(2))

text \<open>The callers' duty: digests they bring along are digests, step lists are proper.\<close>

fun proper_transition :: "journal_transition \<Rightarrow> bool" where
  "proper_transition (JtExactPlanApproved _ a) =
     (is_lower_hex_digest (eab_evidence_bundle_id a) \<and> is_lower_hex_digest (eab_locked_session_id a))"
| "proper_transition (JtExecutionStarted b) =
     (is_lower_hex_digest (esb_source_manifest_id b) \<and> is_lower_hex_digest (esb_native_manifest_digest b)
      \<and> steps_valid (esb_mutation_step_ids b))"
| "proper_transition _ = True"

definition extends :: "operation_journal \<Rightarrow> journal_event \<Rightarrow> operation_journal \<Rightarrow> bool" where
  "extends j ev j' \<longleftrightarrow>
     oj_schema_version j' = oj_schema_version j \<and> oj_journal_id j' = oj_journal_id j
     \<and> oj_plan_id j' = oj_plan_id j \<and> oj_target j' = oj_target j
     \<and> oj_baseline_manifest_digest j' = oj_baseline_manifest_digest j
     \<and> oj_events j' = oj_events j @ [ev]"

lemma extends_states:
  assumes "extends j ev j'" "i \<le> length (oj_events j)"
  shows "preconditions_state i j' = preconditions_state i j"
    and "oj_approval j' = oj_approval j \<Longrightarrow> approved_state i j' = approved_state i j"
  using assms
  by (cases j; cases j'; simp add: extends_def preconditions_state_def approved_state_def)+

lemma position_snoc:
  "\<not> p x \<Longrightarrow> position p (xs @ [x]) = position p xs"
  by (cases "position p xs") (simp_all add: position_append_Some position_append_None)

lemma position_snoc_new:
  "p x \<Longrightarrow> position p xs = None \<Longrightarrow> position p (xs @ [x]) = Some (length xs)"
  by (simp add: position_append_None)

lemma position_less: "position p xs = Some i \<Longrightarrow> i \<le> length xs"
  using position_Some by fastforce

lemma approval_keep:
  assumes "extends j ev j'" "\<not> approval_event ev" "oj_approval j' = oj_approval j"
    "validate_approval_binding fp j = Inr ()"
  shows "validate_approval_binding fp j' = Inr ()"
proof -
  have "approval_valid fp i j' b = approval_valid fp i j b" if "i \<le> length (oj_events j)" for i b
    using extends_states(1)[OF assms(1) that] by (simp add: approval_valid_def)
  moreover have "position approval_event (oj_events j') = position approval_event (oj_events j)"
    using assms(1,2) by (simp add: extends_def position_snoc)
  ultimately show ?thesis
    using assms(3,4) position_less[of approval_event "oj_events j"]
    by (auto simp: validate_approval_iff split: option.splits)
qed

lemma execution_keep:
  assumes "extends j ev j'" "\<not> execution_event ev" "oj_execution j' = oj_execution j"
    "oj_execution j = None \<or> oj_approval j' = oj_approval j"
    "validate_execution_binding fp j = Inr ()"
  shows "validate_execution_binding fp j' = Inr ()"
proof -
  have pos: "position execution_event (oj_events j') = position execution_event (oj_events j)"
    using assms(1,2) by (simp add: extends_def position_snoc)
  show ?thesis
  proof (cases "oj_execution j")
    case None
    with assms(3,5) pos show ?thesis by (simp add: validate_execution_iff)
  next
    case (Some b)
    with assms(4) have "oj_approval j' = oj_approval j" by simp
    then have "execution_valid fp i j' b = execution_valid fp i j b" if "i \<le> length (oj_events j)" for i
      using extends_states(2)[OF assms(1) that] by (simp add: execution_valid_def)
    with Some pos assms(3,5) position_less[of execution_event "oj_events j"] show ?thesis
      by (auto simp: validate_execution_iff)
  qed
qed

lemma boundary_keep:
  assumes "extends j ev j'" "jev_code ev \<noteq> ''verification-passed-continue''"
    "jev_code ev \<noteq> ''verification-passed-complete''"
    "\<not> has_code ''verification-passed-complete'' j"
    "oj_verified_boundary j' = oj_verified_boundary j"
    "oj_verified_boundary j = None
     \<or> oj_execution j' = oj_execution j \<and> mutating (oj_phase j')
       \<and> (oj_phase j' = JpCompleted \<longrightarrow> (\<forall>x. oj_execution j = Some x \<longrightarrow> length (esb_mutation_step_ids x) \<le> 1))"
    "validate_verified_boundary_binding fp j = Inr ()"
  shows "validate_verified_boundary_binding fp j' = Inr () \<and> \<not> has_code ''verification-passed-complete'' j'"
proof -
  have "has_code ''verification-passed-continue'' j' = has_code ''verification-passed-continue'' j"
    "\<not> has_code ''verification-passed-complete'' j'"
    using assms(1-4) by (simp_all add: has_code_def extends_def)
  with assms(4-7) show ?thesis
    by (auto simp: validate_boundary_iff boundary_valid_def split: option.splits)
qed

definition journal_valid_inv :: "guard_digest_fun \<Rightarrow> operation_journal \<Rightarrow> bool" where
  "journal_valid_inv fp j \<longleftrightarrow>
     validate_journal fp j = Inr () \<and> flags_ok j
     \<and> (oj_phase j \<noteq> JpCompleted \<longrightarrow> \<not> has_code ''verification-passed-complete'' j)"

definition phase_event :: "operation_journal \<Rightarrow> journal_phase \<Rightarrow> string \<Rightarrow> string \<Rightarrow> journal_event" where
  "phase_event j p c d = \<lparr> jev_sequence = of_nat (length (oj_events j)) + 1, jev_from = oj_phase j,
     jev_to = p, jev_code = c, jev_detail = d \<rparr>"

lemma phase_event_simps [simp]:
  "jev_from (phase_event j p c d) = oj_phase j" "jev_to (phase_event j p c d) = p"
  "jev_code (phase_event j p c d) = c"
  by (simp_all add: phase_event_def)

lemma moved_events: "oj_events (moved p c d j) = oj_events j @ [phase_event j p c d]"
  by (simp add: phase_event_def)

lemma moved_extends:
  "extends j (phase_event j p c d) (moved p c d j)"
  "extends j (phase_event j p c d) ((moved p c d j)\<lparr>oj_approval := a\<rparr>)"
  "extends j (phase_event j p c d) ((moved p c d j)\<lparr>oj_mutation_may_have_started := m, oj_execution := x\<rparr>)"
  "extends j (phase_event j p c d) ((moved p c d j)\<lparr>oj_verified_boundary := b\<rparr>)"
  by (simp_all add: extends_def phase_event_def)

lemma events_extend:
  assumes "validate_events 0 JpPlanned (oj_events j) = Inr (oj_phase j)"
    "allowed_transition (oj_phase j) p" "c \<noteq> []" "\<not> has_control c"
    "oj_events j' = oj_events j @ [phase_event j p c d]"
  shows "validate_events 0 JpPlanned (oj_events j') = Inr p"
  using assms by (simp add: validate_events_append phase_event_def Let_def)

text \<open>A step that only moves the phase along an ordinary event.\<close>

lemma valid_moved:
  assumes inv: "journal_valid_inv fp j"
    and ph: "allowed_transition (oj_phase j) p" "oj_phase j \<noteq> JpPreconditionsVerified \<or> p \<noteq> JpApproved"
      "oj_phase j \<noteq> JpApproved \<or> p \<noteq> JpExecuting" "mutating (oj_phase j) = mutating p"
    and c: "c \<noteq> []" "\<not> has_control c" "c \<noteq> ''verification-passed-continue''"
      "c \<noteq> ''verification-passed-complete''"
    and fin: "p = JpCompleted \<Longrightarrow> oj_verified_boundary j = None
      \<or> (\<exists>x. oj_execution j = Some x \<and> length (esb_mutation_step_ids x) \<le> 1)"
  shows "validate_journal fp (moved p c d j) = Inr ()
     \<and> (p \<noteq> JpCompleted \<longrightarrow> \<not> has_code ''verification-passed-complete'' (moved p c d j))"
proof -
  from inv have v: "validate_journal fp j = Inr ()" and f: "flags_ok j"
    and nc: "oj_phase j \<noteq> JpCompleted \<longrightarrow> \<not> has_code ''verification-passed-complete'' j"
    by (auto simp: journal_valid_inv_def)
  have live: "oj_phase j \<noteq> JpCompleted" using ph(1) by (auto simp: allowed_transition_def)
  with nc have nc': "\<not> has_code ''verification-passed-complete'' j" by simp
  note v' = v[unfolded validate_journal_iff]
  let ?j = "moved p c d j"
  note ext = moved_extends(1)[of j p c d]
  have ev: "validate_events 0 JpPlanned (oj_events ?j) = Inr p"
    using events_extend[OF _ ph(1) c(1,2) moved_events] v' by simp
  have ap: "validate_approval_binding fp ?j = Inr ()"
    by (rule approval_keep[OF ext]) (use ph v' in \<open>auto simp: approval_event_def\<close>)
  have ex: "validate_execution_binding fp ?j = Inr ()"
    by (rule execution_keep[OF ext]) (use ph v' in \<open>auto simp: execution_event_def\<close>)
  have bd: "validate_verified_boundary_binding fp ?j = Inr () \<and> \<not> has_code ''verification-passed-complete'' ?j"
  proof (rule boundary_keep[OF ext _ _ nc'])
    show "oj_verified_boundary j = None \<or> oj_execution ?j = oj_execution j \<and> mutating (oj_phase ?j)
       \<and> (oj_phase ?j = JpCompleted \<longrightarrow> (\<forall>x. oj_execution j = Some x \<longrightarrow> length (esb_mutation_step_ids x) \<le> 1))"
    proof (cases "oj_verified_boundary j")
      case (Some v)
      with f have "mutating (oj_phase j)" by (auto simp: flags_ok_def)
      with ph(4) Some fin show ?thesis by (cases "p = JpCompleted") auto
    qed simp
  qed (use c v' in auto)
  show ?thesis
    using v' ev ap ex bd ph(4) by (simp add: validate_journal_iff del: moved_simps(11))
qed

declare has_control.simps [simp del]

lemma control_free_codes [simp]:
  "\<not> has_control ''host-lock-acquired''" "\<not> has_control ''identity-revalidated''"
  "\<not> has_control ''preconditions-verified''" "\<not> has_control ''exact-plan-approved''"
  "\<not> has_control ''execution-started''" "\<not> has_control ''verification-started''"
  "\<not> has_control ''verification-passed-continue''" "\<not> has_control ''verification-passed-complete''"
  "\<not> has_control ''completed''" "\<not> has_control ''interrupted-after-mutation-boundary''"
  "\<not> has_control ''interrupted-before-mutation''" "\<not> has_control ''abort-after-mutation-boundary''"
  "\<not> has_control ''aborted''"
  by code_simp+

lemma full_preconditions_state:
  assumes "flags_ok j" "oj_phase j = JpPreconditionsVerified"
  shows "preconditions_state (length (oj_events j)) j = j"
proof -
  from assms have "\<not> oj_mutation_may_have_started j" "oj_approval j = None" "oj_execution j = None"
    "oj_verified_boundary j = None"
    by (auto simp: flags_ok_def)
  with assms(2) show ?thesis by (cases j) (simp add: preconditions_state_def)
qed

lemma full_approved_state:
  assumes "flags_ok j" "oj_phase j = JpApproved"
  shows "approved_state (length (oj_events j)) j = j"
proof -
  from assms have "\<not> oj_mutation_may_have_started j" "oj_execution j = None"
    "oj_verified_boundary j = None"
    by (auto simp: flags_ok_def)
  with assms(2) show ?thesis by (cases j) (simp add: approved_state_def)
qed

lemma valid_inv_parts:
  assumes "journal_valid_inv fp j"
  shows "flags_ok j"
    "validate_events 0 JpPlanned (oj_events j) = Inr (oj_phase j)"
    "validate_approval_binding fp j = Inr ()" "validate_execution_binding fp j = Inr ()"
    "validate_verified_boundary_binding fp j = Inr ()"
    "oj_phase j \<noteq> JpCompleted \<Longrightarrow> \<not> has_code ''verification-passed-complete'' j"
    "is_lower_hex_digest (oj_journal_id j)" "is_lower_hex_digest (oj_plan_id j)"
    "is_lower_hex_digest (oj_baseline_manifest_digest j)"
  using assms by (simp_all add: journal_valid_inv_def validate_journal_iff)

lemma allowed_simps [simp]:
  "allowed_transition JpPlanned JpHostLockHeld" "allowed_transition JpHostLockHeld JpIdentityRevalidated"
  "allowed_transition JpIdentityRevalidated JpPreconditionsVerified"
  "allowed_transition JpPreconditionsVerified JpApproved" "allowed_transition JpApproved JpExecuting"
  "allowed_transition JpExecuting JpVerifying" "allowed_transition JpVerifying JpExecuting"
  "allowed_transition JpVerifying JpCompleted" "allowed_transition JpExecuting JpRecoveryRequired"
  "allowed_transition JpVerifying JpRecoveryRequired"
  "allowed_transition p JpAborted \<longleftrightarrow> \<not> mutating p \<and> \<not> is_terminal p"
  by (cases p; simp add: allowed_transition_def)+

lemma boundary_none:
  assumes "validate_verified_boundary_binding fp j = Inr ()" "oj_verified_boundary j = None"
    "extends j ev j'" "jev_code ev \<noteq> ''verification-passed-continue''" "oj_verified_boundary j' = None"
  shows "validate_verified_boundary_binding fp j' = Inr ()"
  using assms by (simp add: validate_boundary_iff has_code_def extends_def)

lemma valid_approved:
  assumes inv: "journal_valid_inv fp j" and hex: "hex_digests fp"
    and ph: "oj_phase j = JpPreconditionsVerified" and fits: "approval_fits fp j a"
    and wf: "is_lower_hex_digest (eab_evidence_bundle_id a)" "is_lower_hex_digest (eab_locked_session_id a)"
    and j': "j' = (moved JpApproved ''exact-plan-approved'' d j)\<lparr>oj_approval := Some a\<rparr>"
  shows "validate_journal fp j' = Inr () \<and> \<not> has_code ''verification-passed-complete'' j'"
proof -
  note p = valid_inv_parts[OF inv]
  let ?ev = "phase_event j JpApproved ''exact-plan-approved'' d"
  have ext: "extends j ?ev j'" unfolding j' by (rule moved_extends)
  have none: "oj_approval j = None" "oj_execution j = None" "oj_verified_boundary j = None"
    using p(1) ph by (auto simp: flags_ok_def)
  have pos: "position approval_event (oj_events j') = Some (length (oj_events j))"
    using p(3) none ext ph
    by (auto simp: validate_approval_iff extends_def approval_event_def intro!: position_snoc_new)
  have "preconditions_state (length (oj_events j)) j' = j"
    using extends_states(1)[OF ext order_refl] full_preconditions_state[OF p(1) ph] by simp
  then have "approval_valid fp (length (oj_events j)) j' a"
    using fits wf p(8,9) hex
    by (auto simp: approval_valid_def approval_fits_def expected_approval_id_def dest: hex_digestsD)
  moreover have "oj_approval j' = Some a" by (simp add: j')
  ultimately have ap: "validate_approval_binding fp j' = Inr ()"
    by (simp add: validate_approval_iff pos)
  have ex: "validate_execution_binding fp j' = Inr ()"
    by (rule execution_keep[OF ext]) (use none p(4) ph in \<open>auto simp: j' execution_event_def\<close>)
  have bd: "validate_verified_boundary_binding fp j' = Inr ()"
    by (rule boundary_none[OF p(5) none(3) ext]) (simp_all add: j' none)
  have ev: "validate_events 0 JpPlanned (oj_events j') = Inr JpApproved"
    by (rule events_extend[OF p(2), of JpApproved "''exact-plan-approved''" _ d])
       (use ph in \<open>simp_all add: j' moved_events del: moved_simps(11)\<close>)
  show ?thesis
    using inv ev ap ex bd p(6) ph none
    by (auto simp: journal_valid_inv_def validate_journal_iff flags_ok_def has_code_def j')
qed

lemma valid_started:
  assumes inv: "journal_valid_inv fp j" and hex: "hex_digests fp"
    and ph: "oj_phase j = JpApproved" and fits: "execution_fits fp j b"
    and wf: "is_lower_hex_digest (esb_source_manifest_id b)"
      "is_lower_hex_digest (esb_native_manifest_digest b)" "steps_valid (esb_mutation_step_ids b)"
    and j': "j' = (moved JpExecuting ''execution-started'' d j)
       \<lparr>oj_mutation_may_have_started := True, oj_execution := Some b\<rparr>"
  shows "validate_journal fp j' = Inr () \<and> \<not> has_code ''verification-passed-complete'' j'"
proof -
  note p = valid_inv_parts[OF inv]
  let ?ev = "phase_event j JpExecuting ''execution-started'' d"
  have ext: "extends j ?ev j'" unfolding j' by (rule moved_extends)
  have none: "oj_execution j = None" "oj_verified_boundary j = None"
    using p(1) ph by (auto simp: flags_ok_def)
  have pos: "position execution_event (oj_events j') = Some (length (oj_events j))"
    using p(4) none ext ph
    by (auto simp: validate_execution_iff extends_def execution_event_def intro!: position_snoc_new)
  have ap0: "oj_approval j' = oj_approval j" by (simp add: j')
  have st: "approved_state (length (oj_events j)) j' = j"
    using extends_states(2)[OF ext order_refl ap0] full_approved_state[OF p(1) ph] by simp
  from fits obtain a where a: "oj_approval j = Some a" "esb_approval_id b = eab_approval_id a"
    by (auto simp: execution_fits_def)
  have aid: "is_lower_hex_digest (eab_approval_id a)"
    using p(3) a by (auto simp: validate_approval_iff approval_valid_def)
  have "execution_valid fp (length (oj_events j)) j' b"
    using fits wf p(7,8,9) hex aid a(2)
    by (auto simp: execution_valid_def st execution_fits_def expected_execution_id_def dest: hex_digestsD)
  moreover have "oj_execution j' = Some b" by (simp add: j')
  ultimately have ex: "validate_execution_binding fp j' = Inr ()"
    by (simp add: validate_execution_iff pos)
  have ap: "validate_approval_binding fp j' = Inr ()"
    by (rule approval_keep[OF ext]) (use p(3) ph in \<open>auto simp: j' approval_event_def\<close>)
  have bd: "validate_verified_boundary_binding fp j' = Inr ()"
    by (rule boundary_none[OF p(5) none(2) ext]) (simp_all add: j' none)
  have ev: "validate_events 0 JpPlanned (oj_events j') = Inr JpExecuting"
    by (rule events_extend[OF p(2), of JpExecuting "''execution-started''" _ d])
       (use ph in \<open>simp_all add: j' moved_events del: moved_simps(11)\<close>)
  show ?thesis
    using inv ev ap ex bd p(6) ph none
    by (auto simp: journal_valid_inv_def validate_journal_iff has_code_def j')
qed

text \<open>Both boundary steps: the boundary is replaced by a valid one.\<close>

lemma valid_boundary_step:
  assumes inv: "journal_valid_inv fp j" and ph: "oj_phase j = JpVerifying" and p: "allowed_transition JpVerifying q"
    "mutating q" and c: "c \<noteq> []" "\<not> has_control c"
    and j': "j' = (moved q c d j)\<lparr>oj_verified_boundary := Some v\<rparr>"
    and v: "has_code ''verification-passed-continue'' j'"
      "boundary_valid fp (has_code ''verification-passed-complete'' j') j' v"
  shows "validate_journal fp j' = Inr ()"
proof -
  note ip = valid_inv_parts[OF inv]
  let ?ev = "phase_event j q c d"
  have ext: "extends j ?ev j'" unfolding j' by (rule moved_extends)
  have ap: "validate_approval_binding fp j' = Inr ()"
    by (rule approval_keep[OF ext]) (use ip(3) ph in \<open>auto simp: j' approval_event_def\<close>)
  have ex: "validate_execution_binding fp j' = Inr ()"
    by (rule execution_keep[OF ext]) (use ip(4) ph in \<open>auto simp: j' execution_event_def\<close>)
  have bd: "validate_verified_boundary_binding fp j' = Inr ()"
    using v by (simp add: validate_boundary_iff j')
  have ev: "validate_events 0 JpPlanned (oj_events j') = Inr q"
    by (rule events_extend[OF ip(2), of q c _ d])
       (use p(1) ph c in \<open>simp_all add: j' moved_events del: moved_simps(11)\<close>)
  show ?thesis
    using inv ev ap ex bd p(2) ph
    by (auto simp: journal_valid_inv_def validate_journal_iff j')
qed

lemma late_phase:
  "flags_ok j \<Longrightarrow> \<not> is_terminal (oj_phase j) \<Longrightarrow>
     oj_mutation_may_have_started j \<or> oj_phase j = JpExecuting \<or> oj_phase j = JpVerifying \<Longrightarrow>
     oj_phase j = JpExecuting \<or> oj_phase j = JpVerifying"
  by (cases "oj_phase j") (simp_all add: flags_ok_def)

lemma early_phase:
  "flags_ok j \<Longrightarrow> \<not> oj_mutation_may_have_started j \<Longrightarrow> \<not> mutating (oj_phase j)"
  by (auto simp: flags_ok_def)

lemma valid_step:
  assumes inv: "journal_valid_inv fp j" and hex: "hex_digests fp" and wf: "proper_transition t"
    and st: "journal_step fp j t j'"
  shows "journal_valid_inv fp j'"
proof -
  note ip = valid_inv_parts[OF inv]
  have f: "flags_ok j'" by (rule flags_ok_step[OF st ip(1)])
  from st have "validate_journal fp j' = Inr ()
     \<and> (oj_phase j' \<noteq> JpCompleted \<longrightarrow> \<not> has_code ''verification-passed-complete'' j')"
  proof cases
    case (approved a)
    with valid_approved[OF inv hex approved(3,4)] wf show ?thesis by simp
  next
    case (started b)
    with valid_started[OF inv hex started(3,4)] wf show ?thesis by simp
  next
    case (continued x v)
    let ?q = "\<not> has_code ''verification-passed-complete'' j'"
    have nc: ?q using ip(6) continued by (auto simp: has_code_def)
    have idx: "is_lower_hex_digest (vmb_execution_id v)"
      using ip(4) continued(4,5) by (auto simp: validate_execution_iff execution_valid_def boundary_fits_def)
    have "boundary_valid fp False j' v"
      using continued hex idx
      by (auto simp: boundary_valid_def boundary_fits_def expected_boundary_id_def dest: hex_digestsD)
    with nc have "boundary_valid fp (has_code ''verification-passed-complete'' j') j' v" by simp
    moreover have "has_code ''verification-passed-continue'' j'"
      using continued by (simp add: has_code_def)
    ultimately have "validate_journal fp j' = Inr ()"
      using valid_boundary_step[OF inv continued(3) _ _ _ _ continued(2)] by simp
    with nc show ?thesis by simp
  next
    case (finished x v d v' i)
    have h: "has_code ''verification-passed-continue'' j" "boundary_valid fp False j v"
      using ip(5,6) finished by (auto simp: validate_boundary_iff split: if_splits)
    have h': "has_code ''verification-passed-continue'' j'" "has_code ''verification-passed-complete'' j'"
      using finished h(1) by (simp_all add: has_code_def)
    have "boundary_valid fp True j' v'"
      using finished h(2) hex is_sha256_hex_eq
      by (auto simp: boundary_valid_def boundary_fits_def dest: hex_digestsD[OF hex])
        (auto simp: expected_boundary_id_def dest: hex_digestsD)
    with h' valid_boundary_step[OF inv finished(3) _ _ _ _ finished(2)] show ?thesis
      by (simp add: finished)
  next
    case (completed x)
    then show ?thesis using valid_moved[OF inv, of JpCompleted] by simp
  next
    case (interrupted_late r)
    with late_phase[OF ip(1)] have "oj_phase j = JpExecuting \<or> oj_phase j = JpVerifying" by blast
    then show ?thesis unfolding interrupted_late(2)
      using valid_moved[OF inv, of JpRecoveryRequired] by (elim disjE) simp_all
  next
    case (interrupted_early r)
    with early_phase[OF ip(1)] have "\<not> mutating (oj_phase j)" by blast
    with interrupted_early(3) show ?thesis unfolding interrupted_early(2)
      using valid_moved[OF inv, of JpAborted] by auto
  next
    case (aborted_late r)
    with late_phase[OF ip(1)] have "oj_phase j = JpExecuting \<or> oj_phase j = JpVerifying" by blast
    then show ?thesis unfolding aborted_late(2)
      using valid_moved[OF inv, of JpRecoveryRequired] by (elim disjE) simp_all
  next
    case (aborted_early r)
    with early_phase[OF ip(1)] have "\<not> mutating (oj_phase j)" by blast
    with aborted_early(3) show ?thesis unfolding aborted_early(2)
      using valid_moved[OF inv, of JpAborted] by auto
  next
    case lock
    then show ?thesis using valid_moved[OF inv, of JpHostLockHeld] by simp
  next
    case identity
    then show ?thesis using valid_moved[OF inv, of JpIdentityRevalidated] by simp
  next
    case preconditions
    then show ?thesis using valid_moved[OF inv, of JpPreconditionsVerified] by simp
  next
    case verifying
    then show ?thesis using valid_moved[OF inv, of JpVerifying] by simp
  qed
  with f show ?thesis by (simp add: journal_valid_inv_def)
qed

lemma total_failed:
  assumes "hex_digests fp" "apply_transition fp t j = (j', Inl e)"
  shows "j' = j"
proof -
  have "\<exists>d. expected_boundary_id fp v = Inr d" for v
    using assms(1) by (auto simp: hex_digests_def expected_boundary_id_def)
  then have "apply_verification_passed_complete fp c d j = (j', Inl e) \<Longrightarrow> j' = j" for c d
    by (auto simp: apply_verification_passed_complete_def Let_def settle_def advance_def
        split: if_splits option.splits sum.splits) (metis sum.distinct(1))
  with assms(2) show ?thesis
    by (cases t) (auto simp: apply_transition.simps settle_Inl split: if_splits)
qed

lemma valid_apply:
  assumes "journal_valid_inv fp j" "hex_digests fp" "proper_transition t"
  shows "journal_valid_inv fp (fst (apply_transition fp t j))"
proof (cases "apply_transition fp t j")
  case (Pair j' r)
  show ?thesis
  proof (cases r)
    case (Inl e)
    with Pair total_failed[OF assms(2)] assms(1) show ?thesis by auto
  next
    case (Inr u)
    with Pair have "journal_step fp j t j'" by (simp add: apply_ok_iff)
    with valid_step[OF assms] Pair show ?thesis by simp
  qed
qed

lemma valid_run:
  "journal_valid_inv fp j \<Longrightarrow> hex_digests fp \<Longrightarrow> list_all proper_transition ts \<Longrightarrow>
     journal_valid_inv fp (run fp ts j)"
  by (induction ts arbitrary: j) (simp_all add: run_def valid_apply)

lemma valid_new:
  assumes "is_lower_hex_digest (egp_guard_id g)" "is_lower_hex_digest (egp_plan_id g)"
    "is_lower_hex_digest (egp_baseline_manifest_digest g)"
    "egp_target g \<noteq> []" "\<not> has_control (egp_target g)"
  shows "journal_valid_inv fp (new_journal g)"
  using assms
  by (simp add: journal_valid_inv_def new_journal_def validate_journal_iff flags_ok_def has_code_def
      validate_approval_iff validate_execution_iff validate_boundary_iff)

text \<open>C2: the state machine and the validator of durable records agree: a journal started from a
  guard plan and driven by any sequence of transitions, rejected ones included, is accepted by the
  validator in every state it goes through, provided the digests its callers bring along are
  digests and the step list of an execution is proper.\<close>

theorem every_journal_validates:
  assumes "hex_digests fp" "build_execution_guard_plan fp p m = Inr g"
    "is_lower_hex_digest p" "is_lower_hex_digest (tim_manifest_digest m)"
    "tim_target m \<noteq> []" "\<not> has_control (tim_target m)"
    "list_all proper_transition ts"
  shows "validate_journal fp (run fp ts (new_journal g)) = Inr ()"
proof -
  note b = build_guard_Inr[OF assms(2)]
  have "journal_valid_inv fp (new_journal g)"
    by (rule valid_new) (use b assms hex_digestsD[OF assms(1) b(4)] in simp_all)
  from valid_run[OF this assms(1,7)] show ?thesis by (simp add: journal_valid_inv_def)
qed

lemma ex_fp_hex: "hex_digests ex_fp"
proof -
  have "is_lower_hex_digest ex_hex" using ex_hex_sha by (simp add: is_sha256_hex_eq)
  then show ?thesis by (simp add: hex_digests_def ex_fp_def)
qed

lemma ex_guard_built:
  "build_execution_guard_plan ex_fp ex_hex (ex_manifest\<lparr>tim_manifest_digest := ex_hex\<rparr>) = Inr ex_guard"
  by code_simp

lemma ex_inputs:
  "is_lower_hex_digest ex_hex" "tim_target ex_manifest \<noteq> []" "\<not> has_control (tim_target ex_manifest)"
  "list_all proper_transition (ex_prepare @ ex_execute)"
proof -
  show h: "is_lower_hex_digest ex_hex" using ex_hex_sha by (simp add: is_sha256_hex_eq)
  have "tim_target ex_manifest = ''/''" by (rule capture_target[OF ex_capture])
  then show "tim_target ex_manifest \<noteq> []" "\<not> has_control (tim_target ex_manifest)"
    by (simp, simp) code_simp
  show "list_all proper_transition (ex_prepare @ ex_execute)"
    using h by (simp add: ex_prepare_def ex_execute_def ex_approval_def ex_binding_def steps_valid_def)
qed

lemma ex_runs:
  "ex_approved = run ex_fp ex_prepare (new_journal ex_guard)"
  "ex_running = run ex_fp (ex_prepare @ [JtExecutionStarted ex_binding]) (new_journal ex_guard)"
  "ex_done = run ex_fp (ex_prepare @ ex_execute) (new_journal ex_guard)"
  by (simp_all add: ex_done_def ex_approved_def ex_running_def run_def)

lemma ex_valid_run:
  "list_all proper_transition ts \<Longrightarrow> journal_valid_inv ex_fp (run ex_fp ts (new_journal ex_guard))"
proof (rule valid_run[OF valid_new ex_fp_hex])
  note b = build_guard_Inr[OF ex_guard_built]
  show "is_lower_hex_digest (egp_guard_id ex_guard)"
    using hex_digestsD[OF ex_fp_hex b(4)] .
  show "is_lower_hex_digest (egp_plan_id ex_guard)" "is_lower_hex_digest (egp_baseline_manifest_digest ex_guard)"
    "egp_target ex_guard \<noteq> []" "\<not> has_control (egp_target ex_guard)"
    using b(5,6,7) ex_inputs by simp_all
qed

lemma ex_valid:
  "journal_valid_inv ex_fp ex_approved" "journal_valid_inv ex_fp ex_running"
  "journal_valid_inv ex_fp ex_done"
  using ex_inputs(4) unfolding ex_runs
  by (intro ex_valid_run; simp add: ex_execute_def)+

lemma every_journal_validates_witness:
  "oj_phase ex_done = JpCompleted \<and> validate_journal ex_fp ex_done = Inr ()"
  using every_journal_validates[OF ex_fp_hex ex_guard_built ex_inputs(1) _ _ _ ex_inputs(4)]
    ex_inputs ex_phases ex_runs(3) by simp

section \<open>What an accepted record guarantees\<close>

lemma validate_events_Cons:
  "validate_events n p (ev # evs) = Inr q \<longleftrightarrow>
     jev_sequence ev = of_nat n + 1 \<and> jev_from ev = p \<and> allowed_transition p (jev_to ev)
     \<and> jev_code ev \<noteq> [] \<and> \<not> has_control (jev_code ev)
     \<and> validate_events (Suc n) (jev_to ev) evs = Inr q"
  by (auto simp: Let_def)

declare validate_events.simps(2) [simp del]

lemma allowed_mutating:
  "allowed_transition p q \<Longrightarrow> mutating q \<longleftrightarrow> mutating p \<or> (p = JpApproved \<and> q = JpExecuting)"
  by (auto simp: allowed_transition_def)

lemma allowed_into_approved: "allowed_transition p JpApproved \<longleftrightarrow> p = JpPreconditionsVerified"
  by (auto simp: allowed_transition_def)

lemma mutating_iff_execution_event:
  "validate_events n p evs = Inr q \<Longrightarrow> mutating q \<longleftrightarrow> mutating p \<or> (\<exists>ev\<in>set evs. execution_event ev)"
proof (induction n p evs rule: validate_events.induct)
  case (2 n p ev evs)
  then have ih: "mutating q \<longleftrightarrow> mutating (jev_to ev) \<or> (\<exists>e\<in>set evs. execution_event e)"
    and a: "jev_from ev = p" "allowed_transition p (jev_to ev)"
    by (simp_all add: validate_events_Cons)
  show ?case using ih a allowed_mutating[OF a(2)] by (auto simp: execution_event_def)
qed simp

lemma approval_before_execution:
  "validate_events n p evs = Inr q \<Longrightarrow> p \<noteq> JpApproved \<Longrightarrow> position execution_event evs = Some k \<Longrightarrow>
     \<exists>i<k. position approval_event evs = Some i"
proof (induction n p evs arbitrary: k rule: validate_events.induct)
  case (2 n p ev evs)
  then have a: "jev_from ev = p" "allowed_transition p (jev_to ev)"
    "validate_events (Suc n) (jev_to ev) evs = Inr q"
    by (simp_all add: validate_events_Cons)
  with "2.prems" have "\<not> execution_event ev" by (simp add: execution_event_def)
  with "2.prems" obtain k' where k: "k = Suc k'" "position execution_event evs = Some k'" by auto
  show ?case
  proof (cases "jev_to ev = JpApproved")
    case True
    with a have "approval_event ev" by (simp add: approval_event_def allowed_into_approved)
    with k show ?thesis by auto
  next
    case False
    have seq: "jev_sequence ev = of_nat n + 1" "\<not> (jev_code ev = [] \<or> has_control (jev_code ev))"
      using "2.prems"(1) by (simp_all add: validate_events_Cons)
    have na: "\<not> approval_event ev" using False by (simp add: approval_event_def)
    have "\<exists>i<k'. position approval_event evs = Some i"
      by (rule "2.IH"[OF refl _ _ _ _ a(3) False k(2)]) (use a seq in auto)
    with na k show ?thesis by auto
  qed
qed simp

text \<open>C14: a record that validates cannot hide a started mutation. Its mutation flag is set exactly
  when its event log holds the step from approved to executing; if it is set, the log holds the
  approval before that step, the record carries both bindings, and their digests are those of the
  record as it was at the two moments, cut out of this very log.\<close>

theorem validated_mutation_is_approved:
  assumes "validate_journal fp j = Inr ()"
  shows "(oj_mutation_may_have_started j \<longleftrightarrow> (\<exists>ev\<in>set (oj_events j). execution_event ev))
    \<and> (oj_mutation_may_have_started j \<longrightarrow>
        (\<exists>a b i k. oj_approval j = Some a \<and> oj_execution j = Some b
          \<and> position approval_event (oj_events j) = Some i
          \<and> position execution_event (oj_events j) = Some k \<and> i < k
          \<and> fp (GiJournal (preconditions_state i j)) = Inr (eab_preconditions_journal_digest a)
          \<and> fp (GiJournal (approved_state k j)) = Inr (esb_approved_journal_digest b)
          \<and> esb_approval_id b = eab_approval_id a \<and> steps_valid (esb_mutation_step_ids b)))"
proof -
  note v = assms[unfolded validate_journal_iff]
  have flag: "oj_mutation_may_have_started j \<longleftrightarrow> (\<exists>ev\<in>set (oj_events j). execution_event ev)"
    using v mutating_iff_execution_event[of 0 JpPlanned "oj_events j"] by simp
  have "\<exists>a b i k. oj_approval j = Some a \<and> oj_execution j = Some b
          \<and> position approval_event (oj_events j) = Some i
          \<and> position execution_event (oj_events j) = Some k \<and> i < k
          \<and> fp (GiJournal (preconditions_state i j)) = Inr (eab_preconditions_journal_digest a)
          \<and> fp (GiJournal (approved_state k j)) = Inr (esb_approved_journal_digest b)
          \<and> esb_approval_id b = eab_approval_id a \<and> steps_valid (esb_mutation_step_ids b)"
    if "oj_mutation_may_have_started j"
  proof -
    from that flag obtain ev where "ev \<in> set (oj_events j)" "execution_event ev" by blast
    then have "position execution_event (oj_events j) \<noteq> None" by (simp only: position_None) blast
    then obtain k where k: "position execution_event (oj_events j) = Some k" by blast
    with v obtain b where b: "oj_execution j = Some b" "execution_valid fp k j b"
      by (auto simp: validate_execution_iff split: option.splits)
    from v k obtain i where i: "position approval_event (oj_events j) = Some i" "i < k"
      using approval_before_execution[of 0 JpPlanned "oj_events j"] by auto
    with v obtain a where a: "oj_approval j = Some a" "approval_valid fp i j a"
      by (auto simp: validate_approval_iff split: option.splits)
    show ?thesis
      by (rule exI[of _ a], rule exI[of _ b], rule exI[of _ i], rule exI[of _ k])
         (use a b i k in \<open>auto simp: approval_valid_def execution_valid_def approval_fits_def execution_fits_def\<close>)
  qed
  with flag show ?thesis by blast
qed

lemma validated_mutation_is_approved_witness:
  "oj_mutation_may_have_started ex_done \<and> oj_execution ex_done = Some ex_binding
   \<and> (\<exists>ev\<in>set (oj_events ex_done). execution_event ev)"
proof -
  have v: "validate_journal ex_fp ex_done = Inr ()" using ex_valid(3) by (simp add: journal_valid_inv_def)
  have m: "oj_mutation_may_have_started ex_done" "oj_execution ex_done = Some ex_binding"
    by (simp_all add: ex_done_code)
  with validated_mutation_is_approved[OF v] show ?thesis by blast
qed

text \<open>An approval cannot be transplanted. If two accepted records carry the same approval and the
  digest function does not confuse the two states it was computed from, the records agree in
  identifier, plan, target, frozen identity and in every event up to the approval.\<close>

theorem approval_binds_one_history:
  assumes "validate_journal fp j = Inr ()" "validate_journal fp j' = Inr ()"
    "oj_approval j = Some a" "oj_approval j' = Some a"
    "position approval_event (oj_events j) = Some i" "position approval_event (oj_events j') = Some i'"
    "fp (GiJournal (preconditions_state i j)) = fp (GiJournal (preconditions_state i' j'))
       \<Longrightarrow> preconditions_state i j = preconditions_state i' j'"
  shows "oj_journal_id j = oj_journal_id j' \<and> oj_plan_id j = oj_plan_id j' \<and> oj_target j = oj_target j'
    \<and> oj_baseline_manifest_digest j = oj_baseline_manifest_digest j'
    \<and> i = i' \<and> take i (oj_events j) = take i (oj_events j')"
proof -
  have "approval_valid fp i j a" "approval_valid fp i' j' a"
    using assms(1-6) by (auto simp: validate_journal_iff validate_approval_iff)
  then have eq: "preconditions_state i j = preconditions_state i' j'"
    using assms(7) by (simp add: approval_valid_def approval_fits_def)
  have t: "take i (oj_events j) = take i' (oj_events j')"
    using arg_cong[OF eq, of oj_events] by (simp add: preconditions_state_def)
  have "i \<le> length (oj_events j)" "i' \<le> length (oj_events j')"
    using assms(5,6) by (auto dest: position_less)
  with arg_cong[OF t, of length] have "i = i'" by simp
  moreover have "oj_journal_id j = oj_journal_id j'" "oj_plan_id j = oj_plan_id j'"
    "oj_target j = oj_target j'" "oj_baseline_manifest_digest j = oj_baseline_manifest_digest j'"
    using arg_cong[OF eq, of oj_journal_id] arg_cong[OF eq, of oj_plan_id] arg_cong[OF eq, of oj_target]
      arg_cong[OF eq, of oj_baseline_manifest_digest]
    by (simp_all add: preconditions_state_def)
  ultimately show ?thesis using t by simp
qed

lemma approval_binds_one_history_witness:
  "oj_journal_id ex_running = oj_journal_id ex_done
   \<and> take 3 (oj_events ex_running) = take 3 (oj_events ex_done)"
proof -
  have v: "validate_journal ex_fp ex_running = Inr ()" "validate_journal ex_fp ex_done = Inr ()"
    using ex_valid by (simp_all add: journal_valid_inv_def)
  have "oj_approval ex_running = Some ex_approval" "oj_approval ex_done = Some ex_approval"
    "position approval_event (oj_events ex_running) = Some 3"
    "position approval_event (oj_events ex_done) = Some 3"
    "preconditions_state 3 ex_running = preconditions_state 3 ex_done"
    by (simp_all add: ex_running_code ex_done_code ex_events_approved_def ex_events_running_def
        ex_events_done_def approval_event_def preconditions_state_def)
  from approval_binds_one_history[OF v this(1-4) this(5)] show ?thesis by blast
qed

text \<open>The record the validator lets through although the state machine never writes it.\<close>

definition ex_skipped :: operation_journal where
  "ex_skipped = moved JpCompleted ''completed'' ''final topology and expected invariants verified''
     (run ex_fp [JtVerificationStarted] ex_running)"

text \<open>C17: the validator is weaker than the state machine in one place: it accepts a record of a
  two-step execution that was completed without any verified boundary, because it asks for the
  terminal verification only when a boundary is present; no sequence of calls on a journal leads
  to this record.\<close>

theorem validator_accepts_unverified_completion:
  "validate_journal ex_fp ex_skipped = Inr () \<and> oj_phase ex_skipped = JpCompleted
   \<and> map_option (\<lambda>b. length (esb_mutation_step_ids b)) (oj_execution ex_skipped) = Some 2
   \<and> oj_verified_boundary ex_skipped = None
   \<and> \<not> reachable ex_fp g ex_skipped"
proof -
  let ?j = "run ex_fp [JtVerificationStarted] ex_running"
  have "?j = run ex_fp (ex_prepare @ [JtExecutionStarted ex_binding, JtVerificationStarted]) (new_journal ex_guard)"
    by (simp add: ex_runs run_def)
  then have inv: "journal_valid_inv ex_fp ?j"
    using ex_inputs(4) by (simp add: ex_valid_run ex_execute_def)
  have "apply_transition ex_fp JtVerificationStarted ex_running =
     (moved JpVerifying ''verification-started'' ''post-mutation rediscovery and verification started''
       ex_running, Inr ())"
    by (simp add: apply_ok_iff journal_step.verifying ex_phases)
  then have p: "oj_phase ?j = JpVerifying" "oj_verified_boundary ?j = None" 
      "oj_execution ?j = Some ex_binding"
    by (simp_all add: run_def) (simp_all add: ex_running_code)
  have v: "validate_journal ex_fp ex_skipped = Inr ()"
    unfolding ex_skipped_def
    using valid_moved[OF inv, of JpCompleted "''completed''"] p by simp
  have c: "oj_phase ex_skipped = JpCompleted"
    "map_option (\<lambda>b. length (esb_mutation_step_ids b)) (oj_execution ex_skipped) = Some 2"
    "oj_verified_boundary ex_skipped = None"
    using p by (simp_all add: ex_skipped_def ex_binding_def)
  have "\<not> reachable ex_fp g ex_skipped"
  proof
    assume "reachable ex_fp g ex_skipped"
    from completed_has_boundary[OF this c(1)] c(2,3) show False by auto
  qed
  with v c show ?thesis by blast
qed

end
