(* ===== verification/RuntimeStore.thy ===== *)
theory RuntimeStore
  imports HostFiles
begin

text \<open>
  The durable store behind the runtime journals of create, create-mount and persistent
  configuration (\<open>production_create_journal.rs\<close>, \<open>production_create_mount_journal.rs\<close>,
  \<open>production_create_persistent_journal.rs\<close> under \<open>crates/executor/src\<close>; the three files repeat the
  same store, up to its directory check) and of swap replacement
  (\<open>production_swap_runtime_journal.rs\<close>). A \<open>journal_kind\<close> is what the store takes from the
  journal type: its size limit, identifier, message for a foreign record, validation, JSON encoding (\<open>serde_json\<close>, a
  parameter) and the directory check. The four error enums are one datatype here.
\<close>

section \<open>Errors and the journal type\<close>

datatype ('p, 't) runtime_error =
  RjeFeatureDisabled
| RjeAuthorizationInvalid
| RjeBindingMismatch
| RjeInvalidRecord string
| RjeInvalidTransition 'p 't
| RjeAlreadyExists string
| RjeNotFound string
| RjeNotRegularFile path
| RjeUnsafePath path
| RjeUnsafeDirectory path
| RjeTooLarge
| RjeDecode
| RjeIo path io_kind

type_synonym ('p, 't, 'a) store_action = "(('p, 't) runtime_error, 'a) action"

record ('p, 't, 'j) journal_kind =
  jk_max_bytes :: nat
  jk_id :: "'j \<Rightarrow> string"
  jk_mismatch :: string
  jk_validate :: "'j \<Rightarrow> (('p, 't) runtime_error, unit) result"
  jk_to_vec :: "'j \<Rightarrow> string option"
  jk_from_slice :: "string \<Rightarrow> 'j option"
  jk_ensure_directory :: "io_env \<Rightarrow> path \<Rightarrow> bool \<Rightarrow> ('p, 't, unit) store_action"

definition io_error :: "path \<Rightarrow> io_kind \<Rightarrow> ('p, 't) runtime_error" where
  "io_error p k = RjeIo p k"

definition validate_digest :: "string \<Rightarrow> string \<Rightarrow> (('p, 't) runtime_error, unit) result" where
  "validate_digest v label =
     (if \<not> is_lower_hex_digest v
      then Inl (RjeInvalidRecord (label @ '' is not a lowercase SHA-256 hex digest''))
      else Inr ())"

definition swap_validate_digest :: "string \<Rightarrow> string \<Rightarrow> (('p, 't) runtime_error, unit) result" where
  "swap_validate_digest v label =
     (if is_lower_hex_digest v then Inr ()
      else Inl (RjeInvalidRecord (label @ '' is not a lowercase SHA-256 digest'')))"

section \<open>Directories\<close>

definition parent_of :: "path \<Rightarrow> path option" where
  "parent_of p = (if p = [] \<or> last p = RootDir then None else Some (butlast p))"

definition file_name :: "path \<Rightarrow> string option" where
  "file_name p = (if p = [] then None else case last p of Normal n \<Rightarrow> Some n | _ \<Rightarrow> None)"

definition sync_directory :: "io_env \<Rightarrow> path \<Rightarrow> ('p, 't, unit) store_action" where
  "sync_directory env p =
     act_then (act_map_err (io_error p) (open_dir env p)) (act_map_err (io_error p) (fsync_dir env p))"

definition sync_parent :: "io_env \<Rightarrow> path \<Rightarrow> ('p, 't, unit) store_action" where
  "sync_parent env p = (case parent_of p of None \<Rightarrow> act_lift (Inl (RjeUnsafeDirectory p))
     | Some d \<Rightarrow> sync_directory env d)"

definition private_directory :: "io_env \<Rightarrow> inode \<Rightarrow> bool" where
  "private_directory env m =
     (in_kind m = FkDirectory \<and> in_uid m = e_euid env \<and> and (in_mode m) 0x1FF = 0x1C0)"

definition check_directory :: "io_env \<Rightarrow> path \<Rightarrow> inode \<Rightarrow> ('p, 't, unit) store_action" where
  "check_directory env root m =
     act_lift (if \<not> private_directory env m then Inl (RjeUnsafeDirectory root) else Inr ())"

definition ensure_secure_directory :: "io_env \<Rightarrow> path \<Rightarrow> bool \<Rightarrow> ('p, 't, unit) store_action" where
  "ensure_secure_directory env root create =
     act_match (symlink_metadata env root) (check_directory env root)
       (\<lambda>k. if k = EkNotFound \<and> create
            then act_then (act_map_err (io_error root) (make_dir env root))
                  (act_then (sync_parent env root)
                    (act_bind (act_map_err (io_error root) (symlink_metadata env root))
                      (check_directory env root)))
            else if k = EkNotFound then act_lift (Inl (RjeUnsafeDirectory root))
            else act_lift (Inl (io_error root k)))"

text \<open>The check of the persistent-configuration store, which syncs the new directory itself.\<close>

definition persistent_ensure_secure_directory ::
  "io_env \<Rightarrow> path \<Rightarrow> bool \<Rightarrow> ('p, 't, unit) store_action" where
  "persistent_ensure_secure_directory env root create =
     act_match (symlink_metadata env root) (check_directory env root)
       (\<lambda>k. if k = EkNotFound \<and> create
            then act_then (act_map_err (io_error root) (make_dir env root)) (sync_directory env root)
            else act_lift (Inl (io_error root k)))"

text \<open>
  The check of the swap store walks the components of the path, and accepts a directory it finds
  by \<open>trusted_journal_directory\<close> of \<open>journal_store.rs\<close>.
\<close>

definition trusted_journal_directory :: "io_env \<Rightarrow> inode \<Rightarrow> bool \<Rightarrow> bool" where
  "trusted_journal_directory env m is_root =
     (let owner_ok = in_uid m = 0 \<or> in_uid m = e_euid env;
          safe_mode = and (in_mode m) 0x12 = 0
            \<or> (\<not> is_root \<and> in_uid m = 0 \<and> and (in_mode m) 0x200 \<noteq> 0)
      in in_kind m = FkDirectory \<and> owner_ok \<and> safe_mode)"

definition swap_check_component :: "io_env \<Rightarrow> path \<Rightarrow> path \<Rightarrow> inode \<Rightarrow> ('p, 't, unit) store_action" where
  "swap_check_component env whole current m =
     act_lift (if \<not> trusted_journal_directory env m (current = whole)
               then Inl (RjeUnsafeDirectory current) else Inr ())"

definition swap_ensure_component ::
  "io_env \<Rightarrow> path \<Rightarrow> bool \<Rightarrow> path \<Rightarrow> ('p, 't, unit) store_action" where
  "swap_ensure_component env whole create current =
     act_match (symlink_metadata env current) (swap_check_component env whole current)
       (\<lambda>k. if k = EkNotFound \<and> create
            then act_then
                   (act_match (make_dir env current) (\<lambda>_. act_lift (Inr ()))
                     (\<lambda>k. act_lift (if k \<noteq> EkAlreadyExists then Inl (io_error current k) else Inr ())))
                   (act_bind (act_map_err (io_error current) (symlink_metadata env current))
                     (swap_check_component env whole current))
            else act_lift (Inl (io_error current k)))"

fun swap_walk ::
  "io_env \<Rightarrow> path \<Rightarrow> bool \<Rightarrow> path \<Rightarrow> path_component list \<Rightarrow> ('p, 't, unit) store_action" where
  "swap_walk env whole create current [] = act_lift (Inr ())"
| "swap_walk env whole create current (c # cs) =
     (case c of
        RootDir \<Rightarrow> swap_walk env whole create (current @ [RootDir]) cs
      | Normal part \<Rightarrow>
          act_then (swap_ensure_component env whole create (current @ [Normal part]))
            (swap_walk env whole create (current @ [Normal part]) cs)
      | _ \<Rightarrow> act_lift (Inl (RjeUnsafeDirectory whole)))"

definition swap_ensure_secure_directory ::
  "io_env \<Rightarrow> path \<Rightarrow> bool \<Rightarrow> ('p, 't, unit) store_action" where
  "swap_ensure_secure_directory env p create =
     (if take 1 p \<noteq> [RootDir] then act_lift (Inl (RjeUnsafeDirectory p))
      else act_then (swap_walk env p create [] p)
        (act_bind (act_map_err (io_error p) (symlink_metadata env p))
          (\<lambda>m. act_lift (if in_kind m \<noteq> FkDirectory \<or> in_uid m \<noteq> e_euid env \<or> and (in_mode m) 0x12 \<noteq> 0
                         then Inl (RjeUnsafeDirectory p) else Inr ()))))"

section \<open>Records\<close>

definition private_file :: "io_env \<Rightarrow> inode \<Rightarrow> bool" where
  "private_file env m =
     (in_kind m = FkRegular \<and> in_uid m = e_euid env \<and> and (in_mode m) 0x1FF = 0x180 \<and> in_nlink m = 1)"

definition validate_journal_file_metadata ::
  "io_env \<Rightarrow> path \<Rightarrow> inode \<Rightarrow> (('p, 't) runtime_error, unit) result" where
  "validate_journal_file_metadata env p m =
     (if \<not> private_file env m then Inl (RjeUnsafePath p) else Inr ())"

definition encode_journal :: "('p, 't, 'j) journal_kind \<Rightarrow> 'j \<Rightarrow> (('p, 't) runtime_error, string) result" where
  "encode_journal jk j = (case jk_to_vec jk j of None \<Rightarrow> Inl RjeDecode
     | Some bytes \<Rightarrow> (let bytes = bytes @ [char_of (10::nat)]
         in if jk_max_bytes jk < length bytes then Inl RjeTooLarge else Inr bytes))"

definition path_for :: "path \<Rightarrow> string \<Rightarrow> (('p, 't) runtime_error, path) result" where
  "path_for root journal_id =
     and_then (validate_digest journal_id ''journal ID'')
       (\<lambda>_. Inr (root @ [Normal (journal_id @ ''.json'')]))"

definition next_sequence :: "('e, u64) action" where
  "next_sequence w = (Inr (w_temp_sequence w), w\<lparr>w_temp_sequence := w_temp_sequence w + 1\<rparr>)"

definition temp_path :: "io_env \<Rightarrow> path \<Rightarrow> path \<Rightarrow> ('p, 't, path) store_action" where
  "temp_path env root final = (case file_name final of
       None \<Rightarrow> act_lift (Inl (RjeUnsafePath final))
     | Some name \<Rightarrow> act_bind next_sequence (\<lambda>sequence.
         act_lift (Inr (root @ [Normal (''.'' @ name @ ''.tmp-'' @ show_word (e_pid env) @ ''-''
           @ show_word sequence)]))))"

text \<open>The part the two writers share: a new temporary file with the bytes, synced.\<close>

definition write_staged :: "io_env \<Rightarrow> path \<Rightarrow> string \<Rightarrow> ('p, 't, unit) store_action" where
  "write_staged env temp bytes =
     act_bind (act_map_err (io_error temp) (open_new env temp)) (\<lambda>file.
       act_then (act_map_err (io_error temp) (write_all env file bytes))
         (act_map_err (io_error temp) (sync_file env file)))"

definition write_atomic_new ::
  "('p, 't, 'j) journal_kind \<Rightarrow> io_env \<Rightarrow> path \<Rightarrow> path \<Rightarrow> 'j \<Rightarrow> ('p, 't, unit) store_action" where
  "write_atomic_new jk env root final journal =
     act_bind (act_lift (encode_journal jk journal)) (\<lambda>bytes.
     act_bind (temp_path env root final) (\<lambda>temp.
       act_cleanup
         (act_then (write_staged env temp bytes)
           (act_then
             (act_match (hard_link env temp final) (\<lambda>_. act_lift (Inr ()))
               (\<lambda>k. act_lift (Inl (if k = EkAlreadyExists then RjeAlreadyExists (jk_id jk journal)
                                   else io_error final k))))
             (act_then (act_map_err (io_error temp) (remove_file env temp))
               (sync_directory env root))))
         (remove_file env temp)))"

definition write_atomic_replace ::
  "('p, 't, 'j) journal_kind \<Rightarrow> io_env \<Rightarrow> path \<Rightarrow> path \<Rightarrow> 'j \<Rightarrow> ('p, 't, unit) store_action" where
  "write_atomic_replace jk env root final journal =
     act_bind (act_lift (encode_journal jk journal)) (\<lambda>bytes.
     act_bind (temp_path env root final) (\<lambda>temp.
       act_cleanup
         (act_then (write_staged env temp bytes)
           (act_then (act_map_err (io_error final) (rename_file env temp final))
             (sync_directory env root)))
         (remove_file env temp)))"

section \<open>The operations of a store\<close>

definition load ::
  "('p, 't, 'j) journal_kind \<Rightarrow> io_env \<Rightarrow> path \<Rightarrow> string \<Rightarrow> ('p, 't, 'j) store_action" where
  "load jk env root journal_id =
     act_then (act_lift (validate_digest journal_id ''journal ID''))
     (act_then (jk_ensure_directory jk env root False)
     (act_bind (act_lift (path_for root journal_id)) (\<lambda>p.
      act_bind (act_map_err (io_error p) (symlink_metadata env p)) (\<lambda>m.
      act_then (act_lift (validate_journal_file_metadata env p m))
     (act_then (act_lift (if jk_max_bytes jk < length (in_data m) then Inl RjeTooLarge else Inr ()))
     (act_bind (act_map_err (io_error p) (open_read env p)) (\<lambda>file.
      act_bind (act_map_err (io_error p) (read_limited env file (jk_max_bytes jk + 1))) (\<lambda>bytes.
      act_lift
        (if jk_max_bytes jk < length bytes then Inl RjeTooLarge
         else case jk_from_slice jk bytes of None \<Rightarrow> Inl RjeDecode
           | Some j \<Rightarrow>
               (if jk_id jk j \<noteq> journal_id
                then Inl (RjeInvalidRecord (jk_mismatch jk))
                else and_then (jk_validate jk j) (\<lambda>_. Inr j)))))))))))"

definition persist_new ::
  "('p, 't, 'j) journal_kind \<Rightarrow> (path \<Rightarrow> bool) \<Rightarrow> io_env \<Rightarrow> path \<Rightarrow> 'j \<Rightarrow> ('p, 't, path) store_action" where
  "persist_new jk resolves env root journal =
     act_then (act_lift (jk_validate jk journal))
     (act_then (jk_ensure_directory jk env root True)
     (act_bind (act_lift (path_for root (jk_id jk journal))) (\<lambda>final.
      act_bind (path_exists resolves env final) (\<lambda>there.
        if there then act_lift (Inl (RjeAlreadyExists (jk_id jk journal)))
        else act_then (write_atomic_new jk env root final journal) (act_lift (Inr final))))))"

definition persist ::
  "('p, 't, 'j) journal_kind \<Rightarrow> io_env \<Rightarrow> path \<Rightarrow> 'j \<Rightarrow> ('p, 't, path) store_action" where
  "persist jk env root journal =
     act_then (act_lift (jk_validate jk journal))
     (act_then (jk_ensure_directory jk env root False)
     (act_bind (act_lift (path_for root (jk_id jk journal))) (\<lambda>final.
      act_bind (act_map_err (io_error final) (symlink_metadata env final)) (\<lambda>m.
      act_then (act_lift (validate_journal_file_metadata env final m))
     (act_then (write_atomic_replace jk env root final journal) (act_lift (Inr final)))))))"

text \<open>
  \<open>persist_*_transition\<close>: the transition on a copy, the copy made durable, and only then the
  journal in memory replaced. The value is the journal in memory after the call.
\<close>

definition persist_transition ::
  "(('p, 't, 'j) journal_kind \<Rightarrow> io_env \<Rightarrow> path \<Rightarrow> 'j \<Rightarrow> ('p, 't, path) store_action)
   \<Rightarrow> ('x \<Rightarrow> 'j \<Rightarrow> (('p, 't) runtime_error, 'j) result)
   \<Rightarrow> ('p, 't, 'j) journal_kind \<Rightarrow> io_env \<Rightarrow> path \<Rightarrow> 'j \<Rightarrow> 'x \<Rightarrow> ('p, 't, 'j) store_action" where
  "persist_transition persist_op apply_op jk env root journal transition =
     act_bind (act_lift (apply_op transition journal)) (\<lambda>candidate.
       act_then (persist_op jk env root candidate) (act_lift (Inr candidate)))"

definition journal_after :: "'j \<Rightarrow> ('e, 'j) result \<Rightarrow> 'j" where
  "journal_after journal r = (case r of Inl _ \<Rightarrow> journal | Inr candidate \<Rightarrow> candidate)"

section \<open>The swap store\<close>

definition swap_encode_journal ::
  "('p, 't, 'j) journal_kind \<Rightarrow> 'j \<Rightarrow> (('p, 't) runtime_error, string) result" where
  "swap_encode_journal jk j = (case jk_to_vec jk j of None \<Rightarrow> Inl RjeDecode
     | Some bytes \<Rightarrow> (if jk_max_bytes jk < length bytes then Inl RjeTooLarge else Inr bytes))"

definition swap_path_for :: "path \<Rightarrow> string \<Rightarrow> (('p, 't) runtime_error, path) result" where
  "swap_path_for root journal_id =
     and_then (swap_validate_digest journal_id ''journal ID'')
       (\<lambda>_. Inr (root @ [Normal (journal_id @ ''.json'')]))"

definition swap_temp_path :: "io_env \<Rightarrow> path \<Rightarrow> string \<Rightarrow> ('e, path) action" where
  "swap_temp_path env root journal_id = act_bind next_sequence (\<lambda>sequence.
     act_lift (Inr (root @ [Normal (''.'' @ journal_id @ ''.tmp-'' @ show_word (e_pid env) @ ''-''
       @ show_word sequence)])))"

definition swap_write_staged :: "io_env \<Rightarrow> path \<Rightarrow> string \<Rightarrow> ('p, 't, unit) store_action" where
  "swap_write_staged env temp bytes =
     act_bind (act_map_err (io_error temp) (open_new env temp)) (\<lambda>file.
       act_then (act_map_err (io_error temp) (write_all env file bytes))
       (act_then (act_map_err (io_error temp) (write_all env file [char_of (10::nat)]))
         (act_map_err (io_error temp) (sync_file env file))))"

definition swap_persist_new ::
  "('p, 't, 'j) journal_kind \<Rightarrow> io_env \<Rightarrow> path \<Rightarrow> 'j \<Rightarrow> ('p, 't, path) store_action" where
  "swap_persist_new jk env root journal =
     act_then (act_lift (jk_validate jk journal))
     (act_then (jk_ensure_directory jk env root True)
     (act_bind (act_lift (swap_encode_journal jk journal)) (\<lambda>bytes.
      act_bind (act_lift (swap_path_for root (jk_id jk journal))) (\<lambda>final.
      act_bind (swap_temp_path env root (jk_id jk journal)) (\<lambda>temp.
        act_cleanup
          (act_then (swap_write_staged env temp bytes)
          (act_then
            (act_match (hard_link env temp final) (\<lambda>_. act_lift (Inr ()))
              (\<lambda>k. act_lift (Inl (if k = EkAlreadyExists then RjeAlreadyExists (jk_id jk journal)
                                  else io_error final k))))
          (act_then (act_map_err (io_error temp) (remove_file env temp))
          (act_then (sync_directory env root) (act_lift (Inr final))))))
          (remove_file env temp))))))"

definition swap_checked_metadata ::
  "io_env \<Rightarrow> path \<Rightarrow> string \<Rightarrow> ('p, 't, inode) store_action" where
  "swap_checked_metadata env p journal_id =
     act_match (symlink_metadata env p)
       (\<lambda>m. act_lift (if \<not> private_file env m then Inl (RjeNotRegularFile p) else Inr m))
       (\<lambda>k. act_lift (Inl (if k = EkNotFound then RjeNotFound journal_id else io_error p k)))"

definition swap_persist ::
  "('p, 't, 'j) journal_kind \<Rightarrow> io_env \<Rightarrow> path \<Rightarrow> 'j \<Rightarrow> ('p, 't, path) store_action" where
  "swap_persist jk env root journal =
     act_then (act_lift (jk_validate jk journal))
     (act_then (jk_ensure_directory jk env root True)
     (act_bind (act_lift (swap_encode_journal jk journal)) (\<lambda>bytes.
      act_bind (act_lift (swap_path_for root (jk_id jk journal))) (\<lambda>final.
      act_then (swap_checked_metadata env final (jk_id jk journal))
     (act_bind (swap_temp_path env root (jk_id jk journal)) (\<lambda>temp.
        act_cleanup
          (act_then (swap_write_staged env temp bytes)
          (act_then (act_map_err (io_error final) (rename_file env temp final))
          (act_then (sync_directory env root) (act_lift (Inr final)))))
          (remove_file env temp)))))))"

definition swap_load ::
  "('p, 't, 'j) journal_kind \<Rightarrow> io_env \<Rightarrow> path \<Rightarrow> string \<Rightarrow> ('p, 't, 'j) store_action" where
  "swap_load jk env root journal_id =
     act_then (act_lift (swap_validate_digest journal_id ''journal ID''))
     (act_then (jk_ensure_directory jk env root False)
     (act_bind (act_lift (swap_path_for root journal_id)) (\<lambda>p.
      act_bind (swap_checked_metadata env p journal_id) (\<lambda>m.
      act_then (act_lift (if jk_max_bytes jk < length (in_data m) then Inl RjeTooLarge else Inr ()))
     (act_bind (act_map_err (io_error p) (open_read env p)) (\<lambda>file.
      act_bind (act_map_err (io_error p) (read_limited env file (jk_max_bytes jk + 1))) (\<lambda>bytes.
      act_lift
        (if jk_max_bytes jk < length bytes then Inl RjeTooLarge
         else case jk_from_slice jk bytes of None \<Rightarrow> Inl RjeDecode
           | Some j \<Rightarrow>
               (if jk_id jk j \<noteq> journal_id
                then Inl (RjeInvalidRecord (jk_mismatch jk))
                else and_then (jk_validate jk j) (\<lambda>_. Inr j))))))))))"

section \<open>Crash safety of the writers\<close>

text \<open>
  \<open>kept S final\<close>: a crash leaves one of the outcomes \<open>S\<close> at \<open>final\<close>. \<open>staged\<close>: the temporary file is
  inode \<open>i\<close>, which no entry of \<open>final\<close> names. \<open>published\<close>: the record is at \<open>final\<close>, on the disk and in
  memory, in a private file.
\<close>

definition kept :: "crash_file set \<Rightarrow> path \<Rightarrow> host \<Rightarrow> bool" where
  "kept S final h = (set (survivors h final) \<subseteq> S)"

definition allocated :: "path \<Rightarrow> host \<Rightarrow> bool" where
  "allocated p h = (\<forall>i. Some i \<in> set (entries h p) \<longrightarrow> i < h_next h)"

definition file_with :: "io_env \<Rightarrow> string \<Rightarrow> bool \<Rightarrow> inode" where
  "file_with env bytes synced = (new_inode env FkRegular 0x180)\<lparr>in_data := bytes, in_synced := synced\<rparr>"

definition staged ::
  "io_env \<Rightarrow> path \<Rightarrow> path \<Rightarrow> crash_file set \<Rightarrow> string \<Rightarrow> bool \<Rightarrow> nat \<Rightarrow> host \<Rightarrow> bool" where
  "staged env temp final S bytes synced i h =
     (kept S final h \<and> Some i \<notin> set (entries h final) \<and> h_names h temp = Some i
      \<and> h_inodes h i = file_with env bytes synced)"

definition linked :: "io_env \<Rightarrow> path \<Rightarrow> crash_file set \<Rightarrow> string \<Rightarrow> host \<Rightarrow> bool" where
  "linked env final S bytes h =
     (kept S final h \<and> (\<exists>i. h_names h final = Some i \<and> h_inodes h i = file_with env bytes True))"

definition published :: "io_env \<Rightarrow> path \<Rightarrow> string \<Rightarrow> host \<Rightarrow> bool" where
  "published env final bytes h =
     (\<exists>i. h_names h final = Some i \<and> h_disk h final = [Some i]
          \<and> h_inodes h i = file_with env bytes True)"

lemma published_survivors: "published env final bytes h \<Longrightarrow> set (survivors h final) = {Intact bytes}"
  by (auto simp: published_def survivors_def entries_def survivor_def file_with_def)

lemma survivor_set_entry [simp]: "survivor (set_entry p e h) = survivor h"
  by (simp add: fun_eq_iff survivor_def set_entry_def split: option.split)

lemma set_entry_fields [simp]:
  "h_names (set_entry p e h) q = (if q = p then e else h_names h q)"
  "h_disk (set_entry p e h) q = (if q = p then h_disk h p @ [e] else h_disk h q)"
  "h_inodes (set_entry p e h) = h_inodes h"
  by (simp_all add: set_entry_def)

lemma survivors_set_entry:
  "survivors (set_entry p e h) q =
     (if p = q then survivor h e # map (survivor h) (h_disk h p @ [e]) else survivors h q)"
  by (simp add: survivors_def entries_def)

lemma survivors_set_inode:
  "Some i \<notin> set (entries h q) \<Longrightarrow> survivors (set_inode i n h) q = survivors h q"
  by (auto simp: survivors_def entries_def survivor_def set_inode_def split: option.split)

lemma survivors_add_links [simp]: "survivors (add_links i k h) q = survivors h q"
  by (simp add: survivors_def entries_def survivor_def set_inode_def add_links_def split: option.split)

lemma survivor_add_links [simp]: "survivor (add_links i k h) = survivor h"
  by (auto simp: fun_eq_iff survivor_def set_inode_def add_links_def split: option.split)

lemma survivor_sync [simp]: "survivor (sync_entries d h) = survivor h"
  by (simp add: fun_eq_iff survivor_def sync_entries_def split: option.split)

lemma kept_sync: "kept S p h \<Longrightarrow> kept S p (sync_entries d h)"
  by (auto simp: kept_def survivors_def entries_def) (auto simp: sync_entries_def split: if_splits)

lemma open_new_staged:
  assumes "temp \<noteq> final"
  shows "triple (kept S final) (\<lambda>h. kept S final h \<and> allocated final h) (open_new env temp)
           (\<lambda>i. staged env temp final S [] False i) (\<lambda>_. kept S final)"
  unfolding open_new_def create_entry_def
proof (rule triple_syscall, goal_cases)
  case (1 fault h r h')
  have n: "Some (h_next h) \<notin> set (entries h final)" using 1 by (auto simp: allocated_def)
  let ?h = "set_entry temp (Some (h_next h)) (set_inode (h_next h) (new_inode env FkRegular 0x180)
              (h\<lparr>h_next := Suc (h_next h)\<rparr>))"
  have e: "entries ?h final = entries h final" using assms
    by (simp add: entries_def set_entry_def set_inode_def)
  have s: "survivors ?h final = survivors h final" using assms n
    by (auto simp: survivors_def entries_def survivor_def set_entry_def set_inode_def split: option.split)
  have "staged env temp final S [] False (h_next h) ?h" using 1 n e s
    by (simp add: staged_def kept_def)
       (simp add: set_entry_def set_inode_def file_with_def new_inode_def)
  with 1 show ?case
    by (auto simp: kept_def s staged_def split: option.splits if_splits prod.splits)
qed

lemma write_all_staged:
  "triple (kept S final) (staged env temp final S bs sy i) (write_all env i bytes)
     (\<lambda>_. staged env temp final S (bs @ bytes) False i) (\<lambda>_. kept S final)"
  unfolding write_all_def
  by (rule triple_syscall)
     (auto simp: staged_def kept_def survivors_set_inode Let_def file_with_def split: option.splits prod.splits,
      auto simp: set_inode_def entries_def)

lemma sync_file_staged:
  "triple (kept S final) (staged env temp final S bs sy i) (sync_file env i)
     (\<lambda>_. staged env temp final S bs True i) (\<lambda>_. kept S final)"
  unfolding sync_file_def
  by (rule triple_syscall)
     (auto simp: staged_def kept_def survivors_set_inode Let_def file_with_def split: option.splits prod.splits,
      auto simp: set_inode_def entries_def)

lemma rename_staged:
  assumes "temp \<noteq> final" and "Intact bytes \<in> S"
  shows "triple (kept S final) (staged env temp final S bytes True i) (rename_file env temp final)
           (\<lambda>_. linked env final S bytes) (\<lambda>_. kept S final)"
  unfolding rename_file_def
proof (rule triple_syscall, goal_cases)
  case (1 fault h r h')
  let ?g = "case h_names h final of None \<Rightarrow> h | Some j \<Rightarrow> add_links j (-1) h"
  let ?h = "set_entry temp None (set_entry final (Some i) ?g)"
  from 1 have st: "kept S final h" "Some i \<notin> set (entries h final)" "h_names h temp = Some i"
    "h_inodes h i = file_with env bytes True" by (simp_all add: staged_def)
  then have ne: "h_names h final \<noteq> Some i" by (simp add: entries_def) metis
  have g: "h_inodes ?g i = file_with env bytes True" "survivor ?g = survivor h" "h_disk ?g = h_disk h"
    using st ne by (auto split: option.split) (auto simp: add_links_def set_inode_def)
  have "survivor h (Some i) = Intact bytes" using st(4) by (simp add: survivor_def file_with_def)
  then have "set (survivors ?h final) \<subseteq> S"
    using assms st(1) g by (auto simp: kept_def survivors_def entries_def)
  moreover have "h_names ?h final = Some i" "h_inodes ?h i = file_with env bytes True"
    using assms g by (simp_all add: set_entry_def)
  ultimately have "linked env final S bytes ?h" by (simp add: linked_def kept_def)
  with 1 st ne show ?case by (auto simp: linked_def split: option.splits prod.splits)
qed

lemma sync_linked:
  assumes "in_directory root final"
  shows "triple (kept S final) (linked env final S bytes) (sync_directory env' root)
           (\<lambda>_. published env final bytes) (\<lambda>_. kept S final)"
  unfolding sync_directory_def
proof (rule triple_then, rule triple_map_err)
  show "triple (kept S final) (linked env final S bytes) (open_dir env' root)
          (\<lambda>_. linked env final S bytes) (\<lambda>_. kept S final)"
    unfolding open_dir_def by (rule triple_syscall) (auto simp: linked_def split: option.splits if_splits)
  show "triple (kept S final) (linked env final S bytes)
          (act_map_err (io_error root) (fsync_dir env' root))
          (\<lambda>_. published env final bytes) (\<lambda>_. kept S final)"
    unfolding fsync_dir_def
    by (rule triple_map_err, rule triple_syscall)
       (use assms in \<open>auto simp: linked_def kept_sync published_def split: option.splits\<close>,
        auto simp: sync_entries_def)
qed

lemma remove_temp_kept:
  assumes "temp \<noteq> final"
  shows "triple (kept S final) (kept S final) (remove_file env temp) (\<lambda>_. kept S final) (\<lambda>_. kept S final)"
  unfolding remove_file_def
  by (rule triple_syscall)
     (use assms in \<open>auto simp: kept_def survivors_set_entry split: option.splits if_splits\<close>)

lemma write_staged_kept:
  assumes "temp \<noteq> final"
  shows "triple (kept S final) (\<lambda>h. kept S final h \<and> allocated final h) (write_staged env temp bytes)
           (\<lambda>_ h. \<exists>i. staged env temp final S bytes True i h) (\<lambda>_. kept S final)"
proof -
  have sync: "triple (kept S final) (staged env temp final S bytes False i) (sync_file env i)
                (\<lambda>_ h. \<exists>i. staged env temp final S bytes True i h) (\<lambda>_. kept S final)" for i
    by (rule triple_weaken[OF sync_file_staged]) auto
  show ?thesis
    unfolding write_staged_def
    by (rule triple_bind, rule triple_map_err, rule open_new_staged[OF assms],
        rule triple_then, rule triple_map_err, rule write_all_staged, simp,
        rule triple_map_err, rule sync)
qed

lemma hard_link_staged:
  assumes "temp \<noteq> final" and "Absent \<in> S \<longrightarrow> Intact bytes \<in> S"
  shows "triple (kept S final) (staged env temp final S bytes True i) (hard_link env temp final)
           (\<lambda>_ h. kept S final h \<and> h_names h final = Some i \<and> h_names h temp = Some i
                  \<and> h_inodes h i = (file_with env bytes True)\<lparr>in_nlink := 2\<rparr>)
           (\<lambda>_. kept S final)"
  unfolding hard_link_def
proof (rule triple_syscall, goal_cases)
  case (1 fault h r h')
  let ?h = "set_entry final (Some i) (add_links i 1 h)"
  from 1 have st: "kept S final h" "h_names h temp = Some i" "h_inodes h i = file_with env bytes True"
    by (simp_all add: staged_def)
  then have i: "survivor h (Some i) = Intact bytes"
    "h_inodes (add_links i 1 h) i = (file_with env bytes True)\<lparr>in_nlink := 2\<rparr>"
    by (simp_all add: survivor_def file_with_def add_links_def set_inode_def new_inode_def)
  have d: "h_disk (add_links i 1 h) = h_disk h" "h_names (add_links i 1 h) = h_names h"
    by (simp_all add: add_links_def set_inode_def)
  have "Absent \<in> S" if "h_names h final = None"
    using st(1) that by (auto simp: kept_def survivors_def entries_def survivor_def)
  then have "kept S final ?h" if "h_names h final = None"
    using that assms st(1) i d by (auto simp: kept_def survivors_def entries_def)
  with 1 st i d assms show ?case by (auto split: option.splits prod.splits if_splits)
qed

lemma remove_linked:
  assumes "temp \<noteq> final"
  shows "triple (kept S final)
           (\<lambda>h. kept S final h \<and> h_names h final = Some i \<and> h_names h temp = Some i
                  \<and> h_inodes h i = (file_with env bytes True)\<lparr>in_nlink := 2\<rparr>)
           (remove_file env temp) (\<lambda>_. linked env final S bytes) (\<lambda>_. kept S final)"
  unfolding remove_file_def
proof (rule triple_syscall, goal_cases)
  case (1 fault h r h')
  have "h_inodes (add_links i (-1) h) i = file_with env bytes True"
    "h_names (add_links i (-1) h) = h_names h"
    using 1 by (simp_all add: file_with_def add_links_def set_inode_def new_inode_def)
  with 1 assms show ?case
    by (auto simp: linked_def kept_def survivors_set_entry file_with_def new_inode_def
          split: option.splits prod.splits if_splits)
qed

lemma next_sequence_triple:
  "(\<And>h. P h \<Longrightarrow> C h) \<Longrightarrow> triple C P next_sequence (\<lambda>_. P) E"
  by (simp add: triple_def next_sequence_def passed_def)

lemma triple_pure: "(b \<Longrightarrow> triple C P m Q E) \<Longrightarrow> triple C (\<lambda>h. b \<and> P h) m Q E"
  by (cases b) (simp_all add: triple_def)

lemma temp_path_triple:
  assumes final: "final = root @ [Normal name]" and P: "\<And>h. P h \<Longrightarrow> C h"
  shows "triple C P (temp_path env root final) (\<lambda>temp h. temp \<noteq> final \<and> P h) E"
proof -
  have "name \<noteq> ''.'' @ name @ t" for t
    by (metis append_Cons length_Cons length_append not_add_less1 less_Suc_eq add_Suc_right append_Nil)
  then show ?thesis
    unfolding temp_path_def file_name_def final
    by simp (rule triple_bind, rule next_sequence_triple, rule P, assumption, rule triple_lift, simp)
qed

lemma triple_ok: "triple C P (act_lift (Inr x)) (\<lambda>_. P) E"
  by (rule triple_lift) simp

lemma triple_error: "(\<And>h. P h \<Longrightarrow> E e h) \<Longrightarrow> triple C P (act_lift (Inl e)) Q E"
  by (rule triple_lift) simp

lemma triple_exists: "(\<And>i. triple C (P i) m Q E) \<Longrightarrow> triple C (\<lambda>h. \<exists>i. P i h) m Q E"
  by (auto simp: triple_def)

lemma triple_guard:
  assumes "\<And>x. r = Inr x \<Longrightarrow> triple C P (f x) Q E" and "\<And>e h. P h \<Longrightarrow> E e h"
  shows "triple C P (act_bind (act_lift r) f) Q E"
  by (rule triple_bind[where R = "\<lambda>x h. r = Inr x \<and> P h"], rule triple_lift)
     (use assms in \<open>auto intro: triple_pure split: sum.split\<close>)

text \<open>What the four writers share: staging, publishing, and the cleanup of a failure.\<close>

lemma staged_publish:
  assumes "temp \<noteq> final" and "\<And>i. triple (kept S final) (staged env temp final S bytes True i) k Q (\<lambda>_. kept S final)"
  shows "triple (kept S final) (\<lambda>h. kept S final h \<and> allocated final h)
           (act_cleanup (act_then (write_staged env temp bytes) k) (remove_file env temp)) Q (\<lambda>_. kept S final)"
  by (rule triple_cleanup[where R = "\<lambda>_. kept S final"], rule triple_then,
      rule write_staged_kept, rule assms(1), rule triple_exists, rule assms(2),
      rule remove_temp_kept, rule assms(1))

lemma rename_publish:
  assumes "temp \<noteq> final" and "Intact bytes \<in> S" and "in_directory root final"
  shows "triple (kept S final) (staged env temp final S bytes True i)
           (act_then (act_map_err (io_error final) (rename_file env temp final)) (sync_directory env root))
           (\<lambda>_. published env final bytes) (\<lambda>_. kept S final)"
  by (rule triple_then, rule triple_map_err, rule rename_staged[OF assms(1,2)],
      rule sync_linked[OF assms(3)])

lemma link_publish:
  assumes "temp \<noteq> final" and "Absent \<in> S \<longrightarrow> Intact bytes \<in> S" and "in_directory root final"
  shows "triple (kept S final) (staged env temp final S bytes True i)
           (act_then
             (act_match (hard_link env temp final) (\<lambda>_. act_lift (Inr ())) (\<lambda>k. act_lift (Inl (err k))))
             (act_then (act_map_err (io_error temp) (remove_file env temp)) (sync_directory env root)))
           (\<lambda>_. published env final bytes) (\<lambda>_. kept S final)"
  by (rule triple_then, rule triple_match, rule hard_link_staged[OF assms(1,2)],
      rule triple_ok, rule triple_error, assumption,
      rule triple_then, rule triple_map_err, rule remove_linked[OF assms(1)],
      rule sync_linked[OF assms(3)])

lemma write_atomic_replace_kept:
  assumes final: "final = root @ [Normal name]"
    and enc: "encode_journal jk j = Inr bytes" and new: "Intact bytes \<in> S"
  shows "triple (kept S final) (\<lambda>h. kept S final h \<and> allocated final h)
           (write_atomic_replace jk env root final j)
           (\<lambda>_. published env final bytes) (\<lambda>_. kept S final)"
proof -
  have in_dir: "in_directory root final" by (simp add: final in_directory_def)
  show ?thesis
    unfolding write_atomic_replace_def enc
    by (rule triple_guard, simp, rule triple_bind, rule temp_path_triple[OF final], blast,
        rule triple_pure, rule staged_publish, assumption, rule rename_publish[OF _ new in_dir],
        assumption, blast)
qed

lemma write_atomic_new_kept:
  assumes final: "final = root @ [Normal name]"
    and enc: "encode_journal jk j = Inr bytes" and new: "Absent \<in> S \<longrightarrow> Intact bytes \<in> S"
  shows "triple (kept S final) (\<lambda>h. kept S final h \<and> allocated final h)
           (write_atomic_new jk env root final j)
           (\<lambda>_. published env final bytes) (\<lambda>_. kept S final)"
proof -
  have in_dir: "in_directory root final" by (simp add: final in_directory_def)
  show ?thesis
    unfolding write_atomic_new_def enc
    by (rule triple_guard, simp, rule triple_bind, rule temp_path_triple[OF final], blast,
        rule triple_pure, rule staged_publish, assumption, rule link_publish[OF _ new in_dir],
        assumption, blast)
qed

section \<open>The operations keep the record\<close>

definition record_at :: "path \<Rightarrow> string \<Rightarrow> path" where
  "record_at root journal_id = root @ [Normal (journal_id @ ''.json'')]"

abbreviation present :: "crash_file set \<Rightarrow> path \<Rightarrow> host \<Rightarrow> bool" where
  "present S final h \<equiv> kept S final h \<and> allocated final h"

lemma path_for_ok:
  "path_for root i = Inr p \<longleftrightarrow> is_lower_hex_digest i \<and> p = record_at root i"
  "swap_path_for root i = Inr p \<longleftrightarrow> is_lower_hex_digest i \<and> p = record_at root i"
  by (auto simp: path_for_def swap_path_for_def validate_digest_def swap_validate_digest_def
        record_at_def)

lemma stat_triple:
  "(\<And>h. P h \<Longrightarrow> C h) \<Longrightarrow> triple C P (symlink_metadata env p) (\<lambda>_. P) (\<lambda>_. P)"
  unfolding symlink_metadata_def by (rule triple_syscall) (auto split: option.splits prod.splits)

lemma exists_triple:
  "(\<And>h. P h \<Longrightarrow> C h) \<Longrightarrow> triple C P (path_exists resolves env p) (\<lambda>_. P) E"
  unfolding path_exists_def
  by (rule triple_match, rule stat_triple, assumption, rule triple_ok, rule triple_ok)

lemma check_directory_triple:
  "(\<And>e h. P h \<Longrightarrow> E e h) \<Longrightarrow> triple C P (check_directory env root m) (\<lambda>_. P) E"
  unfolding check_directory_def by (rule triple_lift) (auto split: sum.split)

text \<open>Making a directory other than the record, and syncing one, keep it.\<close>

lemma make_dir_present:
  assumes "d \<noteq> final"
  shows "triple (kept S final) (present S final) (make_dir env d) (\<lambda>_. present S final) (\<lambda>_. present S final)"
  unfolding make_dir_def create_entry_def
proof (rule triple_syscall, goal_cases)
  case (1 fault h r h')
  let ?h = "set_entry d (Some (h_next h)) (set_inode (h_next h) (new_inode env FkDirectory 0x1C0)
              (h\<lparr>h_next := Suc (h_next h)\<rparr>))"
  have n: "Some (h_next h) \<notin> set (entries h final)" using 1 by (auto simp: allocated_def)
  have e: "entries ?h final = entries h final" using assms
    by (simp add: entries_def set_entry_def set_inode_def)
  have s: "survivors ?h final = survivors h final" using assms n
    by (auto simp: survivors_def entries_def survivor_def set_entry_def set_inode_def split: option.split)
  have "h_next ?h = Suc (h_next h)" by (simp add: set_entry_def set_inode_def)
  with 1 e s have "present S final ?h" by (auto simp: kept_def allocated_def less_Suc_eq)
  with 1 show ?case by (auto split: option.splits if_splits prod.splits)
qed

lemma sync_directory_present:
  "triple (kept S final) (present S final) (sync_directory env d) (\<lambda>_. present S final) (\<lambda>_. present S final)"
  unfolding sync_directory_def
proof (rule triple_then, rule triple_map_err)
  show "triple (kept S final) (present S final) (open_dir env d) (\<lambda>_. present S final) (\<lambda>_. present S final)"
    unfolding open_dir_def by (rule triple_syscall) (auto split: option.splits if_splits)
  have "allocated final (sync_entries d h)" if "allocated final h" for h
    using that by (auto simp: allocated_def entries_def sync_entries_def split: if_splits)
  then show "triple (kept S final) (present S final) (act_map_err (io_error d) (fsync_dir env d))
          (\<lambda>_. present S final) (\<lambda>_. present S final)"
    unfolding fsync_dir_def
    by (intro triple_map_err triple_syscall) (auto simp: kept_sync split: option.splits)
qed

lemma sync_parent_present:
  "triple (kept S final) (present S final) (sync_parent env d) (\<lambda>_. present S final) (\<lambda>_. present S final)"
  unfolding sync_parent_def
  by (cases "parent_of d") (auto intro: triple_error sync_directory_present)

lemma ensure_directory_present:
  assumes "root \<noteq> final"
  shows "triple (kept S final) (present S final) (ensure_secure_directory env root create)
           (\<lambda>_. present S final) (\<lambda>_. present S final)"
  unfolding ensure_secure_directory_def
  by (rule triple_match, rule stat_triple, blast, rule check_directory_triple, blast)
     (auto intro!: triple_then triple_map_err triple_bind make_dir_present assms sync_parent_present
        stat_triple check_directory_triple triple_error)

lemma persistent_ensure_directory_present:
  assumes "root \<noteq> final"
  shows "triple (kept S final) (present S final) (persistent_ensure_secure_directory env root create)
           (\<lambda>_. present S final) (\<lambda>_. present S final)"
  unfolding persistent_ensure_secure_directory_def
  by (rule triple_match, rule stat_triple, blast, rule check_directory_triple, blast)
     (auto intro!: triple_then triple_map_err make_dir_present assms sync_directory_present triple_error)

lemma swap_check_triple:
  "(\<And>e h. P h \<Longrightarrow> E e h) \<Longrightarrow> triple C P (swap_check_component env whole p m) (\<lambda>_. P) E"
  unfolding swap_check_component_def by (rule triple_lift) (auto split: sum.split)

lemma swap_component_present:
  assumes "p \<noteq> final"
  shows "triple (kept S final) (present S final) (swap_ensure_component env whole create p)
           (\<lambda>_. present S final) (\<lambda>_. present S final)"
  unfolding swap_ensure_component_def
  by (rule triple_match, rule stat_triple, blast, rule swap_check_triple, blast)
     (auto intro!: triple_then triple_map_err triple_bind triple_match make_dir_present assms
        stat_triple swap_check_triple triple_error triple_ok)

lemma swap_walk_present:
  "length current + length cs < length final \<Longrightarrow>
   triple (kept S final) (present S final) (swap_walk env whole create current cs)
     (\<lambda>_. present S final) (\<lambda>_. present S final)"
proof (induction cs arbitrary: current)
  case Nil then show ?case by (simp add: triple_ok)
next
  case (Cons c cs)
  have "current @ [d] \<noteq> final" for d using Cons.prems by auto
  with Cons.prems show ?case
    by (cases c) (auto intro!: triple_then swap_component_present triple_error Cons.IH)
qed

lemma swap_ensure_directory_present:
  assumes "length root < length final"
  shows "triple (kept S final) (present S final) (swap_ensure_secure_directory env root create)
           (\<lambda>_. present S final) (\<lambda>_. present S final)"
  using assms unfolding swap_ensure_secure_directory_def
  by (auto intro!: triple_error triple_then swap_walk_present triple_bind triple_map_err stat_triple
        triple_lift split: sum.split)

text \<open>The bytes a store puts into the file of a record.\<close>

definition stored_bytes :: "('p, 't, 'j) journal_kind \<Rightarrow> 'j \<Rightarrow> string option" where
  "stored_bytes jk j = map_option (\<lambda>bytes. bytes @ [char_of (10::nat)]) (jk_to_vec jk j)"

definition keeps_records ::
  "(io_env \<Rightarrow> path \<Rightarrow> bool \<Rightarrow> ('p, 't, unit) store_action) \<Rightarrow> bool" where
  "keeps_records ensure \<longleftrightarrow>
     (\<forall>S final env root create. length root < length final \<longrightarrow>
        triple (kept S final) (present S final) (ensure env root create)
          (\<lambda>_. present S final) (\<lambda>_. present S final))
     \<and> (\<forall>env root. reads (ensure env root False))"

lemma swap_walk_reads: "reads (swap_walk env whole False current cs)"
  unfolding reads_def
proof
  fix h
  show "triple ((=) h) ((=) h) (swap_walk env whole False current cs) (\<lambda>_. (=) h) (\<lambda>_. (=) h)"
  proof (induction cs arbitrary: current)
    case (Cons c cs)
    have "triple ((=) h) ((=) h) (swap_ensure_component env whole False p) (\<lambda>_. (=) h) (\<lambda>_. (=) h)" for p
      unfolding swap_ensure_component_def
      by (rule triple_match, rule stat_triple, assumption, rule swap_check_triple)
         (auto intro!: triple_error)
    then show ?case by (cases c) (auto intro!: triple_then triple_error Cons.IH)
  qed (simp add: triple_ok)
qed

lemma stat_reads: "reads (symlink_metadata env p)"
  unfolding reads_def by (intro allI stat_triple)

lemma ensure_reads:
  "reads (ensure_secure_directory env root False)"
  "reads (persistent_ensure_secure_directory env root False)"
  "reads (swap_ensure_secure_directory env root False)"
  unfolding ensure_secure_directory_def persistent_ensure_secure_directory_def
    swap_ensure_secure_directory_def
  by (auto simp: reads_def intro!: triple_match[OF stat_triple check_directory_triple] triple_error
        triple_then[OF reads_any[OF swap_walk_reads]] triple_bind[OF triple_map_err[OF stat_triple]]
        triple_lift split: sum.split)

lemma keeps_records:
  "keeps_records ensure_secure_directory"
  "keeps_records persistent_ensure_secure_directory"
  "keeps_records swap_ensure_secure_directory"
  by (auto simp: keeps_records_def intro!: ensure_directory_present ensure_reads
        persistent_ensure_directory_present swap_ensure_directory_present)

lemma keeps_records_use:
  "keeps_records ensure \<Longrightarrow> final = record_at root i \<Longrightarrow>
   triple (kept S final) (present S final) (ensure env root create) (\<lambda>_. present S final) (\<lambda>_. present S final)"
  by (simp add: keeps_records_def record_at_def)

lemma encode_stored: "encode_journal jk j = Inr bytes \<Longrightarrow> stored_bytes jk j = Some bytes"
  by (auto simp: encode_journal_def stored_bytes_def Let_def split: option.splits if_splits)

lemma swap_encode_stored:
  "swap_encode_journal jk j = Inr bytes \<Longrightarrow> stored_bytes jk j = Some (bytes @ [char_of (10::nat)])"
  by (auto simp: swap_encode_journal_def stored_bytes_def split: option.splits if_splits)

lemma write_replace_stored:
  assumes final: "final = record_at root i" and new: "\<And>bytes. stored_bytes jk j = Some bytes \<Longrightarrow> Intact bytes \<in> S"
  shows "triple (kept S final) (present S final) (write_atomic_replace jk env root final j)
           (\<lambda>_ h. \<exists>bytes. stored_bytes jk j = Some bytes \<and> published env final bytes h) (\<lambda>_. kept S final)"
proof (cases "encode_journal jk j")
  case (Inl e)
  then show ?thesis
    by (auto simp: write_atomic_replace_def intro!: triple_guard)
next
  case (Inr bytes)
  show ?thesis
    by (rule triple_weaken[OF write_atomic_replace_kept[OF final[unfolded record_at_def] Inr
            new[OF encode_stored[OF Inr]]]])
       (auto simp: encode_stored[OF Inr])
qed

lemma triple_if:
  "(b \<Longrightarrow> triple C P m Q E) \<Longrightarrow> (\<not> b \<Longrightarrow> triple C P n Q E) \<Longrightarrow> triple C P (if b then m else n) Q E"
  by simp

lemma stat_kept:
  "triple (kept S final) (present S final) (symlink_metadata env p) (\<lambda>_. present S final) (\<lambda>_. kept S final)"
  by (rule triple_weaken[OF stat_triple[where P = "present S final"]]) auto

lemma persist_present:
  assumes "keeps_records (jk_ensure_directory jk)" and final: "final = record_at root (jk_id jk j)"
    and new: "\<And>bytes. stored_bytes jk j = Some bytes \<Longrightarrow> Intact bytes \<in> S"
  shows "triple (kept S final) (present S final) (persist jk env root j)
           (\<lambda>_ h. \<exists>bytes. stored_bytes jk j = Some bytes \<and> published env final bytes h) (\<lambda>_. kept S final)"
proof -
  have ensure: "triple (kept S final) (present S final) (jk_ensure_directory jk env root False)
                  (\<lambda>_. present S final) (\<lambda>_. kept S final)"
    by (rule triple_weaken[OF keeps_records_use[OF assms(1) final]]) auto
  show ?thesis
    unfolding persist_def act_then_def
    by (rule triple_guard, rule triple_bind, rule ensure, rule triple_guard,
        simp only: path_for_ok final[symmetric],
        rule triple_bind, rule triple_map_err, rule stat_kept, rule triple_guard,
        rule triple_bind, rule write_replace_stored[OF final new], assumption, rule triple_ok, auto)
qed

lemma write_new_stored:
  assumes final: "final = record_at root i"
    and new: "\<And>bytes. stored_bytes jk j = Some bytes \<Longrightarrow> Absent \<in> S \<longrightarrow> Intact bytes \<in> S"
  shows "triple (kept S final) (present S final) (write_atomic_new jk env root final j)
           (\<lambda>_ h. \<exists>bytes. stored_bytes jk j = Some bytes \<and> published env final bytes h) (\<lambda>_. kept S final)"
proof (cases "encode_journal jk j")
  case (Inl e)
  then show ?thesis
    by (auto simp: write_atomic_new_def intro!: triple_guard)
next
  case (Inr bytes)
  show ?thesis
    by (rule triple_weaken[OF write_atomic_new_kept[OF final[unfolded record_at_def] Inr
            new[OF encode_stored[OF Inr]]]])
       (auto simp: encode_stored[OF Inr])
qed

lemma persist_new_present:
  assumes "keeps_records (jk_ensure_directory jk)" and final: "final = record_at root (jk_id jk j)"
    and new: "\<And>bytes. stored_bytes jk j = Some bytes \<Longrightarrow> Absent \<in> S \<longrightarrow> Intact bytes \<in> S"
  shows "triple (kept S final) (present S final) (persist_new jk resolves env root j)
           (\<lambda>_ h. \<exists>bytes. stored_bytes jk j = Some bytes \<and> published env final bytes h) (\<lambda>_. kept S final)"
proof -
  have ensure: "triple (kept S final) (present S final) (jk_ensure_directory jk env root True)
                  (\<lambda>_. present S final) (\<lambda>_. kept S final)"
    by (rule triple_weaken[OF keeps_records_use[OF assms(1) final]]) auto
  show ?thesis
    unfolding persist_new_def act_then_def
    by (rule triple_guard, rule triple_bind, rule ensure, rule triple_guard,
        simp only: path_for_ok final[symmetric],
        rule triple_bind, rule exists_triple, blast, rule triple_if, rule triple_error, blast,
        rule triple_bind, rule write_new_stored[OF final new], assumption, rule triple_ok, auto)
qed

lemma swap_write_staged_kept:
  assumes "temp \<noteq> final"
  shows "triple (kept S final) (\<lambda>h. kept S final h \<and> allocated final h) (swap_write_staged env temp bytes)
           (\<lambda>_ h. \<exists>i. staged env temp final S (bytes @ [char_of (10::nat)]) True i h) (\<lambda>_. kept S final)"
proof -
  have sync: "triple (kept S final) (staged env temp final S bs False i) (sync_file env i)
                (\<lambda>_ h. \<exists>i. staged env temp final S bs True i h) (\<lambda>_. kept S final)" for i bs
    by (rule triple_weaken[OF sync_file_staged]) auto
  show ?thesis
    unfolding swap_write_staged_def
    by (rule triple_bind, rule triple_map_err, rule open_new_staged[OF assms],
        rule triple_then, rule triple_map_err, rule write_all_staged,
        rule triple_then, rule triple_map_err, rule write_all_staged, simp,
        rule triple_map_err, rule sync)
qed

lemma swap_staged_publish:
  assumes "temp \<noteq> final"
    and "\<And>i. triple (kept S final) (staged env temp final S (bytes @ [char_of (10::nat)]) True i) k Q (\<lambda>_. kept S final)"
  shows "triple (kept S final) (\<lambda>h. kept S final h \<and> allocated final h)
           (act_cleanup (act_then (swap_write_staged env temp bytes) k) (remove_file env temp)) Q (\<lambda>_. kept S final)"
  by (rule triple_cleanup[where R = "\<lambda>_. kept S final"], rule triple_then,
      rule swap_write_staged_kept, rule assms(1), rule triple_exists, rule assms(2),
      rule remove_temp_kept, rule assms(1))

lemma swap_temp_path_triple:
  assumes final: "final = record_at root i" and P: "\<And>h. P h \<Longrightarrow> C h"
  shows "triple C P (swap_temp_path env root i) (\<lambda>temp h. temp \<noteq> final \<and> P h) E"
proof -
  have ne: "''.'' @ i @ ''.tmp-'' @ t \<noteq> i @ ''.json''" for t
    by (rule notI, drule arg_cong[where f = length]) simp
  show ?thesis
    unfolding swap_temp_path_def final record_at_def
    by (rule triple_bind, rule next_sequence_triple, rule P, assumption, rule triple_lift,
        use ne in \<open>simp\<close>)
qed

lemma swap_metadata_kept:
  "triple (kept S final) (present S final) (swap_checked_metadata env p i)
     (\<lambda>_. present S final) (\<lambda>_. kept S final)"
  unfolding swap_checked_metadata_def
  by (rule triple_match, rule stat_kept, rule triple_lift) (auto intro!: triple_error split: sum.split)

lemma swap_rename_publish:
  assumes "temp \<noteq> final" and "Intact bytes \<in> S" and "in_directory root final"
  shows "triple (kept S final) (staged env temp final S bytes True i)
           (act_then (act_map_err (io_error final) (rename_file env temp final))
             (act_then (sync_directory env root) (act_lift (Inr final))))
           (\<lambda>_. published env final bytes) (\<lambda>_. kept S final)"
  by (rule triple_then, rule triple_map_err, rule rename_staged[OF assms(1,2)],
      rule triple_then, rule sync_linked[OF assms(3)], rule triple_ok)

lemma swap_link_publish:
  assumes "temp \<noteq> final" and "Absent \<in> S \<longrightarrow> Intact bytes \<in> S" and "in_directory root final"
  shows "triple (kept S final) (staged env temp final S bytes True i)
           (act_then
             (act_match (hard_link env temp final) (\<lambda>_. act_lift (Inr ())) (\<lambda>k. act_lift (Inl (err k))))
             (act_then (act_map_err (io_error temp) (remove_file env temp))
               (act_then (sync_directory env root) (act_lift (Inr final)))))
           (\<lambda>_. published env final bytes) (\<lambda>_. kept S final)"
  by (rule triple_then, rule triple_match, rule hard_link_staged[OF assms(1,2)],
      rule triple_ok, rule triple_error, assumption,
      rule triple_then, rule triple_map_err, rule remove_linked[OF assms(1)],
      rule triple_then, rule sync_linked[OF assms(3)], rule triple_ok)

lemma swap_publish_stored:
  assumes final: "final = record_at root i" and bytes: "swap_encode_journal jk j = Inr bytes"
    and k: "\<And>temp n. temp \<noteq> final \<Longrightarrow>
              triple (kept S final) (staged env temp final S (bytes @ [char_of (10::nat)]) True n) (k temp)
                (\<lambda>_. published env final (bytes @ [char_of (10::nat)])) (\<lambda>_. kept S final)"
  shows "triple (kept S final) (present S final)
           (act_bind (swap_temp_path env root i) (\<lambda>temp.
              act_cleanup (act_then (swap_write_staged env temp bytes) (k temp)) (remove_file env temp)))
           (\<lambda>_ h. \<exists>bytes. stored_bytes jk j = Some bytes \<and> published env final bytes h) (\<lambda>_. kept S final)"
proof (rule triple_weaken)
  show "triple (kept S final) (present S final)
           (act_bind (swap_temp_path env root i) (\<lambda>temp.
              act_cleanup (act_then (swap_write_staged env temp bytes) (k temp)) (remove_file env temp)))
           (\<lambda>_. published env final (bytes @ [char_of (10::nat)])) (\<lambda>_. kept S final)"
    by (rule triple_bind, rule swap_temp_path_triple[OF final], blast, rule triple_pure,
        rule swap_staged_publish, assumption, rule k)
qed (use swap_encode_stored[OF bytes] in auto)

lemma swap_persist_present:
  assumes "keeps_records (jk_ensure_directory jk)" and final: "final = record_at root (jk_id jk j)"
    and new: "\<And>bytes. stored_bytes jk j = Some bytes \<Longrightarrow> Intact bytes \<in> S"
  shows "triple (kept S final) (present S final) (swap_persist jk env root j)
           (\<lambda>_ h. \<exists>bytes. stored_bytes jk j = Some bytes \<and> published env final bytes h) (\<lambda>_. kept S final)"
proof -
  have ensure: "triple (kept S final) (present S final) (jk_ensure_directory jk env root True)
                  (\<lambda>_. present S final) (\<lambda>_. kept S final)"
    by (rule triple_weaken[OF keeps_records_use[OF assms(1) final]]) auto
  have in_dir: "in_directory root final" by (simp add: final in_directory_def record_at_def)
  note publish = swap_publish_stored[OF final _ swap_rename_publish[OF _ new[OF swap_encode_stored] in_dir]]
  show ?thesis
    unfolding swap_persist_def
    by (subst act_then_def, rule triple_guard, rule triple_then, rule ensure, rule triple_guard, rule triple_guard,
        simp only: path_for_ok final[symmetric],
        rule triple_then, rule swap_metadata_kept, rule publish, assumption+, auto)
qed

lemma swap_persist_new_present:
  assumes "keeps_records (jk_ensure_directory jk)" and final: "final = record_at root (jk_id jk j)"
    and new: "\<And>bytes. stored_bytes jk j = Some bytes \<Longrightarrow> Absent \<in> S \<longrightarrow> Intact bytes \<in> S"
  shows "triple (kept S final) (present S final) (swap_persist_new jk env root j)
           (\<lambda>_ h. \<exists>bytes. stored_bytes jk j = Some bytes \<and> published env final bytes h) (\<lambda>_. kept S final)"
proof -
  have ensure: "triple (kept S final) (present S final) (jk_ensure_directory jk env root True)
                  (\<lambda>_. present S final) (\<lambda>_. kept S final)"
    by (rule triple_weaken[OF keeps_records_use[OF assms(1) final]]) auto
  have in_dir: "in_directory root final" by (simp add: final in_directory_def record_at_def)
  note publish = swap_publish_stored[OF final _ swap_link_publish[OF _ new[OF swap_encode_stored] in_dir]]
  show ?thesis
    unfolding swap_persist_new_def
    by (subst act_then_def, rule triple_guard, rule triple_then, rule ensure, rule triple_guard, rule triple_guard,
        simp only: path_for_ok final[symmetric], rule publish, assumption+, auto)
qed

end
