(* ===== verification/DurableStore.thy ===== *)
theory DurableStore
  imports RuntimeStore
begin

text \<open>
  The contract of a runtime journal store, as a locale, and what follows from it for a caller:
  a transition is durable before the journal in memory changes, a record is never lost nor
  overwritten, and a load returns the record that was stored. Then what the contract leaves
  open: when a load succeeds, and whether the directory itself survives.
\<close>


section \<open>What a load returns\<close>

definition holds :: "path \<Rightarrow> string \<Rightarrow> host \<Rightarrow> bool" where
  "holds p bytes h = (\<exists>n. h_names h p = Some n \<and> in_data (h_inodes h n) = bytes)"

definition loaded :: "('p, 't, 'j) journal_kind \<Rightarrow> string \<Rightarrow> string \<Rightarrow> 'j \<Rightarrow> bool" where
  "loaded jk i bytes j \<longleftrightarrow>
     length bytes \<le> jk_max_bytes jk \<and> jk_from_slice jk bytes = Some j
     \<and> jk_id jk j = i \<and> jk_validate jk j = Inr ()"

lemma published_holds: "published env p bytes h \<Longrightarrow> holds p bytes h"
  by (auto simp: published_def holds_def file_with_def)

lemma open_read_holds:
  "triple (\<lambda>_. True) (holds p bytes) (open_read env p)
     (\<lambda>n h. holds p bytes h \<and> in_data (h_inodes h n) = bytes) (\<lambda>_. holds p bytes)"
  unfolding open_read_def
  by (rule triple_syscall) (auto simp: holds_def split: option.splits if_splits)

lemma read_limited_holds:
  "triple (\<lambda>_. True) (\<lambda>h. holds p bytes h \<and> in_data (h_inodes h n) = bytes) (read_limited env n limit)
     (\<lambda>bs h. bs = take limit bytes \<and> holds p bytes h) (\<lambda>_. holds p bytes)"
  unfolding read_limited_def
  by (rule triple_syscall) (auto split: option.splits)

lemma stat_true: "triple (\<lambda>_. True) P (symlink_metadata env p) (\<lambda>_. P) (\<lambda>_. P)"
  by (rule reads_any[OF stat_reads]) simp

lemma ensure_reads_use:
  "keeps_records ensure \<Longrightarrow> triple (\<lambda>_. True) P (ensure env root False) (\<lambda>_. P) (\<lambda>_. P)"
  by (simp add: keeps_records_def reads_any)

lemma decode_step:
  assumes "bs = take (jk_max_bytes jk + 1) bytes"
  shows "triple (\<lambda>_. True) P
     (act_lift (if jk_max_bytes jk < length bs then Inl RjeTooLarge
         else case jk_from_slice jk bs of None \<Rightarrow> Inl RjeDecode
           | Some j \<Rightarrow> (if jk_id jk j \<noteq> i then Inl (RjeInvalidRecord (jk_mismatch jk))
                        else and_then (jk_validate jk j) (\<lambda>_. Inr j))))
     (\<lambda>j h. loaded jk i bytes j \<and> P h) (\<lambda>_. P)"
proof (rule triple_lift)
  fix h assume P: "P h"
  show "case (if jk_max_bytes jk < length bs then Inl RjeTooLarge
         else case jk_from_slice jk bs of None \<Rightarrow> Inl RjeDecode
           | Some j \<Rightarrow> (if jk_id jk j \<noteq> i then Inl (RjeInvalidRecord (jk_mismatch jk))
                        else and_then (jk_validate jk j) (\<lambda>_. Inr j))) of
      Inl e \<Rightarrow> P h | Inr j \<Rightarrow> loaded jk i bytes j \<and> P h"
  proof (cases "jk_max_bytes jk < length bs")
    case False
    then have "bs = bytes" "length bytes \<le> jk_max_bytes jk" using assms by (auto simp: min_def split: if_splits)
    with False P show ?thesis
      by (cases "jk_validate jk (the (jk_from_slice jk bs))")
         (auto simp: loaded_def split: option.splits)
  qed (simp add: P)
qed

lemma load_reads:
  assumes "keeps_records (jk_ensure_directory jk)"
  shows "triple (\<lambda>_. True) (holds (record_at root i) bytes) (load jk env root i)
           (\<lambda>j h. loaded jk i bytes j \<and> holds (record_at root i) bytes h)
           (\<lambda>_. holds (record_at root i) bytes)"
  unfolding load_def act_then_def
  by (rule triple_guard, rule triple_bind, rule ensure_reads_use[OF assms], rule triple_guard,
      simp only: path_for_ok, rule triple_bind, rule triple_map_err, rule stat_true,
      rule triple_guard, rule triple_guard,
      rule triple_bind, rule triple_map_err, rule open_read_holds,
      rule triple_bind, rule triple_map_err, rule read_limited_holds,
      rule triple_pure, rule decode_step, assumption+)

lemma swap_load_reads:
  assumes "keeps_records (jk_ensure_directory jk)"
  shows "triple (\<lambda>_. True) (holds (record_at root i) bytes) (swap_load jk env root i)
           (\<lambda>j h. loaded jk i bytes j \<and> holds (record_at root i) bytes h)
           (\<lambda>_. holds (record_at root i) bytes)"
proof -
  have stat: "triple (\<lambda>_. True) P (swap_checked_metadata env p i) (\<lambda>_. P) (\<lambda>_. P)" for P p
    unfolding swap_checked_metadata_def
    by (rule triple_match, rule stat_true, rule triple_lift) (auto intro!: triple_error split: sum.split)
  show ?thesis
    unfolding swap_load_def act_then_def
    by (rule triple_guard, rule triple_bind, rule ensure_reads_use[OF assms], rule triple_guard,
        simp only: path_for_ok, rule triple_bind, rule stat,
        rule triple_guard,
        rule triple_bind, rule triple_map_err, rule open_read_holds,
        rule triple_bind, rule triple_map_err, rule read_limited_holds,
        rule triple_pure, rule decode_step, assumption+)
qed

section \<open>The contract of a durable store\<close>

text \<open>
  What every runtime journal relies on: replacing a record never loses it, creating one never
  overwrites, success means the record is on the disk, and a load returns what the file holds.
\<close>

locale durable_store =
  fixes jk :: "('p, 't, 'j) journal_kind"
    and create_op :: "io_env \<Rightarrow> path \<Rightarrow> 'j \<Rightarrow> ('p, 't, path) store_action"
    and persist_op :: "io_env \<Rightarrow> path \<Rightarrow> 'j \<Rightarrow> ('p, 't, path) store_action"
    and load_op :: "io_env \<Rightarrow> path \<Rightarrow> string \<Rightarrow> ('p, 't, 'j) store_action"
  assumes create_keeps:
      "final = record_at root (jk_id jk j)
       \<Longrightarrow> (\<And>bytes. stored_bytes jk j = Some bytes \<Longrightarrow> Absent \<in> S \<longrightarrow> Intact bytes \<in> S)
       \<Longrightarrow> triple (kept S final) (present S final) (create_op env root j)
             (\<lambda>_ h. \<exists>bytes. stored_bytes jk j = Some bytes \<and> published env final bytes h) (\<lambda>_. kept S final)"
    and persist_keeps:
      "final = record_at root (jk_id jk j)
       \<Longrightarrow> (\<And>bytes. stored_bytes jk j = Some bytes \<Longrightarrow> Intact bytes \<in> S)
       \<Longrightarrow> triple (kept S final) (present S final) (persist_op env root j)
             (\<lambda>_ h. \<exists>bytes. stored_bytes jk j = Some bytes \<and> published env final bytes h) (\<lambda>_. kept S final)"
    and load_reads_file:
      "triple (\<lambda>_. True) (holds (record_at root i) bytes) (load_op env root i)
         (\<lambda>j h. loaded jk i bytes j \<and> holds (record_at root i) bytes h)
         (\<lambda>_. holds (record_at root i) bytes)"

context durable_store
begin

lemma load_after:
  assumes "published env (record_at root i) bytes (w_host w)" and "load_op env' root i w = (Inr j, w')"
  shows "loaded jk i bytes j"
  using triple_use(2)[OF load_reads_file _ _ assms(2)] published_holds[OF assms(1)]
  by (auto simp: list_all_def)

lemma transition_durable:
  assumes "apply_op t j = Inr c" and "jk_id jk c = jk_id jk j"
    and "stored_bytes jk j = Some old"
    and "present {Intact old} (record_at root (jk_id jk j)) (w_host w)"
    and "w_history w = []"
    and run: "persist_transition (\<lambda>_. persist_op) apply_op jk env root j t w = (r, w')"
  shows "\<forall>h \<in> set (w_history w'). set (survivors h (record_at root (jk_id jk j)))
           \<subseteq> {Intact old} \<union> Intact ` set_option (stored_bytes jk c)"
    and "case r of
           Inl _ \<Rightarrow> journal_after j r = j
         | Inr _ \<Rightarrow> journal_after j r = c
             \<and> (\<exists>new. stored_bytes jk c = Some new
                  \<and> published env (record_at root (jk_id jk j)) new (w_host w'))"
proof -
  let ?S = "{Intact old} \<union> Intact ` set_option (stored_bytes jk c)"
  let ?f = "record_at root (jk_id jk j)"
  have p: "triple (kept ?S ?f) (present ?S ?f) (persist_op env root c)
             (\<lambda>_ h. \<exists>new. stored_bytes jk c = Some new \<and> published env ?f new h) (\<lambda>_. kept ?S ?f)"
    using persist_keeps[of ?f root c ?S env] assms(2) by simp
  have t: "triple (kept ?S ?f) (present ?S ?f)
             (persist_transition (\<lambda>_. persist_op) apply_op jk env root j t)
             (\<lambda>x h. x = c \<and> (\<exists>new. stored_bytes jk c = Some new \<and> published env ?f new h)) (\<lambda>_. kept ?S ?f)"
    unfolding persist_transition_def assms(1)
  proof (rule triple_guard)
    fix x assume "Inr c = Inr x"
    then have x: "x = c" by simp
    show "triple (kept ?S ?f) (present ?S ?f) (act_then (persist_op env root x) (act_lift (Inr x)))
             (\<lambda>x h. x = c \<and> (\<exists>new. stored_bytes jk c = Some new \<and> published env ?f new h)) (\<lambda>_. kept ?S ?f)"
      unfolding x by (rule triple_then, rule p, rule triple_lift) simp
  qed blast
  have pre: "present ?S ?f (w_host w)" using assms(4) by (auto simp: kept_def)
  have "list_all (kept ?S ?f) (w_history w)" using assms(5) by simp
  from triple_use[OF t pre this run]
  show "\<forall>h \<in> set (w_history w'). set (survivors h ?f) \<subseteq> ?S"
    and "case r of Inl _ \<Rightarrow> journal_after j r = j
         | Inr _ \<Rightarrow> journal_after j r = c
             \<and> (\<exists>new. stored_bytes jk c = Some new \<and> published env ?f new (w_host w'))"
    by (auto simp: list_all_def kept_def journal_after_def split: sum.splits)
qed

lemma refused_transition_stops:
  assumes "apply_op t j = Inl e"
  shows "persist_transition (\<lambda>_. persist_op) apply_op jk env root j t w = (Inl e, w)"
  by (simp add: persist_transition_def assms act_bind_def act_lift_def)

lemma create_never_overwrites:
  assumes "present S (record_at root (jk_id jk j)) (w_host w)" and "Absent \<notin> S" and "w_history w = []"
    and "create_op env root j w = (r, w')"
  shows "\<forall>h \<in> set (w_history w'). set (survivors h (record_at root (jk_id jk j))) \<subseteq> S"
proof -
  have "triple (kept S (record_at root (jk_id jk j))) (present S (record_at root (jk_id jk j)))
      (create_op env root j) (\<lambda>_ h. True) (\<lambda>_ _. True)"
    by (rule triple_weaken[OF create_keeps[OF refl]]) (use assms(2) in auto)
  from triple_use(1)[OF this assms(1) _ assms(4)] assms(3) show ?thesis
    by (auto simp: list_all_def kept_def)
qed

lemma create_then_load:
  assumes "present {Absent} (record_at root (jk_id jk j)) (w_host w)" and "w_history w = []"
    and "create_op env root j w = (Inr p, w1)"
    and "load_op env' root (jk_id jk j) w1 = (Inr j', w2)"
    and "\<And>bytes. stored_bytes jk j = Some bytes \<Longrightarrow> jk_from_slice jk bytes = Some j"
  shows "j' = j"
proof -
  let ?S = "{Absent} \<union> Intact ` set_option (stored_bytes jk j)"
  let ?f = "record_at root (jk_id jk j)"
  have t: "triple (kept ?S ?f) (present ?S ?f) (create_op env root j)
      (\<lambda>_ h. \<exists>bytes. stored_bytes jk j = Some bytes \<and> published env ?f bytes h) (\<lambda>_. kept ?S ?f)"
    by (rule create_keeps) auto
  have pre: "present ?S ?f (w_host w)" using assms(1) by (auto simp: kept_def)
  obtain bytes where b: "stored_bytes jk j = Some bytes" "published env ?f bytes (w_host w1)"
    using triple_use(2)[OF t pre _ assms(3)] assms(2) by auto
  from load_after[OF b(2) assms(4)] assms(5)[OF b(1)] show ?thesis by (simp add: loaded_def)
qed

end

lemma durable_store_of_kind:
  assumes "keeps_records (jk_ensure_directory jk)"
  shows "durable_store jk (persist_new jk resolves) (persist jk) (load jk)"
proof (unfold_locales, goal_cases)
  case (1 final root j S env)
  show ?case by (rule persist_new_present[OF assms 1])
next
  case (2 final root j S env)
  show ?case by (rule persist_present[OF assms 2])
next
  case (3 root i bytes env)
  show ?case by (rule load_reads[OF assms])
qed

lemma durable_store_of_swap_kind:
  assumes "keeps_records (jk_ensure_directory jk)"
  shows "durable_store jk (swap_persist_new jk) (swap_persist jk) (swap_load jk)"
proof (unfold_locales, goal_cases)
  case (1 final root j S env)
  show ?case by (rule swap_persist_new_present[OF assms 1])
next
  case (2 final root j S env)
  show ?case by (rule swap_persist_present[OF assms 2])
next
  case (3 root i bytes env)
  show ?case by (rule swap_load_reads[OF assms])
qed

section \<open>Loads that succeed\<close>

definition no_faults :: "io_env \<Rightarrow> bool" where
  "no_faults env \<longleftrightarrow> (\<forall>n. e_fault env n = None)"

text \<open>The umask leaves the mode of a new record as asked for.\<close>

definition mild_umask :: "io_env \<Rightarrow> bool" where
  "mild_umask env \<longleftrightarrow> and (and 0x180 (not (e_umask env))) 0x1FF = 0x180"

definition private_root :: "io_env \<Rightarrow> path \<Rightarrow> host \<Rightarrow> bool" where
  "private_root env root h = (\<exists>d. h_names h root = Some d \<and> private_directory env (h_inodes h d))"

lemma syscall_no_fault:
  "no_faults env \<Longrightarrow> syscall env f w = (let (r, h) = f None (w_host w) in
     (r, w\<lparr>w_host := h, w_calls := Suc (w_calls w), w_history := w_history w @ [h]\<rparr>))"
  by (simp add: syscall_def no_faults_def)

lemma stat_no_fault:
  assumes "no_faults env" and "h_names (w_host w) p = Some n"
  shows "\<exists>w'. symlink_metadata env p w = (Inr (h_inodes (w_host w) n), w') \<and> w_host w' = w_host w"
  using assms by (simp add: symlink_metadata_def syscall_no_fault)

lemma ensure_private_root:
  assumes "no_faults env" and "private_root env root (w_host w)"
  shows "\<exists>w'. ensure_secure_directory env root create w = (Inr (), w') \<and> w_host w' = w_host w"
    and "\<exists>w'. persistent_ensure_secure_directory env root create w = (Inr (), w') \<and> w_host w' = w_host w"
proof -
  obtain d where d: "h_names (w_host w) root = Some d" "private_directory env (h_inodes (w_host w) d)"
    using assms(2) by (auto simp: private_root_def)
  obtain w' where w': "symlink_metadata env root w = (Inr (h_inodes (w_host w) d), w')" "w_host w' = w_host w"
    using stat_no_fault[OF assms(1) d(1)] by blast
  show "\<exists>w'. ensure_secure_directory env root create w = (Inr (), w') \<and> w_host w' = w_host w"
    and "\<exists>w'. persistent_ensure_secure_directory env root create w = (Inr (), w') \<and> w_host w' = w_host w"
    using w' d(2)
    by (simp_all add: ensure_secure_directory_def persistent_ensure_secure_directory_def act_match_def
          check_directory_def act_lift_def)
qed

lemma load_returns:
  assumes env: "no_faults env" "mild_umask env"
    and ensure: "\<exists>w'. jk_ensure_directory jk env root False w = (Inr (), w') \<and> w_host w' = w_host w"
    and i: "is_lower_hex_digest i"
    and stored: "published env (record_at root i) bytes (w_host w)"
    and j: "loaded jk i bytes j"
  shows "fst (load jk env root i w) = Inr j"
proof -
  obtain w1 where w1: "jk_ensure_directory jk env root False w = (Inr (), w1)" "w_host w1 = w_host w"
    using ensure by blast
  obtain n where n: "h_names (w_host w) (record_at root i) = Some n"
    "h_inodes (w_host w) n = file_with env bytes True"
    using stored by (auto simp: published_def)
  have p: "private_file env (file_with env bytes True)"
    using env(2) by (simp add: private_file_def file_with_def new_inode_def mild_umask_def)
  have d: "in_data (file_with env bytes True) = bytes" "in_kind (file_with env bytes True) = FkRegular"
    by (simp_all add: file_with_def new_inode_def)
  have path: "path_for root i = Inr (record_at root i)" "validate_digest i ''journal ID'' = Inr ()"
    using i by (simp_all add: path_for_ok validate_digest_def)
  show ?thesis
    using j n w1 p d
    by (simp add: load_def act_then_def act_bind_def act_lift_def path act_map_err_def
          symlink_metadata_def open_read_def read_limited_def syscall_no_fault[OF env(1)]
          validate_journal_file_metadata_def loaded_def)
qed

text \<open>
  The swap store limits the encoding without the newline it adds: a record of exactly the
  limit is stored, and then refused by every load.
\<close>

lemma swap_load_refuses_long:
  assumes "keeps_records (jk_ensure_directory jk)"
    and "published env (record_at root i) bytes (w_host w)" and "jk_max_bytes jk < length bytes"
  shows "\<exists>e. fst (swap_load jk env' root i w) = Inl e"
proof (cases "swap_load jk env' root i w")
  case (Pair r w')
  have "list_all (\<lambda>_. True) (w_history w)" by (simp add: list_all_def)
  from triple_use(2)[OF swap_load_reads[OF assms(1)] published_holds[OF assms(2)] this Pair] assms(3) Pair
  show ?thesis by (cases r) (auto simp: loaded_def)
qed

lemma swap_stored_at_limit:
  assumes keep: "keeps_records (jk_ensure_directory jk)"
    and w: "present {Absent} (record_at root (jk_id jk j)) (w_host w)" "w_history w = []"
    and bytes: "jk_to_vec jk j = Some bytes" "length bytes = jk_max_bytes jk"
    and run: "swap_persist_new jk env root j w = (Inr p, w')"
  shows "\<exists>e. fst (swap_load jk env' root (jk_id jk j) w') = Inl e"
proof -
  let ?f = "record_at root (jk_id jk j)"
  let ?S = "{Absent} \<union> Intact ` set_option (stored_bytes jk j)"
  have t: "triple (kept ?S ?f) (present ?S ?f) (swap_persist_new jk env root j)
      (\<lambda>_ h. \<exists>bytes. stored_bytes jk j = Some bytes \<and> published env ?f bytes h) (\<lambda>_. kept ?S ?f)"
    by (rule swap_persist_new_present[OF keep]) auto
  have pre: "present ?S ?f (w_host w)" using w(1) by (auto simp: kept_def)
  obtain bs where "stored_bytes jk j = Some bs" "published env ?f bs (w_host w')"
    using triple_use(2)[OF t pre _ run] w(2) by auto
  with swap_load_refuses_long[OF keep this(2)] bytes show ?thesis
    by (auto simp: stored_bytes_def)
qed

section \<open>The directory of the records\<close>

text \<open>A directory that \<open>create\<close> and \<open>create-mount\<close> make is on the disk before anything is put into it.\<close>

lemma created_directory_settled:
  assumes root: "root = d @ [Normal n]"
  shows "triple (\<lambda>_. True) (\<lambda>h. h_names h root = None \<or> settled h root)
           (ensure_secure_directory env root True) (\<lambda>_ h. settled h root) (\<lambda>_ _. True)"
proof -
  have make: "triple (\<lambda>_. True) (\<lambda>h. h_names h root = None \<or> settled h root) (make_dir env root)
      (\<lambda>_ h. h_names h root \<noteq> None) (\<lambda>_ _. True)"
    unfolding make_dir_def create_entry_def
    by (rule triple_syscall) (auto split: option.splits if_splits prod.splits)
  have sync: "triple (\<lambda>_. True) (\<lambda>h. h_names h root \<noteq> None) (sync_directory env d)
      (\<lambda>_ h. settled h root) (\<lambda>_ _. True)"
    unfolding sync_directory_def
    by (rule triple_then[where R = "\<lambda>h. h_names h root \<noteq> None"], rule triple_map_err,
        unfold open_dir_def fsync_dir_def, rule triple_syscall)
       (auto intro!: triple_map_err triple_syscall split: option.splits if_splits
          simp: settled_def sync_entries_def in_directory_def root)
  have stat: "triple (\<lambda>_. True) (\<lambda>h. h_names h root = None \<or> settled h root) (symlink_metadata env root)
      (\<lambda>_ h. settled h root) (\<lambda>_ h. h_names h root = None \<or> settled h root)"
    unfolding symlink_metadata_def
    by (rule triple_syscall) (auto simp: settled_def split: option.splits)
  have check: "triple (\<lambda>_. True) (\<lambda>h. settled h root) (check_directory env root m)
      (\<lambda>_ h. settled h root) (\<lambda>_ _. True)" for m
    by (rule check_directory_triple) simp
  have "parent_of root = Some d" by (simp add: root parent_of_def)
  then have parent: "sync_parent env root = sync_directory env d" by (simp add: sync_parent_def fun_eq_iff)
  show ?thesis
    unfolding ensure_secure_directory_def parent
  proof (rule triple_match[OF stat check])
    fix k
    have "triple (\<lambda>_. True) (\<lambda>h. settled h root) (act_map_err (io_error root) (symlink_metadata env root))
        (\<lambda>_ h. settled h root) (\<lambda>_ _. True)"
      by (rule triple_map_err, rule triple_weaken[OF stat_true]) auto
    then show "triple (\<lambda>_. True) (\<lambda>h. h_names h root = None \<or> settled h root)
        (if k = EkNotFound \<and> True
         then act_then (act_map_err (io_error root) (make_dir env root))
               (act_then (sync_directory env d)
                 (act_bind (act_map_err (io_error root) (symlink_metadata env root))
                   (check_directory env root)))
         else if k = EkNotFound then act_lift (Inl (RjeUnsafeDirectory root))
         else act_lift (Inl (io_error root k)))
        (\<lambda>_ h. settled h root) (\<lambda>_ _. True)"
      by (cases k; simp)
         (rule triple_then, rule triple_map_err, rule make, rule triple_then, rule sync,
          rule triple_bind, assumption, rule check, (rule triple_error, simp)+)
  qed
qed

text \<open>
  The persistent-configuration store syncs the new directory instead of its parent, and the swap
  store syncs neither: the directory, and every record in it, may be gone after a power loss.
\<close>

definition unsettled :: "host \<Rightarrow> path \<Rightarrow> bool" where
  "unsettled h p = (Absent \<in> set (survivors h p))"

lemma unsettled_iff: "unsettled h p \<longleftrightarrow> h_names h p = None \<or> None \<in> set (h_disk h p)"
  by (auto simp: unsettled_def survivors_def entries_def survivor_def image_iff
        split: option.splits if_splits)

lemma make_dir_no_fault:
  assumes "no_faults env" and "h_names (w_host w) p = None" and "h_names (w_host w) (butlast p) \<noteq> None"
    and "None \<in> set (h_disk (w_host w) p)"
  shows "\<exists>i w'. make_dir env p w = (Inr i, w') \<and> h_names (w_host w') p = Some i
           \<and> None \<in> set (h_disk (w_host w') p)
           \<and> h_inodes (w_host w') i = new_inode env FkDirectory 0x1C0"
  using assms
  by (simp add: make_dir_def create_entry_def syscall_no_fault) (simp add: set_entry_def set_inode_def)

lemma persistent_directory_unsettled:
  assumes env: "no_faults env" and root: "root = d @ [Normal n]"
    and w: "h_names (w_host w) root = None" "h_names (w_host w) d \<noteq> None"
      "None \<in> set (h_disk (w_host w) root)"
  shows "\<exists>w'. persistent_ensure_secure_directory env root True w = (Inr (), w')
           \<and> unsettled (w_host w') root"
proof -
  let ?w = "w\<lparr>w_calls := Suc (w_calls w), w_history := w_history w @ [w_host w]\<rparr>"
  have stat: "symlink_metadata env root w = (Inl EkNotFound, ?w)"
    using w by (simp add: symlink_metadata_def syscall_no_fault[OF env])
  obtain i w1 where w1: "make_dir env root ?w = (Inr i, w1)" "h_names (w_host w1) root = Some i"
    "None \<in> set (h_disk (w_host w1) root)"
    using make_dir_no_fault[OF env, of ?w root] w root by auto
  have "butlast root \<noteq> root" by (simp add: root)
  then show ?thesis
    using w1
    by (simp add: persistent_ensure_secure_directory_def act_match_def stat act_then_def act_bind_def
          act_map_err_def sync_directory_def open_dir_def fsync_dir_def syscall_no_fault[OF env]
          unsettled_iff)
       (simp add: sync_entries_def in_directory_def)
qed

lemma swap_directory_unsettled:
  assumes env: "no_faults env"
    and w: "h_names (w_host w) p = None" "h_names (w_host w) (butlast p) \<noteq> None"
      "None \<in> set (h_disk (w_host w) p)"
  shows "\<exists>w'. swap_ensure_component env whole True p w = (Inr (), w') \<and> unsettled (w_host w') p"
proof -
  let ?w = "w\<lparr>w_calls := Suc (w_calls w), w_history := w_history w @ [w_host w]\<rparr>"
  have stat: "symlink_metadata env p w = (Inl EkNotFound, ?w)"
    using w by (simp add: symlink_metadata_def syscall_no_fault[OF env])
  obtain i w1 where w1: "make_dir env p ?w = (Inr i, w1)" "h_names (w_host w1) p = Some i"
    "None \<in> set (h_disk (w_host w1) p)" "h_inodes (w_host w1) i = new_inode env FkDirectory 0x1C0"
    using make_dir_no_fault[OF env, of ?w p] w by auto
  obtain w2 where w2: "symlink_metadata env p w1 = (Inr (new_inode env FkDirectory 0x1C0), w2)" "w_host w2 = w_host w1"
    using stat_no_fault[OF env w1(2)] w1(4) by auto
  have "and (and 0x1C0 (not (e_umask env))) 0x12 = 0"
    by (simp add: and.assoc and.left_commute)
  then have "trusted_journal_directory env (new_inode env FkDirectory 0x1C0) b" for b
    by (simp add: trusted_journal_directory_def new_inode_def)
  then show ?thesis
    using w1 w2
    by (simp add: swap_ensure_component_def act_match_def stat act_then_def act_bind_def
          act_map_err_def act_lift_def swap_check_component_def unsettled_iff)
qed

section \<open>A host for examples\<close>

definition ex_sha :: string where
  "ex_sha = replicate 64 (CHR ''a'')"

lemma ex_sha_hex: "is_lower_hex_digest ex_sha"
  by (simp add: ex_sha_def is_lower_hex_digest_def list_all_iff byte_def is_ascii_digit_def)

definition ex_env :: io_env where
  "ex_env = \<lparr>e_euid = 0, e_umask = 0, e_pid = 7, e_fault = (\<lambda>_. None)\<rparr>"

definition ex_root :: path where
  "ex_root = [RootDir, Normal ''journal'']"

text \<open>A private, settled directory (inode 0), with one settled record (inode 1) or none.\<close>

definition ex_world :: "string option \<Rightarrow> world" where
  "ex_world rec =
     (let names = [[RootDir] \<mapsto> 2, ex_root \<mapsto> 0]
            ((record_at ex_root ex_sha) := (case rec of None \<Rightarrow> None | Some _ \<Rightarrow> Some 1))
      in \<lparr>w_host = \<lparr>h_names = names, h_disk = (\<lambda>p. [names p]),
            h_inodes = (\<lambda>i. if i = 1
               then file_with ex_env (case rec of None \<Rightarrow> [] | Some bytes \<Rightarrow> bytes) True
               else new_inode ex_env FkDirectory 0x1C0), h_next = 3\<rparr>,
          w_calls = 0, w_history = [], w_temp_sequence = 0\<rparr>)"

lemma ex_world_history [simp]: "w_history (ex_world rec) = []"
  by (simp add: ex_world_def Let_def)

lemma ex_world_present:
  "present {Intact bytes} (record_at ex_root ex_sha) (w_host (ex_world (Some bytes)))"
  "present {Absent} (record_at ex_root ex_sha) (w_host (ex_world None))"
  by (simp_all add: ex_world_def Let_def kept_def survivors_def entries_def survivor_def allocated_def
        file_with_def)

lemma ex_env_ok: "no_faults ex_env" "mild_umask ex_env"
  by (simp_all add: no_faults_def mild_umask_def ex_env_def)

lemma ex_world_private: "private_root ex_env ex_root (w_host (ex_world rec))"
proof -
  have "ex_root \<noteq> record_at ex_root ex_sha" by (simp add: record_at_def)
  then show ?thesis
    by (simp add: private_root_def ex_world_def Let_def private_directory_def new_inode_def ex_env_def)
qed

end
