(* ===== verification/PhaseMachine.thy ===== *)
theory PhaseMachine
  imports Prelude
begin

text \<open>
  What the four runtime journals share: a \<open>transition_target\<close> that gives the next phase and the
  event code, the runs of it, and the replay of an event log. The locale \<open>phase_machine\<close> is the
  contract of such a table; its lemmas bound every run. \<open>audited_journal\<close> is the contract of a
  journal whose validator replays the log; its lemmas say what a valid record proves.
\<close>

type_synonym ('p, 't) target = "'p \<Rightarrow> 't \<Rightarrow> ('p \<times> string) option"

text \<open>An event of the journals of create-mount, persistent configuration and swap.\<close>

record ('w, 'p) chain_event =
  ce_sequence :: 'w
  ce_from :: 'p
  ce_to :: 'p
  ce_code :: string

section \<open>Runs\<close>

inductive phase_run :: "('p, 't) target \<Rightarrow> 'p \<Rightarrow> ('t \<times> 'p \<times> string) list \<Rightarrow> 'p \<Rightarrow> bool"
  for target p where
  stay: "phase_run target p [] p"
| move: "phase_run target p ts q \<Longrightarrow> target q t = Some (r, c) \<Longrightarrow> phase_run target p (ts @ [(t, r, c)]) r"

inductive_simps phase_run_Nil [simp]: "phase_run target p [] q"
inductive_cases phase_run_snocE: "phase_run target p (ts @ [x]) q"

text \<open>The log that a run leaves.\<close>

fun log_of :: "nat \<Rightarrow> 'p \<Rightarrow> ('t \<times> 'p \<times> string) list \<Rightarrow> ('w::len word, 'p) chain_event list" where
  "log_of n p [] = []"
| "log_of n p ((t, q, c) # ts) =
     \<lparr>ce_sequence = of_nat n + 1, ce_from = p, ce_to = q, ce_code = c\<rparr> # log_of (Suc n) q ts"

text \<open>The log continues: every event has its number and starts where the last one ended.\<close>

fun chained :: "('p \<Rightarrow> 'p \<Rightarrow> string \<Rightarrow> bool) \<Rightarrow> nat \<Rightarrow> 'p \<Rightarrow> ('w::len word, 'p) chain_event list \<Rightarrow> 'p \<Rightarrow> bool" where
  "chained allowed n p [] q = (p = q)"
| "chained allowed n p (e # es) q =
     (ce_sequence e = of_nat n + 1 \<and> ce_from e = p \<and> allowed p (ce_to e) (ce_code e)
      \<and> chained allowed (Suc n) (ce_to e) es q)"

lemma chained_append:
  "chained allowed n p (es @ fs) r
     \<longleftrightarrow> (\<exists>q. chained allowed n p es q \<and> chained allowed (n + length es) q fs r)"
  by (induction es arbitrary: n p) auto

lemma chained_snoc:
  "chained allowed n p (es @ [e]) r
     \<longleftrightarrow> chained allowed n p es (ce_from e) \<and> ce_sequence e = of_nat (n + length es) + 1
         \<and> allowed (ce_from e) (ce_to e) (ce_code e) \<and> ce_to e = r"
  by (auto simp: chained_append)

lemma log_of_append:
  "log_of n p (ts @ us) = log_of n p ts @ log_of (n + length ts) (if ts = [] then p else fst (snd (last ts))) us"
  by (induction n p ts rule: log_of.induct) auto

lemma log_of_length [simp]: "length (log_of n p ts) = length ts"
  by (induction n p ts rule: log_of.induct) auto

section \<open>The contract of a transition table\<close>

locale phase_machine =
  fixes target :: "('p, 't) target"
    and rank :: "'p \<Rightarrow> nat"
    and start :: 'p
    and recovery :: 'p
  assumes rank_increases: "target p t = Some (q, c) \<Longrightarrow> rank p < rank q"
    and start_first: "rank start = 0"
    and recovery_last: "rank p \<le> rank recovery"
    and unique_predecessor:
      "target p t = Some (q, c) \<Longrightarrow> target p' t' = Some (q, c') \<Longrightarrow> q \<noteq> recovery
         \<Longrightarrow> p = p' \<and> c = c'"

context phase_machine
begin

lemma run_rank: "phase_run target p ts q \<Longrightarrow> rank p + length ts \<le> rank q"
  by (induction rule: phase_run.induct) (auto dest!: rank_increases)

lemma run_bounded: "phase_run target p ts q \<Longrightarrow> length ts \<le> rank recovery"
  using run_rank recovery_last le_trans by (metis add_leD2)

lemma recovery_terminal: "target recovery t = None"
  using rank_increases[of recovery t] recovery_last by (cases "target recovery t") (auto simp: leD)

lemma run_phase_rank:
  "phase_run target p ts q \<Longrightarrow> (t, r, c) \<in> set ts \<Longrightarrow> rank p < rank r \<and> rank r \<le> rank q"
proof (induction rule: phase_run.induct)
  case (move ts q t' r' c')
  then show ?case using rank_increases[OF move.hyps(2)] run_rank[OF move.hyps(1)] by auto
qed simp

text \<open>No phase is entered twice: every boundary is crossed at most once.\<close>

lemma run_distinct: "phase_run target p ts q \<Longrightarrow> distinct (p # map (\<lambda>(_, r, _). r) ts)"
proof (induction rule: phase_run.induct)
  case (move ts q t r c)
  have "rank q < rank r" using rank_increases[OF move.hyps(2)] .
  moreover have "rank r' \<le> rank q" if "(t', r', c') \<in> set ts" for t' r' c'
    using run_phase_rank[OF move.hyps(1) that] by simp
  moreover have "rank p \<le> rank q" using run_rank[OF move.hyps(1)] by simp
  ultimately have "r \<notin> set (p # map (\<lambda>(_, r, _). r) ts)" by (force simp: image_iff)
  with move.IH show ?case by auto
qed simp

text \<open>The run to a phase other than recovery is unique, codes and all.\<close>

lemma run_unique:
  assumes "phase_run target start ts q" and "phase_run target start us q" and "q \<noteq> recovery"
  shows "map snd ts = map snd us"
  using assms
proof (induction ts arbitrary: us q rule: rev_induct)
  case Nil
  then have "q = start" by simp
  with Nil.prems(2) have "length us = 0" using run_rank[of start us q] by simp
  then show ?case by simp
next
  case (snoc x ts)
  obtain t c p where x: "x = (t, q, c)" "phase_run target start ts p" "target p t = Some (q, c)"
    using snoc.prems(1) by (auto elim!: phase_run_snocE)
  have "us \<noteq> []"
  proof
    assume "us = []"
    with snoc.prems(2) have "q = start" by simp
    with rank_increases[OF x(3)] start_first show False by simp
  qed
  then obtain vs y where us: "us = vs @ [y]" by (cases us rule: rev_cases) auto
  obtain t' c' p' where y: "y = (t', q, c')" "phase_run target start vs p'" "target p' t' = Some (q, c')"
    using snoc.prems(2) unfolding us by (auto elim!: phase_run_snocE)
  have eq: "p = p'" "c = c'" using unique_predecessor[OF x(3) y(3) snoc.prems(3)] by auto
  have "p \<noteq> recovery" using x(3) recovery_terminal[of t] by auto
  with snoc.IH[OF x(2)] y(2) eq have "map snd ts = map snd vs" by simp
  then show ?case by (simp add: us x(1) y(1) eq)
qed

end

section \<open>The contract of a journal that replays its log\<close>

locale audited_journal = phase_machine +
  fixes phase :: "'j \<Rightarrow> 'a"
    and events :: "'j \<Rightarrow> ('w::len word, 'a) chain_event list"
    and allowed :: "'a \<Rightarrow> 'a \<Rightarrow> string \<Rightarrow> bool"
    and valid :: "'j \<Rightarrow> bool"
    and apply_op :: "'b \<Rightarrow> 'j \<Rightarrow> ('e, 'j) result"
  assumes allowed_iff: "allowed p q c \<longleftrightarrow> (\<exists>t. target p t = Some (q, c))"
    and valid_chain: "valid j \<Longrightarrow> chained allowed 0 start (events j) (phase j)"
    and apply_sound: "apply_op t j = Inr j' \<Longrightarrow> valid j' \<and> (\<exists>c. target (phase j) t = Some (phase j', c)
          \<and> events j' = events j @ [\<lparr>ce_sequence = of_nat (length (events j)) + 1, ce_from = phase j,
                                    ce_to = phase j', ce_code = c\<rparr>])"
    and apply_enabled: "valid j \<Longrightarrow> target (phase j) t = Some (q, c) \<Longrightarrow> \<exists>j'. apply_op t j = Inr j'"

context audited_journal
begin

lemma chain_is_run:
  "chained allowed 0 start es q \<Longrightarrow> \<exists>ts. phase_run target start ts q \<and> es = log_of 0 start ts"
proof (induction es arbitrary: q rule: rev_induct)
  case Nil
  then show ?case by (intro exI[of _ "[]"]) simp
next
  case (snoc e es)
  then have e: "chained allowed 0 start es (ce_from e)" "ce_sequence e = of_nat (length es) + 1"
    "allowed (ce_from e) (ce_to e) (ce_code e)" "ce_to e = q"
    by (auto simp: chained_snoc)
  obtain ts where ts: "phase_run target start ts (ce_from e)" "es = log_of 0 start ts"
    using snoc.IH[OF e(1)] by blast
  obtain t where t: "target (ce_from e) t = Some (q, ce_code e)"
    using e(3,4) by (auto simp: allowed_iff)
  have last: "(if ts = [] then start else fst (snd (last ts))) = ce_from e"
    using ts(1) by (cases rule: phase_run.cases) auto
  have "log_of 0 start (ts @ [(t, q, ce_code e)]) = es @ [e]"
    using e(2,4) by (simp add: log_of_append last ts(2)[symmetric])
       (simp add: ts(2))
  with phase_run.move[OF ts(1) t] show ?case by metis
qed

text \<open>A valid record is the trace of a run from the start to its phase.\<close>

lemma record_run:
  assumes "valid j"
  obtains ts where "phase_run target start ts (phase j)" and "events j = log_of 0 start ts"
  using chain_is_run[OF valid_chain[OF assms]] by blast

lemma valid_bounded: "valid j \<Longrightarrow> length (events j) \<le> rank (phase j)"
  by (erule record_run) (use run_rank start_first in force)

lemma valid_log:
  assumes "valid j" and "phase_run target start us (phase j)" and "phase j \<noteq> recovery"
  shows "events j = log_of 0 start us"
proof -
  obtain ts where ts: "phase_run target start ts (phase j)" "events j = log_of 0 start ts"
    using assms(1) by (rule record_run)
  have "log_of n p ts = log_of n p us" if "map snd ts = map snd us" for n p ts us
    using that by (induction n p ts arbitrary: us rule: log_of.induct) auto
  with run_unique[OF ts(1) assms(2,3)] ts(2) show ?thesis by simp
qed

lemma apply_iff:
  assumes "valid j"
  shows "(\<exists>j'. apply_op t j = Inr j') \<longleftrightarrow> target (phase j) t \<noteq> None"
  using apply_sound[of t j] apply_enabled[OF assms] by fastforce

text \<open>Any sequence of transitions ends: each one raises the rank.\<close>

lemma apply_rank: "apply_op t j = Inr j' \<Longrightarrow> rank (phase j) < rank (phase j')"
  using apply_sound rank_increases by blast

end

end
