(* ===== verification/CreateJournal.thy ===== *)
theory CreateJournal
  imports PhaseMachine DurableStore
begin

text \<open>
  The runtime journal of a create (\<open>crates/executor/src/production_create_journal.rs\<close>): its phases and
  transitions, its record and validator, \<open>apply_transition\<close>, and its store. SHA-256 of the JSON
  form of the immutable bindings is the parameter \<open>fp\<close>, the JSON codec of the record the
  parameters \<open>enc\<close> and \<open>dec\<close>. Whether the feature is compiled is the parameter \<open>compiled\<close>.
\<close>

section \<open>Phases and transitions\<close>

datatype create_phase =
  CpPrepared
| CpWritingPartitionTable
| CpPartitionTableWrittenAwaitingRediscovery
| CpPartitionMappedVerified
| CpFormattingFilesystem
| CpFilesystemFormattedAwaitingVerification
| CpCompleted
| CpRecoveryRequired

datatype create_transition =
  CtBeginPartitionTableWrite
| CtPartitionTableWriteSucceeded
| CtPartitionRediscoveryVerified
| CtBeginFilesystemFormat
| CtFilesystemFormatSucceeded
| CtFilesystemRediscoveryVerified
| CtRecoveryRequired

type_synonym create_error = "(create_phase, create_transition) runtime_error"

fun create_transition_target :: "create_phase \<Rightarrow> create_transition \<Rightarrow> (create_phase \<times> string) option" where
  "create_transition_target CpPrepared CtBeginPartitionTableWrite =
     Some (CpWritingPartitionTable, ''partition-table-write-started'')"
| "create_transition_target CpWritingPartitionTable CtPartitionTableWriteSucceeded =
     Some (CpPartitionTableWrittenAwaitingRediscovery, ''partition-table-write-succeeded'')"
| "create_transition_target CpPartitionTableWrittenAwaitingRediscovery CtPartitionRediscoveryVerified =
     Some (CpPartitionMappedVerified, ''partition-rediscovery-verified'')"
| "create_transition_target CpPartitionMappedVerified CtBeginFilesystemFormat =
     Some (CpFormattingFilesystem, ''filesystem-format-started'')"
| "create_transition_target CpFormattingFilesystem CtFilesystemFormatSucceeded =
     Some (CpFilesystemFormattedAwaitingVerification, ''filesystem-format-succeeded'')"
| "create_transition_target CpFilesystemFormattedAwaitingVerification CtFilesystemRediscoveryVerified =
     Some (CpCompleted, ''filesystem-rediscovery-verified'')"
| "create_transition_target CpWritingPartitionTable CtRecoveryRequired =
     Some (CpRecoveryRequired, ''recovery-required'')"
| "create_transition_target CpPartitionTableWrittenAwaitingRediscovery CtRecoveryRequired =
     Some (CpRecoveryRequired, ''recovery-required'')"
| "create_transition_target CpPartitionMappedVerified CtRecoveryRequired =
     Some (CpRecoveryRequired, ''recovery-required'')"
| "create_transition_target CpFormattingFilesystem CtRecoveryRequired =
     Some (CpRecoveryRequired, ''recovery-required'')"
| "create_transition_target CpFilesystemFormattedAwaitingVerification CtRecoveryRequired =
     Some (CpRecoveryRequired, ''recovery-required'')"
| "create_transition_target _ _ = None"

fun_cases create_target_SomeE: "create_transition_target p t = Some qc"

section \<open>The record\<close>

record create_event =
  cev_sequence :: u32
  cev_phase :: create_phase
  cev_code :: string

record create_journal =
  cj_schema_version :: u32
  cj_journal_id :: string
  cj_activation_id :: string
  cj_execution_permit_id :: string
  cj_preflight_receipt_id :: string
  cj_launch_id :: string
  cj_create_intent_id :: string
  cj_disk :: string
  cj_partition_device :: string
  cj_partition_table :: string
  cj_partition_start_sector :: u64
  cj_partition_sector_count :: u64
  cj_partition_size_bytes :: u64
  cj_filesystem :: string
  cj_phase :: create_phase
  cj_mutation_may_have_started :: bool
  cj_partition_table_may_have_changed :: bool
  cj_filesystem_may_have_changed :: bool
  cj_events :: "create_event list"

datatype create_id_payload =
  CreateIdPayload u32 string string string string string string string string u64 u64 u64 string

type_synonym create_digest = "create_id_payload \<Rightarrow> (string, string) result"

definition create_expected_journal_id :: "create_digest \<Rightarrow> create_journal \<Rightarrow> (string, string) result" where
  "create_expected_journal_id fp j =
     fp (CreateIdPayload (cj_schema_version j) (cj_activation_id j) (cj_execution_permit_id j)
          (cj_preflight_receipt_id j) (cj_launch_id j) (cj_create_intent_id j) (cj_disk j)
          (cj_partition_device j) (cj_partition_table j) (cj_partition_start_sector j)
          (cj_partition_sector_count j) (cj_partition_size_bytes j) (cj_filesystem j))"

definition create_integrity_matches :: "create_digest \<Rightarrow> create_journal \<Rightarrow> (string, bool) result" where
  "create_integrity_matches fp j =
     (case create_expected_journal_id fp j of Inl e \<Rightarrow> Inl e | Inr d \<Rightarrow> Inr (cj_journal_id j = d))"

fun create_sequence_ok :: "nat \<Rightarrow> create_event list \<Rightarrow> bool" where
  "create_sequence_ok n [] = True"
| "create_sequence_ok n (e # es) = (cev_sequence e = of_nat n + 1 \<and> create_sequence_ok (Suc n) es)"

definition create_validate_journal :: "create_digest \<Rightarrow> create_journal \<Rightarrow> (create_error, unit) result" where
  "create_validate_journal fp j =
     first_error
       [require (\<not> (cj_schema_version j \<noteq> 1
             \<or> create_integrity_matches fp j \<noteq> Inr True
             \<or> cj_disk j = []
             \<or> \<not> starts_with ''/dev/'' (cj_disk j)
             \<or> cj_partition_device j = []
             \<or> \<not> starts_with ''/dev/'' (cj_partition_device j)
             \<or> \<not> (cj_partition_table j = ''gpt'' \<or> cj_partition_table j = ''dos'')
             \<or> cj_partition_start_sector j = 0
             \<or> cj_partition_sector_count j = 0
             \<or> cj_partition_size_bytes j = 0
             \<or> \<not> (cj_filesystem j = ''ext4'' \<or> cj_filesystem j = ''xfs'')))
          (RjeInvalidRecord ''journal identity or frozen create geometry is invalid''),
        validate_digest (cj_activation_id j) ''activation ID'',
        validate_digest (cj_execution_permit_id j) ''execution permit ID'',
        validate_digest (cj_preflight_receipt_id j) ''preflight receipt ID'',
        validate_digest (cj_launch_id j) ''launch ID'',
        validate_digest (cj_create_intent_id j) ''create intent ID'',
        require (create_sequence_ok 0 (cj_events j)
             \<and> (cj_events j \<noteq> [] \<longrightarrow> cev_sequence (last (cj_events j)) = of_nat (length (cj_events j))))
          (RjeInvalidRecord ''journal event sequence is invalid''),
        require ((cj_phase j \<noteq> CpPrepared) = cj_mutation_may_have_started j)
          (RjeInvalidRecord ''mutation-start flag does not match durable phase''),
        require (\<not> (cj_filesystem_may_have_changed j \<and> \<not> cj_partition_table_may_have_changed j))
          (RjeInvalidRecord ''filesystem mutation cannot precede partition-table mutation'')]"

definition create_apply_transition ::
  "create_digest \<Rightarrow> create_transition \<Rightarrow> create_journal \<Rightarrow> (create_error, create_journal) result" where
  "create_apply_transition fp transition j =
     (case create_transition_target (cj_phase j) transition of
        None \<Rightarrow> Inl (RjeInvalidTransition (cj_phase j) transition)
      | Some (phase, code) \<Rightarrow>
          (let j = j\<lparr>cj_phase := phase\<rparr>;
               j = (if transition = CtBeginPartitionTableWrite
                    then j\<lparr>cj_mutation_may_have_started := True, cj_partition_table_may_have_changed := True\<rparr>
                    else j);
               j = (if transition = CtBeginFilesystemFormat
                    then j\<lparr>cj_filesystem_may_have_changed := True\<rparr> else j);
               j = j\<lparr>cj_events := cj_events j @
                     [\<lparr>cev_sequence = of_nat (length (cj_events j)) + 1, cev_phase = phase, cev_code = code\<rparr>]\<rparr>
           in and_then (create_validate_journal fp j) (\<lambda>_. Inr j)))"

section \<open>The store\<close>

definition MAX_CREATE_RUNTIME_JOURNAL_BYTES :: nat where
  "MAX_CREATE_RUNTIME_JOURNAL_BYTES = 64 * 1024"

definition create_kind ::
  "create_digest \<Rightarrow> (create_journal \<Rightarrow> string option) \<Rightarrow> (string \<Rightarrow> create_journal option)
   \<Rightarrow> (create_phase, create_transition, create_journal) journal_kind" where
  "create_kind fp enc dec = \<lparr>jk_max_bytes = MAX_CREATE_RUNTIME_JOURNAL_BYTES, jk_id = cj_journal_id,
     jk_mismatch = ''journal ID does not match requested record'',
     jk_validate = create_validate_journal fp, jk_to_vec = enc, jk_from_slice = dec,
     jk_ensure_directory = ensure_secure_directory\<rparr>"

definition persist_production_create_runtime_transition ::
  "create_digest \<Rightarrow> (create_journal \<Rightarrow> string option) \<Rightarrow> (string \<Rightarrow> create_journal option)
   \<Rightarrow> io_env \<Rightarrow> path \<Rightarrow> create_journal \<Rightarrow> create_transition
   \<Rightarrow> (create_phase, create_transition, create_journal) store_action" where
  "persist_production_create_runtime_transition fp enc dec env root =
     persist_transition persist (create_apply_transition fp) (create_kind fp enc dec) env root"

section \<open>The transition table\<close>

fun create_rank :: "create_phase \<Rightarrow> nat" where
  "create_rank CpPrepared = 0"
| "create_rank CpWritingPartitionTable = 1"
| "create_rank CpPartitionTableWrittenAwaitingRediscovery = 2"
| "create_rank CpPartitionMappedVerified = 3"
| "create_rank CpFormattingFilesystem = 4"
| "create_rank CpFilesystemFormattedAwaitingVerification = 5"
| "create_rank CpCompleted = 6"
| "create_rank CpRecoveryRequired = 7"

interpretation create_machine: phase_machine create_transition_target create_rank CpPrepared CpRecoveryRequired
proof
  show "create_rank p < create_rank q" if "create_transition_target p t = Some (q, c)" for p t q c
    using that by (elim create_target_SomeE) simp_all
  show "create_rank p \<le> create_rank CpRecoveryRequired" for p by (cases p) auto
  show "p = p' \<and> c = c'"
    if "create_transition_target p t = Some (q, c)" "create_transition_target p' t' = Some (q, c')"
      "q \<noteq> CpRecoveryRequired" for p t q c p' t' c'
    using that by (elim create_target_SomeE) simp_all
qed simp

interpretation create_store: durable_store "create_kind fp enc dec"
    "persist_new (create_kind fp enc dec) resolves" "persist (create_kind fp enc dec)" "load (create_kind fp enc dec)"
  for fp enc dec resolves
  by (rule durable_store_of_kind) (simp add: create_kind_def keeps_records)

section \<open>Reachable journals\<close>

definition create_fresh :: "create_digest \<Rightarrow> create_journal \<Rightarrow> bool" where
  "create_fresh fp j \<longleftrightarrow> create_validate_journal fp j = Inr () \<and> cj_phase j = CpPrepared
     \<and> cj_events j = [] \<and> \<not> cj_partition_table_may_have_changed j \<and> \<not> cj_filesystem_may_have_changed j"

inductive create_reachable :: "create_digest \<Rightarrow> create_journal \<Rightarrow> create_journal \<Rightarrow> bool" for fp j0 where
  start: "create_fresh fp j0 \<Longrightarrow> create_reachable fp j0 j0"
| step: "create_reachable fp j0 j \<Longrightarrow> create_apply_transition fp t j = Inr j' \<Longrightarrow> create_reachable fp j0 j'"

fun create_log :: "nat \<Rightarrow> (create_transition \<times> create_phase \<times> string) list \<Rightarrow> create_event list" where
  "create_log n [] = []"
| "create_log n ((t, q, c) # ts) =
     \<lparr>cev_sequence = of_nat n + 1, cev_phase = q, cev_code = c\<rparr> # create_log (Suc n) ts"

definition create_state ::
  "create_journal \<Rightarrow> (create_transition \<times> create_phase \<times> string) list \<Rightarrow> create_phase \<Rightarrow> create_journal" where
  "create_state j0 ts p = j0\<lparr>cj_phase := p, cj_mutation_may_have_started := (p \<noteq> CpPrepared),
     cj_partition_table_may_have_changed := (p \<noteq> CpPrepared),
     cj_filesystem_may_have_changed := (CpFormattingFilesystem \<in> (\<lambda>x. fst (snd x)) ` set ts),
     cj_events := create_log 0 ts\<rparr>"

lemma create_log_append: "create_log n (ts @ us) = create_log n ts @ create_log (n + length ts) us"
  by (induction n ts rule: create_log.induct) auto

lemma create_log_length [simp]: "length (create_log n ts) = length ts"
  by (induction n ts rule: create_log.induct) auto

lemma create_log_Nil [simp]: "create_log n ts = [] \<longleftrightarrow> ts = []"
  using create_log_length[of n ts] by (metis length_0_conv)

lemma create_log_codes: "map cev_code (create_log n ts) = map (\<lambda>x. snd (snd x)) ts"
  by (induction n ts rule: create_log.induct) auto

lemma create_sequence_log: "create_sequence_ok n (create_log n ts)"
  by (induction n ts rule: create_log.induct) auto

lemma create_log_last:
  "create_log 0 ts \<noteq> [] \<Longrightarrow> cev_sequence (last (create_log 0 ts)) = of_nat (length ts)"
  by (cases ts rule: rev_cases) (auto simp: create_log_append)

lemma create_validate_iff:
  "create_validate_journal fp j = Inr u \<longleftrightarrow>
     cj_schema_version j = 1 \<and> create_integrity_matches fp j = Inr True
     \<and> starts_with ''/dev/'' (cj_disk j) \<and> cj_disk j \<noteq> []
     \<and> starts_with ''/dev/'' (cj_partition_device j) \<and> cj_partition_device j \<noteq> []
     \<and> (cj_partition_table j = ''gpt'' \<or> cj_partition_table j = ''dos'')
     \<and> cj_partition_start_sector j \<noteq> 0 \<and> cj_partition_sector_count j \<noteq> 0 \<and> cj_partition_size_bytes j \<noteq> 0
     \<and> (cj_filesystem j = ''ext4'' \<or> cj_filesystem j = ''xfs'')
     \<and> is_lower_hex_digest (cj_activation_id j) \<and> is_lower_hex_digest (cj_execution_permit_id j)
     \<and> is_lower_hex_digest (cj_preflight_receipt_id j) \<and> is_lower_hex_digest (cj_launch_id j)
     \<and> is_lower_hex_digest (cj_create_intent_id j)
     \<and> create_sequence_ok 0 (cj_events j)
     \<and> (cj_events j \<noteq> [] \<longrightarrow> cev_sequence (last (cj_events j)) = of_nat (length (cj_events j)))
     \<and> cj_mutation_may_have_started j = (cj_phase j \<noteq> CpPrepared)
     \<and> (cj_filesystem_may_have_changed j \<longrightarrow> cj_partition_table_may_have_changed j)"
  unfolding create_validate_journal_def validate_digest_def first_error_Cons require_ok
  by (auto simp: first_error_Cons)

lemma create_state_integrity [simp]:
  "create_integrity_matches fp (create_state j0 ts p) = create_integrity_matches fp j0"
  by (simp add: create_integrity_matches_def create_expected_journal_id_def create_state_def split: sum.split)

lemma create_state_fields [simp]:
  "cj_phase (create_state j0 ts p) = p" "cj_events (create_state j0 ts p) = create_log 0 ts"
  "cj_mutation_may_have_started (create_state j0 ts p) = (p \<noteq> CpPrepared)"
  "cj_partition_table_may_have_changed (create_state j0 ts p) = (p \<noteq> CpPrepared)"
  "cj_filesystem_may_have_changed (create_state j0 ts p) = (CpFormattingFilesystem \<in> (\<lambda>x. fst (snd x)) ` set ts)"
  by (simp_all add: create_state_def)

lemma create_state_valid:
  assumes "create_fresh fp j0" and "phase_run create_transition_target CpPrepared ts p"
  shows "create_validate_journal fp (create_state j0 ts p) = Inr ()"
proof -
  have "CpFormattingFilesystem \<notin> (\<lambda>x. fst (snd x)) ` set ts" if "p = CpPrepared"
    using create_machine.run_rank[OF assms(2)] that by simp
  then show ?thesis
    using assms(1)
    unfolding create_fresh_def create_validate_iff create_state_integrity create_state_fields
    by (simp only: create_sequence_log create_log_length) (auto simp: create_state_def create_log_last)
qed

lemma create_apply_state:
  assumes "create_fresh fp j0" and "phase_run create_transition_target CpPrepared ts p"
    and "create_transition_target p t = Some (q, c)"
  shows "create_apply_transition fp t (create_state j0 ts p) = Inr (create_state j0 (ts @ [(t, q, c)]) q)"
proof -
  have valid: "create_validate_journal fp (create_state j0 (ts @ [(t, q, c)]) q) = Inr ()"
    by (rule create_state_valid[OF assms(1) phase_run.move[OF assms(2,3)]])
  have "(t = CtBeginPartitionTableWrite) = (p = CpPrepared)" "q \<noteq> CpPrepared"
    "(t = CtBeginFilesystemFormat) = (q = CpFormattingFilesystem)"
    using assms(3) by (elim create_target_SomeE; simp)+
  then have "create_apply_transition fp t (create_state j0 ts p)
      = and_then (create_validate_journal fp (create_state j0 (ts @ [(t, q, c)]) q))
          (\<lambda>_. Inr (create_state j0 (ts @ [(t, q, c)]) q))"
    using assms(3)
    by (cases j0) (auto simp: create_apply_transition_def create_state_def Let_def create_log_append)
  then show ?thesis by (simp add: valid)
qed

lemma create_reachable_state:
  "create_reachable fp j0 j \<Longrightarrow>
     create_fresh fp j0 \<and> (\<exists>ts. phase_run create_transition_target CpPrepared ts (cj_phase j)
                               \<and> j = create_state j0 ts (cj_phase j))"
proof (induction rule: create_reachable.induct)
  case start
  then have "j0 = create_state j0 [] CpPrepared"
    by (simp add: create_fresh_def create_state_def create_validate_iff)
  with start show ?case by (metis create_fresh_def phase_run.stay)
next
  case (step j t j')
  then obtain ts where ts: "phase_run create_transition_target CpPrepared ts (cj_phase j)"
    "j = create_state j0 ts (cj_phase j)" and f: "create_fresh fp j0" by blast
  obtain q c where q: "create_transition_target (cj_phase j) t = Some (q, c)"
    using step.hyps(2) by (auto simp: create_apply_transition_def split: option.splits)
  have "j' = create_state j0 (ts @ [(t, q, c)]) q"
    using create_apply_state[OF f ts(1) q] step.hyps(2) ts(2) by simp
  then show ?case using phase_run.move[OF ts(1) q] f by auto
qed

lemma create_full_run:
  "phase_run create_transition_target CpPrepared
     [(CtBeginPartitionTableWrite, CpWritingPartitionTable, ''partition-table-write-started''),
      (CtPartitionTableWriteSucceeded, CpPartitionTableWrittenAwaitingRediscovery, ''partition-table-write-succeeded''),
      (CtPartitionRediscoveryVerified, CpPartitionMappedVerified, ''partition-rediscovery-verified''),
      (CtBeginFilesystemFormat, CpFormattingFilesystem, ''filesystem-format-started''),
      (CtFilesystemFormatSucceeded, CpFilesystemFormattedAwaitingVerification, ''filesystem-format-succeeded''),
      (CtFilesystemRediscoveryVerified, CpCompleted, ''filesystem-rediscovery-verified'')] CpCompleted"
  by (rule phase_run.move[where ts = "[_, _, _, _, _]", simplified]
        phase_run.move[where ts = "[_, _, _, _]", simplified]
        phase_run.move[where ts = "[_, _, _]", simplified]
        phase_run.move[where ts = "[_, _]", simplified]
        phase_run.move[where ts = "[_]", simplified]
        phase_run.move[where ts = "[]", simplified] | simp)+

lemma create_run_codes:
  "phase_run create_transition_target CpPrepared ts p \<Longrightarrow>
     (p \<noteq> CpPrepared \<longleftrightarrow> ''partition-table-write-started'' \<in> (\<lambda>x. snd (snd x)) ` set ts)
     \<and> (CpFormattingFilesystem \<in> (\<lambda>x. fst (snd x)) ` set ts
          \<longleftrightarrow> ''filesystem-format-started'' \<in> (\<lambda>x. snd (snd x)) ` set ts)"
proof (induction rule: phase_run.induct)
  case (move ts q t r c)
  from move.hyps(2) move.IH show ?case by (elim create_target_SomeE) simp_all
qed simp

lemma create_completed_codes:
  assumes "create_reachable fp j0 j" and "cj_phase j = CpCompleted"
  shows "map cev_code (cj_events j) =
           [''partition-table-write-started'', ''partition-table-write-succeeded'',
            ''partition-rediscovery-verified'', ''filesystem-format-started'',
            ''filesystem-format-succeeded'', ''filesystem-rediscovery-verified'']"
proof -
  obtain ts where ts: "phase_run create_transition_target CpPrepared ts CpCompleted"
    "cj_events j = create_log 0 ts"
    using create_reachable_state[OF assms(1)] assms(2) create_state_fields(2) by metis
  have "map snd ts = map snd
     [(CtBeginPartitionTableWrite, CpWritingPartitionTable, ''partition-table-write-started''),
      (CtPartitionTableWriteSucceeded, CpPartitionTableWrittenAwaitingRediscovery, ''partition-table-write-succeeded''),
      (CtPartitionRediscoveryVerified, CpPartitionMappedVerified, ''partition-rediscovery-verified''),
      (CtBeginFilesystemFormat, CpFormattingFilesystem, ''filesystem-format-started''),
      (CtFilesystemFormatSucceeded, CpFilesystemFormattedAwaitingVerification, ''filesystem-format-succeeded''),
      (CtFilesystemRediscoveryVerified, CpCompleted, ''filesystem-rediscovery-verified'')]"
    by (rule create_machine.run_unique[OF ts(1) create_full_run]) simp
  then have "map (snd \<circ> snd) ts = map snd (map snd
     [(CtBeginPartitionTableWrite, CpWritingPartitionTable, ''partition-table-write-started''),
      (CtPartitionTableWriteSucceeded, CpPartitionTableWrittenAwaitingRediscovery, ''partition-table-write-succeeded''),
      (CtPartitionRediscoveryVerified, CpPartitionMappedVerified, ''partition-rediscovery-verified''),
      (CtBeginFilesystemFormat, CpFormattingFilesystem, ''filesystem-format-started''),
      (CtFilesystemFormatSucceeded, CpFilesystemFormattedAwaitingVerification, ''filesystem-format-succeeded''),
      (CtFilesystemRediscoveryVerified, CpCompleted, ''filesystem-rediscovery-verified'')])"
    by (metis map_map)
  then show ?thesis by (simp add: ts(2) create_log_codes comp_def)
qed

definition ex_create :: create_journal where
  "ex_create = \<lparr>cj_schema_version = 1, cj_journal_id = ex_sha, cj_activation_id = ex_sha,
     cj_execution_permit_id = ex_sha, cj_preflight_receipt_id = ex_sha, cj_launch_id = ex_sha,
     cj_create_intent_id = ex_sha, cj_disk = ''/dev/loop7'', cj_partition_device = ''/dev/loop7p1'',
     cj_partition_table = ''gpt'', cj_partition_start_sector = 2048, cj_partition_sector_count = 262144,
     cj_partition_size_bytes = 134217728, cj_filesystem = ''ext4'', cj_phase = CpPrepared,
     cj_mutation_may_have_started = False, cj_partition_table_may_have_changed = False,
     cj_filesystem_may_have_changed = False, cj_events = []\<rparr>"

lemma ex_create_fresh: "create_fresh (\<lambda>_. Inr ex_sha) ex_create"
  by (simp add: create_fresh_def create_validate_iff ex_create_def ex_sha_hex starts_with_def
        create_integrity_matches_def create_expected_journal_id_def)

lemma ex_create_reaches:
  "create_reachable (\<lambda>_. Inr ex_sha) ex_create
     (create_state ex_create [(CtBeginPartitionTableWrite, CpWritingPartitionTable, ''partition-table-write-started'')]
       CpWritingPartitionTable)"
proof -
  have "create_state ex_create [] CpPrepared = ex_create"
    by (simp add: create_state_def ex_create_def)
  with create_apply_state[OF ex_create_fresh phase_run.stay, of CtBeginPartitionTableWrite]
  show ?thesis
    by (auto intro!: create_reachable.step[OF create_reachable.start[OF ex_create_fresh]])
qed

lemma create_run_reachable:
  assumes "create_fresh fp j0"
  shows "phase_run create_transition_target CpPrepared ts p \<Longrightarrow> create_reachable fp j0 (create_state j0 ts p)"
proof (induction rule: phase_run.induct)
  case stay
  have "create_state j0 [] CpPrepared = j0"
    using assms by (simp add: create_state_def create_fresh_def create_validate_iff)
  then show ?case using assms by (simp add: create_reachable.start)
next
  case (move ts q t r c)
  show ?case
    by (rule create_reachable.step[OF move.IH create_apply_state[OF assms move.hyps]])
qed

text \<open>A create journal that has reached Completed from a prepared one holds exactly the six
  boundaries in order: the partition table was written and rediscovered before the file system was
  formatted, and that was verified last.\<close>

theorem create_completion_in_order:
  assumes "create_reachable fp j0 j" and "cj_phase j = CpCompleted"
  shows "map cev_code (cj_events j) =
           [''partition-table-write-started'', ''partition-table-write-succeeded'',
            ''partition-rediscovery-verified'', ''filesystem-format-started'',
            ''filesystem-format-succeeded'', ''filesystem-rediscovery-verified'']
         \<and> cj_mutation_may_have_started j \<and> cj_partition_table_may_have_changed j
         \<and> cj_filesystem_may_have_changed j"
proof -
  obtain ts where ts: "phase_run create_transition_target CpPrepared ts CpCompleted"
    "j = create_state j0 ts CpCompleted"
    using create_reachable_state[OF assms(1)] assms(2) by metis
  have codes: "(\<lambda>x. snd (snd x)) ` set ts = set (map cev_code (cj_events j))"
    by (simp add: ts(2) create_log_codes)
  have "CpFormattingFilesystem \<in> (\<lambda>x. fst (snd x)) ` set ts"
    using create_run_codes[OF ts(1)] unfolding codes create_completed_codes[OF assms] by simp
  with create_completed_codes[OF assms] ts(2) show ?thesis by simp
qed

theorem create_completion_in_order_witness:
  "\<exists>j::create_journal. cj_phase j = CpCompleted
     \<and> map cev_code (cj_events j) =
           [''partition-table-write-started'', ''partition-table-write-succeeded'',
            ''partition-rediscovery-verified'', ''filesystem-format-started'',
            ''filesystem-format-succeeded'', ''filesystem-rediscovery-verified'']"
proof -
  obtain ts where ts: "phase_run create_transition_target CpPrepared ts CpCompleted"
    using create_full_run by (rule that)
  have p: "cj_phase (create_state ex_create ts CpCompleted) = CpCompleted" by simp
  note all = create_completion_in_order[OF create_run_reachable[OF ex_create_fresh ts] p]
  show ?thesis
    by (rule exI[of _ "create_state ex_create ts CpCompleted"], rule conjI[OF p all[THEN conjunct1]])
qed

text \<open>C22: In every reachable create journal the risk flags say exactly what the log says, recovery
  is only entered after the write has started, the log has at most seven events, and a
  transition is accepted exactly when the table has it.\<close>

theorem create_journal_invariant:
  assumes "create_reachable fp j0 j"
  shows "cj_partition_table_may_have_changed j = (''partition-table-write-started'' \<in> set (map cev_code (cj_events j)))
    \<and> cj_filesystem_may_have_changed j = (''filesystem-format-started'' \<in> set (map cev_code (cj_events j)))
    \<and> cj_mutation_may_have_started j = (cj_events j \<noteq> [])
    \<and> (cj_phase j = CpRecoveryRequired \<longrightarrow> cj_partition_table_may_have_changed j)
    \<and> length (cj_events j) \<le> 7
    \<and> create_validate_journal fp j = Inr ()
    \<and> ((\<exists>j'. create_apply_transition fp t j = Inr j') \<longleftrightarrow> create_transition_target (cj_phase j) t \<noteq> None)"
proof -
  obtain ts where ts: "phase_run create_transition_target CpPrepared ts (cj_phase j)"
    "j = create_state j0 ts (cj_phase j)" and f: "create_fresh fp j0"
    using create_reachable_state[OF assms] by blast
  have e: "cj_events j = create_log 0 ts" using ts(2) create_state_fields(2) by metis
  have flags: "cj_partition_table_may_have_changed j = (cj_phase j \<noteq> CpPrepared)"
    "cj_mutation_may_have_started j = (cj_phase j \<noteq> CpPrepared)"
    "cj_filesystem_may_have_changed j = (CpFormattingFilesystem \<in> (\<lambda>x. fst (snd x)) ` set ts)"
    using ts(2) create_state_fields by metis+
  have codes: "set (map cev_code (cj_events j)) = (\<lambda>x. snd (snd x)) ` set ts"
    by (simp add: e create_log_codes)
  have none: "cj_events j = [] \<longleftrightarrow> cj_phase j = CpPrepared"
    using create_run_codes[OF ts(1)] create_machine.run_rank[OF ts(1)] by (auto simp: e)
  have apply_iff: "(\<exists>j'. create_apply_transition fp t j = Inr j') \<longleftrightarrow> create_transition_target (cj_phase j) t \<noteq> None"
  proof (cases "create_transition_target (cj_phase j) t")
    case None then show ?thesis by (simp add: create_apply_transition_def)
  next
    case (Some qc)
    then obtain q c where "create_transition_target (cj_phase j) t = Some (q, c)" by (cases qc) simp
    then show ?thesis using create_apply_state[OF f ts(1)] ts(2) by auto
  qed
  have "length (cj_events j) \<le> 7" using create_machine.run_bounded[OF ts(1)] by (simp add: e)
  moreover have "create_validate_journal fp j = Inr ()" using create_state_valid[OF f ts(1)] ts(2) by simp
  ultimately show ?thesis
    using create_run_codes[OF ts(1)] flags codes none apply_iff by auto
qed

theorem create_journal_invariant_witness:
  "let j = create_state ex_create [(CtBeginPartitionTableWrite, CpWritingPartitionTable, ''partition-table-write-started'')]
       CpWritingPartitionTable
   in \<not> cj_filesystem_may_have_changed j
      \<and> \<not> (\<exists>j'. create_apply_transition (\<lambda>_. Inr ex_sha) CtBeginFilesystemFormat j = Inr j')"
  using create_journal_invariant[OF ex_create_reaches, of CtBeginFilesystemFormat] by (simp add: Let_def)

text \<open>C28: The validator of create journals does not tie the phase to the log: any valid prepared
  record is still valid with the phase set to Completed and the mutation flag set, with no event
  and no claim that the partition table or the file system may have changed.\<close>

theorem create_validator_accepts_bare_completion:
  assumes "create_fresh fp j"
  shows "create_validate_journal fp (j\<lparr>cj_phase := CpCompleted, cj_mutation_may_have_started := True\<rparr>) = Inr ()"
  using assms
  by (simp add: create_fresh_def create_validate_iff create_integrity_matches_def create_expected_journal_id_def
        split: sum.splits)

theorem create_validator_accepts_bare_completion_witness:
  "create_validate_journal (\<lambda>_. Inr ex_sha)
     (ex_create\<lparr>cj_phase := CpCompleted, cj_mutation_may_have_started := True\<rparr>) = Inr ()"
  by (rule create_validator_accepts_bare_completion[OF ex_create_fresh])

text \<open>C20: Crossing a boundary of a create is durable and atomic under any failing call: whatever
  host a crash leaves, the record on its disk is the old or the new one in full; on success the
  new one is on the disk and in memory, on an error the journal in memory is unchanged.\<close>

theorem create_transition_is_durable:
  assumes "create_apply_transition fp t j = Inr c" and "stored_bytes (create_kind fp enc dec) j = Some old"
    and "present {Intact old} (record_at root (cj_journal_id j)) (w_host w)" and "w_history w = []"
    and "persist_production_create_runtime_transition fp enc dec env root j t w = (r, w')"
  shows "(\<forall>h \<in> set (w_history w'). set (survivors h (record_at root (cj_journal_id j)))
            \<subseteq> {Intact old} \<union> Intact ` set_option (stored_bytes (create_kind fp enc dec) c))
       \<and> (case r of Inl _ \<Rightarrow> journal_after j r = j
          | Inr _ \<Rightarrow> journal_after j r = c
              \<and> (\<exists>new. stored_bytes (create_kind fp enc dec) c = Some new
                   \<and> published env (record_at root (cj_journal_id j)) new (w_host w')))"
proof -
  have id: "jk_id (create_kind fp enc dec) k = cj_journal_id k" for k by (simp add: create_kind_def)
  have same: "jk_id (create_kind fp enc dec) c = jk_id (create_kind fp enc dec) j"
    using assms(1) unfolding id create_apply_transition_def
    by (auto simp: Let_def and_then_Inr split: option.splits)
  have run: "persist_transition (\<lambda>_. persist (create_kind fp enc dec)) (create_apply_transition fp)
      (create_kind fp enc dec) env root j t w = (r, w')"
    using assms(5) by (simp add: persist_production_create_runtime_transition_def persist_transition_def)
  note durable = create_store.transition_durable[where fp = fp and enc = enc and dec = dec,
      OF assms(1) same assms(2) _ assms(4) run, unfolded id]
  from durable assms(3) show ?thesis by blast
qed

theorem create_transition_is_durable_witness:
  "let fp = (\<lambda>_. Inr ex_sha); enc = (\<lambda>j. Some (if cj_phase j = CpPrepared then ''old'' else ''new''));
       dec = (\<lambda>_. None); w = ex_world (Some (''old'' @ [char_of (10::nat)]));
       out = persist_production_create_runtime_transition fp enc dec ex_env ex_root ex_create
               CtBeginPartitionTableWrite w
   in \<forall>h \<in> set (w_history (snd out)). set (survivors h (record_at ex_root ex_sha))
        \<subseteq> {Intact (''old'' @ [char_of (10::nat)]), Intact (''new'' @ [char_of (10::nat)])}"
proof -
  have s: "create_state ex_create [] CpPrepared = ex_create"
    by (simp add: create_state_def ex_create_def)
  let ?c = "create_state ex_create [(CtBeginPartitionTableWrite, CpWritingPartitionTable,
              ''partition-table-write-started'')] CpWritingPartitionTable"
  let ?enc = "\<lambda>j. Some (if cj_phase j = CpPrepared then ''old'' else ''new'')"
  have a: "create_apply_transition (\<lambda>_. Inr ex_sha) CtBeginPartitionTableWrite ex_create = Inr ?c"
    using create_apply_state[OF ex_create_fresh phase_run.stay, of CtBeginPartitionTableWrite] s by simp
  have b: "stored_bytes (create_kind (\<lambda>_. Inr ex_sha) ?enc (\<lambda>_. None)) ex_create = Some (''old'' @ [char_of (10::nat)])"
    "stored_bytes (create_kind (\<lambda>_. Inr ex_sha) ?enc (\<lambda>_. None)) ?c = Some (''new'' @ [char_of (10::nat)])"
    by (simp_all add: stored_bytes_def create_kind_def ex_create_def)
  have i: "cj_journal_id ex_create = ex_sha" by (simp add: ex_create_def)
  note d = create_transition_is_durable[OF a b(1), unfolded i, OF ex_world_present(1) ex_world_history
      prod.collapse[symmetric], unfolded b(2)]
  from d show ?thesis by (simp add: Let_def insert_commute)
qed

end
