(* ===== verification/MountJournal.thy ===== *)
theory MountJournal
  imports CreateJournal
begin

text \<open>
  The runtime journal of mounting a created file system
  (\<open>crates/executor/src/production_create_mount_journal.rs\<close>). Its validator replays the event log, so a
  valid record is the trace of a run: the locale \<open>audited_journal\<close> is interpreted on it.
\<close>

section \<open>Phases and transitions\<close>

datatype mount_phase =
  MpPrepared | MpMounting | MpMountedAwaitingVerification | MpCompleted | MpRecoveryRequired

datatype mount_transition =
  MtBeginMount | MtMountProcessSucceeded | MtMountRediscoveryVerified | MtRecoveryRequired

type_synonym mount_error = "(mount_phase, mount_transition) runtime_error"

fun mount_target_for_validation :: "mount_phase \<Rightarrow> mount_phase \<Rightarrow> (mount_phase \<times> string) option" where
  "mount_target_for_validation MpPrepared MpMounting = Some (MpMounting, ''mount-started'')"
| "mount_target_for_validation MpMounting MpMountedAwaitingVerification =
     Some (MpMountedAwaitingVerification, ''mount-process-succeeded'')"
| "mount_target_for_validation MpMountedAwaitingVerification MpCompleted =
     Some (MpCompleted, ''mount-rediscovery-verified'')"
| "mount_target_for_validation MpMounting MpRecoveryRequired = Some (MpRecoveryRequired, ''recovery-required'')"
| "mount_target_for_validation MpMountedAwaitingVerification MpRecoveryRequired =
     Some (MpRecoveryRequired, ''recovery-required'')"
| "mount_target_for_validation _ _ = None"

fun mount_transition_target :: "mount_phase \<Rightarrow> mount_transition \<Rightarrow> (mount_phase \<times> string) option" where
  "mount_transition_target MpPrepared MtBeginMount = Some (MpMounting, ''mount-started'')"
| "mount_transition_target MpMounting MtMountProcessSucceeded =
     Some (MpMountedAwaitingVerification, ''mount-process-succeeded'')"
| "mount_transition_target MpMountedAwaitingVerification MtMountRediscoveryVerified =
     Some (MpCompleted, ''mount-rediscovery-verified'')"
| "mount_transition_target MpMounting MtRecoveryRequired = Some (MpRecoveryRequired, ''recovery-required'')"
| "mount_transition_target MpMountedAwaitingVerification MtRecoveryRequired =
     Some (MpRecoveryRequired, ''recovery-required'')"
| "mount_transition_target _ _ = None"

fun_cases mount_target_SomeE: "mount_transition_target p t = Some qc"
fun_cases mount_validation_SomeE: "mount_target_for_validation p q = Some qc"

section \<open>The record\<close>

type_synonym mount_event = "(u32, mount_phase) chain_event"

record mount_journal =
  mj_schema_version :: u32
  mj_journal_id :: string
  mj_mount_activation_id :: string
  mj_preflight_receipt_id :: string
  mj_launch_id :: string
  mj_create_activation_id :: string
  mj_filesystem_receipt_id :: string
  mj_create_journal_id :: string
  mj_create_launch_id :: string
  mj_disk :: string
  mj_partition_device :: string
  mj_filesystem :: string
  mj_filesystem_uuid :: string
  mj_mountpoint :: string
  mj_mountpoint_device_id :: u64
  mj_mountpoint_inode :: u64
  mj_phase :: mount_phase
  mj_mutation_may_have_started :: bool
  mj_mount_may_have_changed :: bool
  mj_fstab_may_have_changed :: bool
  mj_events :: "mount_event list"

datatype mount_id_payload =
  MountIdPayload u32 string string string string string string string string string string string string u64 u64

type_synonym mount_digest = "mount_id_payload \<Rightarrow> (string, string) result"

definition mount_expected_journal_id :: "mount_digest \<Rightarrow> mount_journal \<Rightarrow> (string, string) result" where
  "mount_expected_journal_id fp j =
     fp (MountIdPayload (mj_schema_version j) (mj_mount_activation_id j) (mj_preflight_receipt_id j)
          (mj_launch_id j) (mj_create_activation_id j) (mj_filesystem_receipt_id j)
          (mj_create_journal_id j) (mj_create_launch_id j) (mj_disk j) (mj_partition_device j)
          (mj_filesystem j) (mj_filesystem_uuid j) (mj_mountpoint j) (mj_mountpoint_device_id j)
          (mj_mountpoint_inode j))"

definition mount_integrity_matches :: "mount_digest \<Rightarrow> mount_journal \<Rightarrow> (string, bool) result" where
  "mount_integrity_matches fp j =
     (case mount_expected_journal_id fp j of Inl e \<Rightarrow> Inl e | Inr d \<Rightarrow> Inr (mj_journal_id j = d))"

text \<open>
  The loop over the events: \<open>index\<close> and the phase reached so far. The journal of the persistent
  configuration has the same loop over its own table.
\<close>

fun replay_events ::
  "('p \<Rightarrow> 'p \<Rightarrow> ('p \<times> string) option) \<Rightarrow> nat \<Rightarrow> 'p \<Rightarrow> ('w::len word, 'p) chain_event list
   \<Rightarrow> (('p, 't) runtime_error, 'p) result" where
  "replay_events table index phase [] = Inr phase"
| "replay_events table index phase (event # rest) =
     (if ce_sequence event \<noteq> of_nat index + 1 \<or> ce_from event \<noteq> phase
      then Inl (RjeInvalidRecord ''journal event sequence or phase chain is invalid'')
      else case table (ce_from event) (ce_to event) of
        None \<Rightarrow> Inl (RjeInvalidRecord ''journal event contains an impossible phase transition'')
      | Some (expected_to, expected_code) \<Rightarrow>
          (if expected_to \<noteq> ce_to event \<or> expected_code \<noteq> ce_code event
           then Inl (RjeInvalidRecord ''journal event code does not match its phase transition'')
           else replay_events table (Suc index) (ce_to event) rest))"

text \<open>The replay followed by the check of the final phase.\<close>

definition replay_to ::
  "('p \<Rightarrow> 'p \<Rightarrow> ('p \<times> string) option) \<Rightarrow> 'p \<Rightarrow> ('w::len word, 'p) chain_event list \<Rightarrow> 'p
   \<Rightarrow> (('p, 't) runtime_error, unit) result" where
  "replay_to table start events final =
     and_then (replay_events table 0 start events) (\<lambda>phase.
       require (phase = final) (RjeInvalidRecord ''journal phase does not match its event chain''))"

definition mount_validate_journal :: "mount_digest \<Rightarrow> mount_journal \<Rightarrow> (mount_error, unit) result" where
  "mount_validate_journal fp j =
     first_error
       [require (\<not> (mj_schema_version j \<noteq> 1
             \<or> mount_integrity_matches fp j \<noteq> Inr True
             \<or> \<not> starts_with ''/dev/'' (mj_disk j)
             \<or> \<not> starts_with ''/dev/'' (mj_partition_device j)
             \<or> \<not> (mj_filesystem j = ''ext4'' \<or> mj_filesystem j = ''xfs'')
             \<or> mj_filesystem_uuid j = []
             \<or> mj_mountpoint j = []
             \<or> \<not> starts_with ''/'' (mj_mountpoint j)
             \<or> mj_fstab_may_have_changed j))
          (RjeInvalidRecord ''journal identity or frozen mount scope is invalid''),
        validate_digest (mj_mount_activation_id j) ''mount activation ID'',
        validate_digest (mj_preflight_receipt_id j) ''preflight receipt ID'',
        validate_digest (mj_launch_id j) ''launch ID'',
        validate_digest (mj_create_activation_id j) ''create activation ID'',
        validate_digest (mj_filesystem_receipt_id j) ''filesystem receipt ID'',
        validate_digest (mj_create_journal_id j) ''create journal ID'',
        validate_digest (mj_create_launch_id j) ''create launch ID'',
        replay_to mount_target_for_validation MpPrepared (mj_events j) (mj_phase j),
        (let mutation_expected = mj_phase j \<noteq> MpPrepared
         in require (\<not> (mutation_expected \<noteq> mj_mutation_may_have_started j
                         \<or> mutation_expected \<noteq> mj_mount_may_have_changed j))
              (RjeInvalidRecord ''mount mutation flags do not match durable phase''))]"

definition mount_apply_transition ::
  "mount_digest \<Rightarrow> mount_transition \<Rightarrow> mount_journal \<Rightarrow> (mount_error, mount_journal) result" where
  "mount_apply_transition fp transition j =
     (let from = mj_phase j
      in case mount_transition_target from transition of
           None \<Rightarrow> Inl (RjeInvalidTransition from transition)
         | Some (to, code) \<Rightarrow>
             (let j = j\<lparr>mj_phase := to, mj_mutation_may_have_started := True, mj_mount_may_have_changed := True,
                   mj_events := mj_events j @ [\<lparr>ce_sequence = of_nat (length (mj_events j)) + 1,
                     ce_from = from, ce_to = to, ce_code = code\<rparr>]\<rparr>
              in and_then (mount_validate_journal fp j) (\<lambda>_. Inr j)))"

definition MAX_MOUNT_RUNTIME_JOURNAL_BYTES :: nat where
  "MAX_MOUNT_RUNTIME_JOURNAL_BYTES = 64 * 1024"

definition mount_kind ::
  "mount_digest \<Rightarrow> (mount_journal \<Rightarrow> string option) \<Rightarrow> (string \<Rightarrow> mount_journal option)
   \<Rightarrow> (mount_phase, mount_transition, mount_journal) journal_kind" where
  "mount_kind fp enc dec = \<lparr>jk_max_bytes = MAX_MOUNT_RUNTIME_JOURNAL_BYTES, jk_id = mj_journal_id,
     jk_mismatch = ''journal ID does not match requested durable record'',
     jk_validate = mount_validate_journal fp, jk_to_vec = enc, jk_from_slice = dec,
     jk_ensure_directory = ensure_secure_directory\<rparr>"

definition mount_load ::
  "mount_digest \<Rightarrow> (mount_journal \<Rightarrow> string option) \<Rightarrow> (string \<Rightarrow> mount_journal option)
   \<Rightarrow> io_env \<Rightarrow> path \<Rightarrow> string \<Rightarrow> (mount_phase, mount_transition, mount_journal) store_action" where
  "mount_load fp enc dec = load (mount_kind fp enc dec)"

definition mount_persist_new ::
  "mount_digest \<Rightarrow> (mount_journal \<Rightarrow> string option) \<Rightarrow> (string \<Rightarrow> mount_journal option)
   \<Rightarrow> (path \<Rightarrow> bool) \<Rightarrow> io_env \<Rightarrow> path \<Rightarrow> mount_journal \<Rightarrow> (mount_phase, mount_transition, path) store_action" where
  "mount_persist_new fp enc dec = persist_new (mount_kind fp enc dec)"

definition mount_persist ::
  "mount_digest \<Rightarrow> (mount_journal \<Rightarrow> string option) \<Rightarrow> (string \<Rightarrow> mount_journal option)
   \<Rightarrow> io_env \<Rightarrow> path \<Rightarrow> mount_journal \<Rightarrow> (mount_phase, mount_transition, path) store_action" where
  "mount_persist fp enc dec = persist (mount_kind fp enc dec)"

definition persist_production_create_mount_runtime_transition ::
  "mount_digest \<Rightarrow> (mount_journal \<Rightarrow> string option) \<Rightarrow> (string \<Rightarrow> mount_journal option)
   \<Rightarrow> io_env \<Rightarrow> path \<Rightarrow> mount_journal \<Rightarrow> mount_transition
   \<Rightarrow> (mount_phase, mount_transition, mount_journal) store_action" where
  "persist_production_create_mount_runtime_transition fp enc dec env root =
     persist_transition persist (mount_apply_transition fp) (mount_kind fp enc dec) env root"

section \<open>The replay decides the chain\<close>

definition allowed_by :: "('p \<Rightarrow> 'p \<Rightarrow> ('p \<times> string) option) \<Rightarrow> 'p \<Rightarrow> 'p \<Rightarrow> string \<Rightarrow> bool" where
  "allowed_by table p q c = (table p q = Some (q, c))"

lemma replay_events_chained:
  "replay_events table n p es = Inr q \<longleftrightarrow> chained (allowed_by table) n p es q"
  by (induction table n p es rule: replay_events.induct)
     (auto simp: allowed_by_def split: option.splits)

lemma replay_to_chained:
  "replay_to table p es q = Inr u \<longleftrightarrow> chained (allowed_by table) 0 p es q"
  by (auto simp: replay_to_def and_then_Inr replay_events_chained)

fun mount_rank :: "mount_phase \<Rightarrow> nat" where
  "mount_rank MpPrepared = 0"
| "mount_rank MpMounting = 1"
| "mount_rank MpMountedAwaitingVerification = 2"
| "mount_rank MpCompleted = 3"
| "mount_rank MpRecoveryRequired = 4"

definition mount_header :: "mount_digest \<Rightarrow> mount_journal \<Rightarrow> bool" where
  "mount_header fp j \<longleftrightarrow>
     mj_schema_version j = 1 \<and> mount_integrity_matches fp j = Inr True
     \<and> starts_with ''/dev/'' (mj_disk j) \<and> starts_with ''/dev/'' (mj_partition_device j)
     \<and> (mj_filesystem j = ''ext4'' \<or> mj_filesystem j = ''xfs'') \<and> mj_filesystem_uuid j \<noteq> []
     \<and> mj_mountpoint j \<noteq> [] \<and> starts_with ''/'' (mj_mountpoint j) \<and> \<not> mj_fstab_may_have_changed j
     \<and> list_all is_lower_hex_digest [mj_mount_activation_id j, mj_preflight_receipt_id j, mj_launch_id j,
          mj_create_activation_id j, mj_filesystem_receipt_id j, mj_create_journal_id j, mj_create_launch_id j]"

lemma mount_validate_iff:
  "mount_validate_journal fp j = Inr u \<longleftrightarrow>
     mount_header fp j
     \<and> chained (allowed_by mount_target_for_validation) 0 MpPrepared (mj_events j) (mj_phase j)
     \<and> mj_mutation_may_have_started j = (mj_phase j \<noteq> MpPrepared)
     \<and> mj_mount_may_have_changed j = (mj_phase j \<noteq> MpPrepared)"
  unfolding mount_validate_journal_def validate_digest_def first_error_Cons require_ok replay_to_chained Let_def
    mount_header_def
  by auto

lemma mount_header_frame [simp]:
  "mount_header fp (j\<lparr>mj_phase := p, mj_mutation_may_have_started := a, mj_mount_may_have_changed := b,
       mj_events := es\<rparr>) = mount_header fp j"
  by (simp add: mount_header_def mount_integrity_matches_def mount_expected_journal_id_def split: sum.split)

lemma mount_apply_iff:
  "mount_apply_transition fp t j = Inr j' \<longleftrightarrow>
     (\<exists>q c. mount_transition_target (mj_phase j) t = Some (q, c)
       \<and> j' = j\<lparr>mj_phase := q, mj_mutation_may_have_started := True, mj_mount_may_have_changed := True,
              mj_events := mj_events j @ [\<lparr>ce_sequence = of_nat (length (mj_events j)) + 1,
                ce_from = mj_phase j, ce_to = q, ce_code = c\<rparr>]\<rparr>
       \<and> mount_validate_journal fp j' = Inr ())"
  by (auto simp: mount_apply_transition_def Let_def and_then_Inr split: option.splits)

lemma mount_allowed_iff:
  "allowed_by mount_target_for_validation p q c \<longleftrightarrow> (\<exists>t. mount_transition_target p t = Some (q, c))"
proof
  assume "allowed_by mount_target_for_validation p q c"
  then have "mount_target_for_validation p q = Some (q, c)" by (simp add: allowed_by_def)
  then show "\<exists>t. mount_transition_target p t = Some (q, c)"
    by (elim mount_validation_SomeE) (auto intro: mount_transition_target.simps)
next
  assume "\<exists>t. mount_transition_target p t = Some (q, c)"
  then obtain t where "mount_transition_target p t = Some (q, c)" ..
  then show "allowed_by mount_target_for_validation p q c"
    by (elim mount_target_SomeE) (simp_all add: allowed_by_def)
qed

interpretation mount_audit: audited_journal mount_transition_target mount_rank MpPrepared MpRecoveryRequired
    mj_phase mj_events "allowed_by mount_target_for_validation" "\<lambda>j. mount_validate_journal fp j = Inr ()"
    "mount_apply_transition fp" for fp
proof
  show "mount_rank p < mount_rank q" if "mount_transition_target p t = Some (q, c)" for p t q c
    using that by (elim mount_target_SomeE) simp_all
  show "mount_rank p \<le> mount_rank MpRecoveryRequired" for p by (cases p) auto
  show "p = p' \<and> c = c'"
    if "mount_transition_target p t = Some (q, c)" "mount_transition_target p' t' = Some (q, c')"
      "q \<noteq> MpRecoveryRequired" for p t q c p' t' c'
    using that by (elim mount_target_SomeE) simp_all
  show allowed: "allowed_by mount_target_for_validation p q c \<longleftrightarrow> (\<exists>t. mount_transition_target p t = Some (q, c))"
    for p q c by (rule mount_allowed_iff)
  show "chained (allowed_by mount_target_for_validation) 0 MpPrepared (mj_events j) (mj_phase j)"
    if "mount_validate_journal fp j = Inr ()" for j using that by (simp add: mount_validate_iff)
  show "mount_validate_journal fp j' = Inr () \<and> (\<exists>c. mount_transition_target (mj_phase j) t = Some (mj_phase j', c)
      \<and> mj_events j' = mj_events j @ [\<lparr>ce_sequence = of_nat (length (mj_events j)) + 1, ce_from = mj_phase j,
           ce_to = mj_phase j', ce_code = c\<rparr>])"
    if "mount_apply_transition fp t j = Inr j'" for t j j'
    using that by (auto simp: mount_apply_iff)
  show "\<exists>j'. mount_apply_transition fp t j = Inr j'"
    if "mount_validate_journal fp j = Inr ()" "mount_transition_target (mj_phase j) t = Some (q, c)" for t j q c
  proof -
    have "allowed_by mount_target_for_validation (mj_phase j) q c" using that(2) allowed by blast
    moreover have "q \<noteq> MpPrepared" using that(2) by (elim mount_target_SomeE) simp_all
    ultimately show ?thesis
      using that by (auto simp: mount_apply_iff mount_validate_iff chained_append)
  qed
qed simp

interpretation mount_store: durable_store "mount_kind fp enc dec"
    "mount_persist_new fp enc dec resolves" "mount_persist fp enc dec" "mount_load fp enc dec"
  for fp enc dec resolves
  unfolding mount_persist_new_def mount_persist_def mount_load_def
  by (rule durable_store_of_kind) (simp add: mount_kind_def keeps_records)

section \<open>Records and runs\<close>

lemma log_of_chained:
  assumes "phase_run mount_transition_target MpPrepared ts p"
  shows "chained (allowed_by mount_target_for_validation) 0 MpPrepared (log_of 0 MpPrepared ts) p"
  using assms
proof (induction rule: phase_run.induct)
  case (move ts q t r c)
  have last: "(if ts = [] then MpPrepared else fst (snd (last ts))) = q"
    using move.hyps(1) by (cases rule: phase_run.cases) auto
  have "allowed_by mount_target_for_validation q r c" using move.hyps(2) mount_allowed_iff by blast
  with move.IH show ?case by (auto simp: log_of_append last chained_append)
qed simp

text \<open>C24: The validator of mount journals accepts exactly the traces: a record with a well-formed
  header is valid if and only if its log is the log of a run of the transition table from
  Prepared to its phase, and both mutation flags say that the run has begun.\<close>

theorem mount_valid_iff_trace:
  "mount_validate_journal fp j = Inr () \<longleftrightarrow>
     mount_header fp j
     \<and> (\<exists>ts. phase_run mount_transition_target MpPrepared ts (mj_phase j) \<and> mj_events j = log_of 0 MpPrepared ts)
     \<and> mj_mutation_may_have_started j = (mj_phase j \<noteq> MpPrepared)
     \<and> mj_mount_may_have_changed j = (mj_phase j \<noteq> MpPrepared)"
proof
  assume v: "mount_validate_journal fp j = Inr ()"
  obtain ts where "phase_run mount_transition_target MpPrepared ts (mj_phase j)"
    "mj_events j = log_of 0 MpPrepared ts"
    using mount_audit.record_run[OF v] by blast
  with v show "mount_header fp j
     \<and> (\<exists>ts. phase_run mount_transition_target MpPrepared ts (mj_phase j) \<and> mj_events j = log_of 0 MpPrepared ts)
     \<and> mj_mutation_may_have_started j = (mj_phase j \<noteq> MpPrepared)
     \<and> mj_mount_may_have_changed j = (mj_phase j \<noteq> MpPrepared)"
    by (auto simp: mount_validate_iff)
qed (auto simp: mount_validate_iff log_of_chained)

end
