(* ===== verification/PersistentJournal.thy ===== *)
theory PersistentJournal
  imports MountJournal
begin

text \<open>
  The runtime journal of the persistent configuration of a created file system
  (\<open>crates/executor/src/production_create_persistent_journal.rs\<close>): the phases of the update of fstab,
  a validator that replays the log and pins the exact fstab entry, and its store.
\<close>

section \<open>Phases and transitions\<close>

datatype persistent_phase =
  PpPrepared | PpUpdatingFstab | PpFstabWrittenAwaitingVerification | PpCompleted | PpRecoveryRequired

datatype persistent_transition =
  PtBeginPersistentConfigUpdate
| PtPersistentConfigWriteSucceeded
| PtPersistentConfigRediscoveryVerified
| PtRecoveryRequired

type_synonym persistent_error = "(persistent_phase, persistent_transition) runtime_error"

fun persistent_target_for_validation ::
  "persistent_phase \<Rightarrow> persistent_phase \<Rightarrow> (persistent_phase \<times> string) option" where
  "persistent_target_for_validation PpPrepared PpUpdatingFstab =
     Some (PpUpdatingFstab, ''persistent-config-update-started'')"
| "persistent_target_for_validation PpUpdatingFstab PpFstabWrittenAwaitingVerification =
     Some (PpFstabWrittenAwaitingVerification, ''persistent-config-write-succeeded'')"
| "persistent_target_for_validation PpFstabWrittenAwaitingVerification PpCompleted =
     Some (PpCompleted, ''persistent-config-rediscovery-verified'')"
| "persistent_target_for_validation PpUpdatingFstab PpRecoveryRequired =
     Some (PpRecoveryRequired, ''recovery-required'')"
| "persistent_target_for_validation PpFstabWrittenAwaitingVerification PpRecoveryRequired =
     Some (PpRecoveryRequired, ''recovery-required'')"
| "persistent_target_for_validation _ _ = None"

fun persistent_transition_target ::
  "persistent_phase \<Rightarrow> persistent_transition \<Rightarrow> (persistent_phase \<times> string) option" where
  "persistent_transition_target PpPrepared PtBeginPersistentConfigUpdate =
     Some (PpUpdatingFstab, ''persistent-config-update-started'')"
| "persistent_transition_target PpUpdatingFstab PtPersistentConfigWriteSucceeded =
     Some (PpFstabWrittenAwaitingVerification, ''persistent-config-write-succeeded'')"
| "persistent_transition_target PpFstabWrittenAwaitingVerification PtPersistentConfigRediscoveryVerified =
     Some (PpCompleted, ''persistent-config-rediscovery-verified'')"
| "persistent_transition_target PpUpdatingFstab PtRecoveryRequired =
     Some (PpRecoveryRequired, ''recovery-required'')"
| "persistent_transition_target PpFstabWrittenAwaitingVerification PtRecoveryRequired =
     Some (PpRecoveryRequired, ''recovery-required'')"
| "persistent_transition_target _ _ = None"

fun_cases persistent_target_SomeE: "persistent_transition_target p t = Some qc"
fun_cases persistent_validation_SomeE: "persistent_target_for_validation p q = Some qc"

section \<open>The record\<close>

type_synonym persistent_event = "(u32, persistent_phase) chain_event"

record persistent_journal =
  pj_schema_version :: u32
  pj_journal_id :: string
  pj_mount_activation_id :: string
  pj_mount_execution_receipt_id :: string
  pj_mount_runtime_journal_id :: string
  pj_create_activation_id :: string
  pj_disk :: string
  pj_partition_device :: string
  pj_filesystem :: string
  pj_filesystem_uuid :: string
  pj_mountpoint :: string
  pj_fstab_source :: string
  pj_fstab_options :: "string list"
  pj_fstab_dump :: u32
  pj_fstab_pass :: u32
  pj_phase :: persistent_phase
  pj_mutation_may_have_started :: bool
  pj_persistent_config_may_have_changed :: bool
  pj_events :: "persistent_event list"

datatype persistent_id_payload =
  PersistentIdPayload u32 string string string string string string string string string string
    "string list" u32 u32

type_synonym persistent_digest = "persistent_id_payload \<Rightarrow> (string, string) result"

definition persistent_expected_journal_id ::
  "persistent_digest \<Rightarrow> persistent_journal \<Rightarrow> (string, string) result" where
  "persistent_expected_journal_id fp j =
     fp (PersistentIdPayload (pj_schema_version j) (pj_mount_activation_id j)
          (pj_mount_execution_receipt_id j) (pj_mount_runtime_journal_id j) (pj_create_activation_id j)
          (pj_disk j) (pj_partition_device j) (pj_filesystem j) (pj_filesystem_uuid j) (pj_mountpoint j)
          (pj_fstab_source j) (pj_fstab_options j) (pj_fstab_dump j) (pj_fstab_pass j))"

definition persistent_integrity_matches ::
  "persistent_digest \<Rightarrow> persistent_journal \<Rightarrow> (string, bool) result" where
  "persistent_integrity_matches fp j =
     (case persistent_expected_journal_id fp j of Inl e \<Rightarrow> Inl e | Inr d \<Rightarrow> Inr (pj_journal_id j = d))"

definition persistent_validate_journal ::
  "persistent_digest \<Rightarrow> persistent_journal \<Rightarrow> (persistent_error, unit) result" where
  "persistent_validate_journal fp j =
     first_error
       [require (\<not> (pj_schema_version j \<noteq> 1
             \<or> persistent_integrity_matches fp j \<noteq> Inr True
             \<or> \<not> starts_with ''/dev/'' (pj_disk j)
             \<or> \<not> starts_with ''/dev/'' (pj_partition_device j)
             \<or> \<not> (pj_filesystem j = ''ext4'' \<or> pj_filesystem j = ''xfs'')
             \<or> pj_filesystem_uuid j = []
             \<or> pj_mountpoint j = []
             \<or> \<not> starts_with ''/'' (pj_mountpoint j)
             \<or> pj_fstab_source j \<noteq> ''UUID='' @ pj_filesystem_uuid j
             \<or> pj_fstab_options j \<noteq> [''defaults'', ''nofail'']
             \<or> pj_fstab_dump j \<noteq> 0
             \<or> pj_fstab_pass j \<noteq> (if pj_filesystem j = ''ext4'' then 2 else 0)))
          (RjeInvalidRecord ''journal identity or frozen persistent-config scope is invalid''),
        validate_digest (pj_mount_activation_id j) ''mount activation ID'',
        validate_digest (pj_mount_execution_receipt_id j) ''mount execution receipt ID'',
        validate_digest (pj_mount_runtime_journal_id j) ''mount runtime journal ID'',
        validate_digest (pj_create_activation_id j) ''create activation ID'',
        replay_to persistent_target_for_validation PpPrepared (pj_events j) (pj_phase j),
        (let mutation_expected = pj_phase j \<noteq> PpPrepared
         in require (\<not> (pj_mutation_may_have_started j \<noteq> mutation_expected
                         \<or> pj_persistent_config_may_have_changed j \<noteq> mutation_expected))
              (RjeInvalidRecord ''persistent-config mutation flags do not match durable phase''))]"

definition persistent_apply_transition ::
  "persistent_digest \<Rightarrow> persistent_transition \<Rightarrow> persistent_journal
   \<Rightarrow> (persistent_error, persistent_journal) result" where
  "persistent_apply_transition fp transition j =
     (let from = pj_phase j
      in case persistent_transition_target from transition of
           None \<Rightarrow> Inl (RjeInvalidTransition from transition)
         | Some (to, code) \<Rightarrow>
             (let j = j\<lparr>pj_phase := to, pj_mutation_may_have_started := True,
                   pj_persistent_config_may_have_changed := True,
                   pj_events := pj_events j @ [\<lparr>ce_sequence = of_nat (length (pj_events j)) + 1,
                     ce_from = from, ce_to = to, ce_code = code\<rparr>]\<rparr>
              in and_then (persistent_validate_journal fp j) (\<lambda>_. Inr j)))"

definition MAX_PERSISTENT_CONFIG_JOURNAL_BYTES :: nat where
  "MAX_PERSISTENT_CONFIG_JOURNAL_BYTES = 64 * 1024"

definition persistent_kind ::
  "persistent_digest \<Rightarrow> (persistent_journal \<Rightarrow> string option) \<Rightarrow> (string \<Rightarrow> persistent_journal option)
   \<Rightarrow> (persistent_phase, persistent_transition, persistent_journal) journal_kind" where
  "persistent_kind fp enc dec = \<lparr>jk_max_bytes = MAX_PERSISTENT_CONFIG_JOURNAL_BYTES, jk_id = pj_journal_id,
     jk_mismatch = ''journal ID does not match requested durable record'',
     jk_validate = persistent_validate_journal fp, jk_to_vec = enc, jk_from_slice = dec,
     jk_ensure_directory = persistent_ensure_secure_directory\<rparr>"

definition persistent_load ::
  "persistent_digest \<Rightarrow> (persistent_journal \<Rightarrow> string option) \<Rightarrow> (string \<Rightarrow> persistent_journal option)
   \<Rightarrow> io_env \<Rightarrow> path \<Rightarrow> string \<Rightarrow> (persistent_phase, persistent_transition, persistent_journal) store_action" where
  "persistent_load fp enc dec = load (persistent_kind fp enc dec)"

definition persistent_persist_new ::
  "persistent_digest \<Rightarrow> (persistent_journal \<Rightarrow> string option) \<Rightarrow> (string \<Rightarrow> persistent_journal option)
   \<Rightarrow> (path \<Rightarrow> bool) \<Rightarrow> io_env \<Rightarrow> path \<Rightarrow> persistent_journal \<Rightarrow> (persistent_phase, persistent_transition, path) store_action" where
  "persistent_persist_new fp enc dec = persist_new (persistent_kind fp enc dec)"

definition persistent_persist ::
  "persistent_digest \<Rightarrow> (persistent_journal \<Rightarrow> string option) \<Rightarrow> (string \<Rightarrow> persistent_journal option)
   \<Rightarrow> io_env \<Rightarrow> path \<Rightarrow> persistent_journal \<Rightarrow> (persistent_phase, persistent_transition, path) store_action" where
  "persistent_persist fp enc dec = persist (persistent_kind fp enc dec)"

definition persist_production_create_persistent_config_transition ::
  "persistent_digest \<Rightarrow> (persistent_journal \<Rightarrow> string option) \<Rightarrow> (string \<Rightarrow> persistent_journal option)
   \<Rightarrow> io_env \<Rightarrow> path \<Rightarrow> persistent_journal \<Rightarrow> persistent_transition
   \<Rightarrow> (persistent_phase, persistent_transition, persistent_journal) store_action" where
  "persist_production_create_persistent_config_transition fp enc dec env root =
     persist_transition persist (persistent_apply_transition fp) (persistent_kind fp enc dec) env root"

fun persistent_rank :: "persistent_phase \<Rightarrow> nat" where
  "persistent_rank PpPrepared = 0"
| "persistent_rank PpUpdatingFstab = 1"
| "persistent_rank PpFstabWrittenAwaitingVerification = 2"
| "persistent_rank PpCompleted = 3"
| "persistent_rank PpRecoveryRequired = 4"

definition persistent_header :: "persistent_digest \<Rightarrow> persistent_journal \<Rightarrow> bool" where
  "persistent_header fp j \<longleftrightarrow>
     pj_schema_version j = 1 \<and> persistent_integrity_matches fp j = Inr True
     \<and> starts_with ''/dev/'' (pj_disk j) \<and> starts_with ''/dev/'' (pj_partition_device j)
     \<and> (pj_filesystem j = ''ext4'' \<or> pj_filesystem j = ''xfs'') \<and> pj_filesystem_uuid j \<noteq> []
     \<and> pj_mountpoint j \<noteq> [] \<and> starts_with ''/'' (pj_mountpoint j)
     \<and> pj_fstab_source j = ''UUID='' @ pj_filesystem_uuid j \<and> pj_fstab_options j = [''defaults'', ''nofail'']
     \<and> pj_fstab_dump j = 0 \<and> pj_fstab_pass j = (if pj_filesystem j = ''ext4'' then 2 else 0)
     \<and> list_all is_lower_hex_digest [pj_mount_activation_id j, pj_mount_execution_receipt_id j,
          pj_mount_runtime_journal_id j, pj_create_activation_id j]"

lemma persistent_validate_iff:
  "persistent_validate_journal fp j = Inr u \<longleftrightarrow>
     persistent_header fp j
     \<and> chained (allowed_by persistent_target_for_validation) 0 PpPrepared (pj_events j) (pj_phase j)
     \<and> pj_mutation_may_have_started j = (pj_phase j \<noteq> PpPrepared)
     \<and> pj_persistent_config_may_have_changed j = (pj_phase j \<noteq> PpPrepared)"
  unfolding persistent_validate_journal_def validate_digest_def first_error_Cons require_ok replay_to_chained
    Let_def persistent_header_def
  by auto

lemma persistent_header_frame [simp]:
  "persistent_header fp (j\<lparr>pj_phase := p, pj_mutation_may_have_started := a,
       pj_persistent_config_may_have_changed := b, pj_events := es\<rparr>) = persistent_header fp j"
  by (simp add: persistent_header_def persistent_integrity_matches_def persistent_expected_journal_id_def
        split: sum.split)

lemma persistent_apply_iff:
  "persistent_apply_transition fp t j = Inr j' \<longleftrightarrow>
     (\<exists>q c. persistent_transition_target (pj_phase j) t = Some (q, c)
       \<and> j' = j\<lparr>pj_phase := q, pj_mutation_may_have_started := True,
              pj_persistent_config_may_have_changed := True,
              pj_events := pj_events j @ [\<lparr>ce_sequence = of_nat (length (pj_events j)) + 1,
                ce_from = pj_phase j, ce_to = q, ce_code = c\<rparr>]\<rparr>
       \<and> persistent_validate_journal fp j' = Inr ())"
  by (auto simp: persistent_apply_transition_def Let_def and_then_Inr split: option.splits)

lemma persistent_allowed_iff:
  "allowed_by persistent_target_for_validation p q c \<longleftrightarrow> (\<exists>t. persistent_transition_target p t = Some (q, c))"
proof
  assume "allowed_by persistent_target_for_validation p q c"
  then have "persistent_target_for_validation p q = Some (q, c)" by (simp add: allowed_by_def)
  then show "\<exists>t. persistent_transition_target p t = Some (q, c)"
    by (elim persistent_validation_SomeE) (auto intro: persistent_transition_target.simps)
next
  assume "\<exists>t. persistent_transition_target p t = Some (q, c)"
  then obtain t where "persistent_transition_target p t = Some (q, c)" ..
  then show "allowed_by persistent_target_for_validation p q c"
    by (elim persistent_target_SomeE) (simp_all add: allowed_by_def)
qed

interpretation persistent_audit: audited_journal persistent_transition_target persistent_rank PpPrepared PpRecoveryRequired
    pj_phase pj_events "allowed_by persistent_target_for_validation" "\<lambda>j. persistent_validate_journal fp j = Inr ()"
    "persistent_apply_transition fp" for fp
proof
  show "persistent_rank p < persistent_rank q" if "persistent_transition_target p t = Some (q, c)" for p t q c
    using that by (elim persistent_target_SomeE) simp_all
  show "persistent_rank p \<le> persistent_rank PpRecoveryRequired" for p by (cases p) auto
  show "p = p' \<and> c = c'"
    if "persistent_transition_target p t = Some (q, c)" "persistent_transition_target p' t' = Some (q, c')"
      "q \<noteq> PpRecoveryRequired" for p t q c p' t' c'
    using that by (elim persistent_target_SomeE) simp_all
  show allowed: "allowed_by persistent_target_for_validation p q c \<longleftrightarrow> (\<exists>t. persistent_transition_target p t = Some (q, c))"
    for p q c by (rule persistent_allowed_iff)
  show "chained (allowed_by persistent_target_for_validation) 0 PpPrepared (pj_events j) (pj_phase j)"
    if "persistent_validate_journal fp j = Inr ()" for j using that by (simp add: persistent_validate_iff)
  show "persistent_validate_journal fp j' = Inr () \<and> (\<exists>c. persistent_transition_target (pj_phase j) t = Some (pj_phase j', c)
      \<and> pj_events j' = pj_events j @ [\<lparr>ce_sequence = of_nat (length (pj_events j)) + 1, ce_from = pj_phase j,
           ce_to = pj_phase j', ce_code = c\<rparr>])"
    if "persistent_apply_transition fp t j = Inr j'" for t j j'
    using that by (auto simp: persistent_apply_iff)
  show "\<exists>j'. persistent_apply_transition fp t j = Inr j'"
    if "persistent_validate_journal fp j = Inr ()" "persistent_transition_target (pj_phase j) t = Some (q, c)" for t j q c
  proof -
    have "allowed_by persistent_target_for_validation (pj_phase j) q c" using that(2) allowed by blast
    moreover have "q \<noteq> PpPrepared" using that(2) by (elim persistent_target_SomeE) simp_all
    ultimately show ?thesis
      using that by (auto simp: persistent_apply_iff persistent_validate_iff chained_append)
  qed
qed simp

interpretation persistent_store: durable_store "persistent_kind fp enc dec"
    "persistent_persist_new fp enc dec resolves" "persistent_persist fp enc dec" "persistent_load fp enc dec"
  for fp enc dec resolves
  unfolding persistent_persist_new_def persistent_persist_def persistent_load_def
  by (rule durable_store_of_kind) (simp add: persistent_kind_def keeps_records)

section \<open>Completion and the directory\<close>

lemma persistent_full_run:
  "phase_run persistent_transition_target PpPrepared
     [(PtBeginPersistentConfigUpdate, PpUpdatingFstab, ''persistent-config-update-started''),
      (PtPersistentConfigWriteSucceeded, PpFstabWrittenAwaitingVerification, ''persistent-config-write-succeeded''),
      (PtPersistentConfigRediscoveryVerified, PpCompleted, ''persistent-config-rediscovery-verified'')] PpCompleted"
  by (rule phase_run.move[where ts = "[_, _]", simplified]
        phase_run.move[where ts = "[_]", simplified]
        phase_run.move[where ts = "[]", simplified] | simp)+

definition ex_persistent :: persistent_journal where
  "ex_persistent = \<lparr>pj_schema_version = 1, pj_journal_id = ex_sha, pj_mount_activation_id = ex_sha,
     pj_mount_execution_receipt_id = ex_sha, pj_mount_runtime_journal_id = ex_sha,
     pj_create_activation_id = ex_sha, pj_disk = ''/dev/loop7'', pj_partition_device = ''/dev/loop7p1'',
     pj_filesystem = ''ext4'', pj_filesystem_uuid = ''1234'', pj_mountpoint = ''/data'',
     pj_fstab_source = ''UUID=1234'', pj_fstab_options = [''defaults'', ''nofail''], pj_fstab_dump = 0,
     pj_fstab_pass = 2, pj_phase = PpCompleted, pj_mutation_may_have_started = True,
     pj_persistent_config_may_have_changed = True,
     pj_events = log_of 0 PpPrepared
       [(PtBeginPersistentConfigUpdate, PpUpdatingFstab, ''persistent-config-update-started''),
        (PtPersistentConfigWriteSucceeded, PpFstabWrittenAwaitingVerification, ''persistent-config-write-succeeded''),
        (PtPersistentConfigRediscoveryVerified, PpCompleted, ''persistent-config-rediscovery-verified'')]\<rparr>"

lemma ex_persistent_valid: "persistent_validate_journal (\<lambda>_. Inr ex_sha) ex_persistent = Inr ()"
  by (simp add: persistent_validate_iff persistent_header_def ex_persistent_def ex_sha_hex starts_with_def
        persistent_integrity_matches_def persistent_expected_journal_id_def allowed_by_def)

text \<open>A valid record of a completed persistent configuration holds the three boundaries in order,
  each numbered and chained to the last, for the one fstab entry that the code writes: the file system
  by UUID, with the options defaults and nofail, no dump, and a check pass for ext4 only.\<close>

theorem persistent_completion_exact:
  assumes "persistent_validate_journal fp j = Inr ()" and "pj_phase j = PpCompleted"
  shows "pj_events j =
           [\<lparr>ce_sequence = 1, ce_from = PpPrepared, ce_to = PpUpdatingFstab,
              ce_code = ''persistent-config-update-started''\<rparr>,
            \<lparr>ce_sequence = 2, ce_from = PpUpdatingFstab, ce_to = PpFstabWrittenAwaitingVerification,
              ce_code = ''persistent-config-write-succeeded''\<rparr>,
            \<lparr>ce_sequence = 3, ce_from = PpFstabWrittenAwaitingVerification, ce_to = PpCompleted,
              ce_code = ''persistent-config-rediscovery-verified''\<rparr>]
         \<and> pj_fstab_source j = ''UUID='' @ pj_filesystem_uuid j
         \<and> pj_fstab_options j = [''defaults'', ''nofail''] \<and> pj_fstab_dump j = 0
         \<and> (pj_filesystem j = ''ext4'' \<and> pj_fstab_pass j = 2 \<or> pj_filesystem j = ''xfs'' \<and> pj_fstab_pass j = 0)
         \<and> pj_persistent_config_may_have_changed j"
proof -
  have "pj_events j = log_of 0 PpPrepared
     [(PtBeginPersistentConfigUpdate, PpUpdatingFstab, ''persistent-config-update-started''),
      (PtPersistentConfigWriteSucceeded, PpFstabWrittenAwaitingVerification, ''persistent-config-write-succeeded''),
      (PtPersistentConfigRediscoveryVerified, PpCompleted, ''persistent-config-rediscovery-verified'')]"
    by (rule persistent_audit.valid_log[OF assms(1)]) (simp_all add: assms(2) persistent_full_run)
  moreover have "persistent_header fp j" "pj_persistent_config_may_have_changed j"
    using assms by (simp_all add: persistent_validate_iff)
  ultimately show ?thesis by (auto simp: persistent_header_def)
qed
theorem persistent_completion_exact_witness:
  "length (pj_events ex_persistent) = 3 \<and> pj_fstab_source ex_persistent = ''UUID='' @ pj_filesystem_uuid ex_persistent"
proof -
  have "pj_phase ex_persistent = PpCompleted" by (simp add: ex_persistent_def)
  from persistent_completion_exact[OF ex_persistent_valid this] show ?thesis by simp
qed

text \<open>C25: When the stores of create and create-mount report success for a journal directory that
  they had to make, its entry is on the disk: no power loss after that removes it.\<close>

theorem created_directory_survives:
  assumes "root = d @ [Normal n]" and "h_names (w_host w) root = None"
    and "ensure_secure_directory env root True w = (Inr u, w')"
  shows "settled (w_host w') root \<and> Absent \<notin> set (survivors (w_host w') root)"
proof -
  have "settled (w_host w') root"
    using triple_use(2)[OF created_directory_settled[OF assms(1)] _ _ assms(3)] assms(2)
    by (simp add: list_all_def)
  then show ?thesis
    by (auto simp: settled_def survivors_def entries_def survivor_def split: option.splits if_splits)
qed

text \<open>The example host without the journal directory.\<close>

definition ex_bare_world :: world where
  "ex_bare_world = \<lparr>w_host = \<lparr>h_names = [[RootDir] \<mapsto> 0], h_disk = (\<lambda>p. [if p = [RootDir] then Some 0 else None]),
       h_inodes = (\<lambda>_. new_inode ex_env FkDirectory 0x1C0), h_next = 1\<rparr>,
     w_calls = 0, w_history = [], w_temp_sequence = 0\<rparr>"

lemma ex_bare_create:
  "\<exists>w'. ensure_secure_directory ex_env ex_root True ex_bare_world
     = ((Inr () :: (create_error, unit) result), w')"
  by (simp add: ensure_secure_directory_def act_match_def symlink_metadata_def syscall_no_fault[OF ex_env_ok(1)]
        ex_bare_world_def ex_root_def act_then_def act_bind_def act_map_err_def make_dir_def create_entry_def
        sync_parent_def parent_of_def sync_directory_def open_dir_def fsync_dir_def check_directory_def
        act_lift_def set_entry_def set_inode_def sync_entries_def)
     (simp add: private_directory_def new_inode_def ex_env_def)

theorem created_directory_survives_witness:
  "\<exists>w'. ensure_secure_directory ex_env ex_root True ex_bare_world = ((Inr () :: (create_error, unit) result), w')
     \<and> settled (w_host w') ex_root"
proof -
  obtain w' where w': "ensure_secure_directory ex_env ex_root True ex_bare_world
      = ((Inr () :: (create_error, unit) result), w')"
    using ex_bare_create by blast
  have "ex_root = [RootDir] @ [Normal ''journal'']" "h_names (w_host ex_bare_world) ex_root = None"
    by (simp_all add: ex_root_def ex_bare_world_def)
  from created_directory_survives[OF this w'] w' show ?thesis by blast
qed

text \<open>C26: The persistent-configuration store syncs the directory it has made instead of its parent:
  it reports success although a power loss may still remove the directory, with every record.\<close>

theorem persistent_directory_may_vanish:
  assumes "no_faults env" and "root = d @ [Normal n]" and "h_names (w_host w) root = None"
    and "h_names (w_host w) d \<noteq> None" and "None \<in> set (h_disk (w_host w) root)"
  shows "\<exists>w'. persistent_ensure_secure_directory env root True w = (Inr (), w')
           \<and> Absent \<in> set (survivors (w_host w') root)"
  using persistent_directory_unsettled[OF assms] unfolding unsettled_def .

theorem persistent_directory_may_vanish_witness:
  "\<exists>w'. persistent_ensure_secure_directory ex_env ex_root True ex_bare_world
        = ((Inr () :: (persistent_error, unit) result), w')
     \<and> Absent \<in> set (survivors (w_host w') ex_root)"
  by (rule persistent_directory_may_vanish[OF ex_env_ok(1), of _ "[RootDir]" "''journal''"])
     (simp_all add: ex_root_def ex_bare_world_def)

end
