(* ===== verification/SwapJournal.thy ===== *)
theory SwapJournal
  imports CreateJournal
begin

text \<open>
  The runtime journal of a swap replacement
  (\<open>crates/executor/src/production_swap_runtime_journal.rs\<close>): fifteen phases, risk flags recomputed
  from the log, a validator with its own table of allowed events, and its store.
\<close>

section \<open>Phases and transitions\<close>

datatype swap_phase =
  SpPrepared | SpCreatingSwapfile | SpSwapfileCreated | SpFormattingReplacement | SpReplacementFormatted
| SpActivatingReplacement | SpReplacementActive | SpDeactivatingOldSwap | SpOldSwapDeactivated | SpUpdatingPersistentConfig
| SpPersistentConfigUpdated | SpRemovingPartitions | SpPartitionsRemoved | SpCompleted | SpRecoveryRequired

datatype swap_transition =
  StBeginSwapfileCreation | StSwapfileCreatedVerified | StBeginReplacementFormatting | StReplacementFormattedVerified | StBeginReplacementActivation
| StReplacementActiveVerified | StBeginOldSwapDeactivation | StOldSwapDeactivatedVerified | StBeginPersistentConfigUpdate
| StPersistentConfigUpdatedVerified | StBeginPartitionRemoval | StPartitionsRemovedVerified | StCompleted | StRecoveryRequired

text \<open>The error of a refused transition names the phase it leads to.\<close>

type_synonym swap_error = "(swap_phase, swap_phase) runtime_error"

text \<open>The phases from which recovery is entered.\<close>

definition swap_recoverable :: "swap_phase \<Rightarrow> bool" where
  "swap_recoverable p = (p \<in> set [SpCreatingSwapfile, SpSwapfileCreated, SpFormattingReplacement, SpReplacementFormatted,
     SpActivatingReplacement, SpReplacementActive, SpDeactivatingOldSwap, SpOldSwapDeactivated,
     SpUpdatingPersistentConfig, SpPersistentConfigUpdated, SpRemovingPartitions, SpPartitionsRemoved])"

text \<open>The match on phase and transition, by transition: each one but recovery has one source.\<close>

definition swap_transition_target :: "swap_phase \<Rightarrow> swap_transition \<Rightarrow> (swap_phase \<times> string) option" where
  "swap_transition_target phase transition = (case transition of
     StBeginSwapfileCreation \<Rightarrow>
       if phase = SpPrepared then Some (SpCreatingSwapfile, ''swapfile-create-started'') else None
   | StSwapfileCreatedVerified \<Rightarrow>
       if phase = SpCreatingSwapfile then Some (SpSwapfileCreated, ''swapfile-created-verified'') else None
   | StBeginReplacementFormatting \<Rightarrow>
       if phase = SpSwapfileCreated then Some (SpFormattingReplacement, ''replacement-format-started'') else None
   | StReplacementFormattedVerified \<Rightarrow>
       if phase = SpFormattingReplacement then Some (SpReplacementFormatted, ''replacement-formatted-verified'') else None
   | StBeginReplacementActivation \<Rightarrow>
       if phase = SpReplacementFormatted then Some (SpActivatingReplacement, ''replacement-activation-started'') else None
   | StReplacementActiveVerified \<Rightarrow>
       if phase = SpActivatingReplacement then Some (SpReplacementActive, ''replacement-active-verified'') else None
   | StBeginOldSwapDeactivation \<Rightarrow>
       if phase = SpReplacementActive then Some (SpDeactivatingOldSwap, ''old-swap-deactivation-started'') else None
   | StOldSwapDeactivatedVerified \<Rightarrow>
       if phase = SpDeactivatingOldSwap then Some (SpOldSwapDeactivated, ''old-swap-deactivated-verified'') else None
   | StBeginPersistentConfigUpdate \<Rightarrow>
       if phase = SpOldSwapDeactivated then Some (SpUpdatingPersistentConfig, ''persistent-config-update-started'') else None
   | StPersistentConfigUpdatedVerified \<Rightarrow>
       if phase = SpUpdatingPersistentConfig then Some (SpPersistentConfigUpdated, ''persistent-config-updated-verified'') else None
   | StBeginPartitionRemoval \<Rightarrow>
       if phase = SpPersistentConfigUpdated then Some (SpRemovingPartitions, ''partition-removal-started'') else None
   | StPartitionsRemovedVerified \<Rightarrow>
       if phase = SpRemovingPartitions then Some (SpPartitionsRemoved, ''partitions-removed-verified'') else None
   | StCompleted \<Rightarrow>
       if phase = SpPartitionsRemoved then Some (SpCompleted, ''completed'') else None
   | StRecoveryRequired \<Rightarrow>
       if swap_recoverable phase then Some (SpRecoveryRequired, ''recovery-required'') else None)"

fun swap_transition_phase_hint :: "swap_transition \<Rightarrow> swap_phase" where
  "swap_transition_phase_hint StBeginSwapfileCreation = SpCreatingSwapfile"
| "swap_transition_phase_hint StSwapfileCreatedVerified = SpSwapfileCreated"
| "swap_transition_phase_hint StBeginReplacementFormatting = SpFormattingReplacement"
| "swap_transition_phase_hint StReplacementFormattedVerified = SpReplacementFormatted"
| "swap_transition_phase_hint StBeginReplacementActivation = SpActivatingReplacement"
| "swap_transition_phase_hint StReplacementActiveVerified = SpReplacementActive"
| "swap_transition_phase_hint StBeginOldSwapDeactivation = SpDeactivatingOldSwap"
| "swap_transition_phase_hint StOldSwapDeactivatedVerified = SpOldSwapDeactivated"
| "swap_transition_phase_hint StBeginPersistentConfigUpdate = SpUpdatingPersistentConfig"
| "swap_transition_phase_hint StPersistentConfigUpdatedVerified = SpPersistentConfigUpdated"
| "swap_transition_phase_hint StBeginPartitionRemoval = SpRemovingPartitions"
| "swap_transition_phase_hint StPartitionsRemovedVerified = SpPartitionsRemoved"
| "swap_transition_phase_hint StCompleted = SpCompleted"
| "swap_transition_phase_hint StRecoveryRequired = SpRecoveryRequired"

section \<open>The record\<close>

type_synonym swap_event = "(u64, swap_phase) chain_event"

record swap_journal =
  sj_schema_version :: u32
  sj_journal_id :: string
  sj_activation_id :: string
  sj_execution_permit_id :: string
  sj_preflight_receipt_id :: string
  sj_launch_id :: string
  sj_swap_replacement_intent_id :: string
  sj_target :: string
  sj_disk :: string
  sj_retiring_swap_device :: string
  sj_retiring_swap_bytes :: u64
  sj_retiring_swap_priority :: i32
  sj_swapfile_path :: string
  sj_swapfile_mode :: u32
  sj_phase :: swap_phase
  sj_mutation_may_have_started :: bool
  sj_persistent_config_may_have_changed :: bool
  sj_partition_table_may_have_changed :: bool
  sj_events :: "swap_event list"

datatype swap_id_payload =
  SwapIdPayload u32 string string string string string string string string u64 i32 string u32

type_synonym swap_digest = "swap_id_payload \<Rightarrow> (string, string) result"

definition swap_expected_journal_id :: "swap_digest \<Rightarrow> swap_journal \<Rightarrow> (string, string) result" where
  "swap_expected_journal_id fp j =
     fp (SwapIdPayload (sj_schema_version j) (sj_activation_id j) (sj_execution_permit_id j)
          (sj_preflight_receipt_id j) (sj_launch_id j) (sj_swap_replacement_intent_id j) (sj_target j)
          (sj_disk j) (sj_retiring_swap_device j) (sj_retiring_swap_bytes j) (sj_retiring_swap_priority j)
          (sj_swapfile_path j) (sj_swapfile_mode j))"

definition swap_integrity_matches :: "swap_digest \<Rightarrow> swap_journal \<Rightarrow> (string, bool) result" where
  "swap_integrity_matches fp j =
     (case swap_expected_journal_id fp j of Inl e \<Rightarrow> Inl e | Inr d \<Rightarrow> Inr (sj_journal_id j = d))"

text \<open>What the log says about the risks, event by event.\<close>

definition swap_mutates :: "swap_phase \<Rightarrow> bool" where
  "swap_mutates p = (p \<noteq> SpPrepared)"

definition swap_configures :: "swap_phase \<Rightarrow> bool" where
  "swap_configures p = (p \<in> set [SpUpdatingPersistentConfig, SpPersistentConfigUpdated,
     SpRemovingPartitions, SpPartitionsRemoved, SpCompleted])"

definition swap_repartitions :: "swap_phase \<Rightarrow> bool" where
  "swap_repartitions p = (p \<in> set [SpRemovingPartitions, SpPartitionsRemoved, SpCompleted])"

definition swap_recompute_flags :: "swap_journal \<Rightarrow> swap_journal" where
  "swap_recompute_flags j = j\<lparr>
     sj_mutation_may_have_started := list_ex (\<lambda>event. swap_mutates (ce_to event)) (sj_events j),
     sj_persistent_config_may_have_changed := list_ex (\<lambda>event. swap_configures (ce_to event)) (sj_events j),
     sj_partition_table_may_have_changed := list_ex (\<lambda>event. swap_repartitions (ce_to event)) (sj_events j)\<rparr>"

text \<open>The table of the validator: the event codes it accepts between two phases.\<close>

definition swap_allowed :: "swap_phase \<Rightarrow> swap_phase \<Rightarrow> string \<Rightarrow> bool" where
  "swap_allowed from to code =
     ((from, to, code) \<in> set
        [(SpPrepared, SpCreatingSwapfile, ''swapfile-create-started''),
         (SpCreatingSwapfile, SpSwapfileCreated, ''swapfile-created-verified''),
         (SpSwapfileCreated, SpFormattingReplacement, ''replacement-format-started''),
         (SpFormattingReplacement, SpReplacementFormatted, ''replacement-formatted-verified''),
         (SpReplacementFormatted, SpActivatingReplacement, ''replacement-activation-started''),
         (SpActivatingReplacement, SpReplacementActive, ''replacement-active-verified''),
         (SpReplacementActive, SpDeactivatingOldSwap, ''old-swap-deactivation-started''),
         (SpDeactivatingOldSwap, SpOldSwapDeactivated, ''old-swap-deactivated-verified''),
         (SpOldSwapDeactivated, SpUpdatingPersistentConfig, ''persistent-config-update-started''),
         (SpUpdatingPersistentConfig, SpPersistentConfigUpdated, ''persistent-config-updated-verified''),
         (SpPersistentConfigUpdated, SpRemovingPartitions, ''partition-removal-started''),
         (SpRemovingPartitions, SpPartitionsRemoved, ''partitions-removed-verified''),
         (SpPartitionsRemoved, SpCompleted, ''completed'')]
      \<or> (swap_recoverable from \<and> to = SpRecoveryRequired \<and> code = ''recovery-required''))"

fun swap_replay_events :: "nat \<Rightarrow> swap_phase \<Rightarrow> swap_event list \<Rightarrow> (swap_error, swap_phase) result" where
  "swap_replay_events index phase [] = Inr phase"
| "swap_replay_events index phase (event # rest) =
     (if ce_sequence event \<noteq> of_nat index + 1 \<or> ce_from event \<noteq> phase
         \<or> ce_code event = [] \<or> has_control (ce_code event)
      then Inl (RjeInvalidRecord ''journal event chain is invalid'')
      else if \<not> swap_allowed (ce_from event) (ce_to event) (ce_code event)
      then Inl (RjeInvalidRecord ''journal contains an impossible transition'')
      else swap_replay_events (Suc index) (ce_to event) rest)"

definition swap_safe_path :: "string \<Rightarrow> string \<Rightarrow> (swap_error, unit) result" where
  "swap_safe_path v label =
     (if v = [] \<or> \<not> starts_with ''/'' v \<or> has_control v \<or> CHR 0x00 \<in> set v
      then Inl (RjeInvalidRecord (label @ '' is not a safe absolute path'')) else Inr ())"

definition swap_validate_journal :: "swap_digest \<Rightarrow> swap_journal \<Rightarrow> (swap_error, unit) result" where
  "swap_validate_journal fp j =
     first_error
       [require (sj_schema_version j = 1) (RjeInvalidRecord ''unsupported schema version''),
        swap_validate_digest (sj_journal_id j) ''journal ID'',
        swap_validate_digest (sj_activation_id j) ''activation ID'',
        swap_validate_digest (sj_execution_permit_id j) ''execution permit ID'',
        swap_validate_digest (sj_preflight_receipt_id j) ''preflight receipt ID'',
        swap_validate_digest (sj_launch_id j) ''launch ID'',
        swap_validate_digest (sj_swap_replacement_intent_id j) ''swap replacement intent ID'',
        swap_safe_path (sj_target j) ''target'',
        swap_safe_path (sj_disk j) ''disk'',
        swap_safe_path (sj_retiring_swap_device j) ''retiring swap device'',
        swap_safe_path (sj_swapfile_path j) ''swapfile path'',
        require (\<not> (sj_retiring_swap_bytes j = 0 \<or> sj_swapfile_mode j \<noteq> 0x180))
          (RjeInvalidRecord ''swap size/mode binding is invalid''),
        (case swap_integrity_matches fp j of Inl e \<Rightarrow> Inl RjeDecode
         | Inr matches \<Rightarrow> require matches
             (RjeInvalidRecord ''journal immutable binding digest does not match contents'')),
        and_then (swap_replay_events 0 SpPrepared (sj_events j)) (\<lambda>phase.
          require (phase = sj_phase j) (RjeInvalidRecord ''journal phase does not match event chain'')),
        require (\<not> ((sj_phase j = SpCompleted \<or> sj_phase j = SpRecoveryRequired) \<and> sj_events j = []))
          (RjeInvalidRecord ''terminal phase cannot exist before a runtime boundary''),
        (let mutation_expected = list_ex (\<lambda>event. swap_mutates (ce_to event)) (sj_events j);
             persistent_expected = list_ex (\<lambda>event. swap_configures (ce_to event)) (sj_events j);
             partition_expected = list_ex (\<lambda>event. swap_repartitions (ce_to event)) (sj_events j)
         in require (\<not> (sj_mutation_may_have_started j \<noteq> mutation_expected
                         \<or> sj_persistent_config_may_have_changed j \<noteq> persistent_expected
                         \<or> sj_partition_table_may_have_changed j \<noteq> partition_expected))
              (RjeInvalidRecord ''journal risk flags do not match the durable event chain''))]"

definition swap_apply_transition ::
  "swap_digest \<Rightarrow> swap_transition \<Rightarrow> swap_journal \<Rightarrow> (swap_error, swap_journal) result" where
  "swap_apply_transition fp transition j =
     and_then (swap_validate_journal fp j) (\<lambda>_.
       case swap_transition_target (sj_phase j) transition of
         None \<Rightarrow> Inl (RjeInvalidTransition (sj_phase j) (swap_transition_phase_hint transition))
       | Some (to, code) \<Rightarrow>
           (let j' = swap_recompute_flags (j\<lparr>sj_events := sj_events j @
                  [\<lparr>ce_sequence = of_nat (length (sj_events j)) + 1, ce_from = sj_phase j, ce_to = to,
                    ce_code = code\<rparr>], sj_phase := to\<rparr>)
            in and_then (swap_validate_journal fp j') (\<lambda>_. Inr j')))"

definition MAX_SWAP_RUNTIME_JOURNAL_BYTES :: nat where
  "MAX_SWAP_RUNTIME_JOURNAL_BYTES = 256 * 1024"

definition swap_kind ::
  "swap_digest \<Rightarrow> (swap_journal \<Rightarrow> string option) \<Rightarrow> (string \<Rightarrow> swap_journal option)
   \<Rightarrow> (swap_phase, swap_phase, swap_journal) journal_kind" where
  "swap_kind fp enc dec = \<lparr>jk_max_bytes = MAX_SWAP_RUNTIME_JOURNAL_BYTES, jk_id = sj_journal_id,
     jk_mismatch = ''journal ID does not match requested record'',
     jk_validate = swap_validate_journal fp, jk_to_vec = enc, jk_from_slice = dec,
     jk_ensure_directory = swap_ensure_secure_directory\<rparr>"

definition persist_production_swap_runtime_transition ::
  "swap_digest \<Rightarrow> (swap_journal \<Rightarrow> string option) \<Rightarrow> (string \<Rightarrow> swap_journal option)
   \<Rightarrow> io_env \<Rightarrow> path \<Rightarrow> swap_journal \<Rightarrow> swap_transition
   \<Rightarrow> (swap_phase, swap_phase, swap_journal) store_action" where
  "persist_production_swap_runtime_transition fp enc dec env root =
     persist_transition swap_persist (swap_apply_transition fp) (swap_kind fp enc dec) env root"

fun swap_rank :: "swap_phase \<Rightarrow> nat" where
  "swap_rank SpPrepared = 0"
| "swap_rank SpCreatingSwapfile = 1"
| "swap_rank SpSwapfileCreated = 2"
| "swap_rank SpFormattingReplacement = 3"
| "swap_rank SpReplacementFormatted = 4"
| "swap_rank SpActivatingReplacement = 5"
| "swap_rank SpReplacementActive = 6"
| "swap_rank SpDeactivatingOldSwap = 7"
| "swap_rank SpOldSwapDeactivated = 8"
| "swap_rank SpUpdatingPersistentConfig = 9"
| "swap_rank SpPersistentConfigUpdated = 10"
| "swap_rank SpRemovingPartitions = 11"
| "swap_rank SpPartitionsRemoved = 12"
| "swap_rank SpCompleted = 13"
| "swap_rank SpRecoveryRequired = 14"

text \<open>Every phase but recovery is entered from one phase, with one code.\<close>

fun swap_predecessor :: "swap_phase \<Rightarrow> (swap_phase \<times> string) option" where
  "swap_predecessor SpCreatingSwapfile = Some (SpPrepared, ''swapfile-create-started'')"
| "swap_predecessor SpSwapfileCreated = Some (SpCreatingSwapfile, ''swapfile-created-verified'')"
| "swap_predecessor SpFormattingReplacement = Some (SpSwapfileCreated, ''replacement-format-started'')"
| "swap_predecessor SpReplacementFormatted = Some (SpFormattingReplacement, ''replacement-formatted-verified'')"
| "swap_predecessor SpActivatingReplacement = Some (SpReplacementFormatted, ''replacement-activation-started'')"
| "swap_predecessor SpReplacementActive = Some (SpActivatingReplacement, ''replacement-active-verified'')"
| "swap_predecessor SpDeactivatingOldSwap = Some (SpReplacementActive, ''old-swap-deactivation-started'')"
| "swap_predecessor SpOldSwapDeactivated = Some (SpDeactivatingOldSwap, ''old-swap-deactivated-verified'')"
| "swap_predecessor SpUpdatingPersistentConfig = Some (SpOldSwapDeactivated, ''persistent-config-update-started'')"
| "swap_predecessor SpPersistentConfigUpdated = Some (SpUpdatingPersistentConfig, ''persistent-config-updated-verified'')"
| "swap_predecessor SpRemovingPartitions = Some (SpPersistentConfigUpdated, ''partition-removal-started'')"
| "swap_predecessor SpPartitionsRemoved = Some (SpRemovingPartitions, ''partitions-removed-verified'')"
| "swap_predecessor SpCompleted = Some (SpPartitionsRemoved, ''completed'')"
| "swap_predecessor _ = None"

lemma swap_target_cases:
  "swap_transition_target p t = Some (q, c) \<Longrightarrow>
     swap_predecessor q = Some (p, c) \<and> swap_rank q = Suc (swap_rank p)
     \<or> q = SpRecoveryRequired \<and> swap_recoverable p \<and> c = ''recovery-required''"
  by (cases t) (auto simp: swap_transition_target_def split: if_splits)

lemma swap_recoverable_rank: "swap_recoverable p \<Longrightarrow> swap_rank p < swap_rank SpRecoveryRequired"
  by (cases p) (simp_all add: swap_recoverable_def)

section \<open>The validator\<close>

definition safe_absolute :: "string \<Rightarrow> bool" where
  "safe_absolute v \<longleftrightarrow> v \<noteq> [] \<and> starts_with ''/'' v \<and> \<not> has_control v \<and> CHR 0x00 \<notin> set v"

definition swap_header :: "swap_digest \<Rightarrow> swap_journal \<Rightarrow> bool" where
  "swap_header fp j \<longleftrightarrow>
     sj_schema_version j = 1
     \<and> list_all is_lower_hex_digest [sj_journal_id j, sj_activation_id j, sj_execution_permit_id j,
          sj_preflight_receipt_id j, sj_launch_id j, sj_swap_replacement_intent_id j]
     \<and> list_all safe_absolute [sj_target j, sj_disk j, sj_retiring_swap_device j, sj_swapfile_path j]
     \<and> sj_retiring_swap_bytes j \<noteq> 0 \<and> sj_swapfile_mode j = 0x180
     \<and> swap_integrity_matches fp j = Inr True"

lemma swap_allowed_code:
  "swap_allowed p q c \<Longrightarrow> c \<noteq> [] \<and> \<not> has_control c"
  by (auto simp: swap_allowed_def byte_def)

lemma swap_replay_chained:
  "swap_replay_events n p es = Inr q \<longleftrightarrow> chained swap_allowed n p es q"
  by (induction n p es rule: swap_replay_events.induct) (auto dest: swap_allowed_code)

lemma swap_chain_terminal: "chained swap_allowed 0 SpPrepared [] p \<Longrightarrow> p = SpPrepared"
  by simp

lemma swap_safe_path_ok: "swap_safe_path v label = Inr u \<longleftrightarrow> safe_absolute v"
  by (simp add: swap_safe_path_def safe_absolute_def)

definition swap_flags :: "swap_journal \<Rightarrow> bool" where
  "swap_flags j \<longleftrightarrow>
     sj_mutation_may_have_started j = list_ex (\<lambda>event. swap_mutates (ce_to event)) (sj_events j)
     \<and> sj_persistent_config_may_have_changed j = list_ex (\<lambda>event. swap_configures (ce_to event)) (sj_events j)
     \<and> sj_partition_table_may_have_changed j = list_ex (\<lambda>event. swap_repartitions (ce_to event)) (sj_events j)"

lemma swap_integrity_check:
  "(case swap_integrity_matches fp j of Inl e \<Rightarrow> Inl RjeDecode | Inr m \<Rightarrow> require m err) = Inr ()
     \<longleftrightarrow> swap_integrity_matches fp j = Inr True"
  by (cases "swap_integrity_matches fp j") auto

lemma swap_validate_iff:
  "swap_validate_journal fp j = Inr u \<longleftrightarrow>
     swap_header fp j \<and> chained swap_allowed 0 SpPrepared (sj_events j) (sj_phase j) \<and> swap_flags j"
  unfolding swap_validate_journal_def swap_validate_digest_def first_error_Cons require_ok swap_safe_path_ok
    swap_integrity_check and_then_Inr swap_replay_chained Let_def swap_header_def swap_flags_def
  by (auto dest: swap_chain_terminal)

lemma swap_header_frame [simp]:
  "swap_header fp (j\<lparr>sj_events := es, sj_phase := p, sj_mutation_may_have_started := a,
       sj_persistent_config_may_have_changed := b, sj_partition_table_may_have_changed := d\<rparr>) = swap_header fp j"
  by (simp add: swap_header_def swap_integrity_matches_def swap_expected_journal_id_def split: sum.split)

lemma swap_allowed_iff: "swap_allowed p q c \<longleftrightarrow> (\<exists>t. swap_transition_target p t = Some (q, c))"
proof
  assume "swap_allowed p q c"
  then consider "swap_recoverable p" "q = SpRecoveryRequired" "c = ''recovery-required''"
    | "swap_predecessor q = Some (p, c)"
    by (auto simp: swap_allowed_def)
  then show "\<exists>t. swap_transition_target p t = Some (q, c)"
  proof cases
    case 1
    then have "swap_transition_target p StRecoveryRequired = Some (q, c)"
      by (simp add: swap_transition_target_def)
    then show ?thesis ..
  next
    case 2
    have "\<exists>t. swap_transition_phase_hint t = q \<and> t \<noteq> StRecoveryRequired"
      using 2 by (cases q) (auto intro: swap_transition_phase_hint.simps)
    then obtain t where t: "swap_transition_phase_hint t = q" "t \<noteq> StRecoveryRequired" by blast
    have "swap_transition_target p t = Some (q, c)"
      using 2[folded t(1)] t(2) unfolding t(1)[symmetric]
      by (cases t) (simp_all add: swap_transition_target_def)
    then show ?thesis ..
  qed
next
  assume "\<exists>t. swap_transition_target p t = Some (q, c)"
  then obtain t where "swap_transition_target p t = Some (q, c)" ..
  then show "swap_allowed p q c"
    by (cases t) (auto simp: swap_transition_target_def swap_allowed_def split: if_splits)
qed

lemma swap_apply_iff:
  "swap_apply_transition fp t j = Inr j' \<longleftrightarrow>
     swap_validate_journal fp j = Inr ()
     \<and> (\<exists>q c. swap_transition_target (sj_phase j) t = Some (q, c)
       \<and> j' = swap_recompute_flags (j\<lparr>sj_events := sj_events j @
                  [\<lparr>ce_sequence = of_nat (length (sj_events j)) + 1, ce_from = sj_phase j, ce_to = q,
                    ce_code = c\<rparr>], sj_phase := q\<rparr>))
     \<and> swap_validate_journal fp j' = Inr ()"
  by (auto simp: swap_apply_transition_def Let_def and_then_Inr split: option.splits)

interpretation swap_audit: audited_journal swap_transition_target swap_rank SpPrepared SpRecoveryRequired
    sj_phase sj_events swap_allowed "\<lambda>j. swap_validate_journal fp j = Inr ()" "swap_apply_transition fp" for fp
proof
  show "swap_rank p < swap_rank q" if "swap_transition_target p t = Some (q, c)" for p t q c
    using swap_target_cases[OF that] swap_recoverable_rank by auto
  show "swap_rank p \<le> swap_rank SpRecoveryRequired" for p by (cases p) simp_all
  show "p = p' \<and> c = c'"
    if "swap_transition_target p t = Some (q, c)" "swap_transition_target p' t' = Some (q, c')"
      "q \<noteq> SpRecoveryRequired" for p t q c p' t' c'
    using swap_target_cases[OF that(1)] swap_target_cases[OF that(2)] that(3) by auto
  show "swap_allowed p q c \<longleftrightarrow> (\<exists>t. swap_transition_target p t = Some (q, c))" for p q c
    by (rule swap_allowed_iff)
  show "chained swap_allowed 0 SpPrepared (sj_events j) (sj_phase j)"
    if "swap_validate_journal fp j = Inr ()" for j using that by (simp add: swap_validate_iff)
  show "swap_validate_journal fp j' = Inr () \<and> (\<exists>c. swap_transition_target (sj_phase j) t = Some (sj_phase j', c)
      \<and> sj_events j' = sj_events j @ [\<lparr>ce_sequence = of_nat (length (sj_events j)) + 1, ce_from = sj_phase j,
           ce_to = sj_phase j', ce_code = c\<rparr>])"
    if "swap_apply_transition fp t j = Inr j'" for t j j'
    using that by (auto simp: swap_apply_iff swap_recompute_flags_def)
  show "\<exists>j'. swap_apply_transition fp t j = Inr j'"
    if "swap_validate_journal fp j = Inr ()" "swap_transition_target (sj_phase j) t = Some (q, c)" for t j q c
  proof -
    have "swap_allowed (sj_phase j) q c" using that(2) swap_allowed_iff by blast
    then have "swap_validate_journal fp (swap_recompute_flags (j\<lparr>sj_events := sj_events j @
                  [\<lparr>ce_sequence = of_nat (length (sj_events j)) + 1, ce_from = sj_phase j, ce_to = q,
                    ce_code = c\<rparr>], sj_phase := q\<rparr>)) = Inr ()"
      using that(1) by (simp add: swap_validate_iff swap_recompute_flags_def swap_flags_def chained_append)
    then show ?thesis using that by (auto simp: swap_apply_iff)
  qed
qed simp

interpretation swap_store: durable_store "swap_kind fp enc dec"
    "swap_persist_new (swap_kind fp enc dec)" "swap_persist (swap_kind fp enc dec)" "swap_load (swap_kind fp enc dec)"
  for fp enc dec
  by (rule durable_store_of_swap_kind) (simp add: swap_kind_def keeps_records)

section \<open>The shape of a log\<close>

definition swap_codes :: "string list" where
  "swap_codes = [''swapfile-create-started'', ''swapfile-created-verified'', ''replacement-format-started'',
     ''replacement-formatted-verified'', ''replacement-activation-started'', ''replacement-active-verified'',
     ''old-swap-deactivation-started'', ''old-swap-deactivated-verified'',
     ''persistent-config-update-started'', ''persistent-config-updated-verified'',
     ''partition-removal-started'', ''partitions-removed-verified'', ''completed'']"

lemma swap_predecessor_code:
  "swap_predecessor q = Some (p, c) \<Longrightarrow>
     swap_rank q \<le> 13 \<and> swap_rank p < 13 \<and> swap_codes ! swap_rank p = c"
  by (cases q) (auto simp: swap_codes_def)

lemma swap_run_codes:
  "phase_run swap_transition_target SpPrepared ts p \<Longrightarrow>
     (p \<noteq> SpRecoveryRequired \<longrightarrow> map (\<lambda>x. snd (snd x)) ts = take (swap_rank p) swap_codes)
     \<and> (p = SpRecoveryRequired \<longrightarrow> (\<exists>n. 0 < n \<and> n < 13
          \<and> map (\<lambda>x. snd (snd x)) ts = take n swap_codes @ [''recovery-required'']))"
proof (induction rule: phase_run.induct)
  case (move ts q t r c)
  have q: "q \<noteq> SpRecoveryRequired"
    using move.hyps(2) swap_audit.recovery_terminal[of t] by auto
  then have codes: "map (\<lambda>x. snd (snd x)) ts = take (swap_rank q) swap_codes" using move.IH by blast
  from swap_target_cases[OF move.hyps(2)] show ?case
  proof
    assume step: "swap_predecessor r = Some (q, c) \<and> swap_rank r = Suc (swap_rank q)"
    then have "r \<noteq> SpRecoveryRequired" by auto
    moreover have "length swap_codes = 13" by (simp add: swap_codes_def)
    ultimately show ?thesis
      using codes step swap_predecessor_code[of r q c] by (simp add: take_Suc_conv_app_nth)
  next
    assume rec: "r = SpRecoveryRequired \<and> swap_recoverable q \<and> c = ''recovery-required''"
    then have "0 < swap_rank q" "swap_rank q < 13" by (cases q; simp add: swap_recoverable_def)+
    with rec codes show ?thesis by auto
  qed
qed simp

lemma log_of_codes: "map ce_code (log_of n p ts) = map (\<lambda>x. snd (snd x)) ts"
  by (induction n p ts rule: log_of.induct) auto

definition ex_swap :: swap_journal where
  "ex_swap = \<lparr>sj_schema_version = 1, sj_journal_id = ex_sha, sj_activation_id = ex_sha,
     sj_execution_permit_id = ex_sha, sj_preflight_receipt_id = ex_sha, sj_launch_id = ex_sha,
     sj_swap_replacement_intent_id = ex_sha, sj_target = ''/data'', sj_disk = ''/dev/loop7'',
     sj_retiring_swap_device = ''/dev/loop7p5'', sj_retiring_swap_bytes = 67108864,
     sj_retiring_swap_priority = 7, sj_swapfile_path = ''/data/.linux-storage-manager.swap'',
     sj_swapfile_mode = 0x180, sj_phase = SpPrepared, sj_mutation_may_have_started = False,
     sj_persistent_config_may_have_changed = False, sj_partition_table_may_have_changed = False,
     sj_events = []\<rparr>"

lemma ex_swap_valid: "swap_validate_journal (\<lambda>_. Inr ex_sha) ex_swap = Inr ()"
  by (simp add: swap_validate_iff swap_header_def safe_absolute_def swap_flags_def ex_swap_def ex_sha_hex
        starts_with_def byte_def swap_integrity_matches_def swap_expected_journal_id_def)

lemma ex_swap_begins:
  "\<exists>j. swap_apply_transition (\<lambda>_. Inr ex_sha) StBeginSwapfileCreation ex_swap = Inr j
     \<and> swap_validate_journal (\<lambda>_. Inr ex_sha) j = Inr () \<and> sj_phase j = SpCreatingSwapfile"
proof -
  have t: "swap_transition_target (sj_phase ex_swap) StBeginSwapfileCreation
      = Some (SpCreatingSwapfile, ''swapfile-create-started'')"
    by (simp add: swap_transition_target_def ex_swap_def)
  obtain j where j: "swap_apply_transition (\<lambda>_. Inr ex_sha) StBeginSwapfileCreation ex_swap = Inr j"
    using swap_audit.apply_enabled[OF ex_swap_valid t] by blast
  from swap_audit.apply_sound[OF j] t j show ?thesis by auto
qed

text \<open>C21: The log of every record that the swap store accepts is a beginning of the one sequence of
  thirteen boundaries, or such a beginning followed by recovery: the old swap is not retired before
  the replacement is verified active, and no partition is removed before the old swap is off and
  the persistent configuration verified. The phase and the risk flags are those of the log.\<close>

theorem swap_log_shape:
  assumes "swap_validate_journal fp j = Inr ()"
  shows "(sj_phase j \<noteq> SpRecoveryRequired \<longrightarrow>
            map ce_code (sj_events j) = take (swap_rank (sj_phase j)) swap_codes)
       \<and> (sj_phase j = SpRecoveryRequired \<longrightarrow> (\<exists>n. 0 < n \<and> n < 13
            \<and> map ce_code (sj_events j) = take n swap_codes @ [''recovery-required'']))
       \<and> swap_flags j"
proof -
  obtain ts where ts: "phase_run swap_transition_target SpPrepared ts (sj_phase j)"
    "sj_events j = log_of 0 SpPrepared ts"
    using swap_audit.record_run[OF assms] by blast
  have "swap_flags j" using assms by (simp add: swap_validate_iff)
  with swap_run_codes[OF ts(1)] show ?thesis by (simp add: ts(2) log_of_codes)
qed

theorem swap_log_shape_witness: "map ce_code (sj_events ex_swap) = [] \<and> swap_flags ex_swap"
  using swap_log_shape[OF ex_swap_valid] by (simp add: ex_swap_def)

text \<open>C23: Once a swap replacement has begun and until it has ended, recovery can be entered, and
  the record then is valid and final; every run of transitions ends, after at most fourteen.\<close>

theorem swap_recovery_available:
  assumes "swap_validate_journal fp j = Inr ()"
  shows "((\<exists>k. swap_apply_transition fp StRecoveryRequired j = Inr k)
            \<longleftrightarrow> sj_phase j \<noteq> SpPrepared \<and> sj_phase j \<noteq> SpCompleted \<and> sj_phase j \<noteq> SpRecoveryRequired)
       \<and> (\<forall>k t. swap_apply_transition fp StRecoveryRequired j = Inr k \<longrightarrow>
            swap_validate_journal fp k = Inr () \<and> (\<exists>e. swap_apply_transition fp t k = Inl e))
       \<and> length (sj_events j) \<le> 14"
proof -
  have enabled: "swap_transition_target (sj_phase j) StRecoveryRequired \<noteq> None
      \<longleftrightarrow> sj_phase j \<noteq> SpPrepared \<and> sj_phase j \<noteq> SpCompleted \<and> sj_phase j \<noteq> SpRecoveryRequired"
    by (cases "sj_phase j") (simp_all add: swap_transition_target_def swap_recoverable_def)
  have final: "swap_validate_journal fp k = Inr () \<and> (\<exists>e. swap_apply_transition fp t k = Inl e)"
    if "swap_apply_transition fp StRecoveryRequired j = Inr k" for k t
  proof -
    from swap_audit.apply_sound[OF that]
    have k: "swap_validate_journal fp k = Inr ()" "sj_phase k = SpRecoveryRequired"
      by (auto simp: swap_transition_target_def split: if_splits)
    then have "\<not> (\<exists>l. swap_apply_transition fp t k = Inr l)"
      using swap_audit.apply_iff[OF k(1)] swap_audit.recovery_terminal by simp
    with k(1) show ?thesis by (cases "swap_apply_transition fp t k") auto
  qed
  have "swap_rank (sj_phase j) \<le> 14" by (cases "sj_phase j") simp_all
  then have "length (sj_events j) \<le> 14"
    using swap_audit.valid_bounded[OF assms] le_trans by blast
  with swap_audit.apply_iff[OF assms] enabled final show ?thesis by simp
qed

theorem swap_recovery_available_witness:
  "\<exists>j k. swap_apply_transition (\<lambda>_. Inr ex_sha) StBeginSwapfileCreation ex_swap = Inr j
     \<and> swap_apply_transition (\<lambda>_. Inr ex_sha) StRecoveryRequired j = Inr k"
proof -
  obtain j where j: "swap_apply_transition (\<lambda>_. Inr ex_sha) StBeginSwapfileCreation ex_swap = Inr j"
    "swap_validate_journal (\<lambda>_. Inr ex_sha) j = Inr ()" "sj_phase j = SpCreatingSwapfile"
    using ex_swap_begins by blast
  from swap_recovery_available[OF j(2)] j(3)
  have "\<exists>k. swap_apply_transition (\<lambda>_. Inr ex_sha) StRecoveryRequired j = Inr k" by simp
  with j(1) show ?thesis by blast
qed

text \<open>C27: The swap store checks its limit before it adds the newline, its loader after: a record
  whose encoding has exactly the limit is stored with success and can never be loaded again.\<close>

theorem swap_record_at_limit_is_unreadable:
  assumes "present {Absent} (record_at root (sj_journal_id j)) (w_host w)" and "w_history w = []"
    and "enc j = Some bytes" and "length bytes = MAX_SWAP_RUNTIME_JOURNAL_BYTES"
    and "swap_persist_new (swap_kind fp enc dec) env root j w = (Inr p, w')"
  shows "\<exists>e. fst (swap_load (swap_kind fp enc dec) env' root (sj_journal_id j) w') = Inl e"
proof -
  let ?jk = "swap_kind fp enc dec"
  have keep: "keeps_records (jk_ensure_directory ?jk)" by (simp add: swap_kind_def keeps_records)
  have eq: "jk_id ?jk j = sj_journal_id j" "jk_to_vec ?jk j = enc j"
    "jk_max_bytes ?jk = MAX_SWAP_RUNTIME_JOURNAL_BYTES" by (simp_all add: swap_kind_def)
  show ?thesis
    using swap_stored_at_limit[OF keep, of root j w bytes env p w' env'] assms unfolding eq by blast
qed

lemma ex_swap_ensure:
  "\<exists>w'. swap_ensure_secure_directory ex_env ex_root True (ex_world r) = (Inr (), w')
     \<and> w_host w' = w_host (ex_world r) \<and> w_temp_sequence w' = 0"
proof -
  have ne: "[RootDir, Normal ''journal''] \<noteq> record_at [RootDir, Normal ''journal''] ex_sha"
    by (simp add: record_at_def)
  show ?thesis
    by (simp add: swap_ensure_secure_directory_def ex_root_def act_then_def act_bind_def swap_ensure_component_def
      act_match_def symlink_metadata_def syscall_no_fault[OF ex_env_ok(1)] swap_check_component_def act_lift_def
      trusted_journal_directory_def act_map_err_def ex_world_def Let_def ne)
      (simp add: new_inode_def ex_env_def)
qed

lemma ex_swap_write:
  assumes w: "w_host w = w_host (ex_world None)" and f: "final = record_at ex_root ex_sha"
   and t: "temp \<noteq> final" "temp \<noteq> ex_root" "butlast temp = ex_root" "temp \<noteq> [RootDir]"
  shows "\<exists>w'. act_cleanup
          (act_then (swap_write_staged ex_env temp bytes)
          (act_then
            (act_match (hard_link ex_env temp final) (\<lambda>_. act_lift (Inr ())) err)
          (act_then (act_map_err (io_error temp) (remove_file ex_env temp))
          (act_then (sync_directory ex_env ex_root) (act_lift (Inr final))))))
          (remove_file ex_env temp) w = (Inr final, w')"
proof -
  have ne: "[RootDir] \<noteq> ex_root" "final \<noteq> ex_root" "final \<noteq> [RootDir]"
    by (simp_all add: ex_root_def f record_at_def)
  show ?thesis
    using t ne
    by (simp add: act_cleanup_def swap_write_staged_def open_new_def create_entry_def write_all_def sync_file_def
      act_then_def act_bind_def act_map_err_def hard_link_def act_match_def act_lift_def remove_file_def
      sync_directory_def open_dir_def fsync_dir_def syscall_no_fault[OF ex_env_ok(1)] Let_def w
      ex_world_def f[symmetric] set_entry_def set_inode_def add_links_def new_inode_def sync_entries_def)
qed

definition ex_limit_enc :: "swap_journal \<Rightarrow> string option" where
  "ex_limit_enc j = Some (replicate MAX_SWAP_RUNTIME_JOURNAL_BYTES (CHR ''x''))"

lemma ex_limit_stored:
  "\<exists>p w'. swap_persist_new (swap_kind (\<lambda>_. Inr ex_sha) ex_limit_enc dec) ex_env ex_root ex_swap
     (ex_world None) = (Inr p, w')"
proof -
  let ?jk = "swap_kind (\<lambda>_. Inr ex_sha) ex_limit_enc dec"
  obtain w1 where w1: "swap_ensure_secure_directory ex_env ex_root True (ex_world None)
      = ((Inr () :: (swap_error, unit) result), w1)"
    "w_host w1 = w_host (ex_world None)"
    using ex_swap_ensure by blast
  have enc: "swap_encode_journal ?jk ex_swap = Inr (replicate MAX_SWAP_RUNTIME_JOURNAL_BYTES (CHR ''x''))"
    by (simp add: swap_encode_journal_def swap_kind_def ex_limit_enc_def)
  have path: "swap_path_for ex_root (sj_journal_id ex_swap) = Inr (record_at ex_root ex_sha)"
    by (simp add: path_for_ok ex_swap_def ex_sha_hex)
  have valid: "jk_validate ?jk ex_swap = Inr ()" using ex_swap_valid by (simp add: swap_kind_def)
  have jk: "jk_ensure_directory ?jk = swap_ensure_secure_directory" "jk_id ?jk = sj_journal_id"
    by (simp_all add: swap_kind_def)
  let ?name = "''.'' @ sj_journal_id ex_swap @ ''.tmp-'' @ show_word (e_pid ex_env) @ ''-''
       @ show_word (w_temp_sequence w1)"
  let ?temp = "ex_root @ [Normal ?name]"
  let ?w2 = "w1\<lparr>w_temp_sequence := w_temp_sequence w1 + 1\<rparr>"
  have id: "sj_journal_id ex_swap = ex_sha" by (simp add: ex_swap_def)
  have "''.'' @ ex_sha @ ''.tmp-'' @ t \<noteq> ex_sha @ ''.json''" for t
    by (rule notI, drule arg_cong[where f = length]) simp
  then have temp: "?temp \<noteq> record_at ex_root ex_sha" "?temp \<noteq> ex_root" "butlast ?temp = ex_root"
    "?temp \<noteq> [RootDir]"
    by (simp_all add: record_at_def id ex_root_def)
  have w2: "w_host ?w2 = w_host (ex_world None)" using w1(2) by simp
  have t: "swap_temp_path ex_env ex_root (sj_journal_id ex_swap) w1
      = ((Inr ?temp :: (swap_error, path) result), ?w2)"
    by (simp add: swap_temp_path_def act_bind_def next_sequence_def act_lift_def)
  obtain w3 where w3: "act_cleanup
          (act_then (swap_write_staged ex_env ?temp (replicate MAX_SWAP_RUNTIME_JOURNAL_BYTES (CHR ''x'')))
          (act_then
            (act_match (hard_link ex_env ?temp (record_at ex_root ex_sha)) (\<lambda>_. act_lift (Inr ()))
              (\<lambda>k. act_lift (Inl (if k = EkAlreadyExists then RjeAlreadyExists (jk_id ?jk ex_swap)
                                  else io_error (record_at ex_root ex_sha) k))))
          (act_then (act_map_err (io_error ?temp) (remove_file ex_env ?temp))
          (act_then (sync_directory ex_env ex_root) (act_lift (Inr (record_at ex_root ex_sha)))))))
          (remove_file ex_env ?temp) ?w2 = ((Inr (record_at ex_root ex_sha) :: (swap_error, path) result), w3)"
    using ex_swap_write[OF w2 refl temp] by blast
  have "swap_persist_new ?jk ex_env ex_root ex_swap (ex_world None) = (Inr (record_at ex_root ex_sha), w3)"
    unfolding swap_persist_new_def jk act_then_def[where m = "act_lift (jk_validate ?jk ex_swap)"]
      act_then_def[where m = "swap_ensure_secure_directory ex_env ex_root True"]
    by (simp only: act_bind_def act_lift_def[where r = "jk_validate ?jk ex_swap"] valid enc path w1(1) t
          act_lift_def[where r = "Inr (replicate MAX_SWAP_RUNTIME_JOURNAL_BYTES (CHR ''x''))"]
          act_lift_def[where r = "Inr (record_at ex_root ex_sha)" and w = w1] act_lift_def[where r = "Inr ()"]
          w3[unfolded jk] prod.case sum.case)
  then show ?thesis by blast
qed

theorem swap_record_at_limit_is_unreadable_witness:
  "\<exists>p w'. swap_persist_new (swap_kind (\<lambda>_. Inr ex_sha) ex_limit_enc (\<lambda>_. Some ex_swap)) ex_env ex_root ex_swap
            (ex_world None) = (Inr p, w')
     \<and> (\<exists>e. fst (swap_load (swap_kind (\<lambda>_. Inr ex_sha) ex_limit_enc (\<lambda>_. Some ex_swap)) ex_env ex_root ex_sha w') = Inl e)"
proof -
  obtain p w' where run: "swap_persist_new (swap_kind (\<lambda>_. Inr ex_sha) ex_limit_enc (\<lambda>_. Some ex_swap))
      ex_env ex_root ex_swap (ex_world None) = (Inr p, w')"
    using ex_limit_stored by blast
  have id: "sj_journal_id ex_swap = ex_sha" by (simp add: ex_swap_def)
  have "\<exists>e. fst (swap_load (swap_kind (\<lambda>_. Inr ex_sha) ex_limit_enc (\<lambda>_. Some ex_swap)) ex_env ex_root ex_sha w') = Inl e"
    by (rule swap_record_at_limit_is_unreadable[where j = ex_swap, unfolded id, OF ex_world_present(2)
          ex_world_history ex_limit_enc_def _ run]) simp
  with run show ?thesis by blast
qed

end
