(* ===== verification/PlannerBase.thy ===== *)
theory PlannerBase
  imports NodeGraph
begin

text \<open>
  What the create and extend planners of \<open>crates/planner/src/lib.rs\<close> share: blockers and the
  helpers \<open>blocked\<close>, \<open>ensure\<close> and \<open>unique\<close>, the growth request with its size parser, and the
  rounding arithmetic. Its \<open>flatten\<close>, \<open>node_alias\<close>, \<open>lv_alias\<close> and \<open>lv_device\<close> repeat those of
  \<open>route_graph.rs\<close>, modelled in \<open>NodeGraph\<close>.
\<close>

section \<open>Requests, blockers and errors\<close>

datatype growth = ByBytes u64 | MaxFree

datatype plan_status = PsPreview | PsBlocked

record plan_blocker =
  pb_code :: string
  pb_message :: string

datatype planner_error = PeSerialization string | PeInvalidSize | PeSizeOverflow

definition blocked :: "string \<Rightarrow> string \<Rightarrow> plan_blocker" where
  "blocked code message = \<lparr> pb_code = code, pb_message = message \<rparr>"

definition ensure :: "bool \<Rightarrow> string \<Rightarrow> string \<Rightarrow> (plan_blocker, unit) result" where
  "ensure condition code message = (if condition then Inr () else Inl (blocked code message))"

text \<open>The iterator is drained at most twice, so only its first two items matter.\<close>

definition unique :: "'a list \<Rightarrow> string \<Rightarrow> (plan_blocker, 'a) result" where
  "unique items code =
     (case items of
        [] \<Rightarrow> Inl (blocked code ''required evidence is absent'')
      | [x] \<Rightarrow> Inr x
      | _ \<Rightarrow> Inl (blocked code ''evidence is ambiguous or duplicated''))"

text \<open>\<open>items.next().ok_or_else(..)?\<close> followed by \<open>ensure(items.next().is_none(), ..)?\<close>.\<close>

definition only :: "'a list \<Rightarrow> plan_blocker \<Rightarrow> plan_blocker \<Rightarrow> (plan_blocker, 'a) result" where
  "only items missing ambiguous =
     (case items of [] \<Rightarrow> Inl missing | [x] \<Rightarrow> Inr x | _ \<Rightarrow> Inl ambiguous)"

text \<open>\<open>option.ok_or_else(|| blocked(code, message))\<close>.\<close>

definition ok_or :: "'a option \<Rightarrow> plan_blocker \<Rightarrow> (plan_blocker, 'a) result" where
  "ok_or x b = (case x of None \<Rightarrow> Inl b | Some v \<Rightarrow> Inr v)"

lemma ensure_Inr [simp]: "ensure b c m = Inr u \<longleftrightarrow> b"
  by (simp add: ensure_def)

lemma ensure_Inl [simp]: "ensure b c m = Inl e \<longleftrightarrow> \<not> b \<and> e = blocked c m"
  by (auto simp: ensure_def)

lemma ok_or_Inr [simp]: "ok_or x b = Inr v \<longleftrightarrow> x = Some v"
  by (auto simp: ok_or_def split: option.splits)

lemma ok_or_simps [simp]: "ok_or None b = Inl b" "ok_or (Some v) b = Inr v"
  by (simp_all add: ok_or_def)

lemma unique_Inr [simp]: "unique xs c = Inr x \<longleftrightarrow> xs = [x]"
  by (auto simp: unique_def split: list.splits)

lemma only_Inr [simp]: "only xs m a = Inr x \<longleftrightarrow> xs = [x]"
  by (auto simp: only_def split: list.splits)

lemma unique_filter:
  "unique (filter P xs) c = Inr x \<Longrightarrow> x \<in> set xs \<and> P x \<and> (\<forall>y\<in>set xs. P y \<longrightarrow> y = x)"
  by (rule single_filter_Some) (simp add: single_Some_iff)

text \<open>\<open>check?; rest\<close> and \<open>let x = value?; rest\<close> succeed when both parts do.\<close>

lemma and_then_unit_Inr: "and_then (r :: ('e, unit) result) f = Inr y \<longleftrightarrow> r = Inr () \<and> f () = Inr y"
  by (cases r) auto

text \<open>\<open>if condition { push_blocker(&mut blockers, code, message) }\<close>.\<close>

definition block_if :: "bool \<Rightarrow> string \<Rightarrow> string \<Rightarrow> plan_blocker list" where
  "block_if condition code message = (if condition then [blocked code message] else [])"

lemma block_if_Nil [simp]: "block_if c code message = [] \<longleftrightarrow> \<not> c"
  by (simp add: block_if_def)

definition unwrap_or :: "'a option \<Rightarrow> 'a \<Rightarrow> 'a" where
  "unwrap_or x d = (case x of None \<Rightarrow> d | Some v \<Rightarrow> v)"

lemma unwrap_or_simps [simp]: "unwrap_or None d = d" "unwrap_or (Some v) d = v"
  by (simp_all add: unwrap_or_def)

text \<open>Taking a chain of fallible steps that succeeded apart, one step at a time.\<close>

lemma and_then_InrE:
  "and_then r f = Inr y \<Longrightarrow> (\<And>x. r = Inr x \<Longrightarrow> f x = Inr y \<Longrightarrow> thesis) \<Longrightarrow> thesis"
  by (auto simp: and_then_Inr)

lemma case_prod_eqE:
  "(case p of (a, b) \<Rightarrow> f a b) = z \<Longrightarrow> (\<And>a b. p = (a, b) \<Longrightarrow> f a b = z \<Longrightarrow> thesis) \<Longrightarrow> thesis"
  by (cases p) auto

lemma if_InrE:
  "(if c then Inr None else r) = Inr (Some y) \<Longrightarrow> (\<not> c \<Longrightarrow> r = Inr (Some y) \<Longrightarrow> thesis) \<Longrightarrow> thesis"
  by (simp split: if_splits)

lemma bind_SomeE:
  "Option.bind r f = Some y \<Longrightarrow> (\<And>x. r = Some x \<Longrightarrow> f x = Some y \<Longrightarrow> thesis) \<Longrightarrow> thesis"
  by (auto simp: bind_eq_Some_conv)

lemmas stepsE = and_then_InrE case_prod_eqE if_InrE bind_SomeE

text \<open>\<open>matches!(device.kind, NodeKind::Disk | NodeKind::Loop)\<close>.\<close>

definition disk_or_loop :: "block_device \<Rightarrow> bool" where
  "disk_or_loop d = (bd_kind d = NkDisk \<or> bd_kind d = NkLoop)"

section \<open>Rounding\<close>

definition is_power_of_two :: "'a::len word \<Rightarrow> bool" where
  "is_power_of_two w = list_ex (\<lambda>k. w = 2 ^ k) [0..<LENGTH('a)]"

definition ceil_div :: "u64 \<Rightarrow> u64 \<Rightarrow> u64 option" where
  "ceil_div value divisor =
     (if divisor = 0 then None
      else Some (value div divisor + (if value mod divisor \<noteq> 0 then 1 else 0)))"

definition align_up :: "u64 \<Rightarrow> u64 \<Rightarrow> u64 option" where
  "align_up value alignment =
     (if alignment = 0 then None
      else let remainder = value mod alignment
           in if remainder = 0 then Some value
              else case checked_sub alignment remainder of
                None \<Rightarrow> None
              | Some gap \<Rightarrow> checked_add value gap)"

lemma power_of_two_512: "is_power_of_two (512::u64)"
  unfolding is_power_of_two_def list_ex_iff by (rule bexI[of _ 9]) simp_all

lemma power_of_two_nat:
  assumes "is_power_of_two (w::'a::len word)"
  obtains k where "k < LENGTH('a)" "unat w = 2 ^ k"
proof -
  from assms obtain k where k: "k < LENGTH('a)" "w = 2 ^ k"
    unfolding is_power_of_two_def by (auto simp: list_ex_iff)
  have "unat (of_nat (2 ^ k) :: 'a word) = 2 ^ k"
    using k by (simp only: unat_of_nat) (simp add: power_strict_increasing)
  with k(2) have "unat w = 2 ^ k" by simp
  with k that show thesis by blast
qed

text \<open>Rounding a quotient up, on natural numbers.\<close>

definition round_up :: "nat \<Rightarrow> nat \<Rightarrow> nat" where
  "round_up n d = (n + d - 1) div d * d"

lemma nat_ceil:
  assumes "0 < (d::nat)"
  shows "n div d + (if n mod d \<noteq> 0 then 1 else 0) = (n + d - 1) div d"
proof -
  define q r where "q = n div d" and "r = n mod d"
  have n: "n = q * d + r" and r: "r < d" using assms by (simp_all add: q_def r_def)
  show ?thesis
  proof (cases "r = 0")
    case True
    have "n + d - 1 = (d - 1) + q * d" using n True assms by simp
    moreover have "((d - 1) + q * d) div d = q" using assms by (subst div_mult_self1) simp_all
    ultimately show ?thesis using True by (simp only: q_def r_def) simp
  next
    case False
    have "n + d - 1 = (r - 1) + (q + 1) * d" using n False assms by simp
    moreover have "((r - 1) + (q + 1) * d) div d = q + 1"
      using assms r by (subst div_mult_self1) simp_all
    ultimately show ?thesis using False by (simp only: q_def r_def) simp
  qed
qed

lemma ceil_fits: "0 < (d::nat) \<Longrightarrow> (n + d - 1) div d \<le> n"
proof (cases "n = 0")
  case False
  assume "0 < d"
  have "n + d - 1 \<le> n * d" using False \<open>0 < d\<close> 
    by (cases n; cases d) (simp_all add: algebra_simps)
  then have "(n + d - 1) div d \<le> n * d div d" by (rule div_le_mono)
  with \<open>0 < d\<close> show ?thesis by simp
qed simp

lemma ceil_div_unat:
  assumes "ceil_div v d = Some q"
  shows "unat q = (unat v + unat d - 1) div unat d" "d \<noteq> 0"
proof -
  from assms have d: "d \<noteq> 0" and q: "q = v div d + (if v mod d \<noteq> 0 then 1 else 0)"
    by (auto simp: ceil_div_def split: if_splits)
  from d have pos: "0 < unat d" by (simp add: unat_gt_0)
  have nz: "v mod d \<noteq> 0 \<longleftrightarrow> unat v mod unat d \<noteq> 0"
    by (metis unat_mod unsigned_eq_0_iff)
  have "unat v div unat d + (if unat v mod unat d \<noteq> 0 then 1 else 0) < 2 ^ 64"
    using nat_ceil[OF pos, of "unat v"] ceil_fits[OF pos, of "unat v"] unsigned_less[of v, where 'a=nat] by simp
  then have "unat q = unat v div unat d + (if unat v mod unat d \<noteq> 0 then 1 else 0)"
    unfolding q using nz by (simp add: unat_word_ariths unat_div split: if_splits)
  with nat_ceil[OF pos] show "unat q = (unat v + unat d - 1) div unat d" by simp
  show "d \<noteq> 0" by (rule d)
qed

lemma round_up_bounds:
  assumes "0 < d"
  shows "n \<le> round_up n d" "round_up n d < n + d" "d dvd round_up n d"
proof -
  have m: "(n + d - 1) div d * d + (n + d - 1) mod d = n + d - 1" by simp
  have "(n + d - 1) mod d < d" using assms by simp
  with m assms show "n \<le> round_up n d" unfolding round_up_def by linarith
  from m assms show "round_up n d < n + d" unfolding round_up_def by linarith
  show "d dvd round_up n d" unfolding round_up_def by simp
qed

lemma align_up_nat:
  assumes "align_up v a = Some r"
  shows "unat r = (if unat v mod unat a = 0 then unat v else unat v + (unat a - unat v mod unat a))"
proof (cases "v mod a = 0")
  case True
  with assms have "r = v" by (simp add: align_up_def split: if_splits)
  moreover from True have "unat v mod unat a = 0" by (metis unat_0 unat_mod)
  ultimately show ?thesis by simp
next
  case False
  then have nz: "unat v mod unat a \<noteq> 0" by (metis unat_mod unsigned_eq_0_iff)
  from False assms obtain g where "checked_sub a (v mod a) = Some g" "checked_add v g = Some r"
    by (auto simp: align_up_def split: option.splits if_splits)
  then have "unat g = unat a - unat v mod unat a" "unat r = unat v + unat g"
    by (auto dest!: checked_add_Some checked_sub_Some simp: unat_mod)
  with nz show ?thesis by simp
qed

lemma next_multiple:
  assumes "0 < (a::nat)" and r_def: "r = (if v mod a = 0 then v else v + (a - v mod a))"
  shows "a dvd r" "v \<le> r" "r < v + a"
proof -
  have "v mod a < a" using assms(1) by simp
  then have "v \<le> v + (a - v mod a)" "v mod a = 0 \<or> v + (a - v mod a) < v + a" by linarith+
  with assms(1) show "v \<le> r" "r < v + a" by (auto simp only: r_def split: if_splits)
  have "v + (a - v mod a) = v div a * a + a"
    using \<open>v mod a < a\<close> div_mult_mod_eq[of v a] by linarith
  then show "a dvd r" by (simp add: r_def dvd_eq_mod_eq_0)
qed

lemma align_up_unat:
  assumes "align_up v a = Some r"
  shows "a \<noteq> 0" "unat a dvd unat r" "unat v \<le> unat r" "unat r < unat v + unat a"
proof -
  from assms show a: "a \<noteq> 0" by (auto simp: align_up_def split: if_splits)
  then have "0 < unat a" by (simp add: unat_gt_0)
  note next_multiple[OF this align_up_nat[OF assms]]
  then show "unat a dvd unat r" "unat v \<le> unat r" "unat r < unat v + unat a" .
qed

section \<open>Sizes given by the user\<close>

definition digit_value :: "char \<Rightarrow> nat" where
  "digit_value c = byte c - 48"

text \<open>\<open>digits.parse::<u64>()\<close> of a nonempty string of ASCII digits: \<open>None\<close> on overflow.\<close>

definition parse_digits :: "string \<Rightarrow> u64 option" where
  "parse_digits ds =
     fold (\<lambda>c acc. Option.bind acc (\<lambda>n. Option.bind (checked_mul n 10)
             (\<lambda>m. checked_add m (of_nat (digit_value c))))) ds (Some 0)"

definition unit_factor :: "string \<Rightarrow> u64 option" where
  "unit_factor unit =
     (if unit = ''B'' then Some 1
      else if unit = ''KiB'' then Some (push_bit 10 1)
      else if unit = ''MiB'' then Some (push_bit 20 1)
      else if unit = ''GiB'' then Some (push_bit 30 1)
      else if unit = ''TiB'' then Some (push_bit 40 1)
      else None)"

definition parse_growth_size :: "string \<Rightarrow> (planner_error, u64) result" where
  "parse_growth_size input =
     (let digits = takeWhile is_ascii_digit input;
          unit = dropWhile is_ascii_digit input
      in if digits = [] then Inl PeInvalidSize
         else case unit_factor unit of
           None \<Rightarrow> Inl PeInvalidSize
         | Some factor \<Rightarrow>
             (case parse_digits digits of
                None \<Rightarrow> Inl PeSizeOverflow
              | Some n \<Rightarrow>
                  (case checked_mul n factor of
                     None \<Rightarrow> Inl PeSizeOverflow
                   | Some bytes \<Rightarrow> if bytes = 0 then Inl PeInvalidSize else Inr bytes)))"

text \<open>The number a digit string denotes.\<close>

definition decimal_from :: "nat \<Rightarrow> string \<Rightarrow> nat" where
  "decimal_from n ds = fold (\<lambda>c n. 10 * n + digit_value c) ds n"

abbreviation decimal :: "string \<Rightarrow> nat" where
  "decimal ds \<equiv> decimal_from 0 ds"

lemma decimal_simps [simp]:
  "decimal_from n [] = n"
  "decimal_from n (c # cs) = decimal_from (10 * n + digit_value c) cs"
  "decimal_from n (cs @ ds) = decimal_from (decimal_from n cs) ds"
  by (simp_all add: decimal_from_def)

lemma decimal_from_ge: "n \<le> decimal_from n ds"
proof (induction ds arbitrary: n)
  case (Cons c cs)
  have "n \<le> 10 * n + digit_value c" by simp
  also have "\<dots> \<le> decimal_from (10 * n + digit_value c) cs" by (rule Cons.IH)
  finally show ?case by simp
qed simp

lemma checked_of_nat:
  assumes "m < 2 ^ 64" "n < 2 ^ 64"
  shows "checked_add (of_nat m :: u64) (of_nat n) = (if m + n < 2 ^ 64 then Some (of_nat (m + n)) else None)"
    "checked_mul (of_nat m :: u64) (of_nat n) = (if m * n < 2 ^ 64 then Some (of_nat (m * n)) else None)"
  using assms by (simp_all add: checked_add_def checked_mul_def unat_of_nat)

lemma digit_value_small: "is_ascii_digit c \<Longrightarrow> digit_value c \<le> 9"
  by (auto simp: is_ascii_digit_def digit_value_def)

definition parse_step :: "char \<Rightarrow> u64 option \<Rightarrow> u64 option" where
  "parse_step c acc = Option.bind acc (\<lambda>n. Option.bind (checked_mul n 10)
             (\<lambda>m. checked_add m (of_nat (digit_value c))))"

lemma parse_step_None: "fold parse_step ds None = None"
  by (induction ds) (simp_all add: parse_step_def)

lemma parse_step_Some:
  assumes "n < 2 ^ 64" "is_ascii_digit c"
  shows "parse_step c (Some (of_nat n)) =
    (if 10 * n + digit_value c < 2 ^ 64 then Some (of_nat (10 * n + digit_value c)) else None)"
proof -
  have d: "digit_value c < 2 ^ 64" using digit_value_small[OF assms(2)] by simp
  have m: "checked_mul (of_nat n :: u64) 10 = (if n * 10 < 2 ^ 64 then Some (of_nat (n * 10)) else None)"
    using checked_of_nat(2)[OF assms(1), of 10] by simp
  show ?thesis
  proof (cases "n * 10 < 2 ^ 64")
    case True
    then show ?thesis unfolding parse_step_def bind.simps m
      using checked_of_nat(1)[OF True d] by (simp add: mult.commute)
  next
    case False
    then show ?thesis unfolding parse_step_def bind.simps m by simp
  qed
qed

lemma parse_digits_from:
  assumes "n < 2 ^ 64" "list_all is_ascii_digit ds"
  shows "fold parse_step ds (Some (of_nat n)) =
     (if decimal_from n ds < 2 ^ 64 then Some (of_nat (decimal_from n ds)) else None)"
  using assms
proof (induction ds arbitrary: n)
  case (Cons c cs)
  show ?case
  proof (cases "10 * n + digit_value c < 2 ^ 64")
    case True
    then show ?thesis using Cons by (simp add: parse_step_Some del: of_nat_add of_nat_mult)
  next
    case False
    then have "\<not> decimal_from (10 * n + digit_value c) cs < 2 ^ 64"
      using decimal_from_ge[of "10 * n + digit_value c" cs] by linarith
    then show ?thesis using Cons.prems False by (simp add: parse_step_Some parse_step_None)
  qed
qed simp

lemma parse_digits_value:
  assumes "list_all is_ascii_digit ds"
  shows "parse_digits ds = (if decimal ds < 2 ^ 64 then Some (of_nat (decimal ds)) else None)"
  using parse_digits_from[of 0 ds] assms
  unfolding parse_digits_def parse_step_def[abs_def] by simp

lemma unit_factor_digit: "unit_factor u = Some f \<Longrightarrow> u \<noteq> [] \<and> \<not> is_ascii_digit (hd u)"
  by (auto simp: unit_factor_def is_ascii_digit_def byte_def split: if_splits)

lemma split_number:
  assumes "list_all is_ascii_digit ds" "u = [] \<or> \<not> is_ascii_digit (hd u)"
  shows "takeWhile is_ascii_digit (ds @ u) = ds" "dropWhile is_ascii_digit (ds @ u) = u"
  using assms by (induction ds) (auto simp: takeWhile_eq_Nil_iff dropWhile_eq_self_iff)

lemma parse_growth_size_number:
  assumes "list_all is_ascii_digit ds" "ds \<noteq> []" "unit_factor u = Some f"
  shows "parse_growth_size (ds @ u) =
    (if 2 ^ 64 \<le> decimal ds \<or> 2 ^ 64 \<le> decimal ds * unat f then Inl PeSizeOverflow
     else if decimal ds = 0 then Inl PeInvalidSize
     else Inr (of_nat (decimal ds) * f))"
proof -
  have u: "u = [] \<or> \<not> is_ascii_digit (hd u)" using unit_factor_digit[OF assms(3)] by simp
  have f: "0 < unat f" using assms(3) by (auto simp: unit_factor_def split: if_splits)
  have zero: "(of_nat n * f :: u64) = 0 \<longleftrightarrow> n = 0" if "n < 2 ^ 64" "n * unat f < 2 ^ 64" for n
  proof -
    have "unat (of_nat n * f :: u64) = n * unat f"
      using that by (simp add: unat_word_ariths unat_of_nat)
    then have "(of_nat n * f :: u64) = 0 \<longleftrightarrow> n * unat f = 0" by (metis unsigned_eq_0_iff)
    then show ?thesis using f by simp
  qed
  show ?thesis
    unfolding parse_growth_size_def split_number[OF assms(1) u]
    using assms zero[of "decimal ds"]
    by (simp add: parse_digits_value checked_mul_def unat_of_nat)
qed

lemma parse_growth_size_other:
  assumes "takeWhile is_ascii_digit s = [] \<or> unit_factor (dropWhile is_ascii_digit s) = None"
  shows "parse_growth_size s = Inl PeInvalidSize"
  using assms by (auto simp: parse_growth_size_def Let_def)

lemma digit_char_props: "d < 10 \<Longrightarrow> is_ascii_digit (digit_char d) \<and> digit_value (digit_char d) = d"
  by (simp add: digit_char_def is_ascii_digit_def digit_value_def byte_def)

lemma show_nat_decimal: "list_all is_ascii_digit (show_nat n) \<and> show_nat n \<noteq> [] \<and> decimal (show_nat n) = n"
proof (induction n rule: show_nat.induct)
  case (1 n)
  show ?case
  proof (cases "n < 10")
    case True
    then show ?thesis by (subst (1 2 3) show_nat.simps) (simp add: digit_char_props)
  next
    case False
    have "n mod 10 < 10" by simp
    from digit_char_props[OF this] 1[OF False] False show ?thesis
      by (subst (1 2 3) show_nat.simps) simp
  qed
qed

text \<open>The size parser accepts exactly a nonempty run of decimal digits followed by one of the five
  units, when the exact product is positive and fits 64 bits, and returns that product; a number of
  bytes printed and parsed again is unchanged. Nothing wraps around.\<close>

theorem growth_size_exact:
  "(parse_growth_size s = Inr b \<longleftrightarrow>
     (\<exists>ds u f. s = ds @ u \<and> ds \<noteq> [] \<and> list_all is_ascii_digit ds \<and> unit_factor u = Some f
        \<and> unat b = decimal ds * unat f \<and> 0 < unat b))
   \<and> parse_growth_size (show_word b @ ''B'') = (if b = 0 then Inl PeInvalidSize else Inr b)"
proof (intro conjI iffI)
  assume a: "parse_growth_size s = Inr b"
  let ?ds = "takeWhile is_ascii_digit s" and ?u = "dropWhile is_ascii_digit s"
  have ne: "?ds \<noteq> []" and "unit_factor ?u \<noteq> None"
    using a parse_growth_size_other[of s] by auto
  then obtain f where f: "unit_factor ?u = Some f" by blast
  have all: "list_all is_ascii_digit ?ds" by (auto simp: list_all_iff dest: set_takeWhileD)
  have "unat b = decimal ?ds * unat f \<and> 0 < unat b"
  proof -
    have s: "?ds @ ?u = s" by simp
    have b: "b = of_nat (decimal ?ds) * f" and fits: "decimal ?ds < 2 ^ 64" "decimal ?ds * unat f < 2 ^ 64"
      and nz: "decimal ?ds \<noteq> 0"
      using a parse_growth_size_number[OF all ne f] unfolding s by (auto split: if_splits)
    have "unat b = decimal ?ds * unat f"
      unfolding b using fits by (simp add: unat_word_ariths unat_of_nat)
    moreover have "0 < unat f" using f by (auto simp: unit_factor_def split: if_splits)
    ultimately show ?thesis using nz by simp
  qed
  with ne all f show "\<exists>ds u f. s = ds @ u \<and> ds \<noteq> [] \<and> list_all is_ascii_digit ds \<and> unit_factor u = Some f
        \<and> unat b = decimal ds * unat f \<and> 0 < unat b"
    by (metis takeWhile_dropWhile_id)
next
  assume "\<exists>ds u f. s = ds @ u \<and> ds \<noteq> [] \<and> list_all is_ascii_digit ds \<and> unit_factor u = Some f
        \<and> unat b = decimal ds * unat f \<and> 0 < unat b"
  then obtain ds u f where s: "s = ds @ u" and ds: "ds \<noteq> []" "list_all is_ascii_digit ds"
    and f: "unit_factor u = Some f" and b: "unat b = decimal ds * unat f" "0 < unat b" by blast
  have "1 \<le> unat f" using b by (cases "unat f") simp_all
  then have "decimal ds \<le> unat b" unfolding b(1) by simp
  moreover have "unat b < 2 ^ 64" using unsigned_less[of b, where 'a=nat] by simp
  ultimately have "decimal ds < 2 ^ 64" "decimal ds * unat f < 2 ^ 64"
    using b(1) by linarith+
  moreover from b(1) have "b = of_nat (decimal ds) * f"
    by (metis of_nat_mult of_nat_unat ucast_id)
  ultimately show "parse_growth_size s = Inr b"
    unfolding s parse_growth_size_number[OF ds(2,1) f] using b by auto
next
  have "parse_growth_size (show_nat (unat b) @ ''B'') =
    (if 2 ^ 64 \<le> unat b \<or> 2 ^ 64 \<le> unat b * unat (1::u64) then Inl PeSizeOverflow
     else if unat b = 0 then Inl PeInvalidSize else Inr (of_nat (unat b) * 1))"
    using parse_growth_size_number[of "show_nat (unat b)" "''B''" 1] show_nat_decimal[of "unat b"]
    by (simp add: unit_factor_def)
  then show "parse_growth_size (show_word b @ ''B'') = (if b = 0 then Inl PeInvalidSize else Inr b)"
    using unsigned_less[of b, where 'a=nat] unsigned_eq_0_iff[of b, where 'a=nat] by (auto simp: show_word_def)
qed

end
