(* ===== verification/FreeSpace.thy ===== *)
theory FreeSpace
  imports PlannerBase
begin

text \<open>
  The free ranges of a partition table: \<open>partition_free_ranges\<close> of \<open>crates/planner/src/lib.rs\<close>.
  The records are checked and collected, sorted by start, overlapping and adjacent ones merged,
  and the gaps between the merged blocks and the usable area listed. On a DOS table the sectors
  before the first partition are left out.

  The code sorts with \<open>sort_unstable_by_key\<close>, so the order of records with equal starts is not
  fixed. The model sorts stably; \<open>merge_order_irrelevant\<close> shows that no order of equal starts
  changes the result.
\<close>

section \<open>The code\<close>

record partition_free_range =
  pfr_start_sector :: u64
  pfr_sector_count :: u64
  pfr_is_tail :: bool

record partition_free_space =
  pfs_ranges :: "partition_free_range list"
  pfs_sector_size_bytes :: u64

type_synonym block = "u64 \<times> u64"

text \<open>The first usable sector and the end of the usable area of a table.\<close>

definition usable_area :: "partition_table \<Rightarrow> u64 \<Rightarrow> block option" where
  "usable_area table disk_sectors =
     (case pt_label table of
        None \<Rightarrow> None
      | Some label \<Rightarrow>
          (if label = ''gpt'' then
             do { first \<leftarrow> pt_first_lba table;
                  last \<leftarrow> pt_last_lba table;
                  end \<leftarrow> checked_add last 1;
                  Some (first, min end disk_sectors) }
           else if label = ''dos'' then Some (1, disk_sectors)
           else None))"

fun collect_intervals :: "u64 \<Rightarrow> u64 \<Rightarrow> partition_record list \<Rightarrow> block list option" where
  "collect_intervals first_usable limit [] = Some []"
| "collect_intervals first_usable limit (record # records) =
     (if pr_size_sectors record = 0 then None
      else case checked_add (pr_start_sector record) (pr_size_sectors record) of
        None \<Rightarrow> None
      | Some end \<Rightarrow>
          (if pr_start_sector record < first_usable \<or> limit < end then None
           else map_option (\<lambda>rest. (pr_start_sector record, end) # rest)
             (collect_intervals first_usable limit records)))"

definition merge_interval :: "block list \<Rightarrow> block \<Rightarrow> block list" where
  "merge_interval merged block =
     (let (start, end) = block in
      if merged \<noteq> [] \<and> start \<le> snd (last merged)
      then butlast merged @ [(fst (last merged), max (snd (last merged)) end)]
      else merged @ [(start, end)])"

definition merge_intervals :: "block list \<Rightarrow> block list" where
  "merge_intervals intervals = foldl merge_interval [] intervals"

fun gaps_from :: "u64 \<Rightarrow> block list \<Rightarrow> (partition_free_range list \<times> u64) option" where
  "gaps_from cursor [] = Some ([], cursor)"
| "gaps_from cursor ((start, end) # merged) =
     do { gap \<leftarrow> (if cursor < start
                  then map_option (\<lambda>count. [\<lparr> pfr_start_sector = cursor, pfr_sector_count = count,
                         pfr_is_tail = False \<rparr>]) (checked_sub start cursor)
                  else Some []);
          (ranges, cursor) \<leftarrow> gaps_from (max cursor end) merged;
          Some (gap @ ranges, cursor) }"

definition free_ranges_between :: "bool \<Rightarrow> u64 \<Rightarrow> u64 \<Rightarrow> block list \<Rightarrow> partition_free_range list option" where
  "free_ranges_between has_partitions cursor limit merged =
     do { (ranges, cursor) \<leftarrow> gaps_from cursor merged;
          if cursor < limit
          then map_option (\<lambda>count. ranges @ [\<lparr> pfr_start_sector = cursor, pfr_sector_count = count,
                 pfr_is_tail = has_partitions \<rparr>]) (checked_sub limit cursor)
          else Some ranges }"

definition partition_free_ranges :: "block_device \<Rightarrow> partition_table \<Rightarrow> partition_free_space option" where
  "partition_free_ranges disk table =
     do { sector \<leftarrow> pt_sector_size_bytes table;
          if sector < 512 \<or> \<not> is_power_of_two sector \<or> bd_size_bytes disk mod sector \<noteq> 0 then None
          else do {
            let disk_sectors = bd_size_bytes disk div sector;
            let is_dos = (pt_label table = Some ''dos'');
            (first_usable, limit) \<leftarrow> usable_area table disk_sectors;
            if limit \<le> first_usable then None
            else do {
              intervals \<leftarrow> collect_intervals first_usable limit (pt_partitions table);
              let merged = merge_intervals (sort_key fst intervals);
              let has_partitions = merged \<noteq> [];
              if is_dos
              then (case merged of
                      [] \<Rightarrow> Some \<lparr> pfs_ranges = [], pfs_sector_size_bytes = sector \<rparr>
                    | (_, first_end) # rest \<Rightarrow>
                        map_option (\<lambda>ranges. \<lparr> pfs_ranges = ranges, pfs_sector_size_bytes = sector \<rparr>)
                          (free_ranges_between has_partitions first_end limit rest))
              else map_option (\<lambda>ranges. \<lparr> pfs_ranges = ranges, pfs_sector_size_bytes = sector \<rparr>)
                (free_ranges_between has_partitions first_usable limit merged)
            }
          }
     }"

section \<open>What the lists of blocks and ranges denote\<close>

abbreviation block_sectors :: "block \<Rightarrow> nat set" where
  "block_sectors b \<equiv> {unat (fst b) ..< unat (snd b)}"

definition covered :: "block list \<Rightarrow> nat set" where
  "covered bs = (\<Union>b\<in>set bs. block_sectors b)"

definition range_end :: "partition_free_range \<Rightarrow> nat" where
  "range_end r = unat (pfr_start_sector r) + unat (pfr_sector_count r)"

definition range_sectors :: "partition_free_range \<Rightarrow> nat set" where
  "range_sectors r = {unat (pfr_start_sector r) ..< range_end r}"

definition free_sectors :: "partition_free_range list \<Rightarrow> nat set" where
  "free_sectors rs = (\<Union>r\<in>set rs. range_sectors r)"

text \<open>Ranges in order, none empty, none touching what comes before it.\<close>

definition ordered_ranges :: "partition_free_range list \<Rightarrow> bool" where
  "ordered_ranges rs =
     (sorted_wrt (\<lambda>a b. range_end a \<le> unat (pfr_start_sector b)) rs
      \<and> list_all (\<lambda>r. 0 < unat (pfr_sector_count r)) rs)"

definition proper_blocks :: "block list \<Rightarrow> bool" where
  "proper_blocks bs = list_all (\<lambda>b. fst b < snd b) bs"

definition separated :: "block list \<Rightarrow> bool" where
  "separated bs = (sorted_wrt (\<lambda>a b. snd a < fst b) bs \<and> proper_blocks bs)"

lemma covered_simps [simp]:
  "covered [] = {}" "covered (b # bs) = block_sectors b \<union> covered bs"
  "covered (as @ bs) = covered as \<union> covered bs"
  by (auto simp: covered_def)

lemma covered_cong: "set as = set bs \<Longrightarrow> covered as = covered bs"
  by (simp add: covered_def)

lemma free_sectors_simps [simp]:
  "free_sectors [] = {}" "free_sectors (r # rs) = range_sectors r \<union> free_sectors rs"
  "free_sectors (rs @ ss) = free_sectors rs \<union> free_sectors ss"
  by (auto simp: free_sectors_def)

section \<open>Merging\<close>

lemma merge_snoc: "merge_intervals (bs @ [b]) = merge_interval (merge_intervals bs) b"
  by (simp add: merge_intervals_def)

lemma separated_snoc:
  "separated (bs @ [b]) \<longleftrightarrow> separated bs \<and> (\<forall>a\<in>set bs. snd a < fst b) \<and> fst b < snd b"
  by (auto simp: separated_def proper_blocks_def sorted_wrt_append)

lemma merge_intervals_props:
  assumes "sorted (map fst bs)" "proper_blocks bs"
  shows "separated (merge_intervals bs) \<and> covered (merge_intervals bs) = covered bs
    \<and> fst ` set (merge_intervals bs) \<subseteq> fst ` set bs"
  using assms
proof (induction bs rule: rev_induct)
  case Nil
  show ?case by (simp add: merge_intervals_def separated_def proper_blocks_def)
next
  case (snoc b bs)
  obtain s e where b: "b = (s, e)" by (cases b)
  let ?m = "merge_intervals bs"
  from snoc.prems have "sorted (map fst bs)" "proper_blocks bs" and se: "s < e"
    and above: "\<forall>x\<in>fst ` set bs. x \<le> s"
    by (auto simp: sorted_append proper_blocks_def b)
  with snoc.IH have IH: "separated ?m" "covered ?m = covered bs" "fst ` set ?m \<subseteq> fst ` set bs" by auto
  show ?case
  proof (cases "?m \<noteq> [] \<and> s \<le> snd (last ?m)")
    case False
    then have new: "merge_intervals (bs @ [b]) = ?m @ [b]"
      by (auto simp: merge_snoc merge_interval_def b)
    have "snd a < s" if a: "a \<in> set ?m" for a
    proof -
      from a obtain ms l where m: "?m = ms @ [l]" by (metis append_butlast_last_id empty_iff list.set(1))
      with False have l: "snd l < s" by simp
      from IH(1) m have "\<forall>a\<in>set ms. snd a < fst l" "fst l < snd l" by (simp_all add: separated_snoc)
      with a m l show ?thesis by fastforce
    qed
    then have "separated (?m @ [b])" using IH(1) se by (simp add: separated_snoc b)
    moreover have "covered (?m @ [b]) = covered (bs @ [b])" using IH(2) by simp
    moreover have "fst ` set (?m @ [b]) \<subseteq> fst ` set (bs @ [b])" using IH(3) by auto
    ultimately show ?thesis unfolding new by blast
  next
    case True
    then obtain ms l where m: "?m = ms @ [l]" by (metis append_butlast_last_id)
    with True have l: "s \<le> snd l" by simp
    have new: "merge_intervals (bs @ [b]) = ms @ [(fst l, max (snd l) e)]"
      using True by (simp add: merge_snoc merge_interval_def b m)
    have ls: "fst l \<le> s" using above IH(3) m by auto
    have sep: "separated ms" "\<forall>a\<in>set ms. snd a < fst l" "fst l < snd l"
      using IH(1) by (auto simp: m separated_snoc)
    have "block_sectors (fst l, max (snd l) e) = block_sectors l \<union> block_sectors b"
      using ls l se by (auto simp: b word_le_nat_alt word_less_nat_alt max_def split: if_splits)
    then have "covered (ms @ [(fst l, max (snd l) e)]) = covered (bs @ [b])"
      using IH(2) by (simp add: m Un_assoc[symmetric])
    moreover have "fst l < max (snd l) e" using sep(3) by (simp add: less_max_iff_disj)
    then have "separated (ms @ [(fst l, max (snd l) e)])" using sep by (simp add: separated_snoc)
    moreover have "fst ` set (ms @ [(fst l, max (snd l) e)]) \<subseteq> fst ` set (bs @ [b])"
      using IH(3) by (auto simp: m)
    ultimately show ?thesis unfolding new by blast
  qed
qed

text \<open>
  The merge does not depend on the order of the records: blocks that start together end up in
  one, whichever comes first.
\<close>

lemma separated_Cons:
  assumes "separated (b # bs)"
  shows "fst b < snd b" "separated bs" "n \<in> covered bs \<Longrightarrow> unat (snd b) < n"
    "unat (fst b) \<in> covered (b # bs)" "n \<in> covered (b # bs) \<Longrightarrow> unat (fst b) \<le> n"
    "unat (snd b) \<notin> covered (b # bs)" "covered bs = covered (b # bs) - block_sectors b"
proof -
  from assms show b: "fst b < snd b" and "separated bs"
    by (auto simp: separated_def proper_blocks_def)
  from assms have above: "\<forall>x\<in>set bs. snd b < fst x" by (simp add: separated_def)
  show low: "unat (snd b) < n" if "n \<in> covered bs" for n
  proof -
    from that obtain x where "x \<in> set bs" "unat (fst x) \<le> n" by (auto simp: covered_def)
    with above show ?thesis by (auto simp: word_less_nat_alt dest!: bspec)
  qed
  from b show "unat (fst b) \<in> covered (b # bs)" by (simp add: word_less_nat_alt)
  show "unat (fst b) \<le> n" if "n \<in> covered (b # bs)"
    using that low[of n] b by (auto simp: word_less_nat_alt)
  show "unat (snd b) \<notin> covered (b # bs)" using low[of "unat (snd b)"] by auto
  have "n \<notin> covered bs" if "n < unat (snd b)" for n using that low[of n] by auto
  then show "covered bs = covered (b # bs) - block_sectors b" by auto
qed

lemma separated_covered_unique:
  assumes "separated as" "separated bs" "covered as = covered bs"
  shows "as = bs"
  using assms
proof (induction as arbitrary: bs)
  case Nil
  then show ?case using separated_Cons(4) by (cases bs) fastforce+
next
  case (Cons a as)
  then obtain b bs' where bs: "bs = b # bs'" using separated_Cons(4)[OF Cons.prems(1)] by (cases bs) auto
  note A = separated_Cons[OF Cons.prems(1)] and B = separated_Cons[OF Cons.prems(2)[unfolded bs]]
  note eq = Cons.prems(3)[unfolded bs]
  have st: "unat (fst a) = unat (fst b)"
    using A(5)[of "unat (fst b)"] B(5)[of "unat (fst a)"] A(4) B(4) unfolding eq by (intro le_antisym)
  have "\<not> unat (snd a) < unat (snd b)"
    using A(1,6) st unfolding eq by (auto simp: word_less_nat_alt)
  moreover have "\<not> unat (snd b) < unat (snd a)"
    using B(1,6) st unfolding eq[symmetric] by (auto simp: word_less_nat_alt)
  ultimately have ab: "a = b" using st by (simp add: prod_eq_iff word_unat_eq_iff)
  have "covered as = covered bs'" using A(7) B(7) eq ab by metis
  with Cons.IH[OF A(2) B(2)] ab bs show ?case by simp
qed

lemma merge_order_irrelevant:
  assumes "sorted (map fst as)" "sorted (map fst bs)" "set as = set bs" "proper_blocks as"
  shows "merge_intervals as = merge_intervals bs"
proof -
  have "proper_blocks bs" using assms(3,4) by (simp add: proper_blocks_def list_all_iff)
  with merge_intervals_props[OF assms(1,4)] merge_intervals_props[OF assms(2)] covered_cong[OF assms(3)]
  show ?thesis by (intro separated_covered_unique) auto
qed

section \<open>The gaps\<close>

lemma ordered_ranges_append:
  "ordered_ranges (rs @ ss) \<longleftrightarrow> ordered_ranges rs \<and> ordered_ranges ss
     \<and> (\<forall>r\<in>set rs. \<forall>t\<in>set ss. range_end r \<le> unat (pfr_start_sector t))"
  by (auto simp: ordered_ranges_def sorted_wrt_append)

definition gap_between :: "u64 \<Rightarrow> u64 \<Rightarrow> bool \<Rightarrow> partition_free_range" where
  "gap_between a b tail =
     \<lparr> pfr_start_sector = a, pfr_sector_count = b - a, pfr_is_tail = tail \<rparr>"

lemma gap_between_props:
  assumes "a < b"
  shows "range_sectors (gap_between a b t) = {unat a ..< unat b}"
    "range_end (gap_between a b t) = unat b" "0 < unat (pfr_sector_count (gap_between a b t))"
  using assms by (simp_all add: range_sectors_def range_end_def gap_between_def unat_sub word_less_nat_alt word_le_nat_alt)

lemma gaps_from_Cons:
  "gaps_from c ((s, e) # ms) =
     map_option (\<lambda>(rs, c'). ((if c < s then [gap_between c s False] else []) @ rs, c'))
       (gaps_from (max c e) ms)"
  by (cases "gaps_from (max c e) ms")
     (auto simp: gap_between_def checked_sub_def not_less)

lemma gaps_from_props:
  assumes "separated ms"
  shows "\<exists>rs c'. gaps_from c ms = Some (rs, c') \<and> c \<le> c'
     \<and> free_sectors rs = {unat c ..< unat c'} - covered ms
     \<and> (\<forall>m\<in>set ms. snd m \<le> c') \<and> (c' = c \<or> c' \<in> snd ` set ms)
     \<and> ordered_ranges rs
     \<and> (\<forall>r\<in>set rs. \<not> pfr_is_tail r \<and> c \<le> pfr_start_sector r \<and> range_end r < unat c')"
  using assms
proof (induction ms arbitrary: c)
  case Nil
  show ?case by (simp add: ordered_ranges_def)
next
  case (Cons m ms)
  obtain s e where m: "m = (s, e)" by (cases m)
  from Cons.prems have se: "s < e" and sep: "separated ms" and above: "\<forall>x\<in>set ms. e < fst x"
    by (auto simp: m separated_def proper_blocks_def)
  from Cons.IH[OF sep, of "max c e"] obtain rs c' where
    rs: "gaps_from (max c e) ms = Some (rs, c')" "max c e \<le> c'"
      "free_sectors rs = {unat (max c e) ..< unat c'} - covered ms"
      "\<forall>m\<in>set ms. snd m \<le> c'" "c' = max c e \<or> c' \<in> snd ` set ms" "ordered_ranges rs"
      "\<forall>r\<in>set rs. \<not> pfr_is_tail r \<and> max c e \<le> pfr_start_sector r \<and> range_end r < unat c'" by blast
  let ?g = "if c < s then [gap_between c s False] else []"
  have notin: "n \<notin> covered ms" if "n \<le> unat e" for n
    using that above by (fastforce simp: covered_def word_less_nat_alt)
  have g: "free_sectors ?g = {unat c ..< unat s}"
    by (auto simp: gap_between_props word_less_nat_alt)
  have ends: "unat (max c e) = max (unat c) (unat e)" "unat s < unat e" "unat (max c e) \<le> unat c'"
    using se rs(2) by (simp_all add: word_less_nat_alt word_le_nat_alt max_def)
  have free: "free_sectors (?g @ rs) = {unat c ..< unat c'} - covered (m # ms)"
    unfolding free_sectors_simps g rs(3) using notin ends by (auto simp: m)
  moreover have "ordered_ranges (?g @ rs)"
  proof -
    have "ordered_ranges ?g" by (simp add: ordered_ranges_def gap_between_props)
    moreover have "range_end r \<le> unat (pfr_start_sector t)" if "r \<in> set ?g" "t \<in> set rs" for r t
    proof -
      from that(2) rs(7) have "unat (max c e) \<le> unat (pfr_start_sector t)" by (simp add: word_le_nat_alt)
      with that(1) ends show ?thesis by (auto simp: gap_between_props split: if_splits)
    qed
    ultimately show ?thesis using rs(6) by (auto simp: ordered_ranges_append)
  qed
  moreover have "\<forall>r\<in>set (?g @ rs). \<not> pfr_is_tail r \<and> c \<le> pfr_start_sector r \<and> range_end r < unat c'"
    using rs(7) ends by (auto simp: gap_between_props) (auto simp: gap_between_def)
  moreover have "c \<le> c'" "\<forall>x\<in>set (m # ms). snd x \<le> c'" using rs(2,4) by (auto simp: m)
  moreover have "c' = c \<or> c' \<in> snd ` set (m # ms)" using rs(5) by (auto simp: m max_def split: if_splits)
  moreover have "gaps_from c (m # ms) = Some (?g @ rs, c')"
    unfolding m gaps_from_Cons rs(1) by simp
  ultimately show ?case by blast
qed

lemma free_ranges_between_props:
  assumes "separated ms" "\<forall>m\<in>set ms. snd m \<le> limit" "c \<le> limit"
  shows "\<exists>rs. free_ranges_between t c limit ms = Some rs
     \<and> free_sectors rs = {unat c ..< unat limit} - covered ms \<and> ordered_ranges rs
     \<and> (\<forall>r\<in>set rs. c \<le> pfr_start_sector r \<and> range_end r \<le> unat limit
           \<and> (pfr_is_tail r \<longleftrightarrow> t \<and> range_end r = unat limit))"
proof -
  from gaps_from_props[OF assms(1), of c] obtain rs c' where
    rs: "gaps_from c ms = Some (rs, c')" "c \<le> c'" "free_sectors rs = {unat c ..< unat c'} - covered ms"
      "\<forall>m\<in>set ms. snd m \<le> c'" "c' = c \<or> c' \<in> snd ` set ms" "ordered_ranges rs"
      "\<forall>r\<in>set rs. \<not> pfr_is_tail r \<and> c \<le> pfr_start_sector r \<and> range_end r < unat c'" by blast
  have le: "c' \<le> limit" using rs(5) assms(2,3) by auto
  show ?thesis
  proof (cases "c' < limit")
    case False
    with le have "c' = limit" by simp
    with rs show ?thesis by (fastforce simp: free_ranges_between_def)
  next
    case True
    let ?l = "gap_between c' limit t"
    have "free_ranges_between t c limit ms = Some (rs @ [?l])"
      using True by (simp add: free_ranges_between_def rs(1) checked_sub_def gap_between_def)
    moreover have "free_sectors (rs @ [?l]) = {unat c ..< unat limit} - covered ms"
    proof -
      have "n \<notin> covered ms" if "unat c' \<le> n" for n
        using that rs(4) by (fastforce simp: covered_def word_le_nat_alt)
      then show ?thesis using rs(2) le
        by (auto simp: rs(3) gap_between_props[OF True] word_le_nat_alt)
    qed
    moreover have "ordered_ranges (rs @ [?l])"
    proof -
      have "ordered_ranges [?l]" by (simp add: ordered_ranges_def gap_between_props[OF True])
      then show ?thesis using rs(6,7) by (auto simp: ordered_ranges_append gap_between_def less_imp_le)
    qed
    moreover have "\<forall>r\<in>set (rs @ [?l]). c \<le> pfr_start_sector r \<and> range_end r \<le> unat limit
           \<and> (pfr_is_tail r \<longleftrightarrow> t \<and> range_end r = unat limit)"
      using rs(2,7) True gap_between_props(2)[OF True, of t]
      by (auto simp: word_less_nat_alt) (auto simp: gap_between_def)
    ultimately show ?thesis by blast
  qed
qed

section \<open>The free ranges of a table\<close>

definition record_sectors :: "partition_record \<Rightarrow> nat set" where
  "record_sectors r = {unat (pr_start_sector r) ..< unat (pr_start_sector r) + unat (pr_size_sectors r)}"

definition allocated_sectors :: "partition_table \<Rightarrow> nat set" where
  "allocated_sectors table = (\<Union>r\<in>set (pt_partitions table). record_sectors r)"

definition record_fits :: "u64 \<Rightarrow> u64 \<Rightarrow> partition_record \<Rightarrow> bool" where
  "record_fits first limit r =
     (pr_size_sectors r \<noteq> 0 \<and> first \<le> pr_start_sector r
      \<and> unat (pr_start_sector r) + unat (pr_size_sectors r) \<le> unat limit)"

definition record_block :: "partition_record \<Rightarrow> block" where
  "record_block r = (pr_start_sector r, pr_start_sector r + pr_size_sectors r)"

lemma record_block_props:
  assumes "record_fits first limit r"
  shows "unat (snd (record_block r)) = unat (pr_start_sector r) + unat (pr_size_sectors r)"
    "fst (record_block r) < snd (record_block r)" "snd (record_block r) \<le> limit"
    "block_sectors (record_block r) = record_sectors r" "first \<le> fst (record_block r)"
proof -
  from assms have "unat (pr_start_sector r) + unat (pr_size_sectors r) < 2 ^ 64"
    using unsigned_less[of limit, where 'a=nat] by (simp add: record_fits_def)
  then show e: "unat (snd (record_block r)) = unat (pr_start_sector r) + unat (pr_size_sectors r)"
    by (simp add: record_block_def unat_word_ariths)
  from assms have "0 < unat (pr_size_sectors r)" by (simp add: record_fits_def unat_gt_0)
  with e show "fst (record_block r) < snd (record_block r)"
    by (simp add: record_block_def word_less_nat_alt)
  from e assms show "snd (record_block r) \<le> limit" by (simp add: record_fits_def word_le_nat_alt)
  from e show "block_sectors (record_block r) = record_sectors r"
    by (simp add: record_sectors_def record_block_def)
  from assms show "first \<le> fst (record_block r)" by (simp add: record_fits_def record_block_def)
qed

lemma collect_intervals_step:
  "collect_intervals first limit (r # recs) =
     (if record_fits first limit r
      then map_option ((#) (record_block r)) (collect_intervals first limit recs) else None)"
proof (cases "unat (pr_start_sector r) + unat (pr_size_sectors r) < 2 ^ 64")
  case True
  then have last: "unat (pr_start_sector r + pr_size_sectors r)
      = unat (pr_start_sector r) + unat (pr_size_sectors r)"
    by (simp add: unat_word_ariths)
  have fits: "record_fits first limit r \<longleftrightarrow> pr_size_sectors r \<noteq> 0 \<and> \<not> pr_start_sector r < first
      \<and> \<not> limit < pr_start_sector r + pr_size_sectors r"
    unfolding record_fits_def word_less_nat_alt[of limit] last by (auto simp: not_less)
  have add: "checked_add (pr_start_sector r) (pr_size_sectors r) = Some (pr_start_sector r + pr_size_sectors r)"
    using True by (simp add: checked_add_def)
  show ?thesis unfolding collect_intervals.simps add fits by (auto simp: record_block_def[abs_def])
next
  case False
  then have "\<not> record_fits first limit r"
    using unsigned_less[of limit, where 'a=nat] by (simp add: record_fits_def)
  moreover have "checked_add (pr_start_sector r) (pr_size_sectors r) = None"
    using False by (simp add: checked_add_def)
  ultimately show ?thesis by simp
qed

lemma collect_intervals_Some:
  "collect_intervals first limit recs = Some ivs
     \<longleftrightarrow> list_all (record_fits first limit) recs \<and> ivs = map record_block recs"
  by (induction recs arbitrary: ivs) (auto simp: collect_intervals_step simp del: collect_intervals.simps(2))

lemma collected_blocks:
  assumes "list_all (record_fits first limit) recs"
  defines "bs \<equiv> sort_key fst (map record_block recs)"
  shows "sorted (map fst bs)" "proper_blocks bs" "\<forall>b\<in>set bs. snd b \<le> limit \<and> first \<le> fst b"
    "covered bs = (\<Union>r\<in>set recs. record_sectors r)" "fst ` set bs = pr_start_sector ` set recs"
proof -
  have set: "set bs = record_block ` set recs" by (simp add: bs_def)
  show "sorted (map fst bs)" unfolding bs_def by (rule sorted_sort_key)
  note fits = assms(1)[unfolded list_all_iff]
  show "proper_blocks bs" "\<forall>b\<in>set bs. snd b \<le> limit \<and> first \<le> fst b"
    using fits record_block_props by (auto simp: proper_blocks_def list_all_iff set)
  show "covered bs = (\<Union>r\<in>set recs. record_sectors r)"
    using fits record_block_props(4) by (fastforce simp: covered_def set)
  show "fst ` set bs = pr_start_sector ` set recs" by (simp add: set image_image record_block_def)
qed

lemma merged_blocks:
  assumes "list_all (record_fits first limit) recs"
  defines "ms \<equiv> merge_intervals (sort_key fst (map record_block recs))"
  shows "separated ms" "covered ms = (\<Union>r\<in>set recs. record_sectors r)"
    "fst ` set ms \<subseteq> pr_start_sector ` set recs" "\<forall>m\<in>set ms. snd m \<le> limit"
    "ms = [] \<longleftrightarrow> recs = []"
proof -
  note C = collected_blocks[OF assms(1)]
  note M = merge_intervals_props[OF C(1,2), folded ms_def]
  show sep: "separated ms" and cov: "covered ms = (\<Union>r\<in>set recs. record_sectors r)"
    and "fst ` set ms \<subseteq> pr_start_sector ` set recs" using M C by auto
  show "\<forall>m\<in>set ms. snd m \<le> limit"
  proof
    fix m assume m: "m \<in> set ms"
    with sep have "fst m < snd m" by (auto simp: separated_def proper_blocks_def list_all_iff)
    then have "unat (snd m) - 1 \<in> block_sectors m" by (auto simp: word_less_nat_alt)
    with m have "unat (snd m) - 1 \<in> covered ms" by (auto simp: covered_def)
    with cov obtain r where "r \<in> set recs" "unat (snd m) - 1 \<in> record_sectors r" by auto
    with assms(1) show "snd m \<le> limit"
      by (auto simp: list_all_iff record_fits_def record_sectors_def word_le_nat_alt dest!: bspec)
  qed
  show "ms = [] \<longleftrightarrow> recs = []"
  proof
    assume "ms = []"
    then have "(\<Union>r\<in>set recs. record_sectors r) = {}" using cov by simp
    moreover have "record_sectors r \<noteq> {}" if "r \<in> set recs" for r
      using that assms(1) by (auto simp: list_all_iff record_fits_def record_sectors_def unat_gt_0 dest!: bspec)
    ultimately show "recs = []" by (cases recs) auto
  qed (simp add: ms_def merge_intervals_def)
qed

text \<open>When the free ranges of a table can be told, and what they are.\<close>

definition table_sector_ok :: "block_device \<Rightarrow> partition_table \<Rightarrow> u64 \<Rightarrow> bool" where
  "table_sector_ok disk table sector =
     (pt_sector_size_bytes table = Some sector \<and> 512 \<le> sector \<and> is_power_of_two sector
      \<and> bd_size_bytes disk mod sector = 0)"

definition table_area :: "block_device \<Rightarrow> partition_table \<Rightarrow> u64 \<Rightarrow> u64 \<Rightarrow> u64 \<Rightarrow> bool" where
  "table_area disk table sector first limit =
     (table_sector_ok disk table sector
      \<and> usable_area table (bd_size_bytes disk div sector) = Some (first, limit) \<and> first < limit
      \<and> list_all (record_fits first limit) (pt_partitions table))"

text \<open>The sectors a new partition may take: usable, in no partition, and on a DOS table not before
  the first partition.\<close>

definition offered_sectors :: "partition_table \<Rightarrow> u64 \<Rightarrow> u64 \<Rightarrow> nat set" where
  "offered_sectors table first limit =
     {n. unat first \<le> n \<and> n < unat limit \<and> n \<notin> allocated_sectors table
         \<and> (pt_label table = Some ''dos'' \<longrightarrow> (\<exists>r\<in>set (pt_partitions table). unat (pr_start_sector r) \<le> n))}"

definition ranges_ok :: "partition_table \<Rightarrow> u64 \<Rightarrow> u64 \<Rightarrow> partition_free_range list \<Rightarrow> bool" where
  "ranges_ok table first limit rs =
     (free_sectors rs = offered_sectors table first limit \<and> ordered_ranges rs
      \<and> (\<forall>r\<in>set rs. unat first \<le> unat (pfr_start_sector r) \<and> range_end r \<le> unat limit
           \<and> (pfr_is_tail r \<longleftrightarrow> pt_partitions table \<noteq> [] \<and> range_end r = unat limit)))"

lemma partition_free_ranges_area:
  "partition_free_ranges disk table = Some fs \<Longrightarrow>
     \<exists>sector first limit. table_area disk table sector first limit"
  by (auto simp: partition_free_ranges_def table_area_def table_sector_ok_def collect_intervals_Some not_less not_le
           split: bind_splits if_splits)

lemma dos_merged:
  assumes "list_all (record_fits first limit) recs"
    "merge_intervals (sort_key fst (map record_block recs)) = m # ms"
  shows "covered ms = {n. unat (snd m) \<le> n} \<inter> (\<Union>r\<in>set recs. record_sectors r)"
    "n < unat (snd m) \<Longrightarrow> n \<in> (\<Union>r\<in>set recs. record_sectors r) \<or> (\<forall>r\<in>set recs. n < unat (pr_start_sector r))"
    "\<exists>r\<in>set recs. unat (pr_start_sector r) < unat (snd m)"
proof -
  note M = merged_blocks[OF assms(1), unfolded assms(2)]
  note S = separated_Cons[OF M(1)]
  have cov: "covered (m # ms) = (\<Union>r\<in>set recs. record_sectors r)" by (rule M(2))
  have low: "unat (snd m) < n" if "n \<in> covered ms" for n using that by (rule S(3))
  show "covered ms = {n. unat (snd m) \<le> n} \<inter> (\<Union>r\<in>set recs. record_sectors r)"
    unfolding cov[symmetric] using low by fastforce
  have start: "pr_start_sector r \<ge> fst m" if "r \<in> set recs" for r
  proof -
    have "unat (pr_start_sector r) \<in> record_sectors r"
      using that assms(1) by (auto simp: list_all_iff record_fits_def record_sectors_def unat_gt_0 dest!: bspec)
    with that have "unat (pr_start_sector r) \<in> covered (m # ms)" unfolding cov by blast
    from S(5)[OF this] show ?thesis by (simp add: word_le_nat_alt)
  qed
  show "n \<in> (\<Union>r\<in>set recs. record_sectors r) \<or> (\<forall>r\<in>set recs. n < unat (pr_start_sector r))"
    if "n < unat (snd m)" for n
  proof (cases "unat (fst m) \<le> n")
    case True
    with that have "n \<in> covered (m # ms)" by simp
    then show ?thesis unfolding cov by simp
  next
    case False
    with start show ?thesis by (auto simp: word_le_nat_alt) (meson leI order.strict_trans2)
  qed
  have "fst m \<in> pr_start_sector ` set recs" using M(3) by simp
  then obtain r where r: "r \<in> set recs" "fst m = pr_start_sector r" by (rule imageE)
  from S(1) r have "unat (pr_start_sector r) < unat (snd m)" by (simp add: word_less_nat_alt)
  with r show "\<exists>r\<in>set recs. unat (pr_start_sector r) < unat (snd m)" by blast
qed

lemma usable_area_dos:
  "usable_area table n = Some (first, limit) \<Longrightarrow>
     pt_label table = Some ''dos'' \<and> first = 1 \<and> limit = n
     \<or> pt_label table = Some ''gpt'' \<and> limit \<le> n"
  by (auto simp: usable_area_def split: option.splits if_splits bind_splits)

lemma partition_free_ranges_gpt:
  assumes a: "table_area disk table sector first limit" and gpt: "pt_label table = Some ''gpt''"
  shows "\<exists>rs. partition_free_ranges disk table = Some \<lparr> pfs_ranges = rs, pfs_sector_size_bytes = sector \<rparr>
     \<and> ranges_ok table first limit rs"
proof -
  from a have area: "usable_area table (bd_size_bytes disk div sector) = Some (first, limit)"
    and lt: "first < limit" and fits: "list_all (record_fits first limit) (pt_partitions table)"
    and sec: "pt_sector_size_bytes table = Some sector" "\<not> sector < 512" "is_power_of_two sector"
      "bd_size_bytes disk mod sector = 0"
    by (auto simp: table_area_def table_sector_ok_def)
  let ?ms = "merge_intervals (sort_key fst (map record_block (pt_partitions table)))"
  note M = merged_blocks[OF fits]
  have col: "collect_intervals first limit (pt_partitions table) = Some (map record_block (pt_partitions table))"
    using fits by (simp add: collect_intervals_Some)
  from free_ranges_between_props[OF M(1) M(4) less_imp_le[OF lt], of "?ms \<noteq> []"] obtain rs where
    rs: "free_ranges_between (?ms \<noteq> []) first limit ?ms = Some rs"
      "free_sectors rs = {unat first..<unat limit} - covered ?ms" "ordered_ranges rs"
      "\<forall>r\<in>set rs. first \<le> pfr_start_sector r \<and> range_end r \<le> unat limit
        \<and> (pfr_is_tail r \<longleftrightarrow> ?ms \<noteq> [] \<and> range_end r = unat limit)" by blast
  have "partition_free_ranges disk table = Some \<lparr> pfs_ranges = rs, pfs_sector_size_bytes = sector \<rparr>"
    using lt by (simp add: partition_free_ranges_def sec area gpt col rs(1) not_le)
  moreover have "ranges_ok table first limit rs"
    unfolding ranges_ok_def
    using rs(2-4) M(2,5) gpt by (auto simp: offered_sectors_def allocated_sectors_def word_le_nat_alt)
  ultimately show ?thesis by blast
qed

lemma partition_free_ranges_dos:
  assumes a: "table_area disk table sector first limit" and dos: "pt_label table = Some ''dos''"
  shows "\<exists>rs. partition_free_ranges disk table = Some \<lparr> pfs_ranges = rs, pfs_sector_size_bytes = sector \<rparr>
     \<and> ranges_ok table first limit rs"
proof -
  from a have area: "usable_area table (bd_size_bytes disk div sector) = Some (first, limit)"
    and lt: "first < limit" and fits: "list_all (record_fits first limit) (pt_partitions table)"
    and sec: "pt_sector_size_bytes table = Some sector" "\<not> sector < 512" "is_power_of_two sector"
      "bd_size_bytes disk mod sector = 0"
    by (auto simp: table_area_def table_sector_ok_def)
  have col: "collect_intervals first limit (pt_partitions table) = Some (map record_block (pt_partitions table))"
    using fits by (simp add: collect_intervals_Some)
  note M = merged_blocks[OF fits]
  show ?thesis
  proof (cases "merge_intervals (sort_key fst (map record_block (pt_partitions table)))")
    case Nil
    with M(5) have none: "pt_partitions table = []" by simp
    have "partition_free_ranges disk table = Some \<lparr> pfs_ranges = [], pfs_sector_size_bytes = sector \<rparr>"
      using lt by (simp add: partition_free_ranges_def sec area dos col Nil not_le)
    moreover have "ranges_ok table first limit []"
      using dos none by (simp add: ranges_ok_def offered_sectors_def ordered_ranges_def)
    ultimately show ?thesis by blast
  next
    case (Cons m ms)
    obtain s e where m: "m = (s, e)" by (cases m)
    note C = M[unfolded Cons] and D = dos_merged[OF fits Cons]
    have "separated ms" by (rule separated_Cons(2)[OF C(1)])
    moreover have "\<forall>m\<in>set ms. snd m \<le> limit" "e \<le> limit" using C(4) by (auto simp: m)
    ultimately obtain rs where
      rs: "free_ranges_between True e limit ms = Some rs"
        "free_sectors rs = {unat e..<unat limit} - covered ms" "ordered_ranges rs"
        "\<forall>r\<in>set rs. e \<le> pfr_start_sector r \<and> range_end r \<le> unat limit
          \<and> (pfr_is_tail r \<longleftrightarrow> True \<and> range_end r = unat limit)"
      using free_ranges_between_props[of ms limit e True] by blast
    have "partition_free_ranges disk table = Some \<lparr> pfs_ranges = rs, pfs_sector_size_bytes = sector \<rparr>"
      using lt by (simp add: partition_free_ranges_def sec area dos col Cons m rs(1) not_le)
    moreover have "first \<le> e"
      using D(3) usable_area_dos[OF area] dos by (auto simp: m word_le_nat_alt)
    have "free_sectors rs = offered_sectors table first limit"
    proof (rule set_eqI)
      fix n
      show "n \<in> free_sectors rs \<longleftrightarrow> n \<in> offered_sectors table first limit"
      proof (cases "n < unat e")
        case True
        with D(2)[of n] show ?thesis
          by (auto simp: rs(2) offered_sectors_def allocated_sectors_def dos m)
      next
        case False
        from D(3) obtain r where "r \<in> set (pt_partitions table)" "unat (pr_start_sector r) < unat e"
          by (auto simp: m)
        with False have "\<exists>r\<in>set (pt_partitions table). unat (pr_start_sector r) \<le> n"
          by (intro bexI[of _ r]) auto
        with False D(1) \<open>first \<le> e\<close> show ?thesis
          by (auto simp: rs(2) offered_sectors_def allocated_sectors_def m word_le_nat_alt)
      qed
    qed
    moreover have "pt_partitions table \<noteq> []" using M(5) Cons by simp
    ultimately have "ranges_ok table first limit rs"
      unfolding ranges_ok_def using rs(3,4) \<open>first \<le> e\<close> by (auto simp: word_le_nat_alt)
    with \<open>partition_free_ranges disk table = _\<close> show ?thesis by blast
  qed
qed

lemma partition_free_ranges_some:
  assumes "table_area disk table sector first limit"
  shows "\<exists>rs. partition_free_ranges disk table = Some \<lparr> pfs_ranges = rs, pfs_sector_size_bytes = sector \<rparr>
     \<and> ranges_ok table first limit rs"
  using assms usable_area_dos partition_free_ranges_dos partition_free_ranges_gpt
  by (meson table_area_def)

text \<open>C29: the free ranges of a partition table are told exactly when the table is usable, that is, has a
  sound sector size, a known label, a nonempty usable area and only nonempty records inside it; and
  then they are exact: in order, disjoint and nonempty, they hold every usable sector that no
  record covers, and no other, except that a DOS table offers nothing before its first partition.
  The last one alone, if it reaches the end of the area of a table with partitions, is its tail.\<close>

theorem free_ranges_exact:
  "case partition_free_ranges disk table of
     None \<Rightarrow> \<not> (\<exists>sector first limit. table_area disk table sector first limit)
   | Some fs \<Rightarrow>
       (\<exists>first limit. table_area disk table (pfs_sector_size_bytes fs) first limit
          \<and> free_sectors (pfs_ranges fs) = offered_sectors table first limit
          \<and> ordered_ranges (pfs_ranges fs)
          \<and> {r \<in> set (pfs_ranges fs). pfr_is_tail r}
              = {r \<in> set (pfs_ranges fs). pt_partitions table \<noteq> [] \<and> range_end r = unat limit})"
proof (cases "partition_free_ranges disk table")
  case None
  then show ?thesis using partition_free_ranges_some[of disk table] by auto
next
  case (Some fs)
  from partition_free_ranges_area[OF Some] obtain sector first limit where
    a: "table_area disk table sector first limit" by blast
  from partition_free_ranges_some[OF a] Some have "pfs_sector_size_bytes fs = sector"
    "ranges_ok table first limit (pfs_ranges fs)" by auto
  with a Some show ?thesis by (auto simp: ranges_ok_def)
qed

text \<open>A DOS table on a 4 TiB disk whose only partition takes the first 2 TiB.\<close>

definition ex_dos_disk :: block_device where
  "ex_dos_disk = BlockDevice ''sdc'' None (Some ''/dev/sdc'') NkDisk 4398046511104 None (Some 512) None []
     None None None None None (Some ''dos'') []"

definition ex_dos_table :: partition_table where
  "ex_dos_table = \<lparr> pt_device = ''/dev/sdc'', pt_label = Some ''dos'', pt_id = None, pt_unit = None,
     pt_first_lba = None, pt_last_lba = None, pt_sector_size_bytes = Some 512,
     pt_partitions = [\<lparr> pr_node = ''/dev/sdc1'', pr_start_sector = 2048, pr_size_sectors = 4294965248,
       pr_partition_type = None, pr_uuid = None, pr_name = None, pr_attrs = None, pr_bootable = None \<rparr>] \<rparr>"

text \<open>C32: on a DOS table the free ranges are not limited to the 32-bit sector numbers of its entries:
  on a 4 TiB disk whose first 2 TiB are taken, the whole tail that is offered starts at sector
  \<open>2 ^ 32\<close>, where no DOS partition can begin.\<close>

theorem dos_free_space_beyond_limit:
  "\<exists>r. partition_free_ranges ex_dos_disk ex_dos_table =
        Some \<lparr> pfs_ranges = [r], pfs_sector_size_bytes = 512 \<rparr>
     \<and> unat (pfr_start_sector r) = 2 ^ 32 \<and> unat (pfr_sector_count r) = 2 ^ 32 \<and> pfr_is_tail r"
proof -
  have "is_power_of_two (512::u64)"
    unfolding is_power_of_two_def list_ex_iff by (rule bexI[of _ 9]) simp_all
  then show ?thesis
    by (simp add: partition_free_ranges_def ex_dos_disk_def ex_dos_table_def usable_area_def
      checked_add_def checked_sub_def merge_intervals_def merge_interval_def free_ranges_between_def max_def min_def)
      (simp add: word_le_nat_alt)
qed

end
