(* ===== verification/CreatePlan.thy ===== *)
theory CreatePlan
  imports FreeSpace "HOL-Library.Char_ord" "HOL-Library.List_Lexorder" "HOL-Library.Product_Lexorder"
begin

text \<open>
  The create planner of \<open>crates/planner/src/lib.rs\<close>: the free-space opportunities of a snapshot,
  the geometry of a blank disk, the adapter that checks a selected source against the snapshot
  again, and \<open>plan_create\<close> with every early return. The SHA-256 digest of an identifier and the
  fingerprint of a plan (SHA-256 of its JSON) are parameters.
\<close>

section \<open>Data\<close>

datatype provisioning_space_kind =
  PskBlankDisk | PskDiskGap | PskDiskTail | PskLvmFreeExtents | PskBlockedDisk

record provisioning_opportunity =
  po_id :: string
  po_code :: string
  po_kind :: provisioning_space_kind
  po_source :: string
  po_disk :: "string option"
  po_volume_group :: "string option"
  po_available_bytes :: u64
  po_sector_size_bytes :: "u64 option"
  po_start_sector :: "u64 option"
  po_sector_count :: "u64 option"
  po_advisory_only :: bool
  po_future_actions :: "string list"
  po_blockers :: "string list"

datatype create_purpose = CpFilesystem | CpSwap

datatype create_partition_table_policy = CptGpt | CptDos

record create_request =
  crq_source_id :: string
  crq_size :: growth
  crq_purpose :: create_purpose
  crq_filesystem :: "string option"
  crq_mountpoint :: "string option"
  crq_partition_table :: "create_partition_table_policy option"

record create_allocation =
  cal_requested_bytes :: u64
  cal_rounded_bytes :: u64
  cal_available_bytes :: u64
  cal_remaining_bytes :: u64
  cal_allocation_unit_bytes :: u64
  cal_start_sector :: "u64 option"
  cal_sector_count :: "u64 option"
  cal_volume_group :: "string option"
  cal_partition_table :: "create_partition_table_policy option"

record create_source_adapter =
  csa_source_id :: string
  csa_kind :: provisioning_space_kind
  csa_disk :: "string option"
  csa_volume_group :: "string option"
  csa_allocation_unit_bytes :: u64
  csa_available_bytes :: u64
  csa_start_sector :: "u64 option"
  csa_sector_count :: "u64 option"
  csa_partition_table :: "create_partition_table_policy option"

record create_plan_preview =
  cpp_schema_version :: u32
  cpp_plan_id :: string
  cpp_dry_run :: bool
  cpp_executable :: bool
  cpp_status :: plan_status
  cpp_request :: create_request
  cpp_source :: "provisioning_opportunity option"
  cpp_allocation :: "create_allocation option"
  cpp_blockers :: "plan_blocker list"
  cpp_steps :: "string list"
  cpp_notices :: "string list"

definition CREATE_PARTITION_ALIGNMENT_BYTES :: u64 where
  "CREATE_PARTITION_ALIGNMENT_BYTES = 1024 * 1024"

definition GPT_PARTITION_ENTRY_COUNT :: u64 where
  "GPT_PARTITION_ENTRY_COUNT = 128"

definition GPT_PARTITION_ENTRY_SIZE_BYTES :: u64 where
  "GPT_PARTITION_ENTRY_SIZE_BYTES = 128"

record blank_disk_geometry =
  bdg_sector_size_bytes :: u64
  bdg_start_sector :: u64
  bdg_available_bytes :: u64

section \<open>Free-space opportunities\<close>

definition space_kind_debug :: "provisioning_space_kind \<Rightarrow> string" where
  "space_kind_debug k =
     (case k of PskBlankDisk \<Rightarrow> ''BlankDisk'' | PskDiskGap \<Rightarrow> ''DiskGap'' | PskDiskTail \<Rightarrow> ''DiskTail''
      | PskLvmFreeExtents \<Rightarrow> ''LvmFreeExtents'' | PskBlockedDisk \<Rightarrow> ''BlockedDisk'')"

definition or_dash :: "string option \<Rightarrow> string" where
  "or_dash x = (case x of None \<Rightarrow> ''-'' | Some s \<Rightarrow> s)"

definition provisioning_opportunity_id ::
  "(string \<Rightarrow> string) \<Rightarrow> provisioning_space_kind \<Rightarrow> string \<Rightarrow> string option \<Rightarrow> string option
     \<Rightarrow> u64 option \<Rightarrow> u64 option \<Rightarrow> string" where
  "provisioning_opportunity_id sha kind source disk volume_group start_sector sector_count =
     ''space-'' @ sha (space_kind_debug kind @ ''|'' @ source @ ''|'' @ or_dash disk @ ''|''
       @ or_dash volume_group @ ''|'' @ or_dash (map_option show_word start_sector) @ ''|''
       @ or_dash (map_option show_word sector_count))"

definition blocked_disk_opportunity ::
  "(string \<Rightarrow> string) \<Rightarrow> block_device \<Rightarrow> string \<Rightarrow> string \<Rightarrow> string \<Rightarrow> provisioning_opportunity" where
  "blocked_disk_opportunity sha disk disk_path code reason =
     \<lparr> po_id = provisioning_opportunity_id sha PskBlockedDisk disk_path (Some disk_path) None None None,
       po_code = code, po_kind = PskBlockedDisk, po_source = disk_path, po_disk = Some disk_path,
       po_volume_group = None, po_available_bytes = 0,
       po_sector_size_bytes = bd_logical_sector_bytes disk,
       po_start_sector = None, po_sector_count = None, po_advisory_only = True,
       po_future_actions =
         [''inspect and reconcile the partition table with recovery-capable tooling'',
          ''rediscover storage and require authoritative geometry before provisioning''],
       po_blockers = [reason] \<rparr>"

definition executor_missing :: string where
  "executor_missing = ''storage-mutating Create executor is not implemented in M1A''"

definition volume_group_opportunity ::
  "(string \<Rightarrow> string) \<Rightarrow> lvm_volume_group \<Rightarrow> provisioning_opportunity" where
  "volume_group_opportunity sha vg =
     \<lparr> po_id = provisioning_opportunity_id sha PskLvmFreeExtents (''VG '' @ vg_name vg) None
         (Some (vg_name vg)) None None,
       po_code = ''lvm-vg-free'', po_kind = PskLvmFreeExtents, po_source = ''VG '' @ vg_name vg,
       po_disk = None, po_volume_group = Some (vg_name vg), po_available_bytes = vg_free_bytes vg,
       po_sector_size_bytes = None, po_start_sector = None, po_sector_count = None,
       po_advisory_only = True,
       po_future_actions =
         [''create a new logical volume'', ''format it with a supported filesystem'',
          ''mount it and optionally persist the mount''],
       po_blockers = [executor_missing] \<rparr>"

definition blank_disk_opportunity ::
  "(string \<Rightarrow> string) \<Rightarrow> bool \<Rightarrow> block_device \<Rightarrow> string \<Rightarrow> provisioning_opportunity" where
  "blank_disk_opportunity sha partition_tables_complete disk disk_path =
     \<lparr> po_id = provisioning_opportunity_id sha PskBlankDisk disk_path (Some disk_path) None None None,
       po_code = ''blank-disk'', po_kind = PskBlankDisk, po_source = disk_path,
       po_disk = Some disk_path, po_volume_group = None, po_available_bytes = bd_size_bytes disk,
       po_sector_size_bytes = bd_logical_sector_bytes disk,
       po_start_sector = None, po_sector_count = None, po_advisory_only = True,
       po_future_actions =
         [''choose GPT or DOS/MBR according to host and boot constraints'',
          ''create a partition with validated alignment'',
          ''optionally build LVM, then format and mount''],
       po_blockers = executor_missing
         # (if partition_tables_complete then []
            else [''authoritative partition-table discovery must complete before creation'']) \<rparr>"

definition range_opportunity ::
  "(string \<Rightarrow> string) \<Rightarrow> partition_table \<Rightarrow> string \<Rightarrow> u64 \<Rightarrow> partition_free_range
     \<Rightarrow> provisioning_opportunity option" where
  "range_opportunity sha table disk_path sector_size r =
     (if pfr_sector_count r = 0 then None
      else do {
        available_bytes \<leftarrow> checked_mul (pfr_sector_count r) sector_size;
        end_sector \<leftarrow> checked_add (pfr_start_sector r) (pfr_sector_count r);
        let kind = (if pfr_is_tail r then PskDiskTail else PskDiskGap);
        let last_sector = (if end_sector = 0 then 0 else end_sector - 1);
        let source = (if pfr_is_tail r then disk_path @ '' tail''
                      else disk_path @ '' free sectors '' @ show_word (pfr_start_sector r)
                           @ ''..'' @ show_word last_sector);
        Some \<lparr> po_id = provisioning_opportunity_id sha kind source (Some disk_path) None
                 (Some (pfr_start_sector r)) (Some (pfr_sector_count r)),
               po_code = (if pfr_is_tail r then ''disk-tail'' else ''disk-gap''),
               po_kind = kind, po_source = source, po_disk = Some disk_path,
               po_volume_group = None, po_available_bytes = available_bytes,
               po_sector_size_bytes = Some sector_size,
               po_start_sector = Some (pfr_start_sector r),
               po_sector_count = Some (pfr_sector_count r), po_advisory_only = True,
               po_future_actions =
                 [''create a new partition inside this verified free range'',
                  ''optionally initialize it as an LVM PV and attach/create a VG'',
                  ''create a filesystem, mount it and optionally persist the mount''],
               po_blockers = executor_missing
                 # ''partition alignment, partition-number allocation and boot constraints must be revalidated before creation''
                 # (if pt_label table = Some ''dos''
                    then [''DOS/MBR primary-slot and extended/logical constraints must be revalidated before partition creation'']
                    else []) \<rparr>
      })"

definition disk_opportunities ::
  "(string \<Rightarrow> string) \<Rightarrow> host_snapshot \<Rightarrow> bool \<Rightarrow> block_device \<Rightarrow> provisioning_opportunity list" where
  "disk_opportunities sha snapshot partition_tables_complete disk =
     (case bd_path disk of
        None \<Rightarrow> []
      | Some disk_path \<Rightarrow>
          (let matching_tables = filter (\<lambda>t. pt_device t = disk_path) (hs_partition_tables snapshot)
           in if matching_tables = [] \<and> bd_children disk = [] \<and> bd_filesystem disk = None
                 \<and> bd_partition_table disk = None
              then [blank_disk_opportunity sha partition_tables_complete disk disk_path]
              else if \<not> partition_tables_complete then
                (if matching_tables \<noteq> []
                 then [blocked_disk_opportunity sha disk disk_path ''partition-table-discovery-incomplete''
                   ''authoritative partition-table discovery is incomplete; provisioning geometry is not trusted'']
                 else [])
              else case matching_tables of
                [] \<Rightarrow> []
              | [table] \<Rightarrow>
                  (case partition_free_ranges disk table of
                     None \<Rightarrow> [blocked_disk_opportunity sha disk disk_path ''partition-table-geometry-unusable''
                       ''partition-table label or geometry is unsupported, incomplete or internally inconsistent; recovery/reconciliation is required before provisioning'']
                   | Some free_space \<Rightarrow>
                       List.map_filter (range_opportunity sha table disk_path (pfs_sector_size_bytes free_space))
                         (pfs_ranges free_space))
              | _ \<Rightarrow> [blocked_disk_opportunity sha disk disk_path ''partition-table-evidence-ambiguous''
                  ''multiple authoritative partition-table records refer to the same disk'']))"

definition partition_tables_complete :: "host_snapshot \<Rightarrow> bool" where
  "partition_tables_complete snapshot =
     (case filter (\<lambda>status. cs_component status = ''partition_tables'') (hs_collectors snapshot) of
        [status] \<Rightarrow> cs_state status = CsComplete
      | _ \<Rightarrow> False)"

definition list_provisioning_opportunities ::
  "(string \<Rightarrow> string) \<Rightarrow> host_snapshot \<Rightarrow> provisioning_opportunity list" where
  "list_provisioning_opportunities sha snapshot =
     (let groups = (case hs_lvm snapshot of None \<Rightarrow> []
            | Some lvm \<Rightarrow> map (volume_group_opportunity sha)
                (filter (\<lambda>vg. vg_free_bytes vg \<noteq> 0) (li_volume_groups lvm)));
          disks = filter disk_or_loop (map ref_node (flatten (sg_block_devices (hs_storage snapshot))))
      in sort_key (\<lambda>p. (po_source p, po_code p))
           (groups @ concat (map (disk_opportunities sha snapshot (partition_tables_complete snapshot)) disks)))"

section \<open>The geometry of a blank disk\<close>

text \<open>The first usable sector and the exclusive end of a new table on a disk of the given sectors.\<close>

definition new_table_area ::
  "create_partition_table_policy \<Rightarrow> u64 \<Rightarrow> u64 \<Rightarrow> (plan_blocker, u64 \<times> u64) result" where
  "new_table_area policy sector disk_sectors =
     (case policy of
        CptGpt \<Rightarrow>
          and_then (ok_or (checked_mul GPT_PARTITION_ENTRY_COUNT GPT_PARTITION_ENTRY_SIZE_BYTES)
            (blocked ''size-overflow'' ''GPT entry-table size exceeds u64'')) (\<lambda>entry_bytes.
          and_then (ok_or (ceil_div entry_bytes sector)
            (blocked ''create-gpt-geometry-invalid'' ''could not derive GPT entry-table sectors'')) (\<lambda>entry_sectors.
          and_then (ok_or (checked_add 2 entry_sectors)
            (blocked ''size-overflow'' ''GPT first usable sector exceeds u64'')) (\<lambda>first.
          and_then (ok_or (checked_add entry_sectors 1)
            (blocked ''size-overflow'' ''GPT trailing metadata exceeds u64'')) (\<lambda>trailing.
          and_then (ok_or (checked_sub disk_sectors trailing)
            (blocked ''blank-disk-too-small'' ''disk is too small for GPT primary/backup metadata'')) (\<lambda>end.
          Inr (first, end))))))
      | CptDos \<Rightarrow> Inr (1, min disk_sectors (2 ^ 32)))"

definition blank_disk_state_ok :: "block_device \<Rightarrow> bool" where
  "blank_disk_state_ok disk =
     (disk_or_loop disk \<and> bd_children disk = [] \<and> bd_filesystem disk = None
      \<and> bd_partition_table disk = None \<and> bd_mountpoints disk = [])"

definition blank_disk_sizes_ok :: "provisioning_opportunity \<Rightarrow> block_device \<Rightarrow> u64 \<Rightarrow> bool" where
  "blank_disk_sizes_ok source disk sector =
     (512 \<le> sector \<and> is_power_of_two sector \<and> bd_size_bytes disk > 0
      \<and> bd_size_bytes disk mod sector = 0 \<and> po_sector_size_bytes source = Some sector
      \<and> po_available_bytes source = bd_size_bytes disk)"

definition blank_disk_geometry_of ::
  "create_partition_table_policy \<Rightarrow> u64 \<Rightarrow> u64 \<Rightarrow> (plan_blocker, blank_disk_geometry) result" where
  "blank_disk_geometry_of policy sector disk_bytes =
     (let disk_sectors = disk_bytes div sector in
      and_then (ok_or (ceil_div CREATE_PARTITION_ALIGNMENT_BYTES sector)
        (blocked ''create-alignment-invalid'' ''could not derive partition alignment'')) (\<lambda>alignment.
      let alignment_sectors = max alignment 1 in
      and_then (new_table_area policy sector disk_sectors) (\<lambda>(raw_first_usable, usable_end_exclusive).
      and_then (ok_or (align_up raw_first_usable alignment_sectors)
        (blocked ''size-overflow'' ''aligned partition start exceeds u64'')) (\<lambda>start.
      and_then (ensure (start < usable_end_exclusive) ''blank-disk-too-small''
        ''disk has no usable 1 MiB-aligned partition range after table metadata'') (\<lambda>_.
      and_then (ok_or (checked_sub usable_end_exclusive start)
        (blocked ''size-overflow'' ''blank-disk usable sector range underflowed'')) (\<lambda>available_sector_count.
      and_then (ok_or (checked_mul available_sector_count sector)
        (blocked ''size-overflow'' ''blank-disk usable capacity exceeds u64'')) (\<lambda>available_bytes.
      and_then (ensure (available_bytes > 0) ''blank-disk-too-small''
        ''blank disk has no usable capacity after metadata and alignment'') (\<lambda>_.
      Inr \<lparr> bdg_sector_size_bytes = sector, bdg_start_sector = start,
            bdg_available_bytes = available_bytes \<rparr>))))))))"

definition blank_disk_geometry ::
  "host_snapshot \<Rightarrow> provisioning_opportunity \<Rightarrow> create_partition_table_policy
     \<Rightarrow> (plan_blocker, blank_disk_geometry) result" where
  "blank_disk_geometry snapshot source policy =
     and_then (unique (filter (\<lambda>status. cs_component status = ''partition_tables'') (hs_collectors snapshot))
       ''collector-incomplete'') (\<lambda>collector.
     and_then (ensure (cs_state collector = CsComplete) ''collector-incomplete''
       ''authoritative partition-table discovery must complete before blank-disk planning'') (\<lambda>_.
     and_then (ok_or (po_disk source)
       (blocked ''blank-disk-identity-missing'' ''blank-disk source has no device path'')) (\<lambda>disk_path.
     and_then (unique (filter (\<lambda>d. bd_path d = Some disk_path)
         (map ref_node (flatten (sg_block_devices (hs_storage snapshot))))) ''blank-disk-not-resolved'') (\<lambda>disk.
     and_then (ensure (blank_disk_state_ok disk) ''blank-disk-state-changed''
       ''selected source is no longer a plain unpartitioned, unmounted disk/loop device'') (\<lambda>_.
     and_then (ensure (list_all (\<lambda>t. pt_device t \<noteq> disk_path) (hs_partition_tables snapshot))
       ''blank-disk-table-present''
       ''authoritative discovery now reports a partition table on the selected blank disk'') (\<lambda>_.
     and_then (ensure (\<not> list_ex (\<lambda>swap. node_alias disk (se_name swap)) (hs_swaps snapshot))
       ''blank-disk-active-swap'' ''selected blank disk is reported as active swap'') (\<lambda>_.
     and_then (ensure (\<not> list_ex (\<lambda>d. sd_severity d = DsError
         \<and> (case sd_device d of None \<Rightarrow> True
            | Some device \<Rightarrow> device = disk_path \<or> node_alias disk device)) (hs_diagnostics snapshot))
       ''diagnostic-error'' ''an error-level diagnostic affects the selected blank disk'') (\<lambda>_.
     and_then (ok_or (bd_logical_sector_bytes disk)
       (blocked ''create-sector-size-missing'' ''blank-disk logical sector size is unknown'')) (\<lambda>sector.
     and_then (ensure (blank_disk_sizes_ok source disk sector) ''blank-disk-geometry-mismatch''
       ''blank-disk source and current block-device geometry do not agree'') (\<lambda>_.
     blank_disk_geometry_of policy sector (bd_size_bytes disk)))))))))))"

section \<open>Checking a selected source again\<close>

definition volume_group_adapter ::
  "host_snapshot \<Rightarrow> provisioning_opportunity \<Rightarrow> (plan_blocker, create_source_adapter) result" where
  "volume_group_adapter snapshot source =
     and_then (ok_or (po_volume_group source) (blocked ''create-vg-missing''
       ''the selected VG free-space source has no volume-group identity'')) (\<lambda>vgn.
     and_then (ok_or (hs_lvm snapshot) (blocked ''create-lvm-missing''
       ''LVM inventory is unavailable for the selected source'')) (\<lambda>lvm.
     and_then (only (filter (\<lambda>vg. vg_name vg = vgn) (li_volume_groups lvm))
       (blocked ''create-vg-not-found'' ''the selected volume group no longer exists'')
       (blocked ''create-vg-ambiguous'' ''the selected volume-group identity is ambiguous'')) (\<lambda>vg.
     and_then (ok_or (vg_extent_size_bytes vg)
            (blocked ''create-extent-missing'' ''VG extent size is unavailable'')) (\<lambda>extent.
     and_then (ensure (512 \<le> extent \<and> is_power_of_two extent
              \<and> vg_free_bytes vg = po_available_bytes source) ''create-capacity-mismatch''
            ''VG free-space identity or extent geometry changed'') (\<lambda>_.
     Inr \<lparr> csa_source_id = po_id source, csa_kind = po_kind source, csa_disk = None,
                csa_volume_group = Some (vg_name vg), csa_allocation_unit_bytes = extent,
                csa_available_bytes = vg_free_bytes vg, csa_start_sector = None,
                csa_sector_count = None, csa_partition_table = None \<rparr>)))))"

definition disk_range_adapter ::
  "host_snapshot \<Rightarrow> provisioning_opportunity \<Rightarrow> (plan_blocker, create_source_adapter) result" where
  "disk_range_adapter snapshot source =
     and_then (ok_or (po_disk source) (blocked ''create-disk-missing''
       ''selected partition-table free space has no disk identity'')) (\<lambda>disk_path.
     and_then (ok_or (po_sector_size_bytes source) (blocked ''create-sector-size-missing''
       ''selected partition-table free space has no sector size'')) (\<lambda>sector.
     and_then (ok_or (po_start_sector source) (blocked ''create-geometry-invalid''
       ''selected partition-table free-space geometry is incomplete'')) (\<lambda>start_sector.
     and_then (ok_or (po_sector_count source) (blocked ''create-geometry-invalid''
       ''selected partition-table free-space geometry is incomplete'')) (\<lambda>sector_count.
     and_then (ensure (512 \<le> sector \<and> is_power_of_two sector \<and> sector_count > 0)
       ''create-geometry-invalid'' ''selected partition-table free-space geometry is incomplete'') (\<lambda>_.
     and_then (only (filter (\<lambda>d. disk_or_loop d \<and> bd_path d = Some disk_path)
         (map ref_node (flatten (sg_block_devices (hs_storage snapshot)))))
       (blocked ''create-disk-not-found'' ''selected free-space disk no longer exists'')
       (blocked ''create-disk-ambiguous'' ''selected free-space disk identity is ambiguous'')) (\<lambda>disk.
     and_then (only (filter (\<lambda>t. pt_device t = disk_path) (hs_partition_tables snapshot))
       (blocked ''create-partition-table-not-found'' ''selected disk partition table no longer exists'')
       (blocked ''create-partition-table-ambiguous'' ''selected disk partition-table identity is ambiguous'')) (\<lambda>table.
     and_then (ok_or (partition_free_ranges disk table) (blocked ''create-geometry-changed''
       ''selected partition-table free-space geometry can no longer be proven'')) (\<lambda>free_space.
     and_then (ensure (pfs_sector_size_bytes free_space = sector) ''create-capacity-mismatch''
       ''partition-table sector size changed for the selected source'') (\<lambda>_.
     and_then (ensure (list_ex (\<lambda>r. pfr_start_sector r = start_sector \<and> pfr_sector_count r = sector_count
         \<and> pfr_is_tail r = (po_kind source = PskDiskTail)) (pfs_ranges free_space))
       ''create-geometry-changed'' ''selected partition-table free range changed since discovery'') (\<lambda>_.
     and_then (ok_or (checked_mul sector_count sector)
       (blocked ''size-overflow'' ''free-space capacity exceeds u64'')) (\<lambda>available_bytes.
     and_then (ensure (available_bytes = po_available_bytes source) ''create-capacity-mismatch''
       ''selected partition-table free-space capacity changed'') (\<lambda>_.
     Inr \<lparr> csa_source_id = po_id source, csa_kind = po_kind source, csa_disk = Some disk_path,
           csa_volume_group = None, csa_allocation_unit_bytes = sector,
           csa_available_bytes = available_bytes, csa_start_sector = Some start_sector,
           csa_sector_count = Some sector_count, csa_partition_table = None \<rparr>))))))))))))"

definition blank_disk_adapter ::
  "host_snapshot \<Rightarrow> provisioning_opportunity \<Rightarrow> create_partition_table_policy option
     \<Rightarrow> (plan_blocker, create_source_adapter) result" where
  "blank_disk_adapter snapshot source partition_table =
     and_then (ok_or partition_table (blocked ''blank-disk-policy-required''
       ''blank-disk creation requires an explicit GPT or DOS/MBR partition-table policy'')) (\<lambda>policy.
     and_then (blank_disk_geometry snapshot source policy) (\<lambda>geometry.
     and_then (ok_or (po_disk source) (blocked ''blank-disk-identity-missing''
       ''blank-disk source has no device path'')) (\<lambda>disk.
     Inr \<lparr> csa_source_id = po_id source, csa_kind = po_kind source, csa_disk = Some disk,
           csa_volume_group = None, csa_allocation_unit_bytes = bdg_sector_size_bytes geometry,
           csa_available_bytes = bdg_available_bytes geometry,
           csa_start_sector = Some (bdg_start_sector geometry),
           csa_sector_count = Some (bdg_available_bytes geometry div bdg_sector_size_bytes geometry),
           csa_partition_table = Some policy \<rparr>)))"

definition resolve_create_source_adapter ::
  "host_snapshot \<Rightarrow> provisioning_opportunity \<Rightarrow> create_partition_table_policy option
     \<Rightarrow> (plan_blocker, create_source_adapter) result" where
  "resolve_create_source_adapter snapshot source partition_table =
     (if po_kind source \<noteq> PskBlankDisk \<and> partition_table \<noteq> None
      then Inl (blocked ''create-partition-table-unexpected''
        ''partition-table policy is valid only when the selected Create source is a blank disk'')
      else case po_kind source of
        PskBlockedDisk \<Rightarrow> Inl (blocked ''create-source-unusable''
          (case po_blockers source of b # _ \<Rightarrow> b
           | [] \<Rightarrow> ''selected disk is blocked from provisioning until partition-table evidence is repaired''))
      | PskLvmFreeExtents \<Rightarrow> volume_group_adapter snapshot source
      | PskDiskGap \<Rightarrow> disk_range_adapter snapshot source
      | PskDiskTail \<Rightarrow> disk_range_adapter snapshot source
      | PskBlankDisk \<Rightarrow> blank_disk_adapter snapshot source partition_table)"

section \<open>Planning a create\<close>

definition select_sources :: "string \<Rightarrow> provisioning_opportunity list \<Rightarrow> provisioning_opportunity list" where
  "select_sources selector opportunities =
     filter (\<lambda>p. po_id p = selector
        \<or> (16 \<le> length selector \<and> starts_with selector (po_id p))) opportunities"

definition mountpoint_usable :: "host_snapshot \<Rightarrow> string \<Rightarrow> bool" where
  "mountpoint_usable snapshot mountpoint =
     (starts_with ''/'' mountpoint \<and> \<not> has_control mountpoint
      \<and> \<not> list_ex (\<lambda>m. me_target m = mountpoint) (hs_mounts snapshot)
      \<and> \<not> list_ex (\<lambda>e. fe_target e = mountpoint) (hs_fstab snapshot))"

text \<open>What the request asks the new volume to hold.\<close>

definition create_purpose_check :: "host_snapshot \<Rightarrow> create_request \<Rightarrow> (plan_blocker, unit) result" where
  "create_purpose_check snapshot request =
     (case crq_purpose request of
        CpFilesystem \<Rightarrow>
          and_then (ok_or (crq_filesystem request) (blocked ''create-filesystem-required''
            ''filesystem purpose requires an explicit filesystem type'')) (\<lambda>t.
          and_then (ensure (t = ''ext4'' \<or> t = ''xfs'') ''create-filesystem-unsupported''
            ''M1A Create preview supports ext4 or XFS filesystem intent'') (\<lambda>_.
          (case crq_mountpoint request of
             None \<Rightarrow> Inr ()
           | Some mountpoint \<Rightarrow> ensure (mountpoint_usable snapshot mountpoint) ''create-mountpoint-invalid''
               ''mountpoint must be an unused absolute path without control characters'')))
      | CpSwap \<Rightarrow>
          ensure (crq_filesystem request = None \<and> crq_mountpoint request = None)
            ''create-swap-options-invalid''
            ''swap creation does not accept filesystem or mountpoint options'')"

text \<open>The requested size and the size rounded up to allocation units.\<close>

definition create_sizes :: "growth \<Rightarrow> u64 \<Rightarrow> u64 \<Rightarrow> (plan_blocker, u64 \<times> u64) result" where
  "create_sizes amount available_bytes allocation_unit_bytes =
     (let requested_bytes = (case amount of ByBytes bytes \<Rightarrow> bytes | MaxFree \<Rightarrow> available_bytes) in
      and_then (ensure (requested_bytes \<noteq> 0) ''create-size-zero''
        ''requested creation size must be greater than zero'') (\<lambda>_.
      let units = requested_bytes div allocation_unit_bytes
            + (if requested_bytes mod allocation_unit_bytes \<noteq> 0 then 1 else 0) in
      and_then (ok_or (checked_mul units allocation_unit_bytes)
        (blocked ''size-overflow'' ''requested creation size exceeds the supported range'')) (\<lambda>rounded_bytes.
      and_then (ensure (\<not> available_bytes < rounded_bytes) ''create-insufficient-capacity''
        ''allocation-unit-rounded request exceeds the selected free-space source'') (\<lambda>_.
      Inr (requested_bytes, rounded_bytes)))))"

definition on_disk_sectors :: "provisioning_space_kind \<Rightarrow> bool" where
  "on_disk_sectors kind = (kind = PskBlankDisk \<or> kind = PskDiskGap \<or> kind = PskDiskTail)"

definition policy_label :: "create_partition_table_policy \<Rightarrow> string" where
  "policy_label policy = (case policy of CptGpt \<Rightarrow> ''GPT'' | CptDos \<Rightarrow> ''DOS/MBR'')"

definition or_zero :: "u64 option \<Rightarrow> u64" where
  "or_zero x = (case x of None \<Rightarrow> 0 | Some v \<Rightarrow> v)"

definition create_source_steps ::
  "create_source_adapter \<Rightarrow> u64 option \<Rightarrow> u64 \<Rightarrow> (plan_blocker, string list) result" where
  "create_source_steps adapter sectors rounded_bytes =
     (case csa_kind adapter of
        PskBlockedDisk \<Rightarrow> Inl (blocked ''create-source-unusable'' ''blocked disk cannot enter a Create route'')
      | PskLvmFreeExtents \<Rightarrow> Inr
          [''create and verify LVM metadata backup'',
           ''create a new logical volume in '' @ or_dash (csa_volume_group adapter) @ '' with ''
             @ show_word rounded_bytes @ '' bytes of extent-aligned capacity'']
      | PskBlankDisk \<Rightarrow>
          and_then (ok_or (csa_partition_table adapter) (blocked ''blank-disk-policy-required''
            ''blank-disk partition-table policy disappeared before route construction'')) (\<lambda>policy. Inr
          [''verify '' @ or_dash (csa_disk adapter)
             @ '' is still blank and record its pre-mutation identity baseline'',
           ''initialize a '' @ policy_label policy
             @ '' partition table with 1 MiB-aligned usable geometry'',
           ''create one primary partition at sector '' @ show_word (or_zero (csa_start_sector adapter))
             @ '' using '' @ show_word (or_zero sectors) @ '' sectors (''
             @ show_word rounded_bytes @ '' bytes)''])
      | _ \<Rightarrow> Inr
          [''create and verify partition-table metadata backup'',
           ''create a new partition at sector '' @ show_word (or_zero (csa_start_sector adapter))
             @ '' using '' @ show_word (or_zero sectors) @ '' sectors (''
             @ show_word rounded_bytes @ '' bytes)''])"

definition create_purpose_steps :: "create_request \<Rightarrow> string list" where
  "create_purpose_steps request =
     (case crq_purpose request of
        CpFilesystem \<Rightarrow>
          (''format the new block volume as '' @ or_dash (crq_filesystem request))
          # (case crq_mountpoint request of
               None \<Rightarrow> []
             | Some mountpoint \<Rightarrow> [''mount the new filesystem at '' @ mountpoint
                 @ '' and prepare a guarded persistent mount entry''])
      | CpSwap \<Rightarrow>
          [''initialize the new block volume as Linux swap'',
           ''activate swap and prepare guarded persistent swap configuration''])"

definition new_create_plan :: "create_request \<Rightarrow> create_plan_preview" where
  "new_create_plan request =
     \<lparr> cpp_schema_version = 1, cpp_plan_id = [], cpp_dry_run = True, cpp_executable = False,
       cpp_status = PsBlocked, cpp_request = request, cpp_source = None, cpp_allocation = None,
       cpp_blockers = [], cpp_steps = [],
       cpp_notices =
         [''M1A Create plans are advisory only. No partition, LVM, filesystem, mount or swap command is executed.'',
          ''A future executor must revalidate source geometry/capacity and choose collision-free identifiers immediately before mutation.''] \<rparr>"

text \<open>\<open>plan.plan_id = fingerprint(&plan)?; return Ok(plan)\<close>, alone and after a pushed blocker.\<close>

definition sealed ::
  "(create_plan_preview \<Rightarrow> (planner_error, string) result) \<Rightarrow> create_plan_preview
     \<Rightarrow> (planner_error, create_plan_preview) result" where
  "sealed fp plan = and_then (fp plan) (\<lambda>plan_id. Inr (plan\<lparr>cpp_plan_id := plan_id\<rparr>))"

definition create_refused ::
  "(create_plan_preview \<Rightarrow> (planner_error, string) result) \<Rightarrow> create_plan_preview \<Rightarrow> plan_blocker
     \<Rightarrow> (planner_error, create_plan_preview) result" where
  "create_refused fp plan b = sealed fp (plan\<lparr>cpp_blockers := cpp_blockers plan @ [b]\<rparr>)"

definition plan_create_from ::
  "(create_plan_preview \<Rightarrow> (planner_error, string) result) \<Rightarrow> host_snapshot
     \<Rightarrow> provisioning_opportunity \<Rightarrow> create_plan_preview \<Rightarrow> (planner_error, create_plan_preview) result" where
  "plan_create_from fp snapshot source plan =
     (let request = cpp_request plan in
      case resolve_create_source_adapter snapshot source (crq_partition_table request) of
        Inl b \<Rightarrow> create_refused fp plan b
      | Inr adapter \<Rightarrow>
     (let unit = csa_allocation_unit_bytes adapter; available = csa_available_bytes adapter in
      case create_sizes (crq_size request) available unit of
        Inl b \<Rightarrow> create_refused fp plan b
      | Inr (requested, rounded) \<Rightarrow>
     (case create_purpose_check snapshot request of
        Inl b \<Rightarrow> create_refused fp plan b
      | Inr _ \<Rightarrow>
     (let sectors =
            (if on_disk_sectors (csa_kind adapter) then Some (rounded div unit) else None);
          allocation = \<lparr> cal_requested_bytes = requested, cal_rounded_bytes = rounded,
            cal_available_bytes = available, cal_remaining_bytes = available - rounded,
            cal_allocation_unit_bytes = unit, cal_start_sector = csa_start_sector adapter,
            cal_sector_count = sectors, cal_volume_group = csa_volume_group adapter,
            cal_partition_table = csa_partition_table adapter \<rparr>;
          first_step = ''revalidate the complete storage snapshot and exact selected free-space source''
      in case create_source_steps adapter sectors rounded of
           Inl b \<Rightarrow> create_refused fp
             (if csa_kind adapter = PskBlankDisk then plan\<lparr>cpp_steps := [first_step]\<rparr> else plan) b
         | Inr source_steps \<Rightarrow>
             sealed fp (plan\<lparr>
               cpp_allocation := Some allocation,
               cpp_steps := [first_step] @ source_steps @ create_purpose_steps request
                 @ [''rediscover and verify the complete resulting storage topology''],
               cpp_status := PsPreview \<rparr>)))))"

definition plan_create ::
  "(string \<Rightarrow> string) \<Rightarrow> (create_plan_preview \<Rightarrow> (planner_error, string) result)
     \<Rightarrow> host_snapshot \<Rightarrow> create_request \<Rightarrow> (planner_error, create_plan_preview) result" where
  "plan_create sha fp snapshot request =
     (let plan = new_create_plan request in
      case select_sources (crq_source_id request) (list_provisioning_opportunities sha snapshot) of
        [] \<Rightarrow> create_refused fp plan (blocked ''create-source-not-found''
          ''the selected free-space source is absent from the current snapshot'')
      | [source] \<Rightarrow> plan_create_from fp snapshot source (plan\<lparr>cpp_source := Some source\<rparr>)
      | _ \<Rightarrow> create_refused fp plan (blocked ''create-source-ambiguous''
          ''the selected free-space source is not unique''))"

section \<open>Sizes\<close>

lemma create_sizes_Inr:
  assumes "create_sizes amount available unit = Inr (requested, rounded)" "unit \<noteq> 0"
  shows "requested \<noteq> 0" "rounded \<le> available" "unat rounded = round_up (unat requested) (unat unit)"
    "requested = (case amount of ByBytes b \<Rightarrow> b | MaxFree \<Rightarrow> available)"
proof -
  from assms(1) have q: "requested \<noteq> 0" "rounded \<le> available"
    "requested = (case amount of ByBytes b \<Rightarrow> b | MaxFree \<Rightarrow> available)"
    and r: "checked_mul (requested div unit + (if requested mod unit \<noteq> 0 then 1 else 0)) unit = Some rounded"
    unfolding create_sizes_def by (auto simp: and_then_Inr Let_def not_less split: growth.splits split del: if_split)
  show "requested \<noteq> 0" "rounded \<le> available"
    "requested = (case amount of ByBytes b \<Rightarrow> b | MaxFree \<Rightarrow> available)" using q by auto
  have "ceil_div requested unit = Some (requested div unit + (if requested mod unit \<noteq> 0 then 1 else 0))"
    using assms(2) by (simp add: ceil_div_def)
  from ceil_div_unat(1)[OF this] checked_mul_Some[OF r]
  show "unat rounded = round_up (unat requested) (unat unit)" by (simp add: round_up_def)
qed

section \<open>What an adapter guarantees\<close>

definition adapter_unit_ok :: "create_source_adapter \<Rightarrow> bool" where
  "adapter_unit_ok a = (512 \<le> csa_allocation_unit_bytes a \<and> is_power_of_two (csa_allocation_unit_bytes a))"

definition from_volume_group :: "host_snapshot \<Rightarrow> provisioning_opportunity \<Rightarrow> create_source_adapter \<Rightarrow> bool" where
  "from_volume_group snapshot source a =
     (\<exists>lvm vg. hs_lvm snapshot = Some lvm \<and> vg \<in> set (li_volume_groups lvm)
       \<and> po_volume_group source = Some (vg_name vg) \<and> csa_volume_group a = Some (vg_name vg)
       \<and> vg_extent_size_bytes vg = Some (csa_allocation_unit_bytes a)
       \<and> csa_available_bytes a = vg_free_bytes vg)"

lemma volume_group_adapter_Inr:
  assumes "volume_group_adapter snapshot source = Inr a"
  shows "adapter_unit_ok a" "csa_kind a = po_kind source"
    "from_volume_group snapshot source a"
proof -
  from assms obtain vgn lvm vg extent where
    v: "po_volume_group source = Some vgn" "hs_lvm snapshot = Some lvm"
      "filter (\<lambda>vg. vg_name vg = vgn) (li_volume_groups lvm) = [vg]"
      "vg_extent_size_bytes vg = Some extent" "512 \<le> extent" "is_power_of_two extent"
      "a = \<lparr> csa_source_id = po_id source, csa_kind = po_kind source, csa_disk = None,
                csa_volume_group = Some (vg_name vg), csa_allocation_unit_bytes = extent,
                csa_available_bytes = vg_free_bytes vg, csa_start_sector = None,
                csa_sector_count = None, csa_partition_table = None \<rparr>"
    by (auto simp: volume_group_adapter_def and_then_Inr)
  from v(3) have "vg \<in> set (li_volume_groups lvm)" "vg_name vg = vgn"
    by (auto simp: filter_eq_Cons_iff)
  with v show "adapter_unit_ok a" "csa_kind a = po_kind source"
    "from_volume_group snapshot source a"
    by (auto simp: adapter_unit_ok_def from_volume_group_def)
qed

text \<open>The adapter stands for one free range of the one table of the selected disk.\<close>

definition from_free_range :: "host_snapshot \<Rightarrow> provisioning_opportunity \<Rightarrow> create_source_adapter \<Rightarrow> bool" where
  "from_free_range snapshot source a =
     (\<exists>disk_path disk table fs r. po_disk source = Some disk_path
       \<and> filter (\<lambda>t. pt_device t = disk_path) (hs_partition_tables snapshot) = [table]
       \<and> filter (\<lambda>d. disk_or_loop d \<and> bd_path d = Some disk_path)
           (map ref_node (flatten (sg_block_devices (hs_storage snapshot)))) = [disk]
       \<and> partition_free_ranges disk table = Some fs \<and> r \<in> set (pfs_ranges fs)
       \<and> csa_allocation_unit_bytes a = pfs_sector_size_bytes fs
       \<and> csa_start_sector a = Some (pfr_start_sector r)
       \<and> csa_sector_count a = Some (pfr_sector_count r)
       \<and> pfr_is_tail r = (po_kind source = PskDiskTail)
       \<and> unat (csa_available_bytes a) = unat (pfr_sector_count r) * unat (csa_allocation_unit_bytes a))"

lemma disk_range_adapter_Inr:
  assumes "disk_range_adapter snapshot source = Inr a"
  shows "adapter_unit_ok a" "csa_kind a = po_kind source" "from_free_range snapshot source a"
proof -
  from assms obtain disk_path sector start count disk table fs r available where
    v: "po_disk source = Some disk_path" "512 \<le> sector" "is_power_of_two sector"
      "filter (\<lambda>d. disk_or_loop d \<and> bd_path d = Some disk_path)
         (map ref_node (flatten (sg_block_devices (hs_storage snapshot)))) = [disk]"
      "filter (\<lambda>t. pt_device t = disk_path) (hs_partition_tables snapshot) = [table]"
      "partition_free_ranges disk table = Some fs" "pfs_sector_size_bytes fs = sector"
      "r \<in> set (pfs_ranges fs)" "pfr_start_sector r = start" "pfr_sector_count r = count"
      "pfr_is_tail r = (po_kind source = PskDiskTail)"
      "checked_mul count sector = Some available"
      "a = \<lparr> csa_source_id = po_id source, csa_kind = po_kind source, csa_disk = Some disk_path,
           csa_volume_group = None, csa_allocation_unit_bytes = sector,
           csa_available_bytes = available, csa_start_sector = Some start,
           csa_sector_count = Some count, csa_partition_table = None \<rparr>"
    by (auto simp: disk_range_adapter_def and_then_Inr list_ex_iff)
  then show "adapter_unit_ok a" "csa_kind a = po_kind source" by (simp_all add: adapter_unit_ok_def)
  from v checked_mul_Some[OF v(12)] show "from_free_range snapshot source a"
    unfolding from_free_range_def
    by (intro exI[of _ disk_path] exI[of _ disk] exI[of _ table] exI[of _ fs] exI[of _ r]) simp
qed

text \<open>The usable part of a blank disk: on a 1 MiB boundary and clear of the table's metadata.\<close>

definition gpt_entry_sectors :: "u64 \<Rightarrow> nat" where
  "gpt_entry_sectors sector = (16384 + unat sector - 1) div unat sector"

definition blank_area_ok ::
  "create_partition_table_policy \<Rightarrow> u64 \<Rightarrow> nat \<Rightarrow> nat \<Rightarrow> nat \<Rightarrow> bool" where
  "blank_area_ok policy sector disk_sectors start count =
     (2 ^ 20 dvd start * unat sector \<and> 0 < count
      \<and> (case policy of
           CptGpt \<Rightarrow> 2 + gpt_entry_sectors sector \<le> start
             \<and> start + count + gpt_entry_sectors sector + 1 \<le> disk_sectors
         | CptDos \<Rightarrow> 1 \<le> start \<and> start + count \<le> disk_sectors \<and> start + count \<le> 2 ^ 32))"

lemma aligned_start:
  assumes "is_power_of_two (sector::u64)" "ceil_div (2 ^ 20) sector = Some q" "unat (max q 1) dvd n"
  shows "2 ^ 20 dvd n * unat sector"
proof -
  from assms(1) obtain k where s: "unat sector = 2 ^ k" by (rule power_of_two_nat) blast
  have q: "unat q = (2 ^ 20 + 2 ^ k - 1) div 2 ^ k"
    using ceil_div_unat(1)[OF assms(2)] s by simp
  show ?thesis
  proof (cases "20 \<le> k")
    case True
    then have "(2 ^ 20 :: nat) dvd 2 ^ k" by (rule le_imp_power_dvd)
    then show ?thesis by (simp add: s)
  next
    case False
    then have split: "(2 ^ 20 :: nat) = 2 ^ (20 - k) * 2 ^ k" by (simp flip: power_add)
    have "(2 ^ (20 - k) * 2 ^ k + 2 ^ k - 1) div 2 ^ k = (2 ^ (20 - k) :: nat)"
      using nat_ceil[of "2 ^ k" "2 ^ (20 - k) * 2 ^ k"] by simp
    then have "unat q = 2 ^ (20 - k)" using q by (simp only: split)
    moreover have "unat (max q 1) = max (unat q) 1"
      by (simp add: max_def word_le_nat_alt)
    moreover have "(1::nat) \<le> 2 ^ (20 - k)" by simp
    ultimately have "unat (max q 1) = 2 ^ (20 - k)" by linarith
    then have "2 ^ (20 - k) dvd n" using assms(3) by simp
    then show ?thesis unfolding s split by (rule mult_dvd_mono) simp
  qed
qed

lemma gpt_area:
  assumes "new_table_area CptGpt sector disk_sectors = Inr (first, end')"
  shows "unat first = 2 + gpt_entry_sectors sector"
    "unat end' + gpt_entry_sectors sector + 1 = unat disk_sectors"
proof -
  have m: "checked_mul GPT_PARTITION_ENTRY_COUNT GPT_PARTITION_ENTRY_SIZE_BYTES = Some 16384"
    by (simp add: GPT_PARTITION_ENTRY_COUNT_def GPT_PARTITION_ENTRY_SIZE_BYTES_def checked_mul_def)
  from assms obtain e t where e: "ceil_div 16384 sector = Some e" and f: "checked_add 2 e = Some first"
    and t: "checked_add e 1 = Some t" and d: "checked_sub disk_sectors t = Some end'"
    by (auto simp: new_table_area_def m and_then_Inr)
  have "unat e = gpt_entry_sectors sector"
    using ceil_div_unat(1)[OF e] by (simp add: gpt_entry_sectors_def)
  then show "unat first = 2 + gpt_entry_sectors sector"
    "unat end' + gpt_entry_sectors sector + 1 = unat disk_sectors"
    using checked_add_Some[OF f] checked_add_Some[OF t] checked_sub_Some[OF d] by simp_all
qed

lemma dos_area:
  assumes "new_table_area CptDos sector disk_sectors = Inr (first, end')"
  shows "first = 1" "end' \<le> disk_sectors" "unat end' \<le> 2 ^ 32"
proof -
  from assms have "first = 1" "end' = min disk_sectors (2 ^ 32)" by (simp_all add: new_table_area_def)
  then show "first = 1" "end' \<le> disk_sectors" "unat end' \<le> 2 ^ 32"
    by (simp_all add: min_def word_le_nat_alt)
qed

lemma blank_disk_geometry_of_Inr:
  assumes "blank_disk_geometry_of policy sector bytes = Inr g" "is_power_of_two sector"
  shows "bdg_sector_size_bytes g = sector"
    "\<exists>count. unat (bdg_available_bytes g) = count * unat sector
       \<and> blank_area_ok policy sector (unat (bytes div sector)) (unat (bdg_start_sector g)) count"
proof -
  from assms(1) obtain q first end' start count available where
    v: "ceil_div CREATE_PARTITION_ALIGNMENT_BYTES sector = Some q"
      "new_table_area policy sector (bytes div sector) = Inr (first, end')"
      "align_up first (max q 1) = Some start" "start < end'" "checked_sub end' start = Some count"
      "checked_mul count sector = Some available"
      "g = \<lparr> bdg_sector_size_bytes = sector, bdg_start_sector = start, bdg_available_bytes = available \<rparr>"
    by (auto simp: blank_disk_geometry_of_def Let_def and_then_Inr)
  note A = align_up_unat[OF v(3)]
  have q: "ceil_div (2 ^ 20) sector = Some q" using v(1) by (simp add: CREATE_PARTITION_ALIGNMENT_BYTES_def)
  have al: "2 ^ 20 dvd unat start * unat sector" by (rule aligned_start[OF assms(2) q A(2)])
  from v(4) checked_sub_Some[OF v(5)] have c: "0 < unat count" "unat start + unat count = unat end'"
    by (auto simp: word_less_nat_alt)
  have "blank_area_ok policy sector (unat (bytes div sector)) (unat start) (unat count)"
    using al c A(3) v(2) unfolding blank_area_ok_def
    by (cases policy) (auto dest: gpt_area dos_area simp: word_le_nat_alt)
  with checked_mul_Some[OF v(6)] v(7) show "bdg_sector_size_bytes g = sector"
    "\<exists>count. unat (bdg_available_bytes g) = count * unat sector
       \<and> blank_area_ok policy sector (unat (bytes div sector)) (unat (bdg_start_sector g)) count"
    by auto
qed

text \<open>The adapter stands for the usable area of the one plain disk at the selected path.\<close>

definition plain_disk :: "host_snapshot \<Rightarrow> string \<Rightarrow> block_device \<Rightarrow> bool" where
  "plain_disk snapshot disk_path disk =
     (filter (\<lambda>d. bd_path d = Some disk_path)
         (map ref_node (flatten (sg_block_devices (hs_storage snapshot)))) = [disk]
      \<and> blank_disk_state_ok disk
      \<and> (\<forall>t\<in>set (hs_partition_tables snapshot). pt_device t \<noteq> disk_path)
      \<and> (\<forall>swap\<in>set (hs_swaps snapshot). \<not> node_alias disk (se_name swap)))"

definition from_blank_disk :: "host_snapshot \<Rightarrow> provisioning_opportunity
    \<Rightarrow> create_partition_table_policy option \<Rightarrow> create_source_adapter \<Rightarrow> bool" where
  "from_blank_disk snapshot source partition_table a =
     (\<exists>disk_path disk policy start count. po_disk source = Some disk_path
       \<and> plain_disk snapshot disk_path disk \<and> partition_table = Some policy
       \<and> csa_partition_table a = Some policy \<and> csa_start_sector a = Some start
       \<and> unat (csa_available_bytes a) = count * unat (csa_allocation_unit_bytes a)
       \<and> blank_area_ok policy (csa_allocation_unit_bytes a)
           (unat (bd_size_bytes disk div csa_allocation_unit_bytes a)) (unat start) count)"

lemma blank_disk_geometry_Inr:
  assumes "blank_disk_geometry snapshot source policy = Inr g"
  shows "\<exists>disk_path disk sector. po_disk source = Some disk_path \<and> plain_disk snapshot disk_path disk
     \<and> blank_disk_sizes_ok source disk sector
     \<and> blank_disk_geometry_of policy sector (bd_size_bytes disk) = Inr g"
  using assms
  by (auto simp: blank_disk_geometry_def and_then_Inr plain_disk_def list_all_iff list_ex_iff)

lemma blank_disk_adapter_Inr:
  assumes "blank_disk_adapter snapshot source partition_table = Inr a"
  shows "adapter_unit_ok a" "csa_kind a = po_kind source"
    "from_blank_disk snapshot source partition_table a"
proof -
  from assms obtain policy g disk where v: "partition_table = Some policy"
    "blank_disk_geometry snapshot source policy = Inr g" "po_disk source = Some disk"
    "a = \<lparr> csa_source_id = po_id source, csa_kind = po_kind source, csa_disk = Some disk,
           csa_volume_group = None, csa_allocation_unit_bytes = bdg_sector_size_bytes g,
           csa_available_bytes = bdg_available_bytes g,
           csa_start_sector = Some (bdg_start_sector g),
           csa_sector_count = Some (bdg_available_bytes g div bdg_sector_size_bytes g),
           csa_partition_table = Some policy \<rparr>"
    by (auto simp: blank_disk_adapter_def and_then_Inr)
  from blank_disk_geometry_Inr[OF v(2)] obtain disk_path d sector where
    d: "po_disk source = Some disk_path" "plain_disk snapshot disk_path d"
      "blank_disk_sizes_ok source d sector"
      "blank_disk_geometry_of policy sector (bd_size_bytes d) = Inr g" by blast
  from d(3) have s: "512 \<le> sector" "is_power_of_two sector" by (auto simp: blank_disk_sizes_ok_def)
  from blank_disk_geometry_of_Inr[OF d(4) s(2)] obtain count where
    g: "bdg_sector_size_bytes g = sector" "unat (bdg_available_bytes g) = count * unat sector"
      "blank_area_ok policy sector (unat (bd_size_bytes d div sector)) (unat (bdg_start_sector g)) count"
    by blast
  show "adapter_unit_ok a" "csa_kind a = po_kind source" using s by (simp_all add: v(4) g adapter_unit_ok_def)
  show "from_blank_disk snapshot source partition_table a" unfolding from_blank_disk_def
    using d g v by (intro exI[of _ disk_path] exI[of _ d] exI[of _ policy]
      exI[of _ "bdg_start_sector g"] exI[of _ count]) simp
qed

lemma resolve_create_source_adapter_Inr:
  assumes "resolve_create_source_adapter snapshot source partition_table = Inr a"
  shows "adapter_unit_ok a" "csa_kind a = po_kind source"
    "case po_kind source of
       PskBlockedDisk \<Rightarrow> False
     | PskLvmFreeExtents \<Rightarrow> from_volume_group snapshot source a
     | PskBlankDisk \<Rightarrow> from_blank_disk snapshot source partition_table a
     | _ \<Rightarrow> from_free_range snapshot source a"
proof -
  have "adapter_unit_ok a \<and> csa_kind a = po_kind source \<and> (case po_kind source of
       PskBlockedDisk \<Rightarrow> False
     | PskLvmFreeExtents \<Rightarrow> from_volume_group snapshot source a
     | PskBlankDisk \<Rightarrow> from_blank_disk snapshot source partition_table a
     | _ \<Rightarrow> from_free_range snapshot source a)"
    using assms unfolding resolve_create_source_adapter_def
    by (cases "po_kind source")
       (auto dest: blank_disk_adapter_Inr disk_range_adapter_Inr volume_group_adapter_Inr split: if_splits)
  then show "adapter_unit_ok a" "csa_kind a = po_kind source"
    "case po_kind source of
       PskBlockedDisk \<Rightarrow> False
     | PskLvmFreeExtents \<Rightarrow> from_volume_group snapshot source a
     | PskBlankDisk \<Rightarrow> from_blank_disk snapshot source partition_table a
     | _ \<Rightarrow> from_free_range snapshot source a" by auto
qed

section \<open>Plans\<close>

lemma sealed_Inr: "sealed fp plan = Inr p \<longleftrightarrow> (\<exists>i. fp plan = Inr i \<and> p = plan\<lparr>cpp_plan_id := i\<rparr>)"
  by (auto simp: sealed_def and_then_Inr)

lemma adapter_steps:
  assumes "resolve_create_source_adapter snapshot source partition_table = Inr a"
  shows "\<exists>steps. create_source_steps a sectors rounded = Inr steps"
proof -
  note R = resolve_create_source_adapter_Inr[OF assms]
  show ?thesis
    using R(2,3) by (cases "po_kind source") (auto simp: create_source_steps_def from_blank_disk_def)
qed

text \<open>The three ways \<open>plan_create\<close> ends.\<close>

lemma plan_create_from_cases:
  assumes "plan_create_from fp snapshot source plan = Inr p"
  obtains (refused) b i where "p = plan\<lparr>cpp_blockers := cpp_blockers plan @ [b], cpp_plan_id := i\<rparr>"
  | (planned) a requested rounded sectors steps i where
      "resolve_create_source_adapter snapshot source (crq_partition_table (cpp_request plan)) = Inr a"
      "create_sizes (crq_size (cpp_request plan)) (csa_available_bytes a) (csa_allocation_unit_bytes a)
         = Inr (requested, rounded)"
      "create_purpose_check snapshot (cpp_request plan) = Inr ()"
      "sectors = (if on_disk_sectors (csa_kind a) then Some (rounded div csa_allocation_unit_bytes a) else None)"
      "steps \<noteq> []"
      "p = plan\<lparr>cpp_allocation := Some
            \<lparr> cal_requested_bytes = requested, cal_rounded_bytes = rounded,
              cal_available_bytes = csa_available_bytes a,
              cal_remaining_bytes = csa_available_bytes a - rounded,
              cal_allocation_unit_bytes = csa_allocation_unit_bytes a,
              cal_start_sector = csa_start_sector a, cal_sector_count = sectors,
              cal_volume_group = csa_volume_group a, cal_partition_table = csa_partition_table a \<rparr>,
            cpp_steps := steps, cpp_status := PsPreview, cpp_plan_id := i\<rparr>"
proof -
  let ?rq = "cpp_request plan"
  show thesis
  proof (cases "resolve_create_source_adapter snapshot source (crq_partition_table ?rq)")
    case (Inl b)
    with assms refused show thesis
      by (auto simp: plan_create_from_def create_refused_def sealed_Inr)
  next
    case a: (Inr a)
    show thesis
    proof (cases "create_sizes (crq_size ?rq) (csa_available_bytes a) (csa_allocation_unit_bytes a)")
      case (Inl b)
      with assms refused a show thesis
        by (auto simp: plan_create_from_def create_refused_def sealed_Inr)
    next
      case sizes: (Inr rr)
      obtain requested rounded where rr: "rr = (requested, rounded)" by (cases rr)
      show thesis
      proof (cases "create_purpose_check snapshot ?rq")
        case (Inl b)
        with assms refused a sizes show thesis
          by (auto simp: plan_create_from_def create_refused_def sealed_Inr rr)
      next
        case purpose: (Inr u)
        let ?sectors = "if on_disk_sectors (csa_kind a)
          then Some (rounded div csa_allocation_unit_bytes a) else None"
        obtain steps where steps: "create_source_steps a ?sectors rounded = Inr steps"
          using adapter_steps[OF a] by blast
        show thesis
          using assms planned[OF a _ _ refl] a sizes purpose steps
          by (auto simp: plan_create_from_def sealed_Inr rr Let_def)
      qed
    qed
  qed
qed

lemma plan_create_cases:
  assumes "plan_create sha fp snapshot request = Inr p"
  obtains (refused) s b i where
      "p = (new_create_plan request)\<lparr>cpp_source := s, cpp_blockers := [b], cpp_plan_id := i\<rparr>"
  | (planned) source a requested rounded sectors steps i where
      "source \<in> set (list_provisioning_opportunities sha snapshot)"
      "resolve_create_source_adapter snapshot source (crq_partition_table request) = Inr a"
      "create_sizes (crq_size request) (csa_available_bytes a) (csa_allocation_unit_bytes a)
         = Inr (requested, rounded)"
      "create_purpose_check snapshot request = Inr ()"
      "sectors = (if on_disk_sectors (csa_kind a) then Some (rounded div csa_allocation_unit_bytes a) else None)"
      "steps \<noteq> []"
      "p = (new_create_plan request)\<lparr>cpp_source := Some source, cpp_allocation := Some
            \<lparr> cal_requested_bytes = requested, cal_rounded_bytes = rounded,
              cal_available_bytes = csa_available_bytes a,
              cal_remaining_bytes = csa_available_bytes a - rounded,
              cal_allocation_unit_bytes = csa_allocation_unit_bytes a,
              cal_start_sector = csa_start_sector a, cal_sector_count = sectors,
              cal_volume_group = csa_volume_group a, cal_partition_table = csa_partition_table a \<rparr>,
            cpp_steps := steps, cpp_status := PsPreview, cpp_plan_id := i\<rparr>"
proof -
  let ?sel = "select_sources (crq_source_id request) (list_provisioning_opportunities sha snapshot)"
  show thesis
  proof (cases "\<exists>source. ?sel = [source]")
    case False
    then obtain b where "create_refused fp (new_create_plan request) b = Inr p"
      using assms by (auto simp: plan_create_def Let_def split: list.splits)
    then show thesis using refused[where s = None and b = b] by (auto simp: create_refused_def sealed_Inr new_create_plan_def)
  next
    case True
    then obtain source where sel: "?sel = [source]" ..
    then have mem: "source \<in> set (list_provisioning_opportunities sha snapshot)"
      by (auto simp: select_sources_def filter_eq_Cons_iff)
    have rq: "cpp_request ((new_create_plan request)\<lparr>cpp_source := s\<rparr>) = request"
      "cpp_blockers ((new_create_plan request)\<lparr>cpp_source := s\<rparr>) = []" for s
      by (simp_all add: new_create_plan_def)
    from assms sel have "plan_create_from fp snapshot source
        ((new_create_plan request)\<lparr>cpp_source := Some source\<rparr>) = Inr p"
      by (simp add: plan_create_def)
    then show thesis
    proof (cases rule: plan_create_from_cases)
      case (refused b i)
      then show thesis using that(1)[where s = "Some source" and b = b and i = i] by (simp add: rq)
    next
      case (planned a requested rounded sectors steps i)
      show thesis using planned that(2)[OF mem, where a = a and requested = requested and rounded = rounded and sectors = sectors
          and steps = steps and i = i] by (simp add: rq)
    qed
  qed
qed

lemma unat_div_mult:
  assumes "unat (r::u64) = c * unat u" "u \<noteq> 0"
  shows "unat (r div u) = c"
  using assms by (simp add: unat_div unat_gt_0)

lemma planned_sectors:
  assumes "create_sizes amount available unit = Inr (requested, rounded)" "unit \<noteq> 0"
    "unat available = k * unat unit"
  shows "unat (rounded div unit) * unat unit = unat rounded" "0 < unat (rounded div unit)"
    "unat (rounded div unit) \<le> k"
proof -
  note S = create_sizes_Inr[OF assms(1,2)]
  have u: "0 < unat unit" using assms(2) by (simp add: unat_gt_0)
  define c where "c = (unat requested + unat unit - 1) div unat unit"
  have r: "unat rounded = c * unat unit" using S(3) by (simp add: c_def round_up_def)
  note c = unat_div_mult[OF r assms(2)]
  have "0 < unat requested" using S(1) by (simp add: unat_gt_0)
  with round_up_bounds(1)[OF u, of "unat requested"] have "0 < unat rounded" unfolding S(3) by linarith
  then have "0 < c" unfolding r by (cases c) simp_all
  have "c * unat unit \<le> k * unat unit" using S(2) assms(3) r by (simp add: word_le_nat_alt)
  then have "c \<le> k" using u by simp
  with c r \<open>0 < c\<close> show "unat (rounded div unit) * unat unit = unat rounded"
    "0 < unat (rounded div unit)" "unat (rounded div unit) \<le> k" by simp_all
qed

lemma unit_nonzero: "adapter_unit_ok a \<Longrightarrow> csa_allocation_unit_bytes a \<noteq> 0"
  by (auto simp: adapter_unit_ok_def)

text \<open>A free range holds only offered sectors.\<close>

lemma free_range_offered:
  assumes "partition_free_ranges disk table = Some fs" "r \<in> set (pfs_ranges fs)"
  shows "\<exists>first limit. table_area disk table (pfs_sector_size_bytes fs) first limit
     \<and> range_sectors r \<subseteq> offered_sectors table first limit"
proof -
  from partition_free_ranges_area[OF assms(1)] obtain sector first limit where
    a: "table_area disk table sector first limit" by blast
  from partition_free_ranges_some[OF a] assms(1) have "pfs_sector_size_bytes fs = sector"
    "free_sectors (pfs_ranges fs) = offered_sectors table first limit"
    by (auto simp: ranges_ok_def)
  with a assms(2) show ?thesis unfolding free_sectors_def by blast
qed

text \<open>C30: every partition that a create plan proposes inside the free space of an existing partition
  table lies wholly in sectors that the table leaves free: inside the usable area, in no recorded
  partition, and on a DOS table never before the first partition. Its length is the rounded size,
  and the disk and its table are the only ones of that name in the snapshot.\<close>

theorem create_partition_in_free_space:
  assumes "plan_create sha fp snapshot request = Inr plan"
    and "cpp_source plan = Some source" and "po_kind source \<in> {PskDiskGap, PskDiskTail}"
    and "cpp_allocation plan = Some al"
  shows "\<exists>disk_path disk table first limit start count.
      po_disk source = Some disk_path
    \<and> filter (\<lambda>t. pt_device t = disk_path) (hs_partition_tables snapshot) = [table]
    \<and> filter (\<lambda>d. disk_or_loop d \<and> bd_path d = Some disk_path)
           (map ref_node (flatten (sg_block_devices (hs_storage snapshot)))) = [disk]
    \<and> table_area disk table (cal_allocation_unit_bytes al) first limit
    \<and> cal_start_sector al = Some start \<and> cal_sector_count al = Some count \<and> 0 < unat count
    \<and> {unat start ..< unat start + unat count} \<subseteq> offered_sectors table first limit
    \<and> unat count * unat (cal_allocation_unit_bytes al) = unat (cal_rounded_bytes al)"
  using assms(1)
proof (cases rule: plan_create_cases)
  case (refused s b i)
  with assms(4) show ?thesis by (simp add: new_create_plan_def)
next
  case (planned source' a requested rounded sectors steps i)
  with assms(2,4) have source: "source' = source"
    and al: "cal_allocation_unit_bytes al = csa_allocation_unit_bytes a"
      "cal_start_sector al = csa_start_sector a" "cal_sector_count al = sectors"
      "cal_rounded_bytes al = rounded"
    by auto
  note R = resolve_create_source_adapter_Inr[OF planned(2)[unfolded source]]
  from R(2) assms(3) have sectors: "sectors = Some (rounded div csa_allocation_unit_bytes a)"
    using planned(5) by (auto simp: on_disk_sectors_def)
  from R(3) assms(3) have "from_free_range snapshot source a" by auto
  then obtain disk_path disk table fs r where f: "po_disk source = Some disk_path"
      "filter (\<lambda>t. pt_device t = disk_path) (hs_partition_tables snapshot) = [table]"
      "filter (\<lambda>d. disk_or_loop d \<and> bd_path d = Some disk_path)
           (map ref_node (flatten (sg_block_devices (hs_storage snapshot)))) = [disk]"
      "partition_free_ranges disk table = Some fs" "r \<in> set (pfs_ranges fs)"
      "csa_allocation_unit_bytes a = pfs_sector_size_bytes fs"
      "csa_start_sector a = Some (pfr_start_sector r)"
      "unat (csa_available_bytes a) = unat (pfr_sector_count r) * unat (csa_allocation_unit_bytes a)"
    unfolding from_free_range_def by blast
  from free_range_offered[OF f(4,5)] obtain first limit where
    o: "table_area disk table (pfs_sector_size_bytes fs) first limit"
      "range_sectors r \<subseteq> offered_sectors table first limit" by blast
  note P = planned_sectors[OF planned(3) unit_nonzero[OF R(1)] f(8)]
  have "{unat (pfr_start_sector r) ..< unat (pfr_start_sector r) + unat (rounded div csa_allocation_unit_bytes a)}
      \<subseteq> range_sectors r"
    using P(3) by (auto simp: range_sectors_def range_end_def)
  with o(2) have "{unat (pfr_start_sector r) ..< unat (pfr_start_sector r) + unat (rounded div csa_allocation_unit_bytes a)}
      \<subseteq> offered_sectors table first limit" by blast
  with f o(1) P al sectors show ?thesis by (intro exI conjI) (simp_all add: f(6)[symmetric])
qed

text \<open>A 1 GiB GPT disk with one partition, and a request for 256 MiB of its tail.\<close>

definition ex_gpt_disk :: block_device where
  "ex_gpt_disk = BlockDevice ''sda'' None (Some ''/dev/sda'') NkDisk 1073741824 None (Some 512) None []
     None None None None None (Some ''gpt'') []"

definition ex_gpt_record :: partition_record where
  "ex_gpt_record = \<lparr> pr_node = ''/dev/sda1'', pr_start_sector = 34, pr_size_sectors = 1050590,
     pr_partition_type = None, pr_uuid = None, pr_name = None, pr_attrs = None, pr_bootable = None \<rparr>"

definition ex_gpt_table :: partition_table where
  "ex_gpt_table = \<lparr> pt_device = ''/dev/sda'', pt_label = Some ''gpt'', pt_id = None, pt_unit = None,
     pt_first_lba = Some 34, pt_last_lba = Some 2097118, pt_sector_size_bytes = Some 512,
     pt_partitions = [ex_gpt_record] \<rparr>"

definition ex_create_snapshot :: "block_device \<Rightarrow> partition_table list \<Rightarrow> host_snapshot" where
  "ex_create_snapshot disk tables = \<lparr> hs_storage = \<lparr> sg_block_devices = [disk] \<rparr>,
     hs_partition_tables = tables, hs_mounts = [], hs_fstab = [], hs_swaps = [], hs_lvm = None,
     hs_filesystem_preflight = [], hs_diagnostics = [],
     hs_collectors = [\<lparr> cs_component = ''partition_tables'', cs_state = CsComplete, cs_detail = None \<rparr>] \<rparr>"

definition ex_create_request :: "string \<Rightarrow> create_partition_table_policy option \<Rightarrow> create_request" where
  "ex_create_request selector policy = \<lparr> crq_source_id = selector, crq_size = ByBytes 268435456, crq_purpose = CpSwap,
     crq_filesystem = None, crq_mountpoint = None, crq_partition_table = policy \<rparr>"

definition ex_tail_range :: partition_free_range where
  "ex_tail_range = \<lparr> pfr_start_sector = 1050624, pfr_sector_count = 1046495, pfr_is_tail = True \<rparr>"

definition ex_tail :: provisioning_opportunity where
  "ex_tail = the (range_opportunity (\<lambda>s. s) ex_gpt_table ''/dev/sda'' 512 ex_tail_range)"

lemma ex_gpt_ranges:
  "partition_free_ranges ex_gpt_disk ex_gpt_table =
     Some \<lparr> pfs_ranges = [ex_tail_range], pfs_sector_size_bytes = 512 \<rparr>"
  by (simp add: partition_free_ranges_def ex_gpt_disk_def ex_gpt_table_def ex_gpt_record_def power_of_two_512
      usable_area_def checked_add_def checked_sub_def merge_intervals_def merge_interval_def
      free_ranges_between_def min_def max_def ex_tail_range_def)

lemma ex_tail_eq: "range_opportunity (\<lambda>s. s) ex_gpt_table ''/dev/sda'' 512 ex_tail_range = Some ex_tail"
  by (simp add: ex_tail_def range_opportunity_def ex_tail_range_def checked_mul_def checked_add_def Let_def)

lemma ex_tail_facts:
  "po_kind ex_tail = PskDiskTail" "po_disk ex_tail = Some ''/dev/sda''" "po_start_sector ex_tail = Some 1050624"
  "po_sector_count ex_tail = Some 1046495" "po_sector_size_bytes ex_tail = Some 512"
  "po_available_bytes ex_tail = 535805440"
  by (simp_all add: ex_tail_def range_opportunity_def ex_tail_range_def checked_mul_def checked_add_def Let_def)

lemma ex_gpt_disk_facts:
  "bd_path ex_gpt_disk = Some ''/dev/sda''" "disk_or_loop ex_gpt_disk"
  "map ref_node (flatten [ex_gpt_disk]) = [ex_gpt_disk]" "pt_device ex_gpt_table = ''/dev/sda''"
  by (simp_all add: ex_gpt_disk_def disk_or_loop_def flatten_def ex_gpt_table_def)

lemma ex_snapshot_facts:
  "hs_partition_tables (ex_create_snapshot d ts) = ts"
  "sg_block_devices (hs_storage (ex_create_snapshot d ts)) = [d]"
  "hs_lvm (ex_create_snapshot d ts) = None" "partition_tables_complete (ex_create_snapshot d ts)"
  by (simp_all add: ex_create_snapshot_def partition_tables_complete_def)

lemma ex_gpt_sources:
  "list_provisioning_opportunities (\<lambda>s. s) (ex_create_snapshot ex_gpt_disk [ex_gpt_table]) = [ex_tail]"
  by (simp add: list_provisioning_opportunities_def ex_snapshot_facts disk_opportunities_def ex_gpt_disk_facts
    ex_gpt_ranges ex_tail_eq map_filter_simps)

lemma ex_gpt_adapter:
  "resolve_create_source_adapter (ex_create_snapshot ex_gpt_disk [ex_gpt_table]) ex_tail None =
     Inr \<lparr> csa_source_id = po_id ex_tail, csa_kind = PskDiskTail, csa_disk = Some ''/dev/sda'',
           csa_volume_group = None, csa_allocation_unit_bytes = 512,
           csa_available_bytes = 535805440, csa_start_sector = Some 1050624,
           csa_sector_count = Some 1046495, csa_partition_table = None \<rparr>"
  by (simp add: resolve_create_source_adapter_def disk_range_adapter_def ex_tail_facts ex_snapshot_facts
    ex_gpt_disk_facts ex_gpt_ranges power_of_two_512 ensure_def only_def checked_mul_def ex_tail_range_def)

definition ex_gpt_plan :: create_plan_preview where
  "ex_gpt_plan = projr (plan_create (\<lambda>s. s) (\<lambda>_. Inr ''plan'')
     (ex_create_snapshot ex_gpt_disk [ex_gpt_table]) (ex_create_request (po_id ex_tail) None))"

lemma ex_request_facts:
  "crq_source_id (ex_create_request s p) = s" "crq_size (ex_create_request s p) = ByBytes 268435456"
  "crq_partition_table (ex_create_request s p) = p"
  "create_purpose_check x (ex_create_request s p) = Inr ()"
  by (simp_all add: ex_create_request_def create_purpose_check_def ensure_def)

lemma ex_gpt_plan:
  "plan_create (\<lambda>s. s) (\<lambda>_. Inr ''plan'') (ex_create_snapshot ex_gpt_disk [ex_gpt_table])
     (ex_create_request (po_id ex_tail) None) = Inr ex_gpt_plan"
  "cpp_source ex_gpt_plan = Some ex_tail"
  "cpp_allocation ex_gpt_plan = Some
     \<lparr> cal_requested_bytes = 268435456, cal_rounded_bytes = 268435456, cal_available_bytes = 535805440,
       cal_remaining_bytes = 267369984, cal_allocation_unit_bytes = 512, cal_start_sector = Some 1050624,
       cal_sector_count = Some 524288, cal_volume_group = None, cal_partition_table = None \<rparr>"
proof -
  have sel: "select_sources (po_id ex_tail) [ex_tail] = [ex_tail]" by (simp add: select_sources_def)
  have rq: "cpp_request (new_create_plan r) = r" for r
    by (simp add: new_create_plan_def)
  have "\<exists>p. plan_create (\<lambda>s. s) (\<lambda>_. Inr ''plan'') (ex_create_snapshot ex_gpt_disk [ex_gpt_table])
     (ex_create_request (po_id ex_tail) None) = Inr p \<and> cpp_source p = Some ex_tail
     \<and> cpp_allocation p = Some
     \<lparr> cal_requested_bytes = 268435456, cal_rounded_bytes = 268435456, cal_available_bytes = 535805440,
       cal_remaining_bytes = 267369984, cal_allocation_unit_bytes = 512, cal_start_sector = Some 1050624,
       cal_sector_count = Some 524288, cal_volume_group = None, cal_partition_table = None \<rparr>"
    by (simp add: plan_create_def ex_request_facts ex_gpt_sources sel plan_create_from_def rq ex_gpt_adapter
       create_sizes_def ensure_def checked_mul_def create_source_steps_def on_disk_sectors_def sealed_def Let_def)
  then show "plan_create (\<lambda>s. s) (\<lambda>_. Inr ''plan'') (ex_create_snapshot ex_gpt_disk [ex_gpt_table])
     (ex_create_request (po_id ex_tail) None) = Inr ex_gpt_plan"
  "cpp_source ex_gpt_plan = Some ex_tail"
  "cpp_allocation ex_gpt_plan = Some
     \<lparr> cal_requested_bytes = 268435456, cal_rounded_bytes = 268435456, cal_available_bytes = 535805440,
       cal_remaining_bytes = 267369984, cal_allocation_unit_bytes = 512, cal_start_sector = Some 1050624,
       cal_sector_count = Some 524288, cal_volume_group = None, cal_partition_table = None \<rparr>"
    by (auto simp: ex_gpt_plan_def)
qed

theorem create_partition_in_free_space_witness:
  "\<exists>start count first limit. cal_start_sector (the (cpp_allocation ex_gpt_plan)) = Some start
     \<and> cal_sector_count (the (cpp_allocation ex_gpt_plan)) = Some count \<and> 0 < unat count
     \<and> {unat start ..< unat start + unat count} \<subseteq> offered_sectors ex_gpt_table first limit"
proof -
  have "po_kind ex_tail \<in> {PskDiskGap, PskDiskTail}" by (simp add: ex_tail_facts)
  from create_partition_in_free_space[OF ex_gpt_plan(1,2) this ex_gpt_plan(3)]
  show ?thesis by (auto simp: ex_gpt_plan(3) ex_tail_facts ex_snapshot_facts ex_gpt_disk_facts)
qed

lemma blank_plan_area:
  assumes "plan_create sha fp snapshot request = Inr plan"
    and "cpp_source plan = Some source" and "po_kind source = PskBlankDisk"
    and "cpp_allocation plan = Some al"
  shows "\<exists>disk_path disk policy start count.
      po_disk source = Some disk_path \<and> plain_disk snapshot disk_path disk
    \<and> crq_partition_table request = Some policy \<and> cal_partition_table al = Some policy
    \<and> cal_start_sector al = Some start \<and> cal_sector_count al = Some count
    \<and> unat count * unat (cal_allocation_unit_bytes al) = unat (cal_rounded_bytes al)
    \<and> blank_area_ok policy (cal_allocation_unit_bytes al)
        (unat (bd_size_bytes disk div cal_allocation_unit_bytes al)) (unat start) (unat count)"
  using assms(1)
proof (cases rule: plan_create_cases)
  case (refused s b i)
  with assms(4) show ?thesis by (simp add: new_create_plan_def)
next
  case (planned source' a requested rounded sectors steps i)
  with assms(2,4) have source: "source' = source"
    and al: "cal_allocation_unit_bytes al = csa_allocation_unit_bytes a"
      "cal_start_sector al = csa_start_sector a" "cal_sector_count al = sectors"
      "cal_rounded_bytes al = rounded" "cal_partition_table al = csa_partition_table a"
    by auto
  note R = resolve_create_source_adapter_Inr[OF planned(2)[unfolded source]]
  from R(2) assms(3) have sectors: "sectors = Some (rounded div csa_allocation_unit_bytes a)"
    using planned(5) by (simp add: on_disk_sectors_def)
  from R(3) assms(3) have "from_blank_disk snapshot source (crq_partition_table request) a" by simp
  then obtain disk_path disk policy start k where f: "po_disk source = Some disk_path"
      "plain_disk snapshot disk_path disk" "crq_partition_table request = Some policy"
      "csa_partition_table a = Some policy" "csa_start_sector a = Some start"
      "unat (csa_available_bytes a) = k * unat (csa_allocation_unit_bytes a)"
      "blank_area_ok policy (csa_allocation_unit_bytes a)
        (unat (bd_size_bytes disk div csa_allocation_unit_bytes a)) (unat start) k"
    unfolding from_blank_disk_def by blast
  note P = planned_sectors[OF planned(3) unit_nonzero[OF R(1)] f(6)]
  from f(7) P(2,3) have "blank_area_ok policy (csa_allocation_unit_bytes a)
      (unat (bd_size_bytes disk div csa_allocation_unit_bytes a)) (unat start)
      (unat (rounded div csa_allocation_unit_bytes a))"
    by (auto simp: blank_area_ok_def split: create_partition_table_policy.splits)
  with f P al sectors show ?thesis by (intro exI conjI) simp_all
qed

text \<open>The partition that a create plan proposes on a blank disk starts on a 1 MiB boundary behind the
  primary metadata of the new table and ends before its backup: on GPT after the protective MBR, the
  header and the entry array and before their copies; on DOS after the MBR and within the 32 bits of
  its sector numbers. The disk is the only one at that path, and is plain: no children, filesystem,
  table, mount point, recorded partition table or active swap.\<close>

theorem create_blank_in_usable_area:
  assumes "plan_create sha fp snapshot request = Inr plan"
    and "cpp_source plan = Some source" and "po_kind source = PskBlankDisk"
    and "cpp_allocation plan = Some al"
  shows "\<exists>disk_path disk policy start count.
      po_disk source = Some disk_path \<and> plain_disk snapshot disk_path disk
    \<and> crq_partition_table request = Some policy \<and> cal_partition_table al = Some policy
    \<and> cal_start_sector al = Some start \<and> cal_sector_count al = Some count
    \<and> unat count * unat (cal_allocation_unit_bytes al) = unat (cal_rounded_bytes al)
    \<and> blank_area_ok policy (cal_allocation_unit_bytes al)
        (unat (bd_size_bytes disk div cal_allocation_unit_bytes al)) (unat start) (unat count)"
  using assms by (rule blank_plan_area)

text \<open>A blank disk of 1 GiB and a GPT request.\<close>

definition ex_blank_disk :: block_device where
  "ex_blank_disk = BlockDevice ''sdb'' None (Some ''/dev/sdb'') NkDisk 1073741824 None (Some 512) None []
     None None None None None None []"

definition ex_blank :: provisioning_opportunity where
  "ex_blank = blank_disk_opportunity (\<lambda>s. s) True ex_blank_disk ''/dev/sdb''"

definition ex_blank_plan :: create_plan_preview where
  "ex_blank_plan = projr (plan_create (\<lambda>s. s) (\<lambda>_. Inr ''plan'')
     (ex_create_snapshot ex_blank_disk []) (ex_create_request (po_id ex_blank) (Some CptGpt)))"

lemma ex_blank_disk_facts:
  "bd_path ex_blank_disk = Some ''/dev/sdb''" "blank_disk_state_ok ex_blank_disk" "disk_or_loop ex_blank_disk"
  "bd_children ex_blank_disk = []" "bd_filesystem ex_blank_disk = None" "bd_partition_table ex_blank_disk = None"
  "map ref_node (flatten [ex_blank_disk]) = [ex_blank_disk]"
  "bd_logical_sector_bytes ex_blank_disk = Some 512" "bd_size_bytes ex_blank_disk = 1073741824"
  by (simp_all add: ex_blank_disk_def disk_or_loop_def flatten_def blank_disk_state_ok_def)

lemma ex_blank_facts:
  "po_kind ex_blank = PskBlankDisk" "po_disk ex_blank = Some ''/dev/sdb''"
  "po_sector_size_bytes ex_blank = Some 512" "po_available_bytes ex_blank = 1073741824"
  by (simp_all add: ex_blank_def blank_disk_opportunity_def ex_blank_disk_facts)

lemma ex_blank_sources:
  "list_provisioning_opportunities (\<lambda>s. s) (ex_create_snapshot ex_blank_disk []) = [ex_blank]"
  by (simp add: list_provisioning_opportunities_def ex_snapshot_facts disk_opportunities_def
    ex_blank_disk_facts ex_blank_def)

lemma ex_blank_geometry:
  "blank_disk_geometry_of CptGpt 512 1073741824 = Inr
     \<lparr> bdg_sector_size_bytes = 512, bdg_start_sector = 2048, bdg_available_bytes = 1072676352 \<rparr>"
  by (simp add: blank_disk_geometry_of_def new_table_area_def ceil_div_def align_up_def checked_mul_def
    checked_add_def checked_sub_def CREATE_PARTITION_ALIGNMENT_BYTES_def GPT_PARTITION_ENTRY_COUNT_def
    GPT_PARTITION_ENTRY_SIZE_BYTES_def ensure_def max_def) (simp add: word_le_nat_alt)

lemma ex_blank_adapter:
  "resolve_create_source_adapter (ex_create_snapshot ex_blank_disk []) ex_blank (Some CptGpt) =
     Inr \<lparr> csa_source_id = po_id ex_blank, csa_kind = PskBlankDisk, csa_disk = Some ''/dev/sdb'',
           csa_volume_group = None, csa_allocation_unit_bytes = 512,
           csa_available_bytes = 1072676352, csa_start_sector = Some 2048,
           csa_sector_count = Some 2095071, csa_partition_table = Some CptGpt \<rparr>"
proof -
  have "blank_disk_geometry (ex_create_snapshot ex_blank_disk []) ex_blank CptGpt = Inr
     \<lparr> bdg_sector_size_bytes = 512, bdg_start_sector = 2048, bdg_available_bytes = 1072676352 \<rparr>"
    by (simp add: blank_disk_geometry_def ex_snapshot_facts ex_blank_facts ex_blank_disk_facts
      blank_disk_sizes_ok_def power_of_two_512 ex_blank_geometry ensure_def unique_def)
       (simp add: ex_create_snapshot_def)
  then show ?thesis
    by (simp add: resolve_create_source_adapter_def blank_disk_adapter_def ex_blank_facts)
qed

lemma ex_blank_plan:
  "plan_create (\<lambda>s. s) (\<lambda>_. Inr ''plan'') (ex_create_snapshot ex_blank_disk [])
     (ex_create_request (po_id ex_blank) (Some CptGpt)) = Inr ex_blank_plan"
  "cpp_source ex_blank_plan = Some ex_blank"
  "cpp_allocation ex_blank_plan = Some
     \<lparr> cal_requested_bytes = 268435456, cal_rounded_bytes = 268435456, cal_available_bytes = 1072676352,
       cal_remaining_bytes = 804240896, cal_allocation_unit_bytes = 512, cal_start_sector = Some 2048,
       cal_sector_count = Some 524288, cal_volume_group = None, cal_partition_table = Some CptGpt \<rparr>"
proof -
  have sel: "select_sources (po_id ex_blank) [ex_blank] = [ex_blank]" by (simp add: select_sources_def)
  have rq: "cpp_request (new_create_plan r) = r" for r by (simp add: new_create_plan_def)
  have "\<exists>p. plan_create (\<lambda>s. s) (\<lambda>_. Inr ''plan'') (ex_create_snapshot ex_blank_disk [])
     (ex_create_request (po_id ex_blank) (Some CptGpt)) = Inr p \<and> cpp_source p = Some ex_blank
     \<and> cpp_allocation p = Some
     \<lparr> cal_requested_bytes = 268435456, cal_rounded_bytes = 268435456, cal_available_bytes = 1072676352,
       cal_remaining_bytes = 804240896, cal_allocation_unit_bytes = 512, cal_start_sector = Some 2048,
       cal_sector_count = Some 524288, cal_volume_group = None, cal_partition_table = Some CptGpt \<rparr>"
    by (simp add: plan_create_def ex_request_facts ex_blank_sources sel plan_create_from_def rq ex_blank_adapter
       create_sizes_def ensure_def checked_mul_def create_source_steps_def on_disk_sectors_def sealed_def Let_def)
  then show "plan_create (\<lambda>s. s) (\<lambda>_. Inr ''plan'') (ex_create_snapshot ex_blank_disk [])
     (ex_create_request (po_id ex_blank) (Some CptGpt)) = Inr ex_blank_plan"
  "cpp_source ex_blank_plan = Some ex_blank"
  "cpp_allocation ex_blank_plan = Some
     \<lparr> cal_requested_bytes = 268435456, cal_rounded_bytes = 268435456, cal_available_bytes = 1072676352,
       cal_remaining_bytes = 804240896, cal_allocation_unit_bytes = 512, cal_start_sector = Some 2048,
       cal_sector_count = Some 524288, cal_volume_group = None, cal_partition_table = Some CptGpt \<rparr>"
    by (auto simp: ex_blank_plan_def)
qed

theorem create_blank_in_usable_area_witness:
  "blank_area_ok CptGpt 512 2097152 2048 524288"
  using create_blank_in_usable_area[OF ex_blank_plan(1,2) ex_blank_facts(1) ex_blank_plan(3)]
  by (auto simp: ex_blank_plan(3) ex_request_facts plain_disk_def ex_snapshot_facts ex_blank_facts ex_blank_disk_facts)

lemma plan_create_sealed:
  "\<exists>q. plan_create sha fp snapshot request = sealed fp q \<and> cpp_plan_id q = []"
proof -
  have inner: "\<exists>q. plan_create_from fp snapshot source plan = sealed fp q \<and> cpp_plan_id q = []"
    if "cpp_plan_id plan = []" for source plan
  proof -
    have r: "\<exists>q. create_refused fp p b = sealed fp q \<and> cpp_plan_id q = []" if "cpp_plan_id p = []" for p b
      using that by (auto simp: create_refused_def intro!: exI[of _ "p\<lparr>cpp_blockers := cpp_blockers p @ [b]\<rparr>"])
    show ?thesis
      unfolding plan_create_from_def Let_def using that
      by (auto split!: sum.splits prod.splits intro!: r)
  qed
  show ?thesis
    unfolding plan_create_def Let_def
    by (auto split!: list.splits intro!: inner simp: new_create_plan_def create_refused_def)
qed

text \<open>C31: a create plan is never executable and always a dry run. It is a preview exactly when it has
  no blocker, and exactly then it has an allocation and steps; then the requested size is positive and
  rounded up to the next allocation unit, and nothing is lost between the allocation and what remains.
  The only error of the planner is that of the fingerprint.\<close>

theorem create_plan_shape:
  "case plan_create sha fp snapshot request of
     Inl e \<Rightarrow> \<exists>plan. fp plan = Inl e
   | Inr plan \<Rightarrow>
       \<not> cpp_executable plan \<and> cpp_dry_run plan \<and> cpp_request plan = request
       \<and> fp (plan\<lparr>cpp_plan_id := []\<rparr>) = Inr (cpp_plan_id plan)
       \<and> (cpp_status plan = PsPreview \<longleftrightarrow> cpp_blockers plan = [])
       \<and> (cpp_steps plan \<noteq> [] \<longleftrightarrow> cpp_blockers plan = [])
       \<and> (case cpp_allocation plan of
            None \<Rightarrow> cpp_status plan = PsBlocked
          | Some al \<Rightarrow> cpp_status plan = PsPreview \<and> 0 < unat (cal_requested_bytes al)
              \<and> unat (cal_rounded_bytes al)
                  = round_up (unat (cal_requested_bytes al)) (unat (cal_allocation_unit_bytes al))
              \<and> unat (cal_rounded_bytes al) + unat (cal_remaining_bytes al) = unat (cal_available_bytes al))"
proof (cases "plan_create sha fp snapshot request")
  case (Inl e)
  with plan_create_sealed[of sha fp snapshot request] obtain q where "sealed fp q = Inl e" by auto
  then have "fp q = Inl e" by (cases "fp q") (simp_all add: sealed_def)
  with Inl show ?thesis by auto
next
  case (Inr plan)
  from plan_create_sealed[of sha fp snapshot request] Inr obtain q where
    "sealed fp q = Inr plan" "cpp_plan_id q = []" by auto
  then have fp: "fp (plan\<lparr>cpp_plan_id := []\<rparr>) = Inr (cpp_plan_id plan)"
    by (cases q) (auto simp: sealed_Inr)
  from Inr show ?thesis
  proof (cases rule: plan_create_cases)
    case (refused s b i)
    with fp show ?thesis by (simp add: Inr new_create_plan_def)
  next
    case (planned source a requested rounded sectors steps i)
    note A = resolve_create_source_adapter_Inr(1)[OF planned(2)]
    note S = create_sizes_Inr[OF planned(3) unit_nonzero[OF A]]
    have "unat (csa_available_bytes a - rounded) = unat (csa_available_bytes a) - unat rounded"
      using S(2) by (simp add: unat_sub)
    with S planned fp show ?thesis
      by (simp add: Inr new_create_plan_def unat_gt_0 word_le_nat_alt)
  qed
qed

end
