(* ===== verification/GrowthGeometry.thy ===== *)
theory GrowthGeometry
  imports FreeSpace "HOL-Library.Char_ord" "HOL-Library.List_Lexorder" "HOL-Library.Product_Lexorder"
begin

text \<open>
  How far a partition may grow: the partition types and roles of \<open>crates/planner/src/lib.rs\<close> and
  its \<open>adjacent_free_sectors\<close>, the free sectors between the end of a partition and the next
  partition or the end of the table. On a DOS table the logical partitions inside the extended
  container are left to the container.
\<close>

section \<open>Partition types\<close>

definition is_ascii_hexdigit :: "char \<Rightarrow> bool" where
  "is_ascii_hexdigit c =
     (is_ascii_digit c \<or> (65 \<le> byte c \<and> byte c \<le> 70) \<or> (97 \<le> byte c \<and> byte c \<le> 102))"

definition hex_value :: "char \<Rightarrow> nat" where
  "hex_value c =
     (if is_ascii_digit c then byte c - 48 else if byte c \<le> 70 then byte c - 55 else byte c - 87)"

text \<open>\<open>u8::from_str_radix(s, 16)\<close>: an optional plus sign and hexadecimal digits, checked.\<close>

definition parse_hex_u8 :: "string \<Rightarrow> u8 option" where
  "parse_hex_u8 s =
     (let digits = (if length s > 1 \<and> hd s = CHR ''+'' then tl s else s)
      in if digits = [] \<or> \<not> list_all is_ascii_hexdigit digits then None
         else fold (\<lambda>c acc. Option.bind acc (\<lambda>n. Option.bind (checked_mul n 16)
                (\<lambda>m. checked_add m (of_nat (hex_value c))))) digits (Some 0))"

definition strip_0x :: "string \<Rightarrow> string" where
  "strip_0x s = (if starts_with ''0x'' s \<or> starts_with ''0X'' s then drop 2 s else s)"

definition parse_dos_type :: "string \<Rightarrow> (plan_blocker, u8) result" where
  "parse_dos_type raw =
     ok_or (parse_hex_u8 (strip_0x (trim_str raw)))
       (blocked ''invalid-partition-type'' ''DOS partition type is invalid'')"

definition normalize_gpt_partition_type :: "string \<Rightarrow> string option" where
  "normalize_gpt_partition_type raw =
     (let value = trim_str raw
      in if length value \<noteq> 36 then None
         else if list_all (\<lambda>(index, c). if index \<in> {8, 13, 18, 23} then c = CHR ''-''
                   else is_ascii_hexdigit c) (enumerate 0 value)
         then Some (to_ascii_lowercase value) else None)"

definition protected_gpt_types :: "string list" where
  "protected_gpt_types =
     [''c12a7328-f81f-11d2-ba4b-00a0c93ec93b'', ''21686148-6449-6e6f-744e-656564454649'',
      ''bc13c2ff-59e6-4262-a352-b275fd6f7172'']"

definition ensure_partition_role_is_growable ::
  "partition_table \<Rightarrow> partition_record \<Rightarrow> (plan_blocker, unit) result" where
  "ensure_partition_role_is_growable table record =
     and_then (ok_or (pr_partition_type record) (blocked ''partition-type-missing''
       ''partition type is required before a partition can be considered for growth'')) (\<lambda>raw_type.
     (if pt_label table = Some ''gpt'' then
        and_then (ok_or (normalize_gpt_partition_type raw_type)
          (blocked ''invalid-partition-type'' ''GPT partition type GUID is malformed'')) (\<lambda>t.
        ensure (t \<notin> set protected_gpt_types) ''protected-partition-role''
          ''EFI System, BIOS Boot and Extended Boot Loader partitions require a dedicated proven route'')
      else if pt_label table = Some ''dos'' then
        and_then (parse_dos_type raw_type) (\<lambda>t.
        ensure (t \<noteq> 0xea \<and> t \<noteq> 0xef) ''protected-partition-role''
          ''MBR boot-loader and EFI System partitions require a dedicated proven route'')
      else Inr ()))"

section \<open>Free sectors behind a partition\<close>

type_synonym named_range = "u64 \<times> u64 \<times> string"

definition is_extended :: "u8 \<Rightarrow> bool" where
  "is_extended kind = (kind = 0x05 \<or> kind = 0x0f \<or> kind = 0x85)"

definition adjacent_from_ranges ::
  "named_range list \<Rightarrow> partition_record \<Rightarrow> u64 \<Rightarrow> (plan_blocker, u64) result" where
  "adjacent_from_ranges ranges target limit =
     and_then (ok_or (position (\<lambda>(_, _, node). node = pr_node target) ranges)
       (blocked ''target-not-primary'' ''target partition is not a supported boundary'')) (\<lambda>index.
     let last_end = fst (snd (ranges ! index));
         next_start = (if Suc index < length ranges then fst (ranges ! Suc index) else limit)
     in ok_or (checked_sub next_start last_end)
          (blocked ''overlapping-partitions'' ''next partition overlaps the target''))"

definition ranges_overlap :: "named_range list \<Rightarrow> bool" where
  "ranges_overlap ranges = list_ex (\<lambda>(a, b). fst b < fst (snd a)) (windows2 ranges)"

fun gpt_ranges ::
  "u64 \<Rightarrow> u64 \<Rightarrow> partition_record list \<Rightarrow> (plan_blocker, named_range list) result" where
  "gpt_ranges first limit [] = Inr []"
| "gpt_ranges first limit (record # records) =
     and_then (ok_or (checked_add (pr_start_sector record) (pr_size_sectors record))
       (blocked ''size-overflow'' ''partition range exceeds u64'')) (\<lambda>stop.
     and_then (ensure (0 < pr_size_sectors record \<and> first \<le> pr_start_sector record \<and> stop \<le> limit)
       ''invalid-partition-range'' ''GPT partition lies outside the usable range'') (\<lambda>_.
     and_then (gpt_ranges first limit records) (\<lambda>rest.
     Inr ((pr_start_sector record, stop, pr_node record) # rest))))"

definition adjacent_free_gpt :: "partition_table \<Rightarrow> partition_record \<Rightarrow> (plan_blocker, u64) result" where
  "adjacent_free_gpt table target =
     and_then (ok_or (pt_first_lba table)
       (blocked ''gpt-bounds-missing'' ''GPT first usable LBA is unknown'')) (\<lambda>first.
     and_then (ok_or (pt_last_lba table)
       (blocked ''gpt-bounds-missing'' ''GPT last usable LBA is unknown'')) (\<lambda>last.
     and_then (ok_or (checked_add last 1)
       (blocked ''size-overflow'' ''GPT usable limit exceeds u64'')) (\<lambda>limit.
     and_then (gpt_ranges first limit (pt_partitions table)) (\<lambda>collected.
     let ranges = sort collected in
     and_then (ensure (\<not> ranges_overlap ranges)
       ''overlapping-partitions'' ''GPT partition ranges overlap'') (\<lambda>_.
     adjacent_from_ranges ranges target limit)))))"

definition dos_kind :: "partition_record \<Rightarrow> (plan_blocker, u8) result" where
  "dos_kind record =
     and_then (ok_or (pr_partition_type record)
       (blocked ''partition-type-missing'' ''DOS partition type is unknown'')) parse_dos_type"

fun extended_ranges :: "partition_record list \<Rightarrow> (plan_blocker, named_range list) result" where
  "extended_ranges [] = Inr []"
| "extended_ranges (record # records) =
     and_then (dos_kind record) (\<lambda>kind.
     (if is_extended kind then
        and_then (ok_or (checked_add (pr_start_sector record) (pr_size_sectors record))
          (blocked ''size-overflow'' ''extended range exceeds u64'')) (\<lambda>stop.
        and_then (extended_ranges records) (\<lambda>rest.
        Inr ((pr_start_sector record, stop, pr_node record) # rest)))
      else extended_ranges records))"

definition inside_extended :: "named_range list \<Rightarrow> partition_record \<Rightarrow> u64 \<Rightarrow> bool" where
  "inside_extended extended record stop =
     (case extended of
        [] \<Rightarrow> False
      | (start, finish, node) # _ \<Rightarrow>
          pr_node record \<noteq> node \<and> start \<le> pr_start_sector record \<and> stop \<le> finish)"

fun primary_ranges ::
  "u64 \<Rightarrow> named_range list \<Rightarrow> partition_record list \<Rightarrow> (plan_blocker, named_range list) result" where
  "primary_ranges limit extended [] = Inr []"
| "primary_ranges limit extended (record # records) =
     and_then (ok_or (checked_add (pr_start_sector record) (pr_size_sectors record))
       (blocked ''size-overflow'' ''partition range exceeds u64'')) (\<lambda>stop.
     and_then (ensure (0 < pr_size_sectors record \<and> 1 \<le> pr_start_sector record \<and> stop \<le> limit)
       ''invalid-partition-range'' ''DOS partition lies outside the addressable range'') (\<lambda>_.
     and_then (dos_kind record) (\<lambda>kind.
     and_then (ensure (kind \<noteq> 0x00 \<and> kind \<noteq> 0xee) ''unsupported-dos-layout''
       ''empty/protective DOS partition types are not supported'') (\<lambda>_.
     and_then (primary_ranges limit extended records) (\<lambda>rest.
     Inr (if inside_extended extended record stop then rest
          else (pr_start_sector record, stop, pr_node record) # rest))))))"

definition adjacent_free_dos ::
  "partition_table \<Rightarrow> partition_record \<Rightarrow> u64 \<Rightarrow> (plan_blocker, u64) result" where
  "adjacent_free_dos table target disk_sectors =
     (let limit = min disk_sectors (2 ^ 32) in
     and_then (extended_ranges (pt_partitions table)) (\<lambda>extended.
     and_then (ensure (length extended \<le> 1) ''unsupported-dos-layout''
       ''multiple extended partition containers are not supported'') (\<lambda>_.
     and_then (dos_kind target) (\<lambda>target_kind.
     and_then (ensure (\<not> is_extended target_kind) ''unsupported-dos-layout''
       ''extended partition containers cannot be grown as filesystem targets'') (\<lambda>_.
     and_then (ensure
       (case extended of
          [] \<Rightarrow> True
        | (ext_start, ext_end, _) # _ \<Rightarrow>
            \<not> (ext_start \<le> pr_start_sector target
               \<and> (case checked_add (pr_start_sector target) (pr_size_sectors target) of
                    None \<Rightarrow> False | Some stop \<Rightarrow> stop \<le> ext_end)))
       ''unsupported-logical-partition''
       ''logical partition growth inside an extended container is not supported'') (\<lambda>_.
     and_then (primary_ranges limit extended (pt_partitions table)) (\<lambda>collected.
     let primary = sort collected in
     and_then (ensure (\<not> ranges_overlap primary) ''overlapping-partitions''
       ''DOS primary/extended partition ranges overlap'') (\<lambda>_.
     adjacent_from_ranges primary target limit))))))))"

definition adjacent_free_sectors ::
  "block_device \<Rightarrow> partition_table \<Rightarrow> partition_record \<Rightarrow> (plan_blocker, u64) result" where
  "adjacent_free_sectors disk table target =
     and_then (ok_or (pt_sector_size_bytes table)
       (blocked ''sector-size-missing'' ''partition sector size is unknown'')) (\<lambda>sector.
     let disk_sectors = bd_size_bytes disk div sector in
     and_then (ok_or (pt_label table)
       (blocked ''partition-label-missing'' ''partition table label is unknown'')) (\<lambda>label.
     (if label = ''dos'' then adjacent_free_dos table target disk_sectors
      else if label = ''gpt'' then adjacent_free_gpt table target
      else Inl (blocked ''unsupported-partition-table''
        ''direct partition preview supports only DOS/MBR and GPT''))))"

section \<open>Growth stays clear of the other partitions\<close>

definition named_sectors :: "named_range \<Rightarrow> nat set" where
  "named_sectors x = {unat (fst x) ..< unat (fst (snd x))}"

definition record_range :: "partition_record \<Rightarrow> named_range" where
  "record_range r = (pr_start_sector r, pr_start_sector r + pr_size_sectors r, pr_node r)"

definition proper_ranges :: "u64 \<Rightarrow> named_range list \<Rightarrow> bool" where
  "proper_ranges limit rs = (\<forall>x\<in>set rs. fst x < fst (snd x) \<and> fst (snd x) \<le> limit)"

lemma ranges_in_order:
  assumes "proper_ranges limit rs" "\<not> ranges_overlap rs" "i < j" "j < length rs"
  shows "fst (snd (rs ! i)) \<le> fst (rs ! j)"
  using assms(3,4)
proof (induction j)
  case (Suc j)
  have step: "fst (snd (rs ! j)) \<le> fst (rs ! Suc j)"
    using assms(2) Suc.prems unfolding ranges_overlap_def list_ex_iff
    by (metis (mono_tags, lifting) case_prod_conv not_less windows2_conv_nth)
  show ?case
  proof (cases "i = j")
    case True
    with step show ?thesis by simp
  next
    case False
    with Suc have "fst (snd (rs ! i)) \<le> fst (rs ! j)" by simp
    also have "\<dots> \<le> fst (snd (rs ! j))"
      using assms(1) Suc.prems nth_mem[of j rs] by (simp add: proper_ranges_def less_imp_le)
    also note step
    finally show ?thesis .
  qed
qed simp

lemma adjacent_from_ranges_sound:
  assumes "adjacent_from_ranges rs target limit = Inr n"
    and proper: "proper_ranges limit rs" and apart: "\<not> ranges_overlap rs"
  obtains x where "x \<in> set rs" "snd (snd x) = pr_node target"
    "unat (fst (snd x)) + unat n \<le> unat limit"
    "\<And>y. y \<in> set rs \<Longrightarrow> named_sectors y \<inter> {unat (fst (snd x)) ..< unat (fst (snd x)) + unat n} = {}"
    "unat (fst (snd x)) + unat n = unat limit \<or> (\<exists>y\<in>set rs. unat (fst y) = unat (fst (snd x)) + unat n)"
proof -
  from assms(1) obtain k where pos: "position (\<lambda>(_, _, node). node = pr_node target) rs = Some k"
    and sub: "checked_sub (if Suc k < length rs then fst (rs ! Suc k) else limit) (fst (snd (rs ! k))) = Some n"
    by (auto simp: adjacent_from_ranges_def and_then_Inr Let_def)
  let ?next = "if Suc k < length rs then fst (rs ! Suc k) else limit"
  from position_Some[OF pos] have k: "k < length rs" "snd (snd (rs ! k)) = pr_node target"
    by (auto split: prod.splits)
  have x: "rs ! k \<in> set rs" using k(1) by simp
  have le: "?next \<le> limit"
  proof (cases "Suc k < length rs")
    case True
    then have "rs ! Suc k \<in> set rs" by simp
    with proper have "fst (rs ! Suc k) < fst (snd (rs ! Suc k))" "fst (snd (rs ! Suc k)) \<le> limit"
      by (auto simp: proper_ranges_def)
    with True show ?thesis by simp
  qed simp
  from checked_sub_Some[OF sub] have n: "unat (fst (snd (rs ! k))) + unat n = unat ?next" by linarith
  have apart_y: "named_sectors y \<inter> {unat (fst (snd (rs ! k))) ..< unat ?next} = {}" if "y \<in> set rs" for y
  proof -
    from that obtain j where j: "j < length rs" "rs ! j = y" by (auto simp: in_set_conv_nth)
    have jy: "fst y < fst (snd y)" using that proper by (auto simp: proper_ranges_def)
    consider "j = k" | "j < k" | "k < j" by linarith
    then show ?thesis
    proof cases
      case 1
      then show ?thesis using j(2) by (auto simp: named_sectors_def)
    next
      case 2
      from ranges_in_order[OF proper apart 2 k(1)] j have "fst (snd y) \<le> fst (rs ! k)" by simp
      moreover have "fst (rs ! k) \<le> fst (snd (rs ! k))"
        using x proper by (simp add: proper_ranges_def less_imp_le)
      ultimately show ?thesis by (auto simp: named_sectors_def word_le_nat_alt)
    next
      case 3
      then have lt: "Suc k < length rs" using j(1) by simp
      have "fst (rs ! Suc k) \<le> fst y"
      proof (cases "j = Suc k")
        case False
        with 3 have "Suc k < j" by simp
        from ranges_in_order[OF proper apart this j(1)] j(2)
        have "fst (snd (rs ! Suc k)) \<le> fst y" by simp
        moreover have "fst (rs ! Suc k) < fst (snd (rs ! Suc k))"
          using proper nth_mem[OF lt] by (simp add: proper_ranges_def)
        ultimately show ?thesis by simp
      qed (use j(2) in simp)
      with lt show ?thesis by (auto simp: named_sectors_def word_le_nat_alt)
    qed
  qed
  have "unat ?next = unat limit \<or> (\<exists>y\<in>set rs. unat (fst y) = unat ?next)"
    using nth_mem[of "Suc k" rs] by auto
  with that[of "rs ! k"] x k(2) le n apart_y show thesis by (simp only: word_le_nat_alt)
qed

lemma checked_end:
  assumes "checked_add (pr_start_sector r) (pr_size_sectors r) = Some stop"
  shows "(pr_start_sector r, stop, pr_node r) = record_range r"
    "unat (fst (snd (record_range r))) = unat (pr_start_sector r) + unat (pr_size_sectors r)"
proof -
  from assms have "stop = pr_start_sector r + pr_size_sectors r" by (simp add: checked_add_def split: if_splits)
  with checked_add_Some[OF assms] show "(pr_start_sector r, stop, pr_node r) = record_range r"
    "unat (fst (snd (record_range r))) = unat (pr_start_sector r) + unat (pr_size_sectors r)"
    by (simp_all add: record_range_def)
qed

text \<open>What is known of a record whose range was collected.\<close>

definition collected :: "u64 \<Rightarrow> partition_record \<Rightarrow> bool" where
  "collected limit r =
     (unat (fst (snd (record_range r))) = unat (pr_start_sector r) + unat (pr_size_sectors r)
      \<and> 0 < unat (pr_size_sectors r) \<and> fst (snd (record_range r)) \<le> limit)"

lemma collected_sectors: "collected limit r \<Longrightarrow> named_sectors (record_range r) = record_sectors r"
  by (simp add: collected_def named_sectors_def record_sectors_def record_range_def)

lemma collected_proper:
  assumes "\<forall>x\<in>set rs. \<exists>r\<in>R. collected limit r \<and> x = record_range r"
  shows "proper_ranges limit rs"
  unfolding proper_ranges_def
proof
  fix x assume "x \<in> set rs"
  with assms obtain r where r: "collected limit r" "x = record_range r" by blast
  then have "unat (fst x) < unat (fst (snd x))" by (simp add: collected_def record_range_def)
  with r show "fst x < fst (snd x) \<and> fst (snd x) \<le> limit"
    by (simp add: collected_def word_less_nat_alt)
qed

lemma gpt_ranges_Inr:
  "gpt_ranges first limit recs = Inr rs \<Longrightarrow>
     rs = map record_range recs \<and> (\<forall>r\<in>set recs. collected limit r \<and> first \<le> pr_start_sector r)"
proof (induction recs arbitrary: rs)
  case (Cons r recs)
  then obtain stop rest where e: "checked_add (pr_start_sector r) (pr_size_sectors r) = Some stop"
    and p: "0 < pr_size_sectors r" "first \<le> pr_start_sector r" "stop \<le> limit"
    and rest: "gpt_ranges first limit recs = Inr rest" "rs = (pr_start_sector r, stop, pr_node r) # rest"
    by (auto simp: and_then_Inr)
  note C = checked_end[OF e]
  from C(1) have "fst (snd (record_range r)) = stop" by (metis fst_conv snd_conv)
  with C p have "collected limit r" by (simp add: collected_def unat_gt_0 word_gt_0)
  with Cons.IH[OF rest(1)] rest(2) C(1) p show ?case by simp
qed simp

lemma extended_ranges_Inr:
  "extended_ranges recs = Inr rs \<Longrightarrow>
     \<forall>x\<in>set rs. \<exists>r\<in>set recs. x = record_range r \<and> (\<exists>k. dos_kind r = Inr k \<and> is_extended k)"
proof (induction recs arbitrary: rs)
  case (Cons r recs)
  then obtain kind where k: "dos_kind r = Inr kind" by (auto simp: and_then_Inr)
  show ?case
  proof (cases "is_extended kind")
    case False
    with Cons k show ?thesis by auto
  next
    case True
    with Cons.prems k obtain stop rest where
      e: "checked_add (pr_start_sector r) (pr_size_sectors r) = Some stop"
      and rest: "extended_ranges recs = Inr rest" "rs = (pr_start_sector r, stop, pr_node r) # rest"
      by (auto simp: and_then_Inr)
    from Cons.IH[OF rest(1)] rest(2) checked_end(1)[OF e] k True show ?thesis by auto
  qed
qed simp

lemma primary_ranges_Inr:
  "primary_ranges limit extended recs = Inr rs \<Longrightarrow>
     set rs = record_range ` {r \<in> set recs. \<not> inside_extended extended r (fst (snd (record_range r)))}
     \<and> (\<forall>r\<in>set recs. collected limit r)"
proof (induction recs arbitrary: rs)
  case (Cons r recs)
  then obtain stop rest where e: "checked_add (pr_start_sector r) (pr_size_sectors r) = Some stop"
    and p: "0 < pr_size_sectors r" "stop \<le> limit"
    and rest: "primary_ranges limit extended recs = Inr rest"
      "rs = (if inside_extended extended r stop then rest else (pr_start_sector r, stop, pr_node r) # rest)"
    by (auto simp: and_then_Inr)
  note C = checked_end[OF e]
  from C(1) have st: "fst (snd (record_range r)) = stop" by (metis fst_conv snd_conv)
  with C p have "collected limit r" by (simp add: collected_def unat_gt_0 word_gt_0)
  with Cons.IH[OF rest(1)] rest(2) C(1) st show ?case by auto
qed simp

text \<open>The end of the area a table may use for growth.\<close>

definition growth_limit :: "block_device \<Rightarrow> partition_table \<Rightarrow> nat" where
  "growth_limit disk table =
     (if pt_label table = Some ''dos''
      then unat (min (bd_size_bytes disk div (case pt_sector_size_bytes table of None \<Rightarrow> 0 | Some s \<Rightarrow> s)) (2 ^ 32))
      else case pt_last_lba table of None \<Rightarrow> 0 | Some l \<Rightarrow> unat l + 1)"

definition record_end :: "partition_record \<Rightarrow> nat" where
  "record_end r = unat (pr_start_sector r) + unat (pr_size_sectors r)"

text \<open>Growing the record by that many sectors stays inside the area, meets no other record, and
  nothing more is free.\<close>

definition growth_fits :: "nat \<Rightarrow> partition_table \<Rightarrow> partition_record \<Rightarrow> nat \<Rightarrow> bool" where
  "growth_fits limit table r n =
     (record_end r + n \<le> limit
      \<and> {record_end r ..< record_end r + n} \<inter> allocated_sectors table = {})"

definition growth_maximal :: "nat \<Rightarrow> partition_table \<Rightarrow> partition_record \<Rightarrow> nat \<Rightarrow> bool" where
  "growth_maximal limit table r n =
     (record_end r + n = limit
      \<or> (\<exists>q\<in>set (pt_partitions table). unat (pr_start_sector q) = record_end r + n))"

lemma only_record:
  assumes "filter (\<lambda>r. pr_node r = pr_node t) rs = [t]" "r \<in> set rs" "pr_node r = pr_node t"
  shows "r = t"
proof -
  from assms(2,3) have "r \<in> set (filter (\<lambda>r. pr_node r = pr_node t) rs)" by simp
  with assms(1) show ?thesis by simp
qed

lemma adjacent_free_gpt_sound:
  assumes "adjacent_free_gpt table target = Inr n"
    "filter (\<lambda>r. pr_node r = pr_node target) (pt_partitions table) = [target]"
  shows "\<exists>l. pt_last_lba table = Some l \<and> growth_fits (unat l + 1) table target (unat n)
    \<and> growth_maximal (unat l + 1) table target (unat n)"
proof -
  from assms(1) obtain first l limit col where
    v: "pt_last_lba table = Some l" "checked_add l 1 = Some limit"
      "gpt_ranges first limit (pt_partitions table) = Inr col" "\<not> ranges_overlap (sort col)"
      "adjacent_from_ranges (sort col) target limit = Inr n"
    by (auto simp: adjacent_free_gpt_def and_then_Inr Let_def)
  note G = gpt_ranges_Inr[OF v(3)]
  have set: "set (sort col) = record_range ` set (pt_partitions table)" using G by simp
  have proper: "proper_ranges limit (sort col)"
    by (rule collected_proper[where R = "set (pt_partitions table)"]) (use G set in auto)
  from adjacent_from_ranges_sound[OF v(5) proper v(4)] obtain x where
    x: "x \<in> set (sort col)" "snd (snd x) = pr_node target"
      "unat (fst (snd x)) + unat n \<le> unat limit"
      "\<And>y. y \<in> set (sort col) \<Longrightarrow> named_sectors y \<inter> {unat (fst (snd x)) ..< unat (fst (snd x)) + unat n} = {}"
      "unat (fst (snd x)) + unat n = unat limit \<or> (\<exists>y\<in>set (sort col). unat (fst y) = unat (fst (snd x)) + unat n)"
    by blast
  from x(1) set obtain r where r: "r \<in> set (pt_partitions table)" "x = record_range r" by auto
  with x(2) have "pr_node r = pr_node target" by (simp add: record_range_def)
  with only_record[OF assms(2) r(1)] r have xt: "x = record_range target" "target \<in> set (pt_partitions table)" by auto
  with G have e: "unat (fst (snd x)) = record_end target" by (auto simp: collected_def record_end_def)
  from checked_add_Some[OF v(2)] have lim: "unat limit = unat l + 1" by simp
  have "{record_end target ..< record_end target + unat n} \<inter> allocated_sectors table = {}"
  proof -
    have "record_sectors q \<inter> {record_end target ..< record_end target + unat n} = {}"
      if "q \<in> set (pt_partitions table)" for q
      using x(4)[of "record_range q"] that set G collected_sectors[of limit q] e by auto
    then show ?thesis by (auto simp: allocated_sectors_def)
  qed
  with x(3) e lim have "growth_fits (unat l + 1) table target (unat n)" by (simp add: growth_fits_def)
  moreover have "growth_maximal (unat l + 1) table target (unat n)"
    using x(5) e lim set unfolding growth_maximal_def by (auto simp: record_range_def)
  ultimately show ?thesis using v(1) by blast
qed

lemma adjacent_free_dos_sound:
  assumes "adjacent_free_dos table target disk_sectors = Inr n"
    "filter (\<lambda>r. pr_node r = pr_node target) (pt_partitions table) = [target]"
  shows "growth_fits (unat (min disk_sectors (2 ^ 32))) table target (unat n)
    \<and> growth_maximal (unat (min disk_sectors (2 ^ 32))) table target (unat n)"
proof -
  let ?limit = "min disk_sectors (2 ^ 32)"
  from assms(1) obtain ext kind col where
    v: "extended_ranges (pt_partitions table) = Inr ext" "dos_kind target = Inr kind" "\<not> is_extended kind"
      "primary_ranges ?limit ext (pt_partitions table) = Inr col" "\<not> ranges_overlap (sort col)"
      "adjacent_from_ranges (sort col) target ?limit = Inr n"
    by (auto simp: adjacent_free_dos_def and_then_Inr Let_def)
  note P = primary_ranges_Inr[OF v(4)] and E = extended_ranges_Inr[OF v(1)]
  have set: "set (sort col)
    = record_range ` {r \<in> set (pt_partitions table). \<not> inside_extended ext r (fst (snd (record_range r)))}"
    using P by simp
  have proper: "proper_ranges ?limit (sort col)"
    by (rule collected_proper[where R = "set (pt_partitions table)"]) (use P set in auto)
  from adjacent_from_ranges_sound[OF v(6) proper v(5)] obtain x where
    x: "x \<in> set (sort col)" "snd (snd x) = pr_node target"
      "unat (fst (snd x)) + unat n \<le> unat ?limit"
      "\<And>y. y \<in> set (sort col) \<Longrightarrow> named_sectors y \<inter> {unat (fst (snd x)) ..< unat (fst (snd x)) + unat n} = {}"
      "unat (fst (snd x)) + unat n = unat ?limit \<or> (\<exists>y\<in>set (sort col). unat (fst y) = unat (fst (snd x)) + unat n)"
    by blast
  from x(1) set obtain r where r: "r \<in> set (pt_partitions table)" "x = record_range r" by auto
  with x(2) have "pr_node r = pr_node target" by (simp add: record_range_def)
  with only_record[OF assms(2) r(1)] r have "x = record_range target" "target \<in> set (pt_partitions table)" by auto
  with P have e: "unat (fst (snd x)) = record_end target" by (auto simp: collected_def record_end_def)
  let ?new = "{record_end target ..< record_end target + unat n}"
  have listed: "record_sectors q \<inter> ?new = {}"
    if "q \<in> set (pt_partitions table)" "\<not> inside_extended ext q (fst (snd (record_range q)))" for q
    using x(4)[of "record_range q"] that set P collected_sectors[of ?limit q] e by auto
  have "record_sectors q \<inter> ?new = {}" if q: "q \<in> set (pt_partitions table)" for q
  proof (cases "inside_extended ext q (fst (snd (record_range q)))")
    case False
    with listed q show ?thesis by blast
  next
    case True
    then obtain c rest where ext: "ext = c # rest" by (auto simp: inside_extended_def split: list.splits)
    with E obtain b where b: "b \<in> set (pt_partitions table)" "c = record_range b" by auto
    have "\<not> inside_extended ext b (fst (snd (record_range b)))"
      by (simp add: inside_extended_def ext b(2)) (simp add: record_range_def)
    from listed[OF b(1) this] have "record_sectors b \<inter> ?new = {}" .
    moreover have "record_sectors q \<subseteq> record_sectors b"
    proof -
      from True have "fst (record_range b) \<le> pr_start_sector q" "fst (snd (record_range q)) \<le> fst (snd (record_range b))"
        by (auto simp: inside_extended_def ext b(2) split: prod.splits)
      with P q b(1) show ?thesis
        unfolding record_sectors_def collected_def by (auto simp: word_le_nat_alt record_range_def dest!: bspec)
    qed
    ultimately show ?thesis by blast
  qed
  then have "?new \<inter> allocated_sectors table = {}" by (auto simp: allocated_sectors_def)
  with x(3) e have "growth_fits (unat ?limit) table target (unat n)" by (simp add: growth_fits_def)
  moreover have "growth_maximal (unat ?limit) table target (unat n)"
    using x(5) e set unfolding growth_maximal_def by (auto simp: record_range_def)
  ultimately show ?thesis by blast
qed

lemma adjacent_free_sectors_sound:
  assumes "adjacent_free_sectors disk table target = Inr n"
    "filter (\<lambda>r. pr_node r = pr_node target) (pt_partitions table) = [target]"
  shows "growth_fits (growth_limit disk table) table target (unat n)"
    "growth_maximal (growth_limit disk table) table target (unat n)"
proof -
  from assms(1) obtain sector label where "pt_sector_size_bytes table = Some sector" "pt_label table = Some label"
    "label = ''dos'' \<and> adjacent_free_dos table target (bd_size_bytes disk div sector) = Inr n
     \<or> label = ''gpt'' \<and> adjacent_free_gpt table target = Inr n"
    by (auto simp: adjacent_free_sectors_def and_then_Inr Let_def split: if_splits)
  then have "growth_fits (growth_limit disk table) table target (unat n)
      \<and> growth_maximal (growth_limit disk table) table target (unat n)"
    using adjacent_free_gpt_sound[OF _ assms(2)] adjacent_free_dos_sound[OF _ assms(2)]
    by (fastforce simp: growth_limit_def)
  then show "growth_fits (growth_limit disk table) table target (unat n)"
    "growth_maximal (growth_limit disk table) table target (unat n)" by auto
qed

lemma growth_fits_mono: "growth_fits limit table r n \<Longrightarrow> k \<le> n \<Longrightarrow> growth_fits limit table r k"
  by (fastforce simp: growth_fits_def)

end
