(* ===== verification/ExtendTypes.thy ===== *)
theory ExtendTypes
  imports RouteGraph GrowthGeometry
begin

text \<open>
  The data of the extend planner of \<open>crates/planner/src/lib.rs\<close>, its semantic adapter over the
  layer route, the topology predicates \<open>contains_device\<close> and \<open>supported_chain\<close>, and the checks
  that its candidate builders share: complete collectors, no error diagnostics, available tools.
\<close>

section \<open>Data\<close>

record extend_request =
  erq_target :: string
  erq_growth :: growth

datatype preflight_state = PfVerified | PfRequired

record preflight_check =
  pfc_code :: string
  pfc_state :: preflight_state
  pfc_message :: string

datatype reversibility = RvNotApplicable | RvReversible | RvIrreversible

text \<open>The fields of an operation in the order of the code.\<close>

datatype operation =
  OpRevalidateSnapshot
| OpBackupLvmMetadata string
| OpBackupPartitionTableMetadata string string "string option"
| OpExtendPartition string u64 u64 u64 u64
| OpResizePhysicalVolume string u64
| OpExtendLogicalVolume string u64 u64
| OpGrowFilesystem string "string option"
| OpRediscoverAndVerify

record plan_step =
  pst_id :: u32
  pst_depends_on :: "u32 list"
  pst_operation :: operation
  pst_reversibility :: reversibility

record size_change =
  szc_device :: string
  szc_current_lv_size_bytes :: u64
  szc_requested_growth_bytes :: u64
  szc_rounded_growth_bytes :: u64
  szc_expected_lv_size_bytes :: u64
  szc_extent_size_bytes :: u64
  szc_remaining_vg_free_bytes :: u64

record partition_size_change =
  psc_device :: string
  psc_disk :: string
  psc_current_partition_size_bytes :: u64
  psc_requested_growth_bytes :: u64
  psc_rounded_growth_bytes :: u64
  psc_expected_partition_size_bytes :: u64
  psc_sector_size_bytes :: u64
  psc_remaining_adjacent_free_bytes :: u64

record filesystem_size_change =
  fsc_device :: string
  fsc_mountpoint :: string
  fsc_fs_type :: string
  fsc_current_filesystem_size_bytes :: u64
  fsc_backing_device_size_bytes :: u64
  fsc_requested_growth_bytes :: u64
  fsc_rounded_growth_bytes :: u64
  fsc_expected_filesystem_size_bytes :: u64
  fsc_filesystem_block_size_bytes :: u64
  fsc_remaining_backing_free_bytes :: u64

record layout_opportunity =
  lop_code :: string
  lop_disk :: string
  lop_target :: string
  lop_sector_size_bytes :: u64
  lop_max_target_growth_bytes :: u64
  lop_disk_tail_free_bytes :: u64
  lop_swap_bytes :: u64
  lop_blocking_devices :: "string list"

record layout_alternative =
  lal_code :: string
  lal_summary :: string
  lal_disk :: string
  lal_target :: string
  lal_requested_growth_bytes :: u64
  lal_disk_tail_free_bytes :: u64
  lal_swap_bytes :: u64
  lal_required_partition_growth_bytes :: u64
  lal_remaining_raw_tail_bytes :: u64
  lal_blocking_devices :: "string list"
  lal_steps :: "string list"

record growth_route_alternative =
  gra_code :: string
  gra_summary :: string
  gra_target :: string
  gra_disk :: string
  gra_partition :: "string option"
  gra_physical_volume :: string
  gra_volume_group :: string
  gra_logical_volume :: string
  gra_extent_size_bytes :: u64
  gra_sector_size_bytes :: u64
  gra_existing_vg_free_bytes :: u64
  gra_pv_device_slack_bytes :: u64
  gra_adjacent_partition_free_bytes :: u64
  gra_max_growth_bytes :: u64
  gra_requested_growth_bytes :: u64
  gra_required_partition_growth_bytes :: u64
  gra_steps :: "string list"

datatype extend_planner_profile =
  EppDirectPartition | EppLvm | EppWholeBlockFilesystem | EppLegacyFailClosed

record extend_route_adapter =
  era_profile :: extend_planner_profile
  era_resolved_device :: "string option"
  era_mountpoint :: "string option"
  era_status :: layer_route_status
  era_issue_codes :: "string list"

record plan_preview =
  ppv_schema_version :: u32
  ppv_plan_id :: string
  ppv_snapshot_digest :: string
  ppv_dry_run :: bool
  ppv_executable :: bool
  ppv_status :: plan_status
  ppv_request :: extend_request
  ppv_size_change :: "size_change option"
  ppv_partition_size_change :: "partition_size_change option"
  ppv_filesystem_size_change :: "filesystem_size_change option"
  ppv_layout_alternatives :: "layout_alternative list"
  ppv_growth_route_alternatives :: "growth_route_alternative list"
  ppv_blockers :: "plan_blocker list"
  ppv_preflight_checks :: "preflight_check list"
  ppv_steps :: "plan_step list"
  ppv_notices :: "string list"

section \<open>The semantic adapter\<close>

definition is_block_layer :: "route_layer_kind \<Rightarrow> bool" where
  "is_block_layer k = (k \<notin> {RlLvmPhysicalVolume, RlLvmVolumeGroup, RlFilesystem, RlMount})"

definition extend_profile_from_route :: "layer_route \<Rightarrow> extend_planner_profile" where
  "extend_profile_from_route route =
     (case filter is_block_layer (map rl_kind (rev (lr_layers route))) of
        [] \<Rightarrow> EppLegacyFailClosed
      | k # _ \<Rightarrow>
          (if k = RlPartition then EppDirectPartition
           else if k = RlLvmLogicalVolume then EppLvm
           else if k = RlDisk \<or> k = RlLoopDevice then EppWholeBlockFilesystem
           else EppLegacyFailClosed))"

definition resolve_extend_route_adapter :: "host_snapshot \<Rightarrow> string \<Rightarrow> extend_route_adapter" where
  "resolve_extend_route_adapter snapshot target =
     (let route = analyze_layer_route snapshot target in
      \<lparr> era_profile = extend_profile_from_route route,
        era_resolved_device = lr_resolved_device route,
        era_mountpoint = lr_mountpoint route, era_status = lr_status route,
        era_issue_codes = map ri_code (lr_issues route) \<rparr>)"

definition select_extend_planner_profile :: "host_snapshot \<Rightarrow> string \<Rightarrow> extend_planner_profile" where
  "select_extend_planner_profile snapshot target =
     era_profile (resolve_extend_route_adapter snapshot target)"

definition semantic_layer_blocker :: "host_snapshot \<Rightarrow> string \<Rightarrow> plan_blocker option" where
  "semantic_layer_blocker snapshot target =
     (let route = analyze_layer_route snapshot target in
      if lr_resolved_device route = None \<or> lr_status route = LrsSupportedProfile then None
      else case lr_issues route of
        [] \<Rightarrow> None
      | issue # _ \<Rightarrow> Some (blocked (ri_code issue) (ri_message issue)))"

section \<open>Topology\<close>

function contains_from :: "address \<Rightarrow> nat \<Rightarrow> block_device list \<Rightarrow> node_ref \<Rightarrow> bool" where
  "contains_from pre i [] target = False"
| "contains_from pre i (d # ds) target =
     (ptr_eq (pre @ [i], d) target
      \<or> contains_from (pre @ [i]) 0 (bd_children d) target
      \<or> contains_from pre (Suc i) ds target)"
  by pat_completeness auto
termination
  by (relation "measure (\<lambda>(_, _, ds, _). size_list size ds)") (auto simp: less_Suc_eq_le)

definition contains_device :: "node_ref \<Rightarrow> node_ref \<Rightarrow> bool" where
  "contains_device parent target = contains_from (fst parent) 0 (bd_children (ref_node parent)) target"

definition chain_kind :: "node_kind \<Rightarrow> bool" where
  "chain_kind k = (k = NkDisk \<or> k = NkPartition \<or> k = NkLoop)"

function supported_chain_from ::
  "address \<Rightarrow> nat \<Rightarrow> block_device list \<Rightarrow> node_ref \<Rightarrow> bool \<Rightarrow> bool" where
  "supported_chain_from pre i [] target safe = False"
| "supported_chain_from pre i (d # ds) target safe =
     ((if ptr_eq (pre @ [i], d) target then safe
       else supported_chain_from (pre @ [i]) 0 (bd_children d) target (safe \<and> chain_kind (bd_kind d)))
      \<or> supported_chain_from pre (Suc i) ds target safe)"
  by pat_completeness auto
termination
  by (relation "measure (\<lambda>(_, _, ds, _, _). size_list size ds)") (auto simp: less_Suc_eq_le)

definition supported_chain :: "block_device list \<Rightarrow> node_ref \<Rightarrow> bool \<Rightarrow> bool" where
  "supported_chain devices target safe = supported_chain_from [] 0 devices target safe"

section \<open>Shared checks\<close>

definition snapshot_nodes :: "host_snapshot \<Rightarrow> node_ref list" where
  "snapshot_nodes snapshot = flatten (sg_block_devices (hs_storage snapshot))"

definition collectors_complete ::
  "host_snapshot \<Rightarrow> string list \<Rightarrow> string \<Rightarrow> (plan_blocker, unit) result" where
  "collectors_complete snapshot components message =
     first_error (map (\<lambda>component.
       and_then (unique (filter (\<lambda>s. cs_component s = component) (hs_collectors snapshot))
         ''collector-incomplete'') (\<lambda>status.
       ensure (cs_state status = CsComplete) ''collector-incomplete'' message)) components)"

definition has_error_diagnostic :: "host_snapshot \<Rightarrow> bool" where
  "has_error_diagnostic snapshot = list_ex (\<lambda>d. sd_severity d = DsError) (hs_diagnostics snapshot)"

definition no_error_diagnostics :: "host_snapshot \<Rightarrow> (plan_blocker, unit) result" where
  "no_error_diagnostics snapshot =
     ensure (\<not> has_error_diagnostic snapshot) ''diagnostic-error''
       ''the snapshot contains error-level diagnostics''"

definition tools_available ::
  "host_capabilities \<Rightarrow> string list \<Rightarrow> string \<Rightarrow> (plan_blocker, unit) result" where
  "tools_available capabilities tools message =
     first_error (map (\<lambda>tool.
       and_then (unique (filter (\<lambda>c. tc_name c = tool) (hc_tools capabilities)) ''tool-unavailable'')
         (\<lambda>capability. ensure (tc_available capability) ''tool-unavailable'' message)) tools)"

definition target_valid :: "string \<Rightarrow> bool" where
  "target_valid target = (target \<noteq> [] \<and> \<not> has_control target)"

text \<open>The one matching read-write mount; \<open>named\<close> tells whether a source names the device.\<close>

definition mount_confirmed :: "(string \<Rightarrow> bool) \<Rightarrow> string \<Rightarrow> block_device \<Rightarrow> mount_entry \<Rightarrow> bool" where
  "mount_confirmed named t device mount =
     ((case me_source mount of None \<Rightarrow> False | Some source \<Rightarrow> named source)
      \<and> me_fs_type mount = Some t
      \<and> ''rw'' \<in> set (me_options mount)
      \<and> \<not> list_ex (\<lambda>o'. o' = ''ro'' \<or> o' = ''bind'' \<or> o' = ''rbind'') (me_options mount)
      \<and> bd_mountpoints device = [me_target mount])"

definition grow_tool :: "string \<Rightarrow> string" where
  "grow_tool t = (if t = ''xfs'' then ''xfs_growfs'' else ''resize2fs'')"

definition growable_type :: "string \<Rightarrow> bool" where
  "growable_type t = (t = ''ext4'' \<or> t = ''xfs'')"

text \<open>\<open>value.as_deref().is_some_and(|s| !s.is_empty())\<close>.\<close>

definition nonempty_some :: "string option \<Rightarrow> bool" where
  "nonempty_some x = (case x of None \<Rightarrow> False | Some s \<Rightarrow> s \<noteq> [])"

definition step :: "u32 \<Rightarrow> operation \<Rightarrow> reversibility \<Rightarrow> plan_step" where
  "step n operation reversibility =
     \<lparr> pst_id = n, pst_depends_on = (if n = 1 then [] else [n - 1]),
       pst_operation = operation, pst_reversibility = reversibility \<rparr>"

definition ok_opt :: "('e, 'a) result \<Rightarrow> 'a option" where
  "ok_opt r = (case r of Inl _ \<Rightarrow> None | Inr x \<Rightarrow> Some x)"

definition units_for :: "u64 \<Rightarrow> u64 \<Rightarrow> u64" where
  "units_for bytes unit = bytes div unit + (if bytes mod unit \<noteq> 0 then 1 else 0)"

lemma ok_opt_Some [simp]: "ok_opt r = Some x \<longleftrightarrow> r = Inr x"
  by (cases r) (simp_all add: ok_opt_def)

lemma units_for_ceil: "d \<noteq> 0 \<Longrightarrow> ceil_div v d = Some (units_for v d)"
  by (simp add: ceil_div_def units_for_def)

lemma units_for_nat:
  "d \<noteq> 0 \<Longrightarrow> unat (units_for v d) * unat d = round_up (unat v) (unat d)"
  using ceil_div_unat(1)[OF units_for_ceil] by (simp add: round_up_def)

end
