(* ===== verification/ExtendPlan.thy ===== *)
theory ExtendPlan
  imports ExtendTypes
begin

text \<open>
  The candidate builders of the extend planner of \<open>crates/planner/src/lib.rs\<close>: a filesystem on a
  whole block device, a direct partition, a logical volume inside its volume group, and a logical
  volume whose physical volume can grow first.
\<close>

section \<open>A filesystem on a whole block device\<close>

definition filesystem_geometry_check ::
  "filesystem_preflight_evidence \<Rightarrow> u64 \<Rightarrow> (plan_blocker, u64 \<times> u64) result" where
  "filesystem_geometry_check evidence device_bytes =
     and_then (ensure (fpe_state evidence = FpsVerified) ''filesystem-size-evidence-incomplete''
       ''filesystem metadata/geometry evidence must be verified'') (\<lambda>_.
     and_then (ok_or (fpe_block_size_bytes evidence) (blocked ''filesystem-block-size-missing''
       ''filesystem block size is absent from read-only metadata evidence'')) (\<lambda>block_size.
     and_then (ok_or (fpe_block_count evidence) (blocked ''filesystem-block-count-missing''
       ''filesystem block count is absent from read-only metadata evidence'')) (\<lambda>block_count.
     and_then (ok_or (fpe_size_bytes evidence) (blocked ''filesystem-size-evidence-missing''
       ''filesystem size is absent from read-only metadata evidence'')) (\<lambda>filesystem_size.
     and_then (ensure (512 \<le> block_size \<and> is_power_of_two block_size) ''filesystem-block-size-invalid''
       ''filesystem block size is invalid'') (\<lambda>_.
     and_then (ensure (checked_mul block_count block_size = Some filesystem_size)
       ''filesystem-geometry-mismatch''
       ''filesystem block count, block size and total size disagree'') (\<lambda>_.
     and_then (ensure (0 < filesystem_size \<and> filesystem_size \<le> device_bytes)
       ''filesystem-capacity-mismatch''
       ''filesystem size exceeds or invalidates the backing device capacity'') (\<lambda>_.
     Inr (block_size, filesystem_size))))))))"

text \<open>The requested and the rounded growth, the new size.\<close>

definition filesystem_growth_sizes ::
  "growth \<Rightarrow> u64 \<Rightarrow> u64 \<Rightarrow> u64 \<Rightarrow> (plan_blocker, u64 \<times> u64 \<times> u64) result" where
  "filesystem_growth_sizes amount block_size filesystem_size device_bytes =
     (let available_blocks = (device_bytes - filesystem_size) div block_size in
     and_then (ok_or (checked_mul available_blocks block_size)
       (blocked ''size-overflow'' ''filesystem growth exceeds u64'')) (\<lambda>max_growth.
     and_then (ensure (0 < max_growth) ''no-growth''
       ''backing device has less than one filesystem block of verified free capacity'') (\<lambda>_.
     and_then (case amount of
         ByBytes bytes \<Rightarrow>
           and_then (ensure (0 < bytes) ''no-growth'' ''requested growth is zero'') (\<lambda>_.
           and_then (ok_or (checked_mul (units_for bytes block_size) block_size)
             (blocked ''size-overflow'' ''filesystem growth exceeds u64'')) (\<lambda>rounded.
           Inr (bytes, rounded)))
       | MaxFree \<Rightarrow> Inr (max_growth, max_growth)) (\<lambda>(requested, rounded).
     and_then (ensure (rounded \<le> max_growth) ''insufficient-capacity''
       ''filesystem-block-aligned request exceeds verified backing-device slack'') (\<lambda>_.
     and_then (ok_or (checked_add filesystem_size rounded)
       (blocked ''size-overflow'' ''new filesystem size exceeds u64'')) (\<lambda>expected.
     and_then (ensure (expected \<le> device_bytes) ''filesystem-capacity-mismatch''
       ''expected filesystem size exceeds backing device capacity'') (\<lambda>_.
     Inr (requested, rounded, expected))))))))"

definition build_whole_filesystem_candidate ::
  "host_snapshot \<Rightarrow> host_capabilities \<Rightarrow> extend_request
     \<Rightarrow> (plan_blocker, filesystem_size_change \<times> plan_step list) result" where
  "build_whole_filesystem_candidate snapshot capabilities request =
     and_then (collectors_complete snapshot [''lsblk'', ''mounts'', ''fstab'', ''swap'']
       ''all whole-device filesystem preview collectors must complete'') (\<lambda>_.
     and_then (no_error_diagnostics snapshot) (\<lambda>_.
     let route = resolve_extend_route_adapter snapshot (erq_target request) in
     and_then (ensure (era_profile route = EppWholeBlockFilesystem) ''route-profile-mismatch''
       ''whole-device filesystem builder received a non-whole-device semantic route'') (\<lambda>_.
     and_then (ok_or (era_resolved_device route) (blocked ''route-device-not-found''
       ''whole-device filesystem target did not resolve to one device'')) (\<lambda>dev_path.
     and_then (unique (filter (\<lambda>d. node_alias (ref_node d) dev_path) (snapshot_nodes snapshot))
       ''ambiguous-device'') (\<lambda>device_ref.
     let device = ref_node device_ref in
     and_then (ensure (disk_or_loop device) ''unsupported-layout''
       ''whole-device filesystem preview requires a disk or loop-device target'') (\<lambda>_.
     and_then (ensure (bd_children device = []) ''unsupported-layout''
       ''whole-device filesystem target has stacked consumers'') (\<lambda>_.
     and_then (ok_or (bd_filesystem device)
       (blocked ''filesystem-missing'' ''filesystem type is absent'')) (\<lambda>fs.
     and_then (ensure (growable_type (fs_type fs)) ''unsupported-filesystem''
       ''whole-device filesystem preview supports only ext4 and XFS'') (\<lambda>_.
     and_then (ensure (nonempty_some (bd_uuid device)) ''identity-missing''
       ''filesystem UUID is required for whole-device preview'') (\<lambda>_.
     and_then (ok_or (era_mountpoint route)
       (blocked ''mount-not-unique'' ''target filesystem is not uniquely mounted'')) (\<lambda>mountpoint.
     and_then (unique (filter (\<lambda>m. me_target m = mountpoint) (hs_mounts snapshot))
       ''mount-not-unique'') (\<lambda>mount.
     and_then (ensure (mount_confirmed (node_alias device) (fs_type fs) device mount)
       ''mount-state-mismatch''
       ''one matching read-write mount must be confirmed by lsblk and findmnt'') (\<lambda>_.
     and_then (ensure (\<not> list_ex (\<lambda>swap. node_alias device (se_name swap)) (hs_swaps snapshot))
       ''active-swap'' ''the target is reported as active swap'') (\<lambda>_.
     and_then (tools_available capabilities [grow_tool (fs_type fs)]
       ''required filesystem grow tool is unavailable'') (\<lambda>_.
     and_then (unique (filter (\<lambda>e. fpe_device e = dev_path \<and> fpe_mountpoint e = Some (me_target mount)
         \<and> fpe_fs_type e = fs_type fs) (hs_filesystem_preflight snapshot))
       ''filesystem-size-evidence-missing'') (\<lambda>evidence.
     and_then (filesystem_geometry_check evidence (bd_size_bytes device)) (\<lambda>(block_size, filesystem_size).
     and_then (filesystem_growth_sizes (erq_growth request) block_size filesystem_size
       (bd_size_bytes device)) (\<lambda>(requested, rounded, expected).
     Inr (\<lparr> fsc_device = dev_path, fsc_mountpoint = me_target mount, fsc_fs_type = fs_type fs,
            fsc_current_filesystem_size_bytes = filesystem_size,
            fsc_backing_device_size_bytes = bd_size_bytes device,
            fsc_requested_growth_bytes = requested, fsc_rounded_growth_bytes = rounded,
            fsc_expected_filesystem_size_bytes = expected,
            fsc_filesystem_block_size_bytes = block_size,
            fsc_remaining_backing_free_bytes = bd_size_bytes device - expected \<rparr>,
          [step 1 OpRevalidateSnapshot RvNotApplicable,
           step 2 (OpGrowFilesystem (fs_type fs) (Some (me_target mount))) RvIrreversible,
           step 3 OpRediscoverAndVerify RvNotApplicable])))))))))))))))))))"

section \<open>A direct partition\<close>

text \<open>The parent disk of a partition, its table and its record.\<close>

definition partition_parent_disk ::
  "host_snapshot \<Rightarrow> block_device \<Rightarrow> (plan_blocker, block_device) result" where
  "partition_parent_disk snapshot device =
     and_then (ok_or (bd_parent_kernel_name device)
       (blocked ''parent-missing'' ''partition parent is unknown'')) (\<lambda>parent_name.
     and_then (unique (filter (\<lambda>c. disk_or_loop (ref_node c)
         \<and> bd_kernel_name (ref_node c) = Some parent_name) (snapshot_nodes snapshot))
       ''parent-not-resolved'') (\<lambda>disk. Inr (ref_node disk)))"

definition partition_growth_sizes ::
  "growth \<Rightarrow> u64 \<Rightarrow> u64 \<Rightarrow> u64 \<Rightarrow> (plan_blocker, u64 \<times> u64 \<times> u64 \<times> u64 \<times> u64) result" where
  "partition_growth_sizes amount sector size_sectors adjacent_sectors =
     and_then (ok_or (checked_mul adjacent_sectors sector)
       (blocked ''size-overflow'' ''adjacent capacity exceeds u64'')) (\<lambda>adjacent_bytes.
     let requested = (case amount of ByBytes bytes \<Rightarrow> bytes | MaxFree \<Rightarrow> adjacent_bytes) in
     and_then (ensure (0 < requested) ''no-growth''
       ''requested growth or verified adjacent capacity is zero'') (\<lambda>_.
     let growth_sectors = units_for requested sector in
     and_then (ensure (growth_sectors \<le> adjacent_sectors) ''insufficient-adjacent-capacity''
       ''sector-rounded request exceeds verified adjacent free space'') (\<lambda>_.
     and_then (ok_or (checked_mul growth_sectors sector)
       (blocked ''size-overflow'' ''growth exceeds u64'')) (\<lambda>rounded.
     and_then (ok_or (checked_add size_sectors growth_sectors)
       (blocked ''size-overflow'' ''new partition size exceeds u64'')) (\<lambda>new_size_sectors.
     and_then (ok_or (checked_mul new_size_sectors sector)
       (blocked ''size-overflow'' ''new partition size exceeds u64'')) (\<lambda>expected_size.
     Inr (requested, rounded, new_size_sectors, expected_size, adjacent_bytes - rounded)))))))"

definition partition_geometry_agrees ::
  "block_device \<Rightarrow> partition_record \<Rightarrow> u64 \<Rightarrow> (plan_blocker, u64) result" where
  "partition_geometry_agrees device record sector =
     and_then (ok_or (checked_mul (pr_start_sector record) sector)
       (blocked ''size-overflow'' ''partition start exceeds u64'')) (\<lambda>start_bytes.
     and_then (ensure (Option.bind (bd_start_512_sector device) (\<lambda>start. checked_mul start 512) = Some start_bytes)
       ''partition-start-mismatch'' ''lsblk and partition table disagree on partition start'') (\<lambda>_.
     and_then (ok_or (checked_mul (pr_size_sectors record) sector)
       (blocked ''size-overflow'' ''partition size exceeds u64'')) (\<lambda>current_size.
     and_then (ensure (current_size = bd_size_bytes device) ''partition-size-mismatch''
       ''lsblk and partition table disagree on target partition size'') (\<lambda>_.
     Inr current_size))))"

definition try_build_partition_candidate ::
  "host_snapshot \<Rightarrow> host_capabilities \<Rightarrow> extend_request
     \<Rightarrow> (plan_blocker, (partition_size_change \<times> plan_step list) option) result" where
  "try_build_partition_candidate snapshot capabilities request =
     and_then (ensure (target_valid (erq_target request)) ''invalid-target''
       ''target must be a nonempty device path or exact mountpoint'') (\<lambda>_.
     let route = resolve_extend_route_adapter snapshot (erq_target request) in
     if era_profile route \<noteq> EppDirectPartition then Inr None
     else
     and_then (ok_or (era_resolved_device route) (blocked ''route-device-not-found''
       ''direct-partition target did not resolve to one device'')) (\<lambda>resolved_device.
     and_then (unique (filter (\<lambda>d. bd_kind (ref_node d) = NkPartition
         \<and> node_alias (ref_node d) resolved_device) (snapshot_nodes snapshot)) ''ambiguous-device'') (\<lambda>device_ref.
     let device = ref_node device_ref in
     and_then (collectors_complete snapshot
       [''lsblk'', ''partition_tables'', ''mounts'', ''fstab'', ''swap'']
       ''all direct-partition preview collectors must complete'') (\<lambda>_.
     and_then (no_error_diagnostics snapshot) (\<lambda>_.
     and_then (ensure (bd_children device = []) ''unsupported-layout''
       ''stacked consumers above the partition are not supported'') (\<lambda>_.
     and_then (ok_or (bd_filesystem device)
       (blocked ''filesystem-missing'' ''filesystem type is absent'')) (\<lambda>fs.
     and_then (ensure (growable_type (fs_type fs)) ''unsupported-filesystem''
       ''direct partition filesystem is unsupported; only ext4 and XFS previews are supported'') (\<lambda>_.
     and_then (ok_or (era_mountpoint route)
       (blocked ''mount-not-unique'' ''direct-partition target is not uniquely mounted'')) (\<lambda>mountpoint.
     and_then (unique (filter (\<lambda>m. me_target m = mountpoint) (hs_mounts snapshot))
       ''mount-not-unique'') (\<lambda>mount.
     and_then (ensure (mount_confirmed (node_alias device) (fs_type fs) device mount
         \<and> length (filter (\<lambda>m. me_target m = me_target mount) (hs_mounts snapshot)) = 1)
       ''mount-state-mismatch''
       ''one matching read-write mount must be confirmed by lsblk and findmnt'') (\<lambda>_.
     and_then (ensure (\<not> list_ex (\<lambda>swap. node_alias device (se_name swap)) (hs_swaps snapshot))
       ''active-swap'' ''the target is reported as active swap'') (\<lambda>_.
     and_then (tools_available capabilities [''sfdisk'', grow_tool (fs_type fs)]
       ''a required future operation tool is unavailable'') (\<lambda>_.
     and_then (partition_parent_disk snapshot device) (\<lambda>disk.
     and_then (ok_or (bd_path disk) (blocked ''parent-not-resolved'' ''disk path is absent'')) (\<lambda>disk_path.
     and_then (ok_or (bd_path device)
       (blocked ''device-path-missing'' ''partition path is absent'')) (\<lambda>dev_path.
     and_then (unique (filter (\<lambda>t. pt_device t = disk_path) (hs_partition_tables snapshot))
       ''partition-table-not-unique'') (\<lambda>table.
     and_then (ok_or (pt_sector_size_bytes table)
       (blocked ''sector-size-missing'' ''partition sector size is unknown'')) (\<lambda>sector.
     and_then (ensure (512 \<le> sector \<and> is_power_of_two sector \<and> bd_logical_sector_bytes device = Some sector)
       ''sector-size-mismatch''
       ''partition-table and block-device logical sector sizes disagree'') (\<lambda>_.
     and_then (unique (filter (\<lambda>r. pr_node r = dev_path) (pt_partitions table))
       ''partition-record-not-unique'') (\<lambda>record.
     and_then (ensure_partition_role_is_growable table record) (\<lambda>_.
     and_then (partition_geometry_agrees device record sector) (\<lambda>current_size.
     and_then (adjacent_free_sectors disk table record) (\<lambda>adjacent_sectors.
     and_then (partition_growth_sizes (erq_growth request) sector (pr_size_sectors record) adjacent_sectors)
       (\<lambda>(requested, rounded, new_size_sectors, expected_size, remaining).
     and_then (ok_or (pt_label table)
       (blocked ''partition-label-missing'' ''partition table label is unknown'')) (\<lambda>label.
     Inr (Some (\<lparr> psc_device = dev_path, psc_disk = disk_path,
                 psc_current_partition_size_bytes = current_size,
                 psc_requested_growth_bytes = requested, psc_rounded_growth_bytes = rounded,
                 psc_expected_partition_size_bytes = expected_size, psc_sector_size_bytes = sector,
                 psc_remaining_adjacent_free_bytes = remaining \<rparr>,
       [step 1 OpRevalidateSnapshot RvNotApplicable,
        step 2 (OpBackupPartitionTableMetadata disk_path label (pt_id table)) RvReversible,
        step 3 (OpExtendPartition dev_path (pr_start_sector record) (pr_size_sectors record)
          new_size_sectors sector) RvIrreversible,
        step 4 (OpGrowFilesystem (fs_type fs) (Some mountpoint)) RvIrreversible,
        step 5 OpRediscoverAndVerify RvNotApplicable])))))))))))))))))))))))))))"

section \<open>A logical volume inside its group\<close>

definition lv_resolved ::
  "host_snapshot \<Rightarrow> lvm_inventory \<Rightarrow> extend_route_adapter
     \<Rightarrow> (plan_blocker, node_ref \<times> lvm_logical_volume) result" where
  "lv_resolved snapshot lvm route =
     and_then (ensure (era_profile route = EppLvm) ''route-profile-mismatch''
       ''LVM builder received a non-LVM semantic route'') (\<lambda>_.
     and_then (ok_or (era_resolved_device route) (blocked ''route-device-not-found''
       ''LVM target did not resolve to one logical-volume device'')) (\<lambda>resolved_device.
     and_then (unique (filter (\<lambda>d. node_alias (ref_node d) resolved_device) (snapshot_nodes snapshot))
       ''ambiguous-device'') (\<lambda>device.
     and_then (unique (filter (\<lambda>lv. lv_device lv (ref_node device)) (li_logical_volumes lvm))
       ''ambiguous-lv'') (\<lambda>lv.
     Inr (device, lv)))))"

definition lv_layout_check ::
  "host_snapshot \<Rightarrow> extend_route_adapter \<Rightarrow> node_ref \<Rightarrow> lvm_logical_volume \<Rightarrow> (plan_blocker, unit) result" where
  "lv_layout_check snapshot route device lv =
     first_error [
       ensure (bd_kind (ref_node device) = NkLvm) ''unsupported-layout''
         ''target must be an LVM logical volume'',
       ensure (bd_children (ref_node device) = []) ''unsupported-layout''
         ''stacked consumers above the LV are not supported'',
       ensure (supported_chain (sg_block_devices (hs_storage snapshot)) device True) ''unsupported-layout''
         ''encrypted, RAID, multipath or unknown ancestor layers are not supported'',
       ensure (lv_layout lv = Some ''linear'' \<and> lv_role lv = Some ''public''
           \<and> lv_attributes lv
               = Some (if era_mountpoint route \<noteq> None then ''-wi-ao----'' else ''-wi-a-----''))
         ''unsupported-lv''
         (if era_mountpoint route \<noteq> None
          then ''mounted growth requires a public, linear, writable, active and open LV''
          else ''offline growth requires a public, linear, writable, active and not-open LV'')]"

text \<open>The one volume group of the volume and its one physical volume, with the node below.\<close>

definition lv_group ::
  "host_snapshot \<Rightarrow> lvm_inventory \<Rightarrow> lvm_logical_volume
     \<Rightarrow> (plan_blocker, lvm_volume_group \<times> lvm_physical_volume \<times> node_ref) result" where
  "lv_group snapshot lvm lv =
     and_then (unique (filter (\<lambda>v. vg_name v = lv_vg_name lv) (li_volume_groups lvm))
       ''ambiguous-vg'') (\<lambda>vg.
     and_then (ensure (vg_attributes vg = Some ''wz--n-'' \<and> vg_missing_pv_count vg = Some 0) ''unsupported-vg''
       ''VG must be local, writable, resizable, nonpartial and nonshared'') (\<lambda>_.
     and_then (ensure (vg_pv_count vg = 1) ''multi-pv-not-supported''
       ''M1A previews are limited to a single-PV VG'') (\<lambda>_.
     and_then (unique (filter (\<lambda>p. pv_vg_name p = Some (vg_name vg)) (li_physical_volumes lvm))
       ''ambiguous-pv'') (\<lambda>pv.
     and_then (unique (filter (\<lambda>d. node_alias (ref_node d) (pv_name pv)) (snapshot_nodes snapshot))
       ''pv-not-resolved'') (\<lambda>pv_device.
     Inr (vg, pv, pv_device))))))"

definition has_filesystem_type :: "block_device \<Rightarrow> string \<Rightarrow> bool" where
  "has_filesystem_type d t = (map_option fs_type (bd_filesystem d) = Some t)"

definition lvm_identity_check ::
  "node_ref \<Rightarrow> lvm_logical_volume \<Rightarrow> lvm_volume_group \<Rightarrow> lvm_physical_volume \<Rightarrow> node_ref
     \<Rightarrow> (plan_blocker, unit) result" where
  "lvm_identity_check device lv vg pv pv_device =
     first_error (
       [ensure (chain_kind (bd_kind (ref_node pv_device)) \<and> contains_device pv_device device
           \<and> has_filesystem_type (ref_node pv_device) ''LVM2_member'') ''pv-topology-mismatch''
          ''the PV must be the verified ancestor of this LV'']
       @ map (\<lambda>i. ensure (nonempty_some i) ''identity-missing''
           ''PV, VG, LV and filesystem UUIDs are required'')
         [pv_uuid pv, vg_uuid vg, lv_uuid lv, bd_uuid (ref_node device)]
       @ [ensure (bd_uuid (ref_node pv_device) = pv_uuid pv) ''pv-uuid-mismatch''
            ''lsblk and LVM disagree on the PV UUID'',
          ensure (lv_size_bytes lv = bd_size_bytes (ref_node device) \<and> 0 < lv_size_bytes lv
              \<and> pv_size_bytes pv \<le> bd_size_bytes (ref_node pv_device)
              \<and> vg_size_bytes vg \<le> pv_size_bytes pv \<and> vg_free_bytes vg \<le> vg_size_bytes vg
              \<and> pv_free_bytes pv = vg_free_bytes vg) ''capacity-mismatch''
            ''LVM and block-device capacities are inconsistent''])"

definition lv_mount_check ::
  "host_snapshot \<Rightarrow> block_device \<Rightarrow> lvm_logical_volume \<Rightarrow> string \<Rightarrow> string option \<Rightarrow> (plan_blocker, unit) result" where
  "lv_mount_check snapshot device lv t mountpoint =
     (case mountpoint of
        Some target \<Rightarrow>
          and_then (unique (filter (\<lambda>m. me_target m = target) (hs_mounts snapshot)) ''mount-not-unique'') (\<lambda>mount.
          ensure (mount_confirmed (\<lambda>source. node_alias device source \<or> lv_alias lv source) t device mount
              \<and> length (filter (\<lambda>m. me_target m = me_target mount) (hs_mounts snapshot)) = 1)
            ''mount-state-mismatch''
            ''one matching read-write mount must be confirmed by lsblk and findmnt'')
      | None \<Rightarrow>
          (if t = ''xfs'' then Inl (blocked ''mount-required''
             ''XFS target must be uniquely mounted read-write before growth'')
           else ensure (bd_mountpoints device = []
               \<and> \<not> list_ex (\<lambda>m. case me_source m of None \<Rightarrow> False
                     | Some source \<Rightarrow> node_alias device source \<or> lv_alias lv source) (hs_mounts snapshot))
             ''mount-state-mismatch''
             ''offline ext4 growth requires the exact LV filesystem to be unmounted''))"

definition lv_tools_check ::
  "host_capabilities \<Rightarrow> string \<Rightarrow> string option \<Rightarrow> (plan_blocker, unit) result" where
  "lv_tools_check capabilities t mountpoint =
     and_then (tools_available capabilities [''vgcfgbackup'', ''lvextend'', grow_tool t]
       ''a required future operation tool is unavailable'') (\<lambda>_.
     if t = ''ext4'' \<and> mountpoint = None then
       tools_available capabilities [''e2fsck'']
         ''offline ext4 growth requires e2fsck for an explicit no-modify health gate''
     else Inr ())"

text \<open>The extents, the requested and the rounded growth and the new size of the volume.\<close>

definition lv_growth_sizes ::
  "growth \<Rightarrow> lvm_volume_group \<Rightarrow> lvm_logical_volume
     \<Rightarrow> (plan_blocker, u64 \<times> u64 \<times> u64 \<times> u64 \<times> u64) result" where
  "lv_growth_sizes amount vg lv =
     and_then (ok_or (vg_extent_size_bytes vg)
       (blocked ''extent-missing'' ''VG extent size is unknown'')) (\<lambda>extent.
     and_then (ok_or (vg_free_extent_count vg)
       (blocked ''extent-missing'' ''free extent count is unknown'')) (\<lambda>free_extents.
     and_then (ensure (512 \<le> extent \<and> is_power_of_two extent) ''invalid-extent''
       ''invalid VG extent size'') (\<lambda>_.
     and_then (ensure (checked_mul free_extents extent = Some (vg_free_bytes vg)
         \<and> vg_size_bytes vg mod extent = 0 \<and> lv_size_bytes lv mod extent = 0) ''extent-mismatch''
       ''reported bytes and extent counts do not agree'') (\<lambda>_.
     let requested = (case amount of ByBytes bytes \<Rightarrow> bytes | MaxFree \<Rightarrow> vg_free_bytes vg) in
     and_then (ensure (0 < requested) ''no-growth''
       ''requested growth or existing VG free capacity is zero'') (\<lambda>_.
     let extents = units_for requested extent in
     and_then (ensure (extents \<le> free_extents) ''insufficient-capacity''
       ''extent-rounded request exceeds existing VG free space; partition/PV resize is not attempted'') (\<lambda>_.
     and_then (ok_or (checked_mul extents extent)
       (blocked ''size-overflow'' ''growth exceeds u64'')) (\<lambda>rounded.
     and_then (ok_or (checked_add (lv_size_bytes lv) rounded)
       (blocked ''size-overflow'' ''new LV size exceeds u64'')) (\<lambda>new_size.
     Inr (extent, extents, requested, rounded, new_size)))))))))"

definition build_candidate ::
  "host_snapshot \<Rightarrow> host_capabilities \<Rightarrow> extend_request
     \<Rightarrow> (plan_blocker, size_change \<times> plan_step list) result" where
  "build_candidate snapshot capabilities request =
     and_then (collectors_complete snapshot
       [''lsblk'', ''partition_tables'', ''mounts'', ''fstab'', ''swap'', ''lvm'']
       ''all six collectors must complete for the initial preview profile'') (\<lambda>_.
     and_then (no_error_diagnostics snapshot) (\<lambda>_.
     and_then (ensure (target_valid (erq_target request)) ''invalid-target''
       ''target must be a nonempty device path or exact mountpoint'') (\<lambda>_.
     and_then (ok_or (hs_lvm snapshot)
       (blocked ''lvm-missing'' ''LVM inventory is absent'')) (\<lambda>lvm.
     let route = resolve_extend_route_adapter snapshot (erq_target request) in
     and_then (lv_resolved snapshot lvm route) (\<lambda>(device_ref, lv).
     and_then (lv_layout_check snapshot route device_ref lv) (\<lambda>_.
     and_then (lv_group snapshot lvm lv) (\<lambda>(vg, pv, pv_device).
     and_then (lvm_identity_check device_ref lv vg pv pv_device) (\<lambda>_.
     let device = ref_node device_ref in
     and_then (ok_or (bd_filesystem device)
       (blocked ''filesystem-missing'' ''filesystem type is absent'')) (\<lambda>fs.
     and_then (ensure (growable_type (fs_type fs)) ''unsupported-filesystem''
       ''filesystem is unsupported; only ext4 and XFS previews are supported'') (\<lambda>_.
     let mountpoint = era_mountpoint route in
     and_then (lv_mount_check snapshot device lv (fs_type fs) mountpoint) (\<lambda>_.
     and_then (ensure (\<not> list_ex (\<lambda>s. node_alias device (se_name s) \<or> lv_alias lv (se_name s)) (hs_swaps snapshot))
       ''active-swap'' ''the target is reported as active swap'') (\<lambda>_.
     and_then (lv_tools_check capabilities (fs_type fs) mountpoint) (\<lambda>_.
     and_then (lv_growth_sizes (erq_growth request) vg lv) (\<lambda>(extent, extents, requested, rounded, new_size).
     Inr (\<lparr> szc_device = device_path device,
            szc_current_lv_size_bytes = lv_size_bytes lv, szc_requested_growth_bytes = requested,
            szc_rounded_growth_bytes = rounded, szc_expected_lv_size_bytes = new_size,
            szc_extent_size_bytes = extent,
            szc_remaining_vg_free_bytes = vg_free_bytes vg - rounded \<rparr>,
       [step 1 OpRevalidateSnapshot RvNotApplicable,
        step 2 (OpBackupLvmMetadata (case vg_uuid vg of None \<Rightarrow> [] | Some u \<Rightarrow> u)) RvReversible,
        step 3 (OpExtendLogicalVolume (case lv_uuid lv of None \<Rightarrow> [] | Some u \<Rightarrow> u) extents new_size) RvIrreversible,
        step 4 (OpGrowFilesystem (fs_type fs) mountpoint) RvIrreversible,
        step 5 OpRediscoverAndVerify RvNotApplicable])))))))))))))))"

section \<open>A logical volume whose physical volume grows\<close>

text \<open>The evidence that the growth of a volume group's only physical volume rests on.\<close>

record underlying_evidence =
  uev_lv :: lvm_logical_volume
  uev_fs_type :: string
  uev_mount_target :: string
  uev_vg :: lvm_volume_group
  uev_extent :: u64
  uev_free_extents :: u64
  uev_pv :: lvm_physical_volume
  uev_pv_device :: block_device
  uev_slack :: u64

definition extent_geometry_ok :: "lvm_volume_group \<Rightarrow> lvm_logical_volume \<Rightarrow> u64 \<Rightarrow> u64 \<Rightarrow> bool" where
  "extent_geometry_ok vg lv extent free_extents =
     (512 \<le> extent \<and> is_power_of_two extent
      \<and> checked_mul free_extents extent = Some (vg_free_bytes vg)
      \<and> vg_size_bytes vg mod extent = 0 \<and> lv_size_bytes lv mod extent = 0)"

definition assert :: "bool \<Rightarrow> unit option" where
  "assert b = (if b then Some () else None)"

definition underlying_evidence_of :: "host_snapshot \<Rightarrow> extend_request \<Rightarrow> underlying_evidence option" where
  "underlying_evidence_of snapshot request = do {
     assert (target_valid (erq_target request));
     ok_opt (collectors_complete snapshot
       [''lsblk'', ''partition_tables'', ''mounts'', ''fstab'', ''swap'', ''lvm''] []);
     assert (\<not> has_error_diagnostic snapshot);
     lvm \<leftarrow> hs_lvm snapshot;
     let route = resolve_extend_route_adapter snapshot (erq_target request);
     (device_ref, lv) \<leftarrow> ok_opt (lv_resolved snapshot lvm route);
     let device = ref_node device_ref;
     assert (bd_kind device = NkLvm \<and> bd_children device = []
       \<and> supported_chain (sg_block_devices (hs_storage snapshot)) device_ref True
       \<and> lv_layout lv = Some ''linear'' \<and> lv_role lv = Some ''public''
       \<and> lv_attributes lv = Some ''-wi-ao----'');
     fs \<leftarrow> bd_filesystem device;
     assert (growable_type (fs_type fs));
     mountpoint \<leftarrow> era_mountpoint route;
     mount \<leftarrow> ok_opt (unique (filter (\<lambda>m. me_target m = mountpoint) (hs_mounts snapshot)) ''mount-not-unique'');
     assert (mount_confirmed (\<lambda>source. node_alias device source \<or> lv_alias lv source) (fs_type fs) device mount);
     vg \<leftarrow> ok_opt (unique (filter (\<lambda>v. vg_name v = lv_vg_name lv) (li_volume_groups lvm)) ''ambiguous-vg'');
     assert (vg_attributes vg = Some ''wz--n-'' \<and> vg_missing_pv_count vg = Some 0 \<and> vg_pv_count vg = 1);
     extent \<leftarrow> vg_extent_size_bytes vg;
     free_extents \<leftarrow> vg_free_extent_count vg;
     assert (extent_geometry_ok vg lv extent free_extents);
     pv \<leftarrow> ok_opt (unique (filter (\<lambda>p. pv_vg_name p = Some (vg_name vg)) (li_physical_volumes lvm)) ''ambiguous-pv'');
     pv_device_ref \<leftarrow> ok_opt (unique (filter (\<lambda>d. node_alias (ref_node d) (pv_name pv)) (snapshot_nodes snapshot))
       ''pv-not-resolved'');
     let pv_device = ref_node pv_device_ref;
     pe_start \<leftarrow> pv_pe_start_bytes pv;
     usable \<leftarrow> checked_sub (bd_size_bytes pv_device) pe_start;
     assert (chain_kind (bd_kind pv_device) \<and> contains_device pv_device_ref device_ref
       \<and> has_filesystem_type pv_device ''LVM2_member'' \<and> bd_uuid pv_device = pv_uuid pv
       \<and> \<not> usable < pv_size_bytes pv \<and> pv_size_bytes pv mod extent = 0
       \<and> pv_free_bytes pv = vg_free_bytes vg);
     slack \<leftarrow> checked_sub usable (pv_size_bytes pv);
     Some \<lparr> uev_lv = lv, uev_fs_type = fs_type fs, uev_mount_target = me_target mount, uev_vg = vg,
            uev_extent = extent, uev_free_extents = free_extents, uev_pv = pv,
            uev_pv_device = pv_device, uev_slack = slack \<rparr> }"

text \<open>Where the physical volume lies: the disk, the partition if it is one, the free bytes behind it
  and the sector size.\<close>

definition underlying_partition ::
  "host_snapshot \<Rightarrow> block_device \<Rightarrow> (string \<times> string option \<times> u64 \<times> u64) option" where
  "underlying_partition snapshot pv_device =
     (if bd_kind pv_device \<noteq> NkPartition
      then Some (device_path pv_device, None, 0,
             case bd_logical_sector_bytes pv_device of None \<Rightarrow> 512 | Some s \<Rightarrow> s)
      else do {
        disk \<leftarrow> ok_opt (partition_parent_disk snapshot pv_device);
        let disk_path = device_path disk;
        pv_path \<leftarrow> bd_path pv_device;
        table \<leftarrow> ok_opt (unique (filter (\<lambda>t. pt_device t = disk_path) (hs_partition_tables snapshot))
          ''partition-table-not-unique'');
        sector \<leftarrow> pt_sector_size_bytes table;
        assert (512 \<le> sector \<and> is_power_of_two sector \<and> bd_logical_sector_bytes pv_device = Some sector);
        record \<leftarrow> ok_opt (unique (filter (\<lambda>r. pr_node r = pv_path) (pt_partitions table))
          ''partition-record-not-unique'');
        record_size \<leftarrow> checked_mul (pr_size_sectors record) sector;
        record_start \<leftarrow> checked_mul (pr_start_sector record) sector;
        assert (record_size = bd_size_bytes pv_device
          \<and> Option.bind (bd_start_512_sector pv_device) (\<lambda>start. checked_mul start 512) = Some record_start);
        sectors \<leftarrow> ok_opt (adjacent_free_sectors disk table record);
        adjacent \<leftarrow> checked_mul sectors sector;
        Some (disk_path, Some pv_path, adjacent, sector) })"

text \<open>The largest growth, the requested growth and the bytes the partition must gain.\<close>

definition underlying_sizes ::
  "growth \<Rightarrow> underlying_evidence \<Rightarrow> u64 \<Rightarrow> u64 \<Rightarrow> (u64 \<times> u64 \<times> u64) option" where
  "underlying_sizes amount e adjacent sector = do {
     underlying \<leftarrow> checked_add (uev_slack e) adjacent;
     let additional_extents = underlying div uev_extent e;
     assert (additional_extents \<noteq> 0);
     total_extents \<leftarrow> checked_add (uev_free_extents e) additional_extents;
     max_growth \<leftarrow> checked_mul total_extents (uev_extent e);
     assert (vg_free_bytes (uev_vg e) < max_growth);
     let requested = (case amount of ByBytes bytes \<Rightarrow> bytes | MaxFree \<Rightarrow> max_growth);
     assert (requested \<noteq> 0);
     let requested_extents = units_for requested (uev_extent e);
     assert (uev_free_extents e < requested_extents \<and> requested_extents \<le> total_extents);
     new_extents \<leftarrow> checked_sub requested_extents (uev_free_extents e);
     pv_growth \<leftarrow> checked_mul new_extents (uev_extent e);
     let raw = (if pv_growth < uev_slack e then 0 else pv_growth - uev_slack e);
     required \<leftarrow> (if raw = 0 then Some 0 else checked_mul (units_for raw sector) sector);
     assert (required \<le> adjacent);
     Some (max_growth, requested, required) }"

definition underlying_steps ::
  "string option \<Rightarrow> string \<Rightarrow> underlying_evidence \<Rightarrow> u64 \<Rightarrow> string list option" where
  "underlying_steps partition_path lv_node e required = do {
     partition_steps \<leftarrow> (if 0 < required
       then map_option (\<lambda>p.
         [''create and verify partition-table metadata backup'',
          ''extend '' @ p @ '' by '' @ show_word required @ '' bytes without moving its start sector'',
          ''notify/revalidate the kernel partition geometry'']) partition_path
       else Some []);
     Some ([''revalidate the complete storage snapshot and exact device identities'',
            ''create and verify LVM metadata backup''] @ partition_steps @
           [''resize LVM PV '' @ pv_name (uev_pv e) @ '' to consume the verified larger backing device'',
            ''extend logical volume '' @ lv_node @ '' by the requested extent-aligned capacity'',
            ''grow '' @ uev_fs_type e @ '' filesystem mounted at '' @ uev_mount_target e,
            ''rediscover and verify every layer and the final filesystem size'']) }"

definition lv_path_of :: "lvm_logical_volume \<Rightarrow> string" where
  "lv_path_of lv = (case lv_path lv of Some p \<Rightarrow> p | None \<Rightarrow> ''/dev/'' @ lv_vg_name lv @ ''/'' @ lv_name lv)"

definition analyze_lvm_underlying_growth ::
  "host_snapshot \<Rightarrow> extend_request \<Rightarrow> growth_route_alternative option" where
  "analyze_lvm_underlying_growth snapshot request = do {
     e \<leftarrow> underlying_evidence_of snapshot request;
     (disk_path, partition_path, adjacent, sector) \<leftarrow> underlying_partition snapshot (uev_pv_device e);
     (max_growth, requested, required) \<leftarrow> underlying_sizes (erq_growth request) e adjacent sector;
     let lv_node = lv_path_of (uev_lv e);
     steps \<leftarrow> underlying_steps partition_path lv_node e required;
     Some \<lparr> gra_code = (if 0 < required then ''grow-partition-pv-lv-filesystem'' else ''grow-pv-lv-filesystem''),
            gra_summary = (if 0 < required
              then ''verified raw capacity can be routed through partition -> PV -> VG -> LV -> filesystem''
              else ''the PV backing device is already larger than the PV; capacity can be routed through PV -> VG -> LV -> filesystem''),
            gra_target = erq_target request, gra_disk = disk_path, gra_partition = partition_path,
            gra_physical_volume = pv_name (uev_pv e), gra_volume_group = vg_name (uev_vg e),
            gra_logical_volume = lv_node, gra_extent_size_bytes = uev_extent e,
            gra_sector_size_bytes = sector, gra_existing_vg_free_bytes = vg_free_bytes (uev_vg e),
            gra_pv_device_slack_bytes = uev_slack e, gra_adjacent_partition_free_bytes = adjacent,
            gra_max_growth_bytes = max_growth, gra_requested_growth_bytes = requested,
            gra_required_partition_growth_bytes = required, gra_steps = steps \<rparr> }"

text \<open>The partition part of the candidate: the change and the two operations.\<close>

definition underlying_partition_change ::
  "host_snapshot \<Rightarrow> growth_route_alternative \<Rightarrow> (partition_size_change \<times> operation list) option" where
  "underlying_partition_change snapshot route = do {
     partition \<leftarrow> gra_partition route;
     table \<leftarrow> ok_opt (unique (filter (\<lambda>t. pt_device t = gra_disk route) (hs_partition_tables snapshot))
       ''partition-table-not-unique'');
     label \<leftarrow> pt_label table;
     sector \<leftarrow> pt_sector_size_bytes table;
     assert (sector = gra_sector_size_bytes route \<and> gra_required_partition_growth_bytes route mod sector = 0);
     record \<leftarrow> ok_opt (unique (filter (\<lambda>r. pr_node r = partition) (pt_partitions table))
       ''partition-record-not-unique'');
     ok_opt (ensure_partition_role_is_growable table record);
     let growth_sectors = gra_required_partition_growth_bytes route div sector;
     new_size_sectors \<leftarrow> checked_add (pr_size_sectors record) growth_sectors;
     current \<leftarrow> checked_mul (pr_size_sectors record) sector;
     expected \<leftarrow> checked_mul new_size_sectors sector;
     remaining \<leftarrow> checked_sub (gra_adjacent_partition_free_bytes route) (gra_required_partition_growth_bytes route);
     Some (\<lparr> psc_device = partition, psc_disk = gra_disk route,
             psc_current_partition_size_bytes = current,
             psc_requested_growth_bytes = gra_required_partition_growth_bytes route,
             psc_rounded_growth_bytes = gra_required_partition_growth_bytes route,
             psc_expected_partition_size_bytes = expected, psc_sector_size_bytes = sector,
             psc_remaining_adjacent_free_bytes = remaining \<rparr>,
       [OpBackupPartitionTableMetadata (gra_disk route) label (pt_id table),
        OpExtendPartition partition (pr_start_sector record) (pr_size_sectors record) new_size_sectors sector]) }"

text \<open>The steps are numbered from 1 as they are pushed.\<close>

fun number_steps :: "u32 \<Rightarrow> (operation \<times> reversibility) list \<Rightarrow> plan_step list" where
  "number_steps next_id [] = []"
| "number_steps next_id ((operation, r) # rest) = step next_id operation r # number_steps (next_id + 1) rest"

definition underlying_operations ::
  "string \<Rightarrow> operation list \<Rightarrow> string \<Rightarrow> u64 \<Rightarrow> string \<Rightarrow> u64 \<Rightarrow> u64 \<Rightarrow> string \<Rightarrow> string
     \<Rightarrow> (operation \<times> reversibility) list" where
  "underlying_operations vg_id partition_operations pv expected_pv lv extents expected_lv t mountpoint =
     [(OpRevalidateSnapshot, RvNotApplicable), (OpBackupLvmMetadata vg_id, RvReversible)]
     @ zip partition_operations [RvReversible, RvIrreversible]
     @ [(OpResizePhysicalVolume pv expected_pv, RvIrreversible),
        (OpExtendLogicalVolume lv extents expected_lv, RvIrreversible),
        (OpGrowFilesystem t (Some mountpoint), RvIrreversible),
        (OpRediscoverAndVerify, RvNotApplicable)]"

definition build_lvm_underlying_growth_candidate ::
  "host_snapshot \<Rightarrow> extend_request
     \<Rightarrow> (growth_route_alternative \<times> size_change \<times> partition_size_change option \<times> plan_step list) option" where
  "build_lvm_underlying_growth_candidate snapshot request = do {
     route \<leftarrow> analyze_lvm_underlying_growth snapshot request;
     lvm \<leftarrow> hs_lvm snapshot;
     pv \<leftarrow> ok_opt (unique (filter (\<lambda>p. pv_name p = gra_physical_volume route) (li_physical_volumes lvm)) ''ambiguous-pv'');
     vg \<leftarrow> ok_opt (unique (filter (\<lambda>v. vg_name v = gra_volume_group route) (li_volume_groups lvm)) ''ambiguous-vg'');
     lv \<leftarrow> ok_opt (unique (filter (\<lambda>l. lv_alias l (gra_logical_volume route)) (li_logical_volumes lvm)) ''ambiguous-lv'');
     let extent = gra_extent_size_bytes route;
     assert (extent \<noteq> 0 \<and> gra_existing_vg_free_bytes route mod extent = 0);
     let existing_free_extents = gra_existing_vg_free_bytes route div extent;
     let requested_extents = units_for (gra_requested_growth_bytes route) extent;
     additional_pv_extents \<leftarrow> checked_sub requested_extents existing_free_extents;
     assert (additional_pv_extents \<noteq> 0);
     pv_growth \<leftarrow> checked_mul additional_pv_extents extent;
     expected_pv \<leftarrow> checked_add (pv_size_bytes pv) pv_growth;
     rounded \<leftarrow> checked_mul requested_extents extent;
     expected_lv \<leftarrow> checked_add (lv_size_bytes lv) rounded;
     let adapter = resolve_extend_route_adapter snapshot (erq_target request);
     resolved_device \<leftarrow> era_resolved_device adapter;
     lv_dev \<leftarrow> ok_opt (unique (filter (\<lambda>d. node_alias (ref_node d) resolved_device) (snapshot_nodes snapshot))
       ''ambiguous-device'');
     fs \<leftarrow> bd_filesystem (ref_node lv_dev);
     mountpoint \<leftarrow> era_mountpoint adapter;
     group_uuid \<leftarrow> vg_uuid vg;
     (partition_change, partition_operations) \<leftarrow>
       (if 0 < gra_required_partition_growth_bytes route
        then map_option (\<lambda>(change, operations). (Some change, operations)) (underlying_partition_change snapshot route)
        else Some (None, []));
     physical_uuid \<leftarrow> pv_uuid pv;
     logical_uuid \<leftarrow> lv_uuid lv;
     Some (route,
       \<lparr> szc_device = gra_logical_volume route, szc_current_lv_size_bytes = lv_size_bytes lv,
         szc_requested_growth_bytes = gra_requested_growth_bytes route,
         szc_rounded_growth_bytes = rounded, szc_expected_lv_size_bytes = expected_lv,
         szc_extent_size_bytes = extent, szc_remaining_vg_free_bytes = 0 \<rparr>,
       partition_change,
       number_steps 1 (underlying_operations group_uuid partition_operations physical_uuid expected_pv
         logical_uuid requested_extents expected_lv (fs_type fs) mountpoint)) }"

section \<open>Alternatives by moving a swap partition\<close>

definition range_end_of :: "partition_record \<Rightarrow> u64 option" where
  "range_end_of r = checked_add (pr_start_sector r) (pr_size_sectors r)"

definition extended_record :: "partition_record \<Rightarrow> bool" where
  "extended_record r =
     (case parse_dos_type (case pr_partition_type r of None \<Rightarrow> [] | Some t \<Rightarrow> t) of
        Inl _ \<Rightarrow> False | Inr kind \<Rightarrow> is_extended kind)"

text \<open>The node of the target and its disk.\<close>

definition layout_target :: "host_snapshot \<Rightarrow> string \<Rightarrow> (block_device \<times> block_device) option" where
  "layout_target snapshot target = do {
     source \<leftarrow> (if starts_with ''/dev/'' target then Some target
       else Option.bind (single (filter (\<lambda>m. me_target m = target) (hs_mounts snapshot))) me_source);
     device \<leftarrow> single (filter (\<lambda>d. bd_kind d = NkPartition \<and> node_alias d source)
       (map ref_node (snapshot_nodes snapshot)));
     parent_name \<leftarrow> bd_parent_kernel_name device;
     disk \<leftarrow> single (filter (\<lambda>d. disk_or_loop d \<and> bd_kernel_name d = Some parent_name)
       (map ref_node (snapshot_nodes snapshot)));
     Some (device, disk) }"

text \<open>The one extended container behind the target and the one logical partition in it.\<close>

definition tail_swap_records ::
  "partition_table \<Rightarrow> u64 \<Rightarrow> u64 \<Rightarrow> (partition_record \<times> u64 \<times> partition_record) option" where
  "tail_swap_records table target_end disk_sectors = do {
     extended \<leftarrow> single (filter (\<lambda>r. extended_record r \<and> target_end \<le> pr_start_sector r) (pt_partitions table));
     extended_end \<leftarrow> range_end_of extended;
     assert (extended_end \<le> disk_sectors);
     swap \<leftarrow> single (filter (\<lambda>r. pr_node r \<noteq> pr_node extended
         \<and> (case range_end_of r of None \<Rightarrow> False
            | Some stop \<Rightarrow> pr_start_sector extended \<le> pr_start_sector r \<and> stop \<le> extended_end))
       (pt_partitions table));
     raw \<leftarrow> pr_partition_type swap;
     kind \<leftarrow> ok_opt (parse_dos_type raw);
     assert (kind = 0x82);
     Some (extended, extended_end, swap) }"

definition swap_in_use_ok ::
  "host_snapshot \<Rightarrow> block_device \<Rightarrow> partition_record \<Rightarrow> u64 \<Rightarrow> unit option" where
  "swap_in_use_ok snapshot device swap swap_bytes = do {
     swap_device \<leftarrow> ok_opt (unique (filter (\<lambda>d. bd_kind d = NkPartition \<and> node_alias d (pr_node swap))
       (map ref_node (snapshot_nodes snapshot))) ''swap-device-not-unique'');
     active \<leftarrow> ok_opt (unique (filter (\<lambda>s. node_alias swap_device (se_name s)) (hs_swaps snapshot))
       ''active-swap-not-unique'');
     assert (bd_size_bytes swap_device = swap_bytes
       \<and> bd_parent_kernel_name swap_device = bd_parent_kernel_name device
       \<and> has_filesystem_type swap_device ''swap''
       \<and> se_size_bytes active \<noteq> 0 \<and> se_size_bytes active \<le> swap_bytes
       \<and> se_used_bytes active \<le> se_size_bytes active) }"

definition analyze_layout_opportunity :: "host_snapshot \<Rightarrow> string \<Rightarrow> layout_opportunity option" where
  "analyze_layout_opportunity snapshot target = do {
     (device, disk) \<leftarrow> layout_target snapshot target;
     disk_path \<leftarrow> bd_path disk;
     target_path \<leftarrow> bd_path device;
     table \<leftarrow> single (filter (\<lambda>t. pt_device t = disk_path \<and> pt_label t = Some ''dos'')
       (hs_partition_tables snapshot));
     sector \<leftarrow> pt_sector_size_bytes table;
     assert ((sector = 512 \<or> sector = 4096) \<and> bd_size_bytes disk mod sector = 0);
     target_record \<leftarrow> List.find (\<lambda>r. pr_node r = target_path) (pt_partitions table);
     target_end \<leftarrow> range_end_of target_record;
     let disk_sectors = bd_size_bytes disk div sector;
     (extended, extended_end, swap) \<leftarrow> tail_swap_records table target_end disk_sectors;
     swap_bytes \<leftarrow> checked_mul (pr_size_sectors swap) sector;
     swap_in_use_ok snapshot device swap swap_bytes;
     assert (\<not> list_ex (\<lambda>r. pr_node r \<notin> {pr_node target_record, pr_node extended, pr_node swap}
       \<and> target_end \<le> pr_start_sector r) (pt_partitions table));
     tail_sectors \<leftarrow> checked_sub disk_sectors extended_end;
     disk_tail_free_bytes \<leftarrow> checked_mul tail_sectors sector;
     assert (disk_tail_free_bytes \<noteq> 0);
     span_sectors \<leftarrow> checked_sub disk_sectors target_end;
     span_bytes \<leftarrow> checked_mul span_sectors sector;
     max_growth \<leftarrow> checked_sub span_bytes swap_bytes;
     assert (max_growth \<noteq> 0);
     Some \<lparr> lop_code = ''migrate-tail-swap'', lop_disk = disk_path, lop_target = target_path,
            lop_sector_size_bytes = sector, lop_max_target_growth_bytes = max_growth,
            lop_disk_tail_free_bytes = disk_tail_free_bytes, lop_swap_bytes = swap_bytes,
            lop_blocking_devices = [pr_node extended, pr_node swap] \<rparr> }"

definition detect_tail_swap_migration :: "host_snapshot \<Rightarrow> extend_request \<Rightarrow> layout_alternative option" where
  "detect_tail_swap_migration snapshot request =
     (case erq_growth request of
        MaxFree \<Rightarrow> None
      | ByBytes requested \<Rightarrow> do {
          assert (requested \<noteq> 0);
          opportunity \<leftarrow> analyze_layout_opportunity snapshot (erq_target request);
          let sector = lop_sector_size_bytes opportunity;
          rounded \<leftarrow> checked_mul (units_for requested sector) sector;
          assert (rounded \<le> lop_max_target_growth_bytes opportunity);
          required \<leftarrow> checked_add rounded (lop_swap_bytes opportunity);
          remaining \<leftarrow> checked_sub (lop_max_target_growth_bytes opportunity) rounded;
          (case lop_blocking_devices opportunity of
             extended # swap # _ \<Rightarrow> Some
               \<lparr> lal_code = lop_code opportunity,
                 lal_summary = show_word (lop_disk_tail_free_bytes opportunity)
                   @ '' bytes of disk-tail capacity are separated from '' @ lop_target opportunity
                   @ '' by DOS extended/swap layout; preserving equivalent swap as a swapfile can make the requested filesystem growth possible'',
                 lal_disk = lop_disk opportunity, lal_target = lop_target opportunity,
                 lal_requested_growth_bytes = requested,
                 lal_disk_tail_free_bytes = lop_disk_tail_free_bytes opportunity,
                 lal_swap_bytes = lop_swap_bytes opportunity,
                 lal_required_partition_growth_bytes = required,
                 lal_remaining_raw_tail_bytes = remaining,
                 lal_blocking_devices = lop_blocking_devices opportunity,
                 lal_steps =
                   [''verify that '' @ swap @ '' is not used for hibernation/resume and that swap can be safely deactivated'',
                    ''create and verify partition-table, fstab and resume-configuration backups'',
                    ''deactivate swap on '' @ swap,
                    ''remove logical swap '' @ swap @ '' and its extended container '' @ extended
                      @ '' only after swap migration is prepared'',
                    ''extend '' @ lop_target opportunity @ '' by '' @ show_word required
                      @ '' bytes so the filesystem gains the requested capacity plus room for an equivalent swapfile'',
                    ''grow the filesystem and verify its new size'',
                    ''create and activate a swapfile of '' @ show_word (lop_swap_bytes opportunity)
                      @ '' bytes, update persistent swap configuration, and verify swap'',
                    ''rediscover the complete storage layout and verify no unexpected raw tail or identity changes''] \<rparr>
           | _ \<Rightarrow> None) })"

definition detect_layout_alternatives :: "host_snapshot \<Rightarrow> extend_request \<Rightarrow> layout_alternative list" where
  "detect_layout_alternatives snapshot request =
     (case detect_tail_swap_migration snapshot request of None \<Rightarrow> [] | Some a \<Rightarrow> [a])"

end
