(* ===== verification/ExtendPlanner.thy ===== *)
theory ExtendPlanner
  imports ExtendPlan
begin

text \<open>
  \<open>plan_extend\<close> and \<open>list_extend_targets\<close> of \<open>crates/planner/src/lib.rs\<close>: the preflight checks of a
  preview, the choice of a candidate builder by the semantic profile of the target, and the
  list of targets. The fingerprints (SHA-256 of a JSON value) are parameters: \<open>fps\<close> of the
  snapshot with the capabilities, \<open>fpp\<close> of a plan.
\<close>

section \<open>Preflight checks\<close>

definition check_verified :: "string \<Rightarrow> string \<Rightarrow> preflight_check" where
  "check_verified code message = \<lparr> pfc_code = code, pfc_state = PfVerified, pfc_message = message \<rparr>"

definition check_required :: "string \<Rightarrow> string \<Rightarrow> preflight_check" where
  "check_required code message = \<lparr> pfc_code = code, pfc_state = PfRequired, pfc_message = message \<rparr>"

definition common_verified_preflight :: "preflight_check list" where
  "common_verified_preflight =
     [check_verified ''collectors-complete'' ''required discovery collectors completed successfully'',
      check_verified ''diagnostics-clean'' ''no error-level storage diagnostics invalidate this preview'',
      check_verified ''mount-rw'' ''target has one matching read-write mount'',
      check_verified ''tooling-available'' ''required future operation tools are available'']"

definition future_execution_gates :: "preflight_check list" where
  "future_execution_gates =
     [check_required ''runtime-identity-recheck''
        ''revalidate device, filesystem and plan basis immediately before mutation'',
      check_required ''filesystem-health'' ''verify filesystem health, features and supported grow state'',
      check_required ''exclusive-lock''
        ''acquire an exclusive storage-operation lock and reject concurrent mutation'',
      check_required ''metadata-backup''
        ''create and verify the required metadata backup before irreversible steps'',
      check_required ''execution-approval''
        ''obtain explicit approval for the exact fresh plan before execution'']"

definition partition_preflight_checks :: "preflight_check list" where
  "partition_preflight_checks = common_verified_preflight
     @ [check_verified ''partition-geometry-consistent''
          ''lsblk and partition-table sector/start/size evidence is consistent'',
        check_verified ''adjacent-capacity-verified'' ''requested growth fits verified adjacent free sectors'']
     @ future_execution_gates"

definition whole_filesystem_preflight_checks :: "preflight_check list" where
  "whole_filesystem_preflight_checks = common_verified_preflight
     @ [check_verified ''filesystem-geometry-consistent''
          ''read-only filesystem block size/count/size evidence is internally consistent'',
        check_verified ''backing-capacity-verified''
          ''requested growth fits verified unused capacity already present on the backing device'']
     @ filter (\<lambda>c. pfc_code c \<noteq> ''metadata-backup'') future_execution_gates"

definition lvm_preflight_checks :: "preflight_check list" where
  "lvm_preflight_checks = common_verified_preflight
     @ [check_verified ''lvm-identity-consistent'' ''PV, VG, LV and filesystem identities are internally consistent'',
        check_verified ''lvm-layout-supported''
          ''LV and VG layout is within the supported linear single-PV preview profile'',
        check_verified ''capacity-verified'' ''requested growth fits verified free VG extents'']
     @ future_execution_gates"

definition lvm_underlying_preflight_checks :: "bool \<Rightarrow> preflight_check list" where
  "lvm_underlying_preflight_checks grows_partition = common_verified_preflight
     @ [check_verified ''lvm-identity-consistent'' ''PV, VG, LV and filesystem identities are internally consistent'',
        check_verified ''lvm-layout-supported''
          ''LV and VG layout is within the supported linear single-PV preview profile'',
        check_verified ''underlying-capacity-verified''
          ''requested growth fits verified PV backing-device capacity and extent geometry'']
     @ (if grows_partition then
          [check_verified ''partition-geometry-consistent'' ''partition-table sector/start/size evidence is consistent'',
           check_verified ''adjacent-capacity-verified''
             ''required partition growth fits verified adjacent free sectors'']
        else [])
     @ future_execution_gates"

text \<open>A check that is verified when the condition holds, with a message for either case.\<close>

definition check_if :: "bool \<Rightarrow> string \<Rightarrow> string \<Rightarrow> string \<Rightarrow> preflight_check" where
  "check_if b code yes no = (if b then check_verified code yes else check_required code no)"

definition nonempty_or :: "string option \<Rightarrow> string option \<Rightarrow> string option" where
  "nonempty_or a b =
     (if nonempty_some a then a else if nonempty_some b then b else None)"

definition filesystem_evidence_checks :: "host_snapshot \<Rightarrow> string \<Rightarrow> preflight_check list" where
  "filesystem_evidence_checks snapshot mountpoint =
     (case filter (\<lambda>e. fpe_mountpoint e = Some mountpoint) (hs_filesystem_preflight snapshot) of
        [e] \<Rightarrow>
          [check_if (fpe_state e = FpsVerified \<or> fpe_state e = FpsPartial) ''filesystem-metadata-probe''
             ''read-only filesystem metadata probe returned target-specific evidence''
             ''filesystem metadata probe is unavailable or failed and must succeed before execution'',
           (case nonempty_or (fpe_fs_version e) (fpe_revision e) of
              Some v \<Rightarrow> check_verified ''filesystem-version-observed''
                (''filesystem version/revision observed: '' @ v)
            | None \<Rightarrow> check_required ''filesystem-version-observed''
                ''filesystem version/revision was not observed and must be resolved before execution''),
           check_if (fpe_features e \<noteq> []) ''filesystem-features-observed''
             ''filesystem feature flags were collected by a read-only metadata probe''
             ''filesystem feature flags were not observed and must be resolved before execution'']
          @ (if fpe_fs_type e = ''ext4'' then
               [check_if (fpe_filesystem_state e = Some ''clean'') ''ext4-superblock-state''
                  ''ext4 superblock reports filesystem state clean; this is not a substitute for a dedicated health check''
                  ''ext4 superblock did not report a clean state; dedicated health validation is required before execution'']
             else [])
          @ (if fpe_fs_type e = ''xfs'' then
               [check_if (fpe_grow_check_passed e = Some True) ''xfs-grow-dry-run''
                  ''xfs_growfs -n completed successfully against the mounted target without modifying it''
                  ''xfs_growfs -n must succeed against the exact mounted target before execution'']
             else [])
      | matches \<Rightarrow>
          [check_required ''filesystem-metadata-probe''
             (if matches = []
              then ''collect read-only filesystem metadata evidence for the exact target before execution''
              else ''filesystem metadata evidence is ambiguous; resolve the exact target before execution''),
           check_required ''filesystem-version-observed''
             ''record the target filesystem version/revision before execution'',
           check_required ''filesystem-features-observed''
             ''record target filesystem feature flags before execution''])"

section \<open>Outcomes of the builders\<close>

definition push_blocker :: "plan_preview \<Rightarrow> plan_blocker \<Rightarrow> plan_preview" where
  "push_blocker plan b = plan\<lparr>ppv_blockers := ppv_blockers plan @ [b]\<rparr>"

definition apply_partition_outcome ::
  "plan_preview \<Rightarrow> host_snapshot \<Rightarrow> (plan_blocker, (partition_size_change \<times> plan_step list) option) result
     \<Rightarrow> plan_preview \<times> bool" where
  "apply_partition_outcome plan snapshot outcome =
     (case outcome of
        Inr (Some (change, steps)) \<Rightarrow>
          (plan\<lparr>ppv_status := PsPreview, ppv_partition_size_change := Some change,
             ppv_preflight_checks := partition_preflight_checks, ppv_steps := steps\<rparr>, True)
      | Inr None \<Rightarrow> (plan, False)
      | Inl b \<Rightarrow>
          (push_blocker
             (if pb_code b = ''insufficient-adjacent-capacity''
              then plan\<lparr>ppv_layout_alternatives := detect_layout_alternatives snapshot (ppv_request plan)\<rparr>
              else plan) b, True))"

definition apply_lvm_underlying_preview ::
  "plan_preview \<Rightarrow> growth_route_alternative \<times> size_change \<times> partition_size_change option \<times> plan_step list
     \<Rightarrow> plan_preview" where
  "apply_lvm_underlying_preview plan candidate =
     (case candidate of (route, change, partition_size, steps) \<Rightarrow>
        plan\<lparr>ppv_status := PsPreview, ppv_size_change := Some change,
          ppv_partition_size_change := partition_size,
          ppv_preflight_checks := lvm_underlying_preflight_checks (partition_size \<noteq> None),
          ppv_steps := steps,
          ppv_growth_route_alternatives := ppv_growth_route_alternatives plan @ [route]\<rparr>)"

definition apply_lvm_outcome ::
  "plan_preview \<Rightarrow> host_snapshot \<Rightarrow> (plan_blocker, size_change \<times> plan_step list) result \<Rightarrow> plan_preview" where
  "apply_lvm_outcome plan snapshot outcome =
     (case outcome of
        Inr (change, steps) \<Rightarrow>
          plan\<lparr>ppv_status := PsPreview, ppv_size_change := Some change,
            ppv_preflight_checks := lvm_preflight_checks, ppv_steps := steps\<rparr>
      | Inl b \<Rightarrow>
          (if pb_code b = ''insufficient-capacity'' \<or> pb_code b = ''no-growth'' then
             (case build_lvm_underlying_growth_candidate snapshot (ppv_request plan) of
                Some candidate \<Rightarrow> apply_lvm_underlying_preview plan candidate
              | None \<Rightarrow>
                  push_blocker
                    (case analyze_lvm_underlying_growth snapshot (ppv_request plan) of
                       None \<Rightarrow> plan
                     | Some route \<Rightarrow> plan\<lparr>ppv_growth_route_alternatives :=
                         ppv_growth_route_alternatives plan @ [route]\<rparr>) b)
           else push_blocker plan b))"

definition apply_whole_filesystem_outcome ::
  "plan_preview \<Rightarrow> (plan_blocker, filesystem_size_change \<times> plan_step list) result \<Rightarrow> plan_preview" where
  "apply_whole_filesystem_outcome plan outcome =
     (case outcome of
        Inr (change, steps) \<Rightarrow>
          plan\<lparr>ppv_status := PsPreview, ppv_filesystem_size_change := Some change,
            ppv_preflight_checks := whole_filesystem_preflight_checks, ppv_steps := steps\<rparr>
      | Inl b \<Rightarrow> push_blocker plan b)"

definition apply_legacy_extend_profile ::
  "plan_preview \<Rightarrow> host_snapshot \<Rightarrow> host_capabilities \<Rightarrow> plan_preview" where
  "apply_legacy_extend_profile plan snapshot capabilities =
     (case apply_partition_outcome plan snapshot
         (try_build_partition_candidate snapshot capabilities (ppv_request plan)) of
        (plan', True) \<Rightarrow> plan'
      | (plan', False) \<Rightarrow>
          apply_lvm_outcome plan' snapshot (build_candidate snapshot capabilities (ppv_request plan')))"

section \<open>Planning an extension\<close>

definition new_extend_plan :: "string \<Rightarrow> extend_request \<Rightarrow> plan_preview" where
  "new_extend_plan digest request =
     \<lparr> ppv_schema_version = 1, ppv_plan_id = [], ppv_snapshot_digest = digest, ppv_dry_run = True,
       ppv_executable = False, ppv_status = PsBlocked, ppv_request = request,
       ppv_size_change = None, ppv_partition_size_change = None, ppv_filesystem_size_change = None,
       ppv_layout_alternatives = [], ppv_growth_route_alternatives = [], ppv_blockers = [],
       ppv_preflight_checks = [], ppv_steps = [],
       ppv_notices =
         [''M1A produces previews only. No backup, resize, mount or other command is run.'',
          ''The preview covers block-layer capacity, not measured filesystem capacity or health.'',
          ''A future executor needs fresh identity/health checks, locks, verified backups and explicit approval.'',
          ''Metadata backups are not backups of user data; filesystem growth has no automatic rollback.''] \<rparr>"

definition plan_profile ::
  "host_snapshot \<Rightarrow> host_capabilities \<Rightarrow> plan_preview \<Rightarrow> plan_preview" where
  "plan_profile snapshot capabilities plan =
     (let request = ppv_request plan in
      case select_extend_planner_profile snapshot (erq_target request) of
        EppDirectPartition \<Rightarrow> apply_legacy_extend_profile plan snapshot capabilities
      | EppLvm \<Rightarrow>
          (case (if erq_growth request = MaxFree
                 then build_lvm_underlying_growth_candidate snapshot request else None) of
             Some candidate \<Rightarrow> apply_lvm_underlying_preview plan candidate
           | None \<Rightarrow> apply_lvm_outcome plan snapshot (build_candidate snapshot capabilities request))
      | EppWholeBlockFilesystem \<Rightarrow>
          apply_whole_filesystem_outcome plan (build_whole_filesystem_candidate snapshot capabilities request)
      | EppLegacyFailClosed \<Rightarrow>
          (case semantic_layer_blocker snapshot (erq_target request) of
             Some b \<Rightarrow> push_blocker plan b
           | None \<Rightarrow> apply_legacy_extend_profile plan snapshot capabilities))"

text \<open>The mount point of the first step that grows a filesystem on one.\<close>

definition grown_mountpoint :: "plan_step list \<Rightarrow> string option" where
  "grown_mountpoint steps =
     (case List.map_filter (\<lambda>s. case pst_operation s of OpGrowFilesystem _ m \<Rightarrow> m | _ \<Rightarrow> None) steps of
        [] \<Rightarrow> None | m # _ \<Rightarrow> Some m)"

definition add_evidence_checks :: "host_snapshot \<Rightarrow> plan_preview \<Rightarrow> plan_preview" where
  "add_evidence_checks snapshot plan =
     (if ppv_status plan = PsPreview then
        (case grown_mountpoint (ppv_steps plan) of
           None \<Rightarrow> plan
         | Some m \<Rightarrow> plan\<lparr>ppv_preflight_checks :=
             ppv_preflight_checks plan @ filesystem_evidence_checks snapshot m\<rparr>)
      else plan)"

definition plan_extend ::
  "(host_snapshot \<times> host_capabilities \<Rightarrow> (planner_error, string) result)
     \<Rightarrow> (plan_preview \<Rightarrow> (planner_error, string) result)
     \<Rightarrow> host_snapshot \<Rightarrow> host_capabilities \<Rightarrow> extend_request \<Rightarrow> (planner_error, plan_preview) result" where
  "plan_extend fps fpp snapshot capabilities request =
     and_then (fps (snapshot, capabilities)) (\<lambda>digest.
     let plan = add_evidence_checks snapshot
       (plan_profile snapshot capabilities (new_extend_plan digest request)) in
     and_then (fpp plan) (\<lambda>plan_id. Inr (plan\<lparr>ppv_plan_id := plan_id\<rparr>)))"

section \<open>Listing targets\<close>

datatype extend_target_kind =
  EtkDirectPartition | EtkLvmLogicalVolume | EtkWholeBlockFilesystem | EtkLayeredOrOther

datatype extend_target_availability = EtaPreviewReady | EtaAdvisory | EtaBlocked

record extend_target =
  etg_target :: string
  etg_device :: string
  etg_mountpoint :: "string option"
  etg_filesystem :: string
  etg_kind :: extend_target_kind
  etg_current_block_size_bytes :: u64
  etg_verified_growth_bytes :: "u64 option"
  etg_layout_growth_bytes :: "u64 option"
  etg_availability :: extend_target_availability
  etg_reason :: string
  etg_blockers :: "plan_blocker list"

definition show_planner_error :: "planner_error \<Rightarrow> string" where
  "show_planner_error e =
     (case e of
        PeSerialization detail \<Rightarrow> ''could not serialize planner input: '' @ detail
      | PeInvalidSize \<Rightarrow> ''size must be a positive whole number followed by B, KiB, MiB, GiB or TiB''
      | PeSizeOverflow \<Rightarrow> ''size is outside the supported u64 byte range'')"

definition listed_device :: "block_device \<Rightarrow> filesystem \<Rightarrow> bool" where
  "listed_device device fs =
     (fs_type fs \<noteq> ''swap'' \<and> fs_type fs \<noteq> ''LVM2_member''
      \<and> ''[SWAP]'' \<notin> set (bd_mountpoints device) \<and> bd_children device = [])"

definition planned_growth :: "plan_preview \<Rightarrow> u64 option" where
  "planned_growth plan =
     (case ppv_size_change plan of
        Some c \<Rightarrow> Some (szc_rounded_growth_bytes c)
      | None \<Rightarrow>
          (case ppv_partition_size_change plan of
             Some c \<Rightarrow> Some (psc_rounded_growth_bytes c)
           | None \<Rightarrow> map_option fsc_rounded_growth_bytes (ppv_filesystem_size_change plan)))"

definition option_max :: "u64 option \<Rightarrow> u64 option \<Rightarrow> u64 option" where
  "option_max a b =
     (case a of None \<Rightarrow> b | Some x \<Rightarrow> (case b of None \<Rightarrow> Some x | Some y \<Rightarrow> Some (max x y)))"

definition layout_growth :: "host_snapshot \<Rightarrow> string \<Rightarrow> u64 option" where
  "layout_growth snapshot target =
     option_max
       (map_option lop_max_target_growth_bytes (analyze_layout_opportunity snapshot target))
       (map_option gra_max_growth_bytes (analyze_lvm_underlying_growth snapshot
          \<lparr> erq_target = target, erq_growth = MaxFree \<rparr>))"

definition target_availability ::
  "(planner_error, plan_preview) result \<Rightarrow> u64 option \<Rightarrow> u64 option
     \<Rightarrow> extend_target_availability \<times> string \<times> plan_blocker list" where
  "target_availability preview verified_growth layout =
     (case preview of
        Inl e \<Rightarrow>
          (let message = ''planner error: '' @ show_planner_error e
           in (EtaBlocked, message, [\<lparr> pb_code = ''planner-error'', pb_message = message \<rparr>]))
      | Inr plan \<Rightarrow>
          (if ppv_status plan = PsPreview then
             (EtaPreviewReady,
              if (case layout of None \<Rightarrow> False
                  | Some bytes \<Rightarrow> (case verified_growth of None \<Rightarrow> 0 | Some v \<Rightarrow> v) < bytes)
              then ''verified growth is available; additional underlying capacity was also detected''
              else ''verified read-only growth preview is available'',
              ppv_blockers plan)
           else if (case layout of None \<Rightarrow> False | Some bytes \<Rightarrow> 0 < bytes) then
             (EtaAdvisory,
              (case ppv_blockers plan of
                 b # _ \<Rightarrow> pb_message b @ ''; a non-executable underlying-capacity route is available''
               | [] \<Rightarrow> ''a non-executable underlying-capacity route is available''),
              ppv_blockers plan)
           else
             (EtaBlocked,
              (case ppv_blockers plan of
                 b # _ \<Rightarrow> pb_message b
               | [] \<Rightarrow> ''no verified growth path is currently available''),
              ppv_blockers plan)))"

definition target_kind :: "extend_planner_profile \<Rightarrow> extend_target_kind" where
  "target_kind profile =
     (case profile of
        EppDirectPartition \<Rightarrow> EtkDirectPartition
      | EppLvm \<Rightarrow> EtkLvmLogicalVolume
      | EppWholeBlockFilesystem \<Rightarrow> EtkWholeBlockFilesystem
      | EppLegacyFailClosed \<Rightarrow> EtkLayeredOrOther)"

definition extend_target_of ::
  "(host_snapshot \<times> host_capabilities \<Rightarrow> (planner_error, string) result)
     \<Rightarrow> (plan_preview \<Rightarrow> (planner_error, string) result)
     \<Rightarrow> host_snapshot \<Rightarrow> host_capabilities \<Rightarrow> block_device \<Rightarrow> extend_target option" where
  "extend_target_of fps fpp snapshot capabilities device =
     (case bd_filesystem device of
        None \<Rightarrow> None
      | Some fs \<Rightarrow>
          (if \<not> listed_device device fs then None
           else
             (let mountpoint = List.find (\<lambda>m. m \<noteq> ''[SWAP]'') (bd_mountpoints device);
                  target = (case mountpoint of None \<Rightarrow> device_path device | Some m \<Rightarrow> m);
                  preview = plan_extend fps fpp snapshot capabilities
                    \<lparr> erq_target = target, erq_growth = MaxFree \<rparr>;
                  verified_growth = (case preview of Inl _ \<Rightarrow> None | Inr plan \<Rightarrow> planned_growth plan);
                  layout = layout_growth snapshot target;
                  (availability, reason, blockers) = target_availability preview verified_growth layout
              in Some
                \<lparr> etg_target = target, etg_device = device_path device, etg_mountpoint = mountpoint,
                  etg_filesystem = fs_type fs,
                  etg_kind = target_kind (era_profile (resolve_extend_route_adapter snapshot target)),
                  etg_current_block_size_bytes = bd_size_bytes device,
                  etg_verified_growth_bytes = verified_growth, etg_layout_growth_bytes = layout,
                  etg_availability = availability, etg_reason = reason, etg_blockers = blockers \<rparr>)))"

definition list_extend_targets ::
  "(host_snapshot \<times> host_capabilities \<Rightarrow> (planner_error, string) result)
     \<Rightarrow> (plan_preview \<Rightarrow> (planner_error, string) result)
     \<Rightarrow> host_snapshot \<Rightarrow> host_capabilities \<Rightarrow> extend_target list" where
  "list_extend_targets fps fpp snapshot capabilities =
     sort_key (\<lambda>t. (etg_target t, etg_device t))
       (List.map_filter (extend_target_of fps fpp snapshot capabilities)
          (map ref_node (snapshot_nodes snapshot)))"

section \<open>The steps of a plan\<close>

definition is_table_backup :: "operation \<Rightarrow> bool" where
  "is_table_backup op = (case op of OpBackupPartitionTableMetadata _ _ _ \<Rightarrow> True | _ \<Rightarrow> False)"

definition is_lvm_backup :: "operation \<Rightarrow> bool" where
  "is_lvm_backup op = (case op of OpBackupLvmMetadata _ \<Rightarrow> True | _ \<Rightarrow> False)"

definition changes_storage :: "operation \<Rightarrow> bool" where
  "changes_storage op =
     (case op of OpExtendPartition _ _ _ _ _ \<Rightarrow> True | OpResizePhysicalVolume _ _ \<Rightarrow> True
      | OpExtendLogicalVolume _ _ _ \<Rightarrow> True | OpGrowFilesystem _ _ \<Rightarrow> True | _ \<Rightarrow> False)"

text \<open>A partition is changed only after a backup of its table, LVM only after one of its metadata.\<close>

fun backed_up :: "bool \<Rightarrow> bool \<Rightarrow> operation list \<Rightarrow> bool" where
  "backed_up table lvm [] = True"
| "backed_up table lvm (op # ops) =
     ((case op of OpExtendPartition _ _ _ _ _ \<Rightarrow> table | OpResizePhysicalVolume _ _ \<Rightarrow> lvm
       | OpExtendLogicalVolume _ _ _ \<Rightarrow> lvm | _ \<Rightarrow> True)
      \<and> backed_up (table \<or> is_table_backup op) (lvm \<or> is_lvm_backup op) ops)"

text \<open>The layer of storage an operation changes, from the partition up to the file system.\<close>

definition storage_layer :: "operation \<Rightarrow> nat option" where
  "storage_layer op =
     (case op of OpExtendPartition _ _ _ _ _ \<Rightarrow> Some 1 | OpResizePhysicalVolume _ _ \<Rightarrow> Some 2
      | OpExtendLogicalVolume _ _ _ \<Rightarrow> Some 3 | OpGrowFilesystem _ _ \<Rightarrow> Some 4 | _ \<Rightarrow> None)"

definition sound_steps :: "plan_step list \<Rightarrow> bool" where
  "sound_steps steps =
     (steps \<noteq> [] \<and> length steps \<le> 8
      \<and> map pst_id steps = map of_nat [1..<Suc (length steps)]
      \<and> map pst_depends_on steps = [] # map (\<lambda>i. [of_nat i]) [1..<length steps]
      \<and> pst_operation (hd steps) = OpRevalidateSnapshot
      \<and> pst_operation (last steps) = OpRediscoverAndVerify
      \<and> backed_up False False (map pst_operation steps)
      \<and> sorted (List.map_filter storage_layer (map pst_operation steps))
      \<and> list_all (\<lambda>s. pst_reversibility s = RvIrreversible \<longleftrightarrow> changes_storage (pst_operation s)) steps)"

lemmas step_facts = step_def is_table_backup_def is_lvm_backup_def changes_storage_def storage_layer_def
  List.map_filter_def sound_steps_def upt_rec

lemma whole_filesystem_steps:
  assumes "build_whole_filesystem_candidate snapshot capabilities request = Inr (c, steps)"
  shows "sound_steps steps"
proof -
  from assms obtain fs m where "steps = [step 1 OpRevalidateSnapshot RvNotApplicable,
        step 2 (OpGrowFilesystem fs (Some m)) RvIrreversible,
        step 3 OpRediscoverAndVerify RvNotApplicable]"
    unfolding build_whole_filesystem_candidate_def by (auto simp: and_then_Inr Let_def split: prod.splits)
  then show ?thesis by (simp add: step_facts)
qed

lemma partition_steps:
  assumes "try_build_partition_candidate snapshot capabilities request = Inr (Some (c, steps))"
  shows "sound_steps steps"
proof -
  from assms obtain d l t p s os ns sec fs m where "steps = [step 1 OpRevalidateSnapshot RvNotApplicable,
        step 2 (OpBackupPartitionTableMetadata d l t) RvReversible,
        step 3 (OpExtendPartition p s os ns sec) RvIrreversible,
        step 4 (OpGrowFilesystem fs (Some m)) RvIrreversible,
        step 5 OpRediscoverAndVerify RvNotApplicable]"
    unfolding try_build_partition_candidate_def
    by (auto simp: and_then_Inr Let_def split: prod.splits if_splits)
  then show ?thesis by (simp add: step_facts)
qed

lemma lvm_steps:
  assumes "build_candidate snapshot capabilities request = Inr (c, steps)"
  shows "sound_steps steps"
proof -
  from assms obtain g l x n fs m where "steps = [step 1 OpRevalidateSnapshot RvNotApplicable,
        step 2 (OpBackupLvmMetadata g) RvReversible,
        step 3 (OpExtendLogicalVolume l x n) RvIrreversible,
        step 4 (OpGrowFilesystem fs m) RvIrreversible,
        step 5 OpRediscoverAndVerify RvNotApplicable]"
    unfolding build_candidate_def by (auto simp: and_then_Inr Let_def split: prod.splits)
  then show ?thesis by (simp add: step_facts)
qed

lemma underlying_partition_change_ops:
  assumes "underlying_partition_change snapshot route = Some (c, ops)"
  shows "\<exists>d l t p s os ns sec. ops = [OpBackupPartitionTableMetadata d l t, OpExtendPartition p s os ns sec]"
  using assms unfolding underlying_partition_change_def
  by (auto simp: Let_def bind_eq_Some_conv)

lemma underlying_steps_sound:
  assumes "build_lvm_underlying_growth_candidate snapshot request = Some (route, c, pc, steps)"
  shows "sound_steps steps"
proof -
  from assms obtain g ops p x l n z t m where
    steps: "steps = number_steps 1 (underlying_operations g ops p x l n z t m)"
    and ops: "ops = [] \<or> (\<exists>c. underlying_partition_change snapshot route = Some (c, ops))"
    unfolding build_lvm_underlying_growth_candidate_def
    by (auto simp: bind_eq_Some_conv Let_def split: if_splits prod.splits)
  show ?thesis
  proof (cases "ops = []")
    case True
    then show ?thesis unfolding steps underlying_operations_def by (simp add: step_facts)
  next
    case False
    with ops underlying_partition_change_ops obtain d l t p s os ns sec where
      "ops = [OpBackupPartitionTableMetadata d l t, OpExtendPartition p s os ns sec]" by blast
    then show ?thesis unfolding steps underlying_operations_def by (simp add: step_facts)
  qed
qed

section \<open>What a plan is when it is returned\<close>

definition no_sizes :: "plan_preview \<Rightarrow> bool" where
  "no_sizes plan =
     (ppv_size_change plan = None \<and> ppv_partition_size_change plan = None
      \<and> ppv_filesystem_size_change plan = None)"

definition fresh_plan :: "plan_preview \<Rightarrow> bool" where
  "fresh_plan plan =
     (ppv_status plan = PsBlocked \<and> ppv_blockers plan = [] \<and> ppv_steps plan = [] \<and> no_sizes plan)"

definition settled_plan :: "plan_preview \<Rightarrow> bool" where
  "settled_plan plan =
     (case ppv_status plan of
        PsPreview \<Rightarrow> ppv_blockers plan = [] \<and> sound_steps (ppv_steps plan) \<and> \<not> no_sizes plan
      | PsBlocked \<Rightarrow> length (ppv_blockers plan) = 1 \<and> ppv_steps plan = [] \<and> no_sizes plan)"

definition same_basis :: "plan_preview \<Rightarrow> plan_preview \<Rightarrow> bool" where
  "same_basis a b =
     (ppv_executable a = ppv_executable b \<and> ppv_dry_run a = ppv_dry_run b
      \<and> ppv_request a = ppv_request b \<and> ppv_snapshot_digest a = ppv_snapshot_digest b
      \<and> ppv_plan_id a = ppv_plan_id b)"

lemmas plan_facts = fresh_plan_def settled_plan_def no_sizes_def same_basis_def push_blocker_def

lemma partition_outcome:
  assumes "fresh_plan plan"
    "apply_partition_outcome plan snapshot (try_build_partition_candidate s c r) = (plan', b)"
  shows "same_basis plan' plan" "if b then settled_plan plan' else plan' = plan"
  using assms partition_steps[of s c r]
  by (auto simp: apply_partition_outcome_def plan_facts split: sum.splits option.splits prod.splits if_splits)

lemma underlying_outcome:
  assumes "fresh_plan plan" "build_lvm_underlying_growth_candidate s r = Some candidate"
  shows "settled_plan (apply_lvm_underlying_preview plan candidate)
    \<and> same_basis (apply_lvm_underlying_preview plan candidate) plan"
  using assms underlying_steps_sound[of s r]
  by (cases candidate) (auto simp: apply_lvm_underlying_preview_def plan_facts)

lemma lvm_outcome:
  assumes "fresh_plan plan"
  shows "settled_plan (apply_lvm_outcome plan snapshot (build_candidate s c r))
    \<and> same_basis (apply_lvm_outcome plan snapshot (build_candidate s c r)) plan"
proof (cases "build_candidate s c r")
  case (Inr x)
  with assms lvm_steps[of s c r] show ?thesis
    by (cases x) (auto simp: apply_lvm_outcome_def plan_facts)
next
  case (Inl b)
  show ?thesis
  proof (cases "build_lvm_underlying_growth_candidate snapshot (ppv_request plan)")
    case None
    with assms Inl show ?thesis
      by (cases "analyze_lvm_underlying_growth snapshot (ppv_request plan)")
         (auto simp: apply_lvm_outcome_def plan_facts)
  next
    case (Some candidate)
    with assms Inl underlying_outcome[OF assms Some] show ?thesis
      by (simp add: apply_lvm_outcome_def) (simp add: plan_facts)
  qed
qed

lemma whole_outcome:
  assumes "fresh_plan plan"
  shows "settled_plan (apply_whole_filesystem_outcome plan (build_whole_filesystem_candidate s c r))
    \<and> same_basis (apply_whole_filesystem_outcome plan (build_whole_filesystem_candidate s c r)) plan"
  using assms whole_filesystem_steps[of s c r]
  by (cases "build_whole_filesystem_candidate s c r")
     (auto simp: apply_whole_filesystem_outcome_def plan_facts split: prod.splits)

lemma legacy_outcome:
  assumes "fresh_plan plan"
  shows "settled_plan (apply_legacy_extend_profile plan s c)
    \<and> same_basis (apply_legacy_extend_profile plan s c) plan"
proof -
  obtain plan' b where o': "apply_partition_outcome plan s
      (try_build_partition_candidate s c (ppv_request plan)) = (plan', b)" by fastforce
  from partition_outcome[OF assms o'] lvm_outcome[OF assms, of s s c "ppv_request plan"] show ?thesis
    by (cases b) (auto simp: apply_legacy_extend_profile_def o')
qed

lemma plan_profile_settled:
  assumes "fresh_plan plan"
  shows "settled_plan (plan_profile s c plan) \<and> same_basis (plan_profile s c plan) plan"
  unfolding plan_profile_def Let_def
  using legacy_outcome[OF assms, of s c] lvm_outcome[OF assms, of s s c "ppv_request plan"]
    whole_outcome[OF assms, of s c "ppv_request plan"] underlying_outcome[OF assms, of s "ppv_request plan"] assms
  by (auto split: extend_planner_profile.splits option.splits if_splits simp: plan_facts)

lemma evidence_checks_frame:
  "same_basis (add_evidence_checks s plan) plan"
  "settled_plan (add_evidence_checks s plan) = settled_plan plan"
  "ppv_steps (add_evidence_checks s plan) = ppv_steps plan"
  by (auto simp: add_evidence_checks_def plan_facts split: option.splits plan_status.splits)

lemma fresh_new: "fresh_plan (new_extend_plan digest request)"
  by (simp add: new_extend_plan_def plan_facts)

lemma extend_plan_outcome:
  "case plan_extend fps fpp snapshot capabilities request of
     Inl e \<Rightarrow> fps (snapshot, capabilities) = Inl e \<or> (\<exists>plan. fpp plan = Inl e)
   | Inr plan \<Rightarrow>
       \<not> ppv_executable plan \<and> ppv_dry_run plan \<and> ppv_request plan = request
       \<and> fps (snapshot, capabilities) = Inr (ppv_snapshot_digest plan)
       \<and> fpp (plan\<lparr>ppv_plan_id := []\<rparr>) = Inr (ppv_plan_id plan)
       \<and> (case ppv_status plan of
            PsPreview \<Rightarrow> ppv_blockers plan = [] \<and> sound_steps (ppv_steps plan) \<and> \<not> no_sizes plan
          | PsBlocked \<Rightarrow> length (ppv_blockers plan) = 1 \<and> ppv_steps plan = [] \<and> no_sizes plan)"
proof (cases "fps (snapshot, capabilities)")
  case (Inl e)
  then show ?thesis by (simp add: plan_extend_def)
next
  case (Inr digest)
  define p where "p = add_evidence_checks snapshot
    (plan_profile snapshot capabilities (new_extend_plan digest request))"
  have s: "settled_plan p" and b: "same_basis p (new_extend_plan digest request)"
    using plan_profile_settled[OF fresh_new, of snapshot capabilities digest request]
      evidence_checks_frame[of snapshot "plan_profile snapshot capabilities (new_extend_plan digest request)"]
    unfolding p_def by (auto simp: same_basis_def)
  from b have basis: "\<not> ppv_executable p" "ppv_dry_run p" "ppv_request p = request"
    "ppv_snapshot_digest p = digest" "ppv_plan_id p = []"
    by (simp_all add: same_basis_def new_extend_plan_def)
  show ?thesis
  proof (cases "fpp p")
    case (Inl e)
    with Inr show ?thesis by (auto simp: plan_extend_def Let_def p_def)
  next
    case id: (Inr i)
    have result: "plan_extend fps fpp snapshot capabilities request = Inr (p\<lparr>ppv_plan_id := i\<rparr>)"
      using Inr id by (simp add: plan_extend_def Let_def p_def)
    have reset: "p\<lparr>ppv_plan_id := []\<rparr> = p" using basis(5) by (cases p) simp
    have "fpp (p\<lparr>ppv_plan_id := []\<rparr>) = Inr i" unfolding reset by (rule id)
    with s basis Inr show ?thesis unfolding result
      by (cases "ppv_status p") (simp_all add: settled_plan_def no_sizes_def)
  qed
qed

text \<open>C34: an extension plan is never executable and always a dry run, for the request it was made for and
  the digest of the snapshot and the tools it was made from. Either exactly one blocker stands
  against it, and it has no steps and no size changes; or none does, and it has a size change and steps
  that are numbered and chained from the revalidation of the snapshot to the final verification,
  mark just the operations that change storage as irreversible, back up a partition table or LVM
  metadata before they change them, and change the lower layers of storage first.\<close>

theorem extend_plan_shape:
  "case plan_extend fps fpp snapshot capabilities request of
     Inl e \<Rightarrow> fps (snapshot, capabilities) = Inl e \<or> (\<exists>plan. fpp plan = Inl e)
   | Inr plan \<Rightarrow>
       \<not> ppv_executable plan \<and> ppv_dry_run plan \<and> ppv_request plan = request
       \<and> fps (snapshot, capabilities) = Inr (ppv_snapshot_digest plan)
       \<and> fpp (plan\<lparr>ppv_plan_id := []\<rparr>) = Inr (ppv_plan_id plan)
       \<and> (case ppv_status plan of
            PsPreview \<Rightarrow> ppv_blockers plan = [] \<and> sound_steps (ppv_steps plan) \<and> \<not> no_sizes plan
          | PsBlocked \<Rightarrow> length (ppv_blockers plan) = 1 \<and> ppv_steps plan = [] \<and> no_sizes plan)"
  by (rule extend_plan_outcome)

section \<open>Growing a partition\<close>

text \<open>The one disk, table and record a growth of a partition is about, and the free space behind it.\<close>

definition partition_growth_ok ::
  "host_snapshot \<Rightarrow> string \<Rightarrow> u64 \<Rightarrow> u64 \<Rightarrow> u64 \<Rightarrow> u64 \<Rightarrow> bool" where
  "partition_growth_ok snapshot node start old_size new_size sector =
     (\<exists>disk table record.
        disk \<in> set (map ref_node (snapshot_nodes snapshot)) \<and> disk_or_loop disk
      \<and> filter (\<lambda>t. pt_device t = device_path disk) (hs_partition_tables snapshot) = [table]
      \<and> filter (\<lambda>r. pr_node r = node) (pt_partitions table) = [record]
      \<and> pt_sector_size_bytes table = Some sector
      \<and> pr_start_sector record = start \<and> pr_size_sectors record = old_size
      \<and> unat old_size < unat new_size
      \<and> growth_fits (growth_limit disk table) table record (unat new_size - unat old_size)
      \<and> ensure_partition_role_is_growable table record = Inr ())"

lemma partition_growth_sizes_Inr:
  assumes "partition_growth_sizes amount sector old_size adjacent = Inr (requested, rounded, new_size, expected, left)"
    "512 \<le> sector"
  shows "unat old_size < unat new_size" "unat new_size - unat old_size \<le> unat adjacent"
    "unat rounded = round_up (unat requested) (unat sector)"
    "unat rounded = (unat new_size - unat old_size) * unat sector"
proof -
  from assms(1) have r: "0 < requested" "units_for requested sector \<le> adjacent"
    and m: "checked_mul (units_for requested sector) sector = Some rounded"
    and a: "checked_add old_size (units_for requested sector) = Some new_size"
    by (auto simp: partition_growth_sizes_def and_then_Inr Let_def)
  have nz: "sector \<noteq> 0" using assms(2) by auto
  note u = units_for_nat[OF nz, of requested]
  have n: "unat new_size = unat old_size + unat (units_for requested sector)" using checked_add_Some[OF a] .
  have "0 < unat requested" using r(1) by (simp add: word_gt_0 unat_gt_0)
  with round_up_bounds(1)[of "unat sector" "unat requested"] nz have "0 < round_up (unat requested) (unat sector)"
    by (metis order_less_le_trans unat_gt_0)
  then have "0 < unat (units_for requested sector)" unfolding u[symmetric] by simp
  with n r(2) u checked_mul_Some[OF m] show "unat old_size < unat new_size"
    "unat new_size - unat old_size \<le> unat adjacent"
    "unat rounded = round_up (unat requested) (unat sector)"
    "unat rounded = (unat new_size - unat old_size) * unat sector"
    by (simp_all add: word_le_nat_alt)
qed

lemma partition_parent_disk_Inr:
  "partition_parent_disk snapshot device = Inr disk \<Longrightarrow>
     disk \<in> set (map ref_node (snapshot_nodes snapshot)) \<and> disk_or_loop disk"
  by (auto simp: partition_parent_disk_def and_then_Inr dest!: unique_filter) (force dest: filter_eq_ConsD)+

lemma only_record_filter:
  "filter (\<lambda>r. pr_node r = n) rs = [t] \<Longrightarrow> filter (\<lambda>r. pr_node r = pr_node t) rs = [t]"
proof -
  assume f: "filter (\<lambda>r. pr_node r = n) rs = [t]"
  then have "t \<in> set (filter (\<lambda>r. pr_node r = n) rs)" by simp
  then have "pr_node t = n" by simp
  with f show ?thesis by simp
qed

lemma partition_growthI:
  assumes "partition_parent_disk snapshot device = Inr disk"
    "filter (\<lambda>t. pt_device t = device_path disk) (hs_partition_tables snapshot) = [table]"
    "pt_sector_size_bytes table = Some sector"
    "filter (\<lambda>r. pr_node r = node) (pt_partitions table) = [rcd]"
    "ensure_partition_role_is_growable table rcd = Inr ()"
    "adjacent_free_sectors disk table rcd = Inr adjacent"
    "unat (pr_size_sectors rcd) < unat new_size"
    "unat new_size - unat (pr_size_sectors rcd) \<le> unat adjacent"
  shows "partition_growth_ok snapshot node (pr_start_sector rcd) (pr_size_sectors rcd) new_size sector"
proof -
  have "growth_fits (growth_limit disk table) table rcd (unat new_size - unat (pr_size_sectors rcd))"
    by (rule growth_fits_mono[OF adjacent_free_sectors_sound(1)[OF assms(6) only_record_filter[OF assms(4)]] assms(8)])
  with partition_parent_disk_Inr[OF assms(1)] assms show ?thesis
    unfolding partition_growth_ok_def by (intro exI[of _ disk] exI[of _ table] exI[of _ rcd]) simp
qed

lemma direct_partition_growth:
  assumes "try_build_partition_candidate snapshot capabilities request = Inr (Some (c, steps))"
    "s \<in> set steps" "pst_operation s = OpExtendPartition node start old_size new_size sector"
  shows "partition_growth_ok snapshot node start old_size new_size sector"
  using assms unfolding try_build_partition_candidate_def Let_def
  apply (elim stepsE)
  apply (clarsimp simp: step_def)
  apply (elim disjE; clarsimp)
  apply (frule (1) partition_growth_sizes_Inr(1))
  apply (drule (1) partition_growth_sizes_Inr(2))
  apply (rule partition_growthI; (assumption | simp add: device_path_def))
  done

lemma underlying_partition_cases:
  assumes "underlying_partition snapshot device = Some (disk_path, Some p, adjacent, sec)"
  obtains disk table rcd sectors where "partition_parent_disk snapshot device = Inr disk"
    "disk_path = device_path disk"
    "filter (\<lambda>t. pt_device t = disk_path) (hs_partition_tables snapshot) = [table]"
    "512 \<le> sec" "filter (\<lambda>r. pr_node r = p) (pt_partitions table) = [rcd]"
    "adjacent_free_sectors disk table rcd = Inr sectors" "checked_mul sectors sec = Some adjacent"
proof -
  from assms show thesis unfolding underlying_partition_def Let_def
    apply (simp split: if_splits)
    apply (elim stepsE)
    apply (clarsimp simp: assert_def split: if_splits)
    apply (rule that; (assumption | rule refl | simp))
    done
qed

lemma underlying_change_cases:
  assumes "underlying_partition_change snapshot route = Some (c, ops)"
  obtains p table label rcd ns sec where "gra_partition route = Some p"
    "filter (\<lambda>t. pt_device t = gra_disk route) (hs_partition_tables snapshot) = [table]"
    "pt_sector_size_bytes table = Some sec" "sec = gra_sector_size_bytes route"
    "gra_required_partition_growth_bytes route mod sec = 0"
    "filter (\<lambda>r. pr_node r = p) (pt_partitions table) = [rcd]"
    "ensure_partition_role_is_growable table rcd = Inr ()"
    "checked_add (pr_size_sectors rcd) (gra_required_partition_growth_bytes route div sec) = Some ns"
    "ops = [OpBackupPartitionTableMetadata (gra_disk route) label (pt_id table),
        OpExtendPartition p (pr_start_sector rcd) (pr_size_sectors rcd) ns sec]"
proof -
  from assms show thesis unfolding underlying_partition_change_def Let_def
    apply (elim stepsE)
    apply (clarsimp simp: assert_def split: if_splits del: mod_0_imp_dvd)
    apply (rule that; (assumption | rule refl))
    done
qed

lemma underlying_partition_growth:
  assumes "build_lvm_underlying_growth_candidate snapshot request = Some (route, c, pc, steps)"
    "s \<in> set steps" "pst_operation s = OpExtendPartition node start old_size new_size sector"
  shows "partition_growth_ok snapshot node start old_size new_size sector"
proof -
  from assms(1) obtain g ops p x l n z t m where
    an: "analyze_lvm_underlying_growth snapshot request = Some route"
    and steps: "steps = number_steps 1 (underlying_operations g ops p x l n z t m)"
    and ops: "ops = [] \<or> (0 < gra_required_partition_growth_bytes route
       \<and> (\<exists>c. underlying_partition_change snapshot route = Some (c, ops)))"
    unfolding build_lvm_underlying_growth_candidate_def
    by (auto simp: bind_eq_Some_conv Let_def split: if_splits prod.splits)
  have "ops \<noteq> []"
    using assms(2,3) unfolding steps underlying_operations_def by (auto simp: step_def)
  with ops obtain c' where pos: "0 < gra_required_partition_growth_bytes route"
    and pc: "underlying_partition_change snapshot route = Some (c', ops)" by auto
  from an obtain e disk_path partition_path adjacent sec max_growth requested required' where
    u: "underlying_partition snapshot (uev_pv_device e) = Some (disk_path, partition_path, adjacent, sec)"
      "underlying_sizes (erq_growth request) e adjacent sec = Some (max_growth, requested, required')"
      "gra_disk route = disk_path" "gra_partition route = partition_path" "gra_sector_size_bytes route = sec"
      "gra_required_partition_growth_bytes route = required'"
    unfolding analyze_lvm_underlying_growth_def by (auto simp: bind_eq_Some_conv Let_def)
  from u(2) have le: "required' \<le> adjacent"
    by (auto simp: underlying_sizes_def bind_eq_Some_conv Let_def assert_def split: if_splits)
  obtain partition table label rcd ns sec' where
    w: "gra_partition route = Some partition"
      "filter (\<lambda>t. pt_device t = gra_disk route) (hs_partition_tables snapshot) = [table]"
      "pt_sector_size_bytes table = Some sec'" "sec' = gra_sector_size_bytes route"
      "gra_required_partition_growth_bytes route mod sec' = 0"
      "filter (\<lambda>r. pr_node r = partition) (pt_partitions table) = [rcd]"
      "ensure_partition_role_is_growable table rcd = Inr ()"
      "checked_add (pr_size_sectors rcd) (gra_required_partition_growth_bytes route div sec') = Some ns"
      "ops = [OpBackupPartitionTableMetadata (gra_disk route) label (pt_id table),
        OpExtendPartition partition (pr_start_sector rcd) (pr_size_sectors rcd) ns sec']"
    by (rule underlying_change_cases[OF pc])
  from assms(2,3) have op: "node = partition" "start = pr_start_sector rcd"
    "old_size = pr_size_sectors rcd" "new_size = ns" "sector = sec'"
    unfolding steps underlying_operations_def w(9) by (auto simp: step_def)
  have "partition_path = Some partition" using u(4) w(1) by simp
  with u(1) have pp: "underlying_partition snapshot (uev_pv_device e) = Some (disk_path, Some partition, adjacent, sec)"
    by simp
  obtain disk table' rcd' sectors where
    d: "partition_parent_disk snapshot (uev_pv_device e) = Inr disk" "disk_path = device_path disk"
      "filter (\<lambda>t. pt_device t = disk_path) (hs_partition_tables snapshot) = [table']"
      "512 \<le> sec" "filter (\<lambda>r. pr_node r = partition) (pt_partitions table') = [rcd']"
      "adjacent_free_sectors disk table' rcd' = Inr sectors" "checked_mul sectors sec = Some adjacent"
    by (rule underlying_partition_cases[OF pp])
  from d(3,5) w(2,6) u(3) have same: "table' = table" "rcd' = rcd" by auto
  let ?k = "gra_required_partition_growth_bytes route div sec'"
  have sec: "sec' = sec" using w(4) u(5) by simp
  from d(4) have nz: "0 < unat sec" by (auto simp: unat_gt_0)
  have k: "unat ?k * unat sec = unat required'"
  proof -
    have "unat required' mod unat sec = 0"
      using w(5) u(6) sec by (metis unat_0 unat_mod)
    then show ?thesis using u(6) sec by (simp add: unat_div) (metis mod_0_imp_dvd dvd_div_mult_self)
  qed
  have "0 < unat ?k" using pos k u(6) by (metis gr0I mult_0 unat_gt_0 word_gt_0)
  have "unat ?k * unat sec \<le> unat sectors * unat sec"
    using k le checked_mul_Some[OF d(7)] by (simp add: word_le_nat_alt)
  with nz have "unat ?k \<le> unat sectors" by simp
  have n: "unat ns = unat (pr_size_sectors rcd) + unat ?k" using checked_add_Some[OF w(8)] .
  show ?thesis unfolding op
    by (rule partition_growthI[OF d(1) _ w(3) w(6,7) d(6)[unfolded same]])
       (use w(2) u(3) d(2) n \<open>0 < unat ?k\<close> \<open>unat ?k \<le> unat sectors\<close> in simp_all)
qed

text \<open>Which builder the steps of a plan come from.\<close>

definition steps_origin :: "host_snapshot \<Rightarrow> host_capabilities \<Rightarrow> extend_request \<Rightarrow> plan_step list \<Rightarrow> bool" where
  "steps_origin s c r steps =
     (steps = []
      \<or> (\<exists>x. build_whole_filesystem_candidate s c r = Inr (x, steps))
      \<or> (\<exists>x. try_build_partition_candidate s c r = Inr (Some (x, steps)))
      \<or> (\<exists>x. build_candidate s c r = Inr (x, steps))
      \<or> (\<exists>route x pc. build_lvm_underlying_growth_candidate s r = Some (route, x, pc, steps)))"

lemma lvm_outcome_origin:
  assumes "fresh_plan plan"
  shows "steps_origin s c (ppv_request plan)
    (ppv_steps (apply_lvm_outcome plan s (build_candidate s c (ppv_request plan))))"
  using assms unfolding steps_origin_def apply_lvm_outcome_def apply_lvm_underlying_preview_def
  by (auto simp: plan_facts split: sum.splits prod.splits option.splits)

lemma legacy_origin:
  assumes "fresh_plan plan"
  shows "steps_origin s c (ppv_request plan) (ppv_steps (apply_legacy_extend_profile plan s c))"
proof -
  obtain plan' b where o': "apply_partition_outcome plan s
      (try_build_partition_candidate s c (ppv_request plan)) = (plan', b)" by fastforce
  show ?thesis
  proof (cases b)
    case False
    with partition_outcome[OF assms o'] lvm_outcome_origin[OF assms, of s c] o' show ?thesis
      by (simp add: apply_legacy_extend_profile_def)
  next
    case True
    with o' assms show ?thesis
      by (auto simp: apply_legacy_extend_profile_def apply_partition_outcome_def steps_origin_def plan_facts
        split: sum.splits option.splits if_splits)
  qed
qed

lemma plan_profile_origin:
  assumes "fresh_plan plan"
  shows "steps_origin s c (ppv_request plan) (ppv_steps (plan_profile s c plan))"
  using legacy_origin[OF assms, of s c] lvm_outcome_origin[OF assms, of s c] assms
  unfolding plan_profile_def Let_def
  by (auto simp: apply_whole_filesystem_outcome_def apply_lvm_underlying_preview_def steps_origin_def plan_facts
      split: extend_planner_profile.splits sum.splits prod.splits option.splits if_splits)

lemma plan_extend_steps:
  assumes "plan_extend fps fpp snapshot capabilities request = Inr plan"
  shows "steps_origin snapshot capabilities request (ppv_steps plan)"
proof -
  from assms obtain digest i where "plan = (add_evidence_checks snapshot
      (plan_profile snapshot capabilities (new_extend_plan digest request)))\<lparr>ppv_plan_id := i\<rparr>"
    by (auto simp: plan_extend_def and_then_Inr Let_def)
  with plan_profile_origin[OF fresh_new, of snapshot capabilities digest request] show ?thesis
    by (simp add: evidence_checks_frame(3)) (simp add: new_extend_plan_def)
qed


lemma whole_filesystem_no_partition:
  "build_whole_filesystem_candidate snapshot capabilities request = Inr (x, steps) \<Longrightarrow> s \<in> set steps
     \<Longrightarrow> pst_operation s \<noteq> OpExtendPartition node start old_size new_size sector"
  unfolding build_whole_filesystem_candidate_def Let_def
  by (elim stepsE) (auto simp: step_def)

lemma lvm_no_partition:
  "build_candidate snapshot capabilities request = Inr (x, steps) \<Longrightarrow> s \<in> set steps
     \<Longrightarrow> pst_operation s \<noteq> OpExtendPartition node start old_size new_size sector"
  unfolding build_candidate_def Let_def
  by (elim stepsE) (auto simp: step_def)

text \<open>C33: a step of an extension plan that grows a partition names the only record of a partition in the
  only table of a disk, with the start and the size it has, and a larger size. The sectors it adds
  end inside the area of the table, meet no partition of the table, and belong to a partition whose
  role may grow (no EFI, BIOS boot or boot loader partition).\<close>

theorem partition_growth_in_free_space:
  assumes "plan_extend fps fpp snapshot capabilities request = Inr plan" "s \<in> set (ppv_steps plan)"
    "pst_operation s = OpExtendPartition node start old_size new_size sector"
  shows "\<exists>disk table r.
        disk \<in> set (map ref_node (snapshot_nodes snapshot)) \<and> disk_or_loop disk
      \<and> filter (\<lambda>t. pt_device t = device_path disk) (hs_partition_tables snapshot) = [table]
      \<and> filter (\<lambda>r. pr_node r = node) (pt_partitions table) = [r]
      \<and> pt_sector_size_bytes table = Some sector
      \<and> pr_start_sector r = start \<and> pr_size_sectors r = old_size
      \<and> unat old_size < unat new_size
      \<and> unat start + unat new_size \<le> growth_limit disk table
      \<and> {unat start + unat old_size ..< unat start + unat new_size} \<inter> allocated_sectors table = {}
      \<and> ensure_partition_role_is_growable table r = Inr ()"
proof -
  have "partition_growth_ok snapshot node start old_size new_size sector"
    using plan_extend_steps[OF assms(1)] assms(2,3) direct_partition_growth underlying_partition_growth
      whole_filesystem_no_partition lvm_no_partition
    unfolding steps_origin_def by fastforce
  then show ?thesis unfolding partition_growth_ok_def growth_fits_def record_end_def
    by (elim exE) (intro exI conjI; force)
qed

text \<open>The partition of \<open>ex_host\<close> with its table, to be grown by 1 MiB.\<close>

definition ex_growth_record :: partition_record where
  "ex_growth_record = \<lparr> pr_node = ''/dev/sda1'', pr_start_sector = 2048, pr_size_sectors = 2048,
     pr_partition_type = Some ''0fc63daf-8483-4772-8e79-3d69d8477de4'', pr_uuid = None, pr_name = None,
     pr_attrs = None, pr_bootable = None \<rparr>"

definition ex_growth_table :: partition_table where
  "ex_growth_table = \<lparr> pt_device = ''/dev/sda'', pt_label = Some ''gpt'', pt_id = None, pt_unit = None,
     pt_first_lba = Some 34, pt_last_lba = Some 2097118, pt_sector_size_bytes = Some 512,
     pt_partitions = [ex_growth_record] \<rparr>"

definition ex_growth_host :: host_snapshot where
  "ex_growth_host = ex_host\<lparr>hs_partition_tables := [ex_growth_table],
     hs_collectors := map (\<lambda>c. \<lparr> cs_component = c, cs_state = CsComplete, cs_detail = None \<rparr>)
       [''lsblk'', ''partition_tables'', ''mounts'', ''fstab'', ''swap'']\<rparr>"

definition ex_growth_tools :: host_capabilities where
  "ex_growth_tools = \<lparr> hc_tools = map (\<lambda>t. \<lparr> tc_name = t, tc_available = True \<rparr>) [''sfdisk'', ''resize2fs''] \<rparr>"

definition ex_growth_request :: extend_request where
  "ex_growth_request = \<lparr> erq_target = ''/'', erq_growth = ByBytes 1048576 \<rparr>"

lemma ex_growth_route:
  "era_profile (resolve_extend_route_adapter ex_growth_host ''/'') = EppDirectPartition"
  "era_resolved_device (resolve_extend_route_adapter ex_growth_host ''/'') = Some ''/dev/sda1''"
  "era_mountpoint (resolve_extend_route_adapter ex_growth_host ''/'') = Some ''/''"
  by code_simp+

lemma ex_growth_adjacent: "adjacent_free_sectors ex_disk ex_growth_table ex_growth_record = Inr 2093023"
  by (simp add: adjacent_free_sectors_def adjacent_free_gpt_def ex_growth_table_def ex_growth_record_def
     ensure_def checked_add_def checked_sub_def adjacent_from_ranges_def ranges_overlap_def)


lemma ex_growth_nodes:
  "map ref_node (flatten [ex_disk]) = [ex_disk, ex_partition]" 
  "flatten [ex_disk] = [([0], ex_disk), ([0, 0], ex_partition)]" 
  by code_simp+

lemma ex_growth_role: "ensure_partition_role_is_growable ex_growth_table ex_growth_record = Inr ()"
  by code_simp


lemma ex_growth_facts:
  "snapshot_nodes ex_growth_host = [([0], ex_disk), ([0, 0], ex_partition)]"
  "hs_partition_tables ex_growth_host = [ex_growth_table]" "hs_swaps ex_growth_host = []"
  "hs_mounts ex_growth_host = [\<lparr> me_source = Some ''/dev/sda1'', me_target = ''/'', me_fs_type = Some ''ext4'',
       me_options = [''rw''] \<rparr>]" "hs_diagnostics ex_growth_host = []"
  "node_alias ex_partition ''/dev/sda1''" "\<not> node_alias ex_disk ''/dev/sda1''"
  by (simp_all add: snapshot_nodes_def ex_growth_host_def ex_host_def ex_growth_nodes) code_simp+

lemma ex_growth_collectors: "collectors_complete ex_growth_host
     [''lsblk'', ''partition_tables'', ''mounts'', ''fstab'', ''swap''] m = Inr ()"
  by (simp add: collectors_complete_def ex_growth_host_def unique_def ensure_def)

definition ex_growth_steps :: "plan_step list" where
  "ex_growth_steps = [step 1 OpRevalidateSnapshot RvNotApplicable,
     step 2 (OpBackupPartitionTableMetadata ''/dev/sda'' ''gpt'' None) RvReversible,
     step 3 (OpExtendPartition ''/dev/sda1'' 2048 2048 4096 512) RvIrreversible,
     step 4 (OpGrowFilesystem ''ext4'' (Some ''/'')) RvIrreversible,
     step 5 OpRediscoverAndVerify RvNotApplicable]"

lemma ex_growth_candidate:
  "\<exists>c. try_build_partition_candidate ex_growth_host ex_growth_tools ex_growth_request = Inr (Some (c, ex_growth_steps))"
proof -
  have t: "target_valid ''/''" by code_simp
  have d: "bd_kind ex_partition = NkPartition" "bd_kind ex_disk = NkDisk" "bd_children ex_partition = []"
    "bd_filesystem ex_partition = Some \<lparr> fs_type = ''ext4'', fs_version = None \<rparr>"
    "bd_path ex_disk = Some ''/dev/sda''" "bd_path ex_partition = Some ''/dev/sda1''"
    "bd_logical_sector_bytes ex_partition = Some 512" "bd_mountpoints ex_partition = [''/'']"
    "bd_parent_kernel_name ex_partition = Some ''sda''" "bd_kernel_name ex_disk = Some ''sda''"
    "bd_start_512_sector ex_partition = Some 2048" "bd_size_bytes ex_partition = 1048576"
    by (simp_all add: ex_partition_def ex_disk_def)
  have w: "pr_start_sector ex_growth_record = 2048" "pr_size_sectors ex_growth_record = 2048"
    "pr_node ex_growth_record = ''/dev/sda1''" "pt_device ex_growth_table = ''/dev/sda''"
    "pt_partitions ex_growth_table = [ex_growth_record]" "pt_sector_size_bytes ex_growth_table = Some 512"
    "pt_label ex_growth_table = Some ''gpt''" "pt_id ex_growth_table = None"
    by (simp_all add: ex_growth_record_def ex_growth_table_def)
  have g: "partition_geometry_agrees ex_partition ex_growth_record 512 = Inr 1048576"
    by (simp add: partition_geometry_agrees_def d w checked_mul_def ensure_def)
  have z: "partition_growth_sizes (ByBytes 1048576) 512 2048 2093023
     = Inr (1048576, 1048576, 4096, 2097152, 1070579200)"
    by (simp add: partition_growth_sizes_def units_for_def checked_mul_def checked_add_def ensure_def)
  have p: "partition_parent_disk ex_growth_host ex_partition = Inr ex_disk"
    by (simp add: partition_parent_disk_def d ex_growth_facts disk_or_loop_def unique_def)
  have tl: "tools_available ex_growth_tools [''sfdisk'', grow_tool ''ext4''] m = Inr ()" for m
    by (simp add: tools_available_def ex_growth_tools_def grow_tool_def unique_def ensure_def)
  show ?thesis
    by (simp add: try_build_partition_candidate_def ex_growth_request_def ex_growth_route t
      ex_growth_facts d w g z p tl unique_def ensure_def growable_type_def mount_confirmed_def ex_growth_collectors
      no_error_diagnostics_def has_error_diagnostic_def power_of_two_512 ex_growth_role ex_growth_adjacent ex_growth_steps_def)
qed

lemma ex_growth_profile:
  "ppv_steps (plan_profile ex_growth_host ex_growth_tools (new_extend_plan d ex_growth_request)) = ex_growth_steps"
proof -
  from ex_growth_candidate obtain c where
    "try_build_partition_candidate ex_growth_host ex_growth_tools ex_growth_request = Inr (Some (c, ex_growth_steps))" by blast
  moreover have "erq_target ex_growth_request = ''/''" by (simp add: ex_growth_request_def)
  ultimately show ?thesis
    by (simp add: plan_profile_def new_extend_plan_def select_extend_planner_profile_def ex_growth_route
        apply_legacy_extend_profile_def apply_partition_outcome_def)
qed


definition ex_growth_plan :: plan_preview where
  "ex_growth_plan = projr (plan_extend (\<lambda>_. Inr ''d'') (\<lambda>_. Inr ''p'') ex_growth_host ex_growth_tools ex_growth_request)"

lemma ex_growth_plan:
  "plan_extend (\<lambda>_. Inr ''d'') (\<lambda>_. Inr ''p'') ex_growth_host ex_growth_tools ex_growth_request = Inr ex_growth_plan"
  "step 3 (OpExtendPartition ''/dev/sda1'' 2048 2048 4096 512) RvIrreversible \<in> set (ppv_steps ex_growth_plan)"
proof -
  show e: "plan_extend (\<lambda>_. Inr ''d'') (\<lambda>_. Inr ''p'') ex_growth_host ex_growth_tools ex_growth_request = Inr ex_growth_plan"
    by (simp add: ex_growth_plan_def plan_extend_def Let_def)
  have "step 3 (OpExtendPartition ''/dev/sda1'' 2048 2048 4096 512) RvIrreversible
      \<in> set (ppv_steps (plan_profile ex_growth_host ex_growth_tools (new_extend_plan ''d'' ex_growth_request)))"
    by (simp add: ex_growth_profile ex_growth_steps_def)
  then show "step 3 (OpExtendPartition ''/dev/sda1'' 2048 2048 4096 512) RvIrreversible \<in> set (ppv_steps ex_growth_plan)"
    by (simp add: ex_growth_plan_def plan_extend_def Let_def evidence_checks_frame(3))
qed

theorem partition_growth_in_free_space_witness:
  "\<exists>disk table r. disk \<in> set (map ref_node (snapshot_nodes ex_growth_host))
     \<and> filter (\<lambda>r. pr_node r = ''/dev/sda1'') (pt_partitions table) = [r]
     \<and> {2048 + 2048 ..< 2048 + 4096} \<inter> allocated_sectors table = {}"
proof -
  have "pst_operation (step 3 (OpExtendPartition ''/dev/sda1'' 2048 2048 4096 512) RvIrreversible)
    = OpExtendPartition ''/dev/sda1'' 2048 2048 4096 512" by (simp add: step_def)
  from partition_growth_in_free_space[OF ex_growth_plan this]
  show ?thesis by (elim exE conjE) (intro exI conjI; simp)
qed

end
