(* ===== verification/ProvisioningIntent.thy ===== *)
theory ProvisioningIntent
  imports CreatePlan
begin

text \<open>
  The frozen create intents of \<open>crates/planner/src/create_intent.rs\<close> (one filesystem on a blank disk)
  and \<open>crates/planner/src/gpt_tail_intent.rs\<close> (one in the tail of an existing GPT disk): the checks a
  create preview and a fresh snapshot must pass, the frozen geometry, and the identifier. An
  identifier is the SHA-256 of the JSON of every other field, here the parameter \<open>fp\<close> applied to the
  intent with an empty identifier; the digest of a canonical table is the parameter \<open>sha_table\<close>.
\<close>

section \<open>An intent for a blank disk\<close>

record blank_disk_intent =
  bdi_schema_version :: u32
  bdi_intent_id :: string
  bdi_executable :: bool
  bdi_status :: plan_status
  bdi_create_plan_id :: string
  bdi_source_id :: string
  bdi_disk :: string
  bdi_disk_size_bytes :: u64
  bdi_logical_sector_bytes :: u64
  bdi_disk_model :: "string option"
  bdi_disk_serial :: "string option"
  bdi_partition_table :: create_partition_table_policy
  bdi_partition_start_sector :: u64
  bdi_partition_sector_count :: u64
  bdi_partition_size_bytes :: u64
  bdi_filesystem :: string
  bdi_mountpoint :: "string option"
  bdi_blockers :: "plan_blocker list"
  bdi_ordered_future_steps :: "string list"

definition bdi_ready :: "blank_disk_intent \<Rightarrow> bool" where
  "bdi_ready i = (bdi_status i = PsPreview \<and> bdi_blockers i = [] \<and> \<not> bdi_executable i)"

definition bdi_expected_intent_id ::
  "(blank_disk_intent \<Rightarrow> ('e, string) result) \<Rightarrow> blank_disk_intent \<Rightarrow> ('e, string) result" where
  "bdi_expected_intent_id fp i = fp (i\<lparr>bdi_intent_id := []\<rparr>)"

definition bdi_integrity_matches ::
  "(blank_disk_intent \<Rightarrow> ('e, string) result) \<Rightarrow> blank_disk_intent \<Rightarrow> ('e, bool) result" where
  "bdi_integrity_matches fp i =
     and_then (bdi_expected_intent_id fp i) (\<lambda>expected. Inr (bdi_intent_id i = expected))"

text \<open>What the preview says about the request, the source and the allocation.\<close>

definition plan_not_freezable :: "create_plan_preview \<Rightarrow> bool" where
  "plan_not_freezable plan =
     (cpp_status plan \<noteq> PsPreview \<or> cpp_executable plan \<or> cpp_blockers plan \<noteq> [])"

definition source_of_kind :: "provisioning_space_kind \<Rightarrow> create_plan_preview \<Rightarrow> bool" where
  "source_of_kind kind plan = (case cpp_source plan of None \<Rightarrow> False | Some s \<Rightarrow> po_kind s = kind)"

definition frozen_filesystem :: "create_plan_preview \<Rightarrow> string" where
  "frozen_filesystem plan = unwrap_or (crq_filesystem (cpp_request plan)) []"

definition frozen_disk_path :: "create_plan_preview \<Rightarrow> string" where
  "frozen_disk_path plan = unwrap_or (Option.bind (cpp_source plan) po_disk) []"

definition frozen_start :: "create_plan_preview \<Rightarrow> u64 option" where
  "frozen_start plan = Option.bind (cpp_allocation plan) cal_start_sector"

definition frozen_count :: "create_plan_preview \<Rightarrow> u64 option" where
  "frozen_count plan = Option.bind (cpp_allocation plan) cal_sector_count"

definition frozen_policy :: "create_plan_preview \<Rightarrow> create_partition_table_policy option" where
  "frozen_policy plan = Option.bind (cpp_allocation plan) cal_partition_table"

definition collector_complete :: "host_snapshot \<Rightarrow> string \<Rightarrow> bool" where
  "collector_complete snapshot component =
     (case filter (\<lambda>status. cs_component status = component) (hs_collectors snapshot) of
        [status] \<Rightarrow> cs_state status = CsComplete | _ \<Rightarrow> False)"

definition blank_intent_disk :: "host_snapshot \<Rightarrow> create_plan_preview \<Rightarrow> block_device option" where
  "blank_intent_disk snapshot plan =
     single (filter (\<lambda>d. bd_path d = Some (frozen_disk_path plan))
       (map ref_node (flatten (sg_block_devices (hs_storage snapshot)))))"

definition no_longer_blank :: "host_snapshot \<Rightarrow> string \<Rightarrow> block_device \<Rightarrow> bool" where
  "no_longer_blank snapshot disk_path disk =
     (\<not> disk_or_loop disk \<or> bd_children disk \<noteq> [] \<or> bd_filesystem disk \<noteq> None
      \<or> bd_partition_table disk \<noteq> None \<or> bd_mountpoints disk \<noteq> []
      \<or> list_ex (\<lambda>t. pt_device t = disk_path) (hs_partition_tables snapshot)
      \<or> list_ex (\<lambda>swap. se_name swap = disk_path) (hs_swaps snapshot))"

definition blank_sector_bytes :: "host_snapshot \<Rightarrow> create_plan_preview \<Rightarrow> u64" where
  "blank_sector_bytes snapshot plan =
     unwrap_or (Option.bind (blank_intent_disk snapshot plan) bd_logical_sector_bytes) 0"

definition blank_partition_size :: "host_snapshot \<Rightarrow> create_plan_preview \<Rightarrow> u64" where
  "blank_partition_size snapshot plan =
     (let sector = blank_sector_bytes snapshot plan in
      case frozen_count plan of
        None \<Rightarrow> 0
      | Some count \<Rightarrow> if 0 < sector then unwrap_or (checked_mul count sector) 0 else 0)"

definition preview_blockers :: "create_plan_preview \<Rightarrow> string \<Rightarrow> string \<Rightarrow> plan_blocker list" where
  "preview_blockers plan code message =
     (if plan_not_freezable plan then cpp_blockers plan @ [blocked code message] else [])"

definition blank_intent_blockers :: "host_snapshot \<Rightarrow> create_plan_preview \<Rightarrow> plan_blocker list" where
  "blank_intent_blockers snapshot plan =
     (let request = cpp_request plan; disk_path = frozen_disk_path plan;
          partition_size = blank_partition_size snapshot plan in
      preview_blockers plan ''create-preview-not-freezable''
        ''only a successful non-executable create preview can be frozen''
      @ block_if (crq_purpose request \<noteq> CpFilesystem) ''m2a1-purpose-unsupported''
          ''M2A1 freezes only filesystem provisioning; swap remains on its separate migration/create path''
      @ block_if (frozen_filesystem plan \<noteq> ''ext4'' \<and> frozen_filesystem plan \<noteq> ''xfs'')
          ''m2a1-filesystem-unsupported'' ''M2A1 accepts only ext4 or XFS filesystem intent''
      @ block_if (crq_mountpoint request \<noteq> None) ''m2a1-mount-intent-deferred''
          ''M2A1 freezes storage creation only; mount/fstab activation is a later M2 gate''
      @ block_if (\<not> source_of_kind PskBlankDisk plan) ''m2a1-source-not-blank-disk''
          ''M2A1 supports only an exact verified blank-disk source''
      @ block_if (frozen_policy plan = None \<or> frozen_start plan = None \<or> frozen_count plan = None)
          ''m2a1-allocation-incomplete''
          ''blank-disk partition policy and exact sector allocation must be frozen''
      @ block_if (\<not> collector_complete snapshot ''partition_tables'') ''partition-table-discovery-incomplete''
          ''authoritative partition-table discovery must be complete before freezing provisioning''
      @ (case blank_intent_disk snapshot plan of
           None \<Rightarrow> [blocked ''blank-disk-identity-ambiguous''
             ''selected blank disk is absent or ambiguous in the fresh snapshot'']
         | Some disk \<Rightarrow> block_if (no_longer_blank snapshot disk_path disk) ''blank-disk-state-changed''
             ''selected source is no longer a plain unpartitioned, unmounted, non-swap disk'')
      @ block_if (blank_sector_bytes snapshot plan = 0 \<or> frozen_start plan = Some 0 \<or> frozen_count plan = Some 0)
          ''blank-disk-geometry-invalid'' ''fresh blank-disk sector geometry is incomplete''
      @ block_if (partition_size = 0
            \<or> (case cpp_allocation plan of None \<Rightarrow> False | Some a \<Rightarrow> cal_rounded_bytes a \<noteq> partition_size))
          ''blank-disk-allocation-mismatch''
          ''frozen allocation bytes no longer match exact sector geometry'')"

definition status_of_blockers :: "plan_blocker list \<Rightarrow> plan_status" where
  "status_of_blockers blockers = (if blockers = [] then PsPreview else PsBlocked)"

definition freeze_blank_disk_filesystem_create_intent ::
  "(blank_disk_intent \<Rightarrow> (planner_error, string) result) \<Rightarrow> host_snapshot \<Rightarrow> create_plan_preview
     \<Rightarrow> (planner_error, blank_disk_intent) result" where
  "freeze_blank_disk_filesystem_create_intent fp snapshot plan =
     (let disk = blank_intent_disk snapshot plan; blockers = blank_intent_blockers snapshot plan;
          intent = \<lparr> bdi_schema_version = 1, bdi_intent_id = [], bdi_executable = False,
            bdi_status = status_of_blockers blockers, bdi_create_plan_id = cpp_plan_id plan,
            bdi_source_id = unwrap_or (map_option po_id (cpp_source plan)) [],
            bdi_disk = frozen_disk_path plan,
            bdi_disk_size_bytes = unwrap_or (map_option bd_size_bytes disk) 0,
            bdi_logical_sector_bytes = blank_sector_bytes snapshot plan,
            bdi_disk_model = Option.bind disk bd_model, bdi_disk_serial = Option.bind disk bd_serial,
            bdi_partition_table = unwrap_or (frozen_policy plan) CptGpt,
            bdi_partition_start_sector = unwrap_or (frozen_start plan) 0,
            bdi_partition_sector_count = unwrap_or (frozen_count plan) 0,
            bdi_partition_size_bytes = blank_partition_size snapshot plan,
            bdi_filesystem = frozen_filesystem plan,
            bdi_mountpoint = crq_mountpoint (cpp_request plan), bdi_blockers = blockers,
            bdi_ordered_future_steps =
              [''rediscover and require the exact same blank-disk identity and geometry'',
               ''capture and fsync a pre-mutation blank-disk/partition-table evidence record'',
               ''create the selected GPT or DOS partition table using fixed non-shell argv'',
               ''create exactly one partition at the frozen start/count without consuming any other range'',
               ''rediscover authoritative partition geometry before filesystem formatting'',
               ''format only the newly proven partition with the frozen ext4/XFS profile'',
               ''rediscover and verify filesystem identity and capacity before any mount/persistence step''] \<rparr>
      in and_then (bdi_expected_intent_id fp intent) (\<lambda>i. Inr (intent\<lparr>bdi_intent_id := i\<rparr>)))"

section \<open>An intent for the tail of a GPT disk\<close>

record gpt_tail_disk_identity =
  gtd_path :: string
  gtd_size_bytes :: u64
  gtd_logical_sector_bytes :: u64
  gtd_model :: "string option"
  gtd_serial :: "string option"

record gpt_tail_table_identity =
  gtt_label :: string
  gtt_id :: string
  gtt_unit :: string
  gtt_first_lba :: u64
  gtt_last_lba :: u64
  gtt_sector_size_bytes :: u64
  gtt_table_sha256 :: string
  gtt_existing_partition_count :: u32

record gpt_tail_allocation =
  gta_source_start_sector :: u64
  gta_source_sector_count :: u64
  gta_source_size_bytes :: u64
  gta_partition_start_sector :: u64
  gta_partition_sector_count :: u64
  gta_partition_size_bytes :: u64

record gpt_tail_intent =
  gti_schema_version :: u32
  gti_intent_id :: string
  gti_executable :: bool
  gti_status :: plan_status
  gti_create_plan_id :: string
  gti_source_id :: string
  gti_disk :: gpt_tail_disk_identity
  gti_gpt :: gpt_tail_table_identity
  gti_allocation :: gpt_tail_allocation
  gti_filesystem :: string
  gti_mountpoint :: "string option"
  gti_partition_slot_deferred :: bool
  gti_partition_table_write_authorized :: bool
  gti_filesystem_format_authorized :: bool
  gti_blockers :: "plan_blocker list"
  gti_ordered_future_steps :: "string list"

definition gti_ready :: "gpt_tail_intent \<Rightarrow> bool" where
  "gti_ready i =
     (gti_status i = PsPreview \<and> gti_blockers i = [] \<and> \<not> gti_executable i
      \<and> gti_partition_slot_deferred i \<and> \<not> gti_partition_table_write_authorized i
      \<and> \<not> gti_filesystem_format_authorized i)"

definition gti_expected_intent_id ::
  "(gpt_tail_intent \<Rightarrow> ('e, string) result) \<Rightarrow> gpt_tail_intent \<Rightarrow> ('e, string) result" where
  "gti_expected_intent_id fp i = fp (i\<lparr>gti_intent_id := []\<rparr>)"

definition gti_integrity_matches ::
  "(gpt_tail_intent \<Rightarrow> ('e, string) result) \<Rightarrow> gpt_tail_intent \<Rightarrow> ('e, bool) result" where
  "gti_integrity_matches fp i =
     and_then (gti_expected_intent_id fp i) (\<lambda>expected. Inr (gti_intent_id i = expected))"

text \<open>The table in canonical order: by start sector, then by node.\<close>

definition canonical_partitions :: "partition_table \<Rightarrow> partition_record list" where
  "canonical_partitions table = sort_key (\<lambda>r. (pr_start_sector r, pr_node r)) (pt_partitions table)"

definition canonical_table_sha256 ::
  "(partition_table \<Rightarrow> ('e, string) result) \<Rightarrow> partition_table \<Rightarrow> ('e, string) result" where
  "canonical_table_sha256 sha_table table = sha_table (table\<lparr>pt_partitions := canonical_partitions table\<rparr>)"

definition safe_identifier :: "string \<Rightarrow> bool" where
  "safe_identifier value = (value \<noteq> [] \<and> CHR 0x00 \<notin> set value \<and> \<not> has_control value)"

fun gpt_records_from :: "u64 \<Rightarrow> u64 \<Rightarrow> string list \<Rightarrow> u64 \<Rightarrow> partition_record list \<Rightarrow> bool" where
  "gpt_records_from first_lba limit nodes previous_end [] = True"
| "gpt_records_from first_lba limit nodes previous_end (record # records) =
     (case checked_add (pr_start_sector record) (pr_size_sectors record) of
        None \<Rightarrow> False
      | Some stop \<Rightarrow>
          (if pr_node record = [] \<or> pr_node record \<in> set nodes \<or> pr_size_sectors record = 0
              \<or> pr_start_sector record < first_lba \<or> limit < stop \<or> pr_start_sector record < previous_end
           then False
           else gpt_records_from first_lba limit (pr_node record # nodes) stop records))"

definition validate_existing_gpt_records :: "partition_table \<Rightarrow> u64 \<Rightarrow> u64 \<Rightarrow> bool" where
  "validate_existing_gpt_records table first_lba last_lba =
     (case checked_add last_lba 1 of
        None \<Rightarrow> False
      | Some limit \<Rightarrow> gpt_records_from first_lba limit [] first_lba (canonical_partitions table))"

definition gpt_intent_disk :: "host_snapshot \<Rightarrow> create_plan_preview \<Rightarrow> block_device option" where
  "gpt_intent_disk snapshot plan =
     single (filter (\<lambda>d. disk_or_loop d \<and> bd_path d = Some (frozen_disk_path plan))
       (map ref_node (flatten (sg_block_devices (hs_storage snapshot)))))"

definition gpt_disk_state_invalid :: "host_snapshot \<Rightarrow> string \<Rightarrow> block_device \<Rightarrow> bool" where
  "gpt_disk_state_invalid snapshot disk_path disk =
     (bd_size_bytes disk = 0 \<or> bd_logical_sector_bytes disk = None \<or> bd_filesystem disk \<noteq> None
      \<or> bd_mountpoints disk \<noteq> [] \<or> bd_partition_table disk \<noteq> Some ''gpt''
      \<or> list_ex (\<lambda>swap. se_name swap = disk_path) (hs_swaps snapshot))"

definition gpt_intent_table :: "host_snapshot \<Rightarrow> create_plan_preview \<Rightarrow> partition_table option" where
  "gpt_intent_table snapshot plan =
     single (filter (\<lambda>t. pt_device t = frozen_disk_path plan) (hs_partition_tables snapshot))"

text \<open>\<open>u32::try_from(len).unwrap_or(u32::MAX)\<close>.\<close>

definition partition_count_u32 :: "'a list \<Rightarrow> u32" where
  "partition_count_u32 xs = (if length xs < 2 ^ 32 then of_nat (length xs) else - 1)"

definition gpt_table_invalid :: "partition_table \<Rightarrow> bool" where
  "gpt_table_invalid table =
     (let table_id = unwrap_or (pt_id table) []; first_lba = unwrap_or (pt_first_lba table) 0;
          last_lba = unwrap_or (pt_last_lba table) 0; sector = unwrap_or (pt_sector_size_bytes table) 0 in
      pt_label table \<noteq> Some ''gpt'' \<or> pt_unit table \<noteq> Some ''sectors'' \<or> \<not> safe_identifier table_id
      \<or> first_lba = 0 \<or> last_lba < first_lba \<or> sector < 512 \<or> \<not> is_power_of_two sector
      \<or> partition_count_u32 (pt_partitions table) = - 1
      \<or> \<not> validate_existing_gpt_records table first_lba last_lba)"

definition gpt_table_blockers :: "block_device option \<Rightarrow> partition_table option \<Rightarrow> plan_blocker list" where
  "gpt_table_blockers disk table =
     (case table of
        None \<Rightarrow> []
      | Some t \<Rightarrow>
          (let sector = unwrap_or (pt_sector_size_bytes t) 0 in
           block_if (gpt_table_invalid t) ''m2b1-gpt-table-invalid''
             ''GPT label, disk identifier, sector geometry or existing partition records are incomplete or unsafe''
           @ block_if (case pt_id t of None \<Rightarrow> True | Some i \<Rightarrow> \<not> safe_identifier i) ''m2b1-gpt-id-missing''
               ''a stable non-empty GPT disk identifier is required before freezing tail creation''
           @ (case disk of
                None \<Rightarrow> []
              | Some d \<Rightarrow> block_if (bd_logical_sector_bytes d \<noteq> Some sector
                    \<or> bd_size_bytes d mod max sector 1 \<noteq> 0) ''m2b1-sector-geometry-mismatch''
                  ''GPT and block-device logical-sector geometry do not match exactly'')))"

definition tail_adapter ::
  "host_snapshot \<Rightarrow> create_plan_preview \<Rightarrow> (plan_blocker, create_source_adapter) result option" where
  "tail_adapter snapshot plan =
     map_option (\<lambda>source. resolve_create_source_adapter snapshot source None) (cpp_source plan)"

definition tail_adapter_blockers ::
  "string \<Rightarrow> u64 \<Rightarrow> (plan_blocker, create_source_adapter) result option \<Rightarrow> plan_blocker list" where
  "tail_adapter_blockers disk_path sector adapter =
     (case adapter of
        None \<Rightarrow> []
      | Some (Inl b) \<Rightarrow> [b]
      | Some (Inr a) \<Rightarrow> block_if (csa_kind a \<noteq> PskDiskTail \<or> csa_disk a \<noteq> Some disk_path
            \<or> csa_partition_table a \<noteq> None \<or> csa_allocation_unit_bytes a \<noteq> sector
            \<or> csa_available_bytes a = 0) ''m2b1-tail-adapter-mismatch''
          ''fresh Create source adapter no longer matches the exact GPT tail'')"

text \<open>The allocation of the preview against the tail of the fresh table.\<close>

definition gpt_tail_allocation_of ::
  "create_plan_preview \<Rightarrow> u64 \<Rightarrow> (plan_blocker, create_source_adapter) result option \<Rightarrow> gpt_tail_allocation" where
  "gpt_tail_allocation_of plan sector adapter =
     (let ok = (case adapter of Some (Inr a) \<Rightarrow> Some a | _ \<Rightarrow> None);
          count = unwrap_or (frozen_count plan) 0 in
      \<lparr> gta_source_start_sector = unwrap_or (Option.bind ok csa_start_sector) 0,
        gta_source_sector_count = unwrap_or (Option.bind ok csa_sector_count) 0,
        gta_source_size_bytes = unwrap_or (map_option csa_available_bytes ok) 0,
        gta_partition_start_sector = unwrap_or (frozen_start plan) 0,
        gta_partition_sector_count = count,
        gta_partition_size_bytes = unwrap_or (checked_mul count sector) 0 \<rparr>)"

definition gpt_allocation_mismatch :: "create_allocation option \<Rightarrow> gpt_tail_allocation \<Rightarrow> bool" where
  "gpt_allocation_mismatch allocation g =
     (gta_partition_start_sector g \<noteq> gta_source_start_sector g \<or> gta_partition_sector_count g = 0
      \<or> gta_source_sector_count g < gta_partition_sector_count g \<or> gta_partition_size_bytes g = 0
      \<or> (case allocation of
           None \<Rightarrow> True
         | Some a \<Rightarrow> cal_rounded_bytes a \<noteq> gta_partition_size_bytes g
             \<or> cal_available_bytes a \<noteq> gta_source_size_bytes g
             \<or> cal_partition_table a \<noteq> None \<or> cal_volume_group a \<noteq> None))"

definition saturating_succ :: "u64 \<Rightarrow> u64" where
  "saturating_succ x = unwrap_or (checked_add x 1) (- 1)"

definition gpt_range_invalid :: "gpt_tail_allocation \<Rightarrow> u64 \<Rightarrow> bool" where
  "gpt_range_invalid g last_lba =
     (case (checked_add (gta_source_start_sector g) (gta_source_sector_count g),
            checked_add (gta_partition_start_sector g) (gta_partition_sector_count g)) of
        (Some source_end, Some partition_end) \<Rightarrow>
          source_end < partition_end \<or> saturating_succ last_lba < partition_end
      | _ \<Rightarrow> True)"

definition gpt_start_unaligned :: "u64 \<Rightarrow> u64 \<Rightarrow> bool" where
  "gpt_start_unaligned sector start =
     (sector = 0 \<or> CREATE_PARTITION_ALIGNMENT_BYTES mod sector \<noteq> 0
      \<or> start mod max (CREATE_PARTITION_ALIGNMENT_BYTES div max sector 1) 1 \<noteq> 0)"

definition gpt_intent_blockers :: "host_snapshot \<Rightarrow> create_plan_preview \<Rightarrow> plan_blocker list" where
  "gpt_intent_blockers snapshot plan =
     (let request = cpp_request plan; disk_path = frozen_disk_path plan;
          disk = gpt_intent_disk snapshot plan; table = gpt_intent_table snapshot plan;
          sector = unwrap_or (Option.bind table pt_sector_size_bytes) 0;
          last_lba = unwrap_or (Option.bind table pt_last_lba) 0;
          adapter = tail_adapter snapshot plan;
          g = gpt_tail_allocation_of plan sector adapter in
      preview_blockers plan ''m2b1-preview-not-freezable''
        ''only a successful non-executable Create preview can be frozen''
      @ block_if (crq_purpose request \<noteq> CpFilesystem) ''m2b1-purpose-unsupported''
          ''M2B1 freezes only filesystem creation inside an existing GPT tail''
      @ block_if (frozen_filesystem plan \<noteq> ''ext4'' \<and> frozen_filesystem plan \<noteq> ''xfs'')
          ''m2b1-filesystem-unsupported'' ''M2B1 accepts only ext4 or XFS filesystem intent''
      @ block_if (crq_mountpoint request \<noteq> None) ''m2b1-mount-intent-deferred''
          ''mount and persistent configuration remain a later activation gate''
      @ block_if (crq_partition_table request \<noteq> None) ''m2b1-partition-policy-unexpected''
          ''an existing GPT table must be preserved rather than recreated''
      @ block_if (\<not> collector_complete snapshot ''lsblk'' \<or> \<not> collector_complete snapshot ''partition_tables'')
          ''m2b1-discovery-incomplete''
          ''complete lsblk and authoritative partition-table discovery are required''
      @ block_if (\<not> source_of_kind PskDiskTail plan) ''m2b1-source-not-gpt-tail''
          ''M2B1 accepts only an exact verified existing-disk tail free range''
      @ (case disk of
           None \<Rightarrow> [blocked ''m2b1-disk-identity-ambiguous''
             ''selected GPT-tail disk is absent or ambiguous in fresh discovery'']
         | Some d \<Rightarrow> block_if (gpt_disk_state_invalid snapshot disk_path d) ''m2b1-disk-state-invalid''
             ''selected device is not a plain GPT disk identity suitable for tail provisioning'')
      @ block_if (table = None) ''m2b1-gpt-table-ambiguous''
          ''exactly one authoritative partition table must match the selected disk''
      @ gpt_table_blockers disk table
      @ tail_adapter_blockers disk_path sector adapter
      @ block_if (gpt_allocation_mismatch (cpp_allocation plan) g) ''m2b1-allocation-mismatch''
          ''frozen partition allocation no longer matches exact GPT-tail sector geometry''
      @ block_if (gpt_start_unaligned sector (gta_partition_start_sector g)) ''m2b1-tail-start-unaligned''
          ''the future partition start must already be aligned to the 1 MiB Create boundary''
      @ block_if (gpt_range_invalid g last_lba) ''m2b1-tail-range-invalid''
          ''future partition extent escapes the freshly verified GPT tail'')"

definition freeze_gpt_tail_filesystem_create_intent ::
  "(partition_table \<Rightarrow> (planner_error, string) result) \<Rightarrow> (gpt_tail_intent \<Rightarrow> (planner_error, string) result)
     \<Rightarrow> host_snapshot \<Rightarrow> create_plan_preview \<Rightarrow> (planner_error, gpt_tail_intent) result" where
  "freeze_gpt_tail_filesystem_create_intent sha_table fp snapshot plan =
     (let disk = gpt_intent_disk snapshot plan; table = gpt_intent_table snapshot plan;
          sector = unwrap_or (Option.bind table pt_sector_size_bytes) 0;
          blockers = gpt_intent_blockers snapshot plan in
      and_then (case table of None \<Rightarrow> Inr [] | Some t \<Rightarrow> canonical_table_sha256 sha_table t) (\<lambda>digest.
      let intent = \<lparr> gti_schema_version = 1, gti_intent_id = [], gti_executable = False,
            gti_status = status_of_blockers blockers, gti_create_plan_id = cpp_plan_id plan,
            gti_source_id = unwrap_or (map_option po_id (cpp_source plan)) [],
            gti_disk = \<lparr> gtd_path = frozen_disk_path plan,
              gtd_size_bytes = unwrap_or (map_option bd_size_bytes disk) 0,
              gtd_logical_sector_bytes = unwrap_or (Option.bind disk bd_logical_sector_bytes) 0,
              gtd_model = Option.bind disk bd_model, gtd_serial = Option.bind disk bd_serial \<rparr>,
            gti_gpt = \<lparr> gtt_label = ''gpt'', gtt_id = unwrap_or (Option.bind table pt_id) [],
              gtt_unit = ''sectors'', gtt_first_lba = unwrap_or (Option.bind table pt_first_lba) 0,
              gtt_last_lba = unwrap_or (Option.bind table pt_last_lba) 0,
              gtt_sector_size_bytes = sector, gtt_table_sha256 = digest,
              gtt_existing_partition_count
                = (case table of None \<Rightarrow> 0 | Some t \<Rightarrow> partition_count_u32 (pt_partitions t)) \<rparr>,
            gti_allocation = gpt_tail_allocation_of plan sector (tail_adapter snapshot plan),
            gti_filesystem = frozen_filesystem plan,
            gti_mountpoint = crq_mountpoint (cpp_request plan), gti_partition_slot_deferred = True,
            gti_partition_table_write_authorized = False, gti_filesystem_format_authorized = False,
            gti_blockers = blockers,
            gti_ordered_future_steps =
              [''rediscover and require the exact same disk identity, GPT disk identifier, canonical table digest and tail geometry'',
               ''capture and fsync a pre-mutation GPT partition-table backup and evidence record'',
               ''resolve exactly one unused GPT partition slot from fresh trusted runtime tooling; partition number is deliberately not frozen by M2B1'',
               ''prepare one partition addition at the frozen tail start/count while preserving every pre-existing GPT entry byte-for-byte in the intended table model'',
               ''rediscover authoritative GPT geometry and prove all previous entries unchanged plus exactly one new partition before formatting'',
               ''format only the newly proven partition with the frozen ext4/XFS profile'',
               ''defer mount and persistent configuration to the existing guarded mount/persistence activation path''] \<rparr>
      in and_then (gti_expected_intent_id fp intent) (\<lambda>i. Inr (intent\<lparr>gti_intent_id := i\<rparr>))))"

section \<open>A ready intent stands in free space\<close>

lemma gpt_intent_shape:
  assumes "freeze_gpt_tail_filesystem_create_intent sha_table fp snapshot plan = Inr i"
  shows "gti_blockers i = gpt_intent_blockers snapshot plan"
    "gti_status i = status_of_blockers (gpt_intent_blockers snapshot plan)"
    "gti_allocation i = gpt_tail_allocation_of plan
       (unwrap_or (Option.bind (gpt_intent_table snapshot plan) pt_sector_size_bytes) 0) (tail_adapter snapshot plan)"
    "fp (i\<lparr>gti_intent_id := []\<rparr>) = Inr (gti_intent_id i)"
    "case gpt_intent_table snapshot plan of None \<Rightarrow> True
     | Some t \<Rightarrow> canonical_table_sha256 sha_table t = Inr (gtt_table_sha256 (gti_gpt i))"
  using assms
  by (auto simp: freeze_gpt_tail_filesystem_create_intent_def and_then_Inr Let_def gti_expected_intent_id_def
      split: option.splits)

text \<open>What is left of the checks when no blocker stands.\<close>

lemma gpt_intent_unblocked:
  assumes "gpt_intent_blockers snapshot plan = []"
  obtains source disk table a al where
    "cpp_source plan = Some source" "po_kind source = PskDiskTail"
    "gpt_intent_disk snapshot plan = Some disk" "gpt_intent_table snapshot plan = Some table"
    "\<not> gpt_table_invalid table"
    "resolve_create_source_adapter snapshot source None = Inr a" "csa_disk a = Some (frozen_disk_path plan)"
    "csa_allocation_unit_bytes a = unwrap_or (pt_sector_size_bytes table) 0"
    "cpp_allocation plan = Some al"
proof -
  from assms have
    u: "source_of_kind PskDiskTail plan" "gpt_intent_disk snapshot plan \<noteq> None" "gpt_intent_table snapshot plan \<noteq> None"
      "gpt_table_blockers (gpt_intent_disk snapshot plan) (gpt_intent_table snapshot plan) = []"
      "tail_adapter_blockers (frozen_disk_path plan)
         (unwrap_or (Option.bind (gpt_intent_table snapshot plan) pt_sector_size_bytes) 0) (tail_adapter snapshot plan) = []"
      "cpp_allocation plan \<noteq> None"
    by (auto simp: gpt_intent_blockers_def Let_def gpt_allocation_mismatch_def split: option.splits)
  then show thesis
    by (auto intro!: that simp: source_of_kind_def gpt_table_blockers_def tail_adapter_blockers_def tail_adapter_def Let_def
        split: option.splits sum.splits)
qed


lemma gpt_range_ok:
  assumes "\<not> gpt_range_invalid g last_lba"
  shows "unat (gta_partition_start_sector g) + unat (gta_partition_sector_count g) \<le> unat last_lba + 1"
proof -
  from assms obtain e where e: "checked_add (gta_partition_start_sector g) (gta_partition_sector_count g) = Some e"
    "\<not> saturating_succ last_lba < e"
    by (auto simp: gpt_range_invalid_def split: option.splits)
  have "unat (saturating_succ last_lba) \<le> unat last_lba + 1"
  proof (cases "checked_add last_lba 1")
    case (Some x)
    then show ?thesis by (auto simp: saturating_succ_def dest: checked_add_Some)
  next
    case None
    then show ?thesis using unsigned_less[of last_lba, where 'a = nat]
      by (simp add: saturating_succ_def checked_add_def unsigned_minus_1_eq_mask mask_eq_exp_minus_1 split: if_splits)
  qed
  with checked_add_Some[OF e(1)] e(2) show ?thesis by (simp add: not_less word_le_nat_alt)
qed

lemma aligned_bytes:
  assumes "\<not> gpt_start_unaligned sector start"
  shows "unat start * unat sector mod 1048576 = 0"
proof -
  let ?q = "CREATE_PARTITION_ALIGNMENT_BYTES div sector"
  from assms have s: "sector \<noteq> 0" "CREATE_PARTITION_ALIGNMENT_BYTES mod sector = 0"
    and m: "start mod max (CREATE_PARTITION_ALIGNMENT_BYTES div max sector 1) 1 = 0"
    by (auto simp: gpt_start_unaligned_def)
  have a: "unat CREATE_PARTITION_ALIGNMENT_BYTES = 1048576" by (simp add: CREATE_PARTITION_ALIGNMENT_BYTES_def)
  have "0 < unat sector" using s(1) by (simp add: unat_gt_0)
  then have mx: "max sector 1 = sector" by (intro max.absorb1) (simp add: word_le_nat_alt)
  have "unat CREATE_PARTITION_ALIGNMENT_BYTES mod unat sector = 0"
    using s(2) by (metis unat_0 unat_mod)
  then have e: "unat ?q * unat sector = 1048576" using a by (metis add.right_neutral div_mult_mod_eq unat_div)
  then have "0 < unat ?q" by (metis gr0I mult_0 zero_neq_numeral)
  then have "max ?q 1 = ?q" by (intro max.absorb1) (simp add: word_le_nat_alt)
  with m mx have "start mod ?q = 0" by simp
  then have "unat start mod unat ?q = 0" by (metis unat_0 unat_mod)
  then have "unat ?q dvd unat start" by (rule mod_0_imp_dvd)
  then obtain k where k: "unat start = unat ?q * k" by (rule dvdE)
  have "unat start * unat sector = (unat ?q * unat sector) * k" unfolding k by (simp only: mult_ac)
  then show ?thesis unfolding e by simp
qed

text \<open>C35: a frozen GPT-tail intent that is ready stands in free space: the disk and its table are the only
  ones at that path in the fresh snapshot, the intent carries the digest of that table in canonical
  order, and its partition has at least one sector, starts on a 1 MiB boundary, ends inside the
  usable area and meets no recorded partition. The intent authorizes no write.\<close>

theorem gpt_tail_intent_in_free_space:
  assumes "freeze_gpt_tail_filesystem_create_intent sha_table fp snapshot plan = Inr i" "gti_ready i"
  shows "\<exists>disk table first limit.
      filter (\<lambda>d. disk_or_loop d \<and> bd_path d = Some (gtd_path (gti_disk i)))
        (map ref_node (flatten (sg_block_devices (hs_storage snapshot)))) = [disk]
    \<and> filter (\<lambda>t. pt_device t = gtd_path (gti_disk i)) (hs_partition_tables snapshot) = [table]
    \<and> canonical_table_sha256 sha_table table = Inr (gtt_table_sha256 (gti_gpt i))
    \<and> pt_label table = Some ''gpt''
    \<and> (let a = gti_allocation i; start = unat (gta_partition_start_sector a);
           count = unat (gta_partition_sector_count a); sector = unat (gtt_sector_size_bytes (gti_gpt i)) in
         0 < count \<and> start * sector mod 1048576 = 0
         \<and> unat (gta_partition_size_bytes a) = count * sector
         \<and> start + count \<le> unat (gtt_last_lba (gti_gpt i)) + 1
         \<and> {start ..< start + count} \<subseteq> offered_sectors table first limit
         \<and> {start ..< start + count} \<inter> allocated_sectors table = {})
    \<and> \<not> gti_executable i \<and> \<not> gti_partition_table_write_authorized i \<and> \<not> gti_filesystem_format_authorized i"
proof -
  note S = gpt_intent_shape[OF assms(1)]
  from assms(2) S have none: "gpt_intent_blockers snapshot plan = []" by (simp add: gti_ready_def)
  from gpt_intent_unblocked[OF none] obtain source disk table a al where
    u: "cpp_source plan = Some source" "po_kind source = PskDiskTail"
      "gpt_intent_disk snapshot plan = Some disk" "gpt_intent_table snapshot plan = Some table"
      "\<not> gpt_table_invalid table"
      "resolve_create_source_adapter snapshot source None = Inr a" "csa_disk a = Some (frozen_disk_path plan)"
      "csa_allocation_unit_bytes a = unwrap_or (pt_sector_size_bytes table) 0" "cpp_allocation plan = Some al" .
  let ?sector = "unwrap_or (pt_sector_size_bytes table) 0"
  let ?g = "gpt_tail_allocation_of plan ?sector (tail_adapter snapshot plan)"
  from none have g: "\<not> gpt_allocation_mismatch (cpp_allocation plan) ?g"
    "\<not> gpt_start_unaligned ?sector (gta_partition_start_sector ?g)"
    "\<not> gpt_range_invalid ?g (unwrap_or (pt_last_lba table) 0)"
    by (auto simp: gpt_intent_blockers_def Let_def u(4))
  from resolve_create_source_adapter_Inr(3)[OF u(6)] u(2) have "from_free_range snapshot source a" by simp
  then obtain path disk' table' fs r where f: "po_disk source = Some path"
      "filter (\<lambda>t. pt_device t = path) (hs_partition_tables snapshot) = [table']"
      "filter (\<lambda>d. disk_or_loop d \<and> bd_path d = Some path)
           (map ref_node (flatten (sg_block_devices (hs_storage snapshot)))) = [disk']"
      "partition_free_ranges disk' table' = Some fs" "r \<in> set (pfs_ranges fs)"
      "csa_start_sector a = Some (pfr_start_sector r)" "csa_sector_count a = Some (pfr_sector_count r)"
    unfolding from_free_range_def by blast
  have path: "frozen_disk_path plan = path" using u(1) f(1) by (simp add: frozen_disk_path_def)
  have same: "table' = table" "disk' = disk"
    using f(2,3) u(3,4) by (simp_all add: gpt_intent_table_def gpt_intent_disk_def single_Some_iff path)
  from free_range_offered[OF f(4,5)] same obtain first limit where
    o: "range_sectors r \<subseteq> offered_sectors table first limit" by blast
  have src: "gta_source_start_sector ?g = pfr_start_sector r" "gta_source_sector_count ?g = pfr_sector_count r"
    using u(1,6) f(6,7) by (simp_all add: gpt_tail_allocation_of_def tail_adapter_def Let_def)
  have start: "gta_partition_start_sector ?g = pfr_start_sector r"
    and count: "gta_partition_sector_count ?g \<noteq> 0" "gta_partition_sector_count ?g \<le> pfr_sector_count r"
    and bytes: "gta_partition_size_bytes ?g \<noteq> 0"
    using g(1) src by (auto simp: gpt_allocation_mismatch_def not_less)
  have mul: "checked_mul (gta_partition_sector_count ?g) ?sector = Some (gta_partition_size_bytes ?g)"
    using bytes by (cases "checked_mul (unwrap_or (frozen_count plan) 0) ?sector") (auto simp: gpt_tail_allocation_of_def Let_def)
  have inside: "{unat (gta_partition_start_sector ?g) ..<
        unat (gta_partition_start_sector ?g) + unat (gta_partition_sector_count ?g)} \<subseteq> offered_sectors table first limit"
    using o count(2) start by (auto simp: range_sectors_def range_end_def word_le_nat_alt dest!: subsetD)
  then have clear: "{unat (gta_partition_start_sector ?g) ..<
        unat (gta_partition_start_sector ?g) + unat (gta_partition_sector_count ?g)} \<inter> allocated_sectors table = {}"
    by (auto simp: offered_sectors_def)
  have label: "pt_label table = Some ''gpt''" using u(5) by (simp add: gpt_table_invalid_def Let_def)
  have i: "gti_allocation i = ?g" using S(3) u(4) by simp
  have fields: "gtd_path (gti_disk i) = frozen_disk_path plan" "gtt_sector_size_bytes (gti_gpt i) = ?sector"
    "gtt_last_lba (gti_gpt i) = unwrap_or (pt_last_lba table) 0"
    using assms(1) u(4)
    by (auto simp: freeze_gpt_tail_filesystem_create_intent_def and_then_Inr Let_def)
  have disks: "filter (\<lambda>d. disk_or_loop d \<and> bd_path d = Some path)
      (map ref_node (flatten (sg_block_devices (hs_storage snapshot)))) = [disk]"
    "filter (\<lambda>t. pt_device t = path) (hs_partition_tables snapshot) = [table]" using f(2,3) same by auto
  have sha: "canonical_table_sha256 sha_table table = Inr (gtt_table_sha256 (gti_gpt i))" using S(5) u(4) by simp
  have pos: "0 < unat (gta_partition_sector_count ?g)" using count(1) by (simp add: unat_gt_0)
  show ?thesis
    by (intro exI[of _ disk] exI[of _ table] exI[of _ first] exI[of _ limit])
       (use disks label sha pos aligned_bytes[OF g(2)] checked_mul_Some[OF mul] gpt_range_ok[OF g(3)] inside clear assms(2)
        in \<open>simp add: i fields path Let_def gti_ready_def\<close>)
qed


text \<open>The disk of \<open>ex_gpt_disk\<close> with an identified table, and a request for an ext4 filesystem in its tail.\<close>

definition ex_tail_table :: partition_table where
  "ex_tail_table = ex_gpt_table\<lparr>pt_id := Some ''0A'', pt_unit := Some ''sectors''\<rparr>"

definition ex_tail_host :: host_snapshot where
  "ex_tail_host = (ex_create_snapshot ex_gpt_disk [ex_tail_table])\<lparr>hs_collectors :=
     [\<lparr> cs_component = ''lsblk'', cs_state = CsComplete, cs_detail = None \<rparr>,
      \<lparr> cs_component = ''partition_tables'', cs_state = CsComplete, cs_detail = None \<rparr>]\<rparr>"

definition ex_tail_request :: create_request where
  "ex_tail_request = \<lparr> crq_source_id = po_id ex_tail, crq_size = ByBytes 268435456, crq_purpose = CpFilesystem,
     crq_filesystem = Some ''ext4'', crq_mountpoint = None, crq_partition_table = None \<rparr>"

definition ex_tail_plan :: create_plan_preview where
  "ex_tail_plan = projr (plan_create (\<lambda>s. s) (\<lambda>_. Inr ''plan'') ex_tail_host ex_tail_request)"

definition ex_tail_intent :: gpt_tail_intent where
  "ex_tail_intent = projr (freeze_gpt_tail_filesystem_create_intent (\<lambda>_. Inr ''table'') (\<lambda>_. Inr ''intent'')
     ex_tail_host ex_tail_plan)"

lemma ex_tail_host_facts:
  "hs_partition_tables ex_tail_host = [ex_tail_table]" "hs_swaps ex_tail_host = []" "hs_lvm ex_tail_host = None"
  "map ref_node (flatten (sg_block_devices (hs_storage ex_tail_host))) = [ex_gpt_disk]"
  "collector_complete ex_tail_host ''lsblk''" "collector_complete ex_tail_host ''partition_tables''"
  "partition_tables_complete ex_tail_host" "pt_device ex_tail_table = ''/dev/sda''"
  by (simp_all add: ex_tail_host_def ex_create_snapshot_def ex_gpt_disk_facts collector_complete_def
    partition_tables_complete_def ex_tail_table_def)

lemma ex_tail_ranges:
  "partition_free_ranges ex_gpt_disk ex_tail_table =
     Some \<lparr> pfs_ranges = [ex_tail_range], pfs_sector_size_bytes = 512 \<rparr>"
  by (simp add: partition_free_ranges_def ex_gpt_disk_def ex_tail_table_def ex_gpt_table_def ex_gpt_record_def
      power_of_two_512 usable_area_def checked_add_def checked_sub_def merge_intervals_def merge_interval_def
      free_ranges_between_def min_def max_def ex_tail_range_def)

lemma ex_tail_table_eq: "range_opportunity (\<lambda>s. s) ex_tail_table ''/dev/sda'' 512 ex_tail_range = Some ex_tail"
  by (simp add: ex_tail_def range_opportunity_def ex_tail_range_def checked_mul_def checked_add_def Let_def
    ex_tail_table_def)

lemma ex_tail_sources: "list_provisioning_opportunities (\<lambda>s. s) ex_tail_host = [ex_tail]"
  by (simp add: list_provisioning_opportunities_def ex_tail_host_facts disk_opportunities_def ex_gpt_disk_facts
    ex_tail_ranges ex_tail_table_eq map_filter_simps)

lemma ex_tail_adapter:
  "resolve_create_source_adapter ex_tail_host ex_tail None =
     Inr \<lparr> csa_source_id = po_id ex_tail, csa_kind = PskDiskTail, csa_disk = Some ''/dev/sda'',
           csa_volume_group = None, csa_allocation_unit_bytes = 512,
           csa_available_bytes = 535805440, csa_start_sector = Some 1050624,
           csa_sector_count = Some 1046495, csa_partition_table = None \<rparr>"
  by (simp add: resolve_create_source_adapter_def disk_range_adapter_def ex_tail_facts ex_tail_host_facts
    ex_gpt_disk_facts ex_tail_ranges power_of_two_512 ensure_def only_def checked_mul_def ex_tail_range_def)

lemma ex_tail_plan:
  "plan_create (\<lambda>s. s) (\<lambda>_. Inr ''plan'') ex_tail_host ex_tail_request = Inr ex_tail_plan"
  "cpp_source ex_tail_plan = Some ex_tail" "cpp_request ex_tail_plan = ex_tail_request"
  "cpp_status ex_tail_plan = PsPreview" "cpp_blockers ex_tail_plan = []" "\<not> cpp_executable ex_tail_plan"
  "cpp_allocation ex_tail_plan = Some
     \<lparr> cal_requested_bytes = 268435456, cal_rounded_bytes = 268435456, cal_available_bytes = 535805440,
       cal_remaining_bytes = 267369984, cal_allocation_unit_bytes = 512, cal_start_sector = Some 1050624,
       cal_sector_count = Some 524288, cal_volume_group = None, cal_partition_table = None \<rparr>"
proof -
  have sel: "select_sources (po_id ex_tail) [ex_tail] = [ex_tail]" by (simp add: select_sources_def)
  have "\<exists>p. plan_create (\<lambda>s. s) (\<lambda>_. Inr ''plan'') ex_tail_host ex_tail_request = Inr p
     \<and> cpp_source p = Some ex_tail \<and> cpp_request p = ex_tail_request
     \<and> cpp_status p = PsPreview \<and> cpp_blockers p = [] \<and> \<not> cpp_executable p
     \<and> cpp_allocation p = Some
     \<lparr> cal_requested_bytes = 268435456, cal_rounded_bytes = 268435456, cal_available_bytes = 535805440,
       cal_remaining_bytes = 267369984, cal_allocation_unit_bytes = 512, cal_start_sector = Some 1050624,
       cal_sector_count = Some 524288, cal_volume_group = None, cal_partition_table = None \<rparr>"
    by (simp add: plan_create_def ex_tail_request_def ex_tail_sources sel plan_create_from_def new_create_plan_def
       ex_tail_adapter create_sizes_def ensure_def checked_mul_def create_source_steps_def on_disk_sectors_def
       create_purpose_check_def sealed_def Let_def)
  then show "plan_create (\<lambda>s. s) (\<lambda>_. Inr ''plan'') ex_tail_host ex_tail_request = Inr ex_tail_plan"
  "cpp_source ex_tail_plan = Some ex_tail" "cpp_request ex_tail_plan = ex_tail_request"
  "cpp_status ex_tail_plan = PsPreview" "cpp_blockers ex_tail_plan = []" "\<not> cpp_executable ex_tail_plan"
  "cpp_allocation ex_tail_plan = Some
     \<lparr> cal_requested_bytes = 268435456, cal_rounded_bytes = 268435456, cal_available_bytes = 535805440,
       cal_remaining_bytes = 267369984, cal_allocation_unit_bytes = 512, cal_start_sector = Some 1050624,
       cal_sector_count = Some 524288, cal_volume_group = None, cal_partition_table = None \<rparr>"
    by (auto simp: ex_tail_plan_def)
qed

lemma ex_tail_id: "safe_identifier ''0A''"
  by code_simp

lemma ex_tail_table_valid: "\<not> gpt_table_invalid ex_tail_table"
  by (simp add: gpt_table_invalid_def ex_tail_table_def ex_gpt_table_def Let_def power_of_two_512
      partition_count_u32_def validate_existing_gpt_records_def canonical_partitions_def ex_gpt_record_def
      checked_add_def ex_tail_id)

lemma ex_tail_intent:
  "freeze_gpt_tail_filesystem_create_intent (\<lambda>_. Inr ''table'') (\<lambda>_. Inr ''intent'') ex_tail_host ex_tail_plan
     = Inr ex_tail_intent"
  "gti_ready ex_tail_intent"
proof -
  have p: "frozen_disk_path ex_tail_plan = ''/dev/sda''" "frozen_filesystem ex_tail_plan = ''ext4''"
    "frozen_start ex_tail_plan = Some 1050624" "frozen_count ex_tail_plan = Some 524288"
    "source_of_kind PskDiskTail ex_tail_plan" "\<not> plan_not_freezable ex_tail_plan"
    "crq_purpose (cpp_request ex_tail_plan) = CpFilesystem" "crq_mountpoint (cpp_request ex_tail_plan) = None"
    "crq_partition_table (cpp_request ex_tail_plan) = None"
    by (simp_all add: frozen_disk_path_def frozen_filesystem_def frozen_start_def frozen_count_def source_of_kind_def
      plan_not_freezable_def ex_tail_plan ex_tail_facts ex_tail_request_def)
  have d: "gpt_intent_disk ex_tail_host ex_tail_plan = Some ex_gpt_disk"
    "gpt_intent_table ex_tail_host ex_tail_plan = Some ex_tail_table"
    by (simp_all add: gpt_intent_disk_def gpt_intent_table_def p ex_tail_host_facts ex_gpt_disk_facts)
  have t: "pt_sector_size_bytes ex_tail_table = Some 512" "pt_last_lba ex_tail_table = Some 2097118"
    "pt_id ex_tail_table = Some ''0A''"
    by (simp_all add: ex_tail_table_def ex_gpt_table_def)
  have g: "gpt_tail_allocation_of ex_tail_plan 512 (tail_adapter ex_tail_host ex_tail_plan) =
     \<lparr> gta_source_start_sector = 1050624, gta_source_sector_count = 1046495, gta_source_size_bytes = 535805440,
       gta_partition_start_sector = 1050624, gta_partition_sector_count = 524288,
       gta_partition_size_bytes = 268435456 \<rparr>"
    by (simp add: gpt_tail_allocation_of_def tail_adapter_def ex_tail_plan ex_tail_adapter p checked_mul_def Let_def)
  have b: "gpt_table_blockers (Some ex_gpt_disk) (Some ex_tail_table) = []"
    by (simp add: gpt_table_blockers_def ex_tail_table_valid t Let_def ex_tail_id)
       (simp add: ex_gpt_disk_def max_def word_le_nat_alt)
  have s: "\<not> gpt_disk_state_invalid ex_tail_host ''/dev/sda'' ex_gpt_disk"
    by (simp add: gpt_disk_state_invalid_def ex_tail_host_facts) (simp add: ex_gpt_disk_def)
  have al: "\<not> gpt_start_unaligned 512 1050624"
    by (simp add: gpt_start_unaligned_def CREATE_PARTITION_ALIGNMENT_BYTES_def max_def word_le_nat_alt)
  have "gpt_intent_blockers ex_tail_host ex_tail_plan = []"
    by (simp add: gpt_intent_blockers_def preview_blockers_def p d t g b s al ex_tail_host_facts tail_adapter_blockers_def
      gpt_allocation_mismatch_def ex_tail_plan gpt_range_invalid_def checked_add_def saturating_succ_def Let_def)
       (simp add: tail_adapter_def ex_tail_plan ex_tail_adapter ex_tail_request_def t)
  then show "freeze_gpt_tail_filesystem_create_intent (\<lambda>_. Inr ''table'') (\<lambda>_. Inr ''intent'') ex_tail_host ex_tail_plan
     = Inr ex_tail_intent" "gti_ready ex_tail_intent"
    by (simp_all add: ex_tail_intent_def freeze_gpt_tail_filesystem_create_intent_def d canonical_table_sha256_def
      gti_expected_intent_id_def gti_ready_def status_of_blockers_def Let_def)
qed

theorem gpt_tail_intent_in_free_space_witness:
  "\<exists>table. filter (\<lambda>t. pt_device t = gtd_path (gti_disk ex_tail_intent)) (hs_partition_tables ex_tail_host) = [table]
     \<and> pt_label table = Some ''gpt''"
  using gpt_tail_intent_in_free_space[OF ex_tail_intent] by blast

section \<open>Freezing a plan on the snapshot it was made from\<close>

lemma blank_adapter_disk:
  assumes "resolve_create_source_adapter snapshot source partition_table = Inr a" "po_kind source = PskBlankDisk"
  obtains disk_path disk policy where "po_disk source = Some disk_path" "plain_disk snapshot disk_path disk"
    "collector_complete snapshot ''partition_tables''"
    "bd_logical_sector_bytes disk = Some (csa_allocation_unit_bytes a)"
    "csa_partition_table a = Some policy" "csa_start_sector a \<noteq> None"
proof -
  from assms have "blank_disk_adapter snapshot source partition_table = Inr a"
    by (simp add: resolve_create_source_adapter_def split: if_splits)
  then show thesis
    unfolding blank_disk_adapter_def blank_disk_geometry_def blank_disk_geometry_of_def Let_def
    apply (elim stepsE)
    apply clarsimp
    apply (rule that; (assumption | simp add: plain_disk_def collector_complete_def list_all_iff list_ex_iff))
    done
qed

text \<open>C36: a plan for an ext4 or XFS filesystem without mount point on a blank disk, frozen on the very
  snapshot it was made from, is ready, and carries the partition of the plan: the start, the number of sectors, the size,
  the sector size and the table of the plan's allocation, on the one plain disk of the snapshot that the source names,
  with the size of that disk; aligned to 1 MiB, and clear of the metadata of the new table on it.\<close>

theorem blank_intent_of_fresh_plan:
  assumes "plan_create sha fp snapshot request = Inr plan" "cpp_status plan = PsPreview"
    "cpp_source plan = Some source" "po_kind source = PskBlankDisk"
    "crq_purpose request = CpFilesystem" "crq_mountpoint request = None"
    "freeze_blank_disk_filesystem_create_intent fpi snapshot plan = Inr i"
  shows "bdi_ready i \<and> bdi_integrity_matches fpi i = Inr True \<and> bdi_create_plan_id i = cpp_plan_id plan
    \<and> (\<exists>al. cpp_allocation plan = Some al \<and> cal_start_sector al = Some (bdi_partition_start_sector i)
         \<and> cal_sector_count al = Some (bdi_partition_sector_count i) \<and> cal_rounded_bytes al = bdi_partition_size_bytes i
         \<and> cal_allocation_unit_bytes al = bdi_logical_sector_bytes i
         \<and> cal_partition_table al = Some (bdi_partition_table i))
    \<and> (\<exists>disk. plain_disk snapshot (bdi_disk i) disk \<and> bdi_disk_size_bytes i = bd_size_bytes disk)
    \<and> po_disk source = Some (bdi_disk i) \<and> crq_filesystem request = Some (bdi_filesystem i)
    \<and> crq_partition_table request = Some (bdi_partition_table i)
    \<and> unat (bdi_partition_size_bytes i)
        = unat (bdi_partition_sector_count i) * unat (bdi_logical_sector_bytes i)
    \<and> blank_area_ok (bdi_partition_table i) (bdi_logical_sector_bytes i)
        (unat (bdi_disk_size_bytes i div bdi_logical_sector_bytes i))
        (unat (bdi_partition_start_sector i)) (unat (bdi_partition_sector_count i))"
  using assms(1)
proof (cases rule: plan_create_cases)
  case (refused s b i)
  with assms(2) show ?thesis by (simp add: new_create_plan_def)
next
  case (planned source' a requested rounded sectors steps j)
  have source: "source' = source" using planned(7) assms(3) by (simp add: new_create_plan_def)
  note R = resolve_create_source_adapter_Inr[OF planned(2)[unfolded source]]
  obtain disk_path disk policy where d: "po_disk source = Some disk_path" "plain_disk snapshot disk_path disk"
    "collector_complete snapshot ''partition_tables''"
    "bd_logical_sector_bytes disk = Some (csa_allocation_unit_bytes a)"
    "csa_partition_table a = Some policy" "csa_start_sector a \<noteq> None"
    by (rule blank_adapter_disk[OF planned(2)[unfolded source] assms(4)])
  define u where "u = csa_allocation_unit_bytes a"
  obtain al where al: "cpp_allocation plan = Some al" "cal_rounded_bytes al = rounded"
    "cal_start_sector al = csa_start_sector a" "cal_sector_count al = sectors"
    "cal_partition_table al = csa_partition_table a" "cal_allocation_unit_bytes al = u"
    using planned(7) by (auto simp: u_def)
  from blank_plan_area[OF assms(1,3,4) al(1)] obtain disk' start count where
    b: "po_disk source = Some disk_path" "plain_disk snapshot disk_path disk'"
      "crq_partition_table request = Some policy" "csa_partition_table a = Some policy"
      "csa_start_sector a = Some start" "sectors = Some count"
      "unat count * unat u = unat rounded"
      "blank_area_ok policy u (unat (bd_size_bytes disk' div u)) (unat start) (unat count)"
    unfolding al using d(1,5) by auto
  have disk': "disk' = disk" using b(2) d(2) by (simp add: plain_disk_def)
  have nz: "u \<noteq> 0" "0 < u" using unit_nonzero[OF R(1)] by (simp_all add: u_def word_gt_0)
  obtain t where t: "crq_filesystem request = Some t" "t = ''ext4'' \<or> t = ''xfs''"
    using planned(4) assms(5) by (auto simp: create_purpose_check_def and_then_Inr)
  have plan: "cpp_request plan = request" "cpp_blockers plan = []" "\<not> cpp_executable plan"
    using planned(7) by (simp_all add: new_create_plan_def)
  have path: "frozen_disk_path plan = disk_path" using assms(3) d(1) by (simp add: frozen_disk_path_def)
  have dk: "blank_intent_disk snapshot plan = Some disk"
    using d(2) by (simp add: blank_intent_disk_def path plain_disk_def single_Some_iff)
  have fr: "frozen_start plan = Some start" "frozen_count plan = Some count" "frozen_policy plan = Some policy"
    using al b by (simp_all add: frozen_start_def frozen_count_def frozen_policy_def)
  have sec: "blank_sector_bytes snapshot plan = u" using d(4) by (simp add: blank_sector_bytes_def dk u_def)
  have mul: "checked_mul count u = Some rounded"
  proof -
    have "unat count * unat u < 2 ^ LENGTH(64)" unfolding b(7) by (rule unsigned_less)
    moreover have "count * u = rounded"
      by (rule word_unat_eq_iff[THEN iffD2]) (use b(7) calculation in \<open>simp add: unat_word_ariths\<close>)
    ultimately show ?thesis by (simp add: checked_mul_def)
  qed
  have size: "blank_partition_size snapshot plan = rounded"
    using mul nz(2) by (simp add: blank_partition_size_def sec fr Let_def)
  have cnt: "count \<noteq> 0" using b(8) by (auto simp: blank_area_ok_def)
  have st: "start \<noteq> 0" using b(8) by (auto simp: blank_area_ok_def split: create_partition_table_policy.splits)
  have rn: "rounded \<noteq> 0"
    using b(7) cnt nz(1) by (metis mult_is_0 unat_0 unat_eq_0)
  have st': "\<not> no_longer_blank snapshot disk_path disk"
    using d(2) by (auto simp: no_longer_blank_def plain_disk_def blank_disk_state_ok_def list_ex_iff node_alias_def
        filter_eq_Cons_iff)
  have none: "blank_intent_blockers snapshot plan = []"
    using t(2) al cnt st rn d(3) assms(2,4)
    by (auto simp: blank_intent_blockers_def Let_def preview_blockers_def plan_not_freezable_def plan t(1) frozen_filesystem_def
      source_of_kind_def assms(3,5,6) fr dk sec size path st' nz)
  from assms(7) show ?thesis
    using b d(1,2) t(1) al(1-4,6) al(5)[unfolded b(4)]
    by (auto simp: freeze_blank_disk_filesystem_create_intent_def Let_def and_then_Inr none bdi_ready_def status_of_blockers_def
      bdi_integrity_matches_def bdi_expected_intent_id_def path fr sec size dk frozen_filesystem_def plan disk')
qed

text \<open>An ext4 filesystem of 256 MiB on the blank disk of \<open>ex_blank_disk\<close>.\<close>

definition ex_blank_fs_request :: create_request where
  "ex_blank_fs_request = \<lparr> crq_source_id = po_id ex_blank, crq_size = ByBytes 268435456, crq_purpose = CpFilesystem,
     crq_filesystem = Some ''ext4'', crq_mountpoint = None, crq_partition_table = Some CptGpt \<rparr>"

definition ex_blank_fs_plan :: create_plan_preview where
  "ex_blank_fs_plan = projr (plan_create (\<lambda>s. s) (\<lambda>_. Inr ''plan'')
     (ex_create_snapshot ex_blank_disk []) ex_blank_fs_request)"

lemma ex_blank_fs_plan:
  "plan_create (\<lambda>s. s) (\<lambda>_. Inr ''plan'') (ex_create_snapshot ex_blank_disk []) ex_blank_fs_request
     = Inr ex_blank_fs_plan"
  "cpp_source ex_blank_fs_plan = Some ex_blank" "cpp_request ex_blank_fs_plan = ex_blank_fs_request"
  "cpp_status ex_blank_fs_plan = PsPreview" "cpp_blockers ex_blank_fs_plan = []" "\<not> cpp_executable ex_blank_fs_plan"
  "cpp_allocation ex_blank_fs_plan = Some
     \<lparr> cal_requested_bytes = 268435456, cal_rounded_bytes = 268435456, cal_available_bytes = 1072676352,
       cal_remaining_bytes = 804240896, cal_allocation_unit_bytes = 512, cal_start_sector = Some 2048,
       cal_sector_count = Some 524288, cal_volume_group = None, cal_partition_table = Some CptGpt \<rparr>"
proof -
  have sel: "select_sources (po_id ex_blank) [ex_blank] = [ex_blank]" by (simp add: select_sources_def)
  have "\<exists>p. plan_create (\<lambda>s. s) (\<lambda>_. Inr ''plan'') (ex_create_snapshot ex_blank_disk []) ex_blank_fs_request = Inr p
     \<and> cpp_source p = Some ex_blank \<and> cpp_request p = ex_blank_fs_request
     \<and> cpp_status p = PsPreview \<and> cpp_blockers p = [] \<and> \<not> cpp_executable p
     \<and> cpp_allocation p = Some
     \<lparr> cal_requested_bytes = 268435456, cal_rounded_bytes = 268435456, cal_available_bytes = 1072676352,
       cal_remaining_bytes = 804240896, cal_allocation_unit_bytes = 512, cal_start_sector = Some 2048,
       cal_sector_count = Some 524288, cal_volume_group = None, cal_partition_table = Some CptGpt \<rparr>"
    by (simp add: plan_create_def ex_blank_fs_request_def ex_blank_sources sel plan_create_from_def new_create_plan_def
       ex_blank_adapter create_sizes_def ensure_def checked_mul_def create_source_steps_def on_disk_sectors_def
       create_purpose_check_def sealed_def Let_def)
  then show "plan_create (\<lambda>s. s) (\<lambda>_. Inr ''plan'') (ex_create_snapshot ex_blank_disk []) ex_blank_fs_request
     = Inr ex_blank_fs_plan"
  "cpp_source ex_blank_fs_plan = Some ex_blank" "cpp_request ex_blank_fs_plan = ex_blank_fs_request"
  "cpp_status ex_blank_fs_plan = PsPreview" "cpp_blockers ex_blank_fs_plan = []" "\<not> cpp_executable ex_blank_fs_plan"
  "cpp_allocation ex_blank_fs_plan = Some
     \<lparr> cal_requested_bytes = 268435456, cal_rounded_bytes = 268435456, cal_available_bytes = 1072676352,
       cal_remaining_bytes = 804240896, cal_allocation_unit_bytes = 512, cal_start_sector = Some 2048,
       cal_sector_count = Some 524288, cal_volume_group = None, cal_partition_table = Some CptGpt \<rparr>"
    by (auto simp: ex_blank_fs_plan_def)
qed

lemma ex_blank_fs_request_facts:
  "crq_purpose ex_blank_fs_request = CpFilesystem" "crq_mountpoint ex_blank_fs_request = None"
  "crq_filesystem ex_blank_fs_request = Some ''ext4''"
  by (simp_all add: ex_blank_fs_request_def)

definition ex_blank_intent :: "host_snapshot \<Rightarrow> blank_disk_intent" where
  "ex_blank_intent snapshot = projr (freeze_blank_disk_filesystem_create_intent (\<lambda>_. Inr ''intent'')
     snapshot ex_blank_fs_plan)"

lemma ex_blank_intent:
  "freeze_blank_disk_filesystem_create_intent (\<lambda>_. Inr ''intent'') snapshot ex_blank_fs_plan
     = Inr (ex_blank_intent snapshot)"
  by (simp add: ex_blank_intent_def freeze_blank_disk_filesystem_create_intent_def Let_def bdi_expected_intent_id_def)

theorem blank_intent_of_fresh_plan_witness:
  "bdi_ready (ex_blank_intent (ex_create_snapshot ex_blank_disk []))"
  using blank_intent_of_fresh_plan[OF ex_blank_fs_plan(1,4,2) ex_blank_facts(1) ex_blank_fs_request_facts(1,2) ex_blank_intent]
  by blast

text \<open>The freeze does not compare the partition with the size of the fresh disk: on a disk of 64 MiB at
  the same path the intent for 256 MiB is ready.\<close>

definition ex_smaller_disk :: block_device where
  "ex_smaller_disk = BlockDevice ''sdb'' None (Some ''/dev/sdb'') NkDisk 67108864 None (Some 512) None []
     None None None None None None []"

lemma blank_intent_beyond_disk:
  "\<exists>i. freeze_blank_disk_filesystem_create_intent (\<lambda>_. Inr ''intent'') (ex_create_snapshot ex_smaller_disk [])
         ex_blank_fs_plan = Inr i
     \<and> bdi_ready i \<and> unat (bdi_disk_size_bytes i)
         < (unat (bdi_partition_start_sector i) + unat (bdi_partition_sector_count i)) * unat (bdi_logical_sector_bytes i)"
proof -
  let ?s = "ex_create_snapshot ex_smaller_disk []"
  have p: "frozen_disk_path ex_blank_fs_plan = ''/dev/sdb''" "frozen_filesystem ex_blank_fs_plan = ''ext4''"
    "frozen_start ex_blank_fs_plan = Some 2048" "frozen_count ex_blank_fs_plan = Some 524288"
    "frozen_policy ex_blank_fs_plan = Some CptGpt" "source_of_kind PskBlankDisk ex_blank_fs_plan"
    "\<not> plan_not_freezable ex_blank_fs_plan"
    by (simp_all add: frozen_disk_path_def frozen_filesystem_def frozen_start_def frozen_count_def frozen_policy_def
      source_of_kind_def plan_not_freezable_def ex_blank_fs_plan ex_blank_facts ex_blank_fs_request_facts)
  have d: "blank_intent_disk ?s ex_blank_fs_plan = Some ex_smaller_disk"
    by (simp add: blank_intent_disk_def p ex_snapshot_facts flatten_def ex_smaller_disk_def)
  have f: "bd_logical_sector_bytes ex_smaller_disk = Some 512" "bd_size_bytes ex_smaller_disk = 67108864"
    by (simp_all add: ex_smaller_disk_def)
  have s: "blank_sector_bytes ?s ex_blank_fs_plan = 512" "blank_partition_size ?s ex_blank_fs_plan = 268435456"
    by (simp_all add: blank_sector_bytes_def blank_partition_size_def d f p checked_mul_def Let_def)
  have c: "collector_complete ?s ''partition_tables''" by (simp add: collector_complete_def ex_create_snapshot_def)
  have n: "\<not> no_longer_blank ?s ''/dev/sdb'' ex_smaller_disk"
    by (simp add: no_longer_blank_def ex_smaller_disk_def disk_or_loop_def ex_create_snapshot_def)
  have "blank_intent_blockers ?s ex_blank_fs_plan = []"
    by (simp add: blank_intent_blockers_def preview_blockers_def p d s c n ex_blank_fs_plan ex_blank_fs_request_facts Let_def)
  then show ?thesis
    by (simp add: freeze_blank_disk_filesystem_create_intent_def bdi_expected_intent_id_def bdi_ready_def
      status_of_blockers_def d f p s Let_def)
qed

end
