(* ===== verification/SwapMigration.thy ===== *)
theory SwapMigration
  imports ExtendPlanner
begin

text \<open>
  Moving a tail swap partition into a swapfile, \<open>crates/planner/src/swap_migration.rs\<close>: whether the
  layout is safe to migrate, whether a destination can hold the swapfile, and the frozen intent
  that binds both to the state of the host. The identifier of an intent is the SHA-256 of the JSON
  of its other fields, here the parameter \<open>fp\<close> applied to the intent with an empty identifier.
\<close>

section \<open>Safety of the migration\<close>

datatype swap_migration_safety_status = SmsClearForPlanning | SmsBlocked

record swap_migration_safety =
  sms_status :: swap_migration_safety_status
  sms_target :: string
  sms_disk :: "string option"
  sms_swap_device :: "string option"
  sms_swap_bytes :: "u64 option"
  sms_active_swap_used_bytes :: "u64 option"
  sms_persistent_swap_source :: "string option"
  sms_blockers :: "plan_blocker list"
  sms_future_checks :: "string list"

definition clear_for_planning :: "swap_migration_safety \<Rightarrow> bool" where
  "clear_for_planning s = (sms_status s = SmsClearForPlanning)"

definition source_matches_device :: "string \<Rightarrow> block_device \<Rightarrow> bool" where
  "source_matches_device source device =
     (bd_path device = Some source \<or> source = bd_name device
      \<or> (case bd_uuid device of None \<Rightarrow> False | Some uuid \<Rightarrow> source = ''UUID='' @ uuid)
      \<or> (case bd_partition_uuid device of None \<Rightarrow> False | Some uuid \<Rightarrow> source = ''PARTUUID='' @ uuid))"

text \<open>A resume device or offset, on the command line of the kernel or in sysfs.\<close>

definition resume_blockers :: "hibernation_resume_evidence \<Rightarrow> plan_blocker list" where
  "resume_blockers resume =
     block_if (hre_kernel_resume_targets resume \<noteq> []) ''kernel-resume-target-configured''
       ''kernel command line contains resume=; swap migration is blocked until the resume target is explicitly reconciled''
     @ block_if (hre_kernel_resume_offsets resume \<noteq> []) ''kernel-resume-offset-configured''
       ''kernel command line contains resume_offset=; swapfile migration must not proceed without an explicit hibernation resume-offset design''
     @ block_if (hre_sysfs_resume resume \<noteq> None) ''sysfs-resume-device-configured''
       ''the running kernel reports a nonzero /sys/power/resume device''
     @ block_if (hre_sysfs_resume_offset resume \<noteq> None) ''sysfs-resume-offset-configured''
       ''the running kernel reports a nonzero /sys/power/resume_offset''"

definition swap_node_of :: "host_snapshot \<Rightarrow> string option \<Rightarrow> block_device option" where
  "swap_node_of snapshot swap_device =
     Option.bind swap_device (\<lambda>device.
       single (filter (source_matches_device device) (map ref_node (snapshot_nodes snapshot))))"

definition persistent_swap_matches :: "host_snapshot \<Rightarrow> block_device option \<Rightarrow> fstab_entry list" where
  "persistent_swap_matches snapshot swap_node =
     (case swap_node of
        None \<Rightarrow> []
      | Some device \<Rightarrow> filter (\<lambda>e. fe_fs_type e = ''swap'' \<and> source_matches_device (fe_source e) device)
          (hs_fstab snapshot))"

definition persistent_blockers :: "fstab_entry list \<Rightarrow> plan_blocker list" where
  "persistent_blockers matches =
     (case matches of
        [] \<Rightarrow> [blocked ''persistent-swap-entry-not-proven''
          ''no unique fstab swap entry can be bound to the active tail swap partition'']
      | [e] \<Rightarrow> []
      | _ \<Rightarrow> [blocked ''persistent-swap-entry-ambiguous''
          ''multiple fstab swap entries bind to the active tail swap partition''])"

definition analyze_swap_migration_safety ::
  "host_snapshot \<Rightarrow> hibernation_resume_evidence \<Rightarrow> string \<Rightarrow> swap_migration_safety" where
  "analyze_swap_migration_safety snapshot resume target =
     (case analyze_layout_opportunity snapshot target of
        None \<Rightarrow>
          \<lparr> sms_status = SmsBlocked, sms_target = target, sms_disk = None, sms_swap_device = None,
            sms_swap_bytes = None, sms_active_swap_used_bytes = None, sms_persistent_swap_source = None,
            sms_blockers = [blocked ''swap-tail-layout-not-proven''
              ''the exact DOS extended/logical active-swap tail layout is not proven''],
            sms_future_checks = [] \<rparr>
      | Some opportunity \<Rightarrow>
          (let swap_device = (case lop_blocking_devices opportunity of _ # d # _ \<Rightarrow> Some d | _ \<Rightarrow> None);
               matches = persistent_swap_matches snapshot (swap_node_of snapshot swap_device);
               blockers = resume_blockers resume @ persistent_blockers matches in
           \<lparr> sms_status = (if blockers = [] then SmsClearForPlanning else SmsBlocked),
             sms_target = target, sms_disk = Some (lop_disk opportunity), sms_swap_device = swap_device,
             sms_swap_bytes = Some (lop_swap_bytes opportunity),
             sms_active_swap_used_bytes = Option.bind swap_device (\<lambda>device.
               map_option se_used_bytes (List.find (\<lambda>e. se_name e = device) (hs_swaps snapshot))),
             sms_persistent_swap_source = map_option fe_source (single matches),
             sms_blockers = blockers,
             sms_future_checks =
               [''choose a swapfile filesystem with explicitly verified free capacity and swapfile support'',
                ''create, mkswap and swapon the replacement before deactivating the partition'',
                ''prove current memory/swap pressure permits safe swapoff of the old partition'',
                ''atomically rewrite and verify persistent swap configuration before partition removal'',
                ''back up partition-table, fstab and boot/resume configuration before any mutation''] \<rparr>))"

section \<open>The destination of the swapfile\<close>

datatype swapfile_destination_status = SdsReadyForPlanning | SdsBlocked

record swapfile_destination_readiness =
  sdr_status :: swapfile_destination_status
  sdr_destination_mount :: string
  sdr_swapfile_path :: string
  sdr_filesystem_type :: "string option"
  sdr_available_bytes :: u64
  sdr_replacement_swap_bytes :: "u64 option"
  sdr_blockers :: "plan_blocker list"
  sdr_ordered_future_steps :: "string list"

definition ready_for_planning :: "swapfile_destination_readiness \<Rightarrow> bool" where
  "ready_for_planning r = (sdr_status r = SdsReadyForPlanning)"

definition required_tool_available :: "host_capabilities \<Rightarrow> string \<Rightarrow> bool" where
  "required_tool_available capabilities name =
     (case filter (\<lambda>t. tc_name t = name) (hc_tools capabilities) of [t] \<Rightarrow> tc_available t | _ \<Rightarrow> False)"

definition swapfile_path_for_mount :: "string \<Rightarrow> string" where
  "swapfile_path_for_mount mountpoint =
     (if mountpoint = ''/'' then ''/.linux-storage-manager.swap''
      else rev (dropWhile (\<lambda>c. c = CHR ''/'') (rev mountpoint)) @ ''/.linux-storage-manager.swap'')"

definition destination_mount_blockers ::
  "swap_migration_safety \<Rightarrow> mount_entry option \<Rightarrow> plan_blocker list" where
  "destination_mount_blockers safety mount =
     block_if (mount = None) ''swapfile-mount-not-unique''
       ''replacement swapfile destination must resolve to exactly one current mount''
     @ block_if (Option.bind mount me_fs_type \<noteq> Some ''ext4'') ''swapfile-filesystem-unsupported''
         ''the first automatic swapfile migration profile requires an ext4 destination''
     @ (case mount of
          None \<Rightarrow> []
        | Some m \<Rightarrow>
            block_if (''rw'' \<notin> set (me_options m) \<or> ''ro'' \<in> set (me_options m)) ''swapfile-destination-not-rw''
              ''replacement swapfile destination must be mounted read-write''
            @ block_if (me_source m = sms_swap_device safety) ''swapfile-destination-is-retiring-swap''
              ''replacement swapfile destination cannot be the swap partition being retired'')"

definition analyze_swapfile_destination ::
  "host_snapshot \<Rightarrow> host_capabilities \<Rightarrow> swap_migration_safety \<Rightarrow> filesystem_space_evidence \<Rightarrow> string
     \<Rightarrow> swapfile_destination_readiness" where
  "analyze_swapfile_destination snapshot capabilities safety space destination_mount =
     (let mount = single (filter (\<lambda>m. me_target m = destination_mount) (hs_mounts snapshot));
          swapfile_path = swapfile_path_for_mount destination_mount;
          blockers =
            (if clear_for_planning safety then [] else sms_blockers safety)
            @ block_if (fse_path space \<noteq> destination_mount) ''swapfile-space-evidence-mismatch''
                ''filesystem-space evidence does not match the selected swapfile destination mount''
            @ destination_mount_blockers safety mount
            @ (case sms_swap_bytes safety of
                 Some needed \<Rightarrow> block_if (fse_available_bytes space < needed) ''swapfile-capacity-insufficient''
                   ''selected destination does not have enough currently available bytes for an equal-sized replacement swapfile''
               | None \<Rightarrow> [blocked ''swapfile-required-size-unknown''
                   ''exact replacement swap size is not available from the migration safety proof''])
            @ concat (map (\<lambda>tool. block_if (\<not> required_tool_available capabilities tool)
                ''swapfile-tool-unavailable'' (''required tool '' @ tool @ '' is unavailable or ambiguous''))
                [''mkswap'', ''swapon'', ''swapoff''])
      in \<lparr> sdr_status = (if blockers = [] then SdsReadyForPlanning else SdsBlocked),
           sdr_destination_mount = destination_mount, sdr_swapfile_path = swapfile_path,
           sdr_filesystem_type = Option.bind mount me_fs_type,
           sdr_available_bytes = fse_available_bytes space,
           sdr_replacement_swap_bytes = sms_swap_bytes safety, sdr_blockers = blockers,
           sdr_ordered_future_steps =
             [''create a non-sparse root-owned 0600 file at '' @ swapfile_path @ '' with the exact replacement size'',
              ''run mkswap on '' @ swapfile_path @ '' and verify the resulting swap signature'',
              ''swapon '' @ swapfile_path @ '' before any attempt to deactivate the old swap partition'',
              ''rediscover active swap and require the replacement to be active at the intended priority'',
              ''attempt swapoff of the old partition; if it fails, keep both swaps and abort partition changes'',
              ''rewrite persistent swap configuration atomically only after the runtime replacement is proven'',
              ''remove the old swap/extended partitions only after all runtime and persistence checks pass''] \<rparr>)"

section \<open>The frozen intent\<close>

record swap_replacement_intent =
  sri_schema_version :: u32
  sri_intent_id :: string
  sri_executable :: bool
  sri_status :: plan_status
  sri_target :: string
  sri_disk :: "string option"
  sri_retiring_swap_device :: "string option"
  sri_retiring_swap_bytes :: "u64 option"
  sri_retiring_swap_used_bytes :: "u64 option"
  sri_retiring_swap_priority :: "i32 option"
  sri_persistent_swap_source :: "string option"
  sri_persistent_swap_target :: "string option"
  sri_persistent_swap_options :: "string list"
  sri_persistent_swap_dump :: "u32 option"
  sri_persistent_swap_pass :: "u32 option"
  sri_destination_mount :: string
  sri_swapfile_path :: string
  sri_destination_filesystem :: "string option"
  sri_destination_available_bytes :: u64
  sri_swapfile_mode :: u32
  sri_blockers :: "plan_blocker list"
  sri_ordered_steps :: "string list"

definition sri_ready :: "swap_replacement_intent \<Rightarrow> bool" where
  "sri_ready i = (sri_status i = PsPreview \<and> sri_blockers i = [] \<and> \<not> sri_executable i)"

definition sri_expected_intent_id ::
  "(swap_replacement_intent \<Rightarrow> ('e, string) result) \<Rightarrow> swap_replacement_intent \<Rightarrow> ('e, string) result" where
  "sri_expected_intent_id fp i = fp (i\<lparr>sri_intent_id := []\<rparr>)"

definition sri_integrity_matches ::
  "(swap_replacement_intent \<Rightarrow> ('e, string) result) \<Rightarrow> swap_replacement_intent \<Rightarrow> ('e, bool) result" where
  "sri_integrity_matches fp i =
     and_then (sri_expected_intent_id fp i) (\<lambda>expected. Inr (sri_intent_id i = expected))"

definition retiring_swap :: "host_snapshot \<Rightarrow> swap_migration_safety \<Rightarrow> swap_entry option" where
  "retiring_swap snapshot safety =
     Option.bind (sms_swap_device safety) (\<lambda>device.
       single (filter (\<lambda>e. se_name e = device) (hs_swaps snapshot)))"

definition persistent_swap :: "host_snapshot \<Rightarrow> swap_migration_safety \<Rightarrow> fstab_entry option" where
  "persistent_swap snapshot safety =
     Option.bind (sms_persistent_swap_source safety) (\<lambda>source.
       single (filter (\<lambda>e. fe_fs_type e = ''swap'' \<and> fe_source e = source) (hs_fstab snapshot)))"

definition swap_state_changed :: "swap_entry option \<Rightarrow> swap_migration_safety \<Rightarrow> bool" where
  "swap_state_changed swap safety =
     (case (swap, sms_swap_bytes safety) of
        (Some e, Some expected_bytes) \<Rightarrow>
          se_size_bytes e = 0 \<or> expected_bytes < se_size_bytes e
          \<or> Some (se_used_bytes e) \<noteq> sms_active_swap_used_bytes safety
      | _ \<Rightarrow> False)"

definition swap_intent_blockers ::
  "host_snapshot \<Rightarrow> swap_migration_safety \<Rightarrow> swapfile_destination_readiness \<Rightarrow> path_occupancy_evidence
     \<Rightarrow> plan_blocker list" where
  "swap_intent_blockers snapshot safety readiness path_state =
     (if clear_for_planning safety then [] else sms_blockers safety)
     @ (if ready_for_planning readiness then [] else sdr_blockers readiness)
     @ block_if (poe_path path_state \<noteq> sdr_swapfile_path readiness) ''swapfile-path-evidence-mismatch''
         ''path occupancy evidence does not match the frozen replacement swapfile path''
     @ block_if (poe_exists path_state) ''swapfile-path-occupied''
         ''replacement swapfile path already exists; automatic migration refuses to replace or reuse it''
     @ block_if (sdr_replacement_swap_bytes readiness \<noteq> sms_swap_bytes safety) ''swapfile-size-binding-mismatch''
         ''destination readiness no longer matches the exact retiring swap-partition size''
     @ block_if (retiring_swap snapshot safety = None) ''retiring-swap-runtime-identity-mismatch''
         ''the retiring active swap entry is absent or ambiguous''
     @ block_if (persistent_swap snapshot safety = None) ''retiring-swap-persistence-identity-mismatch''
         ''the persistent swap entry changed or became ambiguous after safety analysis''
     @ block_if (swap_state_changed (retiring_swap snapshot safety) safety) ''retiring-swap-runtime-state-changed''
         ''active swap reported size exceeds the frozen partition geometry or usage changed after the migration safety proof''"

definition build_swap_replacement_intent ::
  "(swap_replacement_intent \<Rightarrow> (planner_error, string) result) \<Rightarrow> host_snapshot \<Rightarrow> swap_migration_safety
     \<Rightarrow> swapfile_destination_readiness \<Rightarrow> path_occupancy_evidence
     \<Rightarrow> (planner_error, swap_replacement_intent) result" where
  "build_swap_replacement_intent fp snapshot safety readiness path_state =
     (let blockers = swap_intent_blockers snapshot safety readiness path_state;
          swap = retiring_swap snapshot safety; persistent = persistent_swap snapshot safety;
          intent = \<lparr> sri_schema_version = 1, sri_intent_id = [], sri_executable = False,
            sri_status = (if blockers = [] then PsPreview else PsBlocked),
            sri_target = sms_target safety, sri_disk = sms_disk safety,
            sri_retiring_swap_device = sms_swap_device safety,
            sri_retiring_swap_bytes = sms_swap_bytes safety,
            sri_retiring_swap_used_bytes = map_option se_used_bytes swap,
            sri_retiring_swap_priority = map_option se_priority swap,
            sri_persistent_swap_source = map_option fe_source persistent,
            sri_persistent_swap_target = map_option fe_target persistent,
            sri_persistent_swap_options = unwrap_or (map_option fe_options persistent) [],
            sri_persistent_swap_dump = map_option fe_dump persistent,
            sri_persistent_swap_pass = map_option fe_pass persistent,
            sri_destination_mount = sdr_destination_mount readiness,
            sri_swapfile_path = sdr_swapfile_path readiness,
            sri_destination_filesystem = sdr_filesystem_type readiness,
            sri_destination_available_bytes = sdr_available_bytes readiness,
            sri_swapfile_mode = 0x180, sri_blockers = blockers,
            sri_ordered_steps =
              [''revalidate hibernation/resume, active swap, fstab, destination mount, free space and swapfile-path vacancy'',
               ''create the replacement swapfile with create-new semantics, exact size, no holes and mode 0600'',
               ''run mkswap and verify the replacement signature before activation'',
               ''activate the replacement with the frozen priority while keeping the old swap partition active'',
               ''rediscover active swap and require both old and new swap areas before any swapoff attempt'',
               ''attempt swapoff of the old partition; on failure leave the replacement active and make no partition-table changes'',
               ''after successful swapoff, atomically replace the persistent swap entry and verify the parsed result'',
               ''only after runtime and persistent replacement are proven may a later executor remove the old swap/extended partitions''] \<rparr>
      in and_then (sri_expected_intent_id fp intent) (\<lambda>i. Inr (intent\<lparr>sri_intent_id := i\<rparr>)))"

section \<open>A ready intent\<close>

lemma persistent_blockers_Nil [simp]: "persistent_blockers ms = [] \<longleftrightarrow> (\<exists>e. ms = [e])"
  by (auto simp: persistent_blockers_def split: list.splits)

lemma resume_blockers_Nil [simp]: "resume_blockers resume = [] \<longleftrightarrow> \<not> hre_configured resume"
  by (auto simp: resume_blockers_def hre_configured_def)

lemma single_Cons_Nil [simp]: "single [x] = Some x"
  by (simp add: single_Some_iff)

lemma clear_safety:
  assumes "clear_for_planning (analyze_swap_migration_safety snapshot resume target)"
  obtains opportunity node e where
    "analyze_layout_opportunity snapshot target = Some opportunity"
    "\<not> hre_configured resume"
    "swap_node_of snapshot (case lop_blocking_devices opportunity of _ # d # _ \<Rightarrow> Some d | _ \<Rightarrow> None) = Some node"
    "filter (\<lambda>e. fe_fs_type e = ''swap'' \<and> source_matches_device (fe_source e) node) (hs_fstab snapshot) = [e]"
    "sms_persistent_swap_source (analyze_swap_migration_safety snapshot resume target) = Some (fe_source (e :: fstab_entry))"
    "sms_swap_bytes (analyze_swap_migration_safety snapshot resume target) = Some (lop_swap_bytes opportunity)"
    "sms_disk (analyze_swap_migration_safety snapshot resume target) = Some (lop_disk opportunity)"
proof -
  from assms obtain opportunity and e :: fstab_entry where o: "analyze_layout_opportunity snapshot target = Some opportunity"
    "\<not> hre_configured resume"
    "persistent_swap_matches snapshot (swap_node_of snapshot
       (case lop_blocking_devices opportunity of _ # d # _ \<Rightarrow> Some d | _ \<Rightarrow> None)) = [e]"
    by (simp add: analyze_swap_migration_safety_def clear_for_planning_def Let_def
        split: option.splits if_splits)
  then obtain node where "swap_node_of snapshot
       (case lop_blocking_devices opportunity of _ # d # _ \<Rightarrow> Some d | _ \<Rightarrow> None) = Some node"
    "filter (\<lambda>e. fe_fs_type e = ''swap'' \<and> source_matches_device (fe_source e) node) (hs_fstab snapshot) = [e]"
    by (auto simp: persistent_swap_matches_def split: option.splits)
  with o show thesis by (intro that[of opportunity node e]) (simp_all add: analyze_swap_migration_safety_def Let_def)
qed

lemma ready_destination:
  assumes "ready_for_planning (analyze_swapfile_destination snapshot capabilities safety space mountpoint)"
  obtains m needed where
    "clear_for_planning safety \<or> sms_blockers safety = []" "fse_path space = mountpoint"
    "filter (\<lambda>m. me_target m = mountpoint) (hs_mounts snapshot) = [m]"
    "me_fs_type m = Some ''ext4''" "''rw'' \<in> set (me_options m)" "''ro'' \<notin> set (me_options m)"
    "me_source m \<noteq> sms_swap_device safety"
    "sms_swap_bytes safety = Some needed" "needed \<le> fse_available_bytes space"
    "\<forall>t\<in>{''mkswap'', ''swapon'', ''swapoff''}. required_tool_available capabilities t"
  using assms
  by (auto simp: analyze_swapfile_destination_def ready_for_planning_def Let_def destination_mount_blockers_def
      clear_for_planning_def single_Some_iff not_less split: option.splits if_splits)


lemma safety_blocked:
  "clear_for_planning (analyze_swap_migration_safety snapshot resume target)
     \<longleftrightarrow> sms_blockers (analyze_swap_migration_safety snapshot resume target) = []"
  by (auto simp: analyze_swap_migration_safety_def clear_for_planning_def Let_def split: option.splits)

lemma destination_blocked:
  "ready_for_planning (analyze_swapfile_destination snapshot capabilities safety space mountpoint)
     \<longleftrightarrow> sdr_blockers (analyze_swapfile_destination snapshot capabilities safety space mountpoint) = []"
  by (simp add: analyze_swapfile_destination_def ready_for_planning_def Let_def)

lemma filter_singletonD: "filter P xs = [x] \<Longrightarrow> x \<in> set xs \<and> P x"
  using filter_set[of P xs] by auto

lemma range_end_Some: "range_end_of r = Some stop \<Longrightarrow> unat stop = record_end r"
  unfolding range_end_of_def record_end_def by (rule checked_add_Some)

lemma range_end_within: "(case range_end_of r of None \<Rightarrow> False | Some stop \<Rightarrow> stop \<le> e) \<longleftrightarrow> record_end r \<le> unat e"
proof (cases "range_end_of r")
  case None
  then have "2 ^ 64 \<le> record_end r" by (simp add: range_end_of_def record_end_def checked_add_def split: if_splits)
  with None unsigned_less[of e, where 'a = nat] show ?thesis by simp
qed (simp add: range_end_Some word_le_nat_alt)

text \<open>The one swap partition behind the target: on the one DOS table of the target's disk there is one extended
  partition behind the target, inside the disk; the swap record is the only other record inside it, of type \<open>0x82\<close>;
  nothing else lies behind the target; and the record's node is one partition of the same disk, formatted as swap and of
  the same bytes.\<close>

definition one_swap_behind ::
  "host_snapshot \<Rightarrow> string \<Rightarrow> string \<Rightarrow> u64 \<Rightarrow> partition_record \<Rightarrow> bool" where
  "one_swap_behind snapshot target disk_path sector swap \<longleftrightarrow>
     (\<exists>device disk target_path table goal extended node. layout_target snapshot target = Some (device, disk)
      \<and> bd_path disk = Some disk_path \<and> bd_path device = Some target_path
      \<and> filter (\<lambda>t. pt_device t = disk_path \<and> pt_label t = Some ''dos'') (hs_partition_tables snapshot) = [table]
      \<and> pt_sector_size_bytes table = Some sector \<and> (sector = 512 \<or> sector = 4096)
      \<and> find (\<lambda>r. pr_node r = target_path) (pt_partitions table) = Some goal
      \<and> filter (\<lambda>r. extended_record r \<and> record_end goal \<le> unat (pr_start_sector r)) (pt_partitions table) = [extended]
      \<and> record_end extended \<le> unat (bd_size_bytes disk) div unat sector
      \<and> filter (\<lambda>r. pr_node r \<noteq> pr_node extended \<and> unat (pr_start_sector extended) \<le> unat (pr_start_sector r)
             \<and> record_end r \<le> record_end extended) (pt_partitions table) = [swap]
      \<and> dos_kind swap = Inr 0x82
      \<and> (\<forall>r\<in>set (pt_partitions table). record_end goal \<le> unat (pr_start_sector r) \<longrightarrow>
             pr_node r \<in> {pr_node goal, pr_node extended, pr_node swap})
      \<and> filter (\<lambda>d. bd_kind d = NkPartition \<and> node_alias d (pr_node swap)) (map ref_node (snapshot_nodes snapshot)) = [node]
      \<and> unat (bd_size_bytes node) = unat (pr_size_sectors swap) * unat sector
      \<and> bd_parent_kernel_name node = bd_parent_kernel_name device \<and> has_filesystem_type node ''swap'')"

lemma swap_in_use_node:
  assumes "swap_in_use_ok snapshot device swap bytes = Some u"
  shows "\<exists>node. filter (\<lambda>d. bd_kind d = NkPartition \<and> node_alias d (pr_node swap)) (map ref_node (snapshot_nodes snapshot)) = [node]
     \<and> bd_size_bytes node = bytes \<and> bd_parent_kernel_name node = bd_parent_kernel_name device
     \<and> has_filesystem_type node ''swap''"
  using assms unfolding swap_in_use_ok_def
  by (auto simp: ok_opt_Some unique_Inr assert_def split: bind_splits if_splits)

lemma tail_swap_records_Some:
  assumes "tail_swap_records table target_end disk_sectors = Some (extended, stop, swap)"
  shows "filter (\<lambda>r. extended_record r \<and> unat target_end \<le> unat (pr_start_sector r)) (pt_partitions table) = [extended]
    \<and> record_end extended \<le> unat disk_sectors
    \<and> filter (\<lambda>r. pr_node r \<noteq> pr_node extended \<and> unat (pr_start_sector extended) \<le> unat (pr_start_sector r)
           \<and> record_end r \<le> record_end extended) (pt_partitions table) = [swap]
    \<and> dos_kind swap = Inr 0x82"
proof -
  have within: "(case range_end_of r of None \<Rightarrow> False | Some stop \<Rightarrow> a \<le> b \<and> stop \<le> e) \<longleftrightarrow> unat a \<le> unat b \<and> record_end r \<le> unat e"
    for r :: partition_record and a b e :: u64
    using range_end_within[of e r] by (cases "range_end_of r") (auto simp: word_le_nat_alt)
  from assms show ?thesis
    unfolding tail_swap_records_def within
    by (auto simp: single_Some_iff assert_def ok_opt_Some dos_kind_def word_le_nat_alt range_end_Some
        split: bind_splits if_splits option.splits)
qed

lemma layout_swap:
  assumes "analyze_layout_opportunity snapshot target = Some opportunity"
  obtains extended swap sector where
    "lop_blocking_devices opportunity = [pr_node (extended :: partition_record), pr_node (swap :: partition_record)]"
    "one_swap_behind snapshot target (lop_disk opportunity) sector swap"
    "unat (lop_swap_bytes opportunity) = unat (pr_size_sectors swap) * unat sector"
proof -
  from assms obtain device disk disk_path target_path table sector goal goal_end extended stop swap u where
    l: "layout_target snapshot target = Some (device, disk)" "bd_path disk = Some disk_path" "bd_path device = Some target_path"
    "filter (\<lambda>t. pt_device t = disk_path \<and> pt_label t = Some ''dos'') (hs_partition_tables snapshot) = [table]"
    "pt_sector_size_bytes table = Some sector" "sector = 512 \<or> sector = 4096"
    "find (\<lambda>r. pr_node r = target_path) (pt_partitions table) = Some goal" "range_end_of goal = Some goal_end"
    "tail_swap_records table goal_end (bd_size_bytes disk div sector) = Some (extended, stop, swap)"
    "checked_mul (pr_size_sectors swap) sector = Some (lop_swap_bytes opportunity)"
    "swap_in_use_ok snapshot device swap (lop_swap_bytes opportunity) = Some u"
    "\<not> list_ex (\<lambda>r. pr_node r \<notin> {pr_node goal, pr_node extended, pr_node swap} \<and> goal_end \<le> pr_start_sector r) (pt_partitions table)"
    and o: "lop_disk opportunity = disk_path" "lop_blocking_devices opportunity = [pr_node extended, pr_node swap]"
    unfolding analyze_layout_opportunity_def Let_def
    apply (elim stepsE)
    subgoal for x device disk disk_path target_path table sector u goal goal_end found extended b stop swap
      by (rule that[of device disk disk_path target_path table sector goal goal_end extended stop swap "()"])
        (auto simp: assert_def single_Some_iff split: if_splits)
    done
  from swap_in_use_node[OF l(11)] obtain node where n:
    "filter (\<lambda>d. bd_kind d = NkPartition \<and> node_alias d (pr_node swap)) (map ref_node (snapshot_nodes snapshot)) = [node]"
    "bd_size_bytes node = lop_swap_bytes opportunity" "bd_parent_kernel_name node = bd_parent_kernel_name device"
    "has_filesystem_type node ''swap''" by blast
  have bytes: "unat (lop_swap_bytes opportunity) = unat (pr_size_sectors swap) * unat sector"
    using l(10) by (rule checked_mul_Some)
  have "\<forall>r\<in>set (pt_partitions table). record_end goal \<le> unat (pr_start_sector r) \<longrightarrow>
             pr_node r \<in> {pr_node goal, pr_node extended, pr_node swap}"
    using l(12) unfolding list_ex_iff word_le_nat_alt range_end_Some[OF l(8)] by blast
  note facts = this l(1-7) n tail_swap_records_Some[OF l(9)] range_end_Some[OF l(8)] bytes
  have "one_swap_behind snapshot target (lop_disk opportunity) sector swap"
    unfolding one_swap_behind_def
    by (rule exI[of _ device], rule exI[of _ disk], rule exI[of _ target_path], rule exI[of _ table], rule exI[of _ goal],
        rule exI[of _ extended], rule exI[of _ node])
       (use facts in \<open>simp add: o unat_div\<close>)
  with o(2) show thesis by (rule that) (fact bytes)
qed

text \<open>What the intent copies from the analyses and the fresh snapshot.\<close>

lemma swap_intent_fields:
  assumes "build_swap_replacement_intent fp fresh safety readiness path_state = Inr i"
  shows "sri_disk i = sms_disk safety" "sri_retiring_swap_device i = sms_swap_device safety"
      "sri_retiring_swap_bytes i = sms_swap_bytes safety"
      "sri_retiring_swap_used_bytes i = map_option se_used_bytes (retiring_swap fresh safety)"
      "sri_retiring_swap_priority i = map_option se_priority (retiring_swap fresh safety)"
      "sri_persistent_swap_source i = map_option fe_source (persistent_swap fresh safety)"
      "sri_persistent_swap_target i = map_option fe_target (persistent_swap fresh safety)"
      "sri_persistent_swap_options i = unwrap_or (map_option fe_options (persistent_swap fresh safety)) []"
      "sri_persistent_swap_dump i = map_option fe_dump (persistent_swap fresh safety)"
      "sri_persistent_swap_pass i = map_option fe_pass (persistent_swap fresh safety)"
      "sri_destination_mount i = sdr_destination_mount readiness"
      "sri_swapfile_path i = sdr_swapfile_path readiness" "\<not> sri_executable i"
      "fp (i\<lparr>sri_intent_id := []\<rparr>) = Inr (sri_intent_id i)"
  using assms by (auto simp: build_swap_replacement_intent_def and_then_Inr Let_def sri_expected_intent_id_def)

text \<open>C37: when the three analyses of a swap migration lead to a ready intent, no resume device or offset is
  configured; the retiring device is the one swap partition behind the target, on the DOS table of the target's disk
  (\<open>one_swap_behind\<close>), of exactly the bytes the intent names; just one active swap has its name, with the usage of the
  analysis and no larger than the partition; just one device of the analysed host has that path, and just one fstab
  entry of type swap there names this device, by path, name, UUID or PARTUUID; the intent carries the source of that
  entry, and the rest of the one fresh entry with that source; the
  destination is the one ext4 mount at its path, writable and not the retiring device, with room for a swapfile
  of that size; the path of the swapfile is free; and the tools are there.\<close>

theorem swap_intent_sound:
  assumes safety: "safety = analyze_swap_migration_safety snapshot resume target"
    and readiness: "readiness = analyze_swapfile_destination snapshot capabilities safety space mountpoint"
    and intent: "build_swap_replacement_intent fp fresh safety readiness path_state = Inr i" "sri_ready i"
  shows "\<not> hre_configured resume
    \<and> (\<exists>disk swap sector node entry e. sri_disk i = Some disk \<and> one_swap_behind snapshot target disk sector swap
      \<and> sri_retiring_swap_device i = Some (pr_node swap)
      \<and> map_option unat (sri_retiring_swap_bytes i) = Some (unat (pr_size_sectors swap) * unat sector)
      \<and> filter (source_matches_device (pr_node swap)) (map ref_node (snapshot_nodes snapshot)) = [node]
      \<and> filter (\<lambda>e. fe_fs_type e = ''swap'' \<and> source_matches_device (fe_source e) node) (hs_fstab snapshot) = [entry]
      \<and> filter (\<lambda>e. fe_fs_type e = ''swap'' \<and> fe_source e = fe_source entry) (hs_fstab fresh) = [e]
      \<and> sri_persistent_swap_source i = Some (fe_source entry) \<and> sri_persistent_swap_target i = Some (fe_target e)
      \<and> sri_persistent_swap_options i = fe_options e
      \<and> sri_persistent_swap_dump i = Some (fe_dump e) \<and> sri_persistent_swap_pass i = Some (fe_pass e))
    \<and> (\<exists>device active bytes. sri_retiring_swap_device i = Some device \<and> sri_retiring_swap_bytes i = Some bytes
      \<and> filter (\<lambda>e. se_name e = device) (hs_swaps fresh) = [active]
      \<and> 0 < unat (se_size_bytes active) \<and> se_size_bytes active \<le> bytes
      \<and> sms_active_swap_used_bytes safety = Some (se_used_bytes active)
      \<and> sri_retiring_swap_used_bytes i = Some (se_used_bytes active)
      \<and> sri_retiring_swap_priority i = Some (se_priority active))
    \<and> (\<exists>m bytes. filter (\<lambda>m. me_target m = sri_destination_mount i) (hs_mounts snapshot) = [m]
      \<and> me_fs_type m = Some ''ext4'' \<and> ''rw'' \<in> set (me_options m) \<and> ''ro'' \<notin> set (me_options m)
      \<and> me_source m \<noteq> sri_retiring_swap_device i
      \<and> sri_retiring_swap_bytes i = Some bytes \<and> bytes \<le> fse_available_bytes space
      \<and> fse_path space = sri_destination_mount i)
    \<and> sri_swapfile_path i = swapfile_path_for_mount (sri_destination_mount i)
    \<and> poe_path path_state = sri_swapfile_path i \<and> \<not> poe_exists path_state
    \<and> (\<forall>t\<in>{''mkswap'', ''swapon'', ''swapoff''}. required_tool_available capabilities t)
    \<and> \<not> sri_executable i \<and> fp (i\<lparr>sri_intent_id := []\<rparr>) = Inr (sri_intent_id i)"
proof -
  note fields = swap_intent_fields[OF intent(1)]
  from intent have none: "swap_intent_blockers fresh safety readiness path_state = []"
    by (auto simp: build_swap_replacement_intent_def and_then_Inr Let_def sri_ready_def sri_expected_intent_id_def)
  from none safety_blocked[of snapshot resume target] destination_blocked[of snapshot capabilities safety space mountpoint]
  have clear: "clear_for_planning safety" and ready: "ready_for_planning readiness"
    unfolding safety readiness by (auto simp: swap_intent_blockers_def split: if_splits)
  obtain opportunity node and entry :: fstab_entry where s: "analyze_layout_opportunity snapshot target = Some opportunity"
    "\<not> hre_configured resume"
    "swap_node_of snapshot (case lop_blocking_devices opportunity of _ # d # _ \<Rightarrow> Some d | _ \<Rightarrow> None) = Some node"
    "filter (\<lambda>e. fe_fs_type e = ''swap'' \<and> source_matches_device (fe_source e) node) (hs_fstab snapshot) = [entry]"
    "sms_persistent_swap_source safety = Some (fe_source entry)"
    "sms_swap_bytes safety = Some (lop_swap_bytes opportunity)" "sms_disk safety = Some (lop_disk opportunity)"
    using clear unfolding safety by (rule clear_safety)
  obtain sector and extended swap :: partition_record where l: "lop_blocking_devices opportunity = [pr_node extended, pr_node swap]"
    "one_swap_behind snapshot target (lop_disk opportunity) sector swap"
    "unat (lop_swap_bytes opportunity) = unat (pr_size_sectors swap) * unat sector"
    by (rule layout_swap[OF s(1)])
  have device: "sms_swap_device safety = Some (pr_node swap)"
    using s(1) l(1) by (simp add: safety analyze_swap_migration_safety_def Let_def)
  have node: "filter (source_matches_device (pr_node swap)) (map ref_node (snapshot_nodes snapshot)) = [node]"
    using s(3) l(1) by (simp add: swap_node_of_def single_Some_iff)
  obtain m needed where d: "fse_path space = mountpoint"
    "filter (\<lambda>m. me_target m = mountpoint) (hs_mounts snapshot) = [m]"
    "me_fs_type m = Some ''ext4''" "''rw'' \<in> set (me_options m)" "''ro'' \<notin> set (me_options m)"
    "me_source m \<noteq> sms_swap_device safety" "sms_swap_bytes safety = Some needed" "needed \<le> fse_available_bytes space"
    "\<forall>t\<in>{''mkswap'', ''swapon'', ''swapoff''}. required_tool_available capabilities t"
    using ready unfolding readiness by (rule ready_destination)
  have r: "sdr_destination_mount readiness = mountpoint"
    "sdr_swapfile_path readiness = swapfile_path_for_mount mountpoint"
    by (simp_all add: readiness analyze_swapfile_destination_def Let_def)
  from none have b: "poe_path path_state = sdr_swapfile_path readiness" "\<not> poe_exists path_state"
    "retiring_swap fresh safety \<noteq> None" "persistent_swap fresh safety \<noteq> None"
    "\<not> swap_state_changed (retiring_swap fresh safety) safety"
    by (simp_all add: swap_intent_blockers_def)
  from b(3) device obtain active where a: "retiring_swap fresh safety = Some active"
    "filter (\<lambda>e. se_name e = pr_node swap) (hs_swaps fresh) = [active]"
    by (auto simp: retiring_swap_def single_Some_iff)
  from b(5) a(1) d(7) have aa: "se_size_bytes active \<noteq> 0" "se_size_bytes active \<le> needed"
    "sms_active_swap_used_bytes safety = Some (se_used_bytes active)"
    by (auto simp: swap_state_changed_def not_less)
  from b(4) s(5) obtain p where p: "persistent_swap fresh safety = Some p"
    "filter (\<lambda>x. fe_fs_type x = ''swap'' \<and> fe_source x = fe_source entry) (hs_fstab fresh) = [p]"
    by (auto simp: persistent_swap_def single_Some_iff)
  have psrc: "fe_source p = fe_source entry" using filter_singletonD[OF p(2)] by simp
  have runtime: "\<exists>device active bytes. sri_retiring_swap_device i = Some device \<and> sri_retiring_swap_bytes i = Some bytes
      \<and> filter (\<lambda>e. se_name e = device) (hs_swaps fresh) = [active]
      \<and> 0 < unat (se_size_bytes active) \<and> se_size_bytes active \<le> bytes
      \<and> sms_active_swap_used_bytes safety = Some (se_used_bytes active)
      \<and> sri_retiring_swap_used_bytes i = Some (se_used_bytes active)
      \<and> sri_retiring_swap_priority i = Some (se_priority active)"
    using device fields a aa d(7) by (simp add: unat_gt_0)
  have "\<exists>disk swap sector node entry e. sri_disk i = Some disk \<and> one_swap_behind snapshot target disk sector swap
      \<and> sri_retiring_swap_device i = Some (pr_node swap)
      \<and> map_option unat (sri_retiring_swap_bytes i) = Some (unat (pr_size_sectors swap) * unat sector)
      \<and> filter (source_matches_device (pr_node swap)) (map ref_node (snapshot_nodes snapshot)) = [node]
      \<and> filter (\<lambda>e. fe_fs_type e = ''swap'' \<and> source_matches_device (fe_source e) node) (hs_fstab snapshot) = [entry]
      \<and> filter (\<lambda>e. fe_fs_type e = ''swap'' \<and> fe_source e = fe_source entry) (hs_fstab fresh) = [e]
      \<and> sri_persistent_swap_source i = Some (fe_source entry) \<and> sri_persistent_swap_target i = Some (fe_target e)
      \<and> sri_persistent_swap_options i = fe_options e
      \<and> sri_persistent_swap_dump i = Some (fe_dump e) \<and> sri_persistent_swap_pass i = Some (fe_pass e)"
    by (rule exI[of _ "lop_disk opportunity"], rule exI[of _ swap], rule exI[of _ sector], rule exI[of _ node],
        rule exI[of _ entry], rule exI[of _ p])
       (simp add: fields s(4,6,7) l(2,3) device node p psrc)
  with runtime s(2) show ?thesis
    using fields(2,3,11-14) r d b(1,2) by simp
qed


section \<open>A concrete migration\<close>

text \<open>The disk of the tests of \<open>swap_migration.rs\<close>: a 1 GiB DOS disk with an \<open>ext4\<close> partition, and behind it an
  extended partition that holds only a swap partition.\<close>

definition ex_mig_node :: "string \<Rightarrow> node_kind \<Rightarrow> u64 \<Rightarrow> string option \<Rightarrow> string option \<Rightarrow> block_device list \<Rightarrow> block_device" where
  "ex_mig_node name kind bytes fs uuid children = BlockDevice name (Some name) (Some (''/dev/'' @ name)) kind bytes None
     (Some 512) (map_option (\<lambda>t. \<lparr> fs_type = t, fs_version = None \<rparr>) fs) []
     (if kind = NkDisk then None else Some ''sda'') None None uuid None (Some ''dos'') children"

definition ex_mig_disk :: block_device where
  "ex_mig_disk = ex_mig_node ''sda'' NkDisk 1073741824 None None
     [ex_mig_node ''sda1'' NkPartition 512000000 (Some ''ext4'') None [],
      ex_mig_node ''sda2'' NkPartition 1024 None None [],
      ex_mig_node ''sda5'' NkPartition 102400000 (Some ''swap'') (Some ''swap-uuid'') []]"

definition ex_mig_record :: "string \<Rightarrow> u64 \<Rightarrow> u64 \<Rightarrow> string \<Rightarrow> partition_record" where
  "ex_mig_record node start sectors kind = \<lparr> pr_node = node, pr_start_sector = start, pr_size_sectors = sectors,
     pr_partition_type = Some kind, pr_uuid = None, pr_name = None, pr_attrs = None, pr_bootable = None \<rparr>"

definition ex_mig_table :: partition_table where
  "ex_mig_table = \<lparr> pt_device = ''/dev/sda'', pt_label = Some ''dos'', pt_id = None, pt_unit = Some ''sectors'',
     pt_first_lba = None, pt_last_lba = None, pt_sector_size_bytes = Some 512,
     pt_partitions = [ex_mig_record ''/dev/sda1'' 2048 1000000 ''83'', ex_mig_record ''/dev/sda2'' 1002048 600000 ''0f'',
       ex_mig_record ''/dev/sda5'' 1004096 200000 ''82''] \<rparr>"

definition ex_migration_host :: host_snapshot where
  "ex_migration_host = \<lparr> hs_storage = \<lparr> sg_block_devices = [ex_mig_disk] \<rparr>, hs_partition_tables = [ex_mig_table],
     hs_mounts = [\<lparr> me_source = Some ''/dev/sdb1'', me_target = ''/data'', me_fs_type = Some ''ext4'', me_options = [''rw''] \<rparr>],
     hs_fstab = [\<lparr> fe_source = ''UUID=swap-uuid'', fe_target = ''none'', fe_fs_type = ''swap'', fe_options = [''sw''],
       fe_dump = 0, fe_pass = 0 \<rparr>],
     hs_swaps = [\<lparr> se_name = ''/dev/sda5'', se_kind = ''partition'', se_size_bytes = 102400000,
       se_used_bytes = 4096, se_priority = - 2 \<rparr>],
     hs_lvm = None, hs_filesystem_preflight = [], hs_diagnostics = [], hs_collectors = [] \<rparr>"

definition ex_no_resume :: hibernation_resume_evidence where
  "ex_no_resume = \<lparr> hre_kernel_resume_targets = [], hre_kernel_resume_offsets = [], hre_sysfs_resume = None,
     hre_sysfs_resume_offset = None \<rparr>"

definition ex_space :: filesystem_space_evidence where
  "ex_space = \<lparr> fse_path = ''/data'', fse_block_size_bytes = 4096, fse_total_bytes = 200000000, fse_available_bytes = 150000000 \<rparr>"

definition ex_swap_tools :: host_capabilities where
  "ex_swap_tools = \<lparr> hc_tools = map (\<lambda>t. \<lparr> tc_name = t, tc_available = True \<rparr>) [''mkswap'', ''swapon'', ''swapoff''] \<rparr>"

definition ex_free_path :: path_occupancy_evidence where
  "ex_free_path = \<lparr> poe_path = ''/data/.linux-storage-manager.swap'', poe_exists = False, poe_kind = None, poe_uid = None,
     poe_mode = None, poe_size_bytes = None \<rparr>"

definition ex_migration_safety :: swap_migration_safety where
  "ex_migration_safety = analyze_swap_migration_safety ex_migration_host ex_no_resume ''/dev/sda1''"

definition ex_migration_readiness :: swapfile_destination_readiness where
  "ex_migration_readiness = analyze_swapfile_destination ex_migration_host ex_swap_tools ex_migration_safety ex_space ''/data''"

definition ex_migration_intent :: "(planner_error, swap_replacement_intent) result" where
  "ex_migration_intent = build_swap_replacement_intent (\<lambda>_. Inr ''id'') ex_migration_host ex_migration_safety
     ex_migration_readiness ex_free_path"

lemma ex_migration_nodes: "map ref_node (snapshot_nodes ex_migration_host)
    = ex_mig_disk # bd_children ex_mig_disk"
  by (simp add: snapshot_nodes_def ex_migration_host_def ex_mig_disk_def ex_mig_node_def flatten_def)

lemma ex_mig_types:
  "parse_dos_type ''83'' = Inr 0x83" "parse_dos_type ''0f'' = Inr 0x0f" "parse_dos_type ''82'' = Inr 0x82"
  "\<not> is_extended 0x83" "is_extended 0x0f" "\<not> is_extended 0x82"
  by code_simp+

lemma ex_mig_target: "layout_target ex_migration_host ''/dev/sda1'' =
    Some (ex_mig_node ''sda1'' NkPartition 512000000 (Some ''ext4'') None [], ex_mig_disk)"
  by (simp add: layout_target_def ex_migration_nodes starts_with_def)
    (simp add: ex_mig_disk_def ex_mig_node_def node_alias_def disk_or_loop_def)

lemma ex_mig_tail: "tail_swap_records ex_mig_table 1002048 2097152 = Some (ex_mig_record ''/dev/sda2'' 1002048 600000 ''0f'',
    1602048, ex_mig_record ''/dev/sda5'' 1004096 200000 ''82'')"
  by (simp add: tail_swap_records_def ex_mig_table_def ex_mig_record_def extended_record_def ex_mig_types
      range_end_of_def checked_add_def assert_def ok_opt_def)

lemma ex_mig_in_use: "swap_in_use_ok ex_migration_host (ex_mig_node ''sda1'' NkPartition 512000000 (Some ''ext4'') None [])
    (ex_mig_record ''/dev/sda5'' 1004096 200000 ''82'') 102400000 = Some ()"
  by (simp add: swap_in_use_ok_def ex_migration_nodes ex_mig_record_def)
   (simp add: ex_mig_disk_def ex_mig_node_def node_alias_def ex_migration_host_def unique_def ok_opt_def assert_def has_filesystem_type_def)

lemma ex_mig_layout: "analyze_layout_opportunity ex_migration_host ''/dev/sda1'' =
   Some \<lparr> lop_code = ''migrate-tail-swap'', lop_disk = ''/dev/sda'', lop_target = ''/dev/sda1'',
            lop_sector_size_bytes = 512, lop_max_target_growth_bytes = 458293248,
            lop_disk_tail_free_bytes = 253493248, lop_swap_bytes = 102400000,
            lop_blocking_devices = [''/dev/sda2'', ''/dev/sda5''] \<rparr>"
proof -
  have t: "hs_partition_tables ex_migration_host = [ex_mig_table]" "pt_device ex_mig_table = ''/dev/sda''"
    "pt_label ex_mig_table = Some ''dos''" "pt_sector_size_bytes ex_mig_table = Some 512"
    "pt_partitions ex_mig_table = [ex_mig_record ''/dev/sda1'' 2048 1000000 ''83'', ex_mig_record ''/dev/sda2'' 1002048 600000 ''0f'',
       ex_mig_record ''/dev/sda5'' 1004096 200000 ''82'']"
    by (simp_all add: ex_migration_host_def ex_mig_table_def)
  have d: "bd_path ex_mig_disk = Some ''/dev/sda''" "bd_size_bytes ex_mig_disk = 1073741824"
    "bd_path (ex_mig_node ''sda1'' NkPartition b fs u ch) = Some ''/dev/sda1''" for b fs u ch
    by (simp_all add: ex_mig_disk_def ex_mig_node_def)
  show ?thesis
    by (simp add: analyze_layout_opportunity_def ex_mig_target t d assert_def range_end_of_def checked_add_def
      checked_sub_def checked_mul_def ex_mig_record_def ex_mig_tail[unfolded ex_mig_record_def] ex_mig_in_use[unfolded ex_mig_record_def])
qed

lemma ex_migration_swap: "\<exists>d. swap_node_of ex_migration_host (Some ''/dev/sda5'') = Some d \<and> bd_uuid d = Some ''swap-uuid''"
  by (simp add: swap_node_of_def ex_migration_nodes)
    (simp add: ex_mig_disk_def ex_mig_node_def source_matches_device_def)

lemma ex_mig_safety: "clear_for_planning ex_migration_safety" "sms_swap_bytes ex_migration_safety = Some 102400000"
  "sms_swap_device ex_migration_safety = Some ''/dev/sda5''" "sms_active_swap_used_bytes ex_migration_safety = Some 4096"
  "sms_persistent_swap_source ex_migration_safety = Some ''UUID=swap-uuid''"
proof -
  obtain d where d: "swap_node_of ex_migration_host (Some ''/dev/sda5'') = Some d" "bd_uuid d = Some ''swap-uuid''"
    using ex_migration_swap by blast
  have p: "persistent_swap_matches ex_migration_host (Some d) = [\<lparr> fe_source = ''UUID=swap-uuid'',
      fe_target = ''none'', fe_fs_type = ''swap'', fe_options = [''sw''], fe_dump = 0, fe_pass = 0 \<rparr>]"
    by (simp add: persistent_swap_matches_def ex_migration_host_def source_matches_device_def d)
  show "clear_for_planning ex_migration_safety" "sms_swap_bytes ex_migration_safety = Some 102400000"
    "sms_swap_device ex_migration_safety = Some ''/dev/sda5''" "sms_active_swap_used_bytes ex_migration_safety = Some 4096"
    "sms_persistent_swap_source ex_migration_safety = Some ''UUID=swap-uuid''"
    by (simp_all add: ex_migration_safety_def analyze_swap_migration_safety_def ex_mig_layout d p clear_for_planning_def
       ex_no_resume_def hre_configured_def) (simp add: ex_migration_host_def)
qed

lemma ex_mig_readiness: "ready_for_planning ex_migration_readiness"
  "sdr_swapfile_path ex_migration_readiness = ''/data/.linux-storage-manager.swap''"
  "sdr_replacement_swap_bytes ex_migration_readiness = Some 102400000"
  by (simp_all add: ex_migration_readiness_def analyze_swapfile_destination_def ready_for_planning_def ex_mig_safety
    ex_space_def destination_mount_blockers_def ex_migration_host_def ex_swap_tools_def required_tool_available_def
    swapfile_path_for_mount_def block_if_def)

lemma ex_mig_intent: "\<exists>i. ex_migration_intent = Inr i \<and> sri_ready i"
proof -
  have "swap_intent_blockers ex_migration_host ex_migration_safety ex_migration_readiness ex_free_path = []"
    by (simp add: swap_intent_blockers_def ex_mig_safety ex_mig_readiness ex_free_path_def retiring_swap_def persistent_swap_def
      ex_migration_host_def swap_state_changed_def)
  then show ?thesis
    by (simp add: ex_migration_intent_def build_swap_replacement_intent_def sri_expected_intent_id_def sri_ready_def Let_def)
qed

text \<open>The intent of the example binds the bytes of the retiring partition to its geometry and to the free room.\<close>

theorem swap_intent_sound_witness:
  "\<exists>i. ex_migration_intent = Inr i \<and> sri_ready i
     \<and> (\<exists>disk swap sector node. \<exists>entry :: fstab_entry. one_swap_behind ex_migration_host ''/dev/sda1'' disk sector swap
        \<and> sri_retiring_swap_device i = Some (pr_node swap)
        \<and> filter (source_matches_device (pr_node swap)) (map ref_node (snapshot_nodes ex_migration_host)) = [node]
        \<and> source_matches_device (fe_source entry) node \<and> sri_persistent_swap_source i = Some (fe_source entry))
     \<and> sri_swapfile_path i = swapfile_path_for_mount (sri_destination_mount i)"
proof -
  obtain i where i: "ex_migration_intent = Inr i" "sri_ready i" using ex_mig_intent by blast
  note sound = swap_intent_sound[OF ex_migration_safety_def ex_migration_readiness_def i(1)[unfolded ex_migration_intent_def] i(2)]
  then obtain disk swap sector node and entry :: fstab_entry where b:
    "one_swap_behind ex_migration_host ''/dev/sda1'' disk sector swap" "sri_retiring_swap_device i = Some (pr_node swap)"
    "filter (source_matches_device (pr_node swap)) (map ref_node (snapshot_nodes ex_migration_host)) = [node]"
    "filter (\<lambda>e. fe_fs_type e = ''swap'' \<and> source_matches_device (fe_source e) node) (hs_fstab ex_migration_host) = [entry]"
    "sri_persistent_swap_source i = Some (fe_source entry)" by blast
  have matches: "source_matches_device (fe_source entry) node" using filter_singletonD[OF b(4)] by simp
  have "sri_swapfile_path i = swapfile_path_for_mount (sri_destination_mount i)" using sound by blast
  with i b(1-3,5) matches show ?thesis by blast
qed

end
