(* ===== verification/ExecutionHandoff.thy ===== *)
theory ExecutionHandoff
  imports ExtendPlanner FilesystemPolicy ExecutionGuard
begin

text \<open>
  The frozen handoff of an extension plan to an executor, \<open>crates/planner/src/execution_handoff.rs\<close>:
  one preview, one identity manifest of its target, one filesystem decision and one guard plan, all
  taken from the same snapshot. The fingerprints of the basis (\<open>fps\<close>), of the manifest (\<open>fpm\<close>), of the
  guard (\<open>fpg\<close>), of the capabilities (\<open>fpc\<close>) and of the handoff (\<open>fph\<close>) are parameters.
\<close>

datatype execution_handoff_status = EhsFutureExecutorGatesRequired | EhsBlocked

record frozen_execution_handoff =
  feh_schema_version :: u32
  feh_handoff_id :: string
  feh_mutation_enabled :: bool
  feh_owner_acceptance_required :: bool
  feh_status :: execution_handoff_status
  feh_plan :: plan_preview
  feh_plan_basis_digest :: string
  feh_capabilities_digest :: string
  feh_target_identity :: target_identity_manifest
  feh_filesystem_decision :: filesystem_growth_decision
  feh_guard :: execution_guard_plan
  feh_blockers :: "string list"

datatype execution_handoff_error =
  EhePlanNotPreview | EheStalePlan
| EheIdentity identity_guard_error | EheGuard execution_guard_error | EhePlanner planner_error

definition matches_capabilities ::
  "(host_capabilities \<Rightarrow> (planner_error, string) result) \<Rightarrow> frozen_execution_handoff \<Rightarrow> host_capabilities
     \<Rightarrow> (planner_error, bool) result" where
  "matches_capabilities fpc handoff capabilities =
     and_then (fpc capabilities) (\<lambda>digest. Inr (digest = feh_capabilities_digest handoff))"

definition plan_matches_basis ::
  "(host_snapshot \<times> host_capabilities \<Rightarrow> (planner_error, string) result) \<Rightarrow> plan_preview \<Rightarrow> host_snapshot
     \<Rightarrow> host_capabilities \<Rightarrow> (planner_error, bool) result" where
  "plan_matches_basis fps plan snapshot capabilities =
     (if ppv_status plan \<noteq> PsPreview then Inr False
      else and_then (fps (snapshot, capabilities)) (\<lambda>digest. Inr (ppv_snapshot_digest plan = digest)))"

text \<open>The values the identifier of a handoff is computed from.\<close>

record handoff_digest_input =
  hdi_schema_version :: u32
  hdi_plan_id :: string
  hdi_plan_basis_digest :: string
  hdi_capabilities_digest :: string
  hdi_manifest_digest :: string
  hdi_filesystem_decision :: filesystem_growth_decision
  hdi_guard_id :: string
  hdi_status :: execution_handoff_status
  hdi_mutation_enabled :: bool
  hdi_owner_acceptance_required :: bool

definition handoff_digest_input_of :: "frozen_execution_handoff \<Rightarrow> handoff_digest_input" where
  "handoff_digest_input_of h =
     \<lparr> hdi_schema_version = feh_schema_version h, hdi_plan_id = ppv_plan_id (feh_plan h),
       hdi_plan_basis_digest = feh_plan_basis_digest h, hdi_capabilities_digest = feh_capabilities_digest h,
       hdi_manifest_digest = tim_manifest_digest (feh_target_identity h),
       hdi_filesystem_decision = feh_filesystem_decision h, hdi_guard_id = egp_guard_id (feh_guard h),
       hdi_status = feh_status h, hdi_mutation_enabled = feh_mutation_enabled h,
       hdi_owner_acceptance_required = feh_owner_acceptance_required h \<rparr>"

definition handoff_blockers :: "execution_guard_plan \<Rightarrow> filesystem_growth_decision \<Rightarrow> string list" where
  "handoff_blockers guard decision =
     remdups_adj (sort (egp_blockers guard
       @ (if fgd_state decision = FdBlocked \<or> fgd_state decision = FdAdapterRequired
          then map (\<lambda>reason. ''filesystem preflight: '' @ reason) (fgd_reasons decision)
               @ (if fgd_reasons decision = [] then [''filesystem preflight is not executor-ready''] else [])
          else [])))"

definition build_frozen_execution_handoff ::
  "(host_snapshot \<times> host_capabilities \<Rightarrow> (planner_error, string) result) \<Rightarrow> manifest_digest_fun
     \<Rightarrow> guard_digest_fun \<Rightarrow> (host_capabilities \<Rightarrow> (planner_error, string) result)
     \<Rightarrow> (handoff_digest_input \<Rightarrow> (planner_error, string) result)
     \<Rightarrow> host_snapshot \<Rightarrow> host_capabilities \<Rightarrow> plan_preview
     \<Rightarrow> (execution_handoff_error, frozen_execution_handoff) result" where
  "build_frozen_execution_handoff fps fpm fpg fpc fph snapshot capabilities plan =
     (if ppv_status plan \<noteq> PsPreview then Inl EhePlanNotPreview
      else
        and_then (map_err EhePlanner (plan_matches_basis fps plan snapshot capabilities)) (\<lambda>fresh.
        if \<not> fresh then Inl EheStalePlan
        else
          and_then (map_err EheIdentity (capture_target_identity fpm snapshot (erq_target (ppv_request plan)))) (\<lambda>identity.
          let decision = decide_filesystem_growth snapshot capabilities (erq_target (ppv_request plan)) in
          and_then (map_err EheGuard (build_execution_guard_plan fpg (ppv_plan_id plan) identity)) (\<lambda>guard.
          and_then (map_err EhePlanner (fpc capabilities)) (\<lambda>capabilities_digest.
          let blockers = handoff_blockers guard decision;
              handoff = \<lparr> feh_schema_version = 1, feh_handoff_id = [], feh_mutation_enabled = False,
                feh_owner_acceptance_required = True,
                feh_status = (if egp_status guard = GpsBlocked \<or> blockers \<noteq> [] then EhsBlocked
                              else EhsFutureExecutorGatesRequired),
                feh_plan = plan, feh_plan_basis_digest = ppv_snapshot_digest plan,
                feh_capabilities_digest = capabilities_digest, feh_target_identity = identity,
                feh_filesystem_decision = decision, feh_guard = guard, feh_blockers = blockers \<rparr>
          in and_then (map_err EhePlanner (fph (handoff_digest_input_of handoff))) (\<lambda>handoff_id.
             Inr (handoff\<lparr>feh_handoff_id := handoff_id\<rparr>)))))))"

section \<open>What a handoff binds\<close>

lemma handoff_blockers_normal: "sorted (handoff_blockers g d) \<and> distinct (handoff_blockers g d)"
  unfolding handoff_blockers_def by (simp add: sorted_distinct_remdups_adj)

lemma handoff_blockers_Nil:
  "handoff_blockers g d = [] \<longleftrightarrow> egp_blockers g = [] \<and> fgd_state d \<noteq> FdBlocked \<and> fgd_state d \<noteq> FdAdapterRequired"
proof -
  have "sort xs = [] \<longleftrightarrow> xs = []" for xs :: "string list" by (metis set_sort set_empty)
  then show ?thesis by (auto simp: handoff_blockers_def)
qed

lemma decided_device:
  "fgd_device (decide_filesystem_growth s c t) = lr_resolved_device (analyze_layer_route s t)"
proof -
  have "fgd_device (decide_ext4 s c d m decision) = fgd_device decision" for d m decision
    by (simp add: decide_ext4_def Let_def split: option.split)
  moreover have "fgd_device (decide_xfs s c d m decision) = fgd_device decision" for d m decision
    by (simp add: decide_xfs_def Let_def split: option.split)
  ultimately show ?thesis
    unfolding decide_filesystem_growth_def Let_def by (simp split: option.split)
qed

lemma captured_device:
  assumes "capture_target_identity fp s t = Inr m"
  shows "lr_resolved_device (analyze_layer_route s t) = Some (tim_resolved_device m)"
    "tim_route_status m = lr_status (analyze_layer_route s t)"
proof -
  obtain p r path where p: "lr_resolved_device (analyze_layer_route s t) = Some p"
    "m\<lparr>tim_manifest_digest := ''''\<rparr> = manifest_body s t (analyze_layer_route s t) p r path"
    using assms by (rule capture_Inr)
  show "lr_resolved_device (analyze_layer_route s t) = Some (tim_resolved_device m)"
    "tim_route_status m = lr_status (analyze_layer_route s t)"
    using p(1) arg_cong[OF p(2), of tim_resolved_device] arg_cong[OF p(2), of tim_route_status]
    by (simp_all add: manifest_body_def)
qed

text \<open>C38: a handoff is built only for a preview whose basis is the snapshot and the capabilities at hand. It never
  enables mutation; its manifest and its guard are those captured and built for the target and the
  identifier of that plan; it waits for the gates of the executor, instead of being blocked, exactly when the route of the
  target is the supported profile and the filesystem decision is neither blocked nor without an adapter;
  and the device of the manifest is the one the decision is about.\<close>

theorem handoff_binds_fresh_plan:
  assumes "build_frozen_execution_handoff fps fpm fpg fpc fph s c plan = Inr h"
  shows "ppv_status plan = PsPreview \<and> fps (s, c) = Inr (ppv_snapshot_digest plan)
    \<and> feh_plan h = plan \<and> \<not> feh_mutation_enabled h \<and> feh_owner_acceptance_required h
    \<and> capture_target_identity fpm s (erq_target (ppv_request plan)) = Inr (feh_target_identity h)
    \<and> build_execution_guard_plan fpg (ppv_plan_id plan) (feh_target_identity h) = Inr (feh_guard h)
    \<and> (feh_status h = EhsFutureExecutorGatesRequired \<longleftrightarrow>
         lr_status (analyze_layer_route s (erq_target (ppv_request plan))) = LrsSupportedProfile
         \<and> fgd_state (feh_filesystem_decision h) \<notin> {FdBlocked, FdAdapterRequired})
    \<and> fgd_device (feh_filesystem_decision h) = Some (tim_resolved_device (feh_target_identity h))
    \<and> sorted (feh_blockers h) \<and> distinct (feh_blockers h)
    \<and> matches_capabilities fpc h c = Inr True \<and> fph (handoff_digest_input_of h) = Inr (feh_handoff_id h)"
proof -
  let ?t = "erq_target (ppv_request plan)"
  from assms have f: "ppv_status plan = PsPreview" "fps (s, c) = Inr (ppv_snapshot_digest plan)" "feh_plan h = plan"
    "\<not> feh_mutation_enabled h" "feh_owner_acceptance_required h"
    "capture_target_identity fpm s ?t = Inr (feh_target_identity h)"
    "build_execution_guard_plan fpg (ppv_plan_id plan) (feh_target_identity h) = Inr (feh_guard h)"
    "feh_filesystem_decision h = decide_filesystem_growth s c ?t"
    "feh_blockers h = handoff_blockers (feh_guard h) (feh_filesystem_decision h)"
    "feh_status h = (if egp_status (feh_guard h) = GpsBlocked \<or> feh_blockers h \<noteq> [] then EhsBlocked
       else EhsFutureExecutorGatesRequired)"
    "fpc c = Inr (feh_capabilities_digest h)" "fph (handoff_digest_input_of h) = Inr (feh_handoff_id h)"
    by (auto simp: build_frozen_execution_handoff_def plan_matches_basis_def and_then_Inr map_err_Inr Let_def
       handoff_digest_input_of_def split: if_splits)
  note g = build_guard_Inr(13,14)[OF f(7)] captured_device[OF f(6)]
  have "egp_status (feh_guard h) \<noteq> GpsBlocked \<longleftrightarrow> egp_status (feh_guard h) = GpsFutureExecutorGatesRequired"
    by (cases "egp_status (feh_guard h)") simp_all
  then have "feh_status h = EhsFutureExecutorGatesRequired \<longleftrightarrow> lr_status (analyze_layer_route s ?t) = LrsSupportedProfile
      \<and> fgd_state (feh_filesystem_decision h) \<notin> {FdBlocked, FdAdapterRequired}"
    using g by (simp add: f(9,10) handoff_blockers_Nil) auto
  moreover have "fgd_device (feh_filesystem_decision h) = Some (tim_resolved_device (feh_target_identity h))"
    by (simp add: f(8) decided_device g)
  ultimately show ?thesis using f(1-7,9,11,12)
    by (simp add: matches_capabilities_def handoff_blockers_normal)
qed

text \<open>The plan of the partition of \<open>ex_growth_host\<close>, with the evidence of a clean file system.\<close>

definition ex_handoff_host :: host_snapshot where
  "ex_handoff_host = ex_growth_host\<lparr>hs_filesystem_preflight :=
     [\<lparr> fpe_device = ''/dev/sda1'', fpe_mountpoint = Some ''/'', fpe_fs_type = ''ext4'', fpe_fs_version = Some ''1.0'',
        fpe_state = FpsVerified, fpe_filesystem_state = Some ''clean'', fpe_revision = None, fpe_features = [''extent''],
        fpe_block_size_bytes = None, fpe_block_count = None, fpe_size_bytes = None, fpe_grow_check_passed = None,
        fpe_detail = None \<rparr>]\<rparr>"

definition ex_handoff_plan :: plan_preview where
  "ex_handoff_plan = (new_extend_plan ex_hex ex_growth_request)\<lparr>ppv_plan_id := ex_hex, ppv_status := PsPreview\<rparr>"

definition ex_handoff :: "(execution_handoff_error, frozen_execution_handoff) result" where
  "ex_handoff = build_frozen_execution_handoff (\<lambda>_. Inr ex_hex) (\<lambda>_. Inr ex_hex) ex_fp (\<lambda>_. Inr ex_hex) (\<lambda>_. Inr ex_hex)
     ex_handoff_host ex_capabilities ex_handoff_plan"

lemma ex_handoff_status: "map_option feh_status (ok_opt ex_handoff) = Some EhsFutureExecutorGatesRequired"
  by code_simp

theorem handoff_binds_fresh_plan_witness:
  "\<exists>h. ex_handoff = Inr h \<and> feh_status h = EhsFutureExecutorGatesRequired \<and> \<not> feh_mutation_enabled h
     \<and> fgd_device (feh_filesystem_decision h) = Some (tim_resolved_device (feh_target_identity h))"
proof -
  obtain h where h: "ex_handoff = Inr h" "feh_status h = EhsFutureExecutorGatesRequired"
    using ex_handoff_status by (auto simp: ok_opt_Some)
  from handoff_binds_fresh_plan[OF h(1)[unfolded ex_handoff_def]] h show ?thesis by blast
qed

end
