(* ===== verification/TrustedFiles.thy ===== *)
theory TrustedFiles
  imports HostFiles PlannerBase
begin

text \<open>
  What the executor asks of the operating system outside its journal directory: metadata and
  bytes of files, the resolution of links, discovery, and the execution of an open file. The answers are a
  parameter: \<open>os n\<close> is the host as the \<open>n\<close>-th call finds it, so that other processes may change
  everything between two calls and any call may fail. On top of it, from \<open>crates/executor/src\<close>:
  the trusted tools of \<open>privileged_tools.rs\<close>, the hashing of open files of \<open>production_create_consent_lease.rs\<close>
  and \<open>production_create_tool_lease.rs\<close>, \<open>inspect_elf\<close> of \<open>privileged_launch.rs\<close> and the checks and the call of
  \<open>execute_descriptor_stage\<close> of \<open>privileged_exec.rs\<close>. \<open>sha\<close> is SHA-256, in lower-case hexadecimal.
\<close>

section \<open>Programs\<close>

datatype privileged_program =
  PpSfdisk | PpVgcfgbackup | PpE2fsck | PpXfsScrub | PpLsblk | PpFindmnt | PpBlkid | PpPartprobe
| PpUdevadm | PpPvs | PpVgs | PpLvs | PpPvcreate | PpVgcreate | PpVgextend | PpLvcreate | PpUmount
| PpTune2fs | PpXfsInfo | PpXfsSpaceman | PpXfsRepair | PpCryptsetup | PpMdadm | PpBtrfs
| PpMultipath | PpZpool | PpZfs | PpPartx | PpPvresize | PpLvextend | PpResize2fs | PpXfsGrowfs
| PpMkswap | PpSwapon | PpSwapoff | PpMount | PpMkfsExt4 | PpMkfsXfs

definition program_name :: "privileged_program \<Rightarrow> string" where
  "program_name p =
     (case p of PpSfdisk \<Rightarrow> ''sfdisk'' | PpVgcfgbackup \<Rightarrow> ''vgcfgbackup'' | PpE2fsck \<Rightarrow> ''e2fsck''
      | PpXfsScrub \<Rightarrow> ''xfs_scrub'' | PpLsblk \<Rightarrow> ''lsblk'' | PpFindmnt \<Rightarrow> ''findmnt'' | PpBlkid \<Rightarrow> ''blkid''
      | PpPartprobe \<Rightarrow> ''partprobe'' | PpUdevadm \<Rightarrow> ''udevadm'' | PpPvs \<Rightarrow> ''pvs'' | PpVgs \<Rightarrow> ''vgs''
      | PpLvs \<Rightarrow> ''lvs'' | PpPvcreate \<Rightarrow> ''pvcreate'' | PpVgcreate \<Rightarrow> ''vgcreate'' | PpVgextend \<Rightarrow> ''vgextend''
      | PpLvcreate \<Rightarrow> ''lvcreate'' | PpUmount \<Rightarrow> ''umount'' | PpTune2fs \<Rightarrow> ''tune2fs'' | PpXfsInfo \<Rightarrow> ''xfs_info''
      | PpXfsSpaceman \<Rightarrow> ''xfs_spaceman'' | PpXfsRepair \<Rightarrow> ''xfs_repair'' | PpCryptsetup \<Rightarrow> ''cryptsetup''
      | PpMdadm \<Rightarrow> ''mdadm'' | PpBtrfs \<Rightarrow> ''btrfs'' | PpMultipath \<Rightarrow> ''multipath'' | PpZpool \<Rightarrow> ''zpool''
      | PpZfs \<Rightarrow> ''zfs'' | PpPartx \<Rightarrow> ''partx'' | PpPvresize \<Rightarrow> ''pvresize'' | PpLvextend \<Rightarrow> ''lvextend''
      | PpResize2fs \<Rightarrow> ''resize2fs'' | PpXfsGrowfs \<Rightarrow> ''xfs_growfs'' | PpMkswap \<Rightarrow> ''mkswap''
      | PpSwapon \<Rightarrow> ''swapon'' | PpSwapoff \<Rightarrow> ''swapoff'' | PpMount \<Rightarrow> ''mount'' | PpMkfsExt4 \<Rightarrow> ''mkfs.ext4''
      | PpMkfsXfs \<Rightarrow> ''mkfs.xfs'')"

section \<open>The operating system\<close>

record file_stat =
  fst_kind :: file_kind
  fst_dev :: u64
  fst_ino :: u64
  fst_uid :: u32
  fst_mode :: u32
  fst_nlink :: u64
  fst_len :: u64

record exec_outcome =
  eo_exit_code :: i32
  eo_stdout :: string
  eo_stderr :: string
  eo_stdout_truncated :: bool
  eo_stderr_truncated :: bool

datatype exec_error =
  XePermitIntegrityMismatch | XeLaunchIntegrityMismatch | XePinIntegrityMismatch | XeBindingMismatch
| XeStdinBindingMismatch | XeKernelRefreshBindingMismatch | XeProductionMutationDisabled
| XeEmbeddedNul | XeChildSignaled | XeIo io_kind | XeSerialization string

text \<open>
  The answers to one call. \<open>ov_open\<close> follows no link and gives a descriptor; \<open>ov_read_at\<close> may give fewer
  bytes than wanted; \<open>ov_read_to_end\<close> is \<open>take(limit).read_to_end\<close>; \<open>ov_read_file\<close> is opening a path and reading all of it;
  \<open>ov_run\<close> is everything of \<open>execute_descriptor_stage\<close> from its pipes to its exit status.
\<close>

record os_view =
  ov_lstat :: "string \<Rightarrow> (io_kind, file_stat) result"
  ov_canonicalize :: "string \<Rightarrow> (io_kind, string) result"
  ov_open :: "string \<Rightarrow> (io_kind, nat) result"
  ov_fstat :: "nat \<Rightarrow> (io_kind, file_stat) result"
  ov_read_at :: "nat \<Rightarrow> u64 \<Rightarrow> nat \<Rightarrow> (io_kind, string) result"
  ov_read_to_end :: "nat \<Rightarrow> nat \<Rightarrow> (io_kind, string) result"
  ov_read_file :: "string \<Rightarrow> (io_kind, string) result"
  ov_utf8 :: "string \<Rightarrow> bool"
  ov_discover :: "(string, host_snapshot) result"
  ov_run :: "nat \<Rightarrow> string list \<Rightarrow> string \<Rightarrow> string \<Rightarrow> string option \<Rightarrow> (exec_error, exec_outcome) result"

record os_state =
  os_calls :: nat

type_synonym ('s, 'e, 'a) os_action = "('s os_state_scheme, 'e, 'a) state_action"

definition os_call :: "(nat \<Rightarrow> os_view) \<Rightarrow> (os_view \<Rightarrow> ('e, 'a) result) \<Rightarrow> ('s, 'e, 'a) os_action" where
  "os_call os f s = (f (os (os_calls s)), s\<lparr>os_calls := Suc (os_calls s)\<rparr>)"

text \<open>\<open>if condition { return Err(e) }\<close>\<close>

definition act_ensure :: "bool \<Rightarrow> 'e \<Rightarrow> ('s, 'e, unit) state_action" where
  "act_ensure condition e = act_lift (require condition e)"

lemma act_ensure_Inr [act_Inr]: "act_ensure b e s = (Inr u, s') \<longleftrightarrow> b \<and> s' = s"
  by (auto simp: act_ensure_def act_lift_def)

section \<open>Paths\<close>

fun split_slash :: "string \<Rightarrow> string \<Rightarrow> string list" where
  "split_slash acc [] = [rev acc]"
| "split_slash acc (c # cs) = (if c = CHR ''/'' then rev acc # split_slash [] cs else split_slash (c # acc) cs)"

definition is_absolute :: "string \<Rightarrow> bool" where
  "is_absolute p = starts_with ''/'' p"

text \<open>The components of an absolute path after its root: empty ones and \<open>.\<close> are skipped.\<close>

definition components :: "string \<Rightarrow> string list" where
  "components p = filter (\<lambda>c. c \<noteq> [] \<and> c \<noteq> ''.'') (split_slash [] p)"

definition from_components :: "string list \<Rightarrow> string" where
  "from_components cs = (if cs = [] then ''/'' else concat (map (\<lambda>c. ''/'' @ c) cs))"

definition path_file_name :: "string \<Rightarrow> string option" where
  "path_file_name p = (if components p = [] \<or> last (components p) = ''..'' then None
     else Some (last (components p)))"

definition path_parent :: "string \<Rightarrow> string option" where
  "path_parent p = (if components p = [] then None else Some (from_components (butlast (components p))))"


section \<open>Hashing an open file\<close>

lemma hash_progress:
  fixes offset expected_size :: u64
  assumes "offset < expected_size" and "0 < n" and "n \<le> unat (expected_size - offset)"
    and "checked_add offset (of_nat n) = Some stop"
  shows "unat stop = unat offset + n" and "stop \<le> expected_size"
proof -
  have d: "unat (expected_size - offset) = unat expected_size - unat offset"
    using assms(1) by (simp add: unat_sub word_less_nat_alt word_le_nat_alt)
  have "unat expected_size < 2 ^ 64" using unsigned_less[of expected_size] by simp
  then have n: "unat (of_nat n :: u64) = n" using assms(3) d by (simp add: unat_of_nat)
  from checked_add_Some[OF assms(4)] n show "unat stop = unat offset + n" by simp
  with assms(1,3) d show "stop \<le> expected_size" by (simp add: word_le_nat_alt word_less_nat_alt)
qed

lemma hash_measure:
  fixes offset expected_size :: u64
  assumes "offset < expected_size" and "bytes = take (min (unat (expected_size - offset)) chunk) answer"
    and "bytes \<noteq> []" and "checked_add offset (of_nat (length bytes)) = Some stop"
  shows "unat expected_size - unat stop < unat expected_size - unat offset"
proof -
  have "0 < length bytes" "length bytes \<le> unat (expected_size - offset)" using assms(2,3) by auto
  then show ?thesis using hash_progress(1)[OF assms(1) _ _ assms(4)] assms(1) unfolding word_less_nat_alt by linarith
qed

text \<open>The loop of \<open>sha256_file\<close>: read until the expected size or the end of the file.\<close>

function hash_loop ::
  "(nat \<Rightarrow> os_view) \<Rightarrow> nat \<Rightarrow> nat \<Rightarrow> u64 \<Rightarrow> u64 \<Rightarrow> string \<Rightarrow> ('s, io_kind, u64 \<times> string) os_action" where
  "hash_loop os chunk fd expected_size offset acc s =
     (if \<not> offset < expected_size then (Inr (offset, acc), s)
      else
        (let want = min (unat (expected_size - offset)) chunk in
         case os_call os (\<lambda>v. ov_read_at v fd offset want) s of
           (Inl e, s') \<Rightarrow> (Inl e, s')
         | (Inr answer, s') \<Rightarrow>
             (let bytes = take want answer in
              if bytes = [] then (Inr (offset, acc), s')
              else case checked_add offset (of_nat (length bytes)) of
                     None \<Rightarrow> (Inl EkOther, s')
                   | Some stop \<Rightarrow> hash_loop os chunk fd expected_size stop (acc @ bytes) s')))"
  by pat_completeness auto

termination
  apply (relation "measure (\<lambda>(os, chunk, fd, expected_size, offset, acc, s). unat expected_size - unat offset)")
   apply simp
  subgoal premises p using hash_measure[OF _ _ p(6,7)] p(1,2,5) by simp
  done

declare hash_loop.simps [simp del]

definition hash_open_file ::
  "(string \<Rightarrow> string) \<Rightarrow> (nat \<Rightarrow> os_view) \<Rightarrow> nat \<Rightarrow> nat \<Rightarrow> u64 \<Rightarrow> ('s, io_kind, string) os_action" where
  "hash_open_file sha os chunk fd expected_size =
     act_bind (hash_loop os chunk fd expected_size 0 []) (\<lambda>(offset, bytes).
     act_then (act_ensure (offset = expected_size) EkOther)
     (act_bind (os_call os (\<lambda>v. ov_read_at v fd expected_size 1)) (\<lambda>probe.
      act_then (act_ensure (take 1 probe = []) EkOther)
      (act_lift (Inr (sha bytes))))))"

definition CONSENT_READ_CHUNK :: nat where
  "CONSENT_READ_CHUNK = 4096"

definition consent_sha256_file ::
  "(string \<Rightarrow> string) \<Rightarrow> (nat \<Rightarrow> os_view) \<Rightarrow> nat \<Rightarrow> u64 \<Rightarrow> ('s, io_kind, string) os_action" where
  "consent_sha256_file sha os fd expected_size = hash_open_file sha os CONSENT_READ_CHUNK fd expected_size"

definition TOOL_READ_CHUNK :: nat where
  "TOOL_READ_CHUNK = 64 * 1024"

definition tool_sha256_file ::
  "(string \<Rightarrow> string) \<Rightarrow> (nat \<Rightarrow> os_view) \<Rightarrow> nat \<Rightarrow> u64 \<Rightarrow> ('s, io_kind, string) os_action" where
  "tool_sha256_file sha os fd expected_size = hash_open_file sha os TOOL_READ_CHUNK fd expected_size"

section \<open>Trusted tools\<close>

record trusted_tool_identity =
  tti_program :: privileged_program
  tti_requested_path :: string
  tti_canonical_path :: string
  tti_device_id :: u64
  tti_inode :: u64
  tti_uid :: u32
  tti_mode :: u32
  tti_size_bytes :: u64
  tti_sha256 :: string

datatype trusted_tool_error =
  TteNotFound privileged_program | TteUnsafeCandidate string | TteAmbiguous privileged_program
| TteNonUtf8Path | TteIo io_kind | TteSerialization string | TteCommandDigest string

definition TRUSTED_TOOL_DIRECTORIES :: "string list" where
  "TRUSTED_TOOL_DIRECTORIES = [''/usr/sbin'', ''/usr/bin'', ''/sbin'', ''/bin'']"

fun directories_trusted :: "(nat \<Rightarrow> os_view) \<Rightarrow> string list \<Rightarrow> string list \<Rightarrow> ('s, 'e, bool) os_action" where
  "directories_trusted os current [] = act_lift (Inr True)"
| "directories_trusted os current (c # cs) =
     act_match (os_call os (\<lambda>v. ov_lstat v (from_components (current @ [c]))))
       (\<lambda>m. if fst_kind m \<noteq> FkDirectory \<or> fst_uid m \<noteq> 0 \<or> and (fst_mode m) 0x12 \<noteq> 0
            then act_lift (Inr False) else directories_trusted os (current @ [c]) cs)
       (\<lambda>_. act_lift (Inr False))"

definition root_owned_non_writable_directory_chain ::
  "(nat \<Rightarrow> os_view) \<Rightarrow> string \<Rightarrow> ('s, 'e, bool) os_action" where
  "root_owned_non_writable_directory_chain os path =
     (if \<not> is_absolute path then act_lift (Inr False) else directories_trusted os [] (components path))"

definition tool_file_safe :: "file_stat \<Rightarrow> bool" where
  "tool_file_safe m = (fst_kind m = FkRegular \<and> fst_uid m = 0 \<and> and (fst_mode m) 0x49 \<noteq> 0 \<and> and (fst_mode m) 0x12 = 0)"

text \<open>The chains are examined in order: the second one only when the first is trusted.\<close>

definition inspect_candidate ::
  "(string \<Rightarrow> string) \<Rightarrow> (nat \<Rightarrow> os_view) \<Rightarrow> privileged_program \<Rightarrow> string
     \<Rightarrow> ('s, trusted_tool_error, trusted_tool_identity option) os_action" where
  "inspect_candidate sha os program path =
     (if \<not> is_absolute path \<or> path_file_name path \<noteq> Some (program_name program) then act_lift (Inr None)
      else
        act_bind (act_map_err TteIo (os_call os (\<lambda>v. ov_lstat v path))) (\<lambda>path_metadata.
        act_bind (act_map_err TteIo (os_call os (\<lambda>v. ov_canonicalize v path))) (\<lambda>canonical.
        act_bind (act_map_err TteIo (os_call os (\<lambda>v. ov_lstat v canonical))) (\<lambda>m.
        if \<not> tool_file_safe m then act_lift (Inr None)
        else case (path_parent path, path_parent canonical) of
          (Some parent, Some canonical_parent) \<Rightarrow>
            act_bind (root_owned_non_writable_directory_chain os parent) (\<lambda>trusted.
            act_bind (if trusted then root_owned_non_writable_directory_chain os canonical_parent
                      else act_lift (Inr False)) (\<lambda>trusted.
            if \<not> trusted \<or> fst_uid path_metadata \<noteq> 0 then act_lift (Inr None)
            else
              act_bind (os_call os (\<lambda>v. require (ov_utf8 v path \<and> ov_utf8 v canonical) TteNonUtf8Path)) (\<lambda>_.
              act_bind (act_map_err TteIo (os_call os (\<lambda>v. ov_read_file v canonical))) (\<lambda>bytes.
              act_lift (Inr (Some
                \<lparr> tti_program = program, tti_requested_path = path, tti_canonical_path = canonical,
                  tti_device_id = fst_dev m, tti_inode = fst_ino m, tti_uid = fst_uid m,
                  tti_mode = fst_mode m, tti_size_bytes = fst_len m, tti_sha256 = sha bytes \<rparr>))))))
        | _ \<Rightarrow> act_lift (Inr None)))))"

fun find_tools ::
  "(string \<Rightarrow> string) \<Rightarrow> (nat \<Rightarrow> os_view) \<Rightarrow> privileged_program \<Rightarrow> string list
     \<Rightarrow> ('s, trusted_tool_error, trusted_tool_identity list \<times> string list) os_action" where
  "find_tools sha os program [] = act_lift (Inr ([], []))"
| "find_tools sha os program (directory # directories) =
     (let candidate = directory @ ''/'' @ program_name program in
      act_bind (act_match (os_call os (\<lambda>v. ov_lstat v candidate))
          (\<lambda>_. act_bind (inspect_candidate sha os program candidate) (\<lambda>found.
             act_lift (Inr (case found of Some i \<Rightarrow> ([i], []) | None \<Rightarrow> ([], [candidate])))))
          (\<lambda>e. if e = EkNotFound then act_lift (Inr ([], [])) else act_lift (Inl (TteIo e)))) (\<lambda>(found, unsafe).
      act_bind (find_tools sha os program directories) (\<lambda>(founds, unsafes).
      act_lift (Inr (found @ founds, unsafe @ unsafes)))))"

definition tool_key :: "trusted_tool_identity \<Rightarrow> u64 \<times> u64" where
  "tool_key i = (tti_device_id i, tti_inode i)"

definition resolve_trusted_privileged_tool ::
  "(string \<Rightarrow> string) \<Rightarrow> (nat \<Rightarrow> os_view) \<Rightarrow> privileged_program
     \<Rightarrow> ('s, trusted_tool_error, trusted_tool_identity) os_action" where
  "resolve_trusted_privileged_tool sha os program =
     act_bind (find_tools sha os program TRUSTED_TOOL_DIRECTORIES) (\<lambda>(found, unsafe_candidates).
     act_lift (case found of
       [] \<Rightarrow> Inl (case unsafe_candidates of c # _ \<Rightarrow> TteUnsafeCandidate c | [] \<Rightarrow> TteNotFound program)
     | i # _ \<Rightarrow> (if length (remdups (map tool_key found)) \<noteq> 1 then Inl (TteAmbiguous program) else Inr i)))"

section \<open>Native executables\<close>

datatype elf_class = Elf32 | Elf64

datatype elf_data_encoding = LittleEndian | BigEndian

record elf_execution_identity =
  eei_class :: elf_class
  eei_data_encoding :: elf_data_encoding
  eei_version :: u8

datatype launch_spec_error =
  LsePinIntegrityMismatch | LsePinCommandMismatch | LsePinnedDescriptorClosed
| LseKernelRefreshPresenceMismatch | LseUnsupportedExecutableFormat | LseEmbeddedNul
| LseIo io_kind | LseSerialization string

definition elf_identity :: "string \<Rightarrow> (launch_spec_error, elf_execution_identity) result" where
  "elf_identity ident =
     (if length ident \<noteq> 16 \<or> take 4 ident \<noteq> [CHR 0x7F, CHR ''E'', CHR ''L'', CHR ''F''] \<or> ident ! 6 \<noteq> CHR 0x01
      then Inl LseUnsupportedExecutableFormat
      else case (if ident ! 4 = CHR 0x01 then Some Elf32 else if ident ! 4 = CHR 0x02 then Some Elf64 else None) of
        None \<Rightarrow> Inl LseUnsupportedExecutableFormat
      | Some class \<Rightarrow>
          (case (if ident ! 5 = CHR 0x01 then Some LittleEndian else if ident ! 5 = CHR 0x02 then Some BigEndian else None) of
             None \<Rightarrow> Inl LseUnsupportedExecutableFormat
           | Some encoding \<Rightarrow>
               Inr \<lparr> eei_class = class, eei_data_encoding = encoding, eei_version = of_nat (byte (ident ! 6)) \<rparr>))"

definition inspect_elf ::
  "(nat \<Rightarrow> os_view) \<Rightarrow> nat \<Rightarrow> ('s, launch_spec_error, elf_execution_identity) os_action" where
  "inspect_elf os fd =
     act_bind (act_map_err LseIo (os_call os (\<lambda>v. ov_read_at v fd 0 16))) (\<lambda>ident.
     act_lift (elf_identity (take 16 ident)))"

section \<open>Running an open file\<close>

text \<open>
  The state of an executor: its calls, the world of its journal directory, and the attempts to run a program,
  each with the number of the call that makes it and that world as it was then.
\<close>

record spawn =
  sp_fd :: nat
  sp_program :: privileged_program
  sp_argv :: "string list"
  sp_stdin :: "string option"

record program_start =
  pgs_spawn :: spawn
  pgs_call :: nat
  pgs_world :: world

record executor_state = os_state +
  xs_world :: world
  xs_spawned :: "program_start list"

type_synonym ('s, 'e, 'a) executor_action = "('s executor_state_scheme, 'e, 'a) state_action"

text \<open>A call on the journal directory.\<close>

definition on_journal :: "('e, 'a) action \<Rightarrow> ('s, 'e, 'a) executor_action" where
  "on_journal m s = (case m (xs_world s) of (r, w) \<Rightarrow> (r, s\<lparr>xs_world := w\<rparr>))"

definition with_start :: "spawn \<Rightarrow> 's executor_state_scheme \<Rightarrow> 's executor_state_scheme" where
  "with_start p s = s\<lparr>xs_spawned := xs_spawned s
     @ [\<lparr>pgs_spawn = p, pgs_call = os_calls s, pgs_world = xs_world s\<rparr>]\<rparr>"

definition record_spawn :: "spawn \<Rightarrow> ('s, 'e, unit) executor_action" where
  "record_spawn p s = (Inr (), with_start p s)"

text \<open>The checks of the arguments and of the two variables of the environment, before anything is opened.\<close>

definition stage_arguments ::
  "privileged_program \<Rightarrow> string list \<Rightarrow> string \<Rightarrow> string \<Rightarrow> (exec_error, unit) result" where
  "stage_arguments program argv fixed_path fixed_locale =
     (if (case argv of [] \<Rightarrow> True | a # _ \<Rightarrow> a \<noteq> program_name program) then Inl XeBindingMismatch
      else require (\<forall>a\<in>set (argv @ [''PATH='' @ fixed_path, ''LC_ALL='' @ fixed_locale]). CHR 0x00 \<notin> set a)
        XeEmbeddedNul)"

definition execute_descriptor_stage ::
  "(nat \<Rightarrow> os_view) \<Rightarrow> nat \<Rightarrow> privileged_program \<Rightarrow> string list \<Rightarrow> string \<Rightarrow> string \<Rightarrow> string option
     \<Rightarrow> ('s, exec_error, exec_outcome) executor_action" where
  "execute_descriptor_stage os fd program argv fixed_path fixed_locale stdin =
     act_then (act_lift (stage_arguments program argv fixed_path fixed_locale))
     (act_then (record_spawn \<lparr> sp_fd = fd, sp_program = program, sp_argv = argv, sp_stdin = stdin \<rparr>)
     (os_call os (\<lambda>v. ov_run v fd argv fixed_path fixed_locale stdin)))"

section \<open>What hashing an open file establishes\<close>

text \<open>The file behind a descriptor has the bytes \<open>data\<close> at every call from \<open>n\<close> on, and reads of it succeed and give at least one byte
  where there is one.\<close>

definition steady_file :: "(nat \<Rightarrow> os_view) \<Rightarrow> nat \<Rightarrow> nat \<Rightarrow> string \<Rightarrow> bool" where
  "steady_file os n fd data \<longleftrightarrow> (\<forall>m \<ge> n. \<forall>offset want. \<exists>k. (0 < k \<or> want = 0)
     \<and> ov_read_at (os m) fd offset want = Inr (take (min k want) (drop (unat offset) data)))"

lemma os_call_calls [simp]: "os_calls (snd (os_call os f s)) = Suc (os_calls s)"
  by (simp add: os_call_def)

lemma hash_loop_calls:
  "offset \<le> expected_size \<Longrightarrow> hash_loop os chunk fd expected_size offset acc s = (r, s') \<Longrightarrow>
     os_calls s' \<le> os_calls s + (unat expected_size - unat offset) + 1"
proof (induction os chunk fd expected_size offset acc s arbitrary: r s' rule: hash_loop.induct)
  case (1 os chunk fd expected_size offset acc s)
  show ?case
  proof (cases "offset < expected_size")
    case False
    with 1(3) show ?thesis by (subst (asm) hash_loop.simps) simp
  next
    case True
    let ?want = "min (unat (expected_size - offset)) chunk"
    obtain answer s1 where a: "os_call os (\<lambda>v. ov_read_at v fd offset ?want) s = (answer, s1)" by fastforce
    have s1: "os_calls s1 = Suc (os_calls s)" using a by (auto simp: os_call_def)
    show ?thesis
    proof (cases answer)
      case (Inl e)
      with 1(3) True a s1 show ?thesis by (subst (asm) hash_loop.simps) (simp add: Let_def)
    next
      case (Inr bytes)
      let ?b = "take ?want bytes"
      show ?thesis
      proof (cases "?b = [] \<or> checked_add offset (of_nat (length ?b)) = None")
        case True
        with 1(3) \<open>offset < expected_size\<close> a s1 Inr show ?thesis
          by (subst (asm) hash_loop.simps) (auto simp: Let_def split: if_splits option.splits)
      next
        case False
        then obtain stop where b: "?b \<noteq> []" "checked_add offset (of_nat (length ?b)) = Some stop" by auto
        then have h: "hash_loop os chunk fd expected_size stop (acc @ ?b) s1 = (r, s')"
          using 1(3) True a Inr by (subst (asm) hash_loop.simps) (simp add: Let_def del: length_take take_eq_Nil take_eq_Nil2)
        have l: "0 < length ?b" "length ?b \<le> unat (expected_size - offset)" using b(1) by auto
        note p = hash_progress[OF True l b(2)]
        have "os_calls s' \<le> os_calls s1 + (unat expected_size - unat stop) + 1"
          by (rule 1(1)[OF _ refl _ _ refl _ b(2) p(2) h]) (use True a Inr b in auto)
        moreover have "unat expected_size - unat stop + 1 \<le> unat expected_size - unat offset"
          using hash_measure[OF True refl b] by linarith
        ultimately show ?thesis using s1 by linarith
      qed
    qed
  qed
qed

lemma checked_add_of_nat:
  fixes offset :: u64
  assumes "unat offset + k < 2 ^ 64"
  shows "\<exists>stop. checked_add offset (of_nat k) = Some stop \<and> unat stop = unat offset + k"
proof -
  have "unat (of_nat k :: u64) = k" by (intro of_nat_inverse[OF refl]) (use assms in simp)
  with assms have "checked_add offset (of_nat k) = Some (offset + of_nat k)" by (simp add: checked_add_def)
  with checked_add_Some[OF this] \<open>unat (of_nat k :: u64) = k\<close> show ?thesis by simp
qed

lemma take_length_take: "take (length (take m xs)) xs = take m xs"
  by (cases "m \<le> length xs") auto

lemma hash_loop_steady:
  "steady_file os (os_calls s) fd data \<Longrightarrow> 0 < chunk \<Longrightarrow> offset \<le> expected_size \<Longrightarrow> unat offset \<le> length data \<Longrightarrow>
   acc = take (unat offset) data \<Longrightarrow>
   \<exists>last s'. hash_loop os chunk fd expected_size offset acc s = (Inr (last, take (unat last) data), s')
     \<and> unat last = min (unat expected_size) (length data) \<and> os_calls s \<le> os_calls s'"
proof (induction os chunk fd expected_size offset acc s rule: hash_loop.induct)
  case (1 os chunk fd expected_size offset acc s)
  show ?case
  proof (cases "offset < expected_size")
    case False
    with 1(4-6) show ?thesis by (subst hash_loop.simps) (simp add: word_less_nat_alt word_le_nat_alt min_def)
  next
    case True
    let ?want = "min (unat (expected_size - offset)) chunk"
    have u: "unat (expected_size - offset) = unat expected_size - unat offset" "unat offset < unat expected_size"
      using True by (simp_all add: unat_sub word_less_nat_alt word_le_nat_alt)
    obtain k where k: "0 < k \<or> ?want = 0"
      "ov_read_at (os (os_calls s)) fd offset ?want = Inr (take (min k ?want) (drop (unat offset) data))"
      using 1(2) unfolding steady_file_def by (meson order.refl)
    let ?s1 = "s\<lparr>os_calls := Suc (os_calls s)\<rparr>" and ?b = "take (min k ?want) (drop (unat offset) data)"
    have a: "os_call os (\<lambda>v. ov_read_at v fd offset ?want) s = (Inr ?b, ?s1)" by (simp add: os_call_def k(2))
    have w: "take ?want ?b = ?b" by (simp add: min_def)
    have kp: "0 < k" using k(1) u 1(3) by auto
    show ?thesis
    proof (cases "?b = []")
      case True
      with kp u 1(3) have "length data \<le> unat offset" by (auto simp: min_def split: if_splits)
      with 1(5) have "unat offset = length data" by simp
      with True a w \<open>offset < expected_size\<close> 1(6) u show ?thesis
        by (subst hash_loop.simps) (simp add: Let_def)
    next
      case False
      have l: "0 < length ?b" "length ?b \<le> unat (expected_size - offset)" using False by auto
      have fits: "unat offset + length ?b \<le> unat expected_size" using l(2) u by linarith
      have "unat expected_size < 2 ^ 64" using unsigned_less[of expected_size] by simp
      with fits have "unat offset + length ?b < 2 ^ 64" by (rule le_less_trans)
      then obtain stop where
        c: "checked_add offset (of_nat (length ?b)) = Some stop" "unat stop = unat offset + length ?b"
        using checked_add_of_nat by blast
      have sd: "steady_file os (os_calls ?s1) fd data" using 1(2) by (simp add: steady_file_def)
      have sl: "unat stop \<le> length data" "stop \<le> expected_size"
        using c(2) 1(5) fits by (auto simp: word_le_nat_alt min_def)
      have acc: "acc @ ?b = take (unat stop) data"
        by (simp only: 1(6) c(2) take_add take_length_take)
      have "\<exists>last s'. hash_loop os chunk fd expected_size stop (acc @ ?b) ?s1 = (Inr (last, take (unat last) data), s')
         \<and> unat last = min (unat expected_size) (length data) \<and> os_calls ?s1 \<le> os_calls s'"
        by (rule 1(1)[OF _ refl _ _ w[symmetric] _ c(1) sd 1(3) sl(2,1) acc]) (use True a False in auto)
      then show ?thesis using True a False c(1) w
        by (subst hash_loop.simps) (auto simp: Let_def simp del: length_take take_eq_Nil take_eq_Nil2)
    qed
  qed
qed

lemma hash_open_calls:
  assumes "hash_open_file sha os chunk fd expected_size s = (r, s')"
  shows "os_calls s' \<le> os_calls s + unat expected_size + 2"
proof -
  obtain r1 s1 where h: "hash_loop os chunk fd expected_size 0 [] s = (r1, s1)" by fastforce
  have "os_calls s1 \<le> os_calls s + unat expected_size + 1" using hash_loop_calls[OF _ h] by simp
  moreover have "os_calls s' \<le> Suc (os_calls s1)" using assms h
    by (auto simp: hash_open_file_def act_bind_def act_then_def act_ensure_def act_lift_def os_call_def require_def
        split: sum.splits if_splits)
  ultimately show ?thesis by simp
qed

lemma hash_open_steady:
  assumes "steady_file os (os_calls s) fd data" and "0 < chunk"
  shows "fst (hash_open_file sha os chunk fd expected_size s)
    = (if length data = unat expected_size then Inr (sha data) else Inl EkOther)"
proof -
  obtain last s1 where h: "hash_loop os chunk fd expected_size 0 [] s = (Inr (last, take (unat last) data), s1)"
    "unat last = min (unat expected_size) (length data)" "os_calls s \<le> os_calls s1"
    using hash_loop_steady[OF assms, of 0 expected_size "[]"] by auto
  from assms(1) h(3) obtain k where k: "0 < k"
    "ov_read_at (os (os_calls s1)) fd expected_size 1 = Inr (take (min k 1) (drop (unat expected_size) data))"
    unfolding steady_file_def by (metis zero_neq_one)
  have "last = expected_size \<longleftrightarrow> unat expected_size \<le> length data"
    using h(2) by (auto simp: word_unat_eq_iff min_def)
  with h k show ?thesis
    by (auto simp: hash_open_file_def act_bind_def act_then_def act_ensure_def act_lift_def os_call_def require_def)
qed

text \<open>Hashing a pinned tool ends after at most one call for each byte expected and two more, whatever other
  processes do to the file meanwhile, and if the file stays as it is, it gives the digest of all its bytes when they are
  as many as expected and an error otherwise.\<close>

theorem tool_hash_exact:
  assumes "tool_sha256_file sha os fd expected_size s = (r, s')"
  shows "os_calls s' \<le> os_calls s + unat expected_size + 2
    \<and> (steady_file os (os_calls s) fd data \<longrightarrow>
         r = (if length data = unat expected_size then Inr (sha data) else Inl EkOther))"
proof -
  have chunk: "0 < TOOL_READ_CHUNK" by (simp add: TOOL_READ_CHUNK_def)
  show ?thesis using assms hash_open_calls hash_open_steady[OF _ chunk]
    unfolding tool_sha256_file_def by (metis fst_conv)
qed

definition ex_file_os :: "string \<Rightarrow> nat \<Rightarrow> os_view" where
  "ex_file_os data n = \<lparr> ov_lstat = \<lambda>_. Inl EkNotFound, ov_canonicalize = \<lambda>p. Inr p, ov_open = \<lambda>_. Inr 3,
     ov_fstat = \<lambda>_. Inl EkOther, ov_read_at = \<lambda>_ offset want. Inr (take want (drop (unat offset) data)),
     ov_read_to_end = \<lambda>_ limit. Inr (take limit data), ov_read_file = \<lambda>_. Inr data, ov_utf8 = \<lambda>_. True,
     ov_discover = Inl ''none'', ov_run = \<lambda>_ _ _ _ _. Inl XeChildSignaled \<rparr>"

theorem tool_hash_exact_witness:
  "fst (tool_sha256_file (\<lambda>bytes. bytes) (ex_file_os ''tool'') 3 4 \<lparr>os_calls = 0\<rparr>) = Inr ''tool''
   \<and> fst (tool_sha256_file (\<lambda>bytes. bytes) (ex_file_os ''tool'') 3 5 \<lparr>os_calls = 0\<rparr>) = Inl EkOther"
proof -
  have s: "steady_file (ex_file_os ''tool'') n 3 ''tool''" for n
    unfolding steady_file_def by (intro allI impI, rule_tac x = "Suc want" in exI) (simp add: ex_file_os_def min_def)
  from tool_hash_exact[OF prod.collapse[symmetric], of "\<lambda>bytes. bytes" "ex_file_os ''tool''" 3 4 "\<lparr>os_calls = 0\<rparr>" "''tool''"]
    tool_hash_exact[OF prod.collapse[symmetric], of "\<lambda>bytes. bytes" "ex_file_os ''tool''" 3 5 "\<lparr>os_calls = 0\<rparr>" "''tool''"] s
  show ?thesis by simp
qed

section \<open>Actions on a host that answers\<close>

text \<open>\<open>delivers m x\<close>: whatever the state, the action gives the value \<open>x\<close>.\<close>

definition delivers :: "('s, 'e, 'a) state_action \<Rightarrow> 'a \<Rightarrow> bool" where
  "delivers m x \<longleftrightarrow> (\<forall>s. \<exists>s'. m s = (Inr x, s'))"

lemma delivers_run: "delivers m x \<Longrightarrow> (\<And>s'. m s = (Inr x, s') \<Longrightarrow> P) \<Longrightarrow> P"
  by (auto simp: delivers_def)

lemma delivers_lift: "delivers (act_lift (Inr x)) x"
  by (simp add: delivers_def act_lift_def)

lemma delivers_ensure: "b \<Longrightarrow> delivers (act_ensure b e) ()"
  by (simp add: delivers_def act_ensure_def act_lift_def require_def)

lemma delivers_bind: "delivers m x \<Longrightarrow> delivers (f x) y \<Longrightarrow> delivers (act_bind m f) y"
  by (fastforce simp: delivers_def act_bind_Inr)

lemma delivers_then: "delivers m x \<Longrightarrow> delivers k y \<Longrightarrow> delivers (act_then m k) y"
  by (simp add: act_then_def delivers_bind)

lemma delivers_map_err: "delivers m x \<Longrightarrow> delivers (act_map_err g m) x"
  by (simp add: delivers_def act_map_err_Inr)

lemma delivers_match: "delivers m x \<Longrightarrow> delivers (f x) y \<Longrightarrow> delivers (act_match m f k) y"
  unfolding delivers_def act_match_def by (metis (no_types, lifting) prod.case sum.case(2))

lemma delivers_call: "(\<And>n. f (os n) = Inr x) \<Longrightarrow> delivers (os_call os f) x"
  by (simp add: delivers_def os_call_def)

lemmas delivering = delivers_lift delivers_bind delivers_then delivers_map_err

lemma delivers_hash:
  assumes "\<And>n. steady_file os n fd data" and "length data = unat expected_size" and "0 < chunk"
  shows "delivers (hash_open_file sha os chunk fd expected_size) (sha data)"
  unfolding delivers_def using hash_open_steady[OF assms(1,3)] assms(2) by (metis (no_types, lifting) prod.collapse)

end
