(* ===== verification/CreateAuthorization.thy ===== *)
theory CreateAuthorization
  imports ProvisioningIntent TrustedFiles CreateJournal
begin

text \<open>
  The authorization chain of a create operation in \<open>crates/executor/src\<close>: the activation of a frozen
  intent (\<open>production_create_activation.rs\<close>), the consent of the owner (\<open>production_create_consent.rs\<close> and
  \<open>production_create_consent_lease.rs\<close>), the execution permit (\<open>production_create_execution.rs\<close>), the preflight on a fresh
  snapshot (\<open>production_create_preflight.rs\<close>), the lease of the tools (\<open>production_create_tool_lease.rs\<close>), the launch
  contract (\<open>production_create_launch.rs\<close>) and the first journal record (\<open>production_create_journal.rs\<close>).
  \<open>create_basis\<close> holds what these rest on: the features of the build, the digests of the records,
  SHA-256 of bytes and the JSON of the consent document.
\<close>

section \<open>Records\<close>

datatype create_profile = CpfBlankDiskSinglePartitionFilesystem

record create_activation_readiness =
  car_schema_version :: u32
  car_profile :: create_profile
  car_compile_feature_enabled :: bool
  car_intent_ready :: bool
  car_intent_integrity_verified :: bool
  car_exact_profile :: bool
  car_blockers :: "string list"

record create_activation =
  ca_schema_version :: u32
  ca_activation_id :: string
  ca_profile :: create_profile
  ca_create_intent_id :: string
  ca_create_plan_id :: string
  ca_source_id :: string
  ca_disk :: string
  ca_disk_size_bytes :: u64
  ca_logical_sector_bytes :: u64
  ca_disk_model :: "string option"
  ca_disk_serial :: "string option"
  ca_partition_table :: create_partition_table_policy
  ca_partition_start_sector :: u64
  ca_partition_sector_count :: u64
  ca_partition_size_bytes :: u64
  ca_filesystem :: string
  ca_compile_feature_enabled :: bool
  ca_execution_enabled :: bool
  ca_partition_table_changed :: bool
  ca_filesystem_formatted :: bool

datatype create_activation_error =
  CaeFeatureDisabled | CaeIntentNotReady | CaeIntentIntegrityMismatch | CaeUnsupportedProfile
| CaeSerialization string

record consent_document =
  cdo_schema_version :: u32
  cdo_activation_id :: string
  cdo_create_intent_id :: string
  cdo_disk :: string
  cdo_filesystem :: string
  cdo_consent_phrase :: string

record consent_file_identity =
  cfi_device_id :: u64
  cfi_inode :: u64
  cfi_uid :: u32
  cfi_mode :: u32
  cfi_link_count :: u64
  cfi_size_bytes :: u64
  cfi_sha256 :: string

record consent_receipt =
  ccr_schema_version :: u32
  ccr_receipt_id :: string
  ccr_activation_id :: string
  ccr_create_intent_id :: string
  ccr_disk :: string
  ccr_filesystem :: string
  ccr_consent_path :: string
  ccr_consent_file :: consent_file_identity
  ccr_consent_verified :: bool
  ccr_execution_enabled :: bool

datatype consent_error =
  CceFeatureDisabled | CceActivationInvalid | CceActivationAlreadyEnabled | CceUnsafeParent string
| CceUnsafeFile | CceInvalidFileSize | CceDecode string | CceNonCanonicalDocument | CceBindingMismatch
| CceConsentPhraseMismatch | CceIo string io_kind | CceSerialization string

text \<open>A receipt with the descriptor of its file.\<close>

record pinned_consent =
  pcs_receipt :: consent_receipt
  pcs_file :: nat

datatype consent_lease_error =
  CleConsent consent_error | ClePinnedFileMismatch | CleCurrentPathMismatch | CleIo io_kind

record create_permit =
  cpm_schema_version :: u32
  cpm_permit_id :: string
  cpm_activation_id :: string
  cpm_consent_receipt_id :: string
  cpm_profile :: create_profile
  cpm_create_intent_id :: string
  cpm_create_plan_id :: string
  cpm_source_id :: string
  cpm_disk :: string
  cpm_disk_size_bytes :: u64
  cpm_logical_sector_bytes :: u64
  cpm_partition_table :: create_partition_table_policy
  cpm_partition_start_sector :: u64
  cpm_partition_sector_count :: u64
  cpm_partition_size_bytes :: u64
  cpm_filesystem :: string
  cpm_compile_feature_enabled :: bool
  cpm_mutation_enabled :: bool
  cpm_process_spawned :: bool
  cpm_partition_table_changed :: bool
  cpm_filesystem_formatted :: bool

datatype create_permit_error =
  CpeFeatureDisabled | CpeActivationInvalid | CpeConsentLease consent_lease_error | CpeConsentInvalid
| CpeConsentBindingMismatch | CpeUpstreamAlreadyEnabled | CpeSerialization string

record create_preflight =
  cpf_schema_version :: u32
  cpf_receipt_id :: string
  cpf_activation_id :: string
  cpf_execution_permit_id :: string
  cpf_consent_receipt_id :: string
  cpf_create_intent_id :: string
  cpf_disk :: string
  cpf_disk_size_bytes :: u64
  cpf_logical_sector_bytes :: u64
  cpf_partition_table :: create_partition_table_policy
  cpf_partition_start_sector :: u64
  cpf_partition_sector_count :: u64
  cpf_partition_size_bytes :: u64
  cpf_filesystem :: string
  cpf_sfdisk :: trusted_tool_identity
  cpf_partx :: trusted_tool_identity
  cpf_mkfs :: trusted_tool_identity
  cpf_runtime_ready :: bool
  cpf_mutation_enabled :: bool
  cpf_process_spawned :: bool
  cpf_partition_table_changed :: bool
  cpf_filesystem_formatted :: bool

datatype create_preflight_error =
  CfeFeatureDisabled | CfeAuthorizationInvalid | CfeAuthorizationBindingMismatch | CfeUpstreamAlreadyEnabled
| CfeConsent consent_lease_error | CfePartitionCollectorIncomplete | CfeBlankDiskChanged
| CfeBlankDiskNoLongerBlank | CfeTool trusted_tool_error | CfeDiscovery string | CfeSerialization string

record pinned_tools =
  pct_preflight_receipt_id :: string
  pct_sfdisk :: trusted_tool_identity
  pct_partx :: trusted_tool_identity
  pct_mkfs :: trusted_tool_identity
  pct_sfdisk_file :: nat
  pct_partx_file :: nat
  pct_mkfs_file :: nat

datatype tool_lease_error =
  TlePreflightInvalid | TleProgramMismatch | TleToolIdentityMismatch | TleIo io_kind

record launch_stage =
  lst_program :: privileged_program
  lst_argv :: "string list"
  lst_executable :: trusted_tool_identity
  lst_elf :: elf_execution_identity
  lst_stdin_len :: u64
  lst_stdin_sha256 :: "string option"

record create_launch =
  cls_schema_version :: u32
  cls_launch_id :: string
  cls_activation_id :: string
  cls_execution_permit_id :: string
  cls_preflight_receipt_id :: string
  cls_create_intent_id :: string
  cls_disk :: string
  cls_partition_device :: string
  cls_partition_table :: create_partition_table_policy
  cls_partition_start_sector :: u64
  cls_partition_sector_count :: u64
  cls_partition_size_bytes :: u64
  cls_filesystem :: string
  cls_sfdisk_script :: string
  cls_sfdisk :: launch_stage
  cls_partx :: launch_stage
  cls_mkfs :: launch_stage
  cls_fixed_path :: string
  cls_fixed_locale :: string
  cls_descriptor_exec_api :: string
  cls_require_partition_rediscovery_before_mkfs :: bool
  cls_mutation_enabled :: bool
  cls_process_spawned :: bool
  cls_partition_table_changed :: bool
  cls_filesystem_formatted :: bool

datatype create_launch_error =
  CxeFeatureDisabled | CxeAuthorizationInvalid | CxeBindingMismatch | CxeToolLease tool_lease_error
| CxeProgramMismatch | CxeEmbeddedNul | CxePartitionPathInvalid | CxeExecutable launch_spec_error
| CxeSerialization string

section \<open>What the chain rests on\<close>

record 'v create_basis =
  cb_activation_compiled :: bool
  cb_consent_compiled :: bool
  cb_permit_compiled :: bool
  cb_preflight_compiled :: bool
  cb_launch_compiled :: bool
  cb_journal_compiled :: bool
  cb_intent_digest :: "blank_disk_intent \<Rightarrow> (string, string) result"
  cb_activation_digest :: "create_activation \<Rightarrow> (string, string) result"
  cb_receipt_digest :: "consent_receipt \<Rightarrow> (string, string) result"
  cb_permit_digest :: "create_permit \<Rightarrow> (string, string) result"
  cb_preflight_digest :: "create_preflight \<Rightarrow> (string, string) result"
  cb_launch_digest :: "create_launch \<Rightarrow> (string, string) result"
  cb_journal_digest :: create_digest
  cb_sha :: "string \<Rightarrow> string"
  cb_json_value :: "string \<Rightarrow> (string, 'v) result"
  cb_document_of :: "'v \<Rightarrow> (string, consent_document) result"
  cb_value_of :: "consent_document \<Rightarrow> (string, 'v) result"

section \<open>Activation\<close>

definition ca_expected_activation_id :: "'v create_basis \<Rightarrow> create_activation \<Rightarrow> (string, string) result" where
  "ca_expected_activation_id cb a = cb_activation_digest cb (a\<lparr>ca_activation_id := []\<rparr>)"

definition ca_integrity_matches :: "'v create_basis \<Rightarrow> create_activation \<Rightarrow> (string, bool) result" where
  "ca_integrity_matches cb a = and_then (ca_expected_activation_id cb a) (\<lambda>d. Inr (ca_activation_id a = d))"

definition safe_device_path :: "string \<Rightarrow> bool" where
  "safe_device_path value =
     (if value = [] \<or> CHR 0x00 \<in> set value \<or> \<not> starts_with ''/dev/'' value then False
      else is_absolute value \<and> list_all (\<lambda>c. c \<noteq> ''..'') (components value))"

definition no_controls :: "string \<Rightarrow> bool" where
  "no_controls value = (value \<noteq> [] \<and> \<not> has_control value)"

definition text_without_controls :: "string option \<Rightarrow> bool" where
  "text_without_controls v = (case v of None \<Rightarrow> True | Some t \<Rightarrow> \<not> has_control t)"

definition exact_profile :: "blank_disk_intent \<Rightarrow> bool" where
  "exact_profile i =
     (let sector = bdi_logical_sector_bytes i;
          disk_sectors = (if 0 < sector then bdi_disk_size_bytes i div sector else 0) in
      case (checked_add (bdi_partition_start_sector i) (bdi_partition_sector_count i),
            checked_mul (bdi_partition_sector_count i) sector) of
        (Some end_sector, Some expected_partition_bytes) \<Rightarrow>
          bdi_schema_version i = 1 \<and> bdi_status i = PsPreview \<and> \<not> bdi_executable i \<and> bdi_blockers i = []
          \<and> safe_device_path (bdi_disk i) \<and> 0 < bdi_disk_size_bytes i
          \<and> (sector = 512 \<or> sector = 4096) \<and> bdi_disk_size_bytes i mod sector = 0
          \<and> 0 < bdi_partition_start_sector i \<and> 0 < bdi_partition_sector_count i
          \<and> end_sector \<le> disk_sectors \<and> bdi_partition_size_bytes i = expected_partition_bytes
          \<and> (bdi_filesystem i = ''ext4'' \<or> bdi_filesystem i = ''xfs'') \<and> bdi_mountpoint i = None
          \<and> no_controls (bdi_create_plan_id i) \<and> starts_with ''space-'' (bdi_source_id i)
          \<and> no_controls (bdi_source_id i) \<and> text_without_controls (bdi_disk_model i)
          \<and> text_without_controls (bdi_disk_serial i) \<and> bdi_ordered_future_steps i \<noteq> []
      | _ \<Rightarrow> False)"

definition inspect_production_create_activation_readiness ::
  "'v create_basis \<Rightarrow> blank_disk_intent \<Rightarrow> create_activation_readiness" where
  "inspect_production_create_activation_readiness cb intent =
     (let verified = ok_true (bdi_integrity_matches (cb_intent_digest cb) intent) in
      \<lparr> car_schema_version = 1, car_profile = CpfBlankDiskSinglePartitionFilesystem,
        car_compile_feature_enabled = cb_activation_compiled cb, car_intent_ready = bdi_ready intent,
        car_intent_integrity_verified = verified, car_exact_profile = exact_profile intent,
        car_blockers =
          (if bdi_ready intent then [] else [''create-intent-not-ready''])
          @ (if verified then [] else [''create-intent-integrity-mismatch''])
          @ (if exact_profile intent then [] else [''unsupported-create-profile''])
          @ (if cb_activation_compiled cb then [] else [''production-create-activation-feature-disabled'']) \<rparr>)"

definition car_ready :: "create_activation_readiness \<Rightarrow> bool" where
  "car_ready r = (car_compile_feature_enabled r \<and> car_intent_ready r \<and> car_intent_integrity_verified r
     \<and> car_exact_profile r \<and> car_blockers r = [])"

definition seal_production_create_activation_intent ::
  "'v create_basis \<Rightarrow> blank_disk_intent \<Rightarrow> (create_activation_error, create_activation) result" where
  "seal_production_create_activation_intent cb intent =
     (if \<not> cb_activation_compiled cb then Inl CaeFeatureDisabled
      else if \<not> bdi_ready intent then Inl CaeIntentNotReady
      else if \<not> ok_true (bdi_integrity_matches (cb_intent_digest cb) intent) then Inl CaeIntentIntegrityMismatch
      else if \<not> exact_profile intent then Inl CaeUnsupportedProfile
      else
        (let a = \<lparr> ca_schema_version = 1, ca_activation_id = [],
            ca_profile = CpfBlankDiskSinglePartitionFilesystem, ca_create_intent_id = bdi_intent_id intent,
            ca_create_plan_id = bdi_create_plan_id intent, ca_source_id = bdi_source_id intent,
            ca_disk = bdi_disk intent, ca_disk_size_bytes = bdi_disk_size_bytes intent,
            ca_logical_sector_bytes = bdi_logical_sector_bytes intent, ca_disk_model = bdi_disk_model intent,
            ca_disk_serial = bdi_disk_serial intent, ca_partition_table = bdi_partition_table intent,
            ca_partition_start_sector = bdi_partition_start_sector intent,
            ca_partition_sector_count = bdi_partition_sector_count intent,
            ca_partition_size_bytes = bdi_partition_size_bytes intent, ca_filesystem = bdi_filesystem intent,
            ca_compile_feature_enabled = True, ca_execution_enabled = False,
            ca_partition_table_changed = False, ca_filesystem_formatted = False \<rparr> in
         and_then (map_err CaeSerialization (ca_expected_activation_id cb a)) (\<lambda>d. Inr (a\<lparr>ca_activation_id := d\<rparr>))))"

text \<open>Nothing of the operation has been enabled or done yet.\<close>

definition activation_untouched :: "create_activation \<Rightarrow> bool" where
  "activation_untouched a = (\<not> ca_execution_enabled a \<and> \<not> ca_partition_table_changed a \<and> \<not> ca_filesystem_formatted a)"

definition activation_sealed :: "'v create_basis \<Rightarrow> create_activation \<Rightarrow> bool" where
  "activation_sealed cb a =
     (ca_schema_version a = 1 \<and> ok_true (ca_integrity_matches cb a) \<and> ca_compile_feature_enabled a)"

section \<open>Consent\<close>

definition PRODUCTION_CREATE_CONSENT_PATH :: string where
  "PRODUCTION_CREATE_CONSENT_PATH = ''/etc/linux-storage-manager/production-create-consent.json''"

definition PRODUCTION_CREATE_CONSENT_PHRASE :: string where
  "PRODUCTION_CREATE_CONSENT_PHRASE = ''I UNDERSTAND THIS WILL PARTITION AND FORMAT THE DISK''"

definition MAX_CONSENT_BYTES :: nat where
  "MAX_CONSENT_BYTES = 4096"

definition ccr_expected_receipt_id :: "'v create_basis \<Rightarrow> consent_receipt \<Rightarrow> (string, string) result" where
  "ccr_expected_receipt_id cb r = cb_receipt_digest cb (r\<lparr>ccr_receipt_id := []\<rparr>)"

definition ccr_integrity_matches :: "'v create_basis \<Rightarrow> consent_receipt \<Rightarrow> (string, bool) result" where
  "ccr_integrity_matches cb r = and_then (ccr_expected_receipt_id cb r) (\<lambda>d. Inr (ccr_receipt_id r = d))"

definition consent_validate_activation :: "'v create_basis \<Rightarrow> create_activation \<Rightarrow> (consent_error, unit) result" where
  "consent_validate_activation cb a = first_error
     [require (activation_sealed cb a) CceActivationInvalid,
      require (activation_untouched a) CceActivationAlreadyEnabled]"

definition document_binds :: "create_activation \<Rightarrow> consent_document \<Rightarrow> bool" where
  "document_binds a d =
     (cdo_schema_version d = 1 \<and> cdo_activation_id d = ca_activation_id a
      \<and> cdo_create_intent_id d = ca_create_intent_id a \<and> cdo_disk d = ca_disk a \<and> cdo_filesystem d = ca_filesystem a)"

definition validate_document ::
  "'v create_basis \<Rightarrow> create_activation \<Rightarrow> string \<Rightarrow> (consent_error, consent_document) result" where
  "validate_document cb a bytes =
     (if bytes = [] \<or> MAX_CONSENT_BYTES < length bytes then Inl CceInvalidFileSize
      else
        and_then (map_err CceDecode (cb_json_value cb bytes)) (\<lambda>raw.
        and_then (map_err CceDecode (cb_document_of cb raw)) (\<lambda>document.
        and_then (map_err CceSerialization (cb_value_of cb document)) (\<lambda>canonical.
        if canonical \<noteq> raw then Inl CceNonCanonicalDocument
        else if \<not> document_binds a document then Inl CceBindingMismatch
        else if cdo_consent_phrase document \<noteq> PRODUCTION_CREATE_CONSENT_PHRASE then Inl CceConsentPhraseMismatch
        else Inr document))))"

definition validate_file_identity :: "consent_file_identity \<Rightarrow> (consent_error, unit) result" where
  "validate_file_identity f = require
     (cfi_uid f = 0 \<and> and (cfi_mode f) 0x1FF = 0x180 \<and> cfi_link_count f = 1 \<and> cfi_size_bytes f \<noteq> 0
      \<and> unat (cfi_size_bytes f) \<le> MAX_CONSENT_BYTES \<and> is_lower_hex_digest (cfi_sha256 f)) CceUnsafeFile"

definition bind_consent_receipt ::
  "'v create_basis \<Rightarrow> create_activation \<Rightarrow> string \<Rightarrow> string \<Rightarrow> consent_file_identity
     \<Rightarrow> (consent_error, consent_receipt) result" where
  "bind_consent_receipt cb a consent_path bytes f =
     and_then (consent_validate_activation cb a) (\<lambda>_.
     and_then (validate_file_identity f) (\<lambda>_.
     and_then (validate_document cb a bytes) (\<lambda>_.
     let r = \<lparr> ccr_schema_version = 1, ccr_receipt_id = [], ccr_activation_id = ca_activation_id a,
         ccr_create_intent_id = ca_create_intent_id a, ccr_disk = ca_disk a, ccr_filesystem = ca_filesystem a,
         ccr_consent_path = consent_path, ccr_consent_file = f, ccr_consent_verified = True,
         ccr_execution_enabled = False \<rparr> in
     and_then (map_err CceSerialization (ccr_expected_receipt_id cb r)) (\<lambda>d. Inr (r\<lparr>ccr_receipt_id := d\<rparr>)))))"

definition consent_file_stat_safe :: "file_stat \<Rightarrow> bool" where
  "consent_file_stat_safe m =
     (fst_kind m = FkRegular \<and> fst_uid m = 0 \<and> and (fst_mode m) 0x1FF = 0x180 \<and> fst_nlink m = 1
      \<and> fst_len m \<noteq> 0 \<and> unat (fst_len m) \<le> MAX_CONSENT_BYTES)"

definition validate_secure_parent ::
  "(nat \<Rightarrow> os_view) \<Rightarrow> string \<Rightarrow> ('s, consent_error, unit) os_action" where
  "validate_secure_parent os path =
     (case path_parent path of
        None \<Rightarrow> act_lift (Inl (CceUnsafeParent path))
      | Some parent \<Rightarrow>
          act_bind (act_map_err (CceIo parent) (os_call os (\<lambda>v. ov_lstat v parent))) (\<lambda>m.
          act_ensure (fst_kind m = FkDirectory \<and> fst_uid m = 0 \<and> and (fst_mode m) 0x12 = 0) (CceUnsafeParent parent)))"

definition read_default_consent_file ::
  "'v create_basis \<Rightarrow> (nat \<Rightarrow> os_view) \<Rightarrow> ('s, consent_error, string \<times> consent_file_identity) os_action" where
  "read_default_consent_file cb os =
     (let path = PRODUCTION_CREATE_CONSENT_PATH in
      act_then (validate_secure_parent os path)
     (act_bind (act_map_err (CceIo path) (os_call os (\<lambda>v. ov_open v path))) (\<lambda>fd.
      act_bind (act_map_err (CceIo path) (os_call os (\<lambda>v. ov_fstat v fd))) (\<lambda>m.
      act_then (act_ensure (consent_file_stat_safe m) CceUnsafeFile)
     (act_bind (act_map_err (CceIo path) (os_call os (\<lambda>v. ov_read_to_end v fd (MAX_CONSENT_BYTES + 1)))) (\<lambda>bytes.
      act_then (act_ensure (length bytes = unat (fst_len m) \<and> length bytes \<le> MAX_CONSENT_BYTES) CceInvalidFileSize)
     (act_lift (Inr (bytes,
        \<lparr> cfi_device_id = fst_dev m, cfi_inode = fst_ino m, cfi_uid = fst_uid m, cfi_mode = fst_mode m,
          cfi_link_count = fst_nlink m, cfi_size_bytes = fst_len m, cfi_sha256 = cb_sha cb bytes \<rparr>)))))))))"

definition verify_default_production_create_consent ::
  "'v create_basis \<Rightarrow> (nat \<Rightarrow> os_view) \<Rightarrow> create_activation \<Rightarrow> ('s, consent_error, consent_receipt) os_action" where
  "verify_default_production_create_consent cb os a =
     (if \<not> cb_consent_compiled cb then act_lift (Inl CceFeatureDisabled)
      else
        act_then (act_lift (consent_validate_activation cb a))
       (act_bind (read_default_consent_file cb os) (\<lambda>(bytes, identity).
        act_lift (bind_consent_receipt cb a PRODUCTION_CREATE_CONSENT_PATH bytes identity))))"

section \<open>The lease of the consent\<close>

definition consent_stat_matches :: "consent_file_identity \<Rightarrow> file_stat \<Rightarrow> bool" where
  "consent_stat_matches f m =
     (fst_kind m = FkRegular \<and> fst_dev m = cfi_device_id f \<and> fst_ino m = cfi_inode f \<and> fst_uid m = cfi_uid f
      \<and> fst_mode m = cfi_mode f \<and> fst_nlink m = cfi_link_count f \<and> fst_len m = cfi_size_bytes f)"

definition open_file_matches_identity ::
  "'v create_basis \<Rightarrow> (nat \<Rightarrow> os_view) \<Rightarrow> nat \<Rightarrow> consent_file_identity \<Rightarrow> ('s, io_kind, bool) os_action" where
  "open_file_matches_identity cb os fd expected =
     act_bind (os_call os (\<lambda>v. ov_fstat v fd)) (\<lambda>m.
     if \<not> consent_stat_matches expected m then act_lift (Inr False)
     else act_bind (consent_sha256_file (cb_sha cb) os fd (cfi_size_bytes expected)) (\<lambda>digest.
          act_lift (Inr (digest = cfi_sha256 expected))))"

definition open_pinned_default_consent ::
  "'v create_basis \<Rightarrow> (nat \<Rightarrow> os_view) \<Rightarrow> consent_receipt \<Rightarrow> ('s, consent_lease_error, pinned_consent) os_action" where
  "open_pinned_default_consent cb os receipt =
     act_bind (act_map_err CleIo (os_call os (\<lambda>v. ov_open v PRODUCTION_CREATE_CONSENT_PATH))) (\<lambda>fd.
     act_bind (act_map_err CleIo (open_file_matches_identity cb os fd (ccr_consent_file receipt))) (\<lambda>same.
     act_lift (if \<not> same then Inl ClePinnedFileMismatch
               else Inr \<lparr> pcs_receipt = receipt, pcs_file = fd \<rparr>)))"

definition pin_default_production_create_consent ::
  "'v create_basis \<Rightarrow> (nat \<Rightarrow> os_view) \<Rightarrow> create_activation \<Rightarrow> ('s, consent_lease_error, pinned_consent) os_action" where
  "pin_default_production_create_consent cb os a =
     act_bind (act_map_err CleConsent (verify_default_production_create_consent cb os a)) (open_pinned_default_consent cb os)"

definition validate_current_receipt_against_lease ::
  "'v create_basis \<Rightarrow> (nat \<Rightarrow> os_view) \<Rightarrow> consent_receipt \<Rightarrow> pinned_consent
     \<Rightarrow> ('s, consent_lease_error, consent_receipt) os_action" where
  "validate_current_receipt_against_lease cb os current lease =
     (if ccr_receipt_id current \<noteq> ccr_receipt_id (pcs_receipt lease)
         \<or> ccr_consent_file current \<noteq> ccr_consent_file (pcs_receipt lease)
      then act_lift (Inl CleCurrentPathMismatch)
      else
        act_bind (act_map_err CleIo (open_file_matches_identity cb os (pcs_file lease) (ccr_consent_file (pcs_receipt lease)))) (\<lambda>same.
        act_lift (if same then Inr current else Inl ClePinnedFileMismatch)))"

definition revalidate_pinned_production_create_consent ::
  "'v create_basis \<Rightarrow> (nat \<Rightarrow> os_view) \<Rightarrow> create_activation \<Rightarrow> pinned_consent
     \<Rightarrow> ('s, consent_lease_error, consent_receipt) os_action" where
  "revalidate_pinned_production_create_consent cb os a lease =
     act_bind (act_map_err CleConsent (verify_default_production_create_consent cb os a)) (\<lambda>current.
     validate_current_receipt_against_lease cb os current lease)"

section \<open>The execution permit\<close>

definition cpm_expected_permit_id :: "'v create_basis \<Rightarrow> create_permit \<Rightarrow> (string, string) result" where
  "cpm_expected_permit_id cb p = cb_permit_digest cb (p\<lparr>cpm_permit_id := []\<rparr>)"

definition cpm_integrity_matches :: "'v create_basis \<Rightarrow> create_permit \<Rightarrow> (string, bool) result" where
  "cpm_integrity_matches cb p = and_then (cpm_expected_permit_id cb p) (\<lambda>d. Inr (cpm_permit_id p = d))"

definition permit_validate_activation :: "'v create_basis \<Rightarrow> create_activation \<Rightarrow> (create_permit_error, unit) result" where
  "permit_validate_activation cb a = first_error
     [require (activation_sealed cb a) CpeActivationInvalid,
      require (activation_untouched a) CpeUpstreamAlreadyEnabled]"

definition validate_consent ::
  "'v create_basis \<Rightarrow> create_activation \<Rightarrow> consent_receipt \<Rightarrow> (create_permit_error, unit) result" where
  "validate_consent cb a consent = first_error
     [require (ccr_schema_version consent = 1 \<and> ok_true (ccr_integrity_matches cb consent)
         \<and> ccr_consent_verified consent) CpeConsentInvalid,
      require (\<not> ccr_execution_enabled consent) CpeUpstreamAlreadyEnabled,
      require (ccr_activation_id consent = ca_activation_id a \<and> ccr_create_intent_id consent = ca_create_intent_id a
         \<and> ccr_disk consent = ca_disk a \<and> ccr_filesystem consent = ca_filesystem a) CpeConsentBindingMismatch]"

definition seal_from_receipt ::
  "'v create_basis \<Rightarrow> create_activation \<Rightarrow> consent_receipt \<Rightarrow> (create_permit_error, create_permit) result" where
  "seal_from_receipt cb a consent =
     and_then (permit_validate_activation cb a) (\<lambda>_.
     and_then (validate_consent cb a consent) (\<lambda>_.
     let p = \<lparr> cpm_schema_version = 1, cpm_permit_id = [], cpm_activation_id = ca_activation_id a,
         cpm_consent_receipt_id = ccr_receipt_id consent, cpm_profile = ca_profile a,
         cpm_create_intent_id = ca_create_intent_id a, cpm_create_plan_id = ca_create_plan_id a,
         cpm_source_id = ca_source_id a, cpm_disk = ca_disk a, cpm_disk_size_bytes = ca_disk_size_bytes a,
         cpm_logical_sector_bytes = ca_logical_sector_bytes a, cpm_partition_table = ca_partition_table a,
         cpm_partition_start_sector = ca_partition_start_sector a,
         cpm_partition_sector_count = ca_partition_sector_count a,
         cpm_partition_size_bytes = ca_partition_size_bytes a, cpm_filesystem = ca_filesystem a,
         cpm_compile_feature_enabled = True, cpm_mutation_enabled = False, cpm_process_spawned = False,
         cpm_partition_table_changed = False, cpm_filesystem_formatted = False \<rparr> in
     and_then (map_err CpeSerialization (cpm_expected_permit_id cb p)) (\<lambda>d. Inr (p\<lparr>cpm_permit_id := d\<rparr>))))"

definition seal_production_create_execution_permit ::
  "'v create_basis \<Rightarrow> (nat \<Rightarrow> os_view) \<Rightarrow> create_activation \<Rightarrow> pinned_consent
     \<Rightarrow> ('s, create_permit_error, create_permit) os_action" where
  "seal_production_create_execution_permit cb os a lease =
     (if \<not> cb_permit_compiled cb then act_lift (Inl CpeFeatureDisabled)
      else
        act_then (act_lift (permit_validate_activation cb a))
       (act_bind (act_map_err CpeConsentLease (revalidate_pinned_production_create_consent cb os a lease)) (\<lambda>consent.
        act_lift (seal_from_receipt cb a consent))))"

definition permit_sealed :: "'v create_basis \<Rightarrow> create_permit \<Rightarrow> bool" where
  "permit_sealed cb p =
     (cpm_schema_version p = 1 \<and> ok_true (cpm_integrity_matches cb p) \<and> cpm_compile_feature_enabled p)"

definition permit_untouched :: "create_permit \<Rightarrow> bool" where
  "permit_untouched p = (\<not> cpm_mutation_enabled p \<and> \<not> cpm_process_spawned p
     \<and> \<not> cpm_partition_table_changed p \<and> \<not> cpm_filesystem_formatted p)"

text \<open>The permit repeats the whole scope of the activation.\<close>

definition permit_binds :: "create_permit \<Rightarrow> create_activation \<Rightarrow> bool" where
  "permit_binds p a =
     (cpm_activation_id p = ca_activation_id a \<and> cpm_create_intent_id p = ca_create_intent_id a
      \<and> cpm_create_plan_id p = ca_create_plan_id a \<and> cpm_source_id p = ca_source_id a \<and> cpm_disk p = ca_disk a
      \<and> cpm_disk_size_bytes p = ca_disk_size_bytes a \<and> cpm_logical_sector_bytes p = ca_logical_sector_bytes a
      \<and> cpm_partition_table p = ca_partition_table a
      \<and> cpm_partition_start_sector p = ca_partition_start_sector a
      \<and> cpm_partition_sector_count p = ca_partition_sector_count a
      \<and> cpm_partition_size_bytes p = ca_partition_size_bytes a \<and> cpm_filesystem p = ca_filesystem a)"

section \<open>The preflight\<close>

definition cpf_expected_receipt_id :: "'v create_basis \<Rightarrow> create_preflight \<Rightarrow> (string, string) result" where
  "cpf_expected_receipt_id cb f = cb_preflight_digest cb (f\<lparr>cpf_receipt_id := []\<rparr>)"

definition cpf_integrity_matches :: "'v create_basis \<Rightarrow> create_preflight \<Rightarrow> (string, bool) result" where
  "cpf_integrity_matches cb f = and_then (cpf_expected_receipt_id cb f) (\<lambda>d. Inr (cpf_receipt_id f = d))"

definition preflight_validate_authorization ::
  "'v create_basis \<Rightarrow> create_activation \<Rightarrow> create_permit \<Rightarrow> (create_preflight_error, unit) result" where
  "preflight_validate_authorization cb a p = first_error
     [require (activation_sealed cb a \<and> permit_sealed cb p) CfeAuthorizationInvalid,
      require (activation_untouched a \<and> permit_untouched p) CfeUpstreamAlreadyEnabled,
      require (permit_binds p a) CfeAuthorizationBindingMismatch]"

text \<open>The disk of the activation in the fresh snapshot: the same disk, and nothing uses it.\<close>

definition same_disk :: "create_activation \<Rightarrow> block_device \<Rightarrow> bool" where
  "same_disk a d =
     (disk_or_loop d \<and> bd_size_bytes d = ca_disk_size_bytes a \<and> bd_logical_sector_bytes d = Some (ca_logical_sector_bytes a)
      \<and> bd_model d = ca_disk_model a \<and> bd_serial d = ca_disk_serial a)"

definition disk_in_use :: "host_snapshot \<Rightarrow> string \<Rightarrow> block_device \<Rightarrow> bool" where
  "disk_in_use snapshot path d =
     (bd_children d \<noteq> [] \<or> bd_filesystem d \<noteq> None \<or> bd_partition_table d \<noteq> None \<or> bd_mountpoints d \<noteq> []
      \<or> bd_parent_kernel_name d \<noteq> None
      \<or> list_ex (\<lambda>m. me_source m = Some path) (hs_mounts snapshot)
      \<or> list_ex (\<lambda>e. fe_source e = path) (hs_fstab snapshot)
      \<or> list_ex (\<lambda>e. se_name e = path) (hs_swaps snapshot)
      \<or> list_ex (\<lambda>t. pt_device t = path) (hs_partition_tables snapshot))"

definition activation_geometry_ok :: "create_activation \<Rightarrow> bool" where
  "activation_geometry_ok a =
     (ca_logical_sector_bytes a \<noteq> 0
      \<and> (case checked_add (ca_partition_start_sector a) (ca_partition_sector_count a) of
           None \<Rightarrow> False
         | Some end_sector \<Rightarrow>
             ca_partition_start_sector a \<noteq> 0 \<and> ca_partition_sector_count a \<noteq> 0
             \<and> end_sector \<le> ca_disk_size_bytes a div ca_logical_sector_bytes a
             \<and> checked_mul (ca_partition_sector_count a) (ca_logical_sector_bytes a) = Some (ca_partition_size_bytes a)))"

definition top_disk :: "host_snapshot \<Rightarrow> string \<Rightarrow> block_device option" where
  "top_disk snapshot path = single (filter (\<lambda>d. bd_path d = Some path) (sg_block_devices (hs_storage snapshot)))"

definition validate_fresh_blank_disk ::
  "create_activation \<Rightarrow> host_snapshot \<Rightarrow> (create_preflight_error, unit) result" where
  "validate_fresh_blank_disk a snapshot =
     (if \<not> collector_complete snapshot ''partition_tables'' then Inl CfePartitionCollectorIncomplete
      else case top_disk snapshot (ca_disk a) of
        None \<Rightarrow> Inl CfeBlankDiskChanged
      | Some d \<Rightarrow> first_error
          [require (same_disk a d) CfeBlankDiskChanged,
           require (\<not> disk_in_use snapshot (ca_disk a) d) CfeBlankDiskNoLongerBlank,
           require (activation_geometry_ok a) CfeBlankDiskChanged])"

definition mkfs_program :: "string \<Rightarrow> (create_preflight_error, privileged_program) result" where
  "mkfs_program filesystem =
     (if filesystem = ''ext4'' then Inr PpMkfsExt4 else if filesystem = ''xfs'' then Inr PpMkfsXfs
      else Inl CfeAuthorizationBindingMismatch)"

definition prepare_from_snapshot_inner ::
  "'v create_basis \<Rightarrow> (nat \<Rightarrow> os_view) \<Rightarrow> create_activation \<Rightarrow> create_permit \<Rightarrow> pinned_consent \<Rightarrow> host_snapshot
     \<Rightarrow> ('s, create_preflight_error, create_preflight) os_action" where
  "prepare_from_snapshot_inner cb os a p lease snapshot =
     (if \<not> cb_preflight_compiled cb then act_lift (Inl CfeFeatureDisabled)
      else
        act_then (act_lift (preflight_validate_authorization cb a p))
       (act_then (act_lift (validate_fresh_blank_disk a snapshot))
       (act_bind (act_map_err CfeConsent (revalidate_pinned_production_create_consent cb os a lease)) (\<lambda>consent.
        act_then (act_ensure (ccr_receipt_id consent = cpm_consent_receipt_id p) CfeAuthorizationBindingMismatch)
       (act_bind (act_map_err CfeTool (resolve_trusted_privileged_tool (cb_sha cb) os PpSfdisk)) (\<lambda>sfdisk.
        act_bind (act_map_err CfeTool (resolve_trusted_privileged_tool (cb_sha cb) os PpPartx)) (\<lambda>partx.
        act_bind (act_lift (mkfs_program (ca_filesystem a))) (\<lambda>program.
        act_bind (act_map_err CfeTool (resolve_trusted_privileged_tool (cb_sha cb) os program)) (\<lambda>mkfs.
        let f = \<lparr> cpf_schema_version = 1, cpf_receipt_id = [], cpf_activation_id = ca_activation_id a,
            cpf_execution_permit_id = cpm_permit_id p, cpf_consent_receipt_id = ccr_receipt_id consent,
            cpf_create_intent_id = ca_create_intent_id a, cpf_disk = ca_disk a,
            cpf_disk_size_bytes = ca_disk_size_bytes a, cpf_logical_sector_bytes = ca_logical_sector_bytes a,
            cpf_partition_table = ca_partition_table a, cpf_partition_start_sector = ca_partition_start_sector a,
            cpf_partition_sector_count = ca_partition_sector_count a,
            cpf_partition_size_bytes = ca_partition_size_bytes a, cpf_filesystem = ca_filesystem a,
            cpf_sfdisk = sfdisk, cpf_partx = partx, cpf_mkfs = mkfs, cpf_runtime_ready = True,
            cpf_mutation_enabled = False, cpf_process_spawned = False, cpf_partition_table_changed = False,
            cpf_filesystem_formatted = False \<rparr> in
        act_lift (and_then (map_err CfeSerialization (cpf_expected_receipt_id cb f)) (\<lambda>d.
          Inr (f\<lparr>cpf_receipt_id := d\<rparr>))))))))))))"

definition prepare_production_create_runtime_preflight ::
  "'v create_basis \<Rightarrow> (nat \<Rightarrow> os_view) \<Rightarrow> create_activation \<Rightarrow> create_permit \<Rightarrow> pinned_consent
     \<Rightarrow> ('s, create_preflight_error, create_preflight) os_action" where
  "prepare_production_create_runtime_preflight cb os a p lease =
     act_bind (act_map_err CfeDiscovery (os_call os ov_discover)) (\<lambda>snapshot.
     prepare_from_snapshot_inner cb os a p lease snapshot)"

definition preflight_untouched :: "create_preflight \<Rightarrow> bool" where
  "preflight_untouched f = (\<not> cpf_mutation_enabled f \<and> \<not> cpf_process_spawned f
     \<and> \<not> cpf_partition_table_changed f \<and> \<not> cpf_filesystem_formatted f)"

definition preflight_sealed :: "'v create_basis \<Rightarrow> create_preflight \<Rightarrow> bool" where
  "preflight_sealed cb f = (cpf_schema_version f = 1 \<and> ok_true (cpf_integrity_matches cb f) \<and> cpf_runtime_ready f)"

section \<open>The lease of the tools\<close>

definition validate_preflight :: "'v create_basis \<Rightarrow> create_preflight \<Rightarrow> (tool_lease_error, unit) result" where
  "validate_preflight cb f =
     (if \<not> (preflight_sealed cb f \<and> preflight_untouched f) then Inl TlePreflightInvalid
      else case mkfs_program (cpf_filesystem f) of
        Inl _ \<Rightarrow> Inl TleProgramMismatch
      | Inr mkfs_expected \<Rightarrow>
          require (tti_program (cpf_sfdisk f) = PpSfdisk \<and> tti_program (cpf_partx f) = PpPartx
            \<and> tti_program (cpf_mkfs f) = mkfs_expected) TleProgramMismatch)"

definition tool_stat_matches :: "trusted_tool_identity \<Rightarrow> file_stat \<Rightarrow> bool" where
  "tool_stat_matches i m =
     (fst_kind m = FkRegular \<and> fst_dev m = tti_device_id i \<and> fst_ino m = tti_inode i \<and> fst_uid m = tti_uid i
      \<and> fst_mode m = tti_mode i \<and> fst_len m = tti_size_bytes i)"

definition validate_open_tool ::
  "'v create_basis \<Rightarrow> (nat \<Rightarrow> os_view) \<Rightarrow> nat \<Rightarrow> trusted_tool_identity \<Rightarrow> ('s, tool_lease_error, unit) os_action" where
  "validate_open_tool cb os fd identity =
     act_bind (act_map_err TleIo (os_call os (\<lambda>v. ov_fstat v fd))) (\<lambda>m.
     act_then (act_ensure (tool_stat_matches identity m) TleToolIdentityMismatch)
    (act_bind (act_map_err TleIo (tool_sha256_file (cb_sha cb) os fd (tti_size_bytes identity))) (\<lambda>digest.
     act_ensure (digest = tti_sha256 identity) TleToolIdentityMismatch)))"

definition open_exact_tool ::
  "'v create_basis \<Rightarrow> (nat \<Rightarrow> os_view) \<Rightarrow> trusted_tool_identity \<Rightarrow> ('s, tool_lease_error, nat) os_action" where
  "open_exact_tool cb os identity =
     act_bind (act_map_err TleIo (os_call os (\<lambda>v. ov_open v (tti_canonical_path identity)))) (\<lambda>fd.
     act_then (validate_open_tool cb os fd identity) (act_lift (Inr fd)))"

definition pin_production_create_tools ::
  "'v create_basis \<Rightarrow> (nat \<Rightarrow> os_view) \<Rightarrow> create_preflight \<Rightarrow> ('s, tool_lease_error, pinned_tools) os_action" where
  "pin_production_create_tools cb os f =
     act_then (act_lift (validate_preflight cb f))
    (act_bind (open_exact_tool cb os (cpf_sfdisk f)) (\<lambda>sfdisk_file.
     act_bind (open_exact_tool cb os (cpf_partx f)) (\<lambda>partx_file.
     act_bind (open_exact_tool cb os (cpf_mkfs f)) (\<lambda>mkfs_file.
     act_lift (Inr \<lparr> pct_preflight_receipt_id = cpf_receipt_id f, pct_sfdisk = cpf_sfdisk f,
       pct_partx = cpf_partx f, pct_mkfs = cpf_mkfs f, pct_sfdisk_file = sfdisk_file,
       pct_partx_file = partx_file, pct_mkfs_file = mkfs_file \<rparr>)))))"

definition tools_revalidate ::
  "'v create_basis \<Rightarrow> (nat \<Rightarrow> os_view) \<Rightarrow> pinned_tools \<Rightarrow> create_preflight \<Rightarrow> ('s, tool_lease_error, unit) os_action" where
  "tools_revalidate cb os tools f =
     act_then (act_lift (validate_preflight cb f))
    (act_then (act_ensure (pct_preflight_receipt_id tools = cpf_receipt_id f \<and> pct_sfdisk tools = cpf_sfdisk f
        \<and> pct_partx tools = cpf_partx f \<and> pct_mkfs tools = cpf_mkfs f) TlePreflightInvalid)
    (act_then (validate_open_tool cb os (pct_sfdisk_file tools) (pct_sfdisk tools))
    (act_then (validate_open_tool cb os (pct_partx_file tools) (pct_partx tools))
     (validate_open_tool cb os (pct_mkfs_file tools) (pct_mkfs tools)))))"

section \<open>The launch contract\<close>

definition FIXED_PATH :: string where
  "FIXED_PATH = ''/usr/sbin:/usr/bin:/sbin:/bin''"

definition FIXED_LOCALE :: string where
  "FIXED_LOCALE = ''C''"

definition GPT_LINUX_FILESYSTEM_TYPE :: string where
  "GPT_LINUX_FILESYSTEM_TYPE = ''0FC63DAF-8483-4772-8E79-3D69D8477DE4''"

definition DOS_LINUX_FILESYSTEM_TYPE :: string where
  "DOS_LINUX_FILESYSTEM_TYPE = ''83''"

definition cls_expected_launch_id :: "'v create_basis \<Rightarrow> create_launch \<Rightarrow> (string, string) result" where
  "cls_expected_launch_id cb l = cb_launch_digest cb (l\<lparr>cls_launch_id := []\<rparr>)"

definition cls_integrity_matches :: "'v create_basis \<Rightarrow> create_launch \<Rightarrow> (string, bool) result" where
  "cls_integrity_matches cb l = and_then (cls_expected_launch_id cb l) (\<lambda>d. Inr (cls_launch_id l = d))"

definition validate_text :: "string \<Rightarrow> (create_launch_error, unit) result" where
  "validate_text value = require (CHR 0x00 \<notin> set value) CxeEmbeddedNul"

definition partition_device :: "string \<Rightarrow> (create_launch_error, string) result" where
  "partition_device disk =
     (if \<not> starts_with ''/dev/'' disk \<or> CHR 0x00 \<in> set disk \<or> length disk \<le> length ''/dev/'' \<or> last disk = CHR ''/''
      then Inl CxePartitionPathInvalid
      else Inr (disk @ (if is_ascii_digit (last disk) then ''p1'' else ''1'')))"

definition newline :: string where
  "newline = [CHR 0x0A]"

definition sfdisk_script ::
  "create_partition_table_policy \<Rightarrow> u64 \<Rightarrow> u64 \<Rightarrow> (create_launch_error, string) result" where
  "sfdisk_script policy start count =
     (if start = 0 \<or> count = 0 then Inl CxeBindingMismatch
      else case (case policy of CptGpt \<Rightarrow> (''gpt'', GPT_LINUX_FILESYSTEM_TYPE)
                  | CptDos \<Rightarrow> (''dos'', DOS_LINUX_FILESYSTEM_TYPE)) of
        (label, partition_type) \<Rightarrow>
          Inr (''label: '' @ label @ newline @ ''unit: sectors'' @ newline @ newline
            @ ''start='' @ show_word start @ '', size='' @ show_word count @ '', type='' @ partition_type @ newline))"

definition stage_text_ok :: "string list \<Rightarrow> string option \<Rightarrow> (create_launch_error, unit) result" where
  "stage_text_ok argv stdin =
     first_error (map validate_text (argv @ (case stdin of None \<Rightarrow> [] | Some payload \<Rightarrow> [payload])))"

definition launch_stage_of ::
  "'v create_basis \<Rightarrow> (nat \<Rightarrow> os_view) \<Rightarrow> privileged_program \<Rightarrow> string list \<Rightarrow> trusted_tool_identity \<Rightarrow> nat
     \<Rightarrow> string option \<Rightarrow> ('s, create_launch_error, launch_stage) os_action" where
  "launch_stage_of cb os program argv identity fd stdin =
     act_then (act_ensure (tti_program identity = program) CxeProgramMismatch)
    (act_then (act_lift (stage_text_ok argv stdin))
    (act_bind (act_map_err CxeExecutable (inspect_elf os fd)) (\<lambda>elf.
     act_lift (Inr \<lparr> lst_program = program, lst_argv = argv, lst_executable = identity, lst_elf = elf,
       lst_stdin_len = (case stdin of None \<Rightarrow> 0 | Some payload \<Rightarrow> of_nat (length payload)),
       lst_stdin_sha256 = map_option (cb_sha cb) stdin \<rparr>))))"

text \<open>The preflight repeats the scope of the activation and names the permit.\<close>

definition preflight_binds :: "create_preflight \<Rightarrow> create_permit \<Rightarrow> create_activation \<Rightarrow> bool" where
  "preflight_binds f p a =
     (cpf_activation_id f = ca_activation_id a \<and> cpf_execution_permit_id f = cpm_permit_id p
      \<and> cpf_create_intent_id f = ca_create_intent_id a \<and> cpf_disk f = ca_disk a
      \<and> cpf_disk_size_bytes f = ca_disk_size_bytes a \<and> cpf_logical_sector_bytes f = ca_logical_sector_bytes a
      \<and> cpf_partition_table f = ca_partition_table a
      \<and> cpf_partition_start_sector f = ca_partition_start_sector a
      \<and> cpf_partition_sector_count f = ca_partition_sector_count a
      \<and> cpf_partition_size_bytes f = ca_partition_size_bytes a \<and> cpf_filesystem f = ca_filesystem a)"

definition validate_bindings ::
  "'v create_basis \<Rightarrow> create_activation \<Rightarrow> create_permit \<Rightarrow> create_preflight \<Rightarrow> (create_launch_error, unit) result" where
  "validate_bindings cb a p f = first_error
     [require (activation_sealed cb a \<and> permit_sealed cb p \<and> preflight_sealed cb f
         \<and> activation_untouched a \<and> permit_untouched p \<and> preflight_untouched f) CxeAuthorizationInvalid,
      require (permit_binds p a \<and> preflight_binds f p a) CxeBindingMismatch]"

definition expected_mkfs_program :: "string \<Rightarrow> (create_launch_error, privileged_program) result" where
  "expected_mkfs_program filesystem =
     (if filesystem = ''ext4'' then Inr PpMkfsExt4 else if filesystem = ''xfs'' then Inr PpMkfsXfs
      else Inl CxeBindingMismatch)"

definition sfdisk_argv :: "string \<Rightarrow> string list" where
  "sfdisk_argv disk = [''sfdisk'', ''--lock=yes'', ''--no-reread'', ''--no-tell-kernel'', disk]"

definition partx_argv :: "string \<Rightarrow> string list" where
  "partx_argv disk = [''partx'', ''--add'', ''--nr'', ''1'', disk]"

definition mkfs_argv :: "string \<Rightarrow> string \<Rightarrow> (create_launch_error, string list) result" where
  "mkfs_argv filesystem device =
     (if filesystem = ''ext4'' then Inr [''mkfs.ext4'', ''-F'', device]
      else if filesystem = ''xfs'' then Inr [''mkfs.xfs'', ''-f'', device]
      else Inl CxeBindingMismatch)"

text \<open>The partition, the script and the arguments of \<open>mkfs\<close>; the other two argument lists are functions of the disk.\<close>

definition exact_stage_inputs ::
  "create_activation \<Rightarrow> (create_launch_error, string \<times> string \<times> string list \<times> string list \<times> string list) result" where
  "exact_stage_inputs a =
     and_then (partition_device (ca_disk a)) (\<lambda>device.
     and_then (sfdisk_script (ca_partition_table a) (ca_partition_start_sector a) (ca_partition_sector_count a)) (\<lambda>script.
     and_then (mkfs_argv (ca_filesystem a) device) (\<lambda>mkfs.
     Inr (device, script, sfdisk_argv (ca_disk a), partx_argv (ca_disk a), mkfs))))"

definition build_production_create_runtime_launch_spec ::
  "'v create_basis \<Rightarrow> (nat \<Rightarrow> os_view) \<Rightarrow> create_activation \<Rightarrow> create_permit \<Rightarrow> create_preflight \<Rightarrow> pinned_tools
     \<Rightarrow> ('s, create_launch_error, create_launch) os_action" where
  "build_production_create_runtime_launch_spec cb os a p f tools =
     (if \<not> cb_launch_compiled cb then act_lift (Inl CxeFeatureDisabled)
      else
        act_then (act_lift (validate_bindings cb a p f))
       (act_then (act_map_err CxeToolLease (tools_revalidate cb os tools f))
       (act_bind (act_lift (exact_stage_inputs a)) (\<lambda>(device, script, sfdisk_args, partx_args, mkfs_args).
        act_bind (act_lift (expected_mkfs_program (ca_filesystem a))) (\<lambda>program.
        act_bind (launch_stage_of cb os PpSfdisk sfdisk_args (cpf_sfdisk f) (pct_sfdisk_file tools) (Some script)) (\<lambda>sfdisk.
        act_bind (launch_stage_of cb os PpPartx partx_args (cpf_partx f) (pct_partx_file tools) None) (\<lambda>partx.
        act_bind (launch_stage_of cb os program mkfs_args (cpf_mkfs f) (pct_mkfs_file tools) None) (\<lambda>mkfs.
        let l = \<lparr> cls_schema_version = 1, cls_launch_id = [], cls_activation_id = ca_activation_id a,
            cls_execution_permit_id = cpm_permit_id p, cls_preflight_receipt_id = cpf_receipt_id f,
            cls_create_intent_id = ca_create_intent_id a, cls_disk = ca_disk a, cls_partition_device = device,
            cls_partition_table = ca_partition_table a, cls_partition_start_sector = ca_partition_start_sector a,
            cls_partition_sector_count = ca_partition_sector_count a,
            cls_partition_size_bytes = ca_partition_size_bytes a, cls_filesystem = ca_filesystem a,
            cls_sfdisk_script = script, cls_sfdisk = sfdisk, cls_partx = partx, cls_mkfs = mkfs,
            cls_fixed_path = FIXED_PATH, cls_fixed_locale = FIXED_LOCALE, cls_descriptor_exec_api = ''fexecve'',
            cls_require_partition_rediscovery_before_mkfs = True, cls_mutation_enabled = False,
            cls_process_spawned = False, cls_partition_table_changed = False, cls_filesystem_formatted = False \<rparr> in
        act_lift (and_then (map_err CxeSerialization (cls_expected_launch_id cb l)) (\<lambda>d.
          Inr (l\<lparr>cls_launch_id := d\<rparr>)))))))))))"

definition launch_untouched :: "create_launch \<Rightarrow> bool" where
  "launch_untouched l = (\<not> cls_mutation_enabled l \<and> \<not> cls_process_spawned l
     \<and> \<not> cls_partition_table_changed l \<and> \<not> cls_filesystem_formatted l)"

section \<open>The first journal record\<close>

definition journal_validate_authorization ::
  "'v create_basis \<Rightarrow> create_activation \<Rightarrow> create_permit \<Rightarrow> create_preflight \<Rightarrow> create_launch \<Rightarrow> (create_error, unit) result" where
  "journal_validate_authorization cb a p f l = first_error
     [require (ca_schema_version a = 1 \<and> cpm_schema_version p = 1 \<and> cpf_schema_version f = 1 \<and> cls_schema_version l = 1
         \<and> ok_true (ca_integrity_matches cb a) \<and> ok_true (cpm_integrity_matches cb p)
         \<and> ok_true (cpf_integrity_matches cb f) \<and> ok_true (cls_integrity_matches cb l)
         \<and> cpf_runtime_ready f \<and> \<not> ca_execution_enabled a \<and> \<not> cpm_mutation_enabled p \<and> \<not> cpm_process_spawned p
         \<and> \<not> cpf_mutation_enabled f \<and> \<not> cpf_process_spawned f \<and> launch_untouched l
         \<and> cls_require_partition_rediscovery_before_mkfs l) RjeAuthorizationInvalid,
      require (cpm_activation_id p = ca_activation_id a \<and> cpf_activation_id f = ca_activation_id a
         \<and> cls_activation_id l = ca_activation_id a \<and> cpf_execution_permit_id f = cpm_permit_id p
         \<and> cls_execution_permit_id l = cpm_permit_id p \<and> cls_preflight_receipt_id l = cpf_receipt_id f
         \<and> cpm_create_intent_id p = ca_create_intent_id a \<and> cpf_create_intent_id f = ca_create_intent_id a
         \<and> cls_create_intent_id l = ca_create_intent_id a \<and> cls_disk l = ca_disk a
         \<and> cls_partition_table l = ca_partition_table a
         \<and> cls_partition_start_sector l = ca_partition_start_sector a
         \<and> cls_partition_sector_count l = ca_partition_sector_count a
         \<and> cls_partition_size_bytes l = ca_partition_size_bytes a \<and> cls_filesystem l = ca_filesystem a)
        RjeBindingMismatch]"

definition partition_table_name :: "create_partition_table_policy \<Rightarrow> string" where
  "partition_table_name policy = (case policy of CptGpt \<Rightarrow> ''gpt'' | CptDos \<Rightarrow> ''dos'')"

definition build_production_create_runtime_journal ::
  "'v create_basis \<Rightarrow> create_activation \<Rightarrow> create_permit \<Rightarrow> create_preflight \<Rightarrow> create_launch
     \<Rightarrow> (create_error, create_journal) result" where
  "build_production_create_runtime_journal cb a p f l =
     (if \<not> cb_journal_compiled cb then Inl RjeFeatureDisabled
      else
        and_then (journal_validate_authorization cb a p f l) (\<lambda>_.
        let j = \<lparr> cj_schema_version = 1, cj_journal_id = [], cj_activation_id = ca_activation_id a,
            cj_execution_permit_id = cpm_permit_id p, cj_preflight_receipt_id = cpf_receipt_id f,
            cj_launch_id = cls_launch_id l, cj_create_intent_id = ca_create_intent_id a, cj_disk = ca_disk a,
            cj_partition_device = cls_partition_device l, cj_partition_table = partition_table_name (ca_partition_table a),
            cj_partition_start_sector = ca_partition_start_sector a,
            cj_partition_sector_count = ca_partition_sector_count a,
            cj_partition_size_bytes = ca_partition_size_bytes a, cj_filesystem = ca_filesystem a,
            cj_phase = CpPrepared, cj_mutation_may_have_started = False, cj_partition_table_may_have_changed = False,
            cj_filesystem_may_have_changed = False, cj_events = [] \<rparr> in
        and_then (map_err (\<lambda>_. RjeDecode) (create_expected_journal_id (cb_journal_digest cb) j)) (\<lambda>d.
        let j = j\<lparr>cj_journal_id := d\<rparr> in
        and_then (create_validate_journal (cb_journal_digest cb) j) (\<lambda>_. Inr j))))"

section \<open>What the chain establishes\<close>

lemma validate_open_tool_ok:
  assumes "validate_open_tool cb os fd i s = (Inr u, s')"
  shows "\<exists>m. ov_fstat (os (os_calls s)) fd = Inr m \<and> tool_stat_matches i m"
  using assms by (auto simp: validate_open_tool_def act_Inr os_call_def)

lemma launch_stage_ok:
  assumes "launch_stage_of cb os program argv i fd stdin s = (Inr st, s')"
  shows "lst_program st = program \<and> lst_argv st = argv \<and> lst_executable st = i \<and> tti_program i = program
    \<and> lst_stdin_sha256 st = map_option (cb_sha cb) stdin \<and> (\<forall>t\<in>set argv. CHR 0x00 \<notin> set t)
    \<and> lst_stdin_len st = (case stdin of None \<Rightarrow> 0 | Some payload \<Rightarrow> of_nat (length payload))"
  using assms
  by (auto simp: launch_stage_of_def act_Inr stage_text_ok_def first_error_ok validate_text_def require_def split: if_splits)

lemma mkfs_argv_Inr:
  "mkfs_argv filesystem device = Inr args \<longleftrightarrow>
     filesystem = ''ext4'' \<and> args = [''mkfs.ext4'', ''-F'', device] \<or> filesystem = ''xfs'' \<and> args = [''mkfs.xfs'', ''-f'', device]"
  by (auto simp: mkfs_argv_def)

lemma create_launch_fields:
  assumes "build_production_create_runtime_launch_spec cb os a p f tools s = (Inr l, s')"
  shows "validate_bindings cb a p f = Inr ()" "cls_disk l = ca_disk a"
    "partition_device (ca_disk a) = Inr (cls_partition_device l)"
    "sfdisk_script (ca_partition_table a) (ca_partition_start_sector a) (ca_partition_sector_count a)
       = Inr (cls_sfdisk_script l)"
    "lst_program (cls_sfdisk l) = PpSfdisk \<and> lst_argv (cls_sfdisk l) = sfdisk_argv (ca_disk a)
       \<and> lst_executable (cls_sfdisk l) = cpf_sfdisk f \<and> lst_stdin_sha256 (cls_sfdisk l) = Some (cb_sha cb (cls_sfdisk_script l))"
    "lst_program (cls_partx l) = PpPartx \<and> lst_argv (cls_partx l) = partx_argv (ca_disk a)
       \<and> lst_executable (cls_partx l) = cpf_partx f \<and> lst_stdin_sha256 (cls_partx l) = None"
    "mkfs_argv (ca_filesystem a) (cls_partition_device l) = Inr (lst_argv (cls_mkfs l))
       \<and> lst_executable (cls_mkfs l) = cpf_mkfs f \<and> lst_stdin_sha256 (cls_mkfs l) = None"
    "launch_untouched l" "cls_require_partition_rediscovery_before_mkfs l"
    "cb_launch_digest cb (l\<lparr>cls_launch_id := []\<rparr>) = Inr (cls_launch_id l)"
  using assms
  by (auto simp: build_production_create_runtime_launch_spec_def act_Inr Let_def exact_stage_inputs_def and_then_Inr
      cls_expected_launch_id_def map_err_Inr launch_untouched_def dest!: launch_stage_ok split: if_splits)

text \<open>The tools of a contract: each was verified through its pinned descriptor in the run that builds the contract, and
  its executable format was read from that same descriptor.\<close>

lemma tools_revalidate_Inr:
  assumes "tools_revalidate cb os tools f s = (Inr u, s')"
  shows "pct_sfdisk tools = cpf_sfdisk f \<and> pct_partx tools = cpf_partx f \<and> pct_mkfs tools = cpf_mkfs f
    \<and> pct_preflight_receipt_id tools = cpf_receipt_id f
    \<and> (\<exists>s1 s2. validate_open_tool cb os (pct_sfdisk_file tools) (pct_sfdisk tools) s = (Inr (), s1)
         \<and> validate_open_tool cb os (pct_partx_file tools) (pct_partx tools) s1 = (Inr (), s2)
         \<and> validate_open_tool cb os (pct_mkfs_file tools) (pct_mkfs tools) s2 = (Inr (), s'))"
  using assms by (auto simp: tools_revalidate_def act_Inr)

lemma launch_stage_elf:
  assumes "launch_stage_of cb os program argv i fd stdin s = (Inr st, s')"
  shows "inspect_elf os fd s = (Inr (lst_elf st), s')"
  using assms by (auto simp: launch_stage_of_def act_Inr)

lemma create_launch_tools:
  assumes "build_production_create_runtime_launch_spec cb os a p f tools s = (Inr l, s')"
  shows "lst_executable (cls_sfdisk l) = pct_sfdisk tools \<and> lst_executable (cls_partx l) = pct_partx tools
    \<and> lst_executable (cls_mkfs l) = pct_mkfs tools
    \<and> pct_sfdisk tools = cpf_sfdisk f \<and> pct_partx tools = cpf_partx f \<and> pct_mkfs tools = cpf_mkfs f
    \<and> lst_program (cls_sfdisk l) = PpSfdisk \<and> lst_program (cls_partx l) = PpPartx
    \<and> expected_mkfs_program (ca_filesystem a) = Inr (lst_program (cls_mkfs l))
    \<and> tti_program (pct_sfdisk tools) = PpSfdisk \<and> tti_program (pct_partx tools) = PpPartx
    \<and> tti_program (pct_mkfs tools) = lst_program (cls_mkfs l)
    \<and> (\<exists>s1 s2 s3 s4 s5. validate_open_tool cb os (pct_sfdisk_file tools) (pct_sfdisk tools) s = (Inr (), s1)
         \<and> validate_open_tool cb os (pct_partx_file tools) (pct_partx tools) s1 = (Inr (), s2)
         \<and> validate_open_tool cb os (pct_mkfs_file tools) (pct_mkfs tools) s2 = (Inr (), s3)
         \<and> inspect_elf os (pct_sfdisk_file tools) s3 = (Inr (lst_elf (cls_sfdisk l)), s4)
         \<and> inspect_elf os (pct_partx_file tools) s4 = (Inr (lst_elf (cls_partx l)), s5)
         \<and> inspect_elf os (pct_mkfs_file tools) s5 = (Inr (lst_elf (cls_mkfs l)), s'))"
proof -
  from assms obtain device script argv program s3 s4 s5 where
    r: "tools_revalidate cb os tools f s = (Inr (), s3)" "expected_mkfs_program (ca_filesystem a) = Inr program"
      "launch_stage_of cb os PpSfdisk (sfdisk_argv (ca_disk a)) (cpf_sfdisk f) (pct_sfdisk_file tools) (Some script) s3
         = (Inr (cls_sfdisk l), s4)"
      "launch_stage_of cb os PpPartx (partx_argv (ca_disk a)) (cpf_partx f) (pct_partx_file tools) None s4 = (Inr (cls_partx l), s5)"
      "launch_stage_of cb os program argv (cpf_mkfs f) (pct_mkfs_file tools) None s5 = (Inr (cls_mkfs l), s')"
    by (auto simp: build_production_create_runtime_launch_spec_def act_Inr Let_def exact_stage_inputs_def and_then_Inr
      map_err_Inr split: if_splits)
  from tools_revalidate_Inr[OF r(1)] launch_stage_ok[OF r(3)] launch_stage_ok[OF r(4)] launch_stage_ok[OF r(5)]
    launch_stage_elf[OF r(3)] launch_stage_elf[OF r(4)] launch_stage_elf[OF r(5)] r(2)
  show ?thesis by (elim conjE exE) (intro conjI exI; (assumption | simp))
qed

lemma preflight_tools:
  assumes "prepare_production_create_runtime_preflight cb os a p lease s = (Inr f, s')"
  shows "\<exists>snapshot consent program s1 s2 s3 s4. os_call os ov_discover s = (Inr snapshot, s1)
    \<and> revalidate_pinned_production_create_consent cb os a lease s1 = (Inr consent, s2)
    \<and> ccr_receipt_id consent = cpm_consent_receipt_id p
    \<and> resolve_trusted_privileged_tool (cb_sha cb) os PpSfdisk s2 = (Inr (cpf_sfdisk f), s3)
    \<and> resolve_trusted_privileged_tool (cb_sha cb) os PpPartx s3 = (Inr (cpf_partx f), s4)
    \<and> mkfs_program (ca_filesystem a) = Inr program
    \<and> resolve_trusted_privileged_tool (cb_sha cb) os program s4 = (Inr (cpf_mkfs f), s')"
  using assms
  by (fastforce simp: prepare_production_create_runtime_preflight_def prepare_from_snapshot_inner_def act_Inr Let_def
     and_then_Inr map_err_Inr split: if_splits)

lemma mkfs_program_expected: "mkfs_program t = Inr program \<longleftrightarrow> expected_mkfs_program t = Inr program"
  by (simp add: mkfs_program_def expected_mkfs_program_def)

lemma preflight_fields:
  assumes "prepare_production_create_runtime_preflight cb os a p lease s = (Inr f, s')"
  shows "\<exists>snapshot disk. ov_discover (os (os_calls s)) = Inr snapshot \<and> top_disk snapshot (ca_disk a) = Some disk
      \<and> same_disk a disk \<and> \<not> disk_in_use snapshot (ca_disk a) disk \<and> activation_geometry_ok a"
    "preflight_validate_authorization cb a p = Inr ()" "cpf_consent_receipt_id f = cpm_consent_receipt_id p"
  using assms
  by (auto simp: prepare_production_create_runtime_preflight_def prepare_from_snapshot_inner_def act_Inr Let_def
     and_then_Inr map_err_Inr os_call_def validate_fresh_blank_disk_def first_error_ok split: if_splits option.splits)


lemma seal_activation_fields:
  assumes "seal_production_create_activation_intent cb intent = Inr a"
  shows "ca_disk a = bdi_disk intent \<and> ca_partition_table a = bdi_partition_table intent
    \<and> ca_disk_size_bytes a = bdi_disk_size_bytes intent \<and> ca_logical_sector_bytes a = bdi_logical_sector_bytes intent
    \<and> ca_partition_start_sector a = bdi_partition_start_sector intent
    \<and> ca_partition_sector_count a = bdi_partition_sector_count intent
    \<and> ca_filesystem a = bdi_filesystem intent \<and> ca_create_intent_id a = bdi_intent_id intent"
    "bdi_ready intent" "exact_profile intent" "cb_intent_digest cb (intent\<lparr>bdi_intent_id := []\<rparr>) = Inr (bdi_intent_id intent)"
  using assms
  by (auto simp: seal_production_create_activation_intent_def and_then_Inr Let_def ok_true_iff bdi_integrity_matches_def
      bdi_expected_intent_id_def split: if_splits sum.splits)

lemma geometry_in_disk:
  assumes "activation_geometry_ok a"
  shows "unat (ca_partition_start_sector a) + unat (ca_partition_sector_count a)
    \<le> unat (ca_disk_size_bytes a) div unat (ca_logical_sector_bytes a)"
proof -
  obtain stop where s: "checked_add (ca_partition_start_sector a) (ca_partition_sector_count a) = Some stop"
    "stop \<le> ca_disk_size_bytes a div ca_logical_sector_bytes a"
    using assms by (auto simp: activation_geometry_ok_def split: option.splits)
  from s(2) checked_add_Some[OF s(1)] show ?thesis by (simp add: word_le_nat_alt unat_div)
qed

lemma build_journal_fields:
  assumes "build_production_create_runtime_journal cb a p f l = Inr j"
  shows "cj_disk j = ca_disk a \<and> cj_partition_device j = cls_partition_device l \<and> cj_launch_id j = cls_launch_id l
    \<and> cj_partition_start_sector j = ca_partition_start_sector a \<and> cj_partition_sector_count j = ca_partition_sector_count a
    \<and> cj_filesystem j = ca_filesystem a \<and> cj_create_intent_id j = ca_create_intent_id a" "create_fresh (cb_journal_digest cb) j"
  using assms
  by (auto simp: build_production_create_runtime_journal_def and_then_Inr Let_def create_fresh_def split: if_splits)

text \<open>C39: the launch contract of a create operation, with its first journal record, is the frozen intent
  run with the pinned tools, and nothing else. The intent digests to its identifier; the one snapshot the preflight
  discovered shows a single disk at its path, of its size, with no
  table, file system, child, mount, swap or fstab entry; the partition lies inside that disk; and the script of
  sfdisk and the arguments of partx and mkfs are those of the disk and geometry of the intent, while nothing is enabled yet.
  The executables of the three stages are sfdisk, partx and the mkfs of the intent's file system, in this order: each is
  the identity that the preflight resolved in the trusted directories, and the one pinned for this stage; building
  the contract found the file behind its pinned descriptor unchanged, by its status and digest, and read the executable format recorded for the
  stage from this descriptor.
  Between the steps the states are arbitrary.\<close>

theorem create_launch_of_frozen_intent:
  assumes "seal_production_create_activation_intent cb intent = Inr a"
    and "prepare_production_create_runtime_preflight cb os a p lease s1 = (Inr f, s2)"
    and "build_production_create_runtime_launch_spec cb os a p f tools s3 = (Inr l, s4)"
    and "build_production_create_runtime_journal cb a p f l = Inr j"
  shows "cb_intent_digest cb (intent\<lparr>bdi_intent_id := []\<rparr>) = Inr (bdi_intent_id intent)
    \<and> (\<exists>snapshot disk consent t1 t2 t3 t4. os_call os ov_discover s1 = (Inr snapshot, t1)
         \<and> top_disk snapshot (bdi_disk intent) = Some disk
         \<and> \<not> disk_in_use snapshot (bdi_disk intent) disk \<and> bd_size_bytes disk = bdi_disk_size_bytes intent
         \<and> revalidate_pinned_production_create_consent cb os a lease t1 = (Inr consent, t2)
         \<and> resolve_trusted_privileged_tool (cb_sha cb) os PpSfdisk t2 = (Inr (lst_executable (cls_sfdisk l)), t3)
         \<and> resolve_trusted_privileged_tool (cb_sha cb) os PpPartx t3 = (Inr (lst_executable (cls_partx l)), t4)
         \<and> resolve_trusted_privileged_tool (cb_sha cb) os (lst_program (cls_mkfs l)) t4
             = (Inr (lst_executable (cls_mkfs l)), s2))
    \<and> lst_program (cls_sfdisk l) = PpSfdisk \<and> lst_program (cls_partx l) = PpPartx
    \<and> expected_mkfs_program (bdi_filesystem intent) = Inr (lst_program (cls_mkfs l))
    \<and> tti_program (lst_executable (cls_sfdisk l)) = PpSfdisk \<and> tti_program (lst_executable (cls_partx l)) = PpPartx
    \<and> tti_program (lst_executable (cls_mkfs l)) = lst_program (cls_mkfs l)
    \<and> lst_executable (cls_sfdisk l) = pct_sfdisk tools \<and> lst_executable (cls_partx l) = pct_partx tools
    \<and> lst_executable (cls_mkfs l) = pct_mkfs tools
    \<and> (\<exists>t1 t2 t3 t4 t5.
           validate_open_tool cb os (pct_sfdisk_file tools) (lst_executable (cls_sfdisk l)) s3 = (Inr (), t1)
         \<and> validate_open_tool cb os (pct_partx_file tools) (lst_executable (cls_partx l)) t1 = (Inr (), t2)
         \<and> validate_open_tool cb os (pct_mkfs_file tools) (lst_executable (cls_mkfs l)) t2 = (Inr (), t3)
         \<and> inspect_elf os (pct_sfdisk_file tools) t3 = (Inr (lst_elf (cls_sfdisk l)), t4)
         \<and> inspect_elf os (pct_partx_file tools) t4 = (Inr (lst_elf (cls_partx l)), t5)
         \<and> inspect_elf os (pct_mkfs_file tools) t5 = (Inr (lst_elf (cls_mkfs l)), s4))
    \<and> unat (bdi_partition_start_sector intent) + unat (bdi_partition_sector_count intent)
        \<le> unat (bdi_disk_size_bytes intent) div unat (bdi_logical_sector_bytes intent)
    \<and> partition_device (bdi_disk intent) = Inr (cls_partition_device l)
    \<and> sfdisk_script (bdi_partition_table intent) (bdi_partition_start_sector intent) (bdi_partition_sector_count intent)
        = Inr (cls_sfdisk_script l)
    \<and> lst_argv (cls_sfdisk l) = sfdisk_argv (bdi_disk intent) \<and> lst_argv (cls_partx l) = partx_argv (bdi_disk intent)
    \<and> mkfs_argv (bdi_filesystem intent) (cls_partition_device l) = Inr (lst_argv (cls_mkfs l))
    \<and> lst_stdin_sha256 (cls_sfdisk l) = Some (cb_sha cb (cls_sfdisk_script l))
    \<and> lst_stdin_sha256 (cls_partx l) = None \<and> lst_stdin_sha256 (cls_mkfs l) = None
    \<and> launch_untouched l \<and> create_fresh (cb_journal_digest cb) j \<and> cj_launch_id j = cls_launch_id l
    \<and> cj_disk j = bdi_disk intent \<and> cj_partition_device j = cls_partition_device l"
proof -
  note s = seal_activation_fields[OF assms(1)] and l = create_launch_fields[OF assms(3)]
    and j = build_journal_fields[OF assms(4)] and t = create_launch_tools[OF assms(3)]
  from preflight_fields(1)[OF assms(2)] obtain snapshot disk where d: "ov_discover (os (os_calls s1)) = Inr snapshot"
    "top_disk snapshot (ca_disk a) = Some disk" "same_disk a disk" "\<not> disk_in_use snapshot (ca_disk a) disk"
    "activation_geometry_ok a" by blast
  from preflight_tools[OF assms(2)] obtain snapshot' consent program t1 t2 t3 t4 where r:
    "os_call os ov_discover s1 = (Inr snapshot', t1)" "revalidate_pinned_production_create_consent cb os a lease t1 = (Inr consent, t2)"
    "resolve_trusted_privileged_tool (cb_sha cb) os PpSfdisk t2 = (Inr (cpf_sfdisk f), t3)"
    "resolve_trusted_privileged_tool (cb_sha cb) os PpPartx t3 = (Inr (cpf_partx f), t4)"
    "mkfs_program (ca_filesystem a) = Inr program"
    "resolve_trusted_privileged_tool (cb_sha cb) os program t4 = (Inr (cpf_mkfs f), s2)" by blast
  have same: "snapshot' = snapshot" using r(1) d(1) by (simp add: os_call_def)
  have "program = lst_program (cls_mkfs l)" using r(5) t by (simp add: mkfs_program_expected)
  moreover have "bd_size_bytes disk = ca_disk_size_bytes a" using d(3) by (simp add: same_disk_def)
  ultimately have preflight: "\<exists>snapshot disk consent t1 t2 t3 t4. os_call os ov_discover s1 = (Inr snapshot, t1)
         \<and> top_disk snapshot (bdi_disk intent) = Some disk
         \<and> \<not> disk_in_use snapshot (bdi_disk intent) disk \<and> bd_size_bytes disk = bdi_disk_size_bytes intent
         \<and> revalidate_pinned_production_create_consent cb os a lease t1 = (Inr consent, t2)
         \<and> resolve_trusted_privileged_tool (cb_sha cb) os PpSfdisk t2 = (Inr (lst_executable (cls_sfdisk l)), t3)
         \<and> resolve_trusted_privileged_tool (cb_sha cb) os PpPartx t3 = (Inr (lst_executable (cls_partx l)), t4)
         \<and> resolve_trusted_privileged_tool (cb_sha cb) os (lst_program (cls_mkfs l)) t4
             = (Inr (lst_executable (cls_mkfs l)), s2)"
    using r(1-4,6) d(2,4) s(1) l(5-7)[THEN conjunct2] unfolding same
    by (intro exI[of _ snapshot] exI[of _ disk] exI[of _ consent] exI[of _ t1] exI[of _ t2] exI[of _ t3] exI[of _ t4]) simp
  have run: "\<exists>t1 t2 t3 t4 t5.
           validate_open_tool cb os (pct_sfdisk_file tools) (lst_executable (cls_sfdisk l)) s3 = (Inr (), t1)
         \<and> validate_open_tool cb os (pct_partx_file tools) (lst_executable (cls_partx l)) t1 = (Inr (), t2)
         \<and> validate_open_tool cb os (pct_mkfs_file tools) (lst_executable (cls_mkfs l)) t2 = (Inr (), t3)
         \<and> inspect_elf os (pct_sfdisk_file tools) t3 = (Inr (lst_elf (cls_sfdisk l)), t4)
         \<and> inspect_elf os (pct_partx_file tools) t4 = (Inr (lst_elf (cls_partx l)), t5)
         \<and> inspect_elf os (pct_mkfs_file tools) t5 = (Inr (lst_elf (cls_mkfs l)), s4)"
    using t by (elim conjE) simp
  have tools: "lst_executable (cls_sfdisk l) = pct_sfdisk tools" "lst_executable (cls_partx l) = pct_partx tools"
    "lst_executable (cls_mkfs l) = pct_mkfs tools" "lst_program (cls_sfdisk l) = PpSfdisk" "lst_program (cls_partx l) = PpPartx"
    "expected_mkfs_program (ca_filesystem a) = Inr (lst_program (cls_mkfs l))"
    "tti_program (pct_sfdisk tools) = PpSfdisk" "tti_program (pct_partx tools) = PpPartx"
    "tti_program (pct_mkfs tools) = lst_program (cls_mkfs l)"
    using t by blast+
  have "tti_program (lst_executable (cls_sfdisk l)) = PpSfdisk" "tti_program (lst_executable (cls_partx l)) = PpPartx"
    "tti_program (lst_executable (cls_mkfs l)) = lst_program (cls_mkfs l)"
    "expected_mkfs_program (bdi_filesystem intent) = Inr (lst_program (cls_mkfs l))"
    using tools(6-9) s(1) unfolding tools(1-3) by simp_all
  with preflight run tools(1-5) s(1,4) geometry_in_disk[OF d(5)] l(2-4,8,10) l(5-7) j show ?thesis
    by (intro conjI; (assumption | simp))
qed

end
