(* ===== verification/ExampleHost.thy ===== *)
theory ExampleHost
  imports CreateAuthorization
begin

text \<open>
  A host on which the authorization chain of \<open>CreateAuthorization\<close> succeeds: \<open>ex_answers\<close> has the consent file, the trusted
  tools below \<open>/usr/sbin\<close> with an ELF header as their bytes, programs that exit with 0, and the discovery it is given.
  The lemmas are about the code of each step on this host; its runs are the concrete inputs of the witnesses
  here and in \<open>CreateRuntime\<close>.
\<close>

definition ex_elf :: string where
  "ex_elf = [CHR 0x7F, CHR ''E'', CHR ''L'', CHR ''F'', CHR 0x02, CHR 0x01, CHR 0x01,
     CHR 0x00, CHR 0x00, CHR 0x00, CHR 0x00, CHR 0x00, CHR 0x00, CHR 0x00, CHR 0x00, CHR 0x00]"

definition ex_consent_bytes :: string where
  "ex_consent_bytes = ''{}''"

definition ex_stat :: "file_kind \<Rightarrow> u32 \<Rightarrow> string \<Rightarrow> file_stat" where
  "ex_stat kind mode data = \<lparr> fst_kind = kind, fst_dev = 1, fst_ino = 2, fst_uid = 0, fst_mode = mode,
     fst_nlink = 1, fst_len = of_nat (length data) \<rparr>"

definition ex_fd_bytes :: "nat \<Rightarrow> string" where
  "ex_fd_bytes fd = (if fd = 3 then ex_consent_bytes else ex_elf)"

definition ex_answers :: "(string, host_snapshot) result \<Rightarrow> os_view" where
  "ex_answers discovery = \<lparr> ov_lstat = \<lambda>p.
       if p \<in> {''/usr'', ''/usr/sbin'', ''/etc/linux-storage-manager''} then Inr (ex_stat FkDirectory 0x1ED [])
       else if starts_with ''/usr/sbin/'' p then Inr (ex_stat FkRegular 0x1ED ex_elf) else Inl EkNotFound,
     ov_canonicalize = Inr, ov_open = \<lambda>p. Inr (if p = PRODUCTION_CREATE_CONSENT_PATH then 3 else 4),
     ov_fstat = \<lambda>fd. Inr (if fd = 3 then ex_stat FkRegular 0x180 ex_consent_bytes else ex_stat FkRegular 0x1ED ex_elf),
     ov_read_at = \<lambda>fd offset want. Inr (take want (drop (unat offset) (ex_fd_bytes fd))),
     ov_read_to_end = \<lambda>fd limit. Inr (take limit (ex_fd_bytes fd)), ov_read_file = \<lambda>_. Inr ex_elf, ov_utf8 = \<lambda>_. True,
     ov_discover = discovery, ov_run = \<lambda>_ _ _ _ _. Inr \<lparr> eo_exit_code = 0, eo_stdout = [], eo_stderr = [],
       eo_stdout_truncated = False, eo_stderr_truncated = False \<rparr> \<rparr>"

lemma ex_answers_calls:
  "ov_open (ex_answers d) p = Inr (if p = PRODUCTION_CREATE_CONSENT_PATH then 3 else 4)"
  "ov_fstat (ex_answers d) fd = Inr (if fd = 3 then ex_stat FkRegular 0x180 ex_consent_bytes else ex_stat FkRegular 0x1ED ex_elf)"
  "ov_read_at (ex_answers d) fd offset want = Inr (take want (drop (unat offset) (ex_fd_bytes fd)))"
  "ov_read_to_end (ex_answers d) fd limit = Inr (take limit (ex_fd_bytes fd))" "ov_read_file (ex_answers d) p = Inr ex_elf"
  "ov_utf8 (ex_answers d) p" "ov_canonicalize (ex_answers d) p = Inr p" "ov_discover (ex_answers d) = d"
  by (simp_all add: ex_answers_def)

lemma ex_answers_steady: "steady_file (\<lambda>n. ex_answers (d n)) n fd (ex_fd_bytes fd)"
  unfolding steady_file_def by (intro allI impI, rule_tac x = "Suc want" in exI) (simp add: ex_answers_def min_def)

definition ex_document :: consent_document where
  "ex_document = \<lparr> cdo_schema_version = 1, cdo_activation_id = ex_sha, cdo_create_intent_id = ex_sha,
     cdo_disk = ''/dev/sdb'', cdo_filesystem = ''ext4'', cdo_consent_phrase = PRODUCTION_CREATE_CONSENT_PHRASE \<rparr>"

definition ex_basis :: "consent_document create_basis" where
  "ex_basis = \<lparr> cb_activation_compiled = True, cb_consent_compiled = True, cb_permit_compiled = True,
     cb_preflight_compiled = True, cb_launch_compiled = True, cb_journal_compiled = True,
     cb_intent_digest = \<lambda>_. Inr ex_sha, cb_activation_digest = \<lambda>_. Inr ex_sha, cb_receipt_digest = \<lambda>_. Inr ex_sha,
     cb_permit_digest = \<lambda>_. Inr ex_sha, cb_preflight_digest = \<lambda>_. Inr ex_sha, cb_launch_digest = \<lambda>_. Inr ex_sha,
     cb_journal_digest = \<lambda>_. Inr ex_sha, cb_sha = \<lambda>_. ex_sha, cb_json_value = \<lambda>_. Inr ex_document,
     cb_document_of = Inr, cb_value_of = Inr \<rparr>"

definition ex_create_intent :: blank_disk_intent where
  "ex_create_intent = \<lparr> bdi_schema_version = 1, bdi_intent_id = ex_sha, bdi_executable = False,
     bdi_status = PsPreview, bdi_create_plan_id = ''plan'', bdi_source_id = ''space-1'', bdi_disk = ''/dev/sdb'',
     bdi_disk_size_bytes = 1073741824, bdi_logical_sector_bytes = 512, bdi_disk_model = None, bdi_disk_serial = None,
     bdi_partition_table = CptGpt, bdi_partition_start_sector = 2048, bdi_partition_sector_count = 524288,
     bdi_partition_size_bytes = 268435456, bdi_filesystem = ''ext4'', bdi_mountpoint = None,
     bdi_blockers = [], bdi_ordered_future_steps = [''future''] \<rparr>"

definition ex_create_activation :: create_activation where
  "ex_create_activation = projr (seal_production_create_activation_intent ex_basis ex_create_intent)"

lemma ex_exact_profile: "exact_profile ex_create_intent"
proof -
  have "safe_device_path ''/dev/sdb''" "no_controls ''plan''" "starts_with ''space-'' ''space-1''" "no_controls ''space-1''"
    by code_simp+
  then show ?thesis
    by (simp add: exact_profile_def ex_create_intent_def Let_def checked_add_def checked_mul_def text_without_controls_def)
qed

lemma ex_activation:
  "seal_production_create_activation_intent ex_basis ex_create_intent = Inr ex_create_activation"
  "ca_disk ex_create_activation = ''/dev/sdb''" "ca_filesystem ex_create_activation = ''ext4''"
  "ca_activation_id ex_create_activation = ex_sha" "ca_create_intent_id ex_create_activation = ex_sha"
  "activation_sealed ex_basis ex_create_activation" "activation_untouched ex_create_activation"
  "activation_geometry_ok ex_create_activation" "ca_schema_version ex_create_activation = 1"
  "ca_partition_table ex_create_activation = CptGpt" "ca_partition_start_sector ex_create_activation = 2048"
  "ca_partition_sector_count ex_create_activation = 524288" "ca_partition_size_bytes ex_create_activation = 268435456"
  "same_disk ex_create_activation ex_blank_disk"
  using ex_exact_profile
  by (simp_all add: ex_create_activation_def seal_production_create_activation_intent_def bdi_ready_def ok_true_def
      bdi_integrity_matches_def bdi_expected_intent_id_def ca_expected_activation_id_def activation_sealed_def
      ca_integrity_matches_def activation_untouched_def activation_geometry_ok_def checked_add_def checked_mul_def
      same_disk_def ex_blank_disk_def disk_or_loop_def)
     (simp_all add: ex_create_intent_def ex_basis_def)

definition ex_consent_identity :: consent_file_identity where
  "ex_consent_identity = \<lparr> cfi_device_id = 1, cfi_inode = 2, cfi_uid = 0, cfi_mode = 0x180, cfi_link_count = 1,
     cfi_size_bytes = 2, cfi_sha256 = ex_sha \<rparr>"

definition ex_receipt :: consent_receipt where
  "ex_receipt = projr (bind_consent_receipt ex_basis ex_create_activation PRODUCTION_CREATE_CONSENT_PATH
     ex_consent_bytes ex_consent_identity)"

definition ex_permit :: create_permit where
  "ex_permit = projr (seal_from_receipt ex_basis ex_create_activation ex_receipt)"

lemma ex_bind_receipt:
  "bind_consent_receipt ex_basis ex_create_activation PRODUCTION_CREATE_CONSENT_PATH ex_consent_bytes ex_consent_identity
     = Inr ex_receipt"
  "ccr_receipt_id ex_receipt = ex_sha" "ccr_consent_file ex_receipt = ex_consent_identity"
  "validate_consent ex_basis ex_create_activation ex_receipt = Inr ()"
proof -
  have i: "validate_file_identity ex_consent_identity = Inr ()"
    by (simp add: validate_file_identity_def ex_consent_identity_def ex_sha_hex MAX_CONSENT_BYTES_def)
  have d: "validate_document ex_basis ex_create_activation ex_consent_bytes = Inr ex_document"
    by (simp add: validate_document_def ex_basis_def ex_consent_bytes_def MAX_CONSENT_BYTES_def document_binds_def ex_document_def
        ex_activation)
  note b = bind_consent_receipt_def consent_validate_activation_def ex_activation i d ccr_expected_receipt_id_def
    ccr_integrity_matches_def validate_consent_def ok_true_def first_error_ok Let_def
  show "bind_consent_receipt ex_basis ex_create_activation PRODUCTION_CREATE_CONSENT_PATH ex_consent_bytes ex_consent_identity
     = Inr ex_receipt"
    "ccr_receipt_id ex_receipt = ex_sha" "ccr_consent_file ex_receipt = ex_consent_identity"
    "validate_consent ex_basis ex_create_activation ex_receipt = Inr ()"
    by (simp_all add: b ex_receipt_def require_def) (simp_all add: ex_basis_def)
qed

lemma ex_sealed_permit:
  "seal_from_receipt ex_basis ex_create_activation ex_receipt = Inr ex_permit"
  "cpm_consent_receipt_id ex_permit = ex_sha" "permit_sealed ex_basis ex_permit" "permit_untouched ex_permit"
  "permit_binds ex_permit ex_create_activation" "cpm_permit_id ex_permit = ex_sha" "cpm_schema_version ex_permit = 1"
proof -
  note b = seal_from_receipt_def permit_validate_activation_def ex_activation ex_bind_receipt cpm_expected_permit_id_def
    cpm_integrity_matches_def permit_sealed_def permit_untouched_def permit_binds_def ok_true_def Let_def require_def
  show "seal_from_receipt ex_basis ex_create_activation ex_receipt = Inr ex_permit"
    "cpm_consent_receipt_id ex_permit = ex_sha" "permit_sealed ex_basis ex_permit" "permit_untouched ex_permit"
    "permit_binds ex_permit ex_create_activation" "cpm_permit_id ex_permit = ex_sha" "cpm_schema_version ex_permit = 1"
    by (simp_all add: b ex_permit_def) (simp_all add: ex_basis_def)
qed

definition ex_lease :: pinned_consent where
  "ex_lease = \<lparr> pcs_receipt = ex_receipt, pcs_file = 3 \<rparr>"

lemma ex_consent_hash:
  "delivers (consent_sha256_file (cb_sha ex_basis) (\<lambda>n. ex_answers (d n)) 3 2) ex_sha"
  unfolding consent_sha256_file_def
  using delivers_hash[OF ex_answers_steady[of d _ 3], of 2 CONSENT_READ_CHUNK "cb_sha ex_basis"]
  by (simp add: ex_fd_bytes_def ex_consent_bytes_def CONSENT_READ_CHUNK_def ex_basis_def)

lemma ex_consent_matches:
  "delivers (open_file_matches_identity ex_basis (\<lambda>n. ex_answers (d n)) 3 ex_consent_identity) True"
proof -
  have m: "consent_stat_matches ex_consent_identity (ex_stat FkRegular 0x180 ex_consent_bytes)"
    by (simp add: consent_stat_matches_def ex_stat_def ex_consent_identity_def ex_consent_bytes_def)
  have k: "cfi_size_bytes ex_consent_identity = 2" "cfi_sha256 ex_consent_identity = ex_sha"
    by (simp_all add: ex_consent_identity_def)
  show ?thesis
    unfolding open_file_matches_identity_def
    by (rule delivers_bind[OF delivers_call[where x = "ex_stat FkRegular 0x180 ex_consent_bytes"]],
        simp add: ex_answers_calls, simp only: m k not_True_eq_False if_False,
        rule delivers_bind[OF ex_consent_hash], simp add: delivers_lift)
qed

lemma ex_secure_parent: "delivers (validate_secure_parent (\<lambda>n. ex_answers (d n)) PRODUCTION_CREATE_CONSENT_PATH) ()"
proof -
  have p: "path_parent PRODUCTION_CREATE_CONSENT_PATH = Some ''/etc/linux-storage-manager''" by code_simp
  have l: "ov_lstat (ex_answers x) ''/etc/linux-storage-manager'' = Inr (ex_stat FkDirectory 0x1ED [])" for x
    by (simp add: ex_answers_def)
  show ?thesis
    unfolding validate_secure_parent_def p option.case
    by (rule delivers_bind[OF delivers_map_err[OF delivers_call]], rule l, rule delivers_ensure) (simp add: ex_stat_def)
qed

lemma ex_read_consent:
  "delivers (read_default_consent_file ex_basis (\<lambda>n. ex_answers (d n))) (ex_consent_bytes, ex_consent_identity)"
proof -
  let ?m = "ex_stat FkRegular 0x180 ex_consent_bytes"
  have m: "consent_file_stat_safe ?m" "length ex_consent_bytes = unat (fst_len ?m) \<and> length ex_consent_bytes \<le> MAX_CONSENT_BYTES"
    "take (MAX_CONSENT_BYTES + 1) (ex_fd_bytes 3) = ex_consent_bytes"
    by (simp_all add: consent_file_stat_safe_def ex_stat_def ex_consent_bytes_def MAX_CONSENT_BYTES_def ex_fd_bytes_def)
  have i: "\<lparr>cfi_device_id = fst_dev ?m, cfi_inode = fst_ino ?m, cfi_uid = fst_uid ?m, cfi_mode = fst_mode ?m,
     cfi_link_count = fst_nlink ?m, cfi_size_bytes = fst_len ?m, cfi_sha256 = cb_sha ex_basis ex_consent_bytes\<rparr> = ex_consent_identity"
    by (simp add: ex_stat_def ex_consent_bytes_def ex_consent_identity_def ex_basis_def)
  show ?thesis
    unfolding read_default_consent_file_def Let_def
    by (rule delivers_then[OF ex_secure_parent], rule delivers_bind[OF delivers_map_err[OF delivers_call[where x = 3]]],
        simp add: ex_answers_calls, rule delivers_bind[OF delivers_map_err[OF delivers_call[where x = ?m]]],
        simp add: ex_answers_calls, rule delivers_then[OF delivers_ensure[OF m(1)]],
        rule delivers_bind[OF delivers_map_err[OF delivers_call[where x = ex_consent_bytes]]],
        simp only: ex_answers_calls m(3), rule delivers_then[OF delivers_ensure[OF m(2)]], simp only: i delivers_lift)
qed

lemma ex_verified_consent:
  "delivers (verify_default_production_create_consent ex_basis (\<lambda>n. ex_answers (d n)) ex_create_activation) ex_receipt"
proof -
  have c: "cb_consent_compiled ex_basis" by (simp add: ex_basis_def)
  show ?thesis
    unfolding verify_default_production_create_consent_def
    by (simp add: c, rule delivers_then[where x = "()"], simp add: consent_validate_activation_def ex_activation require_def delivers_lift,
        rule delivers_bind[OF ex_read_consent], simp add: ex_bind_receipt delivers_lift)
qed

lemma ex_current_consent:
  "delivers (revalidate_pinned_production_create_consent ex_basis (\<lambda>n. ex_answers (d n)) ex_create_activation ex_lease) ex_receipt"
proof -
  show ?thesis
    unfolding revalidate_pinned_production_create_consent_def
    by (rule delivers_bind[OF delivers_map_err[OF ex_verified_consent]], simp add: validate_current_receipt_against_lease_def ex_lease_def ex_bind_receipt,
        rule delivers_bind[OF delivers_map_err[OF ex_consent_matches]], simp add: delivers_lift)
qed

definition ex_tool :: "privileged_program \<Rightarrow> trusted_tool_identity" where
  "ex_tool program = \<lparr> tti_program = program, tti_requested_path = ''/usr/sbin/'' @ program_name program,
     tti_canonical_path = ''/usr/sbin/'' @ program_name program, tti_device_id = 1, tti_inode = 2, tti_uid = 0,
     tti_mode = 0x1ED, tti_size_bytes = 16, tti_sha256 = ex_sha \<rparr>"

lemma ex_lstat_dirs:
  "ov_lstat (ex_answers d) ''/usr'' = Inr (ex_stat FkDirectory 0x1ED [])"
  "ov_lstat (ex_answers d) ''/usr/sbin'' = Inr (ex_stat FkDirectory 0x1ED [])"
  "ov_lstat (ex_answers d) (''/usr/sbin/'' @ name) = Inr (ex_stat FkRegular 0x1ED ex_elf)"
  "ov_lstat (ex_answers d) (''/usr/bin/'' @ name) = Inl EkNotFound"
  "ov_lstat (ex_answers d) (''/sbin/'' @ name) = Inl EkNotFound" "ov_lstat (ex_answers d) (''/bin/'' @ name) = Inl EkNotFound"
  by (simp_all add: ex_answers_def starts_with_def)

lemma ex_directories:
  "delivers (root_owned_non_writable_directory_chain (\<lambda>n. ex_answers (d n)) ''/usr/sbin'') True"
proof -
  have p: "is_absolute ''/usr/sbin''" "components ''/usr/sbin'' = [''usr'', ''sbin'']" by code_simp+
  have c: "from_components ([] @ [''usr'']) = ''/usr''" "from_components (([] @ [''usr'']) @ [''sbin'']) = ''/usr/sbin''"
    by (simp_all add: from_components_def)
  have ok: "\<not> (fst_kind (ex_stat FkDirectory 0x1ED []) \<noteq> FkDirectory \<or> fst_uid (ex_stat FkDirectory 0x1ED []) \<noteq> 0
      \<or> and (fst_mode (ex_stat FkDirectory 0x1ED [])) 0x12 \<noteq> 0)" by (simp add: ex_stat_def)
  show ?thesis
    unfolding root_owned_non_writable_directory_chain_def directories_trusted.simps p
    by (simp only: p c if_False not_True_eq_False directories_trusted.simps,
        rule delivers_match[OF delivers_call], rule ex_lstat_dirs(1), simp only: ok if_False,
        rule delivers_match[OF delivers_call], rule ex_lstat_dirs(2), simp only: ok if_False, rule delivers_lift)
qed

lemma ex_path:
  assumes "program \<in> {PpSfdisk, PpPartx, PpMkfsExt4}"
  shows "is_absolute (''/usr/sbin/'' @ program_name program)"
    "path_file_name (''/usr/sbin/'' @ program_name program) = Some (program_name program)"
    "path_parent (''/usr/sbin/'' @ program_name program) = Some ''/usr/sbin''"
  using assms by (elim insertE emptyE; simp only:; code_simp)+

lemma ex_inspect:
  assumes "program \<in> {PpSfdisk, PpPartx, PpMkfsExt4}"
  shows "delivers (inspect_candidate (cb_sha ex_basis) (\<lambda>n. ex_answers (d n)) program (''/usr/sbin/'' @ program_name program))
    (Some (ex_tool program))"
proof -
  have f: "tool_file_safe (ex_stat FkRegular 0x1ED ex_elf)" by (simp add: tool_file_safe_def ex_stat_def)
  have u: "fst_uid (ex_stat FkRegular 0x1ED ex_elf) = 0" by (simp add: ex_stat_def)
  note l = delivers_map_err[OF delivers_call]
  show ?thesis
    unfolding inspect_candidate_def
    by (simp only: ex_path[OF assms] not_True_eq_False not_True_eq_False simp_thms if_False,
        rule delivers_bind[OF l], rule ex_lstat_dirs(3), rule delivers_bind[OF l], rule ex_answers_calls(7),
        rule delivers_bind[OF l], rule ex_lstat_dirs(3),
        simp only: f u ex_path[OF assms] option.case prod.case not_True_eq_False simp_thms if_False,
        rule delivers_bind[OF ex_directories], simp only: if_True, rule delivers_bind[OF ex_directories],
        simp only: not_True_eq_False simp_thms if_False,
        rule delivers_bind[OF delivers_call], simp add: ex_answers_calls require_def,
        rule delivers_bind[OF l], rule ex_answers_calls(5),
        simp add: ex_tool_def ex_stat_def ex_elf_def ex_basis_def delivers_lift)
qed

lemma delivers_missing: "(\<And>n. f (os n) = Inl e) \<Longrightarrow> delivers (k e) y \<Longrightarrow> delivers (act_match (os_call os f) g k) y"
  by (simp add: delivers_def act_match_def os_call_def)

lemma find_tools_missing:
  assumes "\<And>n. ov_lstat (os n) (directory @ ''/'' @ program_name program) = Inl EkNotFound"
    and "delivers (find_tools sha os program directories :: ('s, trusted_tool_error, trusted_tool_identity list \<times> string list) os_action) r"
  shows "delivers (find_tools sha os program (directory # directories) :: ('s, trusted_tool_error, trusted_tool_identity list \<times> string list) os_action) r"
  unfolding find_tools.simps Let_def
  by (rule delivers_bind[OF delivers_missing[where y = "([], [])"]], rule assms(1), simp add: delivers_lift, simp only: prod.case,
      rule delivers_bind[OF assms(2)], cases r) (simp add: delivers_lift)

lemma find_tools_present:
  assumes "\<And>n. ov_lstat (os n) (directory @ ''/'' @ program_name program) = Inr m"
    and "delivers (inspect_candidate sha os program (directory @ ''/'' @ program_name program)
        :: ('s, trusted_tool_error, trusted_tool_identity option) os_action) (Some i)"
    and "delivers (find_tools sha os program directories :: ('s, trusted_tool_error, trusted_tool_identity list \<times> string list) os_action) ([], [])"
  shows "delivers (find_tools sha os program (directory # directories) :: ('s, trusted_tool_error, trusted_tool_identity list \<times> string list) os_action) ([i], [])"
  unfolding find_tools.simps Let_def
  by (rule delivers_bind[OF delivers_match[OF delivers_call, where y = "([i], [])"]], rule assms(1), rule delivers_bind[OF assms(2)],
      simp add: delivers_lift, simp only: prod.case, rule delivers_bind[OF assms(3)], simp add: delivers_lift)

lemma ex_resolve:
  assumes "program \<in> {PpSfdisk, PpPartx, PpMkfsExt4}"
  shows "delivers (resolve_trusted_privileged_tool (cb_sha ex_basis) (\<lambda>n. ex_answers (d n)) program) (ex_tool program)"
proof -
  have none: "delivers (find_tools (cb_sha ex_basis) (\<lambda>n. ex_answers (d n)) program [''/usr/bin'', ''/sbin'', ''/bin'']) ([], [])"
    for d by (intro find_tools_missing) (simp_all add: ex_answers_def starts_with_def delivers_lift)
  have path: "''/usr/sbin'' @ ''/'' @ program_name program = ''/usr/sbin/'' @ program_name program" by simp
  have "delivers (find_tools (cb_sha ex_basis) (\<lambda>n. ex_answers (d n)) program TRUSTED_TOOL_DIRECTORIES) ([ex_tool program], [])"
    for d unfolding TRUSTED_TOOL_DIRECTORIES_def
    by (rule find_tools_present[OF _ _ none]; simp only: path; (rule ex_lstat_dirs ex_inspect[OF assms])?)
  then show ?thesis
    unfolding resolve_trusted_privileged_tool_def by (rule delivers_bind) (simp add: delivers_lift)
qed

definition ex_blank_os :: "nat \<Rightarrow> os_view" where
  "ex_blank_os n = ex_answers (Inr (ex_create_snapshot ex_blank_disk []))"

definition ex_preflight :: create_preflight where
  "ex_preflight = \<lparr> cpf_schema_version = 1, cpf_receipt_id = ex_sha, cpf_activation_id = ca_activation_id ex_create_activation,
     cpf_execution_permit_id = cpm_permit_id ex_permit, cpf_consent_receipt_id = ex_sha,
     cpf_create_intent_id = ca_create_intent_id ex_create_activation, cpf_disk = ca_disk ex_create_activation,
     cpf_disk_size_bytes = ca_disk_size_bytes ex_create_activation,
     cpf_logical_sector_bytes = ca_logical_sector_bytes ex_create_activation,
     cpf_partition_table = ca_partition_table ex_create_activation,
     cpf_partition_start_sector = ca_partition_start_sector ex_create_activation,
     cpf_partition_sector_count = ca_partition_sector_count ex_create_activation,
     cpf_partition_size_bytes = ca_partition_size_bytes ex_create_activation,
     cpf_filesystem = ca_filesystem ex_create_activation, cpf_sfdisk = ex_tool PpSfdisk, cpf_partx = ex_tool PpPartx,
     cpf_mkfs = ex_tool PpMkfsExt4, cpf_runtime_ready = True, cpf_mutation_enabled = False,
     cpf_process_spawned = False, cpf_partition_table_changed = False, cpf_filesystem_formatted = False \<rparr>"

lemma ex_fresh_blank: "validate_fresh_blank_disk ex_create_activation (ex_create_snapshot ex_blank_disk []) = Inr ()"
proof -
  have "collector_complete (ex_create_snapshot ex_blank_disk []) ''partition_tables''"
    by (simp add: collector_complete_def ex_create_snapshot_def)
  moreover have "top_disk (ex_create_snapshot ex_blank_disk []) ''/dev/sdb'' = Some ex_blank_disk"
    by (simp add: top_disk_def ex_create_snapshot_def ex_blank_disk_def)
  moreover have "\<not> disk_in_use (ex_create_snapshot ex_blank_disk []) ''/dev/sdb'' ex_blank_disk"
    by (simp add: disk_in_use_def ex_create_snapshot_def ex_blank_disk_def)
  ultimately show ?thesis by (simp add: validate_fresh_blank_disk_def ex_activation require_def)
qed

lemma ex_preflight_delivered:
  "delivers (prepare_production_create_runtime_preflight ex_basis ex_blank_os ex_create_activation ex_permit ex_lease) ex_preflight"
proof -
  have os: "ex_blank_os = (\<lambda>n. ex_answers (Inr (ex_create_snapshot ex_blank_disk [])))" by (simp add: ex_blank_os_def fun_eq_iff)
  have c: "cb_preflight_compiled ex_basis" "cb_preflight_digest ex_basis = (\<lambda>_. Inr ex_sha)" by (simp_all add: ex_basis_def)
  have a: "preflight_validate_authorization ex_basis ex_create_activation ex_permit = Inr ()"
    by (simp add: preflight_validate_authorization_def ex_activation ex_sealed_permit require_def)
  have m: "mkfs_program (ca_filesystem ex_create_activation) = Inr PpMkfsExt4" by (simp add: mkfs_program_def ex_activation)
  note d = delivers_bind[OF delivers_map_err]
  show ?thesis
    unfolding prepare_production_create_runtime_preflight_def prepare_from_snapshot_inner_def os a m ex_bind_receipt
    by (rule d[OF delivers_call], rule ex_answers_calls, simp only: c not_True_eq_False if_False ex_fresh_blank,
        rule delivers_then[OF delivers_lift], rule delivers_then[OF delivers_lift], rule d[OF ex_current_consent],
        rule delivers_then[OF delivers_ensure], simp add: ex_bind_receipt ex_sealed_permit,
        rule d[OF ex_resolve], simp, rule d[OF ex_resolve], simp, rule delivers_bind[OF delivers_lift],
        rule d[OF ex_resolve], simp,
        simp add: ex_preflight_def cpf_expected_receipt_id_def c ex_bind_receipt delivers_lift)
qed

definition ex_pinned_tools :: pinned_tools where
  "ex_pinned_tools = \<lparr> pct_preflight_receipt_id = ex_sha, pct_sfdisk = ex_tool PpSfdisk, pct_partx = ex_tool PpPartx,
     pct_mkfs = ex_tool PpMkfsExt4, pct_sfdisk_file = 4, pct_partx_file = 4, pct_mkfs_file = 4 \<rparr>"

lemma ex_tool_hash:
  "delivers (tool_sha256_file (cb_sha ex_basis) (\<lambda>n. ex_answers (d n)) 4 16) ex_sha"
  unfolding tool_sha256_file_def
  using delivers_hash[OF ex_answers_steady[of d _ 4], of 16 TOOL_READ_CHUNK "cb_sha ex_basis"]
  by (simp add: ex_fd_bytes_def ex_elf_def TOOL_READ_CHUNK_def ex_basis_def)

lemma ex_open_tool: "delivers (validate_open_tool ex_basis (\<lambda>n. ex_answers (d n)) 4 (ex_tool program)) ()"
proof -
  have m: "tool_stat_matches (ex_tool program) (ex_stat FkRegular 0x1ED ex_elf)"
    "tti_size_bytes (ex_tool program) = 16" "ex_sha = tti_sha256 (ex_tool program)"
    by (simp_all add: tool_stat_matches_def ex_tool_def ex_stat_def ex_elf_def)
  note d = delivers_bind[OF delivers_map_err]
  show ?thesis unfolding validate_open_tool_def m(2)
    by (rule d[OF delivers_call[where x = "ex_stat FkRegular 0x1ED ex_elf"]], simp add: ex_answers_calls,
        rule delivers_then[OF delivers_ensure[OF m(1)]], rule d[OF ex_tool_hash], rule delivers_ensure[OF m(3)])
qed

lemma ex_preflight_valid:
  "validate_preflight ex_basis ex_preflight = Inr ()"
  "validate_bindings ex_basis ex_create_activation ex_permit ex_preflight = Inr ()"
proof -
  have "ok_true (cpf_integrity_matches ex_basis ex_preflight)"
    by (simp add: cpf_integrity_matches_def cpf_expected_receipt_id_def ex_basis_def ok_true_def ex_preflight_def)
  then show "validate_preflight ex_basis ex_preflight = Inr ()"
    "validate_bindings ex_basis ex_create_activation ex_permit ex_preflight = Inr ()"
    using ex_activation(6,7) ex_sealed_permit
    by (simp_all add: validate_preflight_def validate_bindings_def preflight_sealed_def preflight_untouched_def mkfs_program_def
      preflight_binds_def require_def) (simp_all add: ex_preflight_def ex_activation ex_tool_def)
qed

lemma ex_tools_current: "delivers (tools_revalidate ex_basis (\<lambda>n. ex_answers (d n)) ex_pinned_tools ex_preflight) ()"
proof -
  have b: "pct_preflight_receipt_id ex_pinned_tools = cpf_receipt_id ex_preflight \<and> pct_sfdisk ex_pinned_tools = cpf_sfdisk ex_preflight
      \<and> pct_partx ex_pinned_tools = cpf_partx ex_preflight \<and> pct_mkfs ex_pinned_tools = cpf_mkfs ex_preflight"
    by (simp add: ex_pinned_tools_def ex_preflight_def)
  have f: "pct_sfdisk_file ex_pinned_tools = 4" "pct_partx_file ex_pinned_tools = 4" "pct_mkfs_file ex_pinned_tools = 4"
    "pct_sfdisk ex_pinned_tools = ex_tool PpSfdisk" "pct_partx ex_pinned_tools = ex_tool PpPartx"
    "pct_mkfs ex_pinned_tools = ex_tool PpMkfsExt4" by (simp_all add: ex_pinned_tools_def)
  show ?thesis unfolding tools_revalidate_def ex_preflight_valid
    by (rule delivers_then[OF delivers_lift], rule delivers_then[OF delivers_ensure[OF b]], unfold f,
        rule delivers_then[OF ex_open_tool], rule delivers_then[OF ex_open_tool], rule ex_open_tool)
qed

definition ex_stage :: "privileged_program \<Rightarrow> string list \<Rightarrow> string option \<Rightarrow> launch_stage" where
  "ex_stage program argv stdin = \<lparr> lst_program = program, lst_argv = argv, lst_executable = ex_tool program,
     lst_elf = \<lparr> eei_class = Elf64, eei_data_encoding = LittleEndian, eei_version = 1 \<rparr>,
     lst_stdin_len = (case stdin of None \<Rightarrow> 0 | Some payload \<Rightarrow> of_nat (length payload)),
     lst_stdin_sha256 = map_option (\<lambda>_. ex_sha) stdin \<rparr>"

lemma ex_launch_stage:
  assumes "stage_text_ok argv stdin = Inr ()"
  shows "delivers (launch_stage_of ex_basis (\<lambda>n. ex_answers (d n)) program argv (ex_tool program) 4 stdin) (ex_stage program argv stdin)"
proof -
  have t: "tti_program (ex_tool program) = program" by (simp add: ex_tool_def)
  have e: "elf_identity ex_elf = Inr \<lparr> eei_class = Elf64, eei_data_encoding = LittleEndian, eei_version = 1 \<rparr>"
    by (simp add: elf_identity_def ex_elf_def byte_def)
  have r: "take 16 (drop (unat (0::u64)) (ex_fd_bytes 4)) = ex_elf" "take 16 ex_elf = ex_elf"
    by (simp_all add: ex_fd_bytes_def ex_elf_def)
  have s: "cb_sha ex_basis = (\<lambda>_. ex_sha)" by (simp add: ex_basis_def)
  show ?thesis
    unfolding launch_stage_of_def inspect_elf_def assms t
    by (rule delivers_then[OF delivers_ensure[OF refl]], rule delivers_then[OF delivers_lift],
        rule delivers_bind[OF delivers_map_err[OF delivers_bind[OF delivers_map_err[OF delivers_call[where x = ex_elf]]]]],
        simp only: ex_answers_calls r, unfold r e, rule delivers_lift, simp add: ex_stage_def s delivers_lift)
qed

definition ex_script :: string where
  "ex_script = projr (sfdisk_script CptGpt 2048 524288)"

lemma ex_stage_inputs:
  "exact_stage_inputs ex_create_activation = Inr (''/dev/sdb1'', ex_script, sfdisk_argv ''/dev/sdb'', partx_argv ''/dev/sdb'',
     [''mkfs.ext4'', ''-F'', ''/dev/sdb1''])"
  "stage_text_ok (sfdisk_argv ''/dev/sdb'') (Some ex_script) = Inr ()" "stage_text_ok (partx_argv ''/dev/sdb'') None = Inr ()"
  "stage_text_ok [''mkfs.ext4'', ''-F'', ''/dev/sdb1''] None = Inr ()"
proof -
  have n: "show_word (2048::u64) = ''2048''" "show_word (524288::u64) = ''524288''"
    by (simp_all add: show_word_def show_nat.simps digit_char_def) code_simp+
  have p: "partition_device ''/dev/sdb'' = Inr ''/dev/sdb1''" by code_simp
  show "exact_stage_inputs ex_create_activation = Inr (''/dev/sdb1'', ex_script, sfdisk_argv ''/dev/sdb'', partx_argv ''/dev/sdb'',
     [''mkfs.ext4'', ''-F'', ''/dev/sdb1''])"
    by (simp add: exact_stage_inputs_def ex_activation p ex_script_def sfdisk_script_def mkfs_argv_def)
  show "stage_text_ok (sfdisk_argv ''/dev/sdb'') (Some ex_script) = Inr ()"
    unfolding ex_script_def sfdisk_script_def n by code_simp
qed code_simp+

definition ex_launch :: create_launch where
  "ex_launch = \<lparr> cls_schema_version = 1, cls_launch_id = ex_sha, cls_activation_id = ca_activation_id ex_create_activation,
     cls_execution_permit_id = cpm_permit_id ex_permit, cls_preflight_receipt_id = cpf_receipt_id ex_preflight,
     cls_create_intent_id = ca_create_intent_id ex_create_activation, cls_disk = ca_disk ex_create_activation,
     cls_partition_device = ''/dev/sdb1'', cls_partition_table = ca_partition_table ex_create_activation,
     cls_partition_start_sector = ca_partition_start_sector ex_create_activation,
     cls_partition_sector_count = ca_partition_sector_count ex_create_activation,
     cls_partition_size_bytes = ca_partition_size_bytes ex_create_activation,
     cls_filesystem = ca_filesystem ex_create_activation, cls_sfdisk_script = ex_script,
     cls_sfdisk = ex_stage PpSfdisk (sfdisk_argv ''/dev/sdb'') (Some ex_script),
     cls_partx = ex_stage PpPartx (partx_argv ''/dev/sdb'') None,
     cls_mkfs = ex_stage PpMkfsExt4 [''mkfs.ext4'', ''-F'', ''/dev/sdb1''] None, cls_fixed_path = FIXED_PATH,
     cls_fixed_locale = FIXED_LOCALE, cls_descriptor_exec_api = ''fexecve'',
     cls_require_partition_rediscovery_before_mkfs = True, cls_mutation_enabled = False,
     cls_process_spawned = False, cls_partition_table_changed = False, cls_filesystem_formatted = False \<rparr>"

lemma ex_launch_delivered:
  "delivers (build_production_create_runtime_launch_spec ex_basis (\<lambda>n. ex_answers (d n)) ex_create_activation ex_permit
     ex_preflight ex_pinned_tools) ex_launch"
proof -
  have c: "cb_launch_compiled ex_basis" "cb_launch_digest ex_basis = (\<lambda>_. Inr ex_sha)" by (simp_all add: ex_basis_def)
  have m: "expected_mkfs_program ''ext4'' = Inr PpMkfsExt4" by (simp add: expected_mkfs_program_def)
  have f: "cpf_sfdisk ex_preflight = ex_tool PpSfdisk" "cpf_partx ex_preflight = ex_tool PpPartx"
    "cpf_mkfs ex_preflight = ex_tool PpMkfsExt4" "pct_sfdisk_file ex_pinned_tools = 4" "pct_partx_file ex_pinned_tools = 4"
    "pct_mkfs_file ex_pinned_tools = 4" by (simp_all add: ex_preflight_def ex_pinned_tools_def)
  show ?thesis
    unfolding build_production_create_runtime_launch_spec_def ex_preflight_valid ex_stage_inputs(1) ex_activation(3) m f
    by (simp only: c not_True_eq_False if_False, rule delivers_then[OF delivers_lift],
        rule delivers_then[OF delivers_map_err[OF ex_tools_current]], rule delivers_bind[OF delivers_lift], simp only: prod.case,
        rule delivers_bind[OF delivers_lift], rule delivers_bind[OF ex_launch_stage], rule ex_stage_inputs,
        rule delivers_bind[OF ex_launch_stage], rule ex_stage_inputs, rule delivers_bind[OF ex_launch_stage], rule ex_stage_inputs,
        simp add: ex_launch_def cls_expected_launch_id_def c ex_activation delivers_lift)
qed

definition ex_create_record :: create_journal where
  "ex_create_record = projr (build_production_create_runtime_journal ex_basis ex_create_activation ex_permit ex_preflight ex_launch)"

lemma ex_journal_built:
  "build_production_create_runtime_journal ex_basis ex_create_activation ex_permit ex_preflight ex_launch = Inr ex_create_record"
proof -
  have i: "ca_integrity_matches ex_basis ex_create_activation = Inr True" "cpm_integrity_matches ex_basis ex_permit = Inr True"
    "cpf_integrity_matches ex_basis ex_preflight = Inr True" "cls_integrity_matches ex_basis ex_launch = Inr True"
    using ex_activation(6) ex_sealed_permit(3) ex_preflight_valid(1)
    by (auto simp: activation_sealed_def permit_sealed_def validate_preflight_def preflight_sealed_def ok_true_iff
        cls_integrity_matches_def cls_expected_launch_id_def ex_basis_def ex_launch_def split: if_splits)
  have "journal_validate_authorization ex_basis ex_create_activation ex_permit ex_preflight ex_launch = Inr ()"
    using ex_activation(7) ex_sealed_permit(4,5)
    by (simp add: journal_validate_authorization_def i ok_true_def ex_activation ex_sealed_permit permit_untouched_def permit_binds_def
        activation_untouched_def require_def) (simp add: ex_preflight_def ex_launch_def launch_untouched_def ex_activation ex_sealed_permit)
  moreover have "create_expected_journal_id (cb_journal_digest ex_basis) j = Inr ex_sha" for j
    by (simp add: create_expected_journal_id_def ex_basis_def)
  moreover have "cb_journal_compiled ex_basis" "cpf_receipt_id ex_preflight = ex_sha" "cls_launch_id ex_launch = ex_sha"
    "cls_partition_device ex_launch = ''/dev/sdb1''" by (simp_all add: ex_basis_def ex_preflight_def ex_launch_def)
  ultimately have "\<exists>j. build_production_create_runtime_journal ex_basis ex_create_activation ex_permit ex_preflight ex_launch = Inr j"
    by (simp add: build_production_create_runtime_journal_def and_then_Inr create_validate_iff ex_activation
        ex_sealed_permit create_integrity_matches_def partition_table_name_def ex_sha_hex starts_with_def Let_def)
  then show ?thesis by (auto simp: ex_create_record_def)
qed

theorem create_launch_of_frozen_intent_witness:
  "\<exists>(l::create_launch) (j::create_journal). sfdisk_script CptGpt 2048 524288 = Inr (cls_sfdisk_script l) \<and> lst_argv (cls_partx l) = partx_argv ''/dev/sdb''
     \<and> cj_disk j = ''/dev/sdb'' \<and> cj_partition_device j = ''/dev/sdb1''"
proof -
  obtain s2 s4 where "prepare_production_create_runtime_preflight ex_basis ex_blank_os ex_create_activation ex_permit ex_lease
      \<lparr>os_calls = 0\<rparr> = (Inr ex_preflight, s2)"
    "build_production_create_runtime_launch_spec ex_basis ex_blank_os ex_create_activation ex_permit ex_preflight ex_pinned_tools s2
      = (Inr ex_launch, s4)"
    using ex_preflight_delivered ex_launch_delivered[of "\<lambda>_. Inr (ex_create_snapshot ex_blank_disk [])"]
    unfolding delivers_def ex_blank_os_def[abs_def] by metis
  from create_launch_of_frozen_intent[OF ex_activation(1) this ex_journal_built]
  show ?thesis by (intro exI[of _ ex_launch] exI[of _ ex_create_record]) (simp add: ex_create_intent_def ex_launch_def)
qed

end
