(* ===== verification/WriteAhead.thy ===== *)
theory WriteAhead
  imports TrustedFiles DurableStore
begin

text \<open>
  What an executor of a runtime journal does between its calls: it makes transitions durable one after the other
  (\<open>advance\<close>), asks the operating system (\<open>quiet\<close> actions, which change nothing of its own), and runs programs.
  The locale \<open>durable_runs\<close> extends the contract of a durable store with what a sequence of transitions needs: inodes stay
  allocated, a load leaves the host alone, a transition keeps the identifier of the record. From it,
  \<open>recorded\<close> follows every host that a crash could leave. \<open>runs\<close> is a Hoare logic for the composed actions.
\<close>

section \<open>Loads leave the host alone\<close>

lemmas reading = reads_bind reads_then reads_lift reads_map_err reads_match stat_reads open_reads

lemma load_only_reads: "keeps_records (jk_ensure_directory jk) \<Longrightarrow> reads (load jk env root i)"
  unfolding load_def by (intro reading) (auto simp: keeps_records_def)

section \<open>Inodes stay allocated\<close>

text \<open>Every entry of the host names an inode below the next free one.\<close>

definition well_allocated :: "host \<Rightarrow> bool" where
  "well_allocated h \<longleftrightarrow> (\<forall>p. allocated p h)"

definition keeps_allocated :: "('e, 'a) action \<Rightarrow> bool" where
  "keeps_allocated m \<longleftrightarrow> triple well_allocated well_allocated m (\<lambda>_. well_allocated) (\<lambda>_. well_allocated)"

lemma allocated_entry: "well_allocated h \<Longrightarrow> h_names h p = Some i \<Longrightarrow> i < h_next h"
  unfolding well_allocated_def allocated_def entries_def by (metis list.set_intros(1))

lemma well_allocated_set_entry:
  "well_allocated h \<Longrightarrow> (\<And>i. e = Some i \<Longrightarrow> i < h_next h) \<Longrightarrow> well_allocated (set_entry p e h)"
  by (auto simp: well_allocated_def allocated_def entries_def set_entry_def split: if_splits)

lemma well_allocated_set_inode [simp]: "well_allocated (set_inode i n h) = well_allocated h"
  by (simp add: well_allocated_def allocated_def entries_def set_inode_def)

lemma well_allocated_add_links [simp]: "well_allocated (add_links i k h) = well_allocated h"
  by (simp add: add_links_def)

lemma next_unchanged [simp]: "h_next (add_links i k h) = h_next h" "h_next (set_entry p e h) = h_next h"
  "h_next (set_inode i n h) = h_next h"
  by (simp_all add: add_links_def set_inode_def set_entry_def)

lemma well_allocated_next: "well_allocated h \<Longrightarrow> well_allocated (h\<lparr>h_next := Suc (h_next h)\<rparr>)"
  by (auto simp: well_allocated_def allocated_def entries_def less_Suc_eq)

lemma well_allocated_sync: "well_allocated h \<Longrightarrow> well_allocated (sync_entries d h)"
  by (auto simp: well_allocated_def allocated_def entries_def sync_entries_def split: if_splits)

lemma reads_keep_allocated: "reads m \<Longrightarrow> keeps_allocated m"
  unfolding keeps_allocated_def by (rule reads_any)

lemma calls_keep_allocated:
  "keeps_allocated (create_entry env kind mode p)" "keeps_allocated (write_all env i bytes)" "keeps_allocated (sync_file env i)"
  "keeps_allocated (hard_link env p q)" "keeps_allocated (remove_file env p)" "keeps_allocated (rename_file env p q)"
  "keeps_allocated (open_dir env p)" "keeps_allocated (fsync_dir env p)"
  unfolding keeps_allocated_def create_entry_def write_all_def sync_file_def hard_link_def remove_file_def rename_file_def
    open_dir_def fsync_dir_def Let_def
  by (rule triple_syscall,
      auto simp: well_allocated_sync intro!: well_allocated_set_entry well_allocated_next dest: allocated_entry
        split: option.splits if_splits prod.splits)+

lemma keeps_bind: "keeps_allocated m \<Longrightarrow> (\<And>x. keeps_allocated (f x)) \<Longrightarrow> keeps_allocated (act_bind m f)"
  by (auto simp: keeps_allocated_def intro: triple_bind)

lemma keeps_then: "keeps_allocated m \<Longrightarrow> keeps_allocated k \<Longrightarrow> keeps_allocated (act_then m k)"
  by (simp add: act_then_def keeps_bind)

lemma keeps_lift: "keeps_allocated (act_lift r)"
  by (auto simp: keeps_allocated_def intro!: triple_lift split: sum.split)

lemma keeps_map_err: "keeps_allocated m \<Longrightarrow> keeps_allocated (act_map_err g m)"
  by (simp add: keeps_allocated_def triple_map_err)

lemma keeps_cleanup: "keeps_allocated m \<Longrightarrow> keeps_allocated c \<Longrightarrow> keeps_allocated (act_cleanup m c)"
  by (auto simp: keeps_allocated_def intro: triple_cleanup)

lemma keeps_sequence: "keeps_allocated next_sequence"
  by (simp add: keeps_allocated_def next_sequence_triple)

lemmas keeping = keeps_bind keeps_then keeps_lift keeps_map_err keeps_cleanup keeps_sequence calls_keep_allocated
  reads_keep_allocated[OF stat_reads]

lemma writes_keep_allocated: "keeps_allocated (write_atomic_replace jk env root final j)"
proof -
  have "keeps_allocated (temp_path env root final)"
    unfolding temp_path_def by (auto split: option.split intro!: keeping)
  moreover have "keeps_allocated (write_staged env temp bytes)" for temp bytes
    unfolding write_staged_def open_new_def by (intro keeping)
  moreover have "keeps_allocated (sync_directory env root)"
    unfolding sync_directory_def by (intro keeping)
  ultimately show ?thesis unfolding write_atomic_replace_def by (intro keeping)
qed

lemma persist_keeps_allocated:
  "keeps_records (jk_ensure_directory jk) \<Longrightarrow> keeps_allocated (persist jk env root j)"
  unfolding persist_def
  by (intro keeping reads_keep_allocated writes_keep_allocated) (simp add: keeps_records_def)

section \<open>Transitions in sequence\<close>

locale durable_runs = durable_store jk create_op persist_op load_op
  for jk :: "('p, 't, 'j) journal_kind"
    and create_op :: "io_env \<Rightarrow> path \<Rightarrow> 'j \<Rightarrow> ('p, 't, path) store_action"
    and persist_op :: "io_env \<Rightarrow> path \<Rightarrow> 'j \<Rightarrow> ('p, 't, path) store_action"
    and load_op :: "io_env \<Rightarrow> path \<Rightarrow> string \<Rightarrow> ('p, 't, 'j) store_action" +
  fixes apply_op :: "'x \<Rightarrow> 'j \<Rightarrow> (('p, 't) runtime_error, 'j) result"
  assumes persist_allocates: "keeps_allocated (persist_op env root j)"
    and load_reads: "reads (load_op env root i)"
    and same_record: "apply_op t j = Inr c \<Longrightarrow> jk_id jk c = jk_id jk j"

text \<open>
  \<open>recorded S f mark w\<close>: since the world was \<open>mark\<close>, a crash could only leave an outcome of \<open>S\<close> at the record \<open>f\<close>.
\<close>

definition recorded :: "crash_file set \<Rightarrow> path \<Rightarrow> world \<Rightarrow> world \<Rightarrow> bool" where
  "recorded S f mark w \<longleftrightarrow> passed (kept S f) mark w \<and> kept S f (w_host w) \<and> well_allocated (w_host w)"

lemma recorded_mono: "recorded S f mark w \<Longrightarrow> S \<subseteq> T \<Longrightarrow> recorded T f mark w"
  by (auto simp: recorded_def kept_def elim: passed_mono)

lemma recorded_published:
  "published env f bytes (w_host w) \<Longrightarrow> well_allocated (w_host w) \<Longrightarrow> Intact bytes \<in> S \<Longrightarrow> recorded S f w w"
  by (simp add: recorded_def kept_def published_survivors)

context durable_runs
begin

lemma transition_recorded:
  assumes "recorded S (record_at root (jk_id jk j)) mark w"
    and "\<And>c bytes. apply_op t j = Inr c \<Longrightarrow> stored_bytes jk c = Some bytes \<Longrightarrow> Intact bytes \<in> S"
    and run: "persist_transition (\<lambda>_. persist_op) apply_op jk env root j t w = (r, w')"
  shows "recorded S (record_at root (jk_id jk j)) mark w'"
    and "r = Inr c \<Longrightarrow> apply_op t j = Inr c
      \<and> (\<exists>bytes. stored_bytes jk c = Some bytes \<and> published env (record_at root (jk_id jk j)) bytes (w_host w'))"
proof -
  let ?f = "record_at root (jk_id jk j)"
  have t: "triple (\<lambda>h. kept S ?f h \<and> well_allocated h) (\<lambda>h. present S ?f h \<and> well_allocated h)
      (persist_transition (\<lambda>_. persist_op) apply_op jk env root j t)
      (\<lambda>c h. (kept S ?f h \<and> apply_op t j = Inr c \<and> (\<exists>bytes. stored_bytes jk c = Some bytes \<and> published env ?f bytes h))
         \<and> well_allocated h) (\<lambda>_ h. kept S ?f h \<and> well_allocated h)"
    unfolding persist_transition_def
  proof (rule triple_guard)
    fix c assume c: "apply_op t j = Inr c"
    have "triple (kept S ?f) (present S ?f) (persist_op env root c)
        (\<lambda>_ h. \<exists>bytes. stored_bytes jk c = Some bytes \<and> published env ?f bytes h) (\<lambda>_. kept S ?f)"
      using persist_keeps[of ?f root c S env] same_record[OF c] assms(2)[OF c] by simp
    from triple_conj[OF this persist_allocates[unfolded keeps_allocated_def]]
    show "triple (\<lambda>h. kept S ?f h \<and> well_allocated h) (\<lambda>h. present S ?f h \<and> well_allocated h)
      (act_then (persist_op env root c) (act_lift (Inr c)))
      (\<lambda>c h. (kept S ?f h \<and> apply_op t j = Inr c \<and> (\<exists>bytes. stored_bytes jk c = Some bytes \<and> published env ?f bytes h))
         \<and> well_allocated h) (\<lambda>_ h. kept S ?f h \<and> well_allocated h)"
    proof (rule triple_then)
      show "triple (\<lambda>h. kept S ?f h \<and> well_allocated h)
        (\<lambda>h. (\<exists>bytes. stored_bytes jk c = Some bytes \<and> published env ?f bytes h) \<and> well_allocated h) (act_lift (Inr c))
        (\<lambda>c h. (kept S ?f h \<and> apply_op t j = Inr c \<and> (\<exists>bytes. stored_bytes jk c = Some bytes \<and> published env ?f bytes h))
           \<and> well_allocated h) (\<lambda>_ h. kept S ?f h \<and> well_allocated h)"
        by (rule triple_lift) (use assms(2)[OF c] c in \<open>auto simp: kept_def published_survivors\<close>)
    qed
  qed auto
  have "present S ?f (w_host w) \<and> well_allocated (w_host w)"
    using assms(1) by (auto simp: recorded_def well_allocated_def)
  note u = triple_run[OF t this run]
  have "passed (kept S ?f) w w'" by (rule passed_mono[OF u(1)]) simp
  with assms(1) u(2) show "recorded S ?f mark w'"
    by (auto simp: recorded_def intro: passed_trans split: sum.splits)
  show "r = Inr c \<Longrightarrow> apply_op t j = Inr c \<and> (\<exists>bytes. stored_bytes jk c = Some bytes \<and> published env ?f bytes (w_host w'))"
    using u(2) by simp
qed

lemma load_recorded:
  assumes "recorded S f mark w" and "load_op env root i w = (r, w')"
  shows "recorded S f mark w'" and "w_host w' = w_host w"
proof -
  have t: "triple ((=) (w_host w)) ((=) (w_host w)) (load_op env root i) (\<lambda>_. (=) (w_host w)) (\<lambda>_. (=) (w_host w))"
    using load_reads by (simp add: reads_def)
  note u = triple_run[OF t refl assms(2)]
  then show h: "w_host w' = w_host w" by (cases r) auto
  have "passed (kept S f) w w'" by (rule passed_mono[OF u(1)]) (use assms(1) in \<open>auto simp: recorded_def\<close>)
  with h assms(1) show "recorded S f mark w'" by (auto simp: recorded_def intro: passed_trans)
qed

end

section \<open>Executors\<close>

text \<open>An executor with its journal in memory; \<open>advance\<close> makes a transition durable before the journal changes.\<close>

record 'j run_state = executor_state +
  rs_journal :: 'j

definition advance :: "('j \<Rightarrow> 'x \<Rightarrow> ('e, 'j) action) \<Rightarrow> 'x \<Rightarrow> ('j run_state, 'e, unit) state_action" where
  "advance transition t s =
     (case on_journal (transition (rs_journal s) t) s of
        (Inl e, s') \<Rightarrow> (Inl e, s')
      | (Inr c, s') \<Rightarrow> (Inr (), s'\<lparr>rs_journal := c\<rparr>))"

text \<open>\<open>if let Err(error) = m { return Err(recover(error)); }\<close>\<close>

definition or_recover ::
  "('s, 'e, 'a) state_action \<Rightarrow> ('e \<Rightarrow> ('s, 'f, 'a) state_action) \<Rightarrow> ('s, 'f, 'a) state_action" where
  "or_recover m recover = act_match m (\<lambda>x. act_lift (Inr x)) recover"

section \<open>A Hoare logic for executors\<close>

definition runs ::
  "('s \<Rightarrow> bool) \<Rightarrow> ('s, 'e, 'a) state_action \<Rightarrow> ('a \<Rightarrow> 's \<Rightarrow> bool) \<Rightarrow> ('e \<Rightarrow> 's \<Rightarrow> bool) \<Rightarrow> bool" where
  "runs P m Q E \<longleftrightarrow> (\<forall>s. P s \<longrightarrow> (case m s of (Inl e, s') \<Rightarrow> E e s' | (Inr x, s') \<Rightarrow> Q x s'))"

lemma runs_use: "runs P m Q E \<Longrightarrow> P s \<Longrightarrow> m s = (r, s') \<Longrightarrow> (case r of Inl e \<Rightarrow> E e s' | Inr x \<Rightarrow> Q x s')"
  by (auto simp: runs_def split: prod.splits sum.splits)

lemma runs_weaken:
  "runs P m Q E \<Longrightarrow> (\<And>s. P' s \<Longrightarrow> P s) \<Longrightarrow> (\<And>x s. Q x s \<Longrightarrow> Q' x s) \<Longrightarrow> (\<And>e s. E e s \<Longrightarrow> E' e s)
     \<Longrightarrow> runs P' m Q' E'"
  by (fastforce simp: runs_def split: prod.splits sum.splits)

lemma runs_lift: "(\<And>s. P s \<Longrightarrow> case r of Inl e \<Rightarrow> E e s | Inr x \<Rightarrow> Q x s) \<Longrightarrow> runs P (act_lift r) Q E"
  by (auto simp: runs_def act_lift_def split: sum.split)

lemma runs_value: "(\<And>s. P s \<Longrightarrow> Q x s) \<Longrightarrow> runs P (act_lift (Inr x)) Q E"
  by (rule runs_lift) simp

lemma runs_error: "(\<And>s. P s \<Longrightarrow> E e s) \<Longrightarrow> runs P (act_lift (Inl e)) Q E"
  by (rule runs_lift) simp

lemma runs_match:
  assumes "runs P m R S" and "\<And>x. runs (R x) (f x) Q E" and "\<And>e. runs (S e) (k e) Q E"
  shows "runs P (act_match m f k) Q E"
  unfolding runs_def
proof (intro allI impI)
  fix s assume "P s"
  moreover obtain r s1 where m: "m s = (r, s1)" by fastforce
  ultimately have "case r of Inl e \<Rightarrow> S e s1 | Inr x \<Rightarrow> R x s1" using runs_use[OF assms(1)] by blast
  with m assms(2,3) show "case act_match m f k s of (Inl e, s') \<Rightarrow> E e s' | (Inr x, s') \<Rightarrow> Q x s'"
    by (cases r) (simp_all add: act_match_def runs_def)
qed

lemma act_bind_as_match: "act_bind m f = act_match m f (\<lambda>e. act_lift (Inl e))"
  by (simp add: fun_eq_iff act_bind_def act_match_def act_lift_def split: prod.split sum.split)

lemma runs_bind: "runs P m R E \<Longrightarrow> (\<And>x. runs (R x) (f x) Q E) \<Longrightarrow> runs P (act_bind m f) Q E"
  unfolding act_bind_as_match by (rule runs_match) (auto intro: runs_error)

lemma runs_then: "runs P m (\<lambda>_. R) E \<Longrightarrow> runs R k Q E \<Longrightarrow> runs P (act_then m k) Q E"
  unfolding act_then_def by (rule runs_bind)

lemma runs_map_err: "runs P m Q (\<lambda>e. E (g e)) \<Longrightarrow> runs P (act_map_err g m) Q E"
  by (fastforce simp: runs_def act_map_err_def map_err_def split: prod.splits sum.splits)

lemma runs_ensure: "(\<And>s. P s \<Longrightarrow> \<not> b \<Longrightarrow> E e s) \<Longrightarrow> runs P (act_ensure b e) (\<lambda>_ s. P s \<and> b) E"
  unfolding act_ensure_def by (rule runs_lift) (auto simp: require_def)

lemma runs_some:
  assumes "\<And>x. x \<in> T \<Longrightarrow> runs (P x) m Q E"
  shows "runs (\<lambda>s. \<exists>x\<in>T. P x s) m Q E"
  unfolding runs_def
proof (intro allI impI)
  fix s assume "\<exists>x\<in>T. P x s"
  then obtain x where "x \<in> T" "P x s" by blast
  with assms[OF this(1)] show "case m s of (Inl e, s') \<Rightarrow> E e s' | (Inr x, s') \<Rightarrow> Q x s'" by (simp add: runs_def)
qed

lemma runs_pure: "(b \<Longrightarrow> runs P m Q E) \<Longrightarrow> runs (\<lambda>s. b \<and> P s) m Q E"
  by (cases b) (simp_all add: runs_def)

lemma runs_or_recover:
  "runs P m Q S \<Longrightarrow> (\<And>e. runs (S e) (recover e) Q E) \<Longrightarrow> runs P (or_recover m recover) Q E"
  unfolding or_recover_def by (rule runs_match) (auto intro: runs_value)

text \<open>An action that only asks the operating system.\<close>

definition quiet :: "('s, 'e, 'a) os_action \<Rightarrow> bool" where
  "quiet m \<longleftrightarrow> (\<forall>s. \<exists>n \<ge> os_calls s. snd (m s) = s\<lparr>os_calls := n\<rparr>)"

lemma quiet_lift: "quiet (act_lift r)"
  unfolding quiet_def act_lift_def by (intro allI, rule_tac x = "os_calls s" in exI) simp

lemma quiet_match:
  assumes "quiet m" and "\<And>x. quiet (f x)" and "\<And>e. quiet (k e)"
  shows "quiet (act_match m f k)"
  unfolding quiet_def
proof
  fix s :: "'a os_state_scheme"
  obtain r s1 where m: "m s = (r, s1)" by fastforce
  with assms(1) obtain n where s1: "s1 = s\<lparr>os_calls := n\<rparr>" "os_calls s \<le> n" by (metis quiet_def snd_conv)
  have upd: "s1\<lparr>os_calls := n'\<rparr> = s\<lparr>os_calls := n'\<rparr>" "os_calls s1 = n" for n' using s1 by simp_all
  have k: "\<exists>n' \<ge> n. snd (k e s1) = s\<lparr>os_calls := n'\<rparr>" for e using assms(3)[of e, unfolded quiet_def, rule_format, of s1] upd by simp
  have f: "\<exists>n' \<ge> n. snd (f x s1) = s\<lparr>os_calls := n'\<rparr>" for x using assms(2)[of x, unfolded quiet_def, rule_format, of s1] upd by simp
  show "\<exists>n \<ge> os_calls s. snd (act_match m f k s) = s\<lparr>os_calls := n\<rparr>"
    using k f s1(2) m by (cases r) (simp_all add: act_match_def, (meson le_trans)+)
qed

lemma quiet_bind: "quiet m \<Longrightarrow> (\<And>x. quiet (f x)) \<Longrightarrow> quiet (act_bind m f)"
  unfolding act_bind_as_match by (intro quiet_match quiet_lift)

lemma quiet_then: "quiet m \<Longrightarrow> quiet k \<Longrightarrow> quiet (act_then m k)"
  unfolding act_then_def by (rule quiet_bind)

lemma quiet_map_err: "quiet m \<Longrightarrow> quiet (act_map_err g m)"
  unfolding quiet_def act_map_err_def by (simp add: split_beta)

lemma quiet_ensure: "quiet (act_ensure b e)"
  unfolding act_ensure_def by (rule quiet_lift)

lemma one_call: "\<exists>n \<ge> os_calls s. s\<lparr>os_calls := Suc (os_calls s)\<rparr> = s\<lparr>os_calls := n\<rparr>"
  by (rule exI[of _ "Suc (os_calls s)"]) simp

lemma quiet_call: "quiet (os_call os f)"
  by (simp add: quiet_def os_call_def one_call)

lemmas quieting = quiet_lift quiet_match quiet_bind quiet_then quiet_map_err quiet_ensure quiet_call

lemma runs_quiet:
  assumes "quiet m" and "\<And>s n. P s \<Longrightarrow> os_calls s \<le> n \<Longrightarrow> P (s\<lparr>os_calls := n\<rparr>)"
  shows "runs P m (\<lambda>_. P) (\<lambda>_. P)"
  unfolding runs_def
proof (intro allI impI)
  fix s assume "P s"
  moreover obtain n where "snd (m s) = s\<lparr>os_calls := n\<rparr>" "os_calls s \<le> n" using assms(1) by (auto simp: quiet_def)
  ultimately show "case m s of (Inl e, s') \<Rightarrow> P s' | (Inr x, s') \<Rightarrow> P s'"
    using assms(2) by (auto split: prod.split sum.split)
qed

lemma quiet_hash_loop: "quiet (hash_loop os chunk fd expected_size offset acc :: ('s, io_kind, u64 \<times> string) os_action)"
proof -
  have "\<exists>n \<ge> os_calls s. snd (hash_loop os chunk fd expected_size offset acc s) = s\<lparr>os_calls := n\<rparr>" for s :: "'s os_state_scheme"
  proof (induction os chunk fd expected_size offset acc s rule: hash_loop.induct)
    case (1 os chunk fd expected_size offset acc s)
    let ?want = "min (unat (expected_size - offset)) chunk"
    obtain answer s1 where a: "os_call os (\<lambda>v. ov_read_at v fd offset ?want) s = (answer, s1)" by fastforce
    have s1: "s1 = s\<lparr>os_calls := Suc (os_calls s)\<rparr>" using a by (auto simp: os_call_def)
    show ?case
    proof (cases "offset < expected_size")
      case False
      then show ?thesis by (subst hash_loop.simps) (auto intro: exI[of _ "os_calls s"])
    next
      case True
      show ?thesis
      proof (cases answer)
        case (Inl e)
        with True a s1 show ?thesis by (subst hash_loop.simps) (simp add: Let_def one_call)
      next
        case (Inr bytes)
        let ?b = "take ?want bytes"
        show ?thesis
        proof (cases "?b = [] \<or> checked_add offset (of_nat (length ?b)) = None")
          case True
          with \<open>offset < expected_size\<close> a s1 Inr show ?thesis
            by (subst hash_loop.simps) (auto simp: Let_def one_call split: option.split)
        next
          case False
          then obtain stop where b: "?b \<noteq> []" "checked_add offset (of_nat (length ?b)) = Some stop" by auto
          have "hash_loop os chunk fd expected_size offset acc s = hash_loop os chunk fd expected_size stop (acc @ ?b) s1"
            using True a Inr b by (subst hash_loop.simps) (simp add: Let_def del: length_take take_eq_Nil take_eq_Nil2)
          moreover obtain n where "snd (hash_loop os chunk fd expected_size stop (acc @ ?b) s1) = s1\<lparr>os_calls := n\<rparr>"
            "os_calls s1 \<le> n"
            using 1[OF _ refl _ _ refl _ b(2)] True a Inr b(1) by auto
          ultimately show ?thesis using s1 by (intro exI[of _ n]) simp
        qed
      qed
    qed
  qed
  then show ?thesis by (simp add: quiet_def)
qed

lemma quiet_hash: "quiet (hash_open_file sha os chunk fd n)"
  unfolding hash_open_file_def by (auto intro!: quieting quiet_hash_loop)

section \<open>Programs that run behind a durable record\<close>

text \<open>
  \<open>guarded_spawns f bytes S before ps s\<close>: after \<open>before\<close> exactly the programs \<open>ps\<close> were started, each when a crash would have left
  \<open>bytes\<close> at the record, and since then a crash could only leave an outcome of \<open>S\<close>.
\<close>

definition guarded_spawns ::
  "path \<Rightarrow> string \<Rightarrow> crash_file set \<Rightarrow> program_start list \<Rightarrow> spawn list \<Rightarrow> 's executor_state_scheme \<Rightarrow> bool" where
  "guarded_spawns f bytes S before ps s \<longleftrightarrow>
     (\<exists>es. xs_spawned s = before @ es \<and> map pgs_spawn es = ps
        \<and> (\<forall>e\<in>set es. set (survivors (w_host (pgs_world e)) f) = {Intact bytes} \<and> recorded S f (pgs_world e) (xs_world s)))"

text \<open>A discovery that passed a check, after the program starts \<open>before\<close> and before all others.\<close>

definition observed ::
  "(nat \<Rightarrow> os_view) \<Rightarrow> (host_snapshot \<Rightarrow> ('e, unit) result) \<Rightarrow> program_start list \<Rightarrow> 's executor_state_scheme \<Rightarrow> bool" where
  "observed os verify before s \<longleftrightarrow> (\<exists>n snapshot. n < os_calls s \<and> ov_discover (os n) = Inr snapshot \<and> verify snapshot = Inr ()
     \<and> (\<forall>e\<in>set before. pgs_call e < n) \<and> (\<forall>e\<in>set (drop (length before) (xs_spawned s)). n < pgs_call e))"

text \<open>What stays true when more calls are made and more programs started.\<close>

definition steady :: "('s executor_state_scheme \<Rightarrow> bool) \<Rightarrow> bool" where
  "steady X \<longleftrightarrow> (\<forall>s s'. X s \<longrightarrow> os_calls s \<le> os_calls s'
     \<longrightarrow> (xs_spawned s' = xs_spawned s \<or> (\<exists>e. xs_spawned s' = xs_spawned s @ [e] \<and> os_calls s \<le> pgs_call e)) \<longrightarrow> X s')"

lemma steadyD: "steady X \<Longrightarrow> X s \<Longrightarrow> os_calls s \<le> os_calls s' \<Longrightarrow> xs_spawned s' = xs_spawned s \<Longrightarrow> X s'"
  by (drule steady_def[THEN iffD1], drule spec[of _ s], drule spec[of _ s'], simp)

lemma steadyE:
  "steady X \<Longrightarrow> X s \<Longrightarrow> os_calls s \<le> os_calls s' \<Longrightarrow> xs_spawned s' = xs_spawned s @ [e] \<Longrightarrow> os_calls s \<le> pgs_call e \<Longrightarrow> X s'"
  by (drule steady_def[THEN iffD1], drule spec[of _ s], drule spec[of _ s'], simp)

text \<open>What stays true when more calls are made and no program is started.\<close>

definition framed :: "('s executor_state_scheme \<Rightarrow> bool) \<Rightarrow> bool" where
  "framed X \<longleftrightarrow> (\<forall>s s'. X s \<longrightarrow> os_calls s \<le> os_calls s' \<longrightarrow> xs_spawned s' = xs_spawned s \<longrightarrow> X s')"

lemma framedD: "framed X \<Longrightarrow> X s \<Longrightarrow> os_calls s \<le> os_calls s' \<Longrightarrow> xs_spawned s' = xs_spawned s \<Longrightarrow> X s'"
  by (drule framed_def[THEN iffD1], drule spec[of _ s], drule spec[of _ s'], simp)

lemma steady_framed: "steady X \<Longrightarrow> framed X"
  unfolding framed_def by (intro allI impI) (rule steadyD)

lemma steady_True: "steady (\<lambda>_. True)"
  by (simp add: steady_def)

lemma observed_steady:
  assumes "observed os verify before s" and "os_calls s \<le> os_calls s'"
    and "xs_spawned s' = xs_spawned s \<or> (\<exists>e. xs_spawned s' = xs_spawned s @ [e] \<and> os_calls s \<le> pgs_call e)"
  shows "observed os verify before s'"
proof -
  obtain n snapshot where n: "n < os_calls s" "ov_discover (os n) = Inr snapshot" "verify snapshot = Inr ()"
    "\<forall>e\<in>set before. pgs_call e < n" "\<forall>e\<in>set (drop (length before) (xs_spawned s)). n < pgs_call e"
    using assms(1) by (auto simp: observed_def)
  have "n < pgs_call e" if "e \<in> set (drop (length before) (xs_spawned s'))" for e
    using that assms(3) n(1,5) by (cases "length before - length (xs_spawned s)") auto
  with n assms(2) show ?thesis unfolding observed_def by (intro exI[of _ n] exI[of _ snapshot]) auto
qed

lemma steady_observed: "steady (observed os verify before)"
  unfolding steady_def by (intro allI impI) (rule observed_steady)

lemma framed_observed: "framed (\<lambda>s. observed os verify (xs_spawned s) s)" "framed (observed os verify before)"
  unfolding framed_def by (simp, metis observed_steady) (metis observed_steady)

lemma framed_conj: "framed X \<Longrightarrow> framed Y \<Longrightarrow> framed (\<lambda>s. X s \<and> Y s)"
  unfolding framed_def by metis

lemma framed_True: "framed (\<lambda>_. True)"
  by (simp add: framed_def)

definition timed :: "'s executor_state_scheme \<Rightarrow> bool" where
  "timed s \<longleftrightarrow> (\<forall>e\<in>set (xs_spawned s). pgs_call e < os_calls s)"

lemma guarded_start: "xs_spawned s = before \<Longrightarrow> guarded_spawns f bytes S before [] s"
  by (simp add: guarded_spawns_def)

lemma guarded_calls [simp]: "guarded_spawns f bytes S before ps (s\<lparr>os_calls := n\<rparr>) = guarded_spawns f bytes S before ps s"
  by (simp add: guarded_spawns_def)

lemma guarded_step:
  assumes "guarded_spawns f bytes S before ps s" and "recorded S f (xs_world s) (xs_world s')"
    and "xs_spawned s' = xs_spawned s"
  shows "guarded_spawns f bytes S before ps s'"
  using assms unfolding guarded_spawns_def recorded_def by (metis passed_trans)

lemma guarded_spawn:
  assumes "guarded_spawns f bytes S before ps s" and "published env f bytes (w_host (xs_world s))"
    and "well_allocated (w_host (xs_world s))" and "Intact bytes \<in> S"
  shows "guarded_spawns f bytes S before (ps @ [p]) (with_start p s)"
proof -
  obtain es where es: "xs_spawned s = before @ es" "map pgs_spawn es = ps"
    "\<forall>e\<in>set es. set (survivors (w_host (pgs_world e)) f) = {Intact bytes} \<and> recorded S f (pgs_world e) (xs_world s)"
    using assms(1) by (auto simp: guarded_spawns_def)
  let ?e = "\<lparr>pgs_spawn = p, pgs_call = os_calls s, pgs_world = xs_world s\<rparr>"
  have "xs_spawned (with_start p s) = before @ es @ [?e]" "xs_world (with_start p s) = xs_world s"
    using es(1) by (auto simp: with_start_def)
  with es(2,3) recorded_published[OF assms(2,3,4)] published_survivors[OF assms(2)] show ?thesis
    unfolding guarded_spawns_def by (intro exI[of _ "es @ [?e]"]) auto
qed

lemma timed_calls: "timed s \<Longrightarrow> os_calls s \<le> n \<Longrightarrow> timed (s\<lparr>os_calls := n\<rparr>)"
  by (fastforce simp: timed_def)

lemma execute_stage_cases:
  assumes "execute_descriptor_stage os fd program argv path locale stdin s = (r, s')"
  shows "(\<exists>e. r = Inl e) \<and> s' = s
    \<or> s' = (with_start \<lparr> sp_fd = fd, sp_program = program, sp_argv = argv, sp_stdin = stdin \<rparr> s)\<lparr>os_calls := Suc (os_calls s)\<rparr>"
  using assms
  by (auto simp: execute_descriptor_stage_def act_then_def act_bind_def act_lift_def record_spawn_def os_call_def
      with_start_def split: sum.splits)

end
