(* ===== verification/StoreProgress.thy ===== *)
theory StoreProgress
  imports WriteAhead CreateJournal
begin

text \<open>
  On a host whose calls do not fail, a store that is in order (\<open>in_order\<close>: a private directory that holds one record, and that on
  the disk) stays in order and every write succeeds. \<open>succeeds\<close> is the logic of executors for actions on the host that end
  with a value.
\<close>

section \<open>Actions that succeed\<close>

definition succeeds :: "(host \<Rightarrow> bool) \<Rightarrow> ('e, 'a) action \<Rightarrow> ('a \<Rightarrow> host \<Rightarrow> bool) \<Rightarrow> bool" where
  "succeeds P m Q \<longleftrightarrow> runs (\<lambda>w. P (w_host w)) m (\<lambda>x w. Q x (w_host w)) (\<lambda>_ _. False)"

lemma succeeds_use: "succeeds P m Q \<Longrightarrow> P (w_host w) \<Longrightarrow> \<exists>x w'. m w = (Inr x, w') \<and> Q x (w_host w')"
  unfolding succeeds_def by (cases "m w"; cases "fst (m w)") (auto dest: runs_use)

lemma succeeds_bind: "succeeds P m R \<Longrightarrow> (\<And>x. succeeds (R x) (f x) Q) \<Longrightarrow> succeeds P (act_bind m f) Q"
  unfolding succeeds_def by (rule runs_bind)

lemma succeeds_then: "succeeds P m (\<lambda>_. R) \<Longrightarrow> succeeds R k Q \<Longrightarrow> succeeds P (act_then m k) Q"
  unfolding succeeds_def by (rule runs_then)

lemma succeeds_lift: "(\<And>h. P h \<Longrightarrow> Q x h) \<Longrightarrow> r = Inr x \<Longrightarrow> succeeds P (act_lift r) Q"
  unfolding succeeds_def by (rule runs_lift) simp

lemma succeeds_map_err: "succeeds P m Q \<Longrightarrow> succeeds P (act_map_err g m) Q"
  unfolding succeeds_def by (rule runs_map_err)

lemma succeeds_cleanup: "succeeds P m Q \<Longrightarrow> succeeds P (act_cleanup m c) Q"
  unfolding succeeds_def runs_def act_cleanup_def by (fastforce split: prod.splits sum.splits)

lemma succeeds_pure: "(b \<Longrightarrow> succeeds P m Q) \<Longrightarrow> succeeds (\<lambda>h. b \<and> P h) m Q"
  unfolding succeeds_def by (rule runs_pure)

lemma succeeds_sequence: "succeeds P next_sequence (\<lambda>_. P)"
  by (simp add: succeeds_def runs_def next_sequence_def)

lemma succeeds_syscall:
  assumes "no_faults env" and "\<And>h. P h \<Longrightarrow> case f None h of (Inl _, _) \<Rightarrow> False | (Inr x, h') \<Rightarrow> Q x h'"
  shows "succeeds P (syscall env f) Q"
  unfolding succeeds_def runs_def
proof (intro allI impI)
  fix w :: world assume "P (w_host w)"
  from assms(2)[OF this] show "case syscall env f w of (Inl e, w') \<Rightarrow> False | (Inr x, w') \<Rightarrow> Q x (w_host w')"
    by (auto simp: syscall_no_fault[OF assms(1)] split: prod.splits sum.splits)
qed

lemma succeeds_keep:
  assumes "\<And>w. P (w_host w) \<Longrightarrow> \<exists>x w'. m w = (Inr x, w') \<and> w_host w' = w_host w"
  shows "succeeds P m (\<lambda>_. P)"
  unfolding succeeds_def runs_def using assms by fastforce

lemma act_bind_value: "act_bind (act_lift (Inr x)) f = f x"
  by (simp add: fun_eq_iff act_bind_def act_lift_def)

section \<open>A store in order\<close>

text \<open>The directory of the records is private, holds nothing but the record \<open>f\<close>, and that is on the disk.\<close>

definition in_order :: "io_env \<Rightarrow> path \<Rightarrow> path \<Rightarrow> string \<Rightarrow> host \<Rightarrow> bool" where
  "in_order env root f bytes h \<longleftrightarrow> private_root env root h \<and> published env f bytes h \<and> well_allocated h
     \<and> (\<forall>n. root @ [n] \<noteq> f \<longrightarrow> h_names h (root @ [n]) = None)"

lemma file_private: "mild_umask env \<Longrightarrow> private_file env (file_with env bytes True)"
  by (simp add: private_file_def file_with_def new_inode_def mild_umask_def)

text \<open>Between the steps of a write: the temporary file \<open>i\<close> has the bytes \<open>bs\<close>.\<close>

definition half_written ::
  "io_env \<Rightarrow> path \<Rightarrow> path \<Rightarrow> path \<Rightarrow> string \<Rightarrow> bool \<Rightarrow> nat \<Rightarrow> host \<Rightarrow> bool" where
  "half_written env root f temp bs synced i h \<longleftrightarrow> private_root env root h \<and> h_names h root \<noteq> Some i
     \<and> h_names h temp = Some i \<and> h_names h f \<noteq> None \<and> h_names h f \<noteq> Some i \<and> h_inodes h i = file_with env bs synced
     \<and> well_allocated h \<and> (\<forall>n. root @ [n] \<noteq> f \<longrightarrow> root @ [n] \<noteq> temp \<longrightarrow> h_names h (root @ [n]) = None)"

lemma private_root_add_links [simp]: "private_root env root (add_links i k h) = private_root env root h"
  by (cases "h_names h root") (auto simp: private_root_def add_links_def set_inode_def private_directory_def)

lemma names_add_links [simp]: "h_names (add_links i k h) = h_names h"
  by (simp add: add_links_def set_inode_def)

lemma staged_in_order:
  assumes env: "no_faults env" and f: "f = root @ [n]" and temp: "temp = root @ [t]" "temp \<noteq> f"
  shows "succeeds (in_order env root f old) (write_staged env temp bytes) (\<lambda>_ h. \<exists>i. half_written env root f temp bytes True i h)"
proof -
  have root: "root \<noteq> temp" "butlast temp = root" by (simp_all add: temp)
  have new: "succeeds (in_order env root f old) (act_map_err (io_error temp) (open_new env temp))
      (\<lambda>i. half_written env root f temp [] False i)"
    unfolding open_new_def create_entry_def
  proof (rule succeeds_map_err, rule succeeds_syscall[OF env], simp, goal_cases)
    case (1 h)
    then obtain d j where d: "h_names h root = Some d" "private_directory env (h_inodes h d)" "h_names h f = Some j"
      and a: "well_allocated h" "h_names h temp = None" "\<forall>n. root @ [n] \<noteq> f \<longrightarrow> h_names h (root @ [n]) = None"
      using temp by (auto simp: in_order_def private_root_def published_def)
    have "d < h_next h" "j < h_next h" using d allocated_entry[OF a(1)] by auto
    moreover have "well_allocated (set_entry temp (Some (h_next h)) (set_inode (h_next h) (new_inode env FkRegular 384)
        (h\<lparr>h_next := Suc (h_next h)\<rparr>)))"
      by (rule well_allocated_set_entry) (simp_all add: well_allocated_next a(1))
    ultimately show ?case using d a root temp f
      by (auto simp: half_written_def private_root_def set_entry_def set_inode_def file_with_def new_inode_def)
  qed
  have put: "succeeds (half_written env root f temp [] False i) (act_map_err (io_error temp) (write_all env i bytes))
      (\<lambda>_. half_written env root f temp bytes False i)" for i
    unfolding write_all_def
    by (rule succeeds_map_err, rule succeeds_syscall[OF env])
       (auto simp: half_written_def private_root_def set_inode_def file_with_def Let_def well_allocated_def allocated_def entries_def)
  have sync: "succeeds (half_written env root f temp bytes False i) (act_map_err (io_error temp) (sync_file env i))
      (\<lambda>_ h. \<exists>i. half_written env root f temp bytes True i h)" for i
    unfolding sync_file_def
    by (rule succeeds_map_err, rule succeeds_syscall[OF env], simp, rule exI[of _ i])
       (auto simp: half_written_def private_root_def set_inode_def file_with_def well_allocated_def allocated_def entries_def)
  show ?thesis unfolding write_staged_def
    by (rule succeeds_bind[OF new], rule succeeds_then[OF put], rule sync)
qed

lemma renamed_in_order:
  assumes env: "no_faults env" and f: "f = root @ [n]" and temp: "temp = root @ [t]" "temp \<noteq> f"
  shows "succeeds (\<lambda>h. \<exists>i. half_written env root f temp bytes True i h)
    (act_then (act_map_err (io_error f) (rename_file env temp f)) (sync_directory env root)) (\<lambda>_. in_order env root f bytes)"
proof -
  let ?R = "\<lambda>h. \<exists>i. private_root env root h \<and> h_names h f = Some i \<and> h_inodes h i = file_with env bytes True
    \<and> well_allocated h \<and> (\<forall>n. root @ [n] \<noteq> f \<longrightarrow> h_names h (root @ [n]) = None)"
  have ren: "succeeds (\<lambda>h. \<exists>i. half_written env root f temp bytes True i h)
      (act_map_err (io_error f) (rename_file env temp f)) (\<lambda>_. ?R)"
    unfolding rename_file_def
  proof (rule succeeds_map_err, rule succeeds_syscall[OF env], elim exE, goal_cases)
    case (1 h i)
    then obtain j where h: "h_names h temp = Some i" "h_names h f = Some j" "j \<noteq> i" "h_inodes h i = file_with env bytes True"
      "private_root env root h" "well_allocated h" "\<forall>n. root @ [n] \<noteq> f \<longrightarrow> root @ [n] \<noteq> temp \<longrightarrow> h_names h (root @ [n]) = None"
      by (auto simp: half_written_def)
    let ?h = "set_entry temp None (set_entry f (Some i) (add_links j (-1) h))"
    have "well_allocated ?h"
      using h allocated_entry[OF h(6,1)] by (intro well_allocated_set_entry) simp_all
    moreover have "private_root env root ?h"
      using h(5) f temp by (auto simp: private_root_def set_entry_def add_links_def set_inode_def private_directory_def)
    moreover have "h_inodes ?h i = file_with env bytes True" "h_names ?h f = Some i"
      using h temp(2) by (simp_all add: set_entry_def add_links_def set_inode_def)
    moreover have "h_names ?h (root @ [n]) = None" if "root @ [n] \<noteq> f" for n
      using that h(7) by (auto simp: set_entry_def)
    ultimately show ?case using h by auto
  qed
  have dir: "succeeds ?R (sync_directory env root) (\<lambda>_. in_order env root f bytes)"
    unfolding sync_directory_def open_dir_def fsync_dir_def
  proof (rule succeeds_then[where R = ?R]; rule succeeds_map_err, rule succeeds_syscall[OF env])
    fix h assume "?R h"
    then obtain i where "private_root env root h" "h_names h f = Some i" "h_inodes h i = file_with env bytes True"
      "well_allocated h" "\<forall>n. root @ [n] \<noteq> f \<longrightarrow> h_names h (root @ [n]) = None" by blast
    then have "in_order env root f bytes (sync_entries root h)"
      using f by (auto simp: in_order_def private_root_def published_def well_allocated_sync sync_entries_def in_directory_def)
        (simp_all add: well_allocated_sync[unfolded sync_entries_def in_directory_def])
    then show "case case None of None \<Rightarrow> (Inr (), sync_entries root h) | Some (k, u) \<Rightarrow> (Inl k, h) of
        (Inl x, u) \<Rightarrow> False | (Inr x, h') \<Rightarrow> in_order env root f bytes h'" by simp
  qed (auto simp: private_root_def)
  show ?thesis by (rule succeeds_then[OF ren dir])
qed

definition opens_private :: "(io_env \<Rightarrow> path \<Rightarrow> bool \<Rightarrow> ('p, 't, unit) store_action) \<Rightarrow> bool" where
  "opens_private dir \<longleftrightarrow> (\<forall>env root w. no_faults env \<longrightarrow> private_root env root (w_host w)
     \<longrightarrow> (\<exists>w'. dir env root False w = (Inr (), w') \<and> w_host w' = w_host w))"

lemma directories_open: "opens_private ensure_secure_directory" "opens_private persistent_ensure_secure_directory"
  unfolding opens_private_def by (simp_all add: ensure_private_root)

lemma temp_is_new: "is_lower_hex_digest i \<Longrightarrow> root @ [Normal (''.'' @ rest)] \<noteq> record_at root i"
  by (cases i) (auto simp: record_at_def is_lower_hex_digest_def is_ascii_digit_def byte_def)

lemma persist_succeeds:
  assumes env: "no_faults env" "mild_umask env" and dir: "opens_private (jk_ensure_directory jk)"
    and valid: "jk_validate jk j = Inr ()" and bytes: "encode_journal jk j = Inr bytes" and hex: "is_lower_hex_digest (jk_id jk j)"
  shows "succeeds (in_order env root (record_at root (jk_id jk j)) old) (persist jk env root j)
    (\<lambda>_. in_order env root (record_at root (jk_id jk j)) bytes)"
proof -
  let ?f = "record_at root (jk_id jk j)" let ?P = "in_order env root ?f old"
  have f: "?f = root @ [Normal (jk_id jk j @ ''.json'')]" by (simp add: record_at_def)
  have path: "path_for root (jk_id jk j) = Inr ?f" by (simp add: path_for_ok hex)
  have dir': "succeeds ?P (jk_ensure_directory jk env root False) (\<lambda>_. ?P)"
    by (rule succeeds_keep) (use dir env(1) in \<open>fastforce simp: opens_private_def in_order_def\<close>)
  have stat: "succeeds ?P (act_map_err g (symlink_metadata env ?f)) (\<lambda>m h. m = file_with env old True \<and> ?P h)" for g
    unfolding symlink_metadata_def
    by (rule succeeds_map_err, rule succeeds_syscall[OF env(1)]) (auto simp: in_order_def published_def)
  have check: "succeeds (\<lambda>h. m = file_with env old True \<and> ?P h) (act_lift (validate_journal_file_metadata env ?f m)) (\<lambda>_. ?P)" for m
    by (rule succeeds_pure, rule succeeds_lift) (auto simp: validate_journal_file_metadata_def file_private[OF env(2)])
  have replace: "succeeds ?P (write_atomic_replace jk env root ?f j) (\<lambda>_. in_order env root ?f bytes)"
  proof -
    have name: "file_name ?f = Some (jk_id jk j @ ''.json'')" by (simp add: file_name_def record_at_def)
    have temp: "temp_path env root ?f = act_bind next_sequence (\<lambda>sequence. act_lift (Inr (root @ [Normal (''.''
        @ (jk_id jk j @ ''.json'') @ ''.tmp-'' @ show_word (e_pid env) @ ''-'' @ show_word sequence)])))"
      by (simp add: temp_path_def name)
    show ?thesis unfolding write_atomic_replace_def bytes act_bind_value
    proof (rule succeeds_bind)
      show "succeeds ?P (temp_path env root ?f) (\<lambda>temp h. (\<exists>t. temp = root @ [t] \<and> temp \<noteq> ?f) \<and> ?P h)"
        unfolding temp
        by (rule succeeds_bind[OF succeeds_sequence], rule succeeds_lift[OF _ refl]) (use temp_is_new[OF hex] in auto)
      fix temp
      show "succeeds (\<lambda>h. (\<exists>t. temp = root @ [t] \<and> temp \<noteq> ?f) \<and> ?P h)
        (act_cleanup (act_then (write_staged env temp bytes) (act_then (act_map_err (io_error ?f) (rename_file env temp ?f))
           (sync_directory env root))) (remove_file env temp)) (\<lambda>_. in_order env root ?f bytes)"
        by (rule succeeds_pure, elim exE conjE, rule succeeds_cleanup,
            rule succeeds_then[OF staged_in_order[OF env(1) f] renamed_in_order[OF env(1) f]])
    qed
  qed
  show ?thesis unfolding persist_def path act_bind_value
    by (rule succeeds_then[OF succeeds_lift[OF _ valid]], assumption, rule succeeds_then[OF dir'],
        rule succeeds_bind[OF stat], rule succeeds_then[OF check], rule succeeds_then[OF replace], rule succeeds_lift[OF _ refl])
qed

section \<open>Transitions that succeed\<close>

lemma encoded:
  "jk_to_vec jk j = Some text \<Longrightarrow> length text < jk_max_bytes jk \<Longrightarrow> encode_journal jk j = Inr (text @ [char_of (10::nat)])"
  by (simp add: encode_journal_def)

text \<open>C40: on a host whose calls do not fail, with a private journal directory that holds the record, every transition that
  the create journal allows is made durable, the store stays in order, and a load gives the new journal back.\<close>

theorem create_transition_progresses:
  assumes "no_faults env" and "mild_umask env" and "is_lower_hex_digest (cj_journal_id j)"
    and "in_order env root (record_at root (cj_journal_id j)) old (w_host w)"
    and "create_apply_transition fp t j = Inr c" and "enc c = Some text" and "length text < MAX_CREATE_RUNTIME_JOURNAL_BYTES"
    and "dec (text @ [char_of (10::nat)]) = Some c"
  shows "\<exists>w'. persist_production_create_runtime_transition fp enc dec env root j t w = (Inr c, w')
    \<and> in_order env root (record_at root (cj_journal_id j)) (text @ [char_of (10::nat)]) (w_host w')
    \<and> fst (load (create_kind fp enc dec) env root (cj_journal_id j) w') = Inr c"
proof -
  let ?jk = "create_kind fp enc dec" and ?b = "text @ [char_of (10::nat)]"
  have id: "cj_journal_id c = cj_journal_id j" and v: "create_validate_journal fp c = Inr ()"
    using assms(5) by (auto simp: create_apply_transition_def Let_def and_then_Inr split: option.splits)
  have k: "jk_validate ?jk c = Inr ()" "jk_id ?jk c = cj_journal_id j" "jk_to_vec ?jk c = Some text"
    "opens_private (jk_ensure_directory ?jk)" "length text < jk_max_bytes ?jk"
    using v id assms(6,7) directories_open(1) by (simp_all add: create_kind_def)
  obtain f w' where p: "persist ?jk env root c w = (Inr f, w')"
    "in_order env root (record_at root (cj_journal_id j)) ?b (w_host w')"
    using succeeds_use[OF persist_succeeds[OF assms(1,2) k(4,1) encoded[OF k(3,5)]], of root old w] assms(3,4) k(2) by auto
  have l: "loaded ?jk (cj_journal_id j) ?b c" using v id assms(7,8) by (simp add: loaded_def create_kind_def)
  have d: "\<exists>w''. jk_ensure_directory ?jk env root False w' = (Inr (), w'') \<and> w_host w'' = w_host w'"
    using ensure_private_root(1)[OF assms(1), of root w' False] p(2) by (auto simp: create_kind_def in_order_def)
  have "published env (record_at root (cj_journal_id j)) ?b (w_host w')" using p(2) by (simp add: in_order_def)
  from load_returns[OF assms(1,2) d assms(3) this l] have "fst (load ?jk env root (cj_journal_id j) w') = Inr c" .
  with p show ?thesis
    by (simp add: persist_production_create_runtime_transition_def persist_transition_def act_bind_def act_then_def act_lift_def assms(5))
qed

lemma ex_world_in_order: "in_order ex_env ex_root (record_at ex_root ex_sha) bytes (w_host (ex_world (Some bytes)))"
proof -
  have "well_allocated (w_host (ex_world (Some bytes)))"
    by (auto simp: well_allocated_def allocated_def entries_def ex_world_def Let_def record_at_def split: if_splits)
  moreover have "published ex_env (record_at ex_root ex_sha) bytes (w_host (ex_world (Some bytes)))"
    by (simp add: published_def ex_world_def Let_def record_at_def)
  moreover have "h_names (w_host (ex_world (Some bytes))) (ex_root @ [n]) = None" if "ex_root @ [n] \<noteq> record_at ex_root ex_sha" for n
    using that by (auto simp: ex_world_def Let_def ex_root_def)
  ultimately show ?thesis using ex_world_private by (simp add: in_order_def)
qed

theorem create_transition_progresses_witness:
  "\<exists>c w'. persist_production_create_runtime_transition (\<lambda>_. Inr ex_sha) (\<lambda>_. Some ''new'')
       (\<lambda>_. Some (projr (create_apply_transition (\<lambda>_. Inr ex_sha) CtBeginPartitionTableWrite ex_create)))
       ex_env ex_root ex_create CtBeginPartitionTableWrite (ex_world (Some ''old'')) = (Inr c, w')
     \<and> cj_phase c = CpWritingPartitionTable"
proof -
  have s: "create_state ex_create [] CpPrepared = ex_create" by (simp add: create_state_def ex_create_def)
  let ?c = "create_state ex_create [(CtBeginPartitionTableWrite, CpWritingPartitionTable,
              ''partition-table-write-started'')] CpWritingPartitionTable"
  have a: "create_apply_transition (\<lambda>_. Inr ex_sha) CtBeginPartitionTableWrite ex_create = Inr ?c"
    using create_apply_state[OF ex_create_fresh phase_run.stay, of CtBeginPartitionTableWrite] s by simp
  have i: "cj_journal_id ex_create = ex_sha" by (simp add: ex_create_def)
  have "in_order ex_env ex_root (record_at ex_root (cj_journal_id ex_create)) ''old'' (w_host (ex_world (Some ''old'')))"
    unfolding i by (rule ex_world_in_order)
  from create_transition_progresses[OF ex_env_ok _ this a, of "\<lambda>_. Some ''new''" "''new''" "\<lambda>_. Some ?c"]
  show ?thesis by (simp add: i ex_sha_hex MAX_CREATE_RUNTIME_JOURNAL_BYTES_def a) (auto intro!: exI[of _ ?c])
qed

end
