(* ===== verification/CreateRuntime.thy ===== *)
theory CreateRuntime
  imports CreateAuthorization WriteAhead
begin

text \<open>
  The two crossings of a create operation, \<open>crates/executor/src/production_create_runtime_exec.rs\<close>: writing the partition
  table and formatting the file system, each between durable transitions of the runtime journal. \<open>create_site\<close> holds what
  they rest on besides \<open>create_basis\<close>: the operating system, the host and directory of the journal store and its codec, the
  digests of the receipts and the texts of the errors (\<open>Display\<close>). The effective user of the process is the one of the store.
  The pauses between the attempts of a rediscovery are not modelled.
\<close>

section \<open>Records\<close>

record partition_receipt =
  cpr_schema_version :: u32
  cpr_receipt_id :: string
  cpr_journal_id :: string
  cpr_launch_id :: string
  cpr_disk :: string
  cpr_partition_device :: string
  cpr_partition_table :: string
  cpr_partition_start_sector :: u64
  cpr_partition_sector_count :: u64
  cpr_partition_size_bytes :: u64
  cpr_partition_mapped_verified :: bool
  cpr_filesystem_formatted :: bool

record filesystem_receipt =
  cfr_schema_version :: u32
  cfr_receipt_id :: string
  cfr_journal_id :: string
  cfr_launch_id :: string
  cfr_partition_receipt_id :: string
  cfr_disk :: string
  cfr_partition_device :: string
  cfr_filesystem :: string
  cfr_partition_mapped_verified :: bool
  cfr_filesystem_formatted :: bool
  cfr_journal_completed :: bool

datatype partition_error =
  PteFeatureDisabled | PteRootRequired | PteAuthorizationInvalid | PteJournalMismatch
| PteConsent consent_lease_error | PteToolLease tool_lease_error | PteDescriptor exec_error
| PteJournal create_error | PteStageFailed string i32 string | PtePartxMappingUnreconciled i32 string string
| PteRediscovery string | PtePartitionGeometryMismatch | PteUnexpectedPartitionUse
| PteRecoveryPersistenceFailed string string | PteSerialization string

datatype filesystem_error =
  FseFeatureDisabled | FseRootRequired | FseAuthorizationInvalid | FsePartitionReceiptInvalid | FseJournalMismatch
| FseConsent consent_lease_error | FseToolLease tool_lease_error | FseDescriptor exec_error
| FseJournal create_error | FsePreFormatPartitionVerification string | FseStageFailed i32 string
| FseRediscovery string | FseFilesystemVerificationMismatch | FseUnexpectedPartitionUse
| FseRecoveryPersistenceFailed string string | FseSerialization string

section \<open>What the crossings rest on\<close>

record 'v create_site =
  si_basis :: "'v create_basis"
  si_os :: "nat \<Rightarrow> os_view"
  si_env :: io_env
  si_root :: path
  si_enc :: "create_journal \<Rightarrow> string option"
  si_dec :: "string \<Rightarrow> create_journal option"
  si_partition_compiled :: bool
  si_filesystem_compiled :: bool
  si_partition_digest :: "partition_receipt \<Rightarrow> (string, string) result"
  si_filesystem_digest :: "filesystem_receipt \<Rightarrow> (string, string) result"
  si_lossy :: "string \<Rightarrow> string"
  si_partition_text :: "partition_error \<Rightarrow> string"
  si_filesystem_text :: "filesystem_error \<Rightarrow> string"
  si_journal_text :: "create_error \<Rightarrow> string"

type_synonym create_run = "create_journal run_state"

definition cpr_expected_receipt_id :: "'v create_site \<Rightarrow> partition_receipt \<Rightarrow> (string, string) result" where
  "cpr_expected_receipt_id si r = si_partition_digest si (r\<lparr>cpr_receipt_id := []\<rparr>)"

definition cpr_integrity_matches :: "'v create_site \<Rightarrow> partition_receipt \<Rightarrow> (string, bool) result" where
  "cpr_integrity_matches si r = and_then (cpr_expected_receipt_id si r) (\<lambda>d. Inr (cpr_receipt_id r = d))"

definition cfr_expected_receipt_id :: "'v create_site \<Rightarrow> filesystem_receipt \<Rightarrow> (string, string) result" where
  "cfr_expected_receipt_id si r = si_filesystem_digest si (r\<lparr>cfr_receipt_id := []\<rparr>)"

definition cfr_integrity_matches :: "'v create_site \<Rightarrow> filesystem_receipt \<Rightarrow> (string, bool) result" where
  "cfr_integrity_matches si r = and_then (cfr_expected_receipt_id si r) (\<lambda>d. Inr (cfr_receipt_id r = d))"

text \<open>The journal store of the site.\<close>

definition site_digest :: "'v create_site \<Rightarrow> create_digest" where
  "site_digest si = cb_journal_digest (si_basis si)"

definition site_kind :: "'v create_site \<Rightarrow> (create_phase, create_transition, create_journal) journal_kind" where
  "site_kind si = create_kind (site_digest si) (si_enc si) (si_dec si)"

definition persist_new_production_create_runtime_journal ::
  "'v create_site \<Rightarrow> (path \<Rightarrow> bool) \<Rightarrow> create_activation \<Rightarrow> create_permit \<Rightarrow> create_preflight \<Rightarrow> create_launch
     \<Rightarrow> (create_phase, create_transition, create_journal) store_action" where
  "persist_new_production_create_runtime_journal si resolves a p f l =
     act_bind (act_lift (build_production_create_runtime_journal (si_basis si) a p f l)) (\<lambda>j.
     act_then (persist_new (site_kind si) resolves (si_env si) (si_root si) j) (act_lift (Inr j)))"

definition site_advance :: "'v create_site \<Rightarrow> create_transition \<Rightarrow> (create_run, create_error, unit) state_action" where
  "site_advance si = advance (\<lambda>j t.
     persist_production_create_runtime_transition (site_digest si) (si_enc si) (si_dec si) (si_env si) (si_root si) j t)"

definition site_load :: "'v create_site \<Rightarrow> string \<Rightarrow> (create_run, create_error, create_journal) state_action" where
  "site_load si journal_id = on_journal (load (site_kind si) (si_env si) (si_root si) journal_id)"

section \<open>Validation\<close>

definition expected_partition_type :: "create_partition_table_policy \<Rightarrow> string" where
  "expected_partition_type policy =
     (case policy of CptGpt \<Rightarrow> GPT_LINUX_FILESYSTEM_TYPE | CptDos \<Rightarrow> DOS_LINUX_FILESYSTEM_TYPE)"

definition bounded_stderr :: "'v create_site \<Rightarrow> exec_outcome \<Rightarrow> string" where
  "bounded_stderr si outcome = si_lossy si (take 4096 (eo_stderr outcome))"

definition stage_contract :: "'v create_basis \<Rightarrow> create_activation \<Rightarrow> create_launch \<Rightarrow> privileged_program \<Rightarrow> string list \<Rightarrow> bool" where
  "stage_contract cb a l program mkfs_args =
     (lst_program (cls_sfdisk l) = PpSfdisk \<and> lst_program (cls_partx l) = PpPartx
      \<and> lst_program (cls_mkfs l) = program \<and> lst_argv (cls_sfdisk l) = sfdisk_argv (ca_disk a)
      \<and> lst_argv (cls_partx l) = partx_argv (ca_disk a) \<and> lst_argv (cls_mkfs l) = mkfs_args
      \<and> cls_fixed_path l = FIXED_PATH \<and> cls_fixed_locale l = FIXED_LOCALE \<and> cls_descriptor_exec_api l = ''fexecve''
      \<and> lst_stdin_len (cls_sfdisk l) = of_nat (length (cls_sfdisk_script l))
      \<and> lst_stdin_sha256 (cls_sfdisk l) = Some (cb_sha cb (cls_sfdisk_script l))
      \<and> lst_stdin_len (cls_partx l) = 0 \<and> lst_stdin_sha256 (cls_partx l) = None
      \<and> lst_stdin_len (cls_mkfs l) = 0 \<and> lst_stdin_sha256 (cls_mkfs l) = None)"

definition validate_launch_stage_contract ::
  "'v create_basis \<Rightarrow> create_activation \<Rightarrow> create_launch \<Rightarrow> (partition_error, unit) result" where
  "validate_launch_stage_contract cb a l =
     (if ca_filesystem a = ''ext4''
      then require (stage_contract cb a l PpMkfsExt4 [''mkfs.ext4'', ''-F'', cls_partition_device l]) PteAuthorizationInvalid
      else if ca_filesystem a = ''xfs''
      then require (stage_contract cb a l PpMkfsXfs [''mkfs.xfs'', ''-f'', cls_partition_device l]) PteAuthorizationInvalid
      else Inl PteAuthorizationInvalid)"

definition crossing_untouched :: "'v create_basis \<Rightarrow> create_activation \<Rightarrow> create_permit \<Rightarrow> create_preflight \<Rightarrow> create_launch
     \<Rightarrow> create_journal \<Rightarrow> bool" where
  "crossing_untouched cb a p f l j =
     (activation_sealed cb a \<and> permit_sealed cb p \<and> preflight_sealed cb f \<and> cls_schema_version l = 1
      \<and> ok_true (cls_integrity_matches cb l) \<and> cj_schema_version j = 1
      \<and> ok_true (create_integrity_matches (cb_journal_digest cb) j)
      \<and> activation_untouched a \<and> permit_untouched p \<and> preflight_untouched f \<and> launch_untouched l
      \<and> cls_require_partition_rediscovery_before_mkfs l \<and> cj_phase j = CpPrepared
      \<and> \<not> cj_mutation_may_have_started j \<and> \<not> cj_partition_table_may_have_changed j \<and> \<not> cj_filesystem_may_have_changed j)"

definition crossing_binds :: "create_activation \<Rightarrow> create_permit \<Rightarrow> create_preflight \<Rightarrow> create_launch \<Rightarrow> create_journal \<Rightarrow> bool" where
  "crossing_binds a p f l j =
     (cpm_activation_id p = ca_activation_id a \<and> cpf_activation_id f = ca_activation_id a
      \<and> cls_activation_id l = ca_activation_id a \<and> cj_activation_id j = ca_activation_id a
      \<and> cpf_execution_permit_id f = cpm_permit_id p \<and> cls_execution_permit_id l = cpm_permit_id p
      \<and> cj_execution_permit_id j = cpm_permit_id p \<and> cls_preflight_receipt_id l = cpf_receipt_id f
      \<and> cj_preflight_receipt_id j = cpf_receipt_id f \<and> cj_launch_id j = cls_launch_id l
      \<and> cpm_create_intent_id p = ca_create_intent_id a \<and> cpf_create_intent_id f = ca_create_intent_id a
      \<and> cls_create_intent_id l = ca_create_intent_id a \<and> cj_create_intent_id j = ca_create_intent_id a
      \<and> cpm_disk p = ca_disk a \<and> cpf_disk f = ca_disk a \<and> cls_disk l = ca_disk a \<and> cj_disk j = ca_disk a
      \<and> cpm_partition_table p = ca_partition_table a \<and> cpf_partition_table f = ca_partition_table a
      \<and> cls_partition_table l = ca_partition_table a \<and> cj_partition_table j = partition_table_name (ca_partition_table a)
      \<and> cpm_partition_start_sector p = ca_partition_start_sector a \<and> cpf_partition_start_sector f = ca_partition_start_sector a
      \<and> cls_partition_start_sector l = ca_partition_start_sector a \<and> cj_partition_start_sector j = ca_partition_start_sector a
      \<and> cpm_partition_sector_count p = ca_partition_sector_count a \<and> cpf_partition_sector_count f = ca_partition_sector_count a
      \<and> cls_partition_sector_count l = ca_partition_sector_count a \<and> cj_partition_sector_count j = ca_partition_sector_count a
      \<and> cpm_partition_size_bytes p = ca_partition_size_bytes a \<and> cpf_partition_size_bytes f = ca_partition_size_bytes a
      \<and> cls_partition_size_bytes l = ca_partition_size_bytes a \<and> cj_partition_size_bytes j = ca_partition_size_bytes a
      \<and> cpm_filesystem p = ca_filesystem a \<and> cpf_filesystem f = ca_filesystem a
      \<and> cls_filesystem l = ca_filesystem a \<and> cj_filesystem j = ca_filesystem a
      \<and> cj_partition_device j = cls_partition_device l)"

definition validate_crossing ::
  "'v create_basis \<Rightarrow> create_activation \<Rightarrow> create_permit \<Rightarrow> create_preflight \<Rightarrow> create_launch \<Rightarrow> create_journal
     \<Rightarrow> (partition_error, unit) result" where
  "validate_crossing cb a p f l j =
     (if \<not> crossing_untouched cb a p f l j then Inl PteAuthorizationInvalid
      else if \<not> crossing_binds a p f l j then Inl PteAuthorizationInvalid
      else validate_launch_stage_contract cb a l)"

section \<open>Verification of a fresh snapshot\<close>

definition record_exact :: "create_activation \<Rightarrow> create_launch \<Rightarrow> partition_record \<Rightarrow> bool" where
  "record_exact a l r =
     (pr_node r = cls_partition_device l \<and> pr_start_sector r = ca_partition_start_sector a
      \<and> pr_size_sectors r = ca_partition_sector_count a
      \<and> (case pr_partition_type r of None \<Rightarrow> False
         | Some t \<Rightarrow> eq_ignore_ascii_case t (expected_partition_type (ca_partition_table a))))"

definition table_exact :: "create_activation \<Rightarrow> create_launch \<Rightarrow> partition_table \<Rightarrow> bool" where
  "table_exact a l t =
     (pt_label t = Some (partition_table_name (ca_partition_table a)) \<and> pt_unit t = Some ''sectors''
      \<and> pt_sector_size_bytes t = Some (ca_logical_sector_bytes a)
      \<and> (case single (pt_partitions t) of None \<Rightarrow> False | Some r \<Rightarrow> record_exact a l r))"

definition child_exact :: "create_activation \<Rightarrow> create_launch \<Rightarrow> block_device \<Rightarrow> block_device \<Rightarrow> bool" where
  "child_exact a l disk child =
     (case checked_mul (ca_partition_sector_count a) (ca_logical_sector_bytes a) of
        None \<Rightarrow> False
      | Some expected_size \<Rightarrow>
          bd_path child = Some (cls_partition_device l) \<and> bd_kind child = NkPartition
          \<and> bd_size_bytes child = expected_size \<and> bd_logical_sector_bytes child = Some (ca_logical_sector_bytes a)
          \<and> bd_parent_kernel_name child = bd_kernel_name disk)"

definition partition_in_use :: "create_activation \<Rightarrow> create_launch \<Rightarrow> host_snapshot \<Rightarrow> block_device \<Rightarrow> bool" where
  "partition_in_use a l snapshot child =
     (bd_filesystem child \<noteq> None \<or> bd_mountpoints child \<noteq> []
      \<or> list_ex (\<lambda>m. me_source m = Some (ca_disk a) \<or> me_source m = Some (cls_partition_device l)) (hs_mounts snapshot)
      \<or> list_ex (\<lambda>e. fe_source e = ca_disk a \<or> fe_source e = cls_partition_device l) (hs_fstab snapshot)
      \<or> list_ex (\<lambda>e. se_name e = ca_disk a \<or> se_name e = cls_partition_device l) (hs_swaps snapshot))"

definition verify_partition_snapshot ::
  "create_activation \<Rightarrow> create_launch \<Rightarrow> host_snapshot \<Rightarrow> (partition_error, unit) result" where
  "verify_partition_snapshot a l snapshot =
     (if \<not> collector_complete snapshot ''partition_tables'' then Inl PtePartitionGeometryMismatch
      else case single (filter (\<lambda>t. pt_device t = ca_disk a) (hs_partition_tables snapshot)) of
        None \<Rightarrow> Inl PtePartitionGeometryMismatch
      | Some table \<Rightarrow>
          if \<not> table_exact a l table then Inl PtePartitionGeometryMismatch
          else (case top_disk snapshot (ca_disk a) of
            None \<Rightarrow> Inl PtePartitionGeometryMismatch
          | Some disk \<Rightarrow>
              if \<not> (same_disk a disk \<and> bd_partition_table disk = Some (partition_table_name (ca_partition_table a)))
              then Inl PtePartitionGeometryMismatch
              else (case single (bd_children disk) of
                None \<Rightarrow> Inl PtePartitionGeometryMismatch
              | Some child \<Rightarrow>
                  if \<not> child_exact a l disk child then Inl PtePartitionGeometryMismatch
                  else require (\<not> partition_in_use a l snapshot child) PteUnexpectedPartitionUse)))"

fun with_children :: "block_device list \<Rightarrow> block_device \<Rightarrow> block_device" where
  "with_children cs (BlockDevice n kn p k sz st lsb f m pk mo se u pu t _) = BlockDevice n kn p k sz st lsb f m pk mo se u pu t cs"

fun without_filesystem :: "block_device \<Rightarrow> block_device" where
  "without_filesystem (BlockDevice n kn p k sz st lsb _ m pk mo se u pu t cs) = BlockDevice n kn p k sz st lsb None m pk mo se u pu t cs"

text \<open>\<open>iter_mut().find(..)\<close> and an assignment to what it found.\<close>

fun update_first :: "('a \<Rightarrow> bool) \<Rightarrow> ('a \<Rightarrow> 'a) \<Rightarrow> 'a list \<Rightarrow> 'a list" where
  "update_first p f [] = []"
| "update_first p f (x # xs) = (if p x then f x # xs else x # update_first p f xs)"

definition geometry_snapshot :: "create_activation \<Rightarrow> host_snapshot \<Rightarrow> host_snapshot" where
  "geometry_snapshot a snapshot = snapshot\<lparr>hs_storage := (hs_storage snapshot)\<lparr>sg_block_devices :=
     update_first (\<lambda>d. bd_path d = Some (ca_disk a)) (\<lambda>d. with_children (map without_filesystem (bd_children d)) d)
       (sg_block_devices (hs_storage snapshot))\<rparr>\<rparr>"

definition verify_filesystem_snapshot ::
  "create_activation \<Rightarrow> create_launch \<Rightarrow> host_snapshot \<Rightarrow> (filesystem_error, unit) result" where
  "verify_filesystem_snapshot a l snapshot =
     (case top_disk snapshot (ca_disk a) of
        None \<Rightarrow> Inl FseFilesystemVerificationMismatch
      | Some disk \<Rightarrow>
          (case single (bd_children disk) of
             None \<Rightarrow> Inl FseFilesystemVerificationMismatch
           | Some child \<Rightarrow>
               if (case bd_filesystem child of None \<Rightarrow> True | Some fs \<Rightarrow> fs_type fs \<noteq> ca_filesystem a)
               then Inl FseFilesystemVerificationMismatch
               else map_err (\<lambda>e. if e = PteUnexpectedPartitionUse then FseUnexpectedPartitionUse
                    else FseFilesystemVerificationMismatch)
                 (verify_partition_snapshot a l (geometry_snapshot a snapshot))))"

section \<open>Rediscovery\<close>

definition POST_CREATE_REDISCOVERY_ATTEMPTS :: nat where
  "POST_CREATE_REDISCOVERY_ATTEMPTS = 20"

text \<open>The loop both rediscoveries share: a fatal error ends it, any other is remembered.\<close>

fun rediscover ::
  "(nat \<Rightarrow> os_view) \<Rightarrow> (host_snapshot \<Rightarrow> ('e, unit) result) \<Rightarrow> 'e \<Rightarrow> ('e \<Rightarrow> string) \<Rightarrow> (string \<Rightarrow> 'e) \<Rightarrow> nat \<Rightarrow> string
     \<Rightarrow> ('s, 'e, unit) os_action" where
  "rediscover os verify fatal text failed 0 last_error = act_lift (Inl (failed last_error))"
| "rediscover os verify fatal text failed (Suc n) last_error =
     act_match (os_call os ov_discover)
       (\<lambda>snapshot. case verify snapshot of
          Inr _ \<Rightarrow> act_lift (Inr ())
        | Inl e \<Rightarrow> (if e = fatal then act_lift (Inl e) else rediscover os verify fatal text failed n (text e)))
       (\<lambda>e. rediscover os verify fatal text failed n e)"

definition discover_exact_partition ::
  "'v create_site \<Rightarrow> create_activation \<Rightarrow> create_launch \<Rightarrow> ('s, partition_error, unit) os_action" where
  "discover_exact_partition si a l =
     rediscover (si_os si) (verify_partition_snapshot a l) PteUnexpectedPartitionUse (si_partition_text si) PteRediscovery
       POST_CREATE_REDISCOVERY_ATTEMPTS ''fresh partition state was not observable''"

definition discover_exact_filesystem ::
  "'v create_site \<Rightarrow> create_activation \<Rightarrow> create_launch \<Rightarrow> ('s, filesystem_error, unit) os_action" where
  "discover_exact_filesystem si a l =
     rediscover (si_os si) (verify_filesystem_snapshot a l) FseUnexpectedPartitionUse (si_filesystem_text si) FseRediscovery
       POST_CREATE_REDISCOVERY_ATTEMPTS ''fresh filesystem state was not observable''"

section \<open>Stages\<close>

definition execute_stage ::
  "'v create_site \<Rightarrow> create_launch \<Rightarrow> launch_stage \<Rightarrow> nat \<Rightarrow> string option \<Rightarrow> ('s, exec_error, exec_outcome) executor_action" where
  "execute_stage si l stage fd stdin =
     execute_descriptor_stage (si_os si) fd (lst_program stage) (lst_argv stage) (cls_fixed_path l) (cls_fixed_locale l) stdin"

definition run_stage ::
  "'v create_site \<Rightarrow> string \<Rightarrow> create_launch \<Rightarrow> launch_stage \<Rightarrow> nat \<Rightarrow> string option
     \<Rightarrow> ('s, partition_error, exec_outcome) executor_action" where
  "run_stage si name l stage fd stdin =
     act_bind (act_map_err PteDescriptor (execute_stage si l stage fd stdin)) (\<lambda>outcome.
     act_lift (if eo_exit_code outcome \<noteq> 0
       then Inl (PteStageFailed name (eo_exit_code outcome) (bounded_stderr si outcome)) else Inr outcome))"

definition run_partx_stage_with_exact_reconciliation ::
  "'v create_site \<Rightarrow> create_activation \<Rightarrow> create_launch \<Rightarrow> pinned_tools
     \<Rightarrow> ('s, partition_error, exec_outcome) executor_action" where
  "run_partx_stage_with_exact_reconciliation si a l tools =
     act_bind (act_map_err PteDescriptor (execute_stage si l (cls_partx l) (pct_partx_file tools) None)) (\<lambda>outcome.
     if eo_exit_code outcome = 0 then act_lift (Inr outcome)
     else act_match (discover_exact_partition si a l)
            (\<lambda>_. act_lift (Inr outcome))
            (\<lambda>rediscovery. act_lift (Inl (PtePartxMappingUnreconciled (eo_exit_code outcome) (bounded_stderr si outcome)
               (si_partition_text si rediscovery)))))"

definition run_filesystem_stage ::
  "'v create_site \<Rightarrow> create_launch \<Rightarrow> pinned_tools \<Rightarrow> ('s, filesystem_error, exec_outcome) executor_action" where
  "run_filesystem_stage si l tools =
     act_bind (act_map_err FseDescriptor (execute_stage si l (cls_mkfs l) (pct_mkfs_file tools) None)) (\<lambda>outcome.
     act_lift (if eo_exit_code outcome \<noteq> 0
       then Inl (FseStageFailed (eo_exit_code outcome) (bounded_stderr si outcome)) else Inr outcome))"

section \<open>The crossings\<close>

definition persist_recovery :: "'v create_site \<Rightarrow> partition_error \<Rightarrow> (create_run, partition_error, 'a) state_action" where
  "persist_recovery si runtime =
     act_match (site_advance si CtRecoveryRequired)
       (\<lambda>_. act_lift (Inl runtime))
       (\<lambda>e. act_lift (Inl (PteRecoveryPersistenceFailed (si_partition_text si runtime) (si_journal_text si e))))"

definition persist_filesystem_recovery :: "'v create_site \<Rightarrow> filesystem_error \<Rightarrow> (create_run, filesystem_error, 'a) state_action" where
  "persist_filesystem_recovery si runtime =
     act_match (site_advance si CtRecoveryRequired)
       (\<lambda>_. act_lift (Inl runtime))
       (\<lambda>e. act_lift (Inl (FseRecoveryPersistenceFailed (si_filesystem_text si runtime) (si_journal_text si e))))"

definition execute_partition_crossing ::
  "'v create_site \<Rightarrow> create_activation \<Rightarrow> create_launch \<Rightarrow> pinned_tools
     \<Rightarrow> (create_run, partition_error, partition_receipt) state_action" where
  "execute_partition_crossing si a l tools =
     act_then (act_map_err PteJournal (site_advance si CtBeginPartitionTableWrite))
    (act_then (or_recover (run_stage si ''sfdisk'' l (cls_sfdisk l) (pct_sfdisk_file tools) (Some (cls_sfdisk_script l)))
        (persist_recovery si))
    (act_then (or_recover (run_partx_stage_with_exact_reconciliation si a l tools) (persist_recovery si))
    (act_then (act_map_err PteJournal (site_advance si CtPartitionTableWriteSucceeded))
    (act_then (or_recover (discover_exact_partition si a l) (persist_recovery si))
    (act_then (act_map_err PteJournal (site_advance si CtPartitionRediscoveryVerified))
     (\<lambda>s. act_lift
       (let r = \<lparr> cpr_schema_version = 1, cpr_receipt_id = [], cpr_journal_id = cj_journal_id (rs_journal s),
            cpr_launch_id = cls_launch_id l, cpr_disk = ca_disk a, cpr_partition_device = cls_partition_device l,
            cpr_partition_table = partition_table_name (ca_partition_table a),
            cpr_partition_start_sector = ca_partition_start_sector a,
            cpr_partition_sector_count = ca_partition_sector_count a,
            cpr_partition_size_bytes = ca_partition_size_bytes a, cpr_partition_mapped_verified = True,
            cpr_filesystem_formatted = False \<rparr> in
        and_then (map_err PteSerialization (cpr_expected_receipt_id si r)) (\<lambda>d. Inr (r\<lparr>cpr_receipt_id := d\<rparr>))) s))))))"

definition receipt_binds :: "'v create_site \<Rightarrow> create_activation \<Rightarrow> create_launch \<Rightarrow> partition_receipt \<Rightarrow> create_journal \<Rightarrow> bool" where
  "receipt_binds si a l r j =
     (cpr_schema_version r = 1 \<and> ok_true (cpr_integrity_matches si r) \<and> cpr_journal_id r = cj_journal_id j
      \<and> cpr_launch_id r = cls_launch_id l \<and> cpr_disk r = ca_disk a \<and> cpr_partition_device r = cls_partition_device l
      \<and> cpr_partition_table r = partition_table_name (ca_partition_table a)
      \<and> cpr_partition_start_sector r = ca_partition_start_sector a
      \<and> cpr_partition_sector_count r = ca_partition_sector_count a
      \<and> cpr_partition_size_bytes r = ca_partition_size_bytes a
      \<and> cpr_partition_mapped_verified r \<and> \<not> cpr_filesystem_formatted r)"

definition validate_filesystem_crossing ::
  "'v create_site \<Rightarrow> create_activation \<Rightarrow> create_permit \<Rightarrow> create_preflight \<Rightarrow> create_launch \<Rightarrow> partition_receipt
     \<Rightarrow> create_journal \<Rightarrow> (filesystem_error, unit) result" where
  "validate_filesystem_crossing si a p f l r j =
     (if cj_phase j \<noteq> CpPartitionMappedVerified \<or> \<not> cj_mutation_may_have_started j
         \<or> \<not> cj_partition_table_may_have_changed j \<or> cj_filesystem_may_have_changed j
      then Inl FseAuthorizationInvalid
      else if \<not> is_ok (validate_crossing (si_basis si) a p f l
          (j\<lparr>cj_phase := CpPrepared, cj_mutation_may_have_started := False,
             cj_partition_table_may_have_changed := False, cj_filesystem_may_have_changed := False, cj_events := []\<rparr>))
      then Inl FseAuthorizationInvalid
      else require (receipt_binds si a l r j) FsePartitionReceiptInvalid)"

text \<open>The checks of both crossings before anything is changed: the stored record is the one in memory, the consent and the tools are current.\<close>

definition revalidate_chain ::
  "'v create_site \<Rightarrow> 'e \<Rightarrow> (consent_lease_error \<Rightarrow> 'e) \<Rightarrow> (tool_lease_error \<Rightarrow> 'e) \<Rightarrow> create_activation \<Rightarrow> create_preflight
     \<Rightarrow> pinned_consent \<Rightarrow> pinned_tools \<Rightarrow> ('s, 'e, unit) os_action" where
  "revalidate_chain si invalid consent_error tool_error a f lease tools =
     act_bind (act_map_err consent_error (revalidate_pinned_production_create_consent (si_basis si) (si_os si) a lease)) (\<lambda>consent.
     act_then (act_ensure (ccr_receipt_id consent = cpf_consent_receipt_id f) invalid)
     (act_map_err tool_error (tools_revalidate (si_basis si) (si_os si) tools f)))"

definition stored_matches :: "'v create_site \<Rightarrow> (create_error \<Rightarrow> 'e) \<Rightarrow> 'e \<Rightarrow> (create_run, 'e, unit) state_action" where
  "stored_matches si journal_error mismatch s =
     act_bind (act_map_err journal_error (site_load si (cj_journal_id (rs_journal s)))) (\<lambda>persisted.
     act_ensure (persisted = rs_journal s) mismatch) s"

definition execute_production_create_partition_crossing ::
  "'v create_site \<Rightarrow> create_activation \<Rightarrow> create_permit \<Rightarrow> create_preflight \<Rightarrow> create_launch \<Rightarrow> pinned_consent
     \<Rightarrow> pinned_tools \<Rightarrow> (create_run, partition_error, partition_receipt) state_action" where
  "execute_production_create_partition_crossing si a p f l lease tools s =
     (if \<not> si_partition_compiled si then (Inl PteFeatureDisabled, s)
      else if e_euid (si_env si) \<noteq> 0 then (Inl PteRootRequired, s)
      else
        act_then (act_lift (validate_crossing (si_basis si) a p f l (rs_journal s)))
       (act_then (stored_matches si PteJournal PteJournalMismatch)
       (act_then (revalidate_chain si PteAuthorizationInvalid PteConsent PteToolLease a f lease tools)
        (execute_partition_crossing si a l tools))) s)"

definition execute_filesystem_format ::
  "'v create_site \<Rightarrow> create_activation \<Rightarrow> create_launch \<Rightarrow> partition_receipt \<Rightarrow> pinned_tools
     \<Rightarrow> (create_run, filesystem_error, filesystem_receipt) state_action" where
  "execute_filesystem_format si a l r tools =
     act_then (act_map_err FseJournal (site_advance si CtBeginFilesystemFormat))
    (act_then (or_recover (run_filesystem_stage si l tools) (persist_filesystem_recovery si))
    (act_then (act_map_err FseJournal (site_advance si CtFilesystemFormatSucceeded))
    (act_then (or_recover (discover_exact_filesystem si a l) (persist_filesystem_recovery si))
    (act_then (act_map_err FseJournal (site_advance si CtFilesystemRediscoveryVerified))
     (\<lambda>s. act_lift
       (let x = \<lparr> cfr_schema_version = 1, cfr_receipt_id = [], cfr_journal_id = cj_journal_id (rs_journal s),
            cfr_launch_id = cls_launch_id l, cfr_partition_receipt_id = cpr_receipt_id r, cfr_disk = ca_disk a,
            cfr_partition_device = cls_partition_device l, cfr_filesystem = ca_filesystem a,
            cfr_partition_mapped_verified = True, cfr_filesystem_formatted = True,
            cfr_journal_completed = (cj_phase (rs_journal s) = CpCompleted) \<rparr> in
        and_then (map_err FseSerialization (cfr_expected_receipt_id si x)) (\<lambda>d. Inr (x\<lparr>cfr_receipt_id := d\<rparr>))) s)))))"

definition execute_production_create_filesystem_crossing ::
  "'v create_site \<Rightarrow> create_activation \<Rightarrow> create_permit \<Rightarrow> create_preflight \<Rightarrow> create_launch \<Rightarrow> partition_receipt
     \<Rightarrow> pinned_consent \<Rightarrow> pinned_tools \<Rightarrow> (create_run, filesystem_error, filesystem_receipt) state_action" where
  "execute_production_create_filesystem_crossing si a p f l r lease tools s =
     (if \<not> si_filesystem_compiled si then (Inl FseFeatureDisabled, s)
      else if e_euid (si_env si) \<noteq> 0 then (Inl FseRootRequired, s)
      else
        act_then (act_lift (validate_filesystem_crossing si a p f l r (rs_journal s)))
       (act_then (stored_matches si FseJournal FseJournalMismatch)
       (act_then (revalidate_chain si FseAuthorizationInvalid FseConsent FseToolLease a f lease tools)
       (act_then (or_recover
           (act_map_err (\<lambda>e. FsePreFormatPartitionVerification (si_partition_text si e)) (discover_exact_partition si a l))
           (persist_filesystem_recovery si))
       (act_then (or_recover (revalidate_chain si FseAuthorizationInvalid FseConsent FseToolLease a f lease tools)
           (persist_filesystem_recovery si))
        (execute_filesystem_format si a l r tools))))) s)"

end
