(* ===== verification/CreateCrossing.thy ===== *)
theory CreateCrossing
  imports CreateRuntime CreateJournal
begin

text \<open>
  What the two crossings of \<open>CreateRuntime\<close> guarantee. The store of the site is a \<open>durable_runs\<close> (interpretation
  \<open>create_runs\<close>); \<open>begun\<close> and \<open>committed\<close> are the assertions between their steps, one rule for each step (\<open>begin_runs\<close>,
  \<open>later_runs\<close>, \<open>stage_runs\<close>, \<open>rediscover_runs\<close>, \<open>recovery_runs\<close>) and one for each crossing.
\<close>

section \<open>The store of the site\<close>

interpretation create_runs: durable_runs "create_kind fp enc dec" "persist_new (create_kind fp enc dec) resolves"
    "persist (create_kind fp enc dec)" "load (create_kind fp enc dec)" "create_apply_transition fp"
  for fp enc dec resolves
proof
  show "keeps_allocated (persist (create_kind fp enc dec) env root j)" for env root j
    by (rule persist_keeps_allocated) (simp add: create_kind_def keeps_records)
  show "reads (load (create_kind fp enc dec) env root i)" for env root i
    by (rule load_only_reads) (simp add: create_kind_def keeps_records)
  show "create_apply_transition fp t j = Inr c \<Longrightarrow> jk_id (create_kind fp enc dec) c = jk_id (create_kind fp enc dec) j" for t j c
    by (auto simp: create_kind_def create_apply_transition_def Let_def and_then_Inr split: option.splits)
qed

definition site_record :: "'v create_site \<Rightarrow> create_journal \<Rightarrow> path" where
  "site_record si j = record_at (si_root si) (cj_journal_id j)"

definition site_apply :: "'v create_site \<Rightarrow> create_transition \<Rightarrow> create_journal \<Rightarrow> (create_error, create_journal) result" where
  "site_apply si = create_apply_transition (site_digest si)"

text \<open>The outcomes of a crash once a transition has been made: a record that says that a mutation may have started.\<close>

definition started_outcomes :: "'v create_site \<Rightarrow> crash_file set" where
  "started_outcomes si = {Intact b |b c. stored_bytes (site_kind si) c = Some b \<and> cj_mutation_may_have_started c}"

lemma site_id [simp]: "jk_id (site_kind si) j = cj_journal_id j"
  by (simp add: site_kind_def create_kind_def)

text \<open>A later record of the same operation: only the phase, the flags and the log differ.\<close>

definition frozen_as :: "create_journal \<Rightarrow> create_journal \<Rightarrow> bool" where
  "frozen_as j0 j \<longleftrightarrow> j = j0\<lparr>cj_phase := cj_phase j, cj_mutation_may_have_started := cj_mutation_may_have_started j,
     cj_partition_table_may_have_changed := cj_partition_table_may_have_changed j,
     cj_filesystem_may_have_changed := cj_filesystem_may_have_changed j, cj_events := cj_events j\<rparr>"

lemma frozen_trans: "frozen_as j0 j \<Longrightarrow> frozen_as j k \<Longrightarrow> frozen_as j0 k"
  by (cases j0, cases j, cases k) (simp add: frozen_as_def)

lemma frozen_id: "frozen_as j0 j \<Longrightarrow> cj_journal_id j = cj_journal_id j0"
  by (cases j0, cases j) (simp add: frozen_as_def)

lemma site_apply_frozen:
  assumes "site_apply si t j = Inr c"
  shows "frozen_as j c" "create_validate_journal (site_digest si) c = Inr ()"
  using assms by (auto simp: site_apply_def create_apply_transition_def Let_def and_then_Inr frozen_as_def split: option.splits)

definition same_flags :: "create_journal \<Rightarrow> create_journal \<Rightarrow> bool" where
  "same_flags j k \<longleftrightarrow> cj_mutation_may_have_started j = cj_mutation_may_have_started k
     \<and> cj_partition_table_may_have_changed j = cj_partition_table_may_have_changed k
     \<and> cj_filesystem_may_have_changed j = cj_filesystem_may_have_changed k"

lemma same_flags_refl [simp]: "same_flags j j"
  by (simp add: same_flags_def)

lemma site_apply_flags:
  assumes "site_apply si t j = Inr c"
  shows "cj_partition_table_may_have_changed c = (cj_partition_table_may_have_changed j \<or> t = CtBeginPartitionTableWrite)"
    "cj_filesystem_may_have_changed c = (cj_filesystem_may_have_changed j \<or> t = CtBeginFilesystemFormat)"
    "t \<notin> {CtBeginPartitionTableWrite, CtBeginFilesystemFormat} \<Longrightarrow> same_flags c j"
  using assms by (auto simp: site_apply_def create_apply_transition_def Let_def and_then_Inr same_flags_def split: option.splits if_splits)

lemma site_apply_facts:
  assumes "site_apply si t j = Inr c"
  shows "cj_journal_id c = cj_journal_id j" "cj_mutation_may_have_started c"
    "\<exists>code. create_transition_target (cj_phase j) t = Some (cj_phase c, code)"
proof -
  obtain q code where q: "create_transition_target (cj_phase j) t = Some (q, code)" and c: "cj_phase c = q"
    and i: "cj_journal_id c = cj_journal_id j" and v: "create_validate_journal (site_digest si) c = Inr ()"
    using assms by (auto simp: site_apply_def create_apply_transition_def Let_def and_then_Inr split: option.splits)
  have "q \<noteq> CpPrepared" using q by (elim create_target_SomeE) simp_all
  with v c show "cj_mutation_may_have_started c" by (simp add: create_validate_iff)
  from i q c show "cj_journal_id c = cj_journal_id j"
    "\<exists>code. create_transition_target (cj_phase j) t = Some (cj_phase c, code)" by auto
qed

lemma started_stored: "site_apply si t j = Inr c \<Longrightarrow> stored_bytes (site_kind si) c = Some b \<Longrightarrow> Intact b \<in> started_outcomes si"
  using site_apply_facts(2) by (fastforce simp: started_outcomes_def)

text \<open>The journal in memory is the one on the disk.\<close>

definition durable_now :: "'v create_site \<Rightarrow> create_run \<Rightarrow> bool" where
  "durable_now si s \<longleftrightarrow> (\<exists>b. stored_bytes (site_kind si) (rs_journal s) = Some b
     \<and> published (si_env si) (site_record si (rs_journal s)) b (w_host (xs_world s)))"

lemma site_advance_step:
  assumes "site_advance si t s = (r, s')" and "recorded S (site_record si (rs_journal s)) mark (xs_world s)"
    and "\<And>c b. site_apply si t (rs_journal s) = Inr c \<Longrightarrow> stored_bytes (site_kind si) c = Some b \<Longrightarrow> Intact b \<in> S"
  shows "recorded S (site_record si (rs_journal s)) mark (xs_world s')" "xs_spawned s' = xs_spawned s" "os_calls s' = os_calls s"
    "(r = Inr () \<and> site_apply si t (rs_journal s) = Inr (rs_journal s') \<and> durable_now si s')
     \<or> (\<exists>e. r = Inl e) \<and> rs_journal s' = rs_journal s"
proof -
  let ?jk = "site_kind si"
  obtain r1 w1 where p: "persist_transition persist (create_apply_transition (site_digest si)) ?jk (si_env si) (si_root si)
      (rs_journal s) t (xs_world s) = (r1, w1)" by fastforce
  then have run: "persist_transition (\<lambda>_. persist ?jk) (create_apply_transition (site_digest si)) ?jk (si_env si) (si_root si)
      (rs_journal s) t (xs_world s) = (r1, w1)" by (simp add: persist_transition_def)
  have c: "create_apply_transition (site_digest si) t (rs_journal s) = Inr c \<Longrightarrow> stored_bytes ?jk c = Some b \<Longrightarrow> Intact b \<in> S"
    for c b using assms(3) by (simp add: site_apply_def)
  have rec: "recorded S (record_at (si_root si) (jk_id ?jk (rs_journal s))) mark (xs_world s)"
    using assms(2) by (simp add: site_record_def)
  note t = create_runs.transition_recorded[where fp = "site_digest si" and enc = "si_enc si" and dec = "si_dec si",
      folded site_kind_def, OF rec _ run]
  have t1: "recorded S (record_at (si_root si) (jk_id ?jk (rs_journal s))) mark w1" by (rule t(1)) (rule c)
  have t2: "site_apply si t (rs_journal s) = Inr d \<and> (\<exists>b. stored_bytes ?jk d = Some b
      \<and> published (si_env si) (record_at (si_root si) (jk_id ?jk (rs_journal s))) b (w_host w1))" if "r1 = Inr d" for d
    unfolding site_apply_def by (rule t(2)[OF _ that]) (rule c)
  have s': "(r, s') = (case r1 of Inl e \<Rightarrow> (Inl e, s\<lparr>xs_world := w1\<rparr>)
      | Inr c \<Rightarrow> (Inr (), s\<lparr>xs_world := w1, rs_journal := c\<rparr>))"
    using assms(1) p by (simp add: site_advance_def advance_def on_journal_def
        persist_production_create_runtime_transition_def site_kind_def split: sum.splits)
  show "recorded S (site_record si (rs_journal s)) mark (xs_world s')" "xs_spawned s' = xs_spawned s" "os_calls s' = os_calls s"
    using s' t1 by (auto simp: site_record_def split: sum.splits)
  show "(r = Inr () \<and> site_apply si t (rs_journal s) = Inr (rs_journal s') \<and> durable_now si s')
     \<or> (\<exists>e. r = Inl e) \<and> rs_journal s' = rs_journal s"
  proof (cases r1)
    case (Inr c)
    from t2[OF Inr] have "site_apply si t (rs_journal s) = Inr c" by simp
    with s' Inr t2[OF Inr] site_apply_facts(1)[OF this] show ?thesis by (simp add: durable_now_def site_record_def)
  qed (use s' in simp)
qed

section \<open>The steps of a crossing\<close>

text \<open>
  \<open>begun\<close>: the transition \<open>t\<close> from \<open>j0\<close> is on the disk and in memory. \<open>committed\<close>: it was, and the crossing has gone on. In both,
  after \<open>before\<close> exactly the programs \<open>ps\<close> were started, each behind the record of the transition.
\<close>

definition begun ::
  "'v create_site \<Rightarrow> create_transition \<Rightarrow> create_journal \<Rightarrow> program_start list \<Rightarrow> spawn list \<Rightarrow> create_run \<Rightarrow> bool" where
  "begun si t j0 before ps s \<longleftrightarrow>
     timed s \<and> site_apply si t j0 = Inr (rs_journal s) \<and> well_allocated (w_host (xs_world s))
     \<and> (\<exists>b. stored_bytes (site_kind si) (rs_journal s) = Some b
          \<and> published (si_env si) (site_record si j0) b (w_host (xs_world s))
          \<and> guarded_spawns (site_record si j0) b (started_outcomes si) before ps s)"

definition committed ::
  "'v create_site \<Rightarrow> create_transition \<Rightarrow> create_journal \<Rightarrow> program_start list \<Rightarrow> spawn list \<Rightarrow> create_run \<Rightarrow> bool" where
  "committed si t j0 before ps s \<longleftrightarrow>
     timed s \<and> frozen_as j0 (rs_journal s) \<and> create_validate_journal (site_digest si) (rs_journal s) = Inr ()
     \<and> recorded (started_outcomes si) (site_record si j0) (xs_world s) (xs_world s)
     \<and> (\<exists>c b. site_apply si t j0 = Inr c \<and> same_flags (rs_journal s) c \<and> stored_bytes (site_kind si) c = Some b
          \<and> guarded_spawns (site_record si j0) b (started_outcomes si) before ps s)"

lemma begun_committed:
  assumes "begun si t j0 before ps s"
  shows "committed si t j0 before ps s"
proof -
  obtain b where b: "stored_bytes (site_kind si) (rs_journal s) = Some b"
    "published (si_env si) (site_record si j0) b (w_host (xs_world s))"
    "guarded_spawns (site_record si j0) b (started_outcomes si) before ps s" and a: "site_apply si t j0 = Inr (rs_journal s)"
    and t: "timed s" "well_allocated (w_host (xs_world s))" using assms by (auto simp: begun_def)
  from recorded_published[OF b(2) t(2) started_stored[OF a b(1)]] a b t site_apply_frozen[OF a]
  show ?thesis unfolding committed_def using same_flags_refl by blast
qed

lemma begun_calls: "begun si t j0 before ps s \<Longrightarrow> os_calls s \<le> n \<Longrightarrow> begun si t j0 before ps (s\<lparr>os_calls := n\<rparr>)"
  by (simp add: begun_def timed_calls)

lemma committed_calls: "committed si t j0 before ps s \<Longrightarrow> os_calls s \<le> n \<Longrightarrow> committed si t j0 before ps (s\<lparr>os_calls := n\<rparr>)"
  by (simp add: committed_def timed_calls)

lemma begun_phase: "begun si t j0 before ps s \<Longrightarrow> \<exists>code. create_transition_target (cj_phase j0) t = Some (cj_phase (rs_journal s), code)"
  using site_apply_facts(3) by (fastforce simp: begun_def)

lemma committed_spawned: "committed si t j0 before [] s \<Longrightarrow> xs_spawned s = before"
  by (auto simp: committed_def guarded_spawns_def)

lemma begin_runs:
  assumes "framed X"
  shows "runs (\<lambda>s. rs_journal s = j0 \<and> xs_spawned s = before \<and> timed s \<and> well_allocated (w_host (xs_world s)) \<and> X s)
    (site_advance si t) (\<lambda>_ s. begun si t j0 before [] s \<and> X s) (\<lambda>_ s. xs_spawned s = before)"
  unfolding runs_def
proof (intro allI impI)
  fix s :: create_run assume s: "rs_journal s = j0 \<and> xs_spawned s = before \<and> timed s \<and> well_allocated (w_host (xs_world s)) \<and> X s"
  obtain r s' where a: "site_advance si t s = (r, s')" by fastforce
  have rec: "recorded UNIV (site_record si (rs_journal s)) (xs_world s) (xs_world s)" using s by (simp add: recorded_def kept_def)
  note st = site_advance_step[OF a rec UNIV_I]
  show "case site_advance si t s of (Inl e, s') \<Rightarrow> xs_spawned s' = before | (Inr x, s') \<Rightarrow> begun si t j0 before [] s' \<and> X s'"
  proof (cases r)
    case (Inr u)
    with st(4) s have ok: "site_apply si t j0 = Inr (rs_journal s')" "durable_now si s'" by auto
    from ok(2) site_apply_facts(1)[OF ok(1)] obtain b where b: "stored_bytes (site_kind si) (rs_journal s') = Some b"
      "published (si_env si) (site_record si j0) b (w_host (xs_world s'))" by (auto simp: durable_now_def site_record_def)
    have "xs_spawned s' = before" "timed s'" using st(2,3) s by (auto simp: timed_def)
    with ok(1) b st(1) have "begun si t j0 before [] s'"
      unfolding begun_def by (auto simp: recorded_def intro: guarded_start)
    moreover have "X s'" using s by - (rule framedD[OF assms, of s], simp_all add: st)
    ultimately show ?thesis using a Inr by simp
  qed (use a st(2) s in simp)
qed

lemma later_runs:
  assumes "framed X" and "create_transition_target q t' = Some (q', code)"
    and "t' \<notin> {CtBeginPartitionTableWrite, CtBeginFilesystemFormat}"
  shows "runs (\<lambda>s. committed si t j0 before ps s \<and> cj_phase (rs_journal s) = q \<and> X s) (site_advance si t')
    (\<lambda>_ s. committed si t j0 before ps s \<and> cj_phase (rs_journal s) = q' \<and> durable_now si s \<and> X s)
    (\<lambda>_ s. committed si t j0 before ps s \<and> cj_phase (rs_journal s) = q \<and> X s)"
  unfolding runs_def
proof (intro allI impI)
  fix s :: create_run assume s: "committed si t j0 before ps s \<and> cj_phase (rs_journal s) = q \<and> X s"
  obtain r s' where a: "site_advance si t' s = (r, s')" by fastforce
  have f: "site_record si (rs_journal s) = site_record si j0" using s by (auto simp: committed_def site_record_def dest: frozen_id)
  have rec: "recorded (started_outcomes si) (site_record si (rs_journal s)) (xs_world s) (xs_world s)"
    using s f by (simp add: committed_def)
  have ok: "Intact b \<in> started_outcomes si" if "site_apply si t' (rs_journal s) = Inr c" "stored_bytes (site_kind si) c = Some b"
    for c b using that by (rule started_stored)
  note st' = site_advance_step[OF a rec]
  have st: "recorded (started_outcomes si) (site_record si (rs_journal s)) (xs_world s) (xs_world s')"
    "xs_spawned s' = xs_spawned s" "os_calls s' = os_calls s"
    "(r = Inr () \<and> site_apply si t' (rs_journal s) = Inr (rs_journal s') \<and> durable_now si s')
     \<or> (\<exists>e. r = Inl e) \<and> rs_journal s' = rs_journal s"
    by (rule st'(1), erule ok, assumption, rule st'(2), erule ok, assumption, rule st'(3), erule ok, assumption,
        rule st'(4), erule ok, assumption)
  have w: "recorded (started_outcomes si) (site_record si j0) (xs_world s) (xs_world s')" using st(1) f by simp
  then have w': "recorded (started_outcomes si) (site_record si j0) (xs_world s') (xs_world s')" by (simp add: recorded_def)
  have id: "frozen_as j0 (rs_journal s')" "create_validate_journal (site_digest si) (rs_journal s') = Inr ()"
    using st(4) s by (auto simp: committed_def dest: site_apply_frozen intro: frozen_trans)
  obtain c b where "site_apply si t j0 = Inr c" "stored_bytes (site_kind si) c = Some b" "same_flags (rs_journal s') c"
    "guarded_spawns (site_record si j0) b (started_outcomes si) before ps s"
    using s st(4) site_apply_flags(3)[OF _ assms(3)] by (fastforce simp: committed_def same_flags_def)
  with guarded_step[OF this(4) w st(2)] w' id st(2,3) s have c: "committed si t j0 before ps s'"
    unfolding committed_def timed_def by auto
  have x: "X s'" using s by - (rule framedD[OF assms(1), of s], simp_all add: st)
  show "case site_advance si t' s of
      (Inl e, s') \<Rightarrow> committed si t j0 before ps s' \<and> cj_phase (rs_journal s') = q \<and> X s'
    | (Inr x, s') \<Rightarrow> committed si t j0 before ps s' \<and> cj_phase (rs_journal s') = q' \<and> durable_now si s' \<and> X s'"
  proof (cases "r = Inr ()")
    case True
    with st(4) have ok: "site_apply si t' (rs_journal s) = Inr (rs_journal s')" "durable_now si s'" by auto
    from site_apply_facts(3)[OF ok(1)] assms(2) s have "cj_phase (rs_journal s') = q'" by simp
    with a c x ok True show ?thesis by simp
  next
    case False
    with st(4) obtain e where e: "r = Inl e" "rs_journal s' = rs_journal s" by blast
    with a c x s show ?thesis by simp
  qed
qed

lemma stage_runs:
  assumes "steady X"
  shows "runs (\<lambda>s. begun si t j0 before ps s \<and> X s) (execute_stage si l stage fd stdin)
    (\<lambda>_ s. begun si t j0 before (ps @ [\<lparr> sp_fd = fd, sp_program = lst_program stage, sp_argv = lst_argv stage, sp_stdin = stdin \<rparr>]) s \<and> X s)
    (\<lambda>_ s. (begun si t j0 before ps s
       \<or> begun si t j0 before (ps @ [\<lparr> sp_fd = fd, sp_program = lst_program stage, sp_argv = lst_argv stage, sp_stdin = stdin \<rparr>]) s)
       \<and> X s)"
  (is "runs _ _ (\<lambda>_ s. begun si t j0 before (ps @ [?p]) s \<and> X s) _")
  unfolding runs_def
proof (intro allI impI)
  fix s :: create_run assume s: "begun si t j0 before ps s \<and> X s"
  obtain r s' where e: "execute_stage si l stage fd stdin s = (r, s')" by fastforce
  let ?s1 = "with_start ?p s"
  obtain b where b: "stored_bytes (site_kind si) (rs_journal s) = Some b"
    "published (si_env si) (site_record si j0) b (w_host (xs_world s))"
    "guarded_spawns (site_record si j0) b (started_outcomes si) before ps s" and a: "site_apply si t j0 = Inr (rs_journal s)"
    and t: "timed s" "well_allocated (w_host (xs_world s))" using s by (auto simp: begun_def)
  have f: "rs_journal ?s1 = rs_journal s" "xs_world ?s1 = xs_world s" "os_calls ?s1 = os_calls s"
    "xs_spawned ?s1 = xs_spawned s @ [\<lparr>pgs_spawn = ?p, pgs_call = os_calls s, pgs_world = xs_world s\<rparr>]"
    by (simp_all add: with_start_def)
  have g: "guarded_spawns (site_record si j0) b (started_outcomes si) before (ps @ [?p]) ?s1"
    by (rule guarded_spawn[OF b(3,2) t(2) started_stored[OF a b(1)]])
  have "begun si t j0 before (ps @ [?p]) (?s1\<lparr>os_calls := Suc (os_calls s)\<rparr>)"
    using a b(1,2) t g f by (auto simp: begun_def timed_def)
  moreover have "X (?s1\<lparr>os_calls := Suc (os_calls s)\<rparr>)"
    using s f by - (rule steadyE[OF assms, of s _ "\<lparr>pgs_spawn = ?p, pgs_call = os_calls s, pgs_world = xs_world s\<rparr>"], simp_all)
  ultimately show "case execute_stage si l stage fd stdin s of
      (Inl e, s') \<Rightarrow> (begun si t j0 before ps s' \<or> begun si t j0 before (ps @ [?p]) s') \<and> X s'
    | (Inr x, s') \<Rightarrow> begun si t j0 before (ps @ [?p]) s' \<and> X s'"
    using execute_stage_cases[OF e[unfolded execute_stage_def]] s e by (auto split: sum.split)
qed


section \<open>Rediscovery and recovery\<close>

lemma rediscover_runs:
  assumes "\<And>s n. P s \<Longrightarrow> os_calls s \<le> n \<Longrightarrow> P (s\<lparr>os_calls := n\<rparr>)" and "\<And>s. P s \<Longrightarrow> timed s"
  shows "runs P (rediscover os verify fatal text failed attempts last_error)
    (\<lambda>_ s. P s \<and> observed os verify (xs_spawned s) s) (\<lambda>e s. P s \<and> (e = fatal \<or> (\<exists>t. e = failed t)))"
proof (induction attempts arbitrary: last_error)
  case 0
  show ?case unfolding rediscover.simps by (rule runs_error) auto
next
  case (Suc n)
  have call: "runs P (os_call os ov_discover)
      (\<lambda>snapshot s. P s \<and> (verify snapshot = Inr () \<longrightarrow> observed os verify (xs_spawned s) s)) (\<lambda>_. P)"
    unfolding runs_def
  proof (intro allI impI)
    fix s assume P: "P s"
    then have P': "P (s\<lparr>os_calls := Suc (os_calls s)\<rparr>)" by (rule assms(1)) simp
    have "observed os verify (xs_spawned s) (s\<lparr>os_calls := Suc (os_calls s)\<rparr>)"
      if "ov_discover (os (os_calls s)) = Inr snapshot" "verify snapshot = Inr ()" for snapshot
      using that assms(2)[OF P] unfolding observed_def timed_def
      by (intro exI[of _ "os_calls s"] exI[of _ snapshot]) auto
    with P' show "case os_call os ov_discover s of (Inl e, s') \<Rightarrow> P s'
      | (Inr snapshot, s') \<Rightarrow> P s' \<and> (verify snapshot = Inr () \<longrightarrow> observed os verify (xs_spawned s') s')"
      by (auto simp: os_call_def split: sum.split)
  qed
  show ?case unfolding rediscover.simps
  proof (rule runs_match[OF call], goal_cases)
    case (1 snapshot)
    show ?case
      by (cases "verify snapshot")
         (auto intro!: runs_value runs_error runs_weaken[OF Suc.IH])
  qed (rule Suc.IH)
qed

definition sfdisk_start :: "create_launch \<Rightarrow> pinned_tools \<Rightarrow> spawn" where
  "sfdisk_start l tools = \<lparr> sp_fd = pct_sfdisk_file tools, sp_program = lst_program (cls_sfdisk l),
     sp_argv = lst_argv (cls_sfdisk l), sp_stdin = Some (cls_sfdisk_script l) \<rparr>"

definition partx_start :: "create_launch \<Rightarrow> pinned_tools \<Rightarrow> spawn" where
  "partx_start l tools = \<lparr> sp_fd = pct_partx_file tools, sp_program = lst_program (cls_partx l),
     sp_argv = lst_argv (cls_partx l), sp_stdin = None \<rparr>"

definition mkfs_start :: "create_launch \<Rightarrow> pinned_tools \<Rightarrow> spawn" where
  "mkfs_start l tools = \<lparr> sp_fd = pct_mkfs_file tools, sp_program = lst_program (cls_mkfs l),
     sp_argv = lst_argv (cls_mkfs l), sp_stdin = None \<rparr>"

text \<open>The errors of a crossing that has run a program or looked at its result, and the errors of its checks before that.\<close>

definition run_failure :: "partition_error \<Rightarrow> bool" where
  "run_failure e = (case e of PteDescriptor _ \<Rightarrow> True | PteStageFailed _ _ _ \<Rightarrow> True | PtePartxMappingUnreconciled _ _ _ \<Rightarrow> True
     | PteRediscovery _ \<Rightarrow> True | PteUnexpectedPartitionUse \<Rightarrow> True | _ \<Rightarrow> False)"

definition check_failure :: "partition_error \<Rightarrow> bool" where
  "check_failure e = (case e of PteFeatureDisabled \<Rightarrow> True | PteRootRequired \<Rightarrow> True | PteAuthorizationInvalid \<Rightarrow> True
     | PteJournalMismatch \<Rightarrow> True | PteConsent _ \<Rightarrow> True | PteToolLease _ \<Rightarrow> True | _ \<Rightarrow> False)"

definition at_recovery :: "'v create_site \<Rightarrow> create_run \<Rightarrow> bool" where
  "at_recovery si s \<longleftrightarrow> cj_phase (rs_journal s) = CpRecoveryRequired \<and> durable_now si s"

lemma recovery_runs:
  assumes "create_transition_target q CtRecoveryRequired = Some (CpRecoveryRequired, code)" and "run_failure e"
  shows "runs (\<lambda>s. committed si t j0 before ps s \<and> cj_phase (rs_journal s) = q) (persist_recovery si e) Q
    (\<lambda>e' s. committed si t j0 before ps s \<and> (run_failure e' \<longrightarrow> at_recovery si s) \<and> \<not> check_failure e')"
  unfolding persist_recovery_def
proof (rule runs_match)
  show "runs (\<lambda>s. committed si t j0 before ps s \<and> cj_phase (rs_journal s) = q) (site_advance si CtRecoveryRequired)
    (\<lambda>_ s. committed si t j0 before ps s \<and> at_recovery si s) (\<lambda>_. committed si t j0 before ps)"
    by (rule runs_weaken[OF later_runs[OF framed_True assms(1)]]) (auto simp: at_recovery_def)
qed (use assms(2) in \<open>auto simp: run_failure_def check_failure_def intro!: runs_error split: partition_error.splits\<close>)

definition partition_halt ::
  "'v create_site \<Rightarrow> create_journal \<Rightarrow> program_start list \<Rightarrow> create_launch \<Rightarrow> pinned_tools \<Rightarrow> partition_error \<Rightarrow> create_run \<Rightarrow> bool" where
  "partition_halt si j0 before l tools e s \<longleftrightarrow>
     (xs_spawned s = before \<or> (\<exists>ps\<in>{[sfdisk_start l tools], [sfdisk_start l tools, partx_start l tools]}.
        committed si CtBeginPartitionTableWrite j0 before ps s))
     \<and> (run_failure e \<longrightarrow> at_recovery si s) \<and> (check_failure e \<longrightarrow> xs_spawned s = before \<and> rs_journal s = j0)"

lemma recovery_halts:
  assumes "create_transition_target q CtRecoveryRequired = Some (CpRecoveryRequired, code)" and "run_failure e"
    and "ps \<in> {[], [sfdisk_start l tools], [sfdisk_start l tools, partx_start l tools]}"
  shows "runs (\<lambda>s. committed si CtBeginPartitionTableWrite j0 before ps s \<and> cj_phase (rs_journal s) = q) (persist_recovery si e) Q
    (partition_halt si j0 before l tools)"
proof (rule runs_weaken[OF recovery_runs[OF assms(1,2)]])
  show "partition_halt si j0 before l tools e' s"
    if "committed si CtBeginPartitionTableWrite j0 before ps s \<and> (run_failure e' \<longrightarrow> at_recovery si s) \<and> \<not> check_failure e'" for e' s
    using that assms(3) committed_spawned[of si CtBeginPartitionTableWrite j0 before s]
    by (cases "ps = []") (auto simp: partition_halt_def)
qed auto

lemma begin_write_phase:
  assumes "begun si CtBeginPartitionTableWrite j0 before ps s"
  shows "committed si CtBeginPartitionTableWrite j0 before ps s \<and> cj_phase (rs_journal s) = CpWritingPartitionTable"
  using begun_committed[OF assms] begun_phase[OF assms] by (auto elim: create_target_SomeE)

lemmas stage_plain = stage_runs[OF steady_True, simplified]

lemma begun_recovery:
  assumes "T \<subseteq> {[], [sfdisk_start l tools], [sfdisk_start l tools, partx_start l tools]}"
  shows "runs (\<lambda>s. run_failure e \<and> (\<exists>ps\<in>T. begun si CtBeginPartitionTableWrite j0 before ps s)) (persist_recovery si e) Q
      (partition_halt si j0 before l tools)"
proof (intro runs_pure runs_some)
  fix ps assume e: "run_failure e" and ps: "ps \<in> T"
  have "ps \<in> {[], [sfdisk_start l tools], [sfdisk_start l tools, partx_start l tools]}" using assms ps by blast
  from recovery_halts[OF _ e this, of CpWritingPartitionTable]
  show "runs (begun si CtBeginPartitionTableWrite j0 before ps) (persist_recovery si e) Q (partition_halt si j0 before l tools)"
    by (rule runs_weaken) (auto simp: begin_write_phase)
qed

lemma sfdisk_runs:
  "runs (begun si CtBeginPartitionTableWrite j0 before [])
     (or_recover (run_stage si ''sfdisk'' l (cls_sfdisk l) (pct_sfdisk_file tools) (Some (cls_sfdisk_script l))) (persist_recovery si))
     (\<lambda>_. begun si CtBeginPartitionTableWrite j0 before [sfdisk_start l tools]) (partition_halt si j0 before l tools)"
proof (rule runs_or_recover)
  let ?b = "begun si CtBeginPartitionTableWrite j0 before"
  let ?R = "\<lambda>e s. run_failure e \<and> (\<exists>ps\<in>{[], [sfdisk_start l tools]}. ?b ps s)"
  have "runs (?b []) (act_map_err PteDescriptor (execute_stage si l (cls_sfdisk l) (pct_sfdisk_file tools) (Some (cls_sfdisk_script l))))
     (\<lambda>_. ?b [sfdisk_start l tools]) ?R"
    by (rule runs_map_err, rule runs_weaken[OF stage_plain]) (auto simp: sfdisk_start_def run_failure_def)
  then show "runs (?b []) (run_stage si ''sfdisk'' l (cls_sfdisk l) (pct_sfdisk_file tools) (Some (cls_sfdisk_script l)))
     (\<lambda>_. ?b [sfdisk_start l tools]) ?R"
    unfolding run_stage_def by (rule runs_bind) (rule runs_lift, auto simp: run_failure_def)
  show "runs (?R e) (persist_recovery si e) (\<lambda>_. ?b [sfdisk_start l tools]) (partition_halt si j0 before l tools)" for e
    by (rule begun_recovery) blast
qed

lemma partx_runs:
  "runs (begun si CtBeginPartitionTableWrite j0 before [sfdisk_start l tools])
     (or_recover (run_partx_stage_with_exact_reconciliation si a l tools) (persist_recovery si))
     (\<lambda>_. begun si CtBeginPartitionTableWrite j0 before [sfdisk_start l tools, partx_start l tools])
     (partition_halt si j0 before l tools)"
proof (rule runs_or_recover)
  let ?b = "begun si CtBeginPartitionTableWrite j0 before" and ?sf = "[sfdisk_start l tools]"
    and ?px = "[sfdisk_start l tools, partx_start l tools]"
  let ?R = "\<lambda>e s. run_failure e \<and> (\<exists>ps\<in>{?sf, ?px}. ?b ps s)"
  have "runs (?b ?sf) (act_map_err PteDescriptor (execute_stage si l (cls_partx l) (pct_partx_file tools) None)) (\<lambda>_. ?b ?px) ?R"
    by (rule runs_map_err, rule runs_weaken[OF stage_plain]) (auto simp: partx_start_def run_failure_def)
  then show "runs (?b ?sf) (run_partx_stage_with_exact_reconciliation si a l tools) (\<lambda>_. ?b ?px) ?R"
    unfolding run_partx_stage_with_exact_reconciliation_def
  proof (rule runs_bind)
    fix outcome
    have d: "runs (?b ?px) (discover_exact_partition si a l) (\<lambda>_. ?b ?px) (\<lambda>_. ?b ?px)"
      unfolding discover_exact_partition_def
      by (rule runs_weaken[OF rediscover_runs[where P = "?b ?px"]]) (simp_all add: begun_calls, simp add: begun_def)
    show "runs (?b ?px) (if eo_exit_code outcome = 0 then act_lift (Inr outcome)
        else act_match (discover_exact_partition si a l) (\<lambda>_. act_lift (Inr outcome))
            (\<lambda>rediscovery. act_lift (Inl (PtePartxMappingUnreconciled (eo_exit_code outcome) (bounded_stderr si outcome)
               (si_partition_text si rediscovery))))) (\<lambda>_. ?b ?px) ?R"
      by (auto simp: run_failure_def intro!: runs_value runs_match[OF d] runs_error)
  qed
  show "runs (?R e) (persist_recovery si e) (\<lambda>_. ?b ?px) (partition_halt si j0 before l tools)" for e
    by (rule begun_recovery) blast
qed


lemma discover_runs:
  "runs (\<lambda>s. committed si t j0 before ps s \<and> cj_phase (rs_journal s) = q)
     (discover_exact_partition si a l)
     (\<lambda>_ s. committed si t j0 before ps s \<and> cj_phase (rs_journal s) = q
        \<and> observed (si_os si) (verify_partition_snapshot a l) (xs_spawned s) s)
     (\<lambda>e s. run_failure e \<and> committed si t j0 before ps s \<and> cj_phase (rs_journal s) = q)"
  unfolding discover_exact_partition_def
  by (rule runs_weaken[OF rediscover_runs[where P = "\<lambda>s. committed si t j0 before ps s \<and> cj_phase (rs_journal s) = q"]])
     (simp_all add: committed_calls, auto simp: committed_def run_failure_def)

lemma partition_crossing_runs:
  "runs (\<lambda>s. rs_journal s = j0 \<and> xs_spawned s = before \<and> timed s \<and> well_allocated (w_host (xs_world s)))
     (execute_partition_crossing si a l tools)
     (\<lambda>r s. committed si CtBeginPartitionTableWrite j0 before [sfdisk_start l tools, partx_start l tools] s
        \<and> cj_phase (rs_journal s) = CpPartitionMappedVerified \<and> durable_now si s \<and> receipt_binds si a l r (rs_journal s)
        \<and> observed (si_os si) (verify_partition_snapshot a l) (xs_spawned s) s)
     (partition_halt si j0 before l tools)"
proof -
  let ?ps = "[sfdisk_start l tools, partx_start l tools]"
  let ?c = "committed si CtBeginPartitionTableWrite j0 before ?ps" and ?H = "partition_halt si j0 before l tools"
  let ?O = "\<lambda>s. observed (si_os si) (verify_partition_snapshot a l) (xs_spawned s) s"
  have first: "runs (\<lambda>s. rs_journal s = j0 \<and> xs_spawned s = before \<and> timed s \<and> well_allocated (w_host (xs_world s)))
      (act_map_err PteJournal (site_advance si CtBeginPartitionTableWrite))
      (\<lambda>_. begun si CtBeginPartitionTableWrite j0 before []) ?H"
    by (rule runs_map_err, rule runs_weaken[OF begin_runs[OF framed_True]])
       (auto simp: partition_halt_def run_failure_def check_failure_def)
  have written: "runs (begun si CtBeginPartitionTableWrite j0 before ?ps)
      (act_map_err PteJournal (site_advance si CtPartitionTableWriteSucceeded))
      (\<lambda>_ s. ?c s \<and> cj_phase (rs_journal s) = CpPartitionTableWrittenAwaitingRediscovery) ?H"
    by (rule runs_map_err, rule runs_weaken[OF later_runs[OF framed_True create_transition_target.simps(2)]])
       (auto simp: begin_write_phase partition_halt_def run_failure_def check_failure_def)
  have found: "runs (\<lambda>s. ?c s \<and> cj_phase (rs_journal s) = CpPartitionTableWrittenAwaitingRediscovery)
      (or_recover (discover_exact_partition si a l) (persist_recovery si))
      (\<lambda>_ s. ?c s \<and> cj_phase (rs_journal s) = CpPartitionTableWrittenAwaitingRediscovery \<and> ?O s) ?H"
    by (rule runs_or_recover[OF discover_runs], rule runs_pure, rule recovery_halts) simp_all
  have verified: "runs (\<lambda>s. ?c s \<and> cj_phase (rs_journal s) = CpPartitionTableWrittenAwaitingRediscovery \<and> ?O s)
      (act_map_err PteJournal (site_advance si CtPartitionRediscoveryVerified))
      (\<lambda>_ s. ?c s \<and> cj_phase (rs_journal s) = CpPartitionMappedVerified \<and> durable_now si s \<and> ?O s) ?H"
    by (rule runs_map_err, rule runs_weaken[OF later_runs[OF framed_observed(1) create_transition_target.simps(3)]])
       (auto simp: partition_halt_def run_failure_def check_failure_def)
  show ?thesis unfolding execute_partition_crossing_def
    by (rule runs_then[OF first], rule runs_then[OF sfdisk_runs], rule runs_then[OF partx_runs], rule runs_then[OF written],
        rule runs_then[OF found], rule runs_then[OF verified])
       (auto simp: runs_def act_lift_def partition_halt_def run_failure_def check_failure_def and_then_def map_err_def Let_def
          receipt_binds_def cpr_integrity_matches_def cpr_expected_receipt_id_def ok_true_def split: sum.split)
qed

section \<open>The checks before a crossing\<close>

text \<open>The executor before the crossing: \<open>j0\<close> in memory, the programs \<open>before\<close> started earlier.\<close>

definition at_start :: "create_journal \<Rightarrow> program_start list \<Rightarrow> create_run \<Rightarrow> bool" where
  "at_start j0 before s \<longleftrightarrow> rs_journal s = j0 \<and> xs_spawned s = before \<and> timed s \<and> well_allocated (w_host (xs_world s))"

lemma quiet_consent: "quiet (revalidate_pinned_production_create_consent cb os a lease)"
  unfolding revalidate_pinned_production_create_consent_def
    verify_default_production_create_consent_def read_default_consent_file_def validate_secure_parent_def
    validate_current_receipt_against_lease_def open_file_matches_identity_def consent_sha256_file_def Let_def
  by (auto intro!: quieting quiet_hash split: option.split)

lemma quiet_tools: "quiet (tools_revalidate cb os tools f)"
  unfolding tools_revalidate_def validate_open_tool_def tool_sha256_file_def Let_def
  by (auto intro!: quieting quiet_hash split: option.split)

lemma at_start_calls: "at_start j0 before s \<Longrightarrow> os_calls s \<le> n \<Longrightarrow> at_start j0 before (s\<lparr>os_calls := n\<rparr>)"
  by (simp add: at_start_def timed_calls)

lemma stored_matches_runs:
  "runs (at_start j0 before) (stored_matches si journal_error mismatch) (\<lambda>_. at_start j0 before)
     (\<lambda>e s. ((\<exists>x. e = journal_error x) \<or> e = mismatch) \<and> at_start j0 before s)"
  unfolding runs_def
proof (intro allI impI)
  fix s assume s: "at_start j0 before s"
  obtain r w where l: "load (site_kind si) (si_env si) (si_root si) (cj_journal_id j0) (xs_world s) = (r, w)" by fastforce
  have "recorded UNIV [] (xs_world s) (xs_world s)" using s by (simp add: at_start_def recorded_def kept_def)
  from create_runs.load_recorded(2)[OF this, of "site_digest si" "si_enc si" "si_dec si", folded site_kind_def, OF l]
  have "w_host w = w_host (xs_world s)" .
  then have s': "at_start j0 before (s\<lparr>xs_world := w\<rparr>)" using s by (simp add: at_start_def timed_def)
  from s have j: "rs_journal s = j0" by (simp add: at_start_def)
  show "case stored_matches si journal_error mismatch s of
      (Inl e, s') \<Rightarrow> ((\<exists>x. e = journal_error x) \<or> e = mismatch) \<and> at_start j0 before s'
    | (Inr x, s') \<Rightarrow> at_start j0 before s'"
    using l s' j by (cases r)
      (auto simp: stored_matches_def site_load_def on_journal_def act_bind_def act_map_err_def act_ensure_def act_lift_def require_def)
qed

lemma chain_runs:
  assumes calls: "\<And>s n. P s \<Longrightarrow> os_calls s \<le> n \<Longrightarrow> P (s\<lparr>os_calls := n\<rparr>)"
  shows "runs P (revalidate_chain si invalid consent_error tool_error a f lease tools) (\<lambda>_. P)
     (\<lambda>e s. (e = invalid \<or> (\<exists>x. e = consent_error x) \<or> (\<exists>x. e = tool_error x)) \<and> P s)"
proof -
  let ?E = "\<lambda>e s. (e = invalid \<or> (\<exists>x. e = consent_error x) \<or> (\<exists>x. e = tool_error x)) \<and> P s"
  have c: "runs P (act_map_err consent_error (revalidate_pinned_production_create_consent (si_basis si) (si_os si) a lease)) (\<lambda>_. P) ?E"
    by (rule runs_map_err, rule runs_weaken[OF runs_quiet[where P = P]], rule quiet_consent, erule calls, assumption) auto
  have t: "runs P (act_map_err tool_error (tools_revalidate (si_basis si) (si_os si) tools f)) (\<lambda>_. P) ?E"
    by (rule runs_map_err, rule runs_weaken[OF runs_quiet[where P = P]], rule quiet_tools, erule calls, assumption) auto
  have e: "runs P (act_ensure b invalid) (\<lambda>_. P) ?E" for b
    by (rule runs_weaken[OF runs_ensure[where P = P and E = ?E]]) auto
  show ?thesis unfolding revalidate_chain_def
    by (rule runs_bind[OF c], rule runs_then[OF e], rule t)
qed

lemma validate_crossing_error: "validate_crossing cb a p f l j = Inl e \<Longrightarrow> e = PteAuthorizationInvalid"
  by (auto simp: validate_crossing_def validate_launch_stage_contract_def require_def split: if_splits)

lemma runs_compiled:
  assumes "\<And>s. P s \<Longrightarrow> E off s" and "\<And>s. P s \<Longrightarrow> E root s" and "runs P m Q E"
  shows "runs P (\<lambda>s. if \<not> compiled then (Inl off, s) else if not_root then (Inl root, s) else m s) Q E"
  using assms by (auto simp: runs_def)

lemma partition_crossing_start:
  "runs (at_start j0 before) (execute_production_create_partition_crossing si a p f l lease tools)
     (\<lambda>r s. validate_crossing (si_basis si) a p f l j0 = Inr ()
        \<and> committed si CtBeginPartitionTableWrite j0 before [sfdisk_start l tools, partx_start l tools] s
        \<and> cj_phase (rs_journal s) = CpPartitionMappedVerified \<and> durable_now si s \<and> receipt_binds si a l r (rs_journal s)
        \<and> observed (si_os si) (verify_partition_snapshot a l) (xs_spawned s) s)
     (\<lambda>e s. partition_halt si j0 before l tools e s
        \<and> (xs_spawned s \<noteq> before \<longrightarrow> validate_crossing (si_basis si) a p f l j0 = Inr ()))"
  (is "runs _ _ ?Q ?H")
proof -
  let ?V = "validate_crossing (si_basis si) a p f l j0 = Inr ()" and ?S = "at_start j0 before"
  have halt: "?H e s" if "?S s" and "\<not> run_failure e" for e s
    using that by (simp add: at_start_def partition_halt_def)
  have halt': "partition_halt si j0 before l tools e s" if "?S s" and "\<not> run_failure e" for e s
    using that by (simp add: at_start_def partition_halt_def)
  have body: "runs (\<lambda>s. ?V \<and> ?S s) (execute_partition_crossing si a l tools) ?Q ?H"
    by (rule runs_pure, rule runs_weaken[OF partition_crossing_runs[where ?j0.0 = j0 and before = before]]) (auto simp: at_start_def)
  have chain: "runs (\<lambda>s. ?V \<and> ?S s) (revalidate_chain si PteAuthorizationInvalid PteConsent PteToolLease a f lease tools)
      (\<lambda>_ s. ?V \<and> ?S s) ?H"
    by (rule runs_weaken[OF chain_runs[where P = "\<lambda>s. ?V \<and> ?S s"]])
       (auto intro: at_start_calls halt' simp: run_failure_def dest: at_start_def[THEN iffD1])
  have stored: "runs (\<lambda>s. ?V \<and> ?S s) (stored_matches si PteJournal PteJournalMismatch) (\<lambda>_ s. ?V \<and> ?S s) ?H"
    by (rule runs_pure, rule runs_weaken[OF stored_matches_runs[where ?j0.0 = j0 and before = before]])
       (auto intro: halt halt' simp: run_failure_def dest: at_start_def[THEN iffD1])
  have valid: "runs ?S (act_lift (validate_crossing (si_basis si) a p f l j0)) (\<lambda>_ s. ?V \<and> ?S s) ?H"
  proof (rule runs_lift)
    fix s assume s: "?S s"
    show "case validate_crossing (si_basis si) a p f l j0 of Inl e \<Rightarrow> ?H e s | Inr x \<Rightarrow> ?V \<and> ?S s"
    proof (cases "validate_crossing (si_basis si) a p f l j0")
      case (Inl e)
      with halt[OF s, of e] validate_crossing_error[OF Inl] show ?thesis by (simp add: run_failure_def)
    qed (use s in simp)
  qed
  have all: "runs ?S (act_then (act_lift (validate_crossing (si_basis si) a p f l j0))
       (act_then (stored_matches si PteJournal PteJournalMismatch)
       (act_then (revalidate_chain si PteAuthorizationInvalid PteConsent PteToolLease a f lease tools)
        (execute_partition_crossing si a l tools)))) ?Q ?H"
    by (rule runs_then[OF valid], rule runs_then[OF stored], rule runs_then[OF chain], rule body)
  have "runs ?S (\<lambda>s. if \<not> si_partition_compiled si then (Inl PteFeatureDisabled, s)
      else if e_euid (si_env si) \<noteq> 0 then (Inl PteRootRequired, s)
      else act_then (act_lift (validate_crossing (si_basis si) a p f l j0))
       (act_then (stored_matches si PteJournal PteJournalMismatch)
       (act_then (revalidate_chain si PteAuthorizationInvalid PteConsent PteToolLease a f lease tools)
        (execute_partition_crossing si a l tools))) s) ?Q ?H"
    by (rule runs_compiled[OF _ _ all]) (auto intro: halt halt' simp: run_failure_def dest: at_start_def[THEN iffD1])
  moreover have "execute_production_create_partition_crossing si a p f l lease tools s =
      (if \<not> si_partition_compiled si then (Inl PteFeatureDisabled, s)
      else if e_euid (si_env si) \<noteq> 0 then (Inl PteRootRequired, s)
      else act_then (act_lift (validate_crossing (si_basis si) a p f l j0))
       (act_then (stored_matches si PteJournal PteJournalMismatch)
       (act_then (revalidate_chain si PteAuthorizationInvalid PteConsent PteToolLease a f lease tools)
        (execute_partition_crossing si a l tools))) s)" if "?S s" for s
    using that unfolding execute_production_create_partition_crossing_def by (simp add: at_start_def)
  ultimately show ?thesis unfolding runs_def by (simp only: HOL.simp_thms cong: imp_cong) 
qed

section \<open>The file system crossing\<close>

text \<open>The errors after a program was run or its result looked at.\<close>

definition format_failure :: "filesystem_error \<Rightarrow> bool" where
  "format_failure e = (case e of FseDescriptor _ \<Rightarrow> True | FseStageFailed _ _ \<Rightarrow> True | FseRediscovery _ \<Rightarrow> True
     | FseUnexpectedPartitionUse \<Rightarrow> True | FsePreFormatPartitionVerification _ \<Rightarrow> True | _ \<Rightarrow> False)"

text \<open>The errors of the checks, of which the last come after the rediscovery and leave the journal in recovery.\<close>

definition format_refusal :: "filesystem_error \<Rightarrow> bool" where
  "format_refusal e = (case e of FseFeatureDisabled \<Rightarrow> True | FseRootRequired \<Rightarrow> True | FseAuthorizationInvalid \<Rightarrow> True
     | FsePartitionReceiptInvalid \<Rightarrow> True | FseJournalMismatch \<Rightarrow> True | FseConsent _ \<Rightarrow> True | FseToolLease _ \<Rightarrow> True
     | FsePreFormatPartitionVerification _ \<Rightarrow> True | _ \<Rightarrow> False)"

definition formatting ::
  "'v create_site \<Rightarrow> create_activation \<Rightarrow> create_launch \<Rightarrow> pinned_tools \<Rightarrow> create_journal \<Rightarrow> program_start list
     \<Rightarrow> create_run \<Rightarrow> bool" where
  "formatting si a l tools j0 before s \<longleftrightarrow> committed si CtBeginFilesystemFormat j0 before [mkfs_start l tools] s
     \<and> observed (si_os si) (verify_partition_snapshot a l) before s"

definition format_halt ::
  "'v create_site \<Rightarrow> create_activation \<Rightarrow> create_launch \<Rightarrow> pinned_tools \<Rightarrow> create_journal \<Rightarrow> program_start list
     \<Rightarrow> filesystem_error \<Rightarrow> create_run \<Rightarrow> bool" where
  "format_halt si a l tools j0 before e s \<longleftrightarrow>
     (xs_spawned s = before \<or> formatting si a l tools j0 before s)
     \<and> (format_failure e \<longrightarrow> at_recovery si s)
     \<and> (format_refusal e \<longrightarrow> xs_spawned s = before \<and> (rs_journal s = j0 \<or> at_recovery si s))"

lemma begun_at_recovery: "begun si CtRecoveryRequired j0 before [] s \<Longrightarrow> at_recovery si s"
  using begun_phase[of si CtRecoveryRequired j0 before "[]" s] site_apply_facts(1)[of si CtRecoveryRequired j0 "rs_journal s"]
  by (auto simp: at_recovery_def durable_now_def begun_def site_record_def elim: create_target_SomeE)

text \<open>Recovery before the format has begun.\<close>

lemma early_recovery:
  assumes "format_failure e \<or> format_refusal e"
  shows "runs (at_start j0 before) (persist_filesystem_recovery si e) Q (format_halt si a l tools j0 before)"
  unfolding persist_filesystem_recovery_def
proof (rule runs_match)
  show "runs (at_start j0 before) (site_advance si CtRecoveryRequired)
      (\<lambda>_. begun si CtRecoveryRequired j0 before []) (\<lambda>_ s. xs_spawned s = before)"
    by (rule runs_weaken[OF begin_runs[OF framed_True]]) (auto simp: at_start_def)
  show "runs (begun si CtRecoveryRequired j0 before []) (act_lift (Inl e)) Q (format_halt si a l tools j0 before)" for u
    using assms begun_at_recovery committed_spawned[OF begun_committed]
    by (intro runs_error) (auto simp: format_halt_def)
  show "runs (\<lambda>s. xs_spawned s = before)
      (act_lift (Inl (FseRecoveryPersistenceFailed (si_filesystem_text si e) (si_journal_text si x)))) Q
      (format_halt si a l tools j0 before)" for x
    by (rule runs_error) (simp add: format_halt_def format_failure_def format_refusal_def)
qed

text \<open>Recovery after the format has begun.\<close>

lemma late_recovery:
  assumes "create_transition_target q CtRecoveryRequired = Some (CpRecoveryRequired, code)"
    and "format_failure e" and "\<not> format_refusal e"
    and "\<And>s. committed si CtBeginFilesystemFormat j0 before ps s \<Longrightarrow> X s
      \<Longrightarrow> xs_spawned s = before \<or> formatting si a l tools j0 before s" and "framed X"
  shows "runs (\<lambda>s. committed si CtBeginFilesystemFormat j0 before ps s \<and> cj_phase (rs_journal s) = q \<and> X s)
    (persist_filesystem_recovery si e) Q (format_halt si a l tools j0 before)"
  unfolding persist_filesystem_recovery_def
proof (rule runs_match[OF later_runs[OF assms(5,1), simplified]])
  let ?c = "committed si CtBeginFilesystemFormat j0 before ps"
  show "runs (\<lambda>s. ?c s \<and> cj_phase (rs_journal s) = CpRecoveryRequired \<and> durable_now si s \<and> X s) (act_lift (Inl e)) Q
    (format_halt si a l tools j0 before)" for u
    using assms(2-4) by (intro runs_error) (auto simp: format_halt_def at_recovery_def)
  show "runs (\<lambda>s. ?c s \<and> cj_phase (rs_journal s) = q \<and> X s)
      (act_lift (Inl (FseRecoveryPersistenceFailed (si_filesystem_text si e) (si_journal_text si x)))) Q
      (format_halt si a l tools j0 before)" for x
    using assms(4) by (intro runs_error) (auto simp: format_halt_def format_failure_def format_refusal_def)
qed

lemma begin_format_phase:
  assumes "begun si CtBeginFilesystemFormat j0 before ps s"
  shows "committed si CtBeginFilesystemFormat j0 before ps s \<and> cj_phase (rs_journal s) = CpFormattingFilesystem"
  using begun_committed[OF assms] begun_phase[OF assms] by (auto elim: create_target_SomeE)

lemma mkfs_runs:
  "runs (\<lambda>s. begun si CtBeginFilesystemFormat j0 before [] s \<and> observed (si_os si) (verify_partition_snapshot a l) before s)
     (or_recover (run_filesystem_stage si l tools) (persist_filesystem_recovery si))
     (\<lambda>_ s. formatting si a l tools j0 before s \<and> cj_phase (rs_journal s) = CpFormattingFilesystem)
     (format_halt si a l tools j0 before)"
proof (rule runs_or_recover)
  let ?b = "begun si CtBeginFilesystemFormat j0 before" and ?X = "\<lambda>s. observed (si_os si) (verify_partition_snapshot a l) before s"
  let ?R = "\<lambda>e s. format_failure e \<and> \<not> format_refusal e \<and> (\<exists>ps\<in>{[], [mkfs_start l tools]}. ?b ps s \<and> ?X s)"
  have "runs (\<lambda>s. ?b [] s \<and> ?X s) (act_map_err FseDescriptor (execute_stage si l (cls_mkfs l) (pct_mkfs_file tools) None))
     (\<lambda>_ s. ?b [mkfs_start l tools] s \<and> ?X s) ?R"
    by (rule runs_map_err, rule runs_weaken[OF stage_runs[OF steady_observed]])
       (auto simp: mkfs_start_def format_failure_def format_refusal_def)
  then have "runs (\<lambda>s. ?b [] s \<and> ?X s) (run_filesystem_stage si l tools) (\<lambda>_ s. ?b [mkfs_start l tools] s \<and> ?X s) ?R"
    unfolding run_filesystem_stage_def
    by (rule runs_bind) (rule runs_lift, auto simp: format_failure_def format_refusal_def)
  then show "runs (\<lambda>s. ?b [] s \<and> ?X s) (run_filesystem_stage si l tools)
     (\<lambda>_ s. formatting si a l tools j0 before s \<and> cj_phase (rs_journal s) = CpFormattingFilesystem) ?R"
    by (rule runs_weaken) (auto simp: formatting_def dest: begin_format_phase)
  show "runs (?R e) (persist_filesystem_recovery si e) Q (format_halt si a l tools j0 before)" for e Q
  proof (intro runs_pure runs_some)
    fix ps assume e: "format_failure e" "\<not> format_refusal e" and ps: "ps \<in> {[], [mkfs_start l tools]}"
    have out: "xs_spawned s = before \<or> formatting si a l tools j0 before s"
      if "committed si CtBeginFilesystemFormat j0 before ps s" "?X s" for s
      using ps that committed_spawned[of si CtBeginFilesystemFormat j0 before s] by (auto simp: formatting_def)
    show "runs (\<lambda>s. ?b ps s \<and> ?X s) (persist_filesystem_recovery si e) Q (format_halt si a l tools j0 before)"
      by (rule runs_weaken[OF late_recovery[where q = CpFormattingFilesystem and ps = ps and X = ?X, OF _ e out framed_observed(2)]])
         (auto dest: begin_format_phase)
  qed
qed

lemma formatting_calls: "formatting si a l tools j0 before s \<Longrightarrow> os_calls s \<le> n \<Longrightarrow> formatting si a l tools j0 before (s\<lparr>os_calls := n\<rparr>)"
  unfolding formatting_def by (auto intro: committed_calls framedD[OF framed_observed(2), of _ _ _ s])

lemma formatted_runs:
  "runs (\<lambda>s. formatting si a l tools j0 before s \<and> cj_phase (rs_journal s) = CpFilesystemFormattedAwaitingVerification)
     (or_recover (discover_exact_filesystem si a l) (persist_filesystem_recovery si))
     (\<lambda>_ s. formatting si a l tools j0 before s \<and> cj_phase (rs_journal s) = CpFilesystemFormattedAwaitingVerification
        \<and> observed (si_os si) (verify_filesystem_snapshot a l) (xs_spawned s) s)
     (format_halt si a l tools j0 before)"
proof (rule runs_or_recover)
  let ?P = "\<lambda>s. formatting si a l tools j0 before s \<and> cj_phase (rs_journal s) = CpFilesystemFormattedAwaitingVerification"
  let ?X = "\<lambda>s. observed (si_os si) (verify_partition_snapshot a l) before s"
  let ?R = "\<lambda>e s. (format_failure e \<and> \<not> format_refusal e)
    \<and> (committed si CtBeginFilesystemFormat j0 before [mkfs_start l tools] s
       \<and> cj_phase (rs_journal s) = CpFilesystemFormattedAwaitingVerification \<and> ?X s)"
  show "runs ?P (discover_exact_filesystem si a l)
     (\<lambda>_ s. formatting si a l tools j0 before s \<and> cj_phase (rs_journal s) = CpFilesystemFormattedAwaitingVerification
        \<and> observed (si_os si) (verify_filesystem_snapshot a l) (xs_spawned s) s) ?R"
    unfolding discover_exact_filesystem_def
    by (rule runs_weaken[OF rediscover_runs[where P = ?P]])
       (auto simp: formatting_calls format_failure_def format_refusal_def, auto simp: formatting_def committed_def)
  show "runs (?R e) (persist_filesystem_recovery si e) Q (format_halt si a l tools j0 before)" for e Q
    by (rule runs_pure, rule late_recovery[OF _ _ _ _ framed_observed(2)]) (auto simp: formatting_def)
qed

lemma format_runs:
  "runs (\<lambda>s. at_start j0 before s \<and> observed (si_os si) (verify_partition_snapshot a l) before s)
     (execute_filesystem_format si a l r tools)
     (\<lambda>x s. formatting si a l tools j0 before s \<and> cj_phase (rs_journal s) = CpCompleted \<and> durable_now si s
        \<and> observed (si_os si) (verify_filesystem_snapshot a l) (xs_spawned s) s)
     (format_halt si a l tools j0 before)"
proof -
  let ?X = "\<lambda>s. observed (si_os si) (verify_partition_snapshot a l) before s" and ?H = "format_halt si a l tools j0 before"
  let ?O = "\<lambda>s. observed (si_os si) (verify_filesystem_snapshot a l) (xs_spawned s) s" and ?f = "formatting si a l tools j0 before"
  let ?c = "committed si CtBeginFilesystemFormat j0 before [mkfs_start l tools]"
  have first: "runs (\<lambda>s. at_start j0 before s \<and> ?X s) (act_map_err FseJournal (site_advance si CtBeginFilesystemFormat))
      (\<lambda>_ s. begun si CtBeginFilesystemFormat j0 before [] s \<and> ?X s) ?H"
    by (rule runs_map_err, rule runs_weaken[OF begin_runs[OF framed_observed(2)]])
       (auto simp: at_start_def format_halt_def format_failure_def format_refusal_def)
  have made: "runs (\<lambda>s. ?f s \<and> cj_phase (rs_journal s) = CpFormattingFilesystem)
      (act_map_err FseJournal (site_advance si CtFilesystemFormatSucceeded))
      (\<lambda>_ s. ?f s \<and> cj_phase (rs_journal s) = CpFilesystemFormattedAwaitingVerification) ?H"
    by (rule runs_map_err, rule runs_weaken[OF later_runs[OF framed_observed(2) create_transition_target.simps(5)]])
       (auto simp: formatting_def format_halt_def format_failure_def format_refusal_def)
  have verified: "runs (\<lambda>s. ?f s \<and> cj_phase (rs_journal s) = CpFilesystemFormattedAwaitingVerification \<and> ?O s)
      (act_map_err FseJournal (site_advance si CtFilesystemRediscoveryVerified))
      (\<lambda>_ s. ?f s \<and> cj_phase (rs_journal s) = CpCompleted \<and> durable_now si s \<and> ?O s) ?H"
    by (rule runs_map_err, rule runs_weaken[OF later_runs[OF framed_conj[OF framed_observed(2) framed_observed(1)]
          create_transition_target.simps(6)]])
       (auto simp: formatting_def format_halt_def format_failure_def format_refusal_def)
  show ?thesis unfolding execute_filesystem_format_def
    by (rule runs_then[OF first], rule runs_then[OF mkfs_runs], rule runs_then[OF made], rule runs_then[OF formatted_runs],
        rule runs_then[OF verified])
       (auto simp: runs_def act_lift_def format_halt_def format_failure_def format_refusal_def and_then_def map_err_def Let_def
          split: sum.split)
qed

lemma present_partition_runs:
  "runs (at_start j0 before)
     (or_recover (act_map_err (\<lambda>e. FsePreFormatPartitionVerification (si_partition_text si e)) (discover_exact_partition si a l))
        (persist_filesystem_recovery si))
     (\<lambda>_ s. at_start j0 before s \<and> observed (si_os si) (verify_partition_snapshot a l) before s)
     (format_halt si a l tools j0 before)"
proof (rule runs_or_recover)
  let ?O = "\<lambda>s. observed (si_os si) (verify_partition_snapshot a l) before s"
  let ?R = "\<lambda>e s. format_refusal e \<and> at_start j0 before s"
  show "runs (at_start j0 before)
      (act_map_err (\<lambda>e. FsePreFormatPartitionVerification (si_partition_text si e)) (discover_exact_partition si a l))
      (\<lambda>_ s. at_start j0 before s \<and> ?O s) ?R"
    unfolding discover_exact_partition_def
    by (rule runs_map_err, rule runs_weaken[OF rediscover_runs[where P = "at_start j0 before"]])
       (auto simp: at_start_calls format_refusal_def, auto simp: at_start_def)
  show "runs (?R e) (persist_filesystem_recovery si e) Q (format_halt si a l tools j0 before)" for e Q
    by (rule runs_pure, rule early_recovery) simp
qed

lemma validate_filesystem_error:
  "validate_filesystem_crossing si a p f l r j = Inl e \<Longrightarrow> e = FseAuthorizationInvalid \<or> e = FsePartitionReceiptInvalid"
  by (auto simp: validate_filesystem_crossing_def require_def split: if_splits)

lemma current_chain_runs:
  "runs (\<lambda>s. at_start j0 before s \<and> observed os verify before s)
     (or_recover (revalidate_chain si FseAuthorizationInvalid FseConsent FseToolLease a f lease tools)
        (persist_filesystem_recovery si))
     (\<lambda>_ s. at_start j0 before s \<and> observed os verify before s)
     (format_halt si a l tools j0 before)"
proof (rule runs_or_recover)
  let ?P = "\<lambda>s. at_start j0 before s \<and> observed os verify before s"
  let ?R = "\<lambda>e s. format_refusal e \<and> at_start j0 before s"
  show "runs ?P (revalidate_chain si FseAuthorizationInvalid FseConsent FseToolLease a f lease tools) (\<lambda>_. ?P) ?R"
    by (rule runs_weaken[OF chain_runs[where P = ?P]])
       (auto simp: format_refusal_def intro: at_start_calls framedD[OF framed_observed(2)])
  show "runs (?R e) (persist_filesystem_recovery si e) Q (format_halt si a l tools j0 before)" for e Q
    by (rule runs_pure, rule early_recovery) simp
qed

lemma refused_at_start: "at_start j0 before s \<Longrightarrow> format_refusal e \<or> (\<exists>x. e = FseJournal x) \<Longrightarrow> \<not> format_failure e
    \<Longrightarrow> format_halt si a l tools j0 before e s"
  by (auto simp: at_start_def format_halt_def format_refusal_def)

lemma filesystem_crossing_start:
  "runs (at_start j0 before) (execute_production_create_filesystem_crossing si a p f l receipt lease tools)
     (\<lambda>x s. validate_filesystem_crossing si a p f l receipt j0 = Inr ()
        \<and> formatting si a l tools j0 before s \<and> cj_phase (rs_journal s) = CpCompleted \<and> durable_now si s
        \<and> observed (si_os si) (verify_filesystem_snapshot a l) (xs_spawned s) s)
     (\<lambda>e s. format_halt si a l tools j0 before e s
        \<and> (xs_spawned s \<noteq> before \<longrightarrow> validate_filesystem_crossing si a p f l receipt j0 = Inr ()))"
  (is "runs _ _ ?Q ?H")
proof -
  let ?V = "validate_filesystem_crossing si a p f l receipt j0 = Inr ()" and ?S = "at_start j0 before"
  let ?O = "\<lambda>s. observed (si_os si) (verify_partition_snapshot a l) before s"
  let ?valid = "act_lift (validate_filesystem_crossing si a p f l receipt j0)"
  let ?chain = "revalidate_chain si FseAuthorizationInvalid FseConsent FseToolLease a f lease tools"
  let ?rest = "act_then (or_recover
           (act_map_err (\<lambda>e. FsePreFormatPartitionVerification (si_partition_text si e)) (discover_exact_partition si a l))
           (persist_filesystem_recovery si))
       (act_then (or_recover ?chain (persist_filesystem_recovery si)) (execute_filesystem_format si a l receipt tools))"
  have refused: "?H e s" if "?S s" "format_refusal e \<or> (\<exists>x. e = FseJournal x)" "\<not> format_failure e" for e s
    using refused_at_start[OF that] that(1) by (simp add: at_start_def)
  have "runs ?S ?rest (\<lambda>x s. formatting si a l tools j0 before s \<and> cj_phase (rs_journal s) = CpCompleted \<and> durable_now si s
        \<and> observed (si_os si) (verify_filesystem_snapshot a l) (xs_spawned s) s) (format_halt si a l tools j0 before)"
    by (rule runs_then[OF present_partition_runs], rule runs_then[OF current_chain_runs], rule format_runs)
  then have body: "runs (\<lambda>s. ?V \<and> ?S s) ?rest ?Q ?H"
    by (intro runs_pure) (erule runs_weaken, auto)
  have chain: "runs (\<lambda>s. ?V \<and> ?S s) ?chain (\<lambda>_ s. ?V \<and> ?S s) ?H"
  proof (rule runs_pure, rule runs_weaken[OF chain_runs[where P = ?S]])
    show "?H e s" if "(e = FseAuthorizationInvalid \<or> (\<exists>x. e = FseConsent x) \<or> (\<exists>x. e = FseToolLease x)) \<and> ?S s" for e s
      using that refused[of s e] by (auto simp: format_refusal_def format_failure_def)
  qed (auto intro: at_start_calls)
  have stored: "runs (\<lambda>s. ?V \<and> ?S s) (stored_matches si FseJournal FseJournalMismatch) (\<lambda>_ s. ?V \<and> ?S s) ?H"
  proof (rule runs_pure, rule runs_weaken[OF stored_matches_runs[where ?j0.0 = j0 and before = before]])
    show "?H e s" if "((\<exists>x. e = FseJournal x) \<or> e = FseJournalMismatch) \<and> ?S s" for e s
      using that refused[of s e] by (auto simp: format_refusal_def format_failure_def)
  qed auto
  have valid: "runs ?S ?valid (\<lambda>_ s. ?V \<and> ?S s) ?H"
  proof (rule runs_lift)
    fix s assume s: "?S s"
    show "case validate_filesystem_crossing si a p f l receipt j0 of Inl e \<Rightarrow> ?H e s | Inr x \<Rightarrow> ?V \<and> ?S s"
    proof (cases "validate_filesystem_crossing si a p f l receipt j0")
      case (Inl e)
      with refused[OF s, of e] validate_filesystem_error[OF Inl] show ?thesis
        by (auto simp: format_failure_def format_refusal_def)
    qed (use s in simp)
  qed
  have "runs ?S (\<lambda>s. if \<not> si_filesystem_compiled si then (Inl FseFeatureDisabled, s)
      else if e_euid (si_env si) \<noteq> 0 then (Inl FseRootRequired, s)
      else act_then ?valid (act_then (stored_matches si FseJournal FseJournalMismatch) (act_then ?chain ?rest)) s) ?Q ?H"
    by (rule runs_compiled[OF _ _ runs_then[OF valid runs_then[OF stored runs_then[OF chain body]]]])
       (rule refused, simp_all add: format_refusal_def format_failure_def)+
  moreover have "execute_production_create_filesystem_crossing si a p f l receipt lease tools s =
      (if \<not> si_filesystem_compiled si then (Inl FseFeatureDisabled, s)
      else if e_euid (si_env si) \<noteq> 0 then (Inl FseRootRequired, s)
      else act_then ?valid (act_then (stored_matches si FseJournal FseJournalMismatch) (act_then ?chain ?rest)) s)" if "?S s" for s
    using that unfolding execute_production_create_filesystem_crossing_def by (simp add: at_start_def)
  ultimately show ?thesis unfolding runs_def by (simp only: HOL.simp_thms cong: imp_cong)
qed

section \<open>What the crossings guarantee\<close>

lemma fresh_start: "xs_spawned s = [] \<Longrightarrow> well_allocated (w_host (xs_world s)) \<Longrightarrow> at_start (rs_journal s) [] s"
  by (simp add: at_start_def timed_def)

lemma crossing_stages:
  assumes "validate_crossing cb a p f l j = Inr ()"
  shows "lst_program (cls_sfdisk l) = PpSfdisk" "lst_argv (cls_sfdisk l) = sfdisk_argv (ca_disk a)"
    "lst_program (cls_partx l) = PpPartx" "lst_argv (cls_partx l) = partx_argv (ca_disk a)"
    "(ca_filesystem a, lst_program (cls_mkfs l), lst_argv (cls_mkfs l)) \<in>
       {(''ext4'', PpMkfsExt4, [''mkfs.ext4'', ''-F'', cls_partition_device l]),
        (''xfs'', PpMkfsXfs, [''mkfs.xfs'', ''-f'', cls_partition_device l])}"
  using assms
  by (auto simp: validate_crossing_def validate_launch_stage_contract_def stage_contract_def require_def split: if_splits)

lemma begun_record:
  assumes "site_apply si CtBeginPartitionTableWrite j = Inr c"
  shows "cj_phase c = CpWritingPartitionTable" "cj_partition_table_may_have_changed c"
  using site_apply_facts(3)[OF assms] site_apply_flags(1)[OF assms] by (auto elim: create_target_SomeE)

lemma format_record:
  assumes "site_apply si CtBeginFilesystemFormat j = Inr c"
  shows "cj_phase c = CpFormattingFilesystem" "cj_filesystem_may_have_changed c"
  using site_apply_facts(3)[OF assms] site_apply_flags(2)[OF assms] by (auto elim: create_target_SomeE)

lemma integrity_events: "create_integrity_matches fp (j\<lparr>cj_events := es\<rparr>) = create_integrity_matches fp j"
  by (simp add: create_integrity_matches_def create_expected_journal_id_def split: sum.split)

lemma crossing_events:
  "crossing_untouched cb a p f l (j\<lparr>cj_events := es\<rparr>) = crossing_untouched cb a p f l j"
  "crossing_binds a p f l (j\<lparr>cj_events := es\<rparr>) = crossing_binds a p f l j"
  unfolding crossing_untouched_def crossing_binds_def integrity_events by (cases j; simp only: create_journal.simps)+

lemma validate_crossing_events [simp]: "validate_crossing cb a p f l (j\<lparr>cj_events := es\<rparr>) = validate_crossing cb a p f l j"
  unfolding validate_crossing_def crossing_events by (rule refl)

text \<open>The programs started behind the record of a transition.\<close>

definition behind_record ::
  "'v create_site \<Rightarrow> create_transition \<Rightarrow> create_journal \<Rightarrow> create_run \<Rightarrow> bool" where
  "behind_record si t j0 s \<longleftrightarrow> (\<forall>e\<in>set (xs_spawned s). \<exists>c bytes. site_apply si t j0 = Inr c
     \<and> stored_bytes (site_kind si) c = Some bytes
     \<and> set (survivors (w_host (pgs_world e)) (site_record si j0)) = {Intact bytes}
     \<and> recorded (started_outcomes si) (site_record si j0) (pgs_world e) (xs_world s))"

lemma committed_behind:
  "committed si t j0 [] ps s \<Longrightarrow> behind_record si t j0 s \<and> map pgs_spawn (xs_spawned s) = ps"
  unfolding committed_def guarded_spawns_def behind_record_def by auto

text \<open>C9: the partition crossing runs sfdisk and then partx, with the frozen arguments and script and on the pinned files,
  and only for a valid crossing. When either starts, the record that the partition table may have changed is on the disk, and
  a crash at any later moment of the crossing still finds a record that says that a mutation may have started.\<close>

theorem partition_crossing_write_ahead:
  assumes "execute_production_create_partition_crossing si a p f l lease tools s = (r, s')"
    and "xs_spawned s = []" and "well_allocated (w_host (xs_world s))"
  shows "(\<exists>n. map pgs_spawn (xs_spawned s') = take n
        [\<lparr> sp_fd = pct_sfdisk_file tools, sp_program = PpSfdisk, sp_argv = sfdisk_argv (ca_disk a),
           sp_stdin = Some (cls_sfdisk_script l) \<rparr>,
         \<lparr> sp_fd = pct_partx_file tools, sp_program = PpPartx, sp_argv = partx_argv (ca_disk a), sp_stdin = None \<rparr>])
    \<and> (xs_spawned s' \<noteq> [] \<longrightarrow> validate_crossing (si_basis si) a p f l (rs_journal s) = Inr ())
    \<and> (\<forall>e\<in>set (xs_spawned s'). \<exists>c bytes. site_apply si CtBeginPartitionTableWrite (rs_journal s) = Inr c
          \<and> cj_phase c = CpWritingPartitionTable \<and> cj_partition_table_may_have_changed c
          \<and> stored_bytes (site_kind si) c = Some bytes
          \<and> set (survivors (w_host (pgs_world e)) (site_record si (rs_journal s))) = {Intact bytes}
          \<and> recorded (started_outcomes si) (site_record si (rs_journal s)) (pgs_world e) (xs_world s'))"
proof -
  let ?j = "rs_journal s" and ?B = "CtBeginPartitionTableWrite" and ?sf = "sfdisk_start l tools" and ?px = "partx_start l tools"
  note run = runs_use[OF partition_crossing_start fresh_start[OF assms(2,3)] assms(1)]
  have v: "xs_spawned s' \<noteq> [] \<longrightarrow> validate_crossing (si_basis si) a p f l ?j = Inr ()"
    using run by (cases r) auto
  have "xs_spawned s' = [] \<or> (\<exists>ps\<in>{[?sf], [?sf, ?px]}. committed si ?B ?j [] ps s')"
    using run by (cases r) (auto simp: partition_halt_def)
  then have b: "behind_record si ?B ?j s'" and n: "map pgs_spawn (xs_spawned s') \<in> {take 0 [?sf, ?px], take 1 [?sf, ?px], take 2 [?sf, ?px]}"
    using committed_behind[of si ?B ?j _ s'] by (auto simp: behind_record_def)
  have p: "\<exists>n. map pgs_spawn (xs_spawned s') = take n
        [\<lparr> sp_fd = pct_sfdisk_file tools, sp_program = PpSfdisk, sp_argv = sfdisk_argv (ca_disk a),
           sp_stdin = Some (cls_sfdisk_script l) \<rparr>,
         \<lparr> sp_fd = pct_partx_file tools, sp_program = PpPartx, sp_argv = partx_argv (ca_disk a), sp_stdin = None \<rparr>]"
  proof (cases "xs_spawned s' = []")
    case False
    with v have "validate_crossing (si_basis si) a p f l ?j = Inr ()" by simp
    note c = crossing_stages(1-4)[OF this]
    have "\<exists>n. map pgs_spawn (xs_spawned s') = take n [?sf, ?px]" using n by blast
    then show ?thesis unfolding sfdisk_start_def partx_start_def c .
  qed (rule exI[of _ 0], simp)
  show ?thesis using p v b begun_record by (fastforce simp: behind_record_def)
qed

text \<open>C11: how a partition crossing ends. With a receipt, both programs ran, after them a fresh discovery showed exactly the
  frozen partition and no use of it, the record of that is on the disk, and the file system crossing accepts the receipt with
  that record. When a program failed or the partition was not found, the journal is in recovery, on the disk too. When a check
  refused the crossing, nothing was started and the journal is as it was.\<close>

theorem partition_crossing_outcome:
  assumes "execute_production_create_partition_crossing si a p f l lease tools s = (r, s')"
    and "xs_spawned s = []" and "well_allocated (w_host (xs_world s))"
  shows "case r of
      Inr receipt \<Rightarrow> map (sp_program \<circ> pgs_spawn) (xs_spawned s') = [PpSfdisk, PpPartx]
        \<and> (\<exists>n snapshot. n < os_calls s' \<and> ov_discover (si_os si n) = Inr snapshot
             \<and> verify_partition_snapshot a l snapshot = Inr () \<and> (\<forall>e\<in>set (xs_spawned s'). pgs_call e < n))
        \<and> durable_now si s' \<and> validate_filesystem_crossing si a p f l receipt (rs_journal s') = Inr ()
    | Inl e \<Rightarrow> (run_failure e \<longrightarrow> cj_phase (rs_journal s') = CpRecoveryRequired \<and> durable_now si s')
        \<and> (check_failure e \<longrightarrow> xs_spawned s' = [] \<and> rs_journal s' = rs_journal s)"
proof -
  note run = runs_use[OF partition_crossing_start fresh_start[OF assms(2,3)] assms(1)]
  show ?thesis
  proof (cases r)
    case (Inl e)
    with run show ?thesis by (simp add: partition_halt_def at_recovery_def)
  next
    case (Inr receipt)
    let ?j = "rs_journal s" and ?k = "rs_journal s'"
    from run Inr have v: "validate_crossing (si_basis si) a p f l ?j = Inr ()" and ph: "cj_phase ?k = CpPartitionMappedVerified"
      and d: "durable_now si s'" and b: "receipt_binds si a l receipt ?k"
      and o: "observed (si_os si) (verify_partition_snapshot a l) (xs_spawned s') s'"
      and c: "committed si CtBeginPartitionTableWrite ?j [] [sfdisk_start l tools, partx_start l tools] s'" by auto
    have k: "frozen_as ?j ?k" "create_validate_journal (site_digest si) ?k = Inr ()" "cj_partition_table_may_have_changed ?k"
      "\<not> cj_filesystem_may_have_changed ?k"
      using c v site_apply_flags[of si CtBeginPartitionTableWrite ?j]
      by (auto simp: committed_def same_flags_def validate_crossing_def crossing_untouched_def split: if_splits)
    have "validate_crossing (si_basis si) a p f l (?k\<lparr>cj_phase := CpPrepared, cj_mutation_may_have_started := False,
        cj_partition_table_may_have_changed := False, cj_filesystem_may_have_changed := False, cj_events := []\<rparr>) = Inr ()"
      (is "validate_crossing _ _ _ _ _ ?p = _")
    proof -
      have "?p = ?j\<lparr>cj_events := []\<rparr>"
        using k(1) v by (cases ?j, cases ?k) (auto simp: frozen_as_def validate_crossing_def crossing_untouched_def split: if_splits)
      then show ?thesis using v by simp
    qed
    then have "validate_filesystem_crossing si a p f l receipt ?k = Inr ()"
      using k(2-) ph b by (simp add: validate_filesystem_crossing_def create_validate_iff require_def)
    moreover have "map (sp_program \<circ> pgs_spawn) (xs_spawned s') = [PpSfdisk, PpPartx]"
      using committed_behind[OF c] crossing_stages[OF v] by (auto simp: sfdisk_start_def partx_start_def)
    ultimately show ?thesis using Inr d o by (auto simp: observed_def)
  qed
qed

lemma filesystem_crossing_valid:
  assumes "validate_filesystem_crossing si a p f l receipt j = Inr ()"
  shows "\<exists>j'. validate_crossing (si_basis si) a p f l j' = Inr ()"
  using assms by (auto simp: validate_filesystem_crossing_def is_ok_iff split: if_splits)

text \<open>C10: the file system crossing starts at most mkfs, on the pinned file, with the arguments of the file system and the partition
  that were frozen, for a valid crossing only. A discovery before it showed exactly the frozen partition and no use of it. When
  it starts, the record that the file system may have changed is on the disk, and a crash at any later moment of the crossing
  still finds a record that says that a mutation may have started.\<close>

theorem filesystem_crossing_write_ahead:
  assumes "execute_production_create_filesystem_crossing si a p f l receipt lease tools s = (r, s')"
    and "xs_spawned s = []" and "well_allocated (w_host (xs_world s))"
  shows "xs_spawned s' = [] \<or> (\<exists>e. xs_spawned s' = [e]
    \<and> validate_filesystem_crossing si a p f l receipt (rs_journal s) = Inr ()
    \<and> sp_fd (pgs_spawn e) = pct_mkfs_file tools \<and> sp_stdin (pgs_spawn e) = None
    \<and> (ca_filesystem a, sp_program (pgs_spawn e), sp_argv (pgs_spawn e)) \<in>
         {(''ext4'', PpMkfsExt4, [''mkfs.ext4'', ''-F'', cls_partition_device l]),
          (''xfs'', PpMkfsXfs, [''mkfs.xfs'', ''-f'', cls_partition_device l])}
    \<and> (\<exists>n snapshot. n < pgs_call e \<and> ov_discover (si_os si n) = Inr snapshot \<and> verify_partition_snapshot a l snapshot = Inr ())
    \<and> (\<exists>c bytes. site_apply si CtBeginFilesystemFormat (rs_journal s) = Inr c
         \<and> cj_phase c = CpFormattingFilesystem \<and> cj_filesystem_may_have_changed c
         \<and> stored_bytes (site_kind si) c = Some bytes
         \<and> set (survivors (w_host (pgs_world e)) (site_record si (rs_journal s))) = {Intact bytes}
         \<and> recorded (started_outcomes si) (site_record si (rs_journal s)) (pgs_world e) (xs_world s')))"
proof (cases "xs_spawned s' = []")
  case False
  let ?j = "rs_journal s"
  note run = runs_use[OF filesystem_crossing_start fresh_start[OF assms(2,3)] assms(1)]
  have v: "validate_filesystem_crossing si a p f l receipt ?j = Inr ()" and m: "formatting si a l tools ?j [] s'"
    using run False by (cases r; auto simp: format_halt_def)+
  obtain j' where j': "validate_crossing (si_basis si) a p f l j' = Inr ()" using filesystem_crossing_valid[OF v] by blast
  have b: "behind_record si CtBeginFilesystemFormat ?j s'" "map pgs_spawn (xs_spawned s') = [mkfs_start l tools]"
    using m committed_behind[of si CtBeginFilesystemFormat ?j "[mkfs_start l tools]" s'] by (auto simp: formatting_def)
  then obtain e where e: "xs_spawned s' = [e]" "pgs_spawn e = mkfs_start l tools" by auto
  have "\<exists>n snapshot. n < pgs_call e \<and> ov_discover (si_os si n) = Inr snapshot \<and> verify_partition_snapshot a l snapshot = Inr ()"
    using m e(1) by (auto simp: formatting_def observed_def)
  with v e b(1) crossing_stages(5)[OF j'] show ?thesis
    by (auto simp: behind_record_def mkfs_start_def dest: format_record)
qed simp

text \<open>C12: how a file system crossing ends. With a receipt, mkfs ran, after it a fresh discovery showed exactly the frozen partition
  with exactly the frozen file system, and the completed record is on the disk. When mkfs failed or its result was not found, the
  journal is in recovery, on the disk too. When a check refused the crossing, nothing was started, and the journal is as it was
  or, after the look at the partition, in recovery.\<close>

theorem filesystem_crossing_outcome:
  assumes "execute_production_create_filesystem_crossing si a p f l receipt lease tools s = (r, s')"
    and "xs_spawned s = []" and "well_allocated (w_host (xs_world s))"
  shows "case r of
      Inr x \<Rightarrow> cj_phase (rs_journal s') = CpCompleted \<and> durable_now si s'
        \<and> (\<exists>e n snapshot. xs_spawned s' = [e] \<and> pgs_call e < n \<and> n < os_calls s' \<and> ov_discover (si_os si n) = Inr snapshot
             \<and> verify_filesystem_snapshot a l snapshot = Inr ())
    | Inl e \<Rightarrow> (format_failure e \<longrightarrow> cj_phase (rs_journal s') = CpRecoveryRequired \<and> durable_now si s')
        \<and> (format_refusal e \<longrightarrow> xs_spawned s' = [] \<and> (rs_journal s' = rs_journal s
              \<or> cj_phase (rs_journal s') = CpRecoveryRequired \<and> durable_now si s'))"
proof -
  note run = runs_use[OF filesystem_crossing_start fresh_start[OF assms(2,3)] assms(1)]
  show ?thesis
  proof (cases r)
    case (Inl e)
    with run show ?thesis by (simp add: format_halt_def at_recovery_def)
  next
    case (Inr x)
    with run have "formatting si a l tools (rs_journal s) [] s'" by simp
    then obtain e where "xs_spawned s' = [e]" using committed_behind by (fastforce simp: formatting_def)
    with run Inr show ?thesis by (auto simp: observed_def)
  qed
qed

end
