(* ===== verification/ExampleCrossing.thy ===== *)
theory ExampleCrossing
  imports CreateCrossing StoreProgress ExampleHost
begin

text \<open>
  Runs of the two crossings on the host of \<open>ExampleHost\<close>, with a store in order and calls that do not fail: the concrete
  inputs of the witnesses. \<open>completes\<close> is the logic of executors for runs that end with a value.
\<close>

section \<open>Crossings that complete\<close>

text \<open>The journal \<open>j\<close> in memory and in a store that is in order.\<close>

definition in_store :: "'v create_site \<Rightarrow> create_journal \<Rightarrow> string \<Rightarrow> create_run \<Rightarrow> bool" where
  "in_store si j bytes s \<longleftrightarrow> rs_journal s = j
     \<and> in_order (si_env si) (si_root si) (site_record si j) bytes (w_host (xs_world s))"

abbreviation completes :: "('s \<Rightarrow> bool) \<Rightarrow> ('s, 'e, 'a) state_action \<Rightarrow> ('a \<Rightarrow> 's \<Rightarrow> bool) \<Rightarrow> bool" where
  "completes P m Q \<equiv> runs P m Q (\<lambda>_ _. False)"

lemma advance_completes:
  assumes env: "no_faults (si_env si)" "mild_umask (si_env si)" and a: "site_apply si t j = Inr c"
    and bytes: "encode_journal (site_kind si) c = Inr bytes" and hex: "is_lower_hex_digest (cj_journal_id j)"
  shows "completes (in_store si j old) (site_advance si t) (\<lambda>_. in_store si c bytes)"
  unfolding runs_def
proof (intro allI impI)
  fix s assume s: "in_store si j old s"
  have id: "cj_journal_id c = cj_journal_id j" by (rule site_apply_facts(1)[OF a])
  have v: "jk_validate (site_kind si) c = Inr ()" "jk_id (site_kind si) c = cj_journal_id j"
    "opens_private (jk_ensure_directory (site_kind si))"
    using site_apply_frozen(2)[OF a] id directories_open(1) by (simp_all add: site_kind_def create_kind_def)
  obtain f w where "persist (site_kind si) (si_env si) (si_root si) c (xs_world s) = (Inr f, w)"
    "in_order (si_env si) (si_root si) (site_record si j) bytes (w_host w)"
    using succeeds_use[OF persist_succeeds[OF env v(3,1) bytes], of "si_root si" old "xs_world s"] s v(2) hex
    by (auto simp: in_store_def site_record_def)
  then show "case site_advance si t s of (Inl e, s') \<Rightarrow> False | (Inr x, s') \<Rightarrow> in_store si c bytes s'"
    using s a id by (simp add: site_advance_def advance_def on_journal_def persist_production_create_runtime_transition_def
        persist_transition_def act_bind_def act_then_def act_lift_def site_apply_def in_store_def site_record_def site_kind_def)
qed

lemma stored_completes:
  assumes env: "no_faults (si_env si)" "mild_umask (si_env si)" and hex: "is_lower_hex_digest (cj_journal_id j)"
    and l: "loaded (site_kind si) (cj_journal_id j) bytes j"
  shows "completes (in_store si j bytes) (stored_matches si journal_error mismatch) (\<lambda>_. in_store si j bytes)"
  unfolding runs_def
proof (intro allI impI)
  fix s assume s: "in_store si j bytes s"
  have o: "private_root (si_env si) (si_root si) (w_host (xs_world s))"
    "published (si_env si) (record_at (si_root si) (cj_journal_id j)) bytes (w_host (xs_world s))" "well_allocated (w_host (xs_world s))"
    using s by (auto simp: in_store_def in_order_def site_record_def)
  obtain r w where l': "load (site_kind si) (si_env si) (si_root si) (cj_journal_id j) (xs_world s) = (r, w)" by fastforce
  have "\<exists>w'. jk_ensure_directory (site_kind si) (si_env si) (si_root si) False (xs_world s) = (Inr (), w') \<and> w_host w' = w_host (xs_world s)"
    using ensure_private_root(1)[OF env(1) o(1)] by (simp add: site_kind_def create_kind_def)
  from load_returns[OF env this hex o(2) l] have r: "r = Inr j" using l' by simp
  have "recorded UNIV [] (xs_world s) (xs_world s)" using o(3) by (simp add: recorded_def kept_def)
  from create_runs.load_recorded(2)[OF this, of "site_digest si" "si_enc si" "si_dec si", folded site_kind_def, OF l']
  have "w_host w = w_host (xs_world s)" .
  with s l' r show "case stored_matches si journal_error mismatch s of (Inl e, s') \<Rightarrow> False | (Inr x, s') \<Rightarrow> in_store si j bytes s'"
    by (simp add: stored_matches_def site_load_def on_journal_def act_bind_def act_map_err_def act_ensure_def act_lift_def
        require_def in_store_def map_err_def)
qed

lemma delivers_completes:
  assumes "delivers m x" and "quiet m" and "\<And>s n. P s \<Longrightarrow> P (s\<lparr>os_calls := n\<rparr>)"
  shows "completes P m (\<lambda>y s. y = x \<and> P s)"
  unfolding runs_def
proof (intro allI impI)
  fix s assume "P s"
  moreover obtain s' where "m s = (Inr x, s')" using assms(1) by (auto simp: delivers_def)
  moreover from this assms(2) obtain n where "s' = s\<lparr>os_calls := n\<rparr>" by (metis quiet_def snd_conv)
  ultimately show "case m s of (Inl e, s') \<Rightarrow> False | (Inr y, s') \<Rightarrow> y = x \<and> P s'" using assms(3) by simp
qed

lemma in_store_calls: "in_store si j bytes s \<Longrightarrow> in_store si j bytes (s\<lparr>os_calls := n\<rparr>)"
  by (simp add: in_store_def)

lemma stage_completes:
  assumes "stage_arguments program argv path locale = Inr ()"
    and "\<And>n. ov_run (os n) fd argv path locale stdin = Inr outcome"
    and "\<And>s n. P s \<Longrightarrow> P (s\<lparr>os_calls := n\<rparr>)" and "\<And>s p. P s \<Longrightarrow> P (with_start p s)"
  shows "completes P (execute_descriptor_stage os fd program argv path locale stdin) (\<lambda>x s. x = outcome \<and> P s)"
  using assms by (simp add: execute_descriptor_stage_def runs_def act_then_def act_bind_def act_lift_def record_spawn_def os_call_def)

lemma rediscover_completes:
  assumes "\<And>n. ov_discover (os n) = Inr snapshot" and "verify snapshot = Inr ()" and "\<And>s n. P s \<Longrightarrow> P (s\<lparr>os_calls := n\<rparr>)"
  shows "completes P (rediscover os verify fatal text failed (Suc k) e) (\<lambda>_. P)"
  using assms by (simp add: runs_def act_match_def act_lift_def os_call_def)

lemma completes_or_recover: "completes P m Q \<Longrightarrow> completes P (or_recover m recover) Q"
  by (erule runs_or_recover) (simp add: runs_def)

section \<open>The site of the examples\<close>

text \<open>A store whose records are told apart by their phase, on the host \<open>ex_answers\<close> that shows the new partition.\<close>

definition ex_child :: block_device where
  "ex_child = BlockDevice ''sdb1'' None (Some ''/dev/sdb1'') NkPartition 268435456 (Some 2048) (Some 512) None [] None
     None None None None None []"

definition ex_partitioned_disk :: block_device where
  "ex_partitioned_disk = BlockDevice ''sdb'' None (Some ''/dev/sdb'') NkDisk 1073741824 None (Some 512) None []
     None None None None None (Some ''gpt'') [ex_child]"

definition ex_partitioned :: host_snapshot where
  "ex_partitioned = ex_create_snapshot ex_partitioned_disk
     [\<lparr> pt_device = ''/dev/sdb'', pt_label = Some ''gpt'', pt_id = None, pt_unit = Some ''sectors'',
        pt_first_lba = Some 34, pt_last_lba = Some 2097118, pt_sector_size_bytes = Some 512,
        pt_partitions = [\<lparr> pr_node = ''/dev/sdb1'', pr_start_sector = 2048, pr_size_sectors = 524288,
          pr_partition_type = Some GPT_LINUX_FILESYSTEM_TYPE, pr_uuid = None, pr_name = None, pr_attrs = None,
          pr_bootable = None \<rparr>] \<rparr>]"

lemma ex_partition_verified: "verify_partition_snapshot ex_create_activation ex_launch ex_partitioned = Inr ()"
proof -
  have l: "cls_partition_device ex_launch = ''/dev/sdb1''" by (simp add: ex_launch_def)
  have d: "same_disk ex_create_activation ex_partitioned_disk" "disk_or_loop ex_partitioned_disk"
    using ex_activation(14) by (simp_all add: same_disk_def ex_blank_disk_def ex_partitioned_disk_def disk_or_loop_def)
  have s: "ca_logical_sector_bytes ex_create_activation = 512"
    using ex_activation(14) by (simp add: same_disk_def ex_blank_disk_def)
  show ?thesis
    by (simp add: verify_partition_snapshot_def ex_partitioned_def ex_create_snapshot_def collector_complete_def single_def
        table_exact_def record_exact_def top_disk_def child_exact_def partition_in_use_def d l s ex_activation
        expected_partition_type_def partition_table_name_def checked_mul_def eq_ignore_ascii_case_def)
       (simp add: ex_partitioned_disk_def ex_child_def child_exact_def partition_in_use_def l s ex_activation checked_mul_def)
qed

definition ex_write_log :: "(create_transition \<times> create_phase \<times> string) list" where
  "ex_write_log = [(CtBeginPartitionTableWrite, CpWritingPartitionTable, ''partition-table-write-started''),
     (CtPartitionTableWriteSucceeded, CpPartitionTableWrittenAwaitingRediscovery, ''partition-table-write-succeeded''),
     (CtPartitionRediscoveryVerified, CpPartitionMappedVerified, ''partition-rediscovery-verified'')]"

definition ex_mapped_record :: create_journal where
  "ex_mapped_record = create_state ex_create_record ex_write_log CpPartitionMappedVerified"

fun phase_byte :: "create_phase \<Rightarrow> string" where
  "phase_byte CpPrepared = ''0''"
| "phase_byte CpPartitionMappedVerified = ''3''"
| "phase_byte _ = ''x''"

definition ex_site :: "consent_document create_site" where
  "ex_site = \<lparr> si_basis = ex_basis, si_os = \<lambda>n. ex_answers (Inr ex_partitioned), si_env = ex_env, si_root = ex_root,
     si_enc = \<lambda>j. Some (phase_byte (cj_phase j)),
     si_dec = \<lambda>bytes. if bytes = ''0'' @ [char_of (10::nat)] then Some ex_create_record
       else if bytes = ''3'' @ [char_of (10::nat)] then Some ex_mapped_record else None,
     si_partition_compiled = True, si_filesystem_compiled = True, si_partition_digest = \<lambda>_. Inr ex_sha,
     si_filesystem_digest = \<lambda>_. Inr ex_sha, si_lossy = \<lambda>s. s, si_partition_text = \<lambda>_. ''partition'',
     si_filesystem_text = \<lambda>_. ''filesystem'', si_journal_text = \<lambda>_. ''journal'' \<rparr>"

definition ex_run :: "create_journal \<Rightarrow> string \<Rightarrow> create_run" where
  "ex_run j bytes = \<lparr> os_calls = 0, xs_world = ex_world (Some bytes), xs_spawned = [], rs_journal = j \<rparr>"

lemma ex_site_parts [simp]:
  "si_basis ex_site = ex_basis" "si_os ex_site = (\<lambda>n. ex_answers (Inr ex_partitioned))" "si_env ex_site = ex_env"
  "si_root ex_site = ex_root" "si_partition_compiled ex_site" "si_filesystem_compiled ex_site"
  "si_partition_digest ex_site = (\<lambda>_. Inr ex_sha)"
  by (simp_all add: ex_site_def)

lemma ex_journal_digest: "cb_journal_digest ex_basis = (\<lambda>_. Inr ex_sha)"
  by (simp add: ex_basis_def)

lemma ex_fresh: "create_fresh (site_digest ex_site) ex_create_record"
  unfolding site_digest_def ex_site_parts by (rule build_journal_fields(2)[OF ex_journal_built])

lemma ex_record_id [simp]: "cj_journal_id ex_create_record = ex_sha" "cj_journal_id (create_state ex_create_record ts p) = ex_sha"
  using ex_fresh by (auto simp: create_fresh_def create_validate_iff create_integrity_matches_def create_expected_journal_id_def
      site_digest_def ex_journal_digest create_state_def)

lemma ex_run_start:
  "cj_journal_id j = ex_sha \<Longrightarrow> in_store ex_site j bytes (ex_run j bytes)" "xs_spawned (ex_run j bytes) = []"
  "well_allocated (w_host (xs_world (ex_run j bytes)))" "rs_journal (ex_run j bytes) = j"
proof -
  have o: "in_order ex_env ex_root (record_at ex_root ex_sha) bytes (w_host (ex_world (Some bytes)))" by (rule ex_world_in_order)
  then show "cj_journal_id j = ex_sha \<Longrightarrow> in_store ex_site j bytes (ex_run j bytes)"
    by (simp add: in_store_def ex_run_def site_record_def)
  show "xs_spawned (ex_run j bytes) = []" "well_allocated (w_host (xs_world (ex_run j bytes)))" "rs_journal (ex_run j bytes) = j"
    using o by (simp_all add: ex_run_def in_order_def)
qed

lemma ex_advance:
  assumes "phase_run create_transition_target CpPrepared ts p" and "create_transition_target p t = Some (q, c)"
  shows "completes (in_store ex_site (create_state ex_create_record ts p) old) (site_advance ex_site t)
    (\<lambda>_. in_store ex_site (create_state ex_create_record (ts @ [(t, q, c)]) q) (phase_byte q @ [char_of (10::nat)]))"
proof (rule advance_completes)
  show "site_apply ex_site t (create_state ex_create_record ts p) = Inr (create_state ex_create_record (ts @ [(t, q, c)]) q)"
    unfolding site_apply_def by (rule create_apply_state[OF ex_fresh assms])
  have "length (phase_byte q) = 1" by (cases q) simp_all
  then show "encode_journal (site_kind ex_site) (create_state ex_create_record (ts @ [(t, q, c)]) q)
      = Inr (phase_byte q @ [char_of (10::nat)])"
    by (simp add: encode_journal_def site_kind_def create_kind_def ex_site_def MAX_CREATE_RUNTIME_JOURNAL_BYTES_def)
qed (simp_all add: ex_env_ok ex_sha_hex)

lemma build_journal_bindings:
  assumes "build_production_create_runtime_journal cb a p f l = Inr j"
  shows "cj_activation_id j = ca_activation_id a" "cj_execution_permit_id j = cpm_permit_id p"
    "cj_preflight_receipt_id j = cpf_receipt_id f" "cj_launch_id j = cls_launch_id l"
    "cj_create_intent_id j = ca_create_intent_id a" "cj_disk j = ca_disk a"
    "cj_partition_table j = partition_table_name (ca_partition_table a)"
    "cj_partition_start_sector j = ca_partition_start_sector a" "cj_partition_sector_count j = ca_partition_sector_count a"
    "cj_partition_size_bytes j = ca_partition_size_bytes a" "cj_filesystem j = ca_filesystem a"
    "cj_partition_device j = cls_partition_device l"
  using assms by (auto simp: build_production_create_runtime_journal_def and_then_Inr Let_def split: if_splits)

lemma ex_crossing_valid: "validate_crossing ex_basis ex_create_activation ex_permit ex_preflight ex_launch ex_create_record = Inr ()"
proof -
  have l: "cls_integrity_matches ex_basis ex_launch = Inr True"
    by (simp add: cls_integrity_matches_def cls_expected_launch_id_def ex_basis_def ex_launch_def)
  have f: "preflight_sealed ex_basis ex_preflight" "preflight_untouched ex_preflight"
    by (simp_all add: preflight_sealed_def preflight_untouched_def cpf_integrity_matches_def cpf_expected_receipt_id_def ok_true_def
        ex_preflight_def ex_basis_def)
  have j: "create_integrity_matches (cb_journal_digest ex_basis) ex_create_record = Inr True" "cj_schema_version ex_create_record = 1"
    "cj_phase ex_create_record = CpPrepared" "\<not> cj_mutation_may_have_started ex_create_record"
    "\<not> cj_partition_table_may_have_changed ex_create_record" "\<not> cj_filesystem_may_have_changed ex_create_record"
    using ex_fresh by (auto simp: create_fresh_def create_validate_iff site_digest_def)
  have u: "crossing_untouched ex_basis ex_create_activation ex_permit ex_preflight ex_launch ex_create_record"
    using ex_activation(6,7) ex_sealed_permit(3,4) f l j
    by (simp add: crossing_untouched_def ok_true_def) (simp add: ex_launch_def launch_untouched_def)
  have b: "crossing_binds ex_create_activation ex_permit ex_preflight ex_launch ex_create_record"
    using build_journal_bindings[OF ex_journal_built] ex_sealed_permit(5)
    by (simp add: crossing_binds_def permit_binds_def) (simp add: ex_preflight_def ex_launch_def)
  have c: "validate_launch_stage_contract ex_basis ex_create_activation ex_launch = Inr ()"
    by (simp add: validate_launch_stage_contract_def ex_activation stage_contract_def require_def)
       (simp add: ex_launch_def ex_stage_def ex_activation ex_basis_def)
  show ?thesis using u b c by (simp add: validate_crossing_def)
qed

definition ex_outcome :: exec_outcome where
  "ex_outcome = \<lparr> eo_exit_code = 0, eo_stdout = [], eo_stderr = [], eo_stdout_truncated = False, eo_stderr_truncated = False \<rparr>"

lemma ex_store_steady:
  "in_store si j bytes s \<Longrightarrow> in_store si j bytes (s\<lparr>os_calls := n\<rparr>)" "in_store si j bytes s \<Longrightarrow> in_store si j bytes (with_start p s)"
  by (simp_all add: in_store_def with_start_def)

lemma ex_stage_runs:
  assumes "stage \<in> {cls_sfdisk ex_launch, cls_partx ex_launch, cls_mkfs ex_launch}"
  shows "completes (in_store ex_site j bytes) (execute_stage ex_site ex_launch stage fd stdin)
    (\<lambda>x s. x = ex_outcome \<and> in_store ex_site j bytes s)"
  unfolding execute_stage_def
proof (rule stage_completes)
  have p: "cls_fixed_path ex_launch = FIXED_PATH" "cls_fixed_locale ex_launch = FIXED_LOCALE" by (simp_all add: ex_launch_def)
  have s: "(lst_program stage, lst_argv stage) \<in> {(PpSfdisk, sfdisk_argv ''/dev/sdb''), (PpPartx, partx_argv ''/dev/sdb''),
      (PpMkfsExt4, [''mkfs.ext4'', ''-F'', ''/dev/sdb1''])}" using assms by (auto simp: ex_launch_def ex_stage_def)
  have "stage_arguments PpSfdisk (sfdisk_argv ''/dev/sdb'') FIXED_PATH FIXED_LOCALE = Inr ()"
    "stage_arguments PpPartx (partx_argv ''/dev/sdb'') FIXED_PATH FIXED_LOCALE = Inr ()"
    "stage_arguments PpMkfsExt4 [''mkfs.ext4'', ''-F'', ''/dev/sdb1''] FIXED_PATH FIXED_LOCALE = Inr ()" by code_simp+
  with s show "stage_arguments (lst_program stage) (lst_argv stage) (cls_fixed_path ex_launch) (cls_fixed_locale ex_launch) = Inr ()"
    by (auto simp: p)
  show "ov_run (si_os ex_site n) fd (lst_argv stage) (cls_fixed_path ex_launch) (cls_fixed_locale ex_launch) stdin = Inr ex_outcome" for n
    by (simp add: ex_answers_def ex_outcome_def)
qed (auto intro: ex_store_steady)

lemma ex_chain_runs:
  "completes (in_store ex_site j bytes) (revalidate_chain ex_site invalid consent_error tool_error ex_create_activation ex_preflight
     ex_lease ex_pinned_tools) (\<lambda>_. in_store ex_site j bytes)"
proof -
  have id: "ccr_receipt_id ex_receipt = cpf_consent_receipt_id ex_preflight" by (simp add: ex_preflight_def ex_bind_receipt(2))
  let ?P = "in_store ex_site j bytes"
  have c: "completes ?P (act_map_err consent_error (revalidate_pinned_production_create_consent ex_basis
      (\<lambda>n. ex_answers (Inr ex_partitioned)) ex_create_activation ex_lease)) (\<lambda>y s. y = ex_receipt \<and> ?P s)"
    by (rule runs_map_err, rule delivers_completes[OF ex_current_consent quiet_consent]) (rule in_store_calls)
  have t: "completes ?P (act_map_err tool_error (tools_revalidate ex_basis (\<lambda>n. ex_answers (Inr ex_partitioned))
      ex_pinned_tools ex_preflight)) (\<lambda>_. ?P)"
    by (rule runs_map_err, rule runs_weaken[OF delivers_completes[where P = ?P, OF ex_tools_current quiet_tools]]) (auto intro: in_store_calls)
  show ?thesis unfolding revalidate_chain_def ex_site_parts
    by (rule runs_bind[OF c], rule runs_pure, rule runs_then[where R = ?P], unfold act_ensure_def, rule runs_lift)
       (simp_all add: id require_def t)
qed

section \<open>The partition crossing\<close>

abbreviation ex_line :: "string \<Rightarrow> string" where
  "ex_line bytes \<equiv> bytes @ [char_of (10::nat)]"

lemma ex_create_state_start: "create_state ex_create_record [] CpPrepared = ex_create_record"
  using ex_fresh by (cases ex_create_record) (simp add: create_state_def create_fresh_def create_validate_iff)

lemma ex_write_run: "phase_run create_transition_target CpPrepared ex_write_log CpPartitionMappedVerified"
  using phase_run.move[OF phase_run.move[OF phase_run.move[OF phase_run.stay]],
      of create_transition_target CpPrepared CtBeginPartitionTableWrite _ _ CtPartitionTableWriteSucceeded _ _ CtPartitionRediscoveryVerified]
  by (simp add: ex_write_log_def)

lemma ex_loads:
  "loaded (site_kind ex_site) ex_sha (ex_line ''0'') ex_create_record"
  "loaded (site_kind ex_site) ex_sha (ex_line ''3'') ex_mapped_record"
proof -
  have v: "create_validate_journal (site_digest ex_site) ex_mapped_record = Inr ()"
    unfolding ex_mapped_record_def by (rule create_state_valid[OF ex_fresh ex_write_run])
  have i: "cj_journal_id ex_mapped_record = ex_sha" by (simp add: ex_mapped_record_def)
  have d: "si_dec ex_site (ex_line ''0'') = Some ex_create_record" "si_dec ex_site (ex_line ''3'') = Some ex_mapped_record"
    by (simp_all add: ex_site_def)
  show "loaded (site_kind ex_site) ex_sha (ex_line ''0'') ex_create_record"
    "loaded (site_kind ex_site) ex_sha (ex_line ''3'') ex_mapped_record"
    using v i ex_fresh d
    by (simp_all add: loaded_def site_kind_def create_kind_def MAX_CREATE_RUNTIME_JOURNAL_BYTES_def create_fresh_def)
qed

lemma ex_discovered: "completes (in_store ex_site j bytes) (discover_exact_partition ex_site ex_create_activation ex_launch)
    (\<lambda>_. in_store ex_site j bytes)"
proof -
  have p: "POST_CREATE_REDISCOVERY_ATTEMPTS = Suc 19" by (simp add: POST_CREATE_REDISCOVERY_ATTEMPTS_def)
  show ?thesis unfolding discover_exact_partition_def p
    by (rule rediscover_completes[where snapshot = ex_partitioned]) (simp_all add: ex_answers_calls ex_partition_verified in_store_calls)
qed

lemma ex_mapped_stage:
  "stage \<in> {cls_sfdisk ex_launch, cls_partx ex_launch, cls_mkfs ex_launch} \<Longrightarrow>
   completes (in_store ex_site j bytes) (act_map_err g (execute_stage ex_site ex_launch stage fd stdin))
    (\<lambda>x s. x = ex_outcome \<and> in_store ex_site j bytes s)"
  by (rule runs_map_err) (rule ex_stage_runs)

lemma ex_partition_completes:
  "completes (in_store ex_site ex_create_record (ex_line ''0''))
     (execute_partition_crossing ex_site ex_create_activation ex_launch ex_pinned_tools)
     (\<lambda>_. in_store ex_site ex_mapped_record (ex_line ''3''))"
proof -
  let ?a = ex_create_activation and ?l = ex_launch and ?r = ex_create_record
  let ?l1 = "[(CtBeginPartitionTableWrite, CpWritingPartitionTable, ''partition-table-write-started'')]"
  let ?l2 = "?l1 @ [(CtPartitionTableWriteSucceeded, CpPartitionTableWrittenAwaitingRediscovery, ''partition-table-write-succeeded'')]"
  let ?s1 = "in_store ex_site (create_state ?r ?l1 CpWritingPartitionTable) (ex_line ''x'')"
  let ?s2 = "in_store ex_site (create_state ?r ?l2 CpPartitionTableWrittenAwaitingRediscovery) (ex_line ''x'')"
  have r1: "phase_run create_transition_target CpPrepared ?l1 CpWritingPartitionTable"
    using phase_run.move[OF phase_run.stay, of create_transition_target CpPrepared CtBeginPartitionTableWrite] by simp
  have r2: "phase_run create_transition_target CpPrepared ?l2 CpPartitionTableWrittenAwaitingRediscovery"
    by (rule phase_run.move[OF r1]) simp
  have a1: "completes (in_store ex_site ?r (ex_line ''0'')) (act_map_err g (site_advance ex_site CtBeginPartitionTableWrite)) (\<lambda>_. ?s1)"
    for g :: "create_error \<Rightarrow> partition_error"
    by (rule runs_map_err) (use ex_advance[OF phase_run.stay, of CtBeginPartitionTableWrite] in \<open>simp add: ex_create_state_start\<close>)
  have a2: "completes ?s1 (act_map_err g (site_advance ex_site CtPartitionTableWriteSucceeded)) (\<lambda>_. ?s2)"
    for g :: "create_error \<Rightarrow> partition_error"
    by (rule runs_map_err) (use ex_advance[OF r1, of CtPartitionTableWriteSucceeded] in simp)
  have a3: "completes ?s2 (act_map_err g (site_advance ex_site CtPartitionRediscoveryVerified))
      (\<lambda>_. in_store ex_site ex_mapped_record (ex_line ''3''))" for g :: "create_error \<Rightarrow> partition_error"
    by (rule runs_map_err)
       (use ex_advance[OF r2, of CtPartitionRediscoveryVerified] in \<open>simp add: ex_mapped_record_def ex_write_log_def\<close>)
  have sf: "completes ?s1 (run_stage ex_site n ?l (cls_sfdisk ?l) fd stdin) (\<lambda>_. ?s1)" for n fd stdin
    unfolding run_stage_def
    by (rule runs_bind[OF ex_mapped_stage], simp, rule runs_pure, rule runs_lift) (simp add: ex_outcome_def)
  have px: "completes ?s1 (run_partx_stage_with_exact_reconciliation ex_site ?a ?l ex_pinned_tools) (\<lambda>_. ?s1)"
    unfolding run_partx_stage_with_exact_reconciliation_def
    by (rule runs_bind[OF ex_mapped_stage], simp, rule runs_pure, simp add: ex_outcome_def, rule runs_value)
  show ?thesis unfolding execute_partition_crossing_def
    by (rule runs_then[OF a1], rule runs_then[OF completes_or_recover[OF sf]], rule runs_then[OF completes_or_recover[OF px]],
        rule runs_then[OF a2], rule runs_then[OF completes_or_recover[OF ex_discovered]],
        rule runs_then[OF a3])
       (auto simp: runs_def act_lift_def Let_def and_then_def map_err_def cpr_expected_receipt_id_def)
qed

lemma ex_partition_run:
  obtains receipt s' where "execute_production_create_partition_crossing ex_site ex_create_activation ex_permit ex_preflight ex_launch
      ex_lease ex_pinned_tools (ex_run ex_create_record (ex_line ''0'')) = (Inr receipt, s')"
    "in_store ex_site ex_mapped_record (ex_line ''3'') s'"
proof -
  let ?s = "ex_run ex_create_record (ex_line ''0'')" and ?P = "in_store ex_site ex_create_record (ex_line ''0'')"
  let ?m = "act_then (stored_matches ex_site PteJournal PteJournalMismatch)
      (act_then (revalidate_chain ex_site PteAuthorizationInvalid PteConsent PteToolLease ex_create_activation ex_preflight ex_lease
         ex_pinned_tools) (execute_partition_crossing ex_site ex_create_activation ex_launch ex_pinned_tools))"
  have st: "completes ?P (stored_matches ex_site PteJournal PteJournalMismatch) (\<lambda>_. ?P)"
    by (rule stored_completes) (unfold ex_record_id ex_site_parts, (rule ex_env_ok ex_sha_hex ex_loads)+)
  have "completes ?P ?m (\<lambda>_. in_store ex_site ex_mapped_record (ex_line ''3''))"
    by (rule runs_then[OF st], rule runs_then[OF ex_chain_runs], rule ex_partition_completes)
  from runs_use[OF this, of ?s] ex_run_start(1)[of ex_create_record]
  obtain receipt s' where m: "?m ?s = (Inr receipt, s')" "in_store ex_site ex_mapped_record (ex_line ''3'') s'"
    by (cases "?m ?s"; cases "fst (?m ?s)") auto
  have "execute_production_create_partition_crossing ex_site ex_create_activation ex_permit ex_preflight ex_launch
      ex_lease ex_pinned_tools ?s = ?m ?s"
    by (simp add: execute_production_create_partition_crossing_def ex_run_start(4) ex_crossing_valid ex_env_def)
       (simp add: act_then_def act_bind_value)
  with m that show thesis by simp
qed

theorem partition_crossing_write_ahead_witness:
  "\<exists>receipt s'. execute_production_create_partition_crossing ex_site ex_create_activation ex_permit ex_preflight ex_launch
      ex_lease ex_pinned_tools (ex_run ex_create_record (ex_line ''0'')) = (Inr receipt, s')
    \<and> (\<exists>n. map pgs_spawn (xs_spawned s') = take n
         [\<lparr> sp_fd = 4, sp_program = PpSfdisk, sp_argv = sfdisk_argv ''/dev/sdb'', sp_stdin = Some ex_script \<rparr>,
          \<lparr> sp_fd = 4, sp_program = PpPartx, sp_argv = partx_argv ''/dev/sdb'', sp_stdin = None \<rparr>])
    \<and> (\<forall>e\<in>set (xs_spawned s'). set (survivors (w_host (pgs_world e)) (record_at ex_root ex_sha)) = {Intact (ex_line ''x'')})"
proof -
  obtain receipt s' where r: "execute_production_create_partition_crossing ex_site ex_create_activation ex_permit ex_preflight ex_launch
      ex_lease ex_pinned_tools (ex_run ex_create_record (ex_line ''0'')) = (Inr receipt, s')" by (rule ex_partition_run)
  have e: "stored_bytes (site_kind ex_site) c = Some bytes \<Longrightarrow> cj_phase c = CpWritingPartitionTable \<Longrightarrow> bytes = ex_line ''x''" for c bytes
    by (simp add: stored_bytes_def site_kind_def create_kind_def ex_site_def)
  have p: "pct_sfdisk_file ex_pinned_tools = 4" "pct_partx_file ex_pinned_tools = 4" "cls_sfdisk_script ex_launch = ex_script"
    by (simp_all add: ex_pinned_tools_def ex_launch_def)
  have f: "site_record ex_site (rs_journal (ex_run ex_create_record (ex_line ''0''))) = record_at ex_root ex_sha"
    by (simp add: site_record_def ex_run_start(4))
  note w = partition_crossing_write_ahead[OF r ex_run_start(2,3), unfolded p f ex_activation(2)]
  from w have "\<forall>e\<in>set (xs_spawned s'). set (survivors (w_host (pgs_world e)) (record_at ex_root ex_sha)) = {Intact (ex_line ''x'')}"
    using e by blast
  with w r show ?thesis by blast
qed

theorem partition_crossing_outcome_witness:
  "\<exists>receipt s'. execute_production_create_partition_crossing ex_site ex_create_activation ex_permit ex_preflight ex_launch
      ex_lease ex_pinned_tools (ex_run ex_create_record (ex_line ''0'')) = (Inr receipt, s')
    \<and> map (sp_program \<circ> pgs_spawn) (xs_spawned s') = [PpSfdisk, PpPartx] \<and> durable_now ex_site s'"
proof -
  obtain receipt s' where r: "execute_production_create_partition_crossing ex_site ex_create_activation ex_permit ex_preflight ex_launch
      ex_lease ex_pinned_tools (ex_run ex_create_record (ex_line ''0'')) = (Inr receipt, s')" by (rule ex_partition_run)
  from partition_crossing_outcome[OF r ex_run_start(2,3)] r show ?thesis by auto
qed

section \<open>The file system crossing\<close>

text \<open>The host of the examples never shows a file system, so the crossing runs mkfs and then ends in recovery.\<close>

definition ex_partition_receipt :: partition_receipt where
  "ex_partition_receipt = \<lparr> cpr_schema_version = 1, cpr_receipt_id = ex_sha, cpr_journal_id = ex_sha,
     cpr_launch_id = cls_launch_id ex_launch, cpr_disk = ca_disk ex_create_activation,
     cpr_partition_device = cls_partition_device ex_launch,
     cpr_partition_table = partition_table_name (ca_partition_table ex_create_activation),
     cpr_partition_start_sector = ca_partition_start_sector ex_create_activation,
     cpr_partition_sector_count = ca_partition_sector_count ex_create_activation,
     cpr_partition_size_bytes = ca_partition_size_bytes ex_create_activation,
     cpr_partition_mapped_verified = True, cpr_filesystem_formatted = False \<rparr>"

lemma ex_filesystem_valid:
  "validate_filesystem_crossing ex_site ex_create_activation ex_permit ex_preflight ex_launch ex_partition_receipt ex_mapped_record = Inr ()"
proof -
  have "ex_mapped_record\<lparr>cj_phase := CpPrepared, cj_mutation_may_have_started := False, cj_partition_table_may_have_changed := False,
      cj_filesystem_may_have_changed := False, cj_events := []\<rparr> = ex_create_record"
    using ex_fresh by (cases ex_create_record) (simp add: ex_mapped_record_def create_state_def create_fresh_def create_validate_iff)
  moreover have "receipt_binds ex_site ex_create_activation ex_launch ex_partition_receipt ex_mapped_record"
    by (simp add: receipt_binds_def ex_partition_receipt_def cpr_integrity_matches_def cpr_expected_receipt_id_def ok_true_def)
       (simp add: ex_mapped_record_def)
  ultimately show ?thesis
    by (simp add: validate_filesystem_crossing_def ex_crossing_valid require_def)
       (simp add: ex_mapped_record_def ex_write_log_def)
qed

lemma ex_not_formatted:
  "runs P (discover_exact_filesystem ex_site ex_create_activation ex_launch) (\<lambda>_ _. False) (\<lambda>e s. (\<exists>t. e = FseRediscovery t) \<and> P s)"
  if calls: "\<And>s n. P s \<Longrightarrow> P (s\<lparr>os_calls := n\<rparr>)"
proof -
  have v: "verify_filesystem_snapshot ex_create_activation ex_launch ex_partitioned = Inl FseFilesystemVerificationMismatch"
    by (simp add: verify_filesystem_snapshot_def ex_partitioned_def ex_create_snapshot_def top_disk_def ex_activation single_def)
       (simp add: ex_partitioned_disk_def ex_child_def)
  have "runs P (rediscover (si_os ex_site) (verify_filesystem_snapshot ex_create_activation ex_launch) FseUnexpectedPartitionUse
      (si_filesystem_text ex_site) FseRediscovery k m) (\<lambda>_ _. False) (\<lambda>e s. (\<exists>t. e = FseRediscovery t) \<and> P s)" for k m
    using calls by (induction k arbitrary: m)
      (simp_all add: runs_def act_lift_def act_match_def os_call_def ex_answers_calls v)
  from this show ?thesis unfolding discover_exact_filesystem_def .
qed

lemma runs_conj: "runs P m Q E \<Longrightarrow> runs P' m Q' E' \<Longrightarrow> runs (\<lambda>s. P s \<and> P' s) m (\<lambda>x s. Q x s \<and> Q' x s) (\<lambda>e s. E e s \<and> E' e s)"
  unfolding runs_def by (fastforce split: prod.splits sum.splits)

lemma advance_started:
  "runs (\<lambda>s. xs_spawned s \<noteq> []) (site_advance si t) (\<lambda>_ s. xs_spawned s \<noteq> []) (\<lambda>_ s. xs_spawned s \<noteq> [])"
  by (auto simp: runs_def site_advance_def advance_def on_journal_def split: prod.split sum.split)

lemma mkfs_started:
  "runs (in_store ex_site j bytes) (run_filesystem_stage ex_site ex_launch ex_pinned_tools)
     (\<lambda>_ s. in_store ex_site j bytes s \<and> xs_spawned s \<noteq> []) (\<lambda>_ _. False)"
proof -
  have started: "runs (\<lambda>_. True) (act_map_err FseDescriptor (execute_stage ex_site ex_launch (cls_mkfs ex_launch) fd None))
      (\<lambda>_ (s::create_run). xs_spawned s \<noteq> []) (\<lambda>_ _. True)" for fd
  proof (rule runs_map_err, unfold runs_def, intro allI impI)
    fix s :: create_run
    obtain r s' where e: "execute_stage ex_site ex_launch (cls_mkfs ex_launch) fd None s = (r, s')" by fastforce
    from execute_stage_cases[OF this[unfolded execute_stage_def]]
    show "case execute_stage ex_site ex_launch (cls_mkfs ex_launch) fd None s of (Inl e, s') \<Rightarrow> True | (Inr x, s') \<Rightarrow> xs_spawned s' \<noteq> []"
      using e by (auto simp: with_start_def split: sum.split)
  qed
  show ?thesis unfolding run_filesystem_stage_def
    by (rule runs_bind[OF runs_weaken[OF runs_conj[OF ex_mapped_stage started]]], simp, simp, assumption, simp,
        rule runs_lift) (auto simp: ex_outcome_def)
qed

lemma ex_format_fails:
  "runs (in_store ex_site ex_mapped_record (ex_line ''3''))
     (execute_filesystem_format ex_site ex_create_activation ex_launch ex_partition_receipt ex_pinned_tools)
     (\<lambda>_ _. False) (\<lambda>e s. (\<exists>t. e = FseRediscovery t) \<and> xs_spawned s \<noteq> [])"
proof -
  let ?f = "[(CtBeginFilesystemFormat, CpFormattingFilesystem, ''filesystem-format-started'')]"
  let ?g = "[(CtFilesystemFormatSucceeded, CpFilesystemFormattedAwaitingVerification, ''filesystem-format-succeeded'')]"
  let ?s4 = "in_store ex_site (create_state ex_create_record (ex_write_log @ ?f) CpFormattingFilesystem) (ex_line ''x'')"
  let ?s5 = "in_store ex_site (create_state ex_create_record ((ex_write_log @ ?f) @ ?g) CpFilesystemFormattedAwaitingVerification) (ex_line ''x'')"
  let ?E = "\<lambda>e s. (\<exists>t. e = FseRediscovery t) \<and> xs_spawned s \<noteq> []"
  have r4: "phase_run create_transition_target CpPrepared (ex_write_log @ ?f) CpFormattingFilesystem"
    by (rule phase_run.move[OF ex_write_run]) simp
  have r5: "phase_run create_transition_target CpPrepared ((ex_write_log @ ?f) @ ?g) CpFilesystemFormattedAwaitingVerification"
    by (rule phase_run.move[OF r4]) simp
  have a4: "completes (in_store ex_site ex_mapped_record (ex_line ''3'')) (act_map_err FseJournal (site_advance ex_site CtBeginFilesystemFormat))
      (\<lambda>_. ?s4)"
    by (rule runs_map_err) (use ex_advance[OF ex_write_run, of CtBeginFilesystemFormat] in \<open>simp add: ex_mapped_record_def\<close>)
  have a5: "runs (\<lambda>s. ?s4 s \<and> xs_spawned s \<noteq> []) (act_map_err FseJournal (site_advance ex_site CtFilesystemFormatSucceeded))
      (\<lambda>_ s. ?s5 s \<and> xs_spawned s \<noteq> []) (\<lambda>_ _. False)"
    by (rule runs_map_err, rule runs_weaken[OF runs_conj[OF ex_advance[OF r4, of CtFilesystemFormatSucceeded] advance_started]]) auto
  have a6: "runs (\<lambda>s. ?s5 s \<and> xs_spawned s \<noteq> []) (site_advance ex_site CtRecoveryRequired) (\<lambda>_ s. xs_spawned s \<noteq> []) (\<lambda>_ _. False)"
    by (rule runs_weaken[OF runs_conj[OF ex_advance[OF r5, of CtRecoveryRequired] advance_started]]) auto
  have rec: "runs (\<lambda>s. (\<exists>t. e = FseRediscovery t) \<and> ?s5 s \<and> xs_spawned s \<noteq> []) (persist_filesystem_recovery ex_site e) Q ?E" for e Q
    unfolding persist_filesystem_recovery_def
    by (rule runs_pure, rule runs_match[OF a6], rule runs_error, auto simp: runs_def)
  have d: "runs (\<lambda>s. ?s5 s \<and> xs_spawned s \<noteq> []) (discover_exact_filesystem ex_site ex_create_activation ex_launch) (\<lambda>_ _. False)
      (\<lambda>e s. (\<exists>t. e = FseRediscovery t) \<and> ?s5 s \<and> xs_spawned s \<noteq> [])"
    by (rule ex_not_formatted) (simp add: in_store_calls)
  have "runs (\<lambda>s. ?s5 s \<and> xs_spawned s \<noteq> []) (or_recover (discover_exact_filesystem ex_site ex_create_activation ex_launch)
      (persist_filesystem_recovery ex_site)) (\<lambda>_ _. False) ?E"
    by (rule runs_or_recover[OF d rec])
  note tail = runs_then[OF this, of _ "\<lambda>_ _. False"]
  show ?thesis unfolding execute_filesystem_format_def
    by (rule runs_then[OF runs_weaken[OF a4]], assumption, assumption, simp,
        rule runs_then[OF runs_weaken[OF completes_or_recover[OF mkfs_started]]], assumption, assumption, simp,
        rule runs_then[OF runs_weaken[OF a5]], assumption, assumption, simp, rule tail) (simp add: runs_def)
qed

lemma ex_filesystem_run:
  obtains t s' where "execute_production_create_filesystem_crossing ex_site ex_create_activation ex_permit ex_preflight ex_launch
      ex_partition_receipt ex_lease ex_pinned_tools (ex_run ex_mapped_record (ex_line ''3'')) = (Inl (FseRediscovery t), s')"
    "xs_spawned s' \<noteq> []"
proof -
  let ?s = "ex_run ex_mapped_record (ex_line ''3'')" and ?P = "in_store ex_site ex_mapped_record (ex_line ''3'')"
  let ?c = "revalidate_chain ex_site FseAuthorizationInvalid FseConsent FseToolLease ex_create_activation ex_preflight ex_lease ex_pinned_tools"
  let ?E = "\<lambda>e s. (\<exists>t. e = FseRediscovery t) \<and> xs_spawned s \<noteq> []"
  let ?rest = "act_then (or_recover (act_map_err (\<lambda>e. FsePreFormatPartitionVerification (si_partition_text ex_site e))
         (discover_exact_partition ex_site ex_create_activation ex_launch)) (persist_filesystem_recovery ex_site))
      (act_then (or_recover ?c (persist_filesystem_recovery ex_site))
        (execute_filesystem_format ex_site ex_create_activation ex_launch ex_partition_receipt ex_pinned_tools))"
  let ?m = "act_then (stored_matches ex_site FseJournal FseJournalMismatch) (act_then ?c ?rest)"
  have st: "runs ?P (stored_matches ex_site FseJournal FseJournalMismatch) (\<lambda>_. ?P) ?E"
    by (rule runs_weaken[OF stored_completes[of ex_site ex_mapped_record]])
       (unfold ex_mapped_record_def ex_record_id ex_site_parts, (rule ex_env_ok ex_sha_hex ex_loads[unfolded ex_mapped_record_def] | assumption | simp)+)
  have c: "runs ?P ?c (\<lambda>_. ?P) ?E" by (rule runs_weaken[OF ex_chain_runs]) auto
  have d: "runs ?P (or_recover (act_map_err (\<lambda>e. FsePreFormatPartitionVerification (si_partition_text ex_site e))
         (discover_exact_partition ex_site ex_create_activation ex_launch)) (persist_filesystem_recovery ex_site)) (\<lambda>_. ?P) ?E"
    by (rule runs_weaken[OF completes_or_recover[OF runs_map_err]], rule ex_discovered) auto
  have c': "runs ?P (or_recover ?c (persist_filesystem_recovery ex_site)) (\<lambda>_. ?P) ?E"
    by (rule runs_weaken[OF completes_or_recover[OF ex_chain_runs]]) auto
  have "runs ?P ?m (\<lambda>_ _. False) ?E"
    by (rule runs_then[OF st], rule runs_then[OF c], rule runs_then[OF d], rule runs_then[OF c'], rule ex_format_fails)
  from runs_use[OF this, of ?s] ex_run_start(1)[of ex_mapped_record]
  obtain t s' where m: "?m ?s = (Inl (FseRediscovery t), s')" "xs_spawned s' \<noteq> []"
    by (cases "?m ?s"; cases "fst (?m ?s)") (auto simp: ex_mapped_record_def)
  have "execute_production_create_filesystem_crossing ex_site ex_create_activation ex_permit ex_preflight ex_launch
      ex_partition_receipt ex_lease ex_pinned_tools ?s = ?m ?s"
    by (simp add: execute_production_create_filesystem_crossing_def ex_run_start(4) ex_filesystem_valid ex_env_def)
       (simp add: act_then_def act_bind_value)
  with m that show thesis by simp
qed

theorem filesystem_crossing_write_ahead_witness:
  "\<exists>r s' e. execute_production_create_filesystem_crossing ex_site ex_create_activation ex_permit ex_preflight ex_launch
      ex_partition_receipt ex_lease ex_pinned_tools (ex_run ex_mapped_record (ex_line ''3'')) = (r, s')
    \<and> xs_spawned s' = [e] \<and> sp_argv (pgs_spawn e) = [''mkfs.ext4'', ''-F'', ''/dev/sdb1'']
    \<and> set (survivors (w_host (pgs_world e)) (record_at ex_root ex_sha)) = {Intact (ex_line ''x'')}"
proof -
  obtain t s' where r: "execute_production_create_filesystem_crossing ex_site ex_create_activation ex_permit ex_preflight ex_launch
      ex_partition_receipt ex_lease ex_pinned_tools (ex_run ex_mapped_record (ex_line ''3'')) = (Inl (FseRediscovery t), s')"
    "xs_spawned s' \<noteq> []" by (rule ex_filesystem_run)
  have e: "stored_bytes (site_kind ex_site) c = Some bytes \<Longrightarrow> cj_phase c = CpFormattingFilesystem \<Longrightarrow> bytes = ex_line ''x''" for c bytes
    by (simp add: stored_bytes_def site_kind_def create_kind_def ex_site_def)
  have f: "site_record ex_site (rs_journal (ex_run ex_mapped_record (ex_line ''3''))) = record_at ex_root ex_sha"
    by (simp add: site_record_def ex_run_start(4) ex_mapped_record_def)
  have l: "cls_partition_device ex_launch = ''/dev/sdb1''" by (simp add: ex_launch_def)
  note w = filesystem_crossing_write_ahead[OF r(1) ex_run_start(2,3), unfolded f ex_activation(3) l]
  from w r(2) obtain p where p: "xs_spawned s' = [p]" "sp_argv (pgs_spawn p) = [''mkfs.ext4'', ''-F'', ''/dev/sdb1'']"
    "\<exists>c bytes. cj_phase c = CpFormattingFilesystem \<and> stored_bytes (site_kind ex_site) c = Some bytes
       \<and> set (survivors (w_host (pgs_world p)) (record_at ex_root ex_sha)) = {Intact bytes}" by auto
  with e have "set (survivors (w_host (pgs_world p)) (record_at ex_root ex_sha)) = {Intact (ex_line ''x'')}" by blast
  with p r(1) show ?thesis by blast
qed

theorem filesystem_crossing_outcome_witness:
  "\<exists>t s'. execute_production_create_filesystem_crossing ex_site ex_create_activation ex_permit ex_preflight ex_launch
      ex_partition_receipt ex_lease ex_pinned_tools (ex_run ex_mapped_record (ex_line ''3'')) = (Inl (FseRediscovery t), s')
    \<and> xs_spawned s' \<noteq> [] \<and> cj_phase (rs_journal s') = CpRecoveryRequired \<and> durable_now ex_site s'"
proof -
  obtain t s' where r: "execute_production_create_filesystem_crossing ex_site ex_create_activation ex_permit ex_preflight ex_launch
      ex_partition_receipt ex_lease ex_pinned_tools (ex_run ex_mapped_record (ex_line ''3'')) = (Inl (FseRediscovery t), s')"
    "xs_spawned s' \<noteq> []" by (rule ex_filesystem_run)
  from filesystem_crossing_outcome[OF r(1) ex_run_start(2,3)] r show ?thesis by (auto simp: format_failure_def)
qed

end
