(* ===== verification/JournalStore.thy ===== *)
theory JournalStore
  imports JournalValidation RuntimeStore "HOL-Library.Char_ord" "HOL-Library.List_Lexorder"
begin

text \<open>
  The durable journal store of the extend executor, \<open>crates/executor/src/journal_store.rs\<close> over
  \<open>journal_fd.rs\<close>: one directory that holds the current record of every operation and, under hidden names,
  each of its former states. A directory is reached through a descriptor for every component of its path
  (\<open>journal_dir\<close>: the inodes found when it was opened); \<open>verify_namespace\<close> compares them with the
  names as they are later.

  The calls are those of \<open>HostFiles\<close>, with the further ones below. Each may fail. The process that writes a
  staged file on behalf of the store is a sequence of calls of its own here. An inotify watch is what the
  directory looked like when it was set (\<open>dir_view\<close>), and reports a later difference. JSON and the digests are
  parameters. Left out are \<open>inspect\<close>, which reports without acting, the test hooks, and the times of a file, of which
  \<open>HostFiles\<close> keeps none: two versions of a file are the same only if their bytes are.
\<close>

section \<open>Calls\<close>

type_synonym 'a js_action = "(journal_store_error, 'a) action"

record journal_codec =
  jc_to_vec :: "operation_journal \<Rightarrow> string option"
  jc_from_slice :: "string \<Rightarrow> operation_journal option"
  jc_digest :: guard_digest_fun

definition MAX_JOURNAL_BYTES :: nat where
  "MAX_JOURNAL_BYTES = 1048576"

definition child :: "path \<Rightarrow> string \<Rightarrow> path" where
  "child d name = d @ [Normal name]"

text \<open>A call that has no effect on files.\<close>

definition plain_call :: "io_env \<Rightarrow> (io_kind, unit) action" where
  "plain_call env = syscall env (\<lambda>fault h. case fault of Some (k, _) \<Rightarrow> (Inl k, h) | None \<Rightarrow> (Inr (), h))"

definition fstat :: "io_env \<Rightarrow> nat \<Rightarrow> (io_kind, inode) action" where
  "fstat env i = syscall env (\<lambda>fault h.
     case fault of Some (k, _) \<Rightarrow> (Inl k, h) | None \<Rightarrow> (Inr (h_inodes h i), h))"

text \<open>\<open>openat\<close> with \<open>O_NOFOLLOW\<close>, and \<open>O_DIRECTORY\<close> or \<open>O_PATH\<close>.\<close>

definition open_directory :: "io_env \<Rightarrow> path \<Rightarrow> (io_kind, nat) action" where
  "open_directory env p = syscall env (\<lambda>fault h.
     case fault of Some (k, _) \<Rightarrow> (Inl k, h)
     | None \<Rightarrow> (case h_names h p of None \<Rightarrow> (Inl EkNotFound, h)
                | Some i \<Rightarrow> (if in_kind (h_inodes h i) \<noteq> FkDirectory then (Inl EkOther, h) else (Inr i, h))))"

definition open_path :: "io_env \<Rightarrow> path \<Rightarrow> (io_kind, nat) action" where
  "open_path env p = syscall env (\<lambda>fault h.
     case fault of Some (k, _) \<Rightarrow> (Inl k, h)
     | None \<Rightarrow> (case h_names h p of None \<Rightarrow> (Inl EkNotFound, h) | Some i \<Rightarrow> (Inr i, h)))"

text \<open>Opening \<open>/proc/self/fd/N\<close> gives another descriptor of the same inode.\<close>

definition reopen :: "io_env \<Rightarrow> nat \<Rightarrow> (io_kind, nat) action" where
  "reopen env i = syscall env (\<lambda>fault h.
     case fault of Some (k, _) \<Rightarrow> (Inl k, h) | None \<Rightarrow> (Inr i, h))"

definition dir_names :: "host \<Rightarrow> path \<Rightarrow> string list" where
  "dir_names h d = sorted_list_of_set {n. h_names h (child d n) \<noteq> None}"

definition dir_view :: "host \<Rightarrow> path \<Rightarrow> (string \<times> nat option \<times> inode option) list" where
  "dir_view h d = map (\<lambda>n. (n, h_names h (child d n),
      map_option (\<lambda>i. (h_inodes h i)\<lparr>in_synced := True\<rparr>) (h_names h (child d n)))) (dir_names h d)"

definition read_names :: "io_env \<Rightarrow> path \<Rightarrow> (io_kind, string list) action" where
  "read_names env d = syscall env (\<lambda>fault h.
     case fault of Some (k, _) \<Rightarrow> (Inl k, h) | None \<Rightarrow> (Inr (dir_names h d), h))"

definition read_view :: "io_env \<Rightarrow> path \<Rightarrow> (io_kind, (string \<times> nat option \<times> inode option) list) action" where
  "read_view env d = syscall env (\<lambda>fault h.
     case fault of Some (k, _) \<Rightarrow> (Inl k, h) | None \<Rightarrow> (Inr (dir_view h d), h))"

text \<open>\<open>renameat2\<close> with \<open>RENAME_NOREPLACE\<close> and with \<open>RENAME_EXCHANGE\<close>.\<close>

definition rename_noreplace :: "io_env \<Rightarrow> path \<Rightarrow> path \<Rightarrow> (io_kind, unit) action" where
  "rename_noreplace env a b = syscall env (\<lambda>fault h.
     case fault of Some (k, _) \<Rightarrow> (Inl k, h)
     | None \<Rightarrow> (case h_names h a of None \<Rightarrow> (Inl EkNotFound, h)
                | Some i \<Rightarrow> (if h_names h b \<noteq> None then (Inl EkAlreadyExists, h)
                             else (Inr (), set_entry a None (set_entry b (Some i) h)))))"

definition rename_exchange :: "io_env \<Rightarrow> path \<Rightarrow> path \<Rightarrow> (io_kind, unit) action" where
  "rename_exchange env a b = syscall env (\<lambda>fault h.
     case fault of Some (k, _) \<Rightarrow> (Inl k, h)
     | None \<Rightarrow> (case (h_names h a, h_names h b) of
          (Some i, Some j) \<Rightarrow> (Inr (), set_entry a (Some j) (set_entry b (Some i) h))
        | _ \<Rightarrow> (Inl EkNotFound, h)))"

text \<open>\<open>call.map_err(|source| io_error(path, source))?\<close> and \<open>if bad { return Err(e) }\<close>.\<close>

definition at_path :: "path \<Rightarrow> (io_kind, 'a) action \<Rightarrow> 'a js_action" where
  "at_path p m = act_map_err (JseIo p) m"

definition check_that :: "bool \<Rightarrow> journal_store_error \<Rightarrow> unit js_action" where
  "check_that ok e = act_lift (require ok e)"

definition or_changed :: "'a js_action \<Rightarrow> 'a js_action" where
  "or_changed m = act_map_err (\<lambda>_. JseChangedDuringInspection) m"

section \<open>Trusted files and directories\<close>

definition trusted_journal_file_with_links :: "io_env \<Rightarrow> inode \<Rightarrow> nat \<Rightarrow> bool" where
  "trusted_journal_file_with_links env m allowed_links =
     (in_kind m = FkRegular \<and> in_uid m = e_euid env \<and> and (in_mode m) 0xFFF = 0x180
      \<and> in_nlink m = allowed_links)"

definition trusted_journal_file :: "io_env \<Rightarrow> inode \<Rightarrow> bool" where
  "trusted_journal_file env m = trusted_journal_file_with_links env m 1"

definition same_file_version :: "nat \<times> inode \<Rightarrow> nat \<times> inode \<Rightarrow> bool" where
  "same_file_version a b =
     (fst a = fst b \<and> in_mode (snd a) = in_mode (snd b) \<and> in_uid (snd a) = in_uid (snd b)
      \<and> in_nlink (snd a) = in_nlink (snd b) \<and> in_data (snd a) = in_data (snd b))"

definition same_directory :: "nat \<times> inode \<Rightarrow> nat \<times> inode \<Rightarrow> bool" where
  "same_directory a b =
     (fst a = fst b \<and> in_uid (snd a) = in_uid (snd b) \<and> in_mode (snd a) = in_mode (snd b))"

definition js_sync_directory :: "io_env \<Rightarrow> path \<Rightarrow> unit js_action" where
  "js_sync_directory env p = act_then (at_path p (open_dir env p)) (at_path p (fsync_dir env p))"

definition js_sync_parent :: "io_env \<Rightarrow> path \<Rightarrow> unit js_action" where
  "js_sync_parent env p = (case parent_of p of None \<Rightarrow> act_lift (Inl (JseUnsafeDirectory p))
     | Some d \<Rightarrow> js_sync_directory env d)"

definition js_ensure_component :: "io_env \<Rightarrow> path \<Rightarrow> bool \<Rightarrow> path \<Rightarrow> unit js_action" where
  "js_ensure_component env whole create current =
     act_match (symlink_metadata env current)
       (\<lambda>m. act_then (check_that (trusted_journal_directory env m (current = whole)) (JseUnsafeDirectory current))
              (if create then js_sync_parent env current else act_lift (Inr ())))
       (\<lambda>k. if k = EkNotFound \<and> create
            then act_then
                   (act_match (make_dir env current) (\<lambda>_. act_lift (Inr ()))
                     (\<lambda>k. check_that (k = EkAlreadyExists) (JseIo current k)))
                 (act_bind (at_path current (symlink_metadata env current)) (\<lambda>m.
                  act_then (check_that (trusted_journal_directory env m (current = whole)) (JseUnsafeDirectory current))
                    (js_sync_parent env current)))
            else act_lift (Inl (JseIo current k)))"

fun js_ensure_components ::
  "io_env \<Rightarrow> path \<Rightarrow> bool \<Rightarrow> path \<Rightarrow> path_component list \<Rightarrow> unit js_action" where
  "js_ensure_components env whole create current [] = act_lift (Inr ())"
| "js_ensure_components env whole create current (c # cs) =
     (case c of
        RootDir \<Rightarrow> js_ensure_components env whole create [RootDir] cs
      | Normal n \<Rightarrow>
          act_then (js_ensure_component env whole create (child current n))
            (js_ensure_components env whole create (child current n) cs)
      | _ \<Rightarrow> act_lift (Inl (JseUnsafeDirectory whole)))"

definition js_ensure_secure_directory :: "io_env \<Rightarrow> path \<Rightarrow> bool \<Rightarrow> unit js_action" where
  "js_ensure_secure_directory env p create =
     (if take 1 p \<noteq> [RootDir] then act_lift (Inl (JseUnsafeDirectory p))
      else js_ensure_components env p create [] p)"

section \<open>The directory by descriptors\<close>

record journal_dir =
  jd_path :: path
  jd_nodes :: "(path \<times> nat) list"

fun journal_dir_walk ::
  "io_env \<Rightarrow> path \<Rightarrow> path \<Rightarrow> path_component list \<Rightarrow> (path \<times> nat) list \<Rightarrow> journal_dir js_action" where
  "journal_dir_walk env whole current [] nodes = act_lift (Inr \<lparr>jd_path = whole, jd_nodes = nodes\<rparr>)"
| "journal_dir_walk env whole current (c # cs) nodes =
     (case c of
        RootDir \<Rightarrow> journal_dir_walk env whole current cs nodes
      | Normal n \<Rightarrow>
          (let p = child current n
           in act_bind (at_path p (open_directory env p)) (\<lambda>i.
              act_bind (at_path p (fstat env i)) (\<lambda>m.
              act_then (check_that (trusted_journal_directory env m (p = whole)) (JseUnsafeDirectory p))
                (journal_dir_walk env whole p cs (nodes @ [(p, i)])))))
      | _ \<Rightarrow> act_lift (Inl (JseUnsafeDirectory whole)))"

definition journal_dir_open :: "io_env \<Rightarrow> path \<Rightarrow> journal_dir js_action" where
  "journal_dir_open env p =
     (if take 1 p \<noteq> [RootDir] then act_lift (Inl (JseUnsafeDirectory p))
      else act_bind (at_path [RootDir] (open_directory env [RootDir])) (\<lambda>root.
           act_bind (at_path [RootDir] (fstat env root)) (\<lambda>m.
           act_then (check_that (trusted_journal_directory env m False) (JseUnsafeDirectory [RootDir]))
             (journal_dir_walk env p [RootDir] p [([RootDir], root)]))))"

definition verify_root :: "io_env \<Rightarrow> nat \<Rightarrow> unit js_action" where
  "verify_root env i =
     act_bind (at_path [RootDir] (open_directory env [RootDir])) (\<lambda>live.
     act_bind (at_path [RootDir] (fstat env i)) (\<lambda>pinned.
     act_bind (at_path [RootDir] (fstat env live)) (\<lambda>m.
       check_that (same_directory (i, pinned) (live, m)) JseChangedDuringInspection)))"

definition verify_node :: "io_env \<Rightarrow> path \<Rightarrow> path \<times> nat \<Rightarrow> unit js_action" where
  "verify_node env whole node =
     (case node of (p, i) \<Rightarrow>
        act_bind (at_path p (fstat env i)) (\<lambda>pinned.
        act_bind (at_path p (open_directory env p)) (\<lambda>live.
        act_bind (at_path p (fstat env live)) (\<lambda>m.
          check_that (trusted_journal_directory env pinned (p = whole)
              \<and> trusted_journal_directory env m (p = whole) \<and> same_directory (i, pinned) (live, m))
            JseChangedDuringInspection))))"

fun verify_nodes :: "io_env \<Rightarrow> path \<Rightarrow> (path \<times> nat) list \<Rightarrow> unit js_action" where
  "verify_nodes env whole [] = act_lift (Inr ())"
| "verify_nodes env whole (node # nodes) = act_then (verify_node env whole node) (verify_nodes env whole nodes)"

definition verify_namespace :: "io_env \<Rightarrow> journal_dir \<Rightarrow> unit js_action" where
  "verify_namespace env dir =
     (case jd_nodes dir of
        [] \<Rightarrow> act_lift (Inr ())
      | root # nodes \<Rightarrow> act_then (verify_root env (snd root)) (verify_nodes env (jd_path dir) nodes))"

definition dir_sync :: "io_env \<Rightarrow> journal_dir \<Rightarrow> unit js_action" where
  "dir_sync env dir = at_path (jd_path dir) (fsync_dir env (jd_path dir))"

definition watch :: "io_env \<Rightarrow> journal_dir \<Rightarrow> (string \<times> nat option \<times> inode option) list js_action" where
  "watch env dir = at_path (jd_path dir) (read_view env (jd_path dir))"

definition require_unchanged ::
  "io_env \<Rightarrow> journal_dir \<Rightarrow> (string \<times> nat option \<times> inode option) list \<Rightarrow> unit js_action" where
  "require_unchanged env dir seen =
     act_bind (at_path (jd_path dir) (read_view env (jd_path dir))) (\<lambda>now.
       check_that (now = seen) JseChangedDuringInspection)"

definition open_file :: "io_env \<Rightarrow> journal_dir \<Rightarrow> string \<Rightarrow> nat js_action" where
  "open_file env dir name =
     (let p = child (jd_path dir) name
      in act_bind (at_path p (open_path env p)) (\<lambda>pinned.
         act_bind (at_path p (fstat env pinned)) (\<lambda>initial.
         act_then (check_that (in_kind initial = FkRegular) (JseNotRegularFile p))
        (act_bind (at_path p (reopen env pinned)) (\<lambda>file.
         act_bind (at_path p (fstat env file)) (\<lambda>reopened.
         act_then (check_that (in_kind reopened = FkRegular \<and> pinned = file) JseChangedDuringInspection)
           (act_lift (Inr file))))))))"

text \<open>
  \<open>write_staged_file\<close>: the writer process is started before the file exists, the file is created and pinned here, and
  the writer opens it by name, checks that it is the pinned one, and writes and syncs it.
\<close>

definition isolated_writer :: "io_env \<Rightarrow> path \<Rightarrow> nat \<Rightarrow> string \<Rightarrow> unit js_action" where
  "isolated_writer env p file bytes =
     act_bind (at_path p (open_path env p)) (\<lambda>path_fd.
     act_bind (at_path p (fstat env path_fd)) (\<lambda>m.
     act_then (check_that (path_fd = file \<and> in_kind m = FkRegular) (JseIo p EkOther))
    (act_bind (at_path p (reopen env path_fd)) (\<lambda>fd.
     act_then (at_path p (write_all env fd bytes))
    (act_then (at_path p (sync_file env fd))
       (at_path p (plain_call env)))))))"

definition write_staged_file :: "io_env \<Rightarrow> journal_dir \<Rightarrow> string \<Rightarrow> string \<Rightarrow> nat js_action" where
  "write_staged_file env dir name bytes =
     (let p = child (jd_path dir) name
      in act_then (at_path p (plain_call env))
        (act_bind (at_path p (open_new env p)) (\<lambda>file.
         act_then (at_path p (fstat env file))
        (act_then (at_path p (plain_call env))
        (act_then (isolated_writer env p file bytes)
        (act_then (at_path p (plain_call env))
        (act_then (at_path p (fstat env file))
        (act_bind (or_changed (open_file env dir name)) (\<lambda>live.
         act_then (at_path p (fstat env live))
        (act_then (check_that (live = file) JseChangedDuringInspection)
           (act_lift (Inr file))))))))))))"

definition dir_exchange :: "io_env \<Rightarrow> journal_dir \<Rightarrow> string \<Rightarrow> string \<Rightarrow> unit js_action" where
  "dir_exchange env dir a b =
     at_path (jd_path dir) (rename_exchange env (child (jd_path dir) a) (child (jd_path dir) b))"

definition dir_publish_new :: "io_env \<Rightarrow> journal_dir \<Rightarrow> string \<Rightarrow> string \<Rightarrow> unit js_action" where
  "dir_publish_new env dir a b =
     at_path (jd_path dir) (rename_noreplace env (child (jd_path dir) a) (child (jd_path dir) b))"

section \<open>Names\<close>

text \<open>\<open>str::from_utf8\<close>, \<open>split_once\<close> and \<open>parse::<u64>\<close> of a string of ASCII digits.\<close>

definition continuation :: "char \<Rightarrow> bool" where
  "continuation c = (128 \<le> byte c \<and> byte c \<le> 191)"

fun utf8_valid :: "string \<Rightarrow> bool" where
  "utf8_valid [] = True"
| "utf8_valid (a # s) =
     (if byte a < 128 then utf8_valid s
      else if 194 \<le> byte a \<and> byte a \<le> 223 then
        (case s of b # r \<Rightarrow> continuation b \<and> utf8_valid r | _ \<Rightarrow> False)
      else if 224 \<le> byte a \<and> byte a \<le> 239 then
        (case s of b # c # r \<Rightarrow> continuation b \<and> continuation c
            \<and> (byte a = 224 \<longrightarrow> 160 \<le> byte b) \<and> (byte a = 237 \<longrightarrow> byte b \<le> 159) \<and> utf8_valid r
         | _ \<Rightarrow> False)
      else if 240 \<le> byte a \<and> byte a \<le> 244 then
        (case s of b # c # d # r \<Rightarrow> continuation b \<and> continuation c \<and> continuation d
            \<and> (byte a = 240 \<longrightarrow> 144 \<le> byte b) \<and> (byte a = 244 \<longrightarrow> byte b \<le> 143) \<and> utf8_valid r
         | _ \<Rightarrow> False)
      else False)"

definition strip_prefix :: "string \<Rightarrow> string \<Rightarrow> string option" where
  "strip_prefix p s = (if starts_with p s then Some (drop (length p) s) else None)"

definition strip_suffix :: "string \<Rightarrow> string \<Rightarrow> string option" where
  "strip_suffix p s = map_option rev (strip_prefix (rev p) (rev s))"

fun split_once :: "string \<Rightarrow> string \<Rightarrow> (string \<times> string) option" where
  "split_once p [] = (if p = [] then Some ([], []) else None)"
| "split_once p (c # s) =
     (if starts_with p (c # s) then Some ([], drop (length p) (c # s))
      else map_option (\<lambda>(a, b). (c # a, b)) (split_once p s))"

definition digits_value :: "string \<Rightarrow> nat" where
  "digits_value s = foldl (\<lambda>n c. 10 * n + (byte c - 48)) 0 s"

definition parse_u64 :: "string \<Rightarrow> u64 option" where
  "parse_u64 s = (if digits_value s < 2 ^ 64 then Some (of_nat (digits_value s)) else None)"

definition history_identity :: "string \<Rightarrow> (string \<times> u64 \<times> string) option" where
  "history_identity name = do {
     hidden \<leftarrow> strip_prefix ''.'' name;
     (i, rest) \<leftarrow> split_once ''.history-'' hidden;
     (if is_ok (validate_journal_id i) then Some () else None);
     (sequence, digest) \<leftarrow> split_once ''-'' rest;
     (if sequence = [] \<or> \<not> list_all is_ascii_digit sequence
         \<or> (1 < length sequence \<and> starts_with ''0'' sequence) then None else Some ());
     n \<leftarrow> parse_u64 sequence;
     (if is_ok (validate_hex_digest digest ''history digest'') then Some () else None);
     Some (i, n, digest) }"

definition journal_content_digest :: "journal_codec \<Rightarrow> operation_journal \<Rightarrow> (journal_store_error, string) result" where
  "journal_content_digest jc j = map_err JseDecode (jc_digest jc (GiJournal j))"

text \<open>\<open>final.events.starts_with(&history.events)\<close>\<close>

definition events_start_with :: "journal_event list \<Rightarrow> journal_event list \<Rightarrow> bool" where
  "events_start_with prior es = (take (length prior) es = prior)"

definition history_matches_final :: "operation_journal \<Rightarrow> operation_journal \<Rightarrow> bool" where
  "history_matches_final history final_journal =
     (oj_journal_id history = oj_journal_id final_journal
      \<and> oj_plan_id history = oj_plan_id final_journal
      \<and> oj_target history = oj_target final_journal
      \<and> oj_baseline_manifest_digest history = oj_baseline_manifest_digest final_journal
      \<and> (oj_approval history = None \<or> oj_approval history = oj_approval final_journal)
      \<and> (oj_execution history = None \<or> oj_execution history = oj_execution final_journal)
      \<and> events_start_with (oj_events history) (oj_events final_journal)
      \<and> length (oj_events history) < length (oj_events final_journal))"

section \<open>Reading a record\<close>

definition decode_journal :: "journal_codec \<Rightarrow> string \<Rightarrow> string \<Rightarrow> (journal_store_error, operation_journal) result" where
  "decode_journal jc bytes journal_id =
     (case jc_from_slice jc bytes of
        None \<Rightarrow> Inl (JseDecode ''journal record'')
      | Some j \<Rightarrow>
          (if oj_journal_id j \<noteq> journal_id
           then Inl (JseInvalidRecord ''journal ID does not match the requested durable record'')
           else and_then (validate_journal (jc_digest jc) j) (\<lambda>_. Inr j)))"

type_synonym pinned_journal = "operation_journal \<times> nat \<times> inode"

definition load_pinned_journal ::
  "journal_codec \<Rightarrow> io_env \<Rightarrow> journal_dir \<Rightarrow> string \<Rightarrow> string \<Rightarrow> nat \<Rightarrow> pinned_journal js_action" where
  "load_pinned_journal jc env dir name journal_id allowed_links =
     (let p = child (jd_path dir) name
      in act_then (act_lift (validate_journal_id journal_id))
        (act_bind (act_map_err (\<lambda>e. if e = JseIo p EkNotFound then JseNotFound journal_id else e) (open_file env dir name)) (\<lambda>file.
         act_bind (at_path p (fstat env file)) (\<lambda>m.
         act_then (check_that (trusted_journal_file_with_links env m allowed_links) (JseNotRegularFile p))
        (act_then (check_that (length (in_data m) \<le> MAX_JOURNAL_BYTES) JseTooLarge)
        (act_bind (at_path p (read_limited env file (MAX_JOURNAL_BYTES + 1))) (\<lambda>bytes.
         act_then (check_that (length bytes \<le> MAX_JOURNAL_BYTES) JseTooLarge)
        (act_bind (at_path p (fstat env file)) (\<lambda>after.
         act_bind (or_changed (open_file env dir name)) (\<lambda>live.
         act_bind (at_path p (fstat env live)) (\<lambda>live_m.
         act_then (check_that (same_file_version (file, m) (file, after)
              \<and> same_file_version (file, after) (live, live_m)) JseChangedDuringInspection)
        (act_bind (act_lift (decode_journal jc bytes journal_id)) (\<lambda>j.
           act_lift (Inr (j, file, after)))))))))))))))"

definition js_path_for :: "path \<Rightarrow> string \<Rightarrow> (journal_store_error, string) result" where
  "js_path_for root journal_id = and_then (validate_journal_id journal_id) (\<lambda>_. Inr (journal_id @ ''.json''))"

definition js_temp_name :: "io_env \<Rightarrow> string \<Rightarrow> string js_action" where
  "js_temp_name env journal_id = act_bind next_sequence (\<lambda>sequence.
     act_lift (Inr (''.'' @ journal_id @ ''.tmp-'' @ show_word (e_pid env) @ ''-'' @ show_word sequence)))"

definition js_load :: "journal_codec \<Rightarrow> io_env \<Rightarrow> path \<Rightarrow> string \<Rightarrow> operation_journal js_action" where
  "js_load jc env root journal_id =
     act_then (act_lift (validate_journal_id journal_id))
    (act_then (js_ensure_secure_directory env root False)
    (act_bind (act_lift (js_path_for root journal_id)) (\<lambda>name.
     act_bind (journal_dir_open env root) (\<lambda>dir.
     act_bind (load_pinned_journal jc env dir name journal_id 1) (\<lambda>(j, _).
     act_then (verify_namespace env dir) (act_lift (Inr j)))))))"

section \<open>The inventory\<close>

text \<open>The first loop of \<open>all\<close>: current records and former states, with the version of every file.\<close>

record inventory =
  iv_journals :: "operation_journal list"
  iv_history :: "operation_journal list"
  iv_pinned :: "(string \<times> nat \<times> inode) list"

definition entry_key :: "string \<Rightarrow> (journal_store_error, string \<times> (u64 \<times> string) option) result" where
  "entry_key name =
     (if \<not> utf8_valid name then Inl (JseInvalidRecord ''non-UTF-8 journal directory entry'')
      else case history_identity name of
        Some (i, sequence, digest) \<Rightarrow> Inr (i, Some (sequence, digest))
      | None \<Rightarrow>
          (case strip_suffix ''.json'' name of
             Some i \<Rightarrow> Inr (i, None)
           | None \<Rightarrow> Inl (JseInvalidRecord (''unexpected journal directory entry: '' @ name))))"

definition history_name_matches ::
  "journal_codec \<Rightarrow> u64 \<Rightarrow> string \<Rightarrow> operation_journal \<Rightarrow> (journal_store_error, unit) result" where
  "history_name_matches jc sequence digest j =
     (let mismatch = JseInvalidRecord ''journal history does not match its name''
      in if of_nat (length (oj_events j)) \<noteq> sequence then Inl mismatch
         else and_then (journal_content_digest jc j) (\<lambda>d. require (d = digest) mismatch))"

fun read_inventory :: "journal_codec \<Rightarrow> io_env \<Rightarrow> journal_dir \<Rightarrow> string list \<Rightarrow> inventory \<Rightarrow> inventory js_action" where
  "read_inventory jc env dir [] iv = act_lift (Inr iv)"
| "read_inventory jc env dir (name # names) iv =
     act_bind (act_lift (entry_key name)) (\<lambda>(i, key).
     act_bind (load_pinned_journal jc env dir name i 1) (\<lambda>(j, file, m).
     act_bind (act_lift (case key of
          Some (sequence, digest) \<Rightarrow>
            and_then (history_name_matches jc sequence digest j) (\<lambda>_. Inr (iv\<lparr>iv_history := iv_history iv @ [j]\<rparr>))
        | None \<Rightarrow> Inr (iv\<lparr>iv_journals := iv_journals iv @ [j]\<rparr>))) (\<lambda>iv'.
       read_inventory jc env dir names (iv'\<lparr>iv_pinned := iv_pinned iv' @ [(name, file, m)]\<rparr>))))"

definition recheck_pinned :: "io_env \<Rightarrow> journal_dir \<Rightarrow> string \<times> nat \<times> inode \<Rightarrow> unit js_action" where
  "recheck_pinned env dir entry =
     (case entry of (name, file, m) \<Rightarrow>
        let p = child (jd_path dir) name
        in act_bind (at_path p (fstat env file)) (\<lambda>held.
           act_bind (or_changed (open_file env dir name)) (\<lambda>live.
           act_bind (at_path p (fstat env live)) (\<lambda>live_m.
             check_that (same_file_version (file, m) (file, held) \<and> same_file_version (file, held) (live, live_m))
               JseChangedDuringInspection))))"

fun each_then :: "('a \<Rightarrow> unit js_action) \<Rightarrow> 'a list \<Rightarrow> unit js_action" where
  "each_then f [] = act_lift (Inr ())"
| "each_then f (x # xs) = act_then (f x) (each_then f xs)"

definition check_history_entry ::
  "operation_journal list \<Rightarrow> operation_journal \<Rightarrow> (journal_store_error, unit) result" where
  "check_history_entry journals previous =
     (case find (\<lambda>j. oj_journal_id j = oj_journal_id previous) journals of
        None \<Rightarrow> Inl (JseInvalidRecord ''journal history has no current record'')
      | Some current \<Rightarrow>
          require (history_matches_final previous current)
            (JseInvalidRecord ''journal history does not match the current record''))"

definition check_histories ::
  "operation_journal list \<Rightarrow> operation_journal list \<Rightarrow> (journal_store_error, unit) result" where
  "check_histories journals history = first_error (map (check_history_entry journals) history)"

definition read_directory_names :: "io_env \<Rightarrow> journal_dir \<Rightarrow> string list js_action" where
  "read_directory_names env dir = at_path (jd_path dir) (read_names env (jd_path dir))"

definition all_journals :: "journal_codec \<Rightarrow> io_env \<Rightarrow> path \<Rightarrow> operation_journal list js_action" where
  "all_journals jc env root =
     act_bind (journal_dir_open env root) (\<lambda>dir.
     act_bind (watch env dir) (\<lambda>seen.
     act_bind (read_directory_names env dir) (\<lambda>initial_names.
     act_bind (read_inventory jc env dir initial_names \<lparr>iv_journals = [], iv_history = [], iv_pinned = []\<rparr>) (\<lambda>iv.
     act_bind (read_directory_names env dir) (\<lambda>names.
     act_then (check_that (initial_names = names) JseChangedDuringInspection)
    (act_then (each_then (recheck_pinned env dir) (iv_pinned iv))
    (act_then (verify_namespace env dir)
    (act_then (require_unchanged env dir seen)
    (act_then (act_lift (check_histories (iv_journals iv) (iv_history iv)))
      (act_lift (Inr (sort_key oj_journal_id (iv_journals iv)))))))))))))"

definition is_unfinished :: "operation_journal \<Rightarrow> bool" where
  "is_unfinished j = (oj_phase j \<notin> {JpCompleted, JpAborted})"

definition unfinished :: "journal_codec \<Rightarrow> io_env \<Rightarrow> path \<Rightarrow> operation_journal list js_action" where
  "unfinished jc env root =
     act_bind (all_journals jc env root) (\<lambda>js. act_lift (Inr (filter is_unfinished js)))"

text \<open>\<open>unclassified_runtime_evidence\<close>: the entries of the directories of the other runtime journals.\<close>

definition RUNTIME_DIRECTORIES :: "string list" where
  "RUNTIME_DIRECTORIES = [''create-runtime'', ''create-mount-runtime'', ''create-persistent-config'', ''swap-runtime'']"

record watched_dir =
  wd_name :: string
  wd_dir :: journal_dir
  wd_seen :: "(string \<times> nat option \<times> inode option) list"
  wd_names :: "string list"

fun open_runtime_directories ::
  "io_env \<Rightarrow> path \<Rightarrow> string list \<Rightarrow> string list \<Rightarrow> watched_dir list js_action" where
  "open_runtime_directories env parent parent_names [] = act_lift (Inr [])"
| "open_runtime_directories env parent parent_names (name # names) =
     (if name \<notin> set parent_names then open_runtime_directories env parent parent_names names
      else act_bind (journal_dir_open env (child parent name)) (\<lambda>opened.
           act_bind (watch env opened) (\<lambda>seen.
           act_bind (read_directory_names env opened) (\<lambda>entries.
           act_bind (open_runtime_directories env parent parent_names names) (\<lambda>rest.
             act_lift (Inr (\<lparr>wd_name = name, wd_dir = opened, wd_seen = seen, wd_names = entries\<rparr> # rest)))))))"

definition recheck_runtime_directory :: "io_env \<Rightarrow> watched_dir \<Rightarrow> unit js_action" where
  "recheck_runtime_directory env w =
     act_bind (read_directory_names env (wd_dir w)) (\<lambda>now.
     act_then (check_that (wd_names w = now) JseChangedDuringInspection) (verify_namespace env (wd_dir w)))"

text \<open>\<open>evidence.sort()\<close>: all the paths lie two names below \<open>parent\<close>, and \<open>sort_key\<close> is stable.\<close>

definition evidence_paths :: "path \<Rightarrow> watched_dir list \<Rightarrow> path list" where
  "evidence_paths parent watched =
     map (\<lambda>(d, n). child (child parent d) n)
       (sort_key fst (concat (map (\<lambda>w. map (Pair (wd_name w)) (wd_names w)) watched)))"

definition runtime_evidence_in :: "io_env \<Rightarrow> path \<Rightarrow> journal_dir \<Rightarrow> path list js_action" where
  "runtime_evidence_in env parent parent_dir =
     act_bind (watch env parent_dir) (\<lambda>parent_seen.
     act_bind (read_directory_names env parent_dir) (\<lambda>parent_names.
     act_bind (open_runtime_directories env parent parent_names RUNTIME_DIRECTORIES) (\<lambda>watched.
     act_then (each_then (recheck_runtime_directory env) watched)
    (act_bind (read_directory_names env parent_dir) (\<lambda>now.
     act_then (check_that (parent_names = now) JseChangedDuringInspection)
    (act_then (verify_namespace env parent_dir)
    (act_then (each_then (\<lambda>w. require_unchanged env (wd_dir w) (wd_seen w)) watched)
    (act_then (require_unchanged env parent_dir parent_seen)
      (act_lift (Inr (evidence_paths parent watched)))))))))))"

definition unclassified_runtime_evidence :: "io_env \<Rightarrow> path \<Rightarrow> path list js_action" where
  "unclassified_runtime_evidence env root =
     (case parent_of root of
        None \<Rightarrow> act_lift (Inl (JseUnsafeDirectory root))
      | Some parent \<Rightarrow>
          act_match (journal_dir_open env parent) (runtime_evidence_in env parent)
            (\<lambda>e. case e of JseIo _ EkNotFound \<Rightarrow> act_lift (Inr []) | _ \<Rightarrow> act_lift (Inl e)))"

section \<open>Writing a record\<close>

definition encode_record :: "journal_codec \<Rightarrow> operation_journal \<Rightarrow> (journal_store_error, string) result" where
  "encode_record jc j =
     (case jc_to_vec jc j of
        None \<Rightarrow> Inl (JseDecode ''journal record'')
      | Some bytes \<Rightarrow>
          (if MAX_JOURNAL_BYTES < length bytes then Inl JseTooLarge else Inr (bytes @ [char_of (10::nat)])))"

text \<open>The limit is compared before the newline is appended, so a record of exactly the limit is written, and
  \<open>load_pinned_journal\<close> refuses it.\<close>

lemma encode_record_beyond_limit:
  assumes "jc_to_vec jc j = Some bytes" and "length bytes = MAX_JOURNAL_BYTES"
  shows "\<exists>stored. encode_record jc j = Inr stored \<and> MAX_JOURNAL_BYTES < length stored"
  using assms by (simp add: encode_record_def)

definition stage_record :: "io_env \<Rightarrow> journal_dir \<Rightarrow> string \<Rightarrow> string \<Rightarrow> (nat \<times> inode) js_action" where
  "stage_record env dir temp bytes =
     (let p = child (jd_path dir) temp
      in act_bind (write_staged_file env dir temp bytes) (\<lambda>file.
         act_bind (at_path p (fstat env file)) (\<lambda>m.
         act_then (check_that (trusted_journal_file env m) (JseNotRegularFile p))
           (act_lift (Inr (file, m))))))"

definition js_persist_new :: "journal_codec \<Rightarrow> io_env \<Rightarrow> path \<Rightarrow> operation_journal \<Rightarrow> unit js_action" where
  "js_persist_new jc env root j =
     act_then (act_lift (validate_journal (jc_digest jc) j))
    (act_then (js_ensure_secure_directory env root True)
    (act_bind (journal_dir_open env root) (\<lambda>dir.
     act_bind (act_lift (encode_record jc j)) (\<lambda>bytes.
     act_bind (act_lift (js_path_for root (oj_journal_id j))) (\<lambda>final.
     act_bind (js_temp_name env (oj_journal_id j)) (\<lambda>temp.
     act_bind (stage_record env dir temp bytes) (\<lambda>(created, _).
     act_then (dir_sync env dir)
    (act_then (verify_namespace env dir)
    (act_then (act_map_err (\<lambda>e. if e = JseIo (jd_path dir) EkAlreadyExists then JseAlreadyExists (oj_journal_id j) else e)
        (dir_publish_new env dir temp final))
    (act_bind (load_pinned_journal jc env dir final (oj_journal_id j) 1) (\<lambda>(published, opened, _).
     act_then (at_path (child root final) (fstat env opened))
    (act_then (check_that (published = j \<and> created = opened) JseChangedDuringInspection)
    (act_then (dir_sync env dir)
       (verify_namespace env dir))))))))))))))"

text \<open>What \<open>persist_if_matches\<close> checks of the two states before it touches the directory.\<close>

definition extends_record :: "operation_journal \<Rightarrow> operation_journal \<Rightarrow> bool" where
  "extends_record expected j =
     (\<not> (oj_journal_id expected \<noteq> oj_journal_id j
         \<or> oj_plan_id expected \<noteq> oj_plan_id j
         \<or> oj_target expected \<noteq> oj_target j
         \<or> oj_baseline_manifest_digest expected \<noteq> oj_baseline_manifest_digest j
         \<or> \<not> events_start_with (oj_events expected) (oj_events j)
         \<or> length (oj_events j) \<le> length (oj_events expected)))"

text \<open>The last look at the previous record before the exchange: the file that was read is still the one at its name.\<close>

definition recheck_predecessor :: "io_env \<Rightarrow> journal_dir \<Rightarrow> string \<Rightarrow> nat \<times> inode \<Rightarrow> unit js_action" where
  "recheck_predecessor env dir final old =
     (let p = child (jd_path dir) final
      in act_bind (watch env dir) (\<lambda>seen.
         act_then (require_unchanged env dir seen)
        (act_then (verify_namespace env dir)
        (act_bind (at_path p (fstat env (fst old))) (\<lambda>current_old.
         act_bind (or_changed (open_file env dir final)) (\<lambda>live.
         act_bind (at_path p (fstat env live)) (\<lambda>live_m.
           check_that (same_file_version old (fst old, current_old)
               \<and> same_file_version (fst old, current_old) (live, live_m)) JseChangedDuringInspection)))))))"

text \<open>After an exchange: each name holds the record it should, in the file it should be.\<close>

definition confirm_records ::
  "journal_codec \<Rightarrow> io_env \<Rightarrow> journal_dir \<Rightarrow> operation_journal \<Rightarrow> string \<Rightarrow> operation_journal \<Rightarrow> nat
     \<Rightarrow> string \<Rightarrow> nat \<Rightarrow> unit js_action" where
  "confirm_records jc env dir j kept_name expected old final_name new =
     act_bind (load_pinned_journal jc env dir kept_name (oj_journal_id j) 1) (\<lambda>(kept, kept_file, _).
     act_then (at_path (child (jd_path dir) kept_name) (fstat env kept_file))
    (act_bind (load_pinned_journal jc env dir final_name (oj_journal_id j) 1) (\<lambda>(published, published_file, _).
     act_then (at_path (child (jd_path dir) final_name) (fstat env published_file))
       (check_that (kept = expected \<and> published = j \<and> kept_file = old \<and> published_file = new)
          JseChangedDuringInspection))))"

definition confirm_entry :: "io_env \<Rightarrow> journal_dir \<Rightarrow> string \<Rightarrow> nat \<Rightarrow> unit js_action" where
  "confirm_entry env dir name file =
     act_bind (or_changed (open_file env dir name)) (\<lambda>live.
     act_bind (at_path (child (jd_path dir) name) (fstat env live)) (\<lambda>m.
       check_that (live = file \<and> trusted_journal_file env m) JseChangedDuringInspection))"

definition history_name :: "operation_journal \<Rightarrow> operation_journal \<Rightarrow> string \<Rightarrow> string" where
  "history_name expected j digest =
     ''.'' @ oj_journal_id j @ ''.history-'' @ show_nat (length (oj_events expected)) @ ''-'' @ digest"

definition js_persist_if_matches ::
  "journal_codec \<Rightarrow> io_env \<Rightarrow> path \<Rightarrow> operation_journal \<Rightarrow> operation_journal \<Rightarrow> unit js_action" where
  "js_persist_if_matches jc env root expected j =
     act_then (act_lift (validate_journal (jc_digest jc) expected))
    (act_then (act_lift (validate_journal (jc_digest jc) j))
    (act_then (check_that (extends_record expected j)
        (JseInvalidRecord ''journal update does not extend the exact prior history''))
    (act_bind (journal_dir_open env root) (\<lambda>dir.
     act_bind (act_lift (js_path_for root (oj_journal_id j))) (\<lambda>final.
     act_bind (js_temp_name env (oj_journal_id j)) (\<lambda>temp.
     act_bind (load_pinned_journal jc env dir final (oj_journal_id j) 1) (\<lambda>(current, old, old_m).
     act_then (check_that (current = expected) JseChangedDuringInspection)
    (act_bind (act_lift (encode_record jc j)) (\<lambda>bytes.
     act_bind (stage_record env dir temp bytes) (\<lambda>(new, _).
     act_then (dir_sync env dir)
    (act_then (recheck_predecessor env dir final (old, old_m))
    (act_then (dir_exchange env dir temp final)
    (act_bind (watch env dir) (\<lambda>seen.
     act_then (confirm_records jc env dir j temp expected old final new)
    (act_then (dir_sync env dir)
    (act_then (verify_namespace env dir)
    (act_then (confirm_entry env dir temp old)
    (act_then (confirm_entry env dir final new)
    (act_then (require_unchanged env dir seen)
    (act_bind (act_lift (journal_content_digest jc expected)) (\<lambda>digest.
     act_then (dir_publish_new env dir temp (history_name expected j digest))
    (act_then (dir_sync env dir)
    (act_then (verify_namespace env dir)
       (confirm_records jc env dir j (history_name expected j digest) expected old final new))))))))))))))))))))))))"

definition js_persist :: "journal_codec \<Rightarrow> io_env \<Rightarrow> path \<Rightarrow> operation_journal \<Rightarrow> unit js_action" where
  "js_persist jc env root j =
     act_bind (js_load jc env root (oj_journal_id j)) (\<lambda>previous.
       if previous = j then act_lift (and_then (js_path_for root (oj_journal_id j)) (\<lambda>_. Inr ()))
       else js_persist_if_matches jc env root previous j)"

end
