(* ===== verification/JournalUpdate.thy ===== *)
theory JournalUpdate
  imports JournalStore
begin

text \<open>
  What an update of the journal store guarantees whatever the calls answer: which of its parts only read, and a Hoare
  proof of \<open>js_persist_if_matches\<close>. A crash leaves the former record or the new one, whole; once the
  update has returned, the new record is on the disk under its name and the former one under its history name.
\<close>

section \<open>The parts that only read\<close>

named_theorems js_reading \<open>actions of the store that leave the host alone\<close>

lemma call_reads [js_reading]:
  "reads (plain_call env)" "reads (fstat env i)" "reads (open_directory env p)" "reads (open_path env p)"
  "reads (reopen env i)" "reads (read_names env d)" "reads (read_view env d)"
  unfolding reads_def plain_call_def fstat_def open_directory_def open_path_def reopen_def read_names_def read_view_def
  by (intro allI triple_syscall; auto split: option.splits if_splits)+

lemma sequence_reads [js_reading]: "reads next_sequence"
  by (simp add: reads_def next_sequence_triple)

lemma glue_reads [js_reading]:
  "reads m \<Longrightarrow> reads (at_path p m)" "reads m' \<Longrightarrow> reads (or_changed m')" "reads (check_that ok e)"
  unfolding at_path_def or_changed_def check_that_def by (simp_all add: reads_map_err reads_lift)

lemmas [js_reading] = reads_bind reads_then reads_lift reads_map_err reads_match open_reads stat_reads

lemma split_reads [js_reading]: "(\<And>a b. reads (f a b)) \<Longrightarrow> reads (case x of (a, b) \<Rightarrow> f a b)"
  by (simp add: split_beta)

lemma walk_reads: "reads (journal_dir_walk env whole current cs nodes)"
  by (induction env whole current cs nodes rule: journal_dir_walk.induct)
    (auto simp: Let_def split: path_component.split intro!: js_reading)

lemma dir_open_reads [js_reading]: "reads (journal_dir_open env p)"
  unfolding journal_dir_open_def by (auto intro!: js_reading walk_reads)

lemma verify_nodes_reads: "reads (verify_nodes env whole nodes)"
  by (induction env whole nodes rule: verify_nodes.induct)
    (auto simp: verify_node_def split: prod.split intro!: js_reading)

lemma verify_reads [js_reading]: "reads (verify_namespace env dir)"
  unfolding verify_namespace_def verify_root_def
  by (auto split: list.split intro!: js_reading verify_nodes_reads)

lemma file_reads [js_reading]:
  "reads (watch env dir)" "reads (require_unchanged env dir seen)" "reads (open_file env dir name)"
  unfolding watch_def require_unchanged_def open_file_def Let_def by (auto intro!: js_reading)

lemma load_pinned_reads [js_reading]: "reads (load_pinned_journal jc env dir name i links)"
  unfolding load_pinned_journal_def Let_def by (intro js_reading)

lemma confirm_reads [js_reading]:
  "reads (confirm_entry env dir name file)"
  "reads (confirm_records jc env dir j kept_name expected old final_name new)"
  "reads (recheck_predecessor env dir final old')"
  unfolding confirm_entry_def confirm_records_def recheck_predecessor_def Let_def
  by (intro js_reading)+

lemma temp_name_reads [js_reading]: "reads (js_temp_name env i)"
  unfolding js_temp_name_def by (intro js_reading)

text \<open>An action whose value has a property that does not depend on the host.\<close>

definition yields :: "('e, 'a) action \<Rightarrow> ('a \<Rightarrow> bool) \<Rightarrow> bool" where
  "yields m V \<longleftrightarrow> (\<forall>w x. fst (m w) = Inr x \<longrightarrow> V x)"

lemma reads_yields:
  assumes "reads m" and "yields m V" and "\<And>h. P h \<Longrightarrow> C h"
  shows "triple C P m (\<lambda>x h. V x \<and> P h) (\<lambda>_. P)"
  using reads_any[OF assms(1,3), of P] assms(2) unfolding triple_def yields_def
  by (fastforce split: sum.splits)

lemma triple_fact: "(\<And>h. P h \<Longrightarrow> A) \<Longrightarrow> (A \<Longrightarrow> triple C P m Q E) \<Longrightarrow> triple C P m Q E"
  by (auto simp: triple_def)

lemma triple_bind_value:
  assumes "reads m" and "yields m V" and "\<And>h. P h \<Longrightarrow> C h" and "\<And>x. V x \<Longrightarrow> triple C P (k x) Q E"
    and "\<And>e h. P h \<Longrightarrow> E e h"
  shows "triple C P (act_bind m k) Q E"
proof (rule triple_bind)
  show "triple C P m (\<lambda>x h. V x \<and> P h) E"
    by (rule triple_weaken[OF reads_yields[where P = P, OF assms(1-3)]]) (auto intro: assms(5))
  show "triple C (\<lambda>h. V x \<and> P h) (k x) Q E" for x
    by (rule triple_fact[where A = "V x"], simp, rule triple_weaken[OF assms(4)]) auto
qed

lemma triple_bind_skip:
  assumes "reads m" and "\<And>h. P h \<Longrightarrow> C h" and "\<And>x. triple C P (k x) Q E" and "\<And>e h. P h \<Longrightarrow> E e h"
  shows "triple C P (act_bind m k) Q E"
  by (rule triple_bind_value[where V = "\<lambda>_. True"]) (simp_all add: assms yields_def)

lemma triple_skip:
  assumes "reads m" and "\<And>h. P h \<Longrightarrow> C h" and "triple C P k Q E" and "\<And>e h. P h \<Longrightarrow> E e h"
  shows "triple C P (act_then m k) Q E"
  unfolding act_then_def by (rule triple_bind_skip) (simp_all add: assms)

lemma triple_check_that:
  assumes "ok \<Longrightarrow> triple C P k Q E" and "\<And>h. P h \<Longrightarrow> E e h"
  shows "triple C P (act_then (check_that ok e) k) Q E"
proof (cases ok)
  case True
  then have "act_then (check_that ok e) k = k"
    by (simp add: fun_eq_iff act_then_def act_bind_def check_that_def require_def act_lift_def)
  then show ?thesis using assms True by simp
next
  case False
  then have "act_then (check_that ok e) k = act_lift (Inl e)"
    by (simp add: fun_eq_iff act_then_def act_bind_def check_that_def require_def act_lift_def)
  then show ?thesis using assms(2) by (simp add: triple_lift)
qed

lemma triple_guard_value:
  assumes "\<And>x. r = Inr x \<Longrightarrow> triple C P (k x) Q E" and "\<And>e h. P h \<Longrightarrow> E e h"
  shows "triple C P (act_bind (act_lift r) k) Q E"
proof (cases r)
  case (Inl e)
  then have "act_bind (act_lift r) k = act_lift (Inl e)"
    by (simp add: fun_eq_iff act_bind_def act_lift_def)
  then show ?thesis using assms(2) by (simp add: triple_lift)
next
  case (Inr x)
  then have "act_bind (act_lift r) k = k x"
    by (simp add: fun_eq_iff act_bind_def act_lift_def)
  then show ?thesis using assms(1) Inr by simp
qed

section \<open>The states of an update\<close>

text \<open>
  \<open>f\<close> is the name of the record, \<open>t\<close> the temporary one. Inode \<open>i\<^sub>0\<close> with contents \<open>n\<^sub>0\<close> is the former record, \<open>i\<close> the staged
  file; a crash leaves one of the outcomes \<open>S\<close> at \<open>f\<close>.
\<close>

definition former :: "path \<Rightarrow> crash_file set \<Rightarrow> nat \<Rightarrow> inode \<Rightarrow> host \<Rightarrow> bool" where
  "former f S i0 n0 h =
     (kept S f h \<and> allocated f h \<and> h_names h f = Some i0 \<and> h_inodes h i0 = n0)"

definition staging ::
  "io_env \<Rightarrow> path \<Rightarrow> path \<Rightarrow> crash_file set \<Rightarrow> nat \<Rightarrow> inode \<Rightarrow> string \<Rightarrow> bool \<Rightarrow> nat \<Rightarrow> host \<Rightarrow> bool" where
  "staging env t f S i0 n0 bytes synced i h =
     (staged env t f S bytes synced i h \<and> h_names h f = Some i0 \<and> h_inodes h i0 = n0)"

definition exchanged ::
  "io_env \<Rightarrow> path \<Rightarrow> path \<Rightarrow> crash_file set \<Rightarrow> nat \<Rightarrow> inode \<Rightarrow> string \<Rightarrow> nat \<Rightarrow> host \<Rightarrow> bool" where
  "exchanged env t f S i0 n0 bytes i h =
     (kept S f h \<and> h_names h f = Some i \<and> h_inodes h i = file_with env bytes True
      \<and> h_names h t = Some i0 \<and> h_inodes h i0 = n0)"

text \<open>The former record is at \<open>p\<close>, on the disk and in memory.\<close>

definition retained :: "path \<Rightarrow> nat \<Rightarrow> inode \<Rightarrow> host \<Rightarrow> bool" where
  "retained p i0 n0 h = (h_names h p = Some i0 \<and> h_disk h p = [Some i0] \<and> h_inodes h i0 = n0)"

lemma staging_apart: "staging env t f S i0 n0 bytes synced i h \<Longrightarrow> i \<noteq> i0"
  by (auto simp: staging_def staged_def entries_def)

lemma staging_kept [dest]: "staging env t f S i0 n0 bytes synced i h \<Longrightarrow> kept S f h"
  by (simp add: staging_def staged_def)

lemma former_kept [dest]: "former f S i0 n0 h \<Longrightarrow> kept S f h"
  by (simp add: former_def)

lemma exchanged_kept [dest]: "exchanged env t f S i0 n0 bytes i h \<Longrightarrow> kept S f h"
  by (simp add: exchanged_def)

section \<open>The calls that write\<close>

lemma open_new_former:
  assumes "t \<noteq> f"
  shows "triple (kept S f) (former f S i0 n0) (open_new env t) (\<lambda>i. staging env t f S i0 n0 [] False i) (\<lambda>_. kept S f)"
proof -
  have "triple (\<lambda>_. True) (\<lambda>h. h_names h f = Some i0 \<and> h_inodes h i0 = n0 \<and> i0 < h_next h) (open_new env t)
      (\<lambda>_ h. h_names h f = Some i0 \<and> h_inodes h i0 = n0) (\<lambda>_ _. True)"
    unfolding open_new_def create_entry_def
    by (rule triple_syscall) (use assms in \<open>auto simp: set_inode_def split: option.splits if_splits\<close>)
  from triple_conj[OF open_new_staged[OF assms, of S env] this]
  show ?thesis
    by (rule triple_weaken[OF triple_passed])
      (auto simp: former_def staging_def allocated_def entries_def)
qed

lemma write_staging:
  "triple (kept S f) (staging env t f S i0 n0 bs sy i) (write_all env i bytes)
     (\<lambda>_. staging env t f S i0 n0 (bs @ bytes) False i) (\<lambda>_. kept S f)"
proof (rule triple_fact[where A = "i \<noteq> i0"], erule staging_apart)
  assume "i \<noteq> i0"
  then have "triple (\<lambda>_. True) (\<lambda>h. h_names h f = Some i0 \<and> h_inodes h i0 = n0) (write_all env i bytes)
      (\<lambda>_ h. h_names h f = Some i0 \<and> h_inodes h i0 = n0) (\<lambda>_ _. True)"
    unfolding write_all_def
    by (intro triple_syscall) (auto simp: set_inode_def Let_def split: option.splits prod.splits)
  from triple_conj[OF write_all_staged[of S f env t bs sy i] this]
  show "triple (kept S f) (staging env t f S i0 n0 bs sy i) (write_all env i bytes)
     (\<lambda>_. staging env t f S i0 n0 (bs @ bytes) False i) (\<lambda>_. kept S f)"
    by (rule triple_weaken[OF triple_passed]) (auto simp: staging_def)
qed

lemma sync_staging:
  "triple (kept S f) (staging env t f S i0 n0 bs sy i) (sync_file env i)
     (\<lambda>_. staging env t f S i0 n0 bs True i) (\<lambda>_. kept S f)"
proof (rule triple_fact[where A = "i \<noteq> i0"], erule staging_apart)
  assume "i \<noteq> i0"
  then have "triple (\<lambda>_. True) (\<lambda>h. h_names h f = Some i0 \<and> h_inodes h i0 = n0) (sync_file env i)
      (\<lambda>_ h. h_names h f = Some i0 \<and> h_inodes h i0 = n0) (\<lambda>_ _. True)"
    unfolding sync_file_def
    by (intro triple_syscall) (auto simp: set_inode_def split: option.splits prod.splits)
  from triple_conj[OF sync_file_staged[of S f env t bs sy i] this]
  show "triple (kept S f) (staging env t f S i0 n0 bs sy i) (sync_file env i)
     (\<lambda>_. staging env t f S i0 n0 bs True i) (\<lambda>_. kept S f)"
    by (rule triple_weaken[OF triple_passed]) (auto simp: staging_def)
qed

lemma exchange_staging:
  assumes "t \<noteq> f" and "Intact bytes \<in> S"
  shows "triple (kept S f) (staging env t f S i0 n0 bytes True i) (rename_exchange env t f)
     (\<lambda>_. exchanged env t f S i0 n0 bytes i) (\<lambda>_. kept S f)"
  unfolding rename_exchange_def
proof (rule triple_syscall, goal_cases)
  case (1 fault h r h')
  then have st: "kept S f h" "h_names h t = Some i" "h_inodes h i = file_with env bytes True"
    "h_names h f = Some i0" "h_inodes h i0 = n0" by (simp_all add: staging_def staged_def)
  have "survivor h (Some i) = Intact bytes" using st(3) by (simp add: survivor_def file_with_def)
  then have "kept S f (set_entry t (Some i0) (set_entry f (Some i) h))"
    using assms st(1) by (auto simp: kept_def survivors_def entries_def)
  with 1 st assms(1) show ?case
    by (auto simp: exchanged_def split: option.splits)
qed

lemma sync_dir_exchanged:
  "triple (kept S f) (exchanged env t f S i0 n0 bytes i) (fsync_dir env root) (\<lambda>_. exchanged env t f S i0 n0 bytes i)
     (\<lambda>_. kept S f)"
  unfolding fsync_dir_def
  by (rule triple_syscall) (auto simp: exchanged_def kept_sync split: option.splits, auto simp: sync_entries_def)

lemma sync_dir_staging:
  "triple (kept S f) (staging env t f S i0 n0 bs True i) (fsync_dir env root) (\<lambda>_. staging env t f S i0 n0 bs True i)
     (\<lambda>_. kept S f)"
  unfolding fsync_dir_def
  by (rule triple_syscall)
    (auto simp: staging_def staged_def kept_sync split: option.splits, auto simp: sync_entries_def entries_def split: if_splits)

lemma retain_exchanged:
  assumes "q \<noteq> f" "q \<noteq> t" "t \<noteq> f"
  shows "triple (kept S f) (exchanged env t f S i0 n0 bytes i) (rename_noreplace env t q)
     (\<lambda>_. exchanged env q f S i0 n0 bytes i) (\<lambda>_. kept S f)"
  unfolding rename_noreplace_def
  by (rule triple_syscall)
    (use assms in \<open>auto simp: exchanged_def kept_def survivors_set_entry survivors_def entries_def split: option.splits if_splits\<close>)

lemma settle_exchanged:
  assumes "in_directory root f" "in_directory root q"
  shows "triple (kept S f) (exchanged env q f S i0 n0 bytes i) (fsync_dir env root)
     (\<lambda>_ h. kept S f h \<and> published env f bytes h \<and> retained q i0 n0 h) (\<lambda>_. kept S f)"
  unfolding fsync_dir_def
  by (rule triple_syscall)
    (use assms in \<open>auto simp: exchanged_def kept_sync published_def retained_def split: option.splits\<close>,
      auto simp: sync_entries_def)

section \<open>The update\<close>

lemma reopen_yields: "yields (reopen env i) (\<lambda>x. x = i)"
  by (auto simp: yields_def reopen_def syscall_def split: option.splits)

lemma yields_at_path: "yields m V \<Longrightarrow> yields (at_path p m) V"
  by (auto simp: yields_def at_path_def act_map_err_def split: prod.splits) (metis fst_conv map_err_Inr)

lemma yields_lift: "(\<And>x. r = Inr x \<Longrightarrow> V x) \<Longrightarrow> yields (act_lift r) V"
  by (simp add: yields_def act_lift_def)

lemma yields_bind: "(\<And>x. yields (k x) V) \<Longrightarrow> yields (act_bind m k) V"
  by (auto simp: yields_def act_bind_def split: prod.splits sum.splits)

lemma yields_then: "yields k V \<Longrightarrow> yields (act_then m k) V"
  by (simp add: act_then_def yields_bind)

lemma walk_yields: "yields (journal_dir_walk env whole current cs nodes) (\<lambda>d. jd_path d = whole)"
  by (induction env whole current cs nodes rule: journal_dir_walk.induct)
    (auto simp: Let_def split: path_component.split intro!: yields_lift yields_bind yields_then)

lemma dir_open_yields: "yields (journal_dir_open env p) (\<lambda>d. jd_path d = p)"
  unfolding journal_dir_open_def by (auto intro!: yields_lift yields_bind yields_then walk_yields)

text \<open>A step that only reads, in front of the rest of the body.\<close>

lemmas reading_steps = triple_skip triple_bind_skip

lemma isolated_writer_staging:
  "triple (kept S f) (staging env t f S i0 n0 [] False i) (isolated_writer env t i bytes)
     (\<lambda>_. staging env t f S i0 n0 bytes True i) (\<lambda>_. kept S f)"
proof -
  have written: "triple (kept S f) (staging env t f S i0 n0 [] False i)
      (act_then (at_path t (write_all env i bytes))
        (act_then (at_path t (sync_file env i)) (at_path t (plain_call env))))
      (\<lambda>_. staging env t f S i0 n0 bytes True i) (\<lambda>_. kept S f)"
  proof (rule triple_then)
    show "triple (kept S f) (staging env t f S i0 n0 [] False i) (at_path t (write_all env i bytes))
        (\<lambda>_. staging env t f S i0 n0 bytes False i) (\<lambda>_. kept S f)"
      unfolding at_path_def using write_staging[of S f env t i0 n0 "[]" False i bytes]
      by (simp add: triple_map_err)
    show "triple (kept S f) (staging env t f S i0 n0 bytes False i)
        (act_then (at_path t (sync_file env i)) (at_path t (plain_call env)))
        (\<lambda>_. staging env t f S i0 n0 bytes True i) (\<lambda>_. kept S f)"
    proof (rule triple_then)
      show "triple (kept S f) (staging env t f S i0 n0 bytes False i) (at_path t (sync_file env i))
          (\<lambda>_. staging env t f S i0 n0 bytes True i) (\<lambda>_. kept S f)"
        unfolding at_path_def by (rule triple_map_err, rule sync_staging)
      show "triple (kept S f) (staging env t f S i0 n0 bytes True i) (at_path t (plain_call env))
          (\<lambda>_. staging env t f S i0 n0 bytes True i) (\<lambda>_. kept S f)"
        by (rule triple_weaken[OF reads_any[where P = "staging env t f S i0 n0 bytes True i"]])
          (auto intro: js_reading)
    qed
  qed
  show ?thesis
    unfolding isolated_writer_def
    by (rule triple_bind_skip, intro js_reading, rule staging_kept, assumption,
        rule triple_bind_skip, intro js_reading, rule staging_kept, assumption,
        rule triple_check_that,
        rule triple_bind_value[OF _ yields_at_path[OF reopen_yields]], intro js_reading, rule staging_kept, assumption)
      (auto intro!: written)
qed

lemma write_staged_former:
  assumes "child (jd_path dir) name \<noteq> f"
  shows "triple (kept S f) (former f S i0 n0) (write_staged_file env dir name bytes)
     (\<lambda>i. staging env (child (jd_path dir) name) f S i0 n0 bytes True i) (\<lambda>_. kept S f)"
proof -
  let ?t = "child (jd_path dir) name"
  have after: "triple (kept S f) (staging env ?t f S i0 n0 bytes True i)
      (act_then (at_path ?t (plain_call env))
      (act_then (at_path ?t (fstat env i))
      (act_bind (or_changed (open_file env dir name)) (\<lambda>live.
       act_then (at_path ?t (fstat env live))
      (act_then (check_that (live = i) JseChangedDuringInspection) (act_lift (Inr i)))))))
      (\<lambda>i. staging env ?t f S i0 n0 bytes True i) (\<lambda>_. kept S f)" for i
    by (intro reading_steps triple_check_that triple_lift) (auto intro: js_reading)
  show ?thesis
    unfolding write_staged_file_def Let_def
    by (rule triple_skip, intro js_reading, rule former_kept, assumption,
        rule triple_bind, unfold at_path_def[of ?t "open_new env ?t"], rule triple_map_err,
        rule open_new_former[OF assms],
        (rule triple_skip, intro js_reading, rule staging_kept, assumption)+,
        rule triple_then[OF isolated_writer_staging after])
      auto
qed

lemma stage_record_former:
  assumes "child (jd_path dir) name \<noteq> f"
  shows "triple (kept S f) (former f S i0 n0) (stage_record env dir name bytes)
     (\<lambda>(i, m). staging env (child (jd_path dir) name) f S i0 n0 bytes True i) (\<lambda>_. kept S f)"
  unfolding stage_record_def Let_def
  by (rule triple_bind[OF write_staged_former[OF assms]], intro reading_steps triple_check_that triple_lift)
    (auto intro: js_reading)

lemma digest_not_hidden:
  assumes "is_lower_hex_digest i"
  shows "i @ x \<noteq> ''.'' @ y"
proof
  assume "i @ x = ''.'' @ y"
  with assms obtain s where "i = CHR ''.'' # s" by (cases i) (auto simp: is_lower_hex_digest_def)
  with assms show False by (simp add: is_lower_hex_digest_def is_ascii_digit_def byte_def)
qed

lemma child_eq [simp]: "child d a = child d b \<longleftrightarrow> a = b"
  by (simp add: child_def)

lemma in_directory_child [simp]: "in_directory d (child d n)"
  by (simp add: in_directory_def child_def)

lemma temp_name_yields: "yields (js_temp_name env i) (\<lambda>n. \<exists>x. n = ''.'' @ i @ ''.tmp-'' @ x)"
  unfolding js_temp_name_def by (auto intro!: yields_bind yields_lift)

lemma triple_guard_then:
  assumes "r = Inr () \<Longrightarrow> triple C P k Q E" and "\<And>e h. P h \<Longrightarrow> E e h"
  shows "triple C P (act_then (act_lift r) k) Q E"
  unfolding act_then_def by (rule triple_guard_value) (use assms in auto)

lemma validate_journal_hex: "validate_journal fp j = Inr () \<Longrightarrow> is_lower_hex_digest (oj_journal_id j)"
  by (simp add: validate_journal_def first_error_Cons)

text \<open>From the exchange to the end, with the history name \<open>q\<close>.\<close>

definition after_exchange ::
  "journal_codec \<Rightarrow> io_env \<Rightarrow> journal_dir \<Rightarrow> operation_journal \<Rightarrow> operation_journal \<Rightarrow> string \<Rightarrow> string \<Rightarrow> nat \<Rightarrow> nat \<Rightarrow> unit js_action" where
  "after_exchange jc env dir expected j temp final old new =
     act_bind (watch env dir) (\<lambda>seen.
     act_then (confirm_records jc env dir j temp expected old final new)
    (act_then (dir_sync env dir)
    (act_then (verify_namespace env dir)
    (act_then (confirm_entry env dir temp old)
    (act_then (confirm_entry env dir final new)
    (act_then (require_unchanged env dir seen)
    (act_bind (act_lift (journal_content_digest jc expected)) (\<lambda>digest.
     act_then (dir_publish_new env dir temp (history_name expected j digest))
    (act_then (dir_sync env dir)
    (act_then (verify_namespace env dir)
       (confirm_records jc env dir j (history_name expected j digest) expected old final new)))))))))))"

lemma after_exchange_keeps:
  assumes hex: "is_lower_hex_digest (oj_journal_id j)" and temp: "temp = ''.'' @ oj_journal_id j @ ''.tmp-'' @ x"
    and final: "final = oj_journal_id j @ ''.json''"
  shows "triple (kept S (child (jd_path dir) final))
     (exchanged env (child (jd_path dir) temp) (child (jd_path dir) final) S i0 n0 bytes i)
     (after_exchange jc env dir expected j temp final old new)
     (\<lambda>_ h. \<exists>digest. journal_content_digest jc expected = Inr digest
        \<and> published env (child (jd_path dir) final) bytes h
        \<and> retained (child (jd_path dir) (history_name expected j digest)) i0 n0 h)
     (\<lambda>_. kept S (child (jd_path dir) final))"
    (is "triple ?C _ _ ?Q ?E")
proof -
  let ?f = "child (jd_path dir) final" and ?t = "child (jd_path dir) temp"
  let ?X = "\<lambda>p. exchanged env p ?f S i0 n0 bytes i"
  have tail: "triple ?C (?X ?t)
      (act_then (dir_publish_new env dir temp (history_name expected j digest))
      (act_then (dir_sync env dir)
      (act_then (verify_namespace env dir)
        (confirm_records jc env dir j (history_name expected j digest) expected old final new)))) ?Q ?E"
    if digest: "journal_content_digest jc expected = Inr digest" for digest
  proof (rule triple_then)
    let ?q = "child (jd_path dir) (history_name expected j digest)"
    have hidden: "child d (''.'' @ y) \<noteq> child d final" for d y
      unfolding final using digest_not_hidden[OF hex] by (metis child_eq)
    have names: "?q \<noteq> ?f" "?q \<noteq> ?t" "?t \<noteq> ?f"
      unfolding history_name_def temp by (rule hidden, simp, rule hidden)
    show "triple ?C (?X ?t) (dir_publish_new env dir temp (history_name expected j digest)) (\<lambda>_. ?X ?q) ?E"
      unfolding dir_publish_new_def at_path_def by (rule triple_map_err, rule retain_exchanged[OF names])
    let ?R = "\<lambda>h. kept S ?f h \<and> published env ?f bytes h \<and> retained ?q i0 n0 h"
    show "triple ?C (?X ?q)
        (act_then (dir_sync env dir) (act_then (verify_namespace env dir)
          (confirm_records jc env dir j (history_name expected j digest) expected old final new))) ?Q ?E"
    proof (rule triple_then)
      show "triple ?C (?X ?q) (dir_sync env dir) (\<lambda>_. ?R) ?E"
        unfolding dir_sync_def at_path_def by (rule triple_map_err, rule settle_exchanged) simp_all
      show "triple ?C ?R (act_then (verify_namespace env dir)
          (confirm_records jc env dir j (history_name expected j digest) expected old final new)) ?Q ?E"
      proof (rule triple_skip)
        show "triple ?C ?R (confirm_records jc env dir j (history_name expected j digest) expected old final new) ?Q ?E"
          by (rule triple_weaken[OF reads_any[where P = ?R]]) (use digest in \<open>auto intro: js_reading\<close>)
      qed (auto intro: js_reading)
    qed
  qed
  have sync: "triple ?C (?X ?t) (dir_sync env dir) (\<lambda>_. ?X ?t) ?E"
    unfolding dir_sync_def at_path_def by (rule triple_map_err, rule sync_dir_exchanged)
  show ?thesis unfolding after_exchange_def
    by (rule triple_bind_skip, intro js_reading, rule exchanged_kept, assumption,
        rule triple_skip, intro js_reading, rule exchanged_kept, assumption,
        rule triple_then[OF sync],
        (rule triple_skip, intro js_reading, rule exchanged_kept, assumption)+,
        rule triple_guard_value, rule tail)
      auto
qed

text \<open>
  The update as a whole: whatever the calls answer, a crash leaves an outcome of \<open>S\<close> at the record; a
  success has published the new record and retained the former one.
\<close>

lemma act_bind_ok: "act_bind (act_lift (Inr x)) k = k x"
  by (simp add: fun_eq_iff act_bind_def act_lift_def)

lemma triple_split:
  "(\<And>a b. triple C P (k a b) Q E) \<Longrightarrow> triple C P (case x of (a, b) \<Rightarrow> k a b) Q E"
  by (cases x) simp

lemma persist_if_matches_keeps:
  assumes S: "\<And>bytes. encode_record jc j = Inr bytes \<Longrightarrow> Intact bytes \<in> S"
  shows "triple (kept S (child root (oj_journal_id j @ ''.json''))) (former (child root (oj_journal_id j @ ''.json'')) S i0 n0)
     (js_persist_if_matches jc env root expected j)
     (\<lambda>_ h. extends_record expected j \<and> (\<exists>bytes digest. encode_record jc j = Inr bytes
        \<and> journal_content_digest jc expected = Inr digest
        \<and> published env (child root (oj_journal_id j @ ''.json'')) bytes h
        \<and> retained (child root (history_name expected j digest)) i0 n0 h))
     (\<lambda>_. kept S (child root (oj_journal_id j @ ''.json'')))"
    (is "triple ?C ?P _ ?Q ?E")
  unfolding js_persist_if_matches_def after_exchange_def[symmetric]
proof (rule triple_guard_then, rule triple_guard_then, rule triple_check_that,
    rule triple_bind_value[OF dir_open_reads dir_open_yields], goal_cases)
  case (2 dir)
  then have hex: "is_lower_hex_digest (oj_journal_id j)" and dir: "jd_path dir = root" and ext: "extends_record expected j"
    by (simp_all add: validate_journal_hex)
  let ?final = "oj_journal_id j @ ''.json''"
  have final: "js_path_for root (oj_journal_id j) = Inr ?final"
    using hex by (simp add: js_path_for_def validate_journal_id_def)
  have rest: "triple ?C (staging env (child root temp) (child root ?final) S i0 n0 bytes True new)
      (act_then (dir_sync env dir) (act_then (recheck_predecessor env dir ?final (old, old_m))
        (act_then (dir_exchange env dir temp ?final) (after_exchange jc env dir expected j temp ?final old new)))) ?Q ?E"
    if temp: "\<exists>x. temp = ''.'' @ oj_journal_id j @ ''.tmp-'' @ x" and bytes: "encode_record jc j = Inr bytes"
    for temp bytes new old old_m
  proof (rule triple_then)
    let ?st = "staging env (child root temp) (child root ?final) S i0 n0 bytes True new"
    show "triple ?C ?st (dir_sync env dir) (\<lambda>_. ?st) ?E"
      unfolding dir_sync_def at_path_def by (rule triple_map_err, rule sync_dir_staging)
    have names: "child root temp \<noteq> child root ?final" using temp digest_not_hidden[OF hex] by (simp, metis)
    have "triple ?C ?st (dir_exchange env dir temp ?final)
        (\<lambda>_. exchanged env (child root temp) (child root ?final) S i0 n0 bytes new) ?E"
      unfolding dir_exchange_def at_path_def dir
      by (rule triple_map_err, rule exchange_staging[OF names S[OF bytes]])
    moreover obtain x where x: "temp = ''.'' @ oj_journal_id j @ ''.tmp-'' @ x" using temp by blast
    have "triple ?C (exchanged env (child root temp) (child root ?final) S i0 n0 bytes new)
        (after_exchange jc env dir expected j temp ?final old new) ?Q ?E"
      by (rule triple_weaken[OF after_exchange_keeps[OF hex x refl, where dir = dir, unfolded dir]]) (use ext bytes in auto)
    ultimately show "triple ?C ?st (act_then (recheck_predecessor env dir ?final (old, old_m))
        (act_then (dir_exchange env dir temp ?final) (after_exchange jc env dir expected j temp ?final old new))) ?Q ?E"
      by (intro triple_skip triple_then) (auto intro: js_reading)
  qed
  show ?case unfolding final act_bind_ok
  proof (rule triple_bind_value[OF temp_name_reads temp_name_yields], goal_cases)
    case (2 temp)
    then have "child (jd_path dir) temp \<noteq> child root ?final"
      unfolding dir using digest_not_hidden[OF hex] by (simp, metis)
    note stage = stage_record_former[OF this, of S i0 n0 env, unfolded dir]
    have "triple ?C ?P (act_bind (stage_record env dir temp bytes) (\<lambda>(new, _).
        act_then (dir_sync env dir) (act_then (recheck_predecessor env dir ?final (old, old_m))
        (act_then (dir_exchange env dir temp ?final) (after_exchange jc env dir expected j temp ?final old new))))) ?Q ?E"
      if "encode_record jc j = Inr bytes" for bytes old old_m
    proof (rule triple_bind[OF stage])
      fix x :: "nat \<times> inode"
      obtain new m where "x = (new, m)" by (cases x)
      then show "triple ?C (case x of (i, m) \<Rightarrow> staging env (child root temp) (child root ?final) S i0 n0 bytes True i)
          (case x of (new, _) \<Rightarrow> act_then (dir_sync env dir) (act_then (recheck_predecessor env dir ?final (old, old_m))
            (act_then (dir_exchange env dir temp ?final) (after_exchange jc env dir expected j temp ?final old new)))) ?Q ?E"
        using rest[OF 2 that] by (simp only: prod.case)
    qed
    note staged_rest = this
    show ?case
      by (rule triple_bind_skip, intro js_reading, rule former_kept, assumption, rule triple_split, rule triple_split,
          rule triple_check_that, rule triple_guard_value, rule staged_rest) auto
  qed auto
qed auto

section \<open>Inventories\<close>

lemma inventory_reads: "reads (read_inventory jc env dir names iv)"
  by (induction jc env dir names iv rule: read_inventory.induct)
    (auto split: option.split intro!: js_reading)

lemma each_reads: "(\<And>x. x \<in> set xs \<Longrightarrow> reads (f x)) \<Longrightarrow> reads (each_then f xs)"
  by (induction xs) (auto intro!: js_reading)

lemma recheck_reads: "reads (recheck_pinned env dir entry)"
  unfolding recheck_pinned_def Let_def by (intro js_reading)

lemma names_reads [js_reading]: "reads (read_directory_names env dir)"
  unfolding read_directory_names_def by (intro js_reading)

lemma all_journals_reads [js_reading]: "reads (all_journals jc env root)"
  unfolding all_journals_def by (intro js_reading inventory_reads each_reads recheck_reads)

lemma runtime_directories_reads: "reads (open_runtime_directories env parent parent_names names)"
  by (induction env parent parent_names names rule: open_runtime_directories.induct) (auto intro!: js_reading)

lemma recheck_runtime_reads: "reads (recheck_runtime_directory env d)"
  unfolding recheck_runtime_directory_def by (intro js_reading)

lemma evidence_reads [js_reading]: "reads (unclassified_runtime_evidence env root)"
  unfolding unclassified_runtime_evidence_def runtime_evidence_in_def
  by (auto split: option.split journal_store_error.split io_kind.split
      intro!: js_reading runtime_directories_reads each_reads recheck_runtime_reads)

text \<open>What an inventory returns: records with identifiers of their own, for no two files have one name.\<close>

lemma yields_bind_value:
  "yields m V \<Longrightarrow> (\<And>x. V x \<Longrightarrow> yields (k x) W) \<Longrightarrow> yields (act_bind m k) W"
  unfolding yields_def
proof (intro allI impI)
  fix w x assume V: "\<forall>w x. fst (m w) = Inr x \<longrightarrow> V x" "\<And>x. V x \<Longrightarrow> \<forall>w xa. fst (k x w) = Inr xa \<longrightarrow> W xa"
    and "fst (act_bind m k w) = Inr x"
  then show "W x" by (cases "m w"; cases "fst (m w)") (auto simp: act_bind_def, metis fst_conv)
qed

lemma yields_mono: "yields m V \<Longrightarrow> (\<And>x. V x \<Longrightarrow> W x) \<Longrightarrow> yields m W"
  by (auto simp: yields_def)

lemma load_pinned_yields: "yields (load_pinned_journal jc env dir name i links) (\<lambda>(j, _). oj_journal_id j = i)"
proof -
  have dec: "yields (act_bind (act_lift (decode_journal jc bytes i)) (\<lambda>j. act_lift (Inr (j, fd, m))))
      (\<lambda>(j, _). oj_journal_id j = i)" for bytes fd m
    by (rule yields_bind_value[OF yields_lift[where V = "\<lambda>j. oj_journal_id j = i"]])
      (auto simp: decode_journal_def and_then_Inr split: option.splits if_splits intro!: yields_lift)
  show ?thesis
    unfolding load_pinned_journal_def Let_def by (rule dec | rule yields_then | rule yields_bind)+
qed

lemma strip_prefix_Some: "strip_prefix p s = Some r \<longleftrightarrow> s = p @ r"
  by (auto simp: strip_prefix_def starts_with_def) (metis append_take_drop_id)

lemma strip_suffix_Some: "strip_suffix p s = Some r \<longleftrightarrow> s = r @ p"
  by (auto simp: strip_suffix_def strip_prefix_Some rev_eq_append_conv) (metis rev_rev_ident)

lemma entry_key_current: "entry_key name = Inr (i, None) \<Longrightarrow> name = i @ ''.json''"
  by (auto simp: entry_key_def strip_suffix_Some split: if_splits option.splits)

lemma inventory_yields:
  "distinct names \<Longrightarrow> yields (read_inventory jc env dir names iv) (\<lambda>iv'. \<exists>js. iv_journals iv' = iv_journals iv @ js
     \<and> distinct (map oj_journal_id js) \<and> (\<forall>j \<in> set js. oj_journal_id j @ ''.json'' \<in> set names))"
proof (induction names arbitrary: iv)
  case (Cons name names)
  show ?case
    unfolding read_inventory.simps
  proof (rule yields_bind_value[OF yields_lift[where V = "\<lambda>x. entry_key name = Inr x"]], assumption, goal_cases)
    case (1 x)
    obtain i key where x: "x = (i, key)" by (cases x)
    show ?case unfolding x prod.case
    proof (rule yields_bind_value[OF load_pinned_yields], goal_cases)
      case (1 y)
      obtain j fd m where y: "y = (j, fd, m)" by (cases y) auto
      with 1 have id: "oj_journal_id j = i" by simp
      let ?V = "\<lambda>iv'. iv_journals iv' = iv_journals iv @ (if key = None then [j] else [])"
      show ?case unfolding y prod.case
      proof (rule yields_bind_value[OF yields_lift[where V = ?V]], goal_cases)
        case (1 iv')
        then show ?case by (auto simp: and_then_Inr split: option.splits)
      next
        case (2 iv')
        have "name = i @ ''.json''" if "key = None"
          using that entry_key_current \<open>entry_key name = Inr x\<close> x by simp
        note name = this
        show ?case
        proof (rule yields_mono[OF Cons.IH])
          show "distinct names" using Cons.prems by simp
          fix iv2 assume "\<exists>js. iv_journals iv2 = iv_journals (iv'\<lparr>iv_pinned := iv_pinned iv' @ [(name, fd, m)]\<rparr>) @ js
            \<and> distinct (map oj_journal_id js) \<and> (\<forall>j \<in> set js. oj_journal_id j @ ''.json'' \<in> set names)"
          then obtain js where js: "iv_journals iv2 = iv_journals iv' @ js" "distinct (map oj_journal_id js)"
            "\<forall>j \<in> set js. oj_journal_id j @ ''.json'' \<in> set names" by auto
          let ?js = "(if key = None then [j] else []) @ js"
          have "key = None \<Longrightarrow> i \<notin> oj_journal_id ` set js" using js(3) name Cons.prems by auto
          then have "iv_journals iv2 = iv_journals iv @ ?js \<and> distinct (map oj_journal_id ?js)
            \<and> (\<forall>j \<in> set ?js. oj_journal_id j @ ''.json'' \<in> set (name # names))"
            using js 2 id name by (auto split: if_splits)
          then show "\<exists>js. iv_journals iv2 = iv_journals iv @ js \<and> distinct (map oj_journal_id js)
            \<and> (\<forall>j \<in> set js. oj_journal_id j @ ''.json'' \<in> set (name # names))" by blast
        qed
      qed
    qed
  qed
qed (simp add: yields_def act_lift_def)

lemma names_yields: "yields (read_directory_names env dir) distinct"
  unfolding read_directory_names_def
  by (rule yields_at_path) (auto simp: yields_def read_names_def syscall_def dir_names_def split: option.splits)

lemma distinct_sort_key: "distinct (map f (sort_key g xs)) \<longleftrightarrow> distinct (map f xs)"
  by (simp add: distinct_map)

lemma all_journals_yields: "yields (all_journals jc env root) (\<lambda>js. distinct (map oj_journal_id js))"
  unfolding all_journals_def
  by (rule yields_bind, rule yields_bind, rule yields_bind_value[OF names_yields],
      rule yields_bind_value[OF inventory_yields], assumption, (rule yields_bind | rule yields_then)+, rule yields_lift)
    (auto simp: distinct_sort_key)

end
