(* ===== verification/LockedSession.thy ===== *)
theory LockedSession
  imports JournalUpdate ExecutionHandoff
begin

text \<open>
  A locked execution session, \<open>crates/executor/src/locked_session.rs\<close>, and the host lock of \<open>lib.rs\<close> it holds: which
  histories a session may start after, and how its journal advances in step with the durable record. A session
  acts on itself and on the world of the journal store. Whether another process holds the lock (\<open>flock\<close>), the digests of
  attempts, sessions, manifests and capabilities, and the counter behind a session identifier are parameters.
\<close>

section \<open>The host lock\<close>

datatype host_lock_error =
  HleBusy
| HleUnsafeParent path
| HleNotRegularFile path
| HleUnsafeFile path
| HleIo path io_kind

definition lock_parent_component :: "io_env \<Rightarrow> path \<Rightarrow> path \<Rightarrow> (host_lock_error, unit) action" where
  "lock_parent_component env parent current =
     act_match (symlink_metadata env current)
       (\<lambda>m. act_lift (require (trusted_journal_directory env m (current = parent)) (HleUnsafeParent current)))
       (\<lambda>k. if k = EkNotFound
            then act_then
                   (act_match (make_dir env current) (\<lambda>_. act_lift (Inr ()))
                     (\<lambda>k. act_lift (require (k = EkAlreadyExists) (HleIo current k))))
                 (act_bind (act_map_err (HleIo current) (symlink_metadata env current)) (\<lambda>m.
                    act_lift (require (trusted_journal_directory env m (current = parent)) (HleUnsafeParent current))))
            else act_lift (Inl (HleIo current k)))"

fun lock_parent_components ::
  "io_env \<Rightarrow> path \<Rightarrow> path \<Rightarrow> path_component list \<Rightarrow> (host_lock_error, unit) action" where
  "lock_parent_components env parent current [] = act_lift (Inr ())"
| "lock_parent_components env parent current (c # cs) =
     (case c of
        RootDir \<Rightarrow> lock_parent_components env parent [RootDir] cs
      | Normal n \<Rightarrow> act_then (lock_parent_component env parent (child current n))
                      (lock_parent_components env parent (child current n) cs)
      | _ \<Rightarrow> act_lift (Inl (HleUnsafeParent parent)))"

definition prepare_parent :: "io_env \<Rightarrow> path \<Rightarrow> (host_lock_error, unit) action" where
  "prepare_parent env p =
     (case parent_of p of
        None \<Rightarrow> act_lift (Inl (HleUnsafeParent p))
      | Some parent \<Rightarrow>
          (if take 1 parent \<noteq> [RootDir] then act_lift (Inl (HleUnsafeParent parent))
           else lock_parent_components env parent [] parent))"

text \<open>\<open>create(true)\<close> with \<open>O_NOFOLLOW\<close>: an existing regular file is opened, a missing one is created.\<close>

definition open_or_create :: "io_env \<Rightarrow> path \<Rightarrow> (io_kind, nat) action" where
  "open_or_create env p =
     act_match (open_path env p)
       (\<lambda>i. act_bind (fstat env i) (\<lambda>m.
          act_lift (if in_kind m = FkSymlink \<or> in_kind m = FkDirectory then Inl EkOther else Inr i)))
       (\<lambda>k. if k = EkNotFound then open_new env p else act_lift (Inl k))"

definition try_acquire_path :: "bool \<Rightarrow> io_env \<Rightarrow> path \<Rightarrow> (host_lock_error, path) action" where
  "try_acquire_path held env p =
     act_then (prepare_parent env p)
    (act_bind (act_map_err (HleIo p) (open_or_create env p)) (\<lambda>file.
     act_bind (act_map_err (HleIo p) (fstat env file)) (\<lambda>m.
     act_then (act_lift (require (in_kind m = FkRegular) (HleNotRegularFile p)))
    (act_then (act_lift (require (trusted_journal_file env m) (HleUnsafeFile p)))
    (act_then (act_map_err (HleIo p) (plain_call env))
    (act_then (act_lift (require (\<not> held) HleBusy))
       (act_lift (Inr p))))))))"

section \<open>Sessions\<close>

datatype locked_session_error =
  LseHandoffBlocked
| LseMutationEnabled
| LseRevalidationAlreadyAttempted
| LseLock host_lock_error
| LsePlanner planner_error
| LseJournal journal_error
| LseDurableJournalRequired
| LseDurableJournalMismatch
| LseDurableJournal journal_store_error
| LseUnfinishedMutation string string journal_phase
| LseUnclassifiedRuntimeJournal path

datatype locked_revalidation_status = LrsRevalidated | LrsRevalidationBlocked

record locked_revalidation =
  lrv_status :: locked_revalidation_status
  lrv_identity :: identity_revalidation
  lrv_capabilities_match :: bool
  lrv_blockers :: "string list"

record locked_session =
  ls_lock_path :: path
  ls_session_id :: string
  ls_handoff :: frozen_execution_handoff
  ls_journal :: operation_journal
  ls_journal_store :: "path option"
  ls_revalidation_attempted :: bool

definition MUTATION_ENABLED :: bool where
  "MUTATION_ENABLED = False"

record session_digests =
  sd_codec :: journal_codec
  sd_attempt :: "string \<Rightarrow> u64 \<Rightarrow> string"
  sd_session :: "string \<Rightarrow> u32 \<Rightarrow> u64 \<Rightarrow> path \<Rightarrow> string"
  sd_manifest :: manifest_digest_fun
  sd_capabilities :: "host_capabilities \<Rightarrow> (planner_error, string) result"

type_synonym 'a session_action = "(locked_session \<times> world, locked_session_error, 'a) state_action"

definition on_store :: "'a js_action \<Rightarrow> 'a session_action" where
  "on_store m sw = (case m (snd sw) of (r, w') \<Rightarrow> (map_err LseDurableJournal r, (fst sw, w')))"

definition the_session :: "locked_session session_action" where
  "the_session sw = (Inr (fst sw), sw)"

definition set_session :: "(locked_session \<Rightarrow> locked_session) \<Rightarrow> unit session_action" where
  "set_session f sw = (Inr (), (f (fst sw), snd sw))"

section \<open>Starting a session\<close>

definition validate_handoff :: "frozen_execution_handoff \<Rightarrow> (locked_session_error, unit) result" where
  "validate_handoff handoff =
     (if feh_status handoff = EhsBlocked then Inl LseHandoffBlocked
      else if feh_mutation_enabled handoff \<or> MUTATION_ENABLED then Inl LseMutationEnabled else Inr ())"

definition related_attempts :: "operation_journal list \<Rightarrow> operation_journal \<Rightarrow> string list" where
  "related_attempts history proposed =
     map oj_journal_id (filter (\<lambda>j. oj_plan_id j = oj_plan_id proposed \<and> oj_target j = oj_target proposed
        \<and> oj_baseline_manifest_digest j = oj_baseline_manifest_digest proposed) history)"

definition safely_aborted :: "operation_journal \<Rightarrow> operation_journal \<Rightarrow> bool" where
  "safely_aborted proposed previous =
     (oj_phase previous = JpAborted \<and> \<not> oj_mutation_may_have_started previous
      \<and> oj_plan_id previous = oj_plan_id proposed \<and> oj_target previous = oj_target proposed
      \<and> oj_baseline_manifest_digest previous = oj_baseline_manifest_digest proposed)"

text \<open>The loop over the attempts, with the number of attempts left and the related records not met yet.\<close>

fun attempt_loop ::
  "(string \<Rightarrow> u64 \<Rightarrow> string) \<Rightarrow> operation_journal list \<Rightarrow> operation_journal \<Rightarrow> nat \<Rightarrow> u64 \<Rightarrow> string list
     \<Rightarrow> (journal_store_error, string) result" where
  "attempt_loop digest history proposed 0 attempt related =
     Inl (JseInvalidRecord ''too many retained attempts for this plan'')"
| "attempt_loop digest history proposed (Suc left) attempt related =
     (let candidate = (if attempt = 0 then oj_journal_id proposed else digest (oj_journal_id proposed) attempt)
      in case find (\<lambda>j. oj_journal_id j = candidate) history of
           None \<Rightarrow>
             (if related = [] then Inr candidate
              else Inl (JseInvalidRecord ''journal attempt history has a gap or unrecognized entry''))
         | Some previous \<Rightarrow>
             (if safely_aborted proposed previous
              then attempt_loop digest history proposed left (attempt + 1) (removeAll candidate related)
              else Inl (JseAlreadyExists candidate)))"

definition next_attempt_id ::
  "(string \<Rightarrow> u64 \<Rightarrow> string) \<Rightarrow> operation_journal list \<Rightarrow> operation_journal \<Rightarrow> (journal_store_error, string) result" where
  "next_attempt_id digest history proposed =
     attempt_loop digest history proposed 1024 0 (related_attempts history proposed)"

definition unfinished_mutation :: "operation_journal \<Rightarrow> locked_session_error" where
  "unfinished_mutation j = LseUnfinishedMutation (oj_journal_id j) (oj_target j) (oj_phase j)"

definition blocks_session :: "string \<Rightarrow> operation_journal \<Rightarrow> bool" where
  "blocks_session plan_id j =
     (oj_mutation_may_have_started j \<and> (oj_phase j \<noteq> JpCompleted \<or> oj_plan_id j = plan_id))"

type_synonym 'a start_action = "(locked_session_error, 'a) action"

definition in_journals :: "'a js_action \<Rightarrow> 'a start_action" where
  "in_journals m = act_map_err LseDurableJournal m"

definition require_no_evidence :: "io_env \<Rightarrow> path \<Rightarrow> unit start_action" where
  "require_no_evidence env root =
     act_bind (in_journals (unclassified_runtime_evidence env root)) (\<lambda>paths.
       act_lift (case paths of [] \<Rightarrow> Inr () | p # _ \<Rightarrow> Inl (LseUnclassifiedRuntimeJournal p)))"

definition read_history ::
  "session_digests \<Rightarrow> io_env \<Rightarrow> frozen_execution_handoff \<Rightarrow> path \<Rightarrow> operation_journal list start_action" where
  "read_history sd env handoff root =
     act_then (in_journals (js_ensure_secure_directory env root True))
    (act_then (require_no_evidence env root)
    (act_bind (in_journals (all_journals (sd_codec sd) env root)) (\<lambda>history.
       act_lift (case find (blocks_session (ppv_plan_id (feh_plan handoff))) history of
           None \<Rightarrow> Inr history | Some previous \<Rightarrow> Inl (unfinished_mutation previous)))))"

definition apply_to :: "guard_digest_fun \<Rightarrow> journal_transition \<Rightarrow> operation_journal
     \<Rightarrow> (locked_session_error, operation_journal) result" where
  "apply_to fp t j =
     (case apply_transition fp t j of (j', r) \<Rightarrow> (case r of Inl e \<Rightarrow> Inl (LseJournal e) | Inr _ \<Rightarrow> Inr j'))"

definition publish_session_journal ::
  "session_digests \<Rightarrow> io_env \<Rightarrow> path \<Rightarrow> operation_journal list \<Rightarrow> operation_journal \<Rightarrow> unit start_action" where
  "publish_session_journal sd env root history j =
     act_bind (in_journals (all_journals (sd_codec sd) env root)) (\<lambda>again.
     act_then (act_lift (require (history = again) (LseDurableJournal JseChangedDuringInspection)))
    (act_then (require_no_evidence env root)
    (act_then (in_journals (js_persist_new (sd_codec sd) env root j))
    (act_bind (in_journals (all_journals (sd_codec sd) env root)) (\<lambda>after.
     act_then (act_lift (require (after = sort_key oj_journal_id (history @ [j]))
         (LseDurableJournal JseChangedDuringInspection)))
       (require_no_evidence env root))))))"

definition build_session_id ::
  "session_digests \<Rightarrow> io_env \<Rightarrow> u64 \<Rightarrow> frozen_execution_handoff \<Rightarrow> path \<Rightarrow> string" where
  "build_session_id sd env sequence handoff lock_path =
     sd_session sd (feh_handoff_id handoff) (e_pid env) sequence lock_path"

definition begin_with_lock ::
  "session_digests \<Rightarrow> io_env \<Rightarrow> u64 \<Rightarrow> frozen_execution_handoff \<Rightarrow> path \<Rightarrow> path option \<Rightarrow> locked_session start_action" where
  "begin_with_lock sd env sequence handoff lock_path store =
     act_then (act_lift (validate_handoff handoff))
    (act_bind (case store of None \<Rightarrow> act_lift (Inr None)
        | Some root \<Rightarrow> act_bind (read_history sd env handoff root) (\<lambda>h. act_lift (Inr (Some h)))) (\<lambda>history.
     act_bind (act_lift (case history of
          None \<Rightarrow> Inr (new_journal (feh_guard handoff))
        | Some h \<Rightarrow> and_then (map_err LseDurableJournal (next_attempt_id (sd_attempt sd) h (new_journal (feh_guard handoff))))
            (\<lambda>i. Inr ((new_journal (feh_guard handoff))\<lparr>oj_journal_id := i\<rparr>)))) (\<lambda>proposed.
     act_bind (act_lift (apply_to (jc_digest (sd_codec sd)) JtHostLockAcquired proposed)) (\<lambda>j.
     act_then (case store of None \<Rightarrow> act_lift (Inr ())
        | Some root \<Rightarrow> publish_session_journal sd env root (case history of None \<Rightarrow> [] | Some h \<Rightarrow> h) j)
       (act_lift (Inr \<lparr> ls_lock_path = lock_path,
          ls_session_id = build_session_id sd env sequence handoff lock_path,
          ls_handoff = handoff, ls_journal = j, ls_journal_store = store,
          ls_revalidation_attempted = False \<rparr>))))))"

definition begin_session ::
  "session_digests \<Rightarrow> bool \<Rightarrow> io_env \<Rightarrow> u64 \<Rightarrow> frozen_execution_handoff \<Rightarrow> path \<Rightarrow> path option \<Rightarrow> locked_session start_action" where
  "begin_session sd held env sequence handoff lock_path store =
     act_then (act_lift (validate_handoff handoff))
    (act_bind (act_map_err LseLock (try_acquire_path held env lock_path)) (\<lambda>lock.
       begin_with_lock sd env sequence handoff lock store))"

section \<open>Advancing the journal of a session\<close>

definition check_durable ::
  "locked_session \<Rightarrow> operation_journal list \<Rightarrow> (locked_session_error, unit) result" where
  "check_durable s all =
     (let own = oj_journal_id (ls_journal s)
      in if find (\<lambda>j. oj_journal_id j = own) all \<noteq> Some (ls_journal s) then Inl LseDurableJournalMismatch
         else case find (\<lambda>j. oj_journal_id j \<noteq> own \<and> blocks_session (oj_plan_id (ls_journal s)) j) all of
           Some previous \<Rightarrow> Inl (unfinished_mutation previous)
         | None \<Rightarrow> Inr ())"

definition require_current_durable_journal :: "session_digests \<Rightarrow> io_env \<Rightarrow> unit session_action" where
  "require_current_durable_journal sd env =
     act_bind the_session (\<lambda>s.
       case ls_journal_store s of
         None \<Rightarrow> act_lift (Inl LseDurableJournalRequired)
       | Some root \<Rightarrow>
           act_bind (on_store (all_journals (sd_codec sd) env root)) (\<lambda>all.
           act_then (act_lift (check_durable s all))
          (act_bind (on_store (unclassified_runtime_evidence env root)) (\<lambda>paths.
             act_lift (case paths of [] \<Rightarrow> Inr () | p # _ \<Rightarrow> Inl (LseUnclassifiedRuntimeJournal p))))))"

text \<open>The common body of the methods \<open>persist_*\<close>.\<close>

definition persist_session_transition ::
  "session_digests \<Rightarrow> io_env \<Rightarrow> journal_transition \<Rightarrow> unit session_action" where
  "persist_session_transition sd env t =
     act_then (require_current_durable_journal sd env)
    (act_bind the_session (\<lambda>s.
       case ls_journal_store s of
         None \<Rightarrow> act_lift (Inl LseDurableJournalRequired)
       | Some root \<Rightarrow>
           act_bind (act_lift (apply_to (jc_digest (sd_codec sd)) t (ls_journal s))) (\<lambda>nxt.
           act_then (on_store (js_persist_if_matches (sd_codec sd) env root (ls_journal s) nxt))
             (set_session (\<lambda>s. s\<lparr>ls_journal := nxt\<rparr>)))))"

definition persist_preconditions_verified :: "session_digests \<Rightarrow> io_env \<Rightarrow> unit session_action" where
  "persist_preconditions_verified sd env = persist_session_transition sd env JtPreconditionsVerified"

definition persist_exact_plan_approved ::
  "session_digests \<Rightarrow> io_env \<Rightarrow> string \<Rightarrow> exact_approval_binding \<Rightarrow> unit session_action" where
  "persist_exact_plan_approved sd env approved_plan_id approval =
     persist_session_transition sd env (JtExactPlanApproved approved_plan_id approval)"

definition persist_execution_started :: "session_digests \<Rightarrow> io_env \<Rightarrow> execution_start_binding \<Rightarrow> unit session_action" where
  "persist_execution_started sd env binding = persist_session_transition sd env (JtExecutionStarted binding)"

definition persist_verification_started :: "session_digests \<Rightarrow> io_env \<Rightarrow> unit session_action" where
  "persist_verification_started sd env = persist_session_transition sd env JtVerificationStarted"

definition persist_verification_passed_continue ::
  "session_digests \<Rightarrow> io_env \<Rightarrow> u32 \<Rightarrow> u32 \<Rightarrow> string \<Rightarrow> unit session_action" where
  "persist_verification_passed_continue sd env completed nxt digest =
     persist_session_transition sd env (JtVerificationPassedContinue completed nxt digest)"

definition persist_verified_completed :: "session_digests \<Rightarrow> io_env \<Rightarrow> u32 \<Rightarrow> string \<Rightarrow> unit session_action" where
  "persist_verified_completed sd env completed digest =
     persist_session_transition sd env (JtVerificationPassedComplete completed digest)"

definition persist_completed :: "session_digests \<Rightarrow> io_env \<Rightarrow> unit session_action" where
  "persist_completed sd env = persist_session_transition sd env JtCompleted"

definition persist_interrupted :: "session_digests \<Rightarrow> io_env \<Rightarrow> string \<Rightarrow> unit session_action" where
  "persist_interrupted sd env reason = persist_session_transition sd env (JtInterrupted reason)"

section \<open>Revalidation\<close>

definition revalidation_blockers :: "identity_revalidation \<Rightarrow> bool \<Rightarrow> string list" where
  "revalidation_blockers identity capabilities_match =
     map (\<lambda>c. ic_code c @ '': '' @ ic_message c) (irv_changes identity)
     @ (if \<not> capabilities_match
        then [''capability-inventory-changed: storage tool capability inventory changed since the frozen handoff'']
        else [])"

definition advance_revalidated ::
  "session_digests \<Rightarrow> io_env \<Rightarrow> identity_revalidation \<Rightarrow> unit session_action" where
  "advance_revalidated sd env identity =
     act_bind the_session (\<lambda>s.
     act_bind (act_lift (apply_to (jc_digest (sd_codec sd))
         (JtIdentityRevalidated (case irv_fresh_digest identity of
             Some d \<Rightarrow> d | None \<Rightarrow> tim_manifest_digest (feh_target_identity (ls_handoff s)))) (ls_journal s))) (\<lambda>nxt.
     act_then (case ls_journal_store s of None \<Rightarrow> act_lift (Inr ())
        | Some root \<Rightarrow> on_store (js_persist_if_matches (sd_codec sd) env root (ls_journal s) nxt))
       (set_session (\<lambda>s. s\<lparr>ls_journal := nxt\<rparr>))))"

definition revalidate_session ::
  "session_digests \<Rightarrow> io_env \<Rightarrow> host_snapshot \<Rightarrow> host_capabilities \<Rightarrow> locked_revalidation session_action" where
  "revalidate_session sd env fresh_snapshot fresh_capabilities =
     act_bind the_session (\<lambda>s.
     act_then (act_lift (require (\<not> ls_revalidation_attempted s) LseRevalidationAlreadyAttempted))
    (act_then (set_session (\<lambda>s. s\<lparr>ls_revalidation_attempted := True\<rparr>))
    (let identity = revalidate_target_identity (sd_manifest sd) (feh_target_identity (ls_handoff s)) fresh_snapshot
     in act_bind (act_lift (map_err LsePlanner (matches_capabilities (sd_capabilities sd) (ls_handoff s) fresh_capabilities)))
          (\<lambda>capabilities_match.
        act_then (if irv_matches identity \<and> capabilities_match then advance_revalidated sd env identity
                  else act_lift (Inr ()))
          (act_lift (Inr \<lparr> lrv_status = (if irv_matches identity \<and> capabilities_match then LrsRevalidated
                                        else LrsRevalidationBlocked),
             lrv_identity = identity, lrv_capabilities_match = capabilities_match,
             lrv_blockers = revalidation_blockers identity capabilities_match \<rparr>))))))"

section \<open>The history a session starts after\<close>

lemma attempt_loop_ok:
  assumes "attempt_loop digest history proposed left attempt related = Inr c"
  shows "c \<notin> oj_journal_id ` set history
    \<and> (\<forall>i \<in> set related. \<exists>j \<in> set history. oj_journal_id j = i \<and> safely_aborted proposed j)"
  using assms
proof (induction digest history proposed left attempt related rule: attempt_loop.induct)
  case (2 digest history proposed left attempt related)
  let ?c = "if attempt = 0 then oj_journal_id proposed else digest (oj_journal_id proposed) attempt"
  show ?case
  proof (cases "find (\<lambda>j. oj_journal_id j = ?c) history")
    case None
    with 2(2) show ?thesis by (auto simp: Let_def find_None_iff split: if_splits)
  next
    case (Some previous)
    then have p: "previous \<in> set history" "oj_journal_id previous = ?c" by (auto simp: find_Some_iff)
    have a: "safely_aborted proposed previous" using 2(2) Some by (auto simp: Let_def split: if_splits)
    have rest: "c \<notin> oj_journal_id ` set history
        \<and> (\<forall>i \<in> set (removeAll ?c related). \<exists>j \<in> set history. oj_journal_id j = i \<and> safely_aborted proposed j)"
      using 2(1)[OF refl Some a] 2(2) Some a by (simp add: Let_def)
    show ?thesis
    proof (intro conjI ballI)
      fix i assume "i \<in> set related"
      with rest p a show "\<exists>j \<in> set history. oj_journal_id j = i \<and> safely_aborted proposed j"
        by (cases "i = ?c") (blast, simp)
    qed (use rest in blast)
  qed
qed simp

text \<open>The state of the directory a session may start in.\<close>

definition settled_history :: "string \<Rightarrow> operation_journal \<Rightarrow> operation_journal list \<Rightarrow> bool" where
  "settled_history plan_id proposed history =
     (list_all (\<lambda>j. oj_mutation_may_have_started j \<longrightarrow> oj_phase j = JpCompleted \<and> oj_plan_id j \<noteq> plan_id) history
      \<and> list_all (\<lambda>j. oj_plan_id j = oj_plan_id proposed \<and> oj_target j = oj_target proposed
            \<and> oj_baseline_manifest_digest j = oj_baseline_manifest_digest proposed
            \<longrightarrow> oj_phase j = JpAborted \<and> \<not> oj_mutation_may_have_started j) history)"

lemma next_attempt_settles:
  assumes "next_attempt_id digest history proposed = Inr i" and "distinct (map oj_journal_id history)"
    and "find (blocks_session plan_id) history = None"
  shows "i \<notin> oj_journal_id ` set history \<and> settled_history plan_id proposed history"
proof -
  note loop = attempt_loop_ok[OF assms(1)[unfolded next_attempt_id_def]]
  have "safely_aborted proposed j" if j: "j \<in> set history" "oj_journal_id j \<in> set (related_attempts history proposed)" for j
  proof -
    from loop j(2) obtain k where "k \<in> set history" "oj_journal_id k = oj_journal_id j" "safely_aborted proposed k" by blast
    with j(1) assms(2) show ?thesis by (metis distinct_map inj_on_contraD)
  qed
  moreover have "oj_journal_id j \<in> set (related_attempts history proposed)"
    if "j \<in> set history" "oj_plan_id j = oj_plan_id proposed" "oj_target j = oj_target proposed"
      "oj_baseline_manifest_digest j = oj_baseline_manifest_digest proposed" for j
    using that by (simp add: related_attempts_def)
  ultimately have "list_all (\<lambda>j. oj_plan_id j = oj_plan_id proposed \<and> oj_target j = oj_target proposed
      \<and> oj_baseline_manifest_digest j = oj_baseline_manifest_digest proposed
      \<longrightarrow> oj_phase j = JpAborted \<and> \<not> oj_mutation_may_have_started j) history"
    unfolding list_all_iff safely_aborted_def by blast
  moreover have "list_all (\<lambda>j. oj_mutation_may_have_started j \<longrightarrow> oj_phase j = JpCompleted \<and> oj_plan_id j \<noteq> plan_id) history"
    using assms(3) unfolding find_None_iff blocks_session_def list_all_iff by blast
  ultimately show ?thesis using loop by (simp add: settled_history_def)
qed

lemma apply_lock_new:
  "apply_to fp JtHostLockAcquired j = Inr j' \<Longrightarrow>
     oj_phase j' = JpHostLockHeld \<and> oj_journal_id j' = oj_journal_id j \<and> oj_plan_id j' = oj_plan_id j"
  by (auto simp: apply_to_def apply_transition.simps settle_def advance_iff is_terminal_def
      split: sum.splits if_splits prod.splits)

lemma in_journals_Inr: "in_journals m w = (Inr x, w') \<longleftrightarrow> m w = (Inr x, w')"
  by (simp add: in_journals_def act_map_err_Inr)

lemma no_evidence_Inr:
  "require_no_evidence env root w = (Inr u, w') \<longleftrightarrow> unclassified_runtime_evidence env root w = (Inr [], w')"
  by (auto simp: require_no_evidence_def act_bind_Inr in_journals_Inr act_lift_Inr split: list.splits)
    (metis list.exhaust)

lemma read_history_Inr:
  assumes "read_history sd env handoff root w = (Inr history, w')"
  shows "\<exists>w1 w2. js_ensure_secure_directory env root True w = (Inr (), w1)
     \<and> unclassified_runtime_evidence env root w1 = (Inr [], w2)
     \<and> all_journals (sd_codec sd) env root w2 = (Inr history, w')
     \<and> find (blocks_session (ppv_plan_id (feh_plan handoff))) history = None"
  using assms unfolding read_history_def
  by (fastforce simp: act_then_Inr act_bind_Inr act_lift_Inr in_journals_Inr no_evidence_Inr split: option.splits)

lemma publish_session_journal_Inr:
  assumes "publish_session_journal sd env root history j w = (Inr u, w')"
  shows "\<exists>w1 w2 w3 w4. all_journals (sd_codec sd) env root w = (Inr history, w1)
     \<and> unclassified_runtime_evidence env root w1 = (Inr [], w2)
     \<and> js_persist_new (sd_codec sd) env root j w2 = (Inr (), w3)
     \<and> all_journals (sd_codec sd) env root w3 = (Inr (sort_key oj_journal_id (history @ [j])), w4)
     \<and> unclassified_runtime_evidence env root w4 = (Inr [], w')"
  using assms unfolding publish_session_journal_def
  by (fastforce simp: act_then_Inr act_bind_Inr act_lift_Inr in_journals_Inr no_evidence_Inr require_def split: if_splits)

lemma begin_with_lock_settled:
  assumes "begin_with_lock sd env sequence handoff lock (Some root) w = (Inr s, w')"
  shows "\<exists>history w1 w2 w3 w4 w5 w6 w7. js_ensure_secure_directory env root True w = (Inr (), w1)
     \<and> unclassified_runtime_evidence env root w1 = (Inr [], w2)
     \<and> all_journals (sd_codec sd) env root w2 = (Inr history, w3)
     \<and> settled_history (ppv_plan_id (feh_plan handoff)) (new_journal (feh_guard handoff)) history
     \<and> oj_journal_id (ls_journal s) \<notin> oj_journal_id ` set history
     \<and> oj_phase (ls_journal s) = JpHostLockHeld \<and> oj_plan_id (ls_journal s) = egp_plan_id (feh_guard handoff)
     \<and> all_journals (sd_codec sd) env root w3 = (Inr history, w4)
     \<and> unclassified_runtime_evidence env root w4 = (Inr [], w5)
     \<and> js_persist_new (sd_codec sd) env root (ls_journal s) w5 = (Inr (), w6)
     \<and> all_journals (sd_codec sd) env root w6 = (Inr (sort_key oj_journal_id (history @ [ls_journal s])), w7)
     \<and> unclassified_runtime_evidence env root w7 = (Inr [], w')
     \<and> feh_status handoff \<noteq> EhsBlocked \<and> ls_handoff s = handoff \<and> ls_journal_store s = Some root"
proof -
  let ?new = "new_journal (feh_guard handoff)"
  from assms obtain history i j w3 where hand: "validate_handoff handoff = Inr ()"
    and read: "read_history sd env handoff root w = (Inr history, w3)"
    and next_id: "next_attempt_id (sd_attempt sd) history ?new = Inr i"
    and locked: "apply_to (jc_digest (sd_codec sd)) JtHostLockAcquired (?new\<lparr>oj_journal_id := i\<rparr>) = Inr j"
    and pub: "publish_session_journal sd env root history j w3 = (Inr (), w')"
    and s: "s = \<lparr> ls_lock_path = lock, ls_session_id = build_session_id sd env sequence handoff lock,
       ls_handoff = handoff, ls_journal = j, ls_journal_store = Some root, ls_revalidation_attempted = False \<rparr>"
    unfolding begin_with_lock_def
    by (auto simp: act_then_Inr act_bind_Inr act_lift_Inr and_then_Inr)
  from read_history_Inr[OF read] obtain w1 w2 where before: "js_ensure_secure_directory env root True w = (Inr (), w1)"
    "unclassified_runtime_evidence env root w1 = (Inr [], w2)" "all_journals (sd_codec sd) env root w2 = (Inr history, w3)"
    and clear: "find (blocks_session (ppv_plan_id (feh_plan handoff))) history = None" by blast
  have "distinct (map oj_journal_id history)"
    using all_journals_yields[of "sd_codec sd" env root] before(3) unfolding yields_def by (metis fst_conv)
  note settled = next_attempt_settles[OF next_id this clear]
  have held: "oj_phase (ls_journal s) = JpHostLockHeld" "oj_journal_id (ls_journal s) = i"
    "oj_plan_id (ls_journal s) = egp_plan_id (feh_guard handoff)" "ls_journal s = j"
    using apply_lock_new[OF locked] s by (auto simp: new_journal_def)
  have "feh_status handoff \<noteq> EhsBlocked" "ls_handoff s = handoff" "ls_journal_store s = Some root"
    using hand s by (auto simp: validate_handoff_def split: if_splits)
  with publish_session_journal_Inr[OF pub] before settled held show ?thesis by blast
qed

text \<open>C6: a session starts only behind a settled history. Every reading below is a step of the start itself, each in
  the world the one before it left. The directory is made secure, no other runtime has left a record in it, and the
  records found are settled: one that may have changed storage is complete, and belongs to another plan; one for the
  same plan, target and identity was aborted before it changed anything. (An unfinished record of another plan that
  changed nothing does not stand in the way.)
  The session then has a journal of its own, under an identifier that no record had, in the phase that holds the host
  lock. The directory is read a second time and still holds those records and nothing of another runtime; then the
  journal is published; and read a third time the directory holds exactly the records found before and the new one.\<close>

theorem session_starts_after_settled_history:
  "case begin_with_lock sd env sequence handoff lock (Some root) w of
     (Inl _, _) \<Rightarrow> True
   | (Inr s, w') \<Rightarrow> \<exists>history w1 w2 w3 w4 w5 w6 w7. js_ensure_secure_directory env root True w = (Inr (), w1)
     \<and> unclassified_runtime_evidence env root w1 = (Inr [], w2)
     \<and> all_journals (sd_codec sd) env root w2 = (Inr history, w3)
     \<and> settled_history (ppv_plan_id (feh_plan handoff)) (new_journal (feh_guard handoff)) history
     \<and> oj_journal_id (ls_journal s) \<notin> oj_journal_id ` set history
     \<and> oj_phase (ls_journal s) = JpHostLockHeld \<and> oj_plan_id (ls_journal s) = egp_plan_id (feh_guard handoff)
     \<and> all_journals (sd_codec sd) env root w3 = (Inr history, w4)
     \<and> unclassified_runtime_evidence env root w4 = (Inr [], w5)
     \<and> js_persist_new (sd_codec sd) env root (ls_journal s) w5 = (Inr (), w6)
     \<and> all_journals (sd_codec sd) env root w6 = (Inr (sort_key oj_journal_id (history @ [ls_journal s])), w7)
     \<and> unclassified_runtime_evidence env root w7 = (Inr [], w')
     \<and> feh_status handoff \<noteq> EhsBlocked \<and> ls_handoff s = handoff \<and> ls_journal_store s = Some root"
  using begin_with_lock_settled[of sd env sequence handoff lock root w]
  by (cases "begin_with_lock sd env sequence handoff lock (Some root) w") (simp split: sum.split)

section \<open>An advance is durable\<close>

lemma apply_to_keeps_id:
  assumes "apply_to fp t j = Inr j'"
  shows "oj_journal_id j' = oj_journal_id j"
proof -
  from assms have "apply_transition fp t j = (j', Inr ())"
    by (auto simp: apply_to_def split: prod.splits sum.splits)
  then have "journal_step fp j t j'" by (simp add: apply_ok_iff)
  then show ?thesis by cases auto
qed

text \<open>The part of \<open>persist_session_transition\<close> that acts on the world; its value is the next journal.\<close>

definition session_update ::
  "session_digests \<Rightarrow> io_env \<Rightarrow> path \<Rightarrow> locked_session \<Rightarrow> journal_transition \<Rightarrow> operation_journal start_action" where
  "session_update sd env root s t =
     act_bind (in_journals (all_journals (sd_codec sd) env root)) (\<lambda>all.
     act_then (act_lift (check_durable s all))
    (act_bind (in_journals (unclassified_runtime_evidence env root)) (\<lambda>paths.
     act_then (act_lift (case paths of [] \<Rightarrow> Inr () | p # _ \<Rightarrow> Inl (LseUnclassifiedRuntimeJournal p)))
    (act_bind (act_lift (apply_to (jc_digest (sd_codec sd)) t (ls_journal s))) (\<lambda>nxt.
     act_then (in_journals (js_persist_if_matches (sd_codec sd) env root (ls_journal s) nxt))
       (act_lift (Inr nxt)))))))"

lemma persist_session_transition_world:
  assumes "ls_journal_store s = Some root"
  shows "persist_session_transition sd env t (s, w) =
    (case session_update sd env root s t w of
       (Inl e, w') \<Rightarrow> (Inl e, (s, w'))
     | (Inr nxt, w') \<Rightarrow> (Inr (), (s\<lparr>ls_journal := nxt\<rparr>, w')))"
  using assms
  by (simp add: persist_session_transition_def require_current_durable_journal_def session_update_def act_then_def
      act_bind_def on_store_def in_journals_def act_map_err_def the_session_def set_session_def act_lift_def map_err_def
      split: prod.split sum.split list.split)

lemma session_update_keeps:
  fixes s root defines "f \<equiv> child root (oj_journal_id (ls_journal s) @ ''.json'')"
  assumes S: "\<And>nxt bytes. apply_to (jc_digest (sd_codec sd)) t (ls_journal s) = Inr nxt
    \<Longrightarrow> encode_record (sd_codec sd) nxt = Inr bytes \<Longrightarrow> Intact bytes \<in> S"
  shows "triple (kept S f) (former f S i0 n0) (session_update sd env root s t)
    (\<lambda>nxt h. apply_to (jc_digest (sd_codec sd)) t (ls_journal s) = Inr nxt
       \<and> (\<exists>bytes digest. encode_record (sd_codec sd) nxt = Inr bytes
          \<and> journal_content_digest (sd_codec sd) (ls_journal s) = Inr digest \<and> published env f bytes h
          \<and> retained (child root (history_name (ls_journal s) nxt digest)) i0 n0 h))
    (\<lambda>_. kept S f)"
proof -
  let ?Q = "\<lambda>nxt h. apply_to (jc_digest (sd_codec sd)) t (ls_journal s) = Inr nxt
       \<and> (\<exists>bytes digest. encode_record (sd_codec sd) nxt = Inr bytes
          \<and> journal_content_digest (sd_codec sd) (ls_journal s) = Inr digest \<and> published env f bytes h
          \<and> retained (child root (history_name (ls_journal s) nxt digest)) i0 n0 h)"
  have store: "triple (kept S f) (former f S i0 n0)
      (act_then (in_journals (js_persist_if_matches (sd_codec sd) env root (ls_journal s) nxt)) (act_lift (Inr nxt)))
      ?Q (\<lambda>_. kept S f)" if nxt: "apply_to (jc_digest (sd_codec sd)) t (ls_journal s) = Inr nxt" for nxt
  proof (rule triple_then)
    have f: "f = child root (oj_journal_id nxt @ ''.json'')" by (simp add: f_def apply_to_keeps_id[OF nxt])
    show "triple (kept S f) (former f S i0 n0)
        (in_journals (js_persist_if_matches (sd_codec sd) env root (ls_journal s) nxt)) (\<lambda>_. ?Q nxt) (\<lambda>_. kept S f)"
      unfolding in_journals_def f
      by (rule triple_map_err, rule triple_weaken[OF persist_if_matches_keeps[where S = S]])
        (use S[OF nxt] nxt in auto)
    show "triple (kept S f) (?Q nxt) (act_lift (Inr nxt)) ?Q (\<lambda>_. kept S f)" by (rule triple_lift) simp
  qed
  show ?thesis unfolding session_update_def in_journals_def
    by (rule triple_bind_skip, intro js_reading, rule former_kept, assumption,
        rule triple_guard_then, rule triple_bind_skip, intro js_reading, rule former_kept, assumption,
        rule triple_guard_then, rule triple_guard_value, rule store[unfolded in_journals_def]) auto
qed

text \<open>C3: whatever the calls answer and wherever the power fails, advancing the journal of a session leaves at
  its name the former record or the new one, whole, never neither. The journal in memory advances only with the
  record: after an error it is the former one; after a success it is what the transition makes of it, the new record
  is on the disk under its name in a private file, and the file of the former record is on the disk, untouched, under a
  history name.\<close>

theorem session_advance_is_durable:
  assumes "ls_journal_store s = Some root" and "w_history w = []"
    and "former (child root (oj_journal_id (ls_journal s) @ ''.json'')) {Intact old} i0 n0 (w_host w)"
    and "persist_session_transition sd env t (s, w) = (r, (s', w'))"
  shows "(\<forall>h \<in> set (w_history w'). set (survivors h (child root (oj_journal_id (ls_journal s) @ ''.json'')))
            \<subseteq> {Intact old} \<union> {Intact bytes |nxt bytes. apply_to (jc_digest (sd_codec sd)) t (ls_journal s) = Inr nxt
                 \<and> encode_record (sd_codec sd) nxt = Inr bytes})
     \<and> (case r of
          Inl _ \<Rightarrow> s' = s
        | Inr _ \<Rightarrow> \<exists>nxt bytes digest. s' = s\<lparr>ls_journal := nxt\<rparr>
            \<and> apply_to (jc_digest (sd_codec sd)) t (ls_journal s) = Inr nxt
            \<and> encode_record (sd_codec sd) nxt = Inr bytes
            \<and> published env (child root (oj_journal_id (ls_journal s) @ ''.json'')) bytes (w_host w')
            \<and> retained (child root (history_name (ls_journal s) nxt digest)) i0 n0 (w_host w'))"
proof -
  let ?f = "child root (oj_journal_id (ls_journal s) @ ''.json'')"
  let ?S = "{Intact old} \<union> {Intact bytes |nxt bytes. apply_to (jc_digest (sd_codec sd)) t (ls_journal s) = Inr nxt
                 \<and> encode_record (sd_codec sd) nxt = Inr bytes}"
  obtain v u where run: "session_update sd env root s t w = (v, u)" by (cases "session_update sd env root s t w")
  have pre: "former ?f ?S i0 n0 (w_host w)" using assms(3) by (auto simp: former_def kept_def)
  have none: "list_all (kept ?S ?f) (w_history w)" using assms(2) by simp
  note kept = triple_use[OF session_update_keeps[of sd t s ?S root i0 n0 env] pre none run]
  have "list_all (kept ?S ?f) (w_history u)" by (rule kept(1)) auto
  moreover have "w' = u" "case v of Inl e \<Rightarrow> s' = s \<and> r = Inl e | Inr nxt \<Rightarrow> s' = s\<lparr>ls_journal := nxt\<rparr> \<and> r = Inr ()"
    using assms(4) unfolding persist_session_transition_world[OF assms(1)] run by (auto split: sum.splits)
  moreover note kept(2)
  ultimately show ?thesis by (auto simp: list_all_iff kept_def split: sum.splits)
qed

text \<open>A session that starts to execute, over a record in the file 1 of \<open>/journals\<close>.\<close>

definition ex_digests :: session_digests where
  "ex_digests = \<lparr> sd_codec = \<lparr> jc_to_vec = \<lambda>_. Some ''new'', jc_from_slice = \<lambda>_. Some ex_approved, jc_digest = ex_fp \<rparr>,
     sd_attempt = \<lambda>_ _. ex_hex, sd_session = \<lambda>_ _ _ _. ex_hex, sd_manifest = \<lambda>_. Inr ex_hex,
     sd_capabilities = \<lambda>_. Inr ex_hex \<rparr>"

definition ex_journals_root :: path where
  "ex_journals_root = [RootDir, Normal ''journals'']"

definition ex_session :: locked_session where
  "ex_session = \<lparr> ls_lock_path = [RootDir, Normal ''lock''], ls_session_id = ex_hex, ls_handoff = projr ex_handoff,
     ls_journal = ex_approved, ls_journal_store = Some ex_journals_root, ls_revalidation_attempted = True \<rparr>"

definition ex_caller :: io_env where
  "ex_caller = \<lparr>e_euid = 0, e_umask = 0, e_pid = 7, e_fault = (\<lambda>_. None)\<rparr>"

definition ex_stored :: world where
  "ex_stored = \<lparr> w_host = \<lparr>
       h_names = [[RootDir] \<mapsto> 2, ex_journals_root \<mapsto> 3, child ex_journals_root (ex_hex @ ''.json'') \<mapsto> 1],
       h_disk = \<lambda>_. [],
       h_inodes = \<lambda>i. if i = 1 then file_with ex_caller ''old'' True
          else (new_inode ex_caller FkDirectory 0x1C0), h_next = 4 \<rparr>,
     w_calls = 0, w_history = [], w_temp_sequence = 0 \<rparr>"

theorem session_advance_is_durable_witness:
  "let w' = snd (snd (persist_session_transition ex_digests ex_caller (JtExecutionStarted ex_binding) (ex_session, ex_stored)))
   in \<forall>h \<in> set (w_history w'). set (survivors h (child ex_journals_root (ex_hex @ ''.json'')))
        \<subseteq> {Intact ''old'', Intact (''new'' @ [char_of (10::nat)])}"
proof -
  have id: "oj_journal_id (ls_journal ex_session) = ex_hex" and store: "ls_journal_store ex_session = Some ex_journals_root"
    by (simp_all add: ex_session_def ex_approved_code)
  have former: "former (child ex_journals_root (oj_journal_id (ls_journal ex_session) @ ''.json'')) {Intact ''old''} 1
      (file_with ex_caller ''old'' True) (w_host ex_stored)"
    unfolding id by (simp add: former_def kept_def survivors_def entries_def survivor_def allocated_def ex_stored_def file_with_def)
  obtain r s' w' where run: "persist_session_transition ex_digests ex_caller (JtExecutionStarted ex_binding) (ex_session, ex_stored)
      = (r, (s', w'))" by (metis prod.exhaust)
  have enc: "encode_record (sd_codec ex_digests) nxt = Inr bytes \<Longrightarrow> bytes = ''new'' @ [char_of (10::nat)]" for nxt bytes
    by (simp add: encode_record_def ex_digests_def MAX_JOURNAL_BYTES_def)
  show ?thesis
    using session_advance_is_durable[OF store _ former run, unfolded id] enc unfolding run by (fastforce simp: ex_stored_def)
qed

end
