(* ===== verification/SessionApproval.thy ===== *)
theory SessionApproval
  imports LockedSession
begin

text \<open>
  From a revalidated session to an approved one: \<open>verify_preconditions\<close> of \<open>crates/executor/src/preconditions.rs\<close> over the
  evidence bundle of \<open>precondition_evidence.rs\<close>, the approval of \<open>approval.rs\<close>, and the reconciliation of an abandoned
  operation of \<open>reconciliation.rs\<close>. How a bundle is collected is not modelled: it is the argument. Its
  digest is a parameter.
\<close>

section \<open>Preconditions\<close>

datatype pre_mutation_evidence_status = PesEvidenceComplete | PesFutureChecksRequired | PesBlocked

record pre_mutation_evidence_bundle =
  pmb_schema_version :: u32
  pmb_bundle_id :: string
  pmb_locked_session_id :: string
  pmb_handoff_id :: string
  pmb_plan_id :: string
  pmb_target_manifest_digest :: string
  pmb_backup_manifest_id :: string
  pmb_backup_receipt_id :: string
  pmb_backup_receipt_revalidated :: bool
  pmb_filesystem_health_receipt_id :: "string option"
  pmb_filesystem_decision :: filesystem_growth_decision
  pmb_status :: pre_mutation_evidence_status
  pmb_owner_acceptance_required :: bool
  pmb_mutation_enabled :: bool
  pmb_blockers :: "string list"
  pmb_future_gates :: "string list"

text \<open>The digest of a bundle leaves its identifier out.\<close>

definition evidence_integrity_matches ::
  "(pre_mutation_evidence_bundle \<Rightarrow> (string, string) result) \<Rightarrow> pre_mutation_evidence_bundle \<Rightarrow> (string, bool) result" where
  "evidence_integrity_matches fpb evidence =
     and_then (fpb (evidence\<lparr>pmb_bundle_id := []\<rparr>)) (\<lambda>d. Inr (pmb_bundle_id evidence = d))"

record preconditions_verification =
  pcv_bundle_id :: string
  pcv_locked_session_id :: string
  pcv_journal_id :: string
  pcv_plan_id :: string
  pcv_target_manifest_digest :: string
  pcv_journal_digest :: string
  pcv_filesystem_decision :: filesystem_growth_decision

datatype preconditions_verification_error =
  PveSessionNotIdentityRevalidated
| PveDurableJournalRequired
| PveMutationEnabled
| PveUnsupportedEvidenceSchema
| PveEvidenceIntegrityMismatch
| PveSessionBindingMismatch
| PveHandoffBindingMismatch
| PvePlanBindingMismatch
| PveTargetBindingMismatch
| PveBackupBindingInvalid
| PveBackupReceiptNotRevalidated
| PveEvidenceIncomplete
| PveEvidenceBlocked
| PveFilesystemNotReady
| PveFilesystemChecksRemain
| PveOwnerAcceptanceInvariant
| PveSerialization string
| PveSession locked_session_error

definition evidence_digests_valid :: "pre_mutation_evidence_bundle \<Rightarrow> bool" where
  "evidence_digests_valid e =
     (list_all is_lower_hex_digest
        [pmb_bundle_id e, pmb_locked_session_id e, pmb_handoff_id e, pmb_plan_id e, pmb_target_manifest_digest e,
         pmb_backup_manifest_id e, pmb_backup_receipt_id e]
      \<and> (case pmb_filesystem_health_receipt_id e of None \<Rightarrow> True | Some i \<Rightarrow> is_lower_hex_digest i))"

definition filesystem_checks_remain :: "pre_mutation_evidence_bundle \<Rightarrow> bool" where
  "filesystem_checks_remain e =
     (fgd_read_only_check (pmb_filesystem_decision e) \<noteq> None
      \<or> list_ex (\<lambda>gate. starts_with ''filesystem:'' gate \<or> starts_with ''filesystem check required:'' gate)
          (pmb_future_gates e))"

text \<open>The guards of \<open>verify_preconditions\<close>, in their order.\<close>

definition preconditions_checks ::
  "(pre_mutation_evidence_bundle \<Rightarrow> (string, string) result) \<Rightarrow> locked_session \<Rightarrow> pre_mutation_evidence_bundle
     \<Rightarrow> (preconditions_verification_error, unit) result list" where
  "preconditions_checks fpb s e =
     (let handoff = ls_handoff s
      in [require (oj_phase (ls_journal s) = JpIdentityRevalidated) PveSessionNotIdentityRevalidated,
          require (ls_journal_store s \<noteq> None) PveDurableJournalRequired,
          require (\<not> (MUTATION_ENABLED \<or> feh_mutation_enabled handoff \<or> pmb_mutation_enabled e)) PveMutationEnabled,
          require (pmb_schema_version e = 3) PveUnsupportedEvidenceSchema,
          and_then (map_err PveSerialization (evidence_integrity_matches fpb e))
            (\<lambda>ok. require ok PveEvidenceIntegrityMismatch),
          require (pmb_locked_session_id e = ls_session_id s) PveSessionBindingMismatch,
          require (pmb_handoff_id e = feh_handoff_id handoff) PveHandoffBindingMismatch,
          require (pmb_plan_id e = ppv_plan_id (feh_plan handoff)) PvePlanBindingMismatch,
          require (pmb_target_manifest_digest e = tim_manifest_digest (feh_target_identity handoff)) PveTargetBindingMismatch,
          require (feh_owner_acceptance_required handoff \<and> pmb_owner_acceptance_required e) PveOwnerAcceptanceInvariant,
          require (evidence_digests_valid e) PveBackupBindingInvalid,
          require (pmb_backup_receipt_revalidated e) PveBackupReceiptNotRevalidated,
          require (pmb_status e = PesEvidenceComplete) PveEvidenceIncomplete,
          require (pmb_blockers e = []) PveEvidenceBlocked,
          require (execution_ready (pmb_filesystem_decision e)) PveFilesystemNotReady,
          require (\<not> filesystem_checks_remain e) PveFilesystemChecksRemain])"

definition in_session :: "(locked_session_error \<Rightarrow> 'e) \<Rightarrow> 'a session_action \<Rightarrow> (locked_session \<times> world, 'e, 'a) state_action" where
  "in_session wrap m = act_map_err wrap m"

text \<open>\<open>journal_digest\<close>\<close>

definition journal_digest :: "guard_digest_fun \<Rightarrow> operation_journal \<Rightarrow> (string, string) result" where
  "journal_digest fp j = fp (GiJournal j)"

definition session_now :: "(locked_session \<times> world, 'e, locked_session) state_action" where
  "session_now sw = (Inr (fst sw), sw)"

definition verify_preconditions ::
  "session_digests \<Rightarrow> (pre_mutation_evidence_bundle \<Rightarrow> (string, string) result) \<Rightarrow> io_env \<Rightarrow> pre_mutation_evidence_bundle
     \<Rightarrow> (locked_session \<times> world, preconditions_verification_error, preconditions_verification) state_action" where
  "verify_preconditions sd fpb env e =
     act_bind session_now (\<lambda>s.
     act_then (act_lift (first_error (preconditions_checks fpb s e)))
    (act_then (in_session PveSession (persist_preconditions_verified sd env))
    (act_bind session_now (\<lambda>s'.
     act_bind (act_lift (map_err PveSerialization (journal_digest (jc_digest (sd_codec sd)) (ls_journal s')))) (\<lambda>digest.
       act_lift (Inr \<lparr> pcv_bundle_id = pmb_bundle_id e, pcv_locked_session_id = ls_session_id s',
         pcv_journal_id = oj_journal_id (ls_journal s'), pcv_plan_id = oj_plan_id (ls_journal s'),
         pcv_target_manifest_digest = oj_baseline_manifest_digest (ls_journal s'),
         pcv_journal_digest = digest, pcv_filesystem_decision = pmb_filesystem_decision e \<rparr>))))))"

section \<open>Approval\<close>

record exact_plan_approval =
  xpa_binding :: exact_approval_binding
  xpa_journal_id :: string
  xpa_filesystem_decision :: filesystem_growth_decision
  xpa_owner_acceptance_required :: bool
  xpa_mutation_enabled :: bool

datatype exact_plan_approval_error =
  PaeOperatorConfirmationMismatch
| PaeSessionNotPreconditionsVerified
| PaeDurableJournalRequired
| PaeMutationEnabled
| PaeVerificationSessionMismatch
| PaeVerificationJournalMismatch
| PaeVerificationPlanMismatch
| PaeVerificationTargetMismatch
| PaeVerificationJournalStale
| PaeApprovedPlanMismatch
| PaeApprovedEvidenceMismatch
| PaeApprovedTargetMismatch
| PaeInvalidDigestIdentity
| PaeOwnerAcceptanceInvariant
| PaeSerialization string
| PaeSession locked_session_error

definition operator_confirmation_phrase :: "preconditions_verification \<Rightarrow> string" where
  "operator_confirmation_phrase v = ''EXTEND '' @ pcv_bundle_id v"

definition approval_checks ::
  "guard_digest_fun \<Rightarrow> locked_session \<Rightarrow> preconditions_verification \<Rightarrow> string \<Rightarrow> string \<Rightarrow> string
     \<Rightarrow> (exact_plan_approval_error, unit) result list" where
  "approval_checks fp s v approved_plan approved_evidence approved_target =
     (let handoff = ls_handoff s; j = ls_journal s
      in [require (oj_phase j = JpPreconditionsVerified) PaeSessionNotPreconditionsVerified,
          require (ls_journal_store s \<noteq> None) PaeDurableJournalRequired,
          require (\<not> (MUTATION_ENABLED \<or> feh_mutation_enabled handoff)) PaeMutationEnabled,
          require (pcv_locked_session_id v = ls_session_id s) PaeVerificationSessionMismatch,
          require (pcv_journal_id v = oj_journal_id j) PaeVerificationJournalMismatch,
          require (pcv_plan_id v = oj_plan_id j \<and> pcv_plan_id v = ppv_plan_id (feh_plan handoff))
            PaeVerificationPlanMismatch,
          require (pcv_target_manifest_digest v = oj_baseline_manifest_digest j
              \<and> pcv_target_manifest_digest v = tim_manifest_digest (feh_target_identity handoff))
            PaeVerificationTargetMismatch,
          and_then (map_err PaeSerialization (journal_digest fp j))
            (\<lambda>current. require (pcv_journal_digest v = current) PaeVerificationJournalStale),
          require (approved_plan = pcv_plan_id v) PaeApprovedPlanMismatch,
          require (approved_evidence = pcv_bundle_id v) PaeApprovedEvidenceMismatch,
          require (approved_target = pcv_target_manifest_digest v) PaeApprovedTargetMismatch,
          require (feh_owner_acceptance_required handoff) PaeOwnerAcceptanceInvariant,
          require (list_all is_lower_hex_digest
              [pcv_bundle_id v, pcv_locked_session_id v, pcv_journal_id v, pcv_plan_id v,
               pcv_target_manifest_digest v, pcv_journal_digest v]) PaeInvalidDigestIdentity])"

definition approval_binding_of :: "preconditions_verification \<Rightarrow> exact_approval_binding" where
  "approval_binding_of v =
     \<lparr> eab_schema_version = 1, eab_approval_id = [], eab_plan_id = pcv_plan_id v,
       eab_evidence_bundle_id = pcv_bundle_id v, eab_target_manifest_digest = pcv_target_manifest_digest v,
       eab_locked_session_id = pcv_locked_session_id v,
       eab_preconditions_journal_digest = pcv_journal_digest v \<rparr>"

definition approve_exact_plan ::
  "session_digests \<Rightarrow> io_env \<Rightarrow> preconditions_verification \<Rightarrow> string \<Rightarrow> string \<Rightarrow> string
     \<Rightarrow> (locked_session \<times> world, exact_plan_approval_error, exact_plan_approval) state_action" where
  "approve_exact_plan sd env v approved_plan approved_evidence approved_target =
     act_bind session_now (\<lambda>s.
     act_then (act_lift (first_error
         (approval_checks (jc_digest (sd_codec sd)) s v approved_plan approved_evidence approved_target)))
    (act_bind (act_lift (map_err PaeSerialization
         (expected_approval_id (jc_digest (sd_codec sd)) (approval_binding_of v)))) (\<lambda>approval_id.
     let binding = (approval_binding_of v)\<lparr>eab_approval_id := approval_id\<rparr>
     in act_then (in_session PaeSession (persist_exact_plan_approved sd env approved_plan binding))
       (act_bind session_now (\<lambda>s'.
          act_lift (Inr \<lparr> xpa_binding = binding, xpa_journal_id = oj_journal_id (ls_journal s'),
            xpa_filesystem_decision = pcv_filesystem_decision v,
            xpa_owner_acceptance_required = True, xpa_mutation_enabled = False \<rparr>))))))"

definition approve_operator_plan ::
  "session_digests \<Rightarrow> io_env \<Rightarrow> preconditions_verification \<Rightarrow> string
     \<Rightarrow> (locked_session \<times> world, exact_plan_approval_error, exact_plan_approval) state_action" where
  "approve_operator_plan sd env v confirmation =
     (if confirmation \<noteq> operator_confirmation_phrase v then act_lift (Inl PaeOperatorConfirmationMismatch)
      else approve_exact_plan sd env v (pcv_plan_id v) (pcv_bundle_id v) (pcv_target_manifest_digest v))"

section \<open>Reconciliation\<close>

datatype reconciliation_error =
  RceLock host_lock_error
| RceStore journal_store_error
| RceJournal journal_error
| RceConfirmationMismatch
| RceJournalChanged
| RceAmbiguousMutation
| RceTerminal

definition ABANDONED_REASON :: string where
  "ABANDONED_REASON = ''operator reconciled abandoned pre-write operation; no mutation boundary was crossed''"

definition reconcile_checks ::
  "operation_journal \<Rightarrow> string \<Rightarrow> operation_journal \<Rightarrow> (reconciliation_error, unit) result list" where
  "reconcile_checks shown confirmation j =
     [require (j = shown) RceJournalChanged,
      require (confirmation = ''ABORT '' @ oj_journal_id j) RceConfirmationMismatch,
      require (\<not> (oj_mutation_may_have_started j \<or> oj_phase j \<in> {JpExecuting, JpVerifying, JpRecoveryRequired}))
        RceAmbiguousMutation,
      require (oj_phase j \<notin> {JpCompleted, JpAborted}) RceTerminal]"

definition reconcile_prewrite_at ::
  "journal_codec \<Rightarrow> bool \<Rightarrow> io_env \<Rightarrow> path \<Rightarrow> operation_journal \<Rightarrow> string \<Rightarrow> path
     \<Rightarrow> (reconciliation_error, operation_journal) action" where
  "reconcile_prewrite_at jc held env root shown confirmation lock_path =
     act_then (act_map_err RceLock (try_acquire_path held env lock_path))
    (act_then (act_map_err RceStore (all_journals jc env root))
    (act_bind (act_map_err RceStore (js_load jc env root (oj_journal_id shown))) (\<lambda>j.
     act_then (act_lift (first_error (reconcile_checks shown confirmation j)))
    (act_bind (act_lift (case apply_transition (jc_digest jc) (JtAbort ABANDONED_REASON) j of
          (_, Inl e) \<Rightarrow> Inl (RceJournal e) | (j', Inr _) \<Rightarrow> Inr j')) (\<lambda>aborted.
     act_then (act_map_err RceStore (js_persist_if_matches jc env root j aborted))
       (act_lift (Inr aborted)))))))"

section \<open>What an approval binds\<close>

lemma persist_if_matches_valid:
  "js_persist_if_matches jc env root expected j w = (Inr u, w') \<Longrightarrow> validate_journal (jc_digest jc) j = Inr ()"
  by (auto simp: js_persist_if_matches_def act_then_Inr act_lift_Inr)

lemma persist_transition_outcome:
  assumes "persist_session_transition sd env t (s, w) = (r, (s', w'))"
  shows "case r of Inl _ \<Rightarrow> s' = s
    | Inr _ \<Rightarrow> \<exists>nxt. s' = s\<lparr>ls_journal := nxt\<rparr> \<and> ls_journal_store s \<noteq> None
        \<and> apply_to (jc_digest (sd_codec sd)) t (ls_journal s) = Inr nxt
        \<and> validate_journal (jc_digest (sd_codec sd)) nxt = Inr ()"
proof (cases "ls_journal_store s")
  case None
  with assms show ?thesis
    by (simp add: persist_session_transition_def require_current_durable_journal_def act_then_def act_bind_def
        the_session_def act_lift_def) auto
next
  case (Some root)
  obtain v u where run: "session_update sd env root s t w = (v, u)" by (cases "session_update sd env root s t w")
  show ?thesis
  proof (cases v)
    case (Inl e)
    with assms persist_session_transition_world[OF Some] run show ?thesis by auto
  next
    case (Inr nxt)
    then have "apply_to (jc_digest (sd_codec sd)) t (ls_journal s) = Inr nxt"
      "validate_journal (jc_digest (sd_codec sd)) nxt = Inr ()"
      using run unfolding session_update_def
      by (auto simp: act_then_Inr act_bind_Inr act_lift_Inr in_journals_Inr dest: persist_if_matches_valid)
    with assms persist_session_transition_world[OF Some] run Inr Some show ?thesis by auto
  qed
qed

lemma apply_to_step: "apply_to fp t j = Inr j' \<Longrightarrow> journal_step fp j t j'"
  by (auto simp: apply_to_def apply_ok_iff[symmetric] split: prod.splits sum.splits)

lemma approved_journal:
  assumes "apply_to fp (JtExactPlanApproved p b) j = Inr j'" and "validate_journal fp j' = Inr ()"
  shows "p = oj_plan_id j \<and> oj_journal_id j' = oj_journal_id j \<and> oj_phase j' = JpApproved
    \<and> oj_approval j' = Some b \<and> \<not> oj_mutation_may_have_started j'"
proof -
  from apply_to_step[OF assms(1)] have "p = oj_plan_id j \<and> oj_journal_id j' = oj_journal_id j \<and> oj_phase j' = JpApproved
    \<and> oj_approval j' = Some b" by cases (auto simp: moved_def push_event_def)
  moreover from assms(2) have "oj_mutation_may_have_started j' = mutating (oj_phase j')"
    by (simp add: validate_journal_iff)
  ultimately show ?thesis by simp
qed


lemma approval_checks_ok:
  "first_error (approval_checks fp s v p e g) = Inr () \<longleftrightarrow>
     oj_phase (ls_journal s) = JpPreconditionsVerified \<and> ls_journal_store s \<noteq> None
     \<and> \<not> MUTATION_ENABLED \<and> \<not> feh_mutation_enabled (ls_handoff s)
     \<and> pcv_locked_session_id v = ls_session_id s \<and> pcv_journal_id v = oj_journal_id (ls_journal s)
     \<and> pcv_plan_id v = oj_plan_id (ls_journal s) \<and> pcv_plan_id v = ppv_plan_id (feh_plan (ls_handoff s))
     \<and> pcv_target_manifest_digest v = oj_baseline_manifest_digest (ls_journal s)
     \<and> pcv_target_manifest_digest v = tim_manifest_digest (feh_target_identity (ls_handoff s))
     \<and> journal_digest fp (ls_journal s) = Inr (pcv_journal_digest v)
     \<and> p = pcv_plan_id v \<and> e = pcv_bundle_id v \<and> g = pcv_target_manifest_digest v
     \<and> feh_owner_acceptance_required (ls_handoff s)
     \<and> list_all is_lower_hex_digest
          [pcv_bundle_id v, pcv_locked_session_id v, pcv_journal_id v, pcv_plan_id v,
           pcv_target_manifest_digest v, pcv_journal_digest v]"
  by (auto simp: approval_checks_def Let_def first_error_ok and_then_Inr map_err_Inr)

lemma approve_exact_outcome:
  assumes "approve_exact_plan sd env v p e g (s, w) = (r, (s', w'))"
  shows "case r of Inl _ \<Rightarrow> s' = s
    | Inr a \<Rightarrow> first_error (approval_checks (jc_digest (sd_codec sd)) s v p e g) = Inr ()
        \<and> expected_approval_id (jc_digest (sd_codec sd)) (approval_binding_of v) = Inr (eab_approval_id (xpa_binding a))
        \<and> xpa_binding a = (approval_binding_of v)\<lparr>eab_approval_id := eab_approval_id (xpa_binding a)\<rparr>
        \<and> xpa_journal_id a = oj_journal_id (ls_journal s) \<and> xpa_owner_acceptance_required a \<and> \<not> xpa_mutation_enabled a
        \<and> s' = s\<lparr>ls_journal := ls_journal s'\<rparr> \<and> oj_journal_id (ls_journal s') = oj_journal_id (ls_journal s)
        \<and> oj_phase (ls_journal s') = JpApproved
        \<and> oj_approval (ls_journal s') = Some (xpa_binding a) \<and> \<not> oj_mutation_may_have_started (ls_journal s')"
proof -
  let ?fp = "jc_digest (sd_codec sd)" and ?checks = "first_error (approval_checks (jc_digest (sd_codec sd)) s v p e g)"
  have failed: ?thesis if "?checks = Inl c \<or> expected_approval_id ?fp (approval_binding_of v) = Inl d" for c d
    using that assms
    by (auto simp: approve_exact_plan_def act_bind_def act_then_def act_lift_def session_now_def map_err_def Let_def
        split: sum.splits)
  show ?thesis
  proof (cases ?checks)
    case (Inr u)
    show ?thesis
    proof (cases "expected_approval_id ?fp (approval_binding_of v)")
      case (Inr i)
      let ?b = "(approval_binding_of v)\<lparr>eab_approval_id := i\<rparr>"
      obtain q t w2 where per: "persist_session_transition sd env (JtExactPlanApproved p ?b) (s, w) = (q, (t, w2))"
        by (metis prod.exhaust)
      note out = persist_transition_outcome[OF per]
      have r: "r = (case q of Inl x \<Rightarrow> Inl (PaeSession x) | Inr _ \<Rightarrow> Inr \<lparr> xpa_binding = ?b,
            xpa_journal_id = oj_journal_id (ls_journal t), xpa_filesystem_decision = pcv_filesystem_decision v,
            xpa_owner_acceptance_required = True, xpa_mutation_enabled = False \<rparr>) \<and> s' = t"
        using assms per Inr \<open>?checks = Inr u\<close>
        by (auto simp: approve_exact_plan_def act_bind_def act_then_def act_lift_def session_now_def map_err_def Let_def
            in_session_def act_map_err_def persist_exact_plan_approved_def split: sum.splits)
      show ?thesis
      proof (cases q)
        case (Inr y)
        with out obtain nxt where "t = s\<lparr>ls_journal := nxt\<rparr>"
          "apply_to ?fp (JtExactPlanApproved p ?b) (ls_journal s) = Inr nxt" "validate_journal ?fp nxt = Inr ()" by auto
        with approved_journal[OF this(2,3)] r Inr \<open>?checks = Inr u\<close> \<open>expected_approval_id _ _ = _\<close> show ?thesis
          by simp
      qed (use r out in simp)
    qed (use failed in blast)
  qed (use failed in blast)
qed

section \<open>What reconciliation may close\<close>

lemma closing_ok:
  "(case apply_transition fp t j of (_, Inl e) \<Rightarrow> Inl (RceJournal e) | (j', Inr _) \<Rightarrow> Inr j') = Inr y
     \<longleftrightarrow> apply_transition fp t j = (y, Inr ())"
  by (auto split: prod.splits sum.splits)

text \<open>C8: reconciliation closes an operation only by hand and only before it has written: the host lock was free, the
  record then loaded from the directory is exactly the one the operator was shown, and the operator typed its whole
  identifier; the record has not
  crossed the mutation boundary, is not in a phase that may have, and is not closed already. The outcome is
  an aborted record, with one more event, and the last step published it in place of the record shown.\<close>

theorem reconcile_closes_only_prewrite:
  "case reconcile_prewrite_at jc held env root shown confirmation lock w of
     (Inl _, _) \<Rightarrow> True
   | (Inr closed, w') \<Rightarrow>
       \<not> held \<and> confirmation = ''ABORT '' @ oj_journal_id shown
       \<and> (\<exists>p all w1 w2 w3. try_acquire_path held env lock w = (Inr p, w1) \<and> all_journals jc env root w1 = (Inr all, w2)
            \<and> js_load jc env root (oj_journal_id shown) w2 = (Inr shown, w3)
            \<and> js_persist_if_matches jc env root shown closed w3 = (Inr (), w'))
       \<and> \<not> oj_mutation_may_have_started shown
       \<and> oj_phase shown \<notin> {JpExecuting, JpVerifying, JpRecoveryRequired, JpCompleted, JpAborted}
       \<and> oj_phase closed = JpAborted \<and> \<not> oj_mutation_may_have_started closed
       \<and> oj_events closed = oj_events shown
           @ [phase_event shown JpAborted ''aborted'' ABANDONED_REASON]"
proof (cases "reconcile_prewrite_at jc held env root shown confirmation lock w")
  case (Pair outcome w')
  show ?thesis
  proof (cases outcome)
    case (Inr closed)
    with Pair obtain p all w1 j w2 w3 where lock: "try_acquire_path held env lock w = (Inr p, w1)"
      and all: "all_journals jc env root w1 = (Inr all, w2)"
      and load: "js_load jc env root (oj_journal_id shown) w2 = (Inr j, w3)"
      and checks: "first_error (reconcile_checks shown confirmation j) = Inr ()"
      and abort: "apply_transition (jc_digest jc) (JtAbort ABANDONED_REASON) j = (closed, Inr ())"
      and persist: "js_persist_if_matches jc env root j closed w3 = (Inr (), w')"
      unfolding reconcile_prewrite_at_def
      by (auto simp: act_then_Inr act_bind_Inr act_lift_Inr act_map_err_Inr closing_ok)
    have j: "j = shown" using checks by (simp add: reconcile_checks_def first_error_ok)
    have free: "\<not> held" using lock by (auto simp: try_acquire_path_def act_then_Inr act_bind_Inr act_lift_Inr)
    have steps: "\<exists>p all w1 w2 w3. try_acquire_path held env lock w = (Inr p, w1) \<and> all_journals jc env root w1 = (Inr all, w2)
            \<and> js_load jc env root (oj_journal_id shown) w2 = (Inr shown, w3)
            \<and> js_persist_if_matches jc env root shown closed w3 = (Inr (), w')"
      using lock all load persist unfolding j by blast
    show ?thesis using Pair Inr free steps checks abort unfolding j
      by (simp add: reconcile_checks_def first_error_ok)
        (auto simp: apply_transition.simps apply_abort_def push_event_def phase_event_def split: if_splits)
  qed (simp add: Pair)
qed

end
