(* ===== verification/DependencyGraph.thy ===== *)
theory DependencyGraph
  imports Prelude
begin

text \<open>
  The dependency graph of numbered steps, as \<open>validate_dependency_graph\<close> of
  \<open>crates/executor/src/execution_intent.rs\<close> and its copy in \<open>native_operation.rs\<close> check it, and the reachability
  \<open>depends_on\<close> of the layer order. A step is its identifier with its dependencies. Both walks
  recurse without a bound in the code; here they take fuel, \<open>None\<close> stands for a walk that has not
  returned, and \<open>Suc\<close> of the number of steps is proved to be enough.
\<close>

section \<open>The walks of the code\<close>

type_synonym dep_step = "u32 \<times> u32 list"

datatype graph_error =
  GeZeroStepId
| GeDuplicateStepId u32
| GeUnknownDependency u32 u32
| GeSelfDependency u32
| GeDependencyCycle

fun index_steps :: "dep_step list \<Rightarrow> (u32 \<rightharpoonup> u32 list) \<Rightarrow> (graph_error, u32 \<rightharpoonup> u32 list) result" where
  "index_steps [] by_id = Inr by_id"
| "index_steps ((i, ds) # steps) by_id =
     (if i = 0 then Inl GeZeroStepId
      else if by_id i \<noteq> None then Inl (GeDuplicateStepId i)
      else index_steps steps (by_id(i \<mapsto> ds)))"

definition check_dependency :: "(u32 \<rightharpoonup> u32 list) \<Rightarrow> u32 \<Rightarrow> u32 \<Rightarrow> (graph_error, unit) result" where
  "check_dependency by_id i d =
     (if d = i then Inl (GeSelfDependency i)
      else if by_id d = None then Inl (GeUnknownDependency i d) else Inr ())"

definition check_dependencies :: "(u32 \<rightharpoonup> u32 list) \<Rightarrow> dep_step list \<Rightarrow> (graph_error, unit) result" where
  "check_dependencies by_id steps =
     first_error (concat (map (\<lambda>(i, ds). map (check_dependency by_id i) ds) steps))"

text \<open>\<open>visit\<close>: a step is marked 1 while its dependencies are visited, and 2 afterwards.\<close>

type_synonym visit_states = "u32 \<rightharpoonup> u8"

fun visit :: "nat \<Rightarrow> (u32 \<rightharpoonup> u32 list) \<Rightarrow> u32 \<Rightarrow> visit_states
     \<Rightarrow> (graph_error, visit_states) result option"
  and visit_each :: "nat \<Rightarrow> (u32 \<rightharpoonup> u32 list) \<Rightarrow> u32 list \<Rightarrow> visit_states
     \<Rightarrow> (graph_error, visit_states) result option" where
  "visit 0 by_id i states = None"
| "visit (Suc fuel) by_id i states =
     (if states i = Some 1 then Some (Inl GeDependencyCycle)
      else if states i = Some 2 then Some (Inr states)
      else case by_id i of
        None \<Rightarrow> None
      | Some ds \<Rightarrow> (case visit_each fuel by_id ds (states(i \<mapsto> 1)) of
            None \<Rightarrow> None
          | Some (Inl e) \<Rightarrow> Some (Inl e)
          | Some (Inr states') \<Rightarrow> Some (Inr (states'(i \<mapsto> 2)))))"
| "visit_each fuel by_id [] states = Some (Inr states)"
| "visit_each fuel by_id (d # ds) states =
     (case visit fuel by_id d states of
        None \<Rightarrow> None
      | Some (Inl e) \<Rightarrow> Some (Inl e)
      | Some (Inr states') \<Rightarrow> visit_each fuel by_id ds states')"

definition validate_graph :: "dep_step list \<Rightarrow> (graph_error, unit) result option" where
  "validate_graph steps =
     (case index_steps steps Map.empty of
        Inl e \<Rightarrow> Some (Inl e)
      | Inr by_id \<Rightarrow>
          (case check_dependencies by_id steps of
             Inl e \<Rightarrow> Some (Inl e)
           | Inr _ \<Rightarrow>
               map_option (\<lambda>r. and_then r (\<lambda>_. Inr ()))
                 (visit_each (Suc (length steps)) by_id (sort (map fst steps)) Map.empty)))"

text \<open>\<open>depends_on\<close>, with the short circuit of \<open>any\<close>.\<close>

fun depends_on :: "nat \<Rightarrow> (u32 \<rightharpoonup> u32 list) \<Rightarrow> u32 \<Rightarrow> u32 \<Rightarrow> bool option"
  and any_depends_on :: "nat \<Rightarrow> (u32 \<rightharpoonup> u32 list) \<Rightarrow> u32 list \<Rightarrow> u32 \<Rightarrow> bool option" where
  "depends_on 0 by_id current required = None"
| "depends_on (Suc fuel) by_id current required =
     (case by_id current of
        None \<Rightarrow> Some False
      | Some ds \<Rightarrow> any_depends_on fuel by_id ds required)"
| "any_depends_on fuel by_id [] required = Some False"
| "any_depends_on fuel by_id (d # ds) required =
     (if d = required then Some True
      else case depends_on fuel by_id d required of
        None \<Rightarrow> None
      | Some True \<Rightarrow> Some True
      | Some False \<Rightarrow> any_depends_on fuel by_id ds required)"

section \<open>The graph\<close>

definition edges :: "(u32 \<rightharpoonup> u32 list) \<Rightarrow> (u32 \<times> u32) set" where
  "edges g = {(i, d). \<exists>ds. g i = Some ds \<and> d \<in> set ds}"

definition step_edges :: "dep_step list \<Rightarrow> (u32 \<times> u32) set" where
  "step_edges steps = {(i, d). \<exists>ds. (i, ds) \<in> set steps \<and> d \<in> set ds}"

definition known_dependencies :: "dep_step list \<Rightarrow> bool" where
  "known_dependencies steps = (\<forall>(i, ds) \<in> set steps. set ds \<subseteq> fst ` set steps)"

definition well_founded_steps :: "dep_step list \<Rightarrow> bool" where
  "well_founded_steps steps =
     (0 \<notin> fst ` set steps \<and> distinct (map fst steps) \<and> known_dependencies steps \<and> acyclic (step_edges steps))"

lemma index_steps_ok:
  "index_steps steps m = Inr by_id \<longleftrightarrow>
     0 \<notin> fst ` set steps \<and> distinct (map fst steps) \<and> fst ` set steps \<inter> dom m = {} \<and> by_id = m ++ map_of steps"
proof (induction steps m rule: index_steps.induct)
  case (2 i ds steps m)
  show ?case
  proof (cases "i = 0 \<or> m i \<noteq> None")
    case False
    with 2 have rest: "index_steps steps (m(i \<mapsto> ds)) = Inr by_id \<longleftrightarrow>
        0 \<notin> fst ` set steps \<and> distinct (map fst steps) \<and> fst ` set steps \<inter> dom (m(i \<mapsto> ds)) = {}
        \<and> by_id = m(i \<mapsto> ds) ++ map_of steps" by blast
    have "m(i \<mapsto> ds) ++ map_of steps = m ++ map_of ((i, ds) # steps)" if "i \<notin> fst ` set steps"
    proof -
      from that have "map_of steps i = None" by (simp add: map_of_eq_None_iff)
      then show ?thesis by (auto simp: fun_eq_iff map_add_def split: option.split)
    qed
    with False rest show ?thesis by (cases "i \<in> fst ` set steps") (auto simp del: map_of.simps)
  qed auto
qed auto

lemma check_dependency_ok [simp]:
  "check_dependency by_id i d = Inr u \<longleftrightarrow> d \<noteq> i \<and> by_id d \<noteq> None"
  by (simp add: check_dependency_def)

lemma check_dependencies_ok:
  "check_dependencies by_id steps = Inr u \<longleftrightarrow>
     (\<forall>(i, ds) \<in> set steps. \<forall>d \<in> set ds. d \<noteq> i \<and> by_id d \<noteq> None)"
proof -
  have "check_dependencies by_id steps = Inr u \<longleftrightarrow>
      (\<forall>s \<in> set steps. \<forall>d \<in> set (snd s). check_dependency by_id (fst s) d = Inr ())"
    by (auto simp: check_dependencies_def first_error_ok split_beta)
  then show ?thesis by (simp add: case_prod_unfold)
qed

lemma edges_map_of: "distinct (map fst steps) \<Longrightarrow> edges (map_of steps) = step_edges steps"
  by (auto simp: edges_def step_edges_def)

section \<open>The visit finds the cycles\<close>

definition closed_graph :: "(u32 \<rightharpoonup> u32 list) \<Rightarrow> bool" where
  "closed_graph g \<longleftrightarrow> finite (dom g) \<and> (\<forall>i ds. g i = Some ds \<longrightarrow> set ds \<subseteq> dom g)"

definition open_steps :: "visit_states \<Rightarrow> u32 set" where
  "open_steps st = {i. st i = Some 1}"

definition done_steps :: "visit_states \<Rightarrow> u32 set" where
  "done_steps st = {i. st i = Some 2}"

text \<open>What is finished is closed under the edges and lies on no cycle.\<close>

definition visit_inv :: "(u32 \<rightharpoonup> u32 list) \<Rightarrow> visit_states \<Rightarrow> bool" where
  "visit_inv g st \<longleftrightarrow>
     dom st \<subseteq> dom g \<and> ran st \<subseteq> {1, 2} \<and> edges g `` done_steps st \<subseteq> done_steps st
     \<and> (\<forall>i \<in> done_steps st. (i, i) \<notin> (edges g)\<^sup>+)"

definition visited :: "(u32 \<rightharpoonup> u32 list) \<Rightarrow> visit_states \<Rightarrow> u32 set \<Rightarrow> visit_states \<Rightarrow> bool" where
  "visited g st new st' \<longleftrightarrow>
     visit_inv g st' \<and> open_steps st' = open_steps st \<and> done_steps st \<union> new \<subseteq> done_steps st'"

lemma closed_under_trancl: "(a, b) \<in> E\<^sup>+ \<Longrightarrow> E `` S \<subseteq> S \<Longrightarrow> a \<in> S \<Longrightarrow> b \<in> S"
  by (induction rule: trancl_induct) auto

lemma visited_dom: "visit_inv g st \<Longrightarrow> visited g st new st' \<Longrightarrow> dom st \<subseteq> dom st'"
proof
  fix i assume I: "visit_inv g st" "visited g st new st'" and "i \<in> dom st"
  then obtain v where v: "st i = Some v" by auto
  with I(1) have "v = 1 \<or> v = 2" by (auto simp: visit_inv_def ran_def)
  with v I(2) show "i \<in> dom st'"
    by (auto simp: visited_def open_steps_def done_steps_def set_eq_iff subset_iff)
qed

lemma enter_step:
  assumes "visit_inv g st" "st i = None" "g i = Some ds"
  shows "visit_inv g (st(i \<mapsto> 1))" and "open_steps (st(i \<mapsto> 1)) = insert i (open_steps st)"
    and "done_steps (st(i \<mapsto> 1)) = done_steps st"
proof -
  show o: "open_steps (st(i \<mapsto> 1)) = insert i (open_steps st)" and d: "done_steps (st(i \<mapsto> 1)) = done_steps st"
    using assms(2) by (auto simp: open_steps_def done_steps_def)
  show "visit_inv g (st(i \<mapsto> 1))" unfolding visit_inv_def d using assms
    by (auto simp: visit_inv_def ran_def split: if_splits)
qed

lemma leave_step:
  assumes inv: "visit_inv g st" and st: "st i = None" and g: "g i = Some ds"
    and vis: "visited g (st(i \<mapsto> 1)) (set ds) st'"
  shows "visited g st {i} (st'(i \<mapsto> 2))"
proof -
  note enter = enter_step[OF inv st g]
  from vis have inv': "visit_inv g st'" and op: "open_steps st' = insert i (open_steps st)"
    and dn: "done_steps st \<union> set ds \<subseteq> done_steps st'" by (simp_all add: visited_def enter)
  have d: "done_steps (st'(i \<mapsto> 2)) = insert i (done_steps st')" by (auto simp: done_steps_def)
  have i1: "st' i = Some 1" using op by (auto simp: open_steps_def)
  then have ni: "i \<notin> done_steps st'" by (simp add: done_steps_def)
  have cl: "edges g `` done_steps st' \<subseteq> done_steps st'" using inv' by (simp add: visit_inv_def)
  have nocycle: "(i, i) \<notin> (edges g)\<^sup>+"
  proof
    assume "(i, i) \<in> (edges g)\<^sup>+"
    then obtain j where j: "(i, j) \<in> edges g" "j = i \<or> (j, i) \<in> (edges g)\<^sup>+"
      by (meson tranclD rtranclD)
    then have "j \<in> done_steps st'" using g dn by (auto simp: edges_def)
    with j(2) ni closed_under_trancl[OF _ cl] show False by blast
  qed
  have "open_steps (st'(i \<mapsto> 2)) = open_steps st"
    using op st i1 by (auto simp: open_steps_def set_eq_iff)
  moreover have "edges g `` insert i (done_steps st') \<subseteq> insert i (done_steps st')"
    using cl g dn by (auto simp: edges_def)
  then have "visit_inv g (st'(i \<mapsto> 2))" unfolding visit_inv_def d
    using inv' g nocycle by (auto simp: visit_inv_def ran_def split: if_splits)
  ultimately show ?thesis using dn by (auto simp: visited_def d)
qed

text \<open>
  A visit with more fuel than steps are unmarked returns: every step reachable from \<open>i\<close> is finished,
  or the graph has a cycle. The open steps all lead to \<open>i\<close>.
\<close>

definition fuel_for :: "(u32 \<rightharpoonup> u32 list) \<Rightarrow> visit_states \<Rightarrow> nat \<Rightarrow> bool" where
  "fuel_for g st fuel \<longleftrightarrow> card (dom g - dom st) < fuel"

definition visit_outcome ::
  "(u32 \<rightharpoonup> u32 list) \<Rightarrow> visit_states \<Rightarrow> u32 set \<Rightarrow> (graph_error, visit_states) result option \<Rightarrow> bool" where
  "visit_outcome g st new r =
     (case r of
        None \<Rightarrow> False
      | Some (Inl e) \<Rightarrow> e = GeDependencyCycle \<and> \<not> acyclic (edges g)
      | Some (Inr st') \<Rightarrow> visited g st new st')"

lemma fuel_for_enter:
  assumes "closed_graph g" "g i = Some ds" "st i = None" "fuel_for g st (Suc fuel)"
  shows "fuel_for g (st(i \<mapsto> 1)) fuel"
proof -
  have "dom g - dom (st(i \<mapsto> 1)) \<subset> dom g - dom st" using assms by auto
  then have "card (dom g - dom (st(i \<mapsto> 1))) < card (dom g - dom st)"
    using assms(1) by (intro psubset_card_mono) (auto simp: closed_graph_def)
  then show ?thesis using assms(4) by (simp add: fuel_for_def)
qed

lemma fuel_for_visited:
  assumes "closed_graph g" "visit_inv g st" "visited g st new st'" "fuel_for g st fuel"
  shows "fuel_for g st' fuel"
proof -
  have "card (dom g - dom st') \<le> card (dom g - dom st)"
    using assms(1) visited_dom[OF assms(2,3)] by (intro card_mono) (auto simp: closed_graph_def)
  then show ?thesis using assms(4) by (simp add: fuel_for_def)
qed

lemma visit_correct:
  "closed_graph g \<Longrightarrow> visit_inv g st \<Longrightarrow> i \<in> dom g \<Longrightarrow> fuel_for g st fuel
     \<Longrightarrow> (\<forall>k \<in> open_steps st. (k, i) \<in> (edges g)\<^sup>+)
     \<Longrightarrow> visit_outcome g st {i} (visit fuel g i st)"
  "closed_graph g \<Longrightarrow> visit_inv g st \<Longrightarrow> set ds \<subseteq> dom g \<Longrightarrow> fuel_for g st fuel
     \<Longrightarrow> (\<forall>k \<in> open_steps st. \<forall>d \<in> set ds. (k, d) \<in> (edges g)\<^sup>+)
     \<Longrightarrow> visit_outcome g st (set ds) (visit_each fuel g ds st)"
proof (induction fuel g i st and fuel g ds st rule: visit_visit_each.induct)
  case (1 g i st)
  then show ?case by (simp add: fuel_for_def)
next
  case (2 fuel g i st)
  obtain ds where g: "g i = Some ds" using 2(4) by auto
  show ?case
  proof (cases "st i")
    case (Some v)
    with 2(3) have "v = 1 \<or> v = 2" by (auto simp: visit_inv_def ran_def)
    moreover have "\<not> acyclic (edges g)" if "v = 1"
      using 2(6) Some that by (auto simp: open_steps_def acyclic_def)
    ultimately show ?thesis using 2(3) Some
      by (auto simp: visit_outcome_def visited_def done_steps_def)
  next
    case None
    note enter = enter_step[OF 2(3) None g]
    have to_deps: "\<forall>k \<in> open_steps (st(i \<mapsto> 1)). \<forall>d \<in> set ds. (k, d) \<in> (edges g)\<^sup>+"
    proof (intro ballI)
      fix k d assume "k \<in> open_steps (st(i \<mapsto> 1))" "d \<in> set ds"
      then have "(i, d) \<in> edges g" "k = i \<or> (k, i) \<in> (edges g)\<^sup>+"
        using g 2(6) by (auto simp: enter edges_def)
      then show "(k, d) \<in> (edges g)\<^sup>+" by (auto intro: trancl_into_trancl)
    qed
    have "visit_outcome g (st(i \<mapsto> 1)) (set ds) (visit_each fuel g ds (st(i \<mapsto> 1)))"
      using None 2(2) g
      by (intro 2(1)[OF _ _ g 2(2) enter(1) _ fuel_for_enter[OF 2(2) g None 2(5)] to_deps])
        (auto simp: closed_graph_def)
    then show ?thesis using None g
      by (auto simp: visit_outcome_def leave_step[OF 2(3) None g] split: option.splits sum.splits)
  qed
next
  case (3 fuel g st)
  then show ?case by (simp add: visit_outcome_def visited_def)
next
  case (4 fuel g d ds st)
  have first: "visit_outcome g st {d} (visit fuel g d st)" using 4 by simp
  show ?case
  proof (cases "\<exists>st'. visit fuel g d st = Some (Inr st')")
    case True
    then obtain st' where v: "visit fuel g d st = Some (Inr st')" by blast
    with first have vis: "visited g st {d} st'" by (simp add: visit_outcome_def)
    then have "visit_inv g st'" "open_steps st' = open_steps st" by (simp_all add: visited_def)
    then have "visit_outcome g st' (set ds) (visit_each fuel g ds st')"
      using 4(2)[OF v refl 4(3)] 4 fuel_for_visited[OF 4(3,4) vis 4(6)] v by simp
    then show ?thesis using v vis
      by (auto simp: visit_outcome_def visited_def split: option.splits sum.splits)
  next
    case False
    with first show ?thesis by (auto simp: visit_outcome_def split: option.splits sum.splits)
  qed
qed

lemma validate_graph_exact:
  "\<exists>r. validate_graph steps = Some r \<and> (r = Inr () \<longleftrightarrow> well_founded_steps steps)"
proof (cases "\<exists>by_id. index_steps steps Map.empty = Inr by_id")
  case False
  then obtain e where "index_steps steps Map.empty = Inl e" by (cases "index_steps steps Map.empty") auto
  then show ?thesis using index_steps_ok[of steps Map.empty]
    by (auto simp: validate_graph_def well_founded_steps_def)
next
  case True
  then obtain by_id where ix: "index_steps steps Map.empty = Inr by_id" by blast
  then have ids: "0 \<notin> fst ` set steps" "distinct (map fst steps)" and by_id: "by_id = map_of steps"
    by (simp_all add: index_steps_ok)
  have dom: "dom by_id = fst ` set steps" by (simp add: by_id dom_map_of_conv_image_fst)
  have deps: "is_ok (check_dependencies by_id steps) \<longleftrightarrow>
      known_dependencies steps \<and> (\<forall>i. (i, i) \<notin> step_edges steps)"
    unfolding is_ok_iff check_dependencies_ok using dom
    by (fastforce simp: known_dependencies_def step_edges_def)
  show ?thesis
  proof (cases "check_dependencies by_id steps")
    case (Inl e)
    then show ?thesis using deps ix
      by (auto simp: validate_graph_def well_founded_steps_def acyclic_def)
  next
    case (Inr u)
    with deps have known: "known_dependencies steps" by simp
    have closed: "closed_graph by_id"
      using known dom by (fastforce simp: closed_graph_def known_dependencies_def by_id dest: map_of_SomeD)
    have E: "edges by_id = step_edges steps" by (simp add: by_id edges_map_of ids)
    have "card (dom by_id) \<le> length steps"
      using card_length[of "map fst steps"] by (simp add: dom)
    then have fuel: "fuel_for by_id Map.empty (Suc (length steps))" by (simp add: fuel_for_def)
    have "visit_outcome by_id Map.empty (dom by_id)
        (visit_each (Suc (length steps)) by_id (sort (map fst steps)) Map.empty)"
      using visit_correct(2)[OF closed _ _ fuel, of "sort (map fst steps)"]
      by (simp add: dom visit_inv_def done_steps_def open_steps_def)
    then consider e where "visit_each (Suc (length steps)) by_id (sort (map fst steps)) Map.empty = Some (Inl e)"
        "\<not> acyclic (edges by_id)"
      | st where "visit_each (Suc (length steps)) by_id (sort (map fst steps)) Map.empty = Some (Inr st)"
        "visited by_id Map.empty (dom by_id) st"
      by (auto simp: visit_outcome_def split: option.splits sum.splits)
    then show ?thesis
    proof cases
      case 1
      then show ?thesis using ix Inr E by (auto simp: validate_graph_def well_founded_steps_def)
    next
      case 2
      have "(i, i) \<notin> (edges by_id)\<^sup>+" for i
      proof (cases "i \<in> dom by_id")
        case False
        then show ?thesis by (auto simp: edges_def dest: tranclD)
      qed (use 2(2) in \<open>auto simp: visited_def visit_inv_def\<close>)
      then have "acyclic (step_edges steps)" by (simp add: acyclic_def E)
      with 2(1) ix Inr ids known show ?thesis
        by (auto simp: validate_graph_def well_founded_steps_def)
    qed
  qed
qed

corollary validate_graph_returns: "validate_graph steps \<noteq> None"
  using validate_graph_exact[of steps] by auto

corollary validate_graph_ok: "validate_graph steps = Some (Inr ()) \<longleftrightarrow> well_founded_steps steps"
  using validate_graph_exact[of steps] by auto

section \<open>Reachability on a graph without cycles\<close>

lemma reachable_in_graph:
  assumes "closed_graph g"
  shows "(edges g)\<^sup>+ `` {c} \<subseteq> dom g"
proof
  fix x assume "x \<in> (edges g)\<^sup>+ `` {c}"
  then obtain y where "(y, x) \<in> edges g" by (auto elim: tranclE)
  with assms show "x \<in> dom g" by (auto simp: closed_graph_def edges_def)
qed

lemma reachable_shrinks:
  assumes "closed_graph g" "acyclic (edges g)" "(c, d) \<in> edges g"
  shows "card ((edges g)\<^sup>+ `` {d}) < card ((edges g)\<^sup>+ `` {c})"
proof (rule psubset_card_mono)
  show "finite ((edges g)\<^sup>+ `` {c})"
    using finite_subset[OF reachable_in_graph[OF assms(1)]] assms(1) by (simp add: closed_graph_def)
  have "d \<in> (edges g)\<^sup>+ `` {c}" "d \<notin> (edges g)\<^sup>+ `` {d}"
    using assms(2,3) by (auto simp: acyclic_def)
  moreover have "(edges g)\<^sup>+ `` {d} \<subseteq> (edges g)\<^sup>+ `` {c}"
    using assms(3) by (auto intro: trancl_into_trancl2)
  ultimately show "(edges g)\<^sup>+ `` {d} \<subset> (edges g)\<^sup>+ `` {c}" by blast
qed

lemma depends_on_walk:
  assumes closed: "closed_graph g" and acyclic: "acyclic (edges g)"
  shows "c \<in> dom g \<Longrightarrow> card ((edges g)\<^sup>+ `` {c}) < fuel
      \<Longrightarrow> depends_on fuel g c r = Some ((c, r) \<in> (edges g)\<^sup>+)"
    and "set ds \<subseteq> dom g \<Longrightarrow> (\<forall>d \<in> set ds. card ((edges g)\<^sup>+ `` {d}) < fuel)
      \<Longrightarrow> any_depends_on fuel g ds r = Some (\<exists>d \<in> set ds. (d, r) \<in> (edges g)\<^sup>*)"
  using assms
proof (induction fuel g c r and fuel g ds r rule: depends_on_any_depends_on.induct)
  case (2 fuel g c r)
  then obtain ds where g: "g c = Some ds" by auto
  have to_deps: "(c, d) \<in> edges g" if "d \<in> set ds" for d using g that by (auto simp: edges_def)
  have "card ((edges g)\<^sup>+ `` {d}) < fuel" if "d \<in> set ds" for d
    using reachable_shrinks[OF 2(4,5) to_deps[OF that]] 2(3) by simp
  moreover have "set ds \<subseteq> dom g" using 2(4) g by (auto simp: closed_graph_def)
  ultimately have "any_depends_on fuel g ds r = Some (\<exists>d \<in> set ds. (d, r) \<in> (edges g)\<^sup>*)"
    using 2(1)[OF g] 2(4,5) by blast
  moreover have "(c, r) \<in> (edges g)\<^sup>+ \<longleftrightarrow> (\<exists>d \<in> set ds. (d, r) \<in> (edges g)\<^sup>*)"
    using g by (auto simp: edges_def dest!: tranclD intro: rtrancl_into_trancl2)
  ultimately show ?case using g by simp
next
  case (4 fuel g d ds r)
  show ?case
  proof (cases "d = r")
    case False
    then have first: "depends_on fuel g d r = Some ((d, r) \<in> (edges g)\<^sup>+)"
      using 4 by simp
    have "(d, r) \<in> (edges g)\<^sup>* \<longleftrightarrow> (d, r) \<in> (edges g)\<^sup>+"
      using False by (auto simp: rtrancl_eq_or_trancl)
    with first False 4 show ?thesis by (auto split: bool.splits)
  qed simp
qed auto

text \<open>On a graph that \<open>validate_graph\<close> accepts, \<open>depends_on\<close> is the transitive closure.\<close>

lemma closed_steps:
  assumes "well_founded_steps steps"
  shows "closed_graph (map_of steps)" and "edges (map_of steps) = step_edges steps"
    and "dom (map_of steps) = fst ` set steps"
proof -
  show dom: "dom (map_of steps) = fst ` set steps" by (simp add: dom_map_of_conv_image_fst)
  show "closed_graph (map_of steps)"
    using assms dom by (fastforce simp: closed_graph_def well_founded_steps_def known_dependencies_def dest: map_of_SomeD)
  show "edges (map_of steps) = step_edges steps"
    using assms by (simp add: edges_map_of well_founded_steps_def)
qed

lemma depends_on_exact:
  assumes ok: "well_founded_steps steps" and c: "c \<in> fst ` set steps"
  shows "depends_on (Suc (length steps)) (map_of steps) c r = Some ((c, r) \<in> (step_edges steps)\<^sup>+)"
proof -
  note g = closed_steps[OF ok]
  have "card ((edges (map_of steps))\<^sup>+ `` {c}) \<le> card (dom (map_of steps))"
    using reachable_in_graph[OF g(1)] g(1) by (intro card_mono) (auto simp: closed_graph_def)
  also have "\<dots> \<le> length steps" using card_length[of "map fst steps"] by (simp add: g(3))
  finally show ?thesis
    using depends_on_walk(1)[OF g(1), of c "Suc (length steps)" r] c ok
    by (simp add: g(2,3) well_founded_steps_def)
qed

end
