(* ===== verification/IntentSteps.thy ===== *)
theory IntentSteps
  imports DependencyGraph ExtendTypes IdentityGuard FilesystemPolicy
begin

text \<open>
  The semantic part of \<open>crates/executor/src/execution_intent.rs\<close>: the steps of an approved plan as frozen
  intents, the check of each operation against the frozen identity of the target, and the verification
  barrier behind every mutation. The session and the approval a freeze demands are in
  \<open>ExecutionIntent\<close>.
\<close>

section \<open>Intents\<close>

datatype frozen_intent_role = FrPreExecutionEvidence | FrMutationCandidate | FrVerification

datatype frozen_intent_action =
  FaRevalidateSnapshot
| FaBackupLvmMetadata string
| FaBackupPartitionTableMetadata string string "string option"
| FaExtendPartition string u64 u64 u64 u64
| FaResizePhysicalVolume string u64
| FaExtendLogicalVolume string u64 u64
| FaGrowFilesystem string "string option"
| FaRediscoverAndVerify

record frozen_intent_step =
  fis_plan_step_id :: u32
  fis_depends_on :: "u32 list"
  fis_reversibility :: reversibility
  fis_role :: frozen_intent_role
  fis_action :: frozen_intent_action

record verification_barrier_spec =
  vbs_after_plan_step_id :: u32
  vbs_before_next_mutation :: bool
  vbs_require_fresh_target_identity :: bool
  vbs_require_fresh_capabilities :: bool
  vbs_require_expected_state_check :: bool
  vbs_stop_on_mismatch :: bool

text \<open>\<open>ExecutionIntentError\<close>; its \<open>Session\<close> variant carries the error type of the session.\<close>

datatype 's execution_intent_error =
  EieSessionNotApproved
| EieMutationEnabled
| EieMutationMayHaveStarted
| EieApprovalBindingMismatch
| EieOwnerAcceptanceInvariant
| EieZeroStepId
| EieDuplicateStepId u32
| EieUnknownDependency u32 u32
| EieSelfDependency u32
| EieDependencyCycle
| EieUnsupportedOperation
| EieFrozenIdentityMismatch string
| EieSerialization string
| EieDurableJournalRequired
| EieDurableJournalMismatch
| EieSession 's

section \<open>The dependency graph of a plan\<close>

definition intent_graph_error :: "graph_error \<Rightarrow> 's execution_intent_error" where
  "intent_graph_error e =
     (case e of GeZeroStepId \<Rightarrow> EieZeroStepId
      | GeDuplicateStepId i \<Rightarrow> EieDuplicateStepId i
      | GeUnknownDependency i d \<Rightarrow> EieUnknownDependency i d
      | GeSelfDependency i \<Rightarrow> EieSelfDependency i
      | GeDependencyCycle \<Rightarrow> EieDependencyCycle)"

definition plan_graph :: "plan_step list \<Rightarrow> dep_step list" where
  "plan_graph steps = map (\<lambda>s. (pst_id s, pst_depends_on s)) steps"

definition validate_dependency_graph :: "plan_step list \<Rightarrow> ('s execution_intent_error, unit) result option" where
  "validate_dependency_graph steps = map_option (map_err intent_graph_error) (validate_graph (plan_graph steps))"

section \<open>The operations against the frozen identity\<close>

definition lvm_matches :: "lvm_identity_kind \<Rightarrow> string \<Rightarrow> target_identity_manifest \<Rightarrow> lvm_identity list" where
  "lvm_matches kind uuid identity =
     filter (\<lambda>entry. lid_kind entry = kind \<and> lid_uuid entry = Some uuid) (tim_lvm identity)"

text \<open>The growth of a partition has a sector size the code knows, grows, and ends within 64 bits.\<close>

definition growth_geometry_valid :: "u64 \<Rightarrow> u64 \<Rightarrow> u64 \<Rightarrow> u64 \<Rightarrow> bool" where
  "growth_geometry_valid start_sector old_size new_size sector_size =
     (\<not> (\<not> (sector_size = 512 \<or> sector_size = 4096)
         \<or> new_size \<le> old_size
         \<or> checked_mul old_size sector_size = None
         \<or> checked_mul new_size sector_size = None
         \<or> Option.bind (checked_sub new_size 1) (\<lambda>last_offset. checked_add start_sector last_offset) = None))"

definition extend_partition_semantics ::
  "target_identity_manifest \<Rightarrow> string \<Rightarrow> u64 \<Rightarrow> u64 \<Rightarrow> u64 \<Rightarrow> u64 \<Rightarrow> (string, unit) result" where
  "extend_partition_semantics identity part start_sector old_size new_size sector_size =
     (if part = [] \<or> has_control part
      then Inl ''partition path is empty or contains a control character''
      else if \<not> growth_geometry_valid start_sector old_size new_size sector_size
      then Inl ''partition growth geometry is invalid''
      else case filter (\<lambda>entry. pgi_partition entry = part) (tim_partitions identity) of
        [entry] \<Rightarrow>
          (if pgi_start_sector entry \<noteq> Some start_sector
              \<or> pgi_size_sectors entry \<noteq> Some old_size
              \<or> pgi_sector_size_bytes entry \<noteq> Some sector_size
           then Inl ''partition geometry changed'' else Inr ())
      | _ \<Rightarrow> Inl ''partition identity is not unique'')"

definition resize_physical_volume_semantics ::
  "target_identity_manifest \<Rightarrow> string \<Rightarrow> u64 \<Rightarrow> (string, unit) result" where
  "resize_physical_volume_semantics identity uuid expected =
     (if uuid = [] \<or> expected = 0 then Inl ''physical-volume growth values are invalid''
      else case lvm_matches LikPhysicalVolume uuid identity of
        [entry] \<Rightarrow> (if expected \<le> lid_size_bytes entry
                     then Inl ''physical-volume expected size does not grow'' else Inr ())
      | _ \<Rightarrow> Inl ''physical-volume identity is not unique'')"

definition extend_logical_volume_semantics ::
  "target_identity_manifest \<Rightarrow> string \<Rightarrow> u64 \<Rightarrow> u64 \<Rightarrow> (string, unit) result" where
  "extend_logical_volume_semantics identity uuid additional_extents expected =
     (if uuid = [] \<or> additional_extents = 0 \<or> expected = 0
      then Inl ''logical-volume growth values are invalid''
      else case lvm_matches LikLogicalVolume uuid identity of
        [entry] \<Rightarrow> (if expected \<le> lid_size_bytes entry
                     then Inl ''logical-volume expected size does not grow'' else Inr ())
      | _ \<Rightarrow> Inl ''logical-volume identity is not unique'')"

definition grow_filesystem_semantics ::
  "target_identity_manifest \<Rightarrow> filesystem_growth_decision \<Rightarrow> string \<Rightarrow> string option \<Rightarrow> (string, unit) result" where
  "grow_filesystem_semantics identity decision fs mountpoint =
     (if fs = [] \<or> mountpoint = Some [] then Inl ''filesystem growth identity is empty''
      else case tim_filesystem identity of
        None \<Rightarrow> Inl ''filesystem identity is absent''
      | Some filesystem \<Rightarrow>
          (if fgd_target decision \<noteq> tim_target identity
              \<or> fid_fs_type filesystem \<noteq> fs
              \<or> fgd_device decision \<noteq> Some (fid_device filesystem)
              \<or> fgd_fs_type decision \<noteq> Some fs
              \<or> fgd_mountpoint decision \<noteq> mountpoint
           then Inl ''filesystem decision no longer matches approved intent''
           else case mountpoint of
             Some mp \<Rightarrow>
               (if fgd_state decision \<noteq> FdReadyOnlineGrow
                then Inl ''mounted filesystem decision is not ready for online growth''
                else if length (filter (\<lambda>m. mid_target m = mp \<and> mid_fs_type m = Some fs) (tim_mounts identity)) \<noteq> 1
                then Inl ''filesystem mount identity is not unique'' else Inr ())
           | None \<Rightarrow>
               (if fs \<noteq> ''ext4'' \<or> fgd_state decision \<noteq> FdReadyOfflineGrow \<or> tim_mounts identity \<noteq> []
                then Inl ''offline filesystem decision is not exact unmounted ext4'' else Inr ())))"

definition operation_semantics ::
  "target_identity_manifest \<Rightarrow> filesystem_growth_decision \<Rightarrow> operation \<Rightarrow> (string, unit) result" where
  "operation_semantics identity decision op =
     (case op of
        OpRevalidateSnapshot \<Rightarrow> Inr ()
      | OpRediscoverAndVerify \<Rightarrow> Inr ()
      | OpBackupLvmMetadata uuid \<Rightarrow>
          (if length (lvm_matches LikVolumeGroup uuid identity) = 1 then Inr ()
           else Inl ''volume-group backup identity is not unique'')
      | OpBackupPartitionTableMetadata disk label table_id \<Rightarrow>
          (if list_ex (\<lambda>p. pgi_disk p = Some disk \<and> pgi_table_label p = Some label \<and> pgi_table_id p = table_id)
                (tim_partitions identity)
           then Inr () else Inl ''partition-table backup identity is absent'')
      | OpExtendPartition part start_sector old_size new_size sector_size \<Rightarrow>
          extend_partition_semantics identity part start_sector old_size new_size sector_size
      | OpResizePhysicalVolume uuid expected \<Rightarrow> resize_physical_volume_semantics identity uuid expected
      | OpExtendLogicalVolume uuid extents expected \<Rightarrow> extend_logical_volume_semantics identity uuid extents expected
      | OpGrowFilesystem fs mountpoint \<Rightarrow> grow_filesystem_semantics identity decision fs mountpoint)"

definition validate_step_semantics ::
  "plan_step \<Rightarrow> target_identity_manifest \<Rightarrow> filesystem_growth_decision \<Rightarrow> ('s execution_intent_error, unit) result" where
  "validate_step_semantics s identity decision =
     map_err (\<lambda>detail. EieFrozenIdentityMismatch (''plan step '' @ show_word (pst_id s) @ '': '' @ detail))
       (operation_semantics identity decision (pst_operation s))"

section \<open>Freezing the steps\<close>

definition translate_operation :: "operation \<Rightarrow> frozen_intent_role \<times> frozen_intent_action" where
  "translate_operation op =
     (case op of
        OpRevalidateSnapshot \<Rightarrow> (FrPreExecutionEvidence, FaRevalidateSnapshot)
      | OpBackupLvmMetadata uuid \<Rightarrow> (FrPreExecutionEvidence, FaBackupLvmMetadata uuid)
      | OpBackupPartitionTableMetadata disk label table_id \<Rightarrow>
          (FrPreExecutionEvidence, FaBackupPartitionTableMetadata disk label table_id)
      | OpExtendPartition p start_sector old_size new_size sector_size \<Rightarrow>
          (FrMutationCandidate, FaExtendPartition p start_sector old_size new_size sector_size)
      | OpResizePhysicalVolume uuid expected \<Rightarrow> (FrMutationCandidate, FaResizePhysicalVolume uuid expected)
      | OpExtendLogicalVolume uuid extents expected \<Rightarrow> (FrMutationCandidate, FaExtendLogicalVolume uuid extents expected)
      | OpGrowFilesystem fs mountpoint \<Rightarrow> (FrMutationCandidate, FaGrowFilesystem fs mountpoint)
      | OpRediscoverAndVerify \<Rightarrow> (FrVerification, FaRediscoverAndVerify))"

definition translate_step :: "plan_step \<Rightarrow> ('s execution_intent_error, frozen_intent_step) result" where
  "translate_step s =
     (case translate_operation (pst_operation s) of (role, action) \<Rightarrow>
        Inr \<lparr> fis_plan_step_id = pst_id s, fis_depends_on = pst_depends_on s,
              fis_reversibility = pst_reversibility s, fis_role = role, fis_action = action \<rparr>)"

definition barrier_after :: "u32 \<Rightarrow> verification_barrier_spec" where
  "barrier_after i =
     \<lparr> vbs_after_plan_step_id = i, vbs_before_next_mutation = True, vbs_require_fresh_target_identity = True,
       vbs_require_fresh_capabilities = True, vbs_require_expected_state_check = True, vbs_stop_on_mismatch = True \<rparr>"

text \<open>The loop of \<open>freeze_execution_intent\<close> over the steps of the plan.\<close>

fun freeze_steps ::
  "target_identity_manifest \<Rightarrow> filesystem_growth_decision \<Rightarrow> plan_step list
     \<Rightarrow> ('s execution_intent_error, frozen_intent_step list \<times> verification_barrier_spec list) result" where
  "freeze_steps identity decision [] = Inr ([], [])"
| "freeze_steps identity decision (s # steps) =
     and_then (validate_step_semantics s identity decision) (\<lambda>_.
     and_then (translate_step s) (\<lambda>frozen.
     and_then (freeze_steps identity decision steps) (\<lambda>(frozen_steps, barriers).
       Inr (frozen # frozen_steps,
            (if fis_role frozen = FrMutationCandidate then [barrier_after (pst_id s)] else []) @ barriers))))"

section \<open>What freezing keeps\<close>

definition is_mutation :: "operation \<Rightarrow> bool" where
  "is_mutation op = (fst (translate_operation op) = FrMutationCandidate)"

definition frozen_step :: "plan_step \<Rightarrow> frozen_intent_step" where
  "frozen_step s =
     \<lparr> fis_plan_step_id = pst_id s, fis_depends_on = pst_depends_on s, fis_reversibility = pst_reversibility s,
       fis_role = fst (translate_operation (pst_operation s)),
       fis_action = snd (translate_operation (pst_operation s)) \<rparr>"

lemma translate_step_frozen: "translate_step s = Inr (frozen_step s)"
  by (simp add: translate_step_def frozen_step_def split_beta)

lemma freeze_steps_ok:
  "freeze_steps identity decision steps = Inr (frozen, barriers) \<longleftrightarrow>
     (\<forall>s \<in> set steps. operation_semantics identity decision (pst_operation s) = Inr ())
     \<and> frozen = map frozen_step steps
     \<and> barriers = map (barrier_after \<circ> pst_id) (filter (is_mutation \<circ> pst_operation) steps)"
proof (induction steps arbitrary: frozen barriers)
  case (Cons s steps)
  have role: "fis_role (frozen_step s) = FrMutationCandidate \<longleftrightarrow> is_mutation (pst_operation s)"
    by (simp add: frozen_step_def is_mutation_def)
  show ?case
    by (auto simp: and_then_Inr validate_step_semantics_def translate_step_frozen Cons.IH role)
qed auto

end
