(* ===== verification/NativeOperation.thy ===== *)
theory NativeOperation
  imports IntentSteps "HOL-Library.Multiset"
begin

text \<open>
  The native manifest of \<open>crates/executor/src/native_operation.rs\<close>: the frozen intents compiled one by
  one, and the validation of the result, which stands between an intent and every executor: the
  dependency graph, the order of the storage layers, the roles, and one fail-closed barrier behind
  every mutation. The JSON digest of a manifest is a parameter.
\<close>

section \<open>Operations\<close>

datatype native_operation_kind =
  NkRevalidateSnapshot | NkBackupLvmMetadata | NkBackupPartitionTableMetadata | NkExtendPartition
| NkResizePhysicalVolume | NkExtendLogicalVolume | NkGrowFilesystem | NkRediscoverAndVerify

definition NATIVE_OPERATION_ALLOWLIST :: "native_operation_kind list" where
  "NATIVE_OPERATION_ALLOWLIST =
     [NkRevalidateSnapshot, NkBackupLvmMetadata, NkBackupPartitionTableMetadata, NkExtendPartition,
      NkResizePhysicalVolume, NkExtendLogicalVolume, NkGrowFilesystem, NkRediscoverAndVerify]"

definition is_mutation_candidate :: "native_operation_kind \<Rightarrow> bool" where
  "is_mutation_candidate k =
     (k \<in> {NkExtendPartition, NkResizePhysicalVolume, NkExtendLogicalVolume, NkGrowFilesystem})"

definition classify_frozen_intent_action :: "frozen_intent_action \<Rightarrow> native_operation_kind" where
  "classify_frozen_intent_action a =
     (case a of
        FaRevalidateSnapshot \<Rightarrow> NkRevalidateSnapshot
      | FaBackupLvmMetadata _ \<Rightarrow> NkBackupLvmMetadata
      | FaBackupPartitionTableMetadata _ _ _ \<Rightarrow> NkBackupPartitionTableMetadata
      | FaExtendPartition _ _ _ _ _ \<Rightarrow> NkExtendPartition
      | FaResizePhysicalVolume _ _ \<Rightarrow> NkResizePhysicalVolume
      | FaExtendLogicalVolume _ _ _ \<Rightarrow> NkExtendLogicalVolume
      | FaGrowFilesystem _ _ \<Rightarrow> NkGrowFilesystem
      | FaRediscoverAndVerify \<Rightarrow> NkRediscoverAndVerify)"

datatype native_operation_spec =
  NsRevalidateSnapshot
| NsBackupLvmMetadata string
| NsBackupPartitionTableMetadata string string "string option"
| NsExtendPartition string u64 u64 u64 u64
| NsResizePhysicalVolume string u64
| NsExtendLogicalVolume string u64 u64
| NsGrowFilesystem string "string option"
| NsRediscoverAndVerify

definition build_native_operation_spec :: "frozen_intent_action \<Rightarrow> native_operation_spec" where
  "build_native_operation_spec a =
     (case a of
        FaRevalidateSnapshot \<Rightarrow> NsRevalidateSnapshot
      | FaBackupLvmMetadata uuid \<Rightarrow> NsBackupLvmMetadata uuid
      | FaBackupPartitionTableMetadata disk label table_id \<Rightarrow> NsBackupPartitionTableMetadata disk label table_id
      | FaExtendPartition p start_sector old_size new_size sector_size \<Rightarrow>
          NsExtendPartition p start_sector old_size new_size sector_size
      | FaResizePhysicalVolume uuid expected \<Rightarrow> NsResizePhysicalVolume uuid expected
      | FaExtendLogicalVolume uuid extents expected \<Rightarrow> NsExtendLogicalVolume uuid extents expected
      | FaGrowFilesystem fs mountpoint \<Rightarrow> NsGrowFilesystem fs mountpoint
      | FaRediscoverAndVerify \<Rightarrow> NsRediscoverAndVerify)"

section \<open>The compiled manifest\<close>

record native_compiled_step =
  ncs_plan_step_id :: u32
  ncs_depends_on :: "u32 list"
  ncs_reversibility :: reversibility
  ncs_role :: frozen_intent_role
  ncs_operation :: native_operation_spec

definition compile_native_step :: "frozen_intent_step \<Rightarrow> native_compiled_step" where
  "compile_native_step s =
     \<lparr> ncs_plan_step_id = fis_plan_step_id s, ncs_depends_on = fis_depends_on s,
       ncs_reversibility = fis_reversibility s, ncs_role = fis_role s,
       ncs_operation = build_native_operation_spec (fis_action s) \<rparr>"

definition compile_native_steps :: "frozen_intent_step list \<Rightarrow> native_compiled_step list" where
  "compile_native_steps steps = map compile_native_step steps"

record native_verification_barrier =
  nvb_after_plan_step_id :: u32
  nvb_before_next_mutation :: bool
  nvb_require_fresh_target_identity :: bool
  nvb_require_fresh_capabilities :: bool
  nvb_require_expected_state_check :: bool
  nvb_stop_on_mismatch :: bool

definition compile_native_verification_barrier :: "verification_barrier_spec \<Rightarrow> native_verification_barrier" where
  "compile_native_verification_barrier b =
     \<lparr> nvb_after_plan_step_id = vbs_after_plan_step_id b,
       nvb_before_next_mutation = vbs_before_next_mutation b,
       nvb_require_fresh_target_identity = vbs_require_fresh_target_identity b,
       nvb_require_fresh_capabilities = vbs_require_fresh_capabilities b,
       nvb_require_expected_state_check = vbs_require_expected_state_check b,
       nvb_stop_on_mismatch = vbs_stop_on_mismatch b \<rparr>"

definition compile_native_verification_barriers ::
  "verification_barrier_spec list \<Rightarrow> native_verification_barrier list" where
  "compile_native_verification_barriers barriers = map compile_native_verification_barrier barriers"

record native_compiled_manifest =
  ncm_source_manifest_id :: string
  ncm_steps :: "native_compiled_step list"
  ncm_verification_barriers :: "native_verification_barrier list"

definition compile_native_manifest_parts ::
  "string \<Rightarrow> frozen_intent_step list \<Rightarrow> verification_barrier_spec list \<Rightarrow> native_compiled_manifest" where
  "compile_native_manifest_parts source_manifest_id steps barriers =
     \<lparr> ncm_source_manifest_id = source_manifest_id, ncm_steps = compile_native_steps steps,
       ncm_verification_barriers = compile_native_verification_barriers barriers \<rparr>"

section \<open>Validation\<close>

datatype native_manifest_validation_error =
  NmeZeroStepId
| NmeDuplicateStepId u32
| NmeUnknownDependency u32 u32
| NmeSelfDependency u32
| NmeDependencyCycle
| NmeRoleOperationMismatch u32
| NmeUnsafeLayerOrder u32 u32
| NmeMissingVerificationBarrier u32
| NmeDuplicateVerificationBarrier u32
| NmeUnexpectedVerificationBarrier u32
| NmeUnsafeVerificationBarrier u32

datatype native_manifest_binding_error =
  NbeValidation native_manifest_validation_error | NbeSerialization string

record validated_native_manifest =
  vnm_manifest :: native_compiled_manifest
  vnm_digest :: string

definition is_mutation_operation :: "native_operation_spec \<Rightarrow> bool" where
  "is_mutation_operation op =
     (case op of NsExtendPartition _ _ _ _ _ \<Rightarrow> True | NsResizePhysicalVolume _ _ \<Rightarrow> True
      | NsExtendLogicalVolume _ _ _ \<Rightarrow> True | NsGrowFilesystem _ _ \<Rightarrow> True | _ \<Rightarrow> False)"

definition expected_role :: "native_operation_spec \<Rightarrow> frozen_intent_role" where
  "expected_role op =
     (case op of
        NsRevalidateSnapshot \<Rightarrow> FrPreExecutionEvidence
      | NsBackupLvmMetadata _ \<Rightarrow> FrPreExecutionEvidence
      | NsBackupPartitionTableMetadata _ _ _ \<Rightarrow> FrPreExecutionEvidence
      | NsExtendPartition _ _ _ _ _ \<Rightarrow> FrMutationCandidate
      | NsResizePhysicalVolume _ _ \<Rightarrow> FrMutationCandidate
      | NsExtendLogicalVolume _ _ _ \<Rightarrow> FrMutationCandidate
      | NsGrowFilesystem _ _ \<Rightarrow> FrMutationCandidate
      | NsRediscoverAndVerify \<Rightarrow> FrVerification)"

definition mutation_layer_rank :: "native_operation_spec \<Rightarrow> u8 option" where
  "mutation_layer_rank op =
     (case op of NsExtendPartition _ _ _ _ _ \<Rightarrow> Some 1 | NsResizePhysicalVolume _ _ \<Rightarrow> Some 2
      | NsExtendLogicalVolume _ _ _ \<Rightarrow> Some 3 | NsGrowFilesystem _ _ \<Rightarrow> Some 4 | _ \<Rightarrow> None)"

definition native_graph_error :: "graph_error \<Rightarrow> native_manifest_validation_error" where
  "native_graph_error e =
     (case e of GeZeroStepId \<Rightarrow> NmeZeroStepId
      | GeDuplicateStepId i \<Rightarrow> NmeDuplicateStepId i
      | GeUnknownDependency i d \<Rightarrow> NmeUnknownDependency i d
      | GeSelfDependency i \<Rightarrow> NmeSelfDependency i
      | GeDependencyCycle \<Rightarrow> NmeDependencyCycle)"

definition native_graph :: "native_compiled_step list \<Rightarrow> dep_step list" where
  "native_graph steps = map (\<lambda>s. (ncs_plan_step_id s, ncs_depends_on s)) steps"

definition validate_native_dependency_graph ::
  "native_compiled_step list \<Rightarrow> (native_manifest_validation_error, unit) result option" where
  "validate_native_dependency_graph steps =
     map_option (map_err native_graph_error) (validate_graph (native_graph steps))"

text \<open>The mutations of a manifest with the rank of their layer, and the pairs the two loops compare.\<close>

definition ranked_mutations :: "native_compiled_step list \<Rightarrow> (u32 \<times> u8) list" where
  "ranked_mutations steps =
     List.map_filter (\<lambda>s. map_option (\<lambda>rank. (ncs_plan_step_id s, rank)) (mutation_layer_rank (ncs_operation s))) steps"

fun check_layer_order ::
  "nat \<Rightarrow> (u32 \<rightharpoonup> u32 list) \<Rightarrow> ((u32 \<times> u8) \<times> (u32 \<times> u8)) list
     \<Rightarrow> (native_manifest_validation_error, unit) result option" where
  "check_layer_order fuel by_id [] = Some (Inr ())"
| "check_layer_order fuel by_id (((earlier, earlier_rank), (later, later_rank)) # pairs) =
     (if earlier_rank < later_rank
      then case depends_on fuel by_id later earlier of
          None \<Rightarrow> None
        | Some True \<Rightarrow> check_layer_order fuel by_id pairs
        | Some False \<Rightarrow> Some (Inl (NmeUnsafeLayerOrder earlier later))
      else check_layer_order fuel by_id pairs)"

definition validate_native_layer_order ::
  "native_compiled_step list \<Rightarrow> (native_manifest_validation_error, unit) result option" where
  "validate_native_layer_order steps =
     (let mutations = ranked_mutations steps
      in check_layer_order (Suc (length steps)) (map_of (rev (native_graph steps)))
           (concat (map (\<lambda>earlier. map (Pair earlier) mutations) mutations)))"

definition role_check :: "native_compiled_step \<Rightarrow> (native_manifest_validation_error, unit) result" where
  "role_check s = require (ncs_role s = expected_role (ncs_operation s)) (NmeRoleOperationMismatch (ncs_plan_step_id s))"

definition fail_closed :: "native_verification_barrier \<Rightarrow> bool" where
  "fail_closed b =
     (nvb_before_next_mutation b \<and> nvb_require_fresh_target_identity b \<and> nvb_require_fresh_capabilities b
      \<and> nvb_require_expected_state_check b \<and> nvb_stop_on_mismatch b)"

definition barrier_check ::
  "native_compiled_step list \<Rightarrow> native_verification_barrier \<Rightarrow> (native_manifest_validation_error, unit) result" where
  "barrier_check steps b =
     (case find (\<lambda>s. ncs_plan_step_id s = nvb_after_plan_step_id b) steps of
        None \<Rightarrow> Inl (NmeUnexpectedVerificationBarrier (nvb_after_plan_step_id b))
      | Some s \<Rightarrow>
          (if \<not> is_mutation_operation (ncs_operation s)
           then Inl (NmeUnexpectedVerificationBarrier (nvb_after_plan_step_id b))
           else if \<not> fail_closed b then Inl (NmeUnsafeVerificationBarrier (nvb_after_plan_step_id b))
           else Inr ()))"

definition coverage_check ::
  "native_verification_barrier list \<Rightarrow> native_compiled_step \<Rightarrow> (native_manifest_validation_error, unit) result" where
  "coverage_check barriers s =
     (if \<not> is_mutation_operation (ncs_operation s) then Inr ()
      else let n = length (filter (\<lambda>b. nvb_after_plan_step_id b = ncs_plan_step_id s) barriers)
           in if n = 0 then Inl (NmeMissingVerificationBarrier (ncs_plan_step_id s))
              else if n = 1 then Inr ()
              else Inl (NmeDuplicateVerificationBarrier (ncs_plan_step_id s)))"

text \<open>\<open>check()?\<close> for a check that may not return.\<close>

definition returned_then :: "('e, 'a) result option \<Rightarrow> ('e, 'b) result option \<Rightarrow> ('e, 'b) result option" where
  "returned_then r k = (case r of None \<Rightarrow> None | Some (Inl e) \<Rightarrow> Some (Inl e) | Some (Inr _) \<Rightarrow> k)"

definition validate_native_manifest ::
  "native_compiled_manifest \<Rightarrow> (native_manifest_validation_error, unit) result option" where
  "validate_native_manifest m =
     returned_then (validate_native_dependency_graph (ncm_steps m))
     (returned_then (validate_native_layer_order (ncm_steps m))
       (Some (first_error
          (map role_check (ncm_steps m)
           @ map (barrier_check (ncm_steps m)) (ncm_verification_barriers m)
           @ map (coverage_check (ncm_verification_barriers m)) (ncm_steps m)))))"

definition validate_and_bind_native_manifest ::
  "(native_compiled_manifest \<Rightarrow> (string, string) result) \<Rightarrow> native_compiled_manifest
     \<Rightarrow> (native_manifest_binding_error, validated_native_manifest) result option" where
  "validate_and_bind_native_manifest native_manifest_digest m =
     returned_then (map_option (map_err NbeValidation) (validate_native_manifest m))
       (Some (and_then (map_err NbeSerialization (native_manifest_digest m))
          (\<lambda>digest. Inr \<lparr> vnm_manifest = m, vnm_digest = digest \<rparr>)))"

section \<open>What validation establishes\<close>

text \<open>A mutation of a higher layer depends, directly or not, on every mutation of a lower one.\<close>

definition ordered_layers :: "native_compiled_step list \<Rightarrow> bool" where
  "ordered_layers steps =
     (\<forall>s \<in> set steps. \<forall>t \<in> set steps. \<forall>r q.
        mutation_layer_rank (ncs_operation s) = Some r \<and> mutation_layer_rank (ncs_operation t) = Some q \<and> r < q
        \<longrightarrow> (ncs_plan_step_id t, ncs_plan_step_id s) \<in> (step_edges (native_graph steps))\<^sup>+)"

text \<open>Every mutation has exactly one barrier, no other step has one, and all are fail-closed.\<close>

definition barriers_cover :: "native_compiled_manifest \<Rightarrow> bool" where
  "barriers_cover m =
     (mset (map nvb_after_plan_step_id (ncm_verification_barriers m))
        = mset (map ncs_plan_step_id (filter (is_mutation_operation \<circ> ncs_operation) (ncm_steps m)))
      \<and> (\<forall>b \<in> set (ncm_verification_barriers m). fail_closed b))"

definition valid_native_manifest :: "native_compiled_manifest \<Rightarrow> bool" where
  "valid_native_manifest m =
     (well_founded_steps (native_graph (ncm_steps m)) \<and> ordered_layers (ncm_steps m)
      \<and> (\<forall>s \<in> set (ncm_steps m). ncs_role s = expected_role (ncs_operation s)) \<and> barriers_cover m)"

lemma native_graph_facts:
  "fst ` set (native_graph steps) = ncs_plan_step_id ` set steps"
  "map fst (native_graph steps) = map ncs_plan_step_id steps" "length (native_graph steps) = length steps"
  by (auto simp: native_graph_def image_iff)

lemma check_layer_order_ok:
  assumes "\<And>later. later \<in> fst ` snd ` set pairs
    \<Longrightarrow> \<forall>earlier. depends_on fuel g later earlier = Some ((later, earlier) \<in> R)"
  shows "\<exists>r. check_layer_order fuel g pairs = Some r
    \<and> (r = Inr () \<longleftrightarrow> (\<forall>((e, er), (l, lr)) \<in> set pairs. er < lr \<longrightarrow> (l, e) \<in> R))"
  using assms
proof (induction fuel g pairs rule: check_layer_order.induct)
  case (2 fuel g e er l lr pairs)
  then have l: "depends_on fuel g l e = Some ((l, e) \<in> R)" by simp
  show ?case
  proof (cases "er < lr")
    case True
    then show ?thesis using 2 l by (cases "(l, e) \<in> R") auto
  qed (use 2 in auto)
qed auto

lemma ranked_mutations_set:
  "(i, r) \<in> set (ranked_mutations steps)
     \<longleftrightarrow> (\<exists>s \<in> set steps. ncs_plan_step_id s = i \<and> mutation_layer_rank (ncs_operation s) = Some r)"
  by (force simp: ranked_mutations_def List.map_filter_def image_iff)

lemma native_layer_order_exact:
  assumes ok: "well_founded_steps (native_graph steps)"
  shows "\<exists>r. validate_native_layer_order steps = Some r \<and> (r = Inr () \<longleftrightarrow> ordered_layers steps)"
proof -
  let ?g = "native_graph steps" and ?ms = "ranked_mutations steps"
  let ?pairs = "concat (map (\<lambda>earlier. map (Pair earlier) ?ms) ?ms)"
  have "map_of (rev ?g) = map_of ?g"
    using ok by (simp add: map_of_inject_set rev_map[symmetric] well_founded_steps_def)
  moreover have "depends_on (Suc (length steps)) (map_of ?g) l e = Some ((l, e) \<in> (step_edges ?g)\<^sup>+)"
    if "l \<in> fst ` snd ` set ?pairs" for l e
  proof -
    from that have "l \<in> fst ` set ?g"
      by (auto simp: native_graph_facts ranked_mutations_set image_iff)
    from depends_on_exact[OF ok this] show ?thesis by (simp add: native_graph_facts)
  qed
  ultimately have "\<exists>r. validate_native_layer_order steps = Some r
    \<and> (r = Inr () \<longleftrightarrow> (\<forall>((e, er), (l, lr)) \<in> set ?pairs. er < lr \<longrightarrow> (l, e) \<in> (step_edges ?g)\<^sup>+))"
    unfolding validate_native_layer_order_def Let_def by (simp only:) (rule check_layer_order_ok, blast)
  moreover have "(\<forall>((e, er), (l, lr)) \<in> set ?pairs. er < lr \<longrightarrow> (l, e) \<in> (step_edges ?g)\<^sup>+)
      \<longleftrightarrow> (\<forall>e er l lr. (e, er) \<in> set ?ms \<and> (l, lr) \<in> set ?ms \<and> er < lr \<longrightarrow> (l, e) \<in> (step_edges ?g)\<^sup>+)"
    by auto
  moreover have "\<dots> \<longleftrightarrow> ordered_layers steps"
    unfolding ranked_mutations_set ordered_layers_def by blast
  ultimately show ?thesis by simp
qed

lemma barrier_check_ok:
  assumes "distinct (map ncs_plan_step_id steps)"
  shows "barrier_check steps b = Inr () \<longleftrightarrow> fail_closed b
    \<and> (\<exists>s \<in> set steps. ncs_plan_step_id s = nvb_after_plan_step_id b \<and> is_mutation_operation (ncs_operation s))"
proof (cases "find (\<lambda>s. ncs_plan_step_id s = nvb_after_plan_step_id b) steps")
  case None
  then have "\<forall>s \<in> set steps. ncs_plan_step_id s \<noteq> nvb_after_plan_step_id b"
    by (auto simp: find_None_iff)
  then show ?thesis unfolding barrier_check_def None by fastforce
next
  case (Some s)
  then have s: "s \<in> set steps" "ncs_plan_step_id s = nvb_after_plan_step_id b"
    by (auto simp: find_Some_iff)
  have "t = s" if "t \<in> set steps" "ncs_plan_step_id t = nvb_after_plan_step_id b" for t
    using that s assms inj_onD[of ncs_plan_step_id "set steps" t s] by (simp add: distinct_map)
  with s have "(\<exists>s \<in> set steps. ncs_plan_step_id s = nvb_after_plan_step_id b \<and> is_mutation_operation (ncs_operation s))
      \<longleftrightarrow> is_mutation_operation (ncs_operation s)" by blast
  then show ?thesis unfolding barrier_check_def Some by auto
qed

lemma coverage_check_ok:
  "coverage_check barriers s = Inr () \<longleftrightarrow>
     (is_mutation_operation (ncs_operation s)
        \<longrightarrow> count (mset (map nvb_after_plan_step_id barriers)) (ncs_plan_step_id s) = 1)"
proof -
  have "count (mset (map nvb_after_plan_step_id barriers)) i
      = length (filter (\<lambda>b. nvb_after_plan_step_id b = i) barriers)" for i
    by (induction barriers) auto
  then show ?thesis by (simp add: coverage_check_def Let_def)
qed

lemma mset_eq_distinct:
  assumes "distinct ys"
  shows "mset xs = mset ys \<longleftrightarrow> (\<forall>x \<in> set xs. x \<in> set ys) \<and> (\<forall>y \<in> set ys. count (mset xs) y = 1)"
proof -
  have ys: "count (mset ys) x = (if x \<in> set ys then 1 else 0)" for x
    using assms by (simp add: distinct_count_atmost_1)
  have xs: "count (mset xs) x = 0 \<longleftrightarrow> x \<notin> set xs" for x
    by (simp add: count_eq_zero_iff)
  show ?thesis unfolding multiset_eq_iff ys using xs by (metis zero_neq_one)
qed

lemma barriers_cover_iff:
  assumes dist: "distinct (map ncs_plan_step_id (ncm_steps m))"
  shows "barriers_cover m \<longleftrightarrow>
     (\<forall>b \<in> set (ncm_verification_barriers m). barrier_check (ncm_steps m) b = Inr ())
     \<and> (\<forall>s \<in> set (ncm_steps m). coverage_check (ncm_verification_barriers m) s = Inr ())"
proof -
  let ?bs = "map nvb_after_plan_step_id (ncm_verification_barriers m)"
  let ?ms = "map ncs_plan_step_id (filter (is_mutation_operation \<circ> ncs_operation) (ncm_steps m))"
  have "distinct ?ms" using dist by (simp add: distinct_map_filter)
  then have "mset ?bs = mset ?ms \<longleftrightarrow> (\<forall>i \<in> set ?bs. i \<in> set ?ms) \<and> (\<forall>i \<in> set ?ms. count (mset ?bs) i = 1)"
    by (rule mset_eq_distinct)
  moreover have "(\<forall>i \<in> set ?bs. i \<in> set ?ms) \<longleftrightarrow> (\<forall>b \<in> set (ncm_verification_barriers m).
      \<exists>s \<in> set (ncm_steps m). ncs_plan_step_id s = nvb_after_plan_step_id b \<and> is_mutation_operation (ncs_operation s))"
    by (force simp: image_iff)
  moreover have "(\<forall>i \<in> set ?ms. count (mset ?bs) i = 1) \<longleftrightarrow>
      (\<forall>s \<in> set (ncm_steps m). is_mutation_operation (ncs_operation s) \<longrightarrow> count (mset ?bs) (ncs_plan_step_id s) = 1)"
    by (auto simp del: mset_map)
  ultimately show ?thesis
    unfolding barriers_cover_def barrier_check_ok[OF dist] coverage_check_ok by blast
qed

lemma native_manifest_checked:
  "\<exists>r. validate_native_manifest m = Some r \<and> (r = Inr () \<longleftrightarrow> valid_native_manifest m)"
proof -
  obtain g where g: "validate_native_dependency_graph (ncm_steps m) = Some g"
    "g = Inr () \<longleftrightarrow> well_founded_steps (native_graph (ncm_steps m))"
    using validate_graph_exact[of "native_graph (ncm_steps m)"]
    by (auto simp: validate_native_dependency_graph_def)
  show ?thesis
  proof (cases "g = Inr ()")
    case False
    then obtain e where "g = Inl e" by (cases g) auto
    with g False show ?thesis by (auto simp: validate_native_manifest_def returned_then_def valid_native_manifest_def)
  next
    case True
    with g have ok: "well_founded_steps (native_graph (ncm_steps m))" by simp
    then have dist: "distinct (map ncs_plan_step_id (ncm_steps m))"
      by (simp add: well_founded_steps_def native_graph_facts)
    obtain l where l: "validate_native_layer_order (ncm_steps m) = Some l" "l = Inr () \<longleftrightarrow> ordered_layers (ncm_steps m)"
      using native_layer_order_exact[OF ok] by blast
    have "validate_native_manifest m = Some (and_then l (\<lambda>_. first_error
        (map role_check (ncm_steps m) @ map (barrier_check (ncm_steps m)) (ncm_verification_barriers m)
           @ map (coverage_check (ncm_verification_barriers m)) (ncm_steps m))))"
      by (cases l) (simp_all add: validate_native_manifest_def returned_then_def g(1) True l(1))
    with l(2) ok show ?thesis
      by (simp add: and_then_Inr first_error_ok ball_Un role_check_def valid_native_manifest_def
          barriers_cover_iff[OF dist])
  qed
qed

text \<open>C5: validating a native manifest returns on every manifest, although its two walks over the
  dependencies have no bound of their own. It accepts exactly the manifests whose steps are numbered apart
  from 0 and each other, depend on known steps only and on no cycle, whose mutations of a higher layer
  depend, directly or not, on all those of the lower layers, whose roles are those of their operations,
  and whose barriers are fail-closed and stand behind the mutations, one behind each.\<close>

theorem native_validation_exact:
  "\<exists>r. validate_native_manifest m = Some r \<and> (r = Inr () \<longleftrightarrow> valid_native_manifest m)"
  by (rule native_manifest_checked)

end
