(* ===== verification/ExecutionIntent.thy ===== *)
theory ExecutionIntent
  imports SessionApproval NativeOperation
begin

text \<open>
  \<open>freeze_execution_intent\<close> of \<open>crates/executor/src/execution_intent.rs\<close>: what a session, its durable record and an
  approval must agree on before the steps of the plan become a manifest. The digest of a manifest is a
  parameter.
\<close>

datatype execution_intent_manifest_status = FrozenNonExecutable

record frozen_execution_intent_manifest =
  fim_schema_version :: u32
  fim_manifest_id :: string
  fim_approval_id :: string
  fim_approved_journal_id :: string
  fim_approved_journal_digest :: string
  fim_plan_id :: string
  fim_evidence_bundle_id :: string
  fim_target_manifest_digest :: string
  fim_locked_session_id :: string
  fim_status :: execution_intent_manifest_status
  fim_mutation_enabled :: bool
  fim_owner_acceptance_required :: bool
  fim_steps :: "frozen_intent_step list"
  fim_verification_barriers :: "verification_barrier_spec list"
  fim_blockers :: "string list"
  fim_future_gates :: "string list"

type_synonym intent_error = "locked_session_error execution_intent_error"

definition map_session_error :: "locked_session_error \<Rightarrow> intent_error" where
  "map_session_error e =
     (case e of LseDurableJournalRequired \<Rightarrow> EieDurableJournalRequired
      | LseDurableJournalMismatch \<Rightarrow> EieDurableJournalMismatch
      | _ \<Rightarrow> EieSession e)"

definition session_checks :: "locked_session \<Rightarrow> exact_plan_approval \<Rightarrow> (intent_error, unit) result list" where
  "session_checks s a =
     [require (oj_phase (ls_journal s) = JpApproved) EieSessionNotApproved,
      require (\<not> (MUTATION_ENABLED \<or> feh_mutation_enabled (ls_handoff s) \<or> xpa_mutation_enabled a)) EieMutationEnabled,
      require (\<not> oj_mutation_may_have_started (ls_journal s)) EieMutationMayHaveStarted]"

definition binding_agrees :: "locked_session \<Rightarrow> exact_plan_approval \<Rightarrow> exact_approval_binding \<Rightarrow> bool" where
  "binding_agrees s a binding =
     (let approved = xpa_binding a; handoff = ls_handoff s
      in \<not> (xpa_journal_id a \<noteq> oj_journal_id (ls_journal s)
            \<or> eab_locked_session_id approved \<noteq> ls_session_id s
            \<or> eab_plan_id approved \<noteq> ppv_plan_id (feh_plan handoff)
            \<or> eab_evidence_bundle_id approved \<noteq> eab_evidence_bundle_id binding
            \<or> eab_target_manifest_digest approved \<noteq> tim_manifest_digest (feh_target_identity handoff)
            \<or> eab_approval_id binding \<noteq> eab_approval_id approved
            \<or> eab_plan_id binding \<noteq> eab_plan_id approved
            \<or> eab_target_manifest_digest binding \<noteq> eab_target_manifest_digest approved
            \<or> eab_locked_session_id binding \<noteq> eab_locked_session_id approved
            \<or> eab_preconditions_journal_digest binding \<noteq> eab_preconditions_journal_digest approved))"

definition approval_agreement :: "locked_session \<Rightarrow> exact_plan_approval \<Rightarrow> (intent_error, unit) result" where
  "approval_agreement s a =
     (case oj_approval (ls_journal s) of
        None \<Rightarrow> Inl EieApprovalBindingMismatch
      | Some binding \<Rightarrow>
          (if \<not> binding_agrees s a binding then Inl EieApprovalBindingMismatch
           else if \<not> xpa_owner_acceptance_required a \<or> \<not> feh_owner_acceptance_required (ls_handoff s)
           then Inl EieOwnerAcceptanceInvariant else Inr ()))"

definition FUTURE_GATES :: "string list" where
  "FUTURE_GATES =
     [''explicit owner acceptance for mutation-capable rollout'', ''reviewed semantic-to-argv compiler'',
      ''minimal executable allowlist'', ''privileged-helper protocol'', ''per-layer rediscovery implementation'',
      ''interruption and recovery semantics'', ''disposable write matrix'']"

definition intent_manifest ::
  "locked_session \<Rightarrow> exact_plan_approval \<Rightarrow> string \<Rightarrow> frozen_intent_step list \<Rightarrow> verification_barrier_spec list
     \<Rightarrow> frozen_execution_intent_manifest" where
  "intent_manifest s a digest steps barriers =
     \<lparr> fim_schema_version = 1, fim_manifest_id = [], fim_approval_id = eab_approval_id (xpa_binding a),
       fim_approved_journal_id = oj_journal_id (ls_journal s), fim_approved_journal_digest = digest,
       fim_plan_id = eab_plan_id (xpa_binding a), fim_evidence_bundle_id = eab_evidence_bundle_id (xpa_binding a),
       fim_target_manifest_digest = eab_target_manifest_digest (xpa_binding a),
       fim_locked_session_id = eab_locked_session_id (xpa_binding a), fim_status = FrozenNonExecutable,
       fim_mutation_enabled = False, fim_owner_acceptance_required = True, fim_steps = steps,
       fim_verification_barriers = barriers, fim_blockers = [], fim_future_gates = FUTURE_GATES \<rparr>"

text \<open>
  The part behind the durable check; its value is \<open>None\<close> while the walk over the dependencies has not returned.
\<close>

definition freeze_plan ::
  "guard_digest_fun \<Rightarrow> (frozen_execution_intent_manifest \<Rightarrow> (string, string) result) \<Rightarrow> locked_session
     \<Rightarrow> exact_plan_approval \<Rightarrow> (intent_error, frozen_execution_intent_manifest) result option" where
  "freeze_plan fp fpi s a =
     returned_then (Some (approval_agreement s a))
    (returned_then (validate_dependency_graph (ppv_steps (feh_plan (ls_handoff s))))
      (Some (and_then (freeze_steps (feh_target_identity (ls_handoff s)) (xpa_filesystem_decision a)
          (ppv_steps (feh_plan (ls_handoff s)))) (\<lambda>(steps, barriers).
        and_then (map_err EieSerialization (journal_digest fp (ls_journal s))) (\<lambda>digest.
        let m = intent_manifest s a digest steps barriers
        in and_then (map_err EieSerialization (fpi m)) (\<lambda>i. Inr (m\<lparr>fim_manifest_id := i\<rparr>)))))))"

text \<open>\<open>Inr None\<close> stands for a call that has not returned.\<close>

definition freeze_execution_intent ::
  "session_digests \<Rightarrow> (frozen_execution_intent_manifest \<Rightarrow> (string, string) result) \<Rightarrow> io_env \<Rightarrow> exact_plan_approval
     \<Rightarrow> (locked_session \<times> world, intent_error, frozen_execution_intent_manifest option) state_action" where
  "freeze_execution_intent sd fpi env a =
     act_bind session_now (\<lambda>s.
     act_then (act_lift (first_error (session_checks s a)))
    (act_then (in_session map_session_error (require_current_durable_journal sd env))
      (act_lift (case freeze_plan (jc_digest (sd_codec sd)) fpi s a of
          None \<Rightarrow> Inr None | Some r \<Rightarrow> and_then r (\<lambda>m. Inr (Some m))))))"

definition compile_native_manifest :: "frozen_execution_intent_manifest \<Rightarrow> native_compiled_manifest" where
  "compile_native_manifest m =
     compile_native_manifest_parts (fim_manifest_id m) (fim_steps m) (fim_verification_barriers m)"

section \<open>An approved session may be frozen\<close>

lemma mutation_disabled [simp]: "\<not> MUTATION_ENABLED"
  by (simp add: MUTATION_ENABLED_def)

text \<open>C7: an operator approves exactly what was verified. Without the phrase that names the evidence bundle, or on any other
  error, the session is as it was. With it, the journal stood at its verified preconditions and its digest is the
  one of the verification; the binding that is recorded names the plan and the target of the handoff, is the one the
  approval returns, and is sealed by its digest; and the approved session passes the checks that freezing an intent makes
  of a session and its approval.\<close>

theorem operator_approval_binds_the_record:
  "case approve_operator_plan sd env v confirmation (s, w) of
     (Inl _, (s', _)) \<Rightarrow> s' = s
   | (Inr a, (s', _)) \<Rightarrow>
       confirmation = ''EXTEND '' @ pcv_bundle_id v
       \<and> oj_phase (ls_journal s) = JpPreconditionsVerified
       \<and> journal_digest (jc_digest (sd_codec sd)) (ls_journal s) = Inr (pcv_journal_digest v)
       \<and> eab_plan_id (xpa_binding a) = ppv_plan_id (feh_plan (ls_handoff s))
       \<and> eab_target_manifest_digest (xpa_binding a) = tim_manifest_digest (feh_target_identity (ls_handoff s))
       \<and> expected_approval_id (jc_digest (sd_codec sd)) (xpa_binding a) = Inr (eab_approval_id (xpa_binding a))
       \<and> s' = s\<lparr>ls_journal := ls_journal s'\<rparr> \<and> oj_approval (ls_journal s') = Some (xpa_binding a)
       \<and> first_error (session_checks s' a) = Inr () \<and> approval_agreement s' a = Inr ()"
proof (cases "confirmation = operator_confirmation_phrase v")
  case False
  then show ?thesis by (simp add: approve_operator_plan_def act_lift_def)
next
  case True
  obtain r s' w' where run: "approve_exact_plan sd env v (pcv_plan_id v) (pcv_bundle_id v) (pcv_target_manifest_digest v) (s, w)
      = (r, (s', w'))" by (metis prod.exhaust)
  have same: "expected_approval_id fp (b\<lparr>eab_approval_id := i\<rparr>) = expected_approval_id fp b" for fp b i
    by (simp add: expected_approval_id_def)
  show ?thesis
  proof (cases r)
    case (Inr a)
    note out = approve_exact_outcome[OF run, unfolded Inr sum.case approval_checks_ok]
    have b: "xpa_binding a = (approval_binding_of v)\<lparr>eab_approval_id := eab_approval_id (xpa_binding a)\<rparr>"
      using out by blast
    have p: "pcv_plan_id v = ppv_plan_id (feh_plan (ls_handoff s))"
      "pcv_target_manifest_digest v = tim_manifest_digest (feh_target_identity (ls_handoff s))"
      "pcv_locked_session_id v = ls_session_id s" using out by blast+
    have f: "eab_plan_id (xpa_binding a) = ppv_plan_id (feh_plan (ls_handoff s))"
      "eab_target_manifest_digest (xpa_binding a) = tim_manifest_digest (feh_target_identity (ls_handoff s))"
      "eab_locked_session_id (xpa_binding a) = ls_session_id s"
      by (subst b, simp add: approval_binding_of_def p)+
    have h: "ls_handoff s' = ls_handoff s" "ls_session_id s' = ls_session_id s"
      using out by (metis locked_session.select_convs(2,3) locked_session.surjective locked_session.update_convs(4))+
    have e: "expected_approval_id (jc_digest (sd_codec sd)) (xpa_binding a) = Inr (eab_approval_id (xpa_binding a))"
      using out by (subst b) (metis same)
    have c: "first_error (session_checks s' a) = Inr ()" using out h by (simp add: session_checks_def first_error_ok)
    have g: "approval_agreement s' a = Inr ()"
      using out by (simp add: approval_agreement_def binding_agrees_def Let_def h) (use f in blast)
    have "approve_operator_plan sd env v confirmation (s, w) = (Inr a, (s', w'))"
      by (simp add: approve_operator_plan_def True run Inr)
    then show ?thesis using out True by (simp add: operator_confirmation_phrase_def c e g) (use f in blast)
  qed (use approve_exact_outcome[OF run] True run in \<open>simp add: approve_operator_plan_def\<close>)
qed

section \<open>The intent of a planner's plan\<close>

lemma sorted_map_filter_nth:
  assumes "sorted (List.map_filter f xs)" "a < b" "b < length xs" "f (xs ! a) = Some x" "f (xs ! b) = Some y"
  shows "x \<le> (y::nat)"
proof -
  let ?us = "take (Suc a) xs" and ?vs = "drop (Suc a) xs"
  have "xs ! a \<in> set ?us" using assms(2,3) by (simp add: take_Suc_conv_app_nth)
  moreover have "?vs ! (b - Suc a) = xs ! b" "b - Suc a < length ?vs" using assms(2,3) by simp_all
  then have "xs ! b \<in> set ?vs" by (metis nth_mem)
  ultimately have "x \<in> set (List.map_filter f ?us)" "y \<in> set (List.map_filter f ?vs)"
    using assms(4,5) by (force simp: List.map_filter_def)+
  moreover have "List.map_filter f xs = List.map_filter f ?us @ List.map_filter f ?vs"
    by (simp add: List.map_filter_def flip: map_append filter_append)
  ultimately show ?thesis using assms(1) by (auto simp: sorted_append)
qed

definition chain_graph :: "dep_step list \<Rightarrow> bool" where
  "chain_graph g = (length g < 2 ^ 32 \<and> (\<forall>k < length g. g ! k = (of_nat (Suc k), if k = 0 then [] else [of_nat k])))"

lemma chain_edges:
  assumes "chain_graph g"
  shows "step_edges g = {(of_nat (Suc k), of_nat k) |k. 0 < k \<and> k < length g}"
proof -
  define f :: "nat \<Rightarrow> dep_step" where "f k = (of_nat (Suc k), if k = 0 then [] else [of_nat k])" for k
  have g: "g = map f [0..<length g]"
    by (rule nth_equalityI) (use assms in \<open>simp_all add: chain_graph_def f_def\<close>)
  have s: "set g = f ` {..<length g}"
    by (metis g set_map set_upt atLeast0LessThan)
  show ?thesis
  proof (rule set_eqI, clarify)
    fix i d :: u32
    have "(i, d) \<in> step_edges g \<longleftrightarrow> (\<exists>k < length g. i = fst (f k) \<and> d \<in> set (snd (f k)))"
      unfolding step_edges_def s by (auto simp: image_iff, metis fst_conv snd_conv, metis prod.collapse lessThan_iff)
    also have "\<dots> \<longleftrightarrow> (\<exists>k < length g. i = of_nat (Suc k) \<and> 0 < k \<and> d = of_nat k)"
      by (rule arg_cong[where f = Ex], rule ext) (simp add: f_def del: of_nat_Suc)
    also have "\<dots> \<longleftrightarrow> (i, d) \<in> {(of_nat (Suc k), of_nat k) |k. 0 < k \<and> k < length g}"
      by (simp del: of_nat_Suc) blast
    finally show "(i, d) \<in> step_edges g \<longleftrightarrow> (i, d) \<in> {(of_nat (Suc k), of_nat k) |k. 0 < k \<and> k < length g}" .
  qed
qed

lemma chain_reaches:
  assumes "chain_graph g" "a < b" "b < length g"
  shows "(of_nat (Suc b), of_nat (Suc a)) \<in> (step_edges g)\<^sup>+"
  using assms(2,3)
proof (induction b)
  case (Suc b)
  then have e: "(of_nat (Suc (Suc b)), of_nat (Suc b)) \<in> step_edges g"
    unfolding chain_edges[OF assms(1)] by (intro CollectI exI[of _ "Suc b"]) auto
  show ?case
  proof (cases "a = b")
    case False
    with Suc have "(of_nat (Suc b), of_nat (Suc a)) \<in> (step_edges g)\<^sup>+" by simp
    with e show ?thesis by (rule trancl_into_trancl2)
  qed (use e in auto)
qed simp

lemma chain_well_founded:
  assumes "chain_graph g"
  shows "well_founded_steps g"
proof -
  have n: "length g < 2 ^ 32" and nth: "\<And>k. k < length g \<Longrightarrow> g ! k = (of_nat (Suc k), if k = 0 then [] else [of_nat k])"
    using assms by (auto simp: chain_graph_def)
  have u: "unat (of_nat k :: u32) = k" if "k \<le> length g" for k
    using that n by (simp add: unat_of_nat take_bit_nat_eq_self)
  have ids: "map fst g = map of_nat [1..<Suc (length g)]"
    by (rule nth_equalityI) (simp_all add: nth nth_append del: upt_Suc)
  have "inj_on (of_nat :: nat \<Rightarrow> u32) {1..<Suc (length g)}"
    by (rule inj_onI) (metis u atLeastLessThan_iff less_Suc_eq_le)
  then have "distinct (map fst g)" unfolding ids by (simp add: distinct_map del: upt_Suc)
  moreover have "0 \<notin> fst ` set g"
  proof
    assume "0 \<in> fst ` set g"
    then obtain k where "k \<in> {1..<Suc (length g)}" "(of_nat k :: u32) = 0"
      unfolding set_map[symmetric] ids by (metis image_iff set_map set_upt)
    with u[of k] show False by simp
  qed
  moreover have "known_dependencies g" unfolding known_dependencies_def
  proof (clarsimp simp: in_set_conv_nth nth split: if_splits)
    fix k assume "k < length g" "0 < k"
    then have "fst (g ! (k - 1)) = of_nat k" "k - 1 < length g" by (simp_all add: nth)
    then show "of_nat k \<in> fst ` set g" by (metis imageI nth_mem)
  qed
  moreover have "unat d < unat i" if "(i, d) \<in> step_edges g" for i d
    using that u unfolding chain_edges[OF assms] by (auto simp del: of_nat_Suc)
  then have "step_edges g \<subseteq> inv_image {(x, y). y < x} unat" by auto
  then have "acyclic (step_edges g)"
    by (rule acyclic_subset[rotated]) (auto intro!: acyclicI_order[where f = unat])
  ultimately show ?thesis by (simp add: well_founded_steps_def)
qed

lemma sound_chain:
  assumes "sound_steps steps"
  shows "chain_graph (plan_graph steps)"
proof -
  have n: "length steps \<le> 8" and i: "map pst_id steps = map of_nat [1..<Suc (length steps)]"
    and d: "map pst_depends_on steps = [] # map (\<lambda>i. [of_nat i]) [1..<length steps]"
    using assms unfolding sound_steps_def by blast+
  have "pst_id (steps ! k) = of_nat (Suc k)" if "k < length steps" for k
    using that arg_cong[OF i, of "\<lambda>xs. xs ! k"] by (simp add: nth_append del: upt_Suc of_nat_Suc)
  moreover have "pst_depends_on (steps ! k) = (if k = 0 then [] else [of_nat k])" if "k < length steps" for k
    using that arg_cong[OF d, of "\<lambda>xs. xs ! k"] by (cases k) (simp_all add: nth_append del: upt_Suc)
  ultimately show ?thesis using n by (simp add: chain_graph_def plan_graph_def del: of_nat_Suc)
qed

definition native_step :: "plan_step \<Rightarrow> native_compiled_step" where
  "native_step s = compile_native_step (frozen_step s)"

lemma native_step_simps [simp]:
  "ncs_plan_step_id (native_step s) = pst_id s" "ncs_depends_on (native_step s) = pst_depends_on s"
  "ncs_role (native_step s) = expected_role (ncs_operation (native_step s))"
  "is_mutation_operation (ncs_operation (native_step s)) = is_mutation (pst_operation s)"
  "mutation_layer_rank (ncs_operation (native_step s)) = map_option of_nat (storage_layer (pst_operation s))"
  by (simp_all add: native_step_def compile_native_step_def frozen_step_def is_mutation_def
      translate_operation_def build_native_operation_spec_def expected_role_def is_mutation_operation_def
      mutation_layer_rank_def storage_layer_def split: operation.split)

lemma native_graph_plan: "native_graph (map native_step steps) = plan_graph steps"
  by (simp add: native_graph_def plan_graph_def)

lemma layer_bound: "storage_layer op = Some r \<Longrightarrow> r \<le> 4"
  by (auto simp: storage_layer_def split: operation.splits)

lemma sound_layers:
  assumes "sound_steps steps"
  shows "ordered_layers (map native_step steps)"
  unfolding ordered_layers_def native_graph_plan
proof (intro ballI allI impI)
  fix s' t' r q
  assume "s' \<in> set (map native_step steps)" "t' \<in> set (map native_step steps)"
    and rank: "mutation_layer_rank (ncs_operation s') = Some r \<and> mutation_layer_rank (ncs_operation t') = Some q \<and> r < q"
  then obtain a b where a: "a < length steps" "s' = native_step (steps ! a)"
    and b: "b < length steps" "t' = native_step (steps ! b)" by (auto simp: in_set_conv_nth)
  with rank obtain x y where xy: "storage_layer (pst_operation (steps ! a)) = Some x" "storage_layer (pst_operation (steps ! b)) = Some y"
    "of_nat x < (of_nat y :: u8)" by auto
  have "x < y"
    using xy(3) layer_bound[OF xy(1)] layer_bound[OF xy(2)] by (simp add: word_less_nat_alt unat_of_nat take_bit_nat_eq_self)
  have sorted: "sorted (List.map_filter storage_layer (map pst_operation steps))"
    using assms by (simp add: sound_steps_def)
  have "\<not> b < a"
    using sorted_map_filter_nth[OF sorted, of b a y x] xy a b \<open>x < y\<close> by auto
  moreover have "a \<noteq> b" using xy \<open>x < y\<close> by auto
  ultimately have "a < b" by simp
  moreover note ch = sound_chain[OF assms]
  ultimately have "(of_nat (Suc b), of_nat (Suc a)) \<in> (step_edges (plan_graph steps))\<^sup>+"
    using chain_reaches[OF ch] b by (simp add: plan_graph_def)
  moreover have "pst_id (steps ! k) = of_nat (Suc k)" if "k < length steps" for k
    using ch that by (auto simp: chain_graph_def plan_graph_def)
  ultimately show "(ncs_plan_step_id t', ncs_plan_step_id s') \<in> (step_edges (plan_graph steps))\<^sup>+"
    using a b by simp
qed

lemma covering_barriers:
  "barriers_cover (compile_native_manifest_parts i (map frozen_step steps)
     (map (barrier_after \<circ> pst_id) (filter (is_mutation \<circ> pst_operation) steps)))"
proof -
  have "map nvb_after_plan_step_id (map (compile_native_verification_barrier \<circ> (barrier_after \<circ> pst_id)) xs) = map pst_id xs" for xs
    by (simp add: compile_native_verification_barrier_def barrier_after_def)
  moreover have "map ncs_plan_step_id (filter (is_mutation_operation \<circ> ncs_operation) (map native_step steps))
      = map pst_id (filter (is_mutation \<circ> pst_operation) steps)"
    by (simp add: filter_map comp_def)
  ultimately show ?thesis
    by (auto simp: barriers_cover_def compile_native_manifest_parts_def compile_native_steps_def
        compile_native_verification_barriers_def native_step_def[symmetric] comp_def fail_closed_def
        compile_native_verification_barrier_def barrier_after_def)
qed

lemma compiled_sound:
  assumes "steps = [] \<or> sound_steps steps" and "freeze_steps identity decision steps = Inr (frozen, barriers)"
  shows "validate_native_manifest (compile_native_manifest_parts i frozen barriers) = Some (Inr ())"
proof -
  let ?m = "compile_native_manifest_parts i frozen barriers"
  have fb: "frozen = map frozen_step steps" "barriers = map (barrier_after \<circ> pst_id) (filter (is_mutation \<circ> pst_operation) steps)"
    using assms(2) by (simp_all add: freeze_steps_ok)
  have steps: "ncm_steps ?m = map native_step steps"
    by (simp add: compile_native_manifest_parts_def compile_native_steps_def fb native_step_def)
  have "well_founded_steps (plan_graph steps) \<and> ordered_layers (map native_step steps)"
  proof (cases "steps = []")
    case True
    have "well_founded_steps []" by (rule chain_well_founded) (simp add: chain_graph_def)
    with True show ?thesis by (simp add: plan_graph_def ordered_layers_def)
  next
    case False
    with assms(1) sound_layers sound_chain chain_well_founded show ?thesis by blast
  qed
  then have "valid_native_manifest ?m"
    using covering_barriers[of i steps] unfolding valid_native_manifest_def steps by (auto simp: native_graph_plan fb)
  with native_manifest_checked[of ?m] show ?thesis by auto
qed

lemma freeze_steps_error:
  "freeze_steps identity decision steps = Inl e \<Longrightarrow> \<exists>d. e = EieFrozenIdentityMismatch d"
  by (induction steps)
    (auto simp: and_then_def validate_step_semantics_def map_err_def translate_step_frozen split: sum.splits prod.splits)

lemma chain_graph_nil [simp]: "chain_graph []"
  by (simp add: chain_graph_def)

lemma plan_graph_nil [simp]: "plan_graph [] = []"
  by (simp add: plan_graph_def)

text \<open>C4: the intent of a plan the extend planner made always compiles to a manifest that the native validation accepts.
  Freezing returns; it never fails on the numbers or the dependencies of the steps; and when it succeeds, the steps compile,
  under their numbers, to a manifest without cycles, with the lower layers of storage first, and one fail-closed barrier behind
  each mutation.\<close>

theorem planned_intent_compiles:
  assumes "plan_extend fps fpp snapshot capabilities request = Inr (feh_plan (ls_handoff s))"
  shows "\<exists>r. freeze_plan fp fpi s a = Some r \<and> (case r of
     Inl e \<Rightarrow> e \<notin> {EieZeroStepId, EieDependencyCycle} \<and> (\<forall>i d. e \<notin> {EieDuplicateStepId i, EieUnknownDependency i d, EieSelfDependency i})
   | Inr m \<Rightarrow> validate_native_manifest (compile_native_manifest m) = Some (Inr ())
       \<and> map ncs_plan_step_id (ncm_steps (compile_native_manifest m)) = map pst_id (ppv_steps (feh_plan (ls_handoff s))))"
proof -
  let ?steps = "ppv_steps (feh_plan (ls_handoff s))"
  have sound: "?steps = [] \<or> sound_steps ?steps"
    using extend_plan_outcome[where fps = fps and fpp = fpp and snapshot = snapshot and capabilities = capabilities
        and request = request] assms
    by (auto split: plan_status.splits)
  have graph: "validate_dependency_graph ?steps = (Some (Inr ()) :: (intent_error, unit) result option)"
  proof -
    have "well_founded_steps (plan_graph ?steps)"
      using sound sound_chain chain_well_founded by (metis chain_well_founded chain_graph_nil plan_graph_nil)
    then show ?thesis by (simp add: validate_dependency_graph_def validate_graph_ok[symmetric] map_err_def)
  qed
  show ?thesis
  proof (cases "approval_agreement s a")
    case (Inl e)
    then show ?thesis
      by (auto simp: freeze_plan_def returned_then_def approval_agreement_def split: option.splits if_splits)
  next
    case (Inr u)
    have run: "freeze_plan fp fpi s a = Some (and_then (freeze_steps (feh_target_identity (ls_handoff s)) (xpa_filesystem_decision a) ?steps)
       (\<lambda>(steps, barriers). and_then (map_err EieSerialization (journal_digest fp (ls_journal s))) (\<lambda>digest.
        let m = intent_manifest s a digest steps barriers
        in and_then (map_err EieSerialization (fpi m)) (\<lambda>i. Inr (m\<lparr>fim_manifest_id := i\<rparr>)))))"
      by (simp add: freeze_plan_def returned_then_def Inr graph)
    show ?thesis
    proof (cases "freeze_steps (feh_target_identity (ls_handoff s)) (xpa_filesystem_decision a) ?steps :: (intent_error, _) result")
      case (Inl e)
      then show ?thesis using freeze_steps_error[OF Inl] by (auto simp: run)
    next
      case (Inr fb)
      obtain frozen barriers where fb: "fb = (frozen, barriers)" by (cases fb)
      note c = compiled_sound[OF sound Inr[unfolded fb], unfolded compile_native_manifest_parts_def compile_native_steps_def]
      have ids: "map fis_plan_step_id frozen = map pst_id ?steps"
        using Inr fb by (auto simp: freeze_steps_ok frozen_step_def)
      show ?thesis unfolding run Inr fb
        by (auto simp: map_err_def and_then_def Let_def compile_native_manifest_def intent_manifest_def c
          compile_native_manifest_parts_def compile_native_steps_def compile_native_step_def ids comp_def split: sum.split)
    qed
  qed
qed

section \<open>A session whose intent is frozen\<close>

definition ex_frozen_handoff :: frozen_execution_handoff where
  "ex_frozen_handoff = (projr ex_handoff)\<lparr>feh_plan :=
     projr (plan_extend (\<lambda>_. Inr ex_hex) (\<lambda>_. Inr ex_hex) ex_growth_host ex_growth_tools ex_growth_request)\<rparr>"

definition ex_frozen_session :: locked_session where
  "ex_frozen_session = \<lparr> ls_lock_path = [RootDir, Normal ''lock''], ls_session_id = ex_hex, ls_handoff = ex_frozen_handoff,
     ls_journal = ex_approved, ls_journal_store = None, ls_revalidation_attempted = True \<rparr>"

definition ex_frozen_approval :: exact_plan_approval where
  "ex_frozen_approval = \<lparr> xpa_binding = ex_approval, xpa_journal_id = ex_hex,
     xpa_filesystem_decision = feh_filesystem_decision (projr ex_handoff),
     xpa_owner_acceptance_required = True, xpa_mutation_enabled = False \<rparr>"

lemma ex_planned:
  "plan_extend (\<lambda>_. Inr ex_hex) (\<lambda>_. Inr ex_hex) ex_growth_host ex_growth_tools ex_growth_request = Inr (feh_plan ex_frozen_handoff)"
  "ppv_steps (feh_plan ex_frozen_handoff) = ex_growth_steps" "ppv_plan_id (feh_plan ex_frozen_handoff) = ex_hex"
  by (simp_all add: ex_frozen_handoff_def plan_extend_def Let_def evidence_checks_frame(3) ex_growth_profile)

lemma ex_handoff_facts:
  "map_option (\<lambda>h. (tim_partitions (feh_target_identity h),
       map_option (\<lambda>f. (fid_device f, fid_fs_type f)) (tim_filesystem (feh_target_identity h)),
       tim_target (feh_target_identity h), map (\<lambda>m. (mid_target m, mid_fs_type m)) (tim_mounts (feh_target_identity h)),
       tim_manifest_digest (feh_target_identity h), feh_owner_acceptance_required h, feh_filesystem_decision h)) (ok_opt ex_handoff)
   = Some ([\<lparr>pgi_partition = ''/dev/sda1'', pgi_disk = Some ''/dev/sda'', pgi_table_label = Some ''gpt'', pgi_table_id = None,
        pgi_sector_size_bytes = Some 512, pgi_start_sector = Some 2048, pgi_size_sectors = Some 2048,
        pgi_record_uuid = Some ''p1''\<rparr>],
       Some (''/dev/sda1'', ''ext4''), ''/'', [(''/'', Some ''ext4'')], ex_hex, True,
       \<lparr>fgd_target = ''/'', fgd_device = Some ''/dev/sda1'', fgd_mountpoint = Some ''/'', fgd_fs_type = Some ''ext4'',
        fgd_state = FdReadyOnlineGrow, fgd_metadata_state = Some FpsVerified, fgd_read_only_check = None,
        fgd_reasons =
          [''mounted ext4 is read-write, superblock metadata reports clean state, and online resize tooling is available''],
        fgd_required_actions =
          [''do not run e2fsck on the mounted filesystem as an execution gate; revalidate target identity immediately before resize'']\<rparr>)"
  by code_simp

lemma ex_handoff_built: "ex_handoff = Inr (projr ex_handoff)"
proof -
  obtain h where "ex_handoff = Inr h" using ex_handoff_status by (auto simp: ok_opt_Some)
  then show ?thesis by (metis sum.sel(2))
qed

lemmas ex_handoff_values = ex_handoff_facts[unfolded ok_opt_Some[THEN iffD2, OF ex_handoff_built] option.map option.inject prod.inject]

lemma ex_identity:
  "tim_partitions (feh_target_identity (projr ex_handoff)) = [\<lparr>pgi_partition = ''/dev/sda1'', pgi_disk = Some ''/dev/sda'',
      pgi_table_label = Some ''gpt'', pgi_table_id = None, pgi_sector_size_bytes = Some 512,
      pgi_start_sector = Some 2048, pgi_size_sectors = Some 2048, pgi_record_uuid = Some ''p1''\<rparr>]"
  "map_option (\<lambda>f. (fid_device f, fid_fs_type f)) (tim_filesystem (feh_target_identity (projr ex_handoff)))
     = Some (''/dev/sda1'', ''ext4'')"
  "tim_target (feh_target_identity (projr ex_handoff)) = ''/''"
  "map (\<lambda>m. (mid_target m, mid_fs_type m)) (tim_mounts (feh_target_identity (projr ex_handoff))) = [(''/'', Some ''ext4'')]"
  by (simp_all only: ex_handoff_values)

lemma ex_decision:
  "fgd_target (feh_filesystem_decision (projr ex_handoff)) = ''/''"
  "fgd_device (feh_filesystem_decision (projr ex_handoff)) = Some ''/dev/sda1''"
  "fgd_fs_type (feh_filesystem_decision (projr ex_handoff)) = Some ''ext4''"
  "fgd_mountpoint (feh_filesystem_decision (projr ex_handoff)) = Some ''/''"
  "fgd_state (feh_filesystem_decision (projr ex_handoff)) = FdReadyOnlineGrow"
  "feh_owner_acceptance_required (projr ex_handoff)"
  "tim_manifest_digest (feh_target_identity (projr ex_handoff)) = ex_hex"
  by (simp_all only: ex_handoff_values) simp_all

lemma ex_step_semantics:
  "s \<in> set ex_growth_steps \<Longrightarrow> operation_semantics (feh_target_identity (projr ex_handoff))
     (feh_filesystem_decision (projr ex_handoff)) (pst_operation s) = Inr ()"
proof -
  have g: "growth_geometry_valid 2048 2048 4096 512"
    by (simp add: growth_geometry_valid_def checked_mul_def checked_sub_def checked_add_def)
  have p: "\<not> has_control ''/dev/sda1''" by code_simp
  obtain fs where fs: "tim_filesystem (feh_target_identity (projr ex_handoff)) = Some fs" "fid_device fs = ''/dev/sda1''"
    "fid_fs_type fs = ''ext4''" using ex_identity(2) by auto
  obtain m where m: "tim_mounts (feh_target_identity (projr ex_handoff)) = [m]" "mid_target m = ''/''" "mid_fs_type m = Some ''ext4''"
    using ex_identity(4) by auto
  show "s \<in> set ex_growth_steps \<Longrightarrow> ?thesis"
    by (auto simp: ex_growth_steps_def step_def operation_semantics_def extend_partition_semantics_def
        grow_filesystem_semantics_def ex_identity(1,3) ex_decision fs m g p simp del: has_control.simps)
qed

lemma ex_freezes:
  "\<exists>m. freeze_plan ex_fp (\<lambda>_. Inr ex_hex) ex_frozen_session ex_frozen_approval = Some (Inr m)"
proof -
  have j: "ls_journal ex_frozen_session = ex_approved" "ls_session_id ex_frozen_session = ex_hex"
    "ls_handoff ex_frozen_session = ex_frozen_handoff" by (simp_all add: ex_frozen_session_def)
  have f: "feh_target_identity ex_frozen_handoff = feh_target_identity (projr ex_handoff)"
    "feh_owner_acceptance_required ex_frozen_handoff" by (simp_all add: ex_frozen_handoff_def ex_decision)
  have k: "oj_approval ex_approved = Some ex_approval" "oj_journal_id ex_approved = ex_hex" by (simp_all add: ex_approved_code)
  have a: "approval_agreement ex_frozen_session ex_frozen_approval = Inr ()"
    by (simp add: approval_agreement_def j k binding_agrees_def Let_def ex_frozen_approval_def f ex_decision ex_planned)
      (simp add: ex_approval_def)
  have g: "validate_dependency_graph ex_growth_steps = (Some (Inr ()) :: (intent_error, unit) result option)"
    by (simp add: ex_planned validate_dependency_graph_def plan_graph_def ex_growth_steps_def step_def) code_simp
  obtain frozen barriers where "(freeze_steps (feh_target_identity ex_frozen_handoff)
      (xpa_filesystem_decision ex_frozen_approval) ex_growth_steps :: (intent_error, _) result) = Inr (frozen, barriers)"
    using ex_step_semantics by (simp add: freeze_steps_ok f ex_frozen_approval_def)
  then show ?thesis
    by (simp add: freeze_plan_def a g returned_then_def j ex_planned journal_digest_def ex_fp_def Let_def)
qed

theorem planned_intent_compiles_witness:
  "\<exists>m. freeze_plan ex_fp (\<lambda>_. Inr ex_hex) ex_frozen_session ex_frozen_approval = Some (Inr m)
     \<and> validate_native_manifest (compile_native_manifest m) = Some (Inr ())
     \<and> map ncs_plan_step_id (ncm_steps (compile_native_manifest m)) = [1, 2, 3, 4, 5]"
proof -
  have h: "ls_handoff ex_frozen_session = ex_frozen_handoff" by (simp add: ex_frozen_session_def)
  note c = planned_intent_compiles[of _ _ _ _ _ ex_frozen_session, unfolded h, OF ex_planned(1),
      of ex_fp "\<lambda>_. Inr ex_hex" ex_frozen_approval]
  obtain m where m: "freeze_plan ex_fp (\<lambda>_. Inr ex_hex) ex_frozen_session ex_frozen_approval = Some (Inr m)"
    using ex_freezes by blast
  show ?thesis using c by (simp add: m ex_planned) (simp add: ex_growth_steps_def step_def)
qed

end
