(* ===== verification/Spec2Isabelle.thy ===== *)
theory Spec2Isabelle
  imports RouteGraph IdentityGuard FilesystemPolicy ExecutionGuard JournalValidation
    RuntimeStore DurableStore PhaseMachine CreateJournal MountJournal PersistentJournal SwapJournal CreatePlan ExtendPlanner
    ProvisioningIntent SwapMigration ExecutionHandoff
    TrustedFiles CreateAuthorization ExampleHost WriteAhead StoreProgress CreateRuntime CreateCrossing ExampleCrossing
    ExecutionIntent
begin

text \<open>
  A verification development for Linux Storage Manager, a program that plans changes of disks, partitions, LVM volumes,
  file systems and swap, and executes some of them behind a chain of checks. It follows the Rust
  sources under \<open>src/crates\<close>. This theory only brings the others together; each of them opens with what it holds, and its
  definitions carry the names of the code where the name was free.

  \<^bold>\<open>The program.\<close> A discovery gives a \<open>host_snapshot\<close> and the \<open>host_capabilities\<close> (the model of \<open>crates/core\<close>). The planner
  (\<open>crates/planner\<close>) resolves a target in the snapshot to its route through the layers of storage, and from that makes plans,
  which are values: an extension plan, a create plan, a swap migration. A plan is frozen: with an identity manifest of its target, a
  decision on its file system and a guard plan into a handoff, or into an intent of its own. The executor (\<open>crates/executor\<close>)
  takes the host lock, opens a session on the handoff, revalidates, verifies preconditions, takes an approval and freezes
  the intent that a native manifest is compiled from; or, for a create, goes from consent to permit to preflight to launch
  and runs \<open>sfdisk\<close>, \<open>partx\<close> and \<open>mkfs\<close>. Whatever may change storage is first written to a journal, durably. After a
  crash only the journal tells what may have happened. The properties follow that line: what a plan may propose, what is bound to what,
  and what the disk says at every point at which the power may fail.

  \<^bold>\<open>Foundations.\<close> \<open>Prelude\<close>: results (\<open>Inl\<close> an error, \<open>Inr\<close> a value), checked arithmetic on words, text, path chains.
  \<open>Core\<close>: the normalised storage model as records and datatypes. \<open>NodeGraph\<close>: the tree of block devices. \<open>HostFiles\<close>: the file
  system calls of the stores on an explicit host, with a Hoare logic.

  \<^bold>\<open>Planner.\<close> \<open>RouteGraph\<close> (\<open>route_graph.rs\<close>), \<open>IdentityGuard\<close> (\<open>identity_guard.rs\<close>), \<open>FilesystemPolicy\<close>
  (\<open>filesystem_policy.rs\<close>), \<open>ExecutionGuard\<close> (\<open>execution_guard.rs\<close>: the guard plan and the operation journal with its
  transitions), \<open>PlannerBase\<close>, \<open>FreeSpace\<close>, \<open>CreatePlan\<close>, \<open>GrowthGeometry\<close>, \<open>ExtendTypes\<close>, \<open>ExtendPlan\<close>, \<open>ExtendPlanner\<close>
  (\<open>planner/src/lib.rs\<close>), \<open>ProvisioningIntent\<close> (\<open>create_intent.rs\<close>, \<open>gpt_tail_intent.rs\<close>), \<open>SwapMigration\<close>
  (\<open>swap_migration.rs\<close>), \<open>ExecutionHandoff\<close> (\<open>execution_handoff.rs\<close>). Their lemmas say that proposed sectors are free, that a
  preview has the shape the executor relies on, that revalidation is exact, and that a mutation needs an exact approval.

  \<^bold>\<open>Journals of the create, mount, configuration and swap runtimes.\<close> \<open>PhaseMachine\<close> states once what the four transition tables
  share. \<open>CreateJournal\<close>, \<open>MountJournal\<close>, \<open>PersistentJournal\<close> and \<open>SwapJournal\<close> are the four \<open>production_*_journal.rs\<close>
  files. \<open>RuntimeStore\<close> models their stores, \<open>DurableStore\<close> the contract of a store as a locale, interpreted for each of them, and
  \<open>StoreProgress\<close> shows that a store in order makes progress on a host without faults.

  \<^bold>\<open>Create execution.\<close> \<open>TrustedFiles\<close> (tools, consent files, the start of a program), \<open>CreateAuthorization\<close> (activation, consent,
  permit, preflight, tool lease, launch), \<open>WriteAhead\<close> (the discipline that a record precedes every start, as a locale),
  \<open>CreateRuntime\<close> and \<open>CreateCrossing\<close> (\<open>production_create_runtime_exec.rs\<close>). \<open>ExampleHost\<close> and \<open>ExampleCrossing\<close> hold
  concrete runs.

  \<^bold>\<open>Extend execution.\<close> \<open>JournalValidation\<close> (the validator of \<open>journal_store.rs\<close>), \<open>JournalStore\<close> (the store itself over
  \<open>journal_fd.rs\<close>), \<open>JournalUpdate\<close> (what an update leaves on the disk), \<open>LockedSession\<close> (\<open>locked_session.rs\<close> and the host
  lock of \<open>lib.rs\<close>), \<open>SessionApproval\<close> (\<open>preconditions.rs\<close>, \<open>approval.rs\<close>, \<open>reconciliation.rs\<close>), \<open>DependencyGraph\<close>,
  \<open>IntentSteps\<close> and \<open>ExecutionIntent\<close> (\<open>execution_intent.rs\<close>), \<open>NativeOperation\<close> (\<open>native_operation.rs\<close>). Together: a session
  starts only behind a settled history; its journal advances only with the disk; an approval is for exactly what was
  verified; and the intent of a plan the planner made passes the last validation before an executor.

  \<^bold>\<open>Crash model.\<close> A host has names, inodes and, for each name, the entries the disk may hold after a power loss. Every call
  may fail, as the function \<open>e_fault\<close> of its number says, a failing write after any number of bytes. A world collects the hosts
  passed through, so a property of all of them holds at every crash. A directory entry is certain after the directory is
  synced, and the bytes of a file after the file is. An inotify watch is the look of the directory when it was set.

  \<^bold>\<open>Bounds and fuel.\<close> Integers have the width of the code (\<open>u8\<close>, \<open>u32\<close>, \<open>u64\<close> are words), and checked operations give
  \<open>None\<close> where the code's do. Three walks of the code have no bound of their own. The two over the dependencies of steps
  take fuel: one more than the number of steps, which suffices for every graph (\<open>validate_graph_exact\<close>) and, without cycles, for
  the search behind it (\<open>depends_on_exact\<close>). The hashing loop takes fuel too, and the number of bytes and one more suffices
  (\<open>tool_hash_exact\<close>). The walks over snapshots recurse on the tree or on a visited list. The attempts of a session are bounded
  by 1024 in the code.

  \<^bold>\<open>Parameters.\<close> SHA-256 digests, the serialisation of JSON, the kernel below a program start, the discovery, and whether another
  process holds the lock are arguments of the definitions. Where a property needs one of them to behave, it says so as a hypothesis.

  \<^bold>\<open>Not modelled.\<close> The command line and the terminal interface (they print and call); the discovery crate, the backups
  and the filesystem health checks (they collect what is an argument here); the privileged helper and its messages; the
  executors for disposable loop devices and the harness programs; the production execution of an extension, of a
  GPT-tail create, of a swap replacement, and of mounts and persistent configuration, of which the plans, intents and journals are
  modelled but not the crossings; \<open>inspect\<close> of the journal store, which reports without acting; the socket protocol between the
  store and its writer process, each message of which is one call that may fail; the times of files; the pauses between
  attempts of a rediscovery; the escapes that \<open>{:?}\<close> gives to unprintable text beyond ASCII, which only the texts of
  messages show; the locking of threads.
\<close>

end
